(* ===== verification/Prelude.thy ===== *)
theory Prelude
  imports Main "HOL-Library.Multiset"
begin

text \<open>
  Shared vocabulary of the development.

  Go's \<open>map[string]string\<close> is an association list whose order is the order in which one
  \<open>range\<close> over the map visits the entries; Go leaves that order unspecified, so a statement
  about such a map should not depend on it. A nil slice and an empty slice are both \<open>[]\<close>,
  a nil pointer is \<open>None\<close>. A function that returns \<open>(T, error)\<close> returns \<open>'e + 't\<close>.
\<close>

type_synonym ('k, 'v) gomap = "('k \<times> 'v) list"

section \<open>Collections of facts\<close>

named_theorems reject_simps \<open>when a group of checks reports nothing\<close>
named_theorems default_simps \<open>defining equations of the defaulting functions\<close>
named_theorems step_defs \<open>defining equations of the status patches of a controller\<close>

section \<open>Lists of problems\<close>

text \<open>The idiom \<open>if cond { allErrs = append(allErrs, e) }\<close>.\<close>

definition report :: "bool \<Rightarrow> 'e \<Rightarrow> 'e list" where
  "report c e = (if c then [e] else [])"

lemma report_Nil [simp]: "report c e = [] \<longleftrightarrow> \<not> c"
  by (simp add: report_def)

lemma set_report [simp]: "set (report c e) = (if c then {e} else {})"
  by (simp add: report_def)

lemma report_True [simp]: "report True e = [e]"
  by (simp add: report_def)

lemma report_False [simp]: "report False e = []"
  by (simp add: report_def)

text \<open>The idiom \<open>for i, x := range xs\<close>, whose body appends to the errors.\<close>

fun each_from :: "nat \<Rightarrow> (nat \<Rightarrow> 'a \<Rightarrow> 'e list) \<Rightarrow> 'a list \<Rightarrow> 'e list" where
  "each_from i f [] = []"
| "each_from i f (x # xs) = f i x @ each_from (Suc i) f xs"

abbreviation each :: "(nat \<Rightarrow> 'a \<Rightarrow> 'e list) \<Rightarrow> 'a list \<Rightarrow> 'e list" where
  "each f xs \<equiv> each_from 0 f xs"

text \<open>When the verdict on an element does not depend on its position, only the set matters.\<close>

lemma each_from_Nil_uniform:
  assumes "\<And>i x. f i x = [] \<longleftrightarrow> P x"
  shows "each_from i f xs = [] \<longleftrightarrow> (\<forall>x \<in> set xs. P x)"
  by (induction xs arbitrary: i) (simp_all add: assms)

lemma each_report [simp]:
  "each_from i (\<lambda>i x. report (c x) (e i x)) xs = [] \<longleftrightarrow> (\<forall>x \<in> set xs. \<not> c x)"
  by (rule each_from_Nil_uniform) simp

lemma each_report2 [simp]:
  "each_from i (\<lambda>i x. report (c x) (e i x) @ report (d x) (g i x)) xs = [] \<longleftrightarrow>
     (\<forall>x \<in> set xs. \<not> c x \<and> \<not> d x)"
  by (rule each_from_Nil_uniform) simp

section \<open>Option and sum results\<close>

definition is_ok :: "'e + 'a \<Rightarrow> bool" where
  "is_ok r = (case r of Inl _ \<Rightarrow> False | Inr _ \<Rightarrow> True)"

lemma is_ok_simps [simp]: "is_ok (Inr x)" "\<not> is_ok (Inl e)"
  by (simp_all add: is_ok_def)

lemma is_ok_iff: "is_ok r \<longleftrightarrow> (\<exists>x. r = Inr x)"
  by (cases r) simp_all

text \<open>The idiom \<open>x, err := f(); if err != nil { return err }\<close>.\<close>

definition bind_sum :: "'e + 'a \<Rightarrow> ('a \<Rightarrow> 'e + 'b) \<Rightarrow> 'e + 'b" where
  "bind_sum m f = (case m of Inl e \<Rightarrow> Inl e | Inr x \<Rightarrow> f x)"

lemma bind_sum_simps [simp]: "bind_sum (Inl e) f = Inl e" "bind_sum (Inr x) f = f x"
  by (simp_all add: bind_sum_def)

lemma bind_sum_Inr: "bind_sum m f = Inr y \<longleftrightarrow> (\<exists>x. m = Inr x \<and> f x = Inr y)"
  by (cases m) simp_all

lemma bind_sum_Inl: "bind_sum m f = Inl e \<longleftrightarrow> m = Inl e \<or> (\<exists>x. m = Inr x \<and> f x = Inl e)"
  by (cases m) simp_all

section \<open>Calls in sequence\<close>

text \<open>A call on a state, and what follows it when it did not fail.\<close>

definition and_then ::
  "('e + 'a) \<times> 's \<Rightarrow> ('a \<Rightarrow> 's \<Rightarrow> ('e + 'b) \<times> 's) \<Rightarrow> ('e + 'b) \<times> 's" where
  "and_then m f = (case m of (Inl e, s) \<Rightarrow> (Inl e, s) | (Inr x, s) \<Rightarrow> f x s)"

lemma and_then_simps [simp]: "and_then (Inl e, s) f = (Inl e, s)" "and_then (Inr x, s) f = f x s"
  by (simp_all add: and_then_def)

lemma and_then_Inr: "and_then m f = (Inr y, s') \<longleftrightarrow> (\<exists>x s. m = (Inr x, s) \<and> f x s = (Inr y, s'))"
  by (cases m) (auto simp: and_then_def split: sum.splits)

text \<open>A relation between states that holds over each call holds over the sequence.\<close>

lemma and_then_rel:
  assumes "and_then m f = (r, s')" "\<And>x s. m = (x, s) \<Longrightarrow> R s0 s"
    and "\<And>x s. m = (Inr x, s) \<Longrightarrow> f x s = (r, s') \<Longrightarrow> R s s'" "\<And>a b c. R a b \<Longrightarrow> R b c \<Longrightarrow> R a c"
  shows "R s0 s'"
proof (cases m)
  case (Pair x s)
  show ?thesis
  proof (cases x)
    case (Inl e)
    then show ?thesis using assms(1,2) Pair by simp
  next
    case (Inr y)
    then show ?thesis using assms Pair by (metis and_then_simps(2))
  qed
qed

end
