(* ===== verification/Go_Strings.thy ===== *)
theory Go_Strings
  imports Prelude
begin

text \<open>
  The parts of Go's \<open>strings\<close> and \<open>fmt\<close> packages the program uses, over byte strings:
  a Go string is its UTF-8 bytes, a HOL \<open>char\<close> is one byte.

  \<open>TrimSpace\<close> removes Unicode white space at both ends; its runes are listed here by their
  UTF-8 encodings. \<open>EqualFold\<close> is modelled for comparison with an ASCII constant, which is
  the only way the program calls it. \<open>quote\<close> is the verb \<open>%q\<close>: exact on ASCII, with
  the bytes of other runes passed through as they are, which is what \<open>strconv.Quote\<close> does for
  printable runes.
\<close>

section \<open>Trimming\<close>

definition space_runes :: "string list" where
  "space_runes =
     [[CHR 0x20], [CHR 0x09], [CHR 0x0A], [CHR 0x0B], [CHR 0x0C], [CHR 0x0D],
      [CHR 0xC2, CHR 0x85], [CHR 0xC2, CHR 0xA0], [CHR 0xE1, CHR 0x9A, CHR 0x80],
      [CHR 0xE2, CHR 0x80, CHR 0x80], [CHR 0xE2, CHR 0x80, CHR 0x81],
      [CHR 0xE2, CHR 0x80, CHR 0x82], [CHR 0xE2, CHR 0x80, CHR 0x83],
      [CHR 0xE2, CHR 0x80, CHR 0x84], [CHR 0xE2, CHR 0x80, CHR 0x85],
      [CHR 0xE2, CHR 0x80, CHR 0x86], [CHR 0xE2, CHR 0x80, CHR 0x87],
      [CHR 0xE2, CHR 0x80, CHR 0x88], [CHR 0xE2, CHR 0x80, CHR 0x89],
      [CHR 0xE2, CHR 0x80, CHR 0x8A], [CHR 0xE2, CHR 0x80, CHR 0xA8],
      [CHR 0xE2, CHR 0x80, CHR 0xA9], [CHR 0xE2, CHR 0x80, CHR 0xAF],
      [CHR 0xE2, CHR 0x81, CHR 0x9F], [CHR 0xE3, CHR 0x80, CHR 0x80]]"

definition strip1 :: "string list \<Rightarrow> string \<Rightarrow> string option" where
  "strip1 R s =
     (case find (\<lambda>r. r \<noteq> [] \<and> take (length r) s = r) R of
        None \<Rightarrow> None
      | Some r \<Rightarrow> Some (drop (length r) s))"

lemma strip1_SomeD:
  "strip1 R s = Some t \<Longrightarrow> \<exists>r \<in> set R. r \<noteq> [] \<and> s = r @ t"
  unfolding strip1_def find_Some_iff
  by (auto simp: find_Some_iff split: option.splits) (metis append_take_drop_id nth_mem)

lemma strip1_None_iff: "strip1 R s = None \<longleftrightarrow> (\<forall>r \<in> set R. r \<noteq> [] \<longrightarrow> take (length r) s \<noteq> r)"
  by (auto simp: strip1_def find_None_iff find_Some_iff split: option.splits)

function strip :: "string list \<Rightarrow> string \<Rightarrow> string" where
  "strip R s = (case strip1 R s of None \<Rightarrow> s | Some t \<Rightarrow> strip R t)"
  by pat_completeness auto
termination
  by (relation "measure (\<lambda>(R, s). length s)") (auto dest!: strip1_SomeD)

declare strip.simps [simp del]

lemma strip_done [simp]: "strip1 R s = None \<Longrightarrow> strip R s = s"
  by (simp add: strip.simps)

lemma strip1_strip: "strip1 R (strip R s) = None"
proof (induction R s rule: strip.induct)
  case (1 R s)
  then show ?case by (cases "strip1 R s") (simp_all add: strip.simps [of R s])
qed

lemma strip_suffix: "\<exists>p. s = p @ strip R s"
proof (induction R s rule: strip.induct)
  case (1 R s)
  show ?case
  proof (cases "strip1 R s")
    case None
    then show ?thesis by simp
  next
    case (Some t)
    with "1" obtain p where "t = p @ strip R t" by blast
    moreover obtain r where "s = r @ t" using strip1_SomeD [OF Some] by blast
    moreover have "strip R s = strip R t" using Some by (simp add: strip.simps [of R s])
    ultimately have "s = (r @ p) @ strip R s" by simp
    then show ?thesis ..
  qed
qed

lemma strip_idem [simp]: "strip R (strip R s) = strip R s"
  by (simp add: strip1_strip)

text \<open>Cutting the end of a string does not make a rune appear at its front.\<close>

lemma strip1_append_None: "strip1 R (p @ q) = None \<Longrightarrow> strip1 R p = None"
proof (unfold strip1_None_iff, intro ballI impI notI)
  fix r
  assume none: "\<forall>r\<in>set R. r \<noteq> [] \<longrightarrow> take (length r) (p @ q) \<noteq> r"
    and r: "r \<in> set R" "r \<noteq> []" and eq: "take (length r) p = r"
  from eq have "length r \<le> length p" by (metis length_take min.cobounded1)
  then have "take (length r) (p @ q) = r" using eq by simp
  with none r show False by blast
qed

definition trimLeft :: "string \<Rightarrow> string" where
  "trimLeft s = strip space_runes s"

definition trimRight :: "string \<Rightarrow> string" where
  "trimRight s = rev (strip (map rev space_runes) (rev s))"

definition trimSpace :: "string \<Rightarrow> string" where
  "trimSpace s = trimRight (trimLeft s)"

lemma trimRight_prefix: "\<exists>q. s = trimRight s @ q"
proof -
  obtain p where "rev s = p @ strip (map rev space_runes) (rev s)"
    using strip_suffix by blast
  then have "s = trimRight s @ rev p" unfolding trimRight_def by (metis rev_append rev_rev_ident)
  then show ?thesis ..
qed

lemma trimLeft_trimRight: "strip1 space_runes s = None \<Longrightarrow> trimLeft (trimRight s) = trimRight s"
  using trimRight_prefix [of s] strip1_append_None unfolding trimLeft_def by (metis strip_done)

lemma trimSpace_idem [simp]: "trimSpace (trimSpace s) = trimSpace s"
proof -
  have "trimLeft (trimSpace s) = trimSpace s"
    unfolding trimSpace_def by (rule trimLeft_trimRight) (simp add: trimLeft_def strip1_strip)
  then show ?thesis by (simp add: trimSpace_def [of "trimSpace s"]) (simp add: trimSpace_def trimRight_def)
qed

lemma trimSpace_Nil [simp]: "trimSpace [] = []"
  by code_simp

text \<open>\<open>blank s\<close> is the test \<open>strings.TrimSpace(s) == ""\<close> of the validation code.\<close>

definition blank :: "string \<Rightarrow> bool" where
  "blank s \<longleftrightarrow> trimSpace s = ''''"

lemma blank_Nil [simp]: "blank []"
  by (simp add: blank_def)

lemma not_blank_trimSpace [simp]: "blank (trimSpace s) \<longleftrightarrow> blank s"
  by (simp add: blank_def)

text \<open>A byte that occurs in no white-space rune survives trimming.\<close>

lemma strip_keeps: "\<forall>r \<in> set R. c \<notin> set r \<Longrightarrow> c \<in> set s \<Longrightarrow> c \<in> set (strip R s)"
proof (induction R s rule: strip.induct)
  case (1 R s)
  show ?case
  proof (cases "strip1 R s")
    case None
    then show ?thesis using "1.prems" by simp
  next
    case (Some t)
    then have "c \<in> set t" using strip1_SomeD [OF Some] "1.prems" by auto
    then show ?thesis using "1.IH" [OF Some] "1.prems"(1) Some by (simp add: strip.simps [of R s])
  qed
qed

lemma trimSpace_keeps:
  assumes "\<forall>r \<in> set space_runes. c \<notin> set r" and "c \<in> set s"
  shows "c \<in> set (trimSpace s)"
proof -
  have "c \<in> set (trimLeft s)" using strip_keeps [OF assms] by (simp add: trimLeft_def)
  then have "c \<in> set (strip (map rev space_runes) (rev (trimLeft s)))"
    using assms(1) by (intro strip_keeps) auto
  then show ?thesis by (simp add: trimSpace_def trimRight_def)
qed

lemma dash_not_blank: "CHR ''-'' \<in> set s \<Longrightarrow> \<not> blank s"
  using trimSpace_keeps [of "CHR ''-''" s] by (auto simp: blank_def space_runes_def)

text \<open>\<open>strings.Trim\<close>, \<open>TrimRight\<close> with an ASCII cutset.\<close>

definition trimRightSet :: "string \<Rightarrow> string \<Rightarrow> string" where
  "trimRightSet cs s = rev (dropWhile (\<lambda>c. c \<in> set cs) (rev s))"

definition trimSet :: "string \<Rightarrow> string \<Rightarrow> string" where
  "trimSet cs s = trimRightSet cs (dropWhile (\<lambda>c. c \<in> set cs) s)"

section \<open>Case folding, prefixes, splitting\<close>

definition ascii_lower :: "char \<Rightarrow> char" where
  "ascii_lower c =
     (let n = of_char c :: nat in if 65 \<le> n \<and> n \<le> 90 then char_of (n + 32) else c)"

text \<open>
  The case-folding key of a string as far as ASCII is concerned: apart from the ASCII letters
  themselves only U+212A (Kelvin sign) and U+017F (long s) fold to ASCII letters.
\<close>

fun fold_key :: "string \<Rightarrow> string" where
  "fold_key [] = []"
| "fold_key (c # d # e # s) =
     (if [c, d, e] = [CHR 0xE2, CHR 0x84, CHR 0xAA] then CHR ''k'' # fold_key s
      else if [c, d] = [CHR 0xC5, CHR 0xBF] then CHR ''s'' # fold_key (e # s)
      else ascii_lower c # fold_key (d # e # s))"
| "fold_key [c, d] =
     (if [c, d] = [CHR 0xC5, CHR 0xBF] then [CHR ''s''] else [ascii_lower c, ascii_lower d])"
| "fold_key [c] = [ascii_lower c]"

definition equalFold :: "string \<Rightarrow> string \<Rightarrow> bool" where
  "equalFold s t \<longleftrightarrow> fold_key s = fold_key t"

definition hasPrefix :: "string \<Rightarrow> string \<Rightarrow> bool" where
  "hasPrefix s p \<longleftrightarrow> take (length p) s = p"

definition hasSuffix :: "string \<Rightarrow> string \<Rightarrow> bool" where
  "hasSuffix s p \<longleftrightarrow> hasPrefix (rev s) (rev p)"

text \<open>\<open>strings.Split(s, ".")\<close> with a one-byte separator: never empty.\<close>

fun split_on :: "char \<Rightarrow> string \<Rightarrow> string list" where
  "split_on d [] = [[]]"
| "split_on d (c # s) =
     (if c = d then [] # split_on d s
      else (case split_on d s of [] \<Rightarrow> [[c]] | w # ws \<Rightarrow> (c # w) # ws))"

lemma split_on_nonempty [simp]: "split_on d s \<noteq> []"
  by (induction s) (auto split: list.splits)

lemma split_on_no_sep: "d \<notin> set w \<Longrightarrow> split_on d w = [w]"
  by (induction w) auto

lemma split_on_append: "d \<notin> set w \<Longrightarrow> split_on d (w @ d # s) = w # split_on d s"
  by (induction w) auto

section \<open>Formatting\<close>

definition digit_char :: "nat \<Rightarrow> char" where
  "digit_char n = char_of (48 + n)"

lemma digit_char_eval:
  "digit_char 0 = CHR ''0''" "digit_char 1 = CHR ''1''" "digit_char 2 = CHR ''2''" "digit_char 3 = CHR ''3''"
  "digit_char 4 = CHR ''4''" "digit_char 5 = CHR ''5''" "digit_char 6 = CHR ''6''" "digit_char 7 = CHR ''7''"
  "digit_char 8 = CHR ''8''" "digit_char 9 = CHR ''9''"
  by code_simp+

fun show_nat :: "nat \<Rightarrow> string" where
  "show_nat n = (if n < 10 then [digit_char n] else show_nat (n div 10) @ [digit_char (n mod 10)])"

declare show_nat.simps [simp del]

lemmas show_eval = show_nat.simps digit_char_eval [simplified]

definition show_int :: "int \<Rightarrow> string" where
  "show_int i = (if i < 0 then CHR ''-'' # show_nat (nat (- i)) else show_nat (nat i))"

definition hex_digit :: "nat \<Rightarrow> char" where
  "hex_digit n = (if n < 10 then char_of (48 + n) else char_of (87 + n))"

definition quote_char :: "char \<Rightarrow> string" where
  "quote_char c =
     (if c = CHR 0x22 then [CHR 0x5C, CHR 0x22]
      else if c = CHR 0x5C then [CHR 0x5C, CHR 0x5C]
      else if c = CHR 0x07 then [CHR 0x5C, CHR ''a'']
      else if c = CHR 0x08 then [CHR 0x5C, CHR ''b'']
      else if c = CHR 0x0C then [CHR 0x5C, CHR ''f'']
      else if c = CHR 0x0A then [CHR 0x5C, CHR ''n'']
      else if c = CHR 0x0D then [CHR 0x5C, CHR ''r'']
      else if c = CHR 0x09 then [CHR 0x5C, CHR ''t'']
      else if c = CHR 0x0B then [CHR 0x5C, CHR ''v'']
      else (let n = of_char c :: nat in
        if n < 32 \<or> n = 127
        then [CHR 0x5C, CHR ''x'', hex_digit (n div 16), hex_digit (n mod 16)]
        else [c]))"

definition quote :: "string \<Rightarrow> string" where
  "quote s = [CHR 0x22] @ concat (map quote_char s) @ [CHR 0x22]"

text \<open>\<open>strings.Join\<close>.\<close>

fun join :: "string \<Rightarrow> string list \<Rightarrow> string" where
  "join sep [] = ''''"
| "join sep [x] = x"
| "join sep (x # y # xs) = x @ sep @ join sep (y # xs)"

end
