(* ===== verification/Api_Types.thy ===== *)
theory Api_Types
  imports Go_Strings
begin

text \<open>
  The custom resources of \<open>api/v1alpha1\<close> as records, field for field.

  A Go string type with an enum marker (\<open>ExposureMode\<close>, \<open>ApprovalMode\<close>, ...) stays a
  string: the type admits every string and the webhooks are what restricts it. The schemaless
  \<open>*apiextensionsv1.JSON\<close> is its raw bytes, \<open>None\<close> for a nil pointer. \<open>int32\<close> and
  \<open>int64\<close> fields are only compared and counted, and are \<open>int\<close>. \<open>metav1.Time\<close> is a
  clock reading. Of \<open>metav1.ObjectMeta\<close> the fields the program reads are kept.
\<close>

type_synonym time = nat
type_synonym raw_json = string

section \<open>Machinery metadata\<close>

record object_meta =
  m_name :: string
  m_namespace :: string
  m_uid :: string
  m_generation :: int
  m_labels :: "(string, string) gomap"
  m_annotations :: "(string, string) gomap"
  m_deletionTimestamp :: "time option"
  m_finalizers :: "string list"

record condition =
  c_type :: string
  c_status :: string
  c_observedGeneration :: int
  c_lastTransitionTime :: time
  c_reason :: string
  c_message :: string

abbreviation ConditionTrue :: string where "ConditionTrue \<equiv> ''True''"
abbreviation ConditionFalse :: string where "ConditionFalse \<equiv> ''False''"

section \<open>Common types\<close>

record local_ref =
  lr_name :: string

record namespaced_ref =
  nr_name :: string
  nr_namespace :: string

record typed_ref =
  tr_apiVersion :: string
  tr_kind :: string
  tr_name :: string
  tr_namespace :: string

record policy_ref =
  pr_name :: string

record contact_spec =
  ct_type :: string
  ct_value :: string

record owners_spec =
  ow_users :: "string list"
  ow_groups :: "string list"

abbreviation TenantLifecyclePhaseActive :: string where "TenantLifecyclePhaseActive \<equiv> ''active''"
abbreviation TenantLifecyclePhaseSuspended :: string where "TenantLifecyclePhaseSuspended \<equiv> ''suspended''"
abbreviation TenantLifecyclePhaseDeleting :: string where "TenantLifecyclePhaseDeleting \<equiv> ''deleting''"

record tenant_lifecycle_spec =
  tl_phase :: string

abbreviation EnvironmentProduction :: string where "EnvironmentProduction \<equiv> ''production''"

abbreviation NamespaceStrategyDedicated :: string where "NamespaceStrategyDedicated \<equiv> ''dedicated''"
abbreviation NamespaceStrategyShared :: string where "NamespaceStrategyShared \<equiv> ''shared''"
abbreviation NamespaceStrategyBringYourOwn :: string where "NamespaceStrategyBringYourOwn \<equiv> ''bring-your-own''"

record namespace_strategy_spec =
  ns_mode :: string
  ns_prefix :: string

record target_selector_spec =
  ts_clusterRef :: "local_ref option"
  ts_matchLabels :: "(string, string) gomap"

record project_quotas_spec =
  pq_maxServices :: "int option"
  pq_maxNamespaces :: "int option"

abbreviation ExposureModeClusterInternal :: string where "ExposureModeClusterInternal \<equiv> ''cluster-internal''"
abbreviation ExposureModePrivateIngress :: string where "ExposureModePrivateIngress \<equiv> ''private-ingress''"
abbreviation ExposureModePublicIngress :: string where "ExposureModePublicIngress \<equiv> ''public-ingress''"

record exposure_spec =
  ex_mode :: string

abbreviation SecretDeliveryModeExternalSecret :: string where "SecretDeliveryModeExternalSecret \<equiv> ''external-secret''"
abbreviation SecretDeliveryModeDirectSecretRef :: string where "SecretDeliveryModeDirectSecretRef \<equiv> ''direct-secret-ref''"
abbreviation SecretDeliveryModeManual :: string where "SecretDeliveryModeManual \<equiv> ''manual''"

abbreviation ExternalSecretProviderKubernetes :: string where "ExternalSecretProviderKubernetes \<equiv> ''kubernetes''"
abbreviation ExternalSecretProviderVault :: string where "ExternalSecretProviderVault \<equiv> ''vault''"

record vault_spec =
  va_server :: string
  va_path :: string
  va_version :: string
  va_authSecretRef :: namespaced_ref

record secret_policy_spec =
  sp_deliveryMode :: string
  sp_externalSecretProvider :: string
  sp_vault :: "vault_spec option"

abbreviation DeletionPolicyDelete :: string where "DeletionPolicyDelete \<equiv> ''delete''"
abbreviation DeletionPolicyOrphan :: string where "DeletionPolicyOrphan \<equiv> ''orphan''"
abbreviation DeletionPolicySnapshot :: string where "DeletionPolicySnapshot \<equiv> ''snapshot''"

record maintenance_policy_spec =
  mp_windowRef :: "local_ref option"

record placement_status =
  pl_clusterName :: string
  pl_namespace :: string

record materialized_artifact_status =
  ma_path :: string
  ma_digest :: string

record artifact_status =
  as_revision :: string
  as_path :: string
  as_count :: int
  as_artifacts :: "materialized_artifact_status list"

record delivery_sync_status =
  ds_phase :: string
  ds_applicationName :: string
  ds_message :: string

record runtime_status =
  rt_driver :: string
  rt_objectRef :: "typed_ref option"

record health_status =
  hs_summary :: string

record cache_standby_status =
  cs_clusterName :: string
  cs_ready :: bool
  cs_resyncRequired :: bool
  cs_lagObserved :: bool
  cs_replicationLagSeconds :: int
  cs_message :: string

record cache_topology_status =
  ctop_mode :: string
  ctop_primaryCluster :: string
  ctop_standbyClusters :: "cache_standby_status list"
  ctop_trafficEndpoint :: string
  ctop_trafficPolicyRef :: "typed_ref option"
  ctop_failoverReadiness :: string
  ctop_message :: string

abbreviation ApprovalModeAuto :: string where "ApprovalModeAuto \<equiv> ''auto''"
abbreviation ApprovalModeRequired :: string where "ApprovalModeRequired \<equiv> ''required''"
abbreviation ApprovalModeApproved :: string where "ApprovalModeApproved \<equiv> ''approved''"
abbreviation ApprovalModeRejected :: string where "ApprovalModeRejected \<equiv> ''rejected''"

abbreviation RequestSourceUI :: string where "RequestSourceUI \<equiv> ''ui''"
abbreviation RequestSourceAPI :: string where "RequestSourceAPI \<equiv> ''api''"
abbreviation RequestSourceAutomation :: string where "RequestSourceAutomation \<equiv> ''automation''"

record approval_spec =
  ap_mode :: string
  ap_approvedBy :: "string list"

record requested_by_spec =
  rb_subject :: string
  rb_source :: string

record usage_summary =
  us_projects :: int
  us_serviceInstances :: int
  us_namespaces :: int
  us_services :: int

record action_result_status =
  res_code :: string
  res_message :: string
  res_retryable :: bool

section \<open>Actions\<close>

record action_request_spec =
  ars_targetRef :: typed_ref
  ars_action :: string
  ars_idempotencyKey :: string
  ars_parameters :: "raw_json option"
  ars_approval :: approval_spec
  ars_requestedBy :: requested_by_spec

record action_request_status =
  art_observedGeneration :: int
  art_phase :: string
  art_conditions :: "condition list"
  art_startedAt :: "time option"
  art_completedAt :: "time option"
  art_operationRef :: "typed_ref option"
  art_operationID :: string
  art_operationState :: string
  art_result :: action_result_status

record action_request =
  ar_meta :: object_meta
  ar_spec :: action_request_spec
  ar_status :: action_request_status

section \<open>Clusters and packages\<close>

record cluster_target_spec =
  cts_displayName :: string
  cts_connectionRef :: namespaced_ref
  cts_region :: string
  cts_capabilities :: "(string, string) gomap"
  cts_defaultPolicyRefs :: "policy_ref list"
  cts_ingressDomain :: string
  cts_requiredPackages :: "string list"

record package_status =
  ps_name :: string
  ps_phase :: string
  ps_message :: string
  ps_argoAppName :: string
  ps_lastProbeTime :: "time option"

record cluster_target_status =
  ctt_observedGeneration :: int
  ctt_phase :: string
  ctt_conditions :: "condition list"
  ctt_reachable :: bool
  ctt_operatorInventory :: "string list"
  ctt_packages :: "package_status list"
  ctt_kubernetesVersion :: string
  ctt_lastValidatedAt :: "time option"

record cluster_target =
  ctg_meta :: object_meta
  ctg_spec :: cluster_target_spec
  ctg_status :: cluster_target_status

record operator_package_source =
  ops_manifestURL :: string
  ops_chartArchiveURL :: string
  ops_chartPath :: string
  ops_helmValues :: "(string, string) gomap"
  ops_repoURL :: string
  ops_path :: string
  ops_targetRevision :: string

record operator_probe =
  opr_crd :: string

record operator_package_spec =
  op_displayName :: string
  op_description :: string
  op_version :: string
  op_targetNamespace :: string
  op_probes :: "operator_probe list"
  op_source :: operator_package_source

record operator_package_status =
  opt_observedGeneration :: int
  opt_conditions :: "condition list"

record operator_package =
  opk_meta :: object_meta
  opk_spec :: operator_package_spec
  opk_status :: operator_package_status

section \<open>Policies\<close>

abbreviation PolicyTargetServiceInstance :: string where "PolicyTargetServiceInstance \<equiv> ''ServiceInstance''"

abbreviation PolicyOperatorEquals :: string where "PolicyOperatorEquals \<equiv> ''equals''"
abbreviation PolicyOperatorNotEquals :: string where "PolicyOperatorNotEquals \<equiv> ''not-equals''"
abbreviation PolicyOperatorIn :: string where "PolicyOperatorIn \<equiv> ''in''"
abbreviation PolicyOperatorNotIn :: string where "PolicyOperatorNotIn \<equiv> ''not-in''"
abbreviation PolicyOperatorExists :: string where "PolicyOperatorExists \<equiv> ''exists''"
abbreviation PolicyOperatorNotExists :: string where "PolicyOperatorNotExists \<equiv> ''not-exists''"
abbreviation PolicyOperatorGT :: string where "PolicyOperatorGT \<equiv> ''gt''"
abbreviation PolicyOperatorGTE :: string where "PolicyOperatorGTE \<equiv> ''gte''"
abbreviation PolicyOperatorLT :: string where "PolicyOperatorLT \<equiv> ''lt''"
abbreviation PolicyOperatorLTE :: string where "PolicyOperatorLTE \<equiv> ''lte''"
abbreviation PolicyOperatorEmpty :: string where "PolicyOperatorEmpty \<equiv> ''empty''"
abbreviation PolicyOperatorNotEmpty :: string where "PolicyOperatorNotEmpty \<equiv> ''not-empty''"

record policy_rule =
  rule_name :: string
  rule_path :: string
  rule_operator :: string
  rule_value :: string
  rule_values :: "string list"
  rule_message :: string

record policy_spec =
  pol_displayName :: string
  pol_description :: string
  pol_targetKinds :: "string list"
  pol_rules :: "policy_rule list"

record policy_status =
  pst_observedGeneration :: int
  pst_phase :: string
  pst_conditions :: "condition list"
  pst_ruleCount :: int
  pst_targetKinds :: "string list"

record policy =
  po_meta :: object_meta
  po_spec :: policy_spec
  po_status :: policy_status

section \<open>Tenancy\<close>

record tenant_spec =
  tns_displayName :: string
  tns_owners :: owners_spec
  tns_quotaProfileRef :: local_ref
  tns_allowedServiceClasses :: "string list"
  tns_policyRefs :: "policy_ref list"
  tns_contacts :: "contact_spec list"
  tns_lifecycle :: tenant_lifecycle_spec

record tenant_status =
  tnt_observedGeneration :: int
  tnt_phase :: string
  tnt_conditions :: "condition list"
  tnt_usageSummary :: usage_summary
  tnt_effectivePolicies :: "string list"

record tenant =
  tn_meta :: object_meta
  tn_spec :: tenant_spec
  tn_status :: tenant_status

record project_spec =
  prs_tenantRef :: local_ref
  prs_displayName :: string
  prs_environment :: string
  prs_targetSelector :: target_selector_spec
  prs_namespaceStrategy :: namespace_strategy_spec
  prs_quotas :: project_quotas_spec
  prs_labels :: "(string, string) gomap"
  prs_policyRefs :: "policy_ref list"

record project_status =
  prt_observedGeneration :: int
  prt_phase :: string
  prt_conditions :: "condition list"
  prt_placement :: placement_status
  prt_usageSummary :: usage_summary
  prt_effectiveQuota :: project_quotas_spec

record project =
  pj_meta :: object_meta
  pj_spec :: project_spec
  pj_status :: project_status

section \<open>Identity and access\<close>

abbreviation AuthProviderTypeLocal :: string where "AuthProviderTypeLocal \<equiv> ''local''"
abbreviation AuthProviderTypeOIDC :: string where "AuthProviderTypeOIDC \<equiv> ''oidc''"
abbreviation AuthProviderTypeLDAP :: string where "AuthProviderTypeLDAP \<equiv> ''ldap''"

record oidc_spec =
  oi_issuerURL :: string
  oi_clientID :: string
  oi_clientSecretRef :: namespaced_ref
  oi_usernameClaim :: string
  oi_emailClaim :: string
  oi_rolesClaim :: string
  oi_groupsClaim :: string
  oi_scopes :: "string list"
  oi_redirectPath :: string
  oi_endSessionURL :: string

record ldap_spec =
  ld_url :: string
  ld_bindSecretRef :: namespaced_ref
  ld_userBaseDN :: string
  ld_userFilter :: string
  ld_usernameAttribute :: string
  ld_emailAttribute :: string
  ld_groupBaseDN :: string
  ld_groupFilter :: string
  ld_groupNameAttribute :: string
  ld_startTLS :: bool
  ld_insecureSkipVerify :: bool

record auth_provider_spec =
  aps_displayName :: string
  aps_type :: string
  aps_enabled :: bool
  aps_default :: bool
  aps_oidc :: "oidc_spec option"
  aps_ldap :: "ldap_spec option"

record auth_provider_status =
  apt_observedGeneration :: int
  apt_phase :: string
  apt_conditions :: "condition list"

record auth_provider =
  apv_meta :: object_meta
  apv_spec :: auth_provider_spec
  apv_status :: auth_provider_status

record external_identity_spec =
  ei_providerRef :: local_ref
  ei_subject :: string

record local_auth_spec =
  la_enabled :: bool
  la_passwordHashSecretRef :: namespaced_ref

record user_spec =
  usr_displayName :: string
  usr_email :: string
  usr_localAuth :: "local_auth_spec option"
  usr_externalIdentities :: "external_identity_spec list"

record user_status =
  ust_observedGeneration :: int
  ust_conditions :: "condition list"

record user =
  u_meta :: object_meta
  u_spec :: user_spec
  u_status :: user_status

record group_member_spec =
  gm_userRef :: local_ref

record external_group_spec =
  eg_providerRef :: local_ref
  eg_name :: string

record group_spec =
  gr_displayName :: string
  gr_members :: "group_member_spec list"
  gr_externalGroups :: "external_group_spec list"

record group_status =
  grt_observedGeneration :: int
  grt_conditions :: "condition list"

record group =
  g_meta :: object_meta
  g_spec :: group_spec
  g_status :: group_status

abbreviation AccessScopePlatform :: string where "AccessScopePlatform \<equiv> ''platform''"
abbreviation AccessScopeTenant :: string where "AccessScopeTenant \<equiv> ''tenant''"

abbreviation RolePlatformAdmin :: string where "RolePlatformAdmin \<equiv> ''platform-admin''"
abbreviation RoleTenantAdmin :: string where "RoleTenantAdmin \<equiv> ''tenant-admin''"
abbreviation RoleTenantOperator :: string where "RoleTenantOperator \<equiv> ''tenant-operator''"
abbreviation RoleServiceConsumer :: string where "RoleServiceConsumer \<equiv> ''service-consumer''"
abbreviation RoleAuditor :: string where "RoleAuditor \<equiv> ''auditor''"
abbreviation RoleCatalogAdmin :: string where "RoleCatalogAdmin \<equiv> ''catalog-admin''"
abbreviation RoleClusterAdmin :: string where "RoleClusterAdmin \<equiv> ''cluster-admin''"

record subject_reference =
  sr_kind :: string
  sr_name :: string

record role_binding_spec =
  rbs_displayName :: string
  rbs_scope :: string
  rbs_tenantRef :: "local_ref option"
  rbs_subjects :: "subject_reference list"
  rbs_roles :: "string list"

record role_binding_status =
  rbt_observedGeneration :: int
  rbt_conditions :: "condition list"

record role_binding =
  rbd_meta :: object_meta
  rbd_spec :: role_binding_spec
  rbd_status :: role_binding_status

section \<open>Catalog\<close>

record service_class_spec =
  scs_displayName :: string
  scs_category :: string
  scs_driver :: string
  scs_supportedVersions :: "string list"
  scs_capabilityFlags :: "string list"
  scs_requiredPackages :: "string list"
  scs_allowsVersionOverride :: bool
  scs_defaultParameters :: "raw_json option"
  scs_published :: bool

record service_class_status =
  sct_observedGeneration :: int
  sct_phase :: string
  sct_conditions :: "condition list"
  sct_published :: bool

record service_class =
  sc_meta :: object_meta
  sc_spec :: service_class_spec
  sc_status :: service_class_status

record service_plan_spec =
  sps_serviceClassRef :: local_ref
  sps_displayName :: string
  sps_tier :: string
  sps_topology :: string
  sps_defaultVersion :: string
  sps_allowsVersionOverride :: bool
  sps_defaultParameters :: "raw_json option"
  sps_constraints :: "raw_json option"
  sps_policyRefs :: "policy_ref list"

record service_plan_status =
  spt_observedGeneration :: int
  spt_phase :: string
  spt_conditions :: "condition list"
  spt_published :: bool

record service_plan =
  spl_meta :: object_meta
  spl_spec :: service_plan_spec
  spl_status :: service_plan_status

section \<open>Workloads\<close>

record service_instance_spec =
  sis_projectRef :: local_ref
  sis_serviceClassRef :: local_ref
  sis_servicePlanRef :: local_ref
  sis_version :: string
  sis_parameters :: "raw_json option"
  sis_exposure :: exposure_spec
  sis_maintenancePolicy :: maintenance_policy_spec
  sis_secretPolicy :: secret_policy_spec
  sis_deletionPolicy :: string

record service_instance_status =
  sit_observedGeneration :: int
  sit_phase :: string
  sit_conditions :: "condition list"
  sit_placement :: placement_status
  sit_runtime :: runtime_status
  sit_endpoints :: "(string, string) gomap"
  sit_credentialRefs :: "namespaced_ref list"
  sit_artifact :: artifact_status
  sit_sync :: delivery_sync_status
  sit_health :: health_status
  sit_cacheTopology :: cache_topology_status

record service_instance =
  si_meta :: object_meta
  si_spec :: service_instance_spec
  si_status :: service_instance_status

record namespace_claim_spec =
  ncs_projectRef :: local_ref
  ncs_displayName :: string
  ncs_quotas :: "(string, string) gomap"
  ncs_labels :: "(string, string) gomap"
  ncs_deletionPolicy :: string

record namespace_claim_status =
  nct_observedGeneration :: int
  nct_phase :: string
  nct_conditions :: "condition list"
  nct_placement :: placement_status
  nct_artifact :: artifact_status
  nct_sync :: delivery_sync_status
  nct_health :: health_status

record namespace_claim =
  nc_meta :: object_meta
  nc_spec :: namespace_claim_spec
  nc_status :: namespace_claim_status

record service_binding_spec =
  sbs_projectRef :: local_ref
  sbs_sourceRef :: typed_ref
  sbs_targetRef :: typed_ref
  sbs_secretPolicy :: secret_policy_spec

record service_binding_status =
  sbt_observedGeneration :: int
  sbt_phase :: string
  sbt_conditions :: "condition list"
  sbt_credentialRefs :: "namespaced_ref list"
  sbt_health :: health_status

record service_binding =
  sb_meta :: object_meta
  sb_spec :: service_binding_spec
  sb_status :: service_binding_status

record virtual_machine_claim_spec =
  vms_projectRef :: local_ref
  vms_class :: string
  vms_image :: string
  vms_powerState :: string
  vms_parameters :: "raw_json option"
  vms_exposure :: exposure_spec
  vms_secretPolicy :: secret_policy_spec
  vms_deletionPolicy :: string

record virtual_machine_claim_status =
  vmt_observedGeneration :: int
  vmt_phase :: string
  vmt_conditions :: "condition list"
  vmt_placement :: placement_status
  vmt_runtime :: runtime_status
  vmt_endpoints :: "(string, string) gomap"
  vmt_credentialRefs :: "namespaced_ref list"
  vmt_artifact :: artifact_status
  vmt_sync :: delivery_sync_status
  vmt_health :: health_status

record virtual_machine_claim =
  vm_meta :: object_meta
  vm_spec :: virtual_machine_claim_spec
  vm_status :: virtual_machine_claim_status

section \<open>Helpers\<close>

text \<open>\<open>ClusterTargetSpec.Mesh\<close>: the advertised pod network, \<open>none\<close> by default.\<close>

abbreviation ClusterMeshNone :: string where "ClusterMeshNone \<equiv> ''none''"

definition Mesh :: "cluster_target_spec \<Rightarrow> string" where
  "Mesh s =
     (case map_of (cts_capabilities s) ''mesh'' of
        Some v \<Rightarrow> if v \<noteq> '''' then v else ClusterMeshNone
      | None \<Rightarrow> ClusterMeshNone)"

text \<open>Any object the webhook server can hand to a handler (\<open>runtime.Object\<close>).\<close>

datatype api_object =
    OActionRequest action_request
  | OClusterTarget cluster_target
  | OOperatorPackage operator_package
  | OPolicy policy
  | OProject project
  | OAuthProvider auth_provider
  | OUser user
  | OGroup group
  | ORoleBinding role_binding
  | OServiceInstance service_instance
  | OServiceClass service_class
  | OServicePlan service_plan
  | OTenant tenant
  | ONamespaceClaim namespace_claim
  | OServiceBinding service_binding
  | OVirtualMachineClaim virtual_machine_claim

end
