(* ===== verification/Field_Errors.thy ===== *)
theory Field_Errors
  imports Api_Types
begin

text \<open>
  Errors as values. The error lists of \<open>k8s.io/apimachinery/pkg/util/validation/field\<close> and the
  API errors of \<open>pkg/api/errors\<close> are library data: they are kept here as the constructor calls the
  program makes, path and arguments included, and nothing is assumed of how they print.
\<close>

datatype path_elem = Child string | Index nat | Key string

type_synonym path = "path_elem list"

definition NewPath :: "string list \<Rightarrow> path" where
  "NewPath xs = map Child xs"

text \<open>What an API call can return as an error, by the predicates of \<open>apierrors\<close>.\<close>

datatype api_error =
    NotFound
  | AlreadyExists
  | Conflict
  | NoMatch
  | OtherError string

text \<open>Other errors: a formatted text, possibly around a wrapped error.\<close>

datatype go_error =
    Errorf string
  | Wrapf string go_error
  | JsonError
  | NumError string
  | ApiError api_error

datatype field_value =
    VStr string
  | VInt int
  | VMap "(string, string) gomap"
  | VPolicySpec policy_spec

datatype field_error =
    Required path string
  | Invalid path field_value string
  | InvalidErr path field_value go_error
  | NotSupported path field_value "string list"
  | Forbidden path string
  | FieldNotFound path string
  | InternalError path go_error

type_synonym error_list = "field_error list"

text \<open>The errors an admission handler returns.\<close>

datatype admission_error =
    BadRequest string
  | InvalidObject string string error_list

text \<open>
  The common end of every validator: \<open>if len(allErrs) > 0 { return apierrors.NewInvalid(...) }\<close>.
\<close>

definition as_invalid :: "string \<Rightarrow> string \<Rightarrow> error_list \<Rightarrow> admission_error option" where
  "as_invalid kind name errs = (if length errs > 0 then Some (InvalidObject kind name errs) else None)"

lemma as_invalid_None [simp]: "as_invalid kind name errs = None \<longleftrightarrow> errs = []"
  by (simp add: as_invalid_def)

end
