(* ===== verification/Adapters.thy ===== *)
theory Adapters
  imports Field_Errors
begin

text \<open>
  The contract between the controllers and the runtime adapters
  (\<open>internal/adapters/contracts.go\<close>) and the registry that finds an adapter by service class
  (\<open>internal/adapters/registry.go\<close>). An adapter is a Go interface value: a record of its
  operations. The action controller calls \<open>Contract\<close>, \<open>SupportedActions\<close> and \<open>ExecuteAction\<close>, the instance
  controller \<open>Validate\<close>, \<open>Render\<close> and \<open>Observe\<close>; nothing calls \<open>Delete\<close>.
\<close>

section \<open>Contracts\<close>

abbreviation ActionBackup :: string where "ActionBackup \<equiv> ''backup''"
abbreviation ActionRestore :: string where "ActionRestore \<equiv> ''restore''"
abbreviation ActionFailover :: string where "ActionFailover \<equiv> ''failover''"
abbreviation ActionRollbackFailover :: string where "ActionRollbackFailover \<equiv> ''rollback-failover''"
abbreviation ActionResyncStandby :: string where "ActionResyncStandby \<equiv> ''resync-standby''"
abbreviation ActionUpdateQuota :: string where "ActionUpdateQuota \<equiv> ''update-quota''"
abbreviation ActionGrantAccess :: string where "ActionGrantAccess \<equiv> ''grant-access''"
abbreviation ActionScale :: string where "ActionScale \<equiv> ''scale''"
abbreviation ActionRestart :: string where "ActionRestart \<equiv> ''restart''"
abbreviation ActionRotateCredentials :: string where "ActionRotateCredentials \<equiv> ''rotate-credentials''"
abbreviation ActionDeleteStream :: string where "ActionDeleteStream \<equiv> ''delete-stream''"
abbreviation ActionPurgeStream :: string where "ActionPurgeStream \<equiv> ''purge-stream''"
abbreviation ActionDeleteConsumer :: string where "ActionDeleteConsumer \<equiv> ''delete-consumer''"

record service_context =
  sx_Tenant :: "tenant option"
  sx_Project :: "project option"
  sx_ClusterTarget :: "cluster_target option"
  sx_Class :: "service_class option"
  sx_Plan :: "service_plan option"
  sx_Instance :: "service_instance option"

record action_capability =
  ac_Name :: string
  ac_DisplayName :: string
  ac_RequiresApproval :: bool
  ac_Disruptive :: bool

record status_signal_descriptor =
  ss_Key :: string
  ss_DisplayName :: string
  ss_Description :: string
  ss_Severity :: string

record product_contract =
  pc_ServiceClass :: string
  pc_FriendlyName :: string
  pc_RuntimeDriver :: string
  pc_SupportsVersionOverride :: bool
  pc_SupportsMultiCluster :: bool
  pc_TopologyModes :: "string list"
  pc_StatusSignals :: "status_signal_descriptor list"
  pc_Actions :: "action_capability list"

record action_execution_result =
  ae_Phase :: string
  ae_OperationRef :: "typed_ref option"
  ae_Message :: string
  ae_Retryable :: bool

record validation_issue =
  vi_Path :: string
  vi_Message :: string
  vi_Severity :: string

record validation_result =
  vr_Valid :: bool
  vr_Issues :: "validation_issue list"

record rendered_artifact =
  da_Path :: string
  da_Content :: string

record endpoint =
  en_Name :: string
  en_Address :: string
  en_Port :: int
  en_Protocol :: string
  en_Visibility :: string

record health_signal =
  sg_Key :: string
  sg_Status :: string
  sg_Severity :: string
  sg_Message :: string

record sync_status =
  sy_Phase :: string
  sy_ArtifactRevision :: string
  sy_ApplicationName :: string
  sy_Message :: string

record topology_node =
  tn_Name :: string
  tn_Role :: string
  tn_Ready :: bool
  tn_Cluster :: string
  tn_Region :: string
  tn_Conditions :: "condition list"

record normalized_status =
  nst_Phase :: string
  nst_Summary :: string
  nst_Conditions :: "condition list"
  nst_Topology :: "topology_node list"
  nst_Endpoints :: "endpoint list"
  nst_CredentialRefs :: "namespaced_ref list"
  nst_ObservedResources :: "typed_ref list"
  nst_Sync :: sync_status
  nst_HealthSignals :: "health_signal list"
  nst_CacheTopology :: "cache_topology_status option"

record workload_observation =
  wo_DesiredReplicas :: int
  wo_ReadyReplicas :: int
  wo_UpdatedReplicas :: int
  wo_Observed :: bool

record runtime_observation =
  ro_Workload :: "workload_observation option"
  ro_ReadyPods :: int
  ro_TotalPods :: int
  ro_CredentialSecretPresent :: bool
  ro_Blocked :: bool
  ro_Message :: string

record observe_request =
  ob_Context :: service_context
  ob_ObservedResources :: "typed_ref list"
  ob_ArtifactRevision :: string
  ob_ApplicationName :: string
  ob_Runtime :: runtime_observation

record render_result =
  rd_RuntimeDriver :: string
  rd_PrimaryResource :: "typed_ref option"
  rd_PackagePath :: string
  rd_PackagePaths :: "string list"
  rd_Endpoints :: "endpoint list"
  rd_CredentialRefs :: "namespaced_ref list"
  rd_Artifacts :: "rendered_artifact list"

record delete_result =
  dr_Blocked :: bool
  dr_Message :: string
  dr_SnapshotRef :: "typed_ref option"

record service_adapter =
  ad_Contract :: product_contract
  ad_Validate :: "service_context \<Rightarrow> go_error + validation_result"
  ad_Render :: "service_context \<Rightarrow> go_error + render_result"
  ad_Observe :: "observe_request \<Rightarrow> go_error + normalized_status"
  ad_Delete :: "service_context \<Rightarrow> go_error + delete_result"
  ad_SupportedActions :: "service_context \<Rightarrow> action_capability list"
  ad_ExecuteAction :: "service_context \<Rightarrow> action_request \<Rightarrow> go_error + action_execution_result"

definition requiresPodMesh :: "service_context \<Rightarrow> validation_issue list" where
  "requiresPodMesh ctx =
     (case sx_ClusterTarget ctx of
        None \<Rightarrow> []
      | Some t \<Rightarrow>
          if Mesh (ctg_spec t) = ClusterMeshNone
          then [\<lparr>vi_Path = ''clusterTarget.capabilities.mesh'',
                 vi_Message = ''this topology requires pod-to-pod cross-cluster networking; set capabilities.mesh to one of: calico, cilium, istio, submariner on the ClusterTarget'',
                 vi_Severity = ''Critical''\<rparr>]
          else [])"

section \<open>The registry\<close>

type_synonym registry = "(string, service_adapter) gomap"

definition Register :: "service_adapter \<Rightarrow> registry \<Rightarrow> go_error + registry" where
  "Register adapter r =
     (let class = pc_ServiceClass (ad_Contract adapter) in
      if class = '''' then Inl (Errorf ''adapter has empty service class'')
      else if map_of r class \<noteq> None
      then Inl (Errorf (''adapter already registered for service class '' @ quote class))
      else Inr ((class, adapter) # r))"

fun register_all :: "service_adapter list \<Rightarrow> registry \<Rightarrow> go_error + registry" where
  "register_all [] r = Inr r"
| "register_all (a # as) r = (case Register a r of Inl e \<Rightarrow> Inl e | Inr r' \<Rightarrow> register_all as r')"

definition NewRegistry :: "service_adapter list \<Rightarrow> go_error + registry" where
  "NewRegistry adapters = register_all adapters []"

definition GetAdapter :: "registry \<Rightarrow> string \<Rightarrow> service_adapter option" where
  "GetAdapter r class = map_of r class"

definition Contracts :: "registry \<Rightarrow> product_contract list" where
  "Contracts r = map (\<lambda>(_, adapter). ad_Contract adapter) r"

abbreviation adapter_class :: "service_adapter \<Rightarrow> string" where
  "adapter_class a \<equiv> pc_ServiceClass (ad_Contract a)"

lemma Register_Inr:
  "Register a r = Inr r' \<longleftrightarrow>
     adapter_class a \<noteq> '''' \<and> adapter_class a \<notin> fst ` set r \<and> r' = (adapter_class a, a) # r"
  by (auto simp: Register_def Let_def map_of_eq_None_iff)

lemma register_all_Inr:
  "register_all as r = Inr r' \<longleftrightarrow>
     '''' \<notin> adapter_class ` set as \<and> distinct (map adapter_class as) \<and>
     adapter_class ` set as \<inter> fst ` set r = {} \<and> r' = rev (map (\<lambda>a. (adapter_class a, a)) as) @ r"
proof (induction as arbitrary: r)
  case (Cons a as)
  show ?case
  proof (cases "Register a r")
    case (Inl e)
    then have "\<not> (adapter_class a \<noteq> '''' \<and> adapter_class a \<notin> fst ` set r)"
      using Register_Inr [of a r "(adapter_class a, a) # r"] by auto
    then show ?thesis using Inl by auto
  next
    case (Inr r1)
    then have step: "register_all (a # as) r = register_all as r1" by simp
    have "adapter_class a \<noteq> ''''" "adapter_class a \<notin> fst ` set r" "r1 = (adapter_class a, a) # r"
      using Inr by (simp_all add: Register_Inr)
    then show ?thesis unfolding step Cons.IH [of r1] by auto
  qed
qed auto

text \<open>
  The registry is built exactly from adapters with distinct, non-empty service classes.
\<close>

theorem registry_built_iff:
  "is_ok (NewRegistry as) \<longleftrightarrow> '''' \<notin> adapter_class ` set as \<and> distinct (map adapter_class as)"
  by (auto simp: is_ok_iff NewRegistry_def register_all_Inr)

text \<open>
  Once built, the registry finds an adapter under a class exactly when one of the adapters it was
  built from declares that class.
\<close>

theorem registry_lookup:
  assumes "NewRegistry as = Inr r"
  shows "GetAdapter r cls = Some a \<longleftrightarrow> a \<in> set as \<and> adapter_class a = cls"
proof -
  have h: "distinct (map adapter_class as)" "r = rev (map (\<lambda>a. (adapter_class a, a)) as)"
    using assms by (simp_all add: NewRegistry_def register_all_Inr)
  have "distinct (map fst r)" using h by (simp add: o_def rev_map [symmetric])
  then have "GetAdapter r cls = Some a \<longleftrightarrow> (cls, a) \<in> set r" by (simp add: GetAdapter_def)
  then show ?thesis using h by auto
qed

definition sample_adapter :: "string \<Rightarrow> string \<Rightarrow> service_adapter" where
  "sample_adapter cls driver = \<lparr>
     ad_Contract = \<lparr>pc_ServiceClass = cls, pc_FriendlyName = cls, pc_RuntimeDriver = driver,
       pc_SupportsVersionOverride = False, pc_SupportsMultiCluster = False, pc_TopologyModes = [],
       pc_StatusSignals = [], pc_Actions = []\<rparr>,
     ad_Validate = (\<lambda>_. Inr \<lparr>vr_Valid = True, vr_Issues = []\<rparr>),
     ad_Render = (\<lambda>_. Inl (Errorf ''unsupported'')),
     ad_Observe = (\<lambda>_. Inl (Errorf ''unsupported'')),
     ad_Delete = (\<lambda>_. Inr \<lparr>dr_Blocked = False, dr_Message = [], dr_SnapshotRef = None\<rparr>),
     ad_SupportedActions = (\<lambda>_. []),
     ad_ExecuteAction = (\<lambda>_ _. Inl (Errorf ''unsupported''))\<rparr>"

theorem registry_lookup_witness:
  "\<exists>r. NewRegistry [sample_adapter ''mysql'' ''servicer-mysql'', sample_adapter ''valkey'' ''servicer-valkey''] = Inr r \<and>
     GetAdapter r ''mysql'' = Some (sample_adapter ''mysql'' ''servicer-mysql'')"
proof -
  obtain r where r: "NewRegistry [sample_adapter ''mysql'' ''servicer-mysql'',
      sample_adapter ''valkey'' ''servicer-valkey''] = Inr r"
    by (simp add: NewRegistry_def Register_def Let_def sample_adapter_def)
  then show ?thesis using registry_lookup [OF r] by (simp add: sample_adapter_def)
qed

end
