(* ===== verification/Status_Conditions.thy ===== *)
theory Status_Conditions
  imports Field_Errors
begin

text \<open>
  \<open>internal/controllers/status_helpers.go\<close>. \<open>apimeta.SetStatusCondition\<close> and
  \<open>apimeta.IsStatusConditionTrue\<close> belong to apimachinery; they are the arguments \<open>setc\<close> and
  \<open>truec\<close> of the definitions that call them. \<open>set_condition_contract\<close> is what their documentation
  promises, and is a hypothesis where a proof needs it.
\<close>

type_synonym set_condition = "condition list \<Rightarrow> condition \<Rightarrow> condition list"

definition find_condition :: "string \<Rightarrow> condition list \<Rightarrow> condition option" where
  "find_condition t cs = find (\<lambda>c. c_type c = t) cs"

text \<open>
  After the call the condition of that type carries the new status, reason, message and observed
  generation; conditions of other types are as before; repeating what is there changes nothing.
\<close>

definition set_condition_contract :: "set_condition \<Rightarrow> bool" where
  "set_condition_contract setc \<longleftrightarrow>
     (\<forall>cs c. (\<exists>d. find_condition (c_type c) (setc cs c) = Some d \<and> c_status d = c_status c \<and>
                  c_reason d = c_reason c \<and> c_message d = c_message c \<and>
                  c_observedGeneration d = c_observedGeneration c)) \<and>
     (\<forall>cs c t. t \<noteq> c_type c \<longrightarrow> find_condition t (setc cs c) = find_condition t cs) \<and>
     (\<forall>cs c d. find_condition (c_type c) cs = Some d \<and> c_status d = c_status c \<and>
                c_reason d = c_reason c \<and> c_message d = c_message c \<and>
                c_observedGeneration d = c_observedGeneration c \<longrightarrow> setc cs c = cs)"

definition setStatusCondition ::
  "set_condition \<Rightarrow> time \<Rightarrow> int \<Rightarrow> string \<Rightarrow> string \<Rightarrow> string \<Rightarrow> string \<Rightarrow> condition list \<Rightarrow> condition list" where
  "setStatusCondition setc now generation conditionType status reason message conditions =
     setc conditions
       \<lparr>c_type = conditionType, c_status = status, c_observedGeneration = generation,
        c_lastTransitionTime = now, c_reason = reason, c_message = message\<rparr>"

definition isStatusConditionTrue :: "(condition list \<Rightarrow> string \<Rightarrow> bool) \<Rightarrow> condition list \<Rightarrow> string \<Rightarrow> bool" where
  "isStatusConditionTrue truec conditions conditionType = truec conditions conditionType"

definition isStatusCurrent :: "int \<Rightarrow> int \<Rightarrow> bool" where
  "isStatusCurrent generation observedGeneration \<longleftrightarrow> observedGeneration \<ge> generation"

section \<open>What a condition list says\<close>

definition condition_is :: "string \<Rightarrow> string \<Rightarrow> string \<Rightarrow> condition list \<Rightarrow> bool" where
  "condition_is t status reason cs \<longleftrightarrow>
     (\<exists>d. find_condition t cs = Some d \<and> c_status d = status \<and> c_reason d = reason)"

lemma condition_is_set:
  assumes "set_condition_contract setc"
  shows "condition_is t s r (setStatusCondition setc now g t' s' r' m cs) \<longleftrightarrow>
    (if t = t' then s = s' \<and> r = r' else condition_is t s r cs)"
proof (cases "t = t'")
  case True
  define c where "c = \<lparr>c_type = t', c_status = s', c_observedGeneration = g, c_lastTransitionTime = now,
    c_reason = r', c_message = m\<rparr>"
  obtain d where "find_condition (c_type c) (setc cs c) = Some d" "c_status d = c_status c"
      "c_reason d = c_reason c"
    using assms unfolding set_condition_contract_def by blast
  then show ?thesis using True by (auto simp: condition_is_def setStatusCondition_def c_def)
next
  case False
  then show ?thesis using assms
    unfolding set_condition_contract_def condition_is_def setStatusCondition_def by simp
qed

text \<open>A function that meets the contract: the documented behaviour, for concrete examples.\<close>

definition upsert_condition :: set_condition where
  "upsert_condition cs c =
     (case find_condition (c_type c) cs of
        None \<Rightarrow> cs @ [c]
      | Some d \<Rightarrow>
          (let e = (if c_status d = c_status c then c\<lparr>c_lastTransitionTime := c_lastTransitionTime d\<rparr> else c)
           in takeWhile (\<lambda>x. c_type x \<noteq> c_type c) cs @ [e] @ tl (dropWhile (\<lambda>x. c_type x \<noteq> c_type c) cs)))"

lemma find_condition_simps [simp]:
  "find_condition t [] = None"
  "find_condition t (c # cs) = (if c_type c = t then Some c else find_condition t cs)"
  by (simp_all add: find_condition_def)

lemma find_split:
  "find_condition t cs = Some d \<Longrightarrow>
     cs = takeWhile (\<lambda>x. c_type x \<noteq> t) cs @ [d] @ tl (dropWhile (\<lambda>x. c_type x \<noteq> t) cs) \<and> c_type d = t"
  unfolding find_condition_def by (induction cs) (auto split: if_splits)

lemma find_condition_append:
  "find_condition t (xs @ ys) = (case find_condition t xs of Some d \<Rightarrow> Some d | None \<Rightarrow> find_condition t ys)"
  unfolding find_condition_def by (induction xs) auto

lemma find_takeWhile_other: "find_condition t (takeWhile (\<lambda>x. c_type x \<noteq> t) cs) = None"
  unfolding find_condition_def by (induction cs) auto

lemma upsert_condition_contract: "set_condition_contract upsert_condition"
proof -
  have new: "\<exists>d. find_condition (c_type c) (upsert_condition cs c) = Some d \<and> c_status d = c_status c \<and>
      c_reason d = c_reason c \<and> c_message d = c_message c \<and> c_observedGeneration d = c_observedGeneration c"
    for cs c
    by (cases "find_condition (c_type c) cs")
      (auto simp: upsert_condition_def find_condition_append find_takeWhile_other Let_def)
  have other: "find_condition t (upsert_condition cs c) = find_condition t cs" if "t \<noteq> c_type c" for cs c t
  proof (cases "find_condition (c_type c) cs")
    case None
    then show ?thesis using that
      by (simp add: upsert_condition_def find_condition_append split: option.split)
  next
    case (Some d)
    note s = find_split [OF Some]
    have "find_condition t cs = find_condition t
        (takeWhile (\<lambda>x. c_type x \<noteq> c_type c) cs @ [d] @ tl (dropWhile (\<lambda>x. c_type x \<noteq> c_type c) cs))"
      using s by simp
    then show ?thesis using that s Some
      by (simp add: upsert_condition_def find_condition_append Let_def cong: option.case_cong)
  qed
  have same: "upsert_condition cs c = cs"
    if "find_condition (c_type c) cs = Some d" "c_status d = c_status c" "c_reason d = c_reason c"
      "c_message d = c_message c" "c_observedGeneration d = c_observedGeneration c" for cs c d
  proof -
    have e: "c\<lparr>c_lastTransitionTime := c_lastTransitionTime d\<rparr> = d"
      using find_split [OF that(1)] that by (cases c; cases d) auto
    have "upsert_condition cs c =
        takeWhile (\<lambda>x. c_type x \<noteq> c_type c) cs @ [d] @ tl (dropWhile (\<lambda>x. c_type x \<noteq> c_type c) cs)"
      unfolding upsert_condition_def that(1) option.case if_P [OF that(2)] Let_def e by (rule refl)
    then show ?thesis using find_split [OF that(1)] by simp
  qed
  show ?thesis unfolding set_condition_contract_def using new other same by blast
qed

end
