(* ===== verification/Go_Json.thy ===== *)
theory Go_Json
  imports Go_Strings "HOL-Library.AList"
begin

text \<open>
  The parts of \<open>encoding/json\<close> the program uses. \<open>json_parse\<close> is the validity check and
  the decoding of one JSON text, as a byte automaton (\<open>json_lex\<close>) in front of a pushdown automaton
  (\<open>parse_tok\<close>), the shape of \<open>scanner.go\<close>; both recurse over the input, so there is no
  fuel. A number keeps its literal, since decoding into an integer depends on how it is written.
  \<open>json_encode\<close> is \<open>json.Marshal\<close> of values built from strings, lists and objects,
  with the HTML escapes Go applies.

  Decoding into a struct never stops at a value of the wrong type: the field is skipped, the rest
  is decoded, and an error is returned at the end. The decoders of the single field types
  therefore return the new value and whether there was an error, and a nil pointer is allocated
  before its element is decoded.

  Object keys match struct fields up to case. Bytes of 128 and above are passed through, as they
  are for valid UTF-8.
\<close>

section \<open>Values\<close>

datatype json =
    JNull
  | JBool bool
  | JNum string
  | JStr string
  | JArr "json list"
  | JObj "(string \<times> json) list"

datatype token =
    TLBrace | TRBrace | TLBrack | TRBrack | TColon | TComma
  | TStr string | TNum string | TTrue | TFalse | TNull

section \<open>String literals\<close>

datatype str_item = SByte char | SRune nat

definition utf8 :: "nat \<Rightarrow> string" where
  "utf8 n =
     (if n < 128 then [char_of n]
      else if n < 2048 then [char_of (192 + n div 64), char_of (128 + n mod 64)]
      else if n < 65536 then
        [char_of (224 + n div 4096), char_of (128 + n div 64 mod 64), char_of (128 + n mod 64)]
      else
        [char_of (240 + n div 262144), char_of (128 + n div 4096 mod 64),
         char_of (128 + n div 64 mod 64), char_of (128 + n mod 64)])"

definition high_surrogate :: "nat \<Rightarrow> bool" where
  "high_surrogate n \<longleftrightarrow> 55296 \<le> n \<and> n < 56320"

definition low_surrogate :: "nat \<Rightarrow> bool" where
  "low_surrogate n \<longleftrightarrow> 56320 \<le> n \<and> n < 57344"

definition rune_bytes :: "nat \<Rightarrow> string" where
  "rune_bytes n = (if high_surrogate n \<or> low_surrogate n then utf8 65533 else utf8 n)"

fun unquote :: "str_item list \<Rightarrow> string" where
  "unquote [] = []"
| "unquote (SByte c # xs) = c # unquote xs"
| "unquote [SRune n] = rune_bytes n"
| "unquote (SRune n # SByte c # xs) = rune_bytes n @ c # unquote xs"
| "unquote (SRune n # SRune m # xs) =
     (if high_surrogate n \<and> low_surrogate m
      then utf8 (65536 + (n - 55296) * 1024 + (m - 56320)) @ unquote xs
      else rune_bytes n @ unquote (SRune m # xs))"

definition hex_value :: "char \<Rightarrow> nat option" where
  "hex_value c =
     (let n = of_char c :: nat in
      if 48 \<le> n \<and> n \<le> 57 then Some (n - 48)
      else if 97 \<le> n \<and> n \<le> 102 then Some (n - 87)
      else if 65 \<le> n \<and> n \<le> 70 then Some (n - 55)
      else None)"

definition simple_escape :: "char \<Rightarrow> char option" where
  "simple_escape c =
     (if c = CHR 0x22 \<or> c = CHR 0x5C \<or> c = CHR 0x2F then Some c
      else if c = CHR ''b'' then Some (CHR 0x08)
      else if c = CHR ''f'' then Some (CHR 0x0C)
      else if c = CHR ''n'' then Some (CHR 0x0A)
      else if c = CHR ''r'' then Some (CHR 0x0D)
      else if c = CHR ''t'' then Some (CHR 0x09)
      else None)"

section \<open>Numbers\<close>

definition is_digit :: "char \<Rightarrow> bool" where
  "is_digit c \<longleftrightarrow> 48 \<le> (of_char c :: nat) \<and> (of_char c :: nat) \<le> 57"

text \<open>\<open>-?(0|[1-9][0-9]*)(\.[0-9]+)?([eE][+-]?[0-9]+)?\<close>\<close>

definition exponent_ok :: "string \<Rightarrow> bool" where
  "exponent_ok s =
     (case s of
        [] \<Rightarrow> True
      | e # s1 \<Rightarrow>
          (e = CHR ''e'' \<or> e = CHR ''E'') \<and>
          (let s2 = (case s1 of c # r \<Rightarrow> if c = CHR ''+'' \<or> c = CHR ''-'' then r else s1 | [] \<Rightarrow> [])
           in s2 \<noteq> [] \<and> list_all is_digit s2))"

definition fraction_ok :: "string \<Rightarrow> bool" where
  "fraction_ok s =
     (case s of
        [] \<Rightarrow> True
      | c # r \<Rightarrow>
          (if c = CHR ''.''
           then takeWhile is_digit r \<noteq> [] \<and> exponent_ok (dropWhile is_digit r)
           else exponent_ok s))"

definition number_ok :: "string \<Rightarrow> bool" where
  "number_ok s =
     (let t = (case s of c # r \<Rightarrow> if c = CHR ''-'' then r else s | [] \<Rightarrow> []);
          ip = takeWhile is_digit t
      in ip \<noteq> [] \<and> (hd ip = CHR ''0'' \<longrightarrow> length ip = 1) \<and> fraction_ok (dropWhile is_digit t))"

definition number_char :: "char \<Rightarrow> bool" where
  "number_char c \<longleftrightarrow>
     is_digit c \<or> c = CHR ''+'' \<or> c = CHR ''-'' \<or> c = CHR ''.'' \<or> c = CHR ''e'' \<or> c = CHR ''E''"

section \<open>Lexer\<close>

datatype lex_mode =
    LNorm
  | LStr "str_item list"
  | LEsc "str_item list"
  | LUni "str_item list" nat nat
  | LNum string
  | LLit string token

definition json_space :: "char \<Rightarrow> bool" where
  "json_space c \<longleftrightarrow> c = CHR 0x20 \<or> c = CHR 0x09 \<or> c = CHR 0x0A \<or> c = CHR 0x0D"

definition lex_norm :: "char \<Rightarrow> (token list \<times> lex_mode) option" where
  "lex_norm c =
     (if json_space c then Some ([], LNorm)
      else if c = CHR ''{'' then Some ([TLBrace], LNorm)
      else if c = CHR ''}'' then Some ([TRBrace], LNorm)
      else if c = CHR ''['' then Some ([TLBrack], LNorm)
      else if c = CHR '']'' then Some ([TRBrack], LNorm)
      else if c = CHR '':'' then Some ([TColon], LNorm)
      else if c = CHR '','' then Some ([TComma], LNorm)
      else if c = CHR 0x22 then Some ([], LStr [])
      else if c = CHR ''t'' then Some ([], LLit ''rue'' TTrue)
      else if c = CHR ''f'' then Some ([], LLit ''alse'' TFalse)
      else if c = CHR ''n'' then Some ([], LLit ''ull'' TNull)
      else if is_digit c \<or> c = CHR ''-'' then Some ([], LNum [c])
      else None)"

definition lex_char :: "lex_mode \<Rightarrow> char \<Rightarrow> (token list \<times> lex_mode) option" where
  "lex_char m c =
     (case m of
        LNorm \<Rightarrow> lex_norm c
      | LStr acc \<Rightarrow>
          (if c = CHR 0x22 then Some ([TStr (unquote (rev acc))], LNorm)
           else if c = CHR 0x5C then Some ([], LEsc acc)
           else if (of_char c :: nat) < 32 then None
           else Some ([], LStr (SByte c # acc)))
      | LEsc acc \<Rightarrow>
          (if c = CHR ''u'' then Some ([], LUni acc 0 0)
           else map_option (\<lambda>d. ([], LStr (SByte d # acc))) (simple_escape c))
      | LUni acc k v \<Rightarrow>
          (case hex_value c of
             None \<Rightarrow> None
           | Some h \<Rightarrow>
               (if k = 3 then Some ([], LStr (SRune (16 * v + h) # acc))
                else Some ([], LUni acc (Suc k) (16 * v + h))))
      | LNum acc \<Rightarrow>
          (if number_char c then Some ([], LNum (c # acc))
           else if number_ok (rev acc)
           then map_option (\<lambda>(ts, m'). (TNum (rev acc) # ts, m')) (lex_norm c)
           else None)
      | LLit rest t \<Rightarrow>
          (case rest of
             [] \<Rightarrow> None
           | d # ds \<Rightarrow>
               (if c \<noteq> d then None
                else if ds = [] then Some ([t], LNorm) else Some ([], LLit ds t))))"

definition emit :: "token list \<Rightarrow> token list option \<Rightarrow> token list option" where
  "emit ts r = (case r of None \<Rightarrow> None | Some us \<Rightarrow> Some (ts @ us))"

fun json_lex :: "lex_mode \<Rightarrow> string \<Rightarrow> token list option" where
  "json_lex m [] =
     (case m of
        LNorm \<Rightarrow> Some []
      | LNum acc \<Rightarrow> if number_ok (rev acc) then Some [TNum (rev acc)] else None
      | _ \<Rightarrow> None)"
| "json_lex m (c # cs) =
     (case lex_char m c of
        None \<Rightarrow> None
      | Some (ts, m') \<Rightarrow> emit ts (json_lex m' cs))"

section \<open>Parser\<close>

datatype frame = FArr "json list" | FObj "(string \<times> json) list" string

datatype parse_state =
    PValue | PValueOrEnd | PKeyOrEnd | PKey | PColon | PAfter | PDone json

fun push_value :: "json \<Rightarrow> frame list \<Rightarrow> parse_state \<times> frame list" where
  "push_value v [] = (PDone v, [])"
| "push_value v (FArr xs # st) = (PAfter, FArr (v # xs) # st)"
| "push_value v (FObj fs k # st) = (PAfter, FObj ((k, v) # fs) [] # st)"

fun start_value :: "token \<Rightarrow> frame list \<Rightarrow> (parse_state \<times> frame list) option" where
  "start_value TTrue st = Some (push_value (JBool True) st)"
| "start_value TFalse st = Some (push_value (JBool False) st)"
| "start_value TNull st = Some (push_value JNull st)"
| "start_value (TStr s) st = Some (push_value (JStr s) st)"
| "start_value (TNum s) st = Some (push_value (JNum s) st)"
| "start_value TLBrack st = (if length st < 10000 then Some (PValueOrEnd, FArr [] # st) else None)"
| "start_value TLBrace st = (if length st < 10000 then Some (PKeyOrEnd, FObj [] [] # st) else None)"
| "start_value _ st = None"

fun parse_tok :: "parse_state \<Rightarrow> frame list \<Rightarrow> token \<Rightarrow> (parse_state \<times> frame list) option" where
  "parse_tok PValue st t = start_value t st"
| "parse_tok PValueOrEnd st t =
     (case (t, st) of
        (TRBrack, FArr xs # st') \<Rightarrow> Some (push_value (JArr (rev xs)) st')
      | _ \<Rightarrow> start_value t st)"
| "parse_tok PKeyOrEnd st t =
     (case (t, st) of
        (TRBrace, FObj fs k # st') \<Rightarrow> Some (push_value (JObj (rev fs)) st')
      | (TStr s, FObj fs k # st') \<Rightarrow> Some (PColon, FObj fs s # st')
      | _ \<Rightarrow> None)"
| "parse_tok PKey st t =
     (case (t, st) of
        (TStr s, FObj fs k # st') \<Rightarrow> Some (PColon, FObj fs s # st')
      | _ \<Rightarrow> None)"
| "parse_tok PColon st t = (if t = TColon then Some (PValue, st) else None)"
| "parse_tok PAfter st t =
     (case (t, st) of
        (TComma, FArr xs # st') \<Rightarrow> Some (PValue, st)
      | (TComma, FObj fs k # st') \<Rightarrow> Some (PKey, st)
      | (TRBrack, FArr xs # st') \<Rightarrow> Some (push_value (JArr (rev xs)) st')
      | (TRBrace, FObj fs k # st') \<Rightarrow> Some (push_value (JObj (rev fs)) st')
      | _ \<Rightarrow> None)"
| "parse_tok (PDone v) st t = None"

fun parse_toks :: "parse_state \<Rightarrow> frame list \<Rightarrow> token list \<Rightarrow> json option" where
  "parse_toks p st [] = (case p of PDone v \<Rightarrow> Some v | _ \<Rightarrow> None)"
| "parse_toks p st (t # ts) =
     (case parse_tok p st t of None \<Rightarrow> None | Some (p', st') \<Rightarrow> parse_toks p' st' ts)"

definition json_parse :: "string \<Rightarrow> json option" where
  "json_parse s = (case json_lex LNorm s of None \<Rightarrow> None | Some ts \<Rightarrow> parse_toks PValue [] ts)"

section \<open>Encoding\<close>

definition escape_byte :: "char \<Rightarrow> string" where
  "escape_byte c =
     (if c = CHR 0x22 \<or> c = CHR 0x5C then [CHR 0x5C, c]
      else if c = CHR 0x08 then [CHR 0x5C, CHR ''b'']
      else if c = CHR 0x0C then [CHR 0x5C, CHR ''f'']
      else if c = CHR 0x0A then [CHR 0x5C, CHR ''n'']
      else if c = CHR 0x0D then [CHR 0x5C, CHR ''r'']
      else if c = CHR 0x09 then [CHR 0x5C, CHR ''t'']
      else (let n = of_char c :: nat in
        if n < 32 \<or> c = CHR ''<'' \<or> c = CHR ''>'' \<or> c = CHR ''&''
        then [CHR 0x5C, CHR ''u'', CHR ''0'', CHR ''0'', hex_digit (n div 16), hex_digit (n mod 16)]
        else [c]))"

text \<open>The line separators U+2028 and U+2029 are escaped as well.\<close>

fun escape :: "string \<Rightarrow> string" where
  "escape (c # d # e # s) =
     (if c = CHR 0xE2 \<and> d = CHR 0x80 \<and> (e = CHR 0xA8 \<or> e = CHR 0xA9)
      then [CHR 0x5C, CHR ''u'', CHR ''2'', CHR ''0'', CHR ''2'',
            (if e = CHR 0xA8 then CHR ''8'' else CHR ''9'')] @ escape s
      else escape_byte c @ escape (d # e # s))"
| "escape [c, d] = escape_byte c @ escape_byte d"
| "escape [c] = escape_byte c"
| "escape [] = []"

fun commas :: "string list \<Rightarrow> string" where
  "commas [] = []"
| "commas [x] = x"
| "commas (x # y # xs) = x @ CHR '','' # commas (y # xs)"

definition json_string :: "string \<Rightarrow> string" where
  "json_string s = CHR 0x22 # escape s @ [CHR 0x22]"

fun json_encode :: "json \<Rightarrow> string" where
  "json_encode JNull = ''null''"
| "json_encode (JBool b) = (if b then ''true'' else ''false'')"
| "json_encode (JNum s) = s"
| "json_encode (JStr s) = json_string s"
| "json_encode (JArr xs) = CHR ''['' # commas (map json_encode xs) @ '']''"
| "json_encode (JObj fs) =
     CHR ''{'' # commas (map (\<lambda>(k, v). json_string k @ CHR '':'' # json_encode v) fs) @ ''}''"

section \<open>Decoding into Go values\<close>

text \<open>The value of a number literal written as an integer, as \<open>strconv.ParseInt\<close> reads it.\<close>

definition digits_value :: "string \<Rightarrow> nat" where
  "digits_value s = foldl (\<lambda>n c. 10 * n + (of_char c - 48)) 0 s"

definition parse_int :: "string \<Rightarrow> int option" where
  "parse_int s =
     (let t = (case s of c # r \<Rightarrow> if c = CHR ''-'' then r else s | [] \<Rightarrow> [])
      in if t \<noteq> [] \<and> list_all is_digit t
         then Some (if hd s = CHR ''-'' then - int (digits_value t) else int (digits_value t))
         else None)"

text \<open>A decoder takes the JSON value and the old Go value; the flag is an \<open>UnmarshalTypeError\<close>.\<close>

type_synonym 'a decoder = "json \<Rightarrow> 'a \<Rightarrow> 'a \<times> bool"

fun dec_string :: "string decoder" where
  "dec_string (JStr s) old = (s, False)"
| "dec_string JNull old = (old, False)"
| "dec_string _ old = (old, True)"

fun dec_bool :: "bool decoder" where
  "dec_bool (JBool b) old = (b, False)"
| "dec_bool JNull old = (old, False)"
| "dec_bool _ old = (old, True)"

fun dec_int32 :: "int decoder" where
  "dec_int32 (JNum s) old =
     (case parse_int s of
        Some n \<Rightarrow> if - 2147483648 \<le> n \<and> n \<le> 2147483647 then (n, False) else (old, True)
      | None \<Rightarrow> (old, True))"
| "dec_int32 JNull old = (old, False)"
| "dec_int32 _ old = (old, True)"

definition dec_pointer :: "'a \<Rightarrow> 'a decoder \<Rightarrow> 'a option decoder" where
  "dec_pointer zero dec v old =
     (if v = JNull then (None, False)
      else (case dec v (case old of Some x \<Rightarrow> x | None \<Rightarrow> zero) of (y, e) \<Rightarrow> (Some y, e)))"

text \<open>An array is decoded over the elements that the slice already has.\<close>

fun dec_elems :: "json list \<Rightarrow> string list \<Rightarrow> string list \<times> bool" where
  "dec_elems [] old = ([], False)"
| "dec_elems (x # xs) old =
     (case dec_string x (case old of [] \<Rightarrow> '''' | y # _ \<Rightarrow> y) of
        (y, e) \<Rightarrow> (case dec_elems xs (tl old) of (ys, es) \<Rightarrow> (y # ys, e \<or> es)))"

fun dec_strings :: "string list decoder" where
  "dec_strings (JArr xs) old = dec_elems xs old"
| "dec_strings JNull old = ([], False)"
| "dec_strings _ old = (old, True)"

text \<open>
  A map is decoded entry by entry into a fresh element; entries that it already has stay.
\<close>

fun dec_entries ::
  "'a \<Rightarrow> 'a decoder \<Rightarrow> (string \<times> json) list \<Rightarrow> (string \<times> 'a) list \<Rightarrow> (string \<times> 'a) list \<times> bool" where
  "dec_entries zero dec [] m = (m, False)"
| "dec_entries zero dec ((k, v) # fs) m =
     (case dec v zero of
        (x, e) \<Rightarrow> (case dec_entries zero dec fs (AList.update k x m) of (m', e') \<Rightarrow> (m', e \<or> e')))"

fun dec_map :: "'a \<Rightarrow> 'a decoder \<Rightarrow> (string \<times> 'a) list decoder" where
  "dec_map zero dec (JObj fs) old = dec_entries zero dec fs old"
| "dec_map zero dec JNull old = ([], False)"
| "dec_map zero dec _ old = (old, True)"

fun dec_fields :: "(string \<Rightarrow> json \<Rightarrow> 's \<Rightarrow> 's \<times> bool) \<Rightarrow> (string \<times> json) list \<Rightarrow> 's \<Rightarrow> 's \<times> bool" where
  "dec_fields f [] s = (s, False)"
| "dec_fields f ((k, v) # fs) s =
     (case f k v s of (s1, e1) \<Rightarrow> (case dec_fields f fs s1 of (s2, e2) \<Rightarrow> (s2, e1 \<or> e2)))"

text \<open>A struct, and a slice of other elements than strings.\<close>

fun dec_struct :: "(string \<Rightarrow> json \<Rightarrow> 's \<Rightarrow> 's \<times> bool) \<Rightarrow> 's decoder" where
  "dec_struct f (JObj fs) old = dec_fields f fs old"
| "dec_struct f JNull old = (old, False)"
| "dec_struct f _ old = (old, True)"

fun dec_items :: "'a \<Rightarrow> 'a decoder \<Rightarrow> json list \<Rightarrow> 'a list \<Rightarrow> 'a list \<times> bool" where
  "dec_items zero dec [] old = ([], False)"
| "dec_items zero dec (x # xs) old =
     (case dec x (case old of [] \<Rightarrow> zero | y # _ \<Rightarrow> y) of
        (y, e) \<Rightarrow> (case dec_items zero dec xs (tl old) of (ys, es) \<Rightarrow> (y # ys, e \<or> es)))"

fun dec_list :: "'a \<Rightarrow> 'a decoder \<Rightarrow> 'a list decoder" where
  "dec_list zero dec (JArr xs) old = dec_items zero dec xs old"
| "dec_list zero dec JNull old = ([], False)"
| "dec_list zero dec _ old = (old, True)"

text \<open>\<open>json.Unmarshal(raw, &s)\<close> into a struct whose fields \<open>f\<close> decodes by key.\<close>

definition json_unmarshal :: "(string \<Rightarrow> json \<Rightarrow> 's \<Rightarrow> 's \<times> bool) \<Rightarrow> string \<Rightarrow> 's \<Rightarrow> 's \<times> bool" where
  "json_unmarshal f raw s =
     (case json_parse raw of
        None \<Rightarrow> (s, True)
      | Some (JObj fs) \<Rightarrow> dec_fields f fs s
      | Some JNull \<Rightarrow> (s, False)
      | Some _ \<Rightarrow> (s, True))"

definition json_key :: "string \<Rightarrow> string \<Rightarrow> bool" where
  "json_key k name \<longleftrightarrow> equalFold k name"

text \<open>Setting one record field from a decoder: \<open>upd\<close> and \<open>get\<close> are the field's.\<close>

definition dec_into :: "'a decoder \<Rightarrow> ('s \<Rightarrow> 'a) \<Rightarrow> (('a \<Rightarrow> 'a) \<Rightarrow> 's \<Rightarrow> 's) \<Rightarrow> json \<Rightarrow> 's \<Rightarrow> 's \<times> bool" where
  "dec_into dec get upd v s = (case dec v (get s) of (x, e) \<Rightarrow> (upd (\<lambda>_. x) s, e))"

end
