(* ===== verification/Action_Request.thy ===== *)
theory Action_Request
  imports Adapters Status_Conditions Go_Json
begin

text \<open>
  The action controller, \<open>internal/controllers/actionrequest_controller.go\<close>: resolving what a
  request targets, the approval rules, the phases and operation states, and every change it makes
  to a request's status. Each function literal the code passes to \<open>patchActionRequestStatus\<close> is a
  definition here, from the object read to the object written. All calls of \<open>metav1.Now\<close> within
  one change read the same clock.
\<close>

section \<open>Resolution\<close>

abbreviation GroupVersionString :: string where
  "GroupVersionString \<equiv> ''platform.servicer.io/v1alpha1''"

abbreviation actionOperationStatePrepared :: string where "actionOperationStatePrepared \<equiv> ''Prepared''"
abbreviation actionOperationStateApplied :: string where "actionOperationStateApplied \<equiv> ''Applied''"
abbreviation actionOperationStateComplete :: string where "actionOperationStateComplete \<equiv> ''Complete''"

record actionResolutionError =
  re_reason :: string
  re_code :: string
  re_message :: string
  re_requeue :: bool
  re_retryable :: bool

text \<open>The \<open>error\<close> of \<open>resolveAction\<close>: an \<open>*actionResolutionError\<close> or any other error.\<close>

datatype resolve_error = ResolutionError actionResolutionError | PlainError go_error

record resolvedActionRequest =
  ra_serviceContext :: service_context
  ra_adapter :: service_adapter
  ra_capability :: action_capability

text \<open>The cluster-scoped \<open>r.Get\<close> calls, one function per kind.\<close>

record cluster_reader =
  rd_ServiceInstance :: "string \<Rightarrow> api_error + service_instance"
  rd_Project :: "string \<Rightarrow> api_error + project"
  rd_Tenant :: "string \<Rightarrow> api_error + tenant"
  rd_ServiceClass :: "string \<Rightarrow> api_error + service_class"
  rd_ServicePlan :: "string \<Rightarrow> api_error + service_plan"
  rd_ClusterTarget :: "string \<Rightarrow> api_error + cluster_target"

definition unsupported :: "string \<Rightarrow> string \<Rightarrow> string \<Rightarrow> resolve_error" where
  "unsupported reason code message =
     ResolutionError \<lparr>re_reason = reason, re_code = code, re_message = message,
       re_requeue = False, re_retryable = False\<rparr>"

definition wrapDependencyError :: "api_error \<Rightarrow> string \<Rightarrow> string \<Rightarrow> string \<Rightarrow> resolve_error" where
  "wrapDependencyError err reason code message =
     (if err \<noteq> NotFound then PlainError (ApiError err)
      else ResolutionError \<lparr>re_reason = reason, re_code = code, re_message = message,
        re_requeue = True, re_retryable = True\<rparr>)"

definition dependency :: "api_error + 'a \<Rightarrow> string \<Rightarrow> string \<Rightarrow> string \<Rightarrow> string \<Rightarrow> resolve_error + 'a" where
  "dependency got reason code kind name =
     (case got of
        Inr x \<Rightarrow> Inr x
      | Inl err \<Rightarrow> Inl (wrapDependencyError err reason code
          (''Referenced '' @ kind @ '' '' @ quote name @ '' is not available.'')))"

definition actionCapability :: "action_capability list \<Rightarrow> string \<Rightarrow> action_capability option" where
  "actionCapability capabilities action = find (\<lambda>c. ac_Name c = action) capabilities"

definition resolveAction ::
  "registry option \<Rightarrow> cluster_reader \<Rightarrow> action_request \<Rightarrow> resolve_error + resolvedActionRequest" where
  "resolveAction adapters rd ar =
     (let target = ars_targetRef (ar_spec ar); action = ars_action (ar_spec ar) in
      case adapters of None \<Rightarrow> Inl (PlainError (Errorf ''adapter registry is required''))
      | Some registry \<Rightarrow>
        if tr_apiVersion target \<noteq> GroupVersionString
        then Inl (unsupported ''UnsupportedTargetAPIVersion'' ''unsupported-target-api-version''
          (''Target apiVersion '' @ quote (tr_apiVersion target) @ '' is unsupported.''))
        else if \<not> equalFold (tr_kind target) ''ServiceInstance''
        then Inl (unsupported ''UnsupportedTargetKind'' ''unsupported-target-kind''
          (''Target kind '' @ quote (tr_kind target) @ '' is unsupported by the current action controller.''))
        else
          bind_sum (dependency (rd_ServiceInstance rd (tr_name target))
            ''TargetUnavailable'' ''target-unavailable'' ''ServiceInstance'' (tr_name target)) (\<lambda>inst.
          let s = si_spec inst in
          bind_sum (dependency (rd_Project rd (lr_name (sis_projectRef s)))
            ''ProjectUnavailable'' ''project-unavailable'' ''Project'' (lr_name (sis_projectRef s))) (\<lambda>proj.
          bind_sum (dependency (rd_Tenant rd (lr_name (prs_tenantRef (pj_spec proj))))
            ''TenantUnavailable'' ''tenant-unavailable'' ''Tenant'' (lr_name (prs_tenantRef (pj_spec proj)))) (\<lambda>ten.
          bind_sum (dependency (rd_ServiceClass rd (lr_name (sis_serviceClassRef s)))
            ''ServiceClassUnavailable'' ''service-class-unavailable'' ''ServiceClass''
            (lr_name (sis_serviceClassRef s))) (\<lambda>cls.
          bind_sum (dependency (rd_ServicePlan rd (lr_name (sis_servicePlanRef s)))
            ''ServicePlanUnavailable'' ''service-plan-unavailable'' ''ServicePlan''
            (lr_name (sis_servicePlanRef s))) (\<lambda>plan.
          bind_sum (case ts_clusterRef (prs_targetSelector (pj_spec proj)) of
              None \<Rightarrow> Inr None
            | Some ref \<Rightarrow>
                bind_sum (dependency (rd_ClusterTarget rd (lr_name ref))
                  ''ClusterTargetUnavailable'' ''cluster-target-unavailable'' ''ClusterTarget'' (lr_name ref))
                  (\<lambda>t. Inr (Some t))) (\<lambda>clusterTarget.
          case GetAdapter registry (lr_name (sis_serviceClassRef s)) of
            None \<Rightarrow> Inl (unsupported ''UnsupportedServiceClass'' ''unsupported-service-class''
              (''No adapter is registered for service class '' @ quote (lr_name (sis_serviceClassRef s)) @ ''.''))
          | Some adapter \<Rightarrow>
              (let ctx = \<lparr>sx_Tenant = Some ten, sx_Project = Some proj, sx_ClusterTarget = clusterTarget,
                     sx_Class = Some cls, sx_Plan = Some plan, sx_Instance = Some inst\<rparr>
               in case actionCapability (ad_SupportedActions adapter ctx) action of
                    None \<Rightarrow> Inl (unsupported ''UnsupportedAction'' ''unsupported-action''
                      (''Action '' @ quote action @ '' is not supported for service class '' @
                       quote (lr_name (sis_serviceClassRef s)) @ ''.''))
                  | Some capability \<Rightarrow>
                      Inr \<lparr>ra_serviceContext = ctx, ra_adapter = adapter, ra_capability = capability\<rparr>))))))))"

section \<open>Approval, phases, operation states\<close>

definition approvalPending :: "action_request \<Rightarrow> action_capability \<Rightarrow> bool" where
  "approvalPending ar capability =
     (if ap_mode (ars_approval (ar_spec ar)) = ApprovalModeRequired then True
      else ac_RequiresApproval capability \<and> ap_mode (ars_approval (ar_spec ar)) \<noteq> ApprovalModeApproved)"

definition approvalApprovedWithoutApprover :: "action_request \<Rightarrow> action_capability \<Rightarrow> bool" where
  "approvalApprovedWithoutApprover ar capability =
     (if \<not> ac_RequiresApproval capability then False
      else if ap_mode (ars_approval (ar_spec ar)) \<noteq> ApprovalModeApproved then False
      else length (ap_approvedBy (ars_approval (ar_spec ar))) = 0)"

definition terminalPhase :: "string \<Rightarrow> bool" where
  "terminalPhase phase \<longleftrightarrow> phase = ''Succeeded'' \<or> phase = ''Failed'' \<or> phase = ''Cancelled''"

definition actionAlreadySubmitted :: "action_request_status \<Rightarrow> int \<Rightarrow> bool" where
  "actionAlreadySubmitted status generation =
     (if art_observedGeneration status \<noteq> generation then False else terminalPhase (art_phase status))"

definition normalizedActionPhase :: "string \<Rightarrow> string" where
  "normalizedActionPhase phase =
     (let trimmed = trimSpace phase in
      if trimmed = ''Running'' \<or> trimmed = ''Succeeded'' \<or> trimmed = ''Failed'' \<or> trimmed = ''Cancelled''
      then trimmed else ''Queued'')"

definition validActionOperationState :: "string \<Rightarrow> bool" where
  "validActionOperationState state =
     (let s = trimSpace state in
      s = '''' \<or> s = actionOperationStatePrepared \<or> s = actionOperationStateApplied \<or>
      s = actionOperationStateComplete)"

definition resultCodeForPhase :: "string \<Rightarrow> string" where
  "resultCodeForPhase phase =
     (if phase = ''Running'' then ''running''
      else if phase = ''Succeeded'' then ''succeeded''
      else if phase = ''Failed'' then ''failed''
      else if phase = ''Cancelled'' then ''cancelled''
      else ''queued'')"

definition operationID :: "string \<Rightarrow> string \<Rightarrow> int \<Rightarrow> string" where
  "operationID uid name generation = (if blank uid then name else uid) @ ''-'' @ show_int generation"

definition actionOperationID :: "action_request \<Rightarrow> string" where
  "actionOperationID ar =
     (let seed = m_uid (ar_meta ar);
          seed2 = (if blank seed then m_name (ar_meta ar) else seed)
      in seed2 @ ''-'' @ show_int (m_generation (ar_meta ar)))"

section \<open>Changes of the status\<close>

text \<open>\<open>setStatusCondition(&current.Status.Conditions, current.Generation, ...)\<close>.\<close>

definition setCond ::
  "set_condition \<Rightarrow> time \<Rightarrow> int \<Rightarrow> string \<Rightarrow> string \<Rightarrow> string \<Rightarrow> string \<Rightarrow>
   action_request_status \<Rightarrow> action_request_status" where
  "setCond setc now g t s r m st =
     st\<lparr>art_conditions := setStatusCondition setc now g t s r m (art_conditions st)\<rparr>"

definition applyFailedStatus ::
  "set_condition \<Rightarrow> time \<Rightarrow> int \<Rightarrow> string \<Rightarrow> string \<Rightarrow> string \<Rightarrow> bool \<Rightarrow>
   action_request_status \<Rightarrow> action_request_status" where
  "applyFailedStatus setc now g reason code message retryable st =
     (let st1 = st\<lparr>art_phase := ''Failed'', art_operationRef := None,
            art_result := \<lparr>res_code = code, res_message = message, res_retryable = retryable\<rparr>\<rparr>;
          st2 = setCond setc now g ''Accepted'' ConditionFalse reason message st1;
          st3 = setCond setc now g ''Ready'' ConditionFalse reason message st2
      in setCond setc now g ''Failed'' ConditionTrue reason message st3)"

definition applyExecutionStatus ::
  "set_condition \<Rightarrow> time \<Rightarrow> int \<Rightarrow> action_execution_result \<Rightarrow>
   action_request_status \<Rightarrow> action_request_status" where
  "applyExecutionStatus setc now g result st =
     (let st1 = (if art_startedAt st = None then st\<lparr>art_startedAt := Some now\<rparr> else st);
          phase = normalizedActionPhase (ae_Phase result);
          st2 = st1\<lparr>art_phase := phase, art_operationRef := ae_OperationRef result,
            art_result := \<lparr>res_code = resultCodeForPhase phase, res_message = ae_Message result,
              res_retryable = ae_Retryable result\<rparr>\<rparr>
      in
      if phase = ''Succeeded'' then
        setCond setc now g ''Failed'' ConditionFalse ''ActionSucceeded'' ''Action request completed successfully.''
          (setCond setc now g ''Ready'' ConditionTrue ''ActionSucceeded'' ''Action request completed successfully.''
            (st2\<lparr>art_completedAt := Some now\<rparr>))
      else if phase = ''Failed'' \<or> phase = ''Cancelled'' then
        setCond setc now g ''Failed'' ConditionTrue ''ActionFailed'' (ae_Message result)
          (setCond setc now g ''Ready'' ConditionFalse ''ActionFailed'' (ae_Message result)
            (st2\<lparr>art_completedAt := Some now\<rparr>))
      else if phase = ''Running'' then
        setCond setc now g ''Failed'' ConditionFalse ''ActionRunning'' ''Action request is running.''
          (setCond setc now g ''Ready'' ConditionFalse ''ActionRunning'' ''Action request is running.'' st2)
      else
        setCond setc now g ''Failed'' ConditionFalse ''ActionQueued'' ''Action request is queued for execution.''
          (setCond setc now g ''Ready'' ConditionFalse ''ActionQueued''
             ''Action request is queued for execution.'' st2))"

text \<open>
  The function literals handed to \<open>patchActionRequestStatus\<close>. Each gives the new status of the
  request that was read; nothing else of the request is written.
\<close>

type_synonym status_patch = "time \<Rightarrow> action_request \<Rightarrow> action_request_status"

definition generationOf :: "action_request \<Rightarrow> int" where
  "generationOf ar = m_generation (ar_meta ar)"

definition patchResolutionFailed :: "set_condition \<Rightarrow> actionResolutionError \<Rightarrow> status_patch" where
  "patchResolutionFailed setc err now cur =
     (applyFailedStatus setc now (generationOf cur) (re_reason err) (re_code err) (re_message err)
        (re_retryable err) ((ar_status cur)\<lparr>art_observedGeneration := generationOf cur\<rparr>))
     \<lparr>art_operationID := '''', art_operationState := actionOperationStateComplete\<rparr>"

definition patchApprovalInvalidState :: "set_condition \<Rightarrow> status_patch" where
  "patchApprovalInvalidState setc now cur =
     (applyFailedStatus setc now (generationOf cur) ''ApprovalInvalidState'' ''approval-invalid-state''
        ''Action request approval cannot be reset to required after execution has started.'' False
        ((ar_status cur)\<lparr>art_observedGeneration := generationOf cur\<rparr>))
     \<lparr>art_operationState := actionOperationStateComplete\<rparr>"

text \<open>The three lines shared by the branches that follow a successful resolution.\<close>

definition acceptedStatus :: "set_condition \<Rightarrow> status_patch" where
  "acceptedStatus setc now cur =
     setCond setc now (generationOf cur) ''Failed'' ConditionFalse ''ValidationSucceeded''
       ''Action request has not failed.''
       (setCond setc now (generationOf cur) ''Accepted'' ConditionTrue ''ValidationSucceeded''
          ''Action request target and adapter contract resolved.''
          ((ar_status cur)\<lparr>art_observedGeneration := generationOf cur\<rparr>))"

definition patchPendingApproval :: "set_condition \<Rightarrow> status_patch" where
  "patchPendingApproval setc now cur =
     setCond setc now (generationOf cur) ''Ready'' ConditionFalse ''ApprovalRequired''
       ''Action request is waiting for approval.''
       ((acceptedStatus setc now cur)
        \<lparr>art_phase := ''PendingApproval'', art_operationRef := None, art_operationID := '''',
         art_operationState := '''',
         art_result := \<lparr>res_code = ''approval-required'',
           res_message = ''Action '' @ quote (ars_action (ar_spec cur)) @ '' requires approval before execution.'',
           res_retryable = False\<rparr>\<rparr>)"

definition patchApprovalFailed ::
  "set_condition \<Rightarrow> string \<Rightarrow> string \<Rightarrow> string \<Rightarrow> string \<Rightarrow> status_patch" where
  "patchApprovalFailed setc code message reason condMessage now cur =
     setCond setc now (generationOf cur) ''Failed'' ConditionTrue reason condMessage
       (setCond setc now (generationOf cur) ''Ready'' ConditionFalse reason condMessage
         ((acceptedStatus setc now cur)
          \<lparr>art_phase := ''Failed'', art_operationRef := None, art_operationID := '''',
           art_operationState := actionOperationStateComplete,
           art_result := \<lparr>res_code = code, res_message = message, res_retryable = False\<rparr>\<rparr>))"

definition patchApprovalRejected :: "set_condition \<Rightarrow> status_patch" where
  "patchApprovalRejected setc =
     patchApprovalFailed setc ''approval-rejected'' ''Action request was rejected before execution.''
       ''ApprovalRejected'' ''Action request was rejected.''"

definition patchApprovalInvalid :: "set_condition \<Rightarrow> status_patch" where
  "patchApprovalInvalid setc =
     patchApprovalFailed setc ''approval-invalid'' ''Action request approval is missing approver identity.''
       ''ApprovalInvalid'' ''Action request approval metadata is incomplete.''"

definition patchPrepare :: "set_condition \<Rightarrow> status_patch" where
  "patchPrepare setc now cur =
     (let g = generationOf cur;
          newGeneration = (art_observedGeneration (ar_status cur) \<noteq> g);
          st0 = acceptedStatus setc now cur;
          st1 = (if newGeneration then st0\<lparr>art_operationID := '''', art_operationState := ''''\<rparr> else st0);
          st2 = (if blank (art_operationID st1) then st1\<lparr>art_operationID := actionOperationID cur\<rparr> else st1);
          st3 = (if art_operationState st2 = ''''
                 then st2\<lparr>art_operationState := actionOperationStatePrepared\<rparr> else st2)
      in
      if art_operationState st3 = actionOperationStatePrepared then
        setCond setc now g ''Failed'' ConditionFalse ''ActionRunning'' ''Action request is running.''
          (setCond setc now g ''Ready'' ConditionFalse ''ActionRunning'' ''Action request is running.''
            (st3\<lparr>art_phase := ''Running'',
                 art_startedAt := (if art_startedAt st3 = None then Some now else art_startedAt st3),
                 art_result := \<lparr>res_code = ''running'', res_message = ''Action request is running.'',
                   res_retryable = True\<rparr>\<rparr>))
      else st3)"

definition patchInvalidOperationState :: "set_condition \<Rightarrow> status_patch" where
  "patchInvalidOperationState setc now cur =
     (applyFailedStatus setc now (generationOf cur) ''InvalidOperationState'' ''invalid-operation-state''
        (''Action request is in unsupported operation state '' @ quote (art_operationState (ar_status cur)) @ ''.'')
        False ((ar_status cur)\<lparr>art_observedGeneration := generationOf cur\<rparr>))
     \<lparr>art_operationState := actionOperationStateComplete\<rparr>"

definition patchExecutionFailed :: "set_condition \<Rightarrow> string \<Rightarrow> status_patch" where
  "patchExecutionFailed setc errorText now cur =
     (applyFailedStatus setc now (generationOf cur) ''ActionExecutionFailed'' ''execution-failed'' errorText True
        ((ar_status cur)\<lparr>art_observedGeneration := generationOf cur\<rparr>))
     \<lparr>art_operationState := actionOperationStateComplete\<rparr>"

definition operationStateAfter :: "action_request_status \<Rightarrow> action_request_status" where
  "operationStateAfter st =
     st\<lparr>art_operationState := (if terminalPhase (art_phase st) then actionOperationStateComplete
        else actionOperationStateApplied)\<rparr>"

definition patchExecuted :: "set_condition \<Rightarrow> action_execution_result \<Rightarrow> status_patch" where
  "patchExecuted setc result now cur =
     operationStateAfter (applyExecutionStatus setc now (generationOf cur) result
       ((ar_status cur)\<lparr>art_observedGeneration := generationOf cur\<rparr>))"

text \<open>The two patches of \<open>reconcileInFlightAction\<close>; both leave a terminal status alone.\<close>

definition patchInFlightMissing :: "set_condition \<Rightarrow> typed_ref \<Rightarrow> status_patch" where
  "patchInFlightMissing setc ref now cur =
     (if terminalPhase (art_phase (ar_status cur)) then ar_status cur
      else (applyExecutionStatus setc now (generationOf cur)
              \<lparr>ae_Phase = ''Queued'', ae_OperationRef = Some ref,
               ae_Message = ''CNPG Backup '' @ tr_namespace ref @ ''/'' @ tr_name ref @
                 '' is not observed yet; retrying.'',
               ae_Retryable = True\<rparr> (ar_status cur))
           \<lparr>art_operationState := actionOperationStateApplied, art_observedGeneration := generationOf cur\<rparr>)"

definition patchInFlightResult :: "set_condition \<Rightarrow> action_execution_result \<Rightarrow> status_patch" where
  "patchInFlightResult setc result now cur =
     (if terminalPhase (art_phase (ar_status cur)) then ar_status cur
      else (operationStateAfter (applyExecutionStatus setc now (generationOf cur) result (ar_status cur)))
           \<lparr>art_observedGeneration := generationOf cur\<rparr>)"

section \<open>What the patches do to the operation\<close>

lemma setCond_simps [simp]:
  "art_observedGeneration (setCond setc now g t s r m st) = art_observedGeneration st"
  "art_phase (setCond setc now g t s r m st) = art_phase st"
  "art_startedAt (setCond setc now g t s r m st) = art_startedAt st"
  "art_completedAt (setCond setc now g t s r m st) = art_completedAt st"
  "art_operationRef (setCond setc now g t s r m st) = art_operationRef st"
  "art_operationID (setCond setc now g t s r m st) = art_operationID st"
  "art_operationState (setCond setc now g t s r m st) = art_operationState st"
  "art_result (setCond setc now g t s r m st) = art_result st"
  by (simp_all add: setCond_def)

lemma applyFailedStatus_simps [simp]:
  "art_observedGeneration (applyFailedStatus setc now g r c m b st) = art_observedGeneration st"
  "art_phase (applyFailedStatus setc now g r c m b st) = ''Failed''"
  "art_operationID (applyFailedStatus setc now g r c m b st) = art_operationID st"
  by (simp_all add: applyFailedStatus_def Let_def)

lemma applyExecutionStatus_simps [simp]:
  "art_observedGeneration (applyExecutionStatus setc now g res st) = art_observedGeneration st"
  "art_phase (applyExecutionStatus setc now g res st) = normalizedActionPhase (ae_Phase res)"
  "art_operationID (applyExecutionStatus setc now g res st) = art_operationID st"
  by (simp_all add: applyExecutionStatus_def Let_def)

lemma acceptedStatus_simps [simp]:
  "art_observedGeneration (acceptedStatus setc now cur) = generationOf cur"
  "art_phase (acceptedStatus setc now cur) = art_phase (ar_status cur)"
  "art_operationID (acceptedStatus setc now cur) = art_operationID (ar_status cur)"
  "art_operationState (acceptedStatus setc now cur) = art_operationState (ar_status cur)"
  by (simp_all add: acceptedStatus_def)

lemma operationStateAfter_simps [simp]:
  "art_observedGeneration (operationStateAfter st) = art_observedGeneration st"
  "art_phase (operationStateAfter st) = art_phase st"
  "art_operationID (operationStateAfter st) = art_operationID st"
  "art_operationState (operationStateAfter st) \<in> {actionOperationStateApplied, actionOperationStateComplete}"
  by (simp_all add: operationStateAfter_def)

lemmas patch_defs = patchResolutionFailed_def patchApprovalInvalidState_def patchPendingApproval_def
  patchApprovalFailed_def patchApprovalRejected_def patchApprovalInvalid_def patchInvalidOperationState_def
  patchExecutionFailed_def patchExecuted_def patchInFlightMissing_def patchInFlightResult_def

end
