(* ===== verification/Admission_Common.thy ===== *)
theory Admission_Common
  imports Field_Errors Go_Json
begin

text \<open>
  The helpers shared by the admission webhooks of \<open>api/v1alpha1/webhook_validation.go\<close>, and the
  interface \<open>admission_kind\<close> every resource kind provides: a defaulter, a create check, an update
  check and the fields that an update may not change. \<open>history\<close> is what the API server can have
  stored for one object when it runs the mutating webhook and then the validating webhook on every
  create and update, and lets controllers write the status subresource, which the webhooks do not
  see.
\<close>

section \<open>Supported values\<close>

definition supportedExposureModes :: "string list" where
  "supportedExposureModes = [ExposureModeClusterInternal, ExposureModePrivateIngress, ExposureModePublicIngress]"

definition isSupportedExposureMode :: "string \<Rightarrow> bool" where
  "isSupportedExposureMode mode \<longleftrightarrow>
     mode = ExposureModeClusterInternal \<or> mode = ExposureModePrivateIngress \<or> mode = ExposureModePublicIngress"

definition supportedSecretDeliveryModes :: "string list" where
  "supportedSecretDeliveryModes =
     [SecretDeliveryModeExternalSecret, SecretDeliveryModeDirectSecretRef, SecretDeliveryModeManual]"

definition isSupportedSecretDeliveryMode :: "string \<Rightarrow> bool" where
  "isSupportedSecretDeliveryMode mode \<longleftrightarrow>
     mode = SecretDeliveryModeExternalSecret \<or> mode = SecretDeliveryModeDirectSecretRef \<or>
     mode = SecretDeliveryModeManual"

definition supportedDeletionPolicies :: "string list" where
  "supportedDeletionPolicies = [DeletionPolicyDelete, DeletionPolicyOrphan, DeletionPolicySnapshot]"

definition isSupportedDeletionPolicy :: "string \<Rightarrow> bool" where
  "isSupportedDeletionPolicy policy \<longleftrightarrow>
     policy = DeletionPolicyDelete \<or> policy = DeletionPolicyOrphan \<or> policy = DeletionPolicySnapshot"

definition supportedApprovalModes :: "string list" where
  "supportedApprovalModes = [ApprovalModeAuto, ApprovalModeRequired, ApprovalModeApproved, ApprovalModeRejected]"

definition isSupportedApprovalMode :: "string \<Rightarrow> bool" where
  "isSupportedApprovalMode mode \<longleftrightarrow>
     mode = ApprovalModeAuto \<or> mode = ApprovalModeRequired \<or> mode = ApprovalModeApproved \<or>
     mode = ApprovalModeRejected"

definition supportedRequestSources :: "string list" where
  "supportedRequestSources = [RequestSourceUI, RequestSourceAPI, RequestSourceAutomation]"

definition isSupportedRequestSource :: "string \<Rightarrow> bool" where
  "isSupportedRequestSource source \<longleftrightarrow>
     source = RequestSourceUI \<or> source = RequestSourceAPI \<or> source = RequestSourceAutomation"

text \<open>Each predicate accepts exactly the values its error message offers.\<close>

lemma supported_lists [reject_simps]:
  "isSupportedExposureMode m \<longleftrightarrow> m \<in> set supportedExposureModes"
  "isSupportedSecretDeliveryMode m \<longleftrightarrow> m \<in> set supportedSecretDeliveryModes"
  "isSupportedDeletionPolicy m \<longleftrightarrow> m \<in> set supportedDeletionPolicies"
  "isSupportedApprovalMode m \<longleftrightarrow> m \<in> set supportedApprovalModes"
  "isSupportedRequestSource m \<longleftrightarrow> m \<in> set supportedRequestSources"
  by (auto simp: isSupportedExposureMode_def supportedExposureModes_def
      isSupportedSecretDeliveryMode_def supportedSecretDeliveryModes_def
      isSupportedDeletionPolicy_def supportedDeletionPolicies_def
      isSupportedApprovalMode_def supportedApprovalModes_def
      isSupportedRequestSource_def supportedRequestSources_def)

section \<open>Defaulting\<close>

definition defaultExposure :: "exposure_spec \<Rightarrow> exposure_spec" where
  "defaultExposure e = (if ex_mode e = '''' then e\<lparr>ex_mode := ExposureModeClusterInternal\<rparr> else e)"

definition defaultVault :: "vault_spec \<Rightarrow> vault_spec" where
  "defaultVault v =
     (let v1 = (if va_path v = '''' then v\<lparr>va_path := ''secret''\<rparr> else v)
      in if va_version v1 = '''' then v1\<lparr>va_version := ''v2''\<rparr> else v1)"

definition defaultSecretPolicy :: "secret_policy_spec \<Rightarrow> secret_policy_spec" where
  "defaultSecretPolicy p =
     (let p1 = (if sp_deliveryMode p = '''' then p\<lparr>sp_deliveryMode := SecretDeliveryModeExternalSecret\<rparr> else p);
          p2 = (if sp_deliveryMode p1 = SecretDeliveryModeExternalSecret \<and> sp_externalSecretProvider p1 = ''''
                then p1\<lparr>sp_externalSecretProvider := ExternalSecretProviderKubernetes\<rparr> else p1)
      in p2\<lparr>sp_vault := map_option defaultVault (sp_vault p2)\<rparr>)"

definition defaultDeletion :: "string \<Rightarrow> string" where
  "defaultDeletion p = (if p = '''' then DeletionPolicyDelete else p)"

lemma defaultExposure_idem [simp]: "defaultExposure (defaultExposure e) = defaultExposure e"
  by (simp add: defaultExposure_def)

lemma defaultVault_idem [simp]: "defaultVault (defaultVault v) = defaultVault v"
  by (simp add: defaultVault_def Let_def)

lemma defaultSecretPolicy_idem [simp]:
  "defaultSecretPolicy (defaultSecretPolicy p) = defaultSecretPolicy p"
  by (cases "sp_vault p") (auto simp: defaultSecretPolicy_def Let_def)

lemma defaultDeletion_idem [simp]: "defaultDeletion (defaultDeletion p) = defaultDeletion p"
  by (simp add: defaultDeletion_def)

section \<open>References and immutability\<close>

definition validateLocalRef :: "local_ref \<Rightarrow> path \<Rightarrow> error_list" where
  "validateLocalRef ref p = report (lr_name ref = '''') (Required (p @ [Child ''name'']) ''name is required'')"

definition validateNamespacedRef :: "namespaced_ref \<Rightarrow> path \<Rightarrow> error_list" where
  "validateNamespacedRef ref p =
     report (blank (nr_name ref)) (Required (p @ [Child ''name'']) ''name is required'') @
     report (blank (nr_namespace ref)) (Required (p @ [Child ''namespace'']) ''namespace is required'')"

definition immutable :: "path \<Rightarrow> string \<Rightarrow> field_error" where
  "immutable p current = Invalid p (VStr current) ''field is immutable''"

definition validateImmutableLocalRef :: "local_ref \<Rightarrow> local_ref \<Rightarrow> path \<Rightarrow> error_list" where
  "validateImmutableLocalRef previous current p =
     report (lr_name previous \<noteq> lr_name current) (immutable (p @ [Child ''name'']) (lr_name current))"

definition validateTypedRef :: "typed_ref \<Rightarrow> path \<Rightarrow> error_list" where
  "validateTypedRef ref p =
     report (tr_apiVersion ref = '''') (Required (p @ [Child ''apiVersion'']) ''apiVersion is required'') @
     report (tr_kind ref = '''') (Required (p @ [Child ''kind'']) ''kind is required'') @
     report (tr_name ref = '''' \<and> tr_namespace ref = '''')
       (Required p ''target reference must set a name or namespace'')"

definition validateImmutableTypedRef :: "typed_ref \<Rightarrow> typed_ref \<Rightarrow> path \<Rightarrow> error_list" where
  "validateImmutableTypedRef previous current p =
     report (tr_apiVersion previous \<noteq> tr_apiVersion current)
       (immutable (p @ [Child ''apiVersion'']) (tr_apiVersion current)) @
     report (tr_kind previous \<noteq> tr_kind current) (immutable (p @ [Child ''kind'']) (tr_kind current)) @
     report (tr_name previous \<noteq> tr_name current) (immutable (p @ [Child ''name'']) (tr_name current)) @
     report (tr_namespace previous \<noteq> tr_namespace current)
       (immutable (p @ [Child ''namespace'']) (tr_namespace current))"

definition validateImmutableString :: "string \<Rightarrow> string \<Rightarrow> path \<Rightarrow> error_list" where
  "validateImmutableString previous current p = report (previous \<noteq> current) (immutable p current)"

lemma ref_checks_Nil [reject_simps]:
  "validateLocalRef ref p = [] \<longleftrightarrow> lr_name ref \<noteq> ''''"
  "validateNamespacedRef nref p = [] \<longleftrightarrow> \<not> blank (nr_name nref) \<and> \<not> blank (nr_namespace nref)"
  "validateTypedRef tref p = [] \<longleftrightarrow>
     tr_apiVersion tref \<noteq> '''' \<and> tr_kind tref \<noteq> '''' \<and> (tr_name tref \<noteq> '''' \<or> tr_namespace tref \<noteq> '''')"
  by (auto simp: validateLocalRef_def validateNamespacedRef_def validateTypedRef_def)

lemma immutable_checks_Nil [reject_simps]:
  "validateImmutableLocalRef a b p = [] \<longleftrightarrow> lr_name a = lr_name b"
  "validateImmutableTypedRef s t p = [] \<longleftrightarrow> s = t"
  "validateImmutableString x y p = [] \<longleftrightarrow> x = y"
  by (auto simp: validateImmutableLocalRef_def validateImmutableTypedRef_def validateImmutableString_def)

text \<open>The records of the API are closed: equal fields make equal records.\<close>

lemma lr_name_eq_iff: "lr_name a = lr_name b \<longleftrightarrow> a = b" for a b :: local_ref
  by (cases a; cases b) simp

section \<open>Exposure, secrets, deletion, parameters\<close>

definition validateExposure :: "exposure_spec \<Rightarrow> path \<Rightarrow> error_list" where
  "validateExposure e p =
     (if ex_mode e = '''' then [Required (p @ [Child ''mode'']) ''mode is required'']
      else if \<not> isSupportedExposureMode (ex_mode e)
      then [NotSupported (p @ [Child ''mode'']) (VStr (ex_mode e)) supportedExposureModes]
      else [])"

definition validateVaultConfig :: "vault_spec \<Rightarrow> path \<Rightarrow> error_list" where
  "validateVaultConfig v p =
     report (blank (va_server v)) (Required (p @ [Child ''vault'', Child ''server'']) ''server is required'') @
     report (blank (va_path v)) (Required (p @ [Child ''vault'', Child ''path'']) ''path is required'') @
     report (va_version v \<noteq> '''' \<and> va_version v \<noteq> ''v1'' \<and> va_version v \<noteq> ''v2'')
       (NotSupported (p @ [Child ''vault'', Child ''version'']) (VStr (va_version v)) [''v1'', ''v2'']) @
     report (blank (nr_name (va_authSecretRef v)))
       (Required (p @ [Child ''vault'', Child ''authSecretRef'', Child ''name'']) ''name is required'')"

definition validateSecretPolicy :: "secret_policy_spec \<Rightarrow> path \<Rightarrow> error_list" where
  "validateSecretPolicy sp p =
     (if sp_deliveryMode sp = ''''
      then [Required (p @ [Child ''deliveryMode'']) ''deliveryMode is required'']
      else
        report (\<not> isSupportedSecretDeliveryMode (sp_deliveryMode sp))
          (NotSupported (p @ [Child ''deliveryMode'']) (VStr (sp_deliveryMode sp)) supportedSecretDeliveryModes) @
        report (sp_externalSecretProvider sp \<noteq> '''' \<and> sp_deliveryMode sp \<noteq> SecretDeliveryModeExternalSecret)
          (Forbidden (p @ [Child ''externalSecretProvider''])
             ''externalSecretProvider is only valid when deliveryMode=external-secret'') @
        (if sp_deliveryMode sp = SecretDeliveryModeExternalSecret then
           (if sp_externalSecretProvider sp = '''' \<or>
               sp_externalSecretProvider sp = ExternalSecretProviderKubernetes
            then report (sp_vault sp \<noteq> None)
                   (Forbidden (p @ [Child ''vault'']) ''vault config requires externalSecretProvider=vault'')
            else if sp_externalSecretProvider sp = ExternalSecretProviderVault
            then (case sp_vault sp of
                    None \<Rightarrow> [Required (p @ [Child ''vault''])
                               ''vault config is required when externalSecretProvider=vault'']
                  | Some v \<Rightarrow> validateVaultConfig v p)
            else [NotSupported (p @ [Child ''externalSecretProvider'']) (VStr (sp_externalSecretProvider sp))
                    [ExternalSecretProviderKubernetes, ExternalSecretProviderVault]])
         else []))"

definition validateDeletionPolicy :: "string \<Rightarrow> path \<Rightarrow> error_list" where
  "validateDeletionPolicy policy p =
     (if policy = '''' then [Required p ''deletionPolicy is required'']
      else if \<not> isSupportedDeletionPolicy policy
      then [NotSupported p (VStr policy) supportedDeletionPolicies]
      else [])"

definition validateJSONMap :: "raw_json option \<Rightarrow> path \<Rightarrow> error_list" where
  "validateJSONMap raw p =
     (case raw of
        None \<Rightarrow> []
      | Some r \<Rightarrow>
          (if r = '''' \<or> r = ''null'' then []
           else if hasPrefix (trimSpace r) ''{'' then []
           else (case json_parse r of
                   None \<Rightarrow> [InvalidErr p (VStr r) (Wrapf ''must be valid JSON object: '' JsonError)]
                 | Some (JObj _) \<Rightarrow> []
                 | Some _ \<Rightarrow> [Invalid p (VStr r) ''must be a JSON object''])))"

lemma validateExposure_Nil [reject_simps]:
  "validateExposure e p = [] \<longleftrightarrow> isSupportedExposureMode (ex_mode e)"
  by (auto simp: validateExposure_def isSupportedExposureMode_def)

lemma validateDeletionPolicy_Nil [reject_simps]:
  "validateDeletionPolicy d p = [] \<longleftrightarrow> isSupportedDeletionPolicy d"
  by (auto simp: validateDeletionPolicy_def isSupportedDeletionPolicy_def)

section \<open>Label maps and policy references\<close>

text \<open>
  \<open>validation.IsQualifiedName\<close> and \<open>IsValidLabelValue\<close> belong to apimachinery: they are the
  arguments \<open>qn\<close> and \<open>lv\<close>, which return the problems they see.
\<close>

definition validateLabelMap ::
  "(string \<Rightarrow> string list) \<Rightarrow> (string \<Rightarrow> string list) \<Rightarrow> (string, string) gomap \<Rightarrow> path \<Rightarrow> error_list" where
  "validateLabelMap qn lv labels p =
     concat (map (\<lambda>(key, value).
       (let problems = qn key in
        if length problems > 0
        then [Invalid (p @ [Key key]) (VStr key) (''invalid label key: '' @ hd problems)] else []) @
       (let problems = lv value in
        if length problems > 0
        then [Invalid (p @ [Key key]) (VStr value) (''invalid label value: '' @ hd problems)] else [])) labels)"

definition validatePolicyRefs :: "policy_ref list \<Rightarrow> path \<Rightarrow> error_list" where
  "validatePolicyRefs refs p =
     each (\<lambda>i ref. report (blank (pr_name ref)) (Required (p @ [Index i, Child ''name'']) ''name is required'')) refs"

definition stringInSlice :: "string \<Rightarrow> string list \<Rightarrow> bool" where
  "stringInSlice target items \<longleftrightarrow> list_ex (\<lambda>item. item = target) items"

lemma stringInSlice_iff [simp]: "stringInSlice t xs \<longleftrightarrow> t \<in> set xs"
  by (auto simp: stringInSlice_def list_ex_iff)

lemma validateLabelMap_Nil [reject_simps]:
  "validateLabelMap qn lv labels p = [] \<longleftrightarrow> (\<forall>(k, v) \<in> set labels. qn k = [] \<and> lv v = [])"
  by (auto simp: validateLabelMap_def Let_def split: if_splits)

lemma validatePolicyRefs_Nil [reject_simps]:
  "validatePolicyRefs refs p = [] \<longleftrightarrow> (\<forall>ref \<in> set refs. \<not> blank (pr_name ref))"
  unfolding validatePolicyRefs_def by (rule each_from_Nil_uniform) simp

section \<open>Loops over a map\<close>

text \<open>
  The body shared by the loops over \<open>spec.quotas\<close> and \<open>spec.capabilities\<close>: an empty key reports
  the whole map and leaves the loop, an empty value reports its entry. \<open>isEmpty\<close> is the test the loop
  uses, \<open>whole\<close> the map it reports.
\<close>

fun entry_errors ::
  "(string \<Rightarrow> bool) \<Rightarrow> path \<Rightarrow> string \<Rightarrow> string \<Rightarrow> (string, string) gomap \<Rightarrow>
   (string, string) gomap \<Rightarrow> error_list" where
  "entry_errors isEmpty p keyMsg valueMsg whole [] = []"
| "entry_errors isEmpty p keyMsg valueMsg whole ((key, value) # rest) =
     (if isEmpty key then [Invalid p (VMap whole) keyMsg]
      else report (isEmpty value) (Invalid (p @ [Key key]) (VStr value) valueMsg) @
           entry_errors isEmpty p keyMsg valueMsg whole rest)"

lemma entry_errors_Nil [reject_simps]:
  "entry_errors isEmpty p km vm whole m = [] \<longleftrightarrow> (\<forall>(k, v) \<in> set m. \<not> isEmpty k \<and> \<not> isEmpty v)"
  by (induction m) (auto split: if_splits)

section \<open>The interface of a resource kind\<close>

inductive history ::
  "('o \<Rightarrow> 'o) \<Rightarrow> ('o \<Rightarrow> admission_error option) \<Rightarrow> ('o \<Rightarrow> 'o \<Rightarrow> admission_error option) \<Rightarrow>
   ('t \<Rightarrow> 'o \<Rightarrow> 'o) \<Rightarrow> 'o \<Rightarrow> 'o \<Rightarrow> bool"
  for dflt check check_update set_status where
  created: "check (dflt x) = None \<Longrightarrow> history dflt check check_update set_status (dflt x) (dflt x)"
| updated: "history dflt check check_update set_status first s \<Longrightarrow> check_update s (dflt c) = None \<Longrightarrow>
    history dflt check check_update set_status first (dflt c)"
| status: "history dflt check check_update set_status first s \<Longrightarrow>
    history dflt check check_update set_status first (set_status t s)"

inductive_cases historyE: "history dflt check check_update set_status first s"

locale admission_kind =
  fixes dflt :: "'o \<Rightarrow> 'o"
    and check :: "'o \<Rightarrow> admission_error option"
    and check_update :: "'o \<Rightarrow> 'o \<Rightarrow> admission_error option"
    and set_status :: "'t \<Rightarrow> 'o \<Rightarrow> 'o"
    and frozen :: "'o \<Rightarrow> 'k"
  assumes dflt_idem: "dflt (dflt x) = dflt x"
    and update_iff: "check_update p c = None \<longleftrightarrow> check c = None \<and> frozen p = frozen c"
    and status_check: "check (set_status t x) = check x"
    and status_frozen: "frozen (set_status t x) = frozen x"
    and status_dflt: "dflt (set_status t x) = set_status t (dflt x)"
begin

abbreviation stored :: "'o \<Rightarrow> 'o \<Rightarrow> bool" where
  "stored \<equiv> history dflt check check_update set_status"

lemma stored_frozen: "stored first s \<Longrightarrow> frozen s = frozen first"
  by (induction rule: history.induct) (simp_all add: update_iff status_frozen)

lemma stored_valid: "stored first s \<Longrightarrow> check s = None"
  by (induction rule: history.induct) (simp_all add: update_iff status_check)

lemma stored_defaulted: "stored first s \<Longrightarrow> dflt s = s"
  by (induction rule: history.induct) (simp_all add: dflt_idem status_dflt)

text \<open>Everything the API server keeps of a stored object, in one statement.\<close>

lemma stored_sound: "stored first s \<Longrightarrow> check s = None \<and> dflt s = s \<and> frozen s = frozen first"
  using stored_frozen stored_valid stored_defaulted by blast

text \<open>Submitting what is stored again is accepted and changes nothing.\<close>

lemma stored_reapply: "stored first s \<Longrightarrow> check_update s (dflt s) = None \<and> dflt s = s"
  using stored_defaulted stored_valid by (simp add: update_iff)

text \<open>An update of a stored object is accepted exactly when it is valid and keeps the frozen fields.\<close>

lemma stored_update_iff:
  "stored first s \<Longrightarrow> check_update s (dflt c) = None \<longleftrightarrow>
     check (dflt c) = None \<and> frozen (dflt c) = frozen first"
  using stored_frozen by (auto simp: update_iff)

end

text \<open>The same kind behind the untyped handlers that the webhook server calls.\<close>

locale admission_handler = admission_kind dflt check check_update set_status frozen
  for dflt :: "'o \<Rightarrow> 'o" and check :: "'o \<Rightarrow> admission_error option"
    and check_update :: "'o \<Rightarrow> 'o \<Rightarrow> admission_error option" and set_status :: "'t \<Rightarrow> 'o \<Rightarrow> 'o"
    and frozen :: "'o \<Rightarrow> 'k" +
  fixes inj :: "'o \<Rightarrow> api_object"
    and defaulter :: "api_object \<Rightarrow> admission_error + api_object"
    and validateCreate :: "api_object \<Rightarrow> admission_error option"
    and validateUpdate :: "api_object \<Rightarrow> api_object \<Rightarrow> admission_error option"
  assumes default_inj: "defaulter (inj x) = Inr (inj (dflt x))"
    and create_inj: "validateCreate (inj x) = check x"
    and update_inj: "validateUpdate (inj p) (inj c) = check_update p c"
    and create_other: "ob \<notin> range inj \<Longrightarrow> \<exists>m. validateCreate ob = Some (BadRequest m)"
    and update_other: "ob' \<notin> range inj \<Longrightarrow> \<exists>m. validateUpdate ob ob' = Some (BadRequest m)"
begin

lemma create_accepts_iff: "validateCreate ob = None \<longleftrightarrow> (\<exists>x. ob = inj x \<and> check x = None)"
  using create_inj create_other by (cases "ob \<in> range inj") (auto, force)

lemma update_accepts_new: "validateUpdate ob ob' = None \<Longrightarrow> \<exists>c. ob' = inj c"
  using update_other by (cases "ob' \<in> range inj") (fastforce, metis option.distinct(1))

text \<open>What the server stores after both webhooks accepted an update of a stored object.\<close>

lemma handled_update:
  assumes "stored first s" and "defaulter (inj c) = Inr ob" and "validateUpdate (inj s) ob = None"
  shows "\<exists>d. ob = inj d \<and> stored first d"
  using assms history.updated [of dflt check check_update set_status first s c]
  by (auto simp: default_inj update_inj)

end

end
