(* ===== verification/Admission_Workloads.thy ===== *)
theory Admission_Workloads
  imports Admission_Common
begin

text \<open>
  Admission of the kinds that carry workloads: \<open>ServiceInstance\<close>, \<open>NamespaceClaim\<close>,
  \<open>ServiceBinding\<close>, \<open>VirtualMachineClaim\<close> and \<open>ActionRequest\<close>. Each section has the spec
  check, the create and update validators, the defaulter, the three webhook handlers, and the
  interpretation of \<open>admission_handler\<close> on them. The tuple of frozen fields is what no accepted
  update changes.
\<close>

section \<open>ServiceInstance\<close>

definition validateServiceInstanceSpec :: "service_instance_spec \<Rightarrow> error_list" where
  "validateServiceInstanceSpec spec =
     validateLocalRef (sis_projectRef spec) (NewPath [''spec'', ''projectRef'']) @
     validateLocalRef (sis_serviceClassRef spec) (NewPath [''spec'', ''serviceClassRef'']) @
     validateLocalRef (sis_servicePlanRef spec) (NewPath [''spec'', ''servicePlanRef'']) @
     validateExposure (sis_exposure spec) (NewPath [''spec'', ''exposure'']) @
     validateSecretPolicy (sis_secretPolicy spec) (NewPath [''spec'', ''secretPolicy'']) @
     validateDeletionPolicy (sis_deletionPolicy spec) (NewPath [''spec'', ''deletionPolicy'']) @
     validateJSONMap (sis_parameters spec) (NewPath [''spec'', ''parameters''])"

definition validateServiceInstance :: "service_instance \<Rightarrow> admission_error option" where
  "validateServiceInstance x =
     as_invalid ''ServiceInstance'' (m_name (si_meta x)) (validateServiceInstanceSpec (si_spec x))"

definition validateServiceInstanceUpdate ::
  "service_instance \<Rightarrow> service_instance \<Rightarrow> admission_error option" where
  "validateServiceInstanceUpdate previous current =
     (let p = si_spec previous; c = si_spec current in
      as_invalid ''ServiceInstance'' (m_name (si_meta current))
        (validateServiceInstanceSpec c @
         validateImmutableLocalRef (sis_projectRef p) (sis_projectRef c) (NewPath [''spec'', ''projectRef'']) @
         validateImmutableLocalRef (sis_serviceClassRef p) (sis_serviceClassRef c)
           (NewPath [''spec'', ''serviceClassRef'']) @
         validateImmutableLocalRef (sis_servicePlanRef p) (sis_servicePlanRef c)
           (NewPath [''spec'', ''servicePlanRef''])))"

definition defaultServiceInstance :: "service_instance \<Rightarrow> service_instance" where
  "defaultServiceInstance x =
     (let s = si_spec x in
      x\<lparr>si_spec := s\<lparr>sis_exposure := defaultExposure (sis_exposure s),
                     sis_secretPolicy := defaultSecretPolicy (sis_secretPolicy s),
                     sis_deletionPolicy := defaultDeletion (sis_deletionPolicy s)\<rparr>\<rparr>)"

definition ServiceInstance_Default :: "api_object \<Rightarrow> admission_error + api_object" where
  "ServiceInstance_Default ob =
     (case ob of
        OServiceInstance x \<Rightarrow> Inr (OServiceInstance (defaultServiceInstance x))
      | _ \<Rightarrow> Inl (BadRequest ''expected a ServiceInstance for defaulting''))"

definition ServiceInstance_ValidateCreate :: "api_object \<Rightarrow> admission_error option" where
  "ServiceInstance_ValidateCreate ob =
     (case ob of
        OServiceInstance x \<Rightarrow> validateServiceInstance x
      | _ \<Rightarrow> Some (BadRequest ''expected a ServiceInstance for create validation''))"

definition ServiceInstance_ValidateUpdate :: "api_object \<Rightarrow> api_object \<Rightarrow> admission_error option" where
  "ServiceInstance_ValidateUpdate oldObj newObj =
     (case oldObj of
        OServiceInstance previous \<Rightarrow>
          (case newObj of
             OServiceInstance current \<Rightarrow> validateServiceInstanceUpdate previous current
           | _ \<Rightarrow> Some (BadRequest ''expected a ServiceInstance for new update validation object''))
      | _ \<Rightarrow> Some (BadRequest ''expected a ServiceInstance for old update validation object''))"

lemma validateServiceInstance_None:
  "validateServiceInstance x = None \<longleftrightarrow> validateServiceInstanceSpec (si_spec x) = []"
  by (simp add: validateServiceInstance_def)

abbreviation frozenServiceInstance :: "service_instance \<Rightarrow> local_ref \<times> local_ref \<times> local_ref" where
  "frozenServiceInstance x \<equiv>
     (sis_projectRef (si_spec x), sis_serviceClassRef (si_spec x), sis_servicePlanRef (si_spec x))"

interpretation service_instances: admission_handler defaultServiceInstance validateServiceInstance validateServiceInstanceUpdate
  "\<lambda>t x. x\<lparr>si_status := t\<rparr>" "frozenServiceInstance" OServiceInstance ServiceInstance_Default
  ServiceInstance_ValidateCreate ServiceInstance_ValidateUpdate
proof (unfold_locales, goal_cases)
  case (3 t x)
  show ?case by (simp add: validateServiceInstance_def)
next
  case (9 ob)
  then show ?case by (cases ob) (auto simp: ServiceInstance_ValidateCreate_def)
next
  case (10 ob' ob)
  then show ?case by (cases ob; cases ob') (auto simp: ServiceInstance_ValidateUpdate_def)
qed (auto simp: defaultServiceInstance_def validateServiceInstance_None validateServiceInstanceUpdate_def reject_simps lr_name_eq_iff ServiceInstance_Default_def
       ServiceInstance_ValidateCreate_def ServiceInstance_ValidateUpdate_def Let_def)

section \<open>NamespaceClaim\<close>

text \<open>The create validator repeats the spec check in its own body; the update validator calls it.\<close>

definition validateNamespaceClaimSpec ::
  "(string \<Rightarrow> string list) \<Rightarrow> (string \<Rightarrow> string list) \<Rightarrow> namespace_claim_spec \<Rightarrow> error_list" where
  "validateNamespaceClaimSpec qn lv spec =
     validateLocalRef (ncs_projectRef spec) (NewPath [''spec'', ''projectRef'']) @
     validateDeletionPolicy (ncs_deletionPolicy spec) (NewPath [''spec'', ''deletionPolicy'']) @
     entry_errors (\<lambda>s. s = '''') (NewPath [''spec'', ''quotas'']) ''quota keys must not be empty''
       ''quota values must not be empty'' (ncs_quotas spec) (ncs_quotas spec) @
     validateLabelMap qn lv (ncs_labels spec) (NewPath [''spec'', ''labels''])"

definition validateNamespaceClaim ::
  "(string \<Rightarrow> string list) \<Rightarrow> (string \<Rightarrow> string list) \<Rightarrow> namespace_claim \<Rightarrow> admission_error option" where
  "validateNamespaceClaim qn lv x =
     as_invalid ''NamespaceClaim'' (m_name (nc_meta x))
       (validateLocalRef (ncs_projectRef (nc_spec x)) (NewPath [''spec'', ''projectRef'']) @
        validateDeletionPolicy (ncs_deletionPolicy (nc_spec x)) (NewPath [''spec'', ''deletionPolicy'']) @
        entry_errors (\<lambda>s. s = '''') (NewPath [''spec'', ''quotas'']) ''quota keys must not be empty''
          ''quota values must not be empty'' (ncs_quotas (nc_spec x)) (ncs_quotas (nc_spec x)) @
        validateLabelMap qn lv (ncs_labels (nc_spec x)) (NewPath [''spec'', ''labels'']))"

definition validateNamespaceClaimUpdate ::
  "(string \<Rightarrow> string list) \<Rightarrow> (string \<Rightarrow> string list) \<Rightarrow> namespace_claim \<Rightarrow> namespace_claim \<Rightarrow>
   admission_error option" where
  "validateNamespaceClaimUpdate qn lv previous current =
     as_invalid ''NamespaceClaim'' (m_name (nc_meta current))
       (validateNamespaceClaimSpec qn lv (nc_spec current) @
        validateImmutableLocalRef (ncs_projectRef (nc_spec previous)) (ncs_projectRef (nc_spec current))
          (NewPath [''spec'', ''projectRef'']))"

definition defaultNamespaceClaim :: "namespace_claim \<Rightarrow> namespace_claim" where
  "defaultNamespaceClaim x =
     x\<lparr>nc_spec := (nc_spec x)\<lparr>ncs_deletionPolicy := defaultDeletion (ncs_deletionPolicy (nc_spec x))\<rparr>\<rparr>"

definition NamespaceClaim_Default :: "api_object \<Rightarrow> admission_error + api_object" where
  "NamespaceClaim_Default ob =
     (case ob of
        ONamespaceClaim x \<Rightarrow> Inr (ONamespaceClaim (defaultNamespaceClaim x))
      | _ \<Rightarrow> Inl (BadRequest ''expected a NamespaceClaim for defaulting''))"

definition NamespaceClaim_ValidateCreate :: "(string \<Rightarrow> string list) \<Rightarrow> (string \<Rightarrow> string list) \<Rightarrow> api_object \<Rightarrow> admission_error option" where
  "NamespaceClaim_ValidateCreate qn lv ob =
     (case ob of
        ONamespaceClaim x \<Rightarrow> validateNamespaceClaim qn lv x
      | _ \<Rightarrow> Some (BadRequest ''expected a NamespaceClaim for create validation''))"

definition NamespaceClaim_ValidateUpdate :: "(string \<Rightarrow> string list) \<Rightarrow> (string \<Rightarrow> string list) \<Rightarrow> api_object \<Rightarrow> api_object \<Rightarrow> admission_error option" where
  "NamespaceClaim_ValidateUpdate qn lv oldObj newObj =
     (case oldObj of
        ONamespaceClaim previous \<Rightarrow>
          (case newObj of
             ONamespaceClaim current \<Rightarrow> validateNamespaceClaimUpdate qn lv previous current
           | _ \<Rightarrow> Some (BadRequest ''expected a NamespaceClaim for new update validation object''))
      | _ \<Rightarrow> Some (BadRequest ''expected a NamespaceClaim for old update validation object''))"

lemma validateNamespaceClaim_None:
  "validateNamespaceClaim qn lv x = None \<longleftrightarrow> validateNamespaceClaimSpec qn lv (nc_spec x) = []"
  by (simp add: validateNamespaceClaim_def validateNamespaceClaimSpec_def)

abbreviation frozenNamespaceClaim :: "namespace_claim \<Rightarrow> local_ref" where
  "frozenNamespaceClaim x \<equiv> ncs_projectRef (nc_spec x)"

interpretation namespace_claims: admission_handler defaultNamespaceClaim "validateNamespaceClaim qn lv" "validateNamespaceClaimUpdate qn lv"
  "\<lambda>t x. x\<lparr>nc_status := t\<rparr>" "frozenNamespaceClaim" ONamespaceClaim NamespaceClaim_Default
  "NamespaceClaim_ValidateCreate qn lv" "NamespaceClaim_ValidateUpdate qn lv" for qn lv
proof (unfold_locales, goal_cases)
  case (3 t x)
  show ?case by (simp add: validateNamespaceClaim_def)
next
  case (9 ob)
  then show ?case by (cases ob) (auto simp: NamespaceClaim_ValidateCreate_def)
next
  case (10 ob' ob)
  then show ?case by (cases ob; cases ob') (auto simp: NamespaceClaim_ValidateUpdate_def)
qed (auto simp: defaultNamespaceClaim_def validateNamespaceClaim_None validateNamespaceClaimUpdate_def reject_simps lr_name_eq_iff NamespaceClaim_Default_def
       NamespaceClaim_ValidateCreate_def NamespaceClaim_ValidateUpdate_def Let_def)

section \<open>ServiceBinding\<close>

abbreviation serviceInstanceAPIString :: string where
  "serviceInstanceAPIString \<equiv> ''platform.servicer.io/v1alpha1''"

abbreviation allowedTargetKinds :: "string list" where
  "allowedTargetKinds \<equiv> [''Namespace'', ''Deployment'', ''StatefulSet'', ''DaemonSet'', ''Job'', ''CronJob'', ''Pod'']"

definition validateServiceBindingSpec :: "service_binding_spec \<Rightarrow> error_list" where
  "validateServiceBindingSpec spec =
     (let src = sbs_sourceRef spec; tgt = sbs_targetRef spec in
      validateLocalRef (sbs_projectRef spec) (NewPath [''spec'', ''projectRef'']) @
      validateSecretPolicy (sbs_secretPolicy spec) (NewPath [''spec'', ''secretPolicy'']) @
      validateTypedRef src (NewPath [''spec'', ''sourceRef'']) @
      validateTypedRef tgt (NewPath [''spec'', ''targetRef'']) @
      report (tr_kind src \<noteq> ''ServiceInstance'')
        (NotSupported (NewPath [''spec'', ''sourceRef'', ''kind'']) (VStr (tr_kind src)) [''ServiceInstance'']) @
      report (tr_apiVersion src \<noteq> '''' \<and> tr_apiVersion src \<noteq> serviceInstanceAPIString)
        (Invalid (NewPath [''spec'', ''sourceRef'', ''apiVersion'']) (VStr (tr_apiVersion src))
           (''must be '' @ quote serviceInstanceAPIString)) @
      report (tr_namespace tgt = '''' \<and> tr_name tgt = '''')
        (Required (NewPath [''spec'', ''targetRef'']) ''targetRef must set at least a namespace or a name'') @
      report (tr_kind tgt \<noteq> '''' \<and> \<not> stringInSlice (tr_kind tgt) allowedTargetKinds)
        (NotSupported (NewPath [''spec'', ''targetRef'', ''kind'']) (VStr (tr_kind tgt)) allowedTargetKinds) @
      report (tr_kind tgt \<noteq> '''' \<and> tr_kind tgt \<noteq> ''Namespace'' \<and> blank (tr_name tgt))
        (Required (NewPath [''spec'', ''targetRef'', ''name'']) ''name is required for workload targets''))"

definition validateServiceBinding :: "service_binding \<Rightarrow> admission_error option" where
  "validateServiceBinding x =
     as_invalid ''ServiceBinding'' (m_name (sb_meta x)) (validateServiceBindingSpec (sb_spec x))"

definition validateServiceBindingUpdate ::
  "service_binding \<Rightarrow> service_binding \<Rightarrow> admission_error option" where
  "validateServiceBindingUpdate previous current =
     (let p = sb_spec previous; c = sb_spec current in
      as_invalid ''ServiceBinding'' (m_name (sb_meta current))
        (validateServiceBindingSpec c @
         validateImmutableLocalRef (sbs_projectRef p) (sbs_projectRef c) (NewPath [''spec'', ''projectRef'']) @
         validateImmutableTypedRef (sbs_sourceRef p) (sbs_sourceRef c) (NewPath [''spec'', ''sourceRef'']) @
         validateImmutableTypedRef (sbs_targetRef p) (sbs_targetRef c) (NewPath [''spec'', ''targetRef''])))"

definition defaultServiceBinding :: "service_binding \<Rightarrow> service_binding" where
  "defaultServiceBinding x =
     x\<lparr>sb_spec := (sb_spec x)\<lparr>sbs_secretPolicy := defaultSecretPolicy (sbs_secretPolicy (sb_spec x))\<rparr>\<rparr>"

definition ServiceBinding_Default :: "api_object \<Rightarrow> admission_error + api_object" where
  "ServiceBinding_Default ob =
     (case ob of
        OServiceBinding x \<Rightarrow> Inr (OServiceBinding (defaultServiceBinding x))
      | _ \<Rightarrow> Inl (BadRequest ''expected a ServiceBinding for defaulting''))"

definition ServiceBinding_ValidateCreate :: "api_object \<Rightarrow> admission_error option" where
  "ServiceBinding_ValidateCreate ob =
     (case ob of
        OServiceBinding x \<Rightarrow> validateServiceBinding x
      | _ \<Rightarrow> Some (BadRequest ''expected a ServiceBinding for create validation''))"

definition ServiceBinding_ValidateUpdate :: "api_object \<Rightarrow> api_object \<Rightarrow> admission_error option" where
  "ServiceBinding_ValidateUpdate oldObj newObj =
     (case oldObj of
        OServiceBinding previous \<Rightarrow>
          (case newObj of
             OServiceBinding current \<Rightarrow> validateServiceBindingUpdate previous current
           | _ \<Rightarrow> Some (BadRequest ''expected a ServiceBinding for new update validation object''))
      | _ \<Rightarrow> Some (BadRequest ''expected a ServiceBinding for old update validation object''))"

lemma validateServiceBinding_None:
  "validateServiceBinding x = None \<longleftrightarrow> validateServiceBindingSpec (sb_spec x) = []"
  by (simp add: validateServiceBinding_def)

abbreviation frozenServiceBinding :: "service_binding \<Rightarrow> local_ref \<times> typed_ref \<times> typed_ref" where
  "frozenServiceBinding x \<equiv>
     (sbs_projectRef (sb_spec x), sbs_sourceRef (sb_spec x), sbs_targetRef (sb_spec x))"

interpretation service_bindings: admission_handler defaultServiceBinding validateServiceBinding validateServiceBindingUpdate
  "\<lambda>t x. x\<lparr>sb_status := t\<rparr>" "frozenServiceBinding" OServiceBinding ServiceBinding_Default
  ServiceBinding_ValidateCreate ServiceBinding_ValidateUpdate
proof (unfold_locales, goal_cases)
  case (3 t x)
  show ?case by (simp add: validateServiceBinding_def)
next
  case (9 ob)
  then show ?case by (cases ob) (auto simp: ServiceBinding_ValidateCreate_def)
next
  case (10 ob' ob)
  then show ?case by (cases ob; cases ob') (auto simp: ServiceBinding_ValidateUpdate_def)
qed (auto simp: defaultServiceBinding_def validateServiceBinding_None validateServiceBindingUpdate_def reject_simps lr_name_eq_iff ServiceBinding_Default_def
       ServiceBinding_ValidateCreate_def ServiceBinding_ValidateUpdate_def Let_def)

section \<open>VirtualMachineClaim\<close>

definition validateVirtualMachineClaimSpec :: "virtual_machine_claim_spec \<Rightarrow> error_list" where
  "validateVirtualMachineClaimSpec spec =
     validateLocalRef (vms_projectRef spec) (NewPath [''spec'', ''projectRef'']) @
     validateExposure (vms_exposure spec) (NewPath [''spec'', ''exposure'']) @
     validateSecretPolicy (vms_secretPolicy spec) (NewPath [''spec'', ''secretPolicy'']) @
     validateDeletionPolicy (vms_deletionPolicy spec) (NewPath [''spec'', ''deletionPolicy'']) @
     report (vms_class spec = '''') (Required (NewPath [''spec'', ''class'']) ''class is required'') @
     report (vms_image spec = '''') (Required (NewPath [''spec'', ''image'']) ''image is required'') @
     report (vms_powerState spec \<noteq> '''' \<and> vms_powerState spec \<noteq> ''running'' \<and> vms_powerState spec \<noteq> ''stopped'')
       (NotSupported (NewPath [''spec'', ''powerState'']) (VStr (vms_powerState spec)) [''running'', ''stopped''])"

definition validateVirtualMachineClaim :: "virtual_machine_claim \<Rightarrow> admission_error option" where
  "validateVirtualMachineClaim x =
     as_invalid ''VirtualMachineClaim'' (m_name (vm_meta x)) (validateVirtualMachineClaimSpec (vm_spec x))"

definition validateVirtualMachineClaimUpdate ::
  "virtual_machine_claim \<Rightarrow> virtual_machine_claim \<Rightarrow> admission_error option" where
  "validateVirtualMachineClaimUpdate previous current =
     (let p = vm_spec previous; c = vm_spec current in
      as_invalid ''VirtualMachineClaim'' (m_name (vm_meta current))
        (validateVirtualMachineClaimSpec c @
         validateImmutableLocalRef (vms_projectRef p) (vms_projectRef c) (NewPath [''spec'', ''projectRef'']) @
         validateImmutableString (vms_class p) (vms_class c) (NewPath [''spec'', ''class'']) @
         validateImmutableString (vms_image p) (vms_image c) (NewPath [''spec'', ''image''])))"

definition defaultVirtualMachineClaim :: "virtual_machine_claim \<Rightarrow> virtual_machine_claim" where
  "defaultVirtualMachineClaim x =
     (let s = vm_spec x in
      x\<lparr>vm_spec := s\<lparr>vms_exposure := defaultExposure (vms_exposure s),
                     vms_secretPolicy := defaultSecretPolicy (vms_secretPolicy s),
                     vms_deletionPolicy := defaultDeletion (vms_deletionPolicy s),
                     vms_powerState := (if vms_powerState s = '''' then ''running'' else vms_powerState s)\<rparr>\<rparr>)"

definition VirtualMachineClaim_Default :: "api_object \<Rightarrow> admission_error + api_object" where
  "VirtualMachineClaim_Default ob =
     (case ob of
        OVirtualMachineClaim x \<Rightarrow> Inr (OVirtualMachineClaim (defaultVirtualMachineClaim x))
      | _ \<Rightarrow> Inl (BadRequest ''expected a VirtualMachineClaim for defaulting''))"

definition VirtualMachineClaim_ValidateCreate :: "api_object \<Rightarrow> admission_error option" where
  "VirtualMachineClaim_ValidateCreate ob =
     (case ob of
        OVirtualMachineClaim x \<Rightarrow> validateVirtualMachineClaim x
      | _ \<Rightarrow> Some (BadRequest ''expected a VirtualMachineClaim for create validation''))"

definition VirtualMachineClaim_ValidateUpdate :: "api_object \<Rightarrow> api_object \<Rightarrow> admission_error option" where
  "VirtualMachineClaim_ValidateUpdate oldObj newObj =
     (case oldObj of
        OVirtualMachineClaim previous \<Rightarrow>
          (case newObj of
             OVirtualMachineClaim current \<Rightarrow> validateVirtualMachineClaimUpdate previous current
           | _ \<Rightarrow> Some (BadRequest ''expected a VirtualMachineClaim for new update validation object''))
      | _ \<Rightarrow> Some (BadRequest ''expected a VirtualMachineClaim for old update validation object''))"

lemma validateVirtualMachineClaim_None:
  "validateVirtualMachineClaim x = None \<longleftrightarrow> validateVirtualMachineClaimSpec (vm_spec x) = []"
  by (simp add: validateVirtualMachineClaim_def)

abbreviation frozenVirtualMachineClaim :: "virtual_machine_claim \<Rightarrow> local_ref \<times> string \<times> string" where
  "frozenVirtualMachineClaim x \<equiv>
     (vms_projectRef (vm_spec x), vms_class (vm_spec x), vms_image (vm_spec x))"

interpretation vm_claims: admission_handler defaultVirtualMachineClaim validateVirtualMachineClaim validateVirtualMachineClaimUpdate
  "\<lambda>t x. x\<lparr>vm_status := t\<rparr>" "frozenVirtualMachineClaim" OVirtualMachineClaim VirtualMachineClaim_Default
  VirtualMachineClaim_ValidateCreate VirtualMachineClaim_ValidateUpdate
proof (unfold_locales, goal_cases)
  case (3 t x)
  show ?case by (simp add: validateVirtualMachineClaim_def)
next
  case (9 ob)
  then show ?case by (cases ob) (auto simp: VirtualMachineClaim_ValidateCreate_def)
next
  case (10 ob' ob)
  then show ?case by (cases ob; cases ob') (auto simp: VirtualMachineClaim_ValidateUpdate_def)
qed (auto simp: defaultVirtualMachineClaim_def validateVirtualMachineClaim_None validateVirtualMachineClaimUpdate_def reject_simps lr_name_eq_iff VirtualMachineClaim_Default_def
       VirtualMachineClaim_ValidateCreate_def VirtualMachineClaim_ValidateUpdate_def Let_def)

section \<open>ActionRequest\<close>

definition validateActionRequestSpec :: "action_request_spec \<Rightarrow> error_list" where
  "validateActionRequestSpec spec =
     validateTypedRef (ars_targetRef spec) (NewPath [''spec'', ''targetRef'']) @
     report (blank (ars_action spec)) (Required (NewPath [''spec'', ''action'']) ''action is required'') @
     report (blank (ars_idempotencyKey spec))
       (Required (NewPath [''spec'', ''idempotencyKey'']) ''idempotencyKey is required'') @
     (if ap_mode (ars_approval spec) = ''''
      then [Required (NewPath [''spec'', ''approval'', ''mode'']) ''mode is required'']
      else report (\<not> isSupportedApprovalMode (ap_mode (ars_approval spec)))
        (NotSupported (NewPath [''spec'', ''approval'', ''mode'']) (VStr (ap_mode (ars_approval spec)))
           supportedApprovalModes)) @
     report (blank (rb_subject (ars_requestedBy spec)))
       (Required (NewPath [''spec'', ''requestedBy'', ''subject'']) ''subject is required'') @
     (if rb_source (ars_requestedBy spec) = ''''
      then [Required (NewPath [''spec'', ''requestedBy'', ''source'']) ''source is required'']
      else report (\<not> isSupportedRequestSource (rb_source (ars_requestedBy spec)))
        (NotSupported (NewPath [''spec'', ''requestedBy'', ''source'']) (VStr (rb_source (ars_requestedBy spec)))
           supportedRequestSources))"

definition validateActionRequest :: "action_request \<Rightarrow> admission_error option" where
  "validateActionRequest x =
     as_invalid ''ActionRequest'' (m_name (ar_meta x)) (validateActionRequestSpec (ar_spec x))"

definition validateActionRequestUpdate :: "action_request \<Rightarrow> action_request \<Rightarrow> admission_error option" where
  "validateActionRequestUpdate previous current =
     (let p = ar_spec previous; c = ar_spec current in
      as_invalid ''ActionRequest'' (m_name (ar_meta current))
        (validateActionRequestSpec c @
         validateImmutableTypedRef (ars_targetRef p) (ars_targetRef c) (NewPath [''spec'', ''targetRef'']) @
         validateImmutableString (ars_action p) (ars_action c) (NewPath [''spec'', ''action'']) @
         validateImmutableString (ars_idempotencyKey p) (ars_idempotencyKey c)
           (NewPath [''spec'', ''idempotencyKey''])))"

definition defaultActionRequest :: "action_request \<Rightarrow> action_request" where
  "defaultActionRequest x =
     (let s = ar_spec x; a = ars_approval s; r = ars_requestedBy s in
      x\<lparr>ar_spec := s\<lparr>ars_approval := (if ap_mode a = '''' then a\<lparr>ap_mode := ApprovalModeAuto\<rparr> else a),
                     ars_requestedBy := (if rb_source r = '''' then r\<lparr>rb_source := RequestSourceAPI\<rparr> else r)\<rparr>\<rparr>)"

definition ActionRequest_Default :: "api_object \<Rightarrow> admission_error + api_object" where
  "ActionRequest_Default ob =
     (case ob of
        OActionRequest x \<Rightarrow> Inr (OActionRequest (defaultActionRequest x))
      | _ \<Rightarrow> Inl (BadRequest ''expected an ActionRequest for defaulting''))"

definition ActionRequest_ValidateCreate :: "api_object \<Rightarrow> admission_error option" where
  "ActionRequest_ValidateCreate ob =
     (case ob of
        OActionRequest x \<Rightarrow> validateActionRequest x
      | _ \<Rightarrow> Some (BadRequest ''expected an ActionRequest for create validation''))"

definition ActionRequest_ValidateUpdate :: "api_object \<Rightarrow> api_object \<Rightarrow> admission_error option" where
  "ActionRequest_ValidateUpdate oldObj newObj =
     (case oldObj of
        OActionRequest previous \<Rightarrow>
          (case newObj of
             OActionRequest current \<Rightarrow> validateActionRequestUpdate previous current
           | _ \<Rightarrow> Some (BadRequest ''expected an ActionRequest for new update validation object''))
      | _ \<Rightarrow> Some (BadRequest ''expected an ActionRequest for old update validation object''))"

lemma validateActionRequest_None:
  "validateActionRequest x = None \<longleftrightarrow> validateActionRequestSpec (ar_spec x) = []"
  by (simp add: validateActionRequest_def)

abbreviation frozenActionRequest :: "action_request \<Rightarrow> typed_ref \<times> string \<times> string" where
  "frozenActionRequest x \<equiv>
     (ars_targetRef (ar_spec x), ars_action (ar_spec x), ars_idempotencyKey (ar_spec x))"

interpretation action_requests: admission_handler defaultActionRequest validateActionRequest validateActionRequestUpdate
  "\<lambda>t x. x\<lparr>ar_status := t\<rparr>" "frozenActionRequest" OActionRequest ActionRequest_Default
  ActionRequest_ValidateCreate ActionRequest_ValidateUpdate
proof (unfold_locales, goal_cases)
  case (3 t x)
  show ?case by (simp add: validateActionRequest_def)
next
  case (9 ob)
  then show ?case by (cases ob) (auto simp: ActionRequest_ValidateCreate_def)
next
  case (10 ob' ob)
  then show ?case by (cases ob; cases ob') (auto simp: ActionRequest_ValidateUpdate_def)
qed (auto simp: defaultActionRequest_def validateActionRequest_None validateActionRequestUpdate_def reject_simps ActionRequest_Default_def
       ActionRequest_ValidateCreate_def ActionRequest_ValidateUpdate_def Let_def)

end
