(* ===== verification/Action_Machine.thy ===== *)
theory Action_Machine
  imports Action_Request Admission_Workloads
begin

text \<open>
  \<open>ActionRequestReconciler.Reconcile\<close> twice. \<open>Reconcile\<close> is the function, one run with nobody
  else writing. \<open>mstep\<close> is the same run cut at its API calls, between which the request may be
  updated (through the webhook), relabelled or deleted, and after any of which the controller may
  stop and start over. A merge patch of the status writes the fields that changed, with no
  precondition on the resource version, as \<open>client.MergeFrom\<close> does. The log records every side
  effect that was started and every result that was written back. Reads return the request as it is
  stored; \<open>Action_Cache\<close> puts the manager's cache between the machine and the stored request.
\<close>

section \<open>Backups in flight\<close>

text \<open>
  An unstructured object is read through \<open>unstructured.NestedString\<close> only: it is the function
  from the field path to the string, empty where there is none.
\<close>

type_synonym unstructured = "string list \<Rightarrow> string"

fun firstNonEmptyString :: "string list \<Rightarrow> string" where
  "firstNonEmptyString [] = ''''"
| "firstNonEmptyString (v # vs) = (if \<not> blank v then v else firstNonEmptyString vs)"

definition cnpgBackupExecutionResult :: "unstructured \<Rightarrow> typed_ref \<Rightarrow> action_execution_result" where
  "cnpgBackupExecutionResult backup ref =
     (let phase = map ascii_lower (trimSpace (backup [''status'', ''phase'']));
          errorText = firstNonEmptyString
            [trimSpace (backup [''status'', ''error'']), trimSpace (backup [''status'', ''commandError'']),
             trimSpace (backup [''status'', ''failure'']), trimSpace (backup [''status'', ''message''])];
          name = tr_namespace ref @ ''/'' @ tr_name ref;
          failed = (\<lambda>text. \<lparr>ae_Phase = ''Failed'', ae_OperationRef = Some ref,
            ae_Message = ''CNPG Backup '' @ name @ '' failed: '' @ text @ ''.'', ae_Retryable = True\<rparr>)
      in
      if phase \<in> {''completed'', ''succeeded'', ''success'', ''done''}
      then \<lparr>ae_Phase = ''Succeeded'', ae_OperationRef = Some ref,
             ae_Message = ''CNPG Backup '' @ name @ '' completed successfully.'', ae_Retryable = False\<rparr>
      else if phase \<in> {''failed'', ''error''}
      then failed (if errorText = '''' then ''backup reported a failed phase'' else errorText)
      else if errorText \<noteq> '''' then failed errorText
      else if phase \<in> {'''', ''pending'', ''queued'', ''starting''}
      then \<lparr>ae_Phase = ''Queued'', ae_OperationRef = Some ref,
             ae_Message = ''CNPG Backup '' @ name @ '' is queued.'', ae_Retryable = True\<rparr>
      else \<lparr>ae_Phase = ''Running'', ae_OperationRef = Some ref,
             ae_Message = ''CNPG Backup '' @ name @ '' is running (phase='' @ phase @ '').'', ae_Retryable = True\<rparr>)"

text \<open>
  The patch of \<open>reconcileInFlightAction\<close>, if it makes one: nothing for operations that are not
  CNPG backups with a complete reference, nor when the backup cannot be read for another reason
  than its absence.
\<close>

definition inFlightPatch ::
  "set_condition \<Rightarrow> (typed_ref \<Rightarrow> api_error + unstructured) \<Rightarrow> resolvedActionRequest \<Rightarrow> action_request \<Rightarrow>
   status_patch option" where
  "inFlightPatch setc getBackup resolved ar =
     (if pc_RuntimeDriver (ad_Contract (ra_adapter resolved)) \<noteq> ''cnpg'' \<or> ars_action (ar_spec ar) \<noteq> ActionBackup
      then None
      else (case art_operationRef (ar_status ar) of
              None \<Rightarrow> None
            | Some ref \<Rightarrow>
                if tr_kind ref \<noteq> ''Backup'' \<or> tr_apiVersion ref \<noteq> ''postgresql.cnpg.io/v1'' \<or>
                   tr_name ref = '''' \<or> tr_namespace ref = '''' then None
                else (case getBackup ref of
                        Inl NotFound \<Rightarrow> Some (patchInFlightMissing setc ref)
                      | Inl _ \<Rightarrow> None
                      | Inr backup \<Rightarrow> Some (patchInFlightResult setc (cnpgBackupExecutionResult backup ref)))))"

section \<open>The decisions of one run\<close>

datatype decision =
    DReturn "resolve_error option"
  | DPatch status_patch bool
  | DPrepare resolvedActionRequest

text \<open>The flag of \<open>DPatch\<close> asks for another run in 30 seconds.\<close>

definition decide :: "set_condition \<Rightarrow> registry option \<Rightarrow> cluster_reader \<Rightarrow> action_request \<Rightarrow> decision" where
  "decide setc reg rd ar =
     (if actionAlreadySubmitted (ar_status ar) (generationOf ar) then DReturn None
      else
        (case resolveAction reg rd ar of
           Inl (ResolutionError err) \<Rightarrow> DPatch (patchResolutionFailed setc err) (re_requeue err)
         | Inl (PlainError err) \<Rightarrow> DReturn (Some (PlainError err))
         | Inr resolved \<Rightarrow>
             if approvalPending ar (ra_capability resolved) \<and>
                art_operationState (ar_status ar) = actionOperationStateApplied
             then DPatch (patchApprovalInvalidState setc) False
             else if approvalPending ar (ra_capability resolved) then DPatch (patchPendingApproval setc) False
             else if ap_mode (ars_approval (ar_spec ar)) = ApprovalModeRejected
             then DPatch (patchApprovalRejected setc) False
             else if approvalApprovedWithoutApprover ar (ra_capability resolved)
             then DPatch (patchApprovalInvalid setc) False
             else DPrepare resolved))"

datatype continuation = CStop | CInFlight | CInvalidState | CExecute

definition afterPrepare :: "action_request \<Rightarrow> continuation" where
  "afterPrepare prepared =
     (let state = art_operationState (ar_status prepared) in
      if state = actionOperationStateApplied then CInFlight
      else if \<not> validActionOperationState state then CInvalidState
      else if state \<noteq> actionOperationStatePrepared then CStop
      else CExecute)"

section \<open>One run, uninterrupted\<close>

datatype event =
    Ran resolvedActionRequest action_request action_request
  | Committed int

record reconcile_env =
  en_setc :: set_condition
  en_adapters :: "registry option"
  en_reader :: cluster_reader
  en_now :: time
  en_backup :: "typed_ref \<Rightarrow> api_error + unstructured"
  en_execute :: "resolvedActionRequest \<Rightarrow> action_request \<Rightarrow> string \<Rightarrow> go_error + action_execution_result"
  en_errorText :: "go_error \<Rightarrow> string"

text \<open>\<open>patchActionRequestStatus\<close> when nobody else writes.\<close>

definition patchStatus :: "reconcile_env \<Rightarrow> status_patch \<Rightarrow> action_request \<Rightarrow> action_request" where
  "patchStatus env p ar = ar\<lparr>ar_status := p (en_now env) ar\<rparr>"

definition runPrepared ::
  "reconcile_env \<Rightarrow> resolvedActionRequest \<Rightarrow> action_request \<Rightarrow> action_request \<Rightarrow> action_request \<times> event list" where
  "runPrepared env resolved ar prepared =
     (case afterPrepare prepared of
        CStop \<Rightarrow> (prepared, [])
      | CInvalidState \<Rightarrow> (patchStatus env (patchInvalidOperationState (en_setc env)) prepared, [])
      | CInFlight \<Rightarrow>
          (case inFlightPatch (en_setc env) (en_backup env) resolved prepared of
             None \<Rightarrow> (prepared, [])
           | Some p \<Rightarrow> (patchStatus env p prepared, []))
      | CExecute \<Rightarrow>
          (let g = art_observedGeneration (ar_status prepared);
               p = (case en_execute env resolved prepared (art_operationID (ar_status prepared)) of
                      Inl err \<Rightarrow> patchExecutionFailed (en_setc env) (en_errorText env err)
                    | Inr result \<Rightarrow> patchExecuted (en_setc env) result)
           in (patchStatus env p prepared, [Committed g, Ran resolved ar prepared])))"

definition Reconcile :: "reconcile_env \<Rightarrow> action_request \<Rightarrow> action_request \<times> event list" where
  "Reconcile env ar =
     (case decide (en_setc env) (en_adapters env) (en_reader env) ar of
        DReturn _ \<Rightarrow> (ar, [])
      | DPatch p _ \<Rightarrow> (patchStatus env p ar, [])
      | DPrepare resolved \<Rightarrow> runPrepared env resolved ar (patchStatus env (patchPrepare (en_setc env)) ar))"

section \<open>The run among other writers\<close>

text \<open>
  The status after \<open>client.MergeFrom\<close>'s JSON merge patch: what differs between the status read
  (\<open>b\<close>) and the new one (\<open>n\<close>) is written over the server's (\<open>s\<close>), member by member also within the
  nested objects; an empty namespace of \<open>operationRef\<close> is not in the JSON, its other members always are.
\<close>

definition mergeField :: "'a \<Rightarrow> 'a \<Rightarrow> 'a \<Rightarrow> 'a" where
  "mergeField before new server = (if before = new then server else new)"

definition mergeResult :: "action_result_status \<Rightarrow> action_result_status \<Rightarrow> action_result_status \<Rightarrow> action_result_status" where
  "mergeResult b n s =
     \<lparr>res_code = mergeField (res_code b) (res_code n) (res_code s),
      res_message = mergeField (res_message b) (res_message n) (res_message s),
      res_retryable = mergeField (res_retryable b) (res_retryable n) (res_retryable s)\<rparr>"

definition mergeRef :: "typed_ref option \<Rightarrow> typed_ref option \<Rightarrow> typed_ref option \<Rightarrow> typed_ref option" where
  "mergeRef b n s =
     (let text = (\<lambda>f r. case r of None \<Rightarrow> '''' | Some x \<Rightarrow> f x);
          member = (\<lambda>f. mergeField (text f b) (text f n) (text f s));
          always = (\<lambda>f. if b = None then text f n else member f)
      in if b = n then s
         else if n = None then None
         else Some \<lparr>tr_apiVersion = always tr_apiVersion, tr_kind = always tr_kind, tr_name = always tr_name,
                    tr_namespace = member tr_namespace\<rparr>)"

definition mergeStatus ::
  "action_request_status \<Rightarrow> action_request_status \<Rightarrow> action_request_status \<Rightarrow> action_request_status" where
  "mergeStatus b n s =
     \<lparr>art_observedGeneration =
        mergeField (art_observedGeneration b) (art_observedGeneration n) (art_observedGeneration s),
      art_phase = mergeField (art_phase b) (art_phase n) (art_phase s),
      art_conditions = mergeField (art_conditions b) (art_conditions n) (art_conditions s),
      art_startedAt = mergeField (art_startedAt b) (art_startedAt n) (art_startedAt s),
      art_completedAt = mergeField (art_completedAt b) (art_completedAt n) (art_completedAt s),
      art_operationRef = mergeRef (art_operationRef b) (art_operationRef n) (art_operationRef s),
      art_operationID = mergeField (art_operationID b) (art_operationID n) (art_operationID s),
      art_operationState = mergeField (art_operationState b) (art_operationState n) (art_operationState s),
      art_result = mergeResult (art_result b) (art_result n) (art_result s)\<rparr>"

lemma mergeField_same [simp]: "mergeField b n b = n"
  by (simp add: mergeField_def)

lemma mergeResult_same [simp]: "mergeResult b n b = n"
  by (cases n) (simp add: mergeResult_def)

lemma mergeRef_same [simp]: "mergeRef b n b = n"
  by (cases b; cases n) (auto simp: mergeRef_def mergeField_def Let_def)

lemma mergeStatus_same [simp]: "mergeStatus b n b = n"
  by (cases n) (simp add: mergeStatus_def)

text \<open>What a run does with the object that a patch returns.\<close>

datatype kont =
    KReturn
  | KPrepared resolvedActionRequest action_request
  | KCommit int

datatype pc =
    Idle
  | Got action_request
  | PatchRead status_patch kont
  | PatchWrite action_request action_request_status kont
  | Resume kont action_request
  | Execute resolvedActionRequest action_request action_request

record machine =
  mc_obj :: "action_request option"
  mc_pc :: pc
  mc_log :: "event list"

inductive mstep :: "set_condition \<Rightarrow> registry option \<Rightarrow> machine \<Rightarrow> machine \<Rightarrow> bool"
  for setc reg where
  get: "mc_pc m = Idle \<Longrightarrow> mc_obj m = Some ob \<Longrightarrow> mstep setc reg m (m\<lparr>mc_pc := Got ob\<rparr>)"
| decide_return: "mc_pc m = Got s \<Longrightarrow> decide setc reg rd s = DReturn e \<Longrightarrow>
    mstep setc reg m (m\<lparr>mc_pc := Idle\<rparr>)"
| decide_patch: "mc_pc m = Got s \<Longrightarrow> decide setc reg rd s = DPatch p again \<Longrightarrow>
    mstep setc reg m (m\<lparr>mc_pc := PatchRead p KReturn\<rparr>)"
| decide_prepare: "mc_pc m = Got s \<Longrightarrow> decide setc reg rd s = DPrepare r \<Longrightarrow>
    mstep setc reg m (m\<lparr>mc_pc := PatchRead (patchPrepare setc) (KPrepared r s)\<rparr>)"
| patch_same: "mc_pc m = PatchRead p k \<Longrightarrow> mc_obj m = Some ob \<Longrightarrow> p now ob = ar_status ob \<Longrightarrow>
    mstep setc reg m (m\<lparr>mc_pc := Resume k ob\<rparr>)"
| patch_read: "mc_pc m = PatchRead p k \<Longrightarrow> mc_obj m = Some ob \<Longrightarrow> p now ob \<noteq> ar_status ob \<Longrightarrow>
    mstep setc reg m (m\<lparr>mc_pc := PatchWrite ob (p now ob) k\<rparr>)"
| patch_write: "mc_pc m = PatchWrite before st k \<Longrightarrow> mc_obj m = Some ob \<Longrightarrow>
    ob' = ob\<lparr>ar_status := mergeStatus (ar_status before) st (ar_status ob)\<rparr> \<Longrightarrow>
    mstep setc reg m (m\<lparr>mc_obj := Some ob', mc_pc := Resume k ob'\<rparr>)"
| resume_return: "mc_pc m = Resume KReturn ob \<Longrightarrow> mstep setc reg m (m\<lparr>mc_pc := Idle\<rparr>)"
| resume_commit: "mc_pc m = Resume (KCommit g) ob \<Longrightarrow>
    mstep setc reg m (m\<lparr>mc_pc := Idle, mc_log := Committed g # mc_log m\<rparr>)"
| resume_stop: "mc_pc m = Resume (KPrepared r s) ob \<Longrightarrow> afterPrepare ob = CStop \<Longrightarrow>
    mstep setc reg m (m\<lparr>mc_pc := Idle\<rparr>)"
| resume_invalid: "mc_pc m = Resume (KPrepared r s) ob \<Longrightarrow> afterPrepare ob = CInvalidState \<Longrightarrow>
    mstep setc reg m (m\<lparr>mc_pc := PatchRead (patchInvalidOperationState setc) KReturn\<rparr>)"
| resume_unhandled: "mc_pc m = Resume (KPrepared r s) ob \<Longrightarrow> afterPrepare ob = CInFlight \<Longrightarrow>
    inFlightPatch setc getBackup r ob = None \<Longrightarrow> mstep setc reg m (m\<lparr>mc_pc := Idle\<rparr>)"
| resume_inflight: "mc_pc m = Resume (KPrepared r s) ob \<Longrightarrow> afterPrepare ob = CInFlight \<Longrightarrow>
    inFlightPatch setc getBackup r ob = Some p \<Longrightarrow> mstep setc reg m (m\<lparr>mc_pc := PatchRead p KReturn\<rparr>)"
| resume_execute: "mc_pc m = Resume (KPrepared r s) ob \<Longrightarrow> afterPrepare ob = CExecute \<Longrightarrow>
    mstep setc reg m (m\<lparr>mc_pc := Execute r s ob, mc_log := Ran r s ob # mc_log m\<rparr>)"
| executed: "mc_pc m = Execute r s ob \<Longrightarrow>
    p = patchExecuted setc result \<or> p = patchExecutionFailed setc errorText \<Longrightarrow>
    mstep setc reg m (m\<lparr>mc_pc := PatchRead p (KCommit (art_observedGeneration (ar_status ob)))\<rparr>)"
| stop: "mstep setc reg m (m\<lparr>mc_pc := Idle\<rparr>)"
| spec_update: "mc_obj m = Some ob \<Longrightarrow> validateActionRequestUpdate ob ob' = None \<Longrightarrow>
    ar_status ob' = ar_status ob \<Longrightarrow> m_uid (ar_meta ob') = m_uid (ar_meta ob) \<Longrightarrow>
    m_name (ar_meta ob') = m_name (ar_meta ob) \<Longrightarrow> generationOf ob' = generationOf ob + 1 \<Longrightarrow>
    mstep setc reg m (m\<lparr>mc_obj := Some ob'\<rparr>)"
| meta_update: "mc_obj m = Some ob \<Longrightarrow> m_uid meta = m_uid (ar_meta ob) \<Longrightarrow>
    m_name meta = m_name (ar_meta ob) \<Longrightarrow> m_generation meta = generationOf ob \<Longrightarrow>
    mstep setc reg m (m\<lparr>mc_obj := Some (ob\<lparr>ar_meta := meta\<rparr>)\<rparr>)"
| delete: "mstep setc reg m (m\<lparr>mc_obj := None\<rparr>)"

text \<open>A request as the API server first stores it: no status, generation one.\<close>

definition initial :: "action_request \<Rightarrow> machine \<Rightarrow> bool" where
  "initial ar m \<longleftrightarrow>
     mc_obj m = Some ar \<and> mc_pc m = Idle \<and> mc_log m = [] \<and> generationOf ar = 1 \<and>
     art_observedGeneration (ar_status ar) = 0 \<and> art_phase (ar_status ar) = '''' \<and>
     art_operationID (ar_status ar) = '''' \<and> art_operationState (ar_status ar) = ''''"

inductive reachable :: "set_condition \<Rightarrow> registry option \<Rightarrow> action_request \<Rightarrow> machine \<Rightarrow> bool"
  for setc reg ar where
  start: "initial ar m \<Longrightarrow> reachable setc reg ar m"
| step: "reachable setc reg ar m \<Longrightarrow> mstep setc reg m m' \<Longrightarrow> reachable setc reg ar m'"

end
