(* ===== verification/Action_Safety.thy ===== *)
theory Action_Safety
  imports Action_Machine
begin

text \<open>
  Invariants of the action controller among other writers (\<open>Action_Machine\<close>), by induction over
  its steps, and their reading: what ran was approved when it was looked at, under an operation ID
  that belongs to one generation, and, with reads that see what is stored (\<open>Action_Cache\<close> drops that),
  never again after its result was written.
\<close>

section \<open>The invariant\<close>

text \<open>\<open>sameline a b\<close>: \<open>b\<close> is the request \<open>a\<close>, possibly after accepted updates of its spec.\<close>

definition sameline :: "action_request \<Rightarrow> action_request \<Rightarrow> bool" where
  "sameline a b \<longleftrightarrow>
     m_uid (ar_meta a) = m_uid (ar_meta b) \<and> m_name (ar_meta a) = m_name (ar_meta b) \<and>
     generationOf a \<le> generationOf b \<and> (generationOf a = generationOf b \<longrightarrow> ar_spec a = ar_spec b) \<and>
     frozenActionRequest a = frozenActionRequest b"

definition approved :: "resolvedActionRequest \<Rightarrow> action_request \<Rightarrow> bool" where
  "approved r s \<longleftrightarrow>
     \<not> approvalPending s (ra_capability r) \<and> ap_mode (ars_approval (ar_spec s)) \<noteq> ApprovalModeRejected \<and>
     \<not> approvalApprovedWithoutApprover s (ra_capability r)"

definition op_ok :: "string \<Rightarrow> string \<Rightarrow> int set \<Rightarrow> int \<Rightarrow> action_request_status \<Rightarrow> bool" where
  "op_ok U N D g st \<longleftrightarrow>
     art_observedGeneration st \<le> g \<and>
     (art_operationState st = actionOperationStatePrepared \<longrightarrow>
        art_operationID st = operationID U N (art_observedGeneration st)) \<and>
     (art_operationState st = '''' \<longrightarrow> art_operationID st = '''') \<and>
     (\<forall>x \<in> D. x \<le> art_observedGeneration st \<and>
        (art_operationState st \<in> {'''', actionOperationStatePrepared} \<longrightarrow> x < art_observedGeneration st)) \<and>
     (art_operationState st = actionOperationStateComplete \<longrightarrow> terminalPhase (art_phase st)) \<and>
     art_operationState st \<in> {'''', actionOperationStatePrepared, actionOperationStateApplied,
       actionOperationStateComplete}"

definition commits :: "kont \<Rightarrow> int set" where
  "commits k = (case k of KCommit g \<Rightarrow> {g} | _ \<Rightarrow> {})"

definition committed :: "event list \<Rightarrow> int set" where
  "committed log = {g. Committed g \<in> set log}"

definition kont_ok :: "kont \<Rightarrow> action_request \<Rightarrow> bool" where
  "kont_ok k ob = (case k of KPrepared r s \<Rightarrow> approved r s \<and> sameline s ob | _ \<Rightarrow> True)"

text \<open>A patch that is still to be computed is right for every later state of the request.\<close>

definition patch_ok :: "string \<Rightarrow> string \<Rightarrow> int set \<Rightarrow> status_patch \<Rightarrow> action_request \<Rightarrow> bool" where
  "patch_ok U N D p ob \<longleftrightarrow>
     (\<forall>now c. sameline ob c \<and> ar_status c = ar_status ob \<longrightarrow> op_ok U N D (generationOf c) (p now c))"

definition in_sync :: "action_request \<Rightarrow> action_request option \<Rightarrow> bool" where
  "in_sync c obj \<longleftrightarrow> (\<forall>ob. obj = Some ob \<longrightarrow> sameline c ob \<and> ar_status c = ar_status ob)"

fun pc_ok :: "string \<Rightarrow> string \<Rightarrow> int set \<Rightarrow> action_request option \<Rightarrow> pc \<Rightarrow> bool" where
  "pc_ok U N D obj Idle = True"
| "pc_ok U N D obj (Got s) = (op_ok U N D (generationOf s) (ar_status s) \<and> in_sync s obj)"
| "pc_ok U N D obj (PatchRead p k) =
     (\<forall>ob. obj = Some ob \<longrightarrow> patch_ok U N (D \<union> commits k) p ob \<and> kont_ok k ob)"
| "pc_ok U N D obj (PatchWrite c st k) =
     (in_sync c obj \<and> op_ok U N (D \<union> commits k) (generationOf c) st \<and> kont_ok k c)"
| "pc_ok U N D obj (Resume k p) =
     (in_sync p obj \<and> op_ok U N (D \<union> commits k) (generationOf p) (ar_status p) \<and> kont_ok k p)"
| "pc_ok U N D obj (Execute r s p) =
     (in_sync p obj \<and> op_ok U N D (generationOf p) (ar_status p))"

definition ran_ok :: "string \<Rightarrow> string \<Rightarrow> resolvedActionRequest \<Rightarrow> action_request \<Rightarrow> action_request \<Rightarrow> bool" where
  "ran_ok U N r s p \<longleftrightarrow>
     approved r s \<and> sameline s p \<and>
     art_operationID (ar_status p) = operationID U N (art_observedGeneration (ar_status p)) \<and>
     art_observedGeneration (ar_status p) \<le> generationOf p"

fun log_ok :: "string \<Rightarrow> string \<Rightarrow> event list \<Rightarrow> bool" where
  "log_ok U N [] = True"
| "log_ok U N (Committed g # log) = log_ok U N log"
| "log_ok U N (Ran r s p # log) =
     (ran_ok U N r s p \<and> Committed (art_observedGeneration (ar_status p)) \<notin> set log \<and> log_ok U N log)"

definition inv :: "string \<Rightarrow> string \<Rightarrow> machine \<Rightarrow> bool" where
  "inv U N m \<longleftrightarrow>
     (\<forall>ob. mc_obj m = Some ob \<longrightarrow>
        m_uid (ar_meta ob) = U \<and> m_name (ar_meta ob) = N \<and>
        op_ok U N (committed (mc_log m)) (generationOf ob) (ar_status ob)) \<and>
     pc_ok U N (committed (mc_log m)) (mc_obj m) (mc_pc m) \<and> log_ok U N (mc_log m)"

section \<open>Lemmas on the parts\<close>

lemma sameline_refl [simp]: "sameline a a"
  by (simp add: sameline_def)

lemma sameline_trans: "sameline a b \<Longrightarrow> sameline b c \<Longrightarrow> sameline a c"
  unfolding sameline_def by auto

lemma sameline_status [simp]:
  "sameline a (b\<lparr>ar_status := st\<rparr>) = sameline a b" "sameline (a\<lparr>ar_status := st\<rparr>) b = sameline a b"
  by (simp_all add: sameline_def generationOf_def)

lemma generationOf_status [simp]: "generationOf (b\<lparr>ar_status := st\<rparr>) = generationOf b"
  by (simp add: generationOf_def)

lemma op_ok_mono: "op_ok U N D g st \<Longrightarrow> g \<le> h \<Longrightarrow> op_ok U N D h st"
  by (auto simp: op_ok_def)

lemma op_ok_subset: "op_ok U N D g st \<Longrightarrow> E \<subseteq> D \<Longrightarrow> op_ok U N E g st"
  unfolding op_ok_def by blast

lemma commits_simps [simp]:
  "commits KReturn = {}" "commits (KPrepared r s) = {}" "commits (KCommit g) = {g}"
  by (simp_all add: commits_def)

lemma committed_simps [simp]:
  "committed [] = {}" "committed (Committed g # log) = insert g (committed log)"
  "committed (Ran r s p # log) = committed log"
  by (auto simp: committed_def)

lemma patch_ok_later: "patch_ok U N D p a \<Longrightarrow> sameline a b \<Longrightarrow> ar_status b = ar_status a \<Longrightarrow> patch_ok U N D p b"
  unfolding patch_ok_def using sameline_trans by metis

lemma kont_ok_later: "kont_ok k a \<Longrightarrow> sameline a b \<Longrightarrow> kont_ok k b"
  unfolding kont_ok_def using sameline_trans by (auto split: kont.splits)

text \<open>Patches that finish: the generation read is observed, the operation is applied or complete.\<close>

lemma op_ok_settled:
  assumes "op_ok U N D g st" and "art_observedGeneration st' = g"
    and "art_operationState st' = actionOperationStateApplied \<or>
      art_operationState st' = actionOperationStateComplete \<and> terminalPhase (art_phase st')"
    and "E \<subseteq> insert (art_observedGeneration st) D"
  shows "op_ok U N E g st'"
proof -
  have "\<forall>x \<in> D. x \<le> art_observedGeneration st" "art_observedGeneration st \<le> g"
    using assms(1) unfolding op_ok_def by blast+
  then have "x \<le> g" if "x \<in> E" for x using assms(4) that by force
  then show ?thesis using assms(2,3) unfolding op_ok_def by auto
qed

lemma terminalPhase_Failed [simp]: "terminalPhase ''Failed''"
  by (simp add: terminalPhase_def)

lemma operationState_after:
  "art_operationState (operationStateAfter st) =
     (if terminalPhase (art_phase st) then actionOperationStateComplete else actionOperationStateApplied)"
  by (simp add: operationStateAfter_def)

definition finishing :: "set_condition \<Rightarrow> status_patch \<Rightarrow> bool" where
  "finishing setc p \<longleftrightarrow> (\<exists>err txt res. p \<in> {patchResolutionFailed setc err, patchApprovalInvalidState setc,
     patchApprovalRejected setc, patchApprovalInvalid setc, patchInvalidOperationState setc,
     patchExecutionFailed setc txt, patchExecuted setc res})"

lemma op_ok_finish:
  assumes "op_ok U N D (generationOf c) (ar_status c)"
    and "E \<subseteq> insert (art_observedGeneration (ar_status c)) D"
    and "finishing setc p"
  shows "op_ok U N E (generationOf c) (p now c)"
  using assms(3) unfolding finishing_def
  by (intro op_ok_settled [OF assms(1) _ _ assms(2)]) (auto simp: patch_defs operationState_after split: if_splits)

lemma op_ok_inflight:
  assumes "op_ok U N D (generationOf c) (ar_status c)"
    and "p = patchInFlightMissing setc ref \<or> p = patchInFlightResult setc res"
  shows "op_ok U N D (generationOf c) (p now c)"
proof (cases "terminalPhase (art_phase (ar_status c))")
  case True
  then show ?thesis using assms by (auto simp: patch_defs)
next
  case False
  have "op_ok U N D (generationOf c) (patchInFlightMissing setc ref now c)"
    using False by (intro op_ok_settled [OF assms(1)]) (auto simp: patch_defs)
  moreover have "op_ok U N D (generationOf c) (patchInFlightResult setc res now c)"
    using False by (intro op_ok_settled [OF assms(1)]) (auto simp: patch_defs operationState_after)
  ultimately show ?thesis using assms(2) by auto
qed

lemma actionOperationID_eq: "actionOperationID ar = operationID (m_uid (ar_meta ar)) (m_name (ar_meta ar)) (generationOf ar)"
  by (simp add: actionOperationID_def operationID_def generationOf_def Let_def)

lemma op_ok_pending:
  assumes "\<forall>x \<in> D. x < generationOf c"
  shows "op_ok U N D (generationOf c) (patchPendingApproval setc now c)"
  using assms by (auto simp: op_ok_def patch_defs)

lemma operationID_not_blank: "\<not> blank (operationID U N g)"
  by (rule dash_not_blank) (simp add: operationID_def)

text \<open>The state and the ID that the prepare patch leaves.\<close>

lemma patchPrepare_fields:
  "art_observedGeneration (patchPrepare setc now c) = generationOf c"
  "art_phase (patchPrepare setc now c) =
     (if art_operationState (patchPrepare setc now c) = actionOperationStatePrepared then ''Running''
      else art_phase (ar_status c))"
  "art_operationState (patchPrepare setc now c) =
     (if art_observedGeneration (ar_status c) \<noteq> generationOf c \<or> art_operationState (ar_status c) = ''''
      then actionOperationStatePrepared else art_operationState (ar_status c))"
  "art_operationID (patchPrepare setc now c) =
     (if art_observedGeneration (ar_status c) \<noteq> generationOf c \<or> blank (art_operationID (ar_status c))
      then actionOperationID c else art_operationID (ar_status c))"
  by (simp_all add: patchPrepare_def Let_def)

lemma op_ok_prepare:
  assumes "op_ok U N D (generationOf c) (ar_status c)"
    and "m_uid (ar_meta c) = U" "m_name (ar_meta c) = N"
  shows "op_ok U N D (generationOf c) (patchPrepare setc now c)"
proof (cases "art_observedGeneration (ar_status c) = generationOf c")
  case True
  then show ?thesis using assms
    by (auto simp: op_ok_def patchPrepare_fields actionOperationID_eq operationID_not_blank)
next
  case False
  then have "\<forall>x \<in> D. x < generationOf c" using assms(1) unfolding op_ok_def by force
  then show ?thesis using False assms(2,3)
    by (auto simp: op_ok_def patchPrepare_fields actionOperationID_eq)
qed

lemma decide_DPrepare:
  "decide setc reg rd s = DPrepare r \<Longrightarrow> approved r s"
  by (auto simp: decide_def approved_def split: if_splits sum.splits resolve_error.splits)

lemma decide_DPatch_cases:
  assumes "decide setc reg rd s = DPatch p again"
  shows "\<not> actionAlreadySubmitted (ar_status s) (generationOf s) \<and>
    (p = patchPendingApproval setc \<and> art_operationState (ar_status s) \<noteq> actionOperationStateApplied \<or>
     p = patchApprovalInvalidState setc \<or> p = patchApprovalRejected setc \<or> p = patchApprovalInvalid setc \<or>
     (\<exists>err. p = patchResolutionFailed setc err))"
  using assms by (auto simp: decide_def split: if_splits sum.splits resolve_error.splits)

lemma decide_DPatch:
  assumes "decide setc reg rd s = DPatch p again" and "op_ok U N D (generationOf s) (ar_status s)"
    and "sameline s c" and "ar_status c = ar_status s"
  shows "op_ok U N D (generationOf c) (p now c)"
proof -
  have le: "generationOf s \<le> generationOf c" using assms(3) by (simp add: sameline_def)
  then have c: "op_ok U N D (generationOf c) (ar_status c)"
    using op_ok_mono [OF assms(2)] assms(4) by simp
  note cases = decide_DPatch_cases [OF assms(1)]
  show ?thesis
  proof (cases "p = patchPendingApproval setc \<and> art_operationState (ar_status s) \<noteq> actionOperationStateApplied")
    case True
    have "x < generationOf s" if "x \<in> D" for x
      using cases assms(2) that True unfolding op_ok_def actionAlreadySubmitted_def
      by (cases "art_observedGeneration (ar_status s) = generationOf s") (simp_all, force+)
    then show ?thesis using True le op_ok_pending [where D = D and c = c] by force
  next
    case False
    then have "finishing setc p" using cases unfolding finishing_def by blast
    then show ?thesis by (rule op_ok_finish [OF c subset_insertI])
  qed
qed

section \<open>The invariant is kept\<close>

lemma in_sync_later:
  "in_sync c (Some a) \<Longrightarrow> sameline a b \<Longrightarrow> ar_status b = ar_status a \<Longrightarrow> in_sync c (Some b)"
  unfolding in_sync_def using sameline_trans by auto

lemma in_sync_None [simp]: "in_sync c None"
  by (simp add: in_sync_def)

lemma in_sync_self [simp]: "in_sync c (Some c)"
  by (simp add: in_sync_def)

lemma pc_ok_later:
  assumes "pc_ok U N D (Some a) q" and "sameline a b" and "ar_status b = ar_status a"
  shows "pc_ok U N D (Some b) q"
  using assms(1) in_sync_later [OF _ assms(2,3)] patch_ok_later [OF _ assms(2,3)] kont_ok_later [OF _ assms(2)]
  by (cases q) auto

lemma pc_ok_deleted: "pc_ok U N D ob q \<Longrightarrow> pc_ok U N D None q"
  by (cases q) auto

text \<open>An accepted update keeps the frozen fields.\<close>

lemma sameline_update:
  assumes "validateActionRequestUpdate ob ob' = None" and "generationOf ob' = generationOf ob + 1"
    and "m_uid (ar_meta ob') = m_uid (ar_meta ob)" and "m_name (ar_meta ob') = m_name (ar_meta ob)"
  shows "sameline ob ob'"
  using assms action_requests.update_iff [of ob ob'] by (simp add: sameline_def)

lemma patch_ok_finishing:
  assumes "finishing setc p" and "op_ok U N D (generationOf ob) (ar_status ob)"
    and "E \<subseteq> insert (art_observedGeneration (ar_status ob)) D"
  shows "patch_ok U N E p ob"
  unfolding patch_ok_def
proof (intro allI impI)
  fix now c
  assume c: "sameline ob c \<and> ar_status c = ar_status ob"
  then have "op_ok U N D (generationOf c) (ar_status c)"
    using op_ok_mono [OF assms(2)] by (simp add: sameline_def)
  then show "op_ok U N E (generationOf c) (p now c)"
    using op_ok_finish [OF _ _ assms(1)] assms(3) c by auto
qed

lemma patch_ok_prepare:
  assumes "op_ok U N D (generationOf ob) (ar_status ob)"
    and "m_uid (ar_meta ob) = U" "m_name (ar_meta ob) = N"
  shows "patch_ok U N D (patchPrepare setc) ob"
  unfolding patch_ok_def
proof (intro allI impI)
  fix now c
  assume c: "sameline ob c \<and> ar_status c = ar_status ob"
  then have "op_ok U N D (generationOf c) (ar_status c)"
    using op_ok_mono [OF assms(1)] by (simp add: sameline_def)
  then show "op_ok U N D (generationOf c) (patchPrepare setc now c)"
    using c assms(2,3) by (intro op_ok_prepare) (simp_all add: sameline_def)
qed

lemma patch_ok_inflight:
  assumes "op_ok U N D (generationOf ob) (ar_status ob)" and "inFlightPatch setc getBackup r x = Some p"
  shows "patch_ok U N D p ob"
proof -
  have "\<exists>ref res. p = patchInFlightMissing setc ref \<or> p = patchInFlightResult setc res"
    using assms(2) by (auto simp: inFlightPatch_def split: if_splits option.splits sum.splits api_error.splits)
  then show ?thesis
    unfolding patch_ok_def using op_ok_inflight op_ok_mono [OF assms(1)]
    by (metis sameline_def)
qed

lemma afterPrepare_CExecute:
  "afterPrepare ob = CExecute \<Longrightarrow> art_operationState (ar_status ob) = actionOperationStatePrepared"
  by (auto simp: afterPrepare_def Let_def split: if_splits)

lemma inv_env:
  assumes "inv U N m" and "mc_obj m = Some a" and "sameline a b" and "ar_status b = ar_status a"
  shows "inv U N (m\<lparr>mc_obj := Some b\<rparr>)"
  using assms pc_ok_later [OF _ assms(3,4)] op_ok_mono [of U N _ "generationOf a" "ar_status a" "generationOf b"]
  unfolding inv_def by (auto simp: sameline_def)

lemma inv_pc:
  assumes "inv U N m" and "pc_ok U N (committed (mc_log m)) (mc_obj m) q"
  shows "inv U N (m\<lparr>mc_pc := q\<rparr>)"
  using assms unfolding inv_def by simp

text \<open>Writing the patch: the status on the server is still the one that was read.\<close>

lemma inv_write:
  assumes "inv U N m" and "mc_pc m = PatchWrite c st k" and "mc_obj m = Some ob"
    and "ob' = ob\<lparr>ar_status := mergeStatus (ar_status c) st (ar_status ob)\<rparr>"
  shows "inv U N (m\<lparr>mc_obj := Some ob', mc_pc := Resume k ob'\<rparr>)"
proof -
  have h: "sameline c ob" "ar_status c = ar_status ob" "kont_ok k c"
      "op_ok U N (committed (mc_log m) \<union> commits k) (generationOf c) st"
      "m_uid (ar_meta ob) = U" "m_name (ar_meta ob) = N" "log_ok U N (mc_log m)"
    using assms(1-3) unfolding inv_def by (auto simp: in_sync_def)
  have ob': "ob' = ob\<lparr>ar_status := st\<rparr>" using assms(4) h(2) by simp
  have ok: "op_ok U N (committed (mc_log m) \<union> commits k) (generationOf ob) st"
    using op_ok_mono [OF h(4)] h(1) by (simp add: sameline_def)
  then show ?thesis
    using h op_ok_subset [OF ok, of "committed (mc_log m)"] kont_ok_later [OF h(3), of ob']
    unfolding inv_def by (simp add: ob')
qed

lemma inv_execute:
  assumes "inv U N m" and "mc_pc m = Resume (KPrepared r s) ob" and "afterPrepare ob = CExecute"
  shows "inv U N (m\<lparr>mc_pc := Execute r s ob, mc_log := Ran r s ob # mc_log m\<rparr>)"
proof -
  have h: "op_ok U N (committed (mc_log m)) (generationOf ob) (ar_status ob)" "approved r s" "sameline s ob"
    using assms(1,2) unfolding inv_def by (auto simp: kont_ok_def)
  have st: "art_operationState (ar_status ob) = actionOperationStatePrepared"
    by (rule afterPrepare_CExecute [OF assms(3)])
  have "ran_ok U N r s ob" using h st unfolding ran_ok_def op_ok_def by simp
  moreover have "Committed (art_observedGeneration (ar_status ob)) \<notin> set (mc_log m)"
    using h(1) st unfolding op_ok_def committed_def by force
  ultimately show ?thesis using assms(1,2) h unfolding inv_def by (auto simp: in_sync_def)
qed

lemma inv_commit:
  assumes "inv U N m" and "mc_pc m = Resume (KCommit g) ob"
  shows "inv U N (m\<lparr>mc_pc := Idle, mc_log := Committed g # mc_log m\<rparr>)"
proof -
  have "op_ok U N (insert g (committed (mc_log m))) (generationOf x) (ar_status x)"
    if "mc_obj m = Some x" for x
  proof -
    have "op_ok U N (insert g (committed (mc_log m))) (generationOf ob) (ar_status ob)"
      using assms unfolding inv_def by simp
    moreover have "sameline ob x" "ar_status x = ar_status ob"
      using assms that unfolding inv_def by (auto simp: in_sync_def)
    ultimately show ?thesis using op_ok_mono by (simp add: sameline_def)
  qed
  then show ?thesis using assms unfolding inv_def by auto
qed

lemma inv_step: "mstep setc reg m m' \<Longrightarrow> inv U N m \<Longrightarrow> inv U N m'"
proof (induction rule: mstep.induct)
  case (get m ob)
  then show ?case by (intro inv_pc) (auto simp: inv_def)
next
  case (decide_return m s rd e)
  then show ?case by (intro inv_pc) auto
next
  case (decide_patch m s rd p again)
  have "patch_ok U N (committed (mc_log m)) p ob" if "mc_obj m = Some ob" for ob
    unfolding patch_ok_def
  proof (intro allI impI)
    fix now c
    assume c: "sameline ob c \<and> ar_status c = ar_status ob"
    have "op_ok U N (committed (mc_log m)) (generationOf s) (ar_status s)"
      "sameline s ob" "ar_status s = ar_status ob"
      using decide_patch that unfolding inv_def by (auto simp: in_sync_def)
    then show "op_ok U N (committed (mc_log m)) (generationOf c) (p now c)"
      using c decide_DPatch [OF decide_patch.hyps(2)] sameline_trans by metis
  qed
  then show ?case using decide_patch by (intro inv_pc) (auto simp: kont_ok_def)
next
  case (decide_prepare m s rd r)
  have "patch_ok U N (committed (mc_log m)) (patchPrepare setc) ob \<and> sameline s ob" if "mc_obj m = Some ob" for ob
    using decide_prepare that patch_ok_prepare unfolding inv_def by (auto simp: in_sync_def)
  then show ?case
    using decide_prepare decide_DPrepare [OF decide_prepare.hyps(2)]
    by (intro inv_pc) (auto simp: kont_ok_def)
next
  case (patch_same m p k ob "now")
  have "patch_ok U N (committed (mc_log m) \<union> commits k) p ob" "kont_ok k ob"
    using patch_same unfolding inv_def by auto
  then have "op_ok U N (committed (mc_log m) \<union> commits k) (generationOf ob) (p now ob)" "kont_ok k ob"
    unfolding patch_ok_def by simp_all
  then show ?case using patch_same by (intro inv_pc) auto
next
  case (patch_read m p k ob "now")
  have "patch_ok U N (committed (mc_log m) \<union> commits k) p ob" "kont_ok k ob"
    using patch_read unfolding inv_def by auto
  then have "op_ok U N (committed (mc_log m) \<union> commits k) (generationOf ob) (p now ob)" "kont_ok k ob"
    unfolding patch_ok_def by simp_all
  then show ?case using patch_read by (intro inv_pc) auto
next
  case (patch_write m before st k ob ob')
  then show ?case by (intro inv_write)
next
  case (resume_return m ob)
  then show ?case by (intro inv_pc) auto
next
  case (resume_commit m g ob)
  then show ?case by (intro inv_commit)
next
  case (resume_stop m r s ob)
  then show ?case by (intro inv_pc) auto
next
  case (resume_invalid m r s ob)
  have "patch_ok U N (committed (mc_log m)) (patchInvalidOperationState setc) x" if "mc_obj m = Some x" for x
    using resume_invalid that
    by (intro patch_ok_finishing [where D = "committed (mc_log m)"]) (auto simp: inv_def finishing_def)
  then show ?case using resume_invalid by (intro inv_pc) (auto simp: kont_ok_def)
next
  case (resume_unhandled m r s ob getBackup)
  then show ?case by (intro inv_pc) auto
next
  case (resume_inflight m r s ob getBackup p)
  have "patch_ok U N (committed (mc_log m)) p x" if "mc_obj m = Some x" for x
    using resume_inflight that patch_ok_inflight [OF _ resume_inflight.hyps(3)] by (auto simp: inv_def)
  then show ?case using resume_inflight by (intro inv_pc) (auto simp: kont_ok_def)
next
  case (resume_execute m r s ob)
  then show ?case by (intro inv_execute)
next
  case (executed m r s ob p result errorText)
  have fin: "finishing setc p" using executed.hyps(2) unfolding finishing_def by blast
  have "patch_ok U N (insert (art_observedGeneration (ar_status ob)) (committed (mc_log m))) p x"
    if "mc_obj m = Some x" for x
  proof -
    have "ar_status x = ar_status ob" using executed that by (auto simp: inv_def in_sync_def)
    then show ?thesis
      using executed that by (intro patch_ok_finishing [OF fin, of U N "committed (mc_log m)"]) (auto simp: inv_def)
  qed
  then show ?case using executed by (intro inv_pc) (auto simp: kont_ok_def)
next
  case (stop m)
  then show ?case by (intro inv_pc) auto
next
  case (spec_update m ob ob')
  then show ?case using sameline_update [of ob ob'] by (intro inv_env [of U N m ob ob']) auto
next
  case (meta_update m ob meta)
  then have "sameline ob (ob\<lparr>ar_meta := meta\<rparr>)" by (simp add: sameline_def generationOf_def)
  then show ?case using meta_update by (intro inv_env [of U N m ob]) auto
next
  case (delete m)
  then show ?case using pc_ok_deleted unfolding inv_def by auto
qed

lemma inv_reachable:
  "reachable setc reg ar m \<Longrightarrow> inv (m_uid (ar_meta ar)) (m_name (ar_meta ar)) m"
proof (induction rule: reachable.induct)
  case (start m)
  then show ?case by (auto simp: initial_def inv_def op_ok_def)
next
  case (step m m')
  then show ?case using inv_step by blast
qed

end
