(* ===== verification/Samples.thy ===== *)
theory Samples
  imports Api_Types
begin

text \<open>
  Concrete objects on which the theorems with hypotheses are applied: a tenant \<open>acme\<close> with a
  project \<open>shop\<close>, a service class, a plan and an instance \<open>db\<close>. They model no code.
\<close>

abbreviation sampleMeta :: "string \<Rightarrow> object_meta" where
  "sampleMeta n \<equiv> \<lparr>m_name = n, m_namespace = '''', m_uid = '''', m_generation = 1, m_labels = [],
     m_annotations = [], m_deletionTimestamp = None, m_finalizers = []\<rparr>"

definition sampleInstanceStatus :: service_instance_status where
  "sampleInstanceStatus = \<lparr>sit_observedGeneration = 0, sit_phase = '''', sit_conditions = [],
     sit_placement = \<lparr>pl_clusterName = '''', pl_namespace = ''''\<rparr>,
     sit_runtime = \<lparr>rt_driver = '''', rt_objectRef = None\<rparr>, sit_endpoints = [], sit_credentialRefs = [],
     sit_artifact = \<lparr>as_revision = '''', as_path = '''', as_count = 0, as_artifacts = []\<rparr>,
     sit_sync = \<lparr>ds_phase = '''', ds_applicationName = '''', ds_message = ''''\<rparr>,
     sit_health = \<lparr>hs_summary = ''''\<rparr>,
     sit_cacheTopology = \<lparr>ctop_mode = '''', ctop_primaryCluster = '''', ctop_standbyClusters = [],
       ctop_trafficEndpoint = '''', ctop_trafficPolicyRef = None, ctop_failoverReadiness = '''',
       ctop_message = ''''\<rparr>\<rparr>"

definition sampleInstance :: "raw_json option \<Rightarrow> service_instance" where
  "sampleInstance raw = \<lparr>si_meta = sampleMeta ''db'',
     si_spec = \<lparr>sis_projectRef = \<lparr>lr_name = ''p''\<rparr>, sis_serviceClassRef = \<lparr>lr_name = ''postgres''\<rparr>,
       sis_servicePlanRef = \<lparr>lr_name = ''small''\<rparr>, sis_version = ''16'', sis_parameters = raw,
       sis_exposure = \<lparr>ex_mode = ExposureModeClusterInternal\<rparr>,
       sis_maintenancePolicy = \<lparr>mp_windowRef = None\<rparr>,
       sis_secretPolicy = \<lparr>sp_deliveryMode = SecretDeliveryModeExternalSecret,
         sp_externalSecretProvider = ExternalSecretProviderKubernetes, sp_vault = None\<rparr>,
       sis_deletionPolicy = DeletionPolicyDelete\<rparr>,
     si_status = sampleInstanceStatus\<rparr>"

definition samplePlan :: "string list \<Rightarrow> raw_json option \<Rightarrow> service_plan" where
  "samplePlan refs k = \<lparr>spl_meta = sampleMeta ''small'',
     spl_spec = \<lparr>sps_serviceClassRef = \<lparr>lr_name = ''postgres''\<rparr>, sps_displayName = '''', sps_tier = '''',
       sps_topology = '''', sps_defaultVersion = '''', sps_allowsVersionOverride = False,
       sps_defaultParameters = None, sps_constraints = k,
       sps_policyRefs = map (\<lambda>n. \<lparr>pr_name = n\<rparr>) refs\<rparr>,
     spl_status = \<lparr>spt_observedGeneration = 0, spt_phase = '''', spt_conditions = [], spt_published = True\<rparr>\<rparr>"

definition sampleProject :: project where
  "sampleProject = \<lparr>pj_meta = sampleMeta ''shop'',
     pj_spec = \<lparr>prs_tenantRef = \<lparr>lr_name = ''acme''\<rparr>, prs_displayName = '''', prs_environment = ''dev'',
       prs_targetSelector = \<lparr>ts_clusterRef = None, ts_matchLabels = []\<rparr>,
       prs_namespaceStrategy = \<lparr>ns_mode = '''', ns_prefix = ''''\<rparr>,
       prs_quotas = \<lparr>pq_maxServices = None, pq_maxNamespaces = None\<rparr>, prs_labels = [], prs_policyRefs = []\<rparr>,
     pj_status = \<lparr>prt_observedGeneration = 0, prt_phase = '''', prt_conditions = [],
       prt_placement = \<lparr>pl_clusterName = '''', pl_namespace = ''''\<rparr>,
       prt_usageSummary = \<lparr>us_projects = 0, us_serviceInstances = 0, us_namespaces = 0, us_services = 0\<rparr>,
       prt_effectiveQuota = \<lparr>pq_maxServices = None, pq_maxNamespaces = None\<rparr>\<rparr>\<rparr>"

definition sampleTenant :: tenant where
  "sampleTenant = \<lparr>tn_meta = sampleMeta ''acme'',
     tn_spec = \<lparr>tns_displayName = '''', tns_owners = \<lparr>ow_users = [''ann''], ow_groups = []\<rparr>,
       tns_quotaProfileRef = \<lparr>lr_name = ''small''\<rparr>, tns_allowedServiceClasses = [''postgres''],
       tns_policyRefs = [], tns_contacts = [], tns_lifecycle = \<lparr>tl_phase = TenantLifecyclePhaseActive\<rparr>\<rparr>,
     tn_status = \<lparr>tnt_observedGeneration = 0, tnt_phase = '''', tnt_conditions = [],
       tnt_usageSummary = \<lparr>us_projects = 0, us_serviceInstances = 0, us_namespaces = 0, us_services = 0\<rparr>,
       tnt_effectivePolicies = []\<rparr>\<rparr>"

definition sampleClass :: service_class where
  "sampleClass = \<lparr>sc_meta = sampleMeta ''postgres'',
     sc_spec = \<lparr>scs_displayName = ''PostgreSQL'', scs_category = '''', scs_driver = ''demo'',
       scs_supportedVersions = [], scs_capabilityFlags = [], scs_requiredPackages = [],
       scs_allowsVersionOverride = False, scs_defaultParameters = None, scs_published = True\<rparr>,
     sc_status = \<lparr>sct_observedGeneration = 0, sct_phase = '''', sct_conditions = [], sct_published = True\<rparr>\<rparr>"

definition sampleRequest :: "string \<Rightarrow> int \<Rightarrow> action_request" where
  "sampleRequest mode g = \<lparr>ar_meta = (sampleMeta ''restart-db'')\<lparr>m_uid := ''7f3a'', m_generation := g\<rparr>,
     ar_spec = \<lparr>ars_targetRef = \<lparr>tr_apiVersion = ''platform.servicer.io/v1alpha1'', tr_kind = ''ServiceInstance'',
         tr_name = ''db'', tr_namespace = ''''\<rparr>,
       ars_action = ''restart'', ars_idempotencyKey = ''k1'', ars_parameters = None,
       ars_approval = \<lparr>ap_mode = mode, ap_approvedBy = []\<rparr>,
       ars_requestedBy = \<lparr>rb_subject = ''ann'', rb_source = RequestSourceAPI\<rparr>\<rparr>,
     ar_status = \<lparr>art_observedGeneration = 0, art_phase = '''', art_conditions = [], art_startedAt = None,
       art_completedAt = None, art_operationRef = None, art_operationID = '''', art_operationState = '''',
       art_result = \<lparr>res_code = '''', res_message = '''', res_retryable = False\<rparr>\<rparr>\<rparr>"

end
