(* ===== verification/Go_Float.thy ===== *)
theory Go_Float
  imports Go_Json
begin

text \<open>
  Go's \<open>float64\<close> as far as the program uses it: \<open>strconv.ParseFloat(s, 64)\<close>, the
  comparisons, and \<open>fmt.Sprint\<close> of a value. A finite float is sign, mantissa and binary
  exponent, the exact dyadic rational it denotes; \<open>round64\<close> rounds a fraction to nearest, ties
  to even, so parsing rounds once as IEEE 754 asks. \<open>shortest\<close> searches the shortest decimal
  that reads back as the same float (17 digits always do), and \<open>show_float\<close> lays it out as
  \<open>%g\<close> does.
\<close>

datatype float64 =
    FNaN
  | FInf bool
  | FFin bool nat int

section \<open>Rounding a fraction\<close>

fun bitlen :: "nat \<Rightarrow> nat" where
  "bitlen n = (if n = 0 then 0 else Suc (bitlen (n div 2)))"

declare bitlen.simps [simp del]

text \<open>The fraction \<open>num / (den * b^e)\<close>, with the power on the side that keeps it whole.\<close>

definition scale :: "nat \<Rightarrow> nat \<Rightarrow> nat \<Rightarrow> int \<Rightarrow> nat \<times> nat" where
  "scale b num den e = (num * b ^ nat (- e), den * b ^ nat e)"

definition half_even :: "nat \<Rightarrow> nat \<Rightarrow> nat" where
  "half_even n d =
     (let q = n div d; r = n mod d in if 2 * r > d \<or> (2 * r = d \<and> odd q) then q + 1 else q)"

text \<open>The mantissa and exponent of the float nearest to a positive fraction, \<open>None\<close> on overflow.\<close>

definition round64 :: "nat \<Rightarrow> nat \<Rightarrow> (nat \<times> int) option" where
  "round64 num den =
     (if num = 0 then Some (0, 0)
      else
        (let e1 = max (- 1074) (int (bitlen num) - int (bitlen den) - 53);
             (n1, d1) = scale 2 num den e1;
             e = (if n1 div d1 \<ge> 2 ^ 53 then e1 + 1 else e1);
             (n, d) = scale 2 num den e;
             m = half_even n d;
             (m2, e2) = (if m = 2 ^ 53 then (2 ^ 52, e + 1) else (m, e))
         in if e2 > 971 then None else Some (m2, e2)))"

section \<open>Comparing\<close>

definition signed :: "bool \<Rightarrow> nat \<Rightarrow> int" where
  "signed neg m = (if neg then - int m else int m)"

definition fin_less :: "bool \<Rightarrow> nat \<Rightarrow> int \<Rightarrow> bool \<Rightarrow> nat \<Rightarrow> int \<Rightarrow> bool" where
  "fin_less s m e t n f \<longleftrightarrow>
     signed s m * 2 ^ nat (e - min e f) < signed t n * 2 ^ nat (f - min e f)"

text \<open>\<open>x < y\<close> on floats: a NaN is not below anything, nor anything below it.\<close>

fun flt :: "float64 \<Rightarrow> float64 \<Rightarrow> bool" where
  "flt (FFin s m e) (FFin t n f) = fin_less s m e t n f"
| "flt (FInf s) (FInf t) = (s \<and> \<not> t)"
| "flt (FInf s) (FFin t n f) = s"
| "flt (FFin s m e) (FInf t) = (\<not> t)"
| "flt _ _ = False"

fun fle :: "float64 \<Rightarrow> float64 \<Rightarrow> bool" where
  "fle FNaN y = False"
| "fle x FNaN = False"
| "fle x y = (\<not> flt y x)"

section \<open>ParseFloat\<close>

datatype num_error = ErrSyntax | ErrRange

definition hex_digit_char :: "char \<Rightarrow> bool" where
  "hex_digit_char c \<longleftrightarrow> is_digit c \<or> ascii_lower c \<in> set ''abcdef''"

definition digit_value :: "char \<Rightarrow> nat" where
  "digit_value c = (if is_digit c then of_char c - 48 else of_char (ascii_lower c) - 87)"

definition digits_in :: "nat \<Rightarrow> string \<Rightarrow> nat" where
  "digits_in base s = foldl (\<lambda>n c. base * n + digit_value c) 0 s"

definition drop_sign :: "string \<Rightarrow> string" where
  "drop_sign s = (case s of c # r \<Rightarrow> if c = CHR ''-'' \<or> c = CHR ''+'' then r else s | [] \<Rightarrow> [])"

text \<open>\<open>underscoreOK\<close>: an underscore has a digit (or the base prefix) before it and a digit after.\<close>

datatype underscore_state = USBegin | USDigit | USUnder | USOther

fun underscores_from :: "bool \<Rightarrow> underscore_state \<Rightarrow> string \<Rightarrow> bool" where
  "underscores_from hex saw [] = (saw \<noteq> USUnder)"
| "underscores_from hex saw (c # s) =
     (if is_digit c \<or> (hex \<and> hex_digit_char c) then underscores_from hex USDigit s
      else if c = CHR ''_'' then saw = USDigit \<and> underscores_from hex USUnder s
      else saw \<noteq> USUnder \<and> underscores_from hex USOther s)"

definition underscoreOK :: "string \<Rightarrow> bool" where
  "underscoreOK s =
     (let t = drop_sign s in
      case t of
        c # x # r \<Rightarrow>
          if c = CHR ''0'' \<and> ascii_lower x \<in> set ''box''
          then underscores_from (ascii_lower x = CHR ''x'') USDigit r
          else underscores_from False USBegin t
      | _ \<Rightarrow> underscores_from False USBegin t)"

text \<open>The exponent digits; the running value stops growing once it reaches ten thousand.\<close>

definition exponent_value :: "string \<Rightarrow> nat" where
  "exponent_value s =
     foldl (\<lambda>e c. if c = CHR ''_'' then e else if e < 10000 then e * 10 + digit_value c else e) 0 s"

text \<open>\<open>readExponent s\<close> reads what follows the exponent letter, to the end.\<close>

definition readExponent :: "string \<Rightarrow> int option" where
  "readExponent s =
     (let r = drop_sign s in
      if r \<noteq> [] \<and> is_digit (hd r) \<and> list_all (\<lambda>c. is_digit c \<or> c = CHR ''_'') r
      then Some (if hd s = CHR ''-'' then - int (exponent_value r) else int (exponent_value r))
      else None)"

text \<open>
  \<open>readFloat\<close>: the sign, the base, the digits of the mantissa as one number, and the exponent of
  the base-two or base-ten scale that remains.
\<close>

definition readFloat :: "string \<Rightarrow> (bool \<times> nat \<times> nat \<times> int) option" where
  "readFloat s =
     (let neg = (s \<noteq> [] \<and> hd s = CHR ''-'');
          t = drop_sign s;
          hex = (length t > 2 \<and> hd t = CHR ''0'' \<and> ascii_lower (t ! 1) = CHR ''x'');
          body = (if hex then drop 2 t else t);
          digit = (if hex then hex_digit_char else is_digit);
          mant = takeWhile (\<lambda>c. digit c \<or> c = CHR ''_'' \<or> c = CHR ''.'') body;
          rest = drop (length mant) body;
          digits = filter digit mant;
          frac = length (filter digit (dropWhile (\<lambda>c. c \<noteq> CHR ''.'') mant));
          expo = (if rest = [] then (if hex then None else Some 0)
                  else if ascii_lower (hd rest) = (if hex then CHR ''p'' else CHR ''e'')
                  then readExponent (tl rest) else None)
      in if digits = [] \<or> length (filter (\<lambda>c. c = CHR ''.'') mant) > 1 then None
         else if CHR ''_'' \<in> set s \<and> \<not> underscoreOK s then None
         else (case expo of
                 None \<Rightarrow> None
               | Some e \<Rightarrow>
                   if hex then Some (neg, digits_in 16 digits, 2, e - 4 * int frac)
                   else Some (neg, digits_in 10 digits, 10, e - int frac)))"

definition special :: "string \<Rightarrow> float64 option" where
  "special s =
     (let l = map ascii_lower s in
      if l = ''inf'' \<or> l = ''infinity'' \<or> l = ''+inf'' \<or> l = ''+infinity'' then Some (FInf False)
      else if l = ''-inf'' \<or> l = ''-infinity'' then Some (FInf True)
      else if l = ''nan'' then Some FNaN
      else None)"

definition parseFloat :: "string \<Rightarrow> num_error + float64" where
  "parseFloat s =
     (case special s of
        Some f \<Rightarrow> Inr f
      | None \<Rightarrow>
          (case readFloat s of
             None \<Rightarrow> Inl ErrSyntax
           | Some (neg, d, b, e) \<Rightarrow>
               (case scale b d 1 (- e) of (n, m) \<Rightarrow>
                  (case round64 n m of
                     None \<Rightarrow> Inl ErrRange
                   | Some (q, x) \<Rightarrow> Inr (FFin neg q x)))))"

section \<open>Printing\<close>

text \<open>The number of digits before the decimal point of a positive fraction, zero or negative below one.\<close>

definition decimal_point :: "nat \<Rightarrow> nat \<Rightarrow> int" where
  "decimal_point n d =
     (if d \<le> n then int (length (show_nat (n div d)))
      else (case find (\<lambda>j. d \<le> n * 10 ^ (j + 1)) [0..<330] of Some j \<Rightarrow> - int j | None \<Rightarrow> - 330))"

definition reads_back :: "nat \<times> int \<Rightarrow> nat \<Rightarrow> int \<Rightarrow> bool" where
  "reads_back v x k \<longleftrightarrow> (case scale 10 x 1 (- k) of (n, d) \<Rightarrow> round64 n d = Some v)"

text \<open>The decimal of \<open>cnt\<close> digits that \<open>shortest\<close> would take, if one reads back.\<close>

definition shortest_of :: "nat \<times> int \<Rightarrow> nat \<Rightarrow> (nat \<times> int) option" where
  "shortest_of v cnt =
     (case scale 2 (fst v) 1 (- snd v) of (n, d) \<Rightarrow>
        (let k = decimal_point n d - int cnt in
         case scale 10 n d k of (n1, d1) \<Rightarrow>
           (let lo = n1 div d1; r = n1 mod d1;
                okdown = reads_back v lo k; okup = (r \<noteq> 0 \<and> reads_back v (lo + 1) k) in
            if okdown \<and> okup then Some (half_even n1 d1, k)
            else if okdown then Some (lo, k)
            else if okup then Some (lo + 1, k)
            else None)))"

fun first_some :: "('a \<Rightarrow> 'b option) \<Rightarrow> 'a list \<Rightarrow> 'b option" where
  "first_some f [] = None"
| "first_some f (x # xs) = (case f x of Some y \<Rightarrow> Some y | None \<Rightarrow> first_some f xs)"

definition shortest :: "nat \<times> int \<Rightarrow> nat \<times> int" where
  "shortest v = (case first_some (shortest_of v) [1..<18] of Some r \<Rightarrow> r | None \<Rightarrow> (0, 0))"

definition strip_zeros :: "string \<Rightarrow> string" where
  "strip_zeros ds = rev (dropWhile (\<lambda>c. c = CHR ''0'') (rev ds))"

text \<open>The layout of \<open>%g\<close> from the digits and the place of the decimal point.\<close>

definition layout :: "string \<Rightarrow> int \<Rightarrow> string" where
  "layout ds dp =
     (let x = dp - 1 in
      if x < - 4 \<or> x \<ge> 6
      then hd ds # (if tl ds = [] then [] else CHR ''.'' # tl ds) @ ''e'' @ (if x < 0 then ''-'' else ''+'') @
           (let a = show_nat (nat \<bar>x\<bar>) in if length a < 2 then CHR ''0'' # a else a)
      else if dp \<le> 0 then ''0.'' @ replicate (nat (- dp)) CHR ''0'' @ ds
      else (let i = nat dp in
            take i ds @ replicate (i - length ds) CHR ''0'' @
            (if length ds > i then CHR ''.'' # drop i ds else [])))"

definition show_fin :: "nat \<Rightarrow> int \<Rightarrow> string" where
  "show_fin m e =
     (if m = 0 then ''0''
      else (case shortest (m, e) of (x, k) \<Rightarrow>
              layout (strip_zeros (show_nat x)) (k + int (length (show_nat x)))))"

fun show_float :: "float64 \<Rightarrow> string" where
  "show_float FNaN = ''NaN''"
| "show_float (FInf neg) = (if neg then ''-Inf'' else ''+Inf'')"
| "show_float (FFin neg m e) = (if neg then ''-'' else []) @ show_fin m e"

section \<open>Integers are exact\<close>

lemma bitlen_bounds: "0 < n \<Longrightarrow> 0 < bitlen n \<and> 2 ^ (bitlen n - 1) \<le> n \<and> n < 2 ^ bitlen n"
proof (induction n rule: less_induct)
  case (less n)
  show ?case
  proof (cases "n = 1")
    case True
    then show ?thesis by (simp add: bitlen.simps)
  next
    case False
    then have h: "0 < n div 2" "n div 2 < n" using less.prems by auto
    define b where "b = bitlen (n div 2)"
    have ih: "0 < b" "2 ^ (b - 1) \<le> n div 2" "n div 2 < 2 ^ b"
      using less.IH [OF h(2) h(1)] by (auto simp: b_def)
    have eq: "bitlen n = Suc b" using less.prems by (subst bitlen.simps) (simp add: b_def)
    have "(2::nat) ^ b = 2 * 2 ^ (b - 1)" using ih(1) by (cases b) auto
    then show ?thesis using ih eq by auto
  qed
qed

lemma scale_neg [simp]: "scale b n 1 (- int j) = (n * b ^ j, 1)"
  by (simp add: scale_def)

lemma half_even_one [simp]: "half_even q 1 = q"
  by (simp add: half_even_def)

lemma round64_nat:
  assumes "n < 2 ^ 53"
  shows "\<exists>k. round64 n 1 = Some (n * 2 ^ k, - int k)"
proof (cases "n = 0")
  case True
  then show ?thesis by (intro exI [of _ 0]) (simp add: round64_def)
next
  case False
  define a where "a = bitlen n"
  have b: "0 < a" "2 ^ (a - 1) \<le> n" "n < 2 ^ a" using bitlen_bounds [of n] False by (auto simp: a_def)
  have a53: "a \<le> 53"
  proof (rule ccontr)
    assume "\<not> a \<le> 53"
    then have "(2::nat) ^ 53 \<le> 2 ^ (a - 1)" by (intro power_increasing) auto
    then show False using b(2) assms by simp
  qed
  have one: "bitlen (Suc 0) = 1" by (simp add: bitlen.simps)
  have e1: "max (- 1074) (int (bitlen n) - int (bitlen 1) - 53) = - int (54 - a)"
    using a53 b(1) by (simp add: one a_def [symmetric])
  have "(2::nat) ^ 53 = 2 ^ (a - 1) * 2 ^ (54 - a)" using a53 b(1) by (simp flip: power_add)
  then have top: "2 ^ 53 \<le> n * 2 ^ (54 - a)" using mult_right_mono [OF b(2), of "2 ^ (54 - a)"] by simp
  have e: "- int (54 - a) + 1 = - int (53 - a)" using a53 by simp
  have "(2::nat) ^ 53 = 2 ^ a * 2 ^ (53 - a)" using a53 by (simp flip: power_add)
  then have lim: "n * 2 ^ (53 - a) < 2 ^ 53"
    using mult_strict_right_mono [OF b(3), of "2 ^ (53 - a)"] by simp
  then have ne: "n * 2 ^ (53 - a) \<noteq> 2 ^ 53" by (rule less_imp_neq)
  have small: "\<not> 971 < - int (53 - a)" by simp
  have "round64 n 1 = Some (n * 2 ^ (53 - a), - int (53 - a))"
    unfolding round64_def e1 Let_def scale_neg prod.case div_by_1 half_even_one if_not_P [OF False]
      if_P [OF top] e if_not_P [OF ne] if_not_P [OF small] by (rule refl)
  then show ?thesis by blast
qed

lemma fin_less_nat:
  "fin_less False (n * 2 ^ k) (- int k) False (m * 2 ^ j) (- int j) \<longleftrightarrow> n < m"
proof -
  have s: "(x * 2 ^ i :: int) * 2 ^ nat (- int i - min (- int k) (- int j)) = x * 2 ^ max k j"
    if "i = k \<or> i = j" for x i
  proof -
    have "nat (- int i - min (- int k) (- int j)) = max k j - i" by auto
    then show ?thesis using that by (auto simp: mult.assoc simp flip: power_add)
  qed
  show ?thesis
    unfolding fin_less_def signed_def if_False of_nat_mult of_nat_power of_nat_numeral
    by (subst s, simp, subst s, simp) simp
qed

lemma digit_digit_char [simp]: "n < 10 \<Longrightarrow> is_digit (digit_char n)"
  by (simp add: is_digit_def digit_char_def)

lemma digit_value_digit_char [simp]: "n < 10 \<Longrightarrow> digit_value (digit_char n) = n"
  by (simp add: digit_value_def is_digit_def digit_char_def)

lemma show_nat_digits: "list_all is_digit (show_nat n) \<and> show_nat n \<noteq> []"
  by (induction n rule: show_nat.induct) (subst (1 2) show_nat.simps, simp)

lemma digits_in_snoc: "digits_in b (s @ [c]) = b * digits_in b s + digit_value c"
  by (simp add: digits_in_def)

lemma digits_in_show_nat: "digits_in 10 (show_nat n) = n"
proof (induction n rule: show_nat.induct)
  case (1 n)
  show ?case
  proof (cases "n < 10")
    case True
    then show ?thesis by (subst show_nat.simps) (simp add: digits_in_def)
  next
    case False
    then show ?thesis using 1 by (subst show_nat.simps) (simp add: digits_in_snoc)
  qed
qed

lemma digit_not_letter: "is_digit c \<Longrightarrow> ascii_lower c = c"
  "is_digit c \<Longrightarrow> c \<noteq> CHR ''-'' \<and> c \<noteq> CHR ''+'' \<and> c \<noteq> CHR ''i'' \<and> c \<noteq> CHR ''n'' \<and> c \<noteq> CHR ''x'' \<and>
     c \<noteq> CHR ''.'' \<and> c \<noteq> CHR ''_''"
  by (auto simp: is_digit_def ascii_lower_def)

lemma readFloat_digits:
  assumes "list_all is_digit s" and "s \<noteq> []"
  shows "readFloat s = Some (False, digits_in 10 s, 10, 0)" and "special s = None"
proof -
  obtain c r where s: "s = c # r" using assms(2) by (cases s) auto
  have c: "is_digit c" and r: "list_all is_digit r" using assms(1) s by auto
  note nc = digit_not_letter [OF c]
  have ds: "drop_sign s = s" using nc by (simp add: s drop_sign_def)
  have hex: "\<not> (length s > 2 \<and> hd s = CHR ''0'' \<and> ascii_lower (s ! 1) = CHR ''x'')"
  proof
    assume "length s > 2 \<and> hd s = CHR ''0'' \<and> ascii_lower (s ! 1) = CHR ''x''"
    moreover have "is_digit (s ! 1)" if "length s > 2" using assms(1) that by (simp add: list_all_length)
    ultimately show False using digit_not_letter by metis
  qed
  have mant: "takeWhile (\<lambda>c. is_digit c \<or> c = CHR ''_'' \<or> c = CHR ''.'') s = s"
    using assms(1) by (simp add: takeWhile_eq_all_conv list_all_iff)
  have dig: "filter is_digit s = s" using assms(1) by (simp add: list_all_iff)
  have nodot: "dropWhile (\<lambda>c. c \<noteq> CHR ''.'') s = []" "filter (\<lambda>c. c = CHR ''.'') s = []"
    "CHR ''_'' \<notin> set s"
    using assms(1) digit_not_letter(2) by (force simp: list_all_iff filter_empty_conv)+
  show "readFloat s = Some (False, digits_in 10 s, 10, 0)"
    unfolding readFloat_def ds Let_def
    by (simp only: hex if_False mant dig nodot) (use nc assms(2) s in simp)
  have "map ascii_lower s = c # map ascii_lower r" using nc by (simp add: s)
  then show "special s = None" using nc by (simp add: special_def)
qed

lemma parseFloat_show_nat:
  assumes "n < 2 ^ 53"
  shows "\<exists>k. parseFloat (show_nat n) = Inr (FFin False (n * 2 ^ k) (- int k))"
proof -
  obtain k where k: "round64 n 1 = Some (n * 2 ^ k, - int k)" using round64_nat [OF assms] by blast
  have d: "list_all is_digit (show_nat n)" "show_nat n \<noteq> []" using show_nat_digits by blast+
  show ?thesis
    using k by (auto simp: parseFloat_def readFloat_digits [OF d] digits_in_show_nat scale_def)
qed

end
