(* ===== verification/Action_Properties.thy ===== *)
theory Action_Properties
  imports Action_Safety Samples Go_Float
begin

text \<open>
  The properties of the action controller: what its invariant says of every run among other
  writers, that the uninterrupted run is one of those, and what the uninterrupted run leaves.
\<close>

section \<open>Operation IDs\<close>

lemma show_nat_inject: "show_nat m = show_nat n \<longleftrightarrow> m = n"
  using digits_in_show_nat by metis

lemma show_int_inject: "show_int i = show_int j \<longleftrightarrow> i = j"
proof -
  have "show_nat n \<noteq> CHR ''-'' # s" for n s
    using show_nat_digits [of n] by (auto simp: is_digit_def)
  then show ?thesis by (auto simp: show_int_def show_nat_inject dest: sym)
qed

lemma operationID_inject: "operationID U N g = operationID U N h \<longleftrightarrow> g = h"
  by (simp add: operationID_def show_int_inject)

section \<open>The uninterrupted run is a run\<close>

abbreviation msteps :: "set_condition \<Rightarrow> registry option \<Rightarrow> machine \<Rightarrow> machine \<Rightarrow> bool" where
  "msteps setc reg \<equiv> (mstep setc reg)\<^sup>*\<^sup>*"

lemma same_obj [simp]: "mc_obj m = Some ob \<Longrightarrow> m\<lparr>mc_obj := Some ob\<rparr> = m"
  by (cases m) simp

lemma same_idle [simp]: "mc_pc m = Idle \<Longrightarrow> m\<lparr>mc_pc := Idle\<rparr> = m"
  by (cases m) simp

text \<open>A patch among others, seen from its start to its end.\<close>

lemma msteps_patch:
  assumes "mc_obj m = Some ob"
  shows "msteps setc reg (m\<lparr>mc_pc := PatchRead p k\<rparr>)
    (m\<lparr>mc_obj := Some (ob\<lparr>ar_status := p now ob\<rparr>), mc_pc := Resume k (ob\<lparr>ar_status := p now ob\<rparr>)\<rparr>)"
proof (cases "p now ob = ar_status ob")
  case True
  then have "mstep setc reg (m\<lparr>mc_pc := PatchRead p k\<rparr>) (m\<lparr>mc_pc := PatchRead p k, mc_pc := Resume k ob\<rparr>)"
    using assms by (intro mstep.patch_same [where p = p and now = now]) auto
  then show ?thesis using True assms by (simp add: r_into_rtranclp)
next
  case False
  have "mstep setc reg (m\<lparr>mc_pc := PatchRead p k\<rparr>)
      (m\<lparr>mc_pc := PatchRead p k, mc_pc := PatchWrite ob (p now ob) k\<rparr>)"
    using assms False by (intro mstep.patch_read) auto
  moreover have "mstep setc reg (m\<lparr>mc_pc := PatchWrite ob (p now ob) k\<rparr>)
      (m\<lparr>mc_pc := PatchWrite ob (p now ob) k, mc_obj := Some (ob\<lparr>ar_status := p now ob\<rparr>),
         mc_pc := Resume k (ob\<lparr>ar_status := p now ob\<rparr>)\<rparr>)"
    using assms by (intro mstep.patch_write [where before = ob and st = "p now ob" and ob = ob]) auto
  ultimately show ?thesis by (simp add: converse_rtranclp_into_rtranclp r_into_rtranclp)
qed

lemma msteps_one: "mstep setc reg m m' \<Longrightarrow> msteps setc reg m' m'' \<Longrightarrow> msteps setc reg m m''"
  by (rule converse_rtranclp_into_rtranclp)

lemma msteps_return:
  assumes "mc_obj m = Some ob"
  shows "msteps setc reg (m\<lparr>mc_pc := PatchRead p KReturn\<rparr>)
    (m\<lparr>mc_obj := Some (ob\<lparr>ar_status := p now ob\<rparr>), mc_pc := Idle\<rparr>)"
proof -
  have "mstep setc reg (m\<lparr>mc_obj := Some (ob\<lparr>ar_status := p now ob\<rparr>),
      mc_pc := Resume KReturn (ob\<lparr>ar_status := p now ob\<rparr>)\<rparr>)
    (m\<lparr>mc_obj := Some (ob\<lparr>ar_status := p now ob\<rparr>), mc_pc := Resume KReturn (ob\<lparr>ar_status := p now ob\<rparr>),
       mc_pc := Idle\<rparr>)"
    by (rule mstep.resume_return) simp
  then show ?thesis
    using msteps_patch [OF assms, of setc reg p KReturn now] by (simp add: rtranclp.rtrancl_into_rtrancl)
qed

lemma msteps_prepared:
  assumes "mc_obj m = Some ob" and "mc_pc m = Resume (KPrepared r s) ob" and "en_setc env = setc"
  shows "msteps setc reg m
    (m\<lparr>mc_obj := Some (fst (runPrepared env r s ob)), mc_pc := Idle,
       mc_log := snd (runPrepared env r s ob) @ mc_log m\<rparr>)"
proof (cases "afterPrepare ob")
  case CStop
  then have "mstep setc reg m (m\<lparr>mc_pc := Idle\<rparr>)" using assms(2) by (rule mstep.resume_stop [rotated])
  then show ?thesis using CStop assms(1) by (simp add: runPrepared_def r_into_rtranclp)
next
  case CInvalidState
  then have "mstep setc reg m (m\<lparr>mc_pc := PatchRead (patchInvalidOperationState setc) KReturn\<rparr>)"
    using assms(2) by (rule mstep.resume_invalid [rotated])
  from msteps_one [OF this msteps_return [OF assms(1)]] show ?thesis
    using CInvalidState assms(3) by (simp add: runPrepared_def patchStatus_def)
next
  case CInFlight
  show ?thesis
  proof (cases "inFlightPatch setc (en_backup env) r ob")
    case None
    then have "mstep setc reg m (m\<lparr>mc_pc := Idle\<rparr>)"
      using assms(2) CInFlight by (intro mstep.resume_unhandled)
    then show ?thesis using None CInFlight assms(1,3) by (simp add: runPrepared_def r_into_rtranclp)
  next
    case (Some p)
    then have "mstep setc reg m (m\<lparr>mc_pc := PatchRead p KReturn\<rparr>)"
      using assms(2) CInFlight by (intro mstep.resume_inflight)
    from msteps_one [OF this msteps_return [OF assms(1)]] show ?thesis
      using Some CInFlight assms(3) by (simp add: runPrepared_def patchStatus_def)
  qed
next
  case CExecute
  define g where "g = art_observedGeneration (ar_status ob)"
  define p where "p = (case en_execute env r ob (art_operationID (ar_status ob)) of
      Inl err \<Rightarrow> patchExecutionFailed setc (en_errorText env err)
    | Inr result \<Rightarrow> patchExecuted setc result)"
  define ob' where "ob' = ob\<lparr>ar_status := p (en_now env) ob\<rparr>"
  define m1 where "m1 = m\<lparr>mc_pc := Execute r s ob, mc_log := Ran r s ob # mc_log m\<rparr>"
  have s1: "mstep setc reg m m1"
    unfolding m1_def using assms(2) CExecute by (rule mstep.resume_execute)
  have "\<exists>result txt. p = patchExecuted setc result \<or> p = patchExecutionFailed setc txt"
    by (auto simp: p_def split: sum.splits)
  then have s2: "mstep setc reg m1 (m1\<lparr>mc_pc := PatchRead p (KCommit g)\<rparr>)"
    using mstep.executed [of m1 r s ob p setc] by (auto simp: m1_def g_def)
  have s3: "msteps setc reg (m1\<lparr>mc_pc := PatchRead p (KCommit g)\<rparr>)
      (m1\<lparr>mc_obj := Some ob', mc_pc := Resume (KCommit g) ob'\<rparr>)"
    unfolding ob'_def using assms(1) by (intro msteps_patch) (simp add: m1_def)
  have s4: "mstep setc reg (m1\<lparr>mc_obj := Some ob', mc_pc := Resume (KCommit g) ob'\<rparr>)
      (m1\<lparr>mc_obj := Some ob', mc_pc := Idle, mc_log := Committed g # mc_log m1\<rparr>)"
    using mstep.resume_commit [of "m1\<lparr>mc_obj := Some ob', mc_pc := Resume (KCommit g) ob'\<rparr>" g ob' setc reg]
    by simp
  have run: "runPrepared env r s ob = (ob', [Committed g, Ran r s ob])"
    using CExecute assms(3)
    by (simp add: runPrepared_def patchStatus_def p_def g_def ob'_def Let_def split: sum.split)
  show ?thesis unfolding run
    using msteps_one [OF s1 msteps_one [OF s2 rtranclp.rtrancl_into_rtrancl [OF s3 s4]]] by (simp add: m1_def)
qed

text \<open>
  From the idle controller and a stored request, the API calls of \<open>Reconcile\<close> in order lead to the
  request and the log that the function computes.
\<close>

lemma reconcile_msteps:
  assumes "mc_obj m = Some ob" and "mc_pc m = Idle"
  shows "msteps (en_setc env) (en_adapters env) m
    (m\<lparr>mc_obj := Some (fst (Reconcile env ob)), mc_log := snd (Reconcile env ob) @ mc_log m\<rparr>)"
proof -
  let ?setc = "en_setc env" and ?reg = "en_adapters env"
  have idle: "m\<lparr>mc_obj := Some ob, mc_pc := Idle\<rparr> = m" using assms by simp
  have got: "mstep ?setc ?reg m (m\<lparr>mc_pc := Got ob\<rparr>)" by (rule mstep.get [OF assms(2,1)])
  show ?thesis
  proof (cases "decide ?setc ?reg (en_reader env) ob")
    case (DReturn e)
    then have "mstep ?setc ?reg (m\<lparr>mc_pc := Got ob\<rparr>) (m\<lparr>mc_pc := Got ob, mc_pc := Idle\<rparr>)"
      by (intro mstep.decide_return) auto
    then show ?thesis using msteps_one [OF got r_into_rtranclp] DReturn idle assms
      by (simp add: Reconcile_def)
  next
    case (DPatch p again)
    then have "mstep ?setc ?reg (m\<lparr>mc_pc := Got ob\<rparr>) (m\<lparr>mc_pc := Got ob, mc_pc := PatchRead p KReturn\<rparr>)"
      by (intro mstep.decide_patch) auto
    then have "mstep ?setc ?reg (m\<lparr>mc_pc := Got ob\<rparr>) (m\<lparr>mc_pc := PatchRead p KReturn\<rparr>)" by simp
    from msteps_one [OF got msteps_one [OF this msteps_return [OF assms(1)]]] show ?thesis
      using DPatch assms(2) by (simp add: Reconcile_def patchStatus_def)
  next
    case (DPrepare r)
    let ?q = "KPrepared r ob"
    define ob1 where "ob1 = ob\<lparr>ar_status := patchPrepare ?setc (en_now env) ob\<rparr>"
    define m1 where "m1 = m\<lparr>mc_obj := Some ob1, mc_pc := Resume ?q ob1\<rparr>"
    have "mstep ?setc ?reg (m\<lparr>mc_pc := Got ob\<rparr>)
        (m\<lparr>mc_pc := Got ob, mc_pc := PatchRead (patchPrepare ?setc) ?q\<rparr>)"
      using DPrepare by (intro mstep.decide_prepare) auto
    then have s: "mstep ?setc ?reg (m\<lparr>mc_pc := Got ob\<rparr>) (m\<lparr>mc_pc := PatchRead (patchPrepare ?setc) ?q\<rparr>)"
      by simp
    have m1: "msteps ?setc ?reg m m1"
      unfolding m1_def ob1_def by (rule msteps_one [OF got msteps_one [OF s msteps_patch [OF assms(1)]]])
    have "msteps ?setc ?reg m1 (m1\<lparr>mc_obj := Some (fst (runPrepared env r ob ob1)), mc_pc := Idle,
        mc_log := snd (runPrepared env r ob ob1) @ mc_log m1\<rparr>)"
      by (intro msteps_prepared) (simp_all add: m1_def)
    from rtranclp_trans [OF m1 this] show ?thesis
      using DPrepare assms(2) by (simp add: Reconcile_def patchStatus_def m1_def ob1_def)
  qed
qed

lemma reachable_msteps: "reachable setc reg ar m \<Longrightarrow> msteps setc reg m m' \<Longrightarrow> reachable setc reg ar m'"
  by (rotate_tac, induction rule: rtranclp_induct) (auto intro: reachable.step)

section \<open>A concrete controller\<close>

definition sampleCapability :: action_capability where
  "sampleCapability = \<lparr>ac_Name = ActionRestart, ac_DisplayName = ''Restart'', ac_RequiresApproval = False,
     ac_Disruptive = True\<rparr>"

definition sampleAdapter :: service_adapter where
  "sampleAdapter = (sample_adapter ''postgres'' ''demo'')\<lparr>ad_SupportedActions := (\<lambda>_. [sampleCapability])\<rparr>"

definition sampleReader :: cluster_reader where
  "sampleReader = \<lparr>rd_ServiceInstance = (\<lambda>_. Inr (sampleInstance None)), rd_Project = (\<lambda>_. Inr sampleProject),
     rd_Tenant = (\<lambda>_. Inr sampleTenant), rd_ServiceClass = (\<lambda>_. Inr sampleClass),
     rd_ServicePlan = (\<lambda>_. Inr (samplePlan [] None)), rd_ClusterTarget = (\<lambda>_. Inl NotFound)\<rparr>"

definition sampleRegistry :: "registry option" where
  "sampleRegistry = Some [(''postgres'', sampleAdapter)]"

definition sampleEnv :: reconcile_env where
  "sampleEnv = \<lparr>en_setc = upsert_condition, en_adapters = sampleRegistry, en_reader = sampleReader,
     en_now = 0, en_backup = (\<lambda>_. Inl NotFound),
     en_execute = (\<lambda>_ _ _. Inr \<lparr>ae_Phase = ''Succeeded'', ae_OperationRef = None, ae_Message = ''done'',
       ae_Retryable = True\<rparr>),
     en_errorText = (\<lambda>_. '''')\<rparr>"

definition sampleMachine :: machine where
  "sampleMachine = \<lparr>mc_obj = Some (sampleRequest ApprovalModeAuto 1), mc_pc = Idle, mc_log = []\<rparr>"

definition sampleResolved :: resolvedActionRequest where
  "sampleResolved = \<lparr>ra_serviceContext = \<lparr>sx_Tenant = Some sampleTenant, sx_Project = Some sampleProject,
       sx_ClusterTarget = None, sx_Class = Some sampleClass, sx_Plan = Some (samplePlan [] None),
       sx_Instance = Some (sampleInstance None)\<rparr>,
     ra_adapter = sampleAdapter, ra_capability = sampleCapability\<rparr>"

lemma sample_resolve:
  "resolveAction sampleRegistry sampleReader (sampleRequest mode g) = Inr sampleResolved"
proof -
  have cls: "sis_serviceClassRef (si_spec (sampleInstance None)) = \<lparr>lr_name = ''postgres''\<rparr>"
    "ts_clusterRef (prs_targetSelector (pj_spec sampleProject)) = None"
    by (simp_all add: sampleInstance_def sampleProject_def)
  have kind: "equalFold ''ServiceInstance'' ''ServiceInstance''" by (simp add: equalFold_def)
  have found: "GetAdapter [(''postgres'', sampleAdapter)] ''postgres'' = Some sampleAdapter"
    by (simp add: GetAdapter_def)
  have cap: "actionCapability (ad_SupportedActions sampleAdapter ctx) ActionRestart = Some sampleCapability" for ctx
    by (simp add: actionCapability_def sampleAdapter_def sampleCapability_def)
  show ?thesis
    unfolding resolveAction_def sampleRegistry_def Let_def
    by (simp add: sampleRequest_def sampleReader_def dependency_def kind cls found cap)
      (simp add: sampleResolved_def)
qed

lemma sample_decide:
  "decide upsert_condition sampleRegistry sampleReader (sampleRequest ApprovalModeAuto g) = DPrepare sampleResolved"
  unfolding decide_def sample_resolve
  by (simp add: actionAlreadySubmitted_def terminalPhase_def approvalPending_def
      approvalApprovedWithoutApprover_def sampleResolved_def sampleCapability_def) (simp add: sampleRequest_def)

lemma sample_initial: "initial (sampleRequest ApprovalModeAuto 1) sampleMachine"
  by (simp add: initial_def sampleMachine_def sampleRequest_def generationOf_def)

text \<open>The run of the sample: prepared under the ID of its generation, executed, complete.\<close>

lemma afterPrepare_Prepared:
  "art_operationState (ar_status p) = actionOperationStatePrepared \<Longrightarrow> afterPrepare p = CExecute"
proof -
  have "validActionOperationState actionOperationStatePrepared" by code_simp
  then show "art_operationState (ar_status p) = actionOperationStatePrepared \<Longrightarrow> afterPrepare p = CExecute"
    by (simp add: afterPrepare_def Let_def)
qed

lemma sample_prepared:
  "afterPrepare (patchStatus sampleEnv (patchPrepare upsert_condition) (sampleRequest ApprovalModeAuto 1)) = CExecute"
  by (rule afterPrepare_Prepared)
    (simp add: patchStatus_def patchPrepare_fields, simp add: sampleRequest_def generationOf_def)

definition samplePrepared :: action_request where
  "samplePrepared = patchStatus sampleEnv (patchPrepare upsert_condition) (sampleRequest ApprovalModeAuto 1)"

lemma sample_log:
  "snd (Reconcile sampleEnv (sampleRequest ApprovalModeAuto 1)) =
     [Committed 1, Ran sampleResolved (sampleRequest ApprovalModeAuto 1) samplePrepared]"
proof -
  have d: "decide upsert_condition (en_adapters sampleEnv) (en_reader sampleEnv)
      (sampleRequest ApprovalModeAuto 1) = DPrepare sampleResolved"
    using sample_decide by (simp add: sampleEnv_def)
  have c: "en_setc sampleEnv = upsert_condition" by (simp add: sampleEnv_def)
  have g: "art_observedGeneration (ar_status samplePrepared) = 1"
    by (simp add: samplePrepared_def patchStatus_def patchPrepare_fields generationOf_def sampleRequest_def)
  show ?thesis
    unfolding Reconcile_def c d decision.case samplePrepared_def [symmetric]
    using sample_prepared g by (simp add: runPrepared_def Let_def samplePrepared_def [symmetric])
qed

lemma sample_reachable:
  "\<exists>m. reachable upsert_condition sampleRegistry (sampleRequest ApprovalModeAuto 1) m \<and>
     mc_log m = [Committed 1, Ran sampleResolved (sampleRequest ApprovalModeAuto 1) samplePrepared]"
proof -
  have "mc_obj sampleMachine = Some (sampleRequest ApprovalModeAuto 1)" "mc_pc sampleMachine = Idle"
    by (simp_all add: sampleMachine_def)
  then have "msteps (en_setc sampleEnv) (en_adapters sampleEnv) sampleMachine (sampleMachine
      \<lparr>mc_obj := Some (fst (Reconcile sampleEnv (sampleRequest ApprovalModeAuto 1))),
       mc_log := snd (Reconcile sampleEnv (sampleRequest ApprovalModeAuto 1)) @ mc_log sampleMachine\<rparr>)"
    by (rule reconcile_msteps)
  moreover have "en_setc sampleEnv = upsert_condition" "en_adapters sampleEnv = sampleRegistry"
    by (simp_all add: sampleEnv_def)
  ultimately show ?thesis
    using reachable_msteps [OF reachable.start [OF sample_initial]]
    by (fastforce simp: sample_log sampleMachine_def)
qed

section \<open>Properties\<close>

lemma log_ok_Ran: "log_ok U N log \<Longrightarrow> Ran r s p \<in> set log \<Longrightarrow> ran_ok U N r s p"
  by (induction U N log rule: log_ok.induct) auto

lemma log_ok_split: "log_ok U N (xs @ Ran r s p # ys) \<Longrightarrow> Committed (art_observedGeneration (ar_status p)) \<notin> set ys"
  by (induction U N xs rule: log_ok.induct) auto



text \<open>
  C2 With reads that return the stored request, an action runs under the operation ID of one generation of its request, the one its status
  observed when it was prepared; two runs share an ID exactly when they share that generation. So a
  runtime that ignores a repeated ID performs each generation's action at most once.
\<close>

theorem operation_ids_identify_generations:
  assumes "reachable setc reg ar m" and "Ran r s p \<in> set (mc_log m)" and "Ran r' s' p' \<in> set (mc_log m)"
  shows "art_operationID (ar_status p) =
      operationID (m_uid (ar_meta ar)) (m_name (ar_meta ar)) (art_observedGeneration (ar_status p)) \<and>
    art_observedGeneration (ar_status p) \<le> generationOf p \<and>
    (art_operationID (ar_status p) = art_operationID (ar_status p') \<longleftrightarrow>
     art_observedGeneration (ar_status p) = art_observedGeneration (ar_status p'))"
proof -
  have "log_ok (m_uid (ar_meta ar)) (m_name (ar_meta ar)) (mc_log m)"
    using inv_reachable [OF assms(1)] by (simp add: inv_def)
  from log_ok_Ran [OF this assms(2)] log_ok_Ran [OF this assms(3)] show ?thesis
    by (simp add: ran_ok_def operationID_inject)
qed

theorem operation_ids_identify_generations_witness:
  "art_operationID (ar_status samplePrepared) =
     operationID ''7f3a'' ''restart-db'' (art_observedGeneration (ar_status samplePrepared))"
proof -
  obtain m where m: "reachable upsert_condition sampleRegistry (sampleRequest ApprovalModeAuto 1) m"
    and ran: "Ran sampleResolved (sampleRequest ApprovalModeAuto 1) samplePrepared \<in> set (mc_log m)"
    using sample_reachable by auto
  from operation_ids_identify_generations [OF m ran ran] show ?thesis by (simp add: sampleRequest_def)
qed

text \<open>What a run that started an action leaves behind.\<close>

lemma Reconcile_ran:
  assumes "snd (Reconcile env ob) \<noteq> []"
  shows "art_observedGeneration (ar_status (fst (Reconcile env ob))) = generationOf (fst (Reconcile env ob)) \<and>
    (art_operationState (ar_status (fst (Reconcile env ob))) = actionOperationStateApplied \<or>
     terminalPhase (art_phase (ar_status (fst (Reconcile env ob)))))"
proof -
  obtain r where d: "decide (en_setc env) (en_adapters env) (en_reader env) ob = DPrepare r"
    using assms by (auto simp: Reconcile_def split: decision.splits)
  define q where "q = patchStatus env (patchPrepare (en_setc env)) ob"
  have r: "Reconcile env ob = runPrepared env r ob q" by (simp add: Reconcile_def d q_def)
  then have "afterPrepare q = CExecute"
    using assms by (auto simp: runPrepared_def split: continuation.splits option.splits)
  moreover define p where "p = (case en_execute env r q (art_operationID (ar_status q)) of
      Inl err \<Rightarrow> patchExecutionFailed (en_setc env) (en_errorText env err)
    | Inr result \<Rightarrow> patchExecuted (en_setc env) result)"
  ultimately have run: "fst (Reconcile env ob) = patchStatus env p q"
    by (simp add: r runPrepared_def Let_def)
  have "(\<exists>txt. p = patchExecutionFailed (en_setc env) txt) \<or> (\<exists>res. p = patchExecuted (en_setc env) res)"
    by (auto simp: p_def split: sum.splits)
  then show ?thesis
    by (auto simp: run patchStatus_def patch_defs operationState_after split: if_splits)
qed

lemma Reconcile_terminal:
  assumes "art_observedGeneration (ar_status ob) = generationOf ob" and "terminalPhase (art_phase (ar_status ob))"
  shows "Reconcile env ob = (ob, [])"
  using assms by (simp add: Reconcile_def decide_def actionAlreadySubmitted_def)

text \<open>
  With no new generation, a request is executed at most once: after a run that started its action,
  no later run starts it again, and none changes a request that has reached a final phase.
\<close>

theorem reconcile_executes_once:
  assumes "snd (Reconcile env ob) \<noteq> []"
  shows "snd (Reconcile env' (fst (Reconcile env ob))) = [] \<and>
    (terminalPhase (art_phase (ar_status (fst (Reconcile env ob)))) \<longrightarrow>
       fst (Reconcile env' (fst (Reconcile env ob))) = fst (Reconcile env ob))"
proof -
  define x where "x = fst (Reconcile env ob)"
  have x: "art_observedGeneration (ar_status x) = generationOf x"
      "art_operationState (ar_status x) = actionOperationStateApplied \<or> terminalPhase (art_phase (ar_status x))"
    using Reconcile_ran [OF assms] by (simp_all add: x_def)
  have "snd (Reconcile env' x) = []"
  proof (cases "terminalPhase (art_phase (ar_status x))")
    case True
    then show ?thesis using Reconcile_terminal x(1) by simp
  next
    case False
    then have "afterPrepare (patchStatus env' (patchPrepare (en_setc env')) x) = CInFlight"
      using x by (simp add: afterPrepare_def patchStatus_def patchPrepare_fields Let_def)
    then show ?thesis
      by (auto simp: Reconcile_def runPrepared_def split: decision.splits option.splits)
  qed
  then show ?thesis using Reconcile_terminal x(1) by (simp add: x_def)
qed

theorem reconcile_executes_once_witness:
  "snd (Reconcile sampleEnv (fst (Reconcile sampleEnv (sampleRequest ApprovalModeAuto 1)))) = []"
  using reconcile_executes_once [of sampleEnv "sampleRequest ApprovalModeAuto 1" sampleEnv] sample_log by simp

text \<open>
  A run that asks to be repeated because a dependency is missing is not repeated: it has recorded
  the request as failed for its generation, so every later run, even with the dependency in place,
  returns without doing anything.
\<close>

theorem requeued_requests_are_final:
  assumes "decide (en_setc env) (en_adapters env) (en_reader env) ob = DPatch p True"
  shows "Reconcile env' (fst (Reconcile env ob)) = (fst (Reconcile env ob), [])"
proof -
  have "\<exists>err. p = patchResolutionFailed (en_setc env) err"
    using assms by (auto simp: decide_def split: if_splits sum.splits resolve_error.splits)
  then show ?thesis using assms
    by (intro prod_eqI Reconcile_terminal [THEN trans])
      (auto simp: Reconcile_def patchStatus_def patch_defs Reconcile_terminal)
qed

definition emptyEnv :: reconcile_env where
  "emptyEnv = sampleEnv\<lparr>en_reader := sampleReader\<lparr>rd_ServiceInstance := (\<lambda>_. Inl NotFound)\<rparr>\<rparr>"

lemma empty_decide:
  "\<exists>p. decide (en_setc emptyEnv) (en_adapters emptyEnv) (en_reader emptyEnv) (sampleRequest ApprovalModeAuto 1) =
     DPatch p True"
proof -
  have "equalFold ''ServiceInstance'' ''ServiceInstance''" by (simp add: equalFold_def)
  moreover have "\<not> actionAlreadySubmitted (ar_status (sampleRequest ApprovalModeAuto 1))
      (generationOf (sampleRequest ApprovalModeAuto 1))"
    by (simp add: actionAlreadySubmitted_def sampleRequest_def terminalPhase_def)
  ultimately show ?thesis
    by (simp add: decide_def emptyEnv_def sampleEnv_def sampleRegistry_def resolveAction_def Let_def
        dependency_def wrapDependencyError_def sampleReader_def) (simp add: sampleRequest_def)
qed

theorem requeued_requests_are_final_witness:
  "snd (Reconcile sampleEnv (fst (Reconcile emptyEnv (sampleRequest ApprovalModeAuto 1)))) = []"
proof -
  obtain p where "decide (en_setc emptyEnv) (en_adapters emptyEnv) (en_reader emptyEnv)
      (sampleRequest ApprovalModeAuto 1) = DPatch p True"
    using empty_decide by blast
  from requeued_requests_are_final [OF this] show ?thesis by simp
qed

section \<open>Races with spec updates\<close>

definition racedRequest :: action_request where
  "racedRequest = (sampleRequest ApprovalModeRequired 2)"

text \<open>
  C40 An update that makes approval required, accepted between the two reads of one run, does not stop
  the run: it executes the updated request although that one is waiting for approval.
\<close>

theorem update_race_runs_unapproved:
  "\<exists>m p. reachable upsert_condition sampleRegistry (sampleRequest ApprovalModeAuto 1) m \<and>
     Ran sampleResolved (sampleRequest ApprovalModeAuto 1) p \<in> set (mc_log m) \<and>
     approvalPending p (ra_capability sampleResolved)"
proof -
  let ?ob = "sampleRequest ApprovalModeAuto 1" and ?k = "KPrepared sampleResolved (sampleRequest ApprovalModeAuto 1)"
  define st where "st = patchPrepare upsert_condition 0 ?ob"
  define p where "p = racedRequest\<lparr>ar_status := st\<rparr>"
  define m1 where "m1 = sampleMachine\<lparr>mc_pc := PatchWrite ?ob st ?k\<rparr>"
  define m2 where "m2 = m1\<lparr>mc_obj := Some racedRequest\<rparr>"
  define m3 where "m3 = m2\<lparr>mc_obj := Some p, mc_pc := Resume ?k p\<rparr>"
  note R = reachable.step [where setc = upsert_condition and reg = sampleRegistry]
  have r0: "reachable upsert_condition sampleRegistry ?ob sampleMachine"
    by (rule reachable.start [OF sample_initial])
  have r1: "reachable upsert_condition sampleRegistry ?ob (sampleMachine\<lparr>mc_pc := Got ?ob\<rparr>)"
    by (rule R [OF r0 mstep.get]) (simp_all add: sampleMachine_def)
  have "mstep upsert_condition sampleRegistry (sampleMachine\<lparr>mc_pc := Got ?ob\<rparr>)
      (sampleMachine\<lparr>mc_pc := Got ?ob, mc_pc := PatchRead (patchPrepare upsert_condition) ?k\<rparr>)"
    by (rule mstep.decide_prepare [OF _ sample_decide]) simp
  from R [OF r1 this] have r2: "reachable upsert_condition sampleRegistry ?ob
      (sampleMachine\<lparr>mc_pc := PatchRead (patchPrepare upsert_condition) ?k\<rparr>)"
    by simp
  have "st \<noteq> ar_status ?ob"
    using patchPrepare_fields(1) [of upsert_condition 0 ?ob]
    by (auto simp: st_def generationOf_def sampleRequest_def)
  then have "mstep upsert_condition sampleRegistry
      (sampleMachine\<lparr>mc_pc := PatchRead (patchPrepare upsert_condition) ?k\<rparr>)
      (sampleMachine\<lparr>mc_pc := PatchRead (patchPrepare upsert_condition) ?k, mc_pc := PatchWrite ?ob st ?k\<rparr>)"
    unfolding st_def by (intro mstep.patch_read) (simp_all add: sampleMachine_def)
  from R [OF r2 this] have r3: "reachable upsert_condition sampleRegistry ?ob m1" by (simp add: m1_def)
  have "validateActionRequestUpdate ?ob racedRequest = None" by code_simp
  then have "mstep upsert_condition sampleRegistry m1 m2"
    unfolding m2_def by (intro mstep.spec_update [where ob = ?ob])
      (simp_all add: m1_def sampleMachine_def racedRequest_def sampleRequest_def generationOf_def)
  from R [OF r3 this] have r4: "reachable upsert_condition sampleRegistry ?ob m2" .
  have "ar_status racedRequest = ar_status ?ob" by (simp add: racedRequest_def sampleRequest_def)
  then have "mstep upsert_condition sampleRegistry m2 m3"
    unfolding m3_def by (intro mstep.patch_write [where before = ?ob and st = st and ob = racedRequest])
      (simp_all add: m2_def m1_def p_def)
  from R [OF r4 this] have r5: "reachable upsert_condition sampleRegistry ?ob m3" .
  have "afterPrepare p = CExecute"
    by (rule afterPrepare_Prepared)
      (simp add: p_def st_def patchPrepare_fields, simp add: sampleRequest_def generationOf_def)
  then have "mstep upsert_condition sampleRegistry m3
      (m3\<lparr>mc_pc := Execute sampleResolved ?ob p, mc_log := Ran sampleResolved ?ob p # mc_log m3\<rparr>)"
    by (intro mstep.resume_execute) (simp_all add: m3_def)
  from R [OF r5 this] have "reachable upsert_condition sampleRegistry ?ob
      (m3\<lparr>mc_pc := Execute sampleResolved ?ob p, mc_log := Ran sampleResolved ?ob p # mc_log m3\<rparr>)" .
  moreover have "approvalPending p (ra_capability sampleResolved)"
    by (simp add: approvalPending_def p_def racedRequest_def sampleRequest_def)
  ultimately show ?thesis by fastforce
qed

text \<open>
  An update accepted while an action runs is never acted on when the action then ends: the result
  is recorded against the newer generation.
\<close>

theorem update_during_execution_is_swallowed:
  assumes "terminalPhase (normalizedActionPhase (ae_Phase result))"
  shows "Reconcile env (c\<lparr>ar_status := patchExecuted setc result now c\<rparr>) =
    (c\<lparr>ar_status := patchExecuted setc result now c\<rparr>, [])"
  using assms by (intro Reconcile_terminal) (simp_all add: patch_defs)

theorem update_during_execution_is_swallowed_witness:
  "snd (Reconcile sampleEnv (racedRequest\<lparr>ar_status :=
     patchExecuted upsert_condition \<lparr>ae_Phase = ''Succeeded'', ae_OperationRef = None, ae_Message = ''done'',
       ae_Retryable = False\<rparr> 0 racedRequest\<rparr>)) = []"
proof -
  let ?result = "\<lparr>ae_Phase = ''Succeeded'', ae_OperationRef = None, ae_Message = ''done'', ae_Retryable = False\<rparr>"
  have "terminalPhase (normalizedActionPhase (ae_Phase ?result))" by code_simp
  from update_during_execution_is_swallowed [OF this, where env = sampleEnv and c = racedRequest
      and setc = upsert_condition and now = 0]
  show ?thesis by simp
qed

end
