(* ===== verification/Action_Cache.thy ===== *)
theory Action_Cache
  imports Action_Properties
begin

text \<open>
  The action controller reads through the manager's cached client (\<open>cmd/manager/main.go\<close> gives the
  reconciler \<open>mgr.GetClient()\<close>), so \<open>r.Get\<close>, at the start of a run and at the start of every status
  patch, returns the informer's copy of the request, which follows the stored one with a delay;
  writes go to the API server. \<open>cstep\<close> is the step relation of \<open>Action_Machine\<close> with these reads:
  every version that is stored becomes a watch event, the copy advances event by event and never
  goes back, and \<open>ca_stale\<close> counts the reads that returned another version than the stored one.
  Approval is checked on a version of the very request that runs, however old the copy is; an operation
  whose result was written back is started again only if a read was stale, and a concrete run does that.
\<close>

section \<open>The machine behind a cache\<close>

record cached =
  ca_machine :: machine
  ca_copy :: "action_request option"
  ca_events :: "action_request option list"
  ca_stale :: nat

text \<open>The steps that call \<open>r.Get\<close>: the first read of a run and the read of a status patch.\<close>

fun reading :: "pc \<Rightarrow> pc \<Rightarrow> bool" where
  "reading Idle (Got s) = True"
| "reading (PatchRead p k) (Resume k' ob) = True"
| "reading (PatchRead p k) (PatchWrite before st k') = True"
| "reading q q' = False"

definition watchEvents :: "machine \<Rightarrow> machine \<Rightarrow> action_request option list" where
  "watchEvents m m' = (if mc_obj m' = mc_obj m then [] else [mc_obj m'])"

definition staleRead :: "cached \<Rightarrow> nat" where
  "staleRead c = (if ca_copy c = mc_obj (ca_machine c) then 0 else 1)"

inductive cstep :: "set_condition \<Rightarrow> registry option \<Rightarrow> cached \<Rightarrow> cached \<Rightarrow> bool"
  for setc reg where
  direct: "mstep setc reg (ca_machine c) m' \<Longrightarrow> \<not> reading (mc_pc (ca_machine c)) (mc_pc m') \<Longrightarrow>
    cstep setc reg c (c\<lparr>ca_machine := m', ca_events := ca_events c @ watchEvents (ca_machine c) m'\<rparr>)"
| cached_read: "mstep setc reg ((ca_machine c)\<lparr>mc_obj := ca_copy c\<rparr>) m' \<Longrightarrow>
    reading (mc_pc (ca_machine c)) (mc_pc m') \<Longrightarrow>
    cstep setc reg c (c\<lparr>ca_machine := m'\<lparr>mc_obj := mc_obj (ca_machine c)\<rparr>,
      ca_stale := ca_stale c + staleRead c\<rparr>)"
| deliver: "ca_events c = v # vs \<Longrightarrow> cstep setc reg c (c\<lparr>ca_copy := v, ca_events := vs\<rparr>)"
| relist: "cstep setc reg c (c\<lparr>ca_machine := (ca_machine c)\<lparr>mc_pc := Idle\<rparr>,
    ca_copy := mc_obj (ca_machine c), ca_events := []\<rparr>)"

text \<open>A restarted manager lists the requests again (\<open>relist\<close>).\<close>

definition cachedInitial :: "machine \<Rightarrow> cached" where
  "cachedInitial m = \<lparr>ca_machine = m, ca_copy = mc_obj m, ca_events = [], ca_stale = 0\<rparr>"

inductive creachable :: "set_condition \<Rightarrow> registry option \<Rightarrow> action_request \<Rightarrow> cached \<Rightarrow> bool"
  for setc reg ar where
  start: "initial ar m \<Longrightarrow> creachable setc reg ar (cachedInitial m)"
| step: "creachable setc reg ar c \<Longrightarrow> cstep setc reg c c' \<Longrightarrow> creachable setc reg ar c'"

section \<open>Runs without a stale read\<close>

lemma reading_irrefl [simp]: "\<not> reading q q"
  by (cases q) auto

lemma reading_keeps_obj:
  assumes "mstep setc reg m m'" and "reading (mc_pc m) (mc_pc m')"
  shows "mc_obj m' = mc_obj m"
  using assms by (cases rule: mstep.cases) auto

lemma same_machine_obj [simp]: "m\<lparr>mc_obj := mc_obj m\<rparr> = m"
  by (cases m) simp

text \<open>As long as no read was stale the machine is in a state of the relation with direct reads.\<close>

lemma fresh_reachable:
  "creachable setc reg ar c \<Longrightarrow> ca_stale c = 0 \<Longrightarrow> reachable setc reg ar (ca_machine c)"
proof (induction rule: creachable.induct)
  case (start m)
  then show ?case by (simp add: cachedInitial_def reachable.start)
next
  case (step c c')
  from step.hyps(2) show ?case
  proof cases
    case (direct m')
    then show ?thesis using step by (auto intro: reachable.step)
  next
    case (cached_read m')
    then have copy: "ca_copy c = mc_obj (ca_machine c)" and st: "ca_stale c = 0"
      using step.prems by (auto simp: staleRead_def split: if_splits)
    then have m: "mstep setc reg (ca_machine c) m'" using cached_read by simp
    then have "mc_obj m' = mc_obj (ca_machine c)" using reading_keeps_obj cached_read by blast
    then have "m'\<lparr>mc_obj := mc_obj (ca_machine c)\<rparr> = m'" by (metis same_machine_obj)
    then show ?thesis using cached_read step.IH [OF st] m reachable.step by fastforce
  next
    case (deliver v vs)
    then show ?thesis using step by simp
  next
    case relist
    then show ?thesis using step by (auto intro: reachable.step mstep.stop)
  qed
qed

section \<open>What stale reads cannot break\<close>

text \<open>\<open>later a b\<close>: \<open>b\<close> is a version of the request stored after \<open>a\<close>, or its deletion.\<close>

fun later :: "action_request option \<Rightarrow> action_request option \<Rightarrow> bool" where
  "later (Some a) (Some b) = sameline a b"
| "later None (Some b) = False"
| "later a None = True"

lemma later_refl [simp]: "later a a"
  by (cases a) auto

lemma later_trans: "later a b \<Longrightarrow> later b c \<Longrightarrow> later a c"
  using sameline_trans by (cases a; cases b; cases c) auto

definition seen :: "action_request option \<Rightarrow> kont \<Rightarrow> bool" where
  "seen copy k = (case k of KPrepared r s \<Rightarrow> approved r s \<and> later (Some s) copy | _ \<Rightarrow> True)"

fun pc_seen :: "action_request option \<Rightarrow> pc \<Rightarrow> bool" where
  "pc_seen copy (Got s) = later (Some s) copy"
| "pc_seen copy (PatchRead p k) = seen copy k"
| "pc_seen copy (PatchWrite before st k) = seen copy k"
| "pc_seen copy (Resume k ob) = kont_ok k ob"
| "pc_seen copy q = True"

definition approved_log :: "event list \<Rightarrow> bool" where
  "approved_log log = (\<forall>r s p. Ran r s p \<in> set log \<longrightarrow> approved r s \<and> sameline s p)"

definition cinv :: "cached \<Rightarrow> bool" where
  "cinv c \<longleftrightarrow> sorted_wrt later (ca_copy c # ca_events c @ [mc_obj (ca_machine c)]) \<and>
     pc_seen (ca_copy c) (mc_pc (ca_machine c)) \<and> approved_log (mc_log (ca_machine c))"

lemma seen_later: "seen a k \<Longrightarrow> later a b \<Longrightarrow> seen b k"
  unfolding seen_def using later_trans by (auto split: kont.splits)

lemma pc_seen_later: "pc_seen a q \<Longrightarrow> later a b \<Longrightarrow> pc_seen b q"
  using later_trans seen_later by (cases q) auto

lemma seen_kont_ok: "seen (Some ob) k \<Longrightarrow> kont_ok k ob"
  by (auto simp: seen_def kont_ok_def split: kont.splits)

lemma sorted_wrt_extend:
  assumes "sorted_wrt later (xs @ [a])" and "later a b"
  shows "sorted_wrt later (xs @ (if b = a then [] else [b]) @ [b])"
  using assms later_trans by (auto simp: sorted_wrt_append)

lemma approved_log_simps [simp]:
  "approved_log []" "approved_log (Committed g # log) = approved_log log"
  "approved_log (Ran r s p # log) = (approved r s \<and> sameline s p \<and> approved_log log)"
  by (auto simp: approved_log_def)

lemma mstep_later: "mstep setc reg m m' \<Longrightarrow> later (mc_obj m) (mc_obj m')"
proof (induction rule: mstep.induct)
  case (spec_update m ob ob')
  then show ?case using sameline_update by simp
next
  case (meta_update m ob meta)
  then show ?case by (simp add: sameline_def generationOf_def)
qed (auto simp: sameline_def generationOf_def)

lemma direct_pc_seen:
  assumes "mstep setc reg m m'" and "\<not> reading (mc_pc m) (mc_pc m')"
    and "pc_seen copy (mc_pc m)" and "later copy (mc_obj m)" and "approved_log (mc_log m)"
  shows "pc_seen copy (mc_pc m') \<and> approved_log (mc_log m')"
  using assms
proof (induction rule: mstep.induct)
  case (patch_write m before st k ob ob')
  then have "seen (Some ob) k" using seen_later by auto
  then have "kont_ok k ob'" using seen_kont_ok kont_ok_later patch_write.hyps(3) by (metis sameline_refl sameline_status(1))
  then show ?case using patch_write by simp
next
  case (decide_prepare m s rd r)
  then show ?case using decide_DPrepare by (auto simp: seen_def)
next
  case (resume_execute m r s ob)
  then show ?case by (auto simp: kont_ok_def)
qed (auto simp: seen_def)

lemma cinv_step: "cstep setc reg c c' \<Longrightarrow> cinv c \<Longrightarrow> cinv c'"
proof (induction rule: cstep.induct)
  case (direct c m')
  have s: "sorted_wrt later ((ca_copy c # ca_events c) @ [mc_obj (ca_machine c)])"
    using direct.prems by (simp add: cinv_def)
  have "later (ca_copy c) (mc_obj (ca_machine c))" using direct.prems by (simp add: cinv_def)
  then have "pc_seen (ca_copy c) (mc_pc m') \<and> approved_log (mc_log m')"
    using direct.prems by (intro direct_pc_seen [OF direct.hyps]) (simp_all add: cinv_def)
  then show ?case
    using sorted_wrt_extend [OF s mstep_later [OF direct.hyps(1)]] by (simp add: cinv_def watchEvents_def)
next
  case (cached_read c m')
  then have "pc_seen (ca_copy c) (mc_pc m') \<and> mc_log m' = mc_log (ca_machine c)"
    by (cases rule: mstep.cases) (auto simp: cinv_def intro: seen_kont_ok)
  then show ?case using cached_read by (simp add: cinv_def)
next
  case (deliver c v vs)
  then show ?case using pc_seen_later by (auto simp: cinv_def)
next
  case (relist c)
  then show ?case by (simp add: cinv_def)
qed

lemma cinv_reachable: "creachable setc reg ar c \<Longrightarrow> cinv c"
proof (induction rule: creachable.induct)
  case (start m)
  then show ?case by (simp add: cachedInitial_def cinv_def initial_def)
next
  case (step c c')
  then show ?case using cinv_step by blast
qed

section \<open>A run with stale reads\<close>

text \<open>The cached machine at a glance: stored request, position, log, copy, events to come, stale reads.\<close>

definition at_point ::
  "action_request \<Rightarrow> pc \<Rightarrow> event list \<Rightarrow> action_request \<Rightarrow> action_request option list \<Rightarrow> nat \<Rightarrow> cached" where
  "at_point ob q log copy evs n = \<lparr>ca_machine = \<lparr>mc_obj = Some ob, mc_pc = q, mc_log = log\<rparr>,
     ca_copy = Some copy, ca_events = evs, ca_stale = n\<rparr>"

lemma direct_step:
  assumes "creachable setc reg ar (at_point ob q log copy evs n)"
    and "mstep setc reg \<lparr>mc_obj = Some ob, mc_pc = q, mc_log = log\<rparr> \<lparr>mc_obj = Some ob', mc_pc = q', mc_log = log'\<rparr>"
    and "\<not> reading q q'"
  shows "creachable setc reg ar (at_point ob' q' log' copy (evs @ (if ob' = ob then [] else [Some ob'])) n)"
  using creachable.step [OF assms(1) cstep.direct [where m' = "\<lparr>mc_obj = Some ob', mc_pc = q', mc_log = log'\<rparr>"]] assms(2,3)
  by (simp add: at_point_def watchEvents_def split: if_splits)

lemma read_step:
  assumes "creachable setc reg ar (at_point ob q log copy evs n)"
    and "mstep setc reg \<lparr>mc_obj = Some copy, mc_pc = q, mc_log = log\<rparr> \<lparr>mc_obj = Some copy, mc_pc = q', mc_log = log\<rparr>"
    and "reading q q'"
  shows "creachable setc reg ar (at_point ob q' log copy evs (n + (if copy = ob then 0 else 1)))"
  using creachable.step [OF assms(1) cstep.cached_read [where m' = "\<lparr>mc_obj = Some copy, mc_pc = q', mc_log = log\<rparr>"]] assms(2,3)
  by (simp add: at_point_def staleRead_def split: if_splits)

lemma deliver_step:
  "creachable setc reg ar (at_point ob q log copy (Some v # vs) n) \<Longrightarrow> creachable setc reg ar (at_point ob q log v vs n)"
  using creachable.step [OF _ cstep.deliver] by (fastforce simp: at_point_def)

definition sampleResult :: action_execution_result where
  "sampleResult = \<lparr>ae_Phase = ''Succeeded'', ae_OperationRef = None, ae_Message = ''done'', ae_Retryable = False\<rparr>"

definition sampleFinished :: action_request where
  "sampleFinished = samplePrepared\<lparr>ar_status := patchExecuted upsert_condition sampleResult 5 samplePrepared\<rparr>"

lemma resolveAction_status: "resolveAction reg rd (x\<lparr>ar_status := st\<rparr>) = resolveAction reg rd x"
  by (simp add: resolveAction_def)

lemma samplePrepared_eq:
  "samplePrepared = (sampleRequest ApprovalModeAuto 1)\<lparr>ar_status :=
     patchPrepare upsert_condition 0 (sampleRequest ApprovalModeAuto 1)\<rparr>"
  by (simp add: samplePrepared_def patchStatus_def sampleEnv_def)

lemma samplePrepared_status:
  "art_observedGeneration (ar_status samplePrepared) = 1" "art_phase (ar_status samplePrepared) = ''Running''"
  "generationOf samplePrepared = 1"
  "ar_status samplePrepared \<noteq> ar_status (sampleRequest ApprovalModeAuto 1)"
proof -
  show g: "art_observedGeneration (ar_status samplePrepared) = 1" "generationOf samplePrepared = 1"
    by (simp_all add: samplePrepared_eq patchPrepare_fields) (simp_all add: sampleRequest_def generationOf_def)
  show "art_phase (ar_status samplePrepared) = ''Running''"
    by (simp add: samplePrepared_eq patchPrepare_fields) (simp add: sampleRequest_def generationOf_def)
  show "ar_status samplePrepared \<noteq> ar_status (sampleRequest ApprovalModeAuto 1)"
    using g(1) by (auto simp: sampleRequest_def)
qed

lemma sampleFinished_status:
  "art_phase (ar_status sampleFinished) = ''Succeeded''" "generationOf sampleFinished = 1"
  "sampleFinished \<noteq> samplePrepared"
proof -
  have "normalizedActionPhase ''Succeeded'' = ''Succeeded''" by code_simp
  then show p: "art_phase (ar_status sampleFinished) = ''Succeeded''"
    by (simp add: sampleFinished_def patch_defs sampleResult_def)
  show "generationOf sampleFinished = 1" by (simp add: sampleFinished_def samplePrepared_status)
  show "sampleFinished \<noteq> samplePrepared" using p samplePrepared_status(2) by auto
qed

lemma prepared_decide:
  "decide upsert_condition sampleRegistry sampleReader samplePrepared = DPrepare sampleResolved"
proof -
  have "resolveAction sampleRegistry sampleReader samplePrepared = Inr sampleResolved"
    by (simp add: samplePrepared_eq resolveAction_status sample_resolve)
  moreover have "ar_spec samplePrepared = ar_spec (sampleRequest ApprovalModeAuto 1)"
    by (simp add: samplePrepared_eq)
  ultimately show ?thesis
    by (simp add: decide_def actionAlreadySubmitted_def terminalPhase_def samplePrepared_status approvalPending_def
        approvalApprovedWithoutApprover_def sampleResolved_def sampleCapability_def) (simp add: sampleRequest_def)
qed

text \<open>A second prepare patch, at a later time, changes nothing.\<close>

lemma prepared_again: "patchPrepare upsert_condition 9 samplePrepared = ar_status samplePrepared"
  unfolding samplePrepared_eq by code_simp

text \<open>
  The run: it prepares, executes and writes the result; the event of the prepared status, which asked
  for another run, is all that the cache has seen by then. The next run reads that version twice, finds
  nothing to patch, and executes.
\<close>

theorem stale_reads_rerun_committed:
  "\<exists>c p. creachable upsert_condition sampleRegistry (sampleRequest ApprovalModeAuto 1) c \<and>
     mc_log (ca_machine c) =
       [Ran sampleResolved p p, Committed 1, Ran sampleResolved (sampleRequest ApprovalModeAuto 1) p] \<and>
     art_observedGeneration (ar_status p) = 1 \<and> ca_stale c = 2 \<and>
     (\<exists>ob. mc_obj (ca_machine c) = Some ob \<and> art_phase (ar_status ob) = ''Succeeded'' \<and> generationOf ob = 1)"
proof -
  let ?ob = "sampleRequest ApprovalModeAuto 1" and ?P = samplePrepared and ?F = sampleFinished
  let ?k = "KPrepared sampleResolved ?ob" and ?k2 = "KPrepared sampleResolved ?P"
  let ?prep = "patchPrepare upsert_condition" and ?exec = "patchExecuted upsert_condition sampleResult"
  let ?L = "[Ran sampleResolved ?ob ?P]"
  let ?C = "creachable upsert_condition sampleRegistry ?ob"
  have "initial ?ob sampleMachine" by (rule sample_initial)
  from creachable.start [OF this] have r0: "?C (at_point ?ob Idle [] ?ob [] 0)"
    by (simp add: cachedInitial_def at_point_def sampleMachine_def)
  note D = direct_step [where setc = upsert_condition and reg = sampleRegistry]
    and R = read_step [where setc = upsert_condition and reg = sampleRegistry]
  from R [OF r0, of "Got ?ob"] have r1: "?C (at_point ?ob (Got ?ob) [] ?ob [] 0)"
    using mstep.get [of "\<lparr>mc_obj = Some ?ob, mc_pc = Idle, mc_log = []\<rparr>" ?ob] by simp
  from D [OF r1, of ?ob "PatchRead ?prep ?k" "[]"] have r2: "?C (at_point ?ob (PatchRead ?prep ?k) [] ?ob [] 0)"
    using mstep.decide_prepare [of "\<lparr>mc_obj = Some ?ob, mc_pc = Got ?ob, mc_log = []\<rparr>" ?ob, OF _ sample_decide] by simp
  from R [OF r2, of "PatchWrite ?ob (ar_status ?P) ?k"]
  have r3: "?C (at_point ?ob (PatchWrite ?ob (ar_status ?P) ?k) [] ?ob [] 0)"
    using mstep.patch_read [of "\<lparr>mc_obj = Some ?ob, mc_pc = PatchRead ?prep ?k, mc_log = []\<rparr>" ?prep ?k ?ob 0]
      samplePrepared_status(4) by (simp add: samplePrepared_eq)
  have "?P \<noteq> ?ob" using samplePrepared_status(4) by metis
  with D [OF r3, of ?P "Resume ?k ?P" "[]"] have r4: "?C (at_point ?P (Resume ?k ?P) [] ?ob [Some ?P] 0)"
    using mstep.patch_write [of "\<lparr>mc_obj = Some ?ob, mc_pc = PatchWrite ?ob (ar_status ?P) ?k, mc_log = []\<rparr>"
        ?ob "ar_status ?P" ?k ?ob ?P] by (simp add: samplePrepared_eq)
  have after: "afterPrepare ?P = CExecute" using sample_prepared by (simp add: samplePrepared_def)
  from D [OF r4, of ?P "Execute sampleResolved ?ob ?P" ?L]
  have r5: "?C (at_point ?P (Execute sampleResolved ?ob ?P) ?L ?ob [Some ?P] 0)"
    using mstep.resume_execute [of "\<lparr>mc_obj = Some ?P, mc_pc = Resume ?k ?P, mc_log = []\<rparr>" sampleResolved ?ob ?P] after
    by simp
  from D [OF r5, of ?P "PatchRead ?exec (KCommit 1)" ?L]
  have r6: "?C (at_point ?P (PatchRead ?exec (KCommit 1)) ?L ?ob [Some ?P] 0)"
    using mstep.executed [of "\<lparr>mc_obj = Some ?P, mc_pc = Execute sampleResolved ?ob ?P, mc_log = ?L\<rparr>" sampleResolved ?ob ?P
        ?exec upsert_condition sampleResult] by (simp add: samplePrepared_status)
  from deliver_step [OF r6] have r7: "?C (at_point ?P (PatchRead ?exec (KCommit 1)) ?L ?P [] 0)" .
  have "?exec 5 ?P \<noteq> ar_status ?P" using sampleFinished_status(1) samplePrepared_status(2) by (auto simp: sampleFinished_def)
  with R [OF r7, of "PatchWrite ?P (ar_status ?F) (KCommit 1)"]
  have r8: "?C (at_point ?P (PatchWrite ?P (ar_status ?F) (KCommit 1)) ?L ?P [] 0)"
    using mstep.patch_read [of "\<lparr>mc_obj = Some ?P, mc_pc = PatchRead ?exec (KCommit 1), mc_log = ?L\<rparr>" ?exec "KCommit 1" ?P 5]
    by (simp add: sampleFinished_def)
  from D [OF r8, of ?F "Resume (KCommit 1) ?F" ?L]
  have r9: "?C (at_point ?F (Resume (KCommit 1) ?F) ?L ?P [Some ?F] 0)"
    using mstep.patch_write [of "\<lparr>mc_obj = Some ?P, mc_pc = PatchWrite ?P (ar_status ?F) (KCommit 1), mc_log = ?L\<rparr>"
        ?P "ar_status ?F" "KCommit 1" ?P ?F] sampleFinished_status(3) by (simp add: sampleFinished_def)
  from D [OF r9, of ?F Idle "Committed 1 # ?L"] have r10: "?C (at_point ?F Idle (Committed 1 # ?L) ?P [Some ?F] 0)"
    using mstep.resume_commit [of "\<lparr>mc_obj = Some ?F, mc_pc = Resume (KCommit 1) ?F, mc_log = ?L\<rparr>" 1 ?F] by simp
  from R [OF r10, of "Got ?P"] have r11: "?C (at_point ?F (Got ?P) (Committed 1 # ?L) ?P [Some ?F] 1)"
    using mstep.get [of "\<lparr>mc_obj = Some ?P, mc_pc = Idle, mc_log = Committed 1 # ?L\<rparr>" ?P] sampleFinished_status(3)
    by (simp add: eq_commute [of ?P ?F])
  from D [OF r11, of ?F "PatchRead ?prep ?k2" "Committed 1 # ?L"]
  have r12: "?C (at_point ?F (PatchRead ?prep ?k2) (Committed 1 # ?L) ?P [Some ?F] 1)"
    using mstep.decide_prepare [of "\<lparr>mc_obj = Some ?F, mc_pc = Got ?P, mc_log = Committed 1 # ?L\<rparr>" ?P, OF _ prepared_decide]
    by simp
  from R [OF r12, of "Resume ?k2 ?P"] have r13: "?C (at_point ?F (Resume ?k2 ?P) (Committed 1 # ?L) ?P [Some ?F] 2)"
    using mstep.patch_same [of "\<lparr>mc_obj = Some ?P, mc_pc = PatchRead ?prep ?k2, mc_log = Committed 1 # ?L\<rparr>" ?prep ?k2 ?P 9,
        OF _ _ prepared_again] sampleFinished_status(3) by (simp add: eq_commute [of ?P ?F] numeral_2_eq_2)
  from D [OF r13, of ?F "Execute sampleResolved ?P ?P" "Ran sampleResolved ?P ?P # Committed 1 # ?L"]
  have "?C (at_point ?F (Execute sampleResolved ?P ?P) (Ran sampleResolved ?P ?P # Committed 1 # ?L) ?P [Some ?F] 2)"
    using mstep.resume_execute [of "\<lparr>mc_obj = Some ?F, mc_pc = Resume ?k2 ?P, mc_log = Committed 1 # ?L\<rparr>" sampleResolved ?P ?P]
      after by simp
  then show ?thesis
    using samplePrepared_status(1) sampleFinished_status(1,2)
    by (intro exI [of _ "at_point ?F (Execute sampleResolved ?P ?P) (Ran sampleResolved ?P ?P # Committed 1 # ?L) ?P [Some ?F] 2"]
        exI [of _ ?P]) (simp add: at_point_def)
qed

section \<open>Properties\<close>

text \<open>
  C3 Once the result of a generation's operation has been written to the status, that operation is started
  again only if some read of the controller was stale, that is, returned another version of the request than
  the stored one: whatever updates, crashes and restarts follow, reads that are up to date never let it run
  twice (the log is newest first). The witness is a run with two stale reads that does start it again.
\<close>

theorem committed_operations_rerun_on_stale_reads:
  assumes "creachable setc reg ar c" and "mc_log (ca_machine c) = xs @ Ran r s p # ys"
    and "Committed (art_observedGeneration (ar_status p)) \<in> set ys"
  shows "0 < ca_stale c"
proof (rule ccontr)
  assume "\<not> 0 < ca_stale c"
  then have "reachable setc reg ar (ca_machine c)" using fresh_reachable [OF assms(1)] by simp
  from inv_reachable [OF this] show False using assms(2,3) log_ok_split by (fastforce simp: inv_def)
qed

theorem committed_operations_rerun_on_stale_reads_witness:
  "\<exists>c p. creachable upsert_condition sampleRegistry (sampleRequest ApprovalModeAuto 1) c \<and>
     mc_log (ca_machine c) =
       [Ran sampleResolved p p, Committed 1, Ran sampleResolved (sampleRequest ApprovalModeAuto 1) p] \<and>
     art_observedGeneration (ar_status p) = 1 \<and> 0 < ca_stale c"
proof -
  obtain c p where c: "creachable upsert_condition sampleRegistry (sampleRequest ApprovalModeAuto 1) c"
    and log: "mc_log (ca_machine c) = [] @ Ran sampleResolved p p #
      [Committed 1, Ran sampleResolved (sampleRequest ApprovalModeAuto 1) p]"
    and p: "art_observedGeneration (ar_status p) = 1"
    using stale_reads_rerun_committed by auto
  from committed_operations_rerun_on_stale_reads [OF c log] show ?thesis using c log p by auto
qed

text \<open>
  C4 However old the versions are that the controller reads, every action it starts was approved on the request
  it had read: that one needed no approval or carried one with an approver where the adapter demands it, and was
  not rejected. What runs is the target, action and idempotency key of that request, at the same or a later
  generation, and the same spec unless the spec was updated in between.
\<close>

theorem stale_reads_keep_approval:
  assumes "creachable setc reg ar c" and "Ran r s p \<in> set (mc_log (ca_machine c))"
  shows "\<not> approvalPending s (ra_capability r) \<and>
    ap_mode (ars_approval (ar_spec s)) \<noteq> ApprovalModeRejected \<and>
    \<not> approvalApprovedWithoutApprover s (ra_capability r) \<and>
    ars_targetRef (ar_spec p) = ars_targetRef (ar_spec s) \<and> ars_action (ar_spec p) = ars_action (ar_spec s) \<and>
    ars_idempotencyKey (ar_spec p) = ars_idempotencyKey (ar_spec s) \<and> generationOf s \<le> generationOf p \<and>
    (generationOf p = generationOf s \<longrightarrow> ar_spec p = ar_spec s)"
  using cinv_reachable [OF assms(1)] assms(2)
  by (auto simp: cinv_def approved_log_def approved_def sameline_def)

theorem stale_reads_keep_approval_witness:
  "\<exists>c p. creachable upsert_condition sampleRegistry (sampleRequest ApprovalModeAuto 1) c \<and> mc_log (ca_machine c) =
       [Ran sampleResolved p p, Committed 1, Ran sampleResolved (sampleRequest ApprovalModeAuto 1) p] \<and>
     ars_action (ar_spec p) = ActionRestart \<and> 0 < ca_stale c"
proof -
  obtain c p where c: "creachable upsert_condition sampleRegistry (sampleRequest ApprovalModeAuto 1) c" "ca_stale c = 2"
    and log: "mc_log (ca_machine c) =
      [Ran sampleResolved p p, Committed 1, Ran sampleResolved (sampleRequest ApprovalModeAuto 1) p]"
    using stale_reads_rerun_committed by auto
  then have "Ran sampleResolved (sampleRequest ApprovalModeAuto 1) p \<in> set (mc_log (ca_machine c))" by simp
  from stale_reads_keep_approval [OF c(1) this] have "ars_action (ar_spec p) = ActionRestart"
    by (simp add: sampleRequest_def)
  moreover have "0 < ca_stale c" using c(2) by simp
  ultimately show ?thesis using c(1) log by blast
qed

end
