(* ===== verification/Policy_Eval.thy ===== *)
theory Policy_Eval
  imports Admission_Common Go_Float "HOL-Library.AList" "HOL-Library.Char_ord" "HOL-Library.List_Lexorder"
begin

text \<open>
  \<open>internal/controllers/policy_evaluator.go\<close>: which policies apply to a service instance and
  what they report. A Go value of type \<open>any\<close> is \<open>goval\<close>; a map is kept with unique keys.
  The client that reads \<open>Policy\<close> objects is the argument \<open>c\<close>: \<open>None\<close> is the nil client,
  otherwise a function from the name to an API error or the object.
\<close>

section \<open>Values\<close>

datatype goval =
    GNil
  | GBool bool
  | GFloat float64
  | GStr string
  | GArr "goval list"
  | GMap "(string \<times> goval) list"

text \<open>Decoding JSON into \<open>any\<close>: a repeated key keeps its last value, a number out of range is nil.\<close>

fun put_all :: "('k \<times> 'v) list \<Rightarrow> ('k \<times> 'v) list \<Rightarrow> ('k \<times> 'v) list" where
  "put_all m [] = m"
| "put_all m ((k, v) # rest) = put_all (AList.update k v m) rest"

fun go_any :: "json \<Rightarrow> goval" where
  "go_any JNull = GNil"
| "go_any (JBool b) = GBool b"
| "go_any (JNum s) = (case parseFloat s of Inr f \<Rightarrow> GFloat f | Inl _ \<Rightarrow> GNil)"
| "go_any (JStr s) = GStr s"
| "go_any (JArr xs) = GArr (map go_any xs)"
| "go_any (JObj fs) = GMap (put_all [] (map (\<lambda>(k, v). (k, go_any v)) fs))"

text \<open>\<open>fmt.Sprint\<close> of one value; maps print in the order of their keys.\<close>

fun spaces :: "string list \<Rightarrow> string" where
  "spaces [] = []"
| "spaces [s] = s"
| "spaces (s # r) = s @ CHR '' '' # spaces r"

fun sprint :: "goval \<Rightarrow> string" where
  "sprint GNil = ''<nil>''"
| "sprint (GBool b) = (if b then ''true'' else ''false'')"
| "sprint (GFloat f) = show_float f"
| "sprint (GStr s) = s"
| "sprint (GArr xs) = CHR ''['' # spaces (map sprint xs) @ '']''"
| "sprint (GMap fs) =
     ''map['' @ spaces (map (\<lambda>(k, s). k @ CHR '':'' # s)
        (sort_key fst (map (\<lambda>(k, v). (k, sprint v)) fs))) @ '']''"

definition numError :: "string \<Rightarrow> num_error \<Rightarrow> go_error" where
  "numError s e =
     NumError (''strconv.ParseFloat: parsing '' @ quote s @ '': '' @
       (case e of ErrSyntax \<Rightarrow> ''invalid syntax'' | ErrRange \<Rightarrow> ''value out of range''))"

definition goParseFloat :: "string \<Rightarrow> go_error + float64" where
  "goParseFloat s = (case parseFloat s of Inl e \<Rightarrow> Inl (numError s e) | Inr f \<Rightarrow> Inr f)"

definition asFloat :: "goval \<Rightarrow> go_error + float64" where
  "asFloat value =
     (case value of GFloat f \<Rightarrow> Inr f | _ \<Rightarrow> goParseFloat (trimSpace (sprint value)))"

fun isEmptyValue :: "goval \<Rightarrow> bool" where
  "isEmptyValue GNil = True"
| "isEmptyValue (GStr s) = blank s"
| "isEmptyValue (GArr xs) = (xs = [])"
| "isEmptyValue (GMap fs) = (fs = [])"
| "isEmptyValue v = blank (sprint v)"

text \<open>\<open>strings.Compare\<close> of the trimmed texts.\<close>

definition compareString :: "goval \<Rightarrow> string \<Rightarrow> int" where
  "compareString value candidate =
     (let a = trimSpace (sprint value); b = trimSpace candidate in
      if a = b then 0 else if a < b then - 1 else 1)"

definition mapStringToAny :: "(string, string) gomap \<Rightarrow> goval" where
  "mapStringToAny m = GMap (map (\<lambda>(k, v). (k, GStr v)) m)"

section \<open>Plan constraints and instance parameters\<close>

record planConstraints =
  AllowedExposureModes :: "string list"
  AllowedDeletionPolicies :: "string list"
  RequiredSecretDeliveryMode :: string
  MaxReplicas :: "int option"
  RequireBackupProfile :: bool

record serviceInstanceParameters =
  Replicas :: "int option"
  Instances :: "int option"
  BackupProfile :: string

definition no_constraints :: planConstraints where
  "no_constraints = \<lparr>AllowedExposureModes = [], AllowedDeletionPolicies = [],
     RequiredSecretDeliveryMode = '''', MaxReplicas = None, RequireBackupProfile = False\<rparr>"

definition no_parameters :: serviceInstanceParameters where
  "no_parameters = \<lparr>Replicas = None, Instances = None, BackupProfile = ''''\<rparr>"

definition planConstraints_field :: "string \<Rightarrow> json \<Rightarrow> planConstraints \<Rightarrow> planConstraints \<times> bool" where
  "planConstraints_field k v s =
     (if json_key k ''allowedExposureModes''
      then dec_into dec_strings AllowedExposureModes AllowedExposureModes_update v s
      else if json_key k ''allowedDeletionPolicies''
      then dec_into dec_strings AllowedDeletionPolicies AllowedDeletionPolicies_update v s
      else if json_key k ''requiredSecretDeliveryMode''
      then dec_into dec_string RequiredSecretDeliveryMode RequiredSecretDeliveryMode_update v s
      else if json_key k ''maxReplicas''
      then dec_into (dec_pointer 0 dec_int32) MaxReplicas MaxReplicas_update v s
      else if json_key k ''requireBackupProfile''
      then dec_into dec_bool RequireBackupProfile RequireBackupProfile_update v s
      else (s, False))"

definition parameters_field ::
  "string \<Rightarrow> json \<Rightarrow> serviceInstanceParameters \<Rightarrow> serviceInstanceParameters \<times> bool" where
  "parameters_field k v s =
     (if json_key k ''replicas'' then dec_into (dec_pointer 0 dec_int32) Replicas Replicas_update v s
      else if json_key k ''instances'' then dec_into (dec_pointer 0 dec_int32) Instances Instances_update v s
      else if json_key k ''backupProfile'' then dec_into dec_string BackupProfile BackupProfile_update v s
      else (s, False))"

definition decodePlanConstraints :: "service_plan option \<Rightarrow> planConstraints" where
  "decodePlanConstraints plan =
     (case plan of
        None \<Rightarrow> no_constraints
      | Some p \<Rightarrow>
          (case sps_constraints (spl_spec p) of
             None \<Rightarrow> no_constraints
           | Some raw \<Rightarrow> if length raw = 0 then no_constraints
               else fst (json_unmarshal planConstraints_field raw no_constraints)))"

definition instanceServiceParameters :: "service_instance \<Rightarrow> serviceInstanceParameters" where
  "instanceServiceParameters inst =
     (case sis_parameters (si_spec inst) of
        None \<Rightarrow> no_parameters
      | Some raw \<Rightarrow> if length raw = 0 then no_parameters
          else fst (json_unmarshal parameters_field raw no_parameters))"

fun firstNonNilInt32 :: "int option list \<Rightarrow> int option" where
  "firstNonNilInt32 [] = None"
| "firstNonNilInt32 (v # vs) = (if v \<noteq> None then v else firstNonNilInt32 vs)"

section \<open>Rules\<close>

definition policyTargetsKind :: "policy \<Rightarrow> string \<Rightarrow> bool" where
  "policyTargetsKind p kind = list_ex (\<lambda>targetKind. targetKind = kind) (pol_targetKinds (po_spec p))"

definition parameters_map :: "raw_json option \<Rightarrow> (string \<times> goval) list" where
  "parameters_map raw =
     (case raw of
        None \<Rightarrow> []
      | Some r \<Rightarrow>
          if length r = 0 then []
          else (case json_parse r of
                  Some (JObj fs) \<Rightarrow> put_all [] (map (\<lambda>(k, v). (k, go_any v)) fs)
                | _ \<Rightarrow> []))"

definition buildPolicyEvaluationContext :: "service_instance \<Rightarrow> goval" where
  "buildPolicyEvaluationContext inst =
     (let s = si_spec inst;
          ref = (\<lambda>r. GMap [(''name'', GStr (lr_name r))])
      in GMap
        [(''metadata'', GMap
            [(''name'', GStr (m_name (si_meta inst))), (''labels'', mapStringToAny (m_labels (si_meta inst)))]),
         (''spec'', GMap
            [(''projectRef'', ref (sis_projectRef s)),
             (''serviceClassRef'', ref (sis_serviceClassRef s)),
             (''servicePlanRef'', ref (sis_servicePlanRef s)),
             (''version'', GStr (sis_version s)),
             (''exposure'', GMap [(''mode'', GStr (ex_mode (sis_exposure s)))]),
             (''secretPolicy'', GMap
                [(''deliveryMode'', GStr (sp_deliveryMode (sis_secretPolicy s))),
                 (''externalSecretProvider'', GStr (sp_externalSecretProvider (sis_secretPolicy s)))]),
             (''deletionPolicy'', GStr (sis_deletionPolicy s))]),
         (''parameters'', GMap (parameters_map (sis_parameters s)))])"

fun walk :: "goval \<Rightarrow> string list \<Rightarrow> goval option" where
  "walk current [] = Some current"
| "walk current (segment # rest) =
     (if segment = '''' then walk current rest
      else (case current of
              GMap fs \<Rightarrow> (case map_of fs segment of None \<Rightarrow> None | Some nxt \<Rightarrow> walk nxt rest)
            | _ \<Rightarrow> None))"

definition resolvePolicyValue :: "goval \<Rightarrow> string \<Rightarrow> goval option" where
  "resolvePolicyValue root path = walk root (split_on CHR ''.'' (trimSpace path))"

definition policyRuleFieldPath :: "string \<Rightarrow> path" where
  "policyRuleFieldPath path =
     (let p = trimSpace path in
      if p = '''' then NewPath [''spec''] else NewPath (split_on CHR ''.'' p))"

definition evaluatePolicyRule :: "policy_rule \<Rightarrow> goval \<Rightarrow> go_error + bool" where
  "evaluatePolicyRule rule root =
     (let resolved = resolvePolicyValue root (rule_path rule);
          oper = rule_operator rule
      in
      if oper = PolicyOperatorExists then Inr (resolved \<noteq> None)
      else if oper = PolicyOperatorNotExists then Inr (resolved = None)
      else if oper = PolicyOperatorEmpty
      then Inr (case resolved of None \<Rightarrow> True | Some value \<Rightarrow> isEmptyValue value)
      else if oper = PolicyOperatorNotEmpty
      then Inr (case resolved of None \<Rightarrow> False | Some value \<Rightarrow> \<not> isEmptyValue value)
      else
        (case resolved of
           None \<Rightarrow> Inr False
         | Some value \<Rightarrow>
             if oper = PolicyOperatorEquals then Inr (compareString value (rule_value rule) = 0)
             else if oper = PolicyOperatorNotEquals then Inr (compareString value (rule_value rule) \<noteq> 0)
             else if oper = PolicyOperatorIn
             then Inr (list_ex (\<lambda>candidate. compareString value candidate = 0) (rule_values rule))
             else if oper = PolicyOperatorNotIn
             then Inr (\<not> list_ex (\<lambda>candidate. compareString value candidate = 0) (rule_values rule))
             else if oper \<in> {PolicyOperatorGT, PolicyOperatorGTE, PolicyOperatorLT, PolicyOperatorLTE}
             then (case asFloat value of
                     Inl err \<Rightarrow> Inl err
                   | Inr left \<Rightarrow>
                       (case goParseFloat (rule_value rule) of
                          Inl err \<Rightarrow> Inl (Wrapf (''parse numeric rule value '' @ quote (rule_value rule) @ '': '') err)
                        | Inr right \<Rightarrow>
                            if oper = PolicyOperatorGT then Inr (flt right left)
                            else if oper = PolicyOperatorGTE then Inr (fle right left)
                            else if oper = PolicyOperatorLT then Inr (flt left right)
                            else Inr (fle left right)))
             else Inl (Errorf (''unsupported operator '' @ quote oper))))"

text \<open>What one rule adds to the errors of \<open>evaluateDefinedPolicy\<close>.\<close>

definition ruleErrors :: "policy \<Rightarrow> goval \<Rightarrow> policy_rule \<Rightarrow> error_list" where
  "ruleErrors p evalContext rule =
     (case evaluatePolicyRule rule evalContext of
        Inl err \<Rightarrow> [InternalError (NewPath [''spec'', ''policyRefs''])
          (Wrapf (''policy '' @ quote (m_name (po_meta p)) @ '' rule '' @ quote (rule_name rule) @ '': '') err)]
      | Inr violated \<Rightarrow>
          if \<not> violated then []
          else
            (let trimmed = trimSpace (rule_message rule);
                 message = (if trimmed = ''''
                   then ''policy '' @ m_name (po_meta p) @ '' rule '' @ rule_name rule @ '' was violated''
                   else trimmed);
                 path = policyRuleFieldPath (rule_path rule)
             in if rule_operator rule \<in> {PolicyOperatorExists, PolicyOperatorNotExists, PolicyOperatorEmpty,
                                         PolicyOperatorNotEmpty}
                then [Forbidden path message]
                else [Invalid path (VStr (rule_value rule)) message]))"

definition evaluateDefinedPolicy :: "policy \<Rightarrow> service_instance \<Rightarrow> error_list" where
  "evaluateDefinedPolicy p inst =
     (if \<not> policyTargetsKind p PolicyTargetServiceInstance then []
      else (let evalContext = buildPolicyEvaluationContext inst
            in concat (map (ruleErrors p evalContext) (pol_rules (po_spec p)))))"

section \<open>The policies of an instance\<close>

definition evaluateCuratedPolicy :: "string \<Rightarrow> service_instance \<Rightarrow> error_list \<times> bool" where
  "evaluateCuratedPolicy p inst =
     (if p = ''deny-public-ingress'' then
        (report (ex_mode (sis_exposure (si_spec inst)) = ExposureModePublicIngress)
          (Forbidden (NewPath [''spec'', ''exposure'', ''mode''])
             ''policy deny-public-ingress forbids public ingress''), True)
      else if p = ''require-external-secrets'' then
        (report (sp_deliveryMode (sis_secretPolicy (si_spec inst)) \<noteq> SecretDeliveryModeExternalSecret)
          (Forbidden (NewPath [''spec'', ''secretPolicy'', ''deliveryMode''])
             ''policy require-external-secrets requires external-secret delivery''), True)
      else if p = ''require-backups'' then
        (report (BackupProfile (instanceServiceParameters inst) = '''')
          (Required (NewPath [''spec'', ''parameters'', ''backupProfile''])
             ''policy require-backups requires backupProfile''), True)
      else if p = ''protect-delete'' then
        (report (sis_deletionPolicy (si_spec inst) = DeletionPolicyDelete)
          (Forbidden (NewPath [''spec'', ''deletionPolicy''])
             ''policy protect-delete forbids direct delete policy''), True)
      else ([], False))"

definition mergedPolicyRefs :: "tenant option \<Rightarrow> project option \<Rightarrow> service_plan option \<Rightarrow> string list" where
  "mergedPolicyRefs t pr pl =
     (case t of None \<Rightarrow> [] | Some x \<Rightarrow> map pr_name (tns_policyRefs (tn_spec x))) @
     (case pr of None \<Rightarrow> [] | Some x \<Rightarrow> map pr_name (prs_policyRefs (pj_spec x))) @
     (case pl of None \<Rightarrow> [] | Some x \<Rightarrow> map pr_name (sps_policyRefs (spl_spec x)))"

text \<open>The body of the loop over the referenced policies.\<close>

definition referencedPolicyErrors ::
  "(string \<Rightarrow> api_error + policy) option \<Rightarrow> service_instance \<Rightarrow> string \<Rightarrow> error_list" where
  "referencedPolicyErrors c inst p =
     (case evaluateCuratedPolicy p inst of
        (curatedErrs, True) \<Rightarrow> curatedErrs
      | (_, False) \<Rightarrow>
          (case c of
             None \<Rightarrow> [InternalError (NewPath [''spec''])
               (Errorf (''policy client is unavailable for referenced policy '' @ quote p))]
           | Some get \<Rightarrow>
               (case get p of
                  Inl NotFound \<Rightarrow> [FieldNotFound (NewPath [''spec'', ''policyRefs'']) p]
                | Inl err \<Rightarrow> [InternalError (NewPath [''spec'', ''policyRefs''])
                    (Wrapf (''resolve policy '' @ quote p @ '': '') (ApiError err))]
                | Inr definedPolicy \<Rightarrow> evaluateDefinedPolicy definedPolicy inst)))"

text \<open>The checks against the constraints of the plan, in the second half of the function.\<close>

definition planConstraintErrors :: "planConstraints \<Rightarrow> service_instance \<Rightarrow> error_list" where
  "planConstraintErrors k inst =
     (let s = si_spec inst;
          params = instanceServiceParameters inst;
          replicas = firstNonNilInt32 [Replicas params, Instances params]
      in
        report (length (AllowedExposureModes k) > 0 \<and>
                \<not> stringInSlice (ex_mode (sis_exposure s)) (AllowedExposureModes k))
          (NotSupported (NewPath [''spec'', ''exposure'', ''mode'']) (VStr (ex_mode (sis_exposure s)))
             (AllowedExposureModes k)) @
        report (length (AllowedDeletionPolicies k) > 0 \<and>
                \<not> stringInSlice (sis_deletionPolicy s) (AllowedDeletionPolicies k))
          (NotSupported (NewPath [''spec'', ''deletionPolicy'']) (VStr (sis_deletionPolicy s))
             (AllowedDeletionPolicies k)) @
        report (RequiredSecretDeliveryMode k \<noteq> '''' \<and>
                sp_deliveryMode (sis_secretPolicy s) \<noteq> RequiredSecretDeliveryMode k)
          (Invalid (NewPath [''spec'', ''secretPolicy'', ''deliveryMode''])
             (VStr (sp_deliveryMode (sis_secretPolicy s)))
             (''plan requires '' @ quote (RequiredSecretDeliveryMode k))) @
        (case (MaxReplicas k, replicas) of
           (Some m, Some r) \<Rightarrow> report (r > m)
             (Invalid (NewPath [''spec'', ''parameters'', ''replicas'']) (VInt r)
                (''plan allows at most '' @ show_int m @ '' replicas''))
         | _ \<Rightarrow> []) @
        report (RequireBackupProfile k \<and> BackupProfile params = '''')
          (Required (NewPath [''spec'', ''parameters'', ''backupProfile'']) ''plan requires backupProfile''))"

definition evaluateInstancePolicies ::
  "(string \<Rightarrow> api_error + policy) option \<Rightarrow> service_instance option \<Rightarrow> tenant option \<Rightarrow>
   project option \<Rightarrow> service_plan option \<Rightarrow> error_list" where
  "evaluateInstancePolicies c instance_opt t pr pl =
     (case instance_opt of
        None \<Rightarrow> []
      | Some inst \<Rightarrow>
          concat (map (referencedPolicyErrors c inst) (mergedPolicyRefs t pr pl)) @
          planConstraintErrors (decodePlanConstraints pl) inst)"

section \<open>The controller's own check of a policy\<close>

definition validatePolicyRule :: "policy_rule \<Rightarrow> go_error option" where
  "validatePolicyRule rule =
     (if blank (rule_name rule) then Some (Errorf ''policy rules must declare a name'')
      else if rule_operator rule \<in> {PolicyOperatorExists, PolicyOperatorNotExists, PolicyOperatorEmpty,
                                    PolicyOperatorNotEmpty}
      then (if blank (rule_path rule)
            then Some (Errorf (''rule '' @ quote (rule_name rule) @ '' must declare a path'')) else None)
      else if rule_operator rule \<in> {PolicyOperatorIn, PolicyOperatorNotIn}
      then (if blank (rule_path rule) \<or> length (rule_values rule) = 0
            then Some (Errorf (''rule '' @ quote (rule_name rule) @ '' must declare a path and non-empty values''))
            else None)
      else (if blank (rule_path rule) \<or> blank (rule_value rule)
            then Some (Errorf (''rule '' @ quote (rule_name rule) @ '' must declare a path and value''))
            else None))"

fun validatePolicyRules :: "policy_rule list \<Rightarrow> go_error option" where
  "validatePolicyRules [] = None"
| "validatePolicyRules (rule # rules) =
     (case validatePolicyRule rule of Some e \<Rightarrow> Some e | None \<Rightarrow> validatePolicyRules rules)"

definition validatePolicySpec :: "policy \<Rightarrow> go_error option" where
  "validatePolicySpec p = validatePolicyRules (pol_rules (po_spec p))"

end
