(* ===== verification/Admission_Catalog.thy ===== *)
theory Admission_Catalog
  imports Admission_Common
begin

text \<open>
  Admission of the catalogue and of the clusters: \<open>ServiceClass\<close>, \<open>ServicePlan\<close>,
  \<open>OperatorPackage\<close>, \<open>Policy\<close> and \<open>ClusterTarget\<close>. The process environment that
  \<open>os.Getenv\<close> reads is the argument \<open>env\<close>, which gives the empty string for an unset variable.
\<close>

section \<open>ServiceClass\<close>

abbreviation kubeVirtRuntimeDriver :: string where "kubeVirtRuntimeDriver \<equiv> ''kubevirt''"
abbreviation kubeVirtPackageName :: string where "kubeVirtPackageName \<equiv> ''kubevirt''"

definition validateServiceClassSpec :: "service_class_spec \<Rightarrow> error_list" where
  "validateServiceClassSpec spec =
     report (blank (scs_displayName spec)) (Required (NewPath [''spec'', ''displayName'']) ''displayName is required'') @
     report (blank (scs_driver spec)) (Required (NewPath [''spec'', ''driver'']) ''driver is required'') @
     each (\<lambda>i version. report (blank version)
         (Required (NewPath [''spec'', ''supportedVersions''] @ [Index i]) ''supported version must not be empty''))
       (scs_supportedVersions spec) @
     each (\<lambda>i requiredPackage.
         report (blank requiredPackage)
           (Required (NewPath [''spec'', ''requiredPackages''] @ [Index i]) ''package name is required'') @
         report (scs_driver spec = kubeVirtRuntimeDriver \<and>
                 equalFold (trimSpace requiredPackage) kubeVirtPackageName)
           (Invalid (NewPath [''spec'', ''requiredPackages''] @ [Index i]) (VStr requiredPackage)
              ''kubevirt service classes must rely on preinstalled KubeVirt/CDI dependencies rather than OperatorPackage installation''))
       (scs_requiredPackages spec) @
     validateJSONMap (scs_defaultParameters spec) (NewPath [''spec'', ''defaultParameters''])"

definition validateServiceClass :: "service_class \<Rightarrow> admission_error option" where
  "validateServiceClass x =
     as_invalid ''ServiceClass'' (m_name (sc_meta x)) (validateServiceClassSpec (sc_spec x))"

definition validateServiceClassUpdate :: "service_class \<Rightarrow> service_class \<Rightarrow> admission_error option" where
  "validateServiceClassUpdate previous current =
     as_invalid ''ServiceClass'' (m_name (sc_meta current))
       (validateServiceClassSpec (sc_spec current) @
        report (scs_driver (sc_spec previous) \<noteq> scs_driver (sc_spec current))
          (Invalid (NewPath [''spec'', ''driver'']) (VStr (scs_driver (sc_spec current))) ''field is immutable''))"

definition ServiceClass_Default :: "api_object \<Rightarrow> admission_error + api_object" where
  "ServiceClass_Default ob = Inr ob"

definition ServiceClass_ValidateCreate :: "api_object \<Rightarrow> admission_error option" where
  "ServiceClass_ValidateCreate ob =
     (case ob of
        OServiceClass x \<Rightarrow> validateServiceClass x
      | _ \<Rightarrow> Some (BadRequest ''expected a ServiceClass for create validation''))"

definition ServiceClass_ValidateUpdate :: "api_object \<Rightarrow> api_object \<Rightarrow> admission_error option" where
  "ServiceClass_ValidateUpdate oldObj newObj =
     (case oldObj of
        OServiceClass previous \<Rightarrow>
          (case newObj of
             OServiceClass current \<Rightarrow> validateServiceClassUpdate previous current
           | _ \<Rightarrow> Some (BadRequest ''expected a ServiceClass for new update validation object''))
      | _ \<Rightarrow> Some (BadRequest ''expected a ServiceClass for old update validation object''))"

lemma validateServiceClass_None:
  "validateServiceClass x = None \<longleftrightarrow> validateServiceClassSpec (sc_spec x) = []"
  by (simp add: validateServiceClass_def)

abbreviation frozenServiceClass :: "service_class \<Rightarrow> string" where
  "frozenServiceClass x \<equiv> scs_driver (sc_spec x)"

interpretation service_classes: admission_handler "\<lambda>x. x" validateServiceClass validateServiceClassUpdate
  "\<lambda>t x. x\<lparr>sc_status := t\<rparr>" "frozenServiceClass" OServiceClass ServiceClass_Default
  ServiceClass_ValidateCreate ServiceClass_ValidateUpdate
proof (unfold_locales, goal_cases)
  case (3 t x)
  show ?case by (simp add: validateServiceClass_def)
next
  case (9 ob)
  then show ?case by (cases ob) (auto simp: ServiceClass_ValidateCreate_def)
next
  case (10 ob' ob)
  then show ?case by (cases ob; cases ob') (auto simp: ServiceClass_ValidateUpdate_def)
qed (auto simp: validateServiceClass_None validateServiceClassUpdate_def ServiceClass_Default_def
       ServiceClass_ValidateCreate_def ServiceClass_ValidateUpdate_def Let_def)

section \<open>ServicePlan\<close>

definition validateServicePlanSpec :: "service_plan_spec \<Rightarrow> error_list" where
  "validateServicePlanSpec spec =
     validateLocalRef (sps_serviceClassRef spec) (NewPath [''spec'', ''serviceClassRef'']) @
     validatePolicyRefs (sps_policyRefs spec) (NewPath [''spec'', ''policyRefs'']) @
     validateJSONMap (sps_defaultParameters spec) (NewPath [''spec'', ''defaultParameters''])"

definition validateServicePlan :: "service_plan \<Rightarrow> admission_error option" where
  "validateServicePlan x =
     as_invalid ''ServicePlan'' (m_name (spl_meta x)) (validateServicePlanSpec (spl_spec x))"

definition validateServicePlanUpdate :: "service_plan \<Rightarrow> service_plan \<Rightarrow> admission_error option" where
  "validateServicePlanUpdate previous current =
     as_invalid ''ServicePlan'' (m_name (spl_meta current))
       (validateServicePlanSpec (spl_spec current) @
        validateImmutableLocalRef (sps_serviceClassRef (spl_spec previous)) (sps_serviceClassRef (spl_spec current))
          (NewPath [''spec'', ''serviceClassRef'']))"

definition ServicePlan_Default :: "api_object \<Rightarrow> admission_error + api_object" where
  "ServicePlan_Default ob = Inr ob"

definition ServicePlan_ValidateCreate :: "api_object \<Rightarrow> admission_error option" where
  "ServicePlan_ValidateCreate ob =
     (case ob of
        OServicePlan x \<Rightarrow> validateServicePlan x
      | _ \<Rightarrow> Some (BadRequest ''expected a ServicePlan for create validation''))"

definition ServicePlan_ValidateUpdate :: "api_object \<Rightarrow> api_object \<Rightarrow> admission_error option" where
  "ServicePlan_ValidateUpdate oldObj newObj =
     (case oldObj of
        OServicePlan previous \<Rightarrow>
          (case newObj of
             OServicePlan current \<Rightarrow> validateServicePlanUpdate previous current
           | _ \<Rightarrow> Some (BadRequest ''expected a ServicePlan for new update validation object''))
      | _ \<Rightarrow> Some (BadRequest ''expected a ServicePlan for old update validation object''))"

lemma validateServicePlan_None:
  "validateServicePlan x = None \<longleftrightarrow> validateServicePlanSpec (spl_spec x) = []"
  by (simp add: validateServicePlan_def)

abbreviation frozenServicePlan :: "service_plan \<Rightarrow> local_ref" where
  "frozenServicePlan x \<equiv> sps_serviceClassRef (spl_spec x)"

interpretation service_plans: admission_handler "\<lambda>x. x" validateServicePlan validateServicePlanUpdate
  "\<lambda>t x. x\<lparr>spl_status := t\<rparr>" "frozenServicePlan" OServicePlan ServicePlan_Default
  ServicePlan_ValidateCreate ServicePlan_ValidateUpdate
proof (unfold_locales, goal_cases)
  case (3 t x)
  show ?case by (simp add: validateServicePlan_def)
next
  case (9 ob)
  then show ?case by (cases ob) (auto simp: ServicePlan_ValidateCreate_def)
next
  case (10 ob' ob)
  then show ?case by (cases ob; cases ob') (auto simp: ServicePlan_ValidateUpdate_def)
qed (auto simp: validateServicePlan_None validateServicePlanUpdate_def reject_simps lr_name_eq_iff ServicePlan_Default_def
       ServicePlan_ValidateCreate_def ServicePlan_ValidateUpdate_def Let_def)

section \<open>OperatorPackage\<close>

definition productionModeEnabled :: "(string \<Rightarrow> string) \<Rightarrow> bool" where
  "productionModeEnabled env = equalFold (trimSpace (env ''SERVICER_ENVIRONMENT'')) EnvironmentProduction"

definition allowMutableOperatorRevisions :: "(string \<Rightarrow> string) \<Rightarrow> bool" where
  "allowMutableOperatorRevisions env =
     (let allow = trimSpace (env ''SERVICER_ALLOW_MUTABLE_OPERATOR_REVISIONS'') in
      equalFold allow ''1'' \<or> equalFold allow ''true'' \<or> equalFold allow ''yes'')"

definition validateOperatorPackageSpec :: "(string \<Rightarrow> string) \<Rightarrow> operator_package_spec \<Rightarrow> error_list" where
  "validateOperatorPackageSpec env spec =
     (let src = op_source spec;
          hasArgoSource = (\<not> blank (ops_repoURL src) \<or> \<not> blank (ops_path src));
          hasChartSource = (\<not> blank (ops_chartArchiveURL src) \<or> \<not> blank (ops_chartPath src) \<or>
                            length (ops_helmValues src) > 0);
          hasDirectSource = (\<not> blank (ops_manifestURL src) \<or> hasChartSource);
          revision = trimSpace (ops_targetRevision src)
      in
        report (blank (op_displayName spec)) (Required (NewPath [''spec'', ''displayName'']) ''displayName is required'') @
        report (\<not> hasDirectSource \<and> \<not> hasArgoSource)
          (Required (NewPath [''spec'', ''source'']) ''one direct-install or Argo source is required'') @
        report (blank (ops_repoURL src) \<and> \<not> blank (ops_path src))
          (Required (NewPath [''spec'', ''source'', ''repoURL'']) ''repoURL is required when path is set'') @
        report (blank (ops_path src) \<and> \<not> blank (ops_repoURL src))
          (Required (NewPath [''spec'', ''source'', ''path'']) ''path is required when repoURL is set'') @
        report (blank (ops_chartArchiveURL src) \<and> (\<not> blank (ops_chartPath src) \<or> length (ops_helmValues src) > 0))
          (Required (NewPath [''spec'', ''source'', ''chartArchiveURL''])
             ''chartArchiveURL is required when chartPath or helmValues are set'') @
        report (\<not> blank (ops_chartArchiveURL src) \<and> blank (ops_chartPath src))
          (Required (NewPath [''spec'', ''source'', ''chartPath'']) ''chartPath is required when chartArchiveURL is set'') @
        report (length (op_probes spec) = 0) (Required (NewPath [''spec'', ''probes'']) ''at least one probe is required'') @
        each (\<lambda>i probe. report (blank (opr_crd probe))
            (Required (NewPath [''spec'', ''probes''] @ [Index i, Child ''crd'']) ''crd is required''))
          (op_probes spec) @
        (if productionModeEnabled env \<and> \<not> allowMutableOperatorRevisions env
         then report (revision = '''' \<or> equalFold revision ''head'')
           (Invalid (NewPath [''spec'', ''source'', ''targetRevision'']) (VStr (ops_targetRevision src))
              ''mutable targetRevision is not allowed in production mode; use an immutable git commit SHA or explicit tag'')
         else []))"

definition validateOperatorPackage :: "(string \<Rightarrow> string) \<Rightarrow> operator_package \<Rightarrow> admission_error option" where
  "validateOperatorPackage env x =
     as_invalid ''OperatorPackage'' (m_name (opk_meta x)) (validateOperatorPackageSpec env (opk_spec x))"

definition validateOperatorPackageUpdate ::
  "(string \<Rightarrow> string) \<Rightarrow> operator_package \<Rightarrow> operator_package \<Rightarrow> admission_error option" where
  "validateOperatorPackageUpdate env previous current =
     (let p = op_source (opk_spec previous); c = op_source (opk_spec current) in
      as_invalid ''OperatorPackage'' (m_name (opk_meta current))
        (validateOperatorPackageSpec env (opk_spec current) @
         report (ops_repoURL p \<noteq> ops_repoURL c)
           (Invalid (NewPath [''spec'', ''source'', ''repoURL'']) (VStr (ops_repoURL c)) ''field is immutable'') @
         report (ops_path p \<noteq> ops_path c)
           (Invalid (NewPath [''spec'', ''source'', ''path'']) (VStr (ops_path c)) ''field is immutable'') @
         report (ops_chartArchiveURL p \<noteq> ops_chartArchiveURL c)
           (Invalid (NewPath [''spec'', ''source'', ''chartArchiveURL'']) (VStr (ops_chartArchiveURL c))
              ''field is immutable'') @
         report (ops_chartPath p \<noteq> ops_chartPath c)
           (Invalid (NewPath [''spec'', ''source'', ''chartPath'']) (VStr (ops_chartPath c)) ''field is immutable'')))"

definition defaultOperatorPackage :: "operator_package \<Rightarrow> operator_package" where
  "defaultOperatorPackage x =
     (let s = opk_spec x; src = op_source s in
      x\<lparr>opk_spec := s\<lparr>
          op_targetNamespace := (if op_targetNamespace s = '''' then ''operators'' else op_targetNamespace s),
          op_source := (if ops_targetRevision src = '''' then src\<lparr>ops_targetRevision := ''HEAD''\<rparr> else src)\<rparr>\<rparr>)"

definition OperatorPackage_Default :: "api_object \<Rightarrow> admission_error + api_object" where
  "OperatorPackage_Default ob =
     (case ob of
        OOperatorPackage x \<Rightarrow> Inr (OOperatorPackage (defaultOperatorPackage x))
      | _ \<Rightarrow> Inl (BadRequest ''expected an OperatorPackage for defaulting''))"

definition OperatorPackage_ValidateCreate :: "(string \<Rightarrow> string) \<Rightarrow> api_object \<Rightarrow> admission_error option" where
  "OperatorPackage_ValidateCreate env ob =
     (case ob of
        OOperatorPackage x \<Rightarrow> validateOperatorPackage env x
      | _ \<Rightarrow> Some (BadRequest ''expected an OperatorPackage for create validation''))"

definition OperatorPackage_ValidateUpdate :: "(string \<Rightarrow> string) \<Rightarrow> api_object \<Rightarrow> api_object \<Rightarrow> admission_error option" where
  "OperatorPackage_ValidateUpdate env oldObj newObj =
     (case oldObj of
        OOperatorPackage previous \<Rightarrow>
          (case newObj of
             OOperatorPackage current \<Rightarrow> validateOperatorPackageUpdate env previous current
           | _ \<Rightarrow> Some (BadRequest ''expected an OperatorPackage for new update validation object''))
      | _ \<Rightarrow> Some (BadRequest ''expected an OperatorPackage for old update validation object''))"

lemma validateOperatorPackage_None:
  "validateOperatorPackage env x = None \<longleftrightarrow> validateOperatorPackageSpec env (opk_spec x) = []"
  by (simp add: validateOperatorPackage_def)

abbreviation frozenOperatorPackage :: "operator_package \<Rightarrow> string \<times> string \<times> string \<times> string" where
  "frozenOperatorPackage x \<equiv>
     (ops_repoURL (op_source (opk_spec x)), ops_path (op_source (opk_spec x)),
      ops_chartArchiveURL (op_source (opk_spec x)), ops_chartPath (op_source (opk_spec x)))"

interpretation operator_packages: admission_handler defaultOperatorPackage "validateOperatorPackage env" "validateOperatorPackageUpdate env"
  "\<lambda>t x. x\<lparr>opk_status := t\<rparr>" "frozenOperatorPackage" OOperatorPackage OperatorPackage_Default
  "OperatorPackage_ValidateCreate env" "OperatorPackage_ValidateUpdate env" for env
proof (unfold_locales, goal_cases)
  case (3 t x)
  show ?case by (simp add: validateOperatorPackage_def)
next
  case (9 ob)
  then show ?case by (cases ob) (auto simp: OperatorPackage_ValidateCreate_def)
next
  case (10 ob' ob)
  then show ?case by (cases ob; cases ob') (auto simp: OperatorPackage_ValidateUpdate_def)
qed (auto simp: defaultOperatorPackage_def validateOperatorPackage_None validateOperatorPackageUpdate_def OperatorPackage_Default_def
       OperatorPackage_ValidateCreate_def OperatorPackage_ValidateUpdate_def Let_def)

section \<open>Policy\<close>

text \<open>The body of the loop over the rules, which returns at the first rule it rejects.\<close>

definition policyRuleProblem :: "policy_rule \<Rightarrow> go_error option" where
  "policyRuleProblem rule =
     (if blank (rule_name rule) then Some (Errorf ''policy rules must declare a name'')
      else if rule_operator rule \<in> {PolicyOperatorExists, PolicyOperatorNotExists, PolicyOperatorEmpty,
                                    PolicyOperatorNotEmpty}
      then (if blank (rule_path rule)
            then Some (Errorf (''rule '' @ quote (rule_name rule) @ '' must declare a path'')) else None)
      else if rule_operator rule \<in> {PolicyOperatorIn, PolicyOperatorNotIn}
      then (if blank (rule_path rule) \<or> length (rule_values rule) = 0
            then Some (Errorf (''rule '' @ quote (rule_name rule) @ '' must declare a path and non-empty values''))
            else None)
      else (if blank (rule_path rule) \<or> blank (rule_value rule)
            then Some (Errorf (''rule '' @ quote (rule_name rule) @ '' must declare a path and value''))
            else None))"

fun firstRuleProblem :: "policy_rule list \<Rightarrow> go_error option" where
  "firstRuleProblem [] = None"
| "firstRuleProblem (rule # rules) =
     (case policyRuleProblem rule of Some e \<Rightarrow> Some e | None \<Rightarrow> firstRuleProblem rules)"

definition validatePolicyWebhookSpec :: "policy \<Rightarrow> go_error option" where
  "validatePolicyWebhookSpec p =
     (if length (pol_targetKinds (po_spec p)) = 0 then Some (Errorf ''at least one target kind is required'')
      else if length (pol_rules (po_spec p)) = 0 then Some (Errorf ''at least one rule is required'')
      else firstRuleProblem (pol_rules (po_spec p)))"

definition validatePolicy :: "policy \<Rightarrow> admission_error option" where
  "validatePolicy p =
     (case validatePolicyWebhookSpec p of
        Some err \<Rightarrow> Some (InvalidObject ''Policy'' (m_name (po_meta p))
          [InvalidErr (NewPath [''spec'']) (VPolicySpec (po_spec p)) err])
      | None \<Rightarrow> None)"

definition Policy_Default :: "api_object \<Rightarrow> admission_error + api_object" where
  "Policy_Default ob = Inr ob"

definition Policy_ValidateCreate :: "api_object \<Rightarrow> admission_error option" where
  "Policy_ValidateCreate ob =
     (case ob of
        OPolicy x \<Rightarrow> validatePolicy x
      | _ \<Rightarrow> Some (BadRequest ''expected a Policy for create validation''))"

definition Policy_ValidateUpdate :: "api_object \<Rightarrow> api_object \<Rightarrow> admission_error option" where
  "Policy_ValidateUpdate oldObj newObj =
     (case newObj of
        OPolicy current \<Rightarrow> validatePolicy current
      | _ \<Rightarrow> Some (BadRequest ''expected a Policy for update validation''))"

lemma firstRuleProblem_None [reject_simps]:
  "firstRuleProblem rules = None \<longleftrightarrow> (\<forall>r \<in> set rules. policyRuleProblem r = None)"
  by (induction rules) (auto split: option.splits)

lemma validatePolicy_None: "validatePolicy p = None \<longleftrightarrow> validatePolicyWebhookSpec p = None"
  by (simp add: validatePolicy_def split: option.splits)

lemma validatePolicyWebhookSpec_None [reject_simps]:
  "validatePolicyWebhookSpec p = None \<longleftrightarrow>
     pol_targetKinds (po_spec p) \<noteq> [] \<and> pol_rules (po_spec p) \<noteq> [] \<and>
     (\<forall>r \<in> set (pol_rules (po_spec p)). policyRuleProblem r = None)"
  by (simp add: validatePolicyWebhookSpec_def reject_simps)

lemma validatePolicy_status [simp]: "validatePolicy (x\<lparr>po_status := t\<rparr>) = validatePolicy x"
  by (simp add: validatePolicy_def validatePolicyWebhookSpec_def split: option.split)

abbreviation frozenPolicy :: "policy \<Rightarrow> unit" where
  "frozenPolicy x \<equiv> ()"

interpretation policies: admission_handler "\<lambda>x. x" validatePolicy "\<lambda>p c. validatePolicy c"
  "\<lambda>t x. x\<lparr>po_status := t\<rparr>" "frozenPolicy" OPolicy Policy_Default
  Policy_ValidateCreate Policy_ValidateUpdate
proof (unfold_locales, goal_cases)
  case (3 t x)
  show ?case by (simp add: validatePolicy_def validatePolicyWebhookSpec_def split: option.split)
next
  case (9 ob)
  then show ?case by (cases ob) (auto simp: Policy_ValidateCreate_def)
next
  case (10 ob' ob)
  then show ?case by (cases ob; cases ob') (auto simp: Policy_ValidateUpdate_def)
qed (auto simp: validatePolicy_None Policy_Default_def
       Policy_ValidateCreate_def Policy_ValidateUpdate_def Let_def)

section \<open>ClusterTarget\<close>

definition validateClusterTargetSpec :: "cluster_target_spec \<Rightarrow> error_list" where
  "validateClusterTargetSpec spec =
     validateNamespacedRef (cts_connectionRef spec) (NewPath [''spec'', ''connectionRef'']) @
     validatePolicyRefs (cts_defaultPolicyRefs spec) (NewPath [''spec'', ''defaultPolicyRefs'']) @
     entry_errors blank (NewPath [''spec'', ''capabilities'']) ''capability keys must not be empty''
       ''capability values must not be empty'' (cts_capabilities spec) (cts_capabilities spec) @
     each (\<lambda>i requiredPackage.
         report (blank requiredPackage)
           (Required (NewPath [''spec'', ''requiredPackages''] @ [Index i]) ''package name is required'') @
         report (equalFold (trimSpace requiredPackage) kubeVirtPackageName)
           (Invalid (NewPath [''spec'', ''requiredPackages''] @ [Index i]) (VStr requiredPackage)
              ''kubevirt must be preinstalled on remote clusters and is not managed as an OperatorPackage''))
       (cts_requiredPackages spec)"

definition validateClusterTarget :: "cluster_target \<Rightarrow> admission_error option" where
  "validateClusterTarget x =
     as_invalid ''ClusterTarget'' (m_name (ctg_meta x)) (validateClusterTargetSpec (ctg_spec x))"

definition validateClusterTargetUpdate :: "cluster_target \<Rightarrow> cluster_target \<Rightarrow> admission_error option" where
  "validateClusterTargetUpdate previous current =
     (let p = cts_connectionRef (ctg_spec previous); c = cts_connectionRef (ctg_spec current) in
      as_invalid ''ClusterTarget'' (m_name (ctg_meta current))
        (validateClusterTargetSpec (ctg_spec current) @
         validateImmutableLocalRef \<lparr>lr_name = nr_name p\<rparr> \<lparr>lr_name = nr_name c\<rparr>
           (NewPath [''spec'', ''connectionRef'']) @
         report (nr_namespace p \<noteq> nr_namespace c)
           (Invalid (NewPath [''spec'', ''connectionRef'', ''namespace'']) (VStr (nr_namespace c))
              ''field is immutable'')))"

definition ClusterTarget_Default :: "api_object \<Rightarrow> admission_error + api_object" where
  "ClusterTarget_Default ob = Inr ob"

definition ClusterTarget_ValidateCreate :: "api_object \<Rightarrow> admission_error option" where
  "ClusterTarget_ValidateCreate ob =
     (case ob of
        OClusterTarget x \<Rightarrow> validateClusterTarget x
      | _ \<Rightarrow> Some (BadRequest ''expected a ClusterTarget for create validation''))"

definition ClusterTarget_ValidateUpdate :: "api_object \<Rightarrow> api_object \<Rightarrow> admission_error option" where
  "ClusterTarget_ValidateUpdate oldObj newObj =
     (case oldObj of
        OClusterTarget previous \<Rightarrow>
          (case newObj of
             OClusterTarget current \<Rightarrow> validateClusterTargetUpdate previous current
           | _ \<Rightarrow> Some (BadRequest ''expected a ClusterTarget for new update validation object''))
      | _ \<Rightarrow> Some (BadRequest ''expected a ClusterTarget for old update validation object''))"

lemma validateClusterTarget_None:
  "validateClusterTarget x = None \<longleftrightarrow> validateClusterTargetSpec (ctg_spec x) = []"
  by (simp add: validateClusterTarget_def)

abbreviation frozenClusterTarget :: "cluster_target \<Rightarrow> string \<times> string" where
  "frozenClusterTarget x \<equiv>
     (nr_name (cts_connectionRef (ctg_spec x)), nr_namespace (cts_connectionRef (ctg_spec x)))"

interpretation cluster_targets: admission_handler "\<lambda>x. x" validateClusterTarget validateClusterTargetUpdate
  "\<lambda>t x. x\<lparr>ctg_status := t\<rparr>" "frozenClusterTarget" OClusterTarget ClusterTarget_Default
  ClusterTarget_ValidateCreate ClusterTarget_ValidateUpdate
proof (unfold_locales, goal_cases)
  case (3 t x)
  show ?case by (simp add: validateClusterTarget_def)
next
  case (9 ob)
  then show ?case by (cases ob) (auto simp: ClusterTarget_ValidateCreate_def)
next
  case (10 ob' ob)
  then show ?case by (cases ob; cases ob') (auto simp: ClusterTarget_ValidateUpdate_def)
qed (auto simp: validateClusterTarget_None validateClusterTargetUpdate_def reject_simps ClusterTarget_Default_def
       ClusterTarget_ValidateCreate_def ClusterTarget_ValidateUpdate_def Let_def)

end
