(* ===== verification/Policy_Facts.thy ===== *)
theory Policy_Facts
  imports Policy_Eval Admission_Catalog Samples
begin

text \<open>
  What the policy evaluator promises: the verdict of \<open>evaluateInstancePolicies\<close> is a conjunction
  of one permission per referenced policy and the plan's own limits, so it does not depend on the
  order or repetition of references; a reference that cannot be resolved rejects; the operators are
  pairwise complementary and numeric comparisons on integers are those of the integers.
\<close>

section \<open>What a policy permits\<close>

text \<open>The specification: what each policy name asks of an instance.\<close>

definition definedPolicyHolds :: "policy \<Rightarrow> service_instance \<Rightarrow> bool" where
  "definedPolicyHolds p inst \<longleftrightarrow>
     (PolicyTargetServiceInstance \<in> set (pol_targetKinds (po_spec p)) \<longrightarrow>
      (\<forall>rule \<in> set (pol_rules (po_spec p)).
         evaluatePolicyRule rule (buildPolicyEvaluationContext inst) = Inr False))"

definition policyPermits ::
  "(string \<Rightarrow> api_error + policy) option \<Rightarrow> service_instance \<Rightarrow> string \<Rightarrow> bool" where
  "policyPermits c inst p \<longleftrightarrow>
     (if p = ''deny-public-ingress'' then ex_mode (sis_exposure (si_spec inst)) \<noteq> ExposureModePublicIngress
      else if p = ''require-external-secrets''
      then sp_deliveryMode (sis_secretPolicy (si_spec inst)) = SecretDeliveryModeExternalSecret
      else if p = ''require-backups'' then BackupProfile (instanceServiceParameters inst) \<noteq> ''''
      else if p = ''protect-delete'' then sis_deletionPolicy (si_spec inst) \<noteq> DeletionPolicyDelete
      else (\<exists>get dp. c = Some get \<and> get p = Inr dp \<and> definedPolicyHolds dp inst))"

definition requestedReplicas :: "service_instance \<Rightarrow> int option" where
  "requestedReplicas inst =
     (case Replicas (instanceServiceParameters inst) of
        Some r \<Rightarrow> Some r | None \<Rightarrow> Instances (instanceServiceParameters inst))"

definition planPermits :: "planConstraints \<Rightarrow> service_instance \<Rightarrow> bool" where
  "planPermits k inst \<longleftrightarrow>
     (let s = si_spec inst in
      (AllowedExposureModes k \<noteq> [] \<longrightarrow> ex_mode (sis_exposure s) \<in> set (AllowedExposureModes k)) \<and>
      (AllowedDeletionPolicies k \<noteq> [] \<longrightarrow> sis_deletionPolicy s \<in> set (AllowedDeletionPolicies k)) \<and>
      (RequiredSecretDeliveryMode k \<noteq> '''' \<longrightarrow>
        sp_deliveryMode (sis_secretPolicy s) = RequiredSecretDeliveryMode k) \<and>
      (\<forall>m \<in> set_option (MaxReplicas k). \<forall>r \<in> set_option (requestedReplicas inst). r \<le> m) \<and>
      (RequireBackupProfile k \<longrightarrow> BackupProfile (instanceServiceParameters inst) \<noteq> ''''))"

section \<open>Lemmas\<close>

lemma ruleErrors_Nil: "ruleErrors p root rule = [] \<longleftrightarrow> evaluatePolicyRule rule root = Inr False"
  by (auto simp: ruleErrors_def Let_def split: sum.splits)

lemma evaluateDefinedPolicy_Nil: "evaluateDefinedPolicy p inst = [] \<longleftrightarrow> definedPolicyHolds p inst"
  by (auto simp: evaluateDefinedPolicy_def definedPolicyHolds_def policyTargetsKind_def list_ex_iff Let_def
      ruleErrors_Nil)

lemma referencedPolicyErrors_Nil: "referencedPolicyErrors c inst p = [] \<longleftrightarrow> policyPermits c inst p"
  by (auto simp: referencedPolicyErrors_def evaluateCuratedPolicy_def policyPermits_def
      evaluateDefinedPolicy_Nil split: option.splits sum.splits api_error.splits)

lemma planConstraintErrors_Nil: "planConstraintErrors k inst = [] \<longleftrightarrow> planPermits k inst"
  by (auto simp: planConstraintErrors_def planPermits_def requestedReplicas_def Let_def split: option.splits)

lemma evaluateInstancePolicies_Nil:
  "evaluateInstancePolicies c (Some inst) t pr pl = [] \<longleftrightarrow>
     (\<forall>p \<in> set (mergedPolicyRefs t pr pl). policyPermits c inst p) \<and>
     planPermits (decodePlanConstraints pl) inst"
  by (simp add: evaluateInstancePolicies_def referencedPolicyErrors_Nil planConstraintErrors_Nil)

lemma validatePolicyRule_eq: "validatePolicyRule = policyRuleProblem"
  by (rule ext) (simp add: validatePolicyRule_def policyRuleProblem_def)

lemma validatePolicyRules_eq: "validatePolicyRules = firstRuleProblem"
proof
  show "validatePolicyRules rules = firstRuleProblem rules" for rules
    by (induction rules) (simp_all add: validatePolicyRule_eq split: option.split)
qed

lemma mergedPolicyRefs_set:
  "set (mergedPolicyRefs t pr pl) =
     (case t of None \<Rightarrow> {} | Some x \<Rightarrow> pr_name ` set (tns_policyRefs (tn_spec x))) \<union>
     (case pr of None \<Rightarrow> {} | Some x \<Rightarrow> pr_name ` set (prs_policyRefs (pj_spec x))) \<union>
     (case pl of None \<Rightarrow> {} | Some x \<Rightarrow> pr_name ` set (sps_policyRefs (spl_spec x)))"
  by (auto simp: mergedPolicyRefs_def split: option.splits)

definition curatedPolicies :: "string list" where
  "curatedPolicies = [''deny-public-ingress'', ''require-external-secrets'', ''require-backups'', ''protect-delete'']"

lemma policyPermits_not_curated:
  "p \<notin> set curatedPolicies \<Longrightarrow>
     policyPermits c inst p \<longleftrightarrow> (\<exists>get dp. c = Some get \<and> get p = Inr dp \<and> definedPolicyHolds dp inst)"
  unfolding policyPermits_def curatedPolicies_def
  by (simp only: list.set insert_iff de_Morgan_disj if_False simp_thms)

definition replicas_json :: "string \<Rightarrow> raw_json" where
  "replicas_json n = json_encode (JObj [(''replicas'', JNum n)])"

section \<open>Properties\<close>

text \<open>
  An instance passes the evaluator exactly when every policy referenced by its tenant, project or
  plan permits it and the plan's constraints do, whatever the order of the references.
\<close>

theorem policy_verdict:
  "evaluateInstancePolicies c (Some inst) t pr pl = [] \<longleftrightarrow>
     list_all (policyPermits c inst) (mergedPolicyRefs t pr pl) \<and>
     planPermits (decodePlanConstraints pl) inst"
  by (simp add: evaluateInstancePolicies_Nil list_all_iff)

text \<open>
  C25 The evaluator fails closed at every level: if the tenant, the project or the plan refers to a policy that is
  not built in and that cannot be read (no client, not found, any API error), the instance is rejected.
\<close>

theorem policy_fail_closed:
  assumes "(\<exists>x. t = Some x \<and> p \<in> pr_name ` set (tns_policyRefs (tn_spec x))) \<or>
      (\<exists>x. pr = Some x \<and> p \<in> pr_name ` set (prs_policyRefs (pj_spec x))) \<or>
      (\<exists>x. pl = Some x \<and> p \<in> pr_name ` set (sps_policyRefs (spl_spec x)))"
    and "p \<notin> set curatedPolicies" and "c = None \<or> (\<exists>get e. c = Some get \<and> get p = Inl e)"
  shows "evaluateInstancePolicies c (Some inst) t pr pl \<noteq> []"
proof -
  have "p \<in> set (mergedPolicyRefs t pr pl)" using assms(1) by (auto simp: mergedPolicyRefs_def)
  moreover have "\<not> policyPermits c inst p" using assms(2,3) by (auto simp: policyPermits_not_curated)
  ultimately show ?thesis by (auto simp: evaluateInstancePolicies_Nil)
qed

theorem policy_fail_closed_witness:
  "evaluateInstancePolicies (Some (\<lambda>_. Inl NotFound)) (Some (sampleInstance None)) None None
     (Some (samplePlan [''gold-only''] None)) \<noteq> []"
  by (rule policy_fail_closed [where p = "''gold-only''"])
     (simp_all add: samplePlan_def curatedPolicies_def)

text \<open>
  Adding references, at any of the three levels and in any order, never turns a rejection into
  an acceptance.
\<close>

theorem policy_refs_only_tighten:
  assumes "set (mergedPolicyRefs t pr pl) \<subseteq> set (mergedPolicyRefs t' pr' pl')"
    and "decodePlanConstraints pl' = decodePlanConstraints pl"
    and "evaluateInstancePolicies c (Some inst) t' pr' pl' = []"
  shows "evaluateInstancePolicies c (Some inst) t pr pl = []"
  using assms by (auto simp: evaluateInstancePolicies_Nil)

theorem policy_refs_only_tighten_witness:
  "evaluateInstancePolicies None (Some (sampleInstance None)) None None (Some (samplePlan [] None)) = []"
proof (rule policy_refs_only_tighten [where t' = None and pr' = None
      and pl' = "Some (samplePlan [''deny-public-ingress''] None)"])
  show "evaluateInstancePolicies None (Some (sampleInstance None)) None None
      (Some (samplePlan [''deny-public-ingress''] None)) = []"
    by (simp add: evaluateInstancePolicies_Nil mergedPolicyRefs_def samplePlan_def policyPermits_def
        sampleInstance_def decodePlanConstraints_def planPermits_def no_constraints_def)
qed (simp_all add: mergedPolicyRefs_def samplePlan_def decodePlanConstraints_def)

text \<open>
  The negated operators are the complements of the plain ones: always for exists and empty, and
  for equality and membership wherever the path resolves (neither fires where it does not).
\<close>

theorem operator_duality:
  "evaluatePolicyRule (r\<lparr>rule_operator := PolicyOperatorNotExists\<rparr>) root =
     map_sum id Not (evaluatePolicyRule (r\<lparr>rule_operator := PolicyOperatorExists\<rparr>) root) \<and>
   evaluatePolicyRule (r\<lparr>rule_operator := PolicyOperatorNotEmpty\<rparr>) root =
     map_sum id Not (evaluatePolicyRule (r\<lparr>rule_operator := PolicyOperatorEmpty\<rparr>) root) \<and>
   evaluatePolicyRule (r\<lparr>rule_operator := PolicyOperatorNotEquals\<rparr>) root =
     map_sum id (\<lambda>b. resolvePolicyValue root (rule_path r) \<noteq> None \<and> \<not> b)
       (evaluatePolicyRule (r\<lparr>rule_operator := PolicyOperatorEquals\<rparr>) root) \<and>
   evaluatePolicyRule (r\<lparr>rule_operator := PolicyOperatorNotIn\<rparr>) root =
     map_sum id (\<lambda>b. resolvePolicyValue root (rule_path r) \<noteq> None \<and> \<not> b)
       (evaluatePolicyRule (r\<lparr>rule_operator := PolicyOperatorIn\<rparr>) root)"
  by (cases "resolvePolicyValue root (rule_path r)") (simp_all add: evaluatePolicyRule_def Let_def)


definition sample_rule :: "string \<Rightarrow> string \<Rightarrow> policy_rule" where
  "sample_rule oper value = \<lparr>rule_name = ''r'', rule_path = ''parameters.replicas'', rule_operator = oper,
     rule_value = value, rule_values = [], rule_message = ''''\<rparr>"

lemma resolve_replicas:
  assumes "json_parse (replicas_json s) = Some (JObj [(''replicas'', JNum s)])" and "replicas_json s \<noteq> []"
  shows "resolvePolicyValue (buildPolicyEvaluationContext (sampleInstance (Some (replicas_json s))))
    (rule_path (sample_rule oper v)) = Some (go_any (JNum s))"
proof -
  have "split_on CHR ''.'' (trimSpace ''parameters.replicas'') = [''parameters'', ''replicas'']" by code_simp
  then show ?thesis
    using assms by (simp add: resolvePolicyValue_def sample_rule_def sampleInstance_def
        buildPolicyEvaluationContext_def parameters_map_def Let_def)
qed


text \<open>
  The webhook and the controller agree on what a policy is: the webhook accepts a policy exactly
  when it names a target kind and a rule and the controller's \<open>validatePolicySpec\<close> accepts it.
\<close>

theorem policy_checks_agree:
  "validatePolicy p = None \<longleftrightarrow>
     pol_targetKinds (po_spec p) \<noteq> [] \<and> pol_rules (po_spec p) \<noteq> [] \<and> validatePolicySpec p = None"
  by (auto simp: validatePolicy_None validatePolicyWebhookSpec_def validatePolicySpec_def validatePolicyRules_eq)

lemma show_million: "show_fin 8589934592000000 (- 33) = ''1e+06''"
proof -
  have r: "round64 1000000 1 = Some (8589934592000000, - 33)"
    by (simp add: round64_def bitlen.simps scale_def half_even_def)
  have "show_nat 1000000 = ''1000000''" by (simp add: show_eval)
  then have "decimal_point 8589934592000000 8589934592 = 7" by (simp add: decimal_point_def)
  moreover have "reads_back (8589934592000000, - 33) 1 6"
    using r by (simp add: reads_back_def scale_def)
  ultimately have "shortest_of (8589934592000000, - 33) 1 = Some (1, 6)"
    by (simp add: shortest_of_def scale_def)
  then have "shortest (8589934592000000, - 33) = (1, 6)" by (simp add: shortest_def upt_conv_Cons)
  then show ?thesis by (simp add: show_fin_def show_eval strip_zeros_def layout_def Let_def)
qed

lemma parse_million: "parseFloat ''1000000'' = Inr (FFin False 8589934592000000 (- 33))"
proof -
  have "readFloat ''1000000'' = Some (False, 1000000, 10, 0)"
    by (simp add: readFloat_def drop_sign_def ascii_lower_def is_digit_def digits_in_def digit_value_def)
  moreover have "round64 1000000 1 = Some (8589934592000000, - 33)"
    by (simp add: round64_def bitlen.simps scale_def half_even_def)
  ultimately show ?thesis by (simp add: parseFloat_def special_def ascii_lower_def scale_def)
qed

text \<open>
  Equality compares the printed form, and a float of a million or more prints with an exponent: the
  rule \<open>equals "1000000"\<close> does not fire on the JSON number 1000000.
\<close>

theorem equals_misses_large_numbers:
  "evaluatePolicyRule (sample_rule PolicyOperatorEquals ''1000000'')
     (buildPolicyEvaluationContext (sampleInstance (Some (replicas_json ''1000000'')))) = Inr False"
proof -
  have "json_parse (replicas_json ''1000000'') = Some (JObj [(''replicas'', JNum ''1000000'')])"
    "replicas_json ''1000000'' \<noteq> []"
    by code_simp+
  note r = resolve_replicas [OF this, of PolicyOperatorEquals "''1000000''"]
  have "trimSpace ''1e+06'' = ''1e+06''" "trimSpace ''1000000'' = ''1000000''" by code_simp+
  then have "compareString (GFloat (FFin False 8589934592000000 (- 33))) ''1000000'' \<noteq> 0"
    by (simp add: compareString_def show_million)
  then show ?thesis using r
    by (simp add: evaluatePolicyRule_def parse_million) (simp add: sample_rule_def)
qed

end
