(* ===== verification/Admission_Access.thy ===== *)
theory Admission_Access
  imports Admission_Common
begin

text \<open>
  Admission of tenancy and identity: \<open>Tenant\<close>, \<open>Project\<close>, \<open>AuthProvider\<close>, \<open>User\<close>,
  \<open>Group\<close> and \<open>RoleBinding\<close>.
\<close>

section \<open>Tenant\<close>

definition validateTenantSpec :: "tenant_spec \<Rightarrow> error_list" where
  "validateTenantSpec spec =
     validateLocalRef (tns_quotaProfileRef spec) (NewPath [''spec'', ''quotaProfileRef'']) @
     report (length (tns_allowedServiceClasses spec) = 0)
       (Required (NewPath [''spec'', ''allowedServiceClasses'']) ''at least one service class is required'') @
     each (\<lambda>i allowed. report (blank allowed)
         (Required (NewPath [''spec'', ''allowedServiceClasses''] @ [Index i]) ''service class name is required''))
       (tns_allowedServiceClasses spec) @
     report (length (ow_users (tns_owners spec)) = 0 \<and> length (ow_groups (tns_owners spec)) = 0)
       (Required (NewPath [''spec'', ''owners'']) ''at least one owner user or group is required'') @
     each (\<lambda>i contact.
         report (blank (ct_type contact))
           (Required (NewPath [''spec'', ''contacts''] @ [Index i, Child ''type'']) ''type is required'') @
         report (blank (ct_value contact))
           (Required (NewPath [''spec'', ''contacts''] @ [Index i, Child ''value'']) ''value is required''))
       (tns_contacts spec) @
     validatePolicyRefs (tns_policyRefs spec) (NewPath [''spec'', ''policyRefs''])"

definition validateTenant :: "tenant \<Rightarrow> admission_error option" where
  "validateTenant x = as_invalid ''Tenant'' (m_name (tn_meta x)) (validateTenantSpec (tn_spec x))"

definition validateTenantUpdate :: "tenant \<Rightarrow> tenant \<Rightarrow> admission_error option" where
  "validateTenantUpdate previous current =
     as_invalid ''Tenant'' (m_name (tn_meta current))
       (validateTenantSpec (tn_spec current) @
        validateImmutableLocalRef (tns_quotaProfileRef (tn_spec previous)) (tns_quotaProfileRef (tn_spec current))
          (NewPath [''spec'', ''quotaProfileRef'']))"

definition defaultTenant :: "tenant \<Rightarrow> tenant" where
  "defaultTenant x =
     (if tl_phase (tns_lifecycle (tn_spec x)) = ''''
      then x\<lparr>tn_spec := (tn_spec x)\<lparr>tns_lifecycle := (tns_lifecycle (tn_spec x))\<lparr>tl_phase := TenantLifecyclePhaseActive\<rparr>\<rparr>\<rparr>
      else x)"

definition Tenant_Default :: "api_object \<Rightarrow> admission_error + api_object" where
  "Tenant_Default ob =
     (case ob of
        OTenant x \<Rightarrow> Inr (OTenant (defaultTenant x))
      | _ \<Rightarrow> Inl (BadRequest ''expected a Tenant for defaulting''))"

definition Tenant_ValidateCreate :: "api_object \<Rightarrow> admission_error option" where
  "Tenant_ValidateCreate ob =
     (case ob of
        OTenant x \<Rightarrow> validateTenant x
      | _ \<Rightarrow> Some (BadRequest ''expected a Tenant for create validation''))"

definition Tenant_ValidateUpdate :: "api_object \<Rightarrow> api_object \<Rightarrow> admission_error option" where
  "Tenant_ValidateUpdate oldObj newObj =
     (case oldObj of
        OTenant previous \<Rightarrow>
          (case newObj of
             OTenant current \<Rightarrow> validateTenantUpdate previous current
           | _ \<Rightarrow> Some (BadRequest ''expected a Tenant for new update validation object''))
      | _ \<Rightarrow> Some (BadRequest ''expected a Tenant for old update validation object''))"

lemma validateTenant_None: "validateTenant x = None \<longleftrightarrow> validateTenantSpec (tn_spec x) = []"
  by (simp add: validateTenant_def)

abbreviation frozenTenant :: "tenant \<Rightarrow> local_ref" where
  "frozenTenant x \<equiv> tns_quotaProfileRef (tn_spec x)"

interpretation tenants: admission_handler defaultTenant validateTenant validateTenantUpdate
  "\<lambda>t x. x\<lparr>tn_status := t\<rparr>" "frozenTenant" OTenant Tenant_Default
  Tenant_ValidateCreate Tenant_ValidateUpdate
proof (unfold_locales, goal_cases)
  case (3 t x)
  show ?case by (simp add: validateTenant_def)
next
  case (9 ob)
  then show ?case by (cases ob) (auto simp: Tenant_ValidateCreate_def)
next
  case (10 ob' ob)
  then show ?case by (cases ob; cases ob') (auto simp: Tenant_ValidateUpdate_def)
qed (auto simp: defaultTenant_def validateTenant_None validateTenantUpdate_def reject_simps lr_name_eq_iff Tenant_Default_def
       Tenant_ValidateCreate_def Tenant_ValidateUpdate_def Let_def)

section \<open>Project\<close>

definition validateProjectSpec ::
  "(string \<Rightarrow> string list) \<Rightarrow> (string \<Rightarrow> string list) \<Rightarrow> project_spec \<Rightarrow> error_list" where
  "validateProjectSpec qn lv spec =
     validateLocalRef (prs_tenantRef spec) (NewPath [''spec'', ''tenantRef'']) @
     report (ns_mode (prs_namespaceStrategy spec) = '''')
       (Required (NewPath [''spec'', ''namespaceStrategy'', ''mode'']) ''mode is required'') @
     report (ns_mode (prs_namespaceStrategy spec) = NamespaceStrategyDedicated \<and>
             blank (ns_prefix (prs_namespaceStrategy spec)))
       (Required (NewPath [''spec'', ''namespaceStrategy'', ''prefix''])
          ''prefix is required for dedicated namespaces'') @
     validatePolicyRefs (prs_policyRefs spec) (NewPath [''spec'', ''policyRefs'']) @
     validateLabelMap qn lv (prs_labels spec) (NewPath [''spec'', ''labels''])"

definition validateProject ::
  "(string \<Rightarrow> string list) \<Rightarrow> (string \<Rightarrow> string list) \<Rightarrow> project \<Rightarrow> admission_error option" where
  "validateProject qn lv x =
     as_invalid ''Project'' (m_name (pj_meta x)) (validateProjectSpec qn lv (pj_spec x))"

definition validateProjectUpdate ::
  "(string \<Rightarrow> string list) \<Rightarrow> (string \<Rightarrow> string list) \<Rightarrow> project \<Rightarrow> project \<Rightarrow> admission_error option" where
  "validateProjectUpdate qn lv previous current =
     as_invalid ''Project'' (m_name (pj_meta current))
       (validateProjectSpec qn lv (pj_spec current) @
        validateImmutableLocalRef (prs_tenantRef (pj_spec previous)) (prs_tenantRef (pj_spec current))
          (NewPath [''spec'', ''tenantRef'']))"

definition defaultNamespaceStrategy :: "string \<Rightarrow> namespace_strategy_spec \<Rightarrow> namespace_strategy_spec" where
  "defaultNamespaceStrategy name n =
     (let n1 = (if ns_mode n = '''' then n\<lparr>ns_mode := NamespaceStrategyDedicated\<rparr> else n)
      in if ns_mode n1 = NamespaceStrategyDedicated \<and> ns_prefix n1 = '''' then n1\<lparr>ns_prefix := name\<rparr> else n1)"

definition defaultProject :: "project \<Rightarrow> project" where
  "defaultProject x =
     x\<lparr>pj_spec := (pj_spec x)\<lparr>prs_namespaceStrategy :=
        defaultNamespaceStrategy (m_name (pj_meta x)) (prs_namespaceStrategy (pj_spec x))\<rparr>\<rparr>"

definition Project_Default :: "api_object \<Rightarrow> admission_error + api_object" where
  "Project_Default ob =
     (case ob of
        OProject x \<Rightarrow> Inr (OProject (defaultProject x))
      | _ \<Rightarrow> Inl (BadRequest ''expected a Project for defaulting''))"

definition Project_ValidateCreate :: "(string \<Rightarrow> string list) \<Rightarrow> (string \<Rightarrow> string list) \<Rightarrow> api_object \<Rightarrow> admission_error option" where
  "Project_ValidateCreate qn lv ob =
     (case ob of
        OProject x \<Rightarrow> validateProject qn lv x
      | _ \<Rightarrow> Some (BadRequest ''expected a Project for create validation''))"

definition Project_ValidateUpdate :: "(string \<Rightarrow> string list) \<Rightarrow> (string \<Rightarrow> string list) \<Rightarrow> api_object \<Rightarrow> api_object \<Rightarrow> admission_error option" where
  "Project_ValidateUpdate qn lv oldObj newObj =
     (case oldObj of
        OProject previous \<Rightarrow>
          (case newObj of
             OProject current \<Rightarrow> validateProjectUpdate qn lv previous current
           | _ \<Rightarrow> Some (BadRequest ''expected a Project for new update validation object''))
      | _ \<Rightarrow> Some (BadRequest ''expected a Project for old update validation object''))"

lemma defaultNamespaceStrategy_idem [simp]:
  "defaultNamespaceStrategy name (defaultNamespaceStrategy name n) = defaultNamespaceStrategy name n"
  by (simp add: defaultNamespaceStrategy_def Let_def)

lemma validateProject_None: "validateProject qn lv x = None \<longleftrightarrow> validateProjectSpec qn lv (pj_spec x) = []"
  by (simp add: validateProject_def)

abbreviation frozenProject :: "project \<Rightarrow> local_ref" where
  "frozenProject x \<equiv> prs_tenantRef (pj_spec x)"

interpretation projects: admission_handler defaultProject "validateProject qn lv" "validateProjectUpdate qn lv"
  "\<lambda>t x. x\<lparr>pj_status := t\<rparr>" "frozenProject" OProject Project_Default
  "Project_ValidateCreate qn lv" "Project_ValidateUpdate qn lv" for qn lv
proof (unfold_locales, goal_cases)
  case (3 t x)
  show ?case by (simp add: validateProject_def)
next
  case (9 ob)
  then show ?case by (cases ob) (auto simp: Project_ValidateCreate_def)
next
  case (10 ob' ob)
  then show ?case by (cases ob; cases ob') (auto simp: Project_ValidateUpdate_def)
qed (auto simp: defaultProject_def validateProject_None validateProjectUpdate_def reject_simps lr_name_eq_iff Project_Default_def
       Project_ValidateCreate_def Project_ValidateUpdate_def Let_def)

section \<open>AuthProvider\<close>

definition validateOIDC :: "oidc_spec \<Rightarrow> error_list" where
  "validateOIDC oidc =
     report (blank (oi_issuerURL oidc)) (Required (NewPath [''spec'', ''oidc'', ''issuerUrl'']) ''issuerUrl is required'') @
     report (blank (oi_clientID oidc)) (Required (NewPath [''spec'', ''oidc'', ''clientId'']) ''clientId is required'') @
     validateNamespacedRef (oi_clientSecretRef oidc) (NewPath [''spec'', ''oidc'', ''clientSecretRef''])"

definition validateLDAP :: "ldap_spec \<Rightarrow> error_list" where
  "validateLDAP l =
     report (blank (ld_url l)) (Required (NewPath [''spec'', ''ldap'', ''url'']) ''url is required'') @
     validateNamespacedRef (ld_bindSecretRef l) (NewPath [''spec'', ''ldap'', ''bindSecretRef'']) @
     report (blank (ld_userBaseDN l)) (Required (NewPath [''spec'', ''ldap'', ''userBaseDn'']) ''userBaseDn is required'') @
     report (blank (ld_userFilter l)) (Required (NewPath [''spec'', ''ldap'', ''userFilter'']) ''userFilter is required'')"

definition validateAuthProviderSpec :: "auth_provider_spec \<Rightarrow> error_list" where
  "validateAuthProviderSpec spec =
     (let noOIDC = report (aps_oidc spec \<noteq> None)
            (Forbidden (NewPath [''spec'', ''oidc'']) ''oidc config is only valid when type=oidc'');
          noLDAP = report (aps_ldap spec \<noteq> None)
            (Forbidden (NewPath [''spec'', ''ldap'']) ''ldap config is only valid when type=ldap'')
      in
        report (blank (aps_displayName spec)) (Required (NewPath [''spec'', ''displayName'']) ''displayName is required'') @
        report (aps_default spec \<and> \<not> aps_enabled spec)
          (Forbidden (NewPath [''spec'', ''default'']) ''default providers must be enabled'') @
        (if aps_type spec = AuthProviderTypeLocal then noOIDC @ noLDAP
         else if aps_type spec = AuthProviderTypeOIDC
         then (case aps_oidc spec of
                 None \<Rightarrow> [Required (NewPath [''spec'', ''oidc'']) ''oidc config is required when type=oidc'']
               | Some oidc \<Rightarrow> noLDAP @ validateOIDC oidc)
         else if aps_type spec = AuthProviderTypeLDAP
         then (case aps_ldap spec of
                 None \<Rightarrow> [Required (NewPath [''spec'', ''ldap'']) ''ldap config is required when type=ldap'']
               | Some l \<Rightarrow> noOIDC @ validateLDAP l)
         else [NotSupported (NewPath [''spec'', ''type'']) (VStr (aps_type spec))
                 [AuthProviderTypeLocal, AuthProviderTypeOIDC, AuthProviderTypeLDAP]]))"

definition validateAuthProvider :: "auth_provider \<Rightarrow> admission_error option" where
  "validateAuthProvider x =
     as_invalid ''AuthProvider'' (m_name (apv_meta x)) (validateAuthProviderSpec (apv_spec x))"

definition validateAuthProviderUpdate :: "auth_provider \<Rightarrow> auth_provider \<Rightarrow> admission_error option" where
  "validateAuthProviderUpdate previous current =
     as_invalid ''AuthProvider'' (m_name (apv_meta current))
       (validateAuthProviderSpec (apv_spec current) @
        report (aps_type (apv_spec previous) \<noteq> aps_type (apv_spec current))
          (Invalid (NewPath [''spec'', ''type'']) (VStr (aps_type (apv_spec current))) ''field is immutable''))"

definition AuthProvider_Default :: "api_object \<Rightarrow> admission_error + api_object" where
  "AuthProvider_Default ob = Inr ob"

definition AuthProvider_ValidateCreate :: "api_object \<Rightarrow> admission_error option" where
  "AuthProvider_ValidateCreate ob =
     (case ob of
        OAuthProvider x \<Rightarrow> validateAuthProvider x
      | _ \<Rightarrow> Some (BadRequest ''expected an AuthProvider for create validation''))"

definition AuthProvider_ValidateUpdate :: "api_object \<Rightarrow> api_object \<Rightarrow> admission_error option" where
  "AuthProvider_ValidateUpdate oldObj newObj =
     (case oldObj of
        OAuthProvider previous \<Rightarrow>
          (case newObj of
             OAuthProvider current \<Rightarrow> validateAuthProviderUpdate previous current
           | _ \<Rightarrow> Some (BadRequest ''expected an AuthProvider for new update validation object''))
      | _ \<Rightarrow> Some (BadRequest ''expected an AuthProvider for old update validation object''))"

lemma validateAuthProvider_None:
  "validateAuthProvider x = None \<longleftrightarrow> validateAuthProviderSpec (apv_spec x) = []"
  by (simp add: validateAuthProvider_def)

abbreviation frozenAuthProvider :: "auth_provider \<Rightarrow> string" where
  "frozenAuthProvider x \<equiv> aps_type (apv_spec x)"

interpretation auth_providers: admission_handler "\<lambda>x. x" validateAuthProvider validateAuthProviderUpdate
  "\<lambda>t x. x\<lparr>apv_status := t\<rparr>" "frozenAuthProvider" OAuthProvider AuthProvider_Default
  AuthProvider_ValidateCreate AuthProvider_ValidateUpdate
proof (unfold_locales, goal_cases)
  case (3 t x)
  show ?case by (simp add: validateAuthProvider_def)
next
  case (9 ob)
  then show ?case by (cases ob) (auto simp: AuthProvider_ValidateCreate_def)
next
  case (10 ob' ob)
  then show ?case by (cases ob; cases ob') (auto simp: AuthProvider_ValidateUpdate_def)
qed (auto simp: validateAuthProvider_None validateAuthProviderUpdate_def AuthProvider_Default_def
       AuthProvider_ValidateCreate_def AuthProvider_ValidateUpdate_def Let_def)

section \<open>User\<close>

definition validateUserSpec :: "user_spec \<Rightarrow> error_list" where
  "validateUserSpec spec =
     report (usr_localAuth spec = None \<and> length (usr_externalIdentities spec) = 0)
       (Required (NewPath [''spec'']) ''at least one local or external identity is required'') @
     (case usr_localAuth spec of
        None \<Rightarrow> []
      | Some la \<Rightarrow>
          report (\<not> la_enabled la)
            (Forbidden (NewPath [''spec'', ''localAuth'', ''enabled'']) ''localAuth must be enabled when configured'') @
          validateNamespacedRef (la_passwordHashSecretRef la)
            (NewPath [''spec'', ''localAuth'', ''passwordHashSecretRef''])) @
     each (\<lambda>i identity.
         validateLocalRef (ei_providerRef identity)
           (NewPath [''spec'', ''externalIdentities''] @ [Index i, Child ''providerRef'']) @
         report (blank (ei_subject identity))
           (Required (NewPath [''spec'', ''externalIdentities''] @ [Index i, Child ''subject'']) ''subject is required''))
       (usr_externalIdentities spec)"

definition validateUser :: "user \<Rightarrow> admission_error option" where
  "validateUser x = as_invalid ''User'' (m_name (u_meta x)) (validateUserSpec (u_spec x))"

definition validateUserUpdate :: "user \<Rightarrow> user \<Rightarrow> admission_error option" where
  "validateUserUpdate previous current = validateUser current"

definition User_Default :: "api_object \<Rightarrow> admission_error + api_object" where
  "User_Default ob = Inr ob"

definition User_ValidateCreate :: "api_object \<Rightarrow> admission_error option" where
  "User_ValidateCreate ob =
     (case ob of
        OUser x \<Rightarrow> validateUser x
      | _ \<Rightarrow> Some (BadRequest ''expected an User for create validation''))"

definition User_ValidateUpdate :: "api_object \<Rightarrow> api_object \<Rightarrow> admission_error option" where
  "User_ValidateUpdate oldObj newObj =
     (case oldObj of
        OUser previous \<Rightarrow>
          (case newObj of
             OUser current \<Rightarrow> validateUserUpdate previous current
           | _ \<Rightarrow> Some (BadRequest ''expected an User for new update validation object''))
      | _ \<Rightarrow> Some (BadRequest ''expected an User for old update validation object''))"

lemma validateUser_None: "validateUser x = None \<longleftrightarrow> validateUserSpec (u_spec x) = []"
  by (simp add: validateUser_def)

abbreviation frozenUser :: "user \<Rightarrow> unit" where
  "frozenUser x \<equiv> ()"

interpretation users: admission_handler "\<lambda>x. x" validateUser validateUserUpdate
  "\<lambda>t x. x\<lparr>u_status := t\<rparr>" "frozenUser" OUser User_Default
  User_ValidateCreate User_ValidateUpdate
proof (unfold_locales, goal_cases)
  case (3 t x)
  show ?case by (simp add: validateUser_def)
next
  case (9 ob)
  then show ?case by (cases ob) (auto simp: User_ValidateCreate_def)
next
  case (10 ob' ob)
  then show ?case by (cases ob; cases ob') (auto simp: User_ValidateUpdate_def)
qed (auto simp: validateUser_None validateUserUpdate_def User_Default_def
       User_ValidateCreate_def User_ValidateUpdate_def Let_def)

section \<open>Group\<close>

definition validateGroupSpec :: "group_spec \<Rightarrow> error_list" where
  "validateGroupSpec spec =
     report (length (gr_members spec) = 0 \<and> length (gr_externalGroups spec) = 0)
       (Required (NewPath [''spec'']) ''at least one member or external group is required'') @
     each (\<lambda>i member. validateLocalRef (gm_userRef member)
         (NewPath [''spec'', ''members''] @ [Index i, Child ''userRef''])) (gr_members spec) @
     each (\<lambda>i externalGroup.
         validateLocalRef (eg_providerRef externalGroup)
           (NewPath [''spec'', ''externalGroups''] @ [Index i, Child ''providerRef'']) @
         report (blank (eg_name externalGroup))
           (Required (NewPath [''spec'', ''externalGroups''] @ [Index i, Child ''name'']) ''name is required''))
       (gr_externalGroups spec)"

definition validateGroup :: "group \<Rightarrow> admission_error option" where
  "validateGroup x = as_invalid ''Group'' (m_name (g_meta x)) (validateGroupSpec (g_spec x))"

definition Group_Default :: "api_object \<Rightarrow> admission_error + api_object" where
  "Group_Default ob = Inr ob"

definition Group_ValidateCreate :: "api_object \<Rightarrow> admission_error option" where
  "Group_ValidateCreate ob =
     (case ob of
        OGroup x \<Rightarrow> validateGroup x
      | _ \<Rightarrow> Some (BadRequest ''expected a Group for create validation''))"

definition Group_ValidateUpdate :: "api_object \<Rightarrow> api_object \<Rightarrow> admission_error option" where
  "Group_ValidateUpdate oldObj newObj =
     (case newObj of
        OGroup current \<Rightarrow> validateGroup current
      | _ \<Rightarrow> Some (BadRequest ''expected a Group for update validation''))"

lemma validateGroup_None: "validateGroup x = None \<longleftrightarrow> validateGroupSpec (g_spec x) = []"
  by (simp add: validateGroup_def)

abbreviation frozenGroup :: "group \<Rightarrow> unit" where
  "frozenGroup x \<equiv> ()"

interpretation groups: admission_handler "\<lambda>x. x" validateGroup "\<lambda>p c. validateGroup c"
  "\<lambda>t x. x\<lparr>g_status := t\<rparr>" "frozenGroup" OGroup Group_Default
  Group_ValidateCreate Group_ValidateUpdate
proof (unfold_locales, goal_cases)
  case (3 t x)
  show ?case by (simp add: validateGroup_def)
next
  case (9 ob)
  then show ?case by (cases ob) (auto simp: Group_ValidateCreate_def)
next
  case (10 ob' ob)
  then show ?case by (cases ob; cases ob') (auto simp: Group_ValidateUpdate_def)
qed (auto simp: validateGroup_None Group_Default_def
       Group_ValidateCreate_def Group_ValidateUpdate_def Let_def)

section \<open>RoleBinding\<close>

definition validateRoleBindingSpec :: "role_binding_spec \<Rightarrow> error_list" where
  "validateRoleBindingSpec spec =
     report (length (rbs_subjects spec) = 0) (Required (NewPath [''spec'', ''subjects'']) ''at least one subject is required'') @
     report (length (rbs_roles spec) = 0) (Required (NewPath [''spec'', ''roles'']) ''at least one role is required'') @
     each (\<lambda>i subject. report (blank (sr_name subject))
         (Required (NewPath [''spec'', ''subjects''] @ [Index i, Child ''name'']) ''name is required''))
       (rbs_subjects spec) @
     (if rbs_scope spec = AccessScopePlatform
      then report (rbs_tenantRef spec \<noteq> None)
        (Forbidden (NewPath [''spec'', ''tenantRef'']) ''tenantRef is only valid when scope=tenant'')
      else if rbs_scope spec = AccessScopeTenant
      then (case rbs_tenantRef spec of
              None \<Rightarrow> [Required (NewPath [''spec'', ''tenantRef'']) ''tenantRef is required when scope=tenant'']
            | Some t \<Rightarrow> validateLocalRef t (NewPath [''spec'', ''tenantRef'']))
      else [NotSupported (NewPath [''spec'', ''scope'']) (VStr (rbs_scope spec)) [AccessScopePlatform, AccessScopeTenant]])"

definition validateRoleBinding :: "role_binding \<Rightarrow> admission_error option" where
  "validateRoleBinding x =
     as_invalid ''RoleBinding'' (m_name (rbd_meta x)) (validateRoleBindingSpec (rbd_spec x))"

definition validateRoleBindingUpdate :: "role_binding \<Rightarrow> role_binding \<Rightarrow> admission_error option" where
  "validateRoleBindingUpdate previous current =
     (let p = rbd_spec previous; c = rbd_spec current in
      as_invalid ''RoleBinding'' (m_name (rbd_meta current))
        (validateRoleBindingSpec c @
         report (rbs_scope p \<noteq> rbs_scope c)
           (Invalid (NewPath [''spec'', ''scope'']) (VStr (rbs_scope c)) ''field is immutable'') @
         (case (rbs_tenantRef p, rbs_tenantRef c) of
            (None, Some t) \<Rightarrow> [Invalid (NewPath [''spec'', ''tenantRef'']) (VStr (lr_name t)) ''field is immutable'']
          | (Some _, None) \<Rightarrow> [Invalid (NewPath [''spec'', ''tenantRef'']) (VStr '''') ''field is immutable'']
          | (Some s, Some t) \<Rightarrow> validateImmutableLocalRef s t (NewPath [''spec'', ''tenantRef''])
          | (None, None) \<Rightarrow> [])))"

definition RoleBinding_Default :: "api_object \<Rightarrow> admission_error + api_object" where
  "RoleBinding_Default ob = Inr ob"

definition RoleBinding_ValidateCreate :: "api_object \<Rightarrow> admission_error option" where
  "RoleBinding_ValidateCreate ob =
     (case ob of
        ORoleBinding x \<Rightarrow> validateRoleBinding x
      | _ \<Rightarrow> Some (BadRequest ''expected a RoleBinding for create validation''))"

definition RoleBinding_ValidateUpdate :: "api_object \<Rightarrow> api_object \<Rightarrow> admission_error option" where
  "RoleBinding_ValidateUpdate oldObj newObj =
     (case oldObj of
        ORoleBinding previous \<Rightarrow>
          (case newObj of
             ORoleBinding current \<Rightarrow> validateRoleBindingUpdate previous current
           | _ \<Rightarrow> Some (BadRequest ''expected a RoleBinding for new update validation object''))
      | _ \<Rightarrow> Some (BadRequest ''expected a RoleBinding for old update validation object''))"

lemma validateRoleBinding_None:
  "validateRoleBinding x = None \<longleftrightarrow> validateRoleBindingSpec (rbd_spec x) = []"
  by (simp add: validateRoleBinding_def)

abbreviation frozenRoleBinding :: "role_binding \<Rightarrow> string \<times> local_ref option" where
  "frozenRoleBinding x \<equiv> (rbs_scope (rbd_spec x), rbs_tenantRef (rbd_spec x))"

lemma validateRoleBindingUpdate_None:
  "validateRoleBindingUpdate p c = None \<longleftrightarrow>
     validateRoleBinding c = None \<and> frozenRoleBinding p = frozenRoleBinding c"
  by (auto simp: validateRoleBindingUpdate_def validateRoleBinding_None Let_def reject_simps lr_name_eq_iff
      split: option.splits)

interpretation role_bindings: admission_handler "\<lambda>x. x" validateRoleBinding validateRoleBindingUpdate
  "\<lambda>t x. x\<lparr>rbd_status := t\<rparr>" "frozenRoleBinding" ORoleBinding RoleBinding_Default
  RoleBinding_ValidateCreate RoleBinding_ValidateUpdate
proof (unfold_locales, goal_cases)
  case (3 t x)
  show ?case by (simp add: validateRoleBinding_def)
next
  case (9 ob)
  then show ?case by (cases ob) (auto simp: RoleBinding_ValidateCreate_def)
next
  case (10 ob' ob)
  then show ?case by (cases ob; cases ob') (auto simp: RoleBinding_ValidateUpdate_def)
qed (auto simp: validateRoleBinding_None validateRoleBindingUpdate_None RoleBinding_Default_def
       RoleBinding_ValidateCreate_def RoleBinding_ValidateUpdate_def Let_def)

end
