(* ===== verification/Admission_Facts.thy ===== *)
theory Admission_Facts
  imports Admission_Workloads Admission_Catalog Admission_Access Samples
begin

text \<open>
  What the admission webhooks establish, over every object the API server can have stored
  (\<open>history\<close>): the properties of the sixteen interpretations of \<open>admission_kind\<close> that the
  controllers rely on.
\<close>

section \<open>Secret policies\<close>

text \<open>
  The ways to hand out credentials that an accepted policy can mean. A vault block left over in
  another delivery mode is ignored.
\<close>

definition wellFormedVault :: "vault_spec \<Rightarrow> bool" where
  "wellFormedVault v \<longleftrightarrow>
     \<not> blank (va_server v) \<and> \<not> blank (va_path v) \<and> va_version v \<in> {''v1'', ''v2''} \<and>
     \<not> blank (nr_name (va_authSecretRef v))"

definition wellFormedSecretPolicy :: "secret_policy_spec \<Rightarrow> bool" where
  "wellFormedSecretPolicy sp \<longleftrightarrow>
     (sp_deliveryMode sp = SecretDeliveryModeExternalSecret \<and>
        (sp_externalSecretProvider sp = ExternalSecretProviderKubernetes \<and> sp_vault sp = None \<or>
         sp_externalSecretProvider sp = ExternalSecretProviderVault \<and>
         (\<exists>v. sp_vault sp = Some v \<and> wellFormedVault v)) \<or>
      sp_deliveryMode sp \<in> {SecretDeliveryModeDirectSecretRef, SecretDeliveryModeManual} \<and>
        sp_externalSecretProvider sp = '''')"

lemma validateVaultConfig_Nil:
  "validateVaultConfig v p = [] \<longleftrightarrow>
     \<not> blank (va_server v) \<and> \<not> blank (va_path v) \<and> va_version v \<in> {'''', ''v1'', ''v2''} \<and>
     \<not> blank (nr_name (va_authSecretRef v))"
  by (auto simp: validateVaultConfig_def)

lemma defaultSecretPolicy_fields:
  "sp_deliveryMode (defaultSecretPolicy sp) =
     (if sp_deliveryMode sp = '''' then SecretDeliveryModeExternalSecret else sp_deliveryMode sp)"
  "sp_externalSecretProvider (defaultSecretPolicy sp) =
     (if sp_deliveryMode (defaultSecretPolicy sp) = SecretDeliveryModeExternalSecret \<and>
         sp_externalSecretProvider sp = '''' then ExternalSecretProviderKubernetes
      else sp_externalSecretProvider sp)"
  "sp_vault (defaultSecretPolicy sp) = map_option defaultVault (sp_vault sp)"
  by (simp_all add: defaultSecretPolicy_def Let_def)

lemma defaultVault_version:
  "va_version (defaultVault v) = (if va_version v = '''' then ''v2'' else va_version v)"
  by (simp add: defaultVault_def Let_def)

lemma defaultSecretPolicy_shape:
  "sp_deliveryMode (defaultSecretPolicy sp) \<noteq> ''''"
  "sp_deliveryMode (defaultSecretPolicy sp) = SecretDeliveryModeExternalSecret \<Longrightarrow>
     sp_externalSecretProvider (defaultSecretPolicy sp) \<noteq> ''''"
  "sp_vault (defaultSecretPolicy sp) = Some v \<Longrightarrow> va_version v \<noteq> ''''"
proof -
  show "sp_deliveryMode (defaultSecretPolicy sp) \<noteq> ''''" by (simp add: defaultSecretPolicy_fields(1))
  show "sp_externalSecretProvider (defaultSecretPolicy sp) \<noteq> ''''"
    if "sp_deliveryMode (defaultSecretPolicy sp) = SecretDeliveryModeExternalSecret"
    using that by (simp add: defaultSecretPolicy_fields(2))
  show "va_version v \<noteq> ''''" if "sp_vault (defaultSecretPolicy sp) = Some v"
    using that by (auto simp: defaultSecretPolicy_fields(3) defaultVault_version split: if_splits)
qed

lemma secret_policy_wellFormed:
  assumes "defaultSecretPolicy sp = sp"
  shows "validateSecretPolicy sp p = [] \<longleftrightarrow> wellFormedSecretPolicy sp"
proof -
  note d = defaultSecretPolicy_shape [of sp, unfolded assms]
  show ?thesis
  proof (cases "sp_deliveryMode sp = SecretDeliveryModeExternalSecret")
    case True
    then show ?thesis
      using d
      by (cases "sp_vault sp")
        (auto simp: validateSecretPolicy_def wellFormedSecretPolicy_def wellFormedVault_def
          validateVaultConfig_Nil isSupportedSecretDeliveryMode_def)
  next
    case False
    then show ?thesis
      using d by (auto simp: validateSecretPolicy_def wellFormedSecretPolicy_def
          isSupportedSecretDeliveryMode_def)
  qed
qed

section \<open>ServiceInstance\<close>

definition undefaultedInstance :: service_instance where
  "undefaultedInstance = (sampleInstance None)\<lparr>si_spec := (si_spec (sampleInstance None))
     \<lparr>sis_exposure := \<lparr>ex_mode = ''''\<rparr>, sis_deletionPolicy := '''',
      sis_secretPolicy := \<lparr>sp_deliveryMode = '''', sp_externalSecretProvider = '''', sp_vault = None\<rparr>\<rparr>\<rparr>"

text \<open>
  C26 Every stored ServiceInstance is one the defaulter and the create check leave alone: its
  exposure mode and deletion policy are supported values, its secret policy is one of the four
  well-formed shapes, and its project, class and plan are those it was created with.
\<close>

theorem stored_service_instances:
  assumes "history defaultServiceInstance validateServiceInstance validateServiceInstanceUpdate
    (\<lambda>t x. x\<lparr>si_status := t\<rparr>) first s"
  shows "validateServiceInstance s = None \<and> defaultServiceInstance s = s \<and>
    sis_projectRef (si_spec s) = sis_projectRef (si_spec first) \<and>
    sis_serviceClassRef (si_spec s) = sis_serviceClassRef (si_spec first) \<and>
    sis_servicePlanRef (si_spec s) = sis_servicePlanRef (si_spec first) \<and>
    ex_mode (sis_exposure (si_spec s)) \<in> set supportedExposureModes \<and>
    sis_deletionPolicy (si_spec s) \<in> set supportedDeletionPolicies \<and>
    wellFormedSecretPolicy (sis_secretPolicy (si_spec s))"
proof -
  have v: "validateServiceInstance s = None" "defaultServiceInstance s = s"
      "frozenServiceInstance s = frozenServiceInstance first"
    using service_instances.stored_sound [OF assms] by simp_all
  have "defaultSecretPolicy (sis_secretPolicy (si_spec s)) = sis_secretPolicy (si_spec s)"
    using arg_cong [OF v(2), of "\<lambda>x. sis_secretPolicy (si_spec x)"]
    by (simp add: defaultServiceInstance_def Let_def)
  then show ?thesis
    using v by (simp add: validateServiceInstance_None validateServiceInstanceSpec_def reject_simps
        secret_policy_wellFormed)
qed

theorem stored_service_instances_witness:
  "wellFormedSecretPolicy (sis_secretPolicy (si_spec (defaultServiceInstance undefaultedInstance)))"
proof -
  have "history defaultServiceInstance validateServiceInstance validateServiceInstanceUpdate
      (\<lambda>t x. x\<lparr>si_status := t\<rparr>) (defaultServiceInstance undefaultedInstance) (defaultServiceInstance undefaultedInstance)"
    by (rule history.created) code_simp
  from stored_service_instances [OF this] show ?thesis by blast
qed

section \<open>Bindings\<close>

text \<open>
  A ServiceBinding is accepted exactly when it binds a named project's ServiceInstance of this
  API to a namespace or to a named workload of a supported kind, with an acceptable secret policy.
\<close>

theorem service_binding_shape:
  "validateServiceBindingSpec spec = [] \<longleftrightarrow>
     lr_name (sbs_projectRef spec) \<noteq> '''' \<and>
     validateSecretPolicy (sbs_secretPolicy spec) (NewPath [''spec'', ''secretPolicy'']) = [] \<and>
     tr_kind (sbs_sourceRef spec) = ''ServiceInstance'' \<and>
     tr_apiVersion (sbs_sourceRef spec) = serviceInstanceAPIString \<and>
     \<not> (tr_name (sbs_sourceRef spec) = '''' \<and> tr_namespace (sbs_sourceRef spec) = '''') \<and>
     tr_apiVersion (sbs_targetRef spec) \<noteq> '''' \<and>
     (tr_kind (sbs_targetRef spec) = ''Namespace'' \<and>
        \<not> (tr_name (sbs_targetRef spec) = '''' \<and> tr_namespace (sbs_targetRef spec) = '''') \<or>
      tr_kind (sbs_targetRef spec) \<in> set allowedTargetKinds - {''Namespace''} \<and>
        \<not> blank (tr_name (sbs_targetRef spec)))"
proof -
  have names: "'''' \<notin> set allowedTargetKinds" "''Namespace'' \<in> set allowedTargetKinds"
    "serviceInstanceAPIString \<noteq> ''''" "''ServiceInstance'' \<noteq> ''''" "blank ''''"
    by simp_all
  show ?thesis
    unfolding validateServiceBindingSpec_def Let_def append_is_Nil_conv ref_checks_Nil report_Nil
      stringInSlice_iff Diff_iff insert_iff empty_iff
    using names by (cases "tr_kind (sbs_targetRef spec) = ''Namespace''") metis+
qed

section \<open>Role bindings\<close>

definition sampleRoleBinding :: role_binding where
  "sampleRoleBinding = \<lparr>rbd_meta = sampleMeta ''ops'',
     rbd_spec = \<lparr>rbs_displayName = '''', rbs_scope = AccessScopeTenant, rbs_tenantRef = Some \<lparr>lr_name = ''acme''\<rparr>,
       rbs_subjects = [\<lparr>sr_kind = ''User'', sr_name = ''ann''\<rparr>], rbs_roles = [RoleTenantOperator]\<rparr>,
     rbd_status = \<lparr>rbt_observedGeneration = 0, rbt_conditions = []\<rparr>\<rparr>"

text \<open>
  A stored RoleBinding never changes its reach: it is platform-wide without a tenant, or
  confined to one named tenant, and it is still the scope and the tenant it was created with.
\<close>

theorem stored_role_bindings:
  assumes "history (\<lambda>x. x) validateRoleBinding validateRoleBindingUpdate
    (\<lambda>t x. x\<lparr>rbd_status := t\<rparr>) first s"
  shows "rbs_scope (rbd_spec s) = rbs_scope (rbd_spec first) \<and>
    rbs_tenantRef (rbd_spec s) = rbs_tenantRef (rbd_spec first) \<and>
    (rbs_scope (rbd_spec s) = AccessScopePlatform \<and> rbs_tenantRef (rbd_spec s) = None \<or>
     rbs_scope (rbd_spec s) = AccessScopeTenant \<and>
       (\<exists>t. rbs_tenantRef (rbd_spec s) = Some t \<and> lr_name t \<noteq> '''')) \<and>
    rbs_subjects (rbd_spec s) \<noteq> [] \<and> rbs_roles (rbd_spec s) \<noteq> [] \<and>
    list_all (\<lambda>subject. \<not> blank (sr_name subject)) (rbs_subjects (rbd_spec s))"
proof -
  have "validateRoleBinding s = None" "frozenRoleBinding s = frozenRoleBinding first"
    using role_bindings.stored_sound [OF assms] by simp_all
  then show ?thesis
    by (cases "rbs_tenantRef (rbd_spec first)")
      (auto simp: validateRoleBinding_None validateRoleBindingSpec_def reject_simps list_all_iff split: if_splits)
qed

theorem stored_role_bindings_witness:
  "list_all (\<lambda>subject. \<not> blank (sr_name subject)) (rbs_subjects (rbd_spec sampleRoleBinding))"
proof -
  have "history (\<lambda>x. x) validateRoleBinding validateRoleBindingUpdate
      (\<lambda>t x. x\<lparr>rbd_status := t\<rparr>) sampleRoleBinding sampleRoleBinding"
    by (rule history.created) code_simp
  from stored_role_bindings [OF this] show ?thesis by blast
qed

section \<open>Authentication providers\<close>

text \<open>
  An AuthProvider is accepted exactly when it has a display name, is enabled if it is the
  default, and carries the configuration of its own type and no other, complete.
\<close>

theorem auth_provider_shape:
  "validateAuthProviderSpec spec = [] \<longleftrightarrow>
     \<not> blank (aps_displayName spec) \<and> \<not> (aps_default spec \<and> \<not> aps_enabled spec) \<and>
     (aps_type spec = AuthProviderTypeLocal \<and> aps_oidc spec = None \<and> aps_ldap spec = None \<or>
      aps_type spec = AuthProviderTypeOIDC \<and> aps_ldap spec = None \<and>
        (\<exists>c. aps_oidc spec = Some c \<and> \<not> blank (oi_issuerURL c) \<and> \<not> blank (oi_clientID c) \<and>
             \<not> blank (nr_name (oi_clientSecretRef c)) \<and> \<not> blank (nr_namespace (oi_clientSecretRef c))) \<or>
      aps_type spec = AuthProviderTypeLDAP \<and> aps_oidc spec = None \<and>
        (\<exists>c. aps_ldap spec = Some c \<and> \<not> blank (ld_url c) \<and> \<not> blank (ld_userBaseDN c) \<and>
             \<not> blank (ld_userFilter c) \<and>
             \<not> blank (nr_name (ld_bindSecretRef c)) \<and> \<not> blank (nr_namespace (ld_bindSecretRef c))))"
proof -
  consider "aps_type spec = AuthProviderTypeLocal" | "aps_type spec = AuthProviderTypeOIDC"
    | "aps_type spec = AuthProviderTypeLDAP"
    | "aps_type spec \<noteq> AuthProviderTypeLocal" "aps_type spec \<noteq> AuthProviderTypeOIDC"
      "aps_type spec \<noteq> AuthProviderTypeLDAP"
    by blast
  then show ?thesis
    by cases (auto simp: validateAuthProviderSpec_def validateOIDC_def validateLDAP_def Let_def reject_simps
        split: option.splits)
qed

section \<open>Operator packages in production\<close>

definition samplePackage :: operator_package where
  "samplePackage = \<lparr>opk_meta = sampleMeta ''cnpg'',
     opk_spec = \<lparr>op_displayName = ''CloudNativePG'', op_description = '''', op_version = '''',
       op_targetNamespace = '''', op_probes = [\<lparr>opr_crd = ''clusters.postgresql.cnpg.io''\<rparr>],
       op_source = \<lparr>ops_manifestURL = '''', ops_chartArchiveURL = '''', ops_chartPath = '''', ops_helmValues = [],
         ops_repoURL = ''https://git'', ops_path = ''operators'', ops_targetRevision = ''v1.2.3''\<rparr>\<rparr>,
     opk_status = \<lparr>opt_observedGeneration = 0, opt_conditions = []\<rparr>\<rparr>"

text \<open>
  In production mode without the override, no stored OperatorPackage follows a moving
  revision: its revision is set and is not HEAD in any spelling, and its sources are those it was
  created with.
\<close>

theorem production_packages_pinned:
  assumes "productionModeEnabled env" and "\<not> allowMutableOperatorRevisions env"
    and "history defaultOperatorPackage (validateOperatorPackage env) (validateOperatorPackageUpdate env)
      (\<lambda>t x. x\<lparr>opk_status := t\<rparr>) first s"
  shows "\<not> blank (ops_targetRevision (op_source (opk_spec s))) \<and>
    \<not> equalFold (trimSpace (ops_targetRevision (op_source (opk_spec s)))) ''head'' \<and>
    frozenOperatorPackage s = frozenOperatorPackage first"
proof -
  have "validateOperatorPackage env s = None" "frozenOperatorPackage s = frozenOperatorPackage first"
    using operator_packages.stored_sound [OF assms(3)] by simp_all
  then show ?thesis
    using assms(1,2)
    by (simp add: validateOperatorPackage_None validateOperatorPackageSpec_def Let_def blank_def)
qed

abbreviation production_env :: "string \<Rightarrow> string" where
  "production_env \<equiv> (\<lambda>v. if v = ''SERVICER_ENVIRONMENT'' then ''Production'' else '''')"

theorem production_packages_pinned_witness:
  "\<not> equalFold (trimSpace (ops_targetRevision (op_source (opk_spec (defaultOperatorPackage samplePackage))))) ''head''"
proof -
  have env: "productionModeEnabled production_env" "\<not> allowMutableOperatorRevisions production_env"
    by code_simp+
  have "history defaultOperatorPackage (validateOperatorPackage production_env)
      (validateOperatorPackageUpdate production_env) (\<lambda>t x. x\<lparr>opk_status := t\<rparr>)
      (defaultOperatorPackage samplePackage) (defaultOperatorPackage samplePackage)"
    by (rule history.created) code_simp
  from production_packages_pinned [OF env this] show ?thesis by blast
qed

section \<open>Namespace claims\<close>

text \<open>
  The two copies of the NamespaceClaim check agree: the create validator, which repeats the
  checks in its body, and the spec check of updates give the same errors in the same order, so an
  unchanged claim is accepted on update exactly when it is accepted on create.
\<close>

theorem namespace_claim_checks_agree:
  "validateNamespaceClaim qn lv x =
     as_invalid ''NamespaceClaim'' (m_name (nc_meta x)) (validateNamespaceClaimSpec qn lv (nc_spec x)) \<and>
   validateNamespaceClaimUpdate qn lv x x = validateNamespaceClaim qn lv x"
  by (simp add: validateNamespaceClaim_def validateNamespaceClaimUpdate_def validateNamespaceClaimSpec_def
      validateImmutableLocalRef_def)

text \<open>
  The verdict on a NamespaceClaim does not depend on the order in which Go visits its quota and
  label maps, although the errors reported do (the loop over the quotas stops at an empty key).
\<close>

theorem namespace_claim_order_independent:
  assumes "mset q = mset (ncs_quotas spec)" and "mset l = mset (ncs_labels spec)"
  shows "validateNamespaceClaimSpec qn lv (spec\<lparr>ncs_quotas := q, ncs_labels := l\<rparr>) = [] \<longleftrightarrow>
    validateNamespaceClaimSpec qn lv spec = []"
  using mset_eq_setD [OF assms(1)] mset_eq_setD [OF assms(2)]
  by (simp add: validateNamespaceClaimSpec_def reject_simps)

definition sampleClaimSpec :: "(string, string) gomap \<Rightarrow> namespace_claim_spec" where
  "sampleClaimSpec q = \<lparr>ncs_projectRef = \<lparr>lr_name = ''p''\<rparr>, ncs_displayName = '''', ncs_quotas = q,
     ncs_labels = [], ncs_deletionPolicy = DeletionPolicyDelete\<rparr>"

theorem namespace_claim_order_independent_witness:
  "validateNamespaceClaimSpec (\<lambda>_. []) (\<lambda>_. []) (sampleClaimSpec [('''', ''1''), (''pods'', '''')]) \<noteq> []"
  using namespace_claim_order_independent [where spec = "sampleClaimSpec [(''pods'', ''''), ('''', ''1'')]"
      and q = "[('''', ''1''), (''pods'', '''')]" and l = "[]" and qn = "\<lambda>_. []" and lv = "\<lambda>_. []"]
  by (simp add: sampleClaimSpec_def validateNamespaceClaimSpec_def add_mset_commute)

section \<open>Projects\<close>

text \<open>
  A stored Project stays with its tenant, has a namespace strategy, and when that strategy is
  dedicated a prefix that is not blank: the defaulter takes the project's own name for it.
\<close>

theorem stored_projects:
  assumes "history defaultProject (validateProject qn lv) (validateProjectUpdate qn lv)
    (\<lambda>t x. x\<lparr>pj_status := t\<rparr>) first s"
  shows "prs_tenantRef (pj_spec s) = prs_tenantRef (pj_spec first) \<and>
    lr_name (prs_tenantRef (pj_spec s)) \<noteq> '''' \<and> ns_mode (prs_namespaceStrategy (pj_spec s)) \<noteq> '''' \<and>
    (ns_mode (prs_namespaceStrategy (pj_spec s)) = NamespaceStrategyDedicated \<longrightarrow>
       \<not> blank (ns_prefix (prs_namespaceStrategy (pj_spec s))))"
  using projects.stored_sound [OF assms]
  by (auto simp: validateProject_None validateProjectSpec_def reject_simps)

theorem stored_projects_witness:
  "\<not> blank (ns_prefix (prs_namespaceStrategy (pj_spec (defaultProject sampleProject))))"
proof -
  have "history defaultProject (validateProject (\<lambda>_. []) (\<lambda>_. [])) (validateProjectUpdate (\<lambda>_. []) (\<lambda>_. []))
      (\<lambda>t x. x\<lparr>pj_status := t\<rparr>) (defaultProject sampleProject) (defaultProject sampleProject)"
    by (rule history.created) code_simp
  moreover have "ns_mode (prs_namespaceStrategy (pj_spec (defaultProject sampleProject))) = NamespaceStrategyDedicated"
    by code_simp
  ultimately show ?thesis using stored_projects by blast
qed

end
