(* ===== verification/Json_Roundtrip.thy ===== *)
theory Json_Roundtrip
  imports Go_Json
begin

text \<open>
  \<open>json_parse\<close> reads back what \<open>json_encode\<close> writes, for every value whose number literals
  are well formed and whose nesting stays within Go's limit of 10000. The proof goes through the
  tokens of a value: the lexer turns the encoding into them, the pushdown automaton turns them into
  the value.
\<close>

section \<open>Strings\<close>


text \<open>The items the lexer reads back from an escaped string.\<close>

definition item_of :: "char \<Rightarrow> str_item" where
  "item_of c =
     (let n = of_char c :: nat in
      if c \<in> {CHR 0x22, CHR 0x5C, CHR 0x08, CHR 0x0C, CHR 0x0A, CHR 0x0D, CHR 0x09} then SByte c
      else if n < 32 \<or> c = CHR ''<'' \<or> c = CHR ''>'' \<or> c = CHR ''&'' then SRune n
      else SByte c)"

fun items :: "string \<Rightarrow> str_item list" where
  "items (c # d # e # s) =
     (if c = CHR 0xE2 \<and> d = CHR 0x80 \<and> (e = CHR 0xA8 \<or> e = CHR 0xA9)
      then SRune (if e = CHR 0xA8 then 8232 else 8233) # items s
      else item_of c # items (d # e # s))"
| "items [c, d] = [item_of c, item_of d]"
| "items [c] = [item_of c]"
| "items [] = []"

lemma emit_simps [simp]:
  "emit [] r = r" "emit ts (emit us r) = emit (ts @ us) r" "emit ts None = None"
  "emit ts (Some us) = Some (ts @ us)"
  by (simp_all add: emit_def split: option.splits)

lemma of_char_hex_digit: "n < 16 \<Longrightarrow> of_char (hex_digit n) = (if n < 10 then 48 + n else 87 + n)"
  by (simp add: hex_digit_def)

lemma hex_value_hex_digit [simp]: "n < 16 \<Longrightarrow> hex_value (hex_digit n) = Some n"
  by (simp add: hex_value_def of_char_hex_digit)

lemma lex_escape_byte:
  "json_lex (LStr acc) (escape_byte c @ s) = json_lex (LStr (item_of c # acc)) s"
  by (simp add: escape_byte_def item_of_def lex_char_def Let_def simple_escape_def
    hex_value_def [of "CHR ''0''"] less_mult_imp_div_less)

lemma unquote_SRune: "\<not> high_surrogate n \<Longrightarrow> \<not> low_surrogate n \<Longrightarrow> unquote (SRune n # xs) = utf8 n @ unquote xs"
  by (cases xs rule: unquote.cases) (auto simp: rune_bytes_def)

lemma item_of_cases:
  "item_of c = SByte c \<or> item_of c = SRune (of_char c) \<and> (of_char c :: nat) < 128"
  by (auto simp: item_of_def Let_def)

lemma unquote_item: "unquote (item_of c # xs) = c # unquote xs"
  using item_of_cases [of c]
  by (auto simp: unquote_SRune high_surrogate_def low_surrogate_def utf8_def)

lemma char_of_literals:
  "char_of (226::nat) = CHR 0xE2" "char_of (128::nat) = CHR 0x80"
  "char_of (168::nat) = CHR 0xA8" "char_of (169::nat) = CHR 0xA9"
  by code_simp+

lemma unquote_items: "unquote (items s) = s"
  by (induction s rule: items.induct)
     (auto simp: unquote_item unquote_SRune high_surrogate_def low_surrogate_def utf8_def char_of_literals)

lemma lex_escape:
  "json_lex (LStr acc) (escape s @ t) = json_lex (LStr (rev (items s) @ acc)) t"
  by (induction s arbitrary: acc rule: items.induct)
     (auto simp: lex_escape_byte lex_char_def hex_value_def Let_def)


section \<open>Tokens of an encoded value\<close>

fun sep_toks :: "token list list \<Rightarrow> token list" where
  "sep_toks [] = []"
| "sep_toks [x] = x"
| "sep_toks (x # y # xs) = x @ TComma # sep_toks (y # xs)"

fun json_toks :: "json \<Rightarrow> token list" where
  "json_toks JNull = [TNull]"
| "json_toks (JBool b) = [if b then TTrue else TFalse]"
| "json_toks (JNum s) = [TNum s]"
| "json_toks (JStr s) = [TStr s]"
| "json_toks (JArr xs) = TLBrack # sep_toks (map json_toks xs) @ [TRBrack]"
| "json_toks (JObj fs) = TLBrace # sep_toks (map (\<lambda>(k, v). TStr k # TColon # json_toks v) fs) @ [TRBrace]"

fun wf_json :: "json \<Rightarrow> bool" where
  "wf_json (JNum s) = number_ok s"
| "wf_json (JArr xs) = list_all wf_json xs"
| "wf_json (JObj fs) = list_all (\<lambda>(k, v). wf_json v) fs"
| "wf_json _ = True"

fun json_depth :: "json \<Rightarrow> nat" where
  "json_depth (JArr xs) = Suc (fold max (map json_depth xs) 0)"
| "json_depth (JObj fs) = Suc (fold max (map (\<lambda>(k, v). json_depth v) fs) 0)"
| "json_depth _ = 0"

definition num_end :: "string \<Rightarrow> bool" where
  "num_end s \<longleftrightarrow> (case s of [] \<Rightarrow> True | c # _ \<Rightarrow> \<not> number_char c)"

lemma number_ok_hd: "number_ok s \<Longrightarrow> \<exists>c r. s = c # r \<and> (is_digit c \<or> c = CHR ''-'')"
  by (cases s) (auto simp: number_ok_def Let_def split: if_splits)

lemma takeWhile_dropWhile_all:
  "list_all P (takeWhile Q s) \<Longrightarrow> list_all P (dropWhile Q s) \<Longrightarrow> list_all P s"
  by (metis list_all_append takeWhile_dropWhile_id)

lemma digits_number_char: "list_all number_char (takeWhile is_digit s)"
  by (induction s) (auto simp: number_char_def)

lemma exponent_number_char: "exponent_ok s \<Longrightarrow> list_all number_char s"
proof (cases s)
  case (Cons e r)
  assume ok: "exponent_ok s"
  define r' where "r' = (case r of c # q \<Rightarrow> if c = CHR ''+'' \<or> c = CHR ''-'' then q else r | [] \<Rightarrow> [])"
  from ok Cons have e: "number_char e" and "list_all is_digit r'"
    by (auto simp: exponent_ok_def r'_def Let_def number_char_def)
  then have "list_all number_char r'" by (simp add: list_all_iff number_char_def)
  then have "list_all number_char r"
    by (cases r) (auto simp: r'_def number_char_def split: if_splits)
  with Cons e show ?thesis by simp
qed simp

lemma fraction_number_char: "fraction_ok s \<Longrightarrow> list_all number_char s"
proof (cases s)
  case (Cons c r)
  assume ok: "fraction_ok s"
  show ?thesis
  proof (cases "c = CHR ''.''")
    case True
    with ok Cons have "exponent_ok (dropWhile is_digit r)" by (simp add: fraction_ok_def)
    then have "list_all number_char r"
      by (rule takeWhile_dropWhile_all [OF digits_number_char exponent_number_char])
    with Cons True show ?thesis by (simp add: number_char_def)
  next
    case False
    with ok Cons show ?thesis using exponent_number_char [of s] by (simp add: fraction_ok_def)
  qed
qed simp

lemma number_ok_chars: "number_ok s \<Longrightarrow> list_all number_char s"
proof (cases s)
  case (Cons c r)
  assume ok: "number_ok s"
  define t where "t = (if c = CHR ''-'' then r else s)"
  have "fraction_ok (dropWhile is_digit t)"
    using ok Cons by (simp add: number_ok_def Let_def t_def split: if_splits)
  then have "list_all number_char t"
    by (rule takeWhile_dropWhile_all [OF digits_number_char fraction_number_char])
  then show ?thesis using Cons by (auto simp: t_def number_char_def split: if_splits)
qed (simp add: number_ok_def)

lemma lex_num_run:
  "list_all number_char s \<Longrightarrow> json_lex (LNum acc) (s @ t) = json_lex (LNum (rev s @ acc)) t"
  by (induction s arbitrary: acc) (auto simp: lex_char_def)

lemma lex_num_end:
  assumes "number_ok (rev acc)" and "num_end t"
  shows "json_lex (LNum acc) t = emit [TNum (rev acc)] (json_lex LNorm t)"
  using assms
  by (cases t) (auto simp: num_end_def lex_char_def split: option.splits prod.splits)

lemma lex_norm_digit: "is_digit c \<Longrightarrow> lex_norm c = Some ([], LNum [c])"
proof -
  have "\<forall>c. is_digit c \<longrightarrow> lex_norm c = Some ([], LNum [c])" by code_simp
  then show "is_digit c \<Longrightarrow> lex_norm c = Some ([], LNum [c])" by blast
qed

lemma lex_norm_minus: "lex_norm (CHR ''-'') = Some ([], LNum ''-'')"
  by code_simp

lemma lex_number:
  assumes ok: "number_ok s" and e: "num_end t"
  shows "json_lex LNorm (s @ t) = emit [TNum s] (json_lex LNorm t)"
proof -
  obtain c r where s: "s = c # r" and c: "is_digit c \<or> c = CHR ''-''"
    using number_ok_hd [OF ok] by blast
  have lc: "lex_norm c = Some ([], LNum [c])"
    using c lex_norm_digit lex_norm_minus by auto
  have "list_all number_char r" using number_ok_chars [OF ok] s by simp
  then have "json_lex LNorm (s @ t) = json_lex (LNum (rev s)) t"
    using s lc by (simp add: lex_char_def lex_num_run)
  also have "\<dots> = emit [TNum s] (json_lex LNorm t)"
    using lex_num_end [of "rev s"] ok e by simp
  finally show ?thesis .
qed

lemma lex_json_string:
  "json_lex LNorm (json_string s @ t) = emit [TStr s] (json_lex LNorm t)"
  by (simp add: json_string_def lex_char_def lex_norm_def json_space_def lex_escape is_digit_def unquote_items)


lemma lex_punct [simp]:
  "json_lex LNorm (CHR ''['' # t) = emit [TLBrack] (json_lex LNorm t)"
  "json_lex LNorm (CHR '']'' # t) = emit [TRBrack] (json_lex LNorm t)"
  "json_lex LNorm (CHR ''{'' # t) = emit [TLBrace] (json_lex LNorm t)"
  "json_lex LNorm (CHR ''}'' # t) = emit [TRBrace] (json_lex LNorm t)"
  "json_lex LNorm (CHR '':'' # t) = emit [TColon] (json_lex LNorm t)"
  "json_lex LNorm (CHR '','' # t) = emit [TComma] (json_lex LNorm t)"
  by (simp_all add: lex_char_def lex_norm_def json_space_def)

lemma num_end_punct [simp]:
  "num_end (CHR '']'' # t)" "num_end (CHR ''}'' # t)" "num_end (CHR '','' # t)"
  by (simp_all add: num_end_def number_char_def is_digit_def)

declare json_lex.simps(2) [simp del]

lemma lex_commas:
  assumes "\<And>x t. x \<in> set xs \<Longrightarrow> num_end t \<Longrightarrow>
      json_lex LNorm (f x @ t) = emit (g x) (json_lex LNorm t)"
    and "num_end t"
  shows "json_lex LNorm (commas (map f xs) @ t) = emit (sep_toks (map g xs)) (json_lex LNorm t)"
  using assms
proof (induction xs rule: induct_list012)
  case (3 x y xs)
  then show ?case by simp
qed simp_all

theorem lex_json_encode:
  "wf_json v \<Longrightarrow> num_end t \<Longrightarrow>
     json_lex LNorm (json_encode v @ t) = emit (json_toks v) (json_lex LNorm t)"
proof (induction v arbitrary: t)
  case (JNum s)
  then show ?case by (simp add: lex_number)
next
  case (JStr s)
  then show ?case by (simp add: lex_json_string)
next
  case (JArr xs)
  then show ?case by (simp add: lex_commas [where f = json_encode and g = json_toks] list_all_iff)
next
  case (JObj fs)
  have "json_lex LNorm ((case p of (k, v) \<Rightarrow> json_string k @ CHR '':'' # json_encode v) @ u)
      = emit (case p of (k, v) \<Rightarrow> TStr k # TColon # json_toks v) (json_lex LNorm u)"
    if "p \<in> set fs" "num_end u" for p u
  proof (cases p)
    case (Pair k v)
    have "wf_json v" using that(1) Pair JObj.prems(1) by (fastforce simp: list_all_iff)
    then have "json_lex LNorm (json_encode v @ u) = emit (json_toks v) (json_lex LNorm u)"
      using JObj.IH [of p v u] that Pair by simp
    then show ?thesis using Pair by (simp add: lex_json_string)
  qed
  then show ?case using JObj.prems by (simp add: lex_commas)
qed (simp_all add: json_lex.simps lex_char_def lex_norm_def json_space_def)

section \<open>Parsing the tokens back\<close>

definition run_from :: "parse_state \<times> frame list \<Rightarrow> token list \<Rightarrow> json option" where
  "run_from c ts = parse_toks (fst c) (snd c) ts"

lemma fold_max_le: "fold max xs (m::nat) \<le> n \<longleftrightarrow> m \<le> n \<and> (\<forall>x \<in> set xs. x \<le> n)"
  by (induction xs arbitrary: m) auto

lemma parse_arr_rest:
  assumes "\<And>x st ts. x \<in> set xs \<Longrightarrow> length st + d \<le> 10000 \<Longrightarrow>
      parse_toks PValue st (json_toks x @ ts) = run_from (push_value x st) ts"
    and "length st + Suc d \<le> 10000" and "xs \<noteq> []"
  shows "parse_toks PValue (FArr ys # st) (sep_toks (map json_toks xs) @ TRBrack # ts)
       = run_from (push_value (JArr (rev ys @ xs)) st) ts"
  using assms
proof (induction xs arbitrary: ys rule: induct_list012)
  case (2 x)
  then show ?case by (simp add: run_from_def split: prod.splits)
next
  case (3 x y xs)
  then show ?case by (simp add: run_from_def)
qed simp


lemma parse_obj_rest:
  assumes "\<And>k v st ts. (k, v) \<in> set fs \<Longrightarrow> length st + d \<le> 10000 \<Longrightarrow>
      parse_toks PValue st (json_toks v @ ts) = run_from (push_value v st) ts"
    and "length st + Suc d \<le> 10000" and "fs \<noteq> []"
  shows "parse_toks PKey (FObj gs k0 # st)
           (sep_toks (map (\<lambda>(k, v). TStr k # TColon # json_toks v) fs) @ TRBrace # ts)
       = run_from (push_value (JObj (rev gs @ fs)) st) ts"
  using assms
proof (induction fs arbitrary: gs k0 rule: induct_list012)
  case (2 p)
  then show ?case by (cases p) (simp add: run_from_def split: prod.splits)
next
  case (3 p q fs)
  show ?case
  proof (cases p)
    case (Pair k v)
    have "parse_toks PValue (FObj gs k # st) (json_toks v @ zs)
        = parse_toks PAfter (FObj ((k, v) # gs) [] # st) zs" for zs
      using "3.prems"(1) [of k v "FObj gs k # st" zs] "3.prems"(2) Pair by (simp add: run_from_def)
    moreover have "parse_toks PKey (FObj (p # gs) [] # st)
           (sep_toks (map (\<lambda>(k, v). TStr k # TColon # json_toks v) (q # fs)) @ TRBrace # ts)
         = run_from (push_value (JObj (rev (p # gs) @ q # fs)) st) ts"
      by (rule "3.IH"(2)) (use "3.prems" in auto)
    ultimately show ?thesis using Pair by simp
  qed
qed simp

lemma parse_arr_start:
  assumes "xs \<noteq> []" and "\<And>x. x \<in> set xs \<Longrightarrow> hd (json_toks x) \<noteq> TRBrack \<and> json_toks x \<noteq> []"
  shows "parse_toks PValueOrEnd st (sep_toks (map json_toks xs) @ ts)
       = parse_toks PValue st (sep_toks (map json_toks xs) @ ts)"
proof (cases xs)
  case (Cons x ys)
  then have "hd (json_toks x) \<noteq> TRBrack \<and> json_toks x \<noteq> []" using assms(2) by simp
  then obtain t us where "json_toks x = t # us" "t \<noteq> TRBrack"
    by (cases "json_toks x") auto
  then show ?thesis
    using Cons by (cases ys; cases t) (simp_all split: list.splits frame.splits)
qed (use assms in simp)

lemma json_toks_hd: "hd (json_toks v) \<noteq> TRBrack \<and> json_toks v \<noteq> []"
  by (cases v) simp_all

theorem parse_json_toks:
  "length st + json_depth v \<le> 10000 \<Longrightarrow>
     parse_toks PValue st (json_toks v @ ts) = run_from (push_value v st) ts"
proof (induction v arbitrary: st ts)
  case (JArr xs)
  define d where "d = fold max (map json_depth xs) 0"
  have le: "length st + Suc d \<le> 10000" using JArr.prems by (simp add: d_def)
  have each: "json_depth x \<le> d" if "x \<in> set xs" for x
    using that fold_max_le [of "map json_depth xs" 0 d] by (auto simp: d_def)
  show ?case
  proof (cases "xs = []")
    case False
    then show ?thesis
      using le JArr.IH each parse_arr_rest [of xs d st "[]" ts]
      by (simp add: parse_arr_start json_toks_hd) (meson add_left_mono dual_order.trans)
  qed (use le in \<open>simp add: run_from_def split: prod.splits\<close>)
next
  case (JObj fs)
  define d where "d = fold max (map (\<lambda>(k, v). json_depth v) fs) 0"
  have le: "length st + Suc d \<le> 10000" using JObj.prems by (simp add: d_def)
  have each: "json_depth v \<le> d" if "(k, v) \<in> set fs" for k v
    using that fold_max_le [of "map (\<lambda>(k, v). json_depth v) fs" 0 d] by (auto simp: d_def)
  have elem: "parse_toks PValue st' (json_toks v @ ts') = run_from (push_value v st') ts'"
    if "(k, v) \<in> set fs" "length st' + d \<le> 10000" for k v st' ts'
    using JObj.IH [of "(k, v)" v st' ts'] that each [OF that(1)] by simp
  show ?case
  proof (cases fs)
    case (Cons p qs)
    have "parse_toks PKeyOrEnd (FObj [] [] # st)
            (sep_toks (map (\<lambda>(k, v). TStr k # TColon # json_toks v) fs) @ TRBrace # ts)
        = parse_toks PKey (FObj [] [] # st)
            (sep_toks (map (\<lambda>(k, v). TStr k # TColon # json_toks v) fs) @ TRBrace # ts)"
      using Cons by (cases p; cases qs) simp_all
    then show ?thesis
      using le elem Cons parse_obj_rest [of fs d st "[]" "[]" ts] by simp
  qed (use le in \<open>simp add: run_from_def split: prod.splits\<close>)
qed (simp_all add: run_from_def split: prod.splits)

theorem json_roundtrip:
  assumes "wf_json v" and "json_depth v \<le> 10000"
  shows "json_parse (json_encode v) = Some v"
proof -
  have "json_lex LNorm (json_encode v) = Some (json_toks v)"
    using lex_json_encode [OF assms(1), of "[]"] by (simp add: num_end_def)
  moreover have "parse_toks PValue [] (json_toks v) = Some v"
    using parse_json_toks [of "[]" v "[]"] assms(2) by (simp add: run_from_def)
  ultimately show ?thesis by (simp add: json_parse_def)
qed

end
