(* ===== verification/Exec_World.thy ===== *)
theory Exec_World
  imports Action_Request
begin

text \<open>
  The cluster as the executors of actions see it: the objects they read and write, by namespace
  and name, and the API calls on them. Each call may fail: the world carries the faults that its
  next calls meet, in order, and no fault once they are used up. \<open>Refused\<close> is a call that had no
  effect (a conflict with another writer, a rejected request, a broken connection); \<open>Lost\<close> is one
  whose effect took place although the caller is told that it failed. A controller that stops
  between two calls leaves the cluster as a \<open>Refused\<close> at the second call does.

  A read returns what was written last. The client of the deployed controller reads from a cache that
  follows the writes with a delay; an update of an object that was read too early is refused, which is
  one of the faults here, but a read that only informs another write may be too old unnoticed, and no
  theorem on these worlds speaks of that case (\<open>Action_Cache\<close> does, for the request itself).
\<close>

section \<open>Objects\<close>

text \<open>
  \<open>appsv1.StatefulSet\<close>: the replicas and the annotations of the pod template. A quantity is kept as
  its canonical text.
\<close>

record stateful_set =
  ss_replicas :: "int option"
  ss_podAnnotations :: "(string, string) gomap"

record secret =
  sc_labels :: "(string, string) gomap"
  sc_annotations :: "(string, string) gomap"
  sc_type :: string
  sc_data :: "(string, string) gomap"

record resource_quota =
  rq_annotations :: "(string, string) gomap"
  rq_hard :: "(string, string) gomap"

record policy_rule_k8s =
  pr_apiGroups :: "string list"
  pr_resources :: "string list"
  pr_verbs :: "string list"

record service_account =
  sa_labels :: "(string, string) gomap"

record k8s_role =
  kr_labels :: "(string, string) gomap"
  kr_rules :: "policy_rule_k8s list"

record k8s_role_binding =
  kb_labels :: "(string, string) gomap"
  kb_subjects :: "(string \<times> string \<times> string) list"
  kb_roleRef :: "string \<times> string \<times> string"

record job =
  jo_labels :: "(string, string) gomap"
  jo_ttlSecondsAfterFinished :: int
  jo_restartPolicy :: string
  jo_image :: string
  jo_command :: "string list"
  jo_env :: "(string \<times> string) list"
  jo_passwordSecret :: "string \<times> string"

type_synonym key = "string \<times> string"

datatype fault = Works | Refused api_error | Lost api_error

record world =
  w_instances :: "string \<Rightarrow> service_instance option"
  w_statefulSets :: "key \<Rightarrow> stateful_set option"
  w_secrets :: "key \<Rightarrow> secret option"
  w_quotas :: "key \<Rightarrow> resource_quota option"
  w_serviceAccounts :: "key \<Rightarrow> service_account option"
  w_roles :: "key \<Rightarrow> k8s_role option"
  w_roleBindings :: "key \<Rightarrow> k8s_role_binding option"
  w_jobs :: "key \<Rightarrow> job option"
  w_backups :: "key \<Rightarrow> (string list \<Rightarrow> string) option"
  w_faults :: "fault list"

text \<open>A Go map read: the zero value where the key is absent. A map write.\<close>

definition map_get :: "(string, string) gomap \<Rightarrow> string \<Rightarrow> string" where
  "map_get m k = (case map_of m k of Some v \<Rightarrow> v | None \<Rightarrow> '''')"

fun map_set :: "string \<Rightarrow> string \<Rightarrow> (string, string) gomap \<Rightarrow> (string, string) gomap" where
  "map_set k v [] = [(k, v)]"
| "map_set k v ((k', v') # m) = (if k' = k then (k, v) # m else (k', v') # map_set k v m)"

lemma map_of_map_set [simp]: "map_of (map_set k v m) = (map_of m)(k \<mapsto> v)"
  by (induction m) auto

lemma map_get_set [simp]: "map_get (map_set k v m) k' = (if k' = k then v else map_get m k')"
  by (simp add: map_get_def)

lemma map_get_Nil [simp]: "map_get [] k = ''''"
  by (simp add: map_get_def)

section \<open>Calls\<close>

text \<open>A call and whatever follows it: a state transformer with an error.\<close>

type_synonym 'a exec = "world \<Rightarrow> (go_error + 'a) \<times> world"

definition next_fault :: "world \<Rightarrow> fault \<times> world" where
  "next_fault w = (case w_faults w of [] \<Rightarrow> (Works, w) | f # fs \<Rightarrow> (f, w\<lparr>w_faults := fs\<rparr>))"

definition reads :: "(world \<Rightarrow> 'a option) \<Rightarrow> world \<Rightarrow> (api_error + 'a) \<times> world" where
  "reads sel w =
     (case next_fault w of
        (Refused e, w') \<Rightarrow> (Inl e, w')
      | (Lost e, w') \<Rightarrow> (Inl e, w')
      | (Works, w') \<Rightarrow> (case sel w' of None \<Rightarrow> (Inl NotFound, w') | Some x \<Rightarrow> (Inr x, w')))"

text \<open>A write that the server after_call when \<open>ok\<close> accepts it.\<close>

definition writes ::
  "(world \<Rightarrow> api_error option) \<Rightarrow> (world \<Rightarrow> world) \<Rightarrow> world \<Rightarrow> (api_error + unit) \<times> world" where
  "writes ok effect w =
     (case next_fault w of
        (Refused e, w') \<Rightarrow> (Inl e, w')
      | (Lost e, w') \<Rightarrow> (Inl e, if ok w' = None then effect w' else w')
      | (Works, w') \<Rightarrow> (case ok w' of Some e \<Rightarrow> (Inl e, w') | None \<Rightarrow> (Inr (), effect w')))"

definition must_exist :: "(world \<Rightarrow> 'a option) \<Rightarrow> world \<Rightarrow> api_error option" where
  "must_exist sel w = (if sel w = None then Some NotFound else None)"

definition must_not_exist :: "(world \<Rightarrow> 'a option) \<Rightarrow> world \<Rightarrow> api_error option" where
  "must_not_exist sel w = (if sel w = None then None else Some AlreadyExists)"

text \<open>
  Sequencing. \<open>after_get\<close> turns a missing object into the caller's own error and passes on any other;
  \<open>after_call\<close> passes on every error.
\<close>

definition after_get :: "((api_error + 'a) \<times> world) \<Rightarrow> go_error \<Rightarrow> ('a \<Rightarrow> 'b exec) \<Rightarrow> (go_error + 'b) \<times> world" where
  "after_get r missing f =
     (case r of
        (Inl NotFound, w) \<Rightarrow> (Inl missing, w)
      | (Inl e, w) \<Rightarrow> (Inl (ApiError e), w)
      | (Inr x, w) \<Rightarrow> f x w)"

definition after_call :: "((api_error + 'a) \<times> world) \<Rightarrow> ('a \<Rightarrow> 'b exec) \<Rightarrow> (go_error + 'b) \<times> world" where
  "after_call r f = (case r of (Inl e, w) \<Rightarrow> (Inl (ApiError e), w) | (Inr x, w) \<Rightarrow> f x w)"

text \<open>A result that needs no call.\<close>

definition exec_bind :: "go_error + 'a \<Rightarrow> ('a \<Rightarrow> 'b exec) \<Rightarrow> 'b exec" where
  "exec_bind r f w = (case r of Inl e \<Rightarrow> (Inl e, w) | Inr x \<Rightarrow> f x w)"

lemma exec_bind_simps [simp]: "exec_bind (Inl e) f w = (Inl e, w)" "exec_bind (Inr x) f w = f x w"
  by (simp_all add: exec_bind_def)

subsection \<open>The calls by kind\<close>

abbreviation put :: "'k \<Rightarrow> 'v \<Rightarrow> ('k \<Rightarrow> 'v option) \<Rightarrow> 'k \<Rightarrow> 'v option" where
  "put k v f \<equiv> f(k \<mapsto> v)"

definition get_statefulSet :: "key \<Rightarrow> world \<Rightarrow> (api_error + stateful_set) \<times> world" where
  "get_statefulSet k = reads (\<lambda>w. w_statefulSets w k)"

definition update_statefulSet :: "key \<Rightarrow> stateful_set \<Rightarrow> world \<Rightarrow> (api_error + unit) \<times> world" where
  "update_statefulSet k s = writes (must_exist (\<lambda>w. w_statefulSets w k)) (\<lambda>w. w\<lparr>w_statefulSets := put k s (w_statefulSets w)\<rparr>)"

definition get_secret :: "key \<Rightarrow> world \<Rightarrow> (api_error + secret) \<times> world" where
  "get_secret k = reads (\<lambda>w. w_secrets w k)"

definition update_secret :: "key \<Rightarrow> secret \<Rightarrow> world \<Rightarrow> (api_error + unit) \<times> world" where
  "update_secret k s = writes (must_exist (\<lambda>w. w_secrets w k)) (\<lambda>w. w\<lparr>w_secrets := put k s (w_secrets w)\<rparr>)"

definition create_secret :: "key \<Rightarrow> secret \<Rightarrow> world \<Rightarrow> (api_error + unit) \<times> world" where
  "create_secret k s = writes (must_not_exist (\<lambda>w. w_secrets w k)) (\<lambda>w. w\<lparr>w_secrets := put k s (w_secrets w)\<rparr>)"

definition get_quota :: "key \<Rightarrow> world \<Rightarrow> (api_error + resource_quota) \<times> world" where
  "get_quota k = reads (\<lambda>w. w_quotas w k)"

definition update_quota :: "key \<Rightarrow> resource_quota \<Rightarrow> world \<Rightarrow> (api_error + unit) \<times> world" where
  "update_quota k q = writes (must_exist (\<lambda>w. w_quotas w k)) (\<lambda>w. w\<lparr>w_quotas := put k q (w_quotas w)\<rparr>)"

definition create_job :: "key \<Rightarrow> job \<Rightarrow> world \<Rightarrow> (api_error + unit) \<times> world" where
  "create_job k j = writes (must_not_exist (\<lambda>w. w_jobs w k)) (\<lambda>w. w\<lparr>w_jobs := put k j (w_jobs w)\<rparr>)"

definition get_backup :: "key \<Rightarrow> world \<Rightarrow> (api_error + (string list \<Rightarrow> string)) \<times> world" where
  "get_backup k = reads (\<lambda>w. w_backups w k)"

definition create_backup :: "key \<Rightarrow> (string list \<Rightarrow> string) \<Rightarrow> world \<Rightarrow> (api_error + unit) \<times> world" where
  "create_backup k b = writes (must_not_exist (\<lambda>w. w_backups w k)) (\<lambda>w. w\<lparr>w_backups := put k b (w_backups w)\<rparr>)"

definition get_instance :: "string \<Rightarrow> world \<Rightarrow> (api_error + service_instance) \<times> world" where
  "get_instance n = reads (\<lambda>w. w_instances w n)"

text \<open>
  An update of an object with a status subresource keeps the stored status; a patch of the status
  keeps the stored spec.
\<close>

definition update_instance :: "string \<Rightarrow> service_instance \<Rightarrow> world \<Rightarrow> (api_error + unit) \<times> world" where
  "update_instance n x =
     writes (must_exist (\<lambda>w. w_instances w n))
       (\<lambda>w. w\<lparr>w_instances := put n (x\<lparr>si_status := (case w_instances w n of Some y \<Rightarrow> si_status y | None \<Rightarrow> si_status x)\<rparr>)
          (w_instances w)\<rparr>)"

definition patch_instance_status :: "string \<Rightarrow> service_instance_status \<Rightarrow> world \<Rightarrow> (api_error + unit) \<times> world" where
  "patch_instance_status n st =
     writes (must_exist (\<lambda>w. w_instances w n))
       (\<lambda>w. w\<lparr>w_instances := (w_instances w)(n := map_option (\<lambda>y. y\<lparr>si_status := st\<rparr>) (w_instances w n))\<rparr>)"

section \<open>The calls by what they do\<close>

text \<open>What a cluster is without the faults still to come.\<close>

definition cluster :: "world \<Rightarrow> world" where
  "cluster w = w\<lparr>w_faults := []\<rparr>"

abbreviation no_faults :: "world \<Rightarrow> bool" where
  "no_faults w \<equiv> w_faults w = []"

lemma cluster_faults [simp]: "cluster (w\<lparr>w_faults := fs\<rparr>) = cluster w"
  by (simp add: cluster_def)

lemma cluster_eqD:
  assumes "cluster v = cluster w"
  shows "w_instances v = w_instances w" "w_statefulSets v = w_statefulSets w" "w_secrets v = w_secrets w"
    "w_quotas v = w_quotas w" "w_serviceAccounts v = w_serviceAccounts w" "w_roles v = w_roles w"
    "w_roleBindings v = w_roleBindings w" "w_jobs v = w_jobs w" "w_backups v = w_backups w"
  using assms unfolding cluster_def by (cases v; cases w; simp)+

lemma next_fault_none [simp]: "no_faults w \<Longrightarrow> next_fault w = (Works, w)"
  by (simp add: next_fault_def)

lemma next_fault_cluster: "next_fault w = (f, w') \<Longrightarrow> \<exists>fs. w' = w\<lparr>w_faults := fs\<rparr>"
  by (cases w) (auto simp: next_fault_def split: list.splits)

lemma reads_none: "no_faults w \<Longrightarrow>
    reads sel w = (case sel w of None \<Rightarrow> (Inl NotFound, w) | Some x \<Rightarrow> (Inr x, w))"
  by (simp add: reads_def)

lemma writes_none: "no_faults w \<Longrightarrow>
    writes ok effect w = (case ok w of Some e \<Rightarrow> (Inl e, w) | None \<Rightarrow> (Inr (), effect w))"
  by (simp add: writes_def)

text \<open>A read changes nothing and returns what is there; a write that succeeds has taken place.\<close>

lemma reads_cluster:
  assumes "reads sel w = (r, w')"
  shows "\<exists>fs. w' = w\<lparr>w_faults := fs\<rparr>"
  using assms next_fault_cluster by (fastforce simp: reads_def split: prod.splits fault.splits option.splits)

lemma reads_Inr:
  assumes "reads sel w = (Inr x, w')" and "\<And>w fs. sel (w\<lparr>w_faults := fs\<rparr>) = sel w"
  shows "sel w = Some x"
  using assms(1) next_fault_cluster [of w] assms(2)
  by (fastforce simp: reads_def split: prod.splits fault.splits option.splits)

lemma writes_cluster:
  assumes "writes ok effect w = (r, w')"
  shows "\<exists>fs. w' = w\<lparr>w_faults := fs\<rparr> \<and> r \<noteq> Inr () \<or> w' = effect (w\<lparr>w_faults := fs\<rparr>)"
  using assms next_fault_cluster [of w]
  by (fastforce simp: writes_def split: prod.splits fault.splits option.splits if_splits)

lemma writes_Inr:
  assumes "writes ok effect w = (Inr u, w')"
  shows "\<exists>fs. ok (w\<lparr>w_faults := fs\<rparr>) = None \<and> w' = effect (w\<lparr>w_faults := fs\<rparr>)"
  using assms next_fault_cluster [of w]
  by (fastforce simp: writes_def split: prod.splits fault.splits option.splits if_splits)

lemma after_get_Inr:
  "after_get r missing f = (Inr y, w') \<longleftrightarrow> (\<exists>x w1. r = (Inr x, w1) \<and> f x w1 = (Inr y, w'))"
  by (auto simp: after_get_def split: prod.splits sum.splits api_error.splits)

lemma after_call_Inr:
  "after_call r f = (Inr y, w') \<longleftrightarrow> (\<exists>x w1. r = (Inr x, w1) \<and> f x w1 = (Inr y, w'))"
  by (auto simp: after_call_def split: prod.splits sum.splits)

lemma after_get_simps [simp]:
  "after_get (Inr x, w) missing f = f x w" "after_get (Inl NotFound, w) missing f = (Inl missing, w)"
  by (simp_all add: after_get_def)

lemma after_call_simps [simp]:
  "after_call (Inr x, w) f = f x w" "after_call (Inl e, w) f = (Inl (ApiError e), w)"
  by (simp_all add: after_call_def)

text \<open>What a sequence leaves, when a read comes first and when a write comes first.\<close>

lemma after_get_cases:
  assumes "after_get (r, w1) missing f = (res, w')"
  obtains "w' = w1" "\<not> is_ok res" | x where "r = Inr x" "f x w1 = (res, w')"
  using assms by (auto simp: after_get_def split: sum.splits api_error.splits)

lemma after_call_cases:
  assumes "after_call (r, w1) f = (res, w')"
  obtains e where "r = Inl e" "w' = w1" "\<not> is_ok res" | x where "r = Inr x" "f x w1 = (res, w')"
  using assms by (auto simp: after_call_def split: sum.splits)

end
