(* ===== verification/Exec_Parameters.thy ===== *)
theory Exec_Parameters
  imports Exec_World
begin

text \<open>
  What the executors read from the raw parameters of an action request or of its target, and the
  string helpers they use, from \<open>actionrequest_controller.go\<close>.
\<close>

section \<open>Strings and lists\<close>

definition removeString :: "string list \<Rightarrow> string \<Rightarrow> string list" where
  "removeString items target = filter (\<lambda>item. item \<noteq> target) items"

fun uniqueStrings_from :: "string set \<Rightarrow> string list \<Rightarrow> string list" where
  "uniqueStrings_from seen [] = []"
| "uniqueStrings_from seen (item # items) =
     (let v = trimSpace item in
      if v = '''' then uniqueStrings_from seen items
      else if v \<in> seen then uniqueStrings_from seen items
      else v # uniqueStrings_from (insert v seen) items)"

definition uniqueStrings :: "string list \<Rightarrow> string list" where
  "uniqueStrings items = uniqueStrings_from {} items"

lemma set_uniqueStrings_from:
  "set (uniqueStrings_from seen xs) = (trimSpace ` set xs) - {''''} - seen"
  by (induction seen xs rule: uniqueStrings_from.induct) (auto simp: Let_def)

lemma set_uniqueStrings [simp]: "set (uniqueStrings xs) = (trimSpace ` set xs) - {''''}"
  by (simp add: uniqueStrings_def set_uniqueStrings_from)

lemma distinct_uniqueStrings [simp]: "distinct (uniqueStrings xs)"
proof -
  have "distinct (uniqueStrings_from seen xs)" for seen
    by (induction seen xs rule: uniqueStrings_from.induct) (auto simp: Let_def set_uniqueStrings_from)
  then show ?thesis by (simp add: uniqueStrings_def)
qed

lemma set_removeString [simp]: "set (removeString xs x) = set xs - {x}"
  by (auto simp: removeString_def)

text \<open>
  A Kubernetes name from any text: runs of other characters become one dash, dashes at the ends are
  dropped, and the result is cut. A character that is not ASCII becomes a dash however many bytes it
  has, since the run of its bytes does. The letters that \<open>strings.ToLower\<close> maps from outside ASCII
  into it, the Kelvin sign and the dotted capital I, are read as other characters.
\<close>

definition name_char :: "char \<Rightarrow> bool" where
  "name_char c \<longleftrightarrow> (let n = of_char c :: nat in 97 \<le> n \<and> n \<le> 122 \<or> 48 \<le> n \<and> n \<le> 57)"

fun safe_chars :: "bool \<Rightarrow> string \<Rightarrow> string" where
  "safe_chars lastDash [] = []"
| "safe_chars lastDash (c # s) =
     (if name_char c then c # safe_chars False s
      else if lastDash then safe_chars True s
      else CHR ''-'' # safe_chars True s)"

definition safeKubernetesName :: "string \<Rightarrow> nat \<Rightarrow> string" where
  "safeKubernetesName value maxLength =
     (let built = trimSet ''-'' (safe_chars False (map ascii_lower (trimSpace value)));
          name = (if built = '''' then ''user'' else built)
      in if 0 < maxLength \<and> maxLength < length name then trimSet ''-'' (take maxLength name) else name)"

section \<open>Parameters of a request\<close>

text \<open>The common start: nothing to decode, or \<open>json.Unmarshal\<close> with its error wrapped.\<close>

definition decode_parameters ::
  "string \<Rightarrow> (string \<Rightarrow> json \<Rightarrow> 's \<Rightarrow> 's \<times> bool) \<Rightarrow> 's \<Rightarrow> string option \<Rightarrow> go_error + 's" where
  "decode_parameters what field zero raw =
     (case raw of
        None \<Rightarrow> Inr zero
      | Some text \<Rightarrow>
          if length text = 0 then Inr zero
          else (case json_unmarshal field text zero of
                  (s, failed) \<Rightarrow> if failed then Inl (Wrapf what JsonError) else Inr s))"

text \<open>A struct with a single field.\<close>

definition only_field :: "string \<Rightarrow> 'a decoder \<Rightarrow> string \<Rightarrow> json \<Rightarrow> 'a \<Rightarrow> 'a \<times> bool" where
  "only_field name dec k v s = (if json_key k name then dec v s else (s, False))"

definition scaleReplicas :: "action_request \<Rightarrow> go_error + int" where
  "scaleReplicas ar =
     bind_sum (decode_parameters ''decode scale parameters: '' (only_field ''replicas'' dec_int32) 0
         (ars_parameters (ar_spec ar)))
       (\<lambda>replicas.
          if replicas < 1 then Inl (Errorf ''scale action requires parameters.replicas to be at least 1'')
          else if replicas > 9
          then Inl (Errorf ''scale action supports at most 9 replicas for the first Valkey release'')
          else Inr replicas)"

definition failoverCandidate :: "action_request \<Rightarrow> go_error + string" where
  "failoverCandidate ar =
     bind_sum (decode_parameters ''decode failover parameters: '' (only_field ''candidateCluster'' dec_string) ''''
         (ars_parameters (ar_spec ar)))
       (\<lambda>c. if trimSpace c = '''' then Inl (Errorf ''failover action requires parameters.candidateCluster'')
            else Inr (trimSpace c))"

definition rollbackTarget :: "action_request \<Rightarrow> service_instance \<Rightarrow> go_error + string" where
  "rollbackTarget ar inst =
     bind_sum (decode_parameters ''decode rollback parameters: '' (only_field ''targetPrimary'' dec_string) ''''
         (ars_parameters (ar_spec ar)))
       (\<lambda>t. if trimSpace t \<noteq> '''' then Inr (trimSpace t)
            else (case find cs_resyncRequired (ctop_standbyClusters (sit_cacheTopology (si_status inst))) of
                    Some standby \<Rightarrow> Inr (cs_clusterName standby)
                  | None \<Rightarrow> Inl (Errorf ''rollback-failover action requires parameters.targetPrimary when no resync-required previous primary is recorded'')))"

definition standbyTarget :: "action_request \<Rightarrow> go_error + string" where
  "standbyTarget ar =
     bind_sum (decode_parameters ''decode resync parameters: '' (only_field ''standbyCluster'' dec_string) ''''
         (ars_parameters (ar_spec ar)))
       (\<lambda>c. if trimSpace c = '''' then Inl (Errorf ''resync-standby action requires parameters.standbyCluster'')
            else Inr (trimSpace c))"

text \<open>
  \<open>resource.ParseQuantity\<close> is the parameter \<open>parseQuantity\<close>: a text to its canonical quantity.
\<close>

record quota_parameters =
  qp_cpu :: string
  qp_memory :: string
  qp_pods :: string

definition quota_field :: "string \<Rightarrow> json \<Rightarrow> quota_parameters \<Rightarrow> quota_parameters \<times> bool" where
  "quota_field k v s =
     (if json_key k ''cpu'' then dec_into dec_string qp_cpu qp_cpu_update v s
      else if json_key k ''memory'' then dec_into dec_string qp_memory qp_memory_update v s
      else if json_key k ''pods'' then dec_into dec_string qp_pods qp_pods_update v s
      else (s, False))"

definition quota_entry ::
  "(string \<Rightarrow> go_error + string) \<Rightarrow> string \<Rightarrow> string \<Rightarrow> string \<Rightarrow> go_error + (string, string) gomap" where
  "quota_entry parseQuantity param resource text =
     (if blank text then Inr []
      else (case parseQuantity text of
              Inl e \<Rightarrow> Inl (Wrapf (''parameters.'' @ param @ '' is not a valid quantity: '') e)
            | Inr q \<Rightarrow> Inr [(resource, q)]))"

definition quotaHard :: "(string \<Rightarrow> go_error + string) \<Rightarrow> action_request \<Rightarrow> go_error + (string, string) gomap" where
  "quotaHard parseQuantity ar =
     bind_sum (decode_parameters ''decode update-quota parameters: '' quota_field
         \<lparr>qp_cpu = '''', qp_memory = '''', qp_pods = ''''\<rparr> (ars_parameters (ar_spec ar))) (\<lambda>p.
     bind_sum (quota_entry parseQuantity ''cpu'' ''requests.cpu'' (qp_cpu p)) (\<lambda>cpu.
     bind_sum (quota_entry parseQuantity ''memory'' ''requests.memory'' (qp_memory p)) (\<lambda>memory.
     bind_sum (quota_entry parseQuantity ''pods'' ''pods'' (qp_pods p)) (\<lambda>pods.
     let hard = cpu @ memory @ pods in
     if length hard = 0
     then Inl (Errorf ''update-quota action requires at least one of parameters.cpu, parameters.memory, or parameters.pods'')
     else Inr hard))))"

section \<open>Parameters of a MySQL instance\<close>

record mysqlMutableParameters =
  my_replicationMode :: string
  my_primaryCluster :: string
  my_standbyClusters :: "string list"
  my_previousPrimaryCluster :: string

definition mysql_field :: "string \<Rightarrow> json \<Rightarrow> mysqlMutableParameters \<Rightarrow> mysqlMutableParameters \<times> bool" where
  "mysql_field k v s =
     (if json_key k ''replicationMode'' then dec_into dec_string my_replicationMode my_replicationMode_update v s
      else if json_key k ''primaryCluster'' then dec_into dec_string my_primaryCluster my_primaryCluster_update v s
      else if json_key k ''standbyClusters''
      then dec_into dec_strings my_standbyClusters my_standbyClusters_update v s
      else if json_key k ''previousPrimaryCluster''
      then dec_into dec_string my_previousPrimaryCluster my_previousPrimaryCluster_update v s
      else (s, False))"

definition no_mysql :: mysqlMutableParameters where
  "no_mysql = \<lparr>my_replicationMode = '''', my_primaryCluster = '''', my_standbyClusters = [],
     my_previousPrimaryCluster = ''''\<rparr>"

definition mysqlActionParameters :: "service_instance \<Rightarrow> go_error + mysqlMutableParameters" where
  "mysqlActionParameters inst =
     decode_parameters ''decode MySQL parameters: '' mysql_field no_mysql (sis_parameters (si_spec inst))"

text \<open>\<open>json.Marshal\<close> of the struct, whose fields are all \<open>omitempty\<close>.\<close>

definition mysql_json :: "mysqlMutableParameters \<Rightarrow> json" where
  "mysql_json p = JObj (
     (if my_replicationMode p = '''' then [] else [(''replicationMode'', JStr (my_replicationMode p))]) @
     (if my_primaryCluster p = '''' then [] else [(''primaryCluster'', JStr (my_primaryCluster p))]) @
     (if my_standbyClusters p = [] then [] else [(''standbyClusters'', JArr (map JStr (my_standbyClusters p)))]) @
     (if my_previousPrimaryCluster p = '''' then []
      else [(''previousPrimaryCluster'', JStr (my_previousPrimaryCluster p))]))"

end
