(* ===== verification/Exec_StatefulSet.thy ===== *)
theory Exec_StatefulSet
  imports Exec_Parameters
begin

text \<open>
  The actions on a StatefulSet and its credential Secret that the Valkey, NATS and MySQL drivers
  share: \<open>executeStatefulSetBackedAction\<close>. Its three branches are definitions of their own.
\<close>

section \<open>Where an action runs\<close>

definition resolvedNamespace :: "project \<Rightarrow> service_instance \<Rightarrow> string" where
  "resolvedNamespace project instance =
     (let tenant = lr_name (prs_tenantRef (pj_spec project)) in
      (if tenant = '''' then ''tenant'' else tenant) @ ''-'' @ m_name (pj_meta project) @ ''-'' @
      m_name (si_meta instance))"

definition actionRuntimeNamespace :: "service_context \<Rightarrow> string" where
  "actionRuntimeNamespace ctx =
     (case sx_Instance ctx of
        None \<Rightarrow> ''''
      | Some inst \<Rightarrow>
          if pl_namespace (sit_placement (si_status inst)) \<noteq> ''''
          then pl_namespace (sit_placement (si_status inst))
          else (case sx_Project ctx of None \<Rightarrow> '''' | Some project \<Rightarrow> resolvedNamespace project inst))"

definition statefulSetActionNeedsRuntimeWorkload :: "string \<Rightarrow> bool" where
  "statefulSetActionNeedsRuntimeWorkload action \<longleftrightarrow>
     action \<in> {ActionScale, ActionRestart, ActionRotateCredentials}"

section \<open>The branches\<close>

text \<open>The clock, formatted, and the random source of one run.\<close>

record exec_env =
  xe_now :: string
  xe_password :: "go_error + string"

definition succeeded :: "typed_ref \<Rightarrow> string \<Rightarrow> bool \<Rightarrow> action_execution_result" where
  "succeeded ref message retryable =
     \<lparr>ae_Phase = ''Succeeded'', ae_OperationRef = Some ref, ae_Message = message, ae_Retryable = retryable\<rparr>"

definition scaleStatefulSet ::
  "string \<Rightarrow> key \<Rightarrow> typed_ref \<Rightarrow> action_request \<Rightarrow> stateful_set \<Rightarrow> action_execution_result exec" where
  "scaleStatefulSet product k ref ar ss =
     exec_bind (scaleReplicas ar) (\<lambda>replicas w.
       if ss_replicas ss = Some replicas
       then (Inr (succeeded ref
               (product @ '' scale already applied: desired replicas already set to '' @ show_int replicas @ ''.'') True), w)
       else after_call (update_statefulSet k (ss\<lparr>ss_replicas := Some replicas\<rparr>) w) (\<lambda>_ w.
         (Inr (succeeded ref (product @ '' scale applied: desired replicas set to '' @ show_int replicas @ ''.'') True), w)))"

definition restartStatefulSet ::
  "exec_env \<Rightarrow> string \<Rightarrow> key \<Rightarrow> typed_ref \<Rightarrow> action_request \<Rightarrow> string \<Rightarrow> stateful_set \<Rightarrow>
   action_execution_result exec" where
  "restartStatefulSet env product k ref ar op ss w =
     (if map_get (ss_podAnnotations ss) ''servicer.io/restart-operation-id'' = op
      then (Inr (succeeded ref (product @ '' restart already recorded for this operation.'') True), w)
      else
        (let stamped = map_set ''servicer.io/restart-operation-id'' op
               (map_set ''servicer.io/restart-request'' (m_name (ar_meta ar))
                 (map_set ''servicer.io/restarted-at'' (xe_now env) (ss_podAnnotations ss)))
         in after_call (update_statefulSet k (ss\<lparr>ss_podAnnotations := stamped\<rparr>) w) (\<lambda>_ w.
              (Inr (succeeded ref (product @ '' restart annotation applied to the StatefulSet pod template.'') True), w))))"

text \<open>
  The rotation of one credential Secret: a new password unless the Secret carries the operation,
  then the stamp on the pod template unless that carries it. The first part returns the time of
  the rotation. The same lines are in \<open>rotateNATSCredentials\<close>.
\<close>

definition rotateSecret ::
  "exec_env \<Rightarrow> key \<Rightarrow> action_request \<Rightarrow> string \<Rightarrow> secret \<Rightarrow> string exec" where
  "rotateSecret env k ar op sec =
     (if map_get (sc_annotations sec) ''servicer.io/rotation-operation-id'' \<noteq> op
      then exec_bind (xe_password env) (\<lambda>password w.
        (let stamped = map_set ''servicer.io/rotation-operation-id'' op
               (map_set ''servicer.io/rotation-request'' (m_name (ar_meta ar))
                 (map_set ''servicer.io/rotated-at'' (xe_now env) (sc_annotations sec)));
             new = sec\<lparr>sc_data := map_set ''password'' password (sc_data sec), sc_annotations := stamped\<rparr>
         in after_call (update_secret k new w) (\<lambda>_ w. (Inr (xe_now env), w))))
      else (\<lambda>w. (Inr (map_get (sc_annotations sec) ''servicer.io/rotated-at''), w)))"

definition stampRotation ::
  "exec_env \<Rightarrow> string \<Rightarrow> action_request \<Rightarrow> string \<Rightarrow> stateful_set \<Rightarrow> stateful_set" where
  "stampRotation env rotatedAt ar op ss =
     ss\<lparr>ss_podAnnotations := map_set ''servicer.io/credential-rotation-operation-id'' op
          (map_set ''servicer.io/credential-rotation-request'' (m_name (ar_meta ar))
            (map_set ''servicer.io/credential-rotated-at''
              (if rotatedAt = '''' then xe_now env else rotatedAt) (ss_podAnnotations ss)))\<rparr>"

definition rotateStatefulSet ::
  "exec_env \<Rightarrow> string \<Rightarrow> string \<Rightarrow> string \<Rightarrow> action_request \<Rightarrow> string \<Rightarrow> stateful_set \<Rightarrow>
   action_execution_result exec" where
  "rotateStatefulSet env product namespace name ar op ss w =
     (let secretName = name @ ''-auth'';
          ref = \<lparr>tr_apiVersion = ''v1'', tr_kind = ''Secret'', tr_name = secretName, tr_namespace = namespace\<rparr>
      in after_get (get_secret (namespace, secretName) w)
           (Errorf (product @ '' credential Secret '' @ namespace @ ''/'' @ secretName @ '' is not available yet'')) (\<lambda>sec w.
         case rotateSecret env (namespace, secretName) ar op sec w of
           (Inl e, w) \<Rightarrow> (Inl e, w)
         | (Inr rotatedAt, w) \<Rightarrow>
             if map_get (ss_podAnnotations ss) ''servicer.io/credential-rotation-operation-id'' = op
             then (Inr (succeeded ref
                     (product @ '' credential Secret rotation already applied for this operation.'') True), w)
             else after_call (update_statefulSet (namespace, name) (stampRotation env rotatedAt ar op ss) w)
               (\<lambda>_ w. (Inr (succeeded ref
                  (product @ '' credential Secret rotated and StatefulSet rollout annotation applied.'') True), w))))"

definition executeStatefulSetBackedAction ::
  "exec_env \<Rightarrow> service_context \<Rightarrow> action_request \<Rightarrow> string \<Rightarrow> string \<Rightarrow> action_execution_result exec" where
  "executeStatefulSetBackedAction env ctx ar op product w =
     (case sx_Instance ctx of
        None \<Rightarrow> (Inl (Errorf ''service instance context is required''), w)
      | Some inst \<Rightarrow>
          (let namespace = actionRuntimeNamespace ctx;
               name = m_name (si_meta inst);
               action = ars_action (ar_spec ar);
               ref = \<lparr>tr_apiVersion = ''apps/v1'', tr_kind = ''StatefulSet'', tr_name = name, tr_namespace = namespace\<rparr>;
               branch = (\<lambda>ss w.
                 if action = ActionScale then scaleStatefulSet product (namespace, name) ref ar ss w
                 else if action = ActionRestart
                 then restartStatefulSet env product (namespace, name) ref ar op ss w
                 else if action = ActionRotateCredentials
                 then rotateStatefulSet env product namespace name ar op ss w
                 else (Inl (Errorf (''unsupported '' @ product @ '' action '' @ quote action)), w))
           in if statefulSetActionNeedsRuntimeWorkload action
              then after_get (get_statefulSet (namespace, name) w)
                (Errorf (product @ '' StatefulSet '' @ namespace @ ''/'' @ name @ '' is not available yet'')) branch
              else branch \<lparr>ss_replicas = None, ss_podAnnotations = []\<rparr> w))"

end
