(* ===== verification/Adapter_Catalog.thy ===== *)
theory Adapter_Catalog
  imports Adapters
begin

text \<open>
  The contracts of the nine products (\<open>internal/adapters\<close>, the variable named \<open>...Contract\<close> of each file) and
  their catalogue, \<open>catalog.go\<close>. A contract says under which service class a product is offered, which
  driver runs it, which topologies its plans may choose and which actions its instances may be asked for.
\<close>

abbreviation HealthSeverityWarning :: string where "HealthSeverityWarning \<equiv> ''Warning''"
abbreviation HealthSeverityCritical :: string where "HealthSeverityCritical \<equiv> ''Critical''"

text \<open>Struct literals with their fields by position.\<close>

abbreviation signal :: "string \<Rightarrow> string \<Rightarrow> string \<Rightarrow> string \<Rightarrow> status_signal_descriptor" where
  "signal key name description severity \<equiv>
     \<lparr>ss_Key = key, ss_DisplayName = name, ss_Description = description, ss_Severity = severity\<rparr>"

abbreviation capability :: "string \<Rightarrow> string \<Rightarrow> bool \<Rightarrow> bool \<Rightarrow> action_capability" where
  "capability name display requiresApproval disruptive \<equiv>
     \<lparr>ac_Name = name, ac_DisplayName = display, ac_RequiresApproval = requiresApproval, ac_Disruptive = disruptive\<rparr>"

section \<open>The products\<close>

definition NamespaceContract :: product_contract where
  "NamespaceContract =
     \<lparr>pc_ServiceClass = ''namespace'',
      pc_FriendlyName = ''Kubernetes Namespace'',
      pc_RuntimeDriver = ''kubernetes-namespace'',
      pc_SupportsVersionOverride = False,
      pc_SupportsMultiCluster = False,
      pc_TopologyModes = [''dedicated''],
      pc_StatusSignals =
        [signal ''namespace-ready'' ''Namespace Ready''
           ''Whether the managed namespace has been created.'' HealthSeverityCritical,
         signal ''quota-posture'' ''Quota Posture''
           ''Whether resource quota intent is present.'' HealthSeverityWarning,
         signal ''policy-posture'' ''Policy Posture''
           ''Whether baseline namespace policy is present.'' HealthSeverityWarning],
      pc_Actions =
        [capability ActionUpdateQuota ''Update Quota'' False False,
         capability ActionGrantAccess ''Grant Access'' False False]\<rparr>"

definition PostgreSQLContract :: product_contract where
  "PostgreSQLContract =
     \<lparr>pc_ServiceClass = ''postgresql'',
      pc_FriendlyName = ''PostgreSQL'',
      pc_RuntimeDriver = ''cnpg'',
      pc_SupportsVersionOverride = True,
      pc_SupportsMultiCluster = False,
      pc_TopologyModes = [''single-cluster'', ''single-primary'', ''high-availability''],
      pc_StatusSignals =
        [signal ''primary-ready'' ''Primary Ready''
           ''Whether the writable PostgreSQL primary is ready.'' HealthSeverityCritical,
         signal ''replica-health'' ''Replica Health''
           ''Whether replica instances are healthy and attached.'' HealthSeverityWarning,
         signal ''backup-freshness'' ''Backup Freshness''
           ''Whether recent backups satisfy the selected backup policy.'' HealthSeverityWarning],
      pc_Actions =
        [capability ActionBackup ''Backup'' False False]\<rparr>"

definition MySQLContract :: product_contract where
  "MySQLContract =
     \<lparr>pc_ServiceClass = ''mysql'',
      pc_FriendlyName = ''MySQL'',
      pc_RuntimeDriver = ''servicer-mysql'',
      pc_SupportsVersionOverride = True,
      pc_SupportsMultiCluster = True,
      pc_TopologyModes = [''single-cluster'', ''multi-region''],
      pc_StatusSignals =
        [signal ''primary-ready'' ''Primary Ready''
           ''Whether the writable MySQL primary is ready.'' HealthSeverityCritical,
         signal ''replica-posture'' ''Replica Posture''
           ''Whether MySQL replicas or peers match the selected topology model.'' HealthSeverityWarning,
         signal ''credential-health'' ''Credential Health''
           ''Whether the application credential secret is projected and rotation-ready.'' HealthSeverityCritical,
         signal ''failover-readiness'' ''Failover Readiness''
           ''Whether the active-passive topology has a promotion candidate available.'' HealthSeverityWarning],
      pc_Actions =
        [capability ActionScale ''Scale'' False True,
         capability ActionRestart ''Restart'' False True,
         capability ActionRotateCredentials ''Rotate Credentials'' False False,
         capability ActionFailover ''Failover'' True True,
         capability ActionRollbackFailover ''Rollback Failover'' True True]\<rparr>"

definition ValkeyContract :: product_contract where
  "ValkeyContract =
     \<lparr>pc_ServiceClass = ''valkey'',
      pc_FriendlyName = ''Valkey'',
      pc_RuntimeDriver = ''servicer-valkey'',
      pc_SupportsVersionOverride = True,
      pc_SupportsMultiCluster = True,
      pc_TopologyModes = [''single-cluster'', ''replicated'', ''multi-cluster-failover'', ''multi-region''],
      pc_StatusSignals =
        [signal ''primary-ready'' ''Primary Ready''
           ''Whether the writable cache primary is ready to serve traffic.'' HealthSeverityCritical,
         signal ''replica-posture'' ''Replica Posture''
           ''Whether same-cluster replicas match the selected plan posture.'' HealthSeverityWarning,
         signal ''credential-health'' ''Credential Health''
           ''Whether cache credentials are projected and rotation-ready.'' HealthSeverityCritical,
         signal ''failover-readiness'' ''Failover Readiness''
           ''Whether the cache topology can support a controlled failover action.'' HealthSeverityWarning],
      pc_Actions =
        [capability ActionScale ''Scale'' False True,
         capability ActionRestart ''Restart'' False True,
         capability ActionRotateCredentials ''Rotate Credentials'' False False,
         capability ActionFailover ''Failover'' True True,
         capability ActionRollbackFailover ''Rollback Failover'' True True,
         capability ActionResyncStandby ''Resync Standby'' True True]\<rparr>"

definition NATSContract :: product_contract where
  "NATSContract =
     \<lparr>pc_ServiceClass = ''nats'',
      pc_FriendlyName = ''NATS'',
      pc_RuntimeDriver = ''servicer-nats'',
      pc_SupportsVersionOverride = True,
      pc_SupportsMultiCluster = True,
      pc_TopologyModes = [''single-cluster'', ''multi-region''],
      pc_StatusSignals =
        [signal ''broker-readiness'' ''Broker Readiness''
           ''Whether all NATS broker members are ready.'' HealthSeverityCritical,
         signal ''jetstream-health'' ''JetStream Health''
           ''Whether stream persistence and quorum are healthy when JetStream is enabled.'' HealthSeverityWarning,
         signal ''gateway-health'' ''Gateway Health''
           ''Whether geo gateways are linked and replication lag is within threshold.'' HealthSeverityWarning,
         signal ''credential-health'' ''Credential Health''
           ''Whether NATS credentials are projected and rotation-ready.'' HealthSeverityWarning],
      pc_Actions =
        [capability ActionScale ''Scale'' False True,
         capability ActionRestart ''Rolling Restart'' False True,
         capability ActionRotateCredentials ''Rotate Credentials'' False False,
         capability ActionDeleteStream ''Delete Stream'' False True,
         capability ActionPurgeStream ''Purge Stream'' False True,
         capability ActionDeleteConsumer ''Delete Consumer'' False True]\<rparr>"

definition K8ssandraContract :: product_contract where
  "K8ssandraContract =
     \<lparr>pc_ServiceClass = ''cassandra'',
      pc_FriendlyName = ''Cassandra'',
      pc_RuntimeDriver = ''k8ssandra'',
      pc_SupportsVersionOverride = True,
      pc_SupportsMultiCluster = True,
      pc_TopologyModes = [''single-datacenter'', ''multi-datacenter''],
      pc_StatusSignals =
        [signal ''ring-health'' ''Ring Health''
           ''Whether the Cassandra ring is healthy and converged.'' HealthSeverityCritical,
         signal ''repair-posture'' ''Repair Posture''
           ''Whether the cluster is within its repair and anti-entropy expectations.'' HealthSeverityWarning,
         signal ''backup-freshness'' ''Backup Freshness''
           ''Whether backups satisfy the plan's retention and recovery expectations.'' HealthSeverityWarning],
      pc_Actions = []\<rparr>"

definition YugabyteContract :: product_contract where
  "YugabyteContract =
     \<lparr>pc_ServiceClass = ''yugabyte'',
      pc_FriendlyName = ''YugabyteDB'',
      pc_RuntimeDriver = ''yb-operator'',
      pc_SupportsVersionOverride = True,
      pc_SupportsMultiCluster = True,
      pc_TopologyModes = [''single-cluster'', ''multi-region''],
      pc_StatusSignals =
        [signal ''tserver-readiness'' ''TServer Readiness''
           ''Whether all YB-TServer pods are ready and serving tablets.'' HealthSeverityCritical,
         signal ''master-quorum'' ''Master Quorum''
           ''Whether the YB-Master quorum is healthy and has an elected leader.'' HealthSeverityCritical,
         signal ''replication-lag'' ''Replication Lag''
           ''Whether cross-cluster replication lag is within acceptable bounds.'' HealthSeverityWarning,
         signal ''backup-freshness'' ''Backup Freshness''
           ''Whether backups satisfy the configured retention policy.'' HealthSeverityWarning],
      pc_Actions = []\<rparr>"

definition KubeVirtContract :: product_contract where
  "KubeVirtContract =
     \<lparr>pc_ServiceClass = ''virtual-machine'',
      pc_FriendlyName = ''Virtual Machine'',
      pc_RuntimeDriver = ''kubevirt'',
      pc_SupportsVersionOverride = False,
      pc_SupportsMultiCluster = False,
      pc_TopologyModes = [''single-cluster''],
      pc_StatusSignals =
        [signal ''vm-ready'' ''VM Ready''
           ''Whether the KubeVirt VirtualMachine is ready.'' HealthSeverityCritical,
         signal ''guest-access'' ''Guest Access''
           ''Whether guest bootstrap and access material are configured.'' HealthSeverityWarning,
         signal ''storage-posture'' ''Storage Posture''
           ''Whether persistent VM storage intent is materialized.'' HealthSeverityWarning],
      pc_Actions = []\<rparr>"

definition ArgoApplicationContract :: product_contract where
  "ArgoApplicationContract =
     \<lparr>pc_ServiceClass = ''argo-application'',
      pc_FriendlyName = ''Managed Application'',
      pc_RuntimeDriver = ''argo-application'',
      pc_SupportsVersionOverride = False,
      pc_SupportsMultiCluster = False,
      pc_TopologyModes = [''dedicated''],
      pc_StatusSignals =
        [signal ''app-sync'' ''Sync Status''
           ''Whether the Argo CD Application is synced.'' HealthSeverityCritical,
         signal ''app-health'' ''App Health''
           ''Whether the Argo CD Application is healthy.'' HealthSeverityWarning],
      pc_Actions = []\<rparr>"

section \<open>The catalogue\<close>

definition knownServiceClasses :: "string list" where
  "knownServiceClasses =
     [''namespace'', ''postgresql'', ''mysql'', ''valkey'', ''nats'', ''cassandra'', ''yugabyte'',
      ''virtual-machine'', ''argo-application'']"

definition KnownContract :: "string \<Rightarrow> product_contract option" where
  "KnownContract serviceClass =
     (if serviceClass = ''namespace'' then Some NamespaceContract
      else if serviceClass = ''postgresql'' then Some PostgreSQLContract
      else if serviceClass = ''mysql'' then Some MySQLContract
      else if serviceClass = ''valkey'' then Some ValkeyContract
      else if serviceClass = ''nats'' then Some NATSContract
      else if serviceClass = ''cassandra'' then Some K8ssandraContract
      else if serviceClass = ''yugabyte'' then Some YugabyteContract
      else if serviceClass = ''virtual-machine'' then Some KubeVirtContract
      else if serviceClass = ''argo-application'' then Some ArgoApplicationContract
      else None)"

definition KnownContracts :: "product_contract list" where
  "KnownContracts = List.map_filter KnownContract knownServiceClasses"

lemmas contract_defs =
  NamespaceContract_def PostgreSQLContract_def MySQLContract_def ValkeyContract_def NATSContract_def
  K8ssandraContract_def YugabyteContract_def KubeVirtContract_def ArgoApplicationContract_def

text \<open>The contract found under a class is the contract of that class.\<close>

lemma KnownContract_class: "KnownContract c = Some k \<Longrightarrow> pc_ServiceClass k = c"
  by (auto simp: KnownContract_def contract_defs split: if_splits)

end
