(* ===== verification/Valkey_Adapter.thy ===== *)
theory Valkey_Adapter
  imports Adapter_Catalog Go_Json
begin

text \<open>
  The Valkey adapter, \<open>internal/adapters/valkey.go\<close>: its contract, the parameters it merges from
  class, plan and instance, validation, the actions it offers and the status it reports, with the
  topology of primary and standby clusters. Rendering to manifests is left out.
\<close>

section \<open>Contract\<close>

abbreviation valkeyDriver :: string where "valkeyDriver \<equiv> ''servicer-valkey''"
abbreviation valkeyRuntimeAPIVersion :: string where "valkeyRuntimeAPIVersion \<equiv> ''apps/v1''"
abbreviation valkeyRuntimeKind :: string where "valkeyRuntimeKind \<equiv> ''StatefulSet''"
abbreviation HealthSeverityInfo :: string where "HealthSeverityInfo \<equiv> ''Info''"
abbreviation ServiceClassValkey :: string where "ServiceClassValkey \<equiv> ''valkey''"
abbreviation SyncPhaseMaterialized :: string where "SyncPhaseMaterialized \<equiv> ''Materialized''"
abbreviation EndpointVisibilityClusterInternal :: string where
  "EndpointVisibilityClusterInternal \<equiv> ''ClusterInternal''"
abbreviation EndpointVisibilityPrivate :: string where "EndpointVisibilityPrivate \<equiv> ''Private''"

section \<open>Where an instance is\<close>

definition instanceNamespace :: "service_context \<Rightarrow> string" where
  "instanceNamespace ctx =
     (case sx_Instance ctx of
        None \<Rightarrow> ''''
      | Some inst \<Rightarrow>
          if pl_namespace (sit_placement (si_status inst)) \<noteq> ''''
          then pl_namespace (sit_placement (si_status inst))
          else (case sx_Project ctx of
                  None \<Rightarrow> ''''
                | Some project \<Rightarrow>
                    (let t0 = lr_name (prs_tenantRef (pj_spec project));
                         t1 = (if t0 = '''' then (case sx_Tenant ctx of Some t \<Rightarrow> m_name (tn_meta t) | None \<Rightarrow> '''') else t0);
                         tenant = (if t1 = '''' then ''tenant'' else t1)
                     in tenant @ ''-'' @ m_name (pj_meta project) @ ''-'' @ m_name (si_meta inst))))"

definition instanceCluster :: "service_context \<Rightarrow> string" where
  "instanceCluster ctx =
     (let placed = (case sx_Instance ctx of Some inst \<Rightarrow> pl_clusterName (sit_placement (si_status inst)) | None \<Rightarrow> '''');
          project = (case sx_Project ctx of Some p \<Rightarrow> pl_clusterName (prt_placement (pj_status p)) | None \<Rightarrow> '''')
      in if placed \<noteq> '''' then placed
         else if project \<noteq> '''' then project
         else (case sx_Project ctx of
                 Some p \<Rightarrow> (case ts_clusterRef (prs_targetSelector (pj_spec p)) of
                              Some ref \<Rightarrow> lr_name ref | None \<Rightarrow> ''unplaced'')
               | None \<Rightarrow> ''unplaced''))"

definition planTopology :: "service_context \<Rightarrow> string" where
  "planTopology ctx = (case sx_Plan ctx of None \<Rightarrow> '''' | Some plan \<Rightarrow> sps_topology (spl_spec plan))"

definition isValkeyFailoverTopology :: "string \<Rightarrow> bool" where
  "isValkeyFailoverTopology topology \<longleftrightarrow> topology = ''multi-cluster-failover'' \<or> topology = ''multi-region''"

section \<open>Parameters\<close>

record valkeyParameters =
  vk_Replicas :: "int option"
  vk_MemoryProfile :: string
  vk_MemoryLimit :: string
  vk_Persistence :: string
  vk_StorageClass :: string
  vk_StorageSize :: string
  vk_MaxMemoryPolicy :: string
  vk_PrimaryCluster :: string
  vk_StandbyClusters :: "string list"
  vk_ReplicationLagSeconds :: "(string, int) gomap"
  vk_MaxReplicationLagSeconds :: "int option"
  vk_ServiceType :: string
  vk_ExternalDNSHostname :: string

definition no_valkey :: valkeyParameters where
  "no_valkey = \<lparr>vk_Replicas = None, vk_MemoryProfile = '''', vk_MemoryLimit = '''', vk_Persistence = '''',
     vk_StorageClass = '''', vk_StorageSize = '''', vk_MaxMemoryPolicy = '''', vk_PrimaryCluster = '''',
     vk_StandbyClusters = [], vk_ReplicationLagSeconds = [], vk_MaxReplicationLagSeconds = None,
     vk_ServiceType = '''', vk_ExternalDNSHostname = ''''\<rparr>"

definition valkey_field :: "string \<Rightarrow> json \<Rightarrow> valkeyParameters \<Rightarrow> valkeyParameters \<times> bool" where
  "valkey_field k v s =
     (if json_key k ''replicas'' then dec_into (dec_pointer 0 dec_int32) vk_Replicas vk_Replicas_update v s
      else if json_key k ''memoryProfile'' then dec_into dec_string vk_MemoryProfile vk_MemoryProfile_update v s
      else if json_key k ''memoryLimit'' then dec_into dec_string vk_MemoryLimit vk_MemoryLimit_update v s
      else if json_key k ''persistence'' then dec_into dec_string vk_Persistence vk_Persistence_update v s
      else if json_key k ''storageClass'' then dec_into dec_string vk_StorageClass vk_StorageClass_update v s
      else if json_key k ''storageSize'' then dec_into dec_string vk_StorageSize vk_StorageSize_update v s
      else if json_key k ''maxMemoryPolicy'' then dec_into dec_string vk_MaxMemoryPolicy vk_MaxMemoryPolicy_update v s
      else if json_key k ''primaryCluster'' then dec_into dec_string vk_PrimaryCluster vk_PrimaryCluster_update v s
      else if json_key k ''standbyClusters'' then dec_into dec_strings vk_StandbyClusters vk_StandbyClusters_update v s
      else if json_key k ''replicationLagSeconds''
      then dec_into (dec_map 0 dec_int32) vk_ReplicationLagSeconds vk_ReplicationLagSeconds_update v s
      else if json_key k ''maxReplicationLagSeconds''
      then dec_into (dec_pointer 0 dec_int32) vk_MaxReplicationLagSeconds vk_MaxReplicationLagSeconds_update v s
      else if json_key k ''serviceType'' then dec_into dec_string vk_ServiceType vk_ServiceType_update v s
      else if json_key k ''externalDnsHostname''
      then dec_into dec_string vk_ExternalDNSHostname vk_ExternalDNSHostname_update v s
      else (s, False))"

definition memoryLimitForProfile :: "string \<Rightarrow> string" where
  "memoryLimitForProfile profile =
     (if profile = ''medium'' then ''1Gi'' else if profile = ''large'' then ''4Gi'' else ''256Mi'')"

text \<open>One layer of parameters decoded over the layers below it.\<close>

definition decode_layer ::
  "string \<Rightarrow> (string \<Rightarrow> json \<Rightarrow> 's \<Rightarrow> 's \<times> bool) \<Rightarrow> raw_json option \<Rightarrow> 's \<Rightarrow> go_error + 's" where
  "decode_layer what field raw s =
     (case raw of
        None \<Rightarrow> Inr s
      | Some text \<Rightarrow> (case json_unmarshal field text s of
                      (s', failed) \<Rightarrow> if failed then Inl (Wrapf what JsonError) else Inr s'))"

definition valkeyDefaults :: "valkeyParameters \<Rightarrow> valkeyParameters" where
  "valkeyDefaults p =
     (let p = (if vk_MemoryProfile p = '''' then p\<lparr>vk_MemoryProfile := ''small''\<rparr> else p);
          p = (if vk_MemoryLimit p = '''' then p\<lparr>vk_MemoryLimit := memoryLimitForProfile (vk_MemoryProfile p)\<rparr> else p);
          p = (if vk_Persistence p = '''' then p\<lparr>vk_Persistence := ''none''\<rparr> else p);
          p = (if vk_MaxMemoryPolicy p = '''' then p\<lparr>vk_MaxMemoryPolicy := ''allkeys-lru''\<rparr> else p)
      in if vk_Persistence p = ''persistent'' \<and> vk_StorageSize p = '''' then p\<lparr>vk_StorageSize := ''5Gi''\<rparr> else p)"

definition valkey_parameters :: "service_context \<Rightarrow> go_error + valkeyParameters" where
  "valkey_parameters ctx =
     bind_sum (decode_layer ''decode class defaults: '' valkey_field
         (case sx_Class ctx of None \<Rightarrow> None | Some c \<Rightarrow> scs_defaultParameters (sc_spec c)) no_valkey) (\<lambda>p.
     bind_sum (decode_layer ''decode plan defaults: '' valkey_field
         (case sx_Plan ctx of None \<Rightarrow> None | Some c \<Rightarrow> sps_defaultParameters (spl_spec c)) p) (\<lambda>p.
     bind_sum (decode_layer ''decode instance parameters: '' valkey_field
         (case sx_Instance ctx of None \<Rightarrow> None | Some c \<Rightarrow> sis_parameters (si_spec c)) p) (\<lambda>p.
     Inr (valkeyDefaults p))))"

section \<open>Topology\<close>

definition requestedPrimaryCluster :: "service_context \<Rightarrow> valkeyParameters \<Rightarrow> string" where
  "requestedPrimaryCluster ctx p = (if vk_PrimaryCluster p \<noteq> '''' then vk_PrimaryCluster p else instanceCluster ctx)"

definition primaryCluster :: "service_context \<Rightarrow> valkeyParameters \<Rightarrow> string" where
  "primaryCluster ctx p =
     (case sx_Instance ctx of
        Some inst \<Rightarrow>
          if ctop_primaryCluster (sit_cacheTopology (si_status inst)) \<noteq> ''''
          then ctop_primaryCluster (sit_cacheTopology (si_status inst)) else requestedPrimaryCluster ctx p
      | None \<Rightarrow> requestedPrimaryCluster ctx p)"

definition standbyClusters :: "service_context \<Rightarrow> valkeyParameters \<Rightarrow> string list" where
  "standbyClusters ctx p =
     (case sx_Instance ctx of
        Some inst \<Rightarrow>
          if length (ctop_standbyClusters (sit_cacheTopology (si_status inst))) > 0
          then filter (\<lambda>n. n \<noteq> '''') (map cs_clusterName (ctop_standbyClusters (sit_cacheTopology (si_status inst))))
          else vk_StandbyClusters p
      | None \<Rightarrow> vk_StandbyClusters p)"

definition maxReplicationLagSeconds :: "valkeyParameters \<Rightarrow> int" where
  "maxReplicationLagSeconds p =
     (case vk_MaxReplicationLagSeconds p of Some n \<Rightarrow> if n \<ge> 0 then n else 30 | None \<Rightarrow> 30)"

definition valkey_replicas :: "service_context \<Rightarrow> valkeyParameters \<Rightarrow> int" where
  "valkey_replicas ctx p =
     (let base = (if planTopology ctx = ''replicated'' then 3 else 1) in
      case vk_Replicas p of Some n \<Rightarrow> if n > 0 then n else base | None \<Rightarrow> base)"

definition no_standby :: cache_standby_status where
  "no_standby = \<lparr>cs_clusterName = '''', cs_ready = False, cs_resyncRequired = False, cs_lagObserved = False,
     cs_replicationLagSeconds = 0, cs_message = ''''\<rparr>"

text \<open>\<open>existingStandbyStatus\<close>: the last entry of a name wins.\<close>

definition existingStandby :: "cache_standby_status list \<Rightarrow> string \<Rightarrow> cache_standby_status" where
  "existingStandby standbys name =
     (case map_of (rev (map (\<lambda>s. (cs_clusterName s, s)) standbys)) name of Some s \<Rightarrow> s | None \<Rightarrow> no_standby)"

text \<open>The body of the loop over the standby clusters.\<close>

definition observeStandby :: "valkeyParameters \<Rightarrow> cache_standby_status list \<Rightarrow> string \<Rightarrow> cache_standby_status" where
  "observeStandby p standbys name =
     (let existing = existingStandby standbys name;
          maxLag = maxReplicationLagSeconds p;
          (lag, observed) =
            (case map_of (vk_ReplicationLagSeconds p) name of
               Some n \<Rightarrow> (n, True)
             | None \<Rightarrow> if cs_lagObserved existing then (cs_replicationLagSeconds existing, True) else (0, False));
          fresh = observed \<and> lag \<le> maxLag;
          ready = (if cs_resyncRequired existing then False else fresh);
          message =
            (if cs_resyncRequired existing
             then (if cs_message existing = '''' then ''Standby requires resynchronization before it can be promoted.''
                   else cs_message existing)
             else if \<not> observed then ''Replication lag has not been observed for this standby.''
             else if \<not> fresh
             then ''Replication lag is '' @ show_int lag @ '' second(s), above threshold '' @ show_int maxLag @ ''.''
             else ''Replication lag is '' @ show_int lag @ '' second(s); threshold is '' @ show_int maxLag @ '' second(s).'')
      in \<lparr>cs_clusterName = name, cs_ready = ready, cs_resyncRequired = cs_resyncRequired existing,
          cs_lagObserved = observed, cs_replicationLagSeconds = lag, cs_message = message\<rparr>)"

text \<open>
  The code dereferences the instance, which its only caller has checked, and for a failover topology
  the project, which is always set where instances are observed.
\<close>

definition cacheTopologyStatus :: "service_context \<Rightarrow> valkeyParameters \<Rightarrow> cache_topology_status option" where
  "cacheTopologyStatus ctx p =
     (case (sx_Plan ctx, sx_Instance ctx) of
        (None, _) \<Rightarrow> None
      | (Some _, None) \<Rightarrow> None
      | (Some _, Some inst) \<Rightarrow>
          Some (
            if \<not> isValkeyFailoverTopology (planTopology ctx)
            then \<lparr>ctop_mode = planTopology ctx, ctop_primaryCluster = instanceCluster ctx, ctop_standbyClusters = [],
                   ctop_trafficEndpoint = '''', ctop_trafficPolicyRef = None, ctop_failoverReadiness = ''Unavailable'',
                   ctop_message = ''Failover is unavailable for single-cluster Valkey plans.''\<rparr>
            else
              (let primary = primaryCluster ctx p;
                   old = ctop_standbyClusters (sit_cacheTopology (si_status inst));
                   standbys = map (observeStandby p old) (filter (\<lambda>n. n \<noteq> primary) (standbyClusters ctx p));
                   readyStandbys = length (filter cs_ready standbys);
                   project = (case sx_Project ctx of Some pr \<Rightarrow> m_name (pj_meta pr) | None \<Rightarrow> '''')
               in \<lparr>ctop_mode = planTopology ctx, ctop_primaryCluster = primary, ctop_standbyClusters = standbys,
                   ctop_trafficEndpoint = m_name (si_meta inst) @ ''.'' @ project @ ''.cache.servicer.local:6379'',
                   ctop_trafficPolicyRef = Some \<lparr>tr_apiVersion = ''v1'', tr_kind = ''ConfigMap'',
                     tr_name = m_name (si_meta inst) @ ''-traffic-policy'', tr_namespace = instanceNamespace ctx\<rparr>,
                   ctop_failoverReadiness = (if readyStandbys > 0 then ''Ready'' else ''Blocked''),
                   ctop_message = (if readyStandbys > 0
                     then show_int (int readyStandbys) @ '' standby cluster(s) are eligible for promotion.''
                     else ''No standby clusters currently pass promotion preflight.'')\<rparr>)))"

section \<open>Validation\<close>

definition critical :: "string \<Rightarrow> string \<Rightarrow> validation_issue" where
  "critical path message = \<lparr>vi_Path = path, vi_Message = message, vi_Severity = HealthSeverityCritical\<rparr>"

text \<open>The loop over the requested standby clusters, with the names seen so far.\<close>

fun standbyIssues :: "string \<Rightarrow> string set \<Rightarrow> string list \<Rightarrow> validation_issue list" where
  "standbyIssues primary seen [] = []"
| "standbyIssues primary seen (n # ns) =
     (if n = ''''
      then critical ''parameters.standbyClusters'' ''standby cluster names must not be empty'' #
        standbyIssues primary seen ns
      else
        report (n = primary)
          (critical ''parameters.standbyClusters'' ''standby cluster must not match the primary cluster'') @
        report (n \<in> seen)
          (critical ''parameters.standbyClusters'' (''standby cluster '' @ quote n @ '' is duplicated'')) @
        standbyIssues primary (insert n seen) ns)"

definition validateParameters :: "service_context \<Rightarrow> valkeyParameters \<Rightarrow> validation_issue list" where
  "validateParameters ctx p =
     report (vk_MemoryProfile p \<notin> {''small'', ''medium'', ''large''})
       (critical ''parameters.memoryProfile'' ''memoryProfile must be one of small, medium, or large'') @
     report (vk_MemoryLimit p = '''')
       (critical ''parameters.memoryLimit''
          ''memoryLimit must resolve from the selected memory profile or be provided explicitly'') @
     report (vk_Persistence p \<notin> {''none'', ''ephemeral'', ''persistent''})
       (critical ''parameters.persistence'' ''persistence must be one of none, ephemeral, or persistent'') @
     report (vk_Persistence p = ''persistent'' \<and> vk_StorageSize p = '''')
       (critical ''parameters.storageSize'' ''storageSize is required when persistence is persistent'') @
     (if isValkeyFailoverTopology (planTopology ctx)
      then report (primaryCluster ctx p = '''')
             (critical ''parameters.primaryCluster''
                ''primaryCluster is required for failover Valkey plans when project placement is unresolved'') @
           report (length (vk_StandbyClusters p) = 0)
             (critical ''parameters.standbyClusters''
                ''standbyClusters must include at least one standby for failover Valkey plans'') @
           requiresPodMesh ctx @
           standbyIssues (requestedPrimaryCluster ctx p) {} (vk_StandbyClusters p)
      else []) @
     report (valkey_replicas ctx p > 9) (critical ''parameters.replicas'' ''replicas must not exceed 9'')"

text \<open>\<open>errorText\<close> is how an error of the decoder prints.\<close>

definition valkey_Validate :: "(go_error \<Rightarrow> string) \<Rightarrow> service_context \<Rightarrow> validation_result" where
  "valkey_Validate errorText ctx =
     (case (sx_Instance ctx, sx_Class ctx, sx_Plan ctx) of
        (Some inst, Some cls, Some plan) \<Rightarrow>
          (let version = sis_version (si_spec inst);
               issues =
                 report (scs_driver (sc_spec cls) \<noteq> valkeyDriver)
                   (critical ''serviceClass.driver''
                      (''expected driver '' @ quote valkeyDriver @ '', got '' @ quote (scs_driver (sc_spec cls)))) @
                 report (lr_name (sps_serviceClassRef (spl_spec plan)) \<noteq> lr_name (sis_serviceClassRef (si_spec inst)))
                   (critical ''servicePlanRef'' ''service plan does not belong to the selected service class'') @
                 report (sps_topology (spl_spec plan) \<notin> set (pc_TopologyModes ValkeyContract))
                   (critical ''servicePlan.topology''
                      (''topology '' @ quote (sps_topology (spl_spec plan)) @
                       '' is not supported for the first Valkey release'')) @
                 (if version \<noteq> ''''
                  then report (\<not> scs_allowsVersionOverride (sc_spec cls) \<and> \<not> sps_allowsVersionOverride (spl_spec plan) \<and>
                           sps_defaultVersion (spl_spec plan) \<noteq> '''' \<and> version \<noteq> sps_defaultVersion (spl_spec plan))
                         (critical ''version'' ''version override is not allowed by the selected class and plan'') @
                       report (length (scs_supportedVersions (sc_spec cls)) > 0 \<and>
                           version \<notin> set (scs_supportedVersions (sc_spec cls)))
                         (critical ''version'' (''version '' @ quote version @ '' is not in the supported versions list''))
                  else []) @
                 (case valkey_parameters ctx of
                    Inl err \<Rightarrow> [critical ''parameters'' (errorText err)]
                  | Inr p \<Rightarrow> validateParameters ctx p)
           in \<lparr>vr_Valid = (length issues = 0), vr_Issues = issues\<rparr>)
      | (inst, cls, plan) \<Rightarrow>
          \<lparr>vr_Valid = False,
           vr_Issues =
             report (inst = None) (critical ''instance'' ''service instance context is required'') @
             report (cls = None) (critical ''serviceClassRef'' ''service class is required'') @
             report (plan = None) (critical ''servicePlanRef'' ''service plan is required'')\<rparr>)"

section \<open>Actions\<close>

definition valkey_SupportedActions :: "service_context \<Rightarrow> action_capability list" where
  "valkey_SupportedActions ctx =
     (if isValkeyFailoverTopology (planTopology ctx) then pc_Actions ValkeyContract
      else filter (\<lambda>a. ac_Name a \<noteq> ActionFailover \<and> ac_Name a \<noteq> ActionRollbackFailover \<and> ac_Name a \<noteq> ActionResyncStandby)
        (pc_Actions ValkeyContract))"

definition valkey_ExecuteAction :: "service_context \<Rightarrow> action_request \<Rightarrow> go_error + action_execution_result" where
  "valkey_ExecuteAction ctx ar =
     (case sx_Instance ctx of
        None \<Rightarrow> Inl (Errorf ''service instance and action request context are required'')
      | Some inst \<Rightarrow>
          (let ref = \<lparr>tr_apiVersion = valkeyRuntimeAPIVersion, tr_kind = valkeyRuntimeKind,
                 tr_name = m_name (si_meta inst), tr_namespace = instanceNamespace ctx\<rparr>;
               queued = (\<lambda>what. Inr \<lparr>ae_Phase = ''Queued'', ae_OperationRef = Some ref,
                 ae_Message = ''Valkey '' @ what @ '' queued for the Servicer-owned cache controller.'', ae_Retryable = True\<rparr>);
               action = ars_action (ar_spec ar)
           in if action = ActionScale then queued ''scale request''
              else if action = ActionRestart then queued ''restart request''
              else if action = ActionRotateCredentials then queued ''credential rotation request''
              else if action \<in> {ActionFailover, ActionRollbackFailover, ActionResyncStandby}
              then queued ''topology action''
              else Inl (Errorf (''unsupported Valkey action '' @ quote action))))"

section \<open>Observation\<close>

definition health :: "string \<Rightarrow> string \<Rightarrow> string \<Rightarrow> string \<Rightarrow> health_signal" where
  "health key status severity message = \<lparr>sg_Key = key, sg_Status = status, sg_Severity = severity, sg_Message = message\<rparr>"

text \<open>Phase, summary and health signals, from the observed workload.\<close>

definition valkey_health ::
  "service_instance \<Rightarrow> runtime_observation \<Rightarrow> string \<times> string \<times> health_signal list" where
  "valkey_health inst runtime =
     (let unknown = [
            health ''primary-ready'' ''Unknown'' HealthSeverityCritical
              ''Primary Valkey pod readiness has not been observed yet.'',
            health ''replica-posture'' ''Unknown'' HealthSeverityWarning ''Replica health has not been observed yet.'',
            health ''credential-health'' ''Unknown'' HealthSeverityCritical
              ''Credential projection has not been observed yet.'',
            health ''failover-readiness'' ''Unavailable'' HealthSeverityWarning
              ''Failover is reserved for a later multi-cluster failover topology.''];
          primary = health ''primary-ready'' ''Ready'' HealthSeverityInfo ''At least one Valkey pod is ready.'';
          credential = health ''credential-health'' ''Ready'' HealthSeverityInfo ''Valkey credential Secret is present.''
      in case ro_Workload runtime of
           None \<Rightarrow> (sit_phase (si_status inst), ''Waiting for Valkey StatefulSet to be observed.'', unknown)
         | Some w \<Rightarrow>
             if \<not> wo_Observed w
             then (sit_phase (si_status inst), ''Waiting for Valkey StatefulSet to be observed.'', unknown)
             else
               (let counts = show_int (wo_ReadyReplicas w) @ ''/'' @ show_int (wo_DesiredReplicas w);
                    (phase, summary, signals) =
                      (if wo_ReadyReplicas w \<ge> wo_DesiredReplicas w \<and> ro_CredentialSecretPresent runtime
                       then (''Ready'', ''Valkey cache is ready with '' @ counts @ '' replica(s).'',
                         unknown[0 := primary, 2 := credential])
                       else if \<not> ro_CredentialSecretPresent runtime
                       then (''Provisioning'', ''Waiting for Valkey credential Secret projection.'',
                         unknown[2 := health ''credential-health'' ''Missing'' HealthSeverityCritical
                           ''Valkey credential Secret has not been created yet.''])
                       else (''Provisioning'', ''Waiting for Valkey readiness: '' @ counts @ '' replica(s) ready.'',
                         (if wo_ReadyReplicas w > 0 then unknown[0 := primary] else unknown)[2 := credential]));
                    posture =
                      (if wo_DesiredReplicas w \<le> 1
                       then health ''replica-posture'' ''SingleNode'' HealthSeverityInfo
                         ''Selected Valkey plan runs a single cache node.''
                       else if wo_ReadyReplicas w \<ge> wo_DesiredReplicas w
                       then health ''replica-posture'' ''Ready'' HealthSeverityInfo ''All Valkey replicas are ready.''
                       else health ''replica-posture'' ''Degraded'' HealthSeverityWarning
                         (counts @ '' Valkey replica(s) are ready.''))
                in (phase, summary, signals[1 := posture])))"

definition valkey_Observe :: "observe_request \<Rightarrow> go_error + normalized_status" where
  "valkey_Observe req =
     (let ctx = ob_Context req in
      case sx_Instance ctx of
        None \<Rightarrow> Inl (Errorf ''service instance context is required'')
      | Some inst \<Rightarrow>
          bind_sum (valkey_parameters ctx) (\<lambda>p.
            let namespace = instanceNamespace ctx;
                name = m_name (si_meta inst);
                project = (case sx_Project ctx of Some pr \<Rightarrow> m_name (pj_meta pr) | None \<Rightarrow> '''');
                (phase, summary, signals) = valkey_health inst (ob_Runtime req);
                endpoints =
                  [\<lparr>en_Name = ''primary'', en_Address = name @ ''.'' @ namespace @ ''.svc.cluster.local:6379'',
                    en_Port = 6379, en_Protocol = ''tcp'', en_Visibility = EndpointVisibilityClusterInternal\<rparr>] @
                  (if isValkeyFailoverTopology (planTopology ctx)
                   then [\<lparr>en_Name = ''traffic'', en_Address = name @ ''.'' @ project @ ''.cache.servicer.local:6379'',
                     en_Port = 6379, en_Protocol = ''tcp'', en_Visibility = EndpointVisibilityPrivate\<rparr>]
                   else [])
            in Inr \<lparr>nst_Phase = phase, nst_Summary = summary, nst_Conditions = sit_conditions (si_status inst),
                 nst_Topology = [], nst_Endpoints = endpoints,
                 nst_CredentialRefs = sit_credentialRefs (si_status inst),
                 nst_ObservedResources = ob_ObservedResources req @
                   (case rt_objectRef (sit_runtime (si_status inst)) of None \<Rightarrow> [] | Some ref \<Rightarrow> [ref]),
                 nst_Sync = \<lparr>sy_Phase = SyncPhaseMaterialized, sy_ArtifactRevision = ob_ArtifactRevision req,
                   sy_ApplicationName = ob_ApplicationName req, sy_Message = ''Waiting for Argo CD reconciliation.''\<rparr>,
                 nst_HealthSignals = signals, nst_CacheTopology = cacheTopologyStatus ctx p\<rparr>))"

section \<open>Configuration\<close>

fun replaceSuffix :: "(string \<times> string) list \<Rightarrow> string \<Rightarrow> string" where
  "replaceSuffix [] v = v"
| "replaceSuffix ((suffix, unit) # rs) v =
     (if hasSuffix v suffix then take (length v - length suffix) v @ unit else replaceSuffix rs v)"

definition valkeyMemoryValue :: "string \<Rightarrow> string" where
  "valkeyMemoryValue value =
     (let normalized = trimSpace value in
      if normalized = '''' then ''256mb''
      else replaceSuffix [(''Ki'', ''kb''), (''Mi'', ''mb''), (''Gi'', ''gb''), (''Ti'', ''tb'')] normalized)"

definition valkeyConfig :: "valkeyParameters \<Rightarrow> string \<Rightarrow> string \<Rightarrow> string" where
  "valkeyConfig p role primaryEndpoint =
     concat (map (\<lambda>line. line @ [CHR 0x0A])
       ([(if vk_Persistence p = ''persistent'' then ''appendonly yes'' else ''appendonly no''),
         ''maxmemory '' @ valkeyMemoryValue (vk_MemoryLimit p),
         ''maxmemory-policy '' @ vk_MaxMemoryPolicy p] @
        (if role = ''standby'' \<and> primaryEndpoint \<noteq> '''' then [''replicaof '' @ primaryEndpoint @ '' 6379''] else [])))"

end
