(* ===== verification/Exec_Valkey.thy ===== *)
theory Exec_Valkey
  imports Exec_StatefulSet Valkey_Adapter
begin

text \<open>
  The Valkey actions of \<open>actionrequest_controller.go\<close>: promotion of a standby cluster, rollback and
  resynchronization, on the cache topology that the status of an instance records. What the Go code
  does to \<open>instance.Status.CacheTopology\<close> is a function on that record.
\<close>

section \<open>The topology\<close>

definition applyValkeyFailoverPreflight :: "cache_topology_status \<Rightarrow> string \<Rightarrow> go_error option" where
  "applyValkeyFailoverPreflight t candidate =
     (if ctop_mode t \<noteq> ''multi-cluster-failover''
      then Some (Errorf ''Valkey failover is only available for multi-cluster-failover topology'')
      else if ctop_primaryCluster t = '''' then Some (Errorf ''current primary cluster is unknown'')
      else if candidate = ctop_primaryCluster t
      then Some (Errorf (''candidate cluster '' @ quote candidate @ '' is already primary''))
      else (case find (\<lambda>s. cs_clusterName s = candidate) (ctop_standbyClusters t) of
              None \<Rightarrow> Some (Errorf (''candidate cluster '' @ quote candidate @ '' is not a known standby''))
            | Some s \<Rightarrow>
                if \<not> cs_ready s
                then Some (Errorf (''candidate standby '' @ quote candidate @ '' is not promotion-ready: '' @ cs_message s))
                else None))"

definition demoted :: "string \<Rightarrow> cache_standby_status \<Rightarrow> cache_standby_status" where
  "demoted previousPrimary s =
     s\<lparr>cs_clusterName := previousPrimary, cs_ready := False, cs_resyncRequired := True, cs_lagObserved := False,
       cs_replicationLagSeconds := 0,
       cs_message := ''Previous primary requires resynchronization before it can be promoted again.''\<rparr>"

text \<open>\<open>message\<close> is the format string applied to the candidate and the previous primary.\<close>

definition promoteValkeyPrimary ::
  "cache_topology_status \<Rightarrow> string \<Rightarrow> (string \<Rightarrow> string \<Rightarrow> string) \<Rightarrow> cache_topology_status \<times> string" where
  "promoteValkeyPrimary t candidate message =
     (let previousPrimary = ctop_primaryCluster t;
          standbys = ctop_standbyClusters t;
          renamed = map (\<lambda>s. if cs_clusterName s = candidate then demoted previousPrimary s else s) standbys;
          foundPreviousPrimary =
            list_ex (\<lambda>s. cs_clusterName s \<noteq> candidate \<and> cs_clusterName s = previousPrimary) standbys;
          added = (if \<not> foundPreviousPrimary \<and> previousPrimary \<noteq> ''''
                   then [demoted previousPrimary no_standby] else [])
      in (t\<lparr>ctop_primaryCluster := candidate, ctop_failoverReadiness := ''Promoted'',
            ctop_message := message candidate previousPrimary, ctop_standbyClusters := renamed @ added\<rparr>,
          previousPrimary))"

definition resyncing :: "string \<Rightarrow> cache_standby_status \<Rightarrow> cache_standby_status" where
  "resyncing requestName s =
     s\<lparr>cs_ready := False, cs_resyncRequired := True, cs_lagObserved := False, cs_replicationLagSeconds := 0,
       cs_message := ''Resynchronization requested by ActionRequest '' @ quote requestName @ ''.''\<rparr>"

text \<open>The first standby of the name is changed.\<close>

fun change_first :: "('a \<Rightarrow> bool) \<Rightarrow> ('a \<Rightarrow> 'a) \<Rightarrow> 'a list \<Rightarrow> 'a list" where
  "change_first P f [] = []"
| "change_first P f (x # xs) = (if P x then f x # xs else x # change_first P f xs)"

definition markValkeyStandbyResyncRequested ::
  "cache_topology_status \<Rightarrow> string \<Rightarrow> string \<Rightarrow> go_error + cache_topology_status" where
  "markValkeyStandbyResyncRequested t standby requestName =
     (if ctop_mode t \<noteq> ''multi-cluster-failover''
      then Inl (Errorf ''Valkey standby resync is only available for multi-cluster-failover topology'')
      else if standby = ctop_primaryCluster t
      then Inl (Errorf (''primary cluster '' @ quote standby @ '' cannot be resynced as a standby''))
      else if \<not> list_ex (\<lambda>s. cs_clusterName s = standby) (ctop_standbyClusters t)
      then Inl (Errorf (''standby cluster '' @ quote standby @ '' is not known''))
      else Inr (t\<lparr>ctop_standbyClusters :=
                   change_first (\<lambda>s. cs_clusterName s = standby) (resyncing requestName) (ctop_standbyClusters t),
                 ctop_failoverReadiness := ''Resyncing'',
                 ctop_message := ''Standby cluster '' @ quote standby @ '' is being resynchronized from primary '' @
                   quote (ctop_primaryCluster t) @ ''.''\<rparr>))"

definition valkeyStandbyAlreadyResyncing :: "cache_topology_status \<Rightarrow> string \<Rightarrow> bool" where
  "valkeyStandbyAlreadyResyncing t standby =
     (case find (\<lambda>s. cs_clusterName s = standby) (ctop_standbyClusters t) of
        None \<Rightarrow> False
      | Some s \<Rightarrow> cs_resyncRequired s \<and> \<not> cs_ready s)"

section \<open>Patching the status of an instance\<close>

text \<open>
  A change of the topology: the new one and the message of the result, or an error. \<open>patchOnce\<close> is
  one turn of the retry loop.
\<close>

type_synonym topology_change = "cache_topology_status \<Rightarrow> go_error + (cache_topology_status \<times> string)"

definition patchOnce :: "string \<Rightarrow> topology_change \<Rightarrow> string exec" where
  "patchOnce name change w =
     after_call (get_instance name w) (\<lambda>inst w.
       case change (sit_cacheTopology (si_status inst)) of
         Inl e \<Rightarrow> (Inl e, w)
       | Inr (t, message) \<Rightarrow>
           if t = sit_cacheTopology (si_status inst) then (Inr message, w)
           else after_call (patch_instance_status name ((si_status inst)\<lparr>sit_cacheTopology := t\<rparr>) w)
             (\<lambda>_ w. (Inr message, w)))"

text \<open>\<open>retry.RetryOnConflict\<close>: again while the error is a conflict and turns are left.\<close>

fun patchServiceInstanceStatus :: "nat \<Rightarrow> string \<Rightarrow> topology_change \<Rightarrow> string exec" where
  "patchServiceInstanceStatus 0 name change w = (Inl (ApiError Conflict), w)"
| "patchServiceInstanceStatus (Suc turns) name change w =
     (case patchOnce name change w of
        (r, w') \<Rightarrow> if r = Inl (ApiError Conflict) then patchServiceInstanceStatus turns name change w' else (r, w'))"

text \<open>\<open>retry.DefaultRetry\<close> has five steps.\<close>

abbreviation defaultRetry :: nat where "defaultRetry \<equiv> 5"

section \<open>The actions\<close>

definition failoverChange :: "string \<Rightarrow> string \<Rightarrow> topology_change" where
  "failoverChange candidate op t =
     (if trimSpace (ctop_primaryCluster t) = candidate
      then Inr (t, ''Valkey failover for operation '' @ quote op @ '' already promoted standby cluster '' @
        quote candidate @ ''.'')
      else (case applyValkeyFailoverPreflight t candidate of
              Some e \<Rightarrow> Inl e
            | None \<Rightarrow>
                Inr (fst (promoteValkeyPrimary t candidate (\<lambda>c p. ''Standby cluster '' @ quote c @
                    '' promoted from previous primary '' @ quote p @ ''.'')),
                  ''Valkey failover promoted standby cluster '' @ quote candidate @ ''.'')))"

definition rollbackChange :: "string \<Rightarrow> string \<Rightarrow> topology_change" where
  "rollbackChange target op t =
     (if trimSpace (ctop_primaryCluster t) = target
      then Inr (t, ''Valkey rollback for operation '' @ quote op @ '' already promoted cluster '' @ quote target @ ''.'')
      else (case applyValkeyFailoverPreflight t target of
              Some e \<Rightarrow> Inl e
            | None \<Rightarrow>
                (case promoteValkeyPrimary t target (\<lambda>c p. ''Rollback promoted cluster '' @ quote c @
                    '' from active primary '' @ quote p @ ''.'') of
                   (t', previousPrimary) \<Rightarrow>
                     Inr (t', ''Valkey rollback promoted cluster '' @ quote target @ '' from '' @
                       quote previousPrimary @ ''.''))))"

definition resyncChange :: "string \<Rightarrow> string \<Rightarrow> string \<Rightarrow> topology_change" where
  "resyncChange standby requestName op t =
     (if valkeyStandbyAlreadyResyncing t standby
      then Inr (t, ''Valkey standby cluster '' @ quote standby @ '' already marked for resynchronization by operation '' @
        quote op @ ''.'')
      else bind_sum (markValkeyStandbyResyncRequested t standby requestName) (\<lambda>t'.
        Inr (t', ''Valkey standby cluster '' @ quote standby @ '' marked for resynchronization.'')))"

definition executeValkeyAction ::
  "exec_env \<Rightarrow> service_context \<Rightarrow> action_request \<Rightarrow> string \<Rightarrow> action_execution_result exec" where
  "executeValkeyAction env ctx ar op w =
     (case sx_Instance ctx of
        None \<Rightarrow> (Inl (Errorf ''service instance context is required''), w)
      | Some inst \<Rightarrow>
          (let action = ars_action (ar_spec ar);
               name = m_name (si_meta inst);
               ref = \<lparr>tr_apiVersion = GroupVersionString, tr_kind = ''ServiceInstance'', tr_name = name,
                      tr_namespace = ''''\<rparr>;
               patch = (\<lambda>retryable change w.
                 case patchServiceInstanceStatus defaultRetry name change w of
                   (Inl e, w) \<Rightarrow> (Inl e, w)
                 | (Inr message, w) \<Rightarrow> (Inr (succeeded ref message retryable), w))
           in if action \<in> {ActionScale, ActionRestart, ActionRotateCredentials}
              then executeStatefulSetBackedAction env ctx ar op ''Valkey'' w
              else if action = ActionFailover
              then exec_bind (failoverCandidate ar) (\<lambda>candidate. patch False (failoverChange candidate op)) w
              else if action = ActionRollbackFailover
              then exec_bind (rollbackTarget ar inst) (\<lambda>target. patch False (rollbackChange target op)) w
              else if action = ActionResyncStandby
              then exec_bind (standbyTarget ar)
                (\<lambda>standby. patch True (resyncChange standby (m_name (ar_meta ar)) op)) w
              else (Inl (Errorf (''unsupported Valkey action '' @ quote action)), w)))"

end
