(* ===== verification/Valkey_Facts.thy ===== *)
theory Valkey_Facts
  imports Exec_Valkey Samples
begin

text \<open>
  Failover of caches. The topology changes by promotion, by resynchronization requests and by the
  observations of the adapter; an invariant of all three shows that only a ready standby is ever
  promoted, and that a primary that was once demoted never comes back.
\<close>

section \<open>Steps of the topology\<close>

inductive topology_step :: "cache_topology_status \<Rightarrow> cache_topology_status \<Rightarrow> bool" where
  promote: "applyValkeyFailoverPreflight t c = None \<Longrightarrow> topology_step t (fst (promoteValkeyPrimary t c message))"
| resync: "markValkeyStandbyResyncRequested t c request = Inr t' \<Longrightarrow> topology_step t t'"
| observe: "sx_Instance ctx = Some inst \<Longrightarrow> sit_cacheTopology (si_status inst) = t \<Longrightarrow>
    isValkeyFailoverTopology (planTopology ctx) \<Longrightarrow> validateParameters ctx p = [] \<Longrightarrow>
    cacheTopologyStatus ctx p = Some t' \<Longrightarrow> topology_step t t'"

definition no_topology :: cache_topology_status where
  "no_topology = \<lparr>ctop_mode = '''', ctop_primaryCluster = '''', ctop_standbyClusters = [],
     ctop_trafficEndpoint = '''', ctop_trafficPolicyRef = None, ctop_failoverReadiness = '''', ctop_message = ''''\<rparr>"

abbreviation topology_steps :: "cache_topology_status \<Rightarrow> cache_topology_status \<Rightarrow> bool" where
  "topology_steps \<equiv> topology_step\<^sup>*\<^sup>*"

text \<open>The three changes that the executor makes are steps, or leave the topology alone.\<close>

lemma failoverChange_step: "failoverChange c op t = Inr (t', m) \<Longrightarrow> t' = t \<or> topology_step t t'"
  by (auto simp: failoverChange_def intro: topology_step.promote split: if_splits option.splits)

lemma rollbackChange_step: "rollbackChange c op t = Inr (t', m) \<Longrightarrow> t' = t \<or> topology_step t t'"
  using topology_step.promote
  by (fastforce simp: rollbackChange_def split: if_splits option.splits prod.splits dest: arg_cong [of _ _ fst])

lemma resyncChange_step: "resyncChange c n op t = Inr (t', m) \<Longrightarrow> t' = t \<or> topology_step t t'"
  by (auto simp: resyncChange_def bind_sum_Inr intro: topology_step.resync split: if_splits)

section \<open>The invariant\<close>

abbreviation standby_names :: "cache_topology_status \<Rightarrow> string list" where
  "standby_names t \<equiv> map cs_clusterName (ctop_standbyClusters t)"

definition standbys_ok :: "cache_topology_status \<Rightarrow> bool" where
  "standbys_ok t \<longleftrightarrow>
     ctop_primaryCluster t \<notin> set (standby_names t) \<and> '''' \<notin> set (standby_names t) \<and>
     (\<forall>s \<in> set (ctop_standbyClusters t).
        (cs_resyncRequired s \<longrightarrow> \<not> cs_ready s) \<and>
        (\<not> cs_resyncRequired s \<longrightarrow> count_list (standby_names t) (cs_clusterName s) = 1))"

lemma standbys_ok_none: "standbys_ok no_topology"
  by (simp add: standbys_ok_def no_topology_def)

lemma preflight_None:
  "applyValkeyFailoverPreflight t c = None \<longleftrightarrow>
     ctop_mode t = ''multi-cluster-failover'' \<and> ctop_primaryCluster t \<noteq> '''' \<and> c \<noteq> ctop_primaryCluster t \<and>
     (\<exists>s. find (\<lambda>s. cs_clusterName s = c) (ctop_standbyClusters t) = Some s \<and> cs_ready s)"
  by (auto simp: applyValkeyFailoverPreflight_def split: option.splits)

lemma find_Some_in: "find P xs = Some x \<Longrightarrow> x \<in> set xs \<and> P x"
  by (induction xs) (auto split: if_splits)

lemma demoted_simps [simp]:
  "cs_clusterName (demoted p s) = p" "\<not> cs_ready (demoted p s)" "cs_resyncRequired (demoted p s)"
  by (simp_all add: demoted_def)

lemma count_list_map_other:
  "c \<noteq> n \<Longrightarrow> q \<noteq> n \<Longrightarrow>
     count_list (map (cs_clusterName \<circ> (\<lambda>s. if cs_clusterName s = c then demoted q s else s)) xs) n =
     count_list (map cs_clusterName xs) n"
  by (induction xs) auto

lemma promote_standbys:
  assumes "standbys_ok t" and "applyValkeyFailoverPreflight t c = None"
  shows "ctop_standbyClusters (fst (promoteValkeyPrimary t c message)) =
    map (\<lambda>s. if cs_clusterName s = c then demoted (ctop_primaryCluster t) s else s) (ctop_standbyClusters t) @
    [demoted (ctop_primaryCluster t) no_standby]"
  using assms by (auto simp: promoteValkeyPrimary_def Let_def list_ex_iff image_iff standbys_ok_def preflight_None)

lemma promote_primary [simp]: "ctop_primaryCluster (fst (promoteValkeyPrimary t c message)) = c"
  by (simp add: promoteValkeyPrimary_def Let_def)

lemma preflight_nonempty: "standbys_ok t \<Longrightarrow> applyValkeyFailoverPreflight t c = None \<Longrightarrow> c \<noteq> ''''"
  unfolding preflight_None standbys_ok_def by (auto dest!: find_Some_in simp: image_iff)

lemma promote_ok:
  assumes ok: "standbys_ok t" and pre: "applyValkeyFailoverPreflight t c = None"
  shows "standbys_ok (fst (promoteValkeyPrimary t c message))"
proof -
  let ?q = "ctop_primaryCluster t" and ?S = "ctop_standbyClusters t"
  let ?f = "\<lambda>s. if cs_clusterName s = c then demoted ?q s else s"
  define N where "N = map ?f ?S @ [demoted ?q no_standby]"
  have q: "?q \<notin> cs_clusterName ` set ?S" "?q \<noteq> ''''" "c \<noteq> ?q" "c \<noteq> ''''" "'''' \<notin> cs_clusterName ` set ?S"
    using ok pre preflight_nonempty [OF ok pre] by (auto simp: standbys_ok_def preflight_None)
  have nm: "n = ?q \<or> n \<in> cs_clusterName ` set ?S \<and> n \<noteq> c" if "n \<in> set (map cs_clusterName N)" for n
    using that by (auto simp: N_def split: if_split_asm)
  have names: "c \<notin> set (map cs_clusterName N)" "'''' \<notin> set (map cs_clusterName N)"
    using nm [of c] q(3) apply blast
    using nm [of "''''"] q(2,5) by metis
  have "(cs_resyncRequired s \<longrightarrow> \<not> cs_ready s) \<and>
      (\<not> cs_resyncRequired s \<longrightarrow> count_list (map cs_clusterName N) (cs_clusterName s) = 1)" if "s \<in> set N" for s
  proof (cases "s \<in> set ?S \<and> cs_clusterName s \<noteq> c")
    case True
    then have "cs_clusterName s \<noteq> ?q" using q(1) by (metis imageI)
    then show ?thesis using ok True count_list_map_other [of c "cs_clusterName s" ?q ?S]
      by (auto simp: standbys_ok_def N_def)
  next
    case False
    then have "\<exists>x. s = demoted ?q x" using that by (auto simp: N_def split: if_split_asm)
    then show ?thesis by auto
  qed
  then show ?thesis using names unfolding standbys_ok_def promote_standbys [OF ok pre, folded N_def] promote_primary
    by blast
qed

lemma map_change_first: "(\<And>x. g (f x) = g x) \<Longrightarrow> map g (change_first P f xs) = map g xs"
  by (induction xs) auto

lemma set_change_first: "y \<in> set (change_first P f xs) \<Longrightarrow> y \<in> set xs \<or> (\<exists>x \<in> set xs. P x \<and> y = f x)"
  by (induction xs) (auto split: if_splits)

lemma resyncing_simps [simp]:
  "cs_clusterName (resyncing r s) = cs_clusterName s" "\<not> cs_ready (resyncing r s)" "cs_resyncRequired (resyncing r s)"
  by (simp_all add: resyncing_def)

lemma resync_ok:
  assumes "standbys_ok t" and "markValkeyStandbyResyncRequested t c request = Inr t'"
  shows "standbys_ok t'"
proof -
  have t': "ctop_primaryCluster t' = ctop_primaryCluster t" "standby_names t' = standby_names t"
    "ctop_standbyClusters t' = change_first (\<lambda>s. cs_clusterName s = c) (resyncing request) (ctop_standbyClusters t)"
    using assms(2) by (auto simp: markValkeyStandbyResyncRequested_def map_change_first split: if_splits)
  show ?thesis
    using assms(1) unfolding standbys_ok_def t'(1,2) unfolding t'(3) by (auto dest!: set_change_first)
qed

lemma existing_in:
  "existingStandby xs n \<noteq> no_standby \<Longrightarrow> existingStandby xs n \<in> set xs \<and> cs_clusterName (existingStandby xs n) = n"
  by (auto simp: existingStandby_def split: option.splits dest: map_of_SomeD)

lemma existing_of_member:
  assumes "s \<in> set xs" and "\<And>s'. s' \<in> set xs \<Longrightarrow> cs_clusterName s' = cs_clusterName s \<Longrightarrow> P s'"
  shows "P (existingStandby xs (cs_clusterName s))"
proof -
  have "map_of (rev (map (\<lambda>s. (cs_clusterName s, s)) xs)) (cs_clusterName s) \<noteq> None"
    using assms(1) by (auto simp: map_of_eq_None_iff image_image)
  then obtain x where "map_of (rev (map (\<lambda>s. (cs_clusterName s, s)) xs)) (cs_clusterName s) = Some x" by blast
  then show ?thesis using assms(2) by (auto simp: existingStandby_def split: option.splits dest!: map_of_SomeD)
qed

lemma observe_simps [simp]:
  "cs_clusterName (observeStandby p xs n) = n"
  "cs_resyncRequired (observeStandby p xs n) = cs_resyncRequired (existingStandby xs n)"
  "cs_resyncRequired (existingStandby xs n) \<Longrightarrow> \<not> cs_ready (observeStandby p xs n)"
  by (simp_all add: observeStandby_def Let_def split: option.splits)

lemma standbyIssues_Nil:
  "standbyIssues q seen ns = [] \<longleftrightarrow> '''' \<notin> set ns \<and> q \<notin> set ns \<and> distinct ns \<and> seen \<inter> set ns = {}"
  by (induction q seen ns rule: standbyIssues.induct) auto

lemma count_filter: "P n \<Longrightarrow> count_list (filter P xs) n = count_list xs n"
  by (induction xs) auto

lemma count_distinct: "distinct xs \<Longrightarrow> n \<in> set xs \<Longrightarrow> count_list xs n = 1"
  by (induction xs) auto

lemma observe_topology:
  assumes "sx_Instance ctx = Some inst" and "isValkeyFailoverTopology (planTopology ctx)"
    and "cacheTopologyStatus ctx p = Some t'"
  shows "ctop_mode t' = planTopology ctx" "ctop_primaryCluster t' = primaryCluster ctx p"
    "ctop_standbyClusters t' = map (observeStandby p (ctop_standbyClusters (sit_cacheTopology (si_status inst))))
       (filter (\<lambda>n. n \<noteq> primaryCluster ctx p) (standbyClusters ctx p))"
  using assms by (auto simp: cacheTopologyStatus_def Let_def split: option.splits)

lemma observe_ok:
  assumes inst: "sx_Instance ctx = Some inst" and ok: "standbys_ok (sit_cacheTopology (si_status inst))"
    and topo: "isValkeyFailoverTopology (planTopology ctx)" and valid: "validateParameters ctx p = []"
    and t': "cacheTopologyStatus ctx p = Some t'"
  shows "standbys_ok t'"
proof -
  let ?old = "ctop_standbyClusters (sit_cacheTopology (si_status inst))"
  let ?names = "filter (\<lambda>n. n \<noteq> primaryCluster ctx p) (standbyClusters ctx p)"
  note obs = observe_topology [OF inst topo t']
  have names: "standby_names t' = ?names" by (simp add: obs o_def)
  have distinct: "distinct (vk_StandbyClusters p)"
    using valid topo by (simp add: validateParameters_def standbyIssues_Nil)
  have one: "count_list ?names n = 1" if n: "n \<in> set ?names" "\<not> cs_resyncRequired (existingStandby ?old n)" for n
  proof (cases "?old = []")
    case True
    then have "standbyClusters ctx p = vk_StandbyClusters p" using inst by (simp add: standbyClusters_def)
    then show ?thesis using n distinct by (simp add: count_distinct)
  next
    case False
    then have sc: "standbyClusters ctx p = filter (\<lambda>n. n \<noteq> '''') (map cs_clusterName ?old)"
      using inst by (simp add: standbyClusters_def)
    then obtain s where s: "s \<in> set ?old" "n = cs_clusterName s" using n(1) by auto
    have "\<not> cs_resyncRequired (existingStandby ?old (cs_clusterName s)) \<longrightarrow>
        count_list (map cs_clusterName ?old) (cs_clusterName s) = 1"
      by (rule existing_of_member [OF s(1)]) (use ok in \<open>auto simp: standbys_ok_def\<close>)
    then have "count_list (map cs_clusterName ?old) n = 1" using n(2) s(2) by simp
    then show ?thesis using n(1) sc by (simp add: count_filter)
  qed
  have "'''' \<notin> set (standbyClusters ctx p)"
    using inst valid topo by (auto simp: standbyClusters_def validateParameters_def standbyIssues_Nil)
  then show ?thesis
    unfolding standbys_ok_def names using one by (auto simp: obs)
qed

lemma step_ok: "topology_step t t' \<Longrightarrow> standbys_ok t \<Longrightarrow> standbys_ok t'"
  by (induction rule: topology_step.induct) (auto intro: promote_ok resync_ok observe_ok)

lemma steps_ok: "topology_steps t t' \<Longrightarrow> standbys_ok t \<Longrightarrow> standbys_ok t'"
  by (induction rule: rtranclp_induct) (auto intro: step_ok)

section \<open>A demoted primary stays demoted\<close>

definition retired :: "string \<Rightarrow> cache_topology_status \<Rightarrow> bool" where
  "retired c t \<longleftrightarrow>
     c \<noteq> '''' \<and> ctop_primaryCluster t \<notin> {'''', c} \<and> c \<in> set (standby_names t) \<and>
     (\<forall>s \<in> set (ctop_standbyClusters t). cs_clusterName s = c \<longrightarrow> cs_resyncRequired s \<and> \<not> cs_ready s)"

lemma retired_not_promotable: "retired c t \<Longrightarrow> applyValkeyFailoverPreflight t c \<noteq> None"
  unfolding preflight_None retired_def using find_Some_in by fastforce

lemma promote_retires:
  assumes "standbys_ok t" and "applyValkeyFailoverPreflight t c = None"
  shows "retired (ctop_primaryCluster t) (fst (promoteValkeyPrimary t c message))"
proof -
  have "c \<noteq> ''''" using preflight_nonempty assms by blast
  then show ?thesis using assms unfolding retired_def standbys_ok_def preflight_None
    by (auto simp: promoteValkeyPrimary_def Let_def list_ex_iff image_iff)
qed

lemma retired_step: "topology_step t t' \<Longrightarrow> standbys_ok t \<Longrightarrow> retired c t \<Longrightarrow> retired c t'"
proof (induction rule: topology_step.induct)
  case (promote t d message)
  have "d \<noteq> c" "d \<noteq> ''''" using promote retired_not_promotable preflight_nonempty by blast+
  then show ?case using promote unfolding retired_def preflight_None
    by (auto simp: promoteValkeyPrimary_def Let_def)
next
  case (resync t d request t')
  then have t': "ctop_primaryCluster t' = ctop_primaryCluster t" "standby_names t' = standby_names t"
    "ctop_standbyClusters t' = change_first (\<lambda>s. cs_clusterName s = d) (resyncing request) (ctop_standbyClusters t)"
    by (auto simp: markValkeyStandbyResyncRequested_def map_change_first split: if_splits)
  show ?case
    using resync.prems(2) unfolding retired_def t'(1,2) unfolding t'(3) by (auto dest!: set_change_first)
next
  case (observe ctx inst t p t')
  let ?old = "ctop_standbyClusters t"
  note obs = observe_topology [OF observe(1,3,5), unfolded observe(2)]
  obtain s where s: "s \<in> set ?old" "cs_clusterName s = c" using observe.prems by (auto simp: retired_def)
  have "cs_resyncRequired (existingStandby ?old (cs_clusterName s))"
    by (rule existing_of_member [OF s(1)]) (use observe.prems s(2) in \<open>auto simp: retired_def\<close>)
  moreover have "c \<in> set (standbyClusters ctx p)"
    using observe(1,2) observe.prems s by (auto simp: standbyClusters_def retired_def)
  moreover have "primaryCluster ctx p \<notin> {'''', c}"
    using observe(1,2) observe.prems by (auto simp: primaryCluster_def retired_def)
  ultimately show ?case using observe.prems s(2) unfolding retired_def obs
    by auto
qed

lemma retired_steps: "topology_steps t t' \<Longrightarrow> standbys_ok t \<Longrightarrow> retired c t \<Longrightarrow> retired c t'"
proof (induction rule: rtranclp_induct)
  case (step u v)
  then show ?case using retired_step steps_ok by blast
qed

lemma reachable_ok: "topology_steps no_topology t \<Longrightarrow> standbys_ok t"
  using steps_ok standbys_ok_none by blast

section \<open>Changes through the API\<close>

abbreviation topology_of :: "service_instance \<Rightarrow> cache_topology_status" where
  "topology_of x \<equiv> sit_cacheTopology (si_status x)"

abbreviation with_topology :: "cache_topology_status \<Rightarrow> service_instance \<Rightarrow> service_instance" where
  "with_topology t x \<equiv> x\<lparr>si_status := (si_status x)\<lparr>sit_cacheTopology := t\<rparr>\<rparr>"

lemma get_instance_cluster: "get_instance n w = (r, w') \<Longrightarrow> \<exists>fs. w' = w\<lparr>w_faults := fs\<rparr>"
  by (simp add: get_instance_def reads_cluster)

lemma get_instance_Inr: "get_instance n w = (Inr x, w') \<Longrightarrow> w_instances w n = Some x"
  unfolding get_instance_def by (drule reads_Inr) simp_all

lemma patch_instance_status_cases:
  assumes "patch_instance_status n st w = (r, w')" and "w_instances w n = Some x"
  obtains fs where "w' = w\<lparr>w_faults := fs\<rparr>" "r \<noteq> Inr ()"
  | fs where "w' = w\<lparr>w_faults := fs, w_instances := (w_instances w)(n \<mapsto> x\<lparr>si_status := st\<rparr>)\<rparr>"
  using writes_cluster [OF assms(1) [unfolded patch_instance_status_def]] assms(2) that by auto

text \<open>One turn leaves the instances alone or makes the change; it reports success only of what is stored.\<close>

lemma patchOnce_outcome:
  assumes "patchOnce n change w = (r, w')"
  shows "\<exists>fs. w' = w\<lparr>w_faults := fs\<rparr> \<and>
      (is_ok r \<longrightarrow> (\<exists>x m. w_instances w n = Some x \<and> change (topology_of x) = Inr (topology_of x, m))) \<or>
    (\<exists>x t m. w_instances w n = Some x \<and> change (topology_of x) = Inr (t, m) \<and>
      w' = w\<lparr>w_faults := fs, w_instances := (w_instances w)(n \<mapsto> with_topology t x)\<rparr>)"
proof -
  obtain r1 w1 where g: "get_instance n w = (r1, w1)" by fastforce
  obtain fs where w1: "w1 = w\<lparr>w_faults := fs\<rparr>" using get_instance_cluster [OF g] by blast
  show ?thesis
  proof (cases r1)
    case (Inl e)
    then show ?thesis using assms g w1 by (auto simp: patchOnce_def)
  next
    case (Inr x)
    have x: "w_instances w n = Some x" using get_instance_Inr g Inr by blast
    show ?thesis
    proof (cases "change (topology_of x)")
      case (Inl e)
      then show ?thesis using assms g w1 Inr by (auto simp: patchOnce_def)
    next
      case c: (Inr tm)
      obtain t m where tm: "tm = (t, m)" by fastforce
      show ?thesis
      proof (cases "t = topology_of x")
        case True
        then show ?thesis using assms g w1 Inr c tm x by (auto simp: patchOnce_def)
      next
        case False
        obtain r2 w2 where p: "patch_instance_status n ((si_status x)\<lparr>sit_cacheTopology := t\<rparr>) w1 = (r2, w2)"
          by fastforce
        have "w' = w2" "is_ok r \<longrightarrow> r2 = Inr ()"
          using assms g Inr c tm False p by (auto simp: patchOnce_def after_call_def split: sum.splits)
        moreover have "w_instances w1 n = Some x" using x w1 by simp
        ultimately show ?thesis using w1 x c tm
          by (cases rule: patch_instance_status_cases [OF p]) auto
      qed
    qed
  qed
qed

text \<open>A change that finds nothing to do where it has been made may be retried.\<close>

definition settles :: "topology_change \<Rightarrow> bool" where
  "settles change \<longleftrightarrow> (\<forall>t t' m. change t = Inr (t', m) \<longrightarrow> (\<exists>m'. change t' = Inr (t', m')))"

lemma patch_outcome:
  assumes "patchServiceInstanceStatus k n change w = (r, w')" and "settles change"
  shows "\<exists>fs. w' = w\<lparr>w_faults := fs\<rparr> \<and>
      (is_ok r \<longrightarrow> (\<exists>x m. w_instances w n = Some x \<and> change (topology_of x) = Inr (topology_of x, m))) \<or>
    (\<exists>x t m. w_instances w n = Some x \<and> change (topology_of x) = Inr (t, m) \<and>
      w' = w\<lparr>w_faults := fs, w_instances := (w_instances w)(n \<mapsto> with_topology t x)\<rparr>)"
  using assms(1)
proof (induction k arbitrary: w)
  case 0
  then show ?case by (intro exI [of _ "w_faults w"]) auto
next
  case (Suc k)
  obtain r1 w1 where p: "patchOnce n change w = (r1, w1)" by fastforce
  show ?case
  proof (cases "r1 = Inl (ApiError Conflict)")
    case False
    then have same: "r = r1" "w' = w1" using Suc.prems p by simp_all
    show ?thesis unfolding same by (rule patchOnce_outcome [OF p])
  next
    case True
    then have rest: "patchServiceInstanceStatus k n change w1 = (r, w')" using Suc.prems p by simp
    obtain fs1 where "w1 = w\<lparr>w_faults := fs1\<rparr> \<or> (\<exists>x t m. w_instances w n = Some x \<and>
        change (topology_of x) = Inr (t, m) \<and>
        w1 = w\<lparr>w_faults := fs1, w_instances := (w_instances w)(n \<mapsto> with_topology t x)\<rparr>)"
      using patchOnce_outcome [OF p] by blast
    then consider (same) "w1 = w\<lparr>w_faults := fs1\<rparr>"
      | (changed) x t m where "w_instances w n = Some x" "change (topology_of x) = Inr (t, m)"
        "w1 = w\<lparr>w_faults := fs1, w_instances := (w_instances w)(n \<mapsto> with_topology t x)\<rparr>" by blast
    then show ?thesis
    proof cases
      case same
      then show ?thesis using Suc.IH [OF rest] by simp
    next
      case changed
      obtain m' where again: "change t = Inr (t, m')" using assms(2) changed(2) unfolding settles_def by blast
      have stored: "w_instances w1 n = Some (with_topology t x)" by (simp add: changed(3))
      have same: "w1\<lparr>w_faults := fs, w_instances := (w_instances w1)(n \<mapsto> with_topology t x)\<rparr> = w1\<lparr>w_faults := fs\<rparr>" for fs
        using changed(3) by (simp del: fun_upd_apply)
      obtain fs where "w' = w1\<lparr>w_faults := fs\<rparr>"
        using Suc.IH [OF rest] unfolding stored using again same by (auto simp del: fun_upd_apply)
      then show ?thesis using changed by (intro exI [of _ fs]) (auto simp del: fun_upd_apply)
    qed
  qed
qed

section \<open>Properties\<close>

text \<open>
  C31 A failover that reports success has made its candidate the primary of the stored instance: either
  it was the primary already and nothing changed, or it was a standby that passed the preflight, and
  the status of that instance is all that changed, whatever calls were refused, lost or repeated.
\<close>

theorem valkey_failover_outcome:
  assumes "executeValkeyAction env ctx ar op w = (Inr res, w')" and "sx_Instance ctx = Some inst"
    and "ars_action (ar_spec ar) = ActionFailover"
  shows "\<exists>c x fs. failoverCandidate ar = Inr c \<and> w_instances w (m_name (si_meta inst)) = Some x \<and>
    (trimSpace (ctop_primaryCluster (topology_of x)) = c \<and> w' = w\<lparr>w_faults := fs\<rparr> \<or>
     (\<exists>message. applyValkeyFailoverPreflight (topology_of x) c = None \<and>
        w' = w\<lparr>w_faults := fs, w_instances := (w_instances w)(m_name (si_meta inst) \<mapsto>
          with_topology (fst (promoteValkeyPrimary (topology_of x) c message)) x)\<rparr>))"
proof -
  let ?n = "m_name (si_meta inst)"
  obtain c where c: "failoverCandidate ar = Inr c"
    using assms by (cases "failoverCandidate ar") (auto simp: executeValkeyAction_def Let_def)
  obtain r1 w1 where p: "patchServiceInstanceStatus defaultRetry ?n (failoverChange c op) w = (r1, w1)" by fastforce
  have r1: "w' = w1" "is_ok r1"
    using assms c p by (auto simp: executeValkeyAction_def Let_def split: sum.splits)
  have "trimSpace c = c"
    using c by (auto simp: failoverCandidate_def bind_sum_Inr trimSpace_idem split: if_splits)
  then have settles: "settles (failoverChange c op)"
    by (auto simp: settles_def failoverChange_def split: if_splits option.splits)
  obtain fs where out: "w1 = w\<lparr>w_faults := fs\<rparr> \<and> (\<exists>x m. w_instances w ?n = Some x \<and>
        failoverChange c op (topology_of x) = Inr (topology_of x, m)) \<or>
      (\<exists>x t m. w_instances w ?n = Some x \<and> failoverChange c op (topology_of x) = Inr (t, m) \<and>
        w1 = w\<lparr>w_faults := fs, w_instances := (w_instances w)(?n \<mapsto> with_topology t x)\<rparr>)"
    using patch_outcome [OF p settles] r1(2) by blast
  have change: "t = topology_of x \<and> trimSpace (ctop_primaryCluster (topology_of x)) = c \<or>
      (\<exists>message. applyValkeyFailoverPreflight (topology_of x) c = None \<and>
         t = fst (promoteValkeyPrimary (topology_of x) c message))"
    if "failoverChange c op (topology_of x) = Inr (t, m)" for x t m
    using that by (auto simp: failoverChange_def split: if_splits option.splits)
  have moved: "fst (promoteValkeyPrimary t c message) \<noteq> t" if "applyValkeyFailoverPreflight t c = None" for t message
    using that promote_primary [of t c message] by (metis preflight_None)
  have same: "w\<lparr>w_faults := fs, w_instances := (w_instances w)(?n \<mapsto> with_topology (topology_of x) x)\<rparr> =
      w\<lparr>w_faults := fs\<rparr>" if "w_instances w ?n = Some x" for x
    using that by (simp add: fun_upd_idem)
  from out show ?thesis
  proof (elim disjE conjE exE)
    fix x m
    assume "w1 = w\<lparr>w_faults := fs\<rparr>" "w_instances w ?n = Some x"
      "failoverChange c op (topology_of x) = Inr (topology_of x, m)"
    then show ?thesis using c r1(1) change [of x "topology_of x" m] moved by metis
  next
    fix x t m
    assume "w_instances w ?n = Some x" "failoverChange c op (topology_of x) = Inr (t, m)"
      "w1 = w\<lparr>w_faults := fs, w_instances := (w_instances w)(?n \<mapsto> with_topology t x)\<rparr>"
    then show ?thesis using c r1(1) change [of x t m] same by metis
  qed
qed


lemma plain_plans_forget_standbys:
  assumes "\<not> isValkeyFailoverTopology (planTopology ctx)" and "cacheTopologyStatus ctx p = Some t"
  shows "ctop_standbyClusters t = [] \<and> ctop_primaryCluster t = instanceCluster ctx"
  using assms by (auto simp: cacheTopologyStatus_def split: option.splits)

text \<open>
  A rollback that names no target never changes the topology: the standby it selects, the one that
  is marked for resynchronization, is one that the preflight refuses.
\<close>

theorem rollback_without_target_changes_nothing:
  assumes "topology_steps no_topology (topology_of inst)" and "ars_parameters (ar_spec ar) = None"
    and "rollbackTarget ar inst = Inr target"
  shows "\<forall>t m. rollbackChange target op (topology_of inst) = Inr (t, m) \<longrightarrow> t = topology_of inst"
proof -
  let ?S = "ctop_standbyClusters (topology_of inst)"
  have ok: "standbys_ok (topology_of inst)" using reachable_ok assms(1) by blast
  have "rollbackTarget ar inst = (case find cs_resyncRequired ?S of
      Some s \<Rightarrow> Inr (cs_clusterName s) | None \<Rightarrow> Inl (Errorf ''rollback-failover action requires parameters.targetPrimary when no resync-required previous primary is recorded''))"
    using assms(2) by (simp add: rollbackTarget_def decode_parameters_def trimSpace_Nil)
  then obtain s where s: "s \<in> set ?S" "cs_resyncRequired s" "target = cs_clusterName s"
    using assms(3) by (auto dest: find_Some_in split: option.splits)
  have "applyValkeyFailoverPreflight (topology_of inst) target \<noteq> None"
  proof
    assume "applyValkeyFailoverPreflight (topology_of inst) target = None"
    then obtain s' where s': "s' \<in> set ?S" "cs_clusterName s' = target" "cs_ready s'"
      unfolding preflight_None by (auto dest: find_Some_in)
    then have one: "\<not> cs_resyncRequired s'" "count_list (standby_names (topology_of inst)) target = 1"
      using ok unfolding standbys_ok_def by auto
    obtain i j where ij: "i < length ?S" "?S ! i = s" "j < length ?S" "?S ! j = s'"
      using s(1) s'(1) by (metis in_set_conv_nth)
    then have "i \<noteq> j" using s(2) one(1) by auto
    then have "card {k. k < length ?S \<and> standby_names (topology_of inst) ! k = target} \<ge> 2"
      using ij s(3) s'(2) card_mono [of "{k. k < length ?S \<and> standby_names (topology_of inst) ! k = target}" "{i, j}"]
      by auto
    then show False using one(2) by (simp add: count_list_eq_length_filter length_filter_conv_card eq_commute)
  qed
  then show ?thesis by (auto simp: rollbackChange_def split: if_splits option.splits)
qed

text \<open>
  A plan of topology \<open>multi-region\<close> offers the failover action, but no failover of its instances
  ever passes the preflight, which knows the other failover topology only.
\<close>

theorem multi_region_failover_refused:
  assumes "planTopology ctx = ''multi-region''" and "cacheTopologyStatus ctx p = Some t"
  shows "capability ActionFailover ''Failover'' True True \<in> set (valkey_SupportedActions ctx) \<and>
    applyValkeyFailoverPreflight t c \<noteq> None"
proof -
  obtain inst where "sx_Instance ctx = Some inst"
    using assms(2) by (auto simp: cacheTopologyStatus_def split: option.splits)
  then have "ctop_mode t = ''multi-region''"
    using observe_topology(1) [OF _ _ assms(2)] assms(1) by (simp add: isValkeyFailoverTopology_def)
  then show ?thesis using assms(1)
    by (simp add: valkey_SupportedActions_def isValkeyFailoverTopology_def ValkeyContract_def preflight_None)
qed

lemma count_renamed:
  "q \<notin> set (map cs_clusterName xs) \<Longrightarrow>
     count_list (map cs_clusterName (map (\<lambda>s. if cs_clusterName s = c then demoted q s else s) xs)) q =
     count_list (map cs_clusterName xs) c"
  by (induction xs) auto

text \<open>
  A promotion lists the previous primary twice: the entry of the promoted standby is renamed to it,
  and as no other entry has its name, one more is appended.
\<close>

theorem promotion_duplicates_previous_primary:
  assumes "topology_steps no_topology t" and "applyValkeyFailoverPreflight t c = None"
  shows "count_list (standby_names (fst (promoteValkeyPrimary t c message))) (ctop_primaryCluster t) = 2"
proof -
  have ok: "standbys_ok t" using reachable_ok assms(1) by blast
  obtain s where s: "s \<in> set (ctop_standbyClusters t)" "cs_clusterName s = c" "cs_ready s"
    using assms(2) unfolding preflight_None by (auto dest: find_Some_in)
  then have "count_list (standby_names t) c = 1" using ok unfolding standbys_ok_def by auto
  moreover have "ctop_primaryCluster t \<notin> set (standby_names t)" using ok by (simp add: standbys_ok_def)
  ultimately show ?thesis
    unfolding promote_standbys [OF ok assms(2)] map_append using count_renamed [of "ctop_primaryCluster t"]
    by (simp del: map_map)
qed

section \<open>A concrete cache\<close>

definition cachePlan :: "string \<Rightarrow> service_plan" where
  "cachePlan topology = (samplePlan [] None)\<lparr>spl_spec := (spl_spec (samplePlan [] None))\<lparr>sps_topology := topology\<rparr>\<rparr>"

definition cacheContext :: "string \<Rightarrow> service_context" where
  "cacheContext topology = \<lparr>sx_Tenant = Some sampleTenant, sx_Project = Some sampleProject, sx_ClusterTarget = None,
     sx_Class = Some sampleClass, sx_Plan = Some (cachePlan topology), sx_Instance = Some (sampleInstance None)\<rparr>"

definition cacheParameters :: valkeyParameters where
  "cacheParameters = no_valkey\<lparr>vk_MemoryProfile := ''small'', vk_MemoryLimit := ''256Mi'', vk_Persistence := ''none'',
     vk_PrimaryCluster := ''east'', vk_StandbyClusters := [''west''], vk_ReplicationLagSeconds := [(''west'', 5)]\<rparr>"

definition cacheTopology :: cache_topology_status where
  "cacheTopology = the (cacheTopologyStatus (cacheContext ''multi-cluster-failover'') cacheParameters)"

lemma cache_defs:
  "planTopology (cacheContext topology) = topology"
  "sx_Instance (cacheContext topology) = Some (sampleInstance None)"
  "topology_of (sampleInstance None) = no_topology"
  by (simp_all add: planTopology_def cacheContext_def cachePlan_def sampleInstance_def sampleInstanceStatus_def no_topology_def)

lemma cache_standbys:
  "primaryCluster (cacheContext topology) cacheParameters = ''east''"
  "standbyClusters (cacheContext topology) cacheParameters = [''west'']"
  by (simp_all add: primaryCluster_def requestedPrimaryCluster_def standbyClusters_def cache_defs no_topology_def
      cacheParameters_def)

lemma cache_observed:
  assumes "isValkeyFailoverTopology topology"
  shows "\<exists>t. cacheTopologyStatus (cacheContext topology) cacheParameters = Some t"
  using assms by (simp add: cacheTopologyStatus_def cache_defs cacheContext_def)

lemma cache_topology: "cacheTopologyStatus (cacheContext ''multi-cluster-failover'') cacheParameters = Some cacheTopology"
  using cache_observed [of "''multi-cluster-failover''"] by (auto simp: cacheTopology_def isValkeyFailoverTopology_def)

lemma cache_reachable: "topology_steps no_topology cacheTopology"
proof -
  have "validateParameters (cacheContext ''multi-cluster-failover'') cacheParameters = []"
    by (simp add: validateParameters_def cache_defs cache_standbys requestedPrimaryCluster_def requiresPodMesh_def
        valkey_replicas_def isValkeyFailoverTopology_def)
      (simp add: cacheParameters_def no_valkey_def cacheContext_def)
  then have "topology_step no_topology cacheTopology"
    using topology_step.observe [OF cache_defs(2,3), of "''multi-cluster-failover''" cacheParameters cacheTopology]
      cache_topology by (simp add: cache_defs isValkeyFailoverTopology_def)
  then show ?thesis by blast
qed

lemma cache_preflight: "applyValkeyFailoverPreflight cacheTopology ''west'' = None"
proof -
  note obs = observe_topology [OF cache_defs(2) _ cache_topology, unfolded cache_defs cache_standbys, simplified isValkeyFailoverTopology_def]
  have "cs_ready (observeStandby cacheParameters [] ''west'')"
    by (simp add: observeStandby_def existingStandby_def no_standby_def cacheParameters_def no_valkey_def
        maxReplicationLagSeconds_def)
  then show ?thesis using obs by (simp add: preflight_None no_topology_def)
qed


theorem promotion_duplicates_previous_primary_witness:
  "count_list (standby_names (fst (promoteValkeyPrimary cacheTopology ''west'' (\<lambda>c p. ''''))))
     (ctop_primaryCluster cacheTopology) = 2"
  by (rule promotion_duplicates_previous_primary [OF cache_reachable cache_preflight])

theorem multi_region_failover_refused_witness:
  "\<exists>t. cacheTopologyStatus (cacheContext ''multi-region'') cacheParameters = Some t \<and>
     applyValkeyFailoverPreflight t ''west'' \<noteq> None"
proof -
  obtain t where t: "cacheTopologyStatus (cacheContext ''multi-region'') cacheParameters = Some t"
    using cache_observed [of "''multi-region''"] by (auto simp: isValkeyFailoverTopology_def)
  from multi_region_failover_refused [OF cache_defs(1) t] t show ?thesis by blast
qed

definition promotedInstance :: service_instance where
  "promotedInstance = with_topology (fst (promoteValkeyPrimary cacheTopology ''west'' (\<lambda>c p. ''''))) (sampleInstance None)"

theorem rollback_without_target_changes_nothing_witness:
  "\<exists>target. rollbackTarget (sampleRequest ApprovalModeAuto 1) promotedInstance = Inr target \<and>
     (\<forall>t m. rollbackChange target ''op-1'' (topology_of promotedInstance) = Inr (t, m) \<longrightarrow> t = topology_of promotedInstance)"
proof -
  have "topology_step cacheTopology (topology_of promotedInstance)"
    using topology_step.promote [OF cache_preflight] by (simp add: promotedInstance_def)
  with cache_reachable have r: "topology_steps no_topology (topology_of promotedInstance)" by simp
  have p: "ars_parameters (ar_spec (sampleRequest ApprovalModeAuto 1)) = None" by (simp add: sampleRequest_def)
  have "demoted (ctop_primaryCluster cacheTopology) no_standby \<in> set (ctop_standbyClusters (topology_of promotedInstance))"
    using promote_standbys [OF reachable_ok [OF cache_reachable] cache_preflight] by (simp add: promotedInstance_def)
  then have "find cs_resyncRequired (ctop_standbyClusters (topology_of promotedInstance)) \<noteq> None"
    by (auto simp: find_None_iff)
  then obtain target where t: "rollbackTarget (sampleRequest ApprovalModeAuto 1) promotedInstance = Inr target"
    using p by (auto simp: rollbackTarget_def decode_parameters_def trimSpace_Nil)
  from rollback_without_target_changes_nothing [OF r p t] t show ?thesis by blast
qed

definition failoverRequest :: action_request where
  "failoverRequest = (sampleRequest ApprovalModeAuto 1)
     \<lparr>ar_spec := (ar_spec (sampleRequest ApprovalModeAuto 1))
        \<lparr>ars_action := ActionFailover,
          ars_parameters := Some (json_encode (JObj [(''candidateCluster'', JStr ''west'')]))\<rparr>\<rparr>"

definition cacheWorld :: world where
  "cacheWorld = \<lparr>w_instances = [''db'' \<mapsto> with_topology cacheTopology (sampleInstance None)],
     w_statefulSets = Map.empty, w_secrets = Map.empty, w_quotas = Map.empty, w_serviceAccounts = Map.empty,
     w_roles = Map.empty, w_roleBindings = Map.empty, w_jobs = Map.empty, w_backups = Map.empty, w_faults = []\<rparr>"

lemma failover_candidate: "failoverCandidate failoverRequest = Inr ''west''"
  by code_simp

lemma cache_primary: "ctop_primaryCluster cacheTopology = ''east''"
  using observe_topology(2) [OF cache_defs(2) _ cache_topology]
  by (simp add: cache_defs cache_standbys isValkeyFailoverTopology_def)

lemma cache_failover:
  "\<exists>t m. failoverChange ''west'' ''op-1'' cacheTopology = Inr (t, m) \<and> t \<noteq> cacheTopology"
proof -
  have "trimSpace ''east'' \<noteq> ''west''" by code_simp
  then obtain message m where m: "failoverChange ''west'' ''op-1'' cacheTopology =
      Inr (fst (promoteValkeyPrimary cacheTopology ''west'' message), m)"
    using cache_preflight by (simp add: failoverChange_def cache_primary)
  have "ctop_primaryCluster (fst (promoteValkeyPrimary cacheTopology ''west'' message)) \<noteq>
      ctop_primaryCluster cacheTopology"
    by (simp add: cache_primary)
  then have "fst (promoteValkeyPrimary cacheTopology ''west'' message) \<noteq> cacheTopology" by metis
  with m show ?thesis by blast
qed

lemma cache_patch: "is_ok (fst (patchServiceInstanceStatus defaultRetry ''db'' (failoverChange ''west'' ''op-1'') cacheWorld))"
proof -
  obtain t m where t: "failoverChange ''west'' ''op-1'' cacheTopology = Inr (t, m)" "t \<noteq> cacheTopology"
    using cache_failover by blast
  have "no_faults cacheWorld" "w_instances cacheWorld ''db'' = Some (with_topology cacheTopology (sampleInstance None))"
    by (simp_all add: cacheWorld_def)
  then have "is_ok (fst (patchOnce ''db'' (failoverChange ''west'' ''op-1'') cacheWorld))"
    using t by (simp add: patchOnce_def get_instance_def reads_none patch_instance_status_def writes_none must_exist_def)
  then obtain x w where "patchOnce ''db'' (failoverChange ''west'' ''op-1'') cacheWorld = (Inr x, w)"
    by (metis is_ok_iff prod.collapse)
  moreover have "defaultRetry = Suc 4" by simp
  ultimately show ?thesis by (simp only: patchServiceInstanceStatus.simps) simp
qed

lemma cache_name: "m_name (si_meta (sampleInstance None)) = ''db''"
  by (simp add: sampleInstance_def)

lemma failover_action: "ars_action (ar_spec failoverRequest) = ActionFailover"
  by (simp add: failoverRequest_def)

definition cacheEnv :: exec_env where
  "cacheEnv = \<lparr>xe_now = '''', xe_password = Inr ''''\<rparr>"

lemma cache_executes:
  "is_ok (fst (executeValkeyAction cacheEnv (cacheContext ''multi-cluster-failover'') failoverRequest ''op-1'' cacheWorld))"
proof -
  obtain m w where "patchServiceInstanceStatus defaultRetry ''db'' (failoverChange ''west'' ''op-1'') cacheWorld = (Inr m, w)"
    using cache_patch by (metis is_ok_iff prod.collapse)
  then show ?thesis
    by (simp add: executeValkeyAction_def cache_defs(2) Let_def failover_action failover_candidate cache_name
        del: patchServiceInstanceStatus.simps)
qed

theorem valkey_failover_outcome_witness:
  "\<exists>x. w_instances (snd (executeValkeyAction cacheEnv (cacheContext ''multi-cluster-failover'') failoverRequest
       ''op-1'' cacheWorld)) ''db'' = Some x \<and> ctop_primaryCluster (topology_of x) = ''west''"
proof -
  obtain res w' where r: "executeValkeyAction cacheEnv (cacheContext ''multi-cluster-failover'') failoverRequest
      ''op-1'' cacheWorld = (Inr res, w')"
    using cache_executes by (metis is_ok_iff prod.collapse)
  have east: "trimSpace ''east'' \<noteq> ''west''" by code_simp
  have db: "w_instances cacheWorld ''db'' = Some (with_topology cacheTopology (sampleInstance None))"
    by (simp add: cacheWorld_def)
  from valkey_failover_outcome [OF r cache_defs(2) failover_action] show ?thesis
    unfolding failover_candidate cache_name db r by (auto simp: cache_primary east)
qed

end
