(* ===== verification/Exec_MySQL.thy ===== *)
theory Exec_MySQL
  imports Exec_StatefulSet
begin

text \<open>
  The MySQL actions of \<open>actionrequest_controller.go\<close>. Which cluster is primary is kept in the
  parameters of the instance, that is in its spec: failover and rollback read four fields out of the
  raw JSON and write those four back.
\<close>

definition instance_ref :: "service_instance \<Rightarrow> typed_ref" where
  "instance_ref inst =
     \<lparr>tr_apiVersion = GroupVersionString, tr_kind = ''ServiceInstance'', tr_name = m_name (si_meta inst), tr_namespace = ''''\<rparr>"

definition persistMySQLActionParameters ::
  "service_instance \<Rightarrow> mysqlMutableParameters \<Rightarrow> string \<Rightarrow> action_execution_result exec" where
  "persistMySQLActionParameters inst p message w =
     (let updated = inst\<lparr>si_spec := (si_spec inst)\<lparr>sis_parameters := Some (json_encode (mysql_json p))\<rparr>\<rparr> in
      after_call (update_instance (m_name (si_meta inst)) updated w) (\<lambda>_ w.
        (Inr (succeeded (instance_ref inst) message False), w)))"

definition currentPrimary :: "service_instance \<Rightarrow> mysqlMutableParameters \<Rightarrow> string" where
  "currentPrimary inst p =
     (if my_primaryCluster p = '''' then pl_clusterName (sit_placement (si_status inst)) else my_primaryCluster p)"

text \<open>The exchange of primaries that failover and rollback share.\<close>

definition promoteMySQL :: "service_instance \<Rightarrow> string \<Rightarrow> mysqlMutableParameters \<Rightarrow> mysqlMutableParameters" where
  "promoteMySQL inst target p =
     (let old = currentPrimary inst p in
      p\<lparr>my_previousPrimaryCluster := old, my_primaryCluster := target,
        my_standbyClusters := uniqueStrings (removeString (my_standbyClusters p) target @ [old])\<rparr>)"

definition failoverMySQLPrimary ::
  "service_context \<Rightarrow> action_request \<Rightarrow> string \<Rightarrow> action_execution_result exec" where
  "failoverMySQLPrimary ctx ar op w =
     (case sx_Instance ctx of
        None \<Rightarrow> (Inl (Errorf ''service instance context is required''), w)
      | Some inst \<Rightarrow>
          exec_bind (mysqlActionParameters inst) (\<lambda>p w.
            if trimSpace (my_replicationMode p) \<noteq> ''active-passive''
            then (Inl (Errorf ''MySQL failover is only supported for active-passive replication''), w)
            else exec_bind (failoverCandidate ar) (\<lambda>candidate w.
              if trimSpace (my_primaryCluster p) = candidate
              then (Inr (succeeded (instance_ref inst) (''MySQL failover for operation '' @ quote op @
                '' already promoted cluster '' @ quote candidate @ ''.'') False), w)
              else if candidate \<notin> set (my_standbyClusters p)
              then (Inl (Errorf (''cluster '' @ quote candidate @ '' is not a configured standby'')), w)
              else persistMySQLActionParameters inst (promoteMySQL inst candidate p)
                (''MySQL failover promoted standby cluster '' @ quote candidate @ ''.'') w) w) w)"

definition rollbackMySQLPrimary ::
  "service_context \<Rightarrow> action_request \<Rightarrow> string \<Rightarrow> action_execution_result exec" where
  "rollbackMySQLPrimary ctx ar op w =
     (case sx_Instance ctx of
        None \<Rightarrow> (Inl (Errorf ''service instance context is required''), w)
      | Some inst \<Rightarrow>
          exec_bind (mysqlActionParameters inst) (\<lambda>p w.
            if trimSpace (my_replicationMode p) \<noteq> ''active-passive''
            then (Inl (Errorf ''MySQL rollback is only supported for active-passive replication''), w)
            else
              (let target =
                 (case ars_parameters (ar_spec ar) of
                    Some raw \<Rightarrow>
                      if length raw > 0 then (case rollbackTarget ar inst of Inr t \<Rightarrow> t | Inl _ \<Rightarrow> '''')
                      else trimSpace (my_previousPrimaryCluster p)
                  | None \<Rightarrow> trimSpace (my_previousPrimaryCluster p))
               in if target = ''''
                  then (Inl (Errorf ''no previous primary cluster is recorded for rollback''), w)
                  else if target = currentPrimary inst p
                  then (Inr (succeeded (instance_ref inst) (''MySQL rollback for operation '' @ quote op @
                    '' already promoted cluster '' @ quote target @ ''.'') False), w)
                  else persistMySQLActionParameters inst (promoteMySQL inst target p)
                    (''MySQL rollback promoted cluster '' @ quote target @ ''.'') w)) w)"

definition executeMySQLAction ::
  "exec_env \<Rightarrow> service_context \<Rightarrow> action_request \<Rightarrow> string \<Rightarrow> action_execution_result exec" where
  "executeMySQLAction env ctx ar op w =
     (let action = ars_action (ar_spec ar) in
      if action \<in> {ActionScale, ActionRestart, ActionRotateCredentials}
      then executeStatefulSetBackedAction env ctx ar op ''MySQL'' w
      else if action = ActionFailover then failoverMySQLPrimary ctx ar op w
      else if action = ActionRollbackFailover then rollbackMySQLPrimary ctx ar op w
      else if action = ActionBackup
      then (case sx_Instance ctx of
              None \<Rightarrow> (Inl (Errorf ''service instance context is required''), w)
            | Some inst \<Rightarrow>
                (Inr \<lparr>ae_Phase = ''Queued'', ae_OperationRef = Some \<lparr>tr_apiVersion = ''batch/v1'', tr_kind = ''Job'',
                    tr_name = m_name (si_meta inst) @ ''-backup-'' @ m_name (ar_meta ar),
                    tr_namespace = actionRuntimeNamespace ctx\<rparr>,
                  ae_Message = ''MySQL backup request queued for runtime execution.'', ae_Retryable = True\<rparr>, w))
      else if action = ActionRestore
      then (Inr \<lparr>ae_Phase = ''Queued'', ae_OperationRef = None,
                 ae_Message = ''MySQL restore request queued for runtime execution.'', ae_Retryable = False\<rparr>, w)
      else (Inl (Errorf (''unsupported MySQL action '' @ quote action)), w))"

end
