(* ===== verification/MySQL_Facts.thy ===== *)
theory MySQL_Facts
  imports Exec_MySQL Json_Roundtrip Samples
begin

text \<open>
  Failover of databases: what failover and rollback store in the parameters of an instance reads
  back as it was meant, exchanges the primary with a standby and loses no cluster; but it drops
  every other parameter, and a rollback that is run twice undoes itself.
\<close>

section \<open>What is stored\<close>

abbreviation with_parameters :: "raw_json option \<Rightarrow> service_instance \<Rightarrow> service_instance" where
  "with_parameters raw x \<equiv> x\<lparr>si_spec := (si_spec x)\<lparr>sis_parameters := raw\<rparr>\<rparr>"

lemma depth_strings [simp]: "fold max (map (json_depth \<circ> JStr) xs) 0 = 0"
  by (induction xs) simp_all

lemma mysql_json_parse: "json_parse (json_encode (mysql_json p)) = Some (mysql_json p)"
  by (rule json_roundtrip) (auto simp: mysql_json_def list_all_iff)

lemma json_encode_object: "json_encode (JObj fs) \<noteq> []"
  by simp

lemma mysql_keys:
  "json_key ''replicationMode'' ''replicationMode''"
  "\<not> json_key ''primaryCluster'' ''replicationMode''" "json_key ''primaryCluster'' ''primaryCluster''"
  "\<not> json_key ''standbyClusters'' ''replicationMode''" "\<not> json_key ''standbyClusters'' ''primaryCluster''"
  "json_key ''standbyClusters'' ''standbyClusters''"
  "\<not> json_key ''previousPrimaryCluster'' ''replicationMode''"
  "\<not> json_key ''previousPrimaryCluster'' ''primaryCluster''"
  "\<not> json_key ''previousPrimaryCluster'' ''standbyClusters''"
  "json_key ''previousPrimaryCluster'' ''previousPrimaryCluster''"
  by code_simp+

lemma dec_elems_strings [simp]: "dec_elems (map JStr xs) old = (xs, False)"
  by (induction xs arbitrary: old) auto

lemma mysql_fields:
  "mysql_field ''replicationMode'' (JStr v) s = (s\<lparr>my_replicationMode := v\<rparr>, False)"
  "mysql_field ''primaryCluster'' (JStr v) s = (s\<lparr>my_primaryCluster := v\<rparr>, False)"
  "mysql_field ''standbyClusters'' (JArr (map JStr vs)) s = (s\<lparr>my_standbyClusters := vs\<rparr>, False)"
  "mysql_field ''previousPrimaryCluster'' (JStr v) s = (s\<lparr>my_previousPrimaryCluster := v\<rparr>, False)"
  by (simp_all add: mysql_field_def mysql_keys dec_into_def)

lemma mysql_reads_back:
  "mysqlActionParameters (with_parameters (Some (json_encode (mysql_json p))) inst) = Inr p"
proof -
  obtain fs where fs: "mysql_json p = JObj fs" by (simp add: mysql_json_def)
  have "dec_fields mysql_field fs no_mysql = (p, False)"
    using fs by (cases p) (auto simp: mysql_json_def no_mysql_def mysql_fields)
  moreover have "json_parse (json_encode (JObj fs)) = Some (JObj fs)"
    using mysql_json_parse [of p] by (simp only: fs)
  ultimately show ?thesis
    by (simp add: mysqlActionParameters_def decode_parameters_def json_unmarshal_def fs del: json_encode.simps)
      simp
qed

lemma update_instance_Inr:
  assumes "update_instance n x w = (Inr u, w')"
  shows "\<exists>fs y. w_instances w n = Some y \<and>
    w' = w\<lparr>w_faults := fs, w_instances := (w_instances w)(n \<mapsto> x\<lparr>si_status := si_status y\<rparr>)\<rparr>"
  using writes_Inr [OF assms [unfolded update_instance_def]] by (auto simp: must_exist_def split: if_splits)

lemma mysqlActionParameters_status [simp]: "mysqlActionParameters (x\<lparr>si_status := st\<rparr>) = mysqlActionParameters x"
  by (simp add: mysqlActionParameters_def)

lemma persist_Inr:
  assumes "persistMySQLActionParameters inst p message w = (Inr res, w')"
  shows "\<exists>fs y. w_instances w (m_name (si_meta inst)) = Some y \<and>
    w' = w\<lparr>w_faults := fs, w_instances := (w_instances w)(m_name (si_meta inst) \<mapsto>
      (with_parameters (Some (json_encode (mysql_json p))) inst)\<lparr>si_status := si_status y\<rparr>)\<rparr>"
  using assms by (auto simp: persistMySQLActionParameters_def Let_def after_call_Inr dest!: update_instance_Inr)

section \<open>Properties\<close>

text \<open>
  C32 What failover or rollback stores is read back unchanged by the next action on the instance.
\<close>

theorem mysql_parameters_round_trip:
  assumes "persistMySQLActionParameters inst p message w = (Inr res, w')"
  shows "\<exists>x. w_instances w' (m_name (si_meta inst)) = Some x \<and> mysqlActionParameters x = Inr p"
  using persist_Inr [OF assms] mysql_reads_back by auto

text \<open>
  They store these four fields and no other: every other parameter of the instance is gone.
\<close>

theorem mysql_promotion_drops_other_parameters:
  assumes "persistMySQLActionParameters inst p message w = (Inr res, w')"
  shows "\<exists>x raw fs. w_instances w' (m_name (si_meta inst)) = Some x \<and> sis_parameters (si_spec x) = Some raw \<and>
    json_parse raw = Some (JObj fs) \<and>
    fst ` set fs \<subseteq> {''replicationMode'', ''primaryCluster'', ''standbyClusters'', ''previousPrimaryCluster''}"
proof -
  obtain fs where fs: "mysql_json p = JObj fs" by (simp add: mysql_json_def)
  then have "fst ` set fs \<subseteq> {''replicationMode'', ''primaryCluster'', ''standbyClusters'', ''previousPrimaryCluster''}"
    by (auto simp: mysql_json_def split: if_split_asm)
  then show ?thesis using persist_Inr [OF assms] mysql_json_parse [of p] fs
    by (auto simp del: json_encode.simps)
qed

text \<open>
  A promotion exchanges two clusters: the target becomes primary and is no longer a standby, the old
  primary becomes a standby and is recorded as the previous primary, no cluster is lost and none is
  listed twice.
\<close>

theorem mysql_promotion_exchanges:
  assumes "target \<noteq> currentPrimary inst p" and "trimSpace (currentPrimary inst p) = currentPrimary inst p"
    and "currentPrimary inst p \<noteq> ''''"
    and "\<forall>s \<in> set (my_standbyClusters p). trimSpace s = s \<and> s \<noteq> ''''"
  shows "my_primaryCluster (promoteMySQL inst target p) = target \<and>
    my_previousPrimaryCluster (promoteMySQL inst target p) = currentPrimary inst p \<and>
    target \<notin> set (my_standbyClusters (promoteMySQL inst target p)) \<and>
    distinct (my_standbyClusters (promoteMySQL inst target p)) \<and>
    insert target (set (my_standbyClusters (promoteMySQL inst target p))) =
      {target, currentPrimary inst p} \<union> set (my_standbyClusters p)"
proof -
  have "trimSpace ` (set (my_standbyClusters p) - {target}) = set (my_standbyClusters p) - {target}"
    using assms(4) by (force simp: image_iff)
  then have "set (my_standbyClusters (promoteMySQL inst target p)) =
      insert (currentPrimary inst p) (set (my_standbyClusters p) - {target})"
    using assms by (auto simp: promoteMySQL_def Let_def)
  then show ?thesis using assms(1) by (auto simp: promoteMySQL_def Let_def)
qed

text \<open>
  A failover that reports success has promoted its candidate, a configured standby, or found it
  primary already; the stored parameters say so.
\<close>

theorem mysql_failover_outcome:
  assumes "failoverMySQLPrimary ctx ar op w = (Inr res, w')" and "sx_Instance ctx = Some inst"
  shows "\<exists>p c fs. mysqlActionParameters inst = Inr p \<and> trimSpace (my_replicationMode p) = ''active-passive'' \<and>
    failoverCandidate ar = Inr c \<and>
    (trimSpace (my_primaryCluster p) = c \<and> w' = w \<or>
     c \<in> set (my_standbyClusters p) \<and> (\<exists>x. w' = w\<lparr>w_faults := fs, w_instances :=
        (w_instances w)(m_name (si_meta inst) \<mapsto> x)\<rparr> \<and> mysqlActionParameters x = Inr (promoteMySQL inst c p)))"
proof -
  obtain p where p: "mysqlActionParameters inst = Inr p"
    using assms by (cases "mysqlActionParameters inst") (auto simp: failoverMySQLPrimary_def)
  have mode: "trimSpace (my_replicationMode p) = ''active-passive''"
    using assms p by (auto simp: failoverMySQLPrimary_def split: if_splits)
  obtain c where c: "failoverCandidate ar = Inr c"
    using assms p mode by (cases "failoverCandidate ar") (auto simp: failoverMySQLPrimary_def)
  consider (already) "trimSpace (my_primaryCluster p) = c" "w' = w"
    | (promoted) message where "c \<in> set (my_standbyClusters p)"
      "persistMySQLActionParameters inst (promoteMySQL inst c p) message w = (Inr res, w')"
    using assms p c mode by (auto simp: failoverMySQLPrimary_def split: if_splits)
  then show ?thesis
  proof cases
    case already
    then show ?thesis using p c mode by blast
  next
    case promoted
    then show ?thesis using p c mode persist_Inr [OF promoted(2)] mysql_reads_back by fastforce
  qed
qed

lemma rollback_without_parameters:
  assumes "sx_Instance ctx = Some inst" and "ars_parameters (ar_spec ar) = None"
    and "mysqlActionParameters inst = Inr p" and "trimSpace (my_replicationMode p) = ''active-passive''"
    and "trimSpace (my_previousPrimaryCluster p) \<notin> {'''', currentPrimary inst p}"
    and "no_faults w" and "w_instances w (m_name (si_meta inst)) = Some y"
  shows "\<exists>x. is_ok (fst (rollbackMySQLPrimary ctx ar op w)) \<and> no_faults (snd (rollbackMySQLPrimary ctx ar op w)) \<and>
    w_instances (snd (rollbackMySQLPrimary ctx ar op w)) (m_name (si_meta inst)) = Some x \<and>
    m_name (si_meta x) = m_name (si_meta inst) \<and>
    mysqlActionParameters x = Inr (promoteMySQL inst (trimSpace (my_previousPrimaryCluster p)) p)"
proof -
  have "rollbackMySQLPrimary ctx ar op w =
      (Inr (succeeded (instance_ref inst) (''MySQL rollback promoted cluster '' @
          quote (trimSpace (my_previousPrimaryCluster p)) @ ''.'') False),
       w\<lparr>w_instances := (w_instances w)(m_name (si_meta inst) \<mapsto> (with_parameters (Some (json_encode
         (mysql_json (promoteMySQL inst (trimSpace (my_previousPrimaryCluster p)) p)))) inst)
         \<lparr>si_status := si_status y\<rparr>)\<rparr>)"
    using assms by (simp add: rollbackMySQLPrimary_def persistMySQLActionParameters_def update_instance_def
        writes_none must_exist_def Let_def del: json_encode.simps)
  then show ?thesis using assms(6) mysql_reads_back by simp
qed

text \<open>
  A rollback that is run again, as after a restart of the controller before it recorded the first
  result, undoes itself: both runs succeed and the old primary is primary again.
\<close>

theorem mysql_rollback_repeated_undoes:
  assumes "sx_Instance ctx = Some inst" and "ars_parameters (ar_spec ar) = None"
    and "mysqlActionParameters inst = Inr p" and "trimSpace (my_replicationMode p) = ''active-passive''"
    and "trimSpace (my_previousPrimaryCluster p) \<notin> {'''', my_primaryCluster p}"
    and "my_primaryCluster p \<noteq> ''''" and "trimSpace (my_primaryCluster p) = my_primaryCluster p"
    and "no_faults w" and "w_instances w (m_name (si_meta inst)) = Some y"
  shows "\<exists>x z q. w_instances (snd (rollbackMySQLPrimary ctx ar op w)) (m_name (si_meta inst)) = Some x \<and>
    is_ok (fst (rollbackMySQLPrimary (ctx\<lparr>sx_Instance := Some x\<rparr>) ar op (snd (rollbackMySQLPrimary ctx ar op w)))) \<and>
    w_instances (snd (rollbackMySQLPrimary (ctx\<lparr>sx_Instance := Some x\<rparr>) ar op (snd (rollbackMySQLPrimary ctx ar op w))))
      (m_name (si_meta inst)) = Some z \<and>
    mysqlActionParameters z = Inr q \<and> my_primaryCluster q = my_primaryCluster p"
proof -
  let ?t = "trimSpace (my_previousPrimaryCluster p)" and ?w1 = "snd (rollbackMySQLPrimary ctx ar op w)"
  have cur: "currentPrimary inst p = my_primaryCluster p" using assms(6) by (simp add: currentPrimary_def)
  obtain x where x: "no_faults ?w1" "w_instances ?w1 (m_name (si_meta inst)) = Some x"
      "m_name (si_meta x) = m_name (si_meta inst)" "mysqlActionParameters x = Inr (promoteMySQL inst ?t p)"
    using rollback_without_parameters [OF assms(1-4) _ assms(8,9)] assms(5) cur by auto
  let ?p1 = "promoteMySQL inst ?t p"
  have p1: "my_replicationMode ?p1 = my_replicationMode p" "my_previousPrimaryCluster ?p1 = my_primaryCluster p"
      "my_primaryCluster ?p1 = ?t"
    using cur by (simp_all add: promoteMySQL_def Let_def)
  have "trimSpace (my_previousPrimaryCluster ?p1) \<notin> {'''', currentPrimary x ?p1}"
    using assms(5-7) p1 by (auto simp: currentPrimary_def)
  then obtain z where "is_ok (fst (rollbackMySQLPrimary (ctx\<lparr>sx_Instance := Some x\<rparr>) ar op ?w1))"
      "w_instances (snd (rollbackMySQLPrimary (ctx\<lparr>sx_Instance := Some x\<rparr>) ar op ?w1)) (m_name (si_meta inst)) = Some z"
      "mysqlActionParameters z = Inr (promoteMySQL x (trimSpace (my_previousPrimaryCluster ?p1)) ?p1)"
    using rollback_without_parameters [of "ctx\<lparr>sx_Instance := Some x\<rparr>" x ar ?p1 ?w1 x op] assms(2,4) x p1 by auto
  then show ?thesis using x(2) p1 assms(7) by (fastforce simp: promoteMySQL_def Let_def)
qed

section \<open>A concrete database\<close>

definition dbParameters :: mysqlMutableParameters where
  "dbParameters = \<lparr>my_replicationMode = ''active-passive'', my_primaryCluster = ''east'',
     my_standbyClusters = [''west''], my_previousPrimaryCluster = ''west''\<rparr>"

definition dbInstance :: service_instance where
  "dbInstance = sampleInstance (Some (json_encode (mysql_json dbParameters)))"

definition dbContext :: service_context where
  "dbContext = \<lparr>sx_Tenant = Some sampleTenant, sx_Project = Some sampleProject, sx_ClusterTarget = None,
     sx_Class = Some sampleClass, sx_Plan = None, sx_Instance = Some dbInstance\<rparr>"

definition dbWorld :: world where
  "dbWorld = \<lparr>w_instances = [''db'' \<mapsto> dbInstance], w_statefulSets = Map.empty, w_secrets = Map.empty,
     w_quotas = Map.empty, w_serviceAccounts = Map.empty, w_roles = Map.empty, w_roleBindings = Map.empty,
     w_jobs = Map.empty, w_backups = Map.empty, w_faults = []\<rparr>"

definition dbFailover :: action_request where
  "dbFailover = (sampleRequest ApprovalModeAuto 1)
     \<lparr>ar_spec := (ar_spec (sampleRequest ApprovalModeAuto 1))\<lparr>ars_action := ActionFailover,
        ars_parameters := Some (json_encode (JObj [(''candidateCluster'', JStr ''west'')]))\<rparr>\<rparr>"

lemma db_parameters: "mysqlActionParameters dbInstance = Inr dbParameters"
proof -
  have "dbInstance = with_parameters (Some (json_encode (mysql_json dbParameters))) dbInstance"
    by (simp add: dbInstance_def sampleInstance_def)
  then show ?thesis using mysql_reads_back by metis
qed

lemma db_facts:
  "sx_Instance dbContext = Some dbInstance" "m_name (si_meta dbInstance) = ''db''" "no_faults dbWorld"
  "w_instances dbWorld ''db'' = Some dbInstance" "ars_parameters (ar_spec (sampleRequest ApprovalModeAuto 1)) = None"
  by (simp_all add: dbContext_def dbInstance_def sampleInstance_def dbWorld_def sampleRequest_def)

lemma db_trim:
  "trimSpace ''east'' = ''east''" "trimSpace ''west'' = ''west''" "trimSpace ''active-passive'' = ''active-passive''"
  by code_simp+

lemma db_persist: "is_ok (fst (persistMySQLActionParameters dbInstance p ''m'' dbWorld))"
  by (simp add: persistMySQLActionParameters_def update_instance_def writes_none must_exist_def db_facts)

lemma db_candidate: "failoverCandidate dbFailover = Inr ''west''"
  by code_simp

theorem mysql_parameters_round_trip_witness:
  "\<exists>x. w_instances (snd (persistMySQLActionParameters dbInstance dbParameters ''m'' dbWorld)) ''db'' = Some x \<and>
     mysqlActionParameters x = Inr dbParameters"
proof -
  obtain res w' where r: "persistMySQLActionParameters dbInstance dbParameters ''m'' dbWorld = (Inr res, w')"
    using db_persist by (metis is_ok_iff prod.collapse)
  from mysql_parameters_round_trip [OF r] show ?thesis by (simp add: r db_facts)
qed

theorem mysql_promotion_drops_other_parameters_witness:
  "\<exists>x raw fs. w_instances (snd (persistMySQLActionParameters dbInstance dbParameters ''m'' dbWorld)) ''db'' = Some x \<and>
     sis_parameters (si_spec x) = Some raw \<and> json_parse raw = Some (JObj fs) \<and> ''replicas'' \<notin> fst ` set fs"
proof -
  obtain res w' where r: "persistMySQLActionParameters dbInstance dbParameters ''m'' dbWorld = (Inr res, w')"
    using db_persist by (metis is_ok_iff prod.collapse)
  from mysql_promotion_drops_other_parameters [OF r] show ?thesis by (fastforce simp: r db_facts)
qed

theorem mysql_promotion_exchanges_witness:
  "my_standbyClusters (promoteMySQL dbInstance ''west'' dbParameters) = [''east''] \<and>
   ''west'' \<notin> set (my_standbyClusters (promoteMySQL dbInstance ''west'' dbParameters))"
proof -
  have "currentPrimary dbInstance dbParameters = ''east''" by (simp add: currentPrimary_def dbParameters_def)
  then show ?thesis
    using mysql_promotion_exchanges [of "''west''" dbInstance dbParameters] db_trim
    by (simp add: dbParameters_def promoteMySQL_def Let_def removeString_def uniqueStrings_def)
qed

theorem mysql_failover_outcome_witness:
  "\<exists>x. w_instances (snd (failoverMySQLPrimary dbContext dbFailover ''op-1'' dbWorld)) ''db'' = Some x \<and>
     mysqlActionParameters x = Inr (promoteMySQL dbInstance ''west'' dbParameters)"
proof -
  have east: "''east'' \<noteq> (''west'' :: string)" by simp
  have "is_ok (fst (failoverMySQLPrimary dbContext dbFailover ''op-1'' dbWorld))"
    using db_trim by (simp add: failoverMySQLPrimary_def db_facts db_parameters db_candidate
        persistMySQLActionParameters_def update_instance_def writes_none must_exist_def del: json_encode.simps)
      (simp add: dbParameters_def)
  then obtain res w' where r: "failoverMySQLPrimary dbContext dbFailover ''op-1'' dbWorld = (Inr res, w')"
    by (metis is_ok_iff prod.collapse)
  have "trimSpace (my_primaryCluster dbParameters) \<noteq> ''west''" using db_trim by (simp add: dbParameters_def)
  with mysql_failover_outcome [OF r db_facts(1)] show ?thesis
    by (auto simp: r db_facts db_parameters db_candidate)
qed

theorem mysql_rollback_repeated_undoes_witness:
  "\<exists>x z q. w_instances (snd (rollbackMySQLPrimary dbContext (sampleRequest ApprovalModeAuto 1) ''op-1'' dbWorld)) ''db'' =
       Some x \<and>
     w_instances (snd (rollbackMySQLPrimary (dbContext\<lparr>sx_Instance := Some x\<rparr>) (sampleRequest ApprovalModeAuto 1) ''op-1''
       (snd (rollbackMySQLPrimary dbContext (sampleRequest ApprovalModeAuto 1) ''op-1'' dbWorld)))) ''db'' = Some z \<and>
     mysqlActionParameters z = Inr q \<and> my_primaryCluster q = ''east''"
proof -
  have p: "trimSpace (my_replicationMode dbParameters) = ''active-passive''"
    "trimSpace (my_previousPrimaryCluster dbParameters) \<notin> {'''', my_primaryCluster dbParameters}"
    "my_primaryCluster dbParameters \<noteq> ''''" "trimSpace (my_primaryCluster dbParameters) = my_primaryCluster dbParameters"
    "my_primaryCluster dbParameters = ''east''"
    using db_trim by (simp_all add: dbParameters_def)
  from mysql_rollback_repeated_undoes [OF db_facts(1,5) db_parameters p(1-4) db_facts(3) db_facts(4) [folded db_facts(2)]]
  show ?thesis unfolding p(5) db_facts(2) by blast
qed

end
