(* ===== verification/Exec_NATS.thy ===== *)
theory Exec_NATS
  imports Exec_StatefulSet "HOL-Library.List_Lexorder" "HOL-Library.Char_ord"
begin

text \<open>
  The NATS actions of \<open>actionrequest_controller.go\<close> with the credentials of \<open>nats_runtime.go\<close>: which
  Secrets an instance has, the users file that is rendered from their passwords, the rotation of
  one credential and the jobs that delete or purge streams and consumers.
\<close>

section \<open>Credentials\<close>

record natsAppCredentialMaterialization =
  nc_Name :: string
  nc_SecretName :: string
  nc_Username :: string
  nc_Description :: string
  nc_Publish :: "string list"
  nc_Subscribe :: "string list"
  nc_AllowReplies :: bool

record natsCredentialMaterialization =
  nm_AdminSecretName :: string
  nm_AuthConfigSecretName :: string
  nm_AppCredentials :: "natsAppCredentialMaterialization list"

text \<open>The anonymous structs that the raw parameters are decoded into.\<close>

record nats_raw_permissions =
  np_Publish :: "string list"
  np_Subscribe :: "string list"
  np_AllowResponses :: bool

record nats_raw_credential =
  nr_Name :: string
  nr_Username :: string
  nr_Description :: string
  nr_Permissions :: nats_raw_permissions

definition no_nats_credential :: nats_raw_credential where
  "no_nats_credential = \<lparr>nr_Name = '''', nr_Username = '''', nr_Description = '''',
     nr_Permissions = \<lparr>np_Publish = [], np_Subscribe = [], np_AllowResponses = False\<rparr>\<rparr>"

definition nats_permissions_field :: "string \<Rightarrow> json \<Rightarrow> nats_raw_permissions \<Rightarrow> nats_raw_permissions \<times> bool" where
  "nats_permissions_field k v s =
     (if json_key k ''publish'' then dec_into dec_strings np_Publish np_Publish_update v s
      else if json_key k ''subscribe'' then dec_into dec_strings np_Subscribe np_Subscribe_update v s
      else if json_key k ''allowResponses'' then dec_into dec_bool np_AllowResponses np_AllowResponses_update v s
      else (s, False))"

definition nats_credential_field :: "string \<Rightarrow> json \<Rightarrow> nats_raw_credential \<Rightarrow> nats_raw_credential \<times> bool" where
  "nats_credential_field k v s =
     (if json_key k ''name'' then dec_into dec_string nr_Name nr_Name_update v s
      else if json_key k ''username'' then dec_into dec_string nr_Username nr_Username_update v s
      else if json_key k ''description'' then dec_into dec_string nr_Description nr_Description_update v s
      else if json_key k ''permissions''
      then dec_into (dec_struct nats_permissions_field) nr_Permissions nr_Permissions_update v s
      else (s, False))"

definition app_credentials_field :: "string \<Rightarrow> json \<Rightarrow> nats_raw_credential list \<Rightarrow> nats_raw_credential list \<times> bool" where
  "app_credentials_field k v s =
     (if json_key k ''appCredentials''
      then dec_list no_nats_credential (dec_struct nats_credential_field) v s else (s, False))"

fun firstNonEmpty :: "string list \<Rightarrow> string" where
  "firstNonEmpty [] = ''''"
| "firstNonEmpty (v # vs) = (if v \<noteq> '''' then v else firstNonEmpty vs)"

definition materialize_credential :: "string \<Rightarrow> nats_raw_credential \<Rightarrow> natsAppCredentialMaterialization list" where
  "materialize_credential inst c =
     (let name = trimSpace (nr_Name c);
          username = trimSpace (nr_Username c)
      in if name = '''' then []
         else [\<lparr>nc_Name = name, nc_SecretName = inst @ ''-'' @ name @ ''-auth'',
                nc_Username = (if username = '''' then name else username),
                nc_Description = firstNonEmpty [trimSpace (nr_Description c), ''Servicer managed credential '' @ name],
                nc_Publish = np_Publish (nr_Permissions c), nc_Subscribe = np_Subscribe (nr_Permissions c),
                nc_AllowReplies = np_AllowResponses (nr_Permissions c)\<rparr>])"

text \<open>
  \<open>sort.Slice\<close> leaves the order of credentials with equal names open; here they keep their order.
  Strings are compared by bytes.
\<close>

definition loadNATSCredentialMaterialization :: "service_instance \<Rightarrow> go_error + natsCredentialMaterialization" where
  "loadNATSCredentialMaterialization inst =
     (let name = m_name (si_meta inst);
          build = (\<lambda>raw. \<lparr>nm_AdminSecretName = name @ ''-auth'', nm_AuthConfigSecretName = name @ ''-auth-config'',
            nm_AppCredentials = sort_key nc_Name (concat (map (materialize_credential name) raw))\<rparr>)
      in case sis_parameters (si_spec inst) of
           None \<Rightarrow> Inr (build [])
         | Some text \<Rightarrow>
             if length text = 0 then Inr (build [])
             else (case json_unmarshal app_credentials_field text [] of
                     (raw, failed) \<Rightarrow> if failed then Inl JsonError else Inr (build raw)))"

section \<open>The users file\<close>

definition natsStringArray :: "string list \<Rightarrow> string" where
  "natsStringArray values = ''['' @ join '', '' (map quote values) @ '']''"

definition nats_user_permissions :: "natsAppCredentialMaterialization \<Rightarrow> string list" where
  "nats_user_permissions c =
     (if length (nc_Publish c) > 0 then [''publish: '' @ natsStringArray (nc_Publish c)] else []) @
     (if length (nc_Subscribe c) > 0 then [''subscribe: '' @ natsStringArray (nc_Subscribe c)] else []) @
     (if nc_AllowReplies c then [''allow_responses: true''] else [])"

definition nats_admin_entry :: "string \<Rightarrow> string" where
  "nats_admin_entry password =
     ''    { user: '' @ quote ''servicer'' @ '', password: '' @ quote password @
     '', permissions: { publish: '' @ quote ''>'' @ '', subscribe: '' @ quote ''>'' @ '' } }''"

definition nats_user_entry :: "natsAppCredentialMaterialization \<Rightarrow> string \<Rightarrow> string" where
  "nats_user_entry c password =
     ''    { user: '' @ quote (nc_Username c) @ '', password: '' @ quote password @
     (if length (nats_user_permissions c) > 0
      then '', permissions: { '' @ join '', '' (nats_user_permissions c) @ '' }'' else '''') @ '' }''"

definition renderNATSUsersConfig :: "natsCredentialMaterialization \<Rightarrow> (string, string) gomap \<Rightarrow> string" where
  "renderNATSUsersConfig spec passwords =
     join [CHR 0x0A]
       ([''authorization {'', ''  users: ['', nats_admin_entry (map_get passwords ''servicer'')] @
        map (\<lambda>c. nats_user_entry c (map_get passwords (nc_Username c))) (nm_AppCredentials spec) @
        [''  ]'', ''}'']) @ [CHR 0x0A]"

text \<open>The loop of \<open>syncNATSAuthConfigSecret\<close> that reads the Secrets.\<close>

fun readPasswords :: "string \<Rightarrow> string list \<Rightarrow> (string, string) gomap \<Rightarrow> (string, string) gomap exec" where
  "readPasswords namespace [] passwords w = (Inr passwords, w)"
| "readPasswords namespace (name # names) passwords w =
     after_call (get_secret (namespace, name) w) (\<lambda>sec.
       readPasswords namespace names
         (map_set (map_get (sc_data sec) ''username'') (map_get (sc_data sec) ''password'') passwords))"

definition secretNames :: "natsAppCredentialMaterialization list \<Rightarrow> string list" where
  "secretNames credentials = map nc_SecretName credentials"

definition syncNATSAuthConfigSecret :: "service_instance \<Rightarrow> string \<Rightarrow> unit exec" where
  "syncNATSAuthConfigSecret inst namespace w =
     (case loadNATSCredentialMaterialization inst of
        Inl e \<Rightarrow> (Inl e, w)
      | Inr spec \<Rightarrow>
          (case readPasswords namespace (nm_AdminSecretName spec # secretNames (nm_AppCredentials spec)) [] w of
             (Inl e, w) \<Rightarrow> (Inl e, w)
           | (Inr passwords, w) \<Rightarrow>
               after_call (get_secret (namespace, nm_AuthConfigSecretName spec) w) (\<lambda>sec w.
                 after_call (update_secret (namespace, nm_AuthConfigSecretName spec)
                     (sec\<lparr>sc_data := map_set ''users.conf'' (renderNATSUsersConfig spec passwords) (sc_data sec)\<rparr>) w)
                   (\<lambda>_ w. (Inr (), w)))))"

section \<open>Parameters of the actions\<close>

definition natsStreamActionParameters :: "action_request \<Rightarrow> go_error + string" where
  "natsStreamActionParameters ar =
     bind_sum (decode_parameters ''decode NATS stream action parameters: '' (only_field ''stream'' dec_string) ''''
         (ars_parameters (ar_spec ar)))
       (\<lambda>s. if trimSpace s = '''' then Inl (Errorf ''NATS stream action requires parameters.stream'')
            else Inr (trimSpace s))"

definition consumer_field :: "string \<Rightarrow> json \<Rightarrow> string \<times> string \<Rightarrow> (string \<times> string) \<times> bool" where
  "consumer_field k v s =
     (if json_key k ''stream'' then (case dec_string v (fst s) of (x, e) \<Rightarrow> ((x, snd s), e))
      else if json_key k ''consumer'' then (case dec_string v (snd s) of (x, e) \<Rightarrow> ((fst s, x), e))
      else (s, False))"

definition natsConsumerActionParameters :: "action_request \<Rightarrow> go_error + (string \<times> string)" where
  "natsConsumerActionParameters ar =
     bind_sum (decode_parameters ''decode NATS consumer action parameters: '' consumer_field ('''', '''')
         (ars_parameters (ar_spec ar)))
       (\<lambda>(stream, consumer).
          if trimSpace stream = '''' \<or> trimSpace consumer = ''''
          then Inl (Errorf ''NATS consumer action requires parameters.stream and parameters.consumer'')
          else Inr (trimSpace stream, trimSpace consumer))"

definition natsRotateCredentialParameters :: "action_request \<Rightarrow> go_error + string" where
  "natsRotateCredentialParameters ar =
     bind_sum (decode_parameters ''decode rotate-credentials parameters: '' (only_field ''credentialName'' dec_string) ''''
         (ars_parameters (ar_spec ar))) (\<lambda>c. Inr (trimSpace c))"

section \<open>Rotation\<close>

text \<open>The Secret of the named credential, the first of its name; the admin's when none is named.\<close>

definition rotatedSecretName :: "natsCredentialMaterialization \<Rightarrow> string \<Rightarrow> go_error + string" where
  "rotatedSecretName spec credential =
     (if credential = '''' then Inr (nm_AdminSecretName spec)
      else (case find (\<lambda>c. nc_Name c = credential) (nm_AppCredentials spec) of
              Some c \<Rightarrow> Inr (nc_SecretName c)
            | None \<Rightarrow> Inl (Errorf (''unknown NATS credential '' @ quote credential))))"

definition stampNATSRotation ::
  "exec_env \<Rightarrow> string \<Rightarrow> string \<Rightarrow> string \<Rightarrow> string \<Rightarrow> action_request \<Rightarrow> string \<Rightarrow> string \<Rightarrow>
   action_execution_result exec" where
  "stampNATSRotation env namespace name secretName credential ar op rotatedAt w =
     (let ref = \<lparr>tr_apiVersion = ''v1'', tr_kind = ''Secret'', tr_name = secretName, tr_namespace = namespace\<rparr>;
          what = (if credential \<noteq> '''' then ''NATS credential '' @ quote credential else ''NATS credential Secret'')
      in after_get (get_statefulSet (namespace, name) w)
           (Errorf (''NATS StatefulSet '' @ namespace @ ''/'' @ name @ '' is not available yet'')) (\<lambda>ss w.
         if map_get (ss_podAnnotations ss) ''servicer.io/credential-rotation-operation-id'' = op
         then (Inr (succeeded ref (what @ '' rotation already applied for this operation.'') True), w)
         else after_call (update_statefulSet (namespace, name) (stampRotation env rotatedAt ar op ss) w) (\<lambda>_ w.
           (Inr (succeeded ref (what @ '' rotated and StatefulSet rollout annotation applied.'') True), w))))"

definition rotateNATSCredentials ::
  "exec_env \<Rightarrow> service_context \<Rightarrow> action_request \<Rightarrow> string \<Rightarrow> action_execution_result exec" where
  "rotateNATSCredentials env ctx ar op w =
     (case sx_Instance ctx of
        None \<Rightarrow> (Inl (Errorf ''service instance context is required''), w)
      | Some inst \<Rightarrow>
          (let namespace = actionRuntimeNamespace ctx in
           exec_bind (natsRotateCredentialParameters ar) (\<lambda>credential.
           exec_bind (loadNATSCredentialMaterialization inst) (\<lambda>spec.
           exec_bind (rotatedSecretName spec credential) (\<lambda>secretName w.
             after_get (get_secret (namespace, secretName) w)
               (Errorf (''NATS credential Secret '' @ namespace @ ''/'' @ secretName @ '' is not available yet'')) (\<lambda>sec w.
             case rotateSecret env (namespace, secretName) ar op sec w of
               (Inl e, w) \<Rightarrow> (Inl e, w)
             | (Inr rotatedAt, w) \<Rightarrow>
                 (case syncNATSAuthConfigSecret inst namespace w of
                    (Inl e, w) \<Rightarrow> (Inl e, w)
                  | (Inr _, w) \<Rightarrow>
                      stampNATSRotation env namespace (m_name (si_meta inst)) secretName credential ar op rotatedAt w))))) w))"

section \<open>Jobs\<close>

definition natsAdminScript :: "string \<Rightarrow> string \<Rightarrow> string \<Rightarrow> string" where
  "natsAdminScript name namespace natsCommand =
     (let server = '' --server nats://'' @ name @ ''.'' @ namespace @ ''.svc.cluster.local:4222 --user '' @
            quote ''$NATS_USER'' @ '' --password '' @ quote ''$NATS_PASSWORD''
      in ''set -eu; until nats'' @ server @ '' account info >/dev/null 2>&1; do sleep 2; done; '' @ natsCommand @ server)"

definition natsAdminJob :: "string \<Rightarrow> string \<Rightarrow> string \<Rightarrow> string \<Rightarrow> job" where
  "natsAdminJob name namespace natsCommand actionKind =
     \<lparr>jo_labels = [(''servicer.io/managed-by'', ''servicer''), (''servicer.io/service-instance'', name),
        (''servicer.io/nats-action'', actionKind)],
      jo_ttlSecondsAfterFinished = 600, jo_restartPolicy = ''OnFailure'', jo_image = ''natsio/nats-box:0.19.5'',
      jo_command = [''/bin/sh'', ''-c'', natsAdminScript name namespace natsCommand],
      jo_env = [(''NATS_USER'', ''servicer'')], jo_passwordSecret = (name @ ''-auth'', ''password'')\<rparr>"

definition createNATSAdminJob ::
  "service_context \<Rightarrow> action_request \<Rightarrow> string \<Rightarrow> string \<Rightarrow> action_execution_result exec" where
  "createNATSAdminJob ctx ar natsCommand actionKind w =
     (case sx_Instance ctx of
        None \<Rightarrow> (Inl (Errorf ''service instance context is required''), w)
      | Some inst \<Rightarrow>
          (let namespace = actionRuntimeNamespace ctx;
               name = m_name (si_meta inst);
               jobName = name @ ''-'' @ actionKind @ ''-'' @ m_name (ar_meta ar);
               ref = \<lparr>tr_apiVersion = ''batch/v1'', tr_kind = ''Job'', tr_name = jobName, tr_namespace = namespace\<rparr>;
               what = ''NATS '' @ actionKind @ '' job '' @ namespace @ ''/'' @ jobName
           in case create_job (namespace, jobName) (natsAdminJob name namespace natsCommand actionKind) w of
                (Inr _, w) \<Rightarrow> (Inr (succeeded ref (what @ '' created.'') True), w)
              | (Inl e, w) \<Rightarrow>
                  if e = AlreadyExists
                  then (Inr (succeeded ref (what @ '' already exists for this action request.'') True), w)
                  else (Inl (ApiError e), w)))"

definition executeNATSAction ::
  "exec_env \<Rightarrow> service_context \<Rightarrow> action_request \<Rightarrow> string \<Rightarrow> action_execution_result exec" where
  "executeNATSAction env ctx ar op w =
     (let action = ars_action (ar_spec ar) in
      if action \<in> {ActionScale, ActionRestart} then executeStatefulSetBackedAction env ctx ar op ''NATS'' w
      else if action = ActionRotateCredentials then rotateNATSCredentials env ctx ar op w
      else if action = ActionDeleteStream
      then exec_bind (natsStreamActionParameters ar) (\<lambda>stream.
        createNATSAdminJob ctx ar (''stream rm '' @ quote stream @ '' --force'') ''delete-stream'') w
      else if action = ActionPurgeStream
      then exec_bind (natsStreamActionParameters ar) (\<lambda>stream.
        createNATSAdminJob ctx ar (''stream purge '' @ quote stream @ '' --force'') ''purge-stream'') w
      else if action = ActionDeleteConsumer
      then exec_bind (natsConsumerActionParameters ar) (\<lambda>(stream, consumer).
        createNATSAdminJob ctx ar (''consumer rm '' @ quote stream @ '' '' @ quote consumer @ '' --force'')
          ''delete-consumer'') w
      else (Inl (Errorf (''unsupported NATS action '' @ quote action)), w))"

end
