(* ===== verification/Exec_StatefulSet_Facts.thy ===== *)
theory Exec_StatefulSet_Facts
  imports Exec_StatefulSet Samples
begin

text \<open>
  Actions on a StatefulSet under failing calls and repeated attempts. A controller that stops
  between two calls runs the same operation again; the properties say that this does no harm: an
  operation that has succeeded is not performed again, a password is rotated once per operation,
  nothing but the instance's own objects is touched, and a later attempt completes what an earlier
  one left half done.
\<close>

abbreviation execute where "execute \<equiv> executeStatefulSetBackedAction"

section \<open>The calls on Secrets and StatefulSets\<close>

lemma get_statefulSet_cluster: "get_statefulSet k w = (r, w') \<Longrightarrow> \<exists>fs. w' = w\<lparr>w_faults := fs\<rparr>"
  by (simp add: get_statefulSet_def reads_cluster)

lemma get_statefulSet_Inr: "get_statefulSet k w = (Inr x, w') \<Longrightarrow> w_statefulSets w k = Some x"
  unfolding get_statefulSet_def by (drule reads_Inr) simp_all

lemma get_secret_cluster: "get_secret k w = (r, w') \<Longrightarrow> \<exists>fs. w' = w\<lparr>w_faults := fs\<rparr>"
  by (simp add: get_secret_def reads_cluster)

lemma get_secret_Inr: "get_secret k w = (Inr x, w') \<Longrightarrow> w_secrets w k = Some x"
  unfolding get_secret_def by (drule reads_Inr) simp_all

lemma update_statefulSet_cases:
  assumes "update_statefulSet k s w = (r, w')"
  obtains fs where "w' = w\<lparr>w_faults := fs\<rparr>" "r \<noteq> Inr ()"
  | fs where "w' = w\<lparr>w_faults := fs, w_statefulSets := (w_statefulSets w)(k \<mapsto> s)\<rparr>"
  using writes_cluster [OF assms [unfolded update_statefulSet_def]] that by auto

lemma update_secret_cases:
  assumes "update_secret k s w = (r, w')"
  obtains fs where "w' = w\<lparr>w_faults := fs\<rparr>" "r \<noteq> Inr ()"
  | fs where "w' = w\<lparr>w_faults := fs, w_secrets := (w_secrets w)(k \<mapsto> s)\<rparr>"
  using writes_cluster [OF assms [unfolded update_secret_def]] that by auto

section \<open>What the branches do\<close>

abbreviation restart_stamp :: "stateful_set \<Rightarrow> string" where
  "restart_stamp ss \<equiv> map_get (ss_podAnnotations ss) ''servicer.io/restart-operation-id''"

abbreviation rollout_stamp :: "stateful_set \<Rightarrow> string" where
  "rollout_stamp ss \<equiv> map_get (ss_podAnnotations ss) ''servicer.io/credential-rotation-operation-id''"

abbreviation rotation_stamp :: "secret \<Rightarrow> string" where
  "rotation_stamp sec \<equiv> map_get (sc_annotations sec) ''servicer.io/rotation-operation-id''"

abbreviation password_of :: "secret \<Rightarrow> string" where
  "password_of sec \<equiv> map_get (sc_data sec) ''password''"

text \<open>When the operation \<open>op\<close> of the request is done: what each action leaves to be seen.\<close>

definition operation_done :: "action_request \<Rightarrow> string \<Rightarrow> key \<Rightarrow> key \<Rightarrow> world \<Rightarrow> bool" where
  "operation_done ar op k sk w \<longleftrightarrow>
     (\<exists>ss. w_statefulSets w k = Some ss \<and>
        (ars_action (ar_spec ar) = ActionScale \<and> map_sum id Some (scaleReplicas ar) = Inr (ss_replicas ss) \<or>
         ars_action (ar_spec ar) = ActionRestart \<and> restart_stamp ss = op \<or>
         ars_action (ar_spec ar) = ActionRotateCredentials \<and> rollout_stamp ss = op \<and>
           (\<exists>sec. w_secrets w sk = Some sec \<and> rotation_stamp sec = op)))"

abbreviation workload_key :: "service_context \<Rightarrow> service_instance \<Rightarrow> key" where
  "workload_key ctx inst \<equiv> (actionRuntimeNamespace ctx, m_name (si_meta inst))"

abbreviation credential_key :: "service_context \<Rightarrow> service_instance \<Rightarrow> key" where
  "credential_key ctx inst \<equiv> (actionRuntimeNamespace ctx, m_name (si_meta inst) @ ''-auth'')"

lemma operation_done_cluster: "operation_done ar op k sk (w\<lparr>w_faults := fs\<rparr>) = operation_done ar op k sk w"
  by (simp add: operation_done_def)

subsection \<open>A finished operation stays as it is\<close>

lemma scale_done:
  assumes "scaleStatefulSet product k ref ar ss w = (r, w')" and "map_sum id Some (scaleReplicas ar) = Inr (ss_replicas ss)"
  shows "w' = w"
  using assms by (cases "scaleReplicas ar") (auto simp: scaleStatefulSet_def)

lemma restart_done:
  assumes "restartStatefulSet env product k ref ar op ss w = (r, w')" and "restart_stamp ss = op"
  shows "w' = w"
  using assms by (auto simp: restartStatefulSet_def)

lemma rotateSecret_done:
  assumes "rotateSecret env sk ar op sec w = (r, w')" and "rotation_stamp sec = op"
  shows "w' = w"
  using assms by (auto simp: rotateSecret_def)

lemma rotate_done:
  assumes "rotateStatefulSet env product ns n ar op ss w = (r, w')" and "rollout_stamp ss = op"
    and "w_secrets w (ns, n @ ''-auth'') = Some sec" and "rotation_stamp sec = op"
  shows "cluster w' = cluster w"
proof -
  obtain r1 w1 where g: "get_secret (ns, n @ ''-auth'') w = (r1, w1)" by fastforce
  obtain fs where w1: "w1 = w\<lparr>w_faults := fs\<rparr>" using get_secret_cluster [OF g] by blast
  show ?thesis
  proof (cases r1)
    case (Inl e)
    then show ?thesis using assms(1) g w1
      by (cases e) (auto simp: rotateStatefulSet_def after_get_def Let_def)
  next
    case (Inr x)
    then have "x = sec" using get_secret_Inr [of _ w x w1] g assms(3) by simp
    then show ?thesis using assms g w1 Inr
      by (auto simp: rotateStatefulSet_def rotateSecret_def Let_def)
  qed
qed

lemma done_unchanged:
  assumes "execute env ctx ar op product w = (r, w')" and "sx_Instance ctx = Some inst"
    and "operation_done ar op (workload_key ctx inst) (credential_key ctx inst) w"
  shows "cluster w' = cluster w"
proof -
  obtain r1 w1 where g: "get_statefulSet (workload_key ctx inst) w = (r1, w1)" by fastforce
  obtain fs where w1: "w1 = w\<lparr>w_faults := fs\<rparr>" using get_statefulSet_cluster [OF g] by blast
  have need: "statefulSetActionNeedsRuntimeWorkload (ars_action (ar_spec ar))"
    using assms(3) by (auto simp: operation_done_def statefulSetActionNeedsRuntimeWorkload_def)
  show ?thesis
  proof (cases r1)
    case (Inl e)
    then show ?thesis using assms(1,2) g w1 need
      by (cases e) (auto simp: executeStatefulSetBackedAction_def after_get_def Let_def)
  next
    case (Inr ss)
    have ss: "w_statefulSets w (workload_key ctx inst) = Some ss" using get_statefulSet_Inr g Inr by blast
    then have "operation_done ar op (workload_key ctx inst) (credential_key ctx inst) w1"
      "w_statefulSets w1 (workload_key ctx inst) = Some ss"
      using assms(3) w1 by (simp_all add: operation_done_cluster)
    then have "cluster w' = cluster w1"
      using assms(1,2) g Inr need
      by (auto simp: executeStatefulSetBackedAction_def Let_def operation_done_def
          dest: scale_done restart_done rotate_done)
    then show ?thesis using w1 by simp
  qed
qed

subsection \<open>Success means done\<close>

lemma update_statefulSet_Inr:
  assumes "update_statefulSet k s w = (Inr u, w')"
  shows "\<exists>fs. w' = w\<lparr>w_faults := fs, w_statefulSets := (w_statefulSets w)(k \<mapsto> s)\<rparr>"
  by (cases rule: update_statefulSet_cases [OF assms]) auto

lemma update_secret_Inr:
  assumes "update_secret k s w = (Inr u, w')"
  shows "\<exists>fs. w' = w\<lparr>w_faults := fs, w_secrets := (w_secrets w)(k \<mapsto> s)\<rparr>"
  by (cases rule: update_secret_cases [OF assms]) auto

lemma scale_success:
  assumes "scaleStatefulSet product k ref ar ss w = (Inr res, w')" and "w_statefulSets w k = Some ss"
  shows "\<exists>ss'. w_statefulSets w' k = Some ss' \<and> map_sum id Some (scaleReplicas ar) = Inr (ss_replicas ss')"
  using assms by (cases "scaleReplicas ar")
    (auto simp: scaleStatefulSet_def after_call_Inr split: if_splits dest!: update_statefulSet_Inr)

lemma restart_success:
  assumes "restartStatefulSet env product k ref ar op ss w = (Inr res, w')" and "w_statefulSets w k = Some ss"
  shows "\<exists>ss'. w_statefulSets w' k = Some ss' \<and> restart_stamp ss' = op"
  using assms by (auto simp: restartStatefulSet_def after_call_Inr Let_def split: if_splits
      dest!: update_statefulSet_Inr)

definition rotated :: "exec_env \<Rightarrow> action_request \<Rightarrow> string \<Rightarrow> secret \<Rightarrow> string \<Rightarrow> secret" where
  "rotated env ar op sec password =
     sec\<lparr>sc_data := map_set ''password'' password (sc_data sec),
       sc_annotations := map_set ''servicer.io/rotation-operation-id'' op
         (map_set ''servicer.io/rotation-request'' (m_name (ar_meta ar))
           (map_set ''servicer.io/rotated-at'' (xe_now env) (sc_annotations sec)))\<rparr>"

lemma rotated_simps [simp]:
  "rotation_stamp (rotated env ar op sec p) = op" "password_of (rotated env ar op sec p) = p"
  by (simp_all add: rotated_def)

lemma rotateSecret_cases:
  assumes "rotateSecret env sk ar op sec w = (r, w')"
  obtains fs where "w' = w\<lparr>w_faults := fs\<rparr>" "is_ok r \<Longrightarrow> rotation_stamp sec = op"
  | fs p where "rotation_stamp sec \<noteq> op" "xe_password env = Inr p"
      "w' = w\<lparr>w_faults := fs, w_secrets := (w_secrets w)(sk \<mapsto> rotated env ar op sec p)\<rparr>"
proof (cases "rotation_stamp sec = op \<or> \<not> is_ok (xe_password env)")
  case True
  then have "w' = w" "is_ok r \<longrightarrow> rotation_stamp sec = op"
    using assms by (cases "xe_password env"; auto simp: rotateSecret_def split: if_splits)+
  then show ?thesis using that(1) [of "w_faults w"] by simp
next
  case False
  then obtain p where p: "xe_password env = Inr p" by (auto simp: is_ok_iff)
  obtain r1 w1 where u: "update_secret sk (rotated env ar op sec p) w = (r1, w1)" by fastforce
  have "w' = w1" "is_ok r \<longrightarrow> r1 = Inr ()"
    using assms False p u by (auto simp: rotateSecret_def rotated_def after_call_def Let_def split: sum.splits)
  then show ?thesis using update_secret_cases [OF u] that False p by metis
qed

lemma rotate_success:
  assumes "rotateStatefulSet env product ns n ar op ss w = (Inr res, w')"
    and "w_statefulSets w (ns, n) = Some ss"
  shows "\<exists>ss' sec. w_statefulSets w' (ns, n) = Some ss' \<and> rollout_stamp ss' = op \<and>
    w_secrets w' (ns, n @ ''-auth'') = Some sec \<and> rotation_stamp sec = op"
proof -
  let ?sk = "(ns, n @ ''-auth'')"
  obtain sec w1 where g: "get_secret ?sk w = (Inr sec, w1)"
    using assms(1) by (auto simp: rotateStatefulSet_def after_get_Inr Let_def)
  obtain rotatedAt w2 where rs: "rotateSecret env ?sk ar op sec w1 = (Inr rotatedAt, w2)"
    using assms(1) g by (auto simp: rotateStatefulSet_def Let_def split: prod.splits sum.splits)
  have w1: "w_secrets w1 ?sk = Some sec" "w_statefulSets w1 = w_statefulSets w"
    using get_secret_cluster [OF g] get_secret_Inr [OF g] by auto
  have "(\<exists>sec'. w_secrets w2 ?sk = Some sec' \<and> rotation_stamp sec' = op) \<and> w_statefulSets w2 = w_statefulSets w"
    by (cases rule: rotateSecret_cases [OF rs]) (simp_all add: w1)
  then show ?thesis using assms g rs
    by (auto simp: rotateStatefulSet_def after_call_Inr Let_def stampRotation_def split: if_splits
        dest!: update_statefulSet_Inr)
qed

lemma success_done:
  assumes "execute env ctx ar op product w = (Inr res, w')" and "sx_Instance ctx = Some inst"
  shows "operation_done ar op (workload_key ctx inst) (credential_key ctx inst) w'"
proof -
  have need: "statefulSetActionNeedsRuntimeWorkload (ars_action (ar_spec ar))"
    using assms by (auto simp: executeStatefulSetBackedAction_def Let_def
        statefulSetActionNeedsRuntimeWorkload_def split: if_splits)
  then obtain ss w1 where g: "get_statefulSet (workload_key ctx inst) w = (Inr ss, w1)"
    using assms by (auto simp: executeStatefulSetBackedAction_def Let_def after_get_Inr)
  have "w_statefulSets w1 (workload_key ctx inst) = Some ss"
    using get_statefulSet_Inr [OF g] get_statefulSet_cluster [OF g] by auto
  then show ?thesis using assms g need
    by (auto simp: executeStatefulSetBackedAction_def Let_def operation_done_def
        dest: scale_success restart_success rotate_success split: if_splits)
qed

subsection \<open>All that an attempt can change\<close>

definition rotates_to :: "exec_env \<Rightarrow> action_request \<Rightarrow> string \<Rightarrow> secret option \<Rightarrow> secret option \<Rightarrow> bool" where
  "rotates_to env ar op before after \<longleftrightarrow>
     ars_action (ar_spec ar) = ActionRotateCredentials \<and>
     (\<exists>sec p. before = Some sec \<and> rotation_stamp sec \<noteq> op \<and> xe_password env = Inr p \<and>
        after = Some (rotated env ar op sec p))"

definition changes_only :: "exec_env \<Rightarrow> action_request \<Rightarrow> string \<Rightarrow> key \<Rightarrow> key \<Rightarrow> world \<Rightarrow> world \<Rightarrow> bool" where
  "changes_only env ar op k sk w w' \<longleftrightarrow>
     (\<exists>fs s c. w' = w\<lparr>w_faults := fs, w_statefulSets := (w_statefulSets w)(k := s),
          w_secrets := (w_secrets w)(sk := c)\<rparr> \<and>
        (s = None \<longrightarrow> w_statefulSets w k = None) \<and>
        (c = w_secrets w sk \<or> rotates_to env ar op (w_secrets w sk) c))"

lemma changes_onlyI:
  assumes "w' = w\<lparr>w_faults := fs, w_statefulSets := (w_statefulSets w)(k := s),
      w_secrets := (w_secrets w)(sk := c)\<rparr>"
    and "s = None \<longrightarrow> w_statefulSets w k = None"
    and "c = w_secrets w sk \<or> rotates_to env ar op (w_secrets w sk) c"
  shows "changes_only env ar op k sk w w'"
  using assms unfolding changes_only_def by blast

lemma changes_only_faults [intro]: "changes_only env ar op k sk w (w\<lparr>w_faults := fs\<rparr>)"
  unfolding changes_only_def
  by (rule exI [of _ fs], rule exI [of _ "w_statefulSets w k"], rule exI [of _ "w_secrets w sk"]) simp

lemma changes_only_refl [intro]: "changes_only env ar op k sk w w"
  using changes_only_faults [of env ar op k sk w "w_faults w"] by simp

lemma changes_only_statefulSet:
  assumes "changes_only env ar op k sk w w1" and "update_statefulSet k s w1 = (r, w2)"
  shows "changes_only env ar op k sk w w2"
proof -
  obtain fs s1 c where w1: "w1 = w\<lparr>w_faults := fs, w_statefulSets := (w_statefulSets w)(k := s1),
      w_secrets := (w_secrets w)(sk := c)\<rparr>" "s1 = None \<longrightarrow> w_statefulSets w k = None"
      "c = w_secrets w sk \<or> rotates_to env ar op (w_secrets w sk) c"
    using assms(1) unfolding changes_only_def by blast
  show ?thesis
  proof (cases rule: update_statefulSet_cases [OF assms(2)])
    case (1 fs')
    then show ?thesis using w1 by (intro changes_onlyI [where fs = fs' and s = s1 and c = c]) simp_all
  next
    case (2 fs')
    then show ?thesis using w1 by (intro changes_onlyI [where fs = fs' and s = "Some s" and c = c]) simp_all
  qed
qed

lemma changes_only_after_call:
  assumes "after_call (update_statefulSet k s w1) (\<lambda>_ w. (x, w)) = (r, w')"
    and "changes_only env ar op k sk w w1"
  shows "changes_only env ar op k sk w w'"
proof -
  obtain r1 w2 where u: "update_statefulSet k s w1 = (r1, w2)" by fastforce
  then have "w' = w2" using assms(1) by (auto simp: after_call_def split: sum.splits)
  then show ?thesis using changes_only_statefulSet [OF assms(2) u] by simp
qed

lemma rotate_changes:
  assumes "rotateStatefulSet env product ns n ar op ss w = (r, w')"
    and "ars_action (ar_spec ar) = ActionRotateCredentials"
  shows "changes_only env ar op (ns, n) (ns, n @ ''-auth'') w w'"
proof -
  let ?sk = "(ns, n @ ''-auth'')"
  obtain r1 w1 where g: "get_secret ?sk w = (r1, w1)" by fastforce
  obtain fs where w1: "w1 = w\<lparr>w_faults := fs\<rparr>" using get_secret_cluster [OF g] by blast
  show ?thesis
  proof (cases r1)
    case (Inl e)
    then show ?thesis using assms(1) g w1
      by (cases e) (auto simp: rotateStatefulSet_def after_get_def Let_def)
  next
    case (Inr sec)
    have sec: "w_secrets w ?sk = Some sec" using get_secret_Inr g Inr by blast
    obtain r2 w2 where rs: "rotateSecret env ?sk ar op sec w1 = (r2, w2)" by fastforce
    have c: "changes_only env ar op (ns, n) ?sk w w2"
    proof (cases rule: rotateSecret_cases [OF rs])
      case (1 fs')
      then show ?thesis using w1 by auto
    next
      case (2 fs' p)
      then have "rotates_to env ar op (w_secrets w ?sk) (Some (rotated env ar op sec p))"
        using sec assms(2) by (auto simp: rotates_to_def)
      then show ?thesis unfolding changes_only_def using 2 w1
        by (intro exI [of _ fs'] exI [of _ "w_statefulSets w (ns, n)"] exI) auto
    qed
    show ?thesis
      using assms(1) g Inr rs c
      by (auto simp: rotateStatefulSet_def Let_def split: sum.splits if_splits intro: changes_only_after_call)
  qed
qed

lemma execute_changes:
  assumes "execute env ctx ar op product w = (r, w')" and "sx_Instance ctx = Some inst"
  shows "changes_only env ar op (workload_key ctx inst) (credential_key ctx inst) w w'"
proof (cases "statefulSetActionNeedsRuntimeWorkload (ars_action (ar_spec ar))")
  case False
  then have "w' = w" using assms
    by (auto simp: executeStatefulSetBackedAction_def Let_def statefulSetActionNeedsRuntimeWorkload_def
        split: if_splits)
  then show ?thesis by auto
next
  case True
  obtain r1 w1 where g: "get_statefulSet (workload_key ctx inst) w = (r1, w1)" by fastforce
  obtain fs where w1: "w1 = w\<lparr>w_faults := fs\<rparr>" using get_statefulSet_cluster [OF g] by blast
  have base: "changes_only env ar op (workload_key ctx inst) (credential_key ctx inst) w w1"
    using w1 by auto
  show ?thesis
  proof (cases r1)
    case (Inl e)
    then show ?thesis using assms g base True
      by (cases e) (auto simp: executeStatefulSetBackedAction_def after_get_def Let_def)
  next
    case (Inr ss)
    have rot: "changes_only env ar op (workload_key ctx inst) (credential_key ctx inst) w w'"
      if "changes_only env ar op (workload_key ctx inst) (credential_key ctx inst) (w\<lparr>w_faults := fs\<rparr>) w'"
      using that by (simp add: changes_only_def)
    show ?thesis
      using assms g Inr True base w1
      by (cases "scaleReplicas ar") (auto simp: executeStatefulSetBackedAction_def Let_def scaleStatefulSet_def
          restartStatefulSet_def split: if_splits intro: changes_only_after_call rot rotate_changes)
  qed
qed

section \<open>Repeated attempts\<close>

text \<open>Attempts at one operation, each with its clock, its random source and the faults it meets.\<close>

fun attempts ::
  "service_context \<Rightarrow> action_request \<Rightarrow> string \<Rightarrow> string \<Rightarrow> (exec_env \<times> fault list) list \<Rightarrow> world \<Rightarrow> world" where
  "attempts ctx ar op product [] w = w"
| "attempts ctx ar op product ((env, fs) # as) w =
     attempts ctx ar op product as (snd (execute env ctx ar op product (w\<lparr>w_faults := fs\<rparr>)))"

lemma execute_step:
  assumes "sx_Instance ctx = Some inst"
  obtains fs' s c where
    "snd (execute env ctx ar op product (w\<lparr>w_faults := fs\<rparr>)) =
       w\<lparr>w_faults := fs', w_statefulSets := (w_statefulSets w)(workload_key ctx inst := s),
         w_secrets := (w_secrets w)(credential_key ctx inst := c)\<rparr>"
    "s = None \<Longrightarrow> w_statefulSets w (workload_key ctx inst) = None"
    "c = w_secrets w (credential_key ctx inst) \<or> rotates_to env ar op (w_secrets w (credential_key ctx inst)) c"
proof -
  obtain r w' where e: "execute env ctx ar op product (w\<lparr>w_faults := fs\<rparr>) = (r, w')" by fastforce
  obtain fs' s c where "w' = w\<lparr>w_faults := fs, w_faults := fs',
         w_statefulSets := (w_statefulSets w)(workload_key ctx inst := s),
         w_secrets := (w_secrets w)(credential_key ctx inst := c)\<rparr>"
    "s = None \<longrightarrow> w_statefulSets w (workload_key ctx inst) = None"
    "c = w_secrets w (credential_key ctx inst) \<or> rotates_to env ar op (w_secrets w (credential_key ctx inst)) c"
    using execute_changes [OF e assms] unfolding changes_only_def by auto
  then show ?thesis by (intro that [where fs' = fs' and s = s and c = c]) (simp_all add: e)
qed

lemma attempts_stamped:
  assumes "sx_Instance ctx = Some inst" and "w_secrets w (credential_key ctx inst) = Some sec"
    and "rotation_stamp sec = op"
  shows "w_secrets (attempts ctx ar op product as w) = w_secrets w"
  using assms(2)
proof (induction as arbitrary: w)
  case (Cons a as)
  obtain env fs where a: "a = (env, fs)" by fastforce
  let ?w1 = "snd (execute env ctx ar op product (w\<lparr>w_faults := fs\<rparr>))"
  have "w_secrets ?w1 = w_secrets w"
    by (rule execute_step [OF assms(1), where env = env and ar = ar and op = op and product = product and w = w and fs = fs])
      (use Cons.prems assms(3) in \<open>auto simp: rotates_to_def\<close>)
  then show ?case using Cons.IH [of ?w1] Cons.prems a by simp
qed simp

lemma attempts_exist:
  assumes "sx_Instance ctx = Some inst"
  shows "(w_statefulSets (attempts ctx ar op product as w) (workload_key ctx inst) = None \<longrightarrow>
      w_statefulSets w (workload_key ctx inst) = None) \<and>
    (w_secrets (attempts ctx ar op product as w) (credential_key ctx inst) = None \<longrightarrow>
      w_secrets w (credential_key ctx inst) = None)"
proof (induction as arbitrary: w)
  case (Cons a as)
  obtain env fs where a: "a = (env, fs)" by fastforce
  let ?w1 = "snd (execute env ctx ar op product (w\<lparr>w_faults := fs\<rparr>))"
  have "(w_statefulSets ?w1 (workload_key ctx inst) = None \<longrightarrow> w_statefulSets w (workload_key ctx inst) = None) \<and>
      (w_secrets ?w1 (credential_key ctx inst) = None \<longrightarrow> w_secrets w (credential_key ctx inst) = None)"
    by (rule execute_step [OF assms, where env = env and ar = ar and op = op and product = product
          and w = w and fs = fs]) (auto simp: rotates_to_def)
  then show ?case using Cons.IH [of ?w1] a by auto
qed simp

text \<open>
  C29 An operation that has succeeded is not performed again: whatever its later attempts meet, they
  leave the cluster as it is.
\<close>

theorem stateful_actions_idempotent:
  assumes "execute env ctx ar op product w = (Inr res, w1)"
  shows "cluster (snd (execute env' ctx ar op product (w1\<lparr>w_faults := fs\<rparr>))) = cluster w1"
proof -
  obtain inst where inst: "sx_Instance ctx = Some inst"
    using assms by (auto simp: executeStatefulSetBackedAction_def split: option.splits)
  have "operation_done ar op (workload_key ctx inst) (credential_key ctx inst) (w1\<lparr>w_faults := fs\<rparr>)"
    using success_done [OF assms inst] by (simp add: operation_done_cluster)
  then show ?thesis using done_unchanged [OF _ inst] by (metis cluster_faults prod.collapse)
qed

text \<open>
  C28 However often an operation is attempted, and wherever each attempt stops, the password of the
  instance's Secret is replaced at most once, by what one of the attempts drew, and no other Secret
  changes.
\<close>

theorem rotation_changes_password_once:
  assumes "sx_Instance ctx = Some inst"
  shows "w_secrets (attempts ctx ar op product as w) = w_secrets w \<or>
    (\<exists>env \<in> fst ` set as. \<exists>sec p. xe_password env = Inr p \<and>
       w_secrets w (credential_key ctx inst) = Some sec \<and> rotation_stamp sec \<noteq> op \<and>
       w_secrets (attempts ctx ar op product as w) =
         (w_secrets w)(credential_key ctx inst \<mapsto> rotated env ar op sec p))"
proof (induction as arbitrary: w)
  case (Cons a as)
  obtain env fs where a: "a = (env, fs)" by fastforce
  let ?w1 = "snd (execute env ctx ar op product (w\<lparr>w_faults := fs\<rparr>))" and ?sk = "credential_key ctx inst"
  obtain c where c: "w_secrets ?w1 = (w_secrets w)(?sk := c)"
      "c = w_secrets w ?sk \<or> rotates_to env ar op (w_secrets w ?sk) c"
    by (rule execute_step [OF assms, where env = env and ar = ar and op = op and product = product
          and w = w and fs = fs]) auto
  show ?case
  proof (cases "c = w_secrets w ?sk")
    case True
    then have "w_secrets ?w1 = w_secrets w" using c(1) by simp
    then show ?thesis using Cons.IH [of ?w1] a by auto
  next
    case False
    then obtain sec p where "w_secrets w ?sk = Some sec" "rotation_stamp sec \<noteq> op" "xe_password env = Inr p"
      "c = Some (rotated env ar op sec p)"
      using c(2) unfolding rotates_to_def by blast
    then show ?thesis using attempts_stamped [OF assms, of ?w1 "rotated env ar op sec p" op ar product as] c(1) a
      by force
  qed
qed simp

text \<open>
  An action touches the StatefulSet and the credential Secret of its own instance, in the namespace
  where that runs, and nothing else in the cluster.
\<close>

theorem actions_stay_in_their_instance:
  assumes "sx_Instance ctx = Some inst"
  shows "\<exists>fs s c. attempts ctx ar op product as w =
    w\<lparr>w_faults := fs, w_statefulSets := (w_statefulSets w)(workload_key ctx inst := s),
      w_secrets := (w_secrets w)(credential_key ctx inst := c)\<rparr>"
proof (induction as arbitrary: w)
  case Nil
  then show ?case
    by (intro exI [of _ "w_faults w"] exI [of _ "w_statefulSets w (workload_key ctx inst)"]
        exI [of _ "w_secrets w (credential_key ctx inst)"]) simp
next
  case (Cons a as)
  obtain env fs where a: "a = (env, fs)" by fastforce
  let ?w1 = "snd (execute env ctx ar op product (w\<lparr>w_faults := fs\<rparr>))"
  obtain fs1 s1 c1 where "?w1 = w\<lparr>w_faults := fs1, w_statefulSets := (w_statefulSets w)(workload_key ctx inst := s1),
      w_secrets := (w_secrets w)(credential_key ctx inst := c1)\<rparr>"
    by (rule execute_step [OF assms, where env = env and ar = ar and op = op and product = product
          and w = w and fs = fs])
  moreover obtain fs2 s2 c2 where "attempts ctx ar op product as ?w1 =
      ?w1\<lparr>w_faults := fs2, w_statefulSets := (w_statefulSets ?w1)(workload_key ctx inst := s2),
        w_secrets := (w_secrets ?w1)(credential_key ctx inst := c2)\<rparr>"
    using Cons.IH [of ?w1] by blast
  ultimately show ?case using a
    by (intro exI [of _ fs2] exI [of _ s2] exI [of _ c2]) (simp del: fun_upd_apply)
qed

lemma update_none:
  assumes "no_faults w"
  shows "w_statefulSets w k = Some s0 \<Longrightarrow>
      update_statefulSet k s w = (Inr (), w\<lparr>w_statefulSets := (w_statefulSets w)(k \<mapsto> s)\<rparr>)"
    and "w_secrets w k = Some c0 \<Longrightarrow>
      update_secret k c w = (Inr (), w\<lparr>w_secrets := (w_secrets w)(k \<mapsto> c)\<rparr>)"
  using assms by (simp_all add: update_statefulSet_def update_secret_def writes_none must_exist_def)

lemma get_none:
  assumes "no_faults w"
  shows "w_statefulSets w k = Some s \<Longrightarrow> get_statefulSet k w = (Inr s, w)"
    and "w_secrets w k = Some c \<Longrightarrow> get_secret k w = (Inr c, w)"
  using assms by (simp_all add: get_statefulSet_def get_secret_def reads_none)

definition can_run :: "exec_env \<Rightarrow> action_request \<Rightarrow> bool" where
  "can_run env ar \<longleftrightarrow>
     ars_action (ar_spec ar) = ActionScale \<and> is_ok (scaleReplicas ar) \<or>
     ars_action (ar_spec ar) = ActionRestart \<or>
     ars_action (ar_spec ar) = ActionRotateCredentials \<and> is_ok (xe_password env)"

lemma clean_success:
  assumes inst: "sx_Instance ctx = Some inst" and run: "can_run env ar" and w: "no_faults w"
    and ss: "w_statefulSets w (workload_key ctx inst) = Some ss"
    and sec: "w_secrets w (credential_key ctx inst) = Some sec"
  shows "is_ok (fst (execute env ctx ar op product w))"
proof -
  have need: "statefulSetActionNeedsRuntimeWorkload (ars_action (ar_spec ar))"
    using run by (auto simp: can_run_def statefulSetActionNeedsRuntimeWorkload_def)
  have rot: "is_ok (fst (rotateStatefulSet env product (actionRuntimeNamespace ctx) (m_name (si_meta inst)) ar op ss w))"
    if "xe_password env = Inr p" for p
    using that ss sec w
    by (cases "rotation_stamp sec = op"; cases "rollout_stamp ss = op")
      (simp_all add: rotateStatefulSet_def rotateSecret_def get_none update_none Let_def)
  have "is_ok (fst (scaleStatefulSet product (workload_key ctx inst) ref ar ss w))" if "scaleReplicas ar = Inr n" for n ref
    using that ss w by (simp add: scaleStatefulSet_def update_none)
  moreover have "is_ok (fst (restartStatefulSet env product (workload_key ctx inst) ref ar op ss w))" for ref
    using ss w by (simp add: restartStatefulSet_def update_none Let_def)
  ultimately show ?thesis
    using run inst need rot get_none(1) [OF w ss]
    by (auto simp: executeStatefulSetBackedAction_def Let_def can_run_def is_ok_iff)
qed

text \<open>
  C27 An operation that earlier attempts left half done is completed by an attempt that meets no fault,
  as long as the workload and its Secret existed at the start.
\<close>

theorem half_done_operations_complete:
  assumes "sx_Instance ctx = Some inst" and "can_run env ar"
    and "w_statefulSets w (workload_key ctx inst) \<noteq> None"
    and "w_secrets w (credential_key ctx inst) \<noteq> None"
  shows "is_ok (fst (execute env ctx ar op product ((attempts ctx ar op product as w)\<lparr>w_faults := []\<rparr>))) \<and>
    operation_done ar op (workload_key ctx inst) (credential_key ctx inst)
      (snd (execute env ctx ar op product ((attempts ctx ar op product as w)\<lparr>w_faults := []\<rparr>)))"
proof -
  let ?w = "(attempts ctx ar op product as w)\<lparr>w_faults := []\<rparr>"
  obtain ss sec where "w_statefulSets ?w (workload_key ctx inst) = Some ss"
      "w_secrets ?w (credential_key ctx inst) = Some sec"
    using attempts_exist [OF assms(1), of ar op product as w] assms(3,4) by auto
  then have ok: "is_ok (fst (execute env ctx ar op product ?w))"
    using clean_success [OF assms(1,2)] by simp
  then obtain res where "execute env ctx ar op product ?w = (Inr res, snd (execute env ctx ar op product ?w))"
    unfolding is_ok_iff by (metis prod.collapse)
  from success_done [OF this assms(1)] ok show ?thesis by blast
qed

section \<open>A concrete rotation\<close>

definition sampleContext :: service_context where
  "sampleContext = \<lparr>sx_Tenant = Some sampleTenant, sx_Project = Some sampleProject, sx_ClusterTarget = None,
     sx_Class = Some sampleClass, sx_Plan = None, sx_Instance = Some (sampleInstance None)\<rparr>"

definition rotationRequest :: action_request where
  "rotationRequest = (sampleRequest ApprovalModeAuto 1)
     \<lparr>ar_spec := (ar_spec (sampleRequest ApprovalModeAuto 1))\<lparr>ars_action := ActionRotateCredentials\<rparr>\<rparr>"

definition drawing :: "string \<Rightarrow> exec_env" where
  "drawing p = \<lparr>xe_now = ''2024-01-01T00:00:00Z'', xe_password = Inr p\<rparr>"

abbreviation sampleNamespace :: string where
  "sampleNamespace \<equiv> resolvedNamespace sampleProject (sampleInstance None)"

definition sampleSecret :: secret where
  "sampleSecret = \<lparr>sc_labels = [], sc_annotations = [], sc_type = ''Opaque'', sc_data = [(''password'', ''old'')]\<rparr>"

definition sampleWorld :: world where
  "sampleWorld = \<lparr>w_instances = Map.empty,
     w_statefulSets = [(sampleNamespace, ''db'') \<mapsto> \<lparr>ss_replicas = Some 1, ss_podAnnotations = []\<rparr>],
     w_secrets = [(sampleNamespace, ''db-auth'') \<mapsto> sampleSecret],
     w_quotas = Map.empty, w_serviceAccounts = Map.empty, w_roles = Map.empty, w_roleBindings = Map.empty,
     w_jobs = Map.empty, w_backups = Map.empty, w_faults = []\<rparr>"

lemma sample_keys:
  "sx_Instance sampleContext = Some (sampleInstance None)"
  "workload_key sampleContext (sampleInstance None) = (sampleNamespace, ''db'')"
  "credential_key sampleContext (sampleInstance None) = (sampleNamespace, ''db-auth'')"
  by (simp_all add: sampleContext_def actionRuntimeNamespace_def sampleInstance_def sampleInstanceStatus_def)

lemma sample_can_run: "can_run (drawing p) rotationRequest"
  by (simp add: can_run_def drawing_def rotationRequest_def)

theorem rotation_changes_password_once_witness:
  "password_of sampleSecret = ''old'' \<and>
   (w_secrets (attempts sampleContext rotationRequest ''op-1'' ''MySQL''
      [(drawing ''a'', [Works, Works, Lost Conflict]), (drawing ''b'', [])] sampleWorld) = w_secrets sampleWorld \<or>
    (\<exists>env \<in> {drawing ''a'', drawing ''b''}. \<exists>p. xe_password env = Inr p \<and>
      w_secrets (attempts sampleContext rotationRequest ''op-1'' ''MySQL''
        [(drawing ''a'', [Works, Works, Lost Conflict]), (drawing ''b'', [])] sampleWorld)
      (sampleNamespace, ''db-auth'') = Some (rotated env rotationRequest ''op-1'' sampleSecret p)))"
  using rotation_changes_password_once [OF sample_keys(1), of rotationRequest "''op-1''" "''MySQL''"
      "[(drawing ''a'', [Works, Works, Lost Conflict]), (drawing ''b'', [])]" sampleWorld]
  unfolding sample_keys by (auto simp: sampleWorld_def sampleSecret_def map_get_def)

theorem actions_stay_in_their_instance_witness:
  "w_quotas (attempts sampleContext rotationRequest ''op-1'' ''MySQL'' [(drawing ''a'', [])] sampleWorld) = Map.empty"
  using actions_stay_in_their_instance [OF sample_keys(1), of rotationRequest "''op-1''" "''MySQL''"
      "[(drawing ''a'', [])]" sampleWorld]
  by (auto simp: sampleWorld_def)

theorem half_done_operations_complete_witness:
  "is_ok (fst (execute (drawing ''b'') sampleContext rotationRequest ''op-1'' ''MySQL''
     ((attempts sampleContext rotationRequest ''op-1'' ''MySQL'' [(drawing ''a'', [Works, Works, Lost Conflict])]
        sampleWorld)\<lparr>w_faults := []\<rparr>)))"
proof -
  have "w_statefulSets sampleWorld (workload_key sampleContext (sampleInstance None)) \<noteq> None"
    "w_secrets sampleWorld (credential_key sampleContext (sampleInstance None)) \<noteq> None"
    unfolding sample_keys by (simp_all add: sampleWorld_def)
  from half_done_operations_complete [OF sample_keys(1) sample_can_run this] show ?thesis by blast
qed

lemma sample_success: "is_ok (fst (execute (drawing ''a'') sampleContext rotationRequest ''op-1'' ''MySQL'' sampleWorld))"
  by (rule clean_success [OF sample_keys(1) sample_can_run]) (unfold sample_keys, simp_all add: sampleWorld_def)

theorem stateful_actions_idempotent_witness:
  "\<exists>w1. cluster (snd (execute (drawing ''b'') sampleContext rotationRequest ''op-1'' ''MySQL'' w1)) = cluster w1 \<and>
     w1 = snd (execute (drawing ''a'') sampleContext rotationRequest ''op-1'' ''MySQL'' sampleWorld)"
proof -
  obtain res w1 where w1: "execute (drawing ''a'') sampleContext rotationRequest ''op-1'' ''MySQL'' sampleWorld = (Inr res, w1)"
    using sample_success by (metis is_ok_iff prod.collapse)
  from stateful_actions_idempotent [OF w1, of "drawing ''b''" "w_faults w1"] show ?thesis using w1 by auto
qed

end
