(* ===== verification/NATS_Facts.thy ===== *)
theory NATS_Facts
  imports Exec_NATS Exec_StatefulSet_Facts
begin

text \<open>
  The rotation of a NATS credential leaves a users file that agrees with the Secrets; what the file
  says of users that the parameters declare; what the shell makes of the parameters of an action.
\<close>

section \<open>The passwords of the Secrets\<close>

definition add_password :: "world \<Rightarrow> string \<Rightarrow> string \<Rightarrow> (string, string) gomap \<Rightarrow> (string, string) gomap" where
  "add_password w namespace name m =
     (case w_secrets w (namespace, name) of
        None \<Rightarrow> m
      | Some sec \<Rightarrow> map_set (map_get (sc_data sec) ''username'') (map_get (sc_data sec) ''password'') m)"

definition credential_secrets :: "natsCredentialMaterialization \<Rightarrow> string list" where
  "credential_secrets spec = nm_AdminSecretName spec # secretNames (nm_AppCredentials spec)"

definition stored_passwords :: "world \<Rightarrow> string \<Rightarrow> natsCredentialMaterialization \<Rightarrow> (string, string) gomap" where
  "stored_passwords w namespace spec = fold (add_password w namespace) (credential_secrets spec) []"

lemma add_password_faults [simp]: "add_password (w\<lparr>w_faults := fs\<rparr>) = add_password w"
  by (intro ext) (simp add: add_password_def)

lemma readPasswords_Inr:
  "readPasswords namespace names m w = (Inr p, w') \<Longrightarrow>
     (\<exists>fs. w' = w\<lparr>w_faults := fs\<rparr>) \<and> p = fold (add_password w namespace) names m"
proof (induction names arbitrary: m w)
  case Nil
  then show ?case by (metis Pair_inject fold_simps(1) old.sum.inject(2) readPasswords.simps(1) world.surjective world.update_convs(10))
next
  case (Cons name names)
  from Cons.prems obtain sec w1 where r: "get_secret (namespace, name) w = (Inr sec, w1)"
      "readPasswords namespace names (map_set (map_get (sc_data sec) ''username'') (map_get (sc_data sec) ''password'') m) w1 =
        (Inr p, w')" by (auto simp: after_call_Inr)
  obtain fs where w1: "w1 = w\<lparr>w_faults := fs\<rparr>" using get_secret_cluster [OF r(1)] by blast
  show ?case using Cons.IH [OF r(2)] get_secret_Inr [OF r(1)] w1 by (auto simp: add_password_def)
qed

lemma update_secret_stored:
  assumes "update_secret k s w = (Inr u, w')"
  shows "\<exists>fs. w' = w\<lparr>w_faults := fs, w_secrets := (w_secrets w)(k \<mapsto> s)\<rparr>"
  using writes_Inr [OF assms [unfolded update_secret_def]] by auto

lemma sync_Inr:
  assumes "syncNATSAuthConfigSecret inst namespace w = (Inr u, w')"
  obtains spec sec fs where "loadNATSCredentialMaterialization inst = Inr spec"
    "w_secrets w (namespace, nm_AuthConfigSecretName spec) = Some sec"
    "w' = w\<lparr>w_faults := fs, w_secrets := (w_secrets w)((namespace, nm_AuthConfigSecretName spec) \<mapsto>
       sec\<lparr>sc_data := map_set ''users.conf'' (renderNATSUsersConfig spec (stored_passwords w namespace spec)) (sc_data sec)\<rparr>)\<rparr>"
proof -
  obtain spec where spec: "loadNATSCredentialMaterialization inst = Inr spec"
    using assms by (auto simp: syncNATSAuthConfigSecret_def split: sum.splits)
  obtain p w1 where p: "readPasswords namespace (nm_AdminSecretName spec # secretNames (nm_AppCredentials spec)) [] w = (Inr p, w1)"
    using assms spec by (auto simp: syncNATSAuthConfigSecret_def split: sum.splits prod.splits)
  obtain fs1 where w1: "w1 = w\<lparr>w_faults := fs1\<rparr>" using readPasswords_Inr [OF p] by blast
  have p': "p = stored_passwords w namespace spec"
    using readPasswords_Inr [OF p] by (simp add: stored_passwords_def credential_secrets_def)
  have "after_call (get_secret (namespace, nm_AuthConfigSecretName spec) w1) (\<lambda>sec w.
      after_call (update_secret (namespace, nm_AuthConfigSecretName spec)
        (sec\<lparr>sc_data := map_set ''users.conf'' (renderNATSUsersConfig spec p) (sc_data sec)\<rparr>) w) (\<lambda>_ w. (Inr (), w))) = (Inr u, w')"
    using assms spec p by (simp add: syncNATSAuthConfigSecret_def)
  then obtain sec w2 v where g: "get_secret (namespace, nm_AuthConfigSecretName spec) w1 = (Inr sec, w2)"
    and u: "update_secret (namespace, nm_AuthConfigSecretName spec)
        (sec\<lparr>sc_data := map_set ''users.conf'' (renderNATSUsersConfig spec p) (sc_data sec)\<rparr>) w2 = (Inr v, w')"
    by (auto simp: after_call_Inr)
  obtain fs2 where w2: "w2 = w1\<lparr>w_faults := fs2\<rparr>" using get_secret_cluster [OF g] by blast
  obtain fs3 where "w' = w2\<lparr>w_faults := fs3, w_secrets := (w_secrets w2)((namespace, nm_AuthConfigSecretName spec) \<mapsto>
       sec\<lparr>sc_data := map_set ''users.conf'' (renderNATSUsersConfig spec p) (sc_data sec)\<rparr>)\<rparr>"
    using update_secret_stored [OF u] by blast
  then show ?thesis using that [OF spec, of sec fs3] get_secret_Inr [OF g] by (simp add: w1 w2 p')
qed

section \<open>The Secrets of an instance are not its users file\<close>

lemma load_Inr:
  assumes "loadNATSCredentialMaterialization inst = Inr spec"
  obtains raw where "spec = \<lparr>nm_AdminSecretName = m_name (si_meta inst) @ ''-auth'',
    nm_AuthConfigSecretName = m_name (si_meta inst) @ ''-auth-config'',
    nm_AppCredentials = sort_key nc_Name (concat (map (materialize_credential (m_name (si_meta inst))) raw))\<rparr>"
  using assms that [of "[]"] that
  by (auto simp: loadNATSCredentialMaterialization_def Let_def split: option.splits if_splits prod.splits)

lemma load_names:
  assumes "loadNATSCredentialMaterialization inst = Inr spec"
  shows "nm_AuthConfigSecretName spec \<notin> set (credential_secrets spec)"
proof -
  let ?n = "m_name (si_meta inst)"
  have app: "?n @ ''-'' @ name @ ''-auth'' \<noteq> ?n @ ''-auth-config''" for name
  proof
    assume "?n @ ''-'' @ name @ ''-auth'' = ?n @ ''-auth-config''"
    then have "last (name @ ''-auth'') = last ''auth-config''" by simp
    then show False by simp
  qed
  have "nc_SecretName c \<noteq> ?n @ ''-auth-config''" if "c \<in> set (materialize_credential ?n r)" for c r
    using that app by (auto simp: materialize_credential_def Let_def split: if_splits)
  then show ?thesis by (rule_tac load_Inr [OF assms]) (fastforce simp: credential_secrets_def secretNames_def)
qed

lemma stored_passwords_cong:
  assumes "\<And>name. name \<in> set (credential_secrets spec) \<Longrightarrow> w_secrets v (ns, name) = w_secrets w (ns, name)"
  shows "stored_passwords v ns spec = stored_passwords w ns spec"
proof -
  have "fold (add_password v ns) names m = fold (add_password w ns) names m"
    if "set names \<subseteq> set (credential_secrets spec)" for names m
    using that assms by (induction names arbitrary: m) (auto simp: add_password_def split: option.splits)
  then show ?thesis unfolding stored_passwords_def by blast
qed

definition users_file_current :: "string \<Rightarrow> service_instance \<Rightarrow> world \<Rightarrow> bool" where
  "users_file_current ns inst w \<longleftrightarrow>
     (case loadNATSCredentialMaterialization inst of
        Inl _ \<Rightarrow> False
      | Inr spec \<Rightarrow>
          (case w_secrets w (ns, nm_AuthConfigSecretName spec) of
             None \<Rightarrow> False
           | Some sec \<Rightarrow>
               map_get (sc_data sec) ''users.conf'' = renderNATSUsersConfig spec (stored_passwords w ns spec)))"

lemma sync_current:
  assumes "syncNATSAuthConfigSecret inst ns w = (Inr u, w')"
  shows "users_file_current ns inst w'"
proof -
  obtain spec sec fs where s: "loadNATSCredentialMaterialization inst = Inr spec"
    "w_secrets w (ns, nm_AuthConfigSecretName spec) = Some sec"
    "w' = w\<lparr>w_faults := fs, w_secrets := (w_secrets w)((ns, nm_AuthConfigSecretName spec) \<mapsto>
       sec\<lparr>sc_data := map_set ''users.conf'' (renderNATSUsersConfig spec (stored_passwords w ns spec)) (sc_data sec)\<rparr>)\<rparr>"
    by (rule sync_Inr [OF assms])
  have "stored_passwords w' ns spec = stored_passwords w ns spec"
    by (rule stored_passwords_cong) (use load_names [OF s(1)] in \<open>auto simp: s(3)\<close>)
  then show ?thesis by (simp add: users_file_current_def s(1)) (simp add: s(3))
qed

lemma users_file_secrets:
  "w_secrets v = w_secrets w \<Longrightarrow> users_file_current ns inst v = users_file_current ns inst w"
  using stored_passwords_cong [of _ v ns w] by (simp add: users_file_current_def split: sum.splits option.splits)

lemma stampNATS_secrets:
  assumes "stampNATSRotation env ns name sn credential ar op at w = (r, w')"
  shows "w_secrets w' = w_secrets w"
proof -
  have upd: "w_secrets w3 = w_secrets w2" if "update_statefulSet k ss w2 = (g, w3)" for k ss w2 g w3
    using update_statefulSet_cases [OF that] by fastforce
  obtain g w1 where g: "get_statefulSet (ns, name) w = (g, w1)" by fastforce
  then have 1: "w_secrets w1 = w_secrets w" using get_statefulSet_cluster by fastforce
  have "w_secrets w' = w_secrets w1"
    using assms [unfolded stampNATSRotation_def Let_def g] upd
    by (cases rule: after_get_cases) (auto simp: after_call_def split: if_splits prod.splits sum.splits)
  then show ?thesis using 1 by simp
qed

text \<open>
  When a rotation reports success, freshly or again, and its reads have seen its own writes, the users file of
  the instance is the one that its Secrets give: NATS accepts exactly the passwords that the Secrets hold. The
  client of the controller does not promise such reads: with a cached Secret that is older than the update
  just made, \<open>syncNATSAuthConfigSecret\<close> publishes the previous password and reports success.
\<close>

theorem nats_rotation_publishes_passwords:
  assumes "rotateNATSCredentials env ctx ar op w = (Inr res, w')" and "sx_Instance ctx = Some inst"
  shows "users_file_current (actionRuntimeNamespace ctx) inst w'"
proof -
  let ?ns = "actionRuntimeNamespace ctx"
  obtain credential spec sn where p: "natsRotateCredentialParameters ar = Inr credential"
      "loadNATSCredentialMaterialization inst = Inr spec" "rotatedSecretName spec credential = Inr sn"
    using assms by (auto simp: rotateNATSCredentials_def Let_def exec_bind_def split: sum.splits)
  obtain g w1 where g: "get_secret (?ns, sn) w = (g, w1)" by fastforce
  then obtain sec where sec: "g = Inr sec"
    using assms by (cases g) (auto simp: rotateNATSCredentials_def Let_def p after_get_def split: api_error.splits)
  obtain r w2 where r: "rotateSecret env (?ns, sn) ar op sec w1 = (r, w2)" by fastforce
  then obtain at where at: "r = Inr at"
    using assms g sec by (cases r) (auto simp: rotateNATSCredentials_def Let_def p)
  obtain s w3 where s: "syncNATSAuthConfigSecret inst ?ns w2 = (s, w3)" by fastforce
  then have sync: "syncNATSAuthConfigSecret inst ?ns w2 = (Inr (), w3)" and
    stamp: "stampNATSRotation env ?ns (m_name (si_meta inst)) sn credential ar op at w3 = (Inr res, w')"
    using assms g sec r at by (cases s; auto simp: rotateNATSCredentials_def Let_def p)+
  show ?thesis using sync_current [OF sync] users_file_secrets [OF stampNATS_secrets [OF stamp]] by simp
qed

section \<open>A user with the name of the administrator\<close>

abbreviation user_of :: "secret \<Rightarrow> string" where
  "user_of sec \<equiv> map_get (sc_data sec) ''username''"

lemma fold_passwords:
  assumes "\<And>name sec. name \<in> set names \<Longrightarrow> w_secrets w (ns, name) = Some sec \<Longrightarrow> user_of sec = u \<Longrightarrow> password_of sec = p"
    and "map_get m u = p \<or> (\<exists>name sec. name \<in> set names \<and> w_secrets w (ns, name) = Some sec \<and> user_of sec = u)"
  shows "map_get (fold (add_password w ns) names m) u = p"
  using assms
proof (induction names arbitrary: m)
  case (Cons name names)
  have "map_get (add_password w ns name m) u = p \<or>
      (\<exists>n sec. n \<in> set names \<and> w_secrets w (ns, n) = Some sec \<and> user_of sec = u)"
    using Cons.prems by (cases "w_secrets w (ns, name)") (fastforce simp: add_password_def)+
  note start = this
  have "map_get (fold (add_password w ns) names (add_password w ns name m)) u = p"
    by (rule Cons.IH [OF Cons.prems(1) start]) simp_all
  then show ?case by simp
qed simp

lemma join_mem: "x \<in> set xs \<Longrightarrow> \<exists>pre post. join sep xs = pre @ x @ post"
proof (induction sep xs rule: join.induct)
  case (3 sep y z xs)
  show ?case
  proof (cases "x = y")
    case True
    then show ?thesis by (intro exI [of _ "''''"] exI [of _ "sep @ join sep (z # xs)"]) simp
  next
    case False
    then obtain pre post where "join sep (z # xs) = pre @ x @ post" using 3 by auto
    then show ?thesis by (intro exI [of _ "y @ sep @ pre"] exI [of _ post]) simp
  qed
qed (auto intro: exI [of _ "''''"])

text \<open>
  An application credential may be called \<open>servicer\<close>, the name of the administrator: usernames are
  only compared with each other. Its password is then the one that the users file gives the
  administrator, with permission to publish and subscribe to everything.
\<close>

theorem nats_admin_shadowed:
  assumes "users_file_current ns inst w" and "loadNATSCredentialMaterialization inst = Inr spec"
    and "distinct (map nc_Username (nm_AppCredentials spec))"
    and "\<And>d sec. d \<in> set (nm_AppCredentials spec) \<Longrightarrow> w_secrets w (ns, nc_SecretName d) = Some sec \<Longrightarrow>
      user_of sec = nc_Username d"
    and "c \<in> set (nm_AppCredentials spec)" and "nc_Username c = ''servicer''"
    and "w_secrets w (ns, nc_SecretName c) = Some sec"
  shows "\<exists>file pre post. w_secrets w (ns, nm_AuthConfigSecretName spec) = Some file \<and>
    map_get (sc_data file) ''users.conf'' = pre @ nats_admin_entry (password_of sec) @ post"
proof -
  have "d = c" if "d \<in> set (nm_AppCredentials spec)" "nc_Username d = ''servicer''" for d
    using assms(3,5,6) that by (auto simp: distinct_map inj_on_def)
  note only = this
  have "map_get (fold (add_password w ns) (secretNames (nm_AppCredentials spec)) m) ''servicer'' = password_of sec" for m
  proof (rule fold_passwords)
    show "password_of sec' = password_of sec"
      if "name \<in> set (secretNames (nm_AppCredentials spec))" "w_secrets w (ns, name) = Some sec'" "user_of sec' = ''servicer''"
      for name sec'
      using that only assms(4,7) by (force simp: secretNames_def)
    show "map_get m ''servicer'' = password_of sec \<or> (\<exists>name sec. name \<in> set (secretNames (nm_AppCredentials spec)) \<and>
        w_secrets w (ns, name) = Some sec \<and> user_of sec = ''servicer'')"
      using assms(4-7) by (auto simp: secretNames_def)
  qed
  then have "map_get (stored_passwords w ns spec) ''servicer'' = password_of sec"
    by (simp add: stored_passwords_def credential_secrets_def)
  then have "\<exists>xs. renderNATSUsersConfig spec (stored_passwords w ns spec) = join [CHR 0x0A] xs @ [CHR 0x0A] \<and>
      nats_admin_entry (password_of sec) \<in> set xs"
    unfolding renderNATSUsersConfig_def by (intro exI conjI) (rule refl, simp)
  then obtain xs where xs: "renderNATSUsersConfig spec (stored_passwords w ns spec) = join [CHR 0x0A] xs @ [CHR 0x0A]"
      "nats_admin_entry (password_of sec) \<in> set xs" by blast
  then obtain pre post where "join [CHR 0x0A] xs = pre @ nats_admin_entry (password_of sec) @ post"
    using join_mem by blast
  then have "renderNATSUsersConfig spec (stored_passwords w ns spec) =
      pre @ nats_admin_entry (password_of sec) @ (post @ [CHR 0x0A])" using xs(1) by simp
  then show ?thesis using assms(1,2) by (auto simp: users_file_current_def split: option.splits)
qed

section \<open>Parameters in a shell command\<close>

definition plain_char :: "char \<Rightarrow> bool" where
  "plain_char c \<longleftrightarrow> (let n = of_char c :: nat in 32 \<le> n \<and> n \<noteq> 127 \<and> n \<noteq> 34 \<and> n \<noteq> 92)"

lemma quote_plain: "list_all plain_char s \<Longrightarrow> quote s = [CHR 0x22] @ s @ [CHR 0x22]"
proof -
  have "quote_char c = [c]" if c: "plain_char c" for c
  proof -
    have "c \<notin> {CHR 0x22, CHR 0x5C, CHR 0x07, CHR 0x08, CHR 0x0C, CHR 0x0A, CHR 0x0D, CHR 0x09, CHR 0x0B}"
      using c by (auto simp: plain_char_def)
    moreover have "\<not> ((of_char c :: nat) < 32 \<or> (of_char c :: nat) = 127)" using c by (simp add: plain_char_def Let_def)
    ultimately show ?thesis unfolding quote_char_def Let_def by (simp only: insert_iff de_Morgan_disj if_False simp_thms)
  qed
  then have "concat (map quote_char s) = s" if "list_all plain_char s" for s
    using that by (induction s) simp_all
  then show "list_all plain_char s \<Longrightarrow> quote s = [CHR 0x22] @ s @ [CHR 0x22]"
    by (simp add: quote_def)
qed

lemma create_job_none:
  "no_faults w \<Longrightarrow> w_jobs w k = None \<Longrightarrow> create_job k j w = (Inr (), w\<lparr>w_jobs := (w_jobs w)(k \<mapsto> j)\<rparr>)"
  unfolding create_job_def by (subst writes_none, assumption) (simp only: must_not_exist_def if_True simp_thms option.simps)

lemma createNATSAdminJob_clean:
  assumes "sx_Instance ctx = Some inst" "no_faults w"
    "w_jobs w (actionRuntimeNamespace ctx, m_name (si_meta inst) @ ''-'' @ kind @ ''-'' @ m_name (ar_meta ar)) = None"
    "createNATSAdminJob ctx ar command kind w = (Inr res, w')"
  shows "w_jobs w' (actionRuntimeNamespace ctx, m_name (si_meta inst) @ ''-'' @ kind @ ''-'' @ m_name (ar_meta ar)) =
      Some (natsAdminJob (m_name (si_meta inst)) (actionRuntimeNamespace ctx) command kind) \<and> ae_Phase res = ''Succeeded''"
proof -
  note c = create_job_none [OF assms(2,3), of "natsAdminJob (m_name (si_meta inst)) (actionRuntimeNamespace ctx) command kind"]
  show ?thesis
    using assms(4) unfolding createNATSAdminJob_def assms(1) option.case Let_def c prod.case sum.case succeeded_def
    by (simp only: prod.inject sum.inject) (elim conjE, hypsubst, simp)
qed

lemma createNATSAdminJob_ok:
  assumes "sx_Instance ctx = Some inst" "no_faults w"
    "w_jobs w (actionRuntimeNamespace ctx, m_name (si_meta inst) @ ''-'' @ kind @ ''-'' @ m_name (ar_meta ar)) = None"
  shows "\<exists>res w'. createNATSAdminJob ctx ar command kind w = (Inr res, w')"
  unfolding createNATSAdminJob_def assms(1) option.case Let_def create_job_none [OF assms(2,3)] prod.case sum.case by blast

lemma script_splits:
  "\<exists>waiting server. natsAdminScript n ns command = waiting @ ''done; '' @ command @ server"
proof -
  let ?s = "'' --server nats://'' @ n @ ''.'' @ ns @ ''.svc.cluster.local:4222 --user '' @
    quote ''$NATS_USER'' @ '' --password '' @ quote ''$NATS_PASSWORD''"
  have "natsAdminScript n ns command =
      (''set -eu; until nats'' @ ?s @ '' account info >/dev/null 2>&1; do sleep 2; '') @ ''done; '' @ command @ ?s"
    unfolding natsAdminScript_def Let_def by simp
  then show ?thesis by blast
qed

text \<open>
  The job that deletes a stream runs, after it has reached the server, the command \<open>stream\<close> and not
  \<open>nats stream\<close>, and the name of the stream stands in it as it is between double quotes, where a
  shell still expands \<open>$(...)\<close>. The request reports success as soon as the job exists.
\<close>

theorem nats_delete_stream_script:
  assumes "executeNATSAction env ctx ar op w = (Inr res, w')" and "sx_Instance ctx = Some inst" and "no_faults w"
    and "ars_action (ar_spec ar) = ActionDeleteStream" and "natsStreamActionParameters ar = Inr stream"
    and "list_all plain_char stream"
    and "w_jobs w (actionRuntimeNamespace ctx, m_name (si_meta inst) @ ''-delete-stream-'' @ m_name (ar_meta ar)) = None"
  shows "ae_Phase res = ''Succeeded'' \<and>
    (\<exists>job waiting server. w_jobs w' (actionRuntimeNamespace ctx,
        m_name (si_meta inst) @ ''-delete-stream-'' @ m_name (ar_meta ar)) = Some job \<and>
      jo_command job = [''/bin/sh'', ''-c'',
        waiting @ ''done; '' @ (''stream rm '' @ ([CHR 0x22] @ stream @ [CHR 0x22]) @ '' --force'') @ server])"
proof -
  have c: "createNATSAdminJob ctx ar (''stream rm '' @ quote stream @ '' --force'') ''delete-stream'' w = (Inr res, w')"
    using assms(1,4,5) by (simp add: executeNATSAction_def Let_def)
  have n: "m @ ''-'' @ ''delete-stream'' @ ''-'' @ r = m @ ''-delete-stream-'' @ r" for m r :: string by simp
  show ?thesis
    using createNATSAdminJob_clean [OF assms(2,3) _ c, unfolded n, OF assms(7)]
      script_splits [of "m_name (si_meta inst)" "actionRuntimeNamespace ctx" "''stream rm '' @ quote stream @ '' --force''"]
    unfolding quote_plain [OF assms(6)]
    by (intro conjI, blast) (elim exE conjE, intro exI conjI, assumption, simp only: natsAdminJob_def job.select_convs)
qed

section \<open>A concrete NATS instance\<close>

definition natsInstance :: service_instance where
  "natsInstance = sampleInstance (Some (json_encode (JObj [(''appCredentials'', JArr [JObj [(''name'', JStr ''servicer'')]])])))"

definition natsContext :: service_context where
  "natsContext = sampleContext\<lparr>sx_Instance := Some natsInstance\<rparr>"

definition natsSpec :: natsCredentialMaterialization where
  "natsSpec = \<lparr>nm_AdminSecretName = ''db-auth'', nm_AuthConfigSecretName = ''db-auth-config'',
     nm_AppCredentials = [\<lparr>nc_Name = ''servicer'', nc_SecretName = ''db-servicer-auth'', nc_Username = ''servicer'',
       nc_Description = ''Servicer managed credential servicer'', nc_Publish = [], nc_Subscribe = [],
       nc_AllowReplies = False\<rparr>]\<rparr>"

definition natsSecret :: "string \<Rightarrow> secret" where
  "natsSecret password = sampleSecret\<lparr>sc_data := [(''username'', ''servicer''), (''password'', password)]\<rparr>"

definition natsWorld :: world where
  "natsWorld = sampleWorld\<lparr>w_secrets := [(sampleNamespace, ''db-auth'') \<mapsto> natsSecret ''root'',
     (sampleNamespace, ''db-servicer-auth'') \<mapsto> natsSecret ''app'', (sampleNamespace, ''db-auth-config'') \<mapsto> sampleSecret]\<rparr>"

definition streamRequest :: action_request where
  "streamRequest = (sampleRequest ApprovalModeAuto 1)
     \<lparr>ar_spec := (ar_spec (sampleRequest ApprovalModeAuto 1))\<lparr>ars_action := ActionDeleteStream,
        ars_parameters := Some (json_encode (JObj [(''stream'', JStr ''$(reboot)'')]))\<rparr>\<rparr>"

lemma nats_load: "loadNATSCredentialMaterialization natsInstance = Inr natsSpec"
  by code_simp

lemma nats_parameters: "natsRotateCredentialParameters rotationRequest = Inr ''''"
  "natsStreamActionParameters streamRequest = Inr ''$(reboot)''"
  by code_simp+

lemma nats_place: "sx_Instance natsContext = Some natsInstance" "actionRuntimeNamespace natsContext = sampleNamespace"
  "m_name (si_meta natsInstance) = ''db''" "no_faults natsWorld"
  by (simp_all add: natsContext_def natsInstance_def sampleContext_def actionRuntimeNamespace_def sampleInstance_def
      sampleInstanceStatus_def resolvedNamespace_def natsWorld_def sampleWorld_def)

lemma nats_secrets:
  "w_secrets natsWorld (sampleNamespace, ''db-auth'') = Some (natsSecret ''root'')"
  "w_secrets natsWorld (sampleNamespace, ''db-servicer-auth'') = Some (natsSecret ''app'')"
  "w_secrets natsWorld (sampleNamespace, ''db-auth-config'') = Some sampleSecret"
  "w_statefulSets natsWorld (sampleNamespace, ''db'') = Some \<lparr>ss_replicas = Some 1, ss_podAnnotations = []\<rparr>"
  by (simp_all add: natsWorld_def sampleWorld_def)

lemma sync_ok:
  assumes "no_faults w" "loadNATSCredentialMaterialization inst = Inr spec"
    and "\<And>name. name \<in> set (nm_AuthConfigSecretName spec # credential_secrets spec) \<Longrightarrow> w_secrets w (ns, name) \<noteq> None"
  shows "\<exists>w'. syncNATSAuthConfigSecret inst ns w = (Inr (), w') \<and> no_faults w' \<and> w_statefulSets w' = w_statefulSets w \<and>
    (\<forall>name. name \<noteq> nm_AuthConfigSecretName spec \<longrightarrow> w_secrets w' (ns, name) = w_secrets w (ns, name))"
proof -
  have r: "\<exists>p. readPasswords ns names m w = (Inr p, w)" if "set names \<subseteq> set (credential_secrets spec)" for names m
    using that
  proof (induction names arbitrary: m)
    case (Cons n names)
    then have "w_secrets w (ns, n) \<noteq> None" using assms(3) by simp
    then obtain sec where "w_secrets w (ns, n) = Some sec" by blast
    then show ?case using Cons get_none(2) [OF assms(1), of "(ns, n)"] by simp
  qed simp
  then obtain p where p: "readPasswords ns (nm_AdminSecretName spec # secretNames (nm_AppCredentials spec)) [] w = (Inr p, w)"
    unfolding credential_secrets_def by blast
  obtain sec where sec: "w_secrets w (ns, nm_AuthConfigSecretName spec) = Some sec" using assms(3) by fastforce
  show ?thesis
    using p sec assms(1,2) by (simp add: syncNATSAuthConfigSecret_def get_none update_none)
qed

lemma nats_names: "credential_secrets natsSpec = [''db-auth'', ''db-servicer-auth'']"
  "rotatedSecretName natsSpec '''' = Inr ''db-auth''" "nm_AuthConfigSecretName natsSpec = ''db-auth-config''"
  by (simp_all add: natsSpec_def credential_secrets_def secretNames_def rotatedSecretName_def)

lemma nats_sync:
  assumes "no_faults w" "w_secrets w (sampleNamespace, ''db-auth'') \<noteq> None"
    "w_secrets w (sampleNamespace, ''db-servicer-auth'') \<noteq> None" "w_secrets w (sampleNamespace, ''db-auth-config'') \<noteq> None"
  obtains w' where "syncNATSAuthConfigSecret natsInstance sampleNamespace w = (Inr (), w')" "no_faults w'"
    "w_statefulSets w' = w_statefulSets w"
    "w_secrets w' (sampleNamespace, ''db-servicer-auth'') = w_secrets w (sampleNamespace, ''db-servicer-auth'')"
proof -
  have "w_secrets w (sampleNamespace, name) \<noteq> None"
    if "name \<in> set (nm_AuthConfigSecretName natsSpec # credential_secrets natsSpec)" for name
    using that assms unfolding nats_names by auto
  from sync_ok [OF assms(1) nats_load this] that show ?thesis unfolding nats_names by auto
qed

theorem nats_admin_shadowed_witness:
  "\<exists>w file pre post. syncNATSAuthConfigSecret natsInstance sampleNamespace natsWorld = (Inr (), w) \<and>
     w_secrets w (sampleNamespace, ''db-auth-config'') = Some file \<and>
     map_get (sc_data file) ''users.conf'' = pre @ nats_admin_entry ''app'' @ post"
proof -
  obtain w where w: "syncNATSAuthConfigSecret natsInstance sampleNamespace natsWorld = (Inr (), w)"
    "w_secrets w (sampleNamespace, ''db-servicer-auth'') = Some (natsSecret ''app'')"
    by (rule nats_sync [OF nats_place(4)]) (use nats_secrets that in auto)
  have u: "user_of (natsSecret p) = ''servicer''" "password_of (natsSecret ''app'') = ''app''" for p
    by (simp_all add: natsSecret_def map_get_def)
  have d: "d \<in> set (nm_AppCredentials natsSpec) \<Longrightarrow> w_secrets w (sampleNamespace, nc_SecretName d) = Some sec \<Longrightarrow>
      user_of sec = nc_Username d" for d sec
    using w(2) u(1) [of "''app''"] by (auto simp: natsSpec_def)
  show ?thesis
    using nats_admin_shadowed [OF sync_current [OF w(1)] nats_load _ d, of "hd (nm_AppCredentials natsSpec)" "natsSecret ''app''"]
      w u by (auto simp: natsSpec_def)
qed

theorem nats_delete_stream_script_witness:
  "\<exists>job pre post. w_jobs (snd (executeNATSAction (drawing ''p'') natsContext streamRequest ''op-1'' natsWorld))
     (sampleNamespace, ''db-delete-stream-restart-db'') = Some job \<and>
     jo_command job = [''/bin/sh'', ''-c'', pre @ ''$(reboot)'' @ post]"
proof -
  have m: "m_name (ar_meta streamRequest) = ''restart-db''" "ars_action (ar_spec streamRequest) = ActionDeleteStream"
    by (simp_all add: streamRequest_def sampleRequest_def)
  have j: "w_jobs natsWorld (actionRuntimeNamespace natsContext,
      m_name (si_meta natsInstance) @ ''-delete-stream-'' @ m_name (ar_meta streamRequest)) = None"
    by (simp add: natsWorld_def sampleWorld_def)
  have p: "list_all plain_char ''$(reboot)''" by code_simp
  have n: "x @ ''-'' @ ''delete-stream'' @ ''-'' @ y = x @ ''-delete-stream-'' @ y" for x y :: string by simp
  obtain res w' where c: "createNATSAdminJob natsContext streamRequest (''stream rm '' @ quote ''$(reboot)'' @ '' --force'')
      ''delete-stream'' natsWorld = (Inr res, w')"
    using createNATSAdminJob_ok [OF nats_place(1,4), of "''delete-stream''" streamRequest, unfolded n, OF j] by blast
  then have r: "executeNATSAction (drawing ''p'') natsContext streamRequest ''op-1'' natsWorld = (Inr res, w')"
    by (simp add: executeNATSAction_def m nats_parameters)
  obtain job waiting server where "w_jobs w' (sampleNamespace, ''db'' @ ''-delete-stream-'' @ ''restart-db'') = Some job"
      "jo_command job = [''/bin/sh'', ''-c'',
        waiting @ ''done; '' @ (''stream rm '' @ ([CHR 0x22] @ ''$(reboot)'' @ [CHR 0x22]) @ '' --force'') @ server]"
    using nats_delete_stream_script [OF r nats_place(1,4) m(2) nats_parameters(2) p j] unfolding nats_place m by blast
  then show ?thesis unfolding r
    by (intro exI [of _ job] exI [of _ "waiting @ ''done; '' @ ''stream rm '' @ [CHR 0x22]"]
        exI [of _ "[CHR 0x22] @ '' --force'' @ server"]) simp
qed

theorem nats_rotation_publishes_passwords_witness:
  "\<exists>res w. rotateNATSCredentials (drawing ''new'') natsContext rotationRequest ''op-1'' natsWorld = (Inr res, w) \<and>
     users_file_current sampleNamespace natsInstance w"
proof -
  obtain at w1 where r: "rotateSecret (drawing ''new'') (sampleNamespace, ''db-auth'') rotationRequest ''op-1'' (natsSecret ''root'') natsWorld =
      (Inr at, w1)" "no_faults w1" "w_statefulSets w1 = w_statefulSets natsWorld"
      "\<forall>k. w_secrets natsWorld k \<noteq> None \<longrightarrow> w_secrets w1 k \<noteq> None"
    using nats_place(4) nats_secrets(1)
    by (simp add: rotateSecret_def natsSecret_def sampleSecret_def drawing_def update_none)
  obtain w2 where s: "syncNATSAuthConfigSecret natsInstance sampleNamespace w1 = (Inr (), w2)" "no_faults w2"
      "w_statefulSets w2 = w_statefulSets natsWorld"
    by (rule nats_sync [OF r(2)]) (use r(3,4) nats_secrets that in auto)
  have ss: "w_statefulSets w2 (sampleNamespace, ''db'') = Some \<lparr>ss_replicas = Some 1, ss_podAnnotations = []\<rparr>"
    using s(3) nats_secrets(4) by simp
  have "is_ok (fst (stampNATSRotation (drawing ''new'') sampleNamespace ''db'' ''db-auth'' '''' rotationRequest ''op-1'' at w2))"
    using s(2) ss by (simp add: stampNATSRotation_def get_none update_none Let_def)
  then have "is_ok (fst (rotateNATSCredentials (drawing ''new'') natsContext rotationRequest ''op-1'' natsWorld))"
    using r(1) s(1) nats_secrets(1) nats_place
    by (simp add: rotateNATSCredentials_def Let_def nats_parameters nats_load nats_names get_none)
  then obtain res w where res: "rotateNATSCredentials (drawing ''new'') natsContext rotationRequest ''op-1'' natsWorld = (Inr res, w)"
    by (metis is_ok_iff prod.collapse)
  from nats_rotation_publishes_passwords [OF res nats_place(1)] res show ?thesis unfolding nats_place by blast
qed

end
