(* ===== verification/Exec_Namespace.thy ===== *)
theory Exec_Namespace
  imports Exec_StatefulSet
begin

text \<open>
  The namespace actions of \<open>actionrequest_controller.go\<close>: an update of the quota, and a grant of
  access, which creates a service account with a read-only role and a Secret with a kubeconfig.

  What the controller was started with, its random source and the functions \<open>url.Parse\<close>,
  \<open>URL.String\<close>, \<open>sha256.Sum256\<close> with its hex encoding and \<open>clientcmd.Write\<close> are the fields of
  \<open>access_env\<close>; nothing is assumed of them.
\<close>

section \<open>Quota\<close>

definition updateQuota :: "exec_env \<Rightarrow> (string, string) gomap \<Rightarrow> action_request \<Rightarrow> resource_quota \<Rightarrow> resource_quota" where
  "updateQuota env hard ar quota =
     quota\<lparr>rq_hard := fold (\<lambda>(name, quantity). map_set name quantity) hard (rq_hard quota),
       rq_annotations := map_set ''servicer.io/quota-updated-at'' (xe_now env)
         (map_set ''servicer.io/quota-update-request'' (m_name (ar_meta ar)) (rq_annotations quota))\<rparr>"

section \<open>Parameters of a grant\<close>

record url =
  ur_Scheme :: string
  ur_Opaque :: string
  ur_User :: "string option"
  ur_Host :: string
  ur_Path :: string
  ur_RawPath :: string
  ur_OmitHost :: bool
  ur_ForceQuery :: bool
  ur_RawQuery :: string
  ur_Fragment :: string
  ur_RawFragment :: string

record kubeconfig =
  kc_server :: string
  kc_caData :: string
  kc_user :: string
  kc_token :: string
  kc_context :: string
  kc_namespace :: string

record access_env =
  xa_CAData :: string
  xa_ExternalURL :: string
  xa_ProductionMode :: bool
  xa_randomToken :: "go_error + string"
  xa_parseURL :: "string \<Rightarrow> url option"
  xa_showURL :: "url \<Rightarrow> string"
  xa_sha256hex :: "string \<Rightarrow> string"
  xa_write :: "kubeconfig \<Rightarrow> go_error + string"

definition normalizeNamespaceAccessBaseURL :: "access_env \<Rightarrow> string \<Rightarrow> go_error + string" where
  "normalizeNamespaceAccessBaseURL acc raw =
     (if trimSpace raw = '''' then Inl (Errorf ''external URL is required'')
      else (case xa_parseURL acc (trimSpace raw) of
              None \<Rightarrow> Inl (Errorf ''external URL must be a valid URL'')
            | Some u \<Rightarrow>
                if ur_Scheme u = '''' \<or> trimSpace (ur_Host u) = ''''
                then Inl (Errorf ''external URL must be an absolute HTTPS URL'')
                else if \<not> equalFold (ur_Scheme u) ''https'' then Inl (Errorf ''external URL must use https'')
                else if ur_User u \<noteq> None then Inl (Errorf ''external URL must not include embedded credentials'')
                else if ur_RawQuery u \<noteq> '''' \<or> ur_Fragment u \<noteq> ''''
                then Inl (Errorf ''external URL must not include query string or fragment'')
                else Inr (trimRightSet ''/'' (xa_showURL acc (u\<lparr>ur_Path := trimRightSet ''/'' (ur_Path u)\<rparr>)))))"

record namespaceAccessParams =
  na_Subject :: string
  na_BaseURL :: string
  na_CAData :: string

text \<open>A \<open>map[string]string\<close>: an entry of another type is stored as the empty string.\<close>

definition string_map_field :: "string \<Rightarrow> json \<Rightarrow> (string, string) gomap \<Rightarrow> (string, string) gomap \<times> bool" where
  "string_map_field k v m = (case dec_string v '''' of (x, e) \<Rightarrow> (map_set k x m, e))"

definition accessSubject :: "action_request \<Rightarrow> (string, string) gomap \<Rightarrow> string" where
  "accessSubject ar raw =
     (if trimSpace (map_get raw ''subject'') \<noteq> '''' then trimSpace (map_get raw ''subject'')
      else trimSpace (rb_subject (ars_requestedBy (ar_spec ar))))"

definition accessRequestURL :: "(string, string) gomap \<Rightarrow> string" where
  "accessRequestURL raw =
     (if trimSpace (map_get raw ''default_url'') \<noteq> '''' then trimSpace (map_get raw ''default_url'')
      else trimSpace (map_get raw ''defaultUrl''))"

definition namespaceAccessParameters :: "access_env \<Rightarrow> action_request \<Rightarrow> go_error + namespaceAccessParams" where
  "namespaceAccessParameters acc ar =
     bind_sum (decode_parameters ''decode grant-access parameters: '' string_map_field []
         (ars_parameters (ar_spec ar)))
       (\<lambda>raw.
          let subject = accessSubject ar raw;
              params = (\<lambda>base. \<lparr>na_Subject = subject, na_BaseURL = base, na_CAData = xa_CAData acc\<rparr>);
              configuredURL = trimSpace (xa_ExternalURL acc);
              baseURL = (if configuredURL = '''' then accessRequestURL raw else configuredURL)
          in if subject = ''''
             then Inl (Errorf ''grant-access action requires parameters.subject or requestedBy.subject'')
             else if xa_ProductionMode acc
             then (if configuredURL = ''''
                   then Inl (Errorf ''grant-access action requires controller external URL in production mode; set --external-url (or SERVICER_EXTERNAL_URL/SERVICER_AUTH_EXTERNAL_BASE_URL)'')
                   else (case normalizeNamespaceAccessBaseURL acc configuredURL of
                           Inl e \<Rightarrow> Inl (Wrapf ''invalid controller external URL for namespace access kubeconfig: '' e)
                         | Inr base \<Rightarrow> Inr (params base)))
             else if trimSpace baseURL = ''''
             then Inl (Errorf ''grant-access action requires parameters.defaultUrl or controller external URL'')
             else bind_sum (normalizeNamespaceAccessBaseURL acc baseURL) (\<lambda>base. Inr (params base)))"

section \<open>Names\<close>

definition namespaceAccessResourceName :: "string \<Rightarrow> string" where
  "namespaceAccessResourceName subject = ''servicer-access-'' @ safeKubernetesName subject 36"

definition namespaceAccessSecretName :: "string \<Rightarrow> string" where
  "namespaceAccessSecretName subject = namespaceAccessResourceName subject @ ''-kubeconfig''"

definition namespaceAccessLabels :: "service_context \<Rightarrow> (string, string) gomap" where
  "namespaceAccessLabels ctx =
     [(''servicer.io/managed-by'', ''servicer''), (''servicer.io/purpose'', ''namespace-access'')] @
     (case sx_Instance ctx of None \<Rightarrow> [] | Some i \<Rightarrow> [(''servicer.io/service-instance'', m_name (si_meta i))]) @
     (case sx_Project ctx of None \<Rightarrow> [] | Some p \<Rightarrow> [(''servicer.io/project'', m_name (pj_meta p))]) @
     (case sx_Tenant ctx of None \<Rightarrow> [] | Some t \<Rightarrow> [(''servicer.io/tenant'', m_name (tn_meta t))])"

definition shortStableHash :: "access_env \<Rightarrow> string \<Rightarrow> nat \<Rightarrow> string" where
  "shortStableHash acc value len =
     (let encoded = xa_sha256hex acc (trimSpace value) in
      if len = 0 \<or> len \<ge> length encoded then encoded else take len encoded)"

definition namespaceAccessKubeconfigUserName :: "access_env \<Rightarrow> string \<Rightarrow> string" where
  "namespaceAccessKubeconfigUserName acc subject =
     ''servicer-'' @ safeKubernetesName subject 32 @ ''-'' @ shortStableHash acc subject 8"

definition namespaceAccessKubeconfigContextName :: "access_env \<Rightarrow> string \<Rightarrow> string \<Rightarrow> string" where
  "namespaceAccessKubeconfigContextName acc namespace subject =
     ''ns-'' @ safeKubernetesName namespace 28 @ ''-'' @ shortStableHash acc subject 8"

definition namespaceAccessKubeconfig :: "access_env \<Rightarrow> namespaceAccessParams \<Rightarrow> string \<Rightarrow> string \<Rightarrow> go_error + string" where
  "namespaceAccessKubeconfig acc params namespace token =
     xa_write acc
       \<lparr>kc_server = trimRightSet ''/'' (na_BaseURL params) @ ''/api/kubernetes/namespaces/'' @ namespace,
        kc_caData = na_CAData params, kc_user = namespaceAccessKubeconfigUserName acc (na_Subject params),
        kc_token = token,
        kc_context = namespaceAccessKubeconfigContextName acc namespace (na_Subject params),
        kc_namespace = namespace\<rparr>"

section \<open>Objects of a grant\<close>

definition get_serviceAccount :: "key \<Rightarrow> world \<Rightarrow> (api_error + service_account) \<times> world" where
  "get_serviceAccount k = reads (\<lambda>w. w_serviceAccounts w k)"

definition get_role :: "key \<Rightarrow> world \<Rightarrow> (api_error + k8s_role) \<times> world" where
  "get_role k = reads (\<lambda>w. w_roles w k)"

definition get_roleBinding :: "key \<Rightarrow> world \<Rightarrow> (api_error + k8s_role_binding) \<times> world" where
  "get_roleBinding k = reads (\<lambda>w. w_roleBindings w k)"

definition put_serviceAccount :: "key \<Rightarrow> service_account \<Rightarrow> world \<Rightarrow> world" where
  "put_serviceAccount k x w = w\<lparr>w_serviceAccounts := put k x (w_serviceAccounts w)\<rparr>"

definition put_role :: "key \<Rightarrow> k8s_role \<Rightarrow> world \<Rightarrow> world" where
  "put_role k x w = w\<lparr>w_roles := put k x (w_roles w)\<rparr>"

definition put_roleBinding :: "key \<Rightarrow> k8s_role_binding \<Rightarrow> world \<Rightarrow> world" where
  "put_roleBinding k x w = w\<lparr>w_roleBindings := put k x (w_roleBindings w)\<rparr>"

definition put_secret :: "key \<Rightarrow> secret \<Rightarrow> world \<Rightarrow> world" where
  "put_secret k x w = w\<lparr>w_secrets := put k x (w_secrets w)\<rparr>"

text \<open>
  The common shape of the four \<open>apply\<close> functions: create the desired object where there is none,
  otherwise update the one that is there to what \<open>merge\<close> makes of it.
\<close>

definition apply_object ::
  "(world \<Rightarrow> 'a option) \<Rightarrow> ('a \<Rightarrow> world \<Rightarrow> world) \<Rightarrow> 'a \<Rightarrow> ('a \<Rightarrow> 'a) \<Rightarrow> unit exec" where
  "apply_object sel store desired merge w =
     (case reads sel w of
        (Inl e, w) \<Rightarrow>
          if e = NotFound
          then after_call (writes (must_not_exist sel) (store desired) w) (\<lambda>_ w. (Inr (), w))
          else (Inl (ApiError e), w)
      | (Inr existing, w) \<Rightarrow>
          after_call (writes (must_exist sel) (store (merge existing)) w) (\<lambda>_ w. (Inr (), w)))"

definition applyServiceAccount :: "key \<Rightarrow> service_account \<Rightarrow> unit exec" where
  "applyServiceAccount k desired =
     apply_object (\<lambda>w. w_serviceAccounts w k) (put_serviceAccount k) desired
       (\<lambda>existing. existing\<lparr>sa_labels := sa_labels desired\<rparr>)"

definition applyRole :: "key \<Rightarrow> k8s_role \<Rightarrow> unit exec" where
  "applyRole k desired =
     apply_object (\<lambda>w. w_roles w k) (put_role k) desired
       (\<lambda>existing. existing\<lparr>kr_labels := kr_labels desired, kr_rules := kr_rules desired\<rparr>)"

definition applyRoleBinding :: "key \<Rightarrow> k8s_role_binding \<Rightarrow> unit exec" where
  "applyRoleBinding k desired =
     apply_object (\<lambda>w. w_roleBindings w k) (put_roleBinding k) desired
       (\<lambda>existing. existing\<lparr>kb_labels := kb_labels desired, kb_subjects := kb_subjects desired,
          kb_roleRef := kb_roleRef desired\<rparr>)"

definition applySecret :: "key \<Rightarrow> secret \<Rightarrow> unit exec" where
  "applySecret k desired =
     apply_object (\<lambda>w. w_secrets w k) (put_secret k) desired
       (\<lambda>existing. existing\<lparr>sc_labels := sc_labels desired, sc_annotations := sc_annotations desired,
          sc_type := sc_type desired, sc_data := sc_data desired\<rparr>)"

text \<open>The token that the subject's Secret already has, or a new one.\<close>

definition namespaceAccessToken :: "access_env \<Rightarrow> string \<Rightarrow> string \<Rightarrow> string exec" where
  "namespaceAccessToken acc namespace subject w =
     (case get_secret (namespace, namespaceAccessSecretName subject) w of
        (Inl e, w) \<Rightarrow> if e = NotFound then (xa_randomToken acc, w) else (Inl (ApiError e), w)
      | (Inr existing, w) \<Rightarrow>
          (let token = trimSpace (map_get (sc_data existing) ''token'') in
           if token \<noteq> '''' then (Inr token, w) else (xa_randomToken acc, w)))"

definition accessRules :: "policy_rule_k8s list" where
  "accessRules =
     (let view = [''get'', ''list'', ''watch''] in
      [\<lparr>pr_apiGroups = [''''],
         pr_resources = [''configmaps'', ''events'', ''limitranges'', ''persistentvolumeclaims'', ''pods'',
           ''pods/log'', ''resourcequotas'', ''services''], pr_verbs = view\<rparr>,
       \<lparr>pr_apiGroups = [''apps''],
         pr_resources = [''daemonsets'', ''deployments'', ''replicasets'', ''statefulsets''], pr_verbs = view\<rparr>,
       \<lparr>pr_apiGroups = [''batch''], pr_resources = [''cronjobs'', ''jobs''], pr_verbs = view\<rparr>,
       \<lparr>pr_apiGroups = [''networking.k8s.io''], pr_resources = [''networkpolicies''], pr_verbs = view\<rparr>])"

definition accessSecret ::
  "(string, string) gomap \<Rightarrow> namespaceAccessParams \<Rightarrow> string \<Rightarrow> string \<Rightarrow> string \<Rightarrow> string \<Rightarrow> secret" where
  "accessSecret labels params namespace actionName token kubeconfig =
     \<lparr>sc_labels = labels,
      sc_annotations = [(''servicer.io/access-subject'', na_Subject params),
        (''servicer.io/default-url'', na_BaseURL params), (''servicer.io/action-request'', actionName)],
      sc_type = ''Opaque'',
      sc_data = [(''default_url'', na_BaseURL params), (''namespace'', namespace),
        (''subject'', na_Subject params), (''token'', token), (''kubeconfig'', kubeconfig)]\<rparr>"

text \<open>A step without a result, and the one after it.\<close>

definition exec_then :: "(go_error + unit) \<times> world \<Rightarrow> 'a exec \<Rightarrow> (go_error + 'a) \<times> world" where
  "exec_then r f = (case r of (Inl e, w) \<Rightarrow> (Inl e, w) | (Inr _, w) \<Rightarrow> f w)"

definition ensureNamespaceAccess ::
  "access_env \<Rightarrow> service_context \<Rightarrow> string \<Rightarrow> namespaceAccessParams \<Rightarrow> string \<Rightarrow> unit exec" where
  "ensureNamespaceAccess acc ctx namespace params actionName w =
     (let name = namespaceAccessResourceName (na_Subject params);
          labels = namespaceAccessLabels ctx
      in case namespaceAccessToken acc namespace (na_Subject params) w of
           (Inl e, w) \<Rightarrow> (Inl e, w)
         | (Inr token, w) \<Rightarrow>
             exec_then (applyServiceAccount (namespace, name) \<lparr>sa_labels = labels\<rparr> w) (\<lambda>w.
             exec_then (applyRole (namespace, name) \<lparr>kr_labels = labels, kr_rules = accessRules\<rparr> w) (\<lambda>w.
             exec_then (applyRoleBinding (namespace, name)
                 \<lparr>kb_labels = labels, kb_subjects = [(''ServiceAccount'', name, namespace)],
                  kb_roleRef = (''rbac.authorization.k8s.io'', ''Role'', name)\<rparr> w) (\<lambda>w.
             exec_bind (namespaceAccessKubeconfig acc params namespace token) (\<lambda>kubeconfig.
               applySecret (namespace, namespaceAccessSecretName (na_Subject params))
                 (accessSecret labels params namespace actionName token kubeconfig)) w))))"

section \<open>The actions\<close>

definition executeNamespaceAction ::
  "exec_env \<Rightarrow> access_env \<Rightarrow> (string \<Rightarrow> go_error + string) \<Rightarrow> service_context \<Rightarrow> action_request \<Rightarrow>
   action_execution_result exec" where
  "executeNamespaceAction env acc parseQuantity ctx ar w =
     (case sx_Instance ctx of
        None \<Rightarrow> (Inl (Errorf ''service instance context is required''), w)
      | Some inst \<Rightarrow>
          (let namespace = actionRuntimeNamespace ctx;
               action = ars_action (ar_spec ar);
               ref = (\<lambda>kind name. \<lparr>tr_apiVersion = ''v1'', tr_kind = kind, tr_name = name, tr_namespace = namespace\<rparr>)
           in if action = ActionUpdateQuota
              then exec_bind (quotaHard parseQuantity ar) (\<lambda>hard w.
                (let quotaName = m_name (si_meta inst) @ ''-quota'' in
                 after_get (get_quota (namespace, quotaName) w)
                   (Errorf (''ResourceQuota '' @ namespace @ ''/'' @ quotaName @ '' is not available yet'')) (\<lambda>quota w.
                 after_call (update_quota (namespace, quotaName) (updateQuota env hard ar quota) w) (\<lambda>_ w.
                   (Inr (succeeded (ref ''ResourceQuota'' quotaName)
                      (''Namespace quota '' @ namespace @ ''/'' @ quotaName @ '' updated.'') True), w))))) w
              else if action = ActionGrantAccess
              then exec_bind (namespaceAccessParameters acc ar) (\<lambda>params w.
                exec_then (ensureNamespaceAccess acc ctx namespace params (m_name (ar_meta ar)) w) (\<lambda>w.
                  (let secretName = namespaceAccessSecretName (na_Subject params) in
                   (Inr (succeeded (ref ''Secret'' secretName)
                      (''Namespace access kubeconfig written to Secret '' @ namespace @ ''/'' @ secretName @
                       '' for subject '' @ quote (na_Subject params) @ ''.'') True), w)))) w
              else (Inl (Errorf (''unsupported Namespace action '' @ quote action)), w)))"

end
