(* ===== verification/Namespace_Facts.thy ===== *)
theory Namespace_Facts
  imports Exec_Namespace Samples
begin

text \<open>
  The grant of namespace access: which objects it writes, the names it derives from the subject,
  and what becomes of two subjects whose names agree.
\<close>

section \<open>Names\<close>

lemma trimRightSet_prefix: "\<exists>t. s = trimRightSet cs s @ t"
  unfolding trimRightSet_def by (metis rev_append rev_rev_ident takeWhile_dropWhile_id)

lemma last_trimRightSet: "trimRightSet cs s \<noteq> [] \<Longrightarrow> last (trimRightSet cs s) \<notin> set cs"
  unfolding trimRightSet_def
  by (metis hd_dropWhile last_rev rev_is_Nil_conv)

lemma trimSet_ends:
  assumes "trimSet cs s \<noteq> []"
  shows "hd (trimSet cs s) \<notin> set cs" "last (trimSet cs s) \<notin> set cs"
proof -
  let ?d = "dropWhile (\<lambda>c. c \<in> set cs) s"
  obtain t where t: "?d = trimSet cs s @ t" using trimRightSet_prefix unfolding trimSet_def by blast
  then have "hd ?d = hd (trimSet cs s)" "?d \<noteq> []" using assms by (metis hd_append2, auto)
  then show "hd (trimSet cs s) \<notin> set cs" by (metis hd_dropWhile)
  show "last (trimSet cs s) \<notin> set cs" using assms last_trimRightSet unfolding trimSet_def by blast
qed

lemma set_trimSet: "set (trimSet cs s) \<subseteq> set s"
  unfolding trimSet_def trimRightSet_def by (auto dest!: set_dropWhileD)

lemma length_trimSet: "length (trimSet cs s) \<le> length s"
  unfolding trimSet_def trimRightSet_def
  by (metis length_dropWhile_le length_rev order_trans)

lemma trimSet_nonempty: "s \<noteq> [] \<Longrightarrow> hd s \<notin> set cs \<Longrightarrow> trimSet cs s \<noteq> []"
  unfolding trimSet_def trimRightSet_def by (cases s) (auto simp: dropWhile_eq_Nil_conv)

lemma safe_chars_ok: "c \<in> set (safe_chars b s) \<Longrightarrow> name_char c \<or> c = CHR ''-''"
  by (induction b s rule: safe_chars.induct) (auto split: if_splits)

text \<open>A name is not empty, starts and ends with a letter or digit and has dashes in between.\<close>

abbreviation dashed :: "string \<Rightarrow> bool" where
  "dashed s \<equiv> list_all (\<lambda>c. name_char c \<or> c = CHR ''-'') s"

definition kubernetes_name :: "string \<Rightarrow> bool" where
  "kubernetes_name s \<longleftrightarrow> s \<noteq> '''' \<and> dashed s \<and> name_char (hd s) \<and> name_char (last s)"

lemma trimmed_name:
  assumes "dashed s" "trimSet ''-'' s \<noteq> ''''"
  shows "kubernetes_name (trimSet ''-'' s)"
proof -
  have "dashed (trimSet ''-'' s)" using assms(1) set_trimSet by (fastforce simp: list_all_iff)
  moreover from this have "name_char (hd (trimSet ''-'' s))" "name_char (last (trimSet ''-'' s))"
    using trimSet_ends [OF assms(2)] hd_in_set [OF assms(2)] last_in_set [OF assms(2)]
    unfolding list_all_iff by force+
  ultimately show ?thesis using assms(2) by (simp add: kubernetes_name_def)
qed

lemma user_name: "kubernetes_name ''user''"
  by (simp add: kubernetes_name_def name_char_def)

lemma cut_name:
  assumes "kubernetes_name s" "0 < n"
  shows "kubernetes_name (trimSet ''-'' (take n s))" "length (trimSet ''-'' (take n s)) \<le> n"
proof -
  have t: "take n s \<noteq> ''''" "hd (take n s) = hd s" using assms by (auto simp: kubernetes_name_def)
  have "name_char (hd s)" using assms(1) by (simp add: kubernetes_name_def)
  then have "hd (take n s) \<notin> set ''-''" using t(2) by (auto simp: name_char_def)
  moreover have "dashed (take n s)"
    using assms(1) in_set_takeD by (fastforce simp: kubernetes_name_def list_all_iff)
  ultimately show "kubernetes_name (trimSet ''-'' (take n s))"
    using trimmed_name trimSet_nonempty t(1) by blast
  show "length (trimSet ''-'' (take n s)) \<le> n" by (rule order_trans [OF length_trimSet]) simp
qed

lemma safeKubernetesName_ok:
  "kubernetes_name (safeKubernetesName s n)" "0 < n \<Longrightarrow> length (safeKubernetesName s n) \<le> n"
proof -
  define built where "built = trimSet ''-'' (safe_chars False (map ascii_lower (trimSpace s)))"
  define name where "name = (if built = '''' then ''user'' else built)"
  have "dashed (safe_chars False (map ascii_lower (trimSpace s)))" using safe_chars_ok by (auto simp: list_all_iff)
  then have name: "kubernetes_name name" unfolding name_def built_def using user_name trimmed_name by simp
  have "safeKubernetesName s n = (if 0 < n \<and> n < length name then trimSet ''-'' (take n name) else name)"
    by (simp only: safeKubernetesName_def Let_def built_def [symmetric] name_def [symmetric])
  then show "kubernetes_name (safeKubernetesName s n)" "0 < n \<Longrightarrow> length (safeKubernetesName s n) \<le> n"
    using name cut_name [OF name] by (simp_all split: if_splits)
qed

text \<open>
  Whatever the subject of a grant, the names of its service account, role and Secret are valid
  Kubernetes names of at most 63 characters, and its Secret is not its service account's name.
\<close>

theorem access_names_valid:
  "kubernetes_name (namespaceAccessResourceName subject) \<and> kubernetes_name (namespaceAccessSecretName subject) \<and>
   length (namespaceAccessResourceName subject) \<le> 52 \<and> length (namespaceAccessSecretName subject) \<le> 63"
proof -
  have n: "kubernetes_name (safeKubernetesName subject 36)" by (rule safeKubernetesName_ok(1))
  have l: "length (safeKubernetesName subject 36) \<le> 36" by (rule safeKubernetesName_ok(2)) simp
  have "kubernetes_name (namespaceAccessResourceName subject)"
    using n by (auto simp: kubernetes_name_def namespaceAccessResourceName_def name_char_def last_append)
  moreover have "kubernetes_name (namespaceAccessSecretName subject)"
    using n by (auto simp: kubernetes_name_def namespaceAccessSecretName_def namespaceAccessResourceName_def
        name_char_def)
  ultimately show ?thesis using l by (simp add: namespaceAccessSecretName_def namespaceAccessResourceName_def)
qed

section \<open>Objects\<close>

text \<open>What an application leaves: nothing but the object changes, and it is the desired one merged.\<close>

lemma apply_object_Inr:
  assumes "apply_object sel store desired merge w = (Inr u, w')"
    and "\<And>w fs. sel (w\<lparr>w_faults := fs\<rparr>) = sel w"
  shows "\<exists>x fs. w' = store x (w\<lparr>w_faults := fs\<rparr>) \<and> (x = desired \<or> (\<exists>y. x = merge y))"
proof -
  obtain r w1 where r: "reads sel w = (r, w1)" by fastforce
  then obtain fs1 where w1: "w1 = w\<lparr>w_faults := fs1\<rparr>" using reads_cluster by blast
  have step: "\<exists>fs. w' = store x (w\<lparr>w_faults := fs\<rparr>)"
    if "after_call (writes ok (store x) w1) (\<lambda>_ w. (Inr (), w)) = (Inr u, w')" for ok x
  proof -
    from that(1) obtain v where "writes ok (store x) w1 = (Inr v, w')" by (auto simp: after_call_Inr)
    then show ?thesis using writes_Inr [of ok "store x" w1] w1 by fastforce
  qed
  show ?thesis
  proof (cases r)
    case (Inl e)
    then have "after_call (writes (must_not_exist sel) (store desired) w1) (\<lambda>_ w. (Inr (), w)) = (Inr u, w')"
      using assms(1) by (auto simp: apply_object_def r split: if_splits)
    then show ?thesis using step by blast
  next
    case (Inr y)
    then have "after_call (writes (must_exist sel) (store (merge y)) w1) (\<lambda>_ w. (Inr (), w)) = (Inr u, w')"
      using assms(1) by (simp add: apply_object_def r)
    then show ?thesis using step by blast
  qed
qed

lemmas put_defs = put_serviceAccount_def put_role_def put_roleBinding_def put_secret_def

lemma applyServiceAccount_Inr:
  assumes "applyServiceAccount k d w = (Inr u, w')"
  shows "\<exists>x fs. w' = w\<lparr>w_faults := fs, w_serviceAccounts := (w_serviceAccounts w)(k \<mapsto> x)\<rparr>"
  using apply_object_Inr [OF assms [unfolded applyServiceAccount_def]] by (auto simp: put_defs)

lemma applyRole_Inr:
  assumes "applyRole k d w = (Inr u, w')"
  shows "\<exists>x fs. w' = w\<lparr>w_faults := fs, w_roles := (w_roles w)(k \<mapsto> x)\<rparr> \<and> kr_rules x = kr_rules d"
  using apply_object_Inr [OF assms [unfolded applyRole_def]] by (fastforce simp: put_defs)

lemma applyRoleBinding_Inr:
  assumes "applyRoleBinding k d w = (Inr u, w')"
  shows "\<exists>x fs. w' = w\<lparr>w_faults := fs, w_roleBindings := (w_roleBindings w)(k \<mapsto> x)\<rparr> \<and>
    kb_subjects x = kb_subjects d \<and> kb_roleRef x = kb_roleRef d"
  using apply_object_Inr [OF assms [unfolded applyRoleBinding_def]] by (fastforce simp: put_defs)

lemma applySecret_Inr:
  assumes "applySecret k d w = (Inr u, w')"
  shows "\<exists>x fs. w' = w\<lparr>w_faults := fs, w_secrets := (w_secrets w)(k \<mapsto> x)\<rparr> \<and> sc_data x = sc_data d"
  using apply_object_Inr [OF assms [unfolded applySecret_def]] by (fastforce simp: put_defs)

lemma exec_then_Inr: "exec_then r f = (Inr x, w') \<longleftrightarrow> (\<exists>u w1. r = (Inr u, w1) \<and> f w1 = (Inr x, w'))"
  by (auto simp: exec_then_def split: prod.splits sum.splits)

lemma exec_bind_Inr: "exec_bind r f w = (Inr x, w') \<longleftrightarrow> (\<exists>y. r = Inr y \<and> f y w = (Inr x, w'))"
  by (auto simp: exec_bind_def split: sum.splits)

text \<open>Reading the token changes nothing; one that is there is the token.\<close>

lemma accessToken_Inr:
  assumes "namespaceAccessToken acc ns s w = (Inr token, w')"
  shows "\<exists>fs. w' = w\<lparr>w_faults := fs\<rparr>"
proof -
  obtain r w1 where r: "get_secret (ns, namespaceAccessSecretName s) w = (r, w1)" by fastforce
  then obtain fs where "w1 = w\<lparr>w_faults := fs\<rparr>" unfolding get_secret_def using reads_cluster by blast
  then show ?thesis using assms by (auto simp: namespaceAccessToken_def r Let_def split: sum.splits if_splits)
qed

lemma accessToken_reused:
  assumes "no_faults w" "w_secrets w (ns, namespaceAccessSecretName s) = Some sec"
    "trimSpace (map_get (sc_data sec) ''token'') \<noteq> ''''"
  shows "namespaceAccessToken acc ns s w = (Inr (trimSpace (map_get (sc_data sec) ''token'')), w)"
  using assms by (simp add: namespaceAccessToken_def get_secret_def reads_none Let_def)

section \<open>The grant\<close>

abbreviation account_key :: "string \<Rightarrow> namespaceAccessParams \<Rightarrow> key" where
  "account_key ns params \<equiv> (ns, namespaceAccessResourceName (na_Subject params))"

abbreviation kubeconfig_key :: "string \<Rightarrow> namespaceAccessParams \<Rightarrow> key" where
  "kubeconfig_key ns params \<equiv> (ns, namespaceAccessSecretName (na_Subject params))"

definition granted ::
  "namespaceAccessParams \<Rightarrow> string \<Rightarrow> service_account \<Rightarrow> k8s_role \<Rightarrow> k8s_role_binding \<Rightarrow> secret \<Rightarrow> world \<Rightarrow> world" where
  "granted params ns account role binding sec w =
     w\<lparr>w_serviceAccounts := (w_serviceAccounts w)(account_key ns params \<mapsto> account),
       w_roles := (w_roles w)(account_key ns params \<mapsto> role),
       w_roleBindings := (w_roleBindings w)(account_key ns params \<mapsto> binding),
       w_secrets := (w_secrets w)(kubeconfig_key ns params \<mapsto> sec)\<rparr>"

lemma ensure_Inr:
  assumes "ensureNamespaceAccess acc ctx ns params request w = (Inr u, w')"
  obtains token w1 account role binding sec fs c where
    "namespaceAccessToken acc ns (na_Subject params) w = (Inr token, w1)"
    "w' = granted params ns account role binding sec (w\<lparr>w_faults := fs\<rparr>)"
    "kr_rules role = accessRules"
    "kb_subjects binding = [(''ServiceAccount'', snd (account_key ns params), ns)]"
    "kb_roleRef binding = (''rbac.authorization.k8s.io'', ''Role'', snd (account_key ns params))"
    "sc_data sec = sc_data (accessSecret (namespaceAccessLabels ctx) params ns request token c)"
proof -
  let ?k = "account_key ns params" and ?l = "namespaceAccessLabels ctx"
  obtain token w1 w2 w3 w4 c where
    token: "namespaceAccessToken acc ns (na_Subject params) w = (Inr token, w1)" and
    account: "applyServiceAccount ?k \<lparr>sa_labels = ?l\<rparr> w1 = (Inr (), w2)" and
    role: "applyRole ?k \<lparr>kr_labels = ?l, kr_rules = accessRules\<rparr> w2 = (Inr (), w3)" and
    binding: "applyRoleBinding ?k \<lparr>kb_labels = ?l, kb_subjects = [(''ServiceAccount'', snd ?k, ns)],
      kb_roleRef = (''rbac.authorization.k8s.io'', ''Role'', snd ?k)\<rparr> w3 = (Inr (), w4)" and
    secret: "applySecret (kubeconfig_key ns params) (accessSecret ?l params ns request token c) w4 = (Inr (), w')"
    using assms by (auto simp: ensureNamespaceAccess_def Let_def exec_then_Inr exec_bind_Inr split: prod.splits sum.splits)
  obtain fs1 where w1: "w1 = w\<lparr>w_faults := fs1\<rparr>" using accessToken_Inr [OF token] by blast
  obtain x1 fs2 where w2: "w2 = w1\<lparr>w_faults := fs2, w_serviceAccounts := (w_serviceAccounts w1)(?k \<mapsto> x1)\<rparr>"
    using applyServiceAccount_Inr [OF account] by blast
  obtain x2 fs3 where w3: "w3 = w2\<lparr>w_faults := fs3, w_roles := (w_roles w2)(?k \<mapsto> x2)\<rparr>" "kr_rules x2 = accessRules"
    using applyRole_Inr [OF role] by auto
  obtain x3 fs4 where w4: "w4 = w3\<lparr>w_faults := fs4, w_roleBindings := (w_roleBindings w3)(?k \<mapsto> x3)\<rparr>"
      "kb_subjects x3 = [(''ServiceAccount'', snd ?k, ns)]"
      "kb_roleRef x3 = (''rbac.authorization.k8s.io'', ''Role'', snd ?k)"
    using applyRoleBinding_Inr [OF binding] by auto
  obtain x4 fs5 where w': "w' = w4\<lparr>w_faults := fs5, w_secrets := (w_secrets w4)(kubeconfig_key ns params \<mapsto> x4)\<rparr>"
      "sc_data x4 = sc_data (accessSecret ?l params ns request token c)"
    using applySecret_Inr [OF secret] by blast
  have "w' = granted params ns x1 x2 x3 x4 (w\<lparr>w_faults := fs5\<rparr>)"
    unfolding w'(1) w4(1) w3(1) w2 w1 granted_def by simp
  then show ?thesis using that token w3(2) w4(2,3) w'(2) by blast
qed

text \<open>
  C33 A grant that succeeds writes four objects, all in the namespace of the instance and under the
  names of the subject: a service account, a role that only reads and leaves Secrets out, a binding
  of that role to that account, and a Secret that names the subject.
\<close>

theorem grants_are_read_only:
  assumes "ensureNamespaceAccess acc ctx ns params request w = (Inr u, w')"
  shows "\<exists>fs account role binding sec. w' = granted params ns account role binding sec (w\<lparr>w_faults := fs\<rparr>) \<and>
    list_all (\<lambda>rule. set (pr_verbs rule) = {''get'', ''list'', ''watch''} \<and> ''secrets'' \<notin> set (pr_resources rule))
      (kr_rules role) \<and>
    kb_subjects binding = [(''ServiceAccount'', namespaceAccessResourceName (na_Subject params), ns)] \<and>
    kb_roleRef binding = (''rbac.authorization.k8s.io'', ''Role'', namespaceAccessResourceName (na_Subject params)) \<and>
    map_get (sc_data sec) ''subject'' = na_Subject params"
proof -
  have "list_all (\<lambda>rule. set (pr_verbs rule) = {''get'', ''list'', ''watch''} \<and> ''secrets'' \<notin> set (pr_resources rule))
      accessRules" by (simp add: accessRules_def Let_def)
  moreover have "map_get (sc_data (accessSecret l params ns request token c)) ''subject'' = na_Subject params" for l token c
    by (simp add: accessSecret_def map_get_def)
  ultimately show ?thesis using ensure_Inr [OF assms] by (smt (verit) snd_conv map_get_def)
qed

text \<open>
  Two subjects whose names agree share one token: the grant for the second takes it out of the
  Secret of the first, and overwrites that Secret.
\<close>

theorem access_tokens_shared:
  assumes "ensureNamespaceAccess acc ctx ns params request w = (Inr u, w1)"
    and "ensureNamespaceAccess acc' ctx' ns params' request' (w1\<lparr>w_faults := []\<rparr>) = (Inr u', w2)"
    and "safeKubernetesName (na_Subject params) 36 = safeKubernetesName (na_Subject params') 36"
    and "w_secrets w1 (kubeconfig_key ns params) = Some sec" and "trimSpace (map_get (sc_data sec) ''token'') \<noteq> ''''"
  shows "kubeconfig_key ns params' = kubeconfig_key ns params \<and>
    (\<exists>sec'. w_secrets w2 (kubeconfig_key ns params) = Some sec' \<and>
       map_get (sc_data sec') ''token'' = trimSpace (map_get (sc_data sec) ''token'') \<and>
       map_get (sc_data sec') ''subject'' = na_Subject params')"
proof -
  have k: "kubeconfig_key ns params' = kubeconfig_key ns params"
    using assms(3) by (simp add: namespaceAccessSecretName_def namespaceAccessResourceName_def)
  then have "namespaceAccessToken acc' ns (na_Subject params') (w1\<lparr>w_faults := []\<rparr>) =
      (Inr (trimSpace (map_get (sc_data sec) ''token'')), w1\<lparr>w_faults := []\<rparr>)"
    using accessToken_reused [of "w1\<lparr>w_faults := []\<rparr>"] assms(4,5) by simp
  note t = this
  from ensure_Inr [OF assms(2)] obtain token w3 account role binding sec' fs c where
    "namespaceAccessToken acc' ns (na_Subject params') (w1\<lparr>w_faults := []\<rparr>) = (Inr token, w3)"
    "w2 = granted params' ns account role binding sec' (w1\<lparr>w_faults := [], w_faults := fs\<rparr>)"
    "sc_data sec' = sc_data (accessSecret (namespaceAccessLabels ctx') params' ns request' token c)"
    by (rule ensure_Inr [OF assms(2)]) (rule that)
  with t have "w_secrets w2 (kubeconfig_key ns params) = Some sec'"
    "sc_data sec' = sc_data (accessSecret (namespaceAccessLabels ctx') params' ns request'
       (trimSpace (map_get (sc_data sec) ''token'')) c)"
    using k by (simp_all add: granted_def)
  then show ?thesis using k by (simp add: accessSecret_def map_get_def)
qed

text \<open>Without faults, and with a random token and an encoder that work, a grant succeeds.\<close>

lemma apply_object_ok:
  assumes "no_faults w" and "\<And>x v. no_faults v \<Longrightarrow> no_faults (store x v)"
  shows "\<exists>v. apply_object sel store desired merge w = (Inr (), v) \<and> no_faults v"
  using assms by (cases "sel w") (auto simp: apply_object_def reads_none writes_none must_exist_def must_not_exist_def)

lemma applies_ok:
  assumes "no_faults w"
  shows "\<exists>v. applyServiceAccount k d1 w = (Inr (), v) \<and> no_faults v"
    "\<exists>v. applyRole k d2 w = (Inr (), v) \<and> no_faults v"
    "\<exists>v. applyRoleBinding k d3 w = (Inr (), v) \<and> no_faults v"
    "\<exists>v. applySecret k d4 w = (Inr (), v) \<and> no_faults v"
  unfolding applyServiceAccount_def applyRole_def applyRoleBinding_def applySecret_def
  by (rule apply_object_ok; use assms in \<open>simp add: put_defs\<close>)+

lemma ensure_ok:
  assumes "no_faults w" "xa_randomToken acc = Inr token" "\<And>config. is_ok (xa_write acc config)"
  shows "is_ok (fst (ensureNamespaceAccess acc ctx ns params request w))"
proof -
  have "\<exists>token'. namespaceAccessToken acc ns (na_Subject params) w = (Inr token', w)"
    using assms(1,2) by (cases "w_secrets w (kubeconfig_key ns params)")
      (simp_all add: namespaceAccessToken_def get_secret_def reads_none Let_def)
  then obtain token' where token: "namespaceAccessToken acc ns (na_Subject params) w = (Inr token', w)" by blast
  obtain config where config: "namespaceAccessKubeconfig acc params ns token' = Inr config"
    using assms(3) unfolding namespaceAccessKubeconfig_def is_ok_iff by blast
  let ?k = "account_key ns params" and ?l = "namespaceAccessLabels ctx"
  obtain w1 where 1: "applyServiceAccount ?k \<lparr>sa_labels = ?l\<rparr> w = (Inr (), w1)" "no_faults w1"
    using applies_ok(1) [OF assms(1)] by blast
  obtain w2 where 2: "applyRole ?k \<lparr>kr_labels = ?l, kr_rules = accessRules\<rparr> w1 = (Inr (), w2)" "no_faults w2"
    using applies_ok(2) [OF 1(2)] by blast
  obtain w3 where 3: "applyRoleBinding ?k \<lparr>kb_labels = ?l,
      kb_subjects = [(''ServiceAccount'', namespaceAccessResourceName (na_Subject params), ns)],
      kb_roleRef = (''rbac.authorization.k8s.io'', ''Role'', namespaceAccessResourceName (na_Subject params))\<rparr> w2 =
      (Inr (), w3)" "no_faults w3"
    using applies_ok(3) [OF 2(2)] by blast
  obtain w4 where 4: "applySecret (kubeconfig_key ns params) (accessSecret ?l params ns request token' config) w3 = (Inr (), w4)"
    using applies_ok(4) [OF 3(2)] by blast
  show ?thesis
    by (simp add: ensureNamespaceAccess_def Let_def exec_then_def token config 1(1) 2(1) 3(1) 4)
qed

section \<open>A concrete grant\<close>

definition sampleAccess :: access_env where
  "sampleAccess = \<lparr>xa_CAData = '''', xa_ExternalURL = ''https://platform'', xa_ProductionMode = False,
     xa_randomToken = Inr ''token'', xa_parseURL = (\<lambda>_. None), xa_showURL = ur_Host,
     xa_sha256hex = (\<lambda>s. s), xa_write = (\<lambda>config. Inr (kc_token config))\<rparr>"

definition accessFor :: "string \<Rightarrow> namespaceAccessParams" where
  "accessFor subject = \<lparr>na_Subject = subject, na_BaseURL = ''https://platform'', na_CAData = ''''\<rparr>"

definition emptyWorld :: world where
  "emptyWorld = \<lparr>w_instances = Map.empty, w_statefulSets = Map.empty, w_secrets = Map.empty, w_quotas = Map.empty,
     w_serviceAccounts = Map.empty, w_roles = Map.empty, w_roleBindings = Map.empty, w_jobs = Map.empty,
     w_backups = Map.empty, w_faults = []\<rparr>"

abbreviation grantFor :: "string \<Rightarrow> unit exec" where
  "grantFor subject \<equiv> ensureNamespaceAccess sampleAccess
     \<lparr>sx_Tenant = None, sx_Project = None, sx_ClusterTarget = None, sx_Class = None, sx_Plan = None, sx_Instance = None\<rparr>
     ''apps'' (accessFor subject) ''grant''"

lemma grantFor_ok: "no_faults w \<Longrightarrow> \<exists>w'. grantFor subject w = (Inr (), w')"
proof -
  assume "no_faults w"
  then have "is_ok (fst (grantFor subject w))" by (rule ensure_ok) (simp_all add: sampleAccess_def)
  then show ?thesis unfolding is_ok_iff by (metis old.unit.exhaust prod.collapse)
qed

theorem grants_are_read_only_witness:
  "\<exists>role. w_roles (snd (grantFor ''alice'' emptyWorld)) (account_key ''apps'' (accessFor ''alice'')) = Some role \<and>
     list_all (\<lambda>rule. ''secrets'' \<notin> set (pr_resources rule)) (kr_rules role)"
proof -
  have "no_faults emptyWorld" by (simp add: emptyWorld_def)
  then obtain w' where w': "grantFor ''alice'' emptyWorld = (Inr (), w')" using grantFor_ok by blast
  from grants_are_read_only [OF w'] show ?thesis unfolding w' by (auto simp: granted_def list_all_iff)
qed

lemma sample_subjects: "safeKubernetesName ''a@b'' 36 = safeKubernetesName ''a-b'' 36"
  "safeKubernetesName ''a@b'' 36 = ''a-b''" "trimSpace ''token'' = ''token''"
  by code_simp+

theorem access_tokens_shared_witness:
  "\<exists>w1 w2 sec. grantFor ''a@b'' emptyWorld = (Inr (), w1) \<and> grantFor ''a-b'' (w1\<lparr>w_faults := []\<rparr>) = (Inr (), w2) \<and>
     w_secrets w2 (kubeconfig_key ''apps'' (accessFor ''a@b'')) = Some sec \<and>
     map_get (sc_data sec) ''token'' = ''token'' \<and> map_get (sc_data sec) ''subject'' = ''a-b''"
proof -
  have n: "no_faults emptyWorld" by (simp add: emptyWorld_def)
  then obtain w1 where w1: "grantFor ''a@b'' emptyWorld = (Inr (), w1)" using grantFor_ok by blast
  obtain w2 where w2: "grantFor ''a-b'' (w1\<lparr>w_faults := []\<rparr>) = (Inr (), w2)"
    using grantFor_ok [of "w1\<lparr>w_faults := []\<rparr>"] by auto
  have t: "namespaceAccessToken sampleAccess ''apps'' s emptyWorld = (Inr ''token'', emptyWorld)" for s
    using n by (simp add: namespaceAccessToken_def get_secret_def reads_none emptyWorld_def sampleAccess_def)
  obtain sec where sec: "w_secrets w1 (kubeconfig_key ''apps'' (accessFor ''a@b'')) = Some sec"
      "map_get (sc_data sec) ''token'' = ''token''"
    by (rule ensure_Inr [OF w1]) (use t that in \<open>auto simp: granted_def accessSecret_def map_get_def\<close>)
  have "na_Subject (accessFor s) = s" for s by (simp add: accessFor_def)
  with access_tokens_shared [OF w1 w2 _ sec(1)] sec(2) sample_subjects w1 w2 show ?thesis by auto
qed

end
