(* ===== verification/Exec_Dispatch.thy ===== *)
theory Exec_Dispatch
  imports Exec_Valkey Exec_MySQL Exec_NATS Namespace_Facts Action_Machine
begin

text \<open>
  The CNPG backup of \<open>actionrequest_controller.go\<close> and \<open>executeAction\<close>, which chooses the executor
  by the runtime driver of the adapter; and what an action that is attempted again leaves.
\<close>

section \<open>CNPG\<close>

text \<open>The object that is created, as the strings at its paths.\<close>

definition cnpgBackup :: "string \<Rightarrow> string \<Rightarrow> string \<Rightarrow> unstructured" where
  "cnpgBackup name namespace inst path =
     (if path = [''apiVersion''] then ''postgresql.cnpg.io/v1''
      else if path = [''kind''] then ''Backup''
      else if path = [''metadata'', ''name''] then name
      else if path = [''metadata'', ''namespace''] then namespace
      else if path = [''metadata'', ''labels'', ''servicer.io/managed-by''] then ''servicer''
      else if path = [''metadata'', ''labels'', ''servicer.io/instance''] then inst
      else if path = [''spec'', ''cluster'', ''name''] then inst
      else '''')"

text \<open>
  A backup that was created by an earlier attempt is read back; one that is created now has no
  status yet.
\<close>

definition executeCNPGAction :: "service_context \<Rightarrow> action_request \<Rightarrow> action_execution_result exec" where
  "executeCNPGAction ctx ar w =
     (if ars_action (ar_spec ar) \<noteq> ActionBackup
      then (Inl (Errorf (''unsupported PostgreSQL action '' @ quote (ars_action (ar_spec ar)))), w)
      else case sx_Instance ctx of
        None \<Rightarrow> (Inl (Errorf ''service instance context is required''), w)
      | Some inst \<Rightarrow>
          (let namespace = actionRuntimeNamespace ctx;
               name = m_name (si_meta inst) @ ''-'' @ m_name (ar_meta ar);
               ref = \<lparr>tr_apiVersion = ''postgresql.cnpg.io/v1'', tr_kind = ''Backup'', tr_name = name,
                      tr_namespace = namespace\<rparr>;
               backup = cnpgBackup name namespace (m_name (si_meta inst));
               what = ''CNPG Backup '' @ namespace @ ''/'' @ name
           in case create_backup (namespace, name) backup w of
                (Inr _, w) \<Rightarrow>
                  (let result = cnpgBackupExecutionResult backup ref in
                   (Inr (if ae_Phase result \<in> {''Queued'', ''Running''}
                         then result\<lparr>ae_Message := what @ '' created; waiting for completion.''\<rparr> else result), w))
              | (Inl e, w) \<Rightarrow>
                  if e \<noteq> AlreadyExists then (Inl (ApiError e), w)
                  else (case get_backup (namespace, name) w of
                          (Inr existing, w) \<Rightarrow> (Inr (cnpgBackupExecutionResult existing ref), w)
                        | (Inl e, w) \<Rightarrow>
                            if e = NotFound
                            then (Inr \<lparr>ae_Phase = ''Queued'', ae_OperationRef = Some ref,
                                    ae_Message = what @ '' request accepted; waiting for Backup object.'',
                                    ae_Retryable = True\<rparr>, w)
                            else (Inl (ApiError e), w))))"

section \<open>Dispatch\<close>

record executor_env =
  xd_exec :: exec_env
  xd_access :: access_env
  xd_parseQuantity :: "string \<Rightarrow> go_error + string"

definition executeAction ::
  "executor_env \<Rightarrow> resolvedActionRequest \<Rightarrow> action_request \<Rightarrow> string \<Rightarrow> action_execution_result exec" where
  "executeAction env resolved ar op w =
     (let driver = pc_RuntimeDriver (ad_Contract (ra_adapter resolved));
          ctx = ra_serviceContext resolved
      in if driver = ''servicer-valkey'' then executeValkeyAction (xd_exec env) ctx ar op w
         else if driver = ''servicer-nats'' then executeNATSAction (xd_exec env) ctx ar op w
         else if driver = ''servicer-mysql'' then executeMySQLAction (xd_exec env) ctx ar op w
         else if driver = ''cnpg'' then executeCNPGAction ctx ar w
         else if driver = ''kubernetes-namespace''
         then executeNamespaceAction (xd_exec env) (xd_access env) (xd_parseQuantity env) ctx ar w
         else (ad_ExecuteAction (ra_adapter resolved) ctx ar, w))"

section \<open>What an action changes\<close>

text \<open>Backups: one object per request, however often its creation is attempted.\<close>

abbreviation backup_key :: "service_context \<Rightarrow> service_instance \<Rightarrow> action_request \<Rightarrow> key" where
  "backup_key ctx inst ar \<equiv> (actionRuntimeNamespace ctx, m_name (si_meta inst) @ ''-'' @ m_name (ar_meta ar))"

text \<open>One attempt after the other, each with the faults it meets.\<close>

fun backup_attempts :: "service_context \<Rightarrow> action_request \<Rightarrow> fault list list \<Rightarrow> world \<Rightarrow> world" where
  "backup_attempts ctx ar [] w = w"
| "backup_attempts ctx ar (fs # rest) w = backup_attempts ctx ar rest (snd (executeCNPGAction ctx ar (w\<lparr>w_faults := fs\<rparr>)))"

definition new_backup :: "service_context \<Rightarrow> service_instance \<Rightarrow> action_request \<Rightarrow> unstructured" where
  "new_backup ctx inst ar =
     cnpgBackup (m_name (si_meta inst) @ ''-'' @ m_name (ar_meta ar)) (actionRuntimeNamespace ctx) (m_name (si_meta inst))"

definition with_backup :: "key \<Rightarrow> unstructured \<Rightarrow> world \<Rightarrow> world" where
  "with_backup k b w = w\<lparr>w_backups := (w_backups w)(k \<mapsto> b)\<rparr>"

lemma writes_effect:
  assumes "writes ok effect w = (r, w')"
  shows "\<exists>fs. w' = w\<lparr>w_faults := fs\<rparr> \<or> ok (w\<lparr>w_faults := fs\<rparr>) = None \<and> w' = effect (w\<lparr>w_faults := fs\<rparr>)"
  using assms next_fault_cluster [of w]
  by (fastforce simp: writes_def split: prod.splits fault.splits option.splits if_splits)

lemma create_backup_effect:
  assumes "create_backup k b w = (r, w')"
  shows "cluster w' = cluster w \<or> w_backups w k = None \<and> cluster w' = with_backup k b (cluster w)"
proof -
  obtain fs where "w' = w\<lparr>w_faults := fs\<rparr> \<or> must_not_exist (\<lambda>w. w_backups w k) (w\<lparr>w_faults := fs\<rparr>) = None \<and>
      w' = with_backup k b (w\<lparr>w_faults := fs\<rparr>)"
    using writes_effect [OF assms [unfolded create_backup_def]] unfolding with_backup_def by blast
  then show ?thesis
  proof
    assume "w' = w\<lparr>w_faults := fs\<rparr>"
    then show ?thesis by simp
  next
    assume *: "must_not_exist (\<lambda>w. w_backups w k) (w\<lparr>w_faults := fs\<rparr>) = None \<and> w' = with_backup k b (w\<lparr>w_faults := fs\<rparr>)"
    then have "w_backups w k = None" by (simp add: must_not_exist_def split: if_splits)
    moreover have "cluster (with_backup k b (w\<lparr>w_faults := fs\<rparr>)) = with_backup k b (cluster w)"
      by (simp add: cluster_def with_backup_def)
    ultimately show ?thesis using * by blast
  qed
qed

lemma backup_step:
  assumes "sx_Instance ctx = Some inst"
  shows "cluster (snd (executeCNPGAction ctx ar w)) = cluster w \<or>
    w_backups w (backup_key ctx inst ar) = None \<and>
    cluster (snd (executeCNPGAction ctx ar w)) = with_backup (backup_key ctx inst ar) (new_backup ctx inst ar) (cluster w)"
proof (cases "ars_action (ar_spec ar) = ActionBackup")
  case False
  then show ?thesis by (simp add: executeCNPGAction_def)
next
  case True
  let ?k = "backup_key ctx inst ar"
  obtain r w1 where c: "create_backup ?k (new_backup ctx inst ar) w = (r, w1)" by fastforce
  obtain g w2 where g: "get_backup ?k w1 = (g, w2)" by fastforce
  have w2: "cluster w2 = cluster w1" using reads_cluster g unfolding get_backup_def by fastforce
  have "snd (executeCNPGAction ctx ar w) = w1 \<or> snd (executeCNPGAction ctx ar w) = w2"
    using c g True assms
    by (cases r; cases g) (auto simp: executeCNPGAction_def Let_def new_backup_def)
  then show ?thesis using create_backup_effect [OF c] w2 by auto
qed

text \<open>
  Attempts at a backup, failing or not, leave everything alone but the one Backup of the request, and
  that is created once: where it is there it is not written again, whatever has become of its status.
\<close>

theorem backup_created_once:
  assumes "sx_Instance ctx = Some inst"
  shows "cluster (backup_attempts ctx ar as w) = cluster w \<or>
    w_backups w (backup_key ctx inst ar) = None \<and>
    cluster (backup_attempts ctx ar as w) = with_backup (backup_key ctx inst ar) (new_backup ctx inst ar) (cluster w)"
proof (induction as arbitrary: w)
  case (Cons fs rest)
  let ?w1 = "snd (executeCNPGAction ctx ar (w\<lparr>w_faults := fs\<rparr>))" and ?k = "backup_key ctx inst ar"
  have one: "cluster ?w1 = cluster w \<or> w_backups w ?k = None \<and> cluster ?w1 = with_backup ?k (new_backup ctx inst ar) (cluster w)"
    using backup_step [OF assms, of ar "w\<lparr>w_faults := fs\<rparr>"] by simp
  have b: "w_backups (cluster v) = w_backups v" for v by (simp add: cluster_def)
  from one show ?case
  proof
    assume same: "cluster ?w1 = cluster w"
    then have "w_backups ?w1 = w_backups w" by (metis b)
    then show ?thesis using Cons.IH [of ?w1] same by (simp only: backup_attempts.simps)
  next
    assume new: "w_backups w ?k = None \<and> cluster ?w1 = with_backup ?k (new_backup ctx inst ar) (cluster w)"
    have "w_backups (with_backup k x v) k \<noteq> None" for k x v by (simp add: with_backup_def)
    then have "w_backups ?w1 ?k \<noteq> None" using new b by metis
    then show ?thesis using Cons.IH [of ?w1] new by (simp only: backup_attempts.simps) blast
  qed
qed simp

definition backupContext :: service_context where
  "backupContext = \<lparr>sx_Tenant = None, sx_Project = Some sampleProject, sx_ClusterTarget = None, sx_Class = None,
     sx_Plan = None, sx_Instance = Some (sampleInstance None)\<rparr>"

theorem backup_created_once_witness:
  "w_secrets (backup_attempts backupContext (sampleRequest ApprovalModeAuto 1) [[Lost Conflict], []] emptyWorld) = Map.empty"
proof -
  have i: "sx_Instance backupContext = Some (sampleInstance None)" by (simp add: backupContext_def)
  have s: "w_secrets v = w_secrets (cluster v)" "w_secrets (with_backup k b v) = w_secrets v" for v k b
    by (simp_all add: cluster_def with_backup_def)
  have "w_secrets emptyWorld = Map.empty" by (simp add: emptyWorld_def)
  then show ?thesis
    using backup_created_once [OF i, of "sampleRequest ApprovalModeAuto 1" "[[Lost Conflict], []]" emptyWorld] s by metis
qed

end
