(* ===== verification/Go_Paths.thy ===== *)
theory Go_Paths
  imports Field_Errors
begin

text \<open>
  The functions of \<open>path\<close> and \<open>path/filepath\<close> the delivery packages use, on a system whose separator
  is the slash: there \<open>ToSlash\<close> and \<open>FromSlash\<close> are the identity and the two \<open>Clean\<close> functions agree.
  \<open>path_clean\<close> is \<open>Clean\<close>, \<open>path_join\<close> is \<open>Join\<close>. The lemmas say when a cleaned path is \<open>plain\<close>: relative, with no
  empty, dot or dot-dot element, so that following it never leaves the directory it starts from.
\<close>

section \<open>Cleaning\<close>

text \<open>
  One element of the path against the elements kept so far, the last one first: empty elements and
  dots go, and a double dot takes away the element before it. At the front of a relative path it
  stays; at the front of a rooted one it goes.
\<close>

definition clean_step :: "bool \<Rightarrow> string \<Rightarrow> string list \<Rightarrow> string list" where
  "clean_step rooted c st =
     (if c = '''' \<or> c = ''.'' then st
      else if c = ''..'' then
        (case st of
           [] \<Rightarrow> (if rooted then [] else [''..''])
         | x # r \<Rightarrow> (if x = ''..'' then ''..'' # st else r))
      else c # st)"

definition clean_elements :: "bool \<Rightarrow> string list \<Rightarrow> string list" where
  "clean_elements rooted cs = rev (fold (clean_step rooted) cs [])"

definition path_clean :: "string \<Rightarrow> string" where
  "path_clean p =
     (let rooted = hasPrefix p ''/''; es = clean_elements rooted (split_on CHR ''/'' p) in
      if rooted then CHR ''/'' # join ''/'' es
      else if es = [] then ''.''
      else join ''/'' es)"

text \<open>\<open>Join\<close> leaves out empty arguments and cleans the result; of nothing it makes the empty path.\<close>

definition path_join :: "string list \<Rightarrow> string" where
  "path_join ps =
     (let qs = filter (\<lambda>p. p \<noteq> '''') ps in if qs = [] then '''' else path_clean (join ''/'' qs))"

text \<open>\<open>strings.Contains\<close>.\<close>

definition contains :: "string \<Rightarrow> string \<Rightarrow> bool" where
  "contains s t \<longleftrightarrow> list_ex (\<lambda>i. hasPrefix (drop i s) t) [0..<Suc (length s)]"

section \<open>Plain paths\<close>

definition plain_element :: "string \<Rightarrow> bool" where
  "plain_element c \<longleftrightarrow> c \<noteq> '''' \<and> c \<noteq> ''.'' \<and> c \<noteq> ''..'' \<and> CHR ''/'' \<notin> set c"

definition plain_path :: "string \<Rightarrow> bool" where
  "plain_path p \<longleftrightarrow> list_all plain_element (split_on CHR ''/'' p)"

text \<open>The file or directory \<open>f\<close> is \<open>d\<close> or lies below it.\<close>

definition under :: "string \<Rightarrow> string \<Rightarrow> bool" where
  "under d f \<longleftrightarrow> f = d \<or> hasPrefix f (d @ ''/'')"

lemma under_refl [simp]: "under d d"
  by (simp add: under_def)

lemma split_on_elements: "c \<in> set (split_on d s) \<Longrightarrow> d \<notin> set c"
proof (induction s arbitrary: c)
  case (Cons a s)
  obtain x xs where "split_on d s = x # xs"
    by (cases "split_on d s") auto
  then show ?case using Cons by (auto split: if_splits)
qed simp

lemma split_on_join:
  "es \<noteq> [] \<Longrightarrow> \<forall>c \<in> set es. d \<notin> set c \<Longrightarrow> split_on d (join [d] es) = es"
proof (induction "[d]" es rule: join.induct)
  case (3 a b es)
  then show ?case by (simp add: split_on_append)
qed (auto simp: split_on_no_sep)

text \<open>
  What cleaning keeps: plain elements, behind double dots that lead out of the directory a relative
  path starts from.
\<close>

definition cleaned_stack :: "bool \<Rightarrow> string list \<Rightarrow> bool" where
  "cleaned_stack rooted st \<longleftrightarrow>
     (\<exists>k ns. st = ns @ replicate k ''..'' \<and> list_all plain_element ns \<and> (rooted \<longrightarrow> k = 0))"

lemma cleaned_stackI:
  "st = ns @ replicate k ''..'' \<Longrightarrow> list_all plain_element ns \<Longrightarrow> (rooted \<Longrightarrow> k = 0) \<Longrightarrow> cleaned_stack rooted st"
  by (auto simp: cleaned_stack_def)

lemma clean_step_stack:
  assumes "cleaned_stack rooted st" "CHR ''/'' \<notin> set c"
  shows "cleaned_stack rooted (clean_step rooted c st)"
proof -
  obtain k ns where st: "st = ns @ replicate k ''..''" "list_all plain_element ns" "rooted \<longrightarrow> k = 0"
    using assms(1) by (auto simp: cleaned_stack_def)
  consider "c = '''' \<or> c = ''.''" | "c = ''..''" "ns = []" "k = 0" | k' where "c = ''..''" "ns = []" "k = Suc k'"
    | n r where "c = ''..''" "ns = n # r" | "plain_element c"
    using assms(2) by (cases ns; cases k) (auto simp: plain_element_def)
  then show ?thesis
  proof cases
    case 1
    then show ?thesis using assms(1) by (auto simp: clean_step_def)
  next
    case 2
    then have "clean_step rooted c st = [] @ replicate (if rooted then 0 else 1) ''..''"
      using st by (simp add: clean_step_def)
    then show ?thesis by (rule cleaned_stackI) simp_all
  next
    case 3
    then have "clean_step rooted c st = [] @ replicate (Suc (Suc k')) ''..''"
      by (simp add: clean_step_def st(1))
    then show ?thesis by (rule cleaned_stackI) (use 3 st(3) in simp_all)
  next
    case 4
    then have "clean_step rooted c st = r @ replicate k ''..''"
      using st by (simp add: clean_step_def plain_element_def)
    then show ?thesis by (rule cleaned_stackI) (use 4 st in simp_all)
  next
    case 5
    then have "clean_step rooted c st = (c # ns) @ replicate k ''..''"
      using st by (simp add: clean_step_def plain_element_def)
    then show ?thesis by (rule cleaned_stackI) (use 5 st in simp_all)
  qed
qed

lemma fold_clean_stack:
  "cleaned_stack rooted st \<Longrightarrow> \<forall>c \<in> set cs. CHR ''/'' \<notin> set c \<Longrightarrow>
     cleaned_stack rooted (fold (clean_step rooted) cs st)"
  by (induction cs arbitrary: st) (simp_all add: clean_step_stack)

text \<open>A relative path is cleaned to double dots and plain elements behind them.\<close>

lemma clean_elements_shape:
  obtains k ns where "clean_elements rooted (split_on CHR ''/'' p) = replicate k ''..'' @ ns"
    "list_all plain_element ns" "rooted \<longrightarrow> k = 0"
proof -
  have "cleaned_stack rooted (fold (clean_step rooted) (split_on CHR ''/'' p) [])"
    by (rule fold_clean_stack) (auto simp: cleaned_stack_def dest: split_on_elements)
  then obtain k ns where "fold (clean_step rooted) (split_on CHR ''/'' p) [] = ns @ replicate k ''..''"
      "list_all plain_element ns" "rooted \<longrightarrow> k = 0"
    by (auto simp: cleaned_stack_def)
  then show thesis using that [of k "rev ns"] by (simp add: clean_elements_def list_all_rev)
qed

text \<open>A cleaned relative path is plain, unless it is the dot or begins by leaving its directory.\<close>

lemma path_clean_plain:
  assumes "\<not> hasPrefix p ''/''" "path_clean p \<noteq> ''.''" "path_clean p \<noteq> ''..''"
    "\<not> hasPrefix (path_clean p) ''../''"
  shows "plain_path (path_clean p)"
proof -
  obtain k ns where e: "clean_elements False (split_on CHR ''/'' p) = replicate k ''..'' @ ns"
      "list_all plain_element ns"
    by (rule clean_elements_shape [of False p]) auto
  have c: "path_clean p = (if replicate k ''..'' @ ns = [] then ''.'' else join ''/'' (replicate k ''..'' @ ns))"
    using assms(1) by (simp add: path_clean_def Let_def e(1))
  have "k = 0"
  proof (rule ccontr)
    assume "k \<noteq> 0"
    then obtain k' where k: "k = Suc k'" by (cases k) auto
    show False
    proof (cases "replicate k' ''..'' @ ns")
      case Nil
      then show ?thesis using c assms(3) k by simp
    next
      case (Cons x xs)
      then have "path_clean p = ''..'' @ ''/'' @ join ''/'' (x # xs)"
        using c k by simp
      then show ?thesis using assms(4) by (simp add: hasPrefix_def)
    qed
  qed
  then have ne: "ns \<noteq> []" and j: "path_clean p = join ''/'' ns" using c assms(2) by (auto split: if_splits)
  have "split_on CHR ''/'' (path_clean p) = ns"
    unfolding j using e(2) ne by (intro split_on_join) (auto simp: list_all_iff plain_element_def)
  then show ?thesis using e(2) by (simp add: plain_path_def)
qed

section \<open>Joining a plain path to a clean root\<close>

lemma split_on_append_sep: "split_on d (s @ d # t) = split_on d s @ split_on d t"
proof (induction s)
  case (Cons c s)
  then show ?case by (cases "split_on d s") auto
qed simp

lemma join_append:
  "es \<noteq> [] \<Longrightarrow> fs \<noteq> [] \<Longrightarrow> join sep (es @ fs) = join sep es @ sep @ join sep fs"
proof (induction sep es rule: join.induct)
  case (2 sep x)
  then show ?case by (cases fs) auto
qed auto

lemma join_split_on: "join [d] (split_on d s) = s"
proof (induction s)
  case (Cons c s)
  obtain w ws where w: "split_on d s = w # ws" by (cases "split_on d s") auto
  then show ?case using Cons by (cases ws) auto
qed simp

lemma clean_step_plain: "plain_element c \<Longrightarrow> clean_step rooted c st = c # st"
  by (simp add: clean_step_def plain_element_def)

lemma fold_clean_plain: "list_all plain_element cs \<Longrightarrow> fold (clean_step rooted) cs st = rev cs @ st"
  by (induction cs arbitrary: st) (simp_all add: clean_step_plain)

lemma fold_clean_dots: "fold (clean_step False) (replicate k ''..'') (replicate j ''..'') = replicate (k + j) ''..''"
proof (induction k arbitrary: j)
  case (Suc k)
  have "clean_step False ''..'' (replicate j ''..'') = replicate (Suc j) ''..''"
    by (cases j) (simp_all add: clean_step_def)
  then show ?case using Suc [of "Suc j"] by simp
qed simp

lemma clean_elements_again:
  assumes "es = replicate k ''..'' @ ns" "list_all plain_element ns" "rooted \<longrightarrow> k = 0"
  shows "fold (clean_step rooted) es [] = rev es"
proof (cases rooted)
  case True
  then show ?thesis using assms by (simp add: fold_clean_plain)
next
  case False
  have "fold (clean_step False) (replicate k ''..'') [] = replicate k ''..''"
    using fold_clean_dots [of k 0] by simp
  then show ?thesis using False assms by (simp add: fold_clean_plain)
qed

text \<open>What a clean root puts in front of a plain path.\<close>

definition root_prefix :: "string \<Rightarrow> string" where
  "root_prefix r = (if r = ''.'' then '''' else if r = ''/'' then ''/'' else r @ ''/'')"

lemma in_replicate_append: "x \<in> set (replicate k a @ ns) \<Longrightarrow> x = a \<or> x \<in> set ns"
  by (induction k) auto

lemma join_begins: "\<exists>t. join sep (x # xs) = x @ t"
  by (cases xs) auto

lemma path_join_plain:
  assumes "plain_path c"
  shows "path_join [path_clean r, c] = root_prefix (path_clean r) @ c"
proof -
  define rooted where "rooted = hasPrefix r ''/''"
  obtain k ns where e: "clean_elements rooted (split_on CHR ''/'' r) = replicate k ''..'' @ ns"
      "list_all plain_element ns" "rooted \<longrightarrow> k = 0"
    by (rule clean_elements_shape)
  define es where "es = replicate k ''..'' @ ns"
  have R: "path_clean r = (if rooted then CHR ''/'' # join ''/'' es else if es = [] then ''.'' else join ''/'' es)"
    unfolding path_clean_def Let_def rooted_def [symmetric] e(1) es_def [symmetric] by simp
  have kinds: "x = ''..'' \<or> plain_element x" if "x \<in> set es" for x
    using that e(2) unfolding es_def list_all_iff by (blast dest: in_replicate_append)
  have noslash: "\<forall>x \<in> set es. CHR ''/'' \<notin> set x" "\<forall>x \<in> set es. x \<noteq> ''''"
    using kinds unfolding plain_element_def by force+
  have cs: "list_all plain_element (split_on CHR ''/'' c)" using assms by (simp add: plain_path_def)
  have cne: "c \<noteq> ''''" using cs by (auto simp: plain_element_def)
  have begins: "\<exists>a t. join ''/'' es = a # t \<and> a \<noteq> CHR ''/''" if ne: "es \<noteq> []"
  proof -
    obtain x xs where x: "es = x # xs" using ne by (cases es) auto
    then obtain a y where a: "x = a # y" using noslash(2) by (cases x) auto
    then have "a \<noteq> CHR ''/''" using noslash(1) x by auto
    then show ?thesis using join_begins [of "''/''" x xs] x a by auto
  qed
  have Rne: "path_clean r \<noteq> ''''"
    using begins by (cases "es = []") (auto simp: R)
  have R': "hasPrefix (path_clean r @ CHR ''/'' # c) ''/'' \<longleftrightarrow> rooted"
    using begins by (cases "es = []") (auto simp: R hasPrefix_def)
  have f: "fold (clean_step rooted) (split_on CHR ''/'' (path_clean r)) [] = rev es"
  proof (cases "es = []")
    case True
    then show ?thesis by (simp add: R clean_step_def)
  next
    case False
    then have "split_on CHR ''/'' (join ''/'' es) = es" using noslash by (intro split_on_join)
    then show ?thesis using False clean_elements_again [OF es_def e(2,3)] by (cases rooted) (simp_all add: R clean_step_def)
  qed
  have ne: "es @ split_on CHR ''/'' c \<noteq> []" by simp
  have "path_clean (path_clean r @ CHR ''/'' # c) =
      (let xs = es @ split_on CHR ''/'' c in if rooted then CHR ''/'' # join ''/'' xs else join ''/'' xs)"
    using R' f cs ne by (simp only: path_clean_def [of "path_clean r @ CHR ''/'' # c"] clean_elements_def
        split_on_append_sep fold_clean_plain [OF cs] Let_def fold_append comp_apply rev_append rev_rev_ident)
      simp
  also have "\<dots> = root_prefix (path_clean r) @ c"
  proof (cases "es = []")
    case True
    then show ?thesis by (simp add: R root_prefix_def join_split_on)
  next
    case False
    then have es: "split_on CHR ''/'' (join ''/'' es) = es" using noslash by (intro split_on_join)
    have "\<forall>x \<in> set es. x \<noteq> ''.''" using kinds unfolding plain_element_def by force
    then have "join ''/'' es \<noteq> ''.''" "join ''/'' es \<noteq> ''/''" "join ''/'' es \<noteq> ''''"
      using es noslash False begins by fastforce+
    then show ?thesis using False by (simp add: R root_prefix_def join_split_on join_append)
  qed
  finally show ?thesis using Rne cne by (simp add: path_join_def)
qed

end
