(* ===== verification/Materializer.thy ===== *)
theory Materializer
  imports Go_Paths Adapters "HOL-Library.AList" "HOL-Library.Char_ord" "HOL-Library.List_Lexorder"
begin

text \<open>
  The delivery tree, \<open>internal/materializer/materializer.go\<close>: \<open>Materialize\<close> replaces the package directories
  of an instance by its rendered artifacts, \<open>Purge\<close> removes one. The disk is the regular files by their
  full path; a directory is a path with files below it. Every call on the operating system may fail:
  the disk carries what its next calls meet, in order, and \<open>Fails e left\<close> is a call that reports \<open>e\<close> and
  leaves the files it was about in the state \<open>left\<close>, whatever that is. \<open>ctx.Err\<close> is such a call. SHA-256
  with its hex encoding is the parameter \<open>sha\<close>.
\<close>

section \<open>The disk\<close>

type_synonym files = "(string, string) gomap"

datatype disk_fault = Fine | Fails string files

record disk =
  d_files :: files
  d_faults :: "disk_fault list"

definition next_disk :: "disk \<Rightarrow> disk_fault \<times> disk" where
  "next_disk k = (case d_faults k of [] \<Rightarrow> (Fine, k) | f # fs \<Rightarrow> (f, k\<lparr>d_faults := fs\<rparr>))"

definition leave :: "(string \<Rightarrow> bool) \<Rightarrow> files \<Rightarrow> files \<Rightarrow> files" where
  "leave about left fs = filter (\<lambda>(f, _). \<not> about f) fs @ filter (\<lambda>(f, _). about f) left"

definition ctx_err :: "disk \<Rightarrow> go_error option \<times> disk" where
  "ctx_err k = (case next_disk k of (Fine, k') \<Rightarrow> (None, k') | (Fails e _, k') \<Rightarrow> (Some (Errorf e), k'))"

text \<open>
  \<open>os.RemoveAll\<close>. With a regular file on the way to \<open>d\<close> there is nothing below \<open>d\<close> to remove, and the model
  succeeds where \<open>os.RemoveAll\<close> reports that the way is not a directory.
\<close>

definition removeAll :: "string \<Rightarrow> disk \<Rightarrow> go_error option \<times> disk" where
  "removeAll d k =
     (case next_disk k of
        (Fails e left, k') \<Rightarrow> (Some (Errorf e), k'\<lparr>d_files := leave (under d) left (d_files k')\<rparr>)
      | (Fine, k') \<Rightarrow> (None, k'\<lparr>d_files := filter (\<lambda>(f, _). \<not> under d f) (d_files k')\<rparr>))"

text \<open>No element of the path to a directory may be a file.\<close>

definition mkdirAll :: "string \<Rightarrow> disk \<Rightarrow> go_error option \<times> disk" where
  "mkdirAll d k =
     (case next_disk k of
        (Fails e _, k') \<Rightarrow> (Some (Errorf e), k')
      | (Fine, k') \<Rightarrow>
          (if list_ex (\<lambda>(f, _). under f d) (d_files k')
           then (Some (Errorf (''mkdir '' @ d @ '': not a directory'')), k')
           else (None, k')))"

definition is_directory :: "string \<Rightarrow> files \<Rightarrow> bool" where
  "is_directory p fs = list_ex (\<lambda>(f, _). f \<noteq> p \<and> under p f) fs"

text \<open>\<open>os.ReadFile\<close>: \<open>None\<close> where \<open>os.IsNotExist\<close> holds of the error.\<close>

definition readFile :: "string \<Rightarrow> disk \<Rightarrow> (go_error + string option) \<times> disk" where
  "readFile p k =
     (case next_disk k of
        (Fails e _, k') \<Rightarrow> (Inl (Errorf e), k')
      | (Fine, k') \<Rightarrow>
          (if is_directory p (d_files k') then (Inl (Errorf (''read '' @ p @ '': is a directory'')), k')
           else (Inr (map_of (d_files k') p), k')))"

definition writeFile :: "string \<Rightarrow> string \<Rightarrow> disk \<Rightarrow> go_error option \<times> disk" where
  "writeFile p content k =
     (case next_disk k of
        (Fails e left, k') \<Rightarrow> (Some (Errorf e), k'\<lparr>d_files := leave (\<lambda>f. f = p) left (d_files k')\<rparr>)
      | (Fine, k') \<Rightarrow>
          (if is_directory p (d_files k') then (Some (Errorf (''open '' @ p @ '': is a directory'')), k')
           else (None, k'\<lparr>d_files := AList.update p content (d_files k')\<rparr>)))"

text \<open>What follows a call that returned no error.\<close>

definition disk_then ::
  "go_error option \<times> disk \<Rightarrow> (go_error \<Rightarrow> go_error) \<Rightarrow> (disk \<Rightarrow> (go_error + 'a) \<times> disk) \<Rightarrow> (go_error + 'a) \<times> disk" where
  "disk_then r wrap f = (case r of (Some e, k) \<Rightarrow> (Inl (wrap e), k) | (None, k) \<Rightarrow> f k)"

section \<open>Paths of packages and artifacts\<close>

abbreviation DefaultRoot :: string where "DefaultRoot \<equiv> ''generated/delivery''"

text \<open>The root of \<open>materializer.New\<close>.\<close>

definition NewMaterializer :: "string \<Rightarrow> string" where
  "NewMaterializer root = path_clean (if root = '''' then DefaultRoot else root)"

definition cleanRelativePath :: "string \<Rightarrow> go_error + string" where
  "cleanRelativePath path0 =
     (let path = trimSpace path0 in
      if path = '''' \<or> path = ''.'' then Inl (Errorf ''path must not be empty'')
      else if hasPrefix path ''/'' then Inl (Errorf ''absolute paths are not allowed'')
      else (let cleaned = path_clean path in
        if cleaned = ''.'' \<or> cleaned = '''' then Inl (Errorf ''path must not be empty'')
        else if cleaned = ''..'' \<or> hasPrefix cleaned ''../'' \<or> contains cleaned ''/../''
        then Inl (Errorf ''path traversal is not allowed'')
        else Inr cleaned))"

record materialize_request =
  mq_PackagePath :: string
  mq_PackagePaths :: "string list"
  mq_Artifacts :: "rendered_artifact list"

record materialize_artifact =
  mx_Path :: string
  mx_Digest :: string

record materialize_result =
  mr_Revision :: string
  mr_Path :: string
  mr_Artifacts :: "materialize_artifact list"

text \<open>The cleaned paths in order, without repetitions.\<close>

fun clean_package_paths :: "string list \<Rightarrow> string list \<Rightarrow> go_error + string list" where
  "clean_package_paths seen [] = Inr []"
| "clean_package_paths seen (raw # raws) =
     (case cleanRelativePath raw of
        Inl e \<Rightarrow> Inl (Wrapf ''package path'' e)
      | Inr path \<Rightarrow>
          if path \<in> set seen then clean_package_paths seen raws
          else bind_sum (clean_package_paths (path # seen) raws) (\<lambda>paths. Inr (path # paths)))"

text \<open>\<open>paths[0], paths[i] = paths[i], paths[0]\<close> at the first index that holds the primary path.\<close>

definition swap_to_front :: "string \<Rightarrow> string list \<Rightarrow> string list" where
  "swap_to_front primary paths =
     (let before = takeWhile (\<lambda>p. p \<noteq> primary) paths; i = length before in
      if i < length paths then (paths[i := paths ! 0])[0 := primary] else paths)"

definition requestPackagePaths :: "materialize_request \<Rightarrow> go_error + string list" where
  "requestPackagePaths request =
     (let rawPaths = mq_PackagePaths request @
            (if mq_PackagePath request \<noteq> '''' then [mq_PackagePath request] else []) in
      if rawPaths = [] then Inl (Errorf ''package path is required'')
      else bind_sum (clean_package_paths [] rawPaths) (\<lambda>unique.
        let paths = sort unique in
        if mq_PackagePath request \<noteq> '''' then
          (case cleanRelativePath (mq_PackagePath request) of
             Inl e \<Rightarrow> Inl (Wrapf ''package path'' e)
           | Inr primary \<Rightarrow> Inr (swap_to_front primary paths))
        else Inr paths))"

definition pathInAnyPackage :: "string \<Rightarrow> string list \<Rightarrow> bool" where
  "pathInAnyPackage path packagePaths =
     list_ex (\<lambda>packagePath. path = packagePath \<or> hasPrefix path (packagePath @ ''/'')) packagePaths"

section \<open>Materializing\<close>

text \<open>
  The first loop over the sorted artifacts: every path is cleaned and checked before anything is
  written. With the digests it returns the bytes that the revision is the hash of.
\<close>

fun check_artifacts ::
  "(string \<Rightarrow> string) \<Rightarrow> string list \<Rightarrow> string list \<Rightarrow> rendered_artifact list \<Rightarrow>
     go_error + (materialize_artifact list \<times> string)" where
  "check_artifacts sha packagePaths seen [] = Inr ([], '''')"
| "check_artifacts sha packagePaths seen (a # as) =
     (case cleanRelativePath (da_Path a) of
        Inl e \<Rightarrow> Inl (Wrapf (''artifact path '' @ quote (da_Path a)) e)
      | Inr path \<Rightarrow>
          if \<not> pathInAnyPackage path packagePaths
          then Inl (Errorf (''artifact path '' @ quote path @ '' is outside package paths '' @
                 quote (join '', '' packagePaths)))
          else if path \<in> set seen then Inl (Errorf (''duplicate artifact path '' @ quote path))
          else bind_sum (check_artifacts sha packagePaths (path # seen) as) (\<lambda>(artifacts, hashed).
            Inr (\<lparr>mx_Path = path, mx_Digest = ''sha256:'' @ sha (da_Content a)\<rparr> # artifacts,
                 path @ [CHR 0x00] @ da_Content a @ [CHR 0x00] @ hashed)))"

fun clean_packages :: "string \<Rightarrow> string list \<Rightarrow> disk \<Rightarrow> (go_error + unit) \<times> disk" where
  "clean_packages root [] k = (Inr (), k)"
| "clean_packages root (p # ps) k =
     disk_then (removeAll (path_join [root, p]) k) (Wrapf (''clean package directory '' @ quote p))
       (clean_packages root ps)"

definition writeFileIfChanged :: "string \<Rightarrow> string \<Rightarrow> disk \<Rightarrow> (go_error + unit) \<times> disk" where
  "writeFileIfChanged path content k =
     (case readFile path k of
        (Inl e, k') \<Rightarrow> (Inl (Wrapf (''read existing artifact '' @ quote path) e), k')
      | (Inr existing, k') \<Rightarrow>
          if existing = Some content then (Inr (), k')
          else disk_then (writeFile path content k') (Wrapf (''write artifact '' @ quote path))
                 (\<lambda>k''. (Inr (), k'')))"

text \<open>\<open>filepath.Dir\<close>.\<close>

definition path_dir :: "string \<Rightarrow> string" where
  "path_dir p = path_clean (rev (dropWhile (\<lambda>c. c \<noteq> CHR ''/'') (rev p)))"

definition artifact_path :: "string \<Rightarrow> rendered_artifact \<Rightarrow> string" where
  "artifact_path root a =
     path_join [root, (case cleanRelativePath (da_Path a) of Inl _ \<Rightarrow> '''' | Inr path \<Rightarrow> path)]"

fun write_artifacts :: "string \<Rightarrow> rendered_artifact list \<Rightarrow> disk \<Rightarrow> (go_error + unit) \<times> disk" where
  "write_artifacts root [] k = (Inr (), k)"
| "write_artifacts root (a # as) k =
     disk_then (ctx_err k) id (\<lambda>k1.
       disk_then (mkdirAll (path_dir (artifact_path root a)) k1) (Wrapf ''create artifact directory'') (\<lambda>k2.
         case writeFileIfChanged (artifact_path root a) (da_Content a) k2 of
           (Inl e, k3) \<Rightarrow> (Inl e, k3)
         | (Inr _, k3) \<Rightarrow> write_artifacts root as k3))"

definition Materialize ::
  "(string \<Rightarrow> string) \<Rightarrow> string \<Rightarrow> materialize_request \<Rightarrow> disk \<Rightarrow> (go_error + materialize_result) \<times> disk" where
  "Materialize sha root request k =
     disk_then (ctx_err k) id (\<lambda>k1.
       if mq_Artifacts request = [] then (Inl (Errorf ''at least one artifact is required''), k1)
       else (case requestPackagePaths request of
          Inl e \<Rightarrow> (Inl e, k1)
        | Inr packagePaths \<Rightarrow>
            (let artifacts = sort_key da_Path (mq_Artifacts request) in
             case check_artifacts sha packagePaths [] artifacts of
               Inl e \<Rightarrow> (Inl e, k1)
             | Inr (statusArtifacts, hashed) \<Rightarrow>
                 (case clean_packages root packagePaths k1 of
                    (Inl e, k2) \<Rightarrow> (Inl e, k2)
                  | (Inr _, k2) \<Rightarrow>
                      (case write_artifacts root artifacts k2 of
                         (Inl e, k3) \<Rightarrow> (Inl e, k3)
                       | (Inr _, k3) \<Rightarrow>
                           (Inr \<lparr>mr_Revision = ''sha256:'' @ sha hashed, mr_Path = hd packagePaths,
                              mr_Artifacts = statusArtifacts\<rparr>, k3))))))"

definition Purge :: "string \<Rightarrow> string \<Rightarrow> disk \<Rightarrow> (go_error + unit) \<times> disk" where
  "Purge root packagePath k =
     (case cleanRelativePath packagePath of
        Inl e \<Rightarrow> (Inl (Wrapf (''package path '' @ quote packagePath) e), k)
      | Inr path \<Rightarrow> disk_then (removeAll (path_join [root, path]) k) id (\<lambda>k'. (Inr (), k')))"

end
