(* ===== verification/Delivery_Facts.thy ===== *)
theory Delivery_Facts
  imports Materializer
begin

text \<open>
  What the delivery tree promises. Whatever the request and whatever fails, materializing changes files
  of its own packages only (\<open>materialize_confined\<close>); when it succeeds the packages hold the artifacts and
  nothing else (\<open>materialize_exact\<close>); the order of the artifacts does not matter
  (\<open>materialize_order_independent\<close>); and an attempt that failed half way, however often, is made good by
  the next one that goes through (\<open>materialize_recovers\<close>).
\<close>

section \<open>Paths\<close>

lemma cleanRelativePath_plain: "cleanRelativePath p = Inr c \<Longrightarrow> plain_path c"
  using path_clean_plain [of "trimSpace p"]
  by (auto simp: cleanRelativePath_def Let_def split: if_splits)


lemma same_under [simp]: "under (r @ d) (r @ f) \<longleftrightarrow> under d f"
  by (simp add: under_def hasPrefix_def)

section \<open>What a call touches\<close>

text \<open>The files outside \<open>P\<close> are the same on both disks.\<close>

definition same_outside :: "(string \<Rightarrow> bool) \<Rightarrow> disk \<Rightarrow> disk \<Rightarrow> bool" where
  "same_outside P k k' \<longleftrightarrow> (\<forall>f. \<not> P f \<longrightarrow> map_of (d_files k') f = map_of (d_files k) f)"

lemma same_outside_refl [simp]: "d_files k' = d_files k \<Longrightarrow> same_outside P k k'"
  by (simp add: same_outside_def)

lemma same_outside_trans: "same_outside P k k' \<Longrightarrow> same_outside P k' k'' \<Longrightarrow> same_outside P k k''"
  by (simp add: same_outside_def)

lemma same_outside_mono: "same_outside P k k' \<Longrightarrow> (\<And>f. P f \<Longrightarrow> Q f) \<Longrightarrow> same_outside Q k k'"
  by (auto simp: same_outside_def)

lemma map_of_filter_fst: "map_of (filter (\<lambda>(f, _). P f) fs) f = (if P f then map_of fs f else None)"
  by (induction fs) auto

lemma map_of_leave: "map_of (leave about left fs) f = (if about f then map_of left f else map_of fs f)"
  by (simp add: leave_def map_of_filter_fst map_add_def split: option.split)

lemma next_disk_files: "next_disk k = (x, k') \<Longrightarrow> d_files k' = d_files k"
  by (auto simp: next_disk_def split: list.splits)

lemma next_disk_none: "d_faults k = [] \<Longrightarrow> next_disk k = (Fine, k)"
  by (simp add: next_disk_def)

lemmas disk_splits = prod.splits disk_fault.splits if_splits

lemma ctx_err_outside: "ctx_err k = (r, k') \<Longrightarrow> same_outside P k k'"
  by (auto simp: ctx_err_def dest: next_disk_files split: disk_splits)

lemma mkdirAll_outside: "mkdirAll d k = (r, k') \<Longrightarrow> same_outside P k k'"
  by (auto simp: mkdirAll_def dest: next_disk_files split: disk_splits)

lemma readFile_outside: "readFile p k = (r, k') \<Longrightarrow> same_outside P k k'"
  by (auto simp: readFile_def dest: next_disk_files split: disk_splits)

lemma removeAll_outside: "removeAll d k = (r, k') \<Longrightarrow> same_outside (under d) k k'"
  by (auto simp: removeAll_def same_outside_def map_of_leave map_of_filter_fst dest!: next_disk_files
      split: disk_splits)

lemma writeFile_outside: "writeFile p c k = (r, k') \<Longrightarrow> same_outside (\<lambda>f. f = p) k k'"
  by (auto simp: writeFile_def same_outside_def map_of_leave update_conv' dest!: next_disk_files
      split: disk_splits)

lemma disk_then_outside:
  assumes "disk_then m wrap f = (r, k')" "\<And>e k1. m = (e, k1) \<Longrightarrow> same_outside P k k1"
    "\<And>k1. m = (None, k1) \<Longrightarrow> f k1 = (r, k') \<Longrightarrow> same_outside P k1 k'"
  shows "same_outside P k k'"
  using assms by (auto simp: disk_then_def split: prod.splits option.splits intro: same_outside_trans)

lemma writeFileIfChanged_outside:
  assumes "writeFileIfChanged p c k = (r, k')"
  shows "same_outside (\<lambda>f. f = p) k k'"
proof -
  obtain x k1 where x: "readFile p k = (x, k1)" by (cases "readFile p k")
  have "same_outside (\<lambda>f. f = p) k1 k'"
    using assms x
    by (auto simp: writeFileIfChanged_def split: sum.splits if_splits
        elim!: disk_then_outside dest: writeFile_outside)
  then show ?thesis using readFile_outside [OF x] same_outside_trans by blast
qed

lemma clean_packages_outside:
  "clean_packages root ps k = (r, k') \<Longrightarrow> same_outside (\<lambda>f. \<exists>p \<in> set ps. under (path_join [root, p]) f) k k'"
proof (induction ps arbitrary: k)
  case (Cons p ps)
  show ?case
  proof (rule disk_then_outside)
    show "disk_then (removeAll (path_join [root, p]) k) (Wrapf (''clean package directory '' @ quote p))
        (clean_packages root ps) = (r, k')" using Cons.prems by simp
  next
    fix e k1 assume "removeAll (path_join [root, p]) k = (e, k1)"
    then show "same_outside (\<lambda>f. \<exists>p \<in> set (p # ps). under (path_join [root, p]) f) k k1"
      by (auto intro: same_outside_mono dest: removeAll_outside)
  next
    fix k1 assume "clean_packages root ps k1 = (r, k')"
    then show "same_outside (\<lambda>f. \<exists>p \<in> set (p # ps). under (path_join [root, p]) f) k1 k'"
      by (auto intro: same_outside_mono dest: Cons.IH)
  qed
qed simp

lemma write_artifacts_outside:
  "write_artifacts root as k = (r, k') \<Longrightarrow> same_outside (\<lambda>f. f \<in> artifact_path root ` set as) k k'"
proof (induction as arbitrary: k)
  case (Cons a as)
  let ?P = "\<lambda>f. f \<in> artifact_path root ` set (a # as)"
  have step: "same_outside ?P k2 k'"
    if "(case writeFileIfChanged (artifact_path root a) (da_Content a) k2 of
           (Inl e, k3) \<Rightarrow> (Inl e, k3) | (Inr _, k3) \<Rightarrow> write_artifacts root as k3) = (r, k')" for k2
  proof -
    obtain x k3 where x: "writeFileIfChanged (artifact_path root a) (da_Content a) k2 = (x, k3)"
      by (cases "writeFileIfChanged (artifact_path root a) (da_Content a) k2")
    have a: "same_outside ?P k2 k3"
      by (rule same_outside_mono [OF writeFileIfChanged_outside [OF x]]) simp
    show ?thesis
    proof (cases x)
      case Inl
      then show ?thesis using that x a by simp
    next
      case Inr
      then have "same_outside ?P k3 k'"
        using that x by (auto intro: same_outside_mono [OF Cons.IH])
      then show ?thesis using a same_outside_trans by blast
    qed
  qed
  have "disk_then (ctx_err k) id (\<lambda>k1.
       disk_then (mkdirAll (path_dir (artifact_path root a)) k1) (Wrapf ''create artifact directory'') (\<lambda>k2.
         case writeFileIfChanged (artifact_path root a) (da_Content a) k2 of
           (Inl e, k3) \<Rightarrow> (Inl e, k3)
         | (Inr _, k3) \<Rightarrow> write_artifacts root as k3)) = (r, k')"
    using Cons.prems by simp
  then show ?case
    by (elim disk_then_outside ctx_err_outside mkdirAll_outside step)
qed simp

section \<open>Requests\<close>

definition clean_of :: "rendered_artifact \<Rightarrow> string" where
  "clean_of a = (case cleanRelativePath (da_Path a) of Inl _ \<Rightarrow> '''' | Inr path \<Rightarrow> path)"

lemma artifact_path_clean: "artifact_path root a = path_join [root, clean_of a]"
  by (simp add: artifact_path_def clean_of_def)

lemma pathInAnyPackage_under: "pathInAnyPackage p ds \<longleftrightarrow> (\<exists>d \<in> set ds. under d p)"
  by (auto simp: pathInAnyPackage_def list_ex_iff under_def)

lemma clean_of_eq: "cleanRelativePath (da_Path a) = Inr p \<Longrightarrow> clean_of a = p"
  by (simp add: clean_of_def)

lemma check_artifacts_Inr:
  "check_artifacts sha ds seen as = Inr (xs, h) \<Longrightarrow>
     distinct (map clean_of as) \<and> set (map clean_of as) \<inter> set seen = {} \<and>
     (\<forall>a \<in> set as. plain_path (clean_of a) \<and> (\<exists>d \<in> set ds. under d (clean_of a))) \<and>
     xs = map (\<lambda>a. \<lparr>mx_Path = clean_of a, mx_Digest = ''sha256:'' @ sha (da_Content a)\<rparr>) as"
proof (induction sha ds seen as arbitrary: xs h rule: check_artifacts.induct)
  case (2 sha ds seen a as)
  then obtain p where p: "cleanRelativePath (da_Path a) = Inr p" by (auto split: sum.splits)
  obtain ys g where ys: "check_artifacts sha ds (p # seen) as = Inr (ys, g)"
      "xs = \<lparr>mx_Path = p, mx_Digest = ''sha256:'' @ sha (da_Content a)\<rparr> # ys"
      "pathInAnyPackage p ds" "p \<notin> set seen"
    using 2(2) p by (auto simp: bind_sum_Inr split: if_splits)
  have IH: "distinct (map clean_of as) \<and> set (map clean_of as) \<inter> set (p # seen) = {} \<and>
     (\<forall>a \<in> set as. plain_path (clean_of a) \<and> (\<exists>d \<in> set ds. under d (clean_of a))) \<and>
     ys = map (\<lambda>a. \<lparr>mx_Path = clean_of a, mx_Digest = ''sha256:'' @ sha (da_Content a)\<rparr>) as"
    using 2(1) [OF p _ _ ys(1)] ys by simp
  then show ?case
    using ys clean_of_eq [OF p] cleanRelativePath_plain [OF p] by (auto simp: pathInAnyPackage_under)
qed simp

lemma clean_package_paths_Inr:
  "clean_package_paths seen raws = Inr ps \<Longrightarrow>
     distinct ps \<and> set ps \<inter> set seen = {} \<and> (\<forall>p \<in> set ps. plain_path p) \<and>
     (\<forall>raw \<in> set raws. \<exists>p. cleanRelativePath raw = Inr p \<and> p \<in> set ps \<union> set seen)"
proof (induction seen raws arbitrary: ps rule: clean_package_paths.induct)
  case (2 seen raw raws)
  then obtain p where p: "cleanRelativePath raw = Inr p" by (auto split: sum.splits)
  show ?case
  proof (cases "p \<in> set seen")
    case True
    then show ?thesis using 2 p by auto
  next
    case False
    then obtain qs where "clean_package_paths (p # seen) raws = Inr qs" "ps = p # qs"
      using 2(3) p by (auto simp: bind_sum_Inr)
    then show ?thesis using 2(2) [OF p False] p False cleanRelativePath_plain [OF p] by fastforce
  qed
qed auto

lemma mset_swap_to_front: "mset (swap_to_front p ps) = mset ps"
proof -
  let ?i = "length (takeWhile (\<lambda>q. q \<noteq> p) ps)"
  have "mset (ps[?i := ps ! 0, 0 := ps ! ?i]) = mset ps" if "?i < length ps"
    using that by (intro mset_swap) auto
  moreover have "ps ! ?i = p" if "?i < length ps"
    using nth_length_takeWhile [OF that] by simp
  ultimately show ?thesis by (simp add: swap_to_front_def Let_def)
qed

lemma requestPackagePaths_Inr:
  assumes "requestPackagePaths q = Inr ps"
  shows "ps \<noteq> []" "distinct ps" "\<forall>p \<in> set ps. plain_path p"
proof -
  define raws where "raws = mq_PackagePaths q @ (if mq_PackagePath q \<noteq> '''' then [mq_PackagePath q] else [])"
  obtain us where us: "clean_package_paths [] raws = Inr us" "mset ps = mset us" and ne: "raws \<noteq> []"
    using assms unfolding requestPackagePaths_def raws_def [symmetric] Let_def
    by (auto simp: bind_sum_Inr mset_swap_to_front split: if_splits sum.splits)
  note u = clean_package_paths_Inr [OF us(1)]
  have "set ps = set us" "distinct ps = distinct us"
    using us(2) by (metis set_mset_mset) (metis us(2) mset_eq_imp_distinct_iff)
  moreover have "us \<noteq> []" using u ne by (cases raws) auto
  ultimately show "ps \<noteq> []" "distinct ps" "\<forall>p \<in> set ps. plain_path p" using u by auto
qed

section \<open>Materializing\<close>

text \<open>What a request is about: the files below its package directories.\<close>

definition in_packages :: "string \<Rightarrow> materialize_request \<Rightarrow> string \<Rightarrow> bool" where
  "in_packages root q f \<longleftrightarrow>
     (case requestPackagePaths q of Inl _ \<Rightarrow> False | Inr ps \<Rightarrow> list_ex (\<lambda>p. under (path_join [root, p]) f) ps)"

text \<open>A call that got past the checks, taken apart.\<close>

lemma Materialize_cases:
  assumes "Materialize sha root q k = (r, k')"
  obtains (refused) e where "r = Inl e" "same_outside (\<lambda>_. False) k k'"
  | (cleaning) e k1 ps where "r = Inl e" "same_outside (\<lambda>_. False) k k1" "requestPackagePaths q = Inr ps"
      "clean_packages root ps k1 = (Inl e, k')"
  | (writing) xs h x k1 k2 ps where "same_outside (\<lambda>_. False) k k1" "requestPackagePaths q = Inr ps"
      "check_artifacts sha ps [] (sort_key da_Path (mq_Artifacts q)) = Inr (xs, h)"
      "clean_packages root ps k1 = (Inr (), k2)"
      "write_artifacts root (sort_key da_Path (mq_Artifacts q)) k2 = (x, k')"
      "r = (case x of Inl e \<Rightarrow> Inl e
            | Inr _ \<Rightarrow> Inr \<lparr>mr_Revision = ''sha256:'' @ sha h, mr_Path = hd ps, mr_Artifacts = xs\<rparr>)"
  using assms unfolding Materialize_def disk_then_def Let_def
  by (auto split: prod.splits option.splits if_splits sum.splits dest!: ctx_err_outside [where P = "\<lambda>_. False"])

lemma artifact_in_package:
  assumes "root = NewMaterializer base" "requestPackagePaths q = Inr ps"
    "check_artifacts sha ps [] (sort_key da_Path (mq_Artifacts q)) = Inr (xs, h)" "a \<in> set (mq_Artifacts q)"
  shows "artifact_path root a = root_prefix root @ clean_of a" "in_packages root q (artifact_path root a)"
proof -
  have a: "plain_path (clean_of a)" "\<exists>d \<in> set ps. under d (clean_of a)"
    using check_artifacts_Inr [OF assms(3)] assms(4) by auto
  have pre: "path_join [root, c] = root_prefix root @ c" if "plain_path c" for c
    unfolding assms(1) NewMaterializer_def by (rule path_join_plain [OF that])
  show p: "artifact_path root a = root_prefix root @ clean_of a"
    by (simp add: artifact_path_clean pre [OF a(1)])
  show "in_packages root q (artifact_path root a)"
    using a requestPackagePaths_Inr(3) [OF assms(2)] assms(2) pre
    by (auto simp: in_packages_def list_ex_iff p)
qed

lemma in_packages_simp:
  "requestPackagePaths q = Inr ps \<Longrightarrow> in_packages root q f \<longleftrightarrow> (\<exists>p \<in> set ps. under (path_join [root, p]) f)"
  by (simp add: in_packages_def list_ex_iff)

lemma Materialize_outside:
  assumes "Materialize sha root q k = (r, k')" "root = NewMaterializer base"
  shows "same_outside (in_packages root q) k k'"
  using assms(1)
proof (cases rule: Materialize_cases)
  case refused
  then show ?thesis by (auto intro: same_outside_mono)
next
  case (cleaning e k1 ps)
  have "same_outside (in_packages root q) k1 k'"
    by (rule same_outside_mono [OF clean_packages_outside [OF cleaning(4)]])
      (simp add: in_packages_simp [OF cleaning(3)])
  then show ?thesis using cleaning(2) by (auto intro: same_outside_trans same_outside_mono)
next
  case (writing xs h x k1 k2 ps)
  have "same_outside (in_packages root q) k1 k2"
    by (rule same_outside_mono [OF clean_packages_outside [OF writing(4)]])
      (simp add: in_packages_simp [OF writing(2)])
  moreover have "same_outside (in_packages root q) k2 k'"
    by (rule same_outside_mono [OF write_artifacts_outside [OF writing(5)]])
      (auto intro!: artifact_in_package(2) [OF assms(2) writing(2,3)])
  ultimately show ?thesis using writing(1) by (auto intro: same_outside_trans same_outside_mono)
qed

text \<open>
  C35 Whatever is asked of \<open>Materialize\<close> and whatever fails on the way, it changes no file outside the package
  directories of the request, and these are below its root: no path of an adapter leads out of the
  delivery tree or into the package of another instance that the request does not name.
\<close>

theorem materialize_confined:
  assumes "Materialize sha root q k = (r, k')" "root = NewMaterializer base"
    "map_of (d_files k') f \<noteq> map_of (d_files k) f"
  shows "in_packages root q f \<and> (\<exists>d. plain_path d \<and> under (root_prefix root @ d) f)"
proof (rule conjI)
  show p: "in_packages root q f"
    using Materialize_outside [OF assms(1,2)] assms(3) by (auto simp: same_outside_def)
  from p obtain ps d where d: "requestPackagePaths q = Inr ps" "d \<in> set ps" "under (path_join [root, d]) f"
    by (auto simp: in_packages_def list_ex_iff split: sum.splits)
  then have "plain_path d" using requestPackagePaths_Inr(3) by blast
  moreover from this have "path_join [root, d] = root_prefix root @ d"
    unfolding assms(2) NewMaterializer_def by (rule path_join_plain)
  ultimately show "\<exists>d. plain_path d \<and> under (root_prefix root @ d) f" using d(3) by auto
qed

section \<open>Success\<close>

lemma disk_then_Inr:
  "disk_then m wrap f = (Inr x, k') \<longleftrightarrow> (\<exists>k1. m = (None, k1) \<and> f k1 = (Inr x, k'))"
  by (auto simp: disk_then_def split: prod.splits option.splits)

lemma removeAll_None:
  "removeAll d k = (None, k') \<Longrightarrow>
     map_of (d_files k') f = (if under d f then None else map_of (d_files k) f)"
  by (auto simp: removeAll_def map_of_filter_fst dest!: next_disk_files split: disk_splits)

lemma clean_packages_Inr:
  "clean_packages root ps k = (Inr u, k') \<Longrightarrow>
     map_of (d_files k') f =
       (if \<exists>p \<in> set ps. under (path_join [root, p]) f then None else map_of (d_files k) f)"
  by (induction ps arbitrary: k) (auto simp: disk_then_Inr removeAll_None)

lemma writeFileIfChanged_Inr:
  "writeFileIfChanged p c k = (Inr u, k') \<Longrightarrow> map_of (d_files k') p = Some c"
  by (auto simp: writeFileIfChanged_def disk_then_Inr readFile_def writeFile_def update_conv'
      split: prod.splits sum.splits disk_splits)

lemma write_artifacts_Cons_Inr:
  assumes "write_artifacts root (b # as) k = (Inr u, k')"
  obtains k1 k2 k3 where "ctx_err k = (None, k1)" "mkdirAll (path_dir (artifact_path root b)) k1 = (None, k2)"
    "writeFileIfChanged (artifact_path root b) (da_Content b) k2 = (Inr (), k3)"
    "write_artifacts root as k3 = (Inr u, k')"
proof -
  from assms obtain k1 k2 where k: "ctx_err k = (None, k1)"
      "mkdirAll (path_dir (artifact_path root b)) k1 = (None, k2)"
      "(case writeFileIfChanged (artifact_path root b) (da_Content b) k2 of
          (Inl e, k3) \<Rightarrow> (Inl e, k3) | (Inr _, k3) \<Rightarrow> write_artifacts root as k3) = (Inr u, k')"
    unfolding write_artifacts.simps disk_then_Inr by blast
  then show thesis
    by (cases "writeFileIfChanged (artifact_path root b) (da_Content b) k2") (auto split: sum.splits intro: that)
qed

lemma write_artifacts_Inr:
  "write_artifacts root as k = (Inr u, k') \<Longrightarrow> distinct (map (artifact_path root) as) \<Longrightarrow> a \<in> set as \<Longrightarrow>
     map_of (d_files k') (artifact_path root a) = Some (da_Content a)"
proof (induction as arbitrary: k)
  case (Cons b as)
  obtain k1 k2 k3 where k: "writeFileIfChanged (artifact_path root b) (da_Content b) k2 = (Inr (), k3)"
      "write_artifacts root as k3 = (Inr u, k')"
    by (rule write_artifacts_Cons_Inr [OF Cons.prems(1)])
  show ?case
  proof (cases "a \<in> set as")
    case True
    then show ?thesis using Cons k(2) by auto
  next
    case False
    then have "a = b" "artifact_path root a \<notin> artifact_path root ` set as" using Cons.prems by auto
    then show ?thesis
      using writeFileIfChanged_Inr [OF k(1)] write_artifacts_outside [OF k(2)] by (simp add: same_outside_def)
  qed
qed simp

text \<open>
  C37 When \<open>Materialize\<close> succeeds, the package directories hold exactly the artifacts of the request,
  each with its content, and the result lists them with their digests in the order of their paths.
\<close>

theorem materialize_exact:
  assumes "Materialize sha root q k = (Inr res, k')" "root = NewMaterializer base"
  shows "(\<forall>a \<in> set (mq_Artifacts q). in_packages root q (artifact_path root a) \<and>
           map_of (d_files k') (artifact_path root a) = Some (da_Content a)) \<and>
         (\<forall>f. in_packages root q f \<longrightarrow> f \<notin> artifact_path root ` set (mq_Artifacts q) \<longrightarrow>
           map_of (d_files k') f = None) \<and>
         mr_Artifacts res = map (\<lambda>a. \<lparr>mx_Path = clean_of a, mx_Digest = ''sha256:'' @ sha (da_Content a)\<rparr>)
           (sort_key da_Path (mq_Artifacts q))"
proof -
  let ?as = "sort_key da_Path (mq_Artifacts q)"
  from assms(1) obtain xs h k1 k2 ps u where w: "requestPackagePaths q = Inr ps"
      "check_artifacts sha ps [] ?as = Inr (xs, h)" "clean_packages root ps k1 = (Inr (), k2)"
      "write_artifacts root ?as k2 = (Inr u, k')" "mr_Artifacts res = xs"
    by (cases rule: Materialize_cases) (auto split: sum.splits)
  note c = check_artifacts_Inr [OF w(2)]
  have eq: "map (artifact_path root) ?as = map (\<lambda>p. root_prefix root @ p) (map clean_of ?as)"
    by (simp add: artifact_in_package(1) [OF assms(2) w(1,2)])
  have d: "distinct (map (artifact_path root) ?as)"
    unfolding eq using c by (subst distinct_map) (simp add: inj_on_def)
  have "\<forall>a \<in> set (mq_Artifacts q). in_packages root q (artifact_path root a) \<and>
      map_of (d_files k') (artifact_path root a) = Some (da_Content a)"
    using write_artifacts_Inr [OF w(4) d] artifact_in_package(2) [OF assms(2) w(1,2)] by simp
  moreover have "map_of (d_files k') f = None"
    if "in_packages root q f" "f \<notin> artifact_path root ` set (mq_Artifacts q)" for f
    using that write_artifacts_outside [OF w(4)] clean_packages_Inr [OF w(3)]
    by (simp add: same_outside_def in_packages_simp [OF w(1)])
  ultimately show ?thesis using c w(5) by blast
qed

section \<open>Order and repetition\<close>

text \<open>The artifacts are sorted by their paths, which differ, before anything is done with them.\<close>

lemma sort_key_distinct:
  fixes f :: "'a \<Rightarrow> 'b::linorder"
  assumes "mset xs = mset ys" "distinct (map f ys)"
  shows "sort_key f xs = sort_key f ys"
proof (rule properties_for_sort_key)
  show "mset (sort_key f ys) = mset xs" using assms(1) by simp
  show "sorted (map f (sort_key f ys))" by simp
  fix k assume "k \<in> set (sort_key f ys)"
  have one: "filter (\<lambda>x. f k = f x) zs = [k]" if "k \<in> set zs" "distinct (map f zs)" for zs
    using that by (induction zs) (auto simp: filter_empty_conv image_iff)
  have m: "mset (map f xs) = mset (map f ys)" using assms(1) by simp
  have "distinct (map f xs)" using assms(2) mset_eq_imp_distinct_iff [OF m] by simp
  moreover have "mset (map f (sort_key f ys)) = mset (map f ys)" by simp
  then have "distinct (map f (sort_key f ys))" using assms(2) mset_eq_imp_distinct_iff by blast
  moreover have "k \<in> set xs" using \<open>k \<in> _\<close> mset_eq_setD [OF assms(1)] by simp
  ultimately show "filter (\<lambda>x. f k = f x) (sort_key f ys) = filter (\<lambda>x. f k = f x) xs"
    using one \<open>k \<in> set (sort_key f ys)\<close> by metis
qed

text \<open>
  C32. The order in which an adapter lists its artifacts does not matter: the result, with the revision,
  and the delivery tree are the same for every order.
\<close>

theorem materialize_order_independent:
  assumes "mset as = mset (mq_Artifacts q)" "distinct (map da_Path (mq_Artifacts q))"
  shows "Materialize sha root (q\<lparr>mq_Artifacts := as\<rparr>) k = Materialize sha root q k"
proof -
  have "sort_key da_Path as = sort_key da_Path (mq_Artifacts q)"
    by (rule sort_key_distinct [OF assms])
  moreover have "as = [] \<longleftrightarrow> mq_Artifacts q = []" using assms(1) by (metis mset_zero_iff)
  moreover have "requestPackagePaths (q\<lparr>mq_Artifacts := as\<rparr>) = requestPackagePaths q"
    by (simp add: requestPackagePaths_def)
  ultimately show ?thesis
    by (simp add: Materialize_def Let_def cong del: if_weak_cong sum.case_cong_weak)
qed

text \<open>Without faults what a call does depends on the files alone, not on how they are listed.\<close>

definition same_files :: "disk \<Rightarrow> disk \<Rightarrow> bool" where
  "same_files k k' \<longleftrightarrow> d_faults k = [] \<and> d_faults k' = [] \<and> map_of (d_files k) = map_of (d_files k')"

lemma same_files_keys: "same_files k k' \<Longrightarrow> fst ` set (d_files k) = fst ` set (d_files k')"
  unfolding same_files_def by (metis dom_map_of_conv_image_fst)

lemma list_ex_keys: "list_ex (\<lambda>(f, _). P f) fs \<longleftrightarrow> (\<exists>f \<in> fst ` set fs. P f)"
  by (auto simp: list_ex_iff intro: rev_bexI)

lemma list_ex_same: "same_files k k' \<Longrightarrow> list_ex (\<lambda>(f, _). P f) (d_files k) = list_ex (\<lambda>(f, _). P f) (d_files k')"
  unfolding list_ex_keys using same_files_keys by metis

definition same_result :: "('r \<times> disk) \<Rightarrow> ('r \<times> disk) \<Rightarrow> bool" where
  "same_result a b \<longleftrightarrow> fst a = fst b \<and> same_files (snd a) (snd b)"

lemma ctx_err_same: "same_files k k' \<Longrightarrow> same_result (ctx_err k) (ctx_err k')"
  by (simp add: same_result_def same_files_def ctx_err_def next_disk_none)

lemma removeAll_same: "same_files k k' \<Longrightarrow> same_result (removeAll d k) (removeAll d k')"
  by (auto simp: same_result_def same_files_def removeAll_def next_disk_none map_of_filter_fst)

lemma mkdirAll_same: "same_files k k' \<Longrightarrow> same_result (mkdirAll d k) (mkdirAll d k')"
  using list_ex_same [of k k' "\<lambda>f. under f d"]
  by (simp add: same_result_def same_files_def mkdirAll_def next_disk_none)

lemma is_directory_same: "same_files k k' \<Longrightarrow> is_directory p (d_files k) = is_directory p (d_files k')"
  unfolding is_directory_def by (rule list_ex_same)

lemma readFile_same: "same_files k k' \<Longrightarrow> same_result (readFile p k) (readFile p k')"
  using is_directory_same [of k k' p]
  by (simp add: same_result_def same_files_def readFile_def next_disk_none)

lemma writeFile_same: "same_files k k' \<Longrightarrow> same_result (writeFile p c k) (writeFile p c k')"
  using is_directory_same [of k k' p]
  by (simp add: same_result_def same_files_def writeFile_def next_disk_none update_conv')

lemma disk_then_same:
  assumes "same_result m m'" "\<And>k k'. same_files k k' \<Longrightarrow> same_result (f k) (f k')"
  shows "same_result (disk_then m wrap f) (disk_then m' wrap f)"
  using assms by (cases m; cases m') (auto simp: disk_then_def same_result_def split: option.splits)

lemma writeFileIfChanged_same:
  assumes "same_files k k'"
  shows "same_result (writeFileIfChanged p c k) (writeFileIfChanged p c k')"
proof -
  obtain x k1 k1' where r: "readFile p k = (x, k1)" "readFile p k' = (x, k1')" "same_files k1 k1'"
    using readFile_same [OF assms, of p] by (cases "readFile p k"; cases "readFile p k'") (auto simp: same_result_def)
  have "same_result (disk_then (writeFile p c k1) w (\<lambda>k. (Inr (), k))) (disk_then (writeFile p c k1') w (\<lambda>k. (Inr (), k)))" for w
    by (rule disk_then_same [OF writeFile_same [OF r(3)]]) (simp add: same_result_def)
  then show ?thesis using r
    by (cases x) (simp_all add: writeFileIfChanged_def same_result_def)
qed

lemma clean_packages_same: "same_files k k' \<Longrightarrow> same_result (clean_packages root ps k) (clean_packages root ps k')"
  by (induction ps arbitrary: k k') (auto simp: same_result_def [of "(Inr (), _)"] intro!: disk_then_same removeAll_same)

lemma write_artifacts_same: "same_files k k' \<Longrightarrow> same_result (write_artifacts root as k) (write_artifacts root as k')"
proof (induction as arbitrary: k k')
  case (Cons a as)
  have "same_result
      (case writeFileIfChanged p c k of (Inl e, k3) \<Rightarrow> (Inl e, k3) | (Inr _, k3) \<Rightarrow> write_artifacts root as k3)
      (case writeFileIfChanged p c k' of (Inl e, k3) \<Rightarrow> (Inl e, k3) | (Inr _, k3) \<Rightarrow> write_artifacts root as k3)"
    if "same_files k k'" for p c k k'
    using writeFileIfChanged_same [OF that, of p c] Cons.IH
    by (cases "writeFileIfChanged p c k"; cases "writeFileIfChanged p c k'")
      (auto simp: same_result_def split: sum.splits)
  then show ?case unfolding write_artifacts.simps
    by (intro disk_then_same ctx_err_same mkdirAll_same Cons.prems)
qed (simp add: same_result_def)

lemma ctx_err_none: "d_faults k = [] \<Longrightarrow> ctx_err k = (None, k)"
  by (simp add: ctx_err_def next_disk_none)

lemma clean_packages_none:
  "d_faults k = [] \<Longrightarrow> \<exists>k'. clean_packages root ps k = (Inr (), k') \<and> d_faults k' = []"
  by (induction ps arbitrary: k) (auto simp: disk_then_def removeAll_def next_disk_none)

lemma Materialize_again:
  assumes "Materialize sha root q k = (Inr res, k')" "d_faults k = []"
    and "same_outside (in_packages root q) k m" "d_faults m = []"
  obtains m' where "Materialize sha root q m = (Inr res, m')" "map_of (d_files m') = map_of (d_files k')"
proof -
  let ?as = "sort_key da_Path (mq_Artifacts q)"
  from assms(1) obtain ps xs h where q: "mq_Artifacts q \<noteq> []" "requestPackagePaths q = Inr ps"
      "check_artifacts sha ps [] ?as = Inr (xs, h)"
    unfolding Materialize_def disk_then_def ctx_err_none [OF assms(2)]
    by (auto simp: Let_def split: if_splits sum.splits)
  obtain k2 m2 where c: "clean_packages root ps k = (Inr (), k2)" "clean_packages root ps m = (Inr (), m2)"
      "d_faults k2 = []" "d_faults m2 = []"
    using clean_packages_none assms(2,4) by blast
  have "map_of (d_files k2) f = map_of (d_files m2) f" for f
    using assms(3) in_packages_simp [OF q(2)]
    by (auto simp: clean_packages_Inr [OF c(1)] clean_packages_Inr [OF c(2)] same_outside_def)
  then have "same_files k2 m2" using c(3,4) by (simp add: same_files_def fun_eq_iff)
  then have w: "same_result (write_artifacts root ?as k2) (write_artifacts root ?as m2)"
    by (rule write_artifacts_same)
  have M: "Materialize sha root q j =
      (case write_artifacts root ?as j2 of (Inl e, k3) \<Rightarrow> (Inl e, k3)
       | (Inr _, k3) \<Rightarrow> (Inr \<lparr>mr_Revision = ''sha256:'' @ sha h, mr_Path = hd ps, mr_Artifacts = xs\<rparr>, k3))"
    if "d_faults j = []" "clean_packages root ps j = (Inr (), j2)" for j j2
    using q that by (simp add: Materialize_def disk_then_def ctx_err_none Let_def)
  obtain u v a b where ab: "write_artifacts root ?as k2 = (u, a)" "write_artifacts root ?as m2 = (v, b)"
    by (cases "write_artifacts root ?as k2"; cases "write_artifacts root ?as m2")
  then have "v = u" "map_of (d_files a) = map_of (d_files b)"
    using w by (simp_all add: same_result_def same_files_def)
  then show thesis
    using assms(1) unfolding M [OF assms(2) c(1)] ab
    by (intro that [of b]) (auto simp: M [OF assms(4) c(2)] ab split: sum.splits)
qed

definition materialize_attempts ::
  "(string \<Rightarrow> string) \<Rightarrow> string \<Rightarrow> materialize_request \<Rightarrow> disk_fault list list \<Rightarrow> disk \<Rightarrow> disk" where
  "materialize_attempts sha root q fss k = fold (\<lambda>fs k. snd (Materialize sha root q (k\<lparr>d_faults := fs\<rparr>))) fss k"

lemma materialize_attempts_outside:
  assumes "root = NewMaterializer base"
  shows "same_outside (in_packages root q) k (materialize_attempts sha root q fss k)"
proof (induction fss arbitrary: k)
  case (Cons fs fss)
  obtain r m where m: "Materialize sha root q (k\<lparr>d_faults := fs\<rparr>) = (r, m)"
    by (cases "Materialize sha root q (k\<lparr>d_faults := fs\<rparr>)")
  have "same_outside (in_packages root q) k m"
    using Materialize_outside [OF m assms] by (simp add: same_outside_def)
  then show ?case using Cons.IH [of m] m by (auto simp: materialize_attempts_def intro: same_outside_trans)
qed (simp add: materialize_attempts_def)

text \<open>
  C36 However many attempts at a package fail, and in whatever state each leaves the files it was working
  on, the next attempt that meets no fault ends where a first attempt without a fault would have ended.
\<close>

theorem materialize_recovers:
  assumes "root = NewMaterializer base" "Materialize sha root q (k\<lparr>d_faults := []\<rparr>) = (Inr res, k')"
  shows "\<exists>m. Materialize sha root q ((materialize_attempts sha root q fss k)\<lparr>d_faults := []\<rparr>) = (Inr res, m) \<and>
           map_of (d_files m) = map_of (d_files k')"
proof -
  have "same_outside (in_packages root q) (k\<lparr>d_faults := []\<rparr>) ((materialize_attempts sha root q fss k)\<lparr>d_faults := []\<rparr>)"
    using materialize_attempts_outside [OF assms(1)] by (simp add: same_outside_def)
  from Materialize_again [OF assms(2) _ this] show ?thesis by auto
qed

section \<open>Examples\<close>

definition sample_request :: materialize_request where
  "sample_request = \<lparr>mq_PackagePath = ''a/./s'', mq_PackagePaths = [''b/s'', ''a/s''],
     mq_Artifacts = [\<lparr>da_Path = ''b/s/y'', da_Content = ''2''\<rparr>, \<lparr>da_Path = ''a/s/x'', da_Content = ''1''\<rparr>]\<rparr>"

definition sample_disk :: disk where
  "sample_disk = \<lparr>d_files = [(''r/a/s/old'', ''0''), (''r/c'', ''3'')], d_faults = []\<rparr>"

lemma sample_materialize:
  "is_ok (fst (Materialize id (NewMaterializer ''r'') sample_request sample_disk)) \<and>
     d_files (snd (Materialize id (NewMaterializer ''r'') sample_request sample_disk)) =
       [(''r/c'', ''3''), (''r/a/s/x'', ''1''), (''r/b/s/y'', ''2'')]"
  by code_simp

lemma sample_result:
  obtains res k' where "Materialize id (NewMaterializer ''r'') sample_request sample_disk = (Inr res, k')"
    "d_files k' = [(''r/c'', ''3''), (''r/a/s/x'', ''1''), (''r/b/s/y'', ''2'')]"
  using sample_materialize
  by (cases "Materialize id (NewMaterializer ''r'') sample_request sample_disk") (auto simp: is_ok_iff)

theorem materialize_confined_witness:
  "in_packages (NewMaterializer ''r'') sample_request ''r/a/s/old'' \<and>
     (\<exists>d. plain_path d \<and> under (root_prefix (NewMaterializer ''r'') @ d) ''r/a/s/old'')"
proof -
  obtain res k' where r: "Materialize id (NewMaterializer ''r'') sample_request sample_disk = (Inr res, k')"
      "d_files k' = [(''r/c'', ''3''), (''r/a/s/x'', ''1''), (''r/b/s/y'', ''2'')]"
    by (rule sample_result)
  show ?thesis
    by (rule materialize_confined [OF r(1) refl]) (simp add: r(2) sample_disk_def)
qed

theorem materialize_exact_witness:
  "\<exists>res k'. Materialize id (NewMaterializer ''r'') sample_request sample_disk = (Inr res, k') \<and>
     (\<forall>a \<in> set (mq_Artifacts sample_request).
        map_of (d_files k') (artifact_path (NewMaterializer ''r'') a) = Some (da_Content a))"
proof -
  obtain res k' where r: "Materialize id (NewMaterializer ''r'') sample_request sample_disk = (Inr res, k')"
    by (rule sample_result)
  show ?thesis using r conjunct1 [OF materialize_exact [OF r refl]] by blast
qed

theorem materialize_order_independent_witness:
  "Materialize id ''r'' (sample_request\<lparr>mq_Artifacts := rev (mq_Artifacts sample_request)\<rparr>) sample_disk =
     Materialize id ''r'' sample_request sample_disk"
  by (rule materialize_order_independent) (simp_all add: sample_request_def)

theorem materialize_recovers_witness:
  "\<exists>m res. Materialize id (NewMaterializer ''r'') sample_request
       ((materialize_attempts id (NewMaterializer ''r'') sample_request
          [[Fine, Fine, Fails ''no space left on device'' [(''r/b/s/junk'', ''9'')]]] sample_disk)\<lparr>d_faults := []\<rparr>) =
     (Inr res, m)"
proof -
  obtain res k' where r: "Materialize id (NewMaterializer ''r'') sample_request sample_disk = (Inr res, k')"
    by (rule sample_result)
  have "sample_disk\<lparr>d_faults := []\<rparr> = sample_disk" by (simp add: sample_disk_def)
  then show ?thesis using materialize_recovers [OF refl, of id "''r''" sample_request sample_disk res k'] r
    by fastforce
qed

end
