(* ===== verification/Publisher.thy ===== *)
theory Publisher
  imports Materializer
begin

text \<open>
  Publishing the delivery tree, \<open>internal/deliveryrepo/publisher.go\<close>: the packages are written into a git
  worktree, committed and pushed. The disk is that of \<open>Materializer\<close>, by full path. Git is the argument
  \<open>git\<close>: given a working directory, the arguments, the files and its own state it answers with the two
  outputs and the error of the process, and may change both. \<open>cwd\<close> is the working directory of the program.
\<close>

section \<open>The publisher\<close>

record publisher =
  pb_Worktree :: string
  pb_Root :: string
  pb_AutoCommit :: bool
  pb_AutoPush :: bool
  pb_URL :: string
  pb_Remote :: string
  pb_Branch :: string
  pb_AuthorName :: string
  pb_AuthorEmail :: string

record publish_request =
  pq_PackagePath :: string
  pq_PackagePaths :: "string list"
  pq_Artifacts :: "rendered_artifact list"
  pq_Revision :: string
  pq_Message :: string

record publish_result =
  pu_PublishedPath :: string
  pu_Commit :: string
  pu_Pushed :: bool
  pu_Remote :: string
  pu_Branch :: string

definition no_publish :: publish_result where
  "no_publish = \<lparr>pu_PublishedPath = '''', pu_Commit = '''', pu_Pushed = False, pu_Remote = '''', pu_Branch = ''''\<rparr>"

fun firstNonEmptyTrimmed :: "string list \<Rightarrow> string" where
  "firstNonEmptyTrimmed [] = ''''"
| "firstNonEmptyTrimmed (v # vs) = (if trimSpace v \<noteq> '''' then trimSpace v else firstNonEmptyTrimmed vs)"

definition NewWithRepoURL ::
  "string \<Rightarrow> string \<Rightarrow> bool \<Rightarrow> bool \<Rightarrow> string \<Rightarrow> string \<Rightarrow> string \<Rightarrow> string \<Rightarrow> string \<Rightarrow> publisher" where
  "NewWithRepoURL worktree root autoCommit autoPush url remote branch authorName authorEmail =
     \<lparr>pb_Worktree = path_clean (trimSpace worktree), pb_Root = path_clean (trimSpace root),
      pb_AutoCommit = autoCommit, pb_AutoPush = autoPush, pb_URL = trimSpace url,
      pb_Remote = firstNonEmptyTrimmed [remote, ''origin''], pb_Branch = trimSpace branch,
      pb_AuthorName = firstNonEmptyTrimmed [authorName, ''Servicer''],
      pb_AuthorEmail = firstNonEmptyTrimmed [authorEmail, ''servicer@platform.local'']\<rparr>"

text \<open>\<open>os.Stat\<close> finds a file, or a directory with something in it.\<close>

definition stat_ok :: "string \<Rightarrow> disk \<Rightarrow> bool \<times> disk" where
  "stat_ok p k =
     (case next_disk k of
        (Fails _ _, k') \<Rightarrow> (False, k')
      | (Fine, k') \<Rightarrow> (list_ex (\<lambda>(f, _). under p f) (d_files k'), k'))"

definition Enabled :: "publisher \<Rightarrow> disk \<Rightarrow> bool \<times> disk" where
  "Enabled p k =
     (let worktree = trimSpace (pb_Worktree p) in
      if worktree = '''' then (False, k)
      else if trimSpace (pb_URL p) \<noteq> '''' then (True, k)
      else stat_ok (path_join [worktree, ''.git'']) k)"

section \<open>Git\<close>

record git_output =
  gx_stdout :: string
  gx_stderr :: string
  gx_err :: "string option"

type_synonym 'g git = "string \<Rightarrow> string list \<Rightarrow> files \<Rightarrow> 'g \<Rightarrow> git_output \<times> files \<times> 'g"

text \<open>What a run of the publisher works on: the disk and the state of git.\<close>

type_synonym ('g, 'a) publishing = "disk \<times> 'g \<Rightarrow> (go_error + 'a) \<times> (disk \<times> 'g)"

definition gitOutputInDir :: "'g git \<Rightarrow> string \<Rightarrow> string list \<Rightarrow> ('g, string) publishing" where
  "gitOutputInDir git dir args s =
     (case git dir args (d_files (fst s)) (snd s) of
        (out, files, g) \<Rightarrow>
          (case gx_err out of
             None \<Rightarrow> (Inr (gx_stdout out), ((fst s)\<lparr>d_files := files\<rparr>, g))
           | Some err \<Rightarrow>
               (let m1 = trimSpace (gx_stderr out);
                    m2 = (if m1 = '''' then trimSpace (gx_stdout out) else m1);
                    message = (if m2 = '''' then err else m2) in
                (Inl (Errorf (''git '' @ join '' '' args @ '': '' @ message)), ((fst s)\<lparr>d_files := files\<rparr>, g)))))"

definition gitOutput :: "'g git \<Rightarrow> publisher \<Rightarrow> string list \<Rightarrow> ('g, string) publishing" where
  "gitOutput git p args = gitOutputInDir git (pb_Worktree p) args"

definition git_run :: "'g git \<Rightarrow> publisher \<Rightarrow> string list \<Rightarrow> ('g, unit) publishing" where
  "git_run git p args s = and_then (gitOutput git p args s) (\<lambda>_ s. (Inr (), s))"

definition configureIdentity :: "'g git \<Rightarrow> publisher \<Rightarrow> ('g, unit) publishing" where
  "configureIdentity git p s =
     and_then
       (if trimSpace (pb_AuthorEmail p) \<noteq> ''''
        then git_run git p [''config'', ''user.email'', pb_AuthorEmail p] s else (Inr (), s))
       (\<lambda>_ s.
          if trimSpace (pb_AuthorName p) \<noteq> ''''
          then git_run git p [''config'', ''user.name'', pb_AuthorName p] s else (Inr (), s))"

definition hasChanges :: "'g git \<Rightarrow> publisher \<Rightarrow> ('g, bool) publishing" where
  "hasChanges git p s =
     and_then (gitOutput git p [''status'', ''--porcelain''] s) (\<lambda>out s. (Inr (trimSpace out \<noteq> ''''), s))"

definition currentCommit :: "'g git \<Rightarrow> publisher \<Rightarrow> ('g, string) publishing" where
  "currentCommit git p s =
     and_then (gitOutput git p [''rev-parse'', ''HEAD''] s) (\<lambda>out s. (Inr (trimSpace out), s))"

definition currentBranch :: "'g git \<Rightarrow> publisher \<Rightarrow> ('g, string) publishing" where
  "currentBranch git p s =
     and_then (gitOutput git p [''rev-parse'', ''--abbrev-ref'', ''HEAD''] s) (\<lambda>out s.
       let branch = trimSpace out in
       if branch = '''' \<or> branch = ''HEAD'' then (Inl (Errorf ''git current branch: detached HEAD''), s)
       else (Inr branch, s))"

definition commitMessage :: "publish_request \<Rightarrow> string" where
  "commitMessage request =
     (let message = trimSpace (pq_Message request) in
      if message \<noteq> '''' then message
      else if pq_Revision request \<noteq> '''' then ''servicer: publish '' @ pq_Revision request
      else ''servicer: publish delivery artifacts'')"

text \<open>With an error the caller keeps the result so far; the only caller drops it.\<close>

definition pushIfEnabled :: "'g git \<Rightarrow> publisher \<Rightarrow> publish_result \<Rightarrow> ('g, publish_result) publishing" where
  "pushIfEnabled git p result s =
     (if \<not> pb_AutoPush p then (Inr result, s)
      else if trimSpace (pu_Commit result) = ''''
      then (Inl (Errorf ''cannot push delivery repo without a commit''), s)
      else and_then (if pb_Branch p = '''' then currentBranch git p s else (Inr (pb_Branch p), s)) (\<lambda>branch s.
        and_then (git_run git p [''push'', pb_Remote p, ''HEAD:'' @ branch] s) (\<lambda>_ s.
          (Inr (result\<lparr>pu_Pushed := True, pu_Remote := pb_Remote p, pu_Branch := branch\<rparr>), s))))"

section \<open>Paths in the worktree\<close>

definition replace_backslashes :: "string \<Rightarrow> string" where
  "replace_backslashes s = map (\<lambda>c. if c = CHR 0x5C then CHR ''/'' else c) s"

definition cleanRepoRelativePath :: "string \<Rightarrow> string \<Rightarrow> bool \<Rightarrow> go_error + string" where
  "cleanRepoRelativePath value field allowEmpty =
     (let normalized0 = replace_backslashes (trimSpace value) in
      if hasPrefix normalized0 ''/'' then Inl (Errorf (field @ '' must be a repository-relative path''))
      else (let normalized = trimSet ''/'' normalized0 in
        if normalized = '''' \<or> normalized = ''.'' then
          (if allowEmpty then Inr '''' else Inl (Errorf (field @ '' is required'')))
        else (let cleaned = path_clean normalized in
          if cleaned = ''.'' then (if allowEmpty then Inr '''' else Inl (Errorf (field @ '' is required'')))
          else if hasPrefix cleaned ''/'' \<or> cleaned = ''..'' \<or> hasPrefix cleaned ''../''
          then Inl (Errorf (field @ '' must be a repository-relative path''))
          else Inr cleaned)))"

definition joinRepoPath :: "string \<Rightarrow> string \<Rightarrow> string" where
  "joinRepoPath root relative =
     (if root = '''' \<or> root = ''.'' then relative
      else if relative = '''' \<or> relative = ''.'' then root
      else path_join [root, relative])"

fun uniquePackagePaths_from :: "string list \<Rightarrow> string list \<Rightarrow> string list" where
  "uniquePackagePaths_from seen [] = []"
| "uniquePackagePaths_from seen (p # ps) =
     (let path = trimSpace p in
      if path = '''' \<or> path \<in> set seen then uniquePackagePaths_from seen ps
      else path # uniquePackagePaths_from (path # seen) ps)"

definition uniquePackagePaths :: "string \<Rightarrow> string list \<Rightarrow> string list" where
  "uniquePackagePaths primary extra = uniquePackagePaths_from [] (primary # extra)"

text \<open>\<open>filepath.Abs\<close>, and \<open>filepath.Rel\<close> of two absolute cleaned paths.\<close>

definition path_abs :: "string \<Rightarrow> string \<Rightarrow> string" where
  "path_abs cwd p = (if hasPrefix p ''/'' then path_clean p else path_join [cwd, p])"

fun rel_elements :: "string list \<Rightarrow> string list \<Rightarrow> string list" where
  "rel_elements (b # bs) (t # ts) =
     (if b = t then rel_elements bs ts else replicate (length (b # bs)) ''..'' @ t # ts)"
| "rel_elements bs ts = replicate (length bs) ''..'' @ ts"

definition path_rel :: "string \<Rightarrow> string \<Rightarrow> string" where
  "path_rel base target =
     (let es = rel_elements (filter (\<lambda>c. c \<noteq> '''') (split_on CHR ''/'' base))
                 (filter (\<lambda>c. c \<noteq> '''') (split_on CHR ''/'' target)) in
      if es = [] then ''.'' else join ''/'' es)"

definition worktreePath :: "string \<Rightarrow> publisher \<Rightarrow> string \<Rightarrow> go_error + string" where
  "worktreePath cwd p relativePath =
     (let worktree = path_abs cwd (pb_Worktree p);
          target = path_abs cwd (path_join [pb_Worktree p, relativePath]);
          rel = path_rel worktree target in
      if rel = ''..'' \<or> hasPrefix rel ''../''
      then Inl (Errorf (''publish path '' @ quote relativePath @ '' must remain inside the delivery repo worktree''))
      else Inr target)"

section \<open>Publishing\<close>

text \<open>A call on the disk within a run of the publisher.\<close>

definition on_disk :: "(disk \<Rightarrow> (go_error + 'a) \<times> disk) \<Rightarrow> ('g, 'a) publishing" where
  "on_disk f s = (case f (fst s) of (r, k) \<Rightarrow> (r, (k, snd s)))"

text \<open>\<open>os.ReadDir\<close>: whether there are entries. A worktree that does not exist has none.\<close>

definition readDir :: "string \<Rightarrow> disk \<Rightarrow> (go_error + bool) \<times> disk" where
  "readDir d k =
     (case next_disk k of
        (Fails e _, k') \<Rightarrow> (Inl (Errorf e), k')
      | (Fine, k') \<Rightarrow>
          (if list_ex (\<lambda>(f, _). f = d) (d_files k') then (Inl (Errorf (''open '' @ d @ '': not a directory'')), k')
           else (Inr (list_ex (\<lambda>(f, _). under d f) (d_files k')), k')))"

definition ensureWorktree :: "'g git \<Rightarrow> publisher \<Rightarrow> ('g, unit) publishing" where
  "ensureWorktree git p s =
     (if trimSpace (pb_Worktree p) = '''' then (Inl (Errorf ''delivery repo worktree is required''), s)
      else (case stat_ok (path_join [pb_Worktree p, ''.git'']) (fst s) of
        (True, k) \<Rightarrow> configureIdentity git p (k, snd s)
      | (False, k) \<Rightarrow>
          (case readDir (pb_Worktree p) k of
             (Inl e, k) \<Rightarrow> (Inl (Wrapf ''inspect delivery repo worktree'' e), (k, snd s))
           | (Inr entries, k) \<Rightarrow>
               if entries
               then (Inl (Errorf (''delivery repo worktree '' @ quote (pb_Worktree p) @
                       '' is not a git repository and is not empty'')), (k, snd s))
               else (case mkdirAll (pb_Worktree p) k of
                 (Some e, k) \<Rightarrow> (Inl (Wrapf ''create delivery repo worktree'' e), (k, snd s))
               | (None, k) \<Rightarrow>
                   if trimSpace (pb_URL p) = ''''
                   then (Inl (Errorf ''delivery repo URL is required to initialise an empty worktree''), (k, snd s))
                   else and_then
                     (gitOutputInDir git ''''
                        (''clone'' # (if trimSpace (pb_Branch p) \<noteq> '''' then [''--branch'', pb_Branch p] else []) @
                         [pb_URL p, pb_Worktree p]) (k, snd s))
                     (\<lambda>_ s. configureIdentity git p s)))))"

fun clean_published :: "string \<Rightarrow> publisher \<Rightarrow> string \<Rightarrow> string list \<Rightarrow> disk \<Rightarrow> (go_error + unit) \<times> disk" where
  "clean_published cwd p root [] k = (Inr (), k)"
| "clean_published cwd p root (packagePath # rest) k =
     (case cleanRepoRelativePath packagePath ''package path'' False of
        Inl e \<Rightarrow> (Inl e, k)
      | Inr cleanPackagePath \<Rightarrow>
          (let target = joinRepoPath root cleanPackagePath in
           case worktreePath cwd p target of
             Inl e \<Rightarrow> (Inl e, k)
           | Inr fullTarget \<Rightarrow>
               disk_then (removeAll fullTarget k) (Wrapf (''clean published package '' @ quote target))
                 (clean_published cwd p root rest)))"

fun write_published :: "string \<Rightarrow> publisher \<Rightarrow> string \<Rightarrow> rendered_artifact list \<Rightarrow> disk \<Rightarrow> (go_error + unit) \<times> disk" where
  "write_published cwd p root [] k = (Inr (), k)"
| "write_published cwd p root (a # as) k =
     (case cleanRepoRelativePath (da_Path a) ''artifact path'' False of
        Inl e \<Rightarrow> (Inl e, k)
      | Inr artifactPath \<Rightarrow>
          (case worktreePath cwd p (joinRepoPath root artifactPath) of
             Inl e \<Rightarrow> (Inl e, k)
           | Inr fullPath \<Rightarrow>
               disk_then (mkdirAll (path_dir fullPath) k) (Wrapf ''create publish directory'') (\<lambda>k.
                 case writeFileIfChanged fullPath (da_Content a) k of
                   (Inl e, k) \<Rightarrow> (Inl e, k)
                 | (Inr _, k) \<Rightarrow> write_published cwd p root as k)))"

text \<open>
  Committing what has changed. With nothing to commit the current commit is pushed again, and a failure
  to read it is no error.
\<close>

definition commit_published ::
  "'g git \<Rightarrow> publisher \<Rightarrow> publish_request \<Rightarrow> publish_result \<Rightarrow> ('g, publish_result) publishing" where
  "commit_published git p request result s =
     (if \<not> pb_AutoCommit p then (Inr result, s)
      else and_then (hasChanges git p s) (\<lambda>changed s.
        if \<not> changed then
          (case currentCommit git p s of
             (Inl _, s) \<Rightarrow> (Inr result, s)
           | (Inr commit, s) \<Rightarrow> pushIfEnabled git p (result\<lparr>pu_Commit := commit\<rparr>) s)
        else and_then (git_run git p [''add'', ''--all'', ''--'', ''.''] s) (\<lambda>_ s.
          and_then (git_run git p [''commit'', ''-m'', commitMessage request] s) (\<lambda>_ s.
            and_then (currentCommit git p s) (\<lambda>commit s.
              pushIfEnabled git p (result\<lparr>pu_Commit := commit\<rparr>) s)))))"

definition Publish :: "'g git \<Rightarrow> string \<Rightarrow> publisher \<Rightarrow> publish_request \<Rightarrow> ('g, publish_result) publishing" where
  "Publish git cwd p request s =
     (case Enabled p (fst s) of
        (False, k) \<Rightarrow> (Inr no_publish, (k, snd s))
      | (True, k) \<Rightarrow>
          if pq_Artifacts request = [] then (Inl (Errorf ''at least one artifact is required''), (k, snd s))
          else and_then (ensureWorktree git p (k, snd s)) (\<lambda>_ s.
            case cleanRepoRelativePath (pb_Root p) ''delivery repo root'' True of
              Inl e \<Rightarrow> (Inl e, s)
            | Inr root \<Rightarrow>
                (case cleanRepoRelativePath (pq_PackagePath request) ''package path'' False of
                   Inl e \<Rightarrow> (Inl e, s)
                 | Inr packagePath \<Rightarrow>
                     and_then (on_disk (clean_published cwd p root
                         (uniquePackagePaths packagePath (pq_PackagePaths request))) s) (\<lambda>_ s.
                       and_then (on_disk (write_published cwd p root (pq_Artifacts request)) s) (\<lambda>_ s.
                         commit_published git p request
                           (no_publish\<lparr>pu_PublishedPath := joinRepoPath root packagePath\<rparr>) s)))))"

end
