(* ===== verification/Publisher_Facts.thy ===== *)
theory Publisher_Facts
  imports Publisher Delivery_Facts
begin

text \<open>
  What a published delivery tree is worth: \<open>publish_pushed\<close> says what has happened when the publisher
  reports a push, and \<open>publish_stays_in_worktree\<close> that its own writes never leave the worktree.
\<close>

section \<open>Pushing\<close>

lemma pushIfEnabled_pushed:
  assumes "pushIfEnabled git p result s = (Inr res, s')" "pu_Pushed res" "\<not> pu_Pushed result"
  shows "pb_AutoPush p \<and> trimSpace (pu_Commit res) \<noteq> '''' \<and> pu_Commit res = pu_Commit result \<and>
    (\<exists>s1 out. (pb_Branch p \<noteq> '''' \<and> pu_Branch res = pb_Branch p \<and> s1 = s \<or>
                currentBranch git p s = (Inr (pu_Branch res), s1)) \<and>
      gitOutput git p [''push'', pb_Remote p, ''HEAD:'' @ pu_Branch res] s1 = (Inr out, s'))"
  using assms
  by (auto simp: pushIfEnabled_def and_then_Inr git_run_def Let_def split: if_splits) blast+

text \<open>
  C39 When \<open>Publish\<close> reports that it pushed, the last thing it did was a git push of \<open>HEAD\<close> to the
  reported branch that git said succeeded, after reading the commit it reports, which is not blank, from
  \<open>git rev-parse HEAD\<close>; and it was set up to commit and to push.
\<close>

theorem publish_pushed:
  assumes "Publish git cwd p request s = (Inr res, s')" "pu_Pushed res"
  shows "pb_AutoCommit p \<and> pb_AutoPush p \<and> trimSpace (pu_Commit res) \<noteq> '''' \<and>
    (\<exists>s0 s1 s2 out. currentCommit git p s0 = (Inr (pu_Commit res), s1) \<and>
      (pb_Branch p \<noteq> '''' \<and> pu_Branch res = pb_Branch p \<and> s2 = s1 \<or>
       currentBranch git p s1 = (Inr (pu_Branch res), s2)) \<and>
      gitOutput git p [''push'', pb_Remote p, ''HEAD:'' @ pu_Branch res] s2 = (Inr out, s'))"
proof -
  have no: "\<not> pu_Pushed no_publish" by (simp add: no_publish_def)
  obtain path s1 where c: "commit_published git p request (no_publish\<lparr>pu_PublishedPath := path\<rparr>) s1 = (Inr res, s')"
    using assms no unfolding Publish_def
    by (cases "cleanRepoRelativePath (pb_Root p) ''delivery repo root'' True";
        cases "cleanRepoRelativePath (pq_PackagePath request) ''package path'' False")
      (auto simp: and_then_Inr split: prod.splits bool.splits if_splits)
  define result where "result = no_publish\<lparr>pu_PublishedPath := path\<rparr>"
  have nr: "\<not> pu_Pushed result" using no by (simp add: result_def)
  have c': "commit_published git p request result s1 = (Inr res, s')" using c by (simp only: result_def)
  have ac: "pb_AutoCommit p"
    using c' assms(2) nr by (cases "pb_AutoCommit p") (auto simp: commit_published_def)
  obtain changed s2 where h: "(if \<not> changed then
          (case currentCommit git p s2 of
             (Inl _, s) \<Rightarrow> (Inr result, s)
           | (Inr commit, s) \<Rightarrow> pushIfEnabled git p (result\<lparr>pu_Commit := commit\<rparr>) s)
        else and_then (git_run git p [''add'', ''--all'', ''--'', ''.''] s2) (\<lambda>_ s.
          and_then (git_run git p [''commit'', ''-m'', commitMessage request] s) (\<lambda>_ s.
            and_then (currentCommit git p s) (\<lambda>commit s.
              pushIfEnabled git p (result\<lparr>pu_Commit := commit\<rparr>) s)))) = (Inr res, s')"
    using c' unfolding commit_published_def if_not_P [OF not_not [THEN iffD2, OF ac]] and_then_Inr by blast
  obtain s0 s1 commit where cc: "currentCommit git p s0 = (Inr commit, s1)"
      "pushIfEnabled git p (result\<lparr>pu_Commit := commit\<rparr>) s1 = (Inr res, s')"
  proof (cases changed)
    case True
    then show ?thesis using h that unfolding if_not_P [OF not_not [THEN iffD2, OF True]] and_then_Inr by blast
  next
    case False
    obtain x t where x: "currentCommit git p s2 = (x, t)" by (cases "currentCommit git p s2")
    then show ?thesis using h False nr assms(2) by (cases x) (auto intro: that [of s2])
  qed
  from pushIfEnabled_pushed [OF cc(2) assms(2)] cc(1) nr ac show ?thesis by fastforce
qed

definition toy_git :: "nat git" where
  "toy_git dir args fs g =
     (\<lparr>gx_stdout = (if args = [''rev-parse'', ''HEAD''] then ''c0ffee'' else ''''), gx_stderr = '''', gx_err = None\<rparr>,
      fs, Suc g)"

definition sample_publisher :: publisher where
  "sample_publisher = NewWithRepoURL ''/w'' ''delivery'' True True ''https://git/r'' '''' ''main'' '''' ''''"

definition sample_publish :: publish_request where
  "sample_publish = \<lparr>pq_PackagePath = ''a/s'', pq_PackagePaths = [],
     pq_Artifacts = [\<lparr>da_Path = ''a/s/x'', da_Content = ''1''\<rparr>], pq_Revision = ''r'', pq_Message = ''m''\<rparr>"

definition sample_published :: "(go_error + publish_result) \<times> (disk \<times> nat)" where
  "sample_published = Publish toy_git ''/'' sample_publisher sample_publish
     (\<lparr>d_files = [(''/w/.git/HEAD'', '''')], d_faults = []\<rparr>, 0)"

lemma sample_published_eval:
  "(case fst sample_published of Inl _ \<Rightarrow> False | Inr res \<Rightarrow> pu_Pushed res \<and> pu_Commit res = ''c0ffee'') \<and>
     d_files (fst (snd sample_published)) = [(''/w/.git/HEAD'', ''''), (''/w/delivery/a/s/x'', ''1'')]"
  by code_simp

theorem publish_pushed_witness:
  "\<exists>res s'. sample_published = (Inr res, s') \<and> pu_Pushed res \<and> trimSpace (pu_Commit res) \<noteq> ''''"
proof -
  obtain x s' where x: "sample_published = (x, s')" by (cases sample_published)
  then obtain res where res: "x = Inr res" "pu_Pushed res"
    using sample_published_eval by (cases x) (auto simp: x)
  note h = publish_pushed [OF x [unfolded res(1) sample_published_def] res(2)]
  show ?thesis using conjunct1 [OF conjunct2 [OF conjunct2 [OF h]]] x [unfolded res(1)] res(2) by blast
qed

section \<open>The worktree\<close>

lemma path_clean_rooted:
  assumes "hasPrefix p ''/''"
  obtains es where "path_clean p = CHR ''/'' # join ''/'' es" "list_all plain_element es"
proof -
  obtain k ns where "clean_elements True (split_on CHR ''/'' p) = replicate k ''..'' @ ns"
      "list_all plain_element ns" "True \<longrightarrow> k = 0"
    by (rule clean_elements_shape)
  then show thesis using assms by (intro that [of ns]) (simp_all add: path_clean_def)
qed

lemma path_abs_rooted:
  assumes "hasPrefix cwd ''/''"
  obtains es where "path_abs cwd p = CHR ''/'' # join ''/'' es" "list_all plain_element es"
proof (cases "hasPrefix p ''/''")
  case True
  then show thesis by (rule path_clean_rooted) (simp add: that path_abs_def True)
next
  case False
  obtain t where t: "cwd = CHR ''/'' # t" using assms by (cases cwd) (auto simp: hasPrefix_def)
  have "hasPrefix (join ''/'' (filter (\<lambda>p. p \<noteq> '''') [cwd, p])) ''/''"
    by (simp add: t hasPrefix_def)
  then show thesis
    by (rule path_clean_rooted) (use False in \<open>simp add: that path_abs_def path_join_def t\<close>)
qed

lemma elements_of_rooted:
  assumes "list_all plain_element es"
  shows "filter (\<lambda>c. c \<noteq> '''') (split_on CHR ''/'' (CHR ''/'' # join ''/'' es)) = es"
proof (cases "es = []")
  case False
  have "split_on CHR ''/'' (join ''/'' es) = es"
    using False assms by (intro split_on_join) (auto simp: list_all_iff plain_element_def)
  moreover have "filter (\<lambda>c. c \<noteq> '''') es = es"
    using assms by (auto simp: filter_id_conv list_all_iff plain_element_def)
  ultimately show ?thesis by simp
qed simp

lemma rel_elements_prefix:
  "list_all plain_element ts \<Longrightarrow> hd (rel_elements bs ts) \<noteq> ''..'' \<or> rel_elements bs ts = [] \<Longrightarrow> \<exists>us. ts = bs @ us"
proof (induction bs arbitrary: ts)
  case (Cons b bs)
  then show ?case by (cases ts) (auto split: if_splits)
qed simp

lemma hasPrefix_iff: "hasPrefix y x \<longleftrightarrow> (\<exists>u. y = x @ u)"
proof
  assume "hasPrefix y x"
  then have "y = x @ drop (length x) y" unfolding hasPrefix_def by (metis append_take_drop_id)
  then show "\<exists>u. y = x @ u" by blast
qed (auto simp: hasPrefix_def)

lemma under_trans: "under a b \<Longrightarrow> under b c \<Longrightarrow> under a c"
  by (auto simp: under_def hasPrefix_iff)

text \<open>The check of \<open>worktreePath\<close> is enough: what passes it is the worktree or below it.\<close>

lemma worktreePath_under:
  assumes "hasPrefix cwd ''/''" "worktreePath cwd p r = Inr t" "path_abs cwd (pb_Worktree p) \<noteq> ''/''"
  shows "under (path_abs cwd (pb_Worktree p)) t"
proof -
  obtain bs where b: "path_abs cwd (pb_Worktree p) = CHR ''/'' # join ''/'' bs" "list_all plain_element bs"
    by (rule path_abs_rooted [OF assms(1)])
  obtain ts where t: "path_abs cwd (path_join [pb_Worktree p, r]) = CHR ''/'' # join ''/'' ts" "list_all plain_element ts"
    by (rule path_abs_rooted [OF assms(1)])
  let ?rel = "rel_elements bs ts"
  have eq: "t = CHR ''/'' # join ''/'' ts"
    and ok: "path_rel (CHR ''/'' # join ''/'' bs) (CHR ''/'' # join ''/'' ts) \<noteq> ''..''"
      "\<not> hasPrefix (path_rel (CHR ''/'' # join ''/'' bs) (CHR ''/'' # join ''/'' ts)) ''../''"
    using assms(2) unfolding worktreePath_def Let_def b(1) t(1) by (auto split: if_splits)
  have rel: "path_rel (CHR ''/'' # join ''/'' bs) (CHR ''/'' # join ''/'' ts) = (if ?rel = [] then ''.'' else join ''/'' ?rel)"
    by (simp only: path_rel_def elements_of_rooted b(2) t(2) Let_def)
  have "hd ?rel \<noteq> ''..'' \<or> ?rel = []"
  proof (rule ccontr)
    assume "\<not> (hd ?rel \<noteq> ''..'' \<or> ?rel = [])"
    then obtain xs where "?rel = ''..'' # xs" by (cases ?rel) auto
    then show False using ok rel by (cases xs) (auto simp: hasPrefix_def)
  qed
  then obtain us where us: "ts = bs @ us" using rel_elements_prefix [OF t(2)] by blast
  have "bs \<noteq> []" using assms(3) b(1) by auto
  then show ?thesis
    by (cases "us = []") (simp_all add: b(1) eq us join_append under_def hasPrefix_def)
qed

text \<open>The content of the file \<open>f\<close> is \<open>c\<close> after the call.\<close>

definition leaves :: "string \<Rightarrow> string option \<Rightarrow> 'r \<times> (disk \<times> 'g) \<Rightarrow> bool" where
  "leaves f c m \<longleftrightarrow> map_of (d_files (fst (snd m))) f = c"

lemma leaves_simp [simp]: "leaves f c (r, s) \<longleftrightarrow> map_of (d_files (fst s)) f = c"
  by (simp add: leaves_def)

lemma leaves_and_then:
  assumes "leaves f c m" "\<And>x s. map_of (d_files (fst s)) f = c \<Longrightarrow> leaves f c (g x s)"
  shows "leaves f c (and_then m g)"
  using assms by (cases m) (auto simp: and_then_def split: sum.splits)

lemma leaves_if: "(b \<Longrightarrow> leaves f c x) \<Longrightarrow> (\<not> b \<Longrightarrow> leaves f c y) \<Longrightarrow> leaves f c (if b then x else y)"
  by simp

definition git_leaves :: "'g git \<Rightarrow> string \<Rightarrow> bool" where
  "git_leaves git f \<longleftrightarrow> (\<forall>dir args fs g. map_of (fst (snd (git dir args fs g))) f = map_of fs f)"

lemma gitOutputInDir_leaves:
  assumes "git_leaves git f" "map_of (d_files (fst s)) f = c"
  shows "leaves f c (gitOutputInDir git dir args s)"
proof -
  obtain out fs g where o: "git dir args (d_files (fst s)) (snd s) = (out, fs, g)"
    by (cases "git dir args (d_files (fst s)) (snd s)")
  then have "map_of fs f = c" using assms unfolding git_leaves_def by (metis fst_conv snd_conv)
  then show ?thesis by (simp add: gitOutputInDir_def o Let_def split: option.split)
qed

lemma gitOutput_leaves:
  "git_leaves git f \<Longrightarrow> map_of (d_files (fst s)) f = c \<Longrightarrow> leaves f c (gitOutput git p args s)"
  by (simp add: gitOutput_def gitOutputInDir_leaves)

lemma git_run_leaves:
  "git_leaves git f \<Longrightarrow> map_of (d_files (fst s)) f = c \<Longrightarrow> leaves f c (git_run git p args s)"
  by (auto simp: git_run_def intro!: leaves_and_then gitOutput_leaves)

lemmas git_leaves_intros = leaves_and_then leaves_if gitOutputInDir_leaves gitOutput_leaves git_run_leaves

lemma configureIdentity_leaves:
  "git_leaves git f \<Longrightarrow> map_of (d_files (fst s)) f = c \<Longrightarrow> leaves f c (configureIdentity git p s)"
  unfolding configureIdentity_def by (intro git_leaves_intros) simp_all

lemma pushIfEnabled_leaves:
  "git_leaves git f \<Longrightarrow> map_of (d_files (fst s)) f = c \<Longrightarrow> leaves f c (pushIfEnabled git p result s)"
  unfolding pushIfEnabled_def currentBranch_def Let_def by (intro git_leaves_intros) simp_all

lemma currentCommit_leaves:
  "git_leaves git f \<Longrightarrow> map_of (d_files (fst s)) f = c \<Longrightarrow> leaves f c (currentCommit git p s)"
  unfolding currentCommit_def by (intro git_leaves_intros) simp_all

lemma commit_published_leaves:
  assumes "git_leaves git f" "map_of (d_files (fst s)) f = c"
  shows "leaves f c (commit_published git p request result s)"
proof -
  have again: "leaves f c (case currentCommit git p s of (Inl _, s) \<Rightarrow> (Inr result, s)
      | (Inr commit, s) \<Rightarrow> pushIfEnabled git p (result\<lparr>pu_Commit := commit\<rparr>) s)"
    if "map_of (d_files (fst s)) f = c" for s
    using currentCommit_leaves [OF assms(1) that, of p] pushIfEnabled_leaves [OF assms(1)]
    by (cases "currentCommit git p s") (auto split: sum.splits)
  show ?thesis unfolding commit_published_def hasChanges_def
    using assms by (intro git_leaves_intros again currentCommit_leaves pushIfEnabled_leaves) simp_all
qed

lemma same_outside_keeps: "same_outside P k k' \<Longrightarrow> \<not> P f \<Longrightarrow> map_of (d_files k') f = map_of (d_files k) f"
  by (simp add: same_outside_def)

lemma stat_ok_files: "stat_ok p k = (b, k') \<Longrightarrow> d_files k' = d_files k"
  by (auto simp: stat_ok_def dest: next_disk_files split: disk_splits)

lemma readDir_files: "readDir p k = (b, k') \<Longrightarrow> d_files k' = d_files k"
  by (auto simp: readDir_def dest: next_disk_files split: disk_splits)

lemma Enabled_files: "Enabled p k = (b, k') \<Longrightarrow> d_files k' = d_files k"
  by (auto simp: Enabled_def Let_def dest: stat_ok_files split: if_splits)

lemma mkdirAll_files: "mkdirAll p k = (b, k') \<Longrightarrow> d_files k' = d_files k"
  by (auto simp: mkdirAll_def dest: next_disk_files split: disk_splits)

lemma ensureWorktree_leaves:
  assumes "git_leaves git f" "map_of (d_files (fst s)) f = c"
  shows "leaves f c (ensureWorktree git p s)"
proof -
  have clone: "leaves f c (and_then (gitOutputInDir git '''' args (k, g)) (\<lambda>_. configureIdentity git p))"
    if "map_of (d_files k) f = c" for args k g c
    using assms(1) that by (intro git_leaves_intros configureIdentity_leaves) simp_all
  have "leaves f c (configureIdentity git p (k, g))" if "map_of (d_files k) f = c" for k g c
    using assms(1) that by (intro configureIdentity_leaves) simp_all
  then show ?thesis using assms(2) unfolding ensureWorktree_def
    by (auto dest!: stat_ok_files readDir_files mkdirAll_files intro!: clone
        split: if_split prod.split bool.split sum.split option.split)
qed

lemma clean_published_outside:
  assumes "hasPrefix cwd ''/''" "path_abs cwd (pb_Worktree p) \<noteq> ''/''" "clean_published cwd p root ps k = (r, k')"
  shows "same_outside (under (path_abs cwd (pb_Worktree p))) k k'"
  using assms(3)
proof (induction ps arbitrary: k)
  case (Cons q ps)
  let ?P = "under (path_abs cwd (pb_Worktree p))"
  show ?case
  proof (cases "cleanRepoRelativePath q ''package path'' False")
    case (Inr path)
    show ?thesis
    proof (cases "worktreePath cwd p (joinRepoPath root path)")
      case (Inr full)
      note w = worktreePath_under [OF assms(1) Inr assms(2)]
      have "disk_then (removeAll full k) (Wrapf (''clean published package '' @ quote (joinRepoPath root path)))
          (clean_published cwd p root ps) = (r, k')"
        using Cons.prems Inr \<open>cleanRepoRelativePath q _ _ = _\<close> by (simp add: Let_def)
      then show ?thesis
        by (rule disk_then_outside)
          (auto intro: Cons.IH same_outside_mono [OF removeAll_outside] under_trans [OF w])
    qed (use Cons.prems Inr in \<open>auto simp: Let_def\<close>)
  qed (use Cons.prems in auto)
qed simp

lemma write_published_outside:
  assumes "hasPrefix cwd ''/''" "path_abs cwd (pb_Worktree p) \<noteq> ''/''" "write_published cwd p root as k = (r, k')"
  shows "same_outside (under (path_abs cwd (pb_Worktree p))) k k'"
  using assms(3)
proof (induction as arbitrary: k)
  case (Cons a as)
  let ?P = "under (path_abs cwd (pb_Worktree p))"
  show ?case
  proof (cases "cleanRepoRelativePath (da_Path a) ''artifact path'' False")
    case path: (Inr path)
    show ?thesis
    proof (cases "worktreePath cwd p (joinRepoPath root path)")
      case full: (Inr full)
      note w = worktreePath_under [OF assms(1) full assms(2)]
      have step: "same_outside ?P k1 k'"
        if "(case writeFileIfChanged full (da_Content a) k1 of (Inl e, k) \<Rightarrow> (Inl e, k)
            | (Inr _, k) \<Rightarrow> write_published cwd p root as k) = (r, k')" for k1
      proof -
        obtain x k2 where x: "writeFileIfChanged full (da_Content a) k1 = (x, k2)"
          by (cases "writeFileIfChanged full (da_Content a) k1")
        have "same_outside ?P k1 k2"
          by (rule same_outside_mono [OF writeFileIfChanged_outside [OF x]]) (use w in simp)
        then show ?thesis using that x Cons.IH by (cases x) (auto intro: same_outside_trans)
      qed
      have "disk_then (mkdirAll (path_dir full) k) (Wrapf ''create publish directory'') (\<lambda>k.
          case writeFileIfChanged full (da_Content a) k of (Inl e, k) \<Rightarrow> (Inl e, k)
          | (Inr _, k) \<Rightarrow> write_published cwd p root as k) = (r, k')"
        using Cons.prems path full by simp
      then show ?thesis by (rule disk_then_outside) (auto intro: mkdirAll_outside step)
    qed (use Cons.prems path in auto)
  qed (use Cons.prems in auto)
qed simp

text \<open>
  C35. Publishing changes no file outside the git worktree, whatever the paths of packages and artifacts,
  as long as git itself leaves the file alone.
\<close>

theorem publish_stays_in_worktree:
  assumes "hasPrefix cwd ''/''" "path_abs cwd (pb_Worktree p) \<noteq> ''/''" "git_leaves git f"
    and "\<not> under (path_abs cwd (pb_Worktree p)) f" "Publish git cwd p request s = (r, s')"
  shows "map_of (d_files (fst s')) f = map_of (d_files (fst s)) f"
proof -
  define c where "c = map_of (d_files (fst s)) f"
  have clean: "leaves f c (on_disk (clean_published cwd p root ps) t)" if "map_of (d_files (fst t)) f = c" for root ps t c
    using that
    by (cases "clean_published cwd p root ps (fst t)")
      (simp add: on_disk_def same_outside_keeps [OF clean_published_outside [OF assms(1,2)] assms(4)])
  have wr: "leaves f c (on_disk (write_published cwd p root as) t)" if "map_of (d_files (fst t)) f = c" for root as t c
    using that
    by (cases "write_published cwd p root as (fst t)")
      (simp add: on_disk_def same_outside_keeps [OF write_published_outside [OF assms(1,2)] assms(4)])
  obtain b k where b: "Enabled p (fst s) = (b, k)" by (cases "Enabled p (fst s)")
  have k: "map_of (d_files k) f = c" using Enabled_files [OF b] by (simp add: c_def)
  have rest: "leaves f c (case cleanRepoRelativePath (pb_Root p) ''delivery repo root'' True of
              Inl e \<Rightarrow> (Inl e, t)
            | Inr root \<Rightarrow>
                (case cleanRepoRelativePath (pq_PackagePath request) ''package path'' False of
                   Inl e \<Rightarrow> (Inl e, t)
                 | Inr packagePath \<Rightarrow>
                     and_then (on_disk (clean_published cwd p root
                         (uniquePackagePaths packagePath (pq_PackagePaths request))) t) (\<lambda>_ s.
                       and_then (on_disk (write_published cwd p root (pq_Artifacts request)) s) (\<lambda>_ s.
                         commit_published git p request
                           (no_publish\<lparr>pu_PublishedPath := joinRepoPath root packagePath\<rparr>) s))))"
    if "map_of (d_files (fst t)) f = c" for t c
    using that by (auto intro!: leaves_and_then clean wr commit_published_leaves [OF assms(3)] split: sum.split)
  have "leaves f c (Publish git cwd p request s)"
    unfolding Publish_def b
    by (auto simp: k intro!: leaves_and_then rest ensureWorktree_leaves [OF assms(3)] split: bool.split)
  then show ?thesis by (simp add: assms(5) c_def)
qed

theorem publish_stays_in_worktree_witness:
  "map_of (d_files (fst (snd (Publish toy_git ''/'' sample_publisher
       (sample_publish\<lparr>pq_Artifacts := [\<lparr>da_Path = ''../../etc/x'', da_Content = ''1''\<rparr>]\<rparr>)
       (\<lparr>d_files = [(''/w/.git/HEAD'', ''''), (''/etc/x'', ''0'')], d_faults = []\<rparr>, 0))))) ''/etc/x'' = Some ''0''"
proof -
  let ?q = "sample_publish\<lparr>pq_Artifacts := [\<lparr>da_Path = ''../../etc/x'', da_Content = ''1''\<rparr>]\<rparr>"
  let ?s = "(\<lparr>d_files = [(''/w/.git/HEAD'', ''''), (''/etc/x'', ''0'')], d_faults = []\<rparr>, 0) :: disk \<times> nat"
  obtain r s' where r: "Publish toy_git ''/'' sample_publisher ?q ?s = (r, s')"
    by (cases "Publish toy_git ''/'' sample_publisher ?q ?s")
  have "path_abs ''/'' (pb_Worktree sample_publisher) = ''/w''" by code_simp
  moreover have "git_leaves toy_git ''/etc/x''" by (simp add: git_leaves_def toy_git_def)
  moreover have "hasPrefix ''/'' ''/''" "\<not> under ''/w'' ''/etc/x''" by code_simp+
  ultimately have "map_of (d_files (fst s')) ''/etc/x'' = map_of (d_files (fst ?s)) ''/etc/x''"
    using publish_stays_in_worktree [OF _ _ _ _ r] by simp
  then show ?thesis by (simp add: r)
qed

end
