(* ===== verification/Control_World.thy ===== *)
theory Control_World
  imports Exec_StatefulSet Publisher
begin

text \<open>
  The management cluster as the reconcilers see it: the custom resources by name (they are all
  cluster-scoped), the API calls on them, and what a reconciler holds in memory while it works on one.
  Faults are those of \<open>Exec_World\<close>: a call is refused or its answer is lost.

  A reconciler copies the status of the object it has read and compares the copy with the status it ends
  up with, to leave out a write that would change nothing. The copy is shallow: \<open>originalStatus :=
  project.Status\<close> copies slice headers, so that both statuses read the same array of conditions, and
  \<open>apimeta.SetStatusCondition\<close> updates a condition that is there in place. \<open>slices\<close> models the two headers.
\<close>

section \<open>Conditions behind two slice headers\<close>

text \<open>
  \<open>sl_now\<close> is what the object reads, \<open>sl_then\<close> what the copy reads. As long as they share an array,
  \<open>sl_room\<close> is the capacity left behind the conditions; \<open>None\<close> once appending has moved the object to an
  array of its own.
\<close>

record slices =
  sl_now :: "condition list"
  sl_then :: "condition list"
  sl_room :: "nat option"

definition copied :: "nat \<Rightarrow> condition list \<Rightarrow> slices" where
  "copied room cs = \<lparr>sl_now = cs, sl_then = cs, sl_room = Some room\<rparr>"

definition set_shared ::
  "set_condition \<Rightarrow> time \<Rightarrow> int \<Rightarrow> string \<Rightarrow> string \<Rightarrow> string \<Rightarrow> string \<Rightarrow> slices \<Rightarrow> slices" where
  "set_shared setc now generation conditionType status reason message v =
     (let new = setStatusCondition setc now generation conditionType status reason message (sl_now v) in
      if find_condition conditionType (sl_now v) = None then
        (case sl_room v of
           Some (Suc n) \<Rightarrow> v\<lparr>sl_now := new, sl_room := Some n\<rparr>
         | _ \<Rightarrow> v\<lparr>sl_now := new, sl_room := None\<rparr>)
      else
        (case sl_room v of
           None \<Rightarrow> v\<lparr>sl_now := new\<rparr>
         | Some _ \<Rightarrow> v\<lparr>sl_now := new, sl_then := take (length (sl_then v)) new\<rparr>))"

text \<open>Several calls of \<open>setStatusCondition\<close> in a row: type, status, reason and message of each.\<close>

definition set_all ::
  "set_condition \<Rightarrow> time \<Rightarrow> int \<Rightarrow> (string \<times> string \<times> string \<times> string) list \<Rightarrow> slices \<Rightarrow> slices" where
  "set_all setc now generation cs v =
     fold (\<lambda>(t, s, r, m). set_shared setc now generation t s r m) cs v"

text \<open>
  What the documentation says of the array: a condition of a type that is there is updated where it is,
  one of a new type is appended.
\<close>

definition in_place :: "set_condition \<Rightarrow> bool" where
  "in_place setc \<longleftrightarrow>
     (\<forall>cs c. find_condition (c_type c) cs \<noteq> None \<longrightarrow> length (setc cs c) = length cs) \<and>
     (\<forall>cs c. find_condition (c_type c) cs = None \<longrightarrow> setc cs c = cs @ [c])"

text \<open>
  \<open>xs = xs[:0]\<close> and appending \<open>new\<close>: a copy of the old header still reads the old number of elements,
  with the new ones in front.
\<close>

definition overwritten :: "'a list \<Rightarrow> 'a list \<Rightarrow> 'a list" where
  "overwritten old new = take (length old) (new @ drop (length new) old)"

section \<open>Resources and calls\<close>

record control =
  co_tenants :: "(string, tenant) gomap"
  co_projects :: "(string, project) gomap"
  co_policies :: "(string, policy) gomap"
  co_classes :: "(string, service_class) gomap"
  co_plans :: "(string, service_plan) gomap"
  co_targets :: "(string, cluster_target) gomap"
  co_instances :: "(string, service_instance) gomap"
  co_namespaceClaims :: "(string, namespace_claim) gomap"
  co_vmClaims :: "(string, virtual_machine_claim) gomap"
  co_packages :: "(string, operator_package) gomap"
  co_faults :: "fault list"

record 'a kind =
  kd_all :: "control \<Rightarrow> (string, 'a) gomap"
  kd_set :: "(string, 'a) gomap \<Rightarrow> control \<Rightarrow> control"

definition tenants :: "tenant kind" where
  "tenants = \<lparr>kd_all = co_tenants, kd_set = \<lambda>m. co_tenants_update (\<lambda>_. m)\<rparr>"
definition projects :: "project kind" where
  "projects = \<lparr>kd_all = co_projects, kd_set = \<lambda>m. co_projects_update (\<lambda>_. m)\<rparr>"
definition policies :: "policy kind" where
  "policies = \<lparr>kd_all = co_policies, kd_set = \<lambda>m. co_policies_update (\<lambda>_. m)\<rparr>"
definition serviceClasses :: "service_class kind" where
  "serviceClasses = \<lparr>kd_all = co_classes, kd_set = \<lambda>m. co_classes_update (\<lambda>_. m)\<rparr>"
definition servicePlans :: "service_plan kind" where
  "servicePlans = \<lparr>kd_all = co_plans, kd_set = \<lambda>m. co_plans_update (\<lambda>_. m)\<rparr>"
definition clusterTargets :: "cluster_target kind" where
  "clusterTargets = \<lparr>kd_all = co_targets, kd_set = \<lambda>m. co_targets_update (\<lambda>_. m)\<rparr>"
definition serviceInstances :: "service_instance kind" where
  "serviceInstances = \<lparr>kd_all = co_instances, kd_set = \<lambda>m. co_instances_update (\<lambda>_. m)\<rparr>"
definition namespaceClaims :: "namespace_claim kind" where
  "namespaceClaims = \<lparr>kd_all = co_namespaceClaims, kd_set = \<lambda>m. co_namespaceClaims_update (\<lambda>_. m)\<rparr>"
definition vmClaims :: "virtual_machine_claim kind" where
  "vmClaims = \<lparr>kd_all = co_vmClaims, kd_set = \<lambda>m. co_vmClaims_update (\<lambda>_. m)\<rparr>"
definition operatorPackages :: "operator_package kind" where
  "operatorPackages = \<lparr>kd_all = co_packages, kd_set = \<lambda>m. co_packages_update (\<lambda>_. m)\<rparr>"

lemmas kind_defs =
  tenants_def projects_def policies_def serviceClasses_def servicePlans_def clusterTargets_def
  serviceInstances_def namespaceClaims_def vmClaims_def operatorPackages_def

lemma kind_simps [simp]:
  "kd_all tenants = co_tenants" "kd_set tenants m w = w\<lparr>co_tenants := m\<rparr>"
  "kd_all projects = co_projects" "kd_set projects m2 w = w\<lparr>co_projects := m2\<rparr>"
  "kd_all policies = co_policies" "kd_set policies m3 w = w\<lparr>co_policies := m3\<rparr>"
  "kd_all serviceClasses = co_classes" "kd_set serviceClasses m4 w = w\<lparr>co_classes := m4\<rparr>"
  "kd_all servicePlans = co_plans" "kd_set servicePlans m5 w = w\<lparr>co_plans := m5\<rparr>"
  "kd_all clusterTargets = co_targets" "kd_set clusterTargets m6 w = w\<lparr>co_targets := m6\<rparr>"
  "kd_all serviceInstances = co_instances" "kd_set serviceInstances m7 w = w\<lparr>co_instances := m7\<rparr>"
  "kd_all namespaceClaims = co_namespaceClaims" "kd_set namespaceClaims m8 w = w\<lparr>co_namespaceClaims := m8\<rparr>"
  "kd_all vmClaims = co_vmClaims" "kd_set vmClaims m9 w = w\<lparr>co_vmClaims := m9\<rparr>"
  "kd_all operatorPackages = co_packages" "kd_set operatorPackages m10 w = w\<lparr>co_packages := m10\<rparr>"
  by (simp_all add: kind_defs)

definition control_fault :: "control \<Rightarrow> fault \<times> control" where
  "control_fault w = (case co_faults w of [] \<Rightarrow> (Works, w) | f # fs \<Rightarrow> (f, w\<lparr>co_faults := fs\<rparr>))"

definition get_obj :: "'a kind \<Rightarrow> string \<Rightarrow> control \<Rightarrow> (api_error + 'a) \<times> control" where
  "get_obj kd n w =
     (case control_fault w of
        (Refused e, w) \<Rightarrow> (Inl e, w)
      | (Lost e, w) \<Rightarrow> (Inl e, w)
      | (Works, w) \<Rightarrow> (case map_of (kd_all kd w) n of None \<Rightarrow> (Inl NotFound, w) | Some x \<Rightarrow> (Inr x, w)))"

definition list_obj :: "'a kind \<Rightarrow> control \<Rightarrow> (api_error + 'a list) \<times> control" where
  "list_obj kd w =
     (case control_fault w of
        (Refused e, w) \<Rightarrow> (Inl e, w)
      | (Lost e, w) \<Rightarrow> (Inl e, w)
      | (Works, w) \<Rightarrow> (Inr (map snd (kd_all kd w)), w))"

text \<open>\<open>Create\<close>, and \<open>Update\<close> or \<open>Status().Update\<close> as a change \<open>f\<close> of the object that is there.\<close>

definition create_obj :: "'a kind \<Rightarrow> string \<Rightarrow> 'a \<Rightarrow> control \<Rightarrow> (api_error + unit) \<times> control" where
  "create_obj kd n x w =
     (let effect = (\<lambda>w. kd_set kd (AList.update n x (kd_all kd w)) w) in
      case control_fault w of
        (Refused e, w) \<Rightarrow> (Inl e, w)
      | (Lost e, w) \<Rightarrow> (Inl e, if map_of (kd_all kd w) n = None then effect w else w)
      | (Works, w) \<Rightarrow> (if map_of (kd_all kd w) n = None then (Inr (), effect w) else (Inl AlreadyExists, w)))"

definition change_obj :: "'a kind \<Rightarrow> string \<Rightarrow> ('a \<Rightarrow> 'a) \<Rightarrow> control \<Rightarrow> (api_error + unit) \<times> control" where
  "change_obj kd n f w =
     (let effect = (\<lambda>w x. kd_set kd (AList.update n (f x) (kd_all kd w)) w) in
      case control_fault w of
        (Refused e, w) \<Rightarrow> (Inl e, w)
      | (Lost e, w) \<Rightarrow> (Inl e, case map_of (kd_all kd w) n of None \<Rightarrow> w | Some x \<Rightarrow> effect w x)
      | (Works, w) \<Rightarrow> (case map_of (kd_all kd w) n of
            None \<Rightarrow> (Inl NotFound, w) | Some x \<Rightarrow> (Inr (), effect w x)))"

text \<open>What a call's error becomes where the reconciler returns it.\<close>

definition pass :: "(api_error + 'a) \<times> 's \<Rightarrow> (go_error + 'a) \<times> 's" where
  "pass r = (case r of (Inl e, s) \<Rightarrow> (Inl (ApiError e), s) | (Inr x, s) \<Rightarrow> (Inr x, s))"

section \<open>Reconcilers\<close>

text \<open>
  \<open>ctrl.Result\<close>: the seconds after which the object is to be reconciled again, \<open>0\<close> for not on account of this run.
\<close>

record reconcile_result =
  rr_requeueAfter :: int

abbreviation done_result :: reconcile_result where "done_result \<equiv> \<lparr>rr_requeueAfter = 0\<rparr>"
abbreviation requeue_30 :: reconcile_result where "requeue_30 \<equiv> \<lparr>rr_requeueAfter = 30\<rparr>"

type_synonym reconciling = "control \<Rightarrow> (go_error + reconcile_result) \<times> control"

text \<open>
  What the reconcilers use of the world around them: the two functions of \<open>apimeta\<close>, the clock, the spare
  capacity of a slice that has just been decoded, the text of an error and the registered adapters.
\<close>

record controller_env =
  ce_setc :: set_condition
  ce_truec :: "condition list \<Rightarrow> string \<Rightarrow> bool"
  ce_now :: time
  ce_room :: nat
  ce_errText :: "go_error \<Rightarrow> string"
  ce_adapters :: registry

definition ignoreNotFound :: "api_error \<Rightarrow> go_error + reconcile_result" where
  "ignoreNotFound e = (if e = NotFound then Inr done_result else Inl (ApiError e))"

text \<open>\<open>if !DeepEqual(originalStatus, status) { Status().Update }\<close> and the result after it.\<close>

definition update_if_changed ::
  "'a kind \<Rightarrow> string \<Rightarrow> bool \<Rightarrow> ('a \<Rightarrow> 'a) \<Rightarrow> reconcile_result \<Rightarrow> reconciling" where
  "update_if_changed kd n same f result w =
     (if same then (Inr result, w) else and_then (pass (change_obj kd n f w)) (\<lambda>_ w. (Inr result, w)))"

end
