(* ===== verification/Catalog_Controllers.thy ===== *)
theory Catalog_Controllers
  imports Control_World Adapter_Catalog Policy_Eval
begin

text \<open>
  The reconcilers of tenants, projects, policies, service classes and service plans
  (\<open>internal/controllers/tenant_controller.go\<close>, \<open>project_controller.go\<close>, \<open>policy_controller.go\<close>,
  \<open>serviceclass_controller.go\<close>, \<open>serviceplan_controller.go\<close>), the quota profiles (\<open>quota_profiles.go\<close>) and the
  operator packages an instance depends on (\<open>operator_package_dependencies.go\<close>).
\<close>

abbreviation conds ::
  "controller_env \<Rightarrow> int \<Rightarrow> (string \<times> string \<times> string \<times> string) list \<Rightarrow> slices \<Rightarrow> slices" where
  "conds env generation cs v \<equiv> set_all (ce_setc env) (ce_now env) generation cs v"

abbreviation conditionTrue :: "controller_env \<Rightarrow> condition list \<Rightarrow> string \<Rightarrow> bool" where
  "conditionTrue env \<equiv> isStatusConditionTrue (ce_truec env)"

text \<open>\<open>int32\<close>: a counter wraps, a checked conversion of a length stops at the largest value.\<close>

definition wrap_int32 :: "int \<Rightarrow> int" where
  "wrap_int32 x = (x + 2 ^ 31) mod 2 ^ 32 - 2 ^ 31"

abbreviation MaxInt32 :: int where "MaxInt32 \<equiv> 2147483647"
abbreviation MinInt32 :: int where "MinInt32 \<equiv> -2147483648"

section \<open>Quotas\<close>

definition projectQuota :: "int \<Rightarrow> int \<Rightarrow> project_quotas_spec" where
  "projectQuota maxServices maxNamespaces =
     \<lparr>pq_maxServices = Some maxServices, pq_maxNamespaces = Some maxNamespaces\<rparr>"

definition no_quota :: project_quotas_spec where
  "no_quota = \<lparr>pq_maxServices = None, pq_maxNamespaces = None\<rparr>"

definition quotaProfile :: "string \<Rightarrow> project_quotas_spec" where
  "quotaProfile name =
     (if name = ''tiny'' then projectQuota 1 1
      else if name = ''sandbox'' then projectQuota 3 2
      else if name = ''development'' then projectQuota 10 5
      else if name = ''standard'' \<or> name = ''standard-tenant'' then projectQuota 20 10
      else no_quota)"

definition effectiveProjectQuota :: "project option \<Rightarrow> tenant option \<Rightarrow> project_quotas_spec" where
  "effectiveProjectQuota project tenant =
     (case project of
        None \<Rightarrow> no_quota
      | Some p \<Rightarrow>
          (let quota = (case tenant of
                 None \<Rightarrow> no_quota | Some t \<Rightarrow> quotaProfile (lr_name (tns_quotaProfileRef (tn_spec t))));
               own = prs_quotas (pj_spec p) in
           \<lparr>pq_maxServices = (case pq_maxServices own of Some n \<Rightarrow> Some n | None \<Rightarrow> pq_maxServices quota),
            pq_maxNamespaces = (case pq_maxNamespaces own of Some n \<Rightarrow> Some n | None \<Rightarrow> pq_maxNamespaces quota)\<rparr>))"

section \<open>Placement of instances\<close>

definition resolvedClusterName :: "project \<Rightarrow> string" where
  "resolvedClusterName project =
     (if pl_clusterName (prt_placement (pj_status project)) \<noteq> ''''
      then pl_clusterName (prt_placement (pj_status project))
      else (case ts_clusterRef (prs_targetSelector (pj_spec project)) of Some r \<Rightarrow> lr_name r | None \<Rightarrow> ''''))"

text \<open>The instances that count against a project, and the namespaces they occupy.\<close>

definition counted_instances :: "project \<Rightarrow> service_instance list \<Rightarrow> service_instance list" where
  "counted_instances project items =
     filter (\<lambda>i. m_deletionTimestamp (si_meta i) = None \<and>
                 lr_name (sis_projectRef (si_spec i)) = m_name (pj_meta project)) items"

definition counted_namespaces :: "project \<Rightarrow> service_instance list \<Rightarrow> string list" where
  "counted_namespaces project items =
     remdups (filter (\<lambda>n. n \<noteq> '''')
       (map (\<lambda>i. if pl_namespace (sit_placement (si_status i)) = '''' then resolvedNamespace project i
                 else pl_namespace (sit_placement (si_status i)))
         (counted_instances project items)))"

section \<open>Tenants\<close>

definition TenantReconcile :: "controller_env \<Rightarrow> string \<Rightarrow> reconciling" where
  "TenantReconcile env name w =
     (case get_obj tenants name w of
        (Inl e, w) \<Rightarrow> (ignoreNotFound e, w)
      | (Inr tenant, w) \<Rightarrow>
          (let generation = m_generation (tn_meta tenant);
               original = tn_status tenant;
               policies = map pr_name (tns_policyRefs (tn_spec tenant));
               v = conds env generation
                 [(''Accepted'', ConditionTrue, ''SpecAccepted'', ''Tenant accepted for reconciliation.''),
                  (''Ready'', ConditionTrue, ''TenantReady'', ''Tenant is ready for dependent resources.'')]
                 (copied (ce_room env) (tnt_conditions original));
               status = original\<lparr>tnt_observedGeneration := generation, tnt_phase := ''Ready'',
                 tnt_effectivePolicies := policies, tnt_conditions := sl_now v\<rparr>;
               original = original\<lparr>tnt_effectivePolicies := overwritten (tnt_effectivePolicies original) policies,
                 tnt_conditions := sl_then v\<rparr> in
           update_if_changed tenants name (original = status) (tn_status_update (\<lambda>_. status)) done_result w))"

section \<open>Projects\<close>

definition safeNamespaceUsageCount :: "nat \<Rightarrow> int" where
  "safeNamespaceUsageCount len = (if int len > MaxInt32 then MaxInt32 else int len)"

definition populateUsageSummary :: "project \<Rightarrow> control \<Rightarrow> (go_error + usage_summary) \<times> control" where
  "populateUsageSummary project w =
     and_then (pass (list_obj serviceInstances w)) (\<lambda>items w.
       (Inr \<lparr>us_projects = 0,
          us_serviceInstances = wrap_int32 (int (length (counted_instances project items))),
          us_namespaces = safeNamespaceUsageCount (length (counted_namespaces project items)),
          us_services = 0\<rparr>, w))"

text \<open>
  What a run makes of the status: everything but the conditions, the headers of the conditions and the
  result. Writing it, and the common end of the branches where something is missing.
\<close>

definition project_done ::
  "string \<Rightarrow> project_status \<Rightarrow> project_status \<Rightarrow> slices \<Rightarrow> reconcile_result \<Rightarrow> reconciling" where
  "project_done name original status v result =
     update_if_changed projects name
       (original\<lparr>prt_conditions := sl_then v\<rparr> = status\<lparr>prt_conditions := sl_now v\<rparr>)
       (pj_status_update (\<lambda>_. status\<lparr>prt_conditions := sl_now v\<rparr>)) result"

definition projectDependencyError ::
  "controller_env \<Rightarrow> project \<Rightarrow> project_status \<Rightarrow> string \<Rightarrow> string \<Rightarrow> api_error \<Rightarrow> reconciling" where
  "projectDependencyError env project status reason message err w =
     (if err \<noteq> NotFound then (Inl (ApiError err), w)
      else project_done (m_name (pj_meta project)) (pj_status project) (status\<lparr>prt_phase := ''Failed''\<rparr>)
        (conds env (m_generation (pj_meta project))
          [(''Accepted'', ConditionFalse, reason, message),
           (''Placed'', ConditionFalse, reason, message),
           (''Ready'', ConditionFalse, reason, message),
           (''Failed'', ConditionTrue, reason, message)]
          (copied (ce_room env) (prt_conditions (pj_status project)))) requeue_30 w)"

definition projectTenantInactive :: "controller_env \<Rightarrow> project \<Rightarrow> project_status \<Rightarrow> tenant \<Rightarrow> reconciling" where
  "projectTenantInactive env project status tenant =
     project_done (m_name (pj_meta project)) (pj_status project) (status\<lparr>prt_phase := ''Failed''\<rparr>)
       (conds env (m_generation (pj_meta project))
         [(''Accepted'', ConditionFalse, ''TenantInactive'', ''Tenant '' @ quote (m_name (tn_meta tenant)) @ '' is not active.''),
          (''Placed'', ConditionFalse, ''TenantInactive'', ''Project placement is blocked until the tenant is active.''),
          (''Ready'', ConditionFalse, ''TenantInactive'', ''Project is not ready because its tenant is inactive.''),
          (''Failed'', ConditionTrue, ''TenantInactive'', ''Project cannot proceed while the tenant is inactive.'')]
         (copied (ce_room env) (prt_conditions (pj_status project)))) done_result"

definition clusterTargetReady :: "controller_env \<Rightarrow> cluster_target \<Rightarrow> bool" where
  "clusterTargetReady env target \<longleftrightarrow>
     isStatusCurrent (m_generation (ctg_meta target)) (ctt_observedGeneration (ctg_status target)) \<and>
     conditionTrue env (ctt_conditions (ctg_status target)) ''Ready'' \<and> ctt_reachable (ctg_status target)"

definition projectTargetNotReady :: "controller_env \<Rightarrow> project \<Rightarrow> project_status \<Rightarrow> string \<Rightarrow> reconciling" where
  "projectTargetNotReady env project status clusterName =
     project_done (m_name (pj_meta project)) (pj_status project)
       (status\<lparr>prt_placement := (prt_placement status)\<lparr>pl_clusterName := clusterName\<rparr>, prt_phase := ''PendingPlacement''\<rparr>)
       (conds env (m_generation (pj_meta project))
         [(''Accepted'', ConditionTrue, ''SpecAccepted'', ''Project accepted for reconciliation.''),
          (''Placed'', ConditionFalse, ''ClusterTargetNotReady'',
            ''Cluster target '' @ quote clusterName @ '' is not ready for placement yet.''),
          (''Ready'', ConditionFalse, ''ClusterTargetNotReady'', ''Project is not ready until the selected cluster target is ready.''),
          (''Failed'', ConditionFalse, ''ClusterTargetNotReady'', ''Project has not failed; placement is waiting on the cluster target.'')]
         (copied (ce_room env) (prt_conditions (pj_status project)))) requeue_30"

definition projectPlaced :: "controller_env \<Rightarrow> project \<Rightarrow> project_status \<Rightarrow> string \<Rightarrow> reconciling" where
  "projectPlaced env project status clusterName =
     (let status = status\<lparr>prt_placement := (prt_placement status)\<lparr>pl_clusterName := clusterName\<rparr>\<rparr>;
          accepted = (''Accepted'', ConditionTrue, ''SpecAccepted'', ''Project accepted for reconciliation.'');
          (phase, rest) =
            (if clusterName = '''' then
               (''PendingPlacement'',
                [(''Placed'', ConditionFalse, ''PlacementPending'', ''Project is waiting for a resolved cluster target.''),
                 (''Ready'', ConditionFalse, ''PlacementPending'', ''Project is not ready until placement is resolved.''),
                 (''Failed'', ConditionFalse, ''PlacementPending'', ''Project has not failed.'')])
             else
               (''Ready'',
                [(''Placed'', ConditionTrue, ''PlacementResolved'', ''Project placement resolved.''),
                 (''Ready'', ConditionTrue, ''ProjectReady'', ''Project is ready for product placement.''),
                 (''Failed'', ConditionFalse, ''ProjectReady'', ''Project has not failed.'')])) in
      project_done (m_name (pj_meta project)) (pj_status project) (status\<lparr>prt_phase := phase\<rparr>)
        (conds env (m_generation (pj_meta project)) (accepted # rest)
          (copied (ce_room env) (prt_conditions (pj_status project)))) done_result)"

definition ProjectReconcile :: "controller_env \<Rightarrow> string \<Rightarrow> reconciling" where
  "ProjectReconcile env name w =
     (case get_obj projects name w of
        (Inl e, w) \<Rightarrow> (ignoreNotFound e, w)
      | (Inr project, w) \<Rightarrow>
          and_then (populateUsageSummary project w) (\<lambda>usage w.
            let status = (pj_status project)\<lparr>prt_observedGeneration := m_generation (pj_meta project),
                  prt_usageSummary := usage\<rparr>;
                tenantName = lr_name (prs_tenantRef (pj_spec project)) in
            case get_obj tenants tenantName w of
              (Inl e, w) \<Rightarrow>
                projectDependencyError env project status ''TenantUnavailable''
                  (''Referenced Tenant '' @ quote tenantName @ '' is not available.'') e w
            | (Inr tenant, w) \<Rightarrow>
                (let status = status\<lparr>prt_effectiveQuota := effectiveProjectQuota (Some project) (Some tenant)\<rparr> in
                 if tl_phase (tns_lifecycle (tn_spec tenant)) \<noteq> TenantLifecyclePhaseActive
                 then projectTenantInactive env project status tenant w
                 else (case ts_clusterRef (prs_targetSelector (pj_spec project)) of
                    None \<Rightarrow> projectPlaced env project status '''' w
                  | Some ref \<Rightarrow>
                      (case get_obj clusterTargets (lr_name ref) w of
                         (Inl e, w) \<Rightarrow>
                           projectDependencyError env project status ''ClusterTargetUnavailable''
                             (''Referenced ClusterTarget '' @ quote (lr_name ref) @ '' is not available.'') e w
                       | (Inr target, w) \<Rightarrow>
                           if clusterTargetReady env target
                           then projectPlaced env project status (lr_name ref) w
                           else projectTargetNotReady env project status (lr_name ref) w)))))"

section \<open>Policies\<close>

definition safeRuleCount :: "nat \<Rightarrow> int" where
  "safeRuleCount len = (if int len > MaxInt32 then MaxInt32 else int len)"

definition PolicyReconcile :: "controller_env \<Rightarrow> string \<Rightarrow> reconciling" where
  "PolicyReconcile env name w =
     (case get_obj policies name w of
        (Inl e, w) \<Rightarrow> (ignoreNotFound e, w)
      | (Inr policy, w) \<Rightarrow>
          (let generation = m_generation (po_meta policy);
               original = po_status policy;
               spec = po_spec policy;
               (phase, cs) =
                 (if pol_targetKinds spec = [] \<or> pol_rules spec = [] then
                    (''Failed'',
                     [(''Accepted'', ConditionFalse, ''InvalidPolicy'', ''Policy must declare at least one target kind and rule.''),
                      (''Ready'', ConditionFalse, ''InvalidPolicy'', ''Policy is not ready for use.''),
                      (''Failed'', ConditionTrue, ''InvalidPolicy'', ''Policy specification is incomplete.'')])
                  else (case validatePolicySpec policy of
                    Some err \<Rightarrow>
                      (''Failed'',
                       [(''Accepted'', ConditionFalse, ''InvalidPolicy'', ce_errText env err),
                        (''Ready'', ConditionFalse, ''InvalidPolicy'', ''Policy is not ready for use.''),
                        (''Failed'', ConditionTrue, ''InvalidPolicy'', ce_errText env err)])
                  | None \<Rightarrow>
                      (''Ready'',
                       [(''Accepted'', ConditionTrue, ''PolicyAccepted'', ''Policy specification accepted.''),
                        (''Ready'', ConditionTrue, ''PolicyReady'',
                          ''Policy exposes '' @ show_nat (length (pol_rules spec)) @ '' rule(s).''),
                        (''Failed'', ConditionFalse, ''PolicyReady'', ''Policy has not failed.'')])));
               v = conds env generation cs (copied (ce_room env) (pst_conditions original));
               status = original\<lparr>pst_observedGeneration := generation, pst_phase := phase,
                 pst_ruleCount := safeRuleCount (length (pol_rules spec)),
                 pst_targetKinds := pol_targetKinds spec, pst_conditions := sl_now v\<rparr>;
               original = original\<lparr>pst_targetKinds := overwritten (pst_targetKinds original) (pol_targetKinds spec),
                 pst_conditions := sl_then v\<rparr> in
           update_if_changed policies name (original = status) (po_status_update (\<lambda>_. status)) done_result w))"

section \<open>Service classes\<close>

text \<open>The branches of the reconciler: phase, whether the class is published, and the conditions.\<close>

definition serviceClassVerdict ::
  "controller_env \<Rightarrow> service_class \<Rightarrow> string \<times> bool \<times> (string \<times> string \<times> string \<times> string) list" where
  "serviceClassVerdict env cls =
     (let name = m_name (sc_meta cls); driver = scs_driver (sc_spec cls) in
      case KnownContract name of
        None \<Rightarrow>
          (''Failed'', False,
           [(''Accepted'', ConditionFalse, ''UnsupportedServiceClass'',
              ''Service class '' @ quote name @ '' is not recognized by the current platform catalog.''),
            (''Ready'', ConditionFalse, ''UnsupportedServiceClass'', ''Service class is not ready for publication.''),
            (''Failed'', ConditionTrue, ''UnsupportedServiceClass'', ''Service class cannot be reconciled because it is unknown.'')])
      | Some contract \<Rightarrow>
          if driver \<noteq> pc_RuntimeDriver contract then
            (''Failed'', False,
             [(''Accepted'', ConditionFalse, ''DriverMismatch'',
                ''Expected driver '' @ quote (pc_RuntimeDriver contract) @ '' for service class '' @ quote name @
                '', got '' @ quote driver @ ''.''),
              (''Ready'', ConditionFalse, ''DriverMismatch'', ''Service class is not ready because its driver does not match the recognized contract.''),
              (''Failed'', ConditionTrue, ''DriverMismatch'', ''Service class contract validation failed.'')])
          else
            (let accepted = (''Accepted'', ConditionTrue, ''ValidationSucceeded'', ''Service class contract accepted.'') in
             if \<not> scs_published (sc_spec cls) then
               (''Draft'', False,
                [accepted,
                 (''Ready'', ConditionFalse, ''Draft'', ''Service class is stored as a draft and not published yet.''),
                 (''Failed'', ConditionFalse, ''Draft'', ''Service class has not failed.'')])
             else if GetAdapter (ce_adapters env) name = None then
               (''PendingImplementation'', False,
                [accepted,
                 (''Ready'', ConditionFalse, ''AdapterPending'', ''Service class publication is blocked until a runtime adapter is registered.''),
                 (''Failed'', ConditionFalse, ''AdapterPending'', ''Service class has not failed; implementation is pending.'')])
             else
               (''Ready'', True,
                [accepted,
                 (''Ready'', ConditionTrue, ''ServiceClassReady'', ''Service class is published and backed by a runtime adapter.''),
                 (''Failed'', ConditionFalse, ''ServiceClassReady'', ''Service class has not failed.'')])))"

definition ServiceClassReconcile :: "controller_env \<Rightarrow> string \<Rightarrow> reconciling" where
  "ServiceClassReconcile env name w =
     (case get_obj serviceClasses name w of
        (Inl e, w) \<Rightarrow> (ignoreNotFound e, w)
      | (Inr cls, w) \<Rightarrow>
          (let generation = m_generation (sc_meta cls);
               original = sc_status cls;
               (phase, published, cs) = serviceClassVerdict env cls;
               v = conds env generation cs (copied (ce_room env) (sct_conditions original));
               status = original\<lparr>sct_observedGeneration := generation, sct_phase := phase,
                 sct_published := published, sct_conditions := sl_now v\<rparr> in
           update_if_changed serviceClasses name (original\<lparr>sct_conditions := sl_then v\<rparr> = status)
             (sc_status_update (\<lambda>_. status)) done_result w))"

section \<open>Service plans\<close>

definition servicePlanContains :: "string list \<Rightarrow> string \<Rightarrow> bool" where
  "servicePlanContains items target = list_ex (\<lambda>i. i = target) items"

definition servicePlanVerdict ::
  "controller_env \<Rightarrow> service_plan \<Rightarrow> service_class \<Rightarrow> string \<times> bool \<times> (string \<times> string \<times> string \<times> string) list" where
  "servicePlanVerdict env plan cls =
     (let topology = sps_topology (spl_spec plan);
          version = sps_defaultVersion (spl_spec plan);
          name = m_name (sc_meta cls);
          versions = scs_supportedVersions (sc_spec cls) in
      if (case KnownContract name of
            None \<Rightarrow> False
          | Some contract \<Rightarrow> topology \<noteq> '''' \<and> \<not> servicePlanContains (pc_TopologyModes contract) topology) then
        (''Failed'', False,
         [(''Accepted'', ConditionFalse, ''UnsupportedTopology'',
            ''Topology '' @ quote topology @ '' is not supported for service class '' @ quote name @ ''.''),
          (''Ready'', ConditionFalse, ''UnsupportedTopology'', ''Service plan is not ready because its topology is invalid.''),
          (''Failed'', ConditionTrue, ''UnsupportedTopology'', ''Service plan validation failed.'')])
      else if version \<noteq> '''' \<and> versions \<noteq> [] \<and> \<not> servicePlanContains versions version then
        (''Failed'', False,
         [(''Accepted'', ConditionFalse, ''UnsupportedVersion'',
            ''Default version '' @ quote version @ '' is not supported by service class '' @ quote name @ ''.''),
          (''Ready'', ConditionFalse, ''UnsupportedVersion'', ''Service plan is not ready because its default version is invalid.''),
          (''Failed'', ConditionTrue, ''UnsupportedVersion'', ''Service plan validation failed.'')])
      else
        (let accepted = (''Accepted'', ConditionTrue, ''ValidationSucceeded'', ''Service plan contract accepted.'') in
         if \<not> isStatusCurrent (m_generation (sc_meta cls)) (sct_observedGeneration (sc_status cls)) then
           (''PendingServiceClass'', False,
            [accepted,
             (''Ready'', ConditionFalse, ''ServiceClassPending'', ''Service plan is waiting for its parent service class to finish reconciliation.''),
             (''Failed'', ConditionFalse, ''ServiceClassPending'', ''Service plan has not failed.'')])
         else if \<not> conditionTrue env (sct_conditions (sc_status cls)) ''Accepted'' then
           (''Failed'', False,
            [accepted,
             (''Ready'', ConditionFalse, ''ParentServiceClassInvalid'', ''Service plan is blocked by an invalid parent service class.''),
             (''Failed'', ConditionTrue, ''ParentServiceClassInvalid'', ''Service plan cannot be published because its parent service class is invalid.'')])
         else if \<not> sct_published (sc_status cls) then
           (''Draft'', False,
            [accepted,
             (''Ready'', ConditionFalse, ''ParentServiceClassUnpublished'', ''Service plan remains unpublished until its parent service class is published.''),
             (''Failed'', ConditionFalse, ''ParentServiceClassUnpublished'', ''Service plan has not failed.'')])
         else
           (''Ready'', True,
            [accepted,
             (''Ready'', ConditionTrue, ''ServicePlanReady'', ''Service plan is published and available for provisioning.''),
             (''Failed'', ConditionFalse, ''ServicePlanReady'', ''Service plan has not failed.'')])))"

definition servicePlanUnavailable ::
  "service_plan \<Rightarrow> string \<times> bool \<times> (string \<times> string \<times> string \<times> string) list" where
  "servicePlanUnavailable plan =
     (''PendingServiceClass'', False,
      [(''Accepted'', ConditionFalse, ''ServiceClassUnavailable'',
         ''Referenced ServiceClass '' @ quote (lr_name (sps_serviceClassRef (spl_spec plan))) @ '' is not available.''),
       (''Ready'', ConditionFalse, ''ServiceClassUnavailable'', ''Service plan is waiting for its parent service class.''),
       (''Failed'', ConditionFalse, ''ServiceClassUnavailable'',
         ''Service plan has not failed; it is waiting for its parent service class.'')])"

definition ServicePlanReconcile :: "controller_env \<Rightarrow> string \<Rightarrow> reconciling" where
  "ServicePlanReconcile env name w =
     (case get_obj servicePlans name w of
        (Inl e, w) \<Rightarrow> (ignoreNotFound e, w)
      | (Inr plan, w) \<Rightarrow>
          (let finish = (\<lambda>(phase, published, cs) result w.
                 let generation = m_generation (spl_meta plan);
                     original = spl_status plan;
                     v = conds env generation cs (copied (ce_room env) (spt_conditions original));
                     status = original\<lparr>spt_observedGeneration := generation, spt_phase := phase,
                       spt_published := published, spt_conditions := sl_now v\<rparr> in
                 update_if_changed servicePlans name (original\<lparr>spt_conditions := sl_then v\<rparr> = status)
                   (spl_status_update (\<lambda>_. status)) result w) in
           case get_obj serviceClasses (lr_name (sps_serviceClassRef (spl_spec plan))) w of
             (Inl e, w) \<Rightarrow>
               if e \<noteq> NotFound then (Inl (ApiError e), w)
               else finish (servicePlanUnavailable plan) requeue_30 w
           | (Inr cls, w) \<Rightarrow>
               (let verdict = servicePlanVerdict env plan cls in
                finish verdict (if fst verdict = ''Failed'' then requeue_30 else done_result) w)))"

text \<open>The plans that are reconciled when their class changes; with an error of the list there are none.\<close>

definition servicePlansForServiceClass :: "api_object \<Rightarrow> control \<Rightarrow> string list \<times> control" where
  "servicePlansForServiceClass obj w =
     (case obj of
        OServiceClass cls \<Rightarrow>
          (case list_obj servicePlans w of
             (Inl _, w) \<Rightarrow> ([], w)
           | (Inr plans, w) \<Rightarrow>
               (map (\<lambda>p. m_name (spl_meta p))
                  (filter (\<lambda>p. lr_name (sps_serviceClassRef (spl_spec p)) = m_name (sc_meta cls)) plans), w))
      | _ \<Rightarrow> ([], w))"

section \<open>Operator packages\<close>

abbreviation externalSecretsOperatorPackageName :: string where
  "externalSecretsOperatorPackageName \<equiv> ''external-secrets''"
abbreviation PackagePhaseInstalled :: string where "PackagePhaseInstalled \<equiv> ''Installed''"

definition requiresExternalSecretsOperator :: "secret_policy_spec \<Rightarrow> bool" where
  "requiresExternalSecretsOperator policy \<longleftrightarrow> sp_deliveryMode policy = SecretDeliveryModeExternalSecret"

definition uniquePackageNames :: "string list \<Rightarrow> string list" where
  "uniquePackageNames names = sort (rev (remdups (rev (filter (\<lambda>n. n \<noteq> '''') names))))"

definition requiredPackagesForServiceInstance :: "service_class option \<Rightarrow> service_instance option \<Rightarrow> string list" where
  "requiredPackagesForServiceInstance cls instance =
     uniquePackageNames
       ((case cls of Some c \<Rightarrow> scs_requiredPackages (sc_spec c) | None \<Rightarrow> []) @
        (case instance of
           Some i \<Rightarrow> if requiresExternalSecretsOperator (sis_secretPolicy (si_spec i))
                     then [externalSecretsOperatorPackageName] else []
         | None \<Rightarrow> []))"

definition effectiveRequiredPackagesForClusterTarget ::
  "cluster_target \<Rightarrow> control \<Rightarrow> (go_error + string list) \<times> control" where
  "effectiveRequiredPackagesForClusterTarget target w =
     and_then (pass (list_obj serviceClasses w)) (\<lambda>classes w.
       and_then (pass (list_obj serviceInstances w)) (\<lambda>instances w.
         (Inr (uniquePackageNames
            (cts_requiredPackages (ctg_spec target) @
             concat (map (\<lambda>c. scs_requiredPackages (sc_spec c)) (filter (\<lambda>c. scs_published (sc_spec c)) classes)) @
             concat (map (\<lambda>i. if pl_clusterName (sit_placement (si_status i)) = m_name (ctg_meta target) \<and>
                                 requiresExternalSecretsOperator (sis_secretPolicy (si_spec i))
                              then [externalSecretsOperatorPackageName] else []) instances))), w)))"

definition resolveClusterTargetForProject ::
  "project \<Rightarrow> string \<Rightarrow> control \<Rightarrow> (api_error + cluster_target option) \<times> control" where
  "resolveClusterTargetForProject project fallbackClusterName w =
     (let clusterName = firstNonEmptyTrimmed
            [pl_clusterName (prt_placement (pj_status project)), fallbackClusterName];
          clusterName = (if clusterName = '''' then
              (case ts_clusterRef (prs_targetSelector (pj_spec project)) of
                 Some ref \<Rightarrow> firstNonEmptyTrimmed [lr_name ref] | None \<Rightarrow> '''')
            else clusterName) in
      if clusterName = '''' then (Inr None, w)
      else (case get_obj clusterTargets clusterName w of
              (Inl e, w) \<Rightarrow> (Inl e, w) | (Inr t, w) \<Rightarrow> (Inr (Some t), w)))"

definition packageStatus :: "cluster_target \<Rightarrow> string \<Rightarrow> package_status option" where
  "packageStatus target packageName = find (\<lambda>p. ps_name p = packageName) (ctt_packages (ctg_status target))"

definition packageIsRequired :: "cluster_target \<Rightarrow> string \<Rightarrow> bool" where
  "packageIsRequired target packageName = list_ex (\<lambda>p. p = packageName) (cts_requiredPackages (ctg_spec target))"

definition packageNotReady :: "cluster_target \<Rightarrow> string \<Rightarrow> package_status \<Rightarrow> string" where
  "packageNotReady target packageName status =
     ''OperatorPackage '' @ quote packageName @ '' on ClusterTarget '' @ quote (m_name (ctg_meta target)) @
     '' is not ready yet'' @
     (if ps_message status \<noteq> '''' then '': '' @ ps_message status else '' (phase '' @ ps_phase status @ '').'')"

definition externalSecretsPackageReady :: "cluster_target option \<Rightarrow> bool \<times> string" where
  "externalSecretsPackageReady target =
     (case target of
        None \<Rightarrow> (True, '''')
      | Some t \<Rightarrow>
          (let name = externalSecretsOperatorPackageName in
           case packageStatus t name of
             None \<Rightarrow>
               if packageIsRequired t name
               then (False, ''ClusterTarget '' @ quote (m_name (ctg_meta t)) @ '' is still reconciling OperatorPackage '' @
                      quote name @ ''.'')
               else (True, '''')
           | Some status \<Rightarrow>
               if ps_phase status = PackagePhaseInstalled then (True, '''')
               else (False, packageNotReady t name status)))"

fun packages_ready :: "cluster_target \<Rightarrow> string list \<Rightarrow> bool \<times> string" where
  "packages_ready target [] = (True, '''')"
| "packages_ready target (packageName # rest) =
     (case packageStatus target packageName of
        None \<Rightarrow>
          if \<not> packageIsRequired target packageName then packages_ready target rest
          else (False, ''OperatorPackage '' @ quote packageName @ '' on ClusterTarget '' @
                 quote (m_name (ctg_meta target)) @ '' is still reconciling.'')
      | Some status \<Rightarrow>
          if ps_phase status \<noteq> PackagePhaseInstalled then (False, packageNotReady target packageName status)
          else packages_ready target rest)"

definition packagesReady :: "cluster_target option \<Rightarrow> string list \<Rightarrow> bool \<times> string" where
  "packagesReady target packageNames =
     (case target of
        None \<Rightarrow> (False, ''Target cluster is not resolved yet.'')
      | Some t \<Rightarrow> packages_ready t (uniquePackageNames packageNames))"

end
