(* ===== verification/Claim_Controllers.thy ===== *)
theory Claim_Controllers
  imports Catalog_Controllers
begin

text \<open>
  The reconcilers of claims (\<open>internal/controllers/namespaceclaim_controller.go\<close>,
  \<open>virtualmachineclaim_controller.go\<close>): a claim is reconciled through a service instance of its own name, whose
  spec it overwrites and whose status it copies. \<open>mapToJSON\<close> is in \<open>controller_helpers.go\<close>. The server raises the
  generation of an instance when an update changes its spec.
\<close>

section \<open>JSON of parameters\<close>

text \<open>
  \<open>json.Marshal\<close> of a number: the shortest digits that read back, with an exponent below \<open>1e-6\<close> and from \<open>1e21\<close>
  on, whose leading zero is dropped.
\<close>

definition json_layout :: "string \<Rightarrow> int \<Rightarrow> string" where
  "json_layout ds dp =
     (let x = dp - 1 in
      if x < - 6 \<or> x \<ge> 21
      then hd ds # (if tl ds = [] then [] else CHR ''.'' # tl ds) @ ''e'' @ (if x < 0 then ''-'' else ''+'') @
           show_nat (nat \<bar>x\<bar>)
      else if dp \<le> 0 then ''0.'' @ replicate (nat (- dp)) CHR ''0'' @ ds
      else (let i = nat dp in
            take i ds @ replicate (i - length ds) CHR ''0'' @
            (if length ds > i then CHR ''.'' # drop i ds else [])))"

fun json_float :: "float64 \<Rightarrow> string" where
  "json_float (FFin neg m e) =
     (if neg then ''-'' else []) @
     (if m = 0 then ''0''
      else (case shortest (m, e) of (x, k) \<Rightarrow>
              json_layout (strip_zeros (show_nat x)) (k + int (length (show_nat x)))))"
| "json_float f = show_float f"

text \<open>\<open>json.Marshal\<close> of a value that was decoded into \<open>any\<close>: the keys of a map are in order.\<close>

fun any_json :: "goval \<Rightarrow> json" where
  "any_json GNil = JNull"
| "any_json (GBool b) = JBool b"
| "any_json (GFloat f) = JNum (json_float f)"
| "any_json (GStr s) = JStr s"
| "any_json (GArr xs) = JArr (map any_json xs)"
| "any_json (GMap fs) = JObj (sort_key fst (map (\<lambda>(k, v). (k, any_json v)) fs))"

definition mapToJSON :: "(string \<times> goval) list \<Rightarrow> raw_json option" where
  "mapToJSON values =
     (let raw = json_encode (any_json (GMap values)) in
      if raw = ''null'' \<or> raw = ''{}'' then None else Some raw)"

section \<open>The instance behind a claim\<close>

record backing_instance =
  bk_name :: string
  bk_labels :: "(string, string) gomap"
  bk_spec :: service_instance_spec

definition desiredNamespaceClaimInstance :: "namespace_claim \<Rightarrow> backing_instance" where
  "desiredNamespaceClaimInstance claim =
     (let name = m_name (nc_meta claim); spec = nc_spec claim in
      \<lparr>bk_name = name,
       bk_labels = [(''servicer.io/managed-by'', ''namespaceclaim-controller''), (''servicer.io/namespace-claim'', name)],
       bk_spec =
         \<lparr>sis_projectRef = ncs_projectRef spec,
          sis_serviceClassRef = \<lparr>lr_name = ''namespace''\<rparr>,
          sis_servicePlanRef = \<lparr>lr_name = ''namespace-team''\<rparr>,
          sis_version = '''',
          sis_parameters = mapToJSON (put_all [] (map (\<lambda>(k, v). (k, GStr v)) (ncs_quotas spec))),
          sis_exposure = \<lparr>ex_mode = ExposureModeClusterInternal\<rparr>,
          sis_maintenancePolicy = \<lparr>mp_windowRef = None\<rparr>,
          sis_secretPolicy = \<lparr>sp_deliveryMode = SecretDeliveryModeManual, sp_externalSecretProvider = '''', sp_vault = None\<rparr>,
          sis_deletionPolicy = ncs_deletionPolicy spec\<rparr>\<rparr>)"

definition desiredVirtualMachineClaimInstance :: "virtual_machine_claim \<Rightarrow> backing_instance" where
  "desiredVirtualMachineClaimInstance claim =
     (let name = m_name (vm_meta claim); spec = vm_spec claim;
          parameters = AList.update ''runStrategy''
            (GStr (if vms_powerState spec = ''stopped'' then ''Halted'' else ''Always''))
            (AList.update ''image'' (GStr (vms_image spec)) (parameters_map (vms_parameters spec)));
          planName = (if vms_class spec \<in> {'''', ''development'', ''dev''} then ''virtual-machine-dev'' else vms_class spec) in
      \<lparr>bk_name = name,
       bk_labels = [(''servicer.io/managed-by'', ''virtualmachineclaim-controller''),
                    (''servicer.io/virtual-machine-claim'', name)],
       bk_spec =
         \<lparr>sis_projectRef = vms_projectRef spec,
          sis_serviceClassRef = \<lparr>lr_name = ''virtual-machine''\<rparr>,
          sis_servicePlanRef = \<lparr>lr_name = planName\<rparr>,
          sis_version = '''',
          sis_parameters = mapToJSON parameters,
          sis_exposure = vms_exposure spec,
          sis_maintenancePolicy = \<lparr>mp_windowRef = None\<rparr>,
          sis_secretPolicy = vms_secretPolicy spec,
          sis_deletionPolicy = vms_deletionPolicy spec\<rparr>\<rparr>)"

definition no_instance_status :: service_instance_status where
  "no_instance_status = \<lparr>sit_observedGeneration = 0, sit_phase = '''', sit_conditions = [],
     sit_placement = \<lparr>pl_clusterName = '''', pl_namespace = ''''\<rparr>,
     sit_runtime = \<lparr>rt_driver = '''', rt_objectRef = None\<rparr>, sit_endpoints = [], sit_credentialRefs = [],
     sit_artifact = \<lparr>as_revision = '''', as_path = '''', as_count = 0, as_artifacts = []\<rparr>,
     sit_sync = \<lparr>ds_phase = '''', ds_applicationName = '''', ds_message = ''''\<rparr>,
     sit_health = \<lparr>hs_summary = ''''\<rparr>,
     sit_cacheTopology = \<lparr>ctop_mode = '''', ctop_primaryCluster = '''', ctop_standbyClusters = [],
       ctop_trafficEndpoint = '''', ctop_trafficPolicyRef = None, ctop_failoverReadiness = '''',
       ctop_message = ''''\<rparr>\<rparr>"

text \<open>The object of a \<open>Create\<close>, and the update of an instance that is there.\<close>

definition new_instance :: "backing_instance \<Rightarrow> service_instance" where
  "new_instance backing =
     \<lparr>si_meta = \<lparr>m_name = bk_name backing, m_namespace = '''', m_uid = '''', m_generation = 1,
        m_labels = bk_labels backing, m_annotations = [], m_deletionTimestamp = None, m_finalizers = []\<rparr>,
      si_spec = bk_spec backing, si_status = no_instance_status\<rparr>"

definition overwrite_instance :: "backing_instance \<Rightarrow> service_instance \<Rightarrow> service_instance" where
  "overwrite_instance backing existing =
     existing\<lparr>si_spec := bk_spec backing,
       si_meta := (si_meta existing)\<lparr>
         m_generation := m_generation (si_meta existing) + (if si_spec existing = bk_spec backing then 0 else 1),
         m_labels := fold (\<lambda>(k, v). AList.update k v) (bk_labels backing) (m_labels (si_meta existing))\<rparr>\<rparr>"

text \<open>The part the two reconcilers share: write the backing instance and read it again.\<close>

definition ensure_backing :: "backing_instance \<Rightarrow> control \<Rightarrow> (go_error + service_instance) \<times> control" where
  "ensure_backing backing w =
     (let written =
        (case get_obj serviceInstances (bk_name backing) w of
           (Inl NotFound, w) \<Rightarrow> pass (create_obj serviceInstances (bk_name backing) (new_instance backing) w)
         | (Inl e, w) \<Rightarrow> (Inl (ApiError e), w)
         | (Inr _, w) \<Rightarrow> pass (change_obj serviceInstances (bk_name backing) (overwrite_instance backing) w)) in
      and_then written (\<lambda>_ w. pass (get_obj serviceInstances (bk_name backing) w)))"

section \<open>The reconcilers\<close>

definition NamespaceClaimReconcile :: "controller_env \<Rightarrow> string \<Rightarrow> reconciling" where
  "NamespaceClaimReconcile env name w =
     (case get_obj namespaceClaims name w of
        (Inl e, w) \<Rightarrow> (ignoreNotFound e, w)
      | (Inr claim, w) \<Rightarrow>
          (let generation = m_generation (nc_meta claim);
               original = nc_status claim;
               finish = (\<lambda>status v w.
                 let status = status\<lparr>nct_conditions := sl_now v\<rparr> in
                 update_if_changed namespaceClaims name (original\<lparr>nct_conditions := sl_then v\<rparr> = status)
                   (nc_status_update (\<lambda>_. status)) done_result w);
               status = original\<lparr>nct_observedGeneration := generation\<rparr> in
           case get_obj projects (lr_name (ncs_projectRef (nc_spec claim))) w of
             (Inl e, w) \<Rightarrow>
               if e \<noteq> NotFound then (Inl (ApiError e), w)
               else finish (status\<lparr>nct_phase := ''Failed''\<rparr>)
                 (conds env generation
                   [(''Accepted'', ConditionFalse, ''ProjectUnavailable'', ''Referenced project is not available.''),
                    (''Failed'', ConditionTrue, ''ProjectUnavailable'', ''Namespace claim cannot reconcile without its project.'')]
                   (copied (ce_room env) (nct_conditions original))) w
           | (Inr _, w) \<Rightarrow>
               and_then (ensure_backing (desiredNamespaceClaimInstance claim) w) (\<lambda>existing w.
                 let st = si_status existing in
                 finish (status\<lparr>nct_phase := sit_phase st, nct_placement := sit_placement st,
                     nct_artifact := sit_artifact st, nct_sync := sit_sync st, nct_health := sit_health st\<rparr>)
                   (conds env generation
                     [(''Accepted'', ConditionTrue, ''BackedByServiceInstance'',
                        ''Namespace claim is reconciled through a backing namespace service instance.'')]
                     \<lparr>sl_now = sit_conditions st, sl_then = nct_conditions original, sl_room = None\<rparr>) w)))"

definition VirtualMachineClaimReconcile :: "controller_env \<Rightarrow> string \<Rightarrow> reconciling" where
  "VirtualMachineClaimReconcile env name w =
     (case get_obj vmClaims name w of
        (Inl e, w) \<Rightarrow> (ignoreNotFound e, w)
      | (Inr claim, w) \<Rightarrow>
          (let generation = m_generation (vm_meta claim);
               original = vm_status claim;
               finish = (\<lambda>status v w.
                 let status = status\<lparr>vmt_conditions := sl_now v\<rparr> in
                 update_if_changed vmClaims name (original\<lparr>vmt_conditions := sl_then v\<rparr> = status)
                   (vm_status_update (\<lambda>_. status)) done_result w);
               status = original\<lparr>vmt_observedGeneration := generation\<rparr> in
           case get_obj projects (lr_name (vms_projectRef (vm_spec claim))) w of
             (Inl e, w) \<Rightarrow>
               if e \<noteq> NotFound then (Inl (ApiError e), w)
               else finish (status\<lparr>vmt_phase := ''Failed''\<rparr>)
                 (conds env generation
                   [(''Accepted'', ConditionFalse, ''ProjectUnavailable'', ''Referenced project is not available.''),
                    (''Failed'', ConditionTrue, ''ProjectUnavailable'', ''Virtual machine claim cannot reconcile without its project.'')]
                   (copied (ce_room env) (vmt_conditions original))) w
           | (Inr _, w) \<Rightarrow>
               and_then (ensure_backing (desiredVirtualMachineClaimInstance claim) w) (\<lambda>existing w.
                 let st = si_status existing in
                 finish (status\<lparr>vmt_phase := sit_phase st, vmt_placement := sit_placement st,
                     vmt_runtime := sit_runtime st, vmt_endpoints := sit_endpoints st,
                     vmt_credentialRefs := sit_credentialRefs st, vmt_artifact := sit_artifact st,
                     vmt_sync := sit_sync st, vmt_health := sit_health st\<rparr>)
                   (conds env generation
                     [(''Accepted'', ConditionTrue, ''BackedByServiceInstance'',
                        ''Virtual machine claim is reconciled through a backing KubeVirt service instance.'')]
                     \<lparr>sl_now = sit_conditions st, sl_then = vmt_conditions original, sl_room = None\<rparr>) w)))"

end
