(* ===== verification/Catalog_Facts.thy ===== *)
theory Catalog_Facts
  imports Claim_Controllers Samples
begin

text \<open>
  What the reconcilers of tenants, projects, the catalogue and claims promise, and where a shallow copy of
  the status gets in the way: conditions are only written when another field changes
  (\<open>project_conditions_follow_other_fields\<close>). \<open>new_plan_published\<close> follows a class and a plan through their two
  reconcilers; \<open>claims_take_over_instances\<close> is the behaviour of a claim that shares the name of an instance.
\<close>

section \<open>Shared conditions\<close>

lemma set_shared_now:
  "sl_now (set_shared setc now g t s r m v) = setStatusCondition setc now g t s r m (sl_now v)"
  by (simp add: set_shared_def Let_def split: option.split nat.split)

lemma find_setStatusCondition:
  assumes "set_condition_contract setc"
  shows "find_condition t (setStatusCondition setc now g t' s r m cs) \<noteq> None \<longleftrightarrow>
    t = t' \<or> find_condition t cs \<noteq> None"
  using assms unfolding set_condition_contract_def setStatusCondition_def
  by (metis condition.select_convs(1) option.distinct(1))

text \<open>As long as no condition of a new type is set, the copy reads what the object reads.\<close>

lemma set_all_shared:
  assumes "set_condition_contract setc" "in_place setc"
    and "sl_room v \<noteq> None" "sl_then v = sl_now v" "\<forall>c \<in> set cs. find_condition (fst c) (sl_now v) \<noteq> None"
  shows "sl_then (set_all setc now g cs v) = sl_now (set_all setc now g cs v)"
  using assms(3-5)
proof (induction cs arbitrary: v)
  case (Cons c cs)
  obtain t s r m where c: "c = (t, s, r, m)" by (cases c)
  let ?v = "set_shared setc now g t s r m v"
  have known: "find_condition t (sl_now v) \<noteq> None" using Cons.prems(3) c by simp
  have "length (setStatusCondition setc now g t s r m (sl_now v)) = length (sl_now v)"
    using assms(2) known unfolding in_place_def setStatusCondition_def by simp
  then have "sl_room ?v \<noteq> None \<and> sl_then ?v = sl_now ?v"
    using Cons.prems known by (auto simp: set_shared_def Let_def split: option.split)
  moreover have "\<forall>c \<in> set cs. find_condition (fst c) (sl_now ?v) \<noteq> None"
    using Cons.prems(3) by (simp del: not_None_eq add: set_shared_now find_setStatusCondition [OF assms(1)])
  ultimately show ?case using Cons.IH [of ?v] by (simp add: set_all_def c)
qed (simp add: set_all_def)

lemma set_all_copied:
  assumes "set_condition_contract setc" "in_place setc" "\<forall>c \<in> set cs. find_condition (fst c) old \<noteq> None"
  shows "sl_then (set_all setc now g cs (copied room old)) = sl_now (set_all setc now g cs (copied room old))"
  by (rule set_all_shared) (use assms in \<open>simp_all add: copied_def\<close>)

lemma upsert_in_place: "in_place upsert_condition"
proof -
  have "length (upsert_condition cs c) = length cs" if "find_condition (c_type c) cs = Some d" for cs c d
  proof -
    have "length cs = length (takeWhile (\<lambda>x. c_type x \<noteq> c_type c) cs @ [d] @ tl (dropWhile (\<lambda>x. c_type x \<noteq> c_type c) cs))"
      using arg_cong [OF conjunct1 [OF find_split [OF that]], of length] .
    then show ?thesis by (simp add: upsert_condition_def that Let_def)
  qed
  then show ?thesis by (auto simp: in_place_def upsert_condition_def)
qed

section \<open>Calls without faults\<close>

lemma control_fault_none: "co_faults w = [] \<Longrightarrow> control_fault w = (Works, w)"
  by (simp add: control_fault_def)

lemma get_obj_none:
  "co_faults w = [] \<Longrightarrow>
     get_obj kd n w = (case map_of (kd_all kd w) n of None \<Rightarrow> (Inl NotFound, w) | Some x \<Rightarrow> (Inr x, w))"
  by (simp add: get_obj_def control_fault_none)

lemma list_obj_none: "co_faults w = [] \<Longrightarrow> list_obj kd w = (Inr (map snd (kd_all kd w)), w)"
  by (simp add: list_obj_def control_fault_none)

lemma change_obj_none:
  "co_faults w = [] \<Longrightarrow> change_obj kd n f w =
     (case map_of (kd_all kd w) n of None \<Rightarrow> (Inl NotFound, w)
      | Some x \<Rightarrow> (Inr (), kd_set kd (AList.update n (f x) (kd_all kd w)) w))"
  by (simp add: change_obj_def control_fault_none Let_def)

lemma create_obj_none:
  "co_faults w = [] \<Longrightarrow> create_obj kd n x w =
     (if map_of (kd_all kd w) n = None then (Inr (), kd_set kd (AList.update n x (kd_all kd w)) w)
      else (Inl AlreadyExists, w))"
  by (simp add: create_obj_def control_fault_none Let_def)

lemma pass_simps [simp]: "pass (Inl e, s) = (Inl (ApiError e), s)" "pass (Inr x, s) = (Inr x, s)"
  by (simp_all add: pass_def)

lemmas no_fault_calls = get_obj_none list_obj_none change_obj_none create_obj_none

section \<open>Projects\<close>

text \<open>The statuses with other fields than those of \<open>s\<close>, conditions aside.\<close>

definition other_fields :: "project_status \<Rightarrow> project_status \<Rightarrow> bool" where
  "other_fields s s' \<longleftrightarrow> s'\<lparr>prt_conditions := []\<rparr> \<noteq> s\<lparr>prt_conditions := []\<rparr>"

definition project_types :: "string list" where
  "project_types = [''Accepted'', ''Placed'', ''Ready'', ''Failed'']"

definition project_after :: "project \<Rightarrow> string \<Rightarrow> control \<Rightarrow> control \<Rightarrow> bool" where
  "project_after p n w w' \<longleftrightarrow>
     w' = w \<or> (\<exists>p'. map_of (co_projects w') n = Some p' \<and> other_fields (pj_status p) (pj_status p'))"

lemma project_done_after:
  assumes "set_condition_contract (ce_setc env)" "in_place (ce_setc env)" "co_faults w = []"
    and "map_of (co_projects w) n = Some p"
    and "\<forall>c \<in> set cs. find_condition (fst c) (prt_conditions (pj_status p)) \<noteq> None"
    and "project_done n (pj_status p) status
           (conds env g cs (copied (ce_room env) (prt_conditions (pj_status p)))) result w = (r, w')"
  shows "project_after p n w w'"
proof -
  define v where "v = conds env g cs (copied (ce_room env) (prt_conditions (pj_status p)))"
  have v: "sl_then v = sl_now v" unfolding v_def by (rule set_all_copied) (use assms in simp_all)
  show ?thesis
  proof (cases "(pj_status p)\<lparr>prt_conditions := sl_now v\<rparr> = status\<lparr>prt_conditions := sl_now v\<rparr>")
    case True
    then show ?thesis using assms(6) v
      by (simp add: project_done_def update_if_changed_def v_def [symmetric] project_after_def)
  next
    case False
    then have o: "other_fields (pj_status p) (status\<lparr>prt_conditions := sl_now v\<rparr>)"
      by (cases status; cases "pj_status p") (auto simp: other_fields_def)
    have "w' = kd_set projects (AList.update n (p\<lparr>pj_status := status\<lparr>prt_conditions := sl_now v\<rparr>\<rparr>) (co_projects w)) w"
      using assms(3,4,6) v False
      by (simp add: project_done_def update_if_changed_def v_def [symmetric] change_obj_none)
    then show ?thesis using o by (auto simp: project_after_def update_conv')
  qed
qed

lemma projectDependencyError_after:
  assumes "set_condition_contract (ce_setc env)" "in_place (ce_setc env)" "co_faults w = []"
    "map_of (co_projects w) n = Some p" "m_name (pj_meta p) = n"
    "\<forall>t \<in> set project_types. find_condition t (prt_conditions (pj_status p)) \<noteq> None"
    "projectDependencyError env p status reason message e w = (r, w')"
  shows "project_after p n w w'"
proof (cases "e = NotFound")
  case True
  then show ?thesis
    using project_done_after [OF assms(1-4) _ assms(7) [unfolded projectDependencyError_def assms(5)
          if_not_P [OF not_not [THEN iffD2, OF True]]]] assms(6)
    by (simp add: project_types_def)
next
  case False
  then show ?thesis using assms(7) by (simp add: projectDependencyError_def project_after_def)
qed

lemma projectTenantInactive_after:
  assumes "set_condition_contract (ce_setc env)" "in_place (ce_setc env)" "co_faults w = []"
    "map_of (co_projects w) n = Some p" "m_name (pj_meta p) = n"
    "\<forall>t \<in> set project_types. find_condition t (prt_conditions (pj_status p)) \<noteq> None"
    "projectTenantInactive env p status t w = (r, w')"
  shows "project_after p n w w'"
  using project_done_after [OF assms(1-4) _ assms(7) [unfolded projectTenantInactive_def assms(5)]] assms(6)
  by (simp add: project_types_def)

lemma projectTargetNotReady_after:
  assumes "set_condition_contract (ce_setc env)" "in_place (ce_setc env)" "co_faults w = []"
    "map_of (co_projects w) n = Some p" "m_name (pj_meta p) = n"
    "\<forall>t \<in> set project_types. find_condition t (prt_conditions (pj_status p)) \<noteq> None"
    "projectTargetNotReady env p status c w = (r, w')"
  shows "project_after p n w w'"
  using project_done_after [OF assms(1-4) _ assms(7) [unfolded projectTargetNotReady_def assms(5)]] assms(6)
  by (simp add: project_types_def)

lemma projectPlaced_after:
  assumes "set_condition_contract (ce_setc env)" "in_place (ce_setc env)" "co_faults w = []"
    "map_of (co_projects w) n = Some p" "m_name (pj_meta p) = n"
    "\<forall>t \<in> set project_types. find_condition t (prt_conditions (pj_status p)) \<noteq> None"
    "projectPlaced env p status c w = (r, w')"
  shows "project_after p n w w'"
proof (cases "c = ''''")
  case True
  show ?thesis
    using project_done_after [OF assms(1-4) _ assms(7) [unfolded projectPlaced_def Let_def assms(5)
          if_P [OF True] prod.case]] assms(6)
    by (simp add: project_types_def)
next
  case False
  show ?thesis
    using project_done_after [OF assms(1-4) _ assms(7) [unfolded projectPlaced_def Let_def assms(5)
          if_not_P [OF False] prod.case]] assms(6)
    by (simp add: project_types_def)
qed

lemmas project_branches_after =
  projectDependencyError_after projectTenantInactive_after projectTargetNotReady_after projectPlaced_after

text \<open>
  C36. The reconciler of projects never writes conditions alone: when the conditions of a project are all
  there, a run either leaves the stored project as it is or changes another field of its status. The
  comparison that guards the write looks at a copy that shares the array of conditions, so that a project
  whose reasons change keeps the reasons it had.
\<close>

theorem project_conditions_follow_other_fields:
  assumes "set_condition_contract (ce_setc env)" "in_place (ce_setc env)" "co_faults w = []"
    and "map_of (co_projects w) n = Some p" "m_name (pj_meta p) = n"
    and "\<forall>t \<in> set project_types. find_condition t (prt_conditions (pj_status p)) \<noteq> None"
    and "ProjectReconcile env n w = (r, w')"
  shows "w' = w \<or> (\<exists>p'. map_of (co_projects w') n = Some p' \<and> other_fields (pj_status p) (pj_status p'))"
proof -
  have "project_after p n w w'"
    using assms(7)
    by (auto simp: ProjectReconcile_def populateUsageSummary_def no_fault_calls assms(3)  assms(4) Let_def split: option.splits if_splits
        dest: project_branches_after [OF assms(1-6)])
  then show ?thesis by (simp add: project_after_def)
qed

section \<open>A new class and a new plan\<close>

text \<open>The documented meaning of \<open>apimeta.IsStatusConditionTrue\<close>.\<close>

definition is_true :: "string \<Rightarrow> condition list \<Rightarrow> bool" where
  "is_true t cs \<longleftrightarrow> (\<exists>d. find_condition t cs = Some d \<and> c_status d = ConditionTrue)"

definition true_contract :: "(condition list \<Rightarrow> string \<Rightarrow> bool) \<Rightarrow> bool" where
  "true_contract truec \<longleftrightarrow> (\<forall>cs t. truec cs t \<longleftrightarrow> is_true t cs)"

lemma is_true_set:
  assumes "set_condition_contract setc"
  shows "is_true t (setStatusCondition setc now g t' s r m cs) \<longleftrightarrow> (if t = t' then s = ConditionTrue else is_true t cs)"
proof (cases "t = t'")
  case True
  define c where "c = \<lparr>c_type = t', c_status = s, c_observedGeneration = g, c_lastTransitionTime = now,
    c_reason = r, c_message = m\<rparr>"
  obtain d where "find_condition (c_type c) (setc cs c) = Some d" "c_status d = c_status c"
    using assms unfolding set_condition_contract_def by blast
  then show ?thesis using True by (auto simp: is_true_def setStatusCondition_def c_def)
next
  case False
  then show ?thesis using assms unfolding set_condition_contract_def is_true_def setStatusCondition_def by simp
qed

lemma set_all_now:
  "sl_now (set_all setc now g cs v) = fold (\<lambda>(t, s, r, m). setStatusCondition setc now g t s r m) cs (sl_now v)"
  unfolding set_all_def by (induction cs arbitrary: v) (auto simp: set_shared_now)

text \<open>On an object that has no conditions yet the copy keeps having none, and the object gets some.\<close>

lemma set_all_fresh: "sl_then v = [] \<Longrightarrow> sl_then (set_all setc now g cs v) = []"
  unfolding set_all_def
  by (induction cs arbitrary: v) (auto simp: set_shared_def Let_def split: option.split nat.split)

lemma set_all_nonempty:
  assumes "set_condition_contract setc" "cs \<noteq> []"
  shows "sl_now (set_all setc now g cs v) \<noteq> []"
proof -
  obtain t s r m cs' where cs: "cs = (t, s, r, m) # cs'" using assms(2) by (metis list.exhaust prod_cases4)
  have "find_condition t (fold (\<lambda>(t, s, r, m). setStatusCondition setc now g t s r m) cs' xs) \<noteq> None"
    if "find_condition t xs \<noteq> None" for xs
    using that
  proof (induction cs' arbitrary: xs)
    case (Cons c cs')
    obtain t' s' r' m' where "c = (t', s', r', m')" by (cases c)
    then show ?case using Cons.IH Cons.prems
      by (simp del: not_None_eq add: find_setStatusCondition [OF assms(1)])
  qed simp
  then have "find_condition t (sl_now (set_all setc now g cs v)) \<noteq> None"
    by (simp del: not_None_eq add: cs set_all_now find_setStatusCondition [OF assms(1)])
  then show ?thesis by auto
qed

definition class_ok :: "controller_env \<Rightarrow> service_class \<Rightarrow> bool" where
  "class_ok env cls \<longleftrightarrow>
     (case KnownContract (m_name (sc_meta cls)) of
        None \<Rightarrow> False
      | Some k \<Rightarrow> scs_driver (sc_spec cls) = pc_RuntimeDriver k) \<and>
     scs_published (sc_spec cls) \<and> GetAdapter (ce_adapters env) (m_name (sc_meta cls)) \<noteq> None"

definition plan_ok :: "service_plan \<Rightarrow> service_class \<Rightarrow> bool" where
  "plan_ok plan cls \<longleftrightarrow>
     (sps_topology (spl_spec plan) = '''' \<or>
      (case KnownContract (m_name (sc_meta cls)) of
         None \<Rightarrow> True | Some k \<Rightarrow> sps_topology (spl_spec plan) \<in> set (pc_TopologyModes k))) \<and>
     (sps_defaultVersion (spl_spec plan) = '''' \<or> scs_supportedVersions (sc_spec cls) = [] \<or>
      sps_defaultVersion (spl_spec plan) \<in> set (scs_supportedVersions (sc_spec cls)))"

lemma serviceClassVerdict_published: "fst (snd (serviceClassVerdict env cls)) \<longleftrightarrow> class_ok env cls"
  by (auto simp: serviceClassVerdict_def class_ok_def Let_def split: option.split)

text \<open>A class that becomes published has been accepted.\<close>

lemma serviceClassVerdict_accepted:
  assumes "set_condition_contract setc" "class_ok env cls"
  shows "is_true ''Accepted'' (sl_now (set_all setc now g (snd (snd (serviceClassVerdict env cls))) v))"
  using assms(2)
  by (auto simp: serviceClassVerdict_def class_ok_def Let_def set_all_now is_true_set [OF assms(1)] split: option.splits)

lemma verdict_nonempty: "snd (snd (serviceClassVerdict env cls)) \<noteq> []" "snd (snd (servicePlanVerdict env plan cls)) \<noteq> []"
  by (simp_all add: serviceClassVerdict_def servicePlanVerdict_def Let_def split: option.split)

lemma new_class_reconciled:
  assumes "set_condition_contract (ce_setc env)" "co_faults w = []"
    and "map_of (co_classes w) c = Some cls" "sct_conditions (sc_status cls) = []"
  obtains cls' w' where "ServiceClassReconcile env c w = (Inr done_result, w')"
    "w' = w\<lparr>co_classes := AList.update c cls' (co_classes w)\<rparr>"
    "sc_spec cls' = sc_spec cls" "sc_meta cls' = sc_meta cls"
    "sct_observedGeneration (sc_status cls') = m_generation (sc_meta cls)"
    "sct_published (sc_status cls') \<longleftrightarrow> class_ok env cls"
    "class_ok env cls \<Longrightarrow> is_true ''Accepted'' (sct_conditions (sc_status cls'))"
proof -
  obtain phase published cs where v: "serviceClassVerdict env cls = (phase, published, cs)"
    by (cases "serviceClassVerdict env cls")
  define sl where "sl = conds env (m_generation (sc_meta cls)) cs (copied (ce_room env) [])"
  have sl: "sl_then sl = []" "sl_now sl \<noteq> []"
    using set_all_fresh [of "copied (ce_room env) []"] set_all_nonempty [OF assms(1)] verdict_nonempty(1) [of env cls] v
    by (auto simp: sl_def copied_def)
  define st where "st = (sc_status cls)\<lparr>sct_observedGeneration := m_generation (sc_meta cls), sct_phase := phase,
      sct_published := published, sct_conditions := sl_now sl\<rparr>"
  have ne: "(sc_status cls)\<lparr>sct_conditions := sl_then sl\<rparr> \<noteq> st"
    using sl by (auto simp: st_def dest: arg_cong [of _ _ sct_conditions])
  have "ServiceClassReconcile env c w =
      (Inr done_result, w\<lparr>co_classes := AList.update c (cls\<lparr>sc_status := st\<rparr>) (co_classes w)\<rparr>)"
    using assms(2-4) ne
    by (simp add: ServiceClassReconcile_def no_fault_calls v Let_def sl_def [symmetric] st_def [symmetric]
        update_if_changed_def)
  then show thesis
    by (rule that [of _ "cls\<lparr>sc_status := st\<rparr>"]) (use serviceClassVerdict_published [of env cls] serviceClassVerdict_accepted [OF assms(1), of env cls] v
      in \<open>auto simp: st_def sl_def\<close>)
qed

lemma servicePlanVerdict_published:
  assumes "true_contract (ce_truec env)" "sct_observedGeneration (sc_status cls) = m_generation (sc_meta cls)"
    and "sct_published (sc_status cls) \<Longrightarrow> is_true ''Accepted'' (sct_conditions (sc_status cls))"
  shows "fst (snd (servicePlanVerdict env plan cls)) \<longleftrightarrow> plan_ok plan cls \<and> sct_published (sc_status cls)"
  using assms
  by (auto simp: servicePlanVerdict_def plan_ok_def Let_def servicePlanContains_def list_ex_iff true_contract_def
      isStatusConditionTrue_def isStatusCurrent_def split: option.splits)

text \<open>
  C37. A new class and a new plan of it, reconciled in that order, leave the plan published exactly when the
  class is one of the nine products with the driver of that product, is meant to be published and has an
  adapter, and the topology and default version of the plan are among those of the class, or left open.
\<close>

theorem new_plan_published:
  assumes "set_condition_contract (ce_setc env)" "true_contract (ce_truec env)" "co_faults w = []"
    and "map_of (co_classes w) c = Some cls" "sct_conditions (sc_status cls) = []"
    and "map_of (co_plans w) n = Some plan" "spt_conditions (spl_status plan) = []"
    and "lr_name (sps_serviceClassRef (spl_spec plan)) = c"
  shows "\<exists>w1 w2 r1 r2 plan'. ServiceClassReconcile env c w = (Inr r1, w1) \<and> ServicePlanReconcile env n w1 = (Inr r2, w2) \<and>
    map_of (co_plans w2) n = Some plan' \<and> (spt_published (spl_status plan') \<longleftrightarrow> class_ok env cls \<and> plan_ok plan cls)"
proof -
  obtain cls' w1 where c: "ServiceClassReconcile env c w = (Inr done_result, w1)"
      "w1 = w\<lparr>co_classes := AList.update c cls' (co_classes w)\<rparr>"
      "sc_spec cls' = sc_spec cls" "sc_meta cls' = sc_meta cls"
      "sct_observedGeneration (sc_status cls') = m_generation (sc_meta cls)"
      "sct_published (sc_status cls') \<longleftrightarrow> class_ok env cls"
      "class_ok env cls \<Longrightarrow> is_true ''Accepted'' (sct_conditions (sc_status cls'))"
    by (rule new_class_reconciled [OF assms(1,3-5)]) blast
  obtain phase published cs where v: "servicePlanVerdict env plan cls' = (phase, published, cs)"
    by (cases "servicePlanVerdict env plan cls'")
  have pub: "published \<longleftrightarrow> class_ok env cls \<and> plan_ok plan cls"
    using servicePlanVerdict_published [OF assms(2), of cls' plan] c(3-7) v by (auto simp: plan_ok_def)
  define sl where "sl = conds env (m_generation (spl_meta plan)) cs (copied (ce_room env) [])"
  have sl: "sl_then sl = []" "sl_now sl \<noteq> []"
    using set_all_fresh [of "copied (ce_room env) []"] set_all_nonempty [OF assms(1)] verdict_nonempty(2) [of env plan cls'] v
    by (auto simp: sl_def copied_def)
  define st where "st = (spl_status plan)\<lparr>spt_observedGeneration := m_generation (spl_meta plan), spt_phase := phase,
      spt_published := published, spt_conditions := sl_now sl\<rparr>"
  have ne: "(spl_status plan)\<lparr>spt_conditions := sl_then sl\<rparr> \<noteq> st"
    using sl by (auto simp: st_def dest: arg_cong [of _ _ spt_conditions])
  have "ServicePlanReconcile env n w1 =
      (Inr (if phase = ''Failed'' then requeue_30 else done_result),
       w1\<lparr>co_plans := AList.update n (plan\<lparr>spl_status := st\<rparr>) (co_plans w1)\<rparr>)"
    using assms(3,6-8) ne
    by (simp add: ServicePlanReconcile_def c(2) no_fault_calls update_conv' v Let_def sl_def [symmetric] st_def [symmetric]
        update_if_changed_def)
  moreover have "map_of (co_plans (w1\<lparr>co_plans := AList.update n (plan\<lparr>spl_status := st\<rparr>) (co_plans w1)\<rparr>)) n =
      Some (plan\<lparr>spl_status := st\<rparr>)"
    by (simp add: update_conv')
  moreover have "spt_published (spl_status (plan\<lparr>spl_status := st\<rparr>)) \<longleftrightarrow> class_ok env cls \<and> plan_ok plan cls"
    using pub by (simp add: st_def)
  ultimately show ?thesis using c(1) by blast
qed

section \<open>Usage and quotas\<close>

lemma counted_namespaces_card:
  "length (counted_namespaces p items) \<le> length (counted_instances p items)"
  unfolding counted_namespaces_def
  by (rule order.trans [OF length_remdups_leq order.trans [OF length_filter_le]]) simp

text \<open>
  C38. While a project has less than \<open>2\<^sup>31\<close> instances its usage counts them, without those being deleted or of
  other projects; the namespaces it counts are the distinct ones of these instances and never more than
  the instances.
\<close>

theorem project_usage_counts:
  assumes "co_faults w = []" "length (co_instances w) < 2 ^ 31"
  shows "\<exists>u. populateUsageSummary p w = (Inr u, w) \<and>
    us_serviceInstances u = int (length (counted_instances p (map snd (co_instances w)))) \<and>
    us_namespaces u = int (card (set (counted_namespaces p (map snd (co_instances w))))) \<and>
    us_namespaces u \<le> us_serviceInstances u"
proof -
  let ?items = "map snd (co_instances w)"
  have "length (counted_instances p ?items) \<le> length ?items"
    unfolding counted_instances_def by (rule length_filter_le)
  then have less: "int (length (counted_instances p ?items)) < 2 ^ 31" using assms(2) by simp
  have d: "card (set (counted_namespaces p ?items)) = length (counted_namespaces p ?items)"
    by (rule distinct_card) (simp add: counted_namespaces_def)
  have w: "wrap_int32 (int (length (counted_instances p ?items))) = int (length (counted_instances p ?items))"
    using less by (simp add: wrap_int32_def)
  have n: "safeNamespaceUsageCount (length (counted_namespaces p ?items)) = int (length (counted_namespaces p ?items))"
    using less counted_namespaces_card [of p ?items] by (simp add: safeNamespaceUsageCount_def)
  show ?thesis
    using counted_namespaces_card [of p ?items]
    by (simp add: populateUsageSummary_def no_fault_calls assms(1) d w n)
qed

section \<open>Packages\<close>

lemma packages_ready_iff:
  "fst (packages_ready t names) \<longleftrightarrow>
     list_all (\<lambda>n. case packageStatus t n of
         Some st \<Rightarrow> ps_phase st = PackagePhaseInstalled | None \<Rightarrow> n \<notin> set (cts_requiredPackages (ctg_spec t))) names"
  by (induction names) (auto simp: packageIsRequired_def list_ex_iff split: option.splits)

text \<open>
  C39. The packages of an instance are ready on a cluster target exactly when each of them is installed
  there, or is neither listed by the target nor in its status: a package that the class requires and the
  target has never heard of does not hold the instance back.
\<close>

theorem packages_ready_on_target:
  "fst (packagesReady (Some t) names) \<longleftrightarrow>
     list_all (\<lambda>n. case packageStatus t n of
         Some st \<Rightarrow> ps_phase st = PackagePhaseInstalled | None \<Rightarrow> n \<notin> set (cts_requiredPackages (ctg_spec t)))
       (filter (\<lambda>n. n \<noteq> '''') names)"
  by (simp add: packagesReady_def packages_ready_iff uniquePackageNames_def list_all_iff)

section \<open>Claims\<close>

lemma ensure_backing_existing:
  assumes "co_faults w = []" "map_of (co_instances w) (bk_name b) = Some i"
  shows "ensure_backing b w =
    (Inr (overwrite_instance b i),
     w\<lparr>co_instances := AList.update (bk_name b) (overwrite_instance b i) (co_instances w)\<rparr>)"
  using assms by (simp add: ensure_backing_def no_fault_calls update_conv' Let_def)

lemma update_if_changed_instances:
  assumes "co_faults w = []" "update_if_changed namespaceClaims n same f result w = (r, w')"
  shows "co_instances w' = co_instances w"
  using assms by (auto simp: update_if_changed_def change_obj_none split: if_splits option.splits)

text \<open>
  C40. A NamespaceClaim takes over the instance of its name, whatever product it runs and whoever owns it:
  the reconciler overwrites its spec with the project and the namespace product of the claim.
\<close>

theorem claims_take_over_instances:
  assumes "co_faults w = []" "map_of (co_namespaceClaims w) n = Some claim" "m_name (nc_meta claim) = n"
    and "map_of (co_projects w) (lr_name (ncs_projectRef (nc_spec claim))) = Some p"
    and "map_of (co_instances w) n = Some i"
  shows "\<exists>i'. map_of (co_instances (snd (NamespaceClaimReconcile env n w))) n = Some i' \<and>
    si_spec i' = bk_spec (desiredNamespaceClaimInstance claim) \<and>
    lr_name (sis_serviceClassRef (si_spec i')) = ''namespace'' \<and>
    sis_projectRef (si_spec i') = ncs_projectRef (nc_spec claim)"
proof -
  define b where "b = desiredNamespaceClaimInstance claim"
  have b: "bk_name b = n" by (simp add: b_def desiredNamespaceClaimInstance_def Let_def assms(3))
  define w1 where "w1 = w\<lparr>co_instances := AList.update n (overwrite_instance b i) (co_instances w)\<rparr>"
  have e: "ensure_backing b w = (Inr (overwrite_instance b i), w1)"
    unfolding w1_def using ensure_backing_existing [OF assms(1), of b i] assms(5) b by simp
  obtain same f result where u: "NamespaceClaimReconcile env n w = update_if_changed namespaceClaims n same f result w1"
    using assms by (simp add: NamespaceClaimReconcile_def no_fault_calls b_def [symmetric] e Let_def)
  have "co_instances (snd (NamespaceClaimReconcile env n w)) = co_instances w1"
    using update_if_changed_instances [of w1 n same f result] assms(1) unfolding u
    by (cases "update_if_changed namespaceClaims n same f result w1") (simp add: w1_def)
  then have "map_of (co_instances (snd (NamespaceClaimReconcile env n w))) n = Some (overwrite_instance b i)"
    by (simp add: w1_def update_conv')
  then show ?thesis
    by (simp add: overwrite_instance_def b_def [symmetric]) (simp add: b_def desiredNamespaceClaimInstance_def Let_def)
qed

section \<open>Examples\<close>

definition sample_env :: controller_env where
  "sample_env = \<lparr>ce_setc = upsert_condition,
     ce_truec = (\<lambda>cs t. case find_condition t cs of Some d \<Rightarrow> c_status d = ConditionTrue | None \<Rightarrow> False),
     ce_now = 7, ce_room = 0, ce_errText = (\<lambda>_. ''''),
     ce_adapters = [(''postgresql'', sample_adapter ''postgresql'' ''cnpg'')]\<rparr>"

lemma sample_env_contracts:
  "set_condition_contract (ce_setc sample_env)" "in_place (ce_setc sample_env)" "true_contract (ce_truec sample_env)"
  by (simp_all add: sample_env_def upsert_condition_contract upsert_in_place true_contract_def is_true_def
      split: option.split)

definition empty_control :: control where
  "empty_control = \<lparr>co_tenants = [], co_projects = [], co_policies = [], co_classes = [], co_plans = [],
     co_targets = [], co_instances = [], co_namespaceClaims = [], co_vmClaims = [], co_packages = [], co_faults = []\<rparr>"

text \<open>A project that failed because it had no tenant, and a tenant that is there now but suspended.\<close>

definition unavailable :: "string \<Rightarrow> string \<Rightarrow> condition" where
  "unavailable t s = \<lparr>c_type = t, c_status = s, c_observedGeneration = 1, c_lastTransitionTime = 0,
     c_reason = ''TenantUnavailable'', c_message = ''''\<rparr>"

definition stale_project :: project where
  "stale_project = sampleProject\<lparr>pj_status := (pj_status sampleProject)\<lparr>prt_observedGeneration := 1, prt_phase := ''Failed'',
     prt_conditions := [unavailable ''Accepted'' ConditionFalse, unavailable ''Placed'' ConditionFalse,
       unavailable ''Ready'' ConditionFalse, unavailable ''Failed'' ConditionTrue]\<rparr>\<rparr>"

definition stale_control :: control where
  "stale_control = empty_control\<lparr>co_projects := [(''shop'', stale_project)],
     co_tenants := [(''acme'', sampleTenant\<lparr>tn_spec := (tn_spec sampleTenant)\<lparr>
       tns_lifecycle := \<lparr>tl_phase = TenantLifecyclePhaseSuspended\<rparr>\<rparr>\<rparr>)]\<rparr>"

lemma stale_project_kept:
  "co_projects (snd (ProjectReconcile sample_env ''shop'' stale_control)) = [(''shop'', stale_project)]"
  by code_simp

theorem project_conditions_follow_other_fields_witness:
  "(snd (ProjectReconcile sample_env ''shop'' stale_control) = stale_control \<or>
     (\<exists>p'. map_of (co_projects (snd (ProjectReconcile sample_env ''shop'' stale_control))) ''shop'' = Some p' \<and>
        other_fields (pj_status stale_project) (pj_status p'))) \<and>
   co_projects (snd (ProjectReconcile sample_env ''shop'' stale_control)) = [(''shop'', stale_project)]"
proof -
  obtain r w' where r: "ProjectReconcile sample_env ''shop'' stale_control = (r, w')"
    by (cases "ProjectReconcile sample_env ''shop'' stale_control")
  have "map_of (co_projects stale_control) ''shop'' = Some stale_project" "co_faults stale_control = []"
    by (simp_all add: stale_control_def empty_control_def)
  moreover have "m_name (pj_meta stale_project) = ''shop''" by (simp add: stale_project_def sampleProject_def)
  moreover have "\<forall>t \<in> set project_types. find_condition t (prt_conditions (pj_status stale_project)) \<noteq> None"
    by (simp add: project_types_def stale_project_def unavailable_def)
  ultimately show ?thesis
    using project_conditions_follow_other_fields [OF sample_env_contracts(1,2) _ _ _ _ r] stale_project_kept r by simp
qed

definition fresh_class :: service_class where
  "fresh_class = sampleClass\<lparr>sc_meta := sampleMeta ''postgresql'',
     sc_spec := (sc_spec sampleClass)\<lparr>scs_driver := ''cnpg''\<rparr>\<rparr>"

definition fresh_plan :: service_plan where
  "fresh_plan = (samplePlan [] None)\<lparr>spl_spec := (spl_spec (samplePlan [] None))\<lparr>
     sps_serviceClassRef := \<lparr>lr_name = ''postgresql''\<rparr>, sps_topology := ''high-availability''\<rparr>\<rparr>"

definition fresh_control :: control where
  "fresh_control = empty_control\<lparr>co_classes := [(''postgresql'', fresh_class)], co_plans := [(''small'', fresh_plan)]\<rparr>"

lemma fresh_ok: "class_ok sample_env fresh_class" "plan_ok fresh_plan fresh_class"
  by (simp_all add: class_ok_def plan_ok_def fresh_class_def fresh_plan_def KnownContract_def PostgreSQLContract_def
      sampleClass_def samplePlan_def sample_env_def GetAdapter_def)

theorem new_plan_published_witness:
  "\<exists>w1 w2 r1 r2 plan'. ServiceClassReconcile sample_env ''postgresql'' fresh_control = (Inr r1, w1) \<and>
    ServicePlanReconcile sample_env ''small'' w1 = (Inr r2, w2) \<and>
    map_of (co_plans w2) ''small'' = Some plan' \<and> spt_published (spl_status plan')"
proof -
  have c: "map_of (co_classes fresh_control) ''postgresql'' = Some fresh_class"
    "map_of (co_plans fresh_control) ''small'' = Some fresh_plan" "co_faults fresh_control = []"
    by (simp_all add: fresh_control_def empty_control_def)
  have e: "sct_conditions (sc_status fresh_class) = []" "spt_conditions (spl_status fresh_plan) = []"
    "lr_name (sps_serviceClassRef (spl_spec fresh_plan)) = ''postgresql''"
    by (simp_all add: fresh_class_def fresh_plan_def sampleClass_def samplePlan_def)
  show ?thesis
    using new_plan_published [OF sample_env_contracts(1,3) c(3,1) e(1) c(2) e(2,3)] fresh_ok by blast
qed

theorem project_usage_counts_witness:
  "\<exists>u. populateUsageSummary sampleProject
       (empty_control\<lparr>co_instances := [(''db'', (sampleInstance None)\<lparr>si_spec :=
          (si_spec (sampleInstance None))\<lparr>sis_projectRef := \<lparr>lr_name = ''shop''\<rparr>\<rparr>\<rparr>)]\<rparr>) =
     (Inr u, empty_control\<lparr>co_instances := [(''db'', (sampleInstance None)\<lparr>si_spec :=
          (si_spec (sampleInstance None))\<lparr>sis_projectRef := \<lparr>lr_name = ''shop''\<rparr>\<rparr>\<rparr>)]\<rparr>) \<and>
     us_serviceInstances u = 1 \<and> us_namespaces u \<le> us_serviceInstances u"
proof -
  define i where "i = (sampleInstance None)\<lparr>si_spec := (si_spec (sampleInstance None))\<lparr>sis_projectRef := \<lparr>lr_name = ''shop''\<rparr>\<rparr>\<rparr>"
  have "length (counted_instances sampleProject [i]) = 1"
    by (simp add: counted_instances_def i_def sampleInstance_def sampleProject_def)
  then show ?thesis
    using project_usage_counts [of "empty_control\<lparr>co_instances := [(''db'', i)]\<rparr>" sampleProject]
    unfolding i_def [symmetric] by (auto simp: empty_control_def)
qed

definition sample_claim :: namespace_claim where
  "sample_claim = \<lparr>nc_meta = sampleMeta ''db'',
     nc_spec = \<lparr>ncs_projectRef = \<lparr>lr_name = ''shop''\<rparr>, ncs_displayName = '''', ncs_quotas = [(''cpu'', ''2'')],
       ncs_labels = [], ncs_deletionPolicy = DeletionPolicyDelete\<rparr>,
     nc_status = \<lparr>nct_observedGeneration = 0, nct_phase = '''', nct_conditions = [],
       nct_placement = \<lparr>pl_clusterName = '''', pl_namespace = ''''\<rparr>,
       nct_artifact = \<lparr>as_revision = '''', as_path = '''', as_count = 0, as_artifacts = []\<rparr>,
       nct_sync = \<lparr>ds_phase = '''', ds_applicationName = '''', ds_message = ''''\<rparr>,
       nct_health = \<lparr>hs_summary = ''''\<rparr>\<rparr>\<rparr>"

text \<open>The database \<open>db\<close> of the project \<open>p\<close> becomes a namespace of the project \<open>shop\<close>.\<close>

theorem claims_take_over_instances_witness:
  "lr_name (sis_serviceClassRef (si_spec (sampleInstance None))) = ''postgres'' \<and>
   lr_name (sis_projectRef (si_spec (sampleInstance None))) = ''p'' \<and>
   (\<exists>i'. map_of (co_instances (snd (NamespaceClaimReconcile sample_env ''db''
        (empty_control\<lparr>co_projects := [(''shop'', sampleProject)], co_instances := [(''db'', sampleInstance None)],
           co_namespaceClaims := [(''db'', sample_claim)]\<rparr>)))) ''db'' = Some i' \<and>
      lr_name (sis_serviceClassRef (si_spec i')) = ''namespace'' \<and> sis_projectRef (si_spec i') = \<lparr>lr_name = ''shop''\<rparr>)"
proof -
  let ?w = "empty_control\<lparr>co_projects := [(''shop'', sampleProject)], co_instances := [(''db'', sampleInstance None)],
     co_namespaceClaims := [(''db'', sample_claim)]\<rparr>"
  have h: "co_faults ?w = []" "map_of (co_namespaceClaims ?w) ''db'' = Some sample_claim"
    "m_name (nc_meta sample_claim) = ''db''"
    "map_of (co_projects ?w) (lr_name (ncs_projectRef (nc_spec sample_claim))) = Some sampleProject"
    "map_of (co_instances ?w) ''db'' = Some (sampleInstance None)"
    by (simp_all add: empty_control_def sample_claim_def)
  have "ncs_projectRef (nc_spec sample_claim) = \<lparr>lr_name = ''shop''\<rparr>" by (simp add: sample_claim_def)
  then show ?thesis
    using claims_take_over_instances [OF h, of sample_env] by (auto simp: sampleInstance_def)
qed

end
