(* ===== verification/Runtime_World.thy ===== *)
theory Runtime_World
  imports Control_World
begin

text \<open>
  What the controllers of service instances and bindings work on beside the custom resources: the
  objects of the clusters that run the services, the delivery tree and the state of git. A cluster is
  reached through a client; the management cluster holds the custom resources as well. Every cluster
  carries the faults its next calls meet, as in \<open>Exec_World\<close>. An object is found by API version, kind,
  namespace and name. Objects of kinds without a Go type are unstructured: a tree of fields.
\<close>

section \<open>Objects\<close>

datatype uval =
    UNull
  | UBool bool
  | UInt int
  | UStr string
  | UArr "uval list"
  | UMap "(string \<times> uval) list"

text \<open>\<open>unstructured.NestedString\<close> and its siblings: the zero value where the field is missing or of another type.\<close>

fun nested :: "string list \<Rightarrow> uval \<Rightarrow> uval option" where
  "nested [] v = Some v"
| "nested (k # ks) (UMap fs) = (case map_of fs k of None \<Rightarrow> None | Some v \<Rightarrow> nested ks v)"
| "nested (k # ks) _ = None"

definition nestedString :: "string list \<Rightarrow> uval \<Rightarrow> string" where
  "nestedString ks v = (case nested ks v of Some (UStr s) \<Rightarrow> s | _ \<Rightarrow> '''')"

definition nestedInt64 :: "string list \<Rightarrow> uval \<Rightarrow> int" where
  "nestedInt64 ks v = (case nested ks v of Some (UInt n) \<Rightarrow> n | _ \<Rightarrow> 0)"

definition nestedSlice :: "string list \<Rightarrow> uval \<Rightarrow> uval list" where
  "nestedSlice ks v = (case nested ks v of Some (UArr xs) \<Rightarrow> xs | _ \<Rightarrow> [])"

text \<open>
  A \<open>StatefulSet\<close> as it is observed, and a \<open>Pod\<close>: its labels, and type and status of its conditions. Of
  deployments, daemon sets and jobs the replicas they should have and those they have.
\<close>

record workload =
  wl_specReplicas :: "int option"
  wl_replicas :: int
  wl_readyReplicas :: int
  wl_updatedReplicas :: int

record pod =
  pd_labels :: "(string, string) gomap"
  pd_conditions :: "(string \<times> string) list"

record job_status =
  jb_completions :: "int option"
  jb_succeeded :: int
  jb_conditions :: "(string \<times> string) list"

datatype kube_object =
    KNamespace
  | KSecret secret
  | KStatefulSet workload
  | KPod pod
  | KDeployment "int option" int
  | KDaemonSet int int
  | KJob job_status
  | KNode "(string, string) gomap"
  | KOther "(string, string) gomap" uval

type_synonym object_key = "string \<times> string \<times> string \<times> string"

abbreviation namespaceKey :: "string \<Rightarrow> object_key" where
  "namespaceKey n \<equiv> (''v1'', ''Namespace'', '''', n)"
abbreviation secretKey :: "string \<Rightarrow> string \<Rightarrow> object_key" where
  "secretKey ns n \<equiv> (''v1'', ''Secret'', ns, n)"
abbreviation crdKey :: "string \<Rightarrow> object_key" where
  "crdKey n \<equiv> (''apiextensions.k8s.io/v1'', ''CustomResourceDefinition'', '''', n)"

section \<open>Clusters\<close>

record kube =
  ku_objects :: "(object_key, kube_object) gomap"
  ku_faults :: "fault list"

datatype client = Management | Remote string

record 'g site =
  st_control :: control
  st_kube :: "client \<Rightarrow> kube"
  st_disk :: disk
  st_git :: 'g
  st_drawn :: nat

type_synonym ('g, 'a) step = "'g site \<Rightarrow> (go_error + 'a) \<times> 'g site"
type_synonym ('g, 'a) call = "'g site \<Rightarrow> (api_error + 'a) \<times> 'g site"

definition on_control :: "(control \<Rightarrow> 'r \<times> control) \<Rightarrow> 'g site \<Rightarrow> 'r \<times> 'g site" where
  "on_control f s = (case f (st_control s) of (r, w) \<Rightarrow> (r, s\<lparr>st_control := w\<rparr>))"

definition on_files :: "(disk \<Rightarrow> 'r \<times> disk) \<Rightarrow> 'g site \<Rightarrow> 'r \<times> 'g site" where
  "on_files f s = (case f (st_disk s) of (r, k) \<Rightarrow> (r, s\<lparr>st_disk := k\<rparr>))"

definition on_worktree :: "('g, 'a) publishing \<Rightarrow> ('g, 'a) step" where
  "on_worktree f s = (case f (st_disk s, st_git s) of (r, k, g) \<Rightarrow> (r, s\<lparr>st_disk := k, st_git := g\<rparr>))"

definition set_objects :: "client \<Rightarrow> (object_key, kube_object) gomap \<Rightarrow> 'g site \<Rightarrow> 'g site" where
  "set_objects c m s = s\<lparr>st_kube := (st_kube s)(c := (st_kube s c)\<lparr>ku_objects := m\<rparr>)\<rparr>"

definition find_object :: "client \<Rightarrow> object_key \<Rightarrow> 'g site \<Rightarrow> kube_object option" where
  "find_object c k s = map_of (ku_objects (st_kube s c)) k"

definition kube_fault :: "client \<Rightarrow> 'g site \<Rightarrow> fault \<times> 'g site" where
  "kube_fault c s =
     (case ku_faults (st_kube s c) of
        [] \<Rightarrow> (Works, s)
      | f # fs \<Rightarrow> (f, s\<lparr>st_kube := (st_kube s)(c := (st_kube s c)\<lparr>ku_faults := fs\<rparr>)\<rparr>))"

definition kube_read :: "client \<Rightarrow> ('g site \<Rightarrow> api_error + 'a) \<Rightarrow> ('g, 'a) call" where
  "kube_read c f s =
     (case kube_fault c s of
        (Refused e, s) \<Rightarrow> (Inl e, s) | (Lost e, s) \<Rightarrow> (Inl e, s) | (Works, s) \<Rightarrow> (f s, s))"

definition kube_write :: "client \<Rightarrow> ('g site \<Rightarrow> api_error option) \<Rightarrow> ('g site \<Rightarrow> 'g site) \<Rightarrow> ('g, unit) call" where
  "kube_write c refuses effect s =
     (case kube_fault c s of
        (Refused e, s) \<Rightarrow> (Inl e, s)
      | (Lost e, s) \<Rightarrow> (Inl e, if refuses s = None then effect s else s)
      | (Works, s) \<Rightarrow> (case refuses s of Some e \<Rightarrow> (Inl e, s) | None \<Rightarrow> (Inr (), effect s)))"

definition kube_get :: "client \<Rightarrow> object_key \<Rightarrow> ('g, kube_object) call" where
  "kube_get c k = kube_read c (\<lambda>s. case find_object c k s of None \<Rightarrow> Inl NotFound | Some x \<Rightarrow> Inr x)"

text \<open>\<open>List\<close> of one kind in a namespace, with a selector on the objects.\<close>

definition kube_list ::
  "client \<Rightarrow> string \<Rightarrow> string \<Rightarrow> string \<Rightarrow> (kube_object \<Rightarrow> bool) \<Rightarrow> ('g, (string \<times> kube_object) list) call" where
  "kube_list c apiVersion kind namespace selects =
     kube_read c (\<lambda>s. Inr (map (\<lambda>((_, _, _, n), x). (n, x))
       (filter (\<lambda>((a, k, ns, _), x). a = apiVersion \<and> k = kind \<and> ns = namespace \<and> selects x)
         (ku_objects (st_kube s c)))))"

definition kube_create :: "client \<Rightarrow> object_key \<Rightarrow> kube_object \<Rightarrow> ('g, unit) call" where
  "kube_create c k x =
     kube_write c (\<lambda>s. if find_object c k s = None then None else Some AlreadyExists)
       (\<lambda>s. set_objects c (AList.update k x (ku_objects (st_kube s c))) s)"

definition kube_update :: "client \<Rightarrow> object_key \<Rightarrow> kube_object \<Rightarrow> ('g, unit) call" where
  "kube_update c k x =
     kube_write c (\<lambda>s. if find_object c k s = None then Some NotFound else None)
       (\<lambda>s. set_objects c (AList.update k x (ku_objects (st_kube s c))) s)"

text \<open>
  A deletion takes effect at once: finalizers, graceful periods and the deletion of what a namespace holds are
  the cluster's, not the caller's, and not here.
\<close>

definition kube_delete :: "client \<Rightarrow> object_key \<Rightarrow> ('g, unit) call" where
  "kube_delete c k =
     kube_write c (\<lambda>s. if find_object c k s = None then Some NotFound else None)
       (\<lambda>s. set_objects c (AList.delete k (ku_objects (st_kube s c))) s)"

text \<open>\<open>Get\<close> into a typed object: what is stored under a key of that kind decodes into it.\<close>

definition get_secret_at :: "client \<Rightarrow> string \<Rightarrow> string \<Rightarrow> ('g, secret) call" where
  "get_secret_at c namespace name s =
     (case kube_get c (secretKey namespace name) s of
        (Inr (KSecret x), s) \<Rightarrow> (Inr x, s)
      | (Inr _, s) \<Rightarrow> (Inl (OtherError ''decode''), s)
      | (Inl e, s) \<Rightarrow> (Inl e, s))"

text \<open>Errors of calls whose object may be missing, or of any call.\<close>

definition if_found :: "(api_error + 'a) \<times> 's \<Rightarrow> ('a \<Rightarrow> 's \<Rightarrow> (go_error + 'b) \<times> 's) \<Rightarrow> ('s \<Rightarrow> (go_error + 'b) \<times> 's) \<Rightarrow>
    (go_error + 'b) \<times> 's" where
  "if_found r found missing =
     (case r of
        (Inr x, s) \<Rightarrow> found x s
      | (Inl e, s) \<Rightarrow> if e = NotFound then missing s else (Inl (ApiError e), s))"

text \<open>\<open>apierrors.IsNotFound\<close> looks behind wrapped errors.\<close>

fun is_not_found :: "go_error \<Rightarrow> bool" where
  "is_not_found (ApiError e) \<longleftrightarrow> e = NotFound"
| "is_not_found (Wrapf _ e) \<longleftrightarrow> is_not_found e"
| "is_not_found _ \<longleftrightarrow> False"

section \<open>What the calls do\<close>

lemma find_set_objects [simp]:
  "find_object c k (set_objects c' m s) = (if c = c' then map_of m k else find_object c k s)"
  by (simp add: find_object_def set_objects_def)

lemma set_objects_sel [simp]:
  "st_control (set_objects c m s) = st_control s" "st_disk (set_objects c m s) = st_disk s"
  "st_git (set_objects c m s) = st_git s" "st_drawn (set_objects c m s) = st_drawn s"
  "ku_faults (st_kube (set_objects c m s) c') = ku_faults (st_kube s c')"
  by (simp_all add: set_objects_def)

text \<open>Two sites that differ in nothing but the faults to come.\<close>

definition same_objects :: "'g site \<Rightarrow> 'g site \<Rightarrow> bool" where
  "same_objects s s' \<longleftrightarrow> (\<forall>c. ku_objects (st_kube s' c) = ku_objects (st_kube s c)) \<and>
     st_control s' = st_control s \<and> st_disk s' = st_disk s \<and> st_git s' = st_git s \<and> st_drawn s' = st_drawn s"

lemma same_objects_refl [simp]: "same_objects s s"
  by (simp add: same_objects_def)

lemma same_objects_trans: "same_objects s t \<Longrightarrow> same_objects t u \<Longrightarrow> same_objects s u"
  by (simp add: same_objects_def)

lemma same_objects_find: "same_objects s s' \<Longrightarrow> find_object c k s' = find_object c k s"
  by (simp add: same_objects_def find_object_def)

lemma kube_fault_same: "kube_fault c s = (f, s') \<Longrightarrow> same_objects s s'"
  by (auto simp: kube_fault_def same_objects_def split: list.splits)

lemma kube_fault_none [simp]: "ku_faults (st_kube s c) = [] \<Longrightarrow> kube_fault c s = (Works, s)"
  by (simp add: kube_fault_def)

lemma kube_read_same: "kube_read c f s = (r, s') \<Longrightarrow> same_objects s s'"
  using kube_fault_same [of c s] unfolding kube_read_def
  by (cases "kube_fault c s"; cases "fst (kube_fault c s)") auto

lemma kube_get_same: "kube_get c k s = (r, s') \<Longrightarrow> same_objects s s'"
  unfolding kube_get_def by (rule kube_read_same)

lemma kube_read_Inr: "kube_read c f s = (Inr x, s') \<Longrightarrow> f s' = Inr x"
  unfolding kube_read_def by (cases "kube_fault c s"; cases "fst (kube_fault c s)") auto

lemma kube_get_Inr:
  assumes "kube_get c k s = (Inr x, s')"
  shows "find_object c k s = Some x"
  using kube_read_Inr [OF assms [unfolded kube_get_def]] same_objects_find [OF kube_get_same [OF assms]]
  by (simp split: option.splits)

lemma kube_get_none:
  assumes "ku_faults (st_kube s c) = []"
  shows "kube_get c k s = (case find_object c k s of None \<Rightarrow> Inl NotFound | Some x \<Rightarrow> Inr x, s)"
  using assms by (simp add: kube_get_def kube_read_def)

lemma get_secret_at_cases:
  assumes "get_secret_at c ns n s = (r, s')"
  shows "same_objects s s' \<and> (\<forall>x. r = Inr x \<longrightarrow> find_object c (secretKey ns n) s = Some (KSecret x))"
proof -
  obtain g s1 where g: "kube_get c (secretKey ns n) s = (g, s1)" by (cases "kube_get c (secretKey ns n) s")
  show ?thesis
  proof (cases g)
    case (Inr x)
    then show ?thesis using assms g kube_get_same [OF g] kube_get_Inr [of c "secretKey ns n" s x s1]
      by (cases x) (auto simp: get_secret_at_def)
  qed (use assms g kube_get_same [OF g] in \<open>auto simp: get_secret_at_def\<close>)
qed

lemmas get_secret_at_same = conjunct1 [OF get_secret_at_cases]

lemma get_secret_at_Inr:
  "get_secret_at c ns n s = (Inr x, s') \<Longrightarrow> find_object c (secretKey ns n) s = Some (KSecret x)"
  using get_secret_at_cases by blast

text \<open>A write changes at most the object it is about; if it succeeds it has.\<close>

lemma kube_write_cases:
  assumes "kube_write c refuses effect s = (r, s')"
  obtains s1 where "same_objects s s1" "s' = s1" "r \<noteq> Inr ()"
  | s1 where "same_objects s s1" "refuses s1 = None" "s' = effect s1"
proof -
  obtain f s1 where f: "kube_fault c s = (f, s1)" by (cases "kube_fault c s")
  note same = kube_fault_same [OF f]
  show thesis
  proof (cases "refuses s1 = None \<and> s' = effect s1")
    case True
    then show ?thesis using that(2) same by blast
  next
    case False
    then have "s' = s1 \<and> r \<noteq> Inr ()"
      using assms f unfolding kube_write_def by (cases f; cases "refuses s1") auto
    then show ?thesis using that(1) same by blast
  qed
qed

end
