(* ===== verification/Database_Names.thy ===== *)
theory Database_Names
  imports Go_Strings
begin

text \<open>
  The names of databases, \<open>internal/adapters/database_naming.go\<close>. A rune is its bytes in UTF-8. The tables of
  Unicode beyond ASCII are the parameter \<open>unicode\<close>: lower case, letters and digits; white space is listed
  in \<open>Go_Strings\<close>. \<open>database_name_valid\<close>: whatever is asked for, the name is one a database accepts.
\<close>

section \<open>Runes\<close>

text \<open>
  The number of bytes of the rune at the front of a string, as \<open>utf8.DecodeRune\<close> finds it: \<open>0\<close> where the
  bytes are no rune.
\<close>

definition cont :: "char \<Rightarrow> bool" where
  "cont c \<longleftrightarrow> 128 \<le> (of_char c :: nat) \<and> (of_char c :: nat) < 192"

definition rune_length :: "string \<Rightarrow> nat" where
  "rune_length s =
     (case s of
        [] \<Rightarrow> 0
      | a # r \<Rightarrow>
          (let n = (of_char a :: nat);
               second = (\<lambda>lo hi. (case r of b # _ \<Rightarrow> lo \<le> (of_char b :: nat) \<and> (of_char b :: nat) \<le> hi | [] \<Rightarrow> False));
               conts = (\<lambda>k. k \<le> length r \<and> list_all cont (take k r)) in
           if n < 128 then 1
           else if n < 194 then 0
           else if n < 224 then (if conts 1 then 2 else 0)
           else if n < 240 then
             (if conts 2 \<and> (n = 224 \<longrightarrow> second 160 191) \<and> (n = 237 \<longrightarrow> second 128 159) then 3 else 0)
           else if n < 245 then
             (if conts 3 \<and> (n = 240 \<longrightarrow> second 144 191) \<and> (n = 244 \<longrightarrow> second 128 143) then 4 else 0)
           else 0))"

lemma rune_length_le: "rune_length s \<le> length s"
  by (auto simp: rune_length_def Let_def split: list.splits)

lemma rune_length_le4: "rune_length s \<le> 4"
  by (auto simp: rune_length_def Let_def split: list.splits)

text \<open>A range over a string: a byte that starts no rune counts as the rune \<open>U+FFFD\<close>.\<close>

definition rune_error :: string where
  "rune_error = [CHR 0xEF, CHR 0xBF, CHR 0xBD]"

function runes :: "string \<Rightarrow> string list" where
  "runes [] = []"
| "runes (a # r) =
     (let n = rune_length (a # r) in
      if n = 0 then rune_error # runes r else take n (a # r) # runes (drop n (a # r)))"
  by pat_completeness auto
termination
  by (relation "measure length") auto

text \<open>The indices a range over a string yields.\<close>

function rune_starts :: "nat \<Rightarrow> string \<Rightarrow> nat list" where
  "rune_starts i [] = []"
| "rune_starts i (a # r) =
     (let n = max 1 (rune_length (a # r)) in i # rune_starts (i + n) (drop n (a # r)))"
  by pat_completeness auto
termination
  by (relation "measure (\<lambda>(i, s). length s)") auto

record unicode =
  un_lower :: "string \<Rightarrow> string"
  un_letter :: "string \<Rightarrow> bool"
  un_digit :: "string \<Rightarrow> bool"

definition ascii_letter :: "char \<Rightarrow> bool" where
  "ascii_letter c \<longleftrightarrow> (let n = (of_char c :: nat) in 65 \<le> n \<and> n \<le> 90 \<or> 97 \<le> n \<and> n \<le> 122)"

definition ascii_digit :: "char \<Rightarrow> bool" where
  "ascii_digit c \<longleftrightarrow> (let n = (of_char c :: nat) in 48 \<le> n \<and> n \<le> 57)"

definition is_ascii :: "string \<Rightarrow> bool" where
  "is_ascii r \<longleftrightarrow> length r = 1 \<and> (of_char (hd r) :: nat) < 128"

definition lower_rune :: "unicode \<Rightarrow> string \<Rightarrow> string" where
  "lower_rune un r = (if is_ascii r then map ascii_lower r else un_lower un r)"

definition letter_or_digit :: "unicode \<Rightarrow> string \<Rightarrow> bool" where
  "letter_or_digit un r =
     (if is_ascii r then ascii_letter (hd r) \<or> ascii_digit (hd r) else un_letter un r \<or> un_digit un r)"

definition is_space :: "string \<Rightarrow> bool" where
  "is_space r \<longleftrightarrow> r \<in> set space_runes"

section \<open>Names\<close>

abbreviation maxDatabaseNameLength :: nat where "maxDatabaseNameLength \<equiv> 63"

text \<open>The loop over the runes: what has been built, and whether it ends with an underscore of its own.\<close>

fun database_name_from :: "unicode \<Rightarrow> string \<Rightarrow> bool \<Rightarrow> string list \<Rightarrow> string" where
  "database_name_from un b lastUnderscore [] = b"
| "database_name_from un b lastUnderscore (r # rs) =
     (if letter_or_digit un r then database_name_from un (b @ r) False rs
      else if r = ''-'' \<or> r = ''_'' \<or> is_space r then
        (if b \<noteq> [] \<and> \<not> lastUnderscore then database_name_from un (b @ ''_'') True rs
         else database_name_from un b lastUnderscore rs)
      else database_name_from un b lastUnderscore rs)"

definition truncateDatabaseName :: "string \<Rightarrow> string" where
  "truncateDatabaseName name =
     (let starts = takeWhile (\<lambda>start. start \<le> maxDatabaseNameLength) (rune_starts 0 name);
          cut = (if starts = [] then 0 else last starts) in
      trimRightSet ''_'' (take cut name))"

definition ResolveDatabaseName :: "unicode \<Rightarrow> string \<Rightarrow> string \<Rightarrow> string" where
  "ResolveDatabaseName un instanceName requested =
     (let base = (if trimSpace requested = '''' then instanceName else trimSpace requested);
          name = trimSet ''_'' (database_name_from un '''' False (map (lower_rune un) (runes base)));
          name = (if name = '''' then ''db'' else name);
          name = (if ascii_digit (hd name) then ''db_'' @ name else name);
          name = (if length name > maxDatabaseNameLength then truncateDatabaseName name else name) in
      if name = '''' then ''db'' else name)"

section \<open>What a name is\<close>

lemma trimRightSet_iff: "trimRightSet cs s = [] \<longleftrightarrow> set s \<subseteq> set cs"
  by (auto simp: trimRightSet_def dropWhile_eq_Nil_conv)

lemma rune_starts_sorted: "k \<in> set (rune_starts i s) \<Longrightarrow> i \<le> k"
  by (induction i s rule: rune_starts.induct) (fastforce simp: Let_def)+

text \<open>The cut keeps a first byte: the second rune starts within the bound.\<close>

lemma truncate_cut:
  assumes "length name > maxDatabaseNameLength"
  defines "starts \<equiv> takeWhile (\<lambda>start. start \<le> maxDatabaseNameLength) (rune_starts 0 name)"
  shows "starts \<noteq> []" "0 < last starts" "last starts \<le> maxDatabaseNameLength"
proof -
  obtain a r where n: "name = a # r" using assms(1) by (cases name) auto
  define m where "m = max 1 (rune_length name)"
  have m: "0 < m" "m \<le> 4" using rune_length_le4 [of name] by (auto simp: m_def)
  obtain b q where d: "drop m name = b # q" using assms(1) m by (cases "drop m name") auto
  have "rune_starts 0 name = 0 # rune_starts m (b # q)"
    using d by (simp add: n Let_def m_def)
  then obtain rest where st: "starts = 0 # m # rest"
    using m unfolding starts_def by (simp add: Let_def)
  have "\<forall>k \<in> set starts. k \<le> maxDatabaseNameLength"
    unfolding starts_def by (meson set_takeWhileD)
  then show "starts \<noteq> []" "last starts \<le> maxDatabaseNameLength" using st by auto
  have "last starts \<in> set (m # rest)" using st by simp
  moreover have "set (m # rest) \<subseteq> set (rune_starts m (b # q))"
  proof -
    have "rune_starts 0 name = 0 # rune_starts m (b # q)" using d by (simp add: n Let_def m_def)
    then have "m # rest = takeWhile (\<lambda>start. start \<le> maxDatabaseNameLength) (rune_starts m (b # q))"
      using st unfolding starts_def by simp
    then show ?thesis by (metis set_takeWhileD subsetI)
  qed
  ultimately show "0 < last starts" using rune_starts_sorted [of "last starts" m "b # q"] m by auto
qed

lemma trimRightSet_shape:
  assumes "trimRightSet cs s \<noteq> []"
  shows "last (trimRightSet cs s) \<notin> set cs" "\<exists>t. s = trimRightSet cs s @ t"
proof -
  let ?d = "dropWhile (\<lambda>c. c \<in> set cs) (rev s)"
  have "?d \<noteq> []" using assms by (simp add: trimRightSet_def)
  then show "last (trimRightSet cs s) \<notin> set cs"
    using hd_dropWhile [of "\<lambda>c. c \<in> set cs" "rev s"] by (simp add: trimRightSet_def last_rev)
  have "rev s = takeWhile (\<lambda>c. c \<in> set cs) (rev s) @ ?d" by simp
  then have "s = rev ?d @ rev (takeWhile (\<lambda>c. c \<in> set cs) (rev s))" by (metis rev_append rev_rev_ident)
  then show "\<exists>t. s = trimRightSet cs s @ t" by (auto simp: trimRightSet_def)
qed

lemma trimSet_border:
  assumes "trimSet cs s \<noteq> []"
  shows "hd (trimSet cs s) \<notin> set cs" "last (trimSet cs s) \<notin> set cs"
proof -
  define d where "d = dropWhile (\<lambda>c. c \<in> set cs) s"
  have t: "trimRightSet cs d \<noteq> []" using assms by (simp add: trimSet_def d_def)
  from trimRightSet_shape(2) [OF t] obtain r where r: "d = trimRightSet cs d @ r" by blast
  then have "d \<noteq> []" using t by auto
  then have "hd d \<notin> set cs" unfolding d_def by (rule hd_dropWhile)
  moreover have "hd d = hd (trimRightSet cs d)" using r t by (metis hd_append2)
  ultimately show "hd (trimSet cs s) \<notin> set cs" by (simp add: trimSet_def d_def)
  show "last (trimSet cs s) \<notin> set cs"
    using trimRightSet_shape(1) [OF t] by (simp add: trimSet_def d_def)
qed

lemma truncateDatabaseName_shape:
  assumes "length name > maxDatabaseNameLength" "hd name \<noteq> CHR ''_''"
  shows "truncateDatabaseName name \<noteq> []" "hd (truncateDatabaseName name) = hd name"
    "last (truncateDatabaseName name) \<noteq> CHR ''_''" "length (truncateDatabaseName name) \<le> maxDatabaseNameLength"
proof -
  define starts where "starts = takeWhile (\<lambda>start. start \<le> maxDatabaseNameLength) (rune_starts 0 name)"
  note c = truncate_cut [OF assms(1), folded starts_def]
  define p where "p = take (last starts) name"
  have t: "truncateDatabaseName name = trimRightSet ''_'' p"
    using c(1) by (simp add: truncateDatabaseName_def starts_def p_def Let_def)
  have p: "p \<noteq> []" "hd p = hd name" "length p \<le> maxDatabaseNameLength"
    using c assms(1) by (auto simp: p_def hd_take)
  then have "hd p \<in> set p" "hd p \<noteq> CHR ''_''" using assms(2) list.set_sel(1) [OF p(1)] by simp_all
  then have ne: "trimRightSet ''_'' p \<noteq> []" unfolding trimRightSet_iff by auto
  from trimRightSet_shape(2) [OF ne] obtain r where r: "p = trimRightSet ''_'' p @ r" by blast
  show "truncateDatabaseName name \<noteq> []" using ne t by simp
  show "hd (truncateDatabaseName name) = hd name" using r ne p(2) t by (metis hd_append2)
  show "last (truncateDatabaseName name) \<noteq> CHR ''_''" using trimRightSet_shape(1) [OF ne] t by simp
  show "length (truncateDatabaseName name) \<le> maxDatabaseNameLength"
    using arg_cong [OF r, of length] p(3) t by simp
qed

text \<open>On ASCII a rune is a byte, and what is kept are lower case letters, digits and single underscores.\<close>

definition ascii_text :: "string \<Rightarrow> bool" where
  "ascii_text s \<longleftrightarrow> list_all (\<lambda>c. (of_char c :: nat) < 128) s"

definition name_byte :: "char \<Rightarrow> bool" where
  "name_byte c \<longleftrightarrow> (let n = (of_char c :: nat) in 97 \<le> n \<and> n \<le> 122 \<or> 48 \<le> n \<and> n \<le> 57 \<or> c = CHR ''_'')"

lemma runes_ascii: "ascii_text s \<Longrightarrow> runes s = map (\<lambda>c. [c]) s"
  by (induction s) (auto simp: ascii_text_def rune_length_def Let_def)

lemma database_name_from_bytes:
  "list_all name_byte b \<Longrightarrow> \<forall>r \<in> set rs. is_ascii r \<and> list_all (\<lambda>c. \<not> (65 \<le> (of_char c :: nat) \<and> (of_char c :: nat) \<le> 90)) r \<Longrightarrow>
     list_all name_byte (database_name_from un b l rs)"
proof (induction un b l rs rule: database_name_from.induct)
  case (2 un b l r rs)
  then obtain c where "r = [c]" by (auto simp: is_ascii_def length_Suc_conv)
  then show ?case using 2
    by (auto simp: letter_or_digit_def ascii_letter_def ascii_digit_def name_byte_def Let_def)
qed simp

lemma lower_not_upper: "(of_char c :: nat) < 128 \<Longrightarrow>
    (of_char (ascii_lower c) :: nat) < 128 \<and> \<not> (65 \<le> (of_char (ascii_lower c) :: nat) \<and> (of_char (ascii_lower c) :: nat) \<le> 90)"
  by (auto simp: ascii_lower_def Let_def)

lemma trimRightSet_bytes: "list_all P s \<Longrightarrow> list_all P (trimRightSet cs s)"
  by (auto simp: trimRightSet_def list_all_iff dest: set_dropWhileD)

lemma trimSet_bytes: "list_all P s \<Longrightarrow> list_all P (trimSet cs s)"
  unfolding trimSet_def by (rule trimRightSet_bytes) (auto simp: list_all_iff dest: set_dropWhileD)

lemma truncateDatabaseName_bytes: "list_all P s \<Longrightarrow> list_all P (truncateDatabaseName s)"
  unfolding truncateDatabaseName_def Let_def
  by (rule trimRightSet_bytes) (auto simp: list_all_iff dest: in_set_takeD)

lemma trimSpace_ascii: "ascii_text s \<Longrightarrow> ascii_text (trimSpace s)"
  using trimRight_prefix [of "trimLeft s"] strip_suffix [of s space_runes]
  unfolding trimSpace_def ascii_text_def trimLeft_def by (metis list_all_append)

text \<open>
  Whatever an instance is called and whatever database name it asks for, the database gets a name of 1 to
  63 bytes that starts with neither a digit nor an underscore and does not end with one; from ASCII texts it
  is made of lower case letters, digits and underscores.
\<close>

theorem database_name_valid:
  "ResolveDatabaseName un inst requested \<noteq> [] \<and> length (ResolveDatabaseName un inst requested) \<le> 63 \<and>
   hd (ResolveDatabaseName un inst requested) \<noteq> CHR ''_'' \<and>
   last (ResolveDatabaseName un inst requested) \<noteq> CHR ''_'' \<and>
   \<not> ascii_digit (hd (ResolveDatabaseName un inst requested)) \<and>
   (ascii_text inst \<longrightarrow> ascii_text requested \<longrightarrow> list_all name_byte (ResolveDatabaseName un inst requested))"
proof -
  define base where "base = (if trimSpace requested = '''' then inst else trimSpace requested)"
  define n0 where "n0 = trimSet ''_'' (database_name_from un '''' False (map (lower_rune un) (runes base)))"
  define n1 where "n1 = (if n0 = '''' then ''db'' else n0)"
  define n2 where "n2 = (if ascii_digit (hd n1) then ''db_'' @ n1 else n1)"
  define n3 where "n3 = (if length n2 > maxDatabaseNameLength then truncateDatabaseName n2 else n2)"
  have d: "\<not> ascii_digit CHR ''d''" by code_simp
  have 1: "n1 \<noteq> []" "hd n1 \<noteq> CHR ''_''" "last n1 \<noteq> CHR ''_''"
    using trimSet_border [of "''_''" "database_name_from un '''' False (map (lower_rune un) (runes base))"]
    by (auto simp: n1_def n0_def)
  then have 2: "n2 \<noteq> []" "hd n2 \<noteq> CHR ''_''" "last n2 \<noteq> CHR ''_''" "\<not> ascii_digit (hd n2)"
    using d by (auto simp: n2_def)
  then have 3: "n3 \<noteq> []" "hd n3 \<noteq> CHR ''_''" "last n3 \<noteq> CHR ''_''" "\<not> ascii_digit (hd n3)"
      "length n3 \<le> maxDatabaseNameLength"
    using truncateDatabaseName_shape [of n2] by (auto simp: n3_def)
  have "ResolveDatabaseName un inst requested = (if n3 = '''' then ''db'' else n3)"
    unfolding ResolveDatabaseName_def n3_def n2_def n1_def n0_def base_def Let_def by (rule refl)
  then have res: "ResolveDatabaseName un inst requested = n3" using 3(1) by simp
  have "list_all name_byte n3" if "ascii_text inst" "ascii_text requested"
  proof -
    have b: "ascii_text base" using that trimSpace_ascii by (simp add: base_def)
    have "\<forall>r \<in> set (map (lower_rune un) (runes base)). is_ascii r \<and>
        list_all (\<lambda>c. \<not> (65 \<le> (of_char c :: nat) \<and> (of_char c :: nat) \<le> 90)) r"
      using b lower_not_upper by (auto simp: runes_ascii ascii_text_def list_all_iff lower_rune_def is_ascii_def)
    then have "list_all name_byte n0" unfolding n0_def
      by (intro trimSet_bytes database_name_from_bytes) simp_all
    then have "list_all name_byte n1" by (simp add: n1_def name_byte_def)
    then have "list_all name_byte n2" by (simp add: n2_def name_byte_def)
    then show ?thesis by (simp add: n3_def truncateDatabaseName_bytes)
  qed
  then show ?thesis using 3 unfolding res by blast
qed

definition ascii_tables :: unicode where
  "ascii_tables = \<lparr>un_lower = id, un_letter = (\<lambda>_. False), un_digit = (\<lambda>_. False)\<rparr>"

theorem database_name_valid_witness:
  "list_all name_byte (ResolveDatabaseName ascii_tables ''9 Orders--DB'' '''') \<and>
   ResolveDatabaseName ascii_tables ''9 Orders--DB'' '''' = ''db_9_orders_db''"
proof -
  have "ascii_text ''9 Orders--DB''" "ascii_text ''''" by code_simp+
  moreover have "ResolveDatabaseName ascii_tables ''9 Orders--DB'' '''' = ''db_9_orders_db''" by code_simp
  ultimately show ?thesis using database_name_valid [of ascii_tables "''9 Orders--DB''" "''''"] by blast
qed

end
