(* ===== verification/Instance_Status.thy ===== *)
theory Instance_Status
  imports Runtime_World Catalog_Controllers Database_Names
begin

text \<open>
  What the reconciler of service instances holds while it runs, and how it writes it:
  \<open>persistStatusIfChanged\<close>, the ends of a run that stops early (\<open>handleDependencyError\<close>,
  \<open>handleDependencyPending\<close>, \<open>handleValidationFailure\<close>) and the changes it makes to a status, all in
  \<open>internal/controllers/serviceinstance_controller.go\<close>.
\<close>

section \<open>The reconciler and its surroundings\<close>

text \<open>
  The fields of \<open>ServiceInstanceReconciler\<close> and what it uses of the world: the parts the other controllers
  use too, the text of aggregated field errors, the policies whose reads fail, SHA-256, git, the working
  directory, clusters by kubeconfig (\<open>clientcmd\<close> and \<open>client.New\<close>), random texts, YAML and Unicode.
\<close>

record 'g instance_env =
  ie_Controllers :: controller_env
  ie_errorsText :: "error_list \<Rightarrow> string"
  ie_policyFault :: "string \<Rightarrow> api_error option"
  ie_sha :: "string \<Rightarrow> string"
  ie_git :: "'g git"
  ie_cwd :: string
  ie_restConfig :: "string \<Rightarrow> go_error + string"
  ie_newClient :: "string \<Rightarrow> go_error + string"
  ie_random :: "nat \<Rightarrow> go_error + string"
  ie_yaml :: "uval \<Rightarrow> go_error + string"
  ie_unicode :: unicode
  ie_Materializer :: "string option"
  ie_Publisher :: "publisher option"
  ie_ArgoCDNamespace :: string
  ie_ArgoCDProject :: string
  ie_DeliveryRepoURL :: string
  ie_DeliveryRepoRef :: string
  ie_DeliveryRepoPath :: string
  ie_ProductionMode :: bool

abbreviation error_text :: "'g instance_env \<Rightarrow> go_error \<Rightarrow> string" where
  "error_text env \<equiv> ce_errText (ie_Controllers env)"

text \<open>
  The instance in memory with the status it had when it was read. The conditions are kept as two views of
  one array (\<open>Control_World\<close>); the other fields of the two statuses share nothing that is changed in place.
\<close>

record draft =
  df_instance :: service_instance
  df_original :: service_instance_status
  df_conditions :: slices

definition draft_of :: "'g instance_env \<Rightarrow> service_instance \<Rightarrow> draft" where
  "draft_of env inst =
     \<lparr>df_instance = inst\<lparr>si_status := (si_status inst)\<lparr>sit_observedGeneration := m_generation (si_meta inst)\<rparr>\<rparr>,
      df_original = si_status inst,
      df_conditions = copied (ce_room (ie_Controllers env)) (sit_conditions (si_status inst))\<rparr>"

definition drafted :: "draft \<Rightarrow> service_instance" where
  "drafted d = (df_instance d)\<lparr>si_status := (si_status (df_instance d))\<lparr>sit_conditions := sl_now (df_conditions d)\<rparr>\<rparr>"

definition in_status :: "(service_instance_status \<Rightarrow> service_instance_status) \<Rightarrow> draft \<Rightarrow> draft" where
  "in_status f d = d\<lparr>df_instance := (df_instance d)\<lparr>si_status := f (si_status (df_instance d))\<rparr>\<rparr>"

definition in_phase :: "string \<Rightarrow> draft \<Rightarrow> draft" where
  "in_phase phase = in_status (sit_phase_update (\<lambda>_. phase))"

text \<open>Calls of \<open>setStatusCondition\<close> on the conditions of the instance.\<close>

definition mark :: "'g instance_env \<Rightarrow> (string \<times> string \<times> string \<times> string) list \<Rightarrow> draft \<Rightarrow> draft" where
  "mark env cs d =
     d\<lparr>df_conditions := conds (ie_Controllers env) (m_generation (si_meta (df_instance d))) cs (df_conditions d)\<rparr>"

section \<open>Writing it\<close>

text \<open>\<open>retry.RetryOnConflict\<close> with \<open>retry.DefaultBackoff\<close>: four attempts, again after a conflict.\<close>

fun persist_turns :: "nat \<Rightarrow> string \<Rightarrow> service_instance_status \<Rightarrow> control \<Rightarrow> (api_error + unit) \<times> control" where
  "persist_turns 0 name desired w = (Inl Conflict, w)"
| "persist_turns (Suc turns) name desired w =
     (case (case get_obj serviceInstances name w of
              (Inl e, w) \<Rightarrow> (Inl e, w)
            | (Inr _, w) \<Rightarrow> change_obj serviceInstances name (si_status_update (\<lambda>_. desired)) w) of
        (r, w) \<Rightarrow> if r = Inl Conflict then persist_turns turns name desired w else (r, w))"

abbreviation defaultBackoff :: nat where "defaultBackoff \<equiv> 4"

definition persistStatusIfChanged :: "draft \<Rightarrow> ('g, unit) step" where
  "persistStatusIfChanged d s =
     (let desired = si_status (drafted d);
          original = (df_original d)\<lparr>sit_conditions := sl_then (df_conditions d)\<rparr> in
      if original = desired then (Inr (), s)
      else pass (on_control (persist_turns defaultBackoff (m_name (si_meta (df_instance d))) desired) s))"

definition persisted :: "reconcile_result \<Rightarrow> draft \<Rightarrow> ('g, reconcile_result) step" where
  "persisted result d s = and_then (persistStatusIfChanged d s) (\<lambda>_ s. (Inr result, s))"

section \<open>Runs that stop early\<close>

definition handleDependencyError ::
  "'g instance_env \<Rightarrow> draft \<Rightarrow> string \<Rightarrow> string \<Rightarrow> api_error \<Rightarrow> ('g, reconcile_result) step" where
  "handleDependencyError env d reason message err s =
     (if err \<noteq> NotFound then (Inl (ApiError err), s)
      else persisted requeue_30
        (mark env [(''Accepted'', ConditionFalse, reason, message), (''Failed'', ConditionTrue, reason, message)]
          (in_phase ''Failed'' d)) s)"

definition handleDependencyPending ::
  "'g instance_env \<Rightarrow> draft \<Rightarrow> string \<Rightarrow> string \<Rightarrow> ('g, reconcile_result) step" where
  "handleDependencyPending env d reason message =
     persisted requeue_30
       (mark env [(''Accepted'', ConditionFalse, reason, message), (''Ready'', ConditionFalse, reason, message),
          (''Failed'', ConditionFalse, reason, message)]
         (in_phase ''PendingDependencies'' d))"

definition handleValidationFailure ::
  "'g instance_env \<Rightarrow> draft \<Rightarrow> string \<Rightarrow> string \<Rightarrow> ('g, reconcile_result) step" where
  "handleValidationFailure env d reason message =
     persisted requeue_30
       (mark env [(''Accepted'', ConditionFalse, reason, message), (''Ready'', ConditionFalse, reason, message),
          (''Materialized'', ConditionFalse, reason, ''Service instance validation failed before materialization.''),
          (''Synced'', ConditionFalse, reason, ''Service instance validation failed before sync readiness.''),
          (''Failed'', ConditionTrue, reason, message)]
         (in_phase ''Failed'' d))"

definition summarizeValidationIssues :: "validation_issue list \<Rightarrow> string" where
  "summarizeValidationIssues issues =
     join ''; '' (map (\<lambda>i. if vi_Path i = '''' then vi_Message i else vi_Path i @ '': '' @ vi_Message i) issues)"

definition markCredentialProjectionPending :: "'g instance_env \<Rightarrow> draft \<Rightarrow> draft" where
  "markCredentialProjectionPending env d =
     mark env [(''Ready'', ConditionFalse, ''CredentialProjectionPending'',
         ''Credential projection is waiting for the delivered runtime namespace.'')]
       (in_phase ''Provisioning'' d)"

definition markDeliveryRepoRequired :: "'g instance_env \<Rightarrow> string \<Rightarrow> string \<Rightarrow> draft \<Rightarrow> draft" where
  "markDeliveryRepoRequired env reason message d =
     mark env
       [(''Materialized'', ConditionFalse, reason, ''Delivery artifacts were not materialized because production GitOps publishing is not ready.''),
        (''Synced'', ConditionFalse, reason, message), (''Ready'', ConditionFalse, reason, message),
        (''Degraded'', ConditionTrue, reason, message),
        (''Failed'', ConditionFalse, reason, ''Service instance is blocked by delivery configuration, not failed.'')]
       (in_status (\<lambda>st. st\<lparr>sit_phase := ''Degraded'',
           sit_sync := (sit_sync st)\<lparr>ds_phase := ''Pending'', ds_message := message\<rparr>,
           sit_health := \<lparr>hs_summary = message\<rparr>\<rparr>) d)"

section \<open>The status of a delivered instance\<close>

definition safeInt32FromInt64 :: "int \<Rightarrow> int" where
  "safeInt32FromInt64 value =
     (if value > MaxInt32 then MaxInt32 else if value < MinInt32 then MinInt32 else value)"

definition safeInt32FromLen :: "nat \<Rightarrow> int" where
  "safeInt32FromLen len = (if int len > MaxInt32 then MaxInt32 else int len)"

definition materializedArtifactStatus :: "materialize_result \<Rightarrow> artifact_status" where
  "materializedArtifactStatus result =
     \<lparr>as_revision = mr_Revision result, as_path = mr_Path result,
      as_count = safeInt32FromLen (length (mr_Artifacts result)),
      as_artifacts = map (\<lambda>a. \<lparr>ma_path = mx_Path a, ma_digest = mx_Digest a\<rparr>) (mr_Artifacts result)\<rparr>"

definition endpointStatus :: "endpoint list \<Rightarrow> (string, string) gomap" where
  "endpointStatus endpoints = fold (\<lambda>e. map_set (en_Name e) (en_Address e)) endpoints []"

definition applyObservedStatus :: "'g instance_env \<Rightarrow> normalized_status \<Rightarrow> draft \<Rightarrow> draft" where
  "applyObservedStatus env status d =
     (let phase = nst_Phase status; summary = nst_Summary status;
          observed = ''Runtime resources have been observed after materialization.'';
          d = in_status (\<lambda>st. st\<lparr>
              sit_phase := (if phase \<noteq> '''' then phase else sit_phase st),
              sit_health := (if summary \<noteq> '''' then \<lparr>hs_summary = summary\<rparr> else sit_health st),
              sit_endpoints := endpointStatus (nst_Endpoints status),
              sit_credentialRefs := (if nst_CredentialRefs status \<noteq> [] then nst_CredentialRefs status else sit_credentialRefs st),
              sit_cacheTopology := (case nst_CacheTopology status of Some t \<Rightarrow> t | None \<Rightarrow> sit_cacheTopology st),
              sit_sync := (sit_sync st)\<lparr>
                ds_phase := (if sy_Phase (nst_Sync status) \<noteq> '''' then sy_Phase (nst_Sync status) else ds_phase (sit_sync st)),
                ds_message := (if sy_Message (nst_Sync status) \<noteq> '''' then sy_Message (nst_Sync status) else ds_message (sit_sync st))\<rparr>\<rparr>) d in
      if phase = ''Ready'' then
        mark env [(''Synced'', ConditionTrue, ''RuntimeObserved'', observed), (''Ready'', ConditionTrue, ''RuntimeReady'', summary)]
          (in_status (\<lambda>st. st\<lparr>sit_sync := (sit_sync st)\<lparr>ds_phase := ''Synced'', ds_message := observed\<rparr>\<rparr>) d)
      else if phase = ''Blocked'' then
        mark env [(''Synced'', ConditionFalse, ''RuntimeDependencyMissing'', summary),
          (''Ready'', ConditionFalse, ''RuntimeDependencyMissing'', summary)] d
      else if phase = ''Provisioning'' then mark env [(''Ready'', ConditionFalse, ''RuntimePending'', summary)] d
      else mark env [(''Ready'', ConditionFalse, ''AwaitingRuntime'', summary)] d)"

end
