(* ===== verification/Instance_Runtime.thy ===== *)
theory Instance_Runtime
  imports Instance_Status
begin

text \<open>
  What the reconciler of service instances does outside the management cluster's custom resources
  (\<open>internal/controllers/serviceinstance_controller.go\<close>): the client of the target cluster, the checks that KubeVirt is
  there, the observation of the runtime, and the Argo CD application or application set of an instance. The cache of
  clients is left out: its key holds the versions of target and Secret, so that it returns what would be built again.
\<close>

section \<open>Clients\<close>

text \<open>\<open>clusterConnectionData\<close> of \<open>clustertarget_controller.go\<close>; \<open>StringData\<close> is never set on an object that was read.\<close>

definition clusterConnectionData :: "secret \<Rightarrow> string" where
  "clusterConnectionData sec =
     (if map_get (sc_data sec) ''kubeconfig'' \<noteq> '''' then map_get (sc_data sec) ''kubeconfig''
      else map_get (sc_data sec) ''value'')"

definition getTargetClient :: "'g instance_env \<Rightarrow> cluster_target option \<Rightarrow> ('g, client option) step" where
  "getTargetClient env target s =
     (case target of
        None \<Rightarrow> (Inr None, s)
      | Some t \<Rightarrow>
          (let ref = cts_connectionRef (ctg_spec t); name = quote (m_name (ctg_meta t)) in
           if blank (nr_name ref) \<or> blank (nr_namespace ref) then (Inr None, s)
           else (case get_secret_at Management (nr_namespace ref) (nr_name ref) s of
              (Inl e, s) \<Rightarrow> (Inl (Wrapf (''reading connection secret for ClusterTarget '' @ name) (ApiError e)), s)
            | (Inr sec, s) \<Rightarrow>
                if clusterConnectionData sec = '''' then (Inr None, s)
                else (case ie_restConfig env (clusterConnectionData sec) of
                   Inl e \<Rightarrow> (Inl (Wrapf (''parsing kubeconfig for ClusterTarget '' @ name) e), s)
                 | Inr config \<Rightarrow>
                     (case ie_newClient env config of
                        Inl e \<Rightarrow> (Inl (Wrapf (''building client for ClusterTarget '' @ name) e), s)
                      | Inr server \<Rightarrow> (Inr (Some (Remote server)), s))))))"

section \<open>KubeVirt\<close>

abbreviation kubeVirtVirtualMachineCRDName :: string where
  "kubeVirtVirtualMachineCRDName \<equiv> ''virtualmachines.kubevirt.io''"
abbreviation kubeVirtDataVolumeCRDName :: string where
  "kubeVirtDataVolumeCRDName \<equiv> ''datavolumes.cdi.kubevirt.io''"

fun crds_installed :: "client \<Rightarrow> string list \<Rightarrow> ('g, bool \<times> string) step" where
  "crds_installed c [] s = (Inr (True, ''''), s)"
| "crds_installed c (crd # crds) s =
     (case kube_get c (crdKey crd) s of
        (Inr _, s) \<Rightarrow> crds_installed c crds s
      | (Inl e, s) \<Rightarrow>
          if e = NotFound \<or> e = NoMatch
          then (Inr (False, ''KubeVirt dependency missing on target cluster: CRD '' @ quote crd @ '' is not installed.''), s)
          else (Inl (ApiError e), s))"

definition kubeVirtDependenciesReady :: "client option \<Rightarrow> ('g, bool \<times> string) step" where
  "kubeVirtDependenciesReady c s =
     (case c of
        None \<Rightarrow> (Inr (False, ''KubeVirt runtime validation requires a remote cluster client.''), s)
      | Some c \<Rightarrow> crds_installed c [kubeVirtVirtualMachineCRDName, kubeVirtDataVolumeCRDName] s)"

section \<open>Observing the runtime\<close>

definition no_observation :: runtime_observation where
  "no_observation = \<lparr>ro_Workload = None, ro_ReadyPods = 0, ro_TotalPods = 0, ro_CredentialSecretPresent = False,
     ro_Blocked = False, ro_Message = ''''\<rparr>"

definition blocked :: "string \<Rightarrow> runtime_observation \<Rightarrow> runtime_observation" where
  "blocked message ob = ob\<lparr>ro_Blocked := True, ro_Message := message\<rparr>"

definition observed_workload :: "int \<Rightarrow> int \<Rightarrow> int \<Rightarrow> runtime_observation \<Rightarrow> runtime_observation" where
  "observed_workload desired ready updated ob =
     ob\<lparr>ro_Workload := Some \<lparr>wo_DesiredReplicas = desired, wo_ReadyReplicas = ready, wo_UpdatedReplicas = updated,
       wo_Observed = True\<rparr>\<rparr>"

definition isPodReady :: "pod \<Rightarrow> bool" where
  "isPodReady p \<longleftrightarrow> list_ex (\<lambda>(t, s). t = ''Ready'' \<and> s = ''True'') (pd_conditions p)"

text \<open>
  An observation so far: what was seen, the resources that were found, and whether the function has
  returned, without looking for credentials.
\<close>

type_synonym observing = "runtime_observation \<times> typed_ref list \<times> bool"

definition ref_key :: "typed_ref \<Rightarrow> object_key" where
  "ref_key ref = (tr_apiVersion ref, tr_kind ref, tr_namespace ref, tr_name ref)"

definition pods_of :: "(string \<times> kube_object) list \<Rightarrow> pod list" where
  "pods_of items = concat (map (\<lambda>(_, x). case x of KPod p \<Rightarrow> [p] | _ \<Rightarrow> []) items)"

definition selected_pod :: "string \<Rightarrow> kube_object \<Rightarrow> bool" where
  "selected_pod inst x =
     (case x of KPod p \<Rightarrow> map_get (pd_labels p) ''servicer.io/service-instance'' = inst \<and>
        map_of (pd_labels p) ''servicer.io/service-instance'' \<noteq> None | _ \<Rightarrow> False)"

definition unstructured_of :: "kube_object \<Rightarrow> uval" where
  "unstructured_of x = (case x of KOther _ v \<Rightarrow> v | _ \<Rightarrow> UNull)"

definition observeNamespace :: "client \<Rightarrow> typed_ref \<Rightarrow> ('g, observing) step" where
  "observeNamespace c ref s =
     if_found (kube_get c (namespaceKey (tr_name ref)) s) (\<lambda>_ s. (Inr (no_observation, [ref], False), s))
       (\<lambda>s. (Inr (no_observation, [], False), s))"

definition observeStatefulSet :: "client \<Rightarrow> typed_ref \<Rightarrow> ('g, observing) step" where
  "observeStatefulSet c ref s =
     if_found (kube_get c (ref_key ref) s)
       (\<lambda>x s. case x of
          KStatefulSet w \<Rightarrow>
            and_then (pass (kube_list c ''v1'' ''Pod'' (tr_namespace ref) (selected_pod (tr_name ref)) s)) (\<lambda>items s.
              let pods = pods_of items;
                  desired = (case wl_specReplicas w of Some n \<Rightarrow> n | None \<Rightarrow> wl_replicas w);
                  ob = observed_workload desired (wl_readyReplicas w) (wl_updatedReplicas w) no_observation in
              (Inr (ob\<lparr>ro_TotalPods := safeInt32FromLen (length pods),
                  ro_ReadyPods := wrap_int32 (int (length (filter isPodReady pods)))\<rparr>, [ref], False), s))
        | _ \<Rightarrow> (Inl (ApiError (OtherError ''decode'')), s))
       (\<lambda>s. (Inr (no_observation, [], False), s))"

definition observeCNPG :: "client \<Rightarrow> typed_ref \<Rightarrow> ('g, observing) step" where
  "observeCNPG c ref s =
     (case kube_get c (ref_key ref) s of
        (Inl e, s) \<Rightarrow>
          if e = NoMatch then
            (Inr (blocked ''CloudNative PG operator (postgresql.cnpg.io/v1) is not installed in the target cluster.''
               no_observation, [], True), s)
          else if e = NotFound then (Inr (no_observation, [], False), s)
          else (Inl (ApiError e), s)
      | (Inr x, s) \<Rightarrow>
          (let u = unstructured_of x;
               ready = safeInt32FromInt64 (nestedInt64 [''status'', ''readyInstances''] u);
               instances = safeInt32FromInt64 (nestedInt64 [''status'', ''instances''] u) in
           (Inr (observed_workload instances ready ready no_observation, [ref], False), s)))"

definition universe_state :: "uval \<Rightarrow> string" where
  "universe_state u =
     (let a = nestedString [''status'', ''universeState''] u; b = nestedString [''status'', ''state''] u in
      if a \<noteq> '''' then a else if b \<noteq> '''' then b else nestedString [''status'', ''phase''] u)"

definition observeYugabyte :: "client \<Rightarrow> typed_ref \<Rightarrow> ('g, observing) step" where
  "observeYugabyte c ref s =
     (case kube_get c (crdKey ''ybuniverses.operator.yugabyte.io'') s of
        (Inl e, s) \<Rightarrow>
          if e = NotFound \<or> e = NoMatch then
            (Inr (blocked ''YugabyteDB operator CRD ybuniverses.operator.yugabyte.io is not installed in the target cluster.''
               no_observation, [], True), s)
          else (Inl (ApiError e), s)
      | (Inr _, s) \<Rightarrow>
          if_found (kube_get c (ref_key ref) s)
            (\<lambda>x s.
               let u = unstructured_of x; state = universe_state u;
                   tservers = nestedInt64 [''spec'', ''numNodes''] u;
                   ready = (if state = ''Ready'' \<or> state = ''Succeeded'' \<or> state = ''ReadyToUse'' then tservers else 0);
                   ob = (if contains (map ascii_lower state) ''error''
                         then blocked (''YugabyteDB operator reported universe state '' @ quote state @ ''.'') no_observation
                         else no_observation) in
               (Inr (if state = '''' then no_observation
                     else observed_workload (safeInt32FromInt64 tservers) (safeInt32FromInt64 ready)
                       (safeInt32FromInt64 ready) ob, [ref], False), s))
            (\<lambda>s. (Inr (no_observation, [], False), s)))"

definition observeVirtualMachine :: "client \<Rightarrow> typed_ref \<Rightarrow> ('g, observing) step" where
  "observeVirtualMachine c ref s =
     and_then (kubeVirtDependenciesReady (Some c) s) (\<lambda>(ready, message) s.
       if \<not> ready then (Inr (blocked message no_observation, [], True), s)
       else if_found (kube_get c (ref_key ref) s) (\<lambda>_ s. (Inr (no_observation, [ref], False), s))
              (\<lambda>s. (Inr (no_observation, [], False), s)))"

text \<open>The \<open>if\<close>s of the function: at most one of them applies, since they ask for different kinds.\<close>

definition observePrimary :: "client \<Rightarrow> typed_ref option \<Rightarrow> ('g, observing) step" where
  "observePrimary c ref s =
     (case ref of
        None \<Rightarrow> (Inr (no_observation, [], False), s)
      | Some ref \<Rightarrow>
          (let is = (\<lambda>apiVersion kind. tr_apiVersion ref = apiVersion \<and> tr_kind ref = kind) in
           if is ''v1'' ''Namespace'' \<and> tr_name ref \<noteq> '''' then observeNamespace c ref s
           else if tr_namespace ref = '''' then (Inr (no_observation, [], False), s)
           else if is ''apps/v1'' ''StatefulSet'' then observeStatefulSet c ref s
           else if is ''postgresql.cnpg.io/v1'' ''Cluster'' then observeCNPG c ref s
           else if is ''operator.yugabyte.io/v1alpha1'' ''YBUniverse'' then observeYugabyte c ref s
           else if is ''kubevirt.io/v1'' ''VirtualMachine'' then observeVirtualMachine c ref s
           else (Inr (no_observation, [], False), s)))"

text \<open>Whether one of the credential Secrets is there with a password.\<close>

fun credential_present :: "client \<Rightarrow> namespaced_ref list \<Rightarrow> ('g, bool) step" where
  "credential_present c [] s = (Inr False, s)"
| "credential_present c (ref # refs) s =
     if_found (get_secret_at c (nr_namespace ref) (nr_name ref) s)
       (\<lambda>sec s. if map_get (sc_data sec) ''password'' \<noteq> '''' then (Inr True, s) else credential_present c refs s)
       (credential_present c refs)"

definition observeRuntime ::
  "typed_ref option \<Rightarrow> namespaced_ref list \<Rightarrow> client option \<Rightarrow> ('g, runtime_observation \<times> typed_ref list) step" where
  "observeRuntime ref credentialRefs targetClient s =
     (let c = (case targetClient of None \<Rightarrow> Management | Some c \<Rightarrow> c) in
      and_then (observePrimary c ref s) (\<lambda>(ob, found, returned) s.
        if returned then (Inr (ob, found), s)
        else and_then (credential_present c credentialRefs s) (\<lambda>present s.
          (Inr (ob\<lparr>ro_CredentialSecretPresent := present\<rparr>, found), s))))"

end
