(* ===== verification/Instance_Credentials.thy ===== *)
theory Instance_Credentials
  imports Runtime_World Exec_NATS Database_Names
begin

text \<open>
  The credentials a service instance gets before it is delivered: \<open>ensureCredentialSecrets\<close> and the functions
  under it in \<open>internal/controllers/serviceinstance_controller.go\<close>, and \<open>ensureNATSCredentialSecrets\<close> in
  \<open>nats_runtime.go\<close>. Passwords come from the system's random source: the \<open>n\<close>-th draw of a site is \<open>random n\<close>.
\<close>

section \<open>Passwords\<close>

definition randomPassword :: "(nat \<Rightarrow> go_error + string) \<Rightarrow> ('g, string) step" where
  "randomPassword random s = (random (st_drawn s), s\<lparr>st_drawn := Suc (st_drawn s)\<rparr>)"

definition database_name_field :: "string \<Rightarrow> json \<Rightarrow> string \<Rightarrow> string \<times> bool" where
  "database_name_field k v s = (if json_key k ''databaseName'' then dec_string v s else (s, False))"

definition instanceDatabaseName :: "unicode \<Rightarrow> service_instance \<Rightarrow> string" where
  "instanceDatabaseName un inst =
     ResolveDatabaseName un (m_name (si_meta inst))
       (case sis_parameters (si_spec inst) of
          None \<Rightarrow> '''' | Some raw \<Rightarrow> fst (json_unmarshal database_name_field raw ''''))"

text \<open>Setting the entries of one map in another.\<close>

definition map_set_all :: "(string, string) gomap \<Rightarrow> (string, string) gomap \<Rightarrow> (string, string) gomap" where
  "map_set_all kvs m = fold (\<lambda>(k, v). map_set k v) kvs m"

definition managedCredentialData :: "unicode \<Rightarrow> string \<Rightarrow> service_instance \<Rightarrow> string \<Rightarrow> (string, string) gomap" where
  "managedCredentialData un runtimeDriver inst password =
     [(''password'', password)] @
     (if runtimeDriver = ''servicer-nats'' then [(''username'', ''nats'')]
      else if runtimeDriver = ''servicer-valkey'' then [(''username'', ''default'')]
      else if runtimeDriver = ''cnpg'' \<or> runtimeDriver = ''servicer-mysql''
      then [(''username'', instanceDatabaseName un inst), (''database'', instanceDatabaseName un inst)]
      else if runtimeDriver = ''yb-operator''
      then [(''username'', ''yugabyte''), (''database'', instanceDatabaseName un inst)]
      else [])"

section \<open>Namespaces\<close>

definition ensureNamespaceExists :: "client \<Rightarrow> string \<Rightarrow> ('g, unit) step" where
  "ensureNamespaceExists c namespace0 s =
     (let namespace = trimSpace namespace0 in
      if namespace = '''' then (Inr (), s)
      else if_found (kube_get c (namespaceKey namespace) s) (\<lambda>_ s. (Inr (), s))
        (\<lambda>s. case kube_create c (namespaceKey namespace) KNamespace s of
            (Inl e, s) \<Rightarrow> (if e = AlreadyExists then Inr () else Inl (ApiError e), s)
          | (Inr _, s) \<Rightarrow> (Inr (), s)))"

section \<open>Secrets of databases and caches\<close>

definition instance_labels :: "service_instance \<Rightarrow> (string, string) gomap" where
  "instance_labels inst =
     [(''servicer.io/managed-by'', ''servicer''), (''servicer.io/service-instance'', m_name (si_meta inst))]"

text \<open>
  One reference: a Secret with a password and a user name is left alone, an incomplete one is completed
  under the password it has, a missing one is created.
\<close>

definition ensureCredential ::
  "unicode \<Rightarrow> (nat \<Rightarrow> go_error + string) \<Rightarrow> string \<Rightarrow> service_instance \<Rightarrow> client \<Rightarrow> namespaced_ref \<Rightarrow> ('g, unit) step" where
  "ensureCredential un random driver inst c ref s =
     and_then (ensureNamespaceExists c (nr_namespace ref) s) (\<lambda>_ s.
       if_found (get_secret_at c (nr_namespace ref) (nr_name ref) s)
         (\<lambda>sec s.
            if map_get (sc_data sec) ''password'' = '''' \<or> map_get (sc_data sec) ''username'' = '''' then
              and_then (if map_get (sc_data sec) ''password'' = '''' then randomPassword random s
                        else (Inr (map_get (sc_data sec) ''password''), s)) (\<lambda>password s.
                pass (kube_update c (secretKey (nr_namespace ref) (nr_name ref))
                  (KSecret (sec\<lparr>sc_data := map_set_all (managedCredentialData un driver inst password) (sc_data sec),
                     sc_labels := map_set_all (instance_labels inst) (sc_labels sec)\<rparr>)) s))
            else (Inr (), s))
         (\<lambda>s. and_then (randomPassword random s) (\<lambda>password s.
            pass (kube_create c (secretKey (nr_namespace ref) (nr_name ref))
              (KSecret \<lparr>sc_labels = instance_labels inst, sc_annotations = [], sc_type = ''Opaque'',
                 sc_data = managedCredentialData un driver inst password\<rparr>) s))))"

fun ensureCredentials ::
  "unicode \<Rightarrow> (nat \<Rightarrow> go_error + string) \<Rightarrow> string \<Rightarrow> service_instance \<Rightarrow> client \<Rightarrow> namespaced_ref list \<Rightarrow> ('g, unit) step" where
  "ensureCredentials un random driver inst c [] s = (Inr (), s)"
| "ensureCredentials un random driver inst c (ref # refs) s =
     and_then (ensureCredential un random driver inst c ref s) (\<lambda>_ s. ensureCredentials un random driver inst c refs s)"

section \<open>Secrets of NATS\<close>

definition natsPermissionsJSON :: "natsAppCredentialMaterialization \<Rightarrow> string" where
  "natsPermissionsJSON c =
     (let subjects = (\<lambda>xs. if xs = [] then JNull else JArr (map JStr xs)) in
      json_encode (JObj [(''allowResponses'', JBool (nc_AllowReplies c)), (''publish'', subjects (nc_Publish c)),
        (''subscribe'', subjects (nc_Subscribe c))]))"

definition opaque_labels :: "string \<Rightarrow> string \<Rightarrow> (string, string) gomap" where
  "opaque_labels instanceName role =
     [(''servicer.io/managed-by'', ''servicer''), (''servicer.io/service-instance'', instanceName),
      (''servicer.io/nats-secret-role'', role)]"

definition ensureOpaqueSecret ::
  "(nat \<Rightarrow> go_error + string) \<Rightarrow> client \<Rightarrow> string \<Rightarrow> string \<Rightarrow> string \<Rightarrow> (string, string) gomap \<Rightarrow> string \<Rightarrow> ('g, secret) step" where
  "ensureOpaqueSecret random c namespace secretName instanceName staticData role s =
     if_found (get_secret_at c namespace secretName s)
       (\<lambda>sec s.
          and_then (if map_get (sc_data sec) ''password'' = '''' then randomPassword random s
                    else (Inr (map_get (sc_data sec) ''password''), s)) (\<lambda>password s.
            let sec = sec\<lparr>sc_data := map_set_all staticData (map_set ''password'' password (sc_data sec)),
                  sc_labels := map_set_all (opaque_labels instanceName role) (sc_labels sec)\<rparr> in
            and_then (pass (kube_update c (secretKey namespace secretName) (KSecret sec) s)) (\<lambda>_ s. (Inr sec, s))))
       (\<lambda>s. and_then (randomPassword random s) (\<lambda>password s.
          let sec = \<lparr>sc_labels = opaque_labels instanceName role, sc_annotations = [], sc_type = ''Opaque'',
                sc_data = map_set_all staticData [(''password'', password)]\<rparr> in
          and_then (pass (kube_create c (secretKey namespace secretName) (KSecret sec) s)) (\<lambda>_ s. (Inr sec, s))))"

text \<open>The loop over the credentials of applications: their passwords by user name.\<close>

definition nats_url :: "string \<Rightarrow> string \<Rightarrow> string" where
  "nats_url name namespace = ''nats://'' @ name @ ''.'' @ namespace @ ''.svc.cluster.local:4222''"

fun ensureAppCredentials ::
  "(nat \<Rightarrow> go_error + string) \<Rightarrow> client \<Rightarrow> string \<Rightarrow> string \<Rightarrow> natsAppCredentialMaterialization list \<Rightarrow>
     (string, string) gomap \<Rightarrow> ('g, (string, string) gomap) step" where
  "ensureAppCredentials random c namespace name [] passwords s = (Inr passwords, s)"
| "ensureAppCredentials random c namespace name (credential # credentials) passwords s =
     and_then (ensureOpaqueSecret random c namespace (nc_SecretName credential) name
         [(''username'', nc_Username credential), (''description'', nc_Description credential),
          (''url'', nats_url name namespace), (''permissions'', natsPermissionsJSON credential)] ''credential'' s)
       (\<lambda>sec s. ensureAppCredentials random c namespace name credentials
          (map_set (nc_Username credential) (map_get (sc_data sec) ''password'') passwords) s)"

definition writeAuthConfig :: "client \<Rightarrow> string \<Rightarrow> string \<Rightarrow> string \<Rightarrow> string \<Rightarrow> ('g, unit) step" where
  "writeAuthConfig c namespace secretName instanceName users s =
     (let data = [(''users.conf'', users)]; labels = opaque_labels instanceName ''auth-config'' in
      if_found (get_secret_at c namespace secretName s)
        (\<lambda>existing s. pass (kube_update c (secretKey namespace secretName)
           (KSecret (existing\<lparr>sc_data := data, sc_labels := map_set_all labels (sc_labels existing)\<rparr>)) s))
        (\<lambda>s. pass (kube_create c (secretKey namespace secretName)
           (KSecret \<lparr>sc_labels = labels, sc_annotations = [], sc_type = ''Opaque'', sc_data = data\<rparr>) s)))"

text \<open>The NATS Secrets of the instance that nothing asks for any more are deleted.\<close>

definition stale_nats_secret :: "string \<Rightarrow> string list \<Rightarrow> string \<times> kube_object \<Rightarrow> bool" where
  "stale_nats_secret instanceName desired x =
     (case x of
        (name, KSecret sec) \<Rightarrow>
          map_get (sc_labels sec) ''servicer.io/managed-by'' = ''servicer'' \<and>
          map_get (sc_labels sec) ''servicer.io/service-instance'' = instanceName \<and>
          map_get (sc_labels sec) ''servicer.io/nats-secret-role'' \<noteq> '''' \<and> name \<notin> set desired
      | _ \<Rightarrow> False)"

fun deleteSecrets :: "client \<Rightarrow> string \<Rightarrow> string list \<Rightarrow> ('g, unit) step" where
  "deleteSecrets c namespace [] s = (Inr (), s)"
| "deleteSecrets c namespace (name # names) s =
     (case kube_delete c (secretKey namespace name) s of
        (Inl e, s) \<Rightarrow> if e = NotFound then deleteSecrets c namespace names s else (Inl (ApiError e), s)
      | (Inr _, s) \<Rightarrow> deleteSecrets c namespace names s)"

definition ensureNATSCredentialSecrets ::
  "(nat \<Rightarrow> go_error + string) \<Rightarrow> client \<Rightarrow> service_instance \<Rightarrow> string \<Rightarrow> ('g, unit) step" where
  "ensureNATSCredentialSecrets random c inst namespace s =
     (case loadNATSCredentialMaterialization inst of
        Inl e \<Rightarrow> (Inl (Wrapf ''decode nats app credentials'' e), s)
      | Inr spec \<Rightarrow>
          (let name = m_name (si_meta inst);
               desired = nm_AdminSecretName spec # nm_AuthConfigSecretName spec # map nc_SecretName (nm_AppCredentials spec) in
           and_then (ensureOpaqueSecret random c namespace (nm_AdminSecretName spec) name
               [(''username'', ''servicer''), (''url'', nats_url name namespace)] ''credential'' s) (\<lambda>admin s.
             and_then (ensureAppCredentials random c namespace name (nm_AppCredentials spec)
                 [(''servicer'', map_get (sc_data admin) ''password'')] s) (\<lambda>passwords s.
               and_then (writeAuthConfig c namespace (nm_AuthConfigSecretName spec) name
                   (renderNATSUsersConfig spec passwords) s) (\<lambda>_ s.
                 and_then (pass (kube_list c ''v1'' ''Secret'' namespace (\<lambda>_. True) s)) (\<lambda>secrets s.
                   deleteSecrets c namespace (map fst (filter (stale_nats_secret name desired) secrets)) s))))))"

section \<open>All of them\<close>

definition ensureCredentialSecrets ::
  "unicode \<Rightarrow> (nat \<Rightarrow> go_error + string) \<Rightarrow> service_instance \<Rightarrow> render_result \<Rightarrow> client option \<Rightarrow> ('g, unit) step" where
  "ensureCredentialSecrets un random inst rendered targetClient s =
     (let driver = rd_RuntimeDriver rendered; refs = rd_CredentialRefs rendered;
          c = (case targetClient of None \<Rightarrow> Management | Some c \<Rightarrow> c) in
      if driver \<notin> {''servicer-valkey'', ''servicer-nats'', ''yb-operator'', ''servicer-mysql'', ''cnpg''} then (Inr (), s)
      else if sp_deliveryMode (sis_secretPolicy (si_spec inst)) = SecretDeliveryModeManual then (Inr (), s)
      else if driver = ''servicer-nats'' then
        (let namespace = (case refs of
               ref # _ \<Rightarrow> if nr_namespace ref \<noteq> '''' then nr_namespace ref
                           else pl_namespace (sit_placement (si_status inst))
             | [] \<Rightarrow> pl_namespace (sit_placement (si_status inst))) in
         and_then (ensureNamespaceExists c namespace s) (\<lambda>_ s.
           ensureNATSCredentialSecrets random c inst namespace s))
      else ensureCredentials un random driver inst c refs s)"

text \<open>The keys of the Secrets that are projected; one that is missing is an error here.\<close>

fun credentialSecretKeys ::
  "client option \<Rightarrow> namespaced_ref list \<Rightarrow> (string, string list) gomap \<Rightarrow> ('g, (string, string list) gomap) step" where
  "credentialSecretKeys targetClient [] keys s = (Inr keys, s)"
| "credentialSecretKeys targetClient (ref # refs) keys s =
     (if nr_name ref = '''' \<or> nr_namespace ref = '''' then credentialSecretKeys targetClient refs keys s
      else and_then (pass (get_secret_at (case targetClient of None \<Rightarrow> Management | Some c \<Rightarrow> c)
               (nr_namespace ref) (nr_name ref) s)) (\<lambda>sec s.
        credentialSecretKeys targetClient refs
          (AList.update (nr_namespace ref @ ''/'' @ nr_name ref) (map fst (sc_data sec)) keys) s))"

end
