(* ===== verification/Instance_Argo.thy ===== *)
theory Instance_Argo
  imports Instance_Runtime Instance_Credentials
begin

text \<open>
  The Argo CD side of a service instance (\<open>internal/controllers/serviceinstance_controller.go\<close>): the
  application, or the application set of an instance with several packages, that delivers it from the
  repository, and what their status says. All of it is in the management cluster.
\<close>

section \<open>Paths and names\<close>

definition argoApplicationName :: "project \<Rightarrow> service_instance \<Rightarrow> string" where
  "argoApplicationName project inst = m_name (pj_meta project) @ ''-'' @ m_name (si_meta inst)"

definition deliverySourcePath :: "string \<Rightarrow> string \<Rightarrow> string" where
  "deliverySourcePath deliveryRepoPath packagePath =
     (let p = path_join [firstNonEmptyTrimmed [deliveryRepoPath, DefaultRoot], packagePath] in
      if hasPrefix p ''/'' then drop 1 p else p)"

definition clusterNameFromPackagePath :: "string \<Rightarrow> string" where
  "clusterNameFromPackagePath packagePath =
     (case split_on CHR ''/'' (trimSet ''/'' packagePath) of
        a # b # _ \<Rightarrow> if a = ''clusters'' then b else ''''
      | _ \<Rightarrow> '''')"

fun applicationSetElements_from :: "string list \<Rightarrow> string list \<Rightarrow> (string \<times> string) list" where
  "applicationSetElements_from seen [] = []"
| "applicationSetElements_from seen (packagePath # rest) =
     (let target = clusterNameFromPackagePath packagePath;
          sourcePath = deliverySourcePath '''' packagePath;
          key = target @ ''|'' @ sourcePath in
      if target = '''' \<or> sourcePath = '''' \<or> key \<in> set seen then applicationSetElements_from seen rest
      else (target, sourcePath) # applicationSetElements_from (key # seen) rest)"

text \<open>The elements of the list generator, as pairs of cluster and path.\<close>

definition applicationSetElements :: "string list \<Rightarrow> (string \<times> string) list" where
  "applicationSetElements packagePaths = applicationSetElements_from [] packagePaths"

definition mergeStringMaps :: "(string, string) gomap \<Rightarrow> (string, string) gomap \<Rightarrow> (string, string) gomap" where
  "mergeStringMaps base overlay = map_set_all overlay base"

definition shortCommit :: "string \<Rightarrow> string" where
  "shortCommit commit = take 12 (trimSpace commit)"

section \<open>Applications\<close>

abbreviation argoKey :: "string \<Rightarrow> string \<Rightarrow> string \<Rightarrow> object_key" where
  "argoKey kind namespace name \<equiv> (''argoproj.io/v1alpha1'', kind, namespace, name)"

definition argoNamespace :: "'g instance_env \<Rightarrow> string" where
  "argoNamespace env = firstNonEmptyTrimmed [ie_ArgoCDNamespace env, ''argocd'']"

definition argo_labels :: "project \<Rightarrow> service_instance \<Rightarrow> (string, string) gomap" where
  "argo_labels project inst =
     [(''servicer.io/managed-by'', ''servicer''), (''servicer.io/service-instance'', m_name (si_meta inst)),
      (''servicer.io/project'', m_name (pj_meta project))]"

definition syncPolicy :: uval where
  "syncPolicy = UMap
     [(''automated'', UMap [(''prune'', UBool True), (''selfHeal'', UBool True)]),
      (''syncOptions'', UArr [UStr ''CreateNamespace=true''])]"

definition applicationSpec :: "'g instance_env \<Rightarrow> string \<Rightarrow> string \<Rightarrow> string \<Rightarrow> uval" where
  "applicationSpec env sourcePath target namespace = UMap
     [(''project'', UStr (firstNonEmptyTrimmed [ie_ArgoCDProject env, ''default''])),
      (''source'', UMap
        [(''repoURL'', UStr (ie_DeliveryRepoURL env)),
         (''targetRevision'', UStr (firstNonEmptyTrimmed [ie_DeliveryRepoRef env, ''HEAD''])),
         (''path'', UStr sourcePath),
         (''directory'', UMap [(''recurse'', UBool True)])]),
      (''destination'', UMap [(''name'', UStr target), (''namespace'', UStr namespace)]),
      (''syncPolicy'', syncPolicy)]"

definition applicationSetSpec ::
  "'g instance_env \<Rightarrow> string \<Rightarrow> project \<Rightarrow> service_instance \<Rightarrow> (string \<times> string) list \<Rightarrow> uval" where
  "applicationSetSpec env appName project inst elements = UMap
     [(''generators'', UArr [UMap [(''list'', UMap [(''elements'', UArr
         (map (\<lambda>(c, p). UMap [(''cluster'', UStr c), (''path'', UStr p)]) elements))])]]),
      (''template'', UMap
        [(''metadata'', UMap
           [(''name'', UStr (''{{cluster}}-'' @ appName)),
            (''labels'', UMap (map (\<lambda>(k, v). (k, UStr v))
               (argo_labels project inst @ [(''servicer.io/application-set'', appName)])))]),
         (''spec'', applicationSpec env ''{{path}}'' ''{{cluster}}'' (pl_namespace (sit_placement (si_status inst))))])]"

definition deleteArgoResourceIfExists :: "string \<Rightarrow> string \<Rightarrow> string \<Rightarrow> ('g, unit) step" where
  "deleteArgoResourceIfExists namespace kind name s =
     if_found (kube_get Management (argoKey kind namespace name) s)
       (\<lambda>_ s. case kube_delete Management (argoKey kind namespace name) s of
            (Inl e, s) \<Rightarrow> (if e = NotFound then Inr () else Inl (ApiError e), s)
          | (Inr _, s) \<Rightarrow> (Inr (), s))
       (\<lambda>s. (Inr (), s))"

text \<open>A new object, and an existing one with the spec replaced and the labels merged.\<close>

definition desired_object :: "(string, string) gomap \<Rightarrow> uval \<Rightarrow> kube_object" where
  "desired_object labels spec = KOther labels (UMap [(''spec'', spec)])"

definition replaced_spec :: "kube_object \<Rightarrow> (string, string) gomap \<Rightarrow> uval \<Rightarrow> kube_object" where
  "replaced_spec existing labels spec =
     (case existing of
        KOther old (UMap fs) \<Rightarrow> KOther (mergeStringMaps old labels) (UMap (AList.update ''spec'' spec fs))
      | KOther old _ \<Rightarrow> KOther (mergeStringMaps old labels) (UMap [(''spec'', spec)])
      | _ \<Rightarrow> existing)"

definition ensureArgoApplicationSet ::
  "'g instance_env \<Rightarrow> string \<Rightarrow> string \<Rightarrow> project \<Rightarrow> service_instance \<Rightarrow> string list \<Rightarrow> ('g, unit) step" where
  "ensureArgoApplicationSet env namespace appName project inst packagePaths s =
     (let elements = applicationSetElements packagePaths;
          key = argoKey ''ApplicationSet'' namespace appName;
          labels = argo_labels project inst;
          spec = applicationSetSpec env appName project inst elements in
      if elements = [] then (Inr (), s)
      else if_found (kube_get Management key s)
        (\<lambda>existing s. and_then (pass (kube_update Management key (replaced_spec existing labels spec) s)) (\<lambda>_ s.
           deleteArgoResourceIfExists namespace ''Application'' appName s))
        (\<lambda>s. and_then (deleteArgoResourceIfExists namespace ''Application'' appName s) (\<lambda>_ s.
           pass (kube_create Management key (desired_object labels spec) s))))"

definition ensureSingleApplication ::
  "'g instance_env \<Rightarrow> string \<Rightarrow> string \<Rightarrow> project \<Rightarrow> service_instance \<Rightarrow> string \<Rightarrow> ('g, unit) step" where
  "ensureSingleApplication env namespace appName project inst packagePath s =
     (let key = argoKey ''Application'' namespace appName;
          labels = argo_labels project inst;
          placement = sit_placement (si_status inst);
          spec = applicationSpec env (deliverySourcePath (ie_DeliveryRepoPath env) packagePath)
            (pl_clusterName placement) (pl_namespace placement) in
      if_found (kube_get Management key s)
        (\<lambda>existing s. pass (kube_update Management key (replaced_spec existing labels spec) s))
        (\<lambda>s. and_then (deleteArgoResourceIfExists namespace ''ApplicationSet'' appName s) (\<lambda>_ s.
           pass (kube_create Management key (desired_object labels spec) s))))"

definition sync_message :: "string \<Rightarrow> draft \<Rightarrow> draft" where
  "sync_message message = in_status (\<lambda>st. st\<lparr>sit_sync := (sit_sync st)\<lparr>ds_message := message\<rparr>\<rparr>)"

definition ensureArgoApplication ::
  "'g instance_env \<Rightarrow> project \<Rightarrow> draft \<Rightarrow> string \<Rightarrow> string list \<Rightarrow> ('g, draft) step" where
  "ensureArgoApplication env project d packagePath packagePaths s =
     (let inst = drafted d; namespace = argoNamespace env; appName = argoApplicationName project inst;
          single = (\<lambda>s. and_then (ensureSingleApplication env namespace appName project inst packagePath s)
             (\<lambda>_ s. (Inr d, s))) in
      if blank (ie_DeliveryRepoURL env) then
        (if ie_ProductionMode env then (Inl (Errorf ''delivery repository URL is required in production mode''), s)
         else (Inr (sync_message ''Delivery artifacts are materialized, but Argo CD application creation is disabled until delivery repo settings are configured.'' d), s))
      else if_found (kube_get Management (crdKey ''applications.argoproj.io'') s)
        (\<lambda>_ s.
           if length packagePaths > 1 then
             if_found (kube_get Management (crdKey ''applicationsets.argoproj.io'') s)
               (\<lambda>_ s. and_then (ensureArgoApplicationSet env namespace appName project inst packagePaths s)
                  (\<lambda>_ s. (Inr d, s)))
               single
           else single s)
        (\<lambda>s. if ie_ProductionMode env then (Inl (Errorf ''Argo CD Application CRD is required in production mode''), s)
           else (Inr (sync_message ''Delivery artifacts are materialized, but Argo CD is not installed in the management cluster.'' d), s)))"

section \<open>Their status\<close>

definition sync_phase :: "string \<Rightarrow> draft \<Rightarrow> draft" where
  "sync_phase phase = in_status (\<lambda>st. st\<lparr>sit_sync := (sit_sync st)\<lparr>ds_phase := phase\<rparr>\<rparr>)"

definition health_summary :: "string \<Rightarrow> draft \<Rightarrow> draft" where
  "health_summary summary = in_status (\<lambda>st. st\<lparr>sit_health := \<lparr>hs_summary = summary\<rparr>\<rparr>)"

definition application_observed :: "'g instance_env \<Rightarrow> uval \<Rightarrow> draft \<Rightarrow> draft" where
  "application_observed env app d =
     (let syncStatus = nestedString [''status'', ''sync'', ''status''] app;
          healthStatus = nestedString [''status'', ''health'', ''status''] app;
          healthMessage = nestedString [''status'', ''health'', ''message''] app;
          lower = map ascii_lower syncStatus;
          d = (if lower = ''synced'' then
                 mark env [(''Synced'', ConditionTrue, ''ArgoApplicationSynced'', ''Argo CD application reports synced status.'')]
                   (sync_phase ''Synced'' d)
               else if lower = ''outofsync'' then
                 mark env [(''Synced'', ConditionFalse, ''ArgoApplicationOutOfSync'', ''Argo CD application reports out-of-sync status.'')]
                   (sync_phase ''OutOfSync'' d)
               else if lower = ''unknown'' then sync_phase ''Unknown'' d
               else if syncStatus \<noteq> '''' then
                 mark env [(''Synced'', ConditionFalse, ''ArgoApplicationProgressing'',
                     ''Argo CD application reports '' @ quote syncStatus @ '' sync status.'')]
                   (sync_phase ''Pending'' d)
               else d);
          parts = (if syncStatus \<noteq> '''' then [''sync='' @ syncStatus] else []) @
                  (if healthStatus \<noteq> '''' then [''health='' @ healthStatus] else []);
          d = (if parts \<noteq> [] then sync_message (join '', '' parts) d else d) in
      if healthMessage \<noteq> '''' \<and> sit_phase (si_status (df_instance d)) \<noteq> ''Ready'' then health_summary healthMessage d else d)"

definition applications_observed :: "'g instance_env \<Rightarrow> (string \<times> uval) list \<Rightarrow> draft \<Rightarrow> draft" where
  "applications_observed env apps d =
     (let lower = (\<lambda>(_, app). map ascii_lower (nestedString [''status'', ''sync'', ''status''] app));
          synced = length (filter (\<lambda>a. lower a = ''synced'') apps);
          outOfSync = length (filter (\<lambda>a. lower a = ''outofsync'') apps);
          health = concat (map (\<lambda>(name, app).
              let h = nestedString [''status'', ''health'', ''status''] app in
              if h \<noteq> '''' then [name @ ''='' @ h] else []) apps);
          d = (if outOfSync > 0 then
                 mark env [(''Synced'', ConditionFalse, ''ArgoApplicationSetOutOfSync'',
                     ''One or more Argo CD applications generated from the ApplicationSet are out of sync.'')]
                   (sync_phase ''OutOfSync'' d)
               else if synced = length apps then
                 mark env [(''Synced'', ConditionTrue, ''ArgoApplicationSetSynced'',
                     ''All Argo CD applications generated from the ApplicationSet report synced status.'')]
                   (sync_phase ''Synced'' d)
               else
                 mark env [(''Synced'', ConditionFalse, ''ArgoApplicationSetProgressing'',
                     ''Argo CD ApplicationSet is still creating or syncing generated applications.'')]
                   (sync_phase ''Pending'' d));
          d = sync_message (show_nat (length apps) @ '' application(s): synced='' @ show_nat synced @
                '', outOfSync='' @ show_nat outOfSync) d in
      if health \<noteq> [] then health_summary (join '', '' health) d else d)"

definition application_set_progressing :: "'g instance_env \<Rightarrow> uval \<Rightarrow> draft \<Rightarrow> draft" where
  "application_set_progressing env appSet d =
     (case nestedSlice [''status'', ''conditions''] appSet of
        UMap fs # _ \<Rightarrow>
          (let reason = nestedString [''reason''] (UMap fs); message = nestedString [''message''] (UMap fs);
               d = sync_phase ''Pending'' d;
               d = (if message \<noteq> '''' then sync_message message d
                    else if reason \<noteq> '''' then sync_message reason d else d) in
           mark env [(''Synced'', ConditionFalse, ''ArgoApplicationSetProgressing'', ''Argo CD ApplicationSet is progressing.'')] d)
      | _ \<Rightarrow> d)"

text \<open>The two functions swallow every error: the status is left as it is.\<close>

definition in_application_set :: "string \<Rightarrow> kube_object \<Rightarrow> bool" where
  "in_application_set name x =
     (case x of KOther labels _ \<Rightarrow> map_of labels ''servicer.io/application-set'' = Some name | _ \<Rightarrow> False)"

definition applyArgoApplicationSetObservedStatus :: "'g instance_env \<Rightarrow> string \<Rightarrow> draft \<Rightarrow> 'g site \<Rightarrow> draft \<times> 'g site" where
  "applyArgoApplicationSetObservedStatus env namespace d s =
     (let name = ds_applicationName (sit_sync (si_status (df_instance d))) in
      case kube_get Management (argoKey ''ApplicationSet'' namespace name) s of
        (Inl _, s) \<Rightarrow> (d, s)
      | (Inr appSet, s) \<Rightarrow>
          (case kube_list Management ''argoproj.io/v1alpha1'' ''Application'' namespace (in_application_set name) s of
             (Inr (x # xs), s) \<Rightarrow> (applications_observed env (map (\<lambda>(n, x). (n, unstructured_of x)) (x # xs)) d, s)
           | (_, s) \<Rightarrow> (application_set_progressing env (unstructured_of appSet) d, s)))"

definition applyArgoObservedStatus :: "'g instance_env \<Rightarrow> draft \<Rightarrow> 'g site \<Rightarrow> draft \<times> 'g site" where
  "applyArgoObservedStatus env d s =
     (let name = ds_applicationName (sit_sync (si_status (df_instance d))); namespace = argoNamespace env in
      if blank name then (d, s)
      else (case kube_get Management (argoKey ''Application'' namespace name) s of
         (Inl e, s) \<Rightarrow> if e = NotFound then applyArgoApplicationSetObservedStatus env namespace d s else (d, s)
       | (Inr app, s) \<Rightarrow> (application_observed env (unstructured_of app) d, s)))"

end
