(* ===== verification/External_Secrets.thy ===== *)
theory External_Secrets
  imports Runtime_World
begin

text \<open>
  Delivering credentials through the External Secrets operator,
  \<open>internal/controllers/external_secret_projection.go\<close>: which Secrets an instance's users get, and the manifests
  that make the operator copy them, from a cluster or from Vault. The manifests are trees of fields; \<open>yaml\<close> is
  the encoder of \<open>sigs.k8s.io/yaml\<close>, which may fail, and \<open>sha\<close> the hexadecimal SHA-256 of a text.
\<close>

abbreviation externalSecretsAPIVersion :: string where
  "externalSecretsAPIVersion \<equiv> ''external-secrets.io/v1beta1''"

section \<open>Names\<close>

definition projectedCredentialName :: "string \<Rightarrow> string" where
  "projectedCredentialName name = name @ ''-projected''"

definition projectedCredentialRefs :: "service_instance \<Rightarrow> namespaced_ref list \<Rightarrow> namespaced_ref list" where
  "projectedCredentialRefs inst sourceRefs =
     (let targetNamespace = pl_namespace (sit_placement (si_status inst)) in
      map (\<lambda>ref. \<lparr>nr_name = projectedCredentialName (nr_name ref),
             nr_namespace = (if targetNamespace = '''' then nr_namespace ref else targetNamespace)\<rparr>) sourceRefs)"

definition secretStoreName :: "(string \<Rightarrow> string) \<Rightarrow> string \<Rightarrow> string \<Rightarrow> string" where
  "secretStoreName sha instanceName sourceNamespace = instanceName @ ''-eso-'' @ take 8 (sha sourceNamespace)"

definition uniqueSourceNamespaces :: "namespaced_ref list \<Rightarrow> string list" where
  "uniqueSourceNamespaces refs = sort (remdups (filter (\<lambda>n. n \<noteq> '''') (map nr_namespace refs)))"

definition externalSecretProvider :: "secret_policy_spec \<Rightarrow> string" where
  "externalSecretProvider policy =
     (if sp_externalSecretProvider policy = '''' then ExternalSecretProviderKubernetes
      else sp_externalSecretProvider policy)"

definition externalSecretDataEntries :: "namespaced_ref \<Rightarrow> string list \<Rightarrow> uval list" where
  "externalSecretDataEntries sourceRef keys =
     (if keys = [] then
        [UMap [(''secretKey'', UStr (nr_name sourceRef)), (''remoteRef'', UMap [(''key'', UStr (nr_name sourceRef))])]]
      else
        map (\<lambda>key. UMap [(''secretKey'', UStr key),
               (''remoteRef'', UMap [(''key'', UStr (nr_name sourceRef)), (''property'', UStr key)])])
          (filter (\<lambda>key. \<not> blank key) (sort keys)))"

definition vaultRemoteSecretKey :: "string \<Rightarrow> string \<Rightarrow> string" where
  "vaultRemoteSecretKey mountPath0 secretName0 =
     (let mountPath = trimSet ''/'' (trimSpace mountPath0); secretName = trimSet ''/'' (trimSpace secretName0) in
      if mountPath = '''' then secretName
      else if secretName = '''' then mountPath
      else mountPath @ ''/'' @ secretName)"

section \<open>Manifests\<close>

definition manifest :: "string \<Rightarrow> string \<Rightarrow> string \<Rightarrow> string \<Rightarrow> (string \<times> uval) list \<Rightarrow> (string \<times> uval) list \<Rightarrow> uval" where
  "manifest apiVersion kind name namespace labels rest =
     UMap ([(''apiVersion'', UStr apiVersion), (''kind'', UStr kind),
            (''metadata'', UMap [(''name'', UStr name), (''namespace'', UStr namespace), (''labels'', UMap labels)])] @ rest)"

definition projection_labels :: "string \<Rightarrow> (string \<times> uval) list" where
  "projection_labels inst =
     [(''servicer.io/managed-by'', UStr ''servicer''), (''servicer.io/service-instance'', UStr inst),
      (''servicer.io/secret-delivery'', UStr ''external-secret'')]"

definition vault_labels :: "string \<Rightarrow> (string \<times> uval) list" where
  "vault_labels inst = projection_labels inst @ [(''servicer.io/secret-provider'', UStr ''vault'')]"

definition readerServiceAccount :: "string \<Rightarrow> string \<Rightarrow> uval" where
  "readerServiceAccount inst targetNamespace =
     manifest ''v1'' ''ServiceAccount'' (inst @ ''-eso-reader'') targetNamespace (projection_labels inst) []"

definition readerRole :: "string \<Rightarrow> string \<Rightarrow> string \<Rightarrow> uval" where
  "readerRole inst storeName sourceNamespace =
     manifest ''rbac.authorization.k8s.io/v1'' ''Role'' storeName sourceNamespace (projection_labels inst)
       [(''rules'', UArr
          [UMap [(''apiGroups'', UArr [UStr '''']), (''resources'', UArr [UStr ''secrets'']),
                 (''verbs'', UArr [UStr ''get'', UStr ''list'', UStr ''watch''])],
           UMap [(''apiGroups'', UArr [UStr ''authorization.k8s.io'']),
                 (''resources'', UArr [UStr ''selfsubjectrulesreviews'']), (''verbs'', UArr [UStr ''create''])]])]"

definition readerRoleBinding :: "string \<Rightarrow> string \<Rightarrow> string \<Rightarrow> string \<Rightarrow> uval" where
  "readerRoleBinding inst storeName sourceNamespace targetNamespace =
     manifest ''rbac.authorization.k8s.io/v1'' ''RoleBinding'' storeName sourceNamespace (projection_labels inst)
       [(''subjects'', UArr
          [UMap [(''kind'', UStr ''ServiceAccount''), (''name'', UStr (inst @ ''-eso-reader'')),
                 (''namespace'', UStr targetNamespace)]]),
        (''roleRef'', UMap [(''apiGroup'', UStr ''rbac.authorization.k8s.io''), (''kind'', UStr ''Role''),
                 (''name'', UStr storeName)])]"

definition kubernetesSecretStore :: "string \<Rightarrow> string \<Rightarrow> string \<Rightarrow> string \<Rightarrow> uval" where
  "kubernetesSecretStore inst storeName sourceNamespace targetNamespace =
     manifest externalSecretsAPIVersion ''SecretStore'' storeName targetNamespace (projection_labels inst)
       [(''spec'', UMap [(''provider'', UMap [(''kubernetes'', UMap
          [(''remoteNamespace'', UStr sourceNamespace),
           (''server'', UMap [(''caProvider'', UMap
              [(''type'', UStr ''ConfigMap''), (''name'', UStr ''kube-root-ca.crt''), (''key'', UStr ''ca.crt'')])]),
           (''auth'', UMap [(''serviceAccount'', UMap [(''name'', UStr (inst @ ''-eso-reader''))])])])])])]"

definition externalSecret ::
  "(string \<times> uval) list \<Rightarrow> string \<Rightarrow> namespaced_ref \<Rightarrow> string \<times> uval \<Rightarrow> uval" where
  "externalSecret labels storeName projectedRef source =
     manifest externalSecretsAPIVersion ''ExternalSecret'' (nr_name projectedRef) (nr_namespace projectedRef) labels
       [(''spec'', UMap
          [(''refreshInterval'', UStr ''1h''),
           (''secretStoreRef'', UMap [(''kind'', UStr ''SecretStore''), (''name'', UStr storeName)]),
           (''target'', UMap [(''name'', UStr (nr_name projectedRef)), (''creationPolicy'', UStr ''Owner''),
              (''deletionPolicy'', UStr ''Delete'')]),
           source])]"

definition vaultSecretStore :: "string \<Rightarrow> string \<Rightarrow> vault_spec \<Rightarrow> uval" where
  "vaultSecretStore inst targetNamespace vault =
     manifest externalSecretsAPIVersion ''SecretStore'' (inst @ ''-vault'') targetNamespace (vault_labels inst)
       [(''spec'', UMap [(''provider'', UMap [(''vault'', UMap
          [(''server'', UStr (va_server vault)), (''path'', UStr (va_path vault)),
           (''version'', UStr (firstNonEmptyTrimmed [va_version vault, ''v2''])),
           (''auth'', UMap [(''tokenSecretRef'', UMap
              [(''name'', UStr (nr_name (va_authSecretRef vault))), (''key'', UStr ''token''),
               (''namespace'', UStr (firstNonEmptyTrimmed [nr_namespace (va_authSecretRef vault), targetNamespace]))])])])])])]"

section \<open>Artifacts\<close>

text \<open>Encoding manifests one after the other, each to its file below \<open>credentials\<close> in the package.\<close>

fun encode_manifests ::
  "(uval \<Rightarrow> go_error + string) \<Rightarrow> string \<Rightarrow> (string \<times> uval) list \<Rightarrow> go_error + rendered_artifact list" where
  "encode_manifests yaml packagePath [] = Inr []"
| "encode_manifests yaml packagePath ((file, m) # rest) =
     bind_sum (yaml m) (\<lambda>content.
       bind_sum (encode_manifests yaml packagePath rest) (\<lambda>artifacts.
         Inr (\<lparr>da_Path = path_join [packagePath, ''credentials'', file], da_Content = content\<rparr> # artifacts)))"

definition kubernetesManifests ::
  "(string \<Rightarrow> string) \<Rightarrow> service_instance \<Rightarrow> namespaced_ref list \<Rightarrow> namespaced_ref list \<Rightarrow>
     (string, string list) gomap \<Rightarrow> (string \<times> uval) list" where
  "kubernetesManifests sha inst sourceRefs projectedRefs sourceSecretKeys =
     (let name = m_name (si_meta inst);
          placed = firstNonEmptyTrimmed [pl_namespace (sit_placement (si_status inst))];
          targetNamespace = (if placed = '''' then nr_namespace (hd sourceRefs) else placed) in
      (''serviceaccount.yaml'', readerServiceAccount name targetNamespace) #
      concat (map (\<lambda>ns.
          [(''role-'' @ ns @ ''.yaml'', readerRole name (secretStoreName sha name ns) ns),
           (''rolebinding-'' @ ns @ ''.yaml'', readerRoleBinding name (secretStoreName sha name ns) ns targetNamespace),
           (''secretstore-'' @ ns @ ''.yaml'', kubernetesSecretStore name (secretStoreName sha name ns) ns targetNamespace)])
        (uniqueSourceNamespaces sourceRefs)) @
      map (\<lambda>(sourceRef, projectedRef).
          (''externalsecret-'' @ nr_name projectedRef @ ''.yaml'',
           externalSecret (projection_labels name)
             (if nr_namespace sourceRef = '''' then '''' else secretStoreName sha name (nr_namespace sourceRef)) projectedRef
             (''data'', UArr (externalSecretDataEntries sourceRef
                (case map_of sourceSecretKeys (nr_namespace sourceRef @ ''/'' @ nr_name sourceRef) of
                   None \<Rightarrow> [] | Some keys \<Rightarrow> keys)))))
        (zip sourceRefs projectedRefs))"

definition vaultManifests ::
  "service_instance \<Rightarrow> vault_spec \<Rightarrow> namespaced_ref list \<Rightarrow> namespaced_ref list \<Rightarrow> (string \<times> uval) list" where
  "vaultManifests inst vault sourceRefs projectedRefs =
     (let name = m_name (si_meta inst);
          placed = firstNonEmptyTrimmed [pl_namespace (sit_placement (si_status inst))];
          targetNamespace = (if placed = '''' then nr_namespace (hd projectedRefs) else placed) in
      (''secretstore-vault.yaml'', vaultSecretStore name targetNamespace vault) #
      map (\<lambda>(sourceRef, projectedRef).
          (''externalsecret-'' @ nr_name projectedRef @ ''.yaml'',
           externalSecret (vault_labels name) (name @ ''-vault'') projectedRef
             (''dataFrom'', UArr [UMap [(''extract'', UMap
                [(''key'', UStr (vaultRemoteSecretKey (va_path vault) (nr_name sourceRef)))])]])))
        (zip sourceRefs projectedRefs))"

definition renderVaultExternalSecretArtifacts ::
  "(uval \<Rightarrow> go_error + string) \<Rightarrow> service_instance \<Rightarrow> string \<Rightarrow> namespaced_ref list \<Rightarrow> namespaced_ref list \<Rightarrow>
     go_error + rendered_artifact list" where
  "renderVaultExternalSecretArtifacts yaml inst packagePath sourceRefs projectedRefs =
     (case sp_vault (sis_secretPolicy (si_spec inst)) of
        None \<Rightarrow> Inr []
      | Some vault \<Rightarrow>
          bind_sum (encode_manifests yaml packagePath (vaultManifests inst vault sourceRefs projectedRefs))
            (\<lambda>artifacts. Inr (sort_key da_Path artifacts)))"

definition renderExternalSecretArtifacts ::
  "(uval \<Rightarrow> go_error + string) \<Rightarrow> (string \<Rightarrow> string) \<Rightarrow> service_instance \<Rightarrow> string \<Rightarrow> namespaced_ref list \<Rightarrow>
     namespaced_ref list \<Rightarrow> (string, string list) gomap \<Rightarrow> go_error + rendered_artifact list" where
  "renderExternalSecretArtifacts yaml sha inst packagePath sourceRefs projectedRefs sourceSecretKeys =
     (if sourceRefs = [] \<or> length sourceRefs \<noteq> length projectedRefs then Inr []
      else if externalSecretProvider (sis_secretPolicy (si_spec inst)) = ExternalSecretProviderVault
      then renderVaultExternalSecretArtifacts yaml inst packagePath sourceRefs projectedRefs
      else bind_sum (encode_manifests yaml packagePath
               (kubernetesManifests sha inst sourceRefs projectedRefs sourceSecretKeys))
             (\<lambda>artifacts. Inr (sort_key da_Path artifacts)))"

end
