(* ===== verification/Instance_Controller.thy ===== *)
theory Instance_Controller
  imports Instance_Argo External_Secrets
begin

text \<open>
  \<open>ServiceInstanceReconciler.Reconcile\<close> of \<open>internal/controllers/serviceinstance_controller.go\<close>, cut into the
  stages it goes through: dependencies, admission and quota, placement, the KubeVirt checks, rendering,
  credentials, delivery, and the status. A stage ends the run with a result or an error, or goes on
  with a value. Metrics and events have no effect here and are left out.
\<close>

section \<open>Stages\<close>

type_synonym ('g, 'a) stage = "'g site \<Rightarrow> (go_error + (reconcile_result + 'a)) \<times> 'g site"

definition goes_on :: "'a \<Rightarrow> ('g, 'a) stage" where
  "goes_on x s = (Inr (Inr x), s)"

definition stops :: "(go_error + reconcile_result) \<times> 'g site \<Rightarrow> (go_error + (reconcile_result + 'a)) \<times> 'g site" where
  "stops r = (case r of (Inl e, s) \<Rightarrow> (Inl e, s) | (Inr x, s) \<Rightarrow> (Inr (Inl x), s))"

definition continue ::
  "(go_error + (reconcile_result + 'a)) \<times> 'g site \<Rightarrow> ('a \<Rightarrow> ('g, 'b) stage) \<Rightarrow> (go_error + (reconcile_result + 'b)) \<times> 'g site" where
  "continue r f =
     (case r of (Inl e, s) \<Rightarrow> (Inl e, s) | (Inr (Inl x), s) \<Rightarrow> (Inr (Inl x), s) | (Inr (Inr y), s) \<Rightarrow> f y s)"

text \<open>A call whose error ends the run.\<close>

definition calls :: "(go_error + 'a) \<times> 'g site \<Rightarrow> (go_error + (reconcile_result + 'a)) \<times> 'g site" where
  "calls r = (case r of (Inl e, s) \<Rightarrow> (Inl e, s) | (Inr x, s) \<Rightarrow> (Inr (Inr x), s))"

definition ended :: "(go_error + (reconcile_result + reconcile_result)) \<times> 'g site \<Rightarrow> (go_error + reconcile_result) \<times> 'g site" where
  "ended r = (case r of (Inl e, s) \<Rightarrow> (Inl e, s) | (Inr (Inl x), s) \<Rightarrow> (Inr x, s) | (Inr (Inr x), s) \<Rightarrow> (Inr x, s))"

abbreviation requeue_5 :: reconcile_result where "requeue_5 \<equiv> \<lparr>rr_requeueAfter = 5\<rparr>"

section \<open>Dependencies\<close>

record instance_deps =
  dp_project :: project
  dp_tenant :: tenant
  dp_class :: service_class
  dp_plan :: service_plan

definition depends_on ::
  "'g instance_env \<Rightarrow> draft \<Rightarrow> string \<Rightarrow> string \<Rightarrow> 'a kind \<Rightarrow> string \<Rightarrow> ('g, 'a) stage" where
  "depends_on env d reason what kind name s =
     (case on_control (get_obj kind name) s of
        (Inl e, s) \<Rightarrow>
          stops (handleDependencyError env d reason
            (''Referenced '' @ what @ '' '' @ quote name @ '' is not available.'') e s)
      | (Inr x, s) \<Rightarrow> goes_on x s)"

definition loadDependencies :: "'g instance_env \<Rightarrow> draft \<Rightarrow> ('g, instance_deps) stage" where
  "loadDependencies env d s =
     (let spec = si_spec (df_instance d) in
      continue (depends_on env d ''ProjectUnavailable'' ''Project'' projects (lr_name (sis_projectRef spec)) s) (\<lambda>project s.
      continue (depends_on env d ''TenantUnavailable'' ''Tenant'' tenants (lr_name (prs_tenantRef (pj_spec project))) s) (\<lambda>tenant s.
      continue (depends_on env d ''ServiceClassUnavailable'' ''ServiceClass'' serviceClasses
          (lr_name (sis_serviceClassRef spec)) s) (\<lambda>cls s.
      continue (depends_on env d ''ServicePlanUnavailable'' ''ServicePlan'' servicePlans
          (lr_name (sis_servicePlanRef spec)) s) (\<lambda>plan.
      goes_on \<lparr>dp_project = project, dp_tenant = tenant, dp_class = cls, dp_plan = plan\<rparr>)))))"

section \<open>Admission\<close>

definition serviceInstanceContains :: "string list \<Rightarrow> string \<Rightarrow> bool" where
  "serviceInstanceContains items target = list_ex (\<lambda>i. i = target) items"

datatype refusal = NotReady string string | NotAllowed string string

definition instanceRefusal :: "'g instance_env \<Rightarrow> service_instance \<Rightarrow> instance_deps \<Rightarrow> error_list \<Rightarrow> refusal option" where
  "instanceRefusal env inst deps policyErrs =
     (let project = dp_project deps; tenant = dp_tenant deps; cls = dp_class deps; plan = dp_plan deps;
          className = lr_name (sis_serviceClassRef (si_spec inst));
          projectName = quote (m_name (pj_meta project)); classRef = quote (m_name (sc_meta cls));
          planRef = quote (m_name (spl_meta plan)) in
      if \<not> serviceInstanceContains (tns_allowedServiceClasses (tn_spec tenant)) className then
        Some (NotAllowed ''ServiceClassNotAllowed''
          (''Service class '' @ quote className @ '' is not allowed by tenant '' @ quote (m_name (tn_meta tenant)) @ ''.''))
      else if \<not> isStatusCurrent (m_generation (pj_meta project)) (prt_observedGeneration (pj_status project)) \<or>
              \<not> conditionTrue (ie_Controllers env) (prt_conditions (pj_status project)) ''Ready'' then
        Some (NotReady ''ProjectPending'' (''Referenced Project '' @ projectName @ '' is not ready yet.''))
      else if lr_name (sps_serviceClassRef (spl_spec plan)) \<noteq> m_name (sc_meta cls) then
        Some (NotAllowed ''ServicePlanMismatch''
          (''Service plan '' @ planRef @ '' does not belong to service class '' @ classRef @ ''.''))
      else if \<not> isStatusCurrent (m_generation (sc_meta cls)) (sct_observedGeneration (sc_status cls)) then
        Some (NotReady ''ServiceClassPending''
          (''Referenced ServiceClass '' @ classRef @ '' has not completed reconciliation yet.''))
      else if \<not> conditionTrue (ie_Controllers env) (sct_conditions (sc_status cls)) ''Accepted'' then
        Some (NotReady ''ServiceClassPendingAcceptance''
          (''Referenced ServiceClass '' @ classRef @ '' has not been accepted yet; waiting for controller reconciliation.''))
      else if \<not> sct_published (sc_status cls) then
        Some (NotAllowed ''ServiceClassUnpublished''
          (''Referenced ServiceClass '' @ classRef @ '' is not published for provisioning.''))
      else if \<not> isStatusCurrent (m_generation (spl_meta plan)) (spt_observedGeneration (spl_status plan)) then
        Some (NotReady ''ServicePlanPending''
          (''Referenced ServicePlan '' @ planRef @ '' has not completed reconciliation yet.''))
      else if \<not> conditionTrue (ie_Controllers env) (spt_conditions (spl_status plan)) ''Accepted'' then
        Some (NotAllowed ''ServicePlanInvalid''
          (''Referenced ServicePlan '' @ planRef @ '' is invalid and cannot be used for provisioning.''))
      else if \<not> spt_published (spl_status plan) then
        Some (NotAllowed ''ServicePlanUnpublished''
          (''Referenced ServicePlan '' @ planRef @ '' is not published for provisioning.''))
      else if policyErrs \<noteq> [] then Some (NotAllowed ''PolicyViolation'' (ie_errorsText env policyErrs))
      else None)"

text \<open>The policies as the evaluator reads them: each read may fail on its own.\<close>

definition policyReader :: "'g instance_env \<Rightarrow> control \<Rightarrow> string \<Rightarrow> api_error + policy" where
  "policyReader env w name =
     (case ie_policyFault env name of
        Some e \<Rightarrow> Inl e
      | None \<Rightarrow> (case map_of (co_policies w) name of None \<Rightarrow> Inl NotFound | Some p \<Rightarrow> Inr p))"

definition policyErrors :: "'g instance_env \<Rightarrow> service_instance \<Rightarrow> instance_deps \<Rightarrow> control \<Rightarrow> error_list" where
  "policyErrors env inst deps w =
     evaluateInstancePolicies (Some (policyReader env w)) (Some inst) (Some (dp_tenant deps)) (Some (dp_project deps))
       (Some (dp_plan deps))"

text \<open>The quota that binds: the one the project controller has published, else the one it would publish.\<close>

definition bindingQuota :: "project \<Rightarrow> tenant \<Rightarrow> project_quotas_spec" where
  "bindingQuota project tenant =
     (let quota = prt_effectiveQuota (pj_status project) in
      if pq_maxServices quota = None \<and> pq_maxNamespaces quota = None
      then effectiveProjectQuota (Some project) (Some tenant) else quota)"

definition enforceProjectQuota :: "'g instance_env \<Rightarrow> draft \<Rightarrow> project \<Rightarrow> tenant \<Rightarrow> ('g, unit) stage" where
  "enforceProjectQuota env d project tenant s =
     (let quota = bindingQuota project tenant; name = quote (m_name (pj_meta project)) in
      if pq_maxServices quota = None \<and> pq_maxNamespaces quota = None then goes_on () s
      else continue (calls (pass (on_control (list_obj serviceInstances) s))) (\<lambda>items s.
        let serviceCount = wrap_int32 (int (length (counted_instances project items)));
            namespaces = length (counted_namespaces project items) in
        if (case pq_maxServices quota of Some m \<Rightarrow> serviceCount > m | None \<Rightarrow> False) then
          stops (handleValidationFailure env d ''ProjectServiceQuotaExceeded''
            (''Project '' @ name @ '' allows at most '' @ show_int (the (pq_maxServices quota)) @
             '' service instances; observed '' @ show_int serviceCount @ ''.'') s)
        else if (case pq_maxNamespaces quota of Some m \<Rightarrow> int namespaces > m | None \<Rightarrow> False) then
          stops (handleValidationFailure env d ''ProjectNamespaceQuotaExceeded''
            (''Project '' @ name @ '' allows at most '' @ show_int (the (pq_maxNamespaces quota)) @
             '' namespaces; observed '' @ show_nat namespaces @ ''.'') s)
        else goes_on () s))"

definition admitInstance :: "'g instance_env \<Rightarrow> draft \<Rightarrow> instance_deps \<Rightarrow> ('g, unit) stage" where
  "admitInstance env d deps s =
     (case instanceRefusal env (drafted d) deps (policyErrors env (drafted d) deps (st_control s)) of
        Some (NotReady reason message) \<Rightarrow> stops (handleDependencyPending env d reason message s)
      | Some (NotAllowed reason message) \<Rightarrow> stops (handleValidationFailure env d reason message s)
      | None \<Rightarrow> enforceProjectQuota env d (dp_project deps) (dp_tenant deps) s)"

section \<open>Placement\<close>

definition waitingFor :: "'g instance_env \<Rightarrow> string \<Rightarrow> string \<Rightarrow> string \<Rightarrow> string \<Rightarrow> draft \<Rightarrow> draft" where
  "waitingFor env reason message synced failed d =
     mark env [(''Materialized'', ConditionFalse, reason, message), (''Synced'', ConditionFalse, reason, synced),
         (''Ready'', ConditionFalse, reason, message), (''Failed'', ConditionFalse, reason, failed)]
       (in_phase ''PendingDependencies'' d)"

definition waitingForPackages :: "'g instance_env \<Rightarrow> string \<Rightarrow> draft \<Rightarrow> draft" where
  "waitingForPackages env message = waitingFor env ''OperatorPackagePending'' message
     ''Service instance is waiting for required operator packages to become ready.''
     ''Service instance is blocked on an operator dependency, not failed.''"

definition waitingForKubeVirt :: "'g instance_env \<Rightarrow> string \<Rightarrow> draft \<Rightarrow> draft" where
  "waitingForKubeVirt env message = waitingFor env ''RuntimeDependencyMissing'' message
     ''Service instance is waiting for KubeVirt runtime dependencies.''
     ''Service instance is blocked on a runtime dependency, not failed.''"

text \<open>The placement of the instance, and the target that its project selects, if it selects one.\<close>

definition placed :: "'g instance_env \<Rightarrow> project \<Rightarrow> draft \<Rightarrow> draft" where
  "placed env project d =
     mark env [(''Accepted'', ConditionTrue, ''SpecAccepted'', ''Service instance accepted for reconciliation.'')]
       (in_status (\<lambda>st. st\<lparr>sit_placement := \<lparr>pl_clusterName = resolvedClusterName project,
          pl_namespace = resolvedNamespace project (df_instance d)\<rparr>\<rparr>) d)"

definition selectedTarget :: "'g instance_env \<Rightarrow> draft \<Rightarrow> project \<Rightarrow> ('g, cluster_target option) stage" where
  "selectedTarget env d project s =
     (case ts_clusterRef (prs_targetSelector (pj_spec project)) of
        None \<Rightarrow> goes_on None s
      | Some ref \<Rightarrow>
          continue (depends_on env d ''ClusterTargetUnavailable'' ''ClusterTarget'' clusterTargets (lr_name ref) s)
            (\<lambda>target. goes_on (Some target)))"

definition packagesTarget ::
  "'g instance_env \<Rightarrow> draft \<Rightarrow> project \<Rightarrow> cluster_target option \<Rightarrow> ('g, cluster_target option) stage" where
  "packagesTarget env d project target s =
     (let clusterName = resolvedClusterName project in
      case target of
        Some t \<Rightarrow> goes_on (Some t) s
      | None \<Rightarrow>
          (case on_control (resolveClusterTargetForProject project clusterName) s of
             (Inl e, s) \<Rightarrow>
               stops (handleDependencyError env d ''ClusterTargetUnavailable''
                 (''Resolved ClusterTarget '' @ quote clusterName @ '' is not available.'') e s)
           | (Inr resolved, s) \<Rightarrow> goes_on resolved s))"

definition requirePackages ::
  "'g instance_env \<Rightarrow> draft \<Rightarrow> instance_deps \<Rightarrow> cluster_target option \<Rightarrow> ('g, draft \<times> cluster_target option) stage" where
  "requirePackages env d deps target s =
     (let required = requiredPackagesForServiceInstance (Some (dp_class deps)) (Some (drafted d)) in
      if required = [] then goes_on (d, target) s
      else continue (packagesTarget env d (dp_project deps) target s) (\<lambda>target s.
        case packagesReady target required of
          (True, _) \<Rightarrow> goes_on (d, target) s
        | (False, message) \<Rightarrow> stops (persisted requeue_30 (waitingForPackages env message d) s)))"

definition placeInstance :: "'g instance_env \<Rightarrow> draft \<Rightarrow> instance_deps \<Rightarrow> ('g, draft \<times> cluster_target option) stage" where
  "placeInstance env d0 deps s =
     (let project = dp_project deps; d = placed env project d0 in
      if resolvedClusterName project = '''' then
        stops (persisted requeue_30
          (mark env [(''Placed'', ConditionFalse, ''PlacementPending'', ''Service instance is waiting for cluster placement.'')]
            (in_phase ''PendingPlacement'' d)) s)
      else continue (selectedTarget env d project s) (requirePackages env d deps))"

abbreviation kubeVirtServiceClassDriver :: string where "kubeVirtServiceClassDriver \<equiv> ''kubevirt''"

text \<open>Virtual machines need a client of the target and KubeVirt on it; other classes get their client later.\<close>

definition connectKubeVirt ::
  "'g instance_env \<Rightarrow> draft \<Rightarrow> service_class \<Rightarrow> cluster_target option \<Rightarrow> ('g, client option) stage" where
  "connectKubeVirt env d cls target s =
     (let waits = (\<lambda>message s. stops (persisted requeue_30 (waitingForKubeVirt env message d) s)) in
      if scs_driver (sc_spec cls) \<noteq> kubeVirtServiceClassDriver then goes_on None s
      else (case target of
        None \<Rightarrow> waits ''KubeVirt provisioning requires placement on a reachable remote ClusterTarget.'' s
      | Some t \<Rightarrow>
          continue (calls (getTargetClient env target s)) (\<lambda>c s.
            case c of
              None \<Rightarrow> waits (''ClusterTarget '' @ quote (m_name (ctg_meta t)) @
                '' does not have usable connection credentials for KubeVirt runtime validation.'') s
            | Some c \<Rightarrow>
                continue (calls (kubeVirtDependenciesReady (Some c) s)) (\<lambda>(ready, message) s.
                  if ready then goes_on (Some c) s else waits message s))))"

section \<open>Rendering\<close>

definition service_context_of :: "instance_deps \<Rightarrow> cluster_target option \<Rightarrow> draft \<Rightarrow> service_context" where
  "service_context_of deps target d =
     \<lparr>sx_Tenant = Some (dp_tenant deps), sx_Project = Some (dp_project deps), sx_ClusterTarget = target,
      sx_Class = Some (dp_class deps), sx_Plan = Some (dp_plan deps), sx_Instance = Some (drafted d)\<rparr>"

definition validationStopped :: "'g instance_env \<Rightarrow> string \<Rightarrow> string \<Rightarrow> string \<Rightarrow> draft \<Rightarrow> draft" where
  "validationStopped env reason message failed d =
     mark env [(''Accepted'', ConditionFalse, reason, message),
         (''Materialized'', ConditionFalse, reason, ''Service instance validation failed before materialization.''),
         (''Synced'', ConditionFalse, reason, ''Service instance validation failed before sync readiness.''),
         (''Ready'', ConditionFalse, reason, ''Service instance validation failed before runtime reconciliation.''),
         (''Failed'', ConditionTrue, reason, failed)]
       (in_phase ''Failed'' d)"

definition unsupportedClass :: "'g instance_env \<Rightarrow> draft \<Rightarrow> draft" where
  "unsupportedClass env d =
     mark env [(''Accepted'', ConditionFalse, ''UnsupportedServiceClass'',
           ''No adapter is registered for service class '' @
           quote (lr_name (sis_serviceClassRef (si_spec (df_instance d)))) @ ''.''),
         (''Materialized'', ConditionFalse, ''UnsupportedServiceClass'',
           ''Service instance cannot be materialized because its service class is unsupported.''),
         (''Synced'', ConditionFalse, ''UnsupportedServiceClass'',
           ''Service instance cannot become sync-ready because its service class is unsupported.''),
         (''Ready'', ConditionFalse, ''UnsupportedServiceClass'',
           ''Service instance cannot reconcile runtime health because its service class is unsupported.''),
         (''Failed'', ConditionTrue, ''UnsupportedServiceClass'',
           ''Service instance cannot be reconciled because its service class is unsupported.'')]
       (in_phase ''Failed'' d)"

definition productionDeliveryRequired :: "'g instance_env \<Rightarrow> render_result \<Rightarrow> bool" where
  "productionDeliveryRequired env rendered \<longleftrightarrow> ie_ProductionMode env \<and> length (rd_Artifacts rendered) > 0"

definition deliveryPublishingConfigured :: "'g instance_env \<Rightarrow> 'g site \<Rightarrow> bool \<times> 'g site" where
  "deliveryPublishingConfigured env s =
     (case ie_Publisher env of
        None \<Rightarrow> (False, s)
      | Some p \<Rightarrow>
          if blank (ie_DeliveryRepoURL env) then (False, s)
          else (case on_files (Enabled p) s of
             (enabled, s) \<Rightarrow> (enabled \<and> pb_AutoCommit p \<and> pb_AutoPush p, s)))"

definition renderInstance ::
  "'g instance_env \<Rightarrow> draft \<Rightarrow> instance_deps \<Rightarrow> cluster_target option \<Rightarrow> ('g, service_adapter \<times> render_result) stage" where
  "renderInstance env d deps target s =
     (let ctx = service_context_of deps target d in
      case GetAdapter (ce_adapters (ie_Controllers env)) (lr_name (sis_serviceClassRef (si_spec (df_instance d)))) of
        None \<Rightarrow> stops (persisted done_result (unsupportedClass env d) s)
      | Some adapter \<Rightarrow>
          (case ad_Validate adapter ctx of
             Inl e \<Rightarrow>
               stops (persisted done_result
                 (validationStopped env ''ValidationError'' (error_text env e) (error_text env e) d) s)
           | Inr result \<Rightarrow>
               if \<not> vr_Valid result then
                 stops (persisted done_result
                   (validationStopped env ''ValidationFailed'' (summarizeValidationIssues (vr_Issues result))
                     ''Service instance validation failed.'' d) s)
               else (case ad_Render adapter ctx of
                  Inl e \<Rightarrow>
                    stops (persisted done_result
                      (mark env [(''Materialized'', ConditionFalse, ''RenderFailed'', error_text env e),
                          (''Failed'', ConditionTrue, ''RenderFailed'', error_text env e)]
                        (in_phase ''Failed'' d)) s)
                | Inr rendered \<Rightarrow>
                    if productionDeliveryRequired env rendered then
                      (case deliveryPublishingConfigured env s of
                         (True, s) \<Rightarrow> goes_on (adapter, rendered) s
                       | (False, s) \<Rightarrow>
                           stops (persisted requeue_30
                             (markDeliveryRepoRequired env ''DeliveryRepoRequired''
                               ''Production mode requires delivery repository publishing with auto-commit and auto-push before service instances can be provisioned.'' d) s))
                    else goes_on (adapter, rendered) s)))"

section \<open>Credentials\<close>

text \<open>
  The error of \<open>renderExternalSecretArtifacts\<close> is assigned to a variable of its own block: outside of it there is
  no error, and the run goes on with the Secrets of the runtime.
\<close>

definition projectCredentials ::
  "'g instance_env \<Rightarrow> draft \<Rightarrow> render_result \<Rightarrow> client option \<Rightarrow> ('g, render_result \<times> namespaced_ref list) stage" where
  "projectCredentials env d rendered targetClient s =
     (let inst = drafted d; refs = rd_CredentialRefs rendered in
      if sp_deliveryMode (sis_secretPolicy (si_spec inst)) \<noteq> SecretDeliveryModeExternalSecret
      then goes_on (rendered, refs) s
      else (case credentialSecretKeys targetClient refs [] s of
         (Inl e, s) \<Rightarrow>
           stops (persisted done_result
             (mark env [(''Materialized'', ConditionFalse, ''ExternalSecretRenderFailed'', error_text env e),
                 (''Failed'', ConditionTrue, ''ExternalSecretRenderFailed'', ''Credential projection artifacts could not be rendered.'')]
               (in_phase ''Failed'' d)) s)
       | (Inr keys, s) \<Rightarrow>
           (let projected = projectedCredentialRefs inst refs in
            case renderExternalSecretArtifacts (ie_yaml env) (ie_sha env) inst (rd_PackagePath rendered) refs projected keys of
              Inl _ \<Rightarrow> goes_on (rendered, refs) s
            | Inr artifacts \<Rightarrow>
                goes_on (rendered\<lparr>rd_Artifacts := rd_Artifacts rendered @ artifacts\<rparr>, projected) s)))"

definition provideCredentials ::
  "'g instance_env \<Rightarrow> draft \<Rightarrow> render_result \<Rightarrow> cluster_target option \<Rightarrow> client option \<Rightarrow>
     ('g, client option \<times> render_result \<times> namespaced_ref list) stage" where
  "provideCredentials env d rendered target client0 s =
     continue (case client0 of Some c \<Rightarrow> goes_on (Some c) s | None \<Rightarrow> calls (getTargetClient env target s)) (\<lambda>targetClient s.
       case ensureCredentialSecrets (ie_unicode env) (ie_random env) (drafted d) rendered targetClient s of
         (Inl e, s) \<Rightarrow>
           if is_not_found e then stops (persisted requeue_5 (markCredentialProjectionPending env d) s)
           else stops (persisted done_result
             (mark env [(''Ready'', ConditionFalse, ''CredentialProjectionFailed'', error_text env e),
                 (''Failed'', ConditionTrue, ''CredentialProjectionFailed'', ''Service instance credential projection failed.'')]
               (in_phase ''Failed'' d)) s)
       | (Inr _, s) \<Rightarrow>
           continue (projectCredentials env d rendered targetClient s) (\<lambda>(rendered, refs).
             goes_on (targetClient, rendered, refs)))"

section \<open>Delivery\<close>

definition materializeFailed :: "'g instance_env \<Rightarrow> string \<Rightarrow> draft \<Rightarrow> draft" where
  "materializeFailed env text d =
     mark env [(''Materialized'', ConditionFalse, ''MaterializeFailed'', text),
         (''Synced'', ConditionFalse, ''MaterializeFailed'', ''Delivery artifacts are not ready for Argo CD reconciliation.''),
         (''Ready'', ConditionFalse, ''MaterializeFailed'', ''Service instance runtime cannot be reconciled until delivery artifacts are materialized.''),
         (''Failed'', ConditionTrue, ''MaterializeFailed'', ''Delivery artifacts could not be materialized.'')]
       (in_phase ''Failed'' d)"

definition publishFailed :: "'g instance_env \<Rightarrow> string \<Rightarrow> draft \<Rightarrow> draft" where
  "publishFailed env text d =
     mark env [(''Materialized'', ConditionFalse, ''PublishFailed'', text),
         (''Synced'', ConditionFalse, ''PublishFailed'', ''Delivery artifacts could not be published to the configured Git worktree.''),
         (''Failed'', ConditionTrue, ''PublishFailed'', ''Delivery artifacts could not be published.'')]
       (in_phase ''Failed'' d)"

definition materializer_root :: "'g instance_env \<Rightarrow> string" where
  "materializer_root env = (case ie_Materializer env of Some root \<Rightarrow> root | None \<Rightarrow> NewMaterializer '''')"

text \<open>\<open>r.Publisher != nil && r.Publisher.Enabled()\<close>, and publishing if so.\<close>

definition publishIfEnabled ::
  "'g instance_env \<Rightarrow> publish_request \<Rightarrow> ('g, publish_result) step" where
  "publishIfEnabled env request s =
     (case ie_Publisher env of
        None \<Rightarrow> (Inr no_publish, s)
      | Some p \<Rightarrow>
          (case on_files (Enabled p) s of
             (False, s) \<Rightarrow> (Inr no_publish, s)
           | (True, s) \<Rightarrow> on_worktree (Publish (ie_git env) (ie_cwd env) p request) s))"

definition deliverInstance ::
  "'g instance_env \<Rightarrow> draft \<Rightarrow> project \<Rightarrow> render_result \<Rightarrow>
     ('g, materialize_result \<times> publish_result \<times> string) stage" where
  "deliverInstance env d project rendered s =
     (case on_files (Materialize (ie_sha env) (materializer_root env)
             \<lparr>mq_PackagePath = rd_PackagePath rendered, mq_PackagePaths = rd_PackagePaths rendered,
              mq_Artifacts = rd_Artifacts rendered\<rparr>) s of
        (Inl e, s) \<Rightarrow> stops (persisted done_result (materializeFailed env (error_text env e) d) s)
      | (Inr m, s) \<Rightarrow>
          (case publishIfEnabled env
                  \<lparr>pq_PackagePath = rd_PackagePath rendered, pq_PackagePaths = rd_PackagePaths rendered,
                   pq_Artifacts = rd_Artifacts rendered, pq_Revision = mr_Revision m,
                   pq_Message = ''servicer: publish '' @ m_name (pj_meta project) @ ''/'' @
                     m_name (si_meta (df_instance d))\<rparr> s of
             (Inl e, s) \<Rightarrow> stops (persisted done_result (publishFailed env (error_text env e) d) s)
           | (Inr p, s) \<Rightarrow>
               if productionDeliveryRequired env rendered \<and> \<not> pu_Pushed p then
                 stops (persisted requeue_30
                   (markDeliveryRepoRequired env ''DeliveryPushRequired''
                     ''Production mode requires delivery artifacts to be pushed to the configured Git repository before service instances can be provisioned.'' d) s)
               else goes_on (m, p, if pu_PublishedPath p \<noteq> '''' then pu_PublishedPath p else mr_Path m) s))"

section \<open>The status at the end\<close>

definition delivery_message :: "publish_result \<Rightarrow> string" where
  "delivery_message p =
     ''Delivery artifacts are materialized and ready for Argo CD reconciliation.'' @
     (if pu_Commit p \<noteq> '''' then '' Published commit '' @ shortCommit (pu_Commit p) @ ''.'' else '''') @
     (if pu_Pushed p then '' Pushed to '' @ pu_Remote p @ ''/'' @ pu_Branch p @ ''.'' else '''')"

definition materialized ::
  "'g instance_env \<Rightarrow> project \<Rightarrow> render_result \<Rightarrow> namespaced_ref list \<Rightarrow> materialize_result \<Rightarrow> publish_result \<Rightarrow>
     draft \<Rightarrow> draft" where
  "materialized env project rendered refs m p d =
     mark env [(''Placed'', ConditionTrue, ''PlacementResolved'', ''Service instance placement resolved.''),
         (''Materialized'', ConditionTrue, ''ArtifactsMaterialized'', ''Delivery artifacts materialized successfully.''),
         (''Synced'', ConditionFalse, ''AwaitingArgoCD'', ''Delivery artifacts are ready for Argo CD reconciliation.''),
         (''Ready'', ConditionFalse, ''AwaitingRuntime'', ''Service instance runtime health has not yet been observed.''),
         (''Failed'', ConditionFalse, ''ReconciliationProgressing'', ''Service instance has materialized successfully.'')]
       (in_status (\<lambda>st. st\<lparr>sit_phase := ''Materialized'',
           sit_runtime := (sit_runtime st)\<lparr>rt_driver := rd_RuntimeDriver rendered, rt_objectRef := rd_PrimaryResource rendered\<rparr>,
           sit_endpoints := endpointStatus (rd_Endpoints rendered),
           sit_credentialRefs := refs,
           sit_artifact := materializedArtifactStatus m,
           sit_sync := \<lparr>ds_phase = ''Pending'', ds_applicationName = argoApplicationName project (df_instance d),
             ds_message = delivery_message p\<rparr>,
           sit_health := \<lparr>hs_summary = ''Materialized '' @ show_nat (length (rd_Artifacts rendered)) @
             '' artifact(s) for '' @ rd_RuntimeDriver rendered @ ''.''\<rparr>\<rparr>) d)"

definition applicationFailed :: "'g instance_env \<Rightarrow> string \<Rightarrow> draft \<Rightarrow> draft" where
  "applicationFailed env text d =
     mark env [(''Synced'', ConditionFalse, ''ArgoApplicationFailed'', text),
         (''Failed'', ConditionTrue, ''ArgoApplicationFailed'', ''Argo CD application could not be reconciled.'')]
       (in_phase ''Failed'' d)"

definition observeInstance ::
  "'g instance_env \<Rightarrow> draft \<Rightarrow> instance_deps \<Rightarrow> cluster_target option \<Rightarrow> client option \<Rightarrow> service_adapter \<Rightarrow>
     render_result \<Rightarrow> namespaced_ref list \<Rightarrow> materialize_result \<Rightarrow> ('g, reconcile_result) step" where
  "observeInstance env d deps target targetClient adapter rendered refs m s =
     and_then (observeRuntime (rd_PrimaryResource rendered) refs targetClient s) (\<lambda>(runtime, resources) s.
       case ad_Observe adapter
              \<lparr>ob_Context = service_context_of deps target d, ob_ObservedResources = resources,
               ob_ArtifactRevision = mr_Revision m,
               ob_ApplicationName = ds_applicationName (sit_sync (si_status (df_instance d))),
               ob_Runtime = runtime\<rparr> of
         Inl e \<Rightarrow> (Inl e, s)
       | Inr status \<Rightarrow>
           (case applyArgoObservedStatus env (applyObservedStatus env status d) s of
              (d, s) \<Rightarrow>
                persisted (if sit_phase (si_status (df_instance d)) \<noteq> ''Ready'' then requeue_5 else done_result) d s))"

definition finishInstance ::
  "'g instance_env \<Rightarrow> draft \<Rightarrow> instance_deps \<Rightarrow> cluster_target option \<Rightarrow> client option \<Rightarrow> service_adapter \<Rightarrow>
     render_result \<Rightarrow> namespaced_ref list \<Rightarrow> materialize_result \<Rightarrow> publish_result \<Rightarrow> string \<Rightarrow>
     ('g, reconcile_result) step" where
  "finishInstance env d0 deps target targetClient adapter rendered refs m p publishedPath s =
     (let project = dp_project deps; d = materialized env project rendered refs m p d0 in
      case ensureArgoApplication env project d publishedPath (rd_PackagePaths rendered) s of
        (Inl e, s) \<Rightarrow> persisted done_result (applicationFailed env (error_text env e) d) s
      | (Inr d, s) \<Rightarrow> observeInstance env d deps target targetClient adapter rendered refs m s)"

section \<open>The run of an instance that stays\<close>

definition provisionInstance :: "'g instance_env \<Rightarrow> draft \<Rightarrow> ('g, reconcile_result) step" where
  "provisionInstance env d s = ended
     (continue (loadDependencies env d s) (\<lambda>deps s.
      continue (admitInstance env d deps s) (\<lambda>_ s.
      continue (placeInstance env d deps s) (\<lambda>(d, target) s.
      continue (connectKubeVirt env d (dp_class deps) target s) (\<lambda>c s.
      continue (renderInstance env d deps target s) (\<lambda>(adapter, rendered) s.
      continue (provideCredentials env d rendered target c s) (\<lambda>(c, rendered, refs) s.
      continue (deliverInstance env d (dp_project deps) rendered s) (\<lambda>(m, p, path) s.
      calls (finishInstance env d deps target c adapter rendered refs m p path s)))))))))"

end
