(* ===== verification/Instance_Reconcile.thy ===== *)
theory Instance_Reconcile
  imports Instance_Controller
begin

text \<open>
  \<open>ServiceInstanceReconciler.Reconcile\<close> as a whole, \<open>internal/controllers/serviceinstance_controller.go\<close>: the
  instance is read; one that is being deleted is cleaned up, one without the finalizer gets it, any
  other goes through the stages of \<open>Instance_Controller\<close>. What a namespace holds is removed by its cluster once
  the namespace is deleted, which is not a step of the reconciler.
\<close>

section \<open>Finalizers\<close>

abbreviation instanceFinalizer :: string where "instanceFinalizer \<equiv> ''servicer.io/instance-cleanup''"

definition removeFromSlice :: "string list \<Rightarrow> string \<Rightarrow> string list" where
  "removeFromSlice items target = filter (\<lambda>i. i \<noteq> target) items"

text \<open>
  \<open>Update\<close> with a new list of finalizers: the status is a subresource and stays as it is stored. The server
  removes an object that is being deleted with its last finalizer.
\<close>

definition stored_finalizers :: "string \<Rightarrow> string list \<Rightarrow> control \<Rightarrow> control" where
  "stored_finalizers name finalizers w =
     (case map_of (co_instances w) name of
        None \<Rightarrow> w
      | Some i \<Rightarrow>
          w\<lparr>co_instances :=
            (if finalizers = [] \<and> m_deletionTimestamp (si_meta i) \<noteq> None then AList.delete name (co_instances w)
             else AList.update name (i\<lparr>si_meta := (si_meta i)\<lparr>m_finalizers := finalizers\<rparr>\<rparr>) (co_instances w))\<rparr>)"

definition updateFinalizers :: "string \<Rightarrow> string list \<Rightarrow> control \<Rightarrow> (api_error + unit) \<times> control" where
  "updateFinalizers name finalizers w =
     (case control_fault w of
        (Refused e, w) \<Rightarrow> (Inl e, w)
      | (Lost e, w) \<Rightarrow> (Inl e, stored_finalizers name finalizers w)
      | (Works, w) \<Rightarrow>
          (if map_of (co_instances w) name = None then Inl NotFound else Inr (), stored_finalizers name finalizers w))"

section \<open>Deletion\<close>

text \<open>
  The client of the cluster the service runs on. Where the project or its cluster target cannot be found
  it is the client of the management cluster.
\<close>

definition deletionClient :: "'g instance_env \<Rightarrow> service_instance \<Rightarrow> ('g, client) step" where
  "deletionClient env inst s =
     (let projectName = lr_name (sis_projectRef (si_spec inst)) in
      if projectName = '''' then (Inr Management, s)
      else if_found (on_control (get_obj projects projectName) s)
        (\<lambda>project s.
           if resolvedClusterName project = '''' then (Inr Management, s)
           else (case on_control (resolveClusterTargetForProject project (resolvedClusterName project)) s of
              (Inl _, s) \<Rightarrow> (Inr Management, s)
            | (Inr target, s) \<Rightarrow>
                and_then (getTargetClient env target s) (\<lambda>c s.
                  (Inr (case c of Some c \<Rightarrow> c | None \<Rightarrow> Management), s))))
        (\<lambda>s. (Inr Management, s)))"

definition purgeArtifacts :: "'g instance_env \<Rightarrow> service_instance \<Rightarrow> ('g, unit) step" where
  "purgeArtifacts env inst s =
     (let path = as_path (sit_artifact (si_status inst)) in
      if path = '''' then (Inr (), s)
      else (case on_files (Purge (materializer_root env) path) s of
         (Inl e, s) \<Rightarrow> (Inl (Wrapf (''purge artifacts for '' @ quote (m_name (si_meta inst))) e), s)
       | (Inr _, s) \<Rightarrow> (Inr (), s)))"

definition deleteRuntimeNamespace :: "client \<Rightarrow> service_instance \<Rightarrow> ('g, unit) step" where
  "deleteRuntimeNamespace c inst s =
     (let ns = pl_namespace (sit_placement (si_status inst)) in
      if ns = '''' then (Inr (), s)
      else if_found (kube_get c (namespaceKey ns) s)
        (\<lambda>_ s. case kube_delete c (namespaceKey ns) s of
             (Inl e, s) \<Rightarrow>
               (if e = NotFound then Inr () else Inl (Wrapf (''delete namespace '' @ quote ns) (ApiError e)), s)
           | (Inr _, s) \<Rightarrow> (Inr (), s))
        (\<lambda>s. (Inr (), s)))"

text \<open>\<open>schema.ParseGroupVersion\<close> fails on more than one slash.\<close>

definition parses_as_group_version :: "string \<Rightarrow> bool" where
  "parses_as_group_version v \<longleftrightarrow> length (filter (\<lambda>ch. ch = CHR ''/'') v) \<le> 1"

definition deletePrimaryResource :: "client \<Rightarrow> service_instance \<Rightarrow> ('g, unit) step" where
  "deletePrimaryResource c inst s =
     (case rt_objectRef (sit_runtime (si_status inst)) of
        None \<Rightarrow> (Inr (), s)
      | Some ref \<Rightarrow>
          if \<not> parses_as_group_version (tr_apiVersion ref) then (Inr (), s)
          else (case kube_delete c (ref_key ref) s of
             (Inl e, s) \<Rightarrow>
               (if e = NotFound \<or> e = NoMatch then Inr ()
                else Inl (Wrapf (''delete primary resource '' @ tr_apiVersion ref @ ''/'' @ tr_kind ref @ '' '' @
                  quote (tr_name ref)) (ApiError e)), s)
           | (Inr _, s) \<Rightarrow> (Inr (), s)))"

definition handleDeletion :: "'g instance_env \<Rightarrow> service_instance \<Rightarrow> ('g, reconcile_result) step" where
  "handleDeletion env inst s =
     and_then (deletionClient env inst s) (\<lambda>c s.
     and_then (purgeArtifacts env inst s) (\<lambda>_ s.
     and_then (deleteRuntimeNamespace c inst s) (\<lambda>_ s.
     and_then (deletePrimaryResource c inst s) (\<lambda>_ s.
     and_then (pass (on_control (updateFinalizers (m_name (si_meta inst))
         (removeFromSlice (m_finalizers (si_meta inst)) instanceFinalizer)) s)) (\<lambda>_ s.
       (Inr done_result, s))))))"

section \<open>One run\<close>

definition ServiceInstanceReconcile :: "'g instance_env \<Rightarrow> string \<Rightarrow> ('g, reconcile_result) step" where
  "ServiceInstanceReconcile env name s =
     (case on_control (get_obj serviceInstances name) s of
        (Inl e, s) \<Rightarrow> (ignoreNotFound e, s)
      | (Inr inst, s) \<Rightarrow>
          if m_deletionTimestamp (si_meta inst) \<noteq> None then handleDeletion env inst s
          else if \<not> serviceInstanceContains (m_finalizers (si_meta inst)) instanceFinalizer then
            and_then (pass (on_control (updateFinalizers name (m_finalizers (si_meta inst) @ [instanceFinalizer])) s))
              (\<lambda>_ s. (Inr done_result, s))
          else provisionInstance env (draft_of env inst) s)"

end
