(* ===== verification/Instance_Samples.thy ===== *)
theory Instance_Samples
  imports Instance_Reconcile Catalog_Facts
begin

text \<open>
  A management cluster in which the database \<open>db\<close> of the project \<open>shop\<close> passes every gate, with an adapter that
  renders one artifact, for the theorems about runs of the reconciler. They model no code.
\<close>

definition true_condition :: "string \<Rightarrow> condition" where
  "true_condition t = \<lparr>c_type = t, c_status = ConditionTrue, c_observedGeneration = 1, c_lastTransitionTime = 0,
     c_reason = '''', c_message = ''''\<rparr>"

definition openProject :: project where
  "openProject = sampleProject\<lparr>pj_status := (pj_status sampleProject)\<lparr>prt_observedGeneration := 1,
     prt_conditions := [true_condition ''Ready''], prt_placement := \<lparr>pl_clusterName = ''c1'', pl_namespace = ''''\<rparr>\<rparr>\<rparr>"

definition openClass :: service_class where
  "openClass = sampleClass\<lparr>sc_status := (sc_status sampleClass)\<lparr>sct_observedGeneration := 1,
     sct_conditions := [true_condition ''Accepted'']\<rparr>\<rparr>"

definition openPlan :: service_plan where
  "openPlan = (samplePlan [] None)\<lparr>spl_status := (spl_status (samplePlan [] None))\<lparr>spt_observedGeneration := 1,
     spt_conditions := [true_condition ''Accepted'']\<rparr>\<rparr>"

definition openInstance :: service_instance where
  "openInstance = (sampleInstance None)\<lparr>si_meta := (sampleMeta ''db'')\<lparr>m_finalizers := [instanceFinalizer]\<rparr>,
     si_spec := (si_spec (sampleInstance None))\<lparr>sis_projectRef := \<lparr>lr_name = ''shop''\<rparr>,
       sis_secretPolicy := \<lparr>sp_deliveryMode = SecretDeliveryModeDirectSecretRef, sp_externalSecretProvider = '''',
         sp_vault = None\<rparr>\<rparr>\<rparr>"

definition openControl :: control where
  "openControl = empty_control\<lparr>co_tenants := [(''acme'', sampleTenant)], co_projects := [(''shop'', openProject)],
     co_classes := [(''postgres'', openClass)], co_plans := [(''small'', openPlan)],
     co_instances := [(''db'', openInstance)]\<rparr>"

definition rendered_db :: render_result where
  "rendered_db = \<lparr>rd_RuntimeDriver = ''demo'', rd_PrimaryResource = None,
     rd_PackagePath = ''clusters/c1/db'', rd_PackagePaths = [''clusters/c1/db''], rd_Endpoints = [], rd_CredentialRefs = [],
     rd_Artifacts = [\<lparr>da_Path = ''clusters/c1/db/cluster.yaml'', da_Content = ''kind: Cluster''\<rparr>]\<rparr>"

definition open_adapter :: service_adapter where
  "open_adapter = (sample_adapter ''postgres'' ''cnpg'')\<lparr>
     ad_Validate := \<lambda>_. Inr \<lparr>vr_Valid = True, vr_Issues = []\<rparr>, ad_Render := \<lambda>_. Inr rendered_db\<rparr>"

definition open_env :: "unit instance_env" where
  "open_env = \<lparr>ie_Controllers = sample_env\<lparr>ce_adapters := [(''postgres'', open_adapter)]\<rparr>, ie_errorsText = \<lambda>_. '''',
     ie_policyFault = \<lambda>_. None, ie_sha = \<lambda>_. ''00'',
     ie_git = \<lambda>_ _ fs g. (\<lparr>gx_stdout = '''', gx_stderr = '''', gx_err = None\<rparr>, fs, g), ie_cwd = ''/'',
     ie_restConfig = \<lambda>c. Inr c, ie_newClient = \<lambda>c. Inr c, ie_random = \<lambda>_. Inr ''secret'', ie_yaml = \<lambda>_. Inr '''',
     ie_unicode = ascii_tables, ie_Materializer = None, ie_Publisher = None, ie_ArgoCDNamespace = '''',
     ie_ArgoCDProject = '''', ie_DeliveryRepoURL = '''', ie_DeliveryRepoRef = '''', ie_DeliveryRepoPath = '''',
     ie_ProductionMode = False\<rparr>"

definition open_site :: "unit site" where
  "open_site = \<lparr>st_control = openControl, st_kube = \<lambda>_. \<lparr>ku_objects = [], ku_faults = []\<rparr>,
     st_disk = \<lparr>d_files = [], d_faults = []\<rparr>, st_git = (), st_drawn = 0\<rparr>"

text \<open>The run, stage by stage: the artifact is written, and the adapter cannot observe it.\<close>

definition open_deps :: instance_deps where
  "open_deps = \<lparr>dp_project = openProject, dp_tenant = sampleTenant, dp_class = openClass, dp_plan = openPlan\<rparr>"

abbreviation open_draft :: draft where "open_draft \<equiv> draft_of open_env openInstance"
abbreviation placed_draft :: draft where "placed_draft \<equiv> placed open_env openProject open_draft"

lemmas open_defs = open_site_def openControl_def empty_control_def openInstance_def sampleInstance_def openPlan_def
  samplePlan_def openProject_def sampleProject_def openClass_def sampleClass_def draft_of_def

lemma open_loaded: "loadDependencies open_env open_draft open_site = (Inr (Inr open_deps), open_site)"
  by (simp add: loadDependencies_def depends_on_def on_control_def get_obj_def control_fault_def goes_on_def continue_def
      open_deps_def open_defs)

lemma open_not_refused:
  "instanceRefusal open_env (drafted open_draft) open_deps (policyErrors open_env (drafted open_draft) open_deps openControl) = None"
  by code_simp

lemma open_admitted: "admitInstance open_env open_draft open_deps open_site = (Inr (Inr ()), open_site)"
proof -
  have "bindingQuota openProject sampleTenant = \<lparr>pq_maxServices = None, pq_maxNamespaces = None\<rparr>" by code_simp
  then show ?thesis using open_not_refused
    by (simp add: admitInstance_def open_site_def enforceProjectQuota_def goes_on_def open_deps_def)
qed

lemma open_placed: "placeInstance open_env open_draft open_deps open_site = (Inr (Inr (placed_draft, None)), open_site)"
proof -
  have "requiredPackagesForServiceInstance (Some openClass) (Some (drafted placed_draft)) = []"
    "resolvedClusterName openProject \<noteq> ''''" "ts_clusterRef (prs_targetSelector (pj_spec openProject)) = None"
    by code_simp+
  then show ?thesis
    by (simp add: placeInstance_def selectedTarget_def requirePackages_def open_deps_def goes_on_def continue_def Let_def)
qed

lemma open_connected: "connectKubeVirt open_env placed_draft openClass None open_site = (Inr (Inr None), open_site)"
  by (simp add: connectKubeVirt_def goes_on_def openClass_def sampleClass_def)

lemma open_rendered: "renderInstance open_env placed_draft open_deps None open_site = (Inr (Inr (open_adapter, rendered_db)), open_site)"
  by (simp add: renderInstance_def open_env_def GetAdapter_def placed_def in_status_def mark_def draft_of_def openInstance_def
      sampleInstance_def open_adapter_def productionDeliveryRequired_def goes_on_def Let_def)

lemma open_credentials:
  "provideCredentials open_env placed_draft rendered_db None None open_site = (Inr (Inr (None, rendered_db, [])), open_site)"
  by (simp add: provideCredentials_def getTargetClient_def calls_def continue_def ensureCredentialSecrets_def rendered_db_def
      projectCredentials_def goes_on_def drafted_def placed_def in_status_def mark_def draft_of_def openInstance_def)

definition open_disk :: disk where
  "open_disk = \<lparr>d_files = [(''generated/delivery/clusters/c1/db/cluster.yaml'', ''kind: Cluster'')], d_faults = []\<rparr>"

definition open_result :: materialize_result where
  "open_result = \<lparr>mr_Revision = ''sha256:00'', mr_Path = ''clusters/c1/db'',
     mr_Artifacts = [\<lparr>mx_Path = ''clusters/c1/db/cluster.yaml'', mx_Digest = ''sha256:00''\<rparr>]\<rparr>"

lemma open_materialized:
  "Materialize (\<lambda>_. ''00'') (NewMaterializer '''')
     \<lparr>mq_PackagePath = rd_PackagePath rendered_db, mq_PackagePaths = rd_PackagePaths rendered_db,
      mq_Artifacts = rd_Artifacts rendered_db\<rparr> \<lparr>d_files = [], d_faults = []\<rparr> = (Inr open_result, open_disk)"
  by code_simp

lemma open_delivered:
  "deliverInstance open_env placed_draft openProject rendered_db open_site =
     (Inr (Inr (open_result, no_publish, ''clusters/c1/db'')), open_site\<lparr>st_disk := open_disk\<rparr>)"
  using open_materialized
  by (simp add: deliverInstance_def on_files_def open_env_def open_site_def materializer_root_def publishIfEnabled_def
      productionDeliveryRequired_def goes_on_def no_publish_def) (simp add: open_result_def)

lemma open_finished:
  "finishInstance open_env placed_draft open_deps None None open_adapter rendered_db [] open_result no_publish ''clusters/c1/db'' s =
     (Inl (Errorf ''unsupported''), s)"
  by (simp add: finishInstance_def ensureArgoApplication_def open_env_def observeInstance_def observeRuntime_def rendered_db_def
      observePrimary_def open_adapter_def sample_adapter_def Let_def)

lemma open_run:
  "ServiceInstanceReconcile open_env ''db'' open_site = (Inl (Errorf ''unsupported''), open_site\<lparr>st_disk := open_disk\<rparr>)"
proof -
  have "on_control (get_obj serviceInstances ''db'') open_site = (Inr openInstance, open_site)"
    by (simp add: on_control_def get_obj_def control_fault_def open_site_def openControl_def empty_control_def)
  moreover have "m_deletionTimestamp (si_meta openInstance) = None"
    "serviceInstanceContains (m_finalizers (si_meta openInstance)) instanceFinalizer"
    by (simp_all add: openInstance_def serviceInstanceContains_def)
  moreover have "dp_class open_deps = openClass" "dp_project open_deps = openProject" by (simp_all add: open_deps_def)
  ultimately show ?thesis
    by (simp add: ServiceInstanceReconcile_def provisionInstance_def open_loaded open_admitted open_placed open_connected
        open_rendered open_credentials open_delivered open_finished continue_def calls_def ended_def)
qed

end
