(* ===== verification/Instance_Facts.thy ===== *)
theory Instance_Facts
  imports Instance_Samples Delivery_Facts
begin

text \<open>
  What a run of the reconciler of service instances may do. \<open>provisioned_only_when_cleared\<close>: nothing but the status of
  the instance changes anywhere unless every gate of admission, quota, placement, packages and validation
  is open. \<open>stopped_reasons_are_not_written\<close>: an instance that fails again, for another reason, keeps the old one in
  its stored status.
\<close>

section \<open>Runs as stages\<close>

text \<open>Every way a stage can end: the run is over with \<open>P\<close>, or goes on with \<open>Q\<close>.\<close>

definition leads ::
  "(go_error + (reconcile_result + 'a)) \<times> 'g site \<Rightarrow> ('g site \<Rightarrow> bool) \<Rightarrow> ('a \<Rightarrow> 'g site \<Rightarrow> bool) \<Rightarrow> bool" where
  "leads r P Q = (case r of (Inr (Inr y), s) \<Rightarrow> Q y s | (_, s) \<Rightarrow> P s)"

lemma leads_simps [simp]:
  "leads (Inl e, s) P Q = P s" "leads (Inr (Inl x), s) P Q = P s" "leads (Inr (Inr y), s) P Q = Q y s"
  "leads (goes_on y s) P Q = Q y s"
  by (simp_all add: leads_def goes_on_def)

lemma leads_continue [simp]: "leads (continue r f) P Q \<longleftrightarrow> leads r P (\<lambda>y s. leads (f y s) P Q)"
  by (cases r; cases "fst r"; cases "projr (fst r)") (auto simp: leads_def continue_def split: sum.splits)

lemma leads_stops [simp]: "leads (stops r) P Q \<longleftrightarrow> P (snd r)"
  by (cases r; cases "fst r") (auto simp: stops_def)

lemma leads_calls: "leads (calls r) P Q \<longleftrightarrow> (case r of (Inl _, s) \<Rightarrow> P s | (Inr x, s) \<Rightarrow> Q x s)"
  by (cases r; cases "fst r") (auto simp: calls_def)

lemma leads_mono:
  "leads r P Q \<Longrightarrow> (\<And>s. P s \<Longrightarrow> P' s) \<Longrightarrow> (\<And>y s. Q y s \<Longrightarrow> Q' y s) \<Longrightarrow> leads r P' Q'"
  by (cases r) (auto simp: leads_def split: sum.splits)

lemma leads_any: "(\<And>s. P s) \<Longrightarrow> (\<And>y s. Q y s) \<Longrightarrow> leads r P Q"
  by (cases r) (auto simp: leads_def split: sum.splits)

lemma leads_ended: "leads r P (\<lambda>_. P) \<Longrightarrow> P (snd (ended r))"
  by (cases r) (auto simp: leads_def ended_def split: sum.splits)

section \<open>What runs leave alone\<close>

text \<open>Reading uses up faults and changes nothing.\<close>

definition only_reads :: "'g site \<Rightarrow> 'g site \<Rightarrow> bool" where
  "only_reads s s' \<longleftrightarrow> (\<exists>fs. st_control s' = (st_control s)\<lparr>co_faults := fs\<rparr>) \<and>
     (\<forall>c. ku_objects (st_kube s' c) = ku_objects (st_kube s c)) \<and>
     d_files (st_disk s') = d_files (st_disk s) \<and> st_git s' = st_git s \<and> st_drawn s' = st_drawn s"

text \<open>At most the status of one instance is another one, for which \<open>S\<close> holds.\<close>

definition status_of_only ::
  "string \<Rightarrow> (service_instance_status \<Rightarrow> bool) \<Rightarrow> (string, service_instance) gomap \<Rightarrow> (string, service_instance) gomap \<Rightarrow> bool" where
  "status_of_only name S m m' \<longleftrightarrow>
     (\<forall>n. map_of m' n = map_of m n \<or>
        n = name \<and> (\<exists>i st. S st \<and> map_of m n = Some i \<and> map_of m' n = Some (i\<lparr>si_status := st\<rparr>)))"

definition only_status :: "string \<Rightarrow> 'g site \<Rightarrow> 'g site \<Rightarrow> bool" where
  "only_status name s s' \<longleftrightarrow>
     (\<exists>m fs. st_control s' = (st_control s)\<lparr>co_instances := m, co_faults := fs\<rparr> \<and>
        status_of_only name (\<lambda>_. True) (co_instances (st_control s)) m) \<and>
     (\<forall>c. ku_objects (st_kube s' c) = ku_objects (st_kube s c)) \<and>
     d_files (st_disk s') = d_files (st_disk s) \<and> st_git s' = st_git s \<and> st_drawn s' = st_drawn s"

lemma control_faults_id: "w = w\<lparr>co_faults := co_faults w\<rparr>" for w :: control
  by simp

lemma some_faults [simp]: "\<exists>fs. w = w\<lparr>co_faults := fs\<rparr>" for w :: control
  using control_faults_id by blast

lemma only_reads_refl [simp]: "only_reads s s"
  unfolding only_reads_def by (metis control_faults_id)

lemma only_reads_trans: "only_reads s t \<Longrightarrow> only_reads t u \<Longrightarrow> only_reads s u"
  by (auto simp: only_reads_def)

lemma only_reads_control:
  assumes "only_reads s s'"
  shows "co_projects (st_control s') = co_projects (st_control s)" "co_tenants (st_control s') = co_tenants (st_control s)"
    "co_classes (st_control s') = co_classes (st_control s)" "co_plans (st_control s') = co_plans (st_control s)"
    "co_policies (st_control s') = co_policies (st_control s)" "co_targets (st_control s') = co_targets (st_control s)"
    "co_instances (st_control s') = co_instances (st_control s)"
  using assms by (auto simp: only_reads_def)

lemma status_of_only_refl [simp]: "status_of_only n S m m"
  by (simp add: status_of_only_def)

lemma same_instances [simp]:
  "\<exists>m. (\<exists>fs'. w\<lparr>co_faults := fs\<rparr> = w\<lparr>co_instances := m, co_faults := fs'\<rparr>) \<and> status_of_only n S (co_instances w) m"
  "\<exists>m. (\<exists>fs. w = w\<lparr>co_instances := m, co_faults := fs\<rparr>) \<and> status_of_only n S (co_instances w) m"
  by (rule exI [of _ "co_instances w"]; force intro: exI [of _ "co_faults w"] exI [of _ fs])+

lemma status_of_only_trans:
  assumes "status_of_only name S a b" "status_of_only name S b c"
  shows "status_of_only name S a c"
  unfolding status_of_only_def
proof
  fix n
  from assms have "map_of b n = map_of a n \<or> n = name \<and> (\<exists>i st. S st \<and> map_of a n = Some i \<and> map_of b n = Some (i\<lparr>si_status := st\<rparr>))"
    and "map_of c n = map_of b n \<or> n = name \<and> (\<exists>i st. S st \<and> map_of b n = Some i \<and> map_of c n = Some (i\<lparr>si_status := st\<rparr>))"
    by (auto simp: status_of_only_def)
  then show "map_of c n = map_of a n \<or> n = name \<and> (\<exists>i st. S st \<and> map_of a n = Some i \<and> map_of c n = Some (i\<lparr>si_status := st\<rparr>))"
    by (elim disjE conjE exE) (auto intro!: exI)
qed

lemma status_of_only_mono: "status_of_only n S m m' \<Longrightarrow> status_of_only n (\<lambda>_. True) m m'"
  unfolding status_of_only_def by blast

lemma only_reads_only_status: "only_reads s s' \<Longrightarrow> only_status name s s'"
  unfolding only_reads_def only_status_def
  by (elim conjE exE, intro conjI exI [of _ "co_instances (st_control s)"]) auto

lemma only_status_trans:
  assumes "only_status name s t" "only_status name t u"
  shows "only_status name s u"
proof -
  from assms(1) obtain m fs where "st_control t = (st_control s)\<lparr>co_instances := m, co_faults := fs\<rparr>"
    "status_of_only name (\<lambda>_. True) (co_instances (st_control s)) m" by (auto simp: only_status_def)
  moreover from assms(2) obtain m' fs' where "st_control u = (st_control t)\<lparr>co_instances := m', co_faults := fs'\<rparr>"
    "status_of_only name (\<lambda>_. True) (co_instances (st_control t)) m'" by (auto simp: only_status_def)
  ultimately have "st_control u = (st_control s)\<lparr>co_instances := m', co_faults := fs'\<rparr> \<and>
      status_of_only name (\<lambda>_. True) (co_instances (st_control s)) m'"
    using status_of_only_trans by auto
  then show ?thesis using assms unfolding only_status_def by auto
qed

lemma only_reads_then: "only_reads s t \<Longrightarrow> only_status name t u \<Longrightarrow> only_status name s u"
  using only_status_trans only_reads_only_status by blast


section \<open>Calls\<close>

lemma control_fault_reads: "on_control control_fault s = (f, s') \<Longrightarrow> only_reads s s'"
  unfolding on_control_def control_fault_def only_reads_def
  by (cases "co_faults (st_control s)") (auto intro: exI [of _ "co_faults (st_control s)"])

lemma get_obj_shape:
  assumes "get_obj kd n w = (r, w')"
  shows "(\<exists>fs. w' = w\<lparr>co_faults := fs\<rparr>) \<and> (\<forall>x. r = Inr x \<longrightarrow> map_of (kd_all kd w') n = Some x)"
proof (cases "co_faults w")
  case Nil
  then have "w' = w" using assms by (simp add: get_obj_def control_fault_def split: option.splits)
  then show ?thesis using assms Nil control_faults_id [of w]
    by (auto simp: get_obj_def control_fault_def split: option.splits)
next
  case (Cons f fs)
  then show ?thesis using assms
    by (cases f) (auto simp: get_obj_def control_fault_def split: option.splits)
qed

lemma list_obj_shape:
  assumes "list_obj kd w = (r, w')"
  shows "(\<exists>fs. w' = w\<lparr>co_faults := fs\<rparr>) \<and> (\<forall>xs. r = Inr xs \<longrightarrow> xs = map snd (kd_all kd w'))"
proof (cases "co_faults w")
  case Nil
  then show ?thesis using assms control_faults_id [of w] by (auto simp: list_obj_def control_fault_def)
next
  case (Cons f fs)
  then show ?thesis using assms by (cases f) (auto simp: list_obj_def control_fault_def)
qed

lemma on_control_reads:
  assumes "on_control f s = (r, s')" "\<And>w' r. f (st_control s) = (r, w') \<Longrightarrow> \<exists>fs. w' = (st_control s)\<lparr>co_faults := fs\<rparr>"
  shows "only_reads s s'"
  using assms unfolding on_control_def only_reads_def by (auto split: prod.splits)

lemma get_obj_reads: "on_control (get_obj kd n) s = (r, s') \<Longrightarrow> only_reads s s'"
  by (rule on_control_reads) (use get_obj_shape in blast)+

lemma list_obj_reads: "on_control (list_obj kd) s = (r, s') \<Longrightarrow> only_reads s s'"
  by (rule on_control_reads) (use list_obj_shape in blast)+

lemma get_obj_found: "on_control (get_obj kd n) s = (Inr x, s') \<Longrightarrow> map_of (kd_all kd (st_control s')) n = Some x"
  unfolding on_control_def using get_obj_shape [of kd n "st_control s"] by (auto split: prod.splits)

lemma list_obj_found: "on_control (list_obj kd) s = (Inr xs, s') \<Longrightarrow> xs = map snd (kd_all kd (st_control s'))"
  unfolding on_control_def using list_obj_shape [of kd "st_control s"] by (auto split: prod.splits)

lemma resolve_reads: "on_control (resolveClusterTargetForProject p n) s = (r, s') \<Longrightarrow> only_reads s s'"
proof (rule on_control_reads, assumption)
  fix w' q assume "resolveClusterTargetForProject p n (st_control s) = (q, w')"
  then show "\<exists>fs. w' = (st_control s)\<lparr>co_faults := fs\<rparr>"
    unfolding resolveClusterTargetForProject_def Let_def
    by (auto split: if_splits option.splits prod.splits sum.splits dest!: get_obj_shape
        intro: control_faults_id)
qed

lemma same_objects_only_reads: "same_objects s s' \<Longrightarrow> only_reads s s'"
  unfolding same_objects_def only_reads_def by (metis control_faults_id)

lemma getTargetClient_reads: "getTargetClient env target s = (r, s') \<Longrightarrow> only_reads s s'"
  unfolding getTargetClient_def Let_def
  by (auto split: option.splits if_splits prod.splits sum.splits dest: get_secret_at_same intro: same_objects_only_reads)

lemma crds_installed_same: "crds_installed c crds s = (r, s') \<Longrightarrow> same_objects s s'"
  by (induction c crds s rule: crds_installed.induct)
    (auto split: prod.splits sum.splits if_splits dest: kube_get_same intro: same_objects_trans)

lemma kubeVirtDependenciesReady_reads: "kubeVirtDependenciesReady c s = (r, s') \<Longrightarrow> only_reads s s'"
  unfolding kubeVirtDependenciesReady_def
  by (auto simp del: crds_installed.simps split: option.splits intro: same_objects_only_reads crds_installed_same)

lemma Enabled_reads: "on_files (Enabled p) s = (r, s') \<Longrightarrow> only_reads s s'"
  unfolding on_files_def Enabled_def stat_ok_def Let_def only_reads_def
  by (auto split: prod.splits if_splits disk_fault.splits dest: next_disk_files intro: control_faults_id)

lemma deliveryPublishingConfigured_reads: "deliveryPublishingConfigured env s = (r, s') \<Longrightarrow> only_reads s s'"
  unfolding deliveryPublishingConfigured_def
  by (auto split: option.splits if_splits prod.splits intro: Enabled_reads)

section \<open>Writing the status\<close>

abbreviation named :: "draft \<Rightarrow> string" where "named d \<equiv> m_name (si_meta (df_instance d))"

lemma change_status_only:
  assumes "change_obj serviceInstances n (si_status_update (\<lambda>_. st)) w = (r, w')"
  shows "\<exists>m fs. w' = w\<lparr>co_instances := m, co_faults := fs\<rparr> \<and> status_of_only n (\<lambda>st'. st' = st) (co_instances w) m"
proof -
  have update: "status_of_only n (\<lambda>st'. st' = st) m (AList.update n (i\<lparr>si_status := st\<rparr>) m)" if "map_of m n = Some i" for m i
    using that by (auto simp: status_of_only_def update_conv')
  obtain f w1 where f: "control_fault w = (f, w1)" by (cases "control_fault w")
  then have w1: "\<exists>fs. w1 = w\<lparr>co_faults := fs\<rparr>"
    by (auto simp: control_fault_def split: list.splits intro: control_faults_id)
  then obtain fs where fs: "w1 = w\<lparr>co_faults := fs\<rparr>" by blast
  have id: "\<exists>m fs'. w1 = w\<lparr>co_instances := m, co_faults := fs'\<rparr> \<and> status_of_only n (\<lambda>st'. st' = st) (co_instances w) m"
    unfolding fs by simp
  show ?thesis
  proof (cases "map_of (co_instances w) n")
    case None
    then show ?thesis using assms f fs id
      by (cases f) (auto simp: change_obj_def)
  next
    case (Some i)
    let ?m = "AList.update n (i\<lparr>si_status := st\<rparr>) (co_instances w)"
    have order: "w\<lparr>co_faults := fs, co_instances := ?m\<rparr> = w\<lparr>co_instances := ?m, co_faults := fs\<rparr>" by (cases w) simp
    have "w' = w\<lparr>co_instances := ?m, co_faults := fs\<rparr> \<or> w' = w1"
      using assms f fs Some unfolding order [symmetric] by (cases f) (auto simp: change_obj_def)
    then show ?thesis using update [OF Some] id by blast
  qed
qed

lemma persist_turns_only:
  "persist_turns k n st w = (r, w') \<Longrightarrow>
     \<exists>m fs. w' = w\<lparr>co_instances := m, co_faults := fs\<rparr> \<and> status_of_only n (\<lambda>st'. st' = st) (co_instances w) m"
proof (induction k arbitrary: w)
  case 0
  then show ?case by auto
next
  case (Suc k)
  obtain g w1 where g: "get_obj serviceInstances n w = (g, w1)" by (cases "get_obj serviceInstances n w")
  obtain q w2 where q: "(case (g, w1) of (Inl e, w) \<Rightarrow> (Inl e, w)
      | (Inr _, w) \<Rightarrow> change_obj serviceInstances n (si_status_update (\<lambda>_. st)) w) = (q, w2)" by fastforce
  from get_obj_shape [OF g] obtain fs where w1: "w1 = w\<lparr>co_faults := fs\<rparr>" by blast
  have w2: "\<exists>m fs. w2 = w\<lparr>co_instances := m, co_faults := fs\<rparr> \<and> status_of_only n (\<lambda>st'. st' = st) (co_instances w) m"
  proof (cases g)
    case (Inl e)
    then show ?thesis using q w1 by (auto intro!: exI [of _ "co_instances w"])
  next
    case (Inr x)
    then have "change_obj serviceInstances n (si_status_update (\<lambda>_. st)) w1 = (q, w2)" using q by simp
    from change_status_only [OF this] w1 show ?thesis by auto
  qed
  show ?case
  proof (cases "q = Inl Conflict")
    case True
    then have "persist_turns k n st w2 = (r, w')" using Suc.prems g q by simp
    from Suc.IH [OF this] w2 show ?thesis using status_of_only_trans by fastforce
  next
    case False
    then show ?thesis using Suc.prems g q w2 by simp
  qed
qed

lemma persistStatus_only:
  assumes "persistStatusIfChanged d s = (r, s')"
  shows "only_status (m_name (si_meta (df_instance d))) s s'"
proof (cases "(df_original d)\<lparr>sit_conditions := sl_then (df_conditions d)\<rparr> = si_status (drafted d)")
  case True
  then show ?thesis using assms by (simp add: persistStatusIfChanged_def only_reads_only_status)
next
  case False
  obtain q w where q: "persist_turns defaultBackoff (m_name (si_meta (df_instance d))) (si_status (drafted d)) (st_control s) = (q, w)"
    by fastforce
  have "s' = s\<lparr>st_control := w\<rparr>"
    using assms False q by (cases q) (auto simp: persistStatusIfChanged_def on_control_def)
  moreover obtain m fs where "w = (st_control s)\<lparr>co_instances := m, co_faults := fs\<rparr>"
    "status_of_only (named d) (\<lambda>_. True) (co_instances (st_control s)) m"
    using persist_turns_only [OF q] status_of_only_mono by blast
  ultimately show ?thesis by (auto simp: only_status_def)
qed

lemma persisted_only: "only_status (m_name (si_meta (df_instance d))) s (snd (persisted result d s))"
proof -
  obtain r s' where p: "persistStatusIfChanged d s = (r, s')" by (cases "persistStatusIfChanged d s")
  then show ?thesis using persistStatus_only [OF p] by (cases r) (simp_all add: persisted_def)
qed

section \<open>The gates\<close>

lemma df_instance_mark [simp]: "df_instance (mark env cs d) = df_instance d"
  by (simp add: mark_def)

lemma draft_sel [simp]:
  "si_meta (df_instance (in_status f d)) = si_meta (df_instance d)"
  "si_spec (df_instance (in_status f d)) = si_spec (df_instance d)"
  "si_status (df_instance (in_status f d)) = f (si_status (df_instance d))"
  "si_meta (df_instance (in_phase p d)) = si_meta (df_instance d)"
  "sit_phase (si_status (df_instance (in_phase p d))) = p"
  "si_meta (df_instance (placed env project d)) = si_meta (df_instance d)"
  by (simp_all add: in_status_def in_phase_def placed_def)

lemma waiting_named [simp]:
  "si_meta (df_instance (waitingForPackages env m d)) = si_meta (df_instance d)"
  "si_meta (df_instance (waitingForKubeVirt env m d)) = si_meta (df_instance d)"
  "sit_phase (si_status (df_instance (waitingForPackages env m d))) = ''PendingDependencies''"
  "sit_phase (si_status (df_instance (waitingForKubeVirt env m d))) = ''PendingDependencies''"
  by (simp_all add: waitingForPackages_def waitingForKubeVirt_def waitingFor_def)

lemma stopped_named [simp]:
  "si_meta (df_instance (unsupportedClass env d)) = si_meta (df_instance d)"
  "si_meta (df_instance (validationStopped env a b c d)) = si_meta (df_instance d)"
  "si_meta (df_instance (markDeliveryRepoRequired env a b d)) = si_meta (df_instance d)"
  "sit_phase (si_status (df_instance (unsupportedClass env d))) = ''Failed''"
  "sit_phase (si_status (df_instance (validationStopped env a b c d))) = ''Failed''"
  "sit_phase (si_status (df_instance (markDeliveryRepoRequired env a b d))) = ''Degraded''"
  by (simp_all add: unsupportedClass_def validationStopped_def markDeliveryRepoRequired_def)

definition depends :: "control \<Rightarrow> service_instance \<Rightarrow> instance_deps \<Rightarrow> bool" where
  "depends w inst deps \<longleftrightarrow>
     map_of (co_projects w) (lr_name (sis_projectRef (si_spec inst))) = Some (dp_project deps) \<and>
     map_of (co_tenants w) (lr_name (prs_tenantRef (pj_spec (dp_project deps)))) = Some (dp_tenant deps) \<and>
     map_of (co_classes w) (lr_name (sis_serviceClassRef (si_spec inst))) = Some (dp_class deps) \<and>
     map_of (co_plans w) (lr_name (sis_servicePlanRef (si_spec inst))) = Some (dp_plan deps)"

text \<open>The conditions of admission, in the words of the API: what \<open>instanceRefusal\<close> asks in its order.\<close>

definition admissible :: "'g instance_env \<Rightarrow> service_instance \<Rightarrow> instance_deps \<Rightarrow> control \<Rightarrow> bool" where
  "admissible env inst deps w \<longleftrightarrow>
     (let project = dp_project deps; tenant = dp_tenant deps; cls = dp_class deps; plan = dp_plan deps;
          holds = conditionTrue (ie_Controllers env) in
      lr_name (sis_serviceClassRef (si_spec inst)) \<in> set (tns_allowedServiceClasses (tn_spec tenant)) \<and>
      isStatusCurrent (m_generation (pj_meta project)) (prt_observedGeneration (pj_status project)) \<and>
      holds (prt_conditions (pj_status project)) ''Ready'' \<and>
      lr_name (sps_serviceClassRef (spl_spec plan)) = m_name (sc_meta cls) \<and>
      isStatusCurrent (m_generation (sc_meta cls)) (sct_observedGeneration (sc_status cls)) \<and>
      holds (sct_conditions (sc_status cls)) ''Accepted'' \<and> sct_published (sc_status cls) \<and>
      isStatusCurrent (m_generation (spl_meta plan)) (spt_observedGeneration (spl_status plan)) \<and>
      holds (spt_conditions (spl_status plan)) ''Accepted'' \<and> spt_published (spl_status plan) \<and>
      policyErrors env inst deps w = [])"

definition within_quota :: "project \<Rightarrow> tenant \<Rightarrow> service_instance list \<Rightarrow> bool" where
  "within_quota project tenant items \<longleftrightarrow>
     (case pq_maxServices (bindingQuota project tenant) of
        None \<Rightarrow> True | Some m \<Rightarrow> wrap_int32 (int (length (counted_instances project items))) \<le> m) \<and>
     (case pq_maxNamespaces (bindingQuota project tenant) of
        None \<Rightarrow> True | Some m \<Rightarrow> int (length (counted_namespaces project items)) \<le> m)"

lemma instanceRefusal_None: "instanceRefusal env inst deps (policyErrors env inst deps w) = None \<Longrightarrow> admissible env inst deps w"
  unfolding instanceRefusal_def admissible_def Let_def serviceInstanceContains_def
  by (simp add: list_ex_iff split: if_splits)

lemma policyErrors_reads: "only_reads s s' \<Longrightarrow> policyErrors env inst deps (st_control s') = policyErrors env inst deps (st_control s)"
  unfolding policyErrors_def policyReader_def [abs_def] by (subst only_reads_control(5), assumption) (rule refl)

definition packages_ok :: "service_class \<Rightarrow> service_instance \<Rightarrow> cluster_target option \<Rightarrow> bool" where
  "packages_ok cls inst target \<longleftrightarrow>
     (let required = requiredPackagesForServiceInstance (Some cls) (Some inst) in
      required = [] \<or> fst (packagesReady target required))"

text \<open>
  The target whose packages are looked at: the one the selector of the project names; without a selector, and only if
  packages are needed, the one of the recorded placement, if a name is left there.
\<close>

definition target_of :: "control \<Rightarrow> project \<Rightarrow> bool \<Rightarrow> cluster_target option \<Rightarrow> bool" where
  "target_of w project needed target \<longleftrightarrow>
     (let recorded = trimSpace (pl_clusterName (prt_placement (pj_status project))) in
      case ts_clusterRef (prs_targetSelector (pj_spec project)) of
        Some ref \<Rightarrow> target \<noteq> None \<and> target = map_of (co_targets w) (lr_name ref)
      | None \<Rightarrow>
          if \<not> needed \<or> recorded = '''' then target = None
          else target \<noteq> None \<and> target = map_of (co_targets w) recorded)"

definition needs_packages :: "service_class \<Rightarrow> service_instance \<Rightarrow> bool" where
  "needs_packages cls inst \<longleftrightarrow> requiredPackagesForServiceInstance (Some cls) (Some inst) \<noteq> []"

lemma target_of_targets: "co_targets w = co_targets w' \<Longrightarrow> target_of w project needed t = target_of w' project needed t"
  unfolding target_of_def by presburger

lemma resolve_found:
  assumes "on_control (resolveClusterTargetForProject project (resolvedClusterName project)) s = (Inr target, s')"
    and "ts_clusterRef (prs_targetSelector (pj_spec project)) = None"
  shows "target_of (st_control s') project True target"
proof -
  let ?recorded = "pl_clusterName (prt_placement (pj_status project))"
  have name: "resolvedClusterName project = ?recorded" using assms(2) by (simp add: resolvedClusterName_def)
  have first: "firstNonEmptyTrimmed [?recorded, ?recorded] = trimSpace ?recorded"
    by simp
  show ?thesis
  proof (cases "trimSpace ?recorded = ''''")
    case True
    then show ?thesis using assms
      by (simp add: resolveClusterTargetForProject_def name first target_of_def on_control_def)
  next
    case False
    obtain r w' where g: "get_obj clusterTargets (trimSpace ?recorded) (st_control s) = (r, w')" by fastforce
    then have r: "r = Inr t" if "target = Some t" for t
      using assms that False by (auto simp: resolveClusterTargetForProject_def name first on_control_def split: sum.splits)
    obtain t where t: "target = Some t" "s' = s\<lparr>st_control := w'\<rparr>"
      using assms g False by (auto simp: resolveClusterTargetForProject_def name first on_control_def split: sum.splits)
    then have "on_control (get_obj clusterTargets (trimSpace ?recorded)) s = (Inr t, s')"
      using g r by (simp add: on_control_def)
    from get_obj_found [OF this] show ?thesis using False assms(2) t by (simp add: target_of_def)
  qed
qed

definition validates :: "'g instance_env \<Rightarrow> draft \<Rightarrow> instance_deps \<Rightarrow> cluster_target option \<Rightarrow> bool" where
  "validates env d deps target \<longleftrightarrow>
     (case GetAdapter (ce_adapters (ie_Controllers env)) (lr_name (sis_serviceClassRef (si_spec (df_instance d)))) of
        None \<Rightarrow> False
      | Some adapter \<Rightarrow>
          (case ad_Validate adapter (service_context_of deps target d) of Inl _ \<Rightarrow> False | Inr result \<Rightarrow> vr_Valid result))"

text \<open>
  What holds however a run ends before it provisions: a run that has only read since \<open>s0\<close>, and one that
  then wrote a status with a phase other than \<open>Ready\<close>.
\<close>

locale stopping =
  fixes nm :: string and s0 :: "'g site" and P :: "'g site \<Rightarrow> bool"
  assumes reads_P: "only_reads s0 s \<Longrightarrow> P s"
    and persisted_P: "named d = nm \<Longrightarrow> only_reads s0 s \<Longrightarrow> sit_phase (si_status (df_instance d)) \<noteq> ''Ready'' \<Longrightarrow>
      P (snd (persisted result d s))"
begin

lemma handled_only:
  assumes "named d = nm" "only_reads s0 s"
  shows "P (snd (handleDependencyError env d reason message e s))"
    "P (snd (handleDependencyPending env d reason message s))"
    "P (snd (handleValidationFailure env d reason message s))"
  using assms by (simp_all add: handleDependencyError_def handleDependencyPending_def handleValidationFailure_def
      persisted_P reads_P)

lemma depends_on_leads:
  assumes "named d = nm" "only_reads s0 s"
    and "\<And>x s'. only_reads s0 s' \<Longrightarrow> map_of (kd_all kind (st_control s')) n = Some x \<Longrightarrow> Q x s'"
  shows "leads (depends_on env d reason what kind n s) P Q"
proof -
  obtain r s1 where g: "on_control (get_obj kind n) s = (r, s1)" by (cases "on_control (get_obj kind n) s")
  have reads: "only_reads s0 s1" using assms(2) get_obj_reads [OF g] only_reads_trans by blast
  show ?thesis
  proof (cases r)
    case (Inl e)
    then show ?thesis using handled_only(1) [OF assms(1) reads] by (simp add: depends_on_def g)
  next
    case (Inr x)
    then show ?thesis using assms(3) [OF reads] get_obj_found [of kind n s x s1] g by (simp add: depends_on_def)
  qed
qed

lemma loadDependencies_leads:
  assumes "named d = nm" "only_reads s0 s"
    and "\<And>deps s'. only_reads s0 s' \<Longrightarrow> depends (st_control s0) (df_instance d) deps \<Longrightarrow> Q deps s'"
  shows "leads (loadDependencies env d s) P Q"
  unfolding loadDependencies_def Let_def leads_continue leads_simps
  apply (rule depends_on_leads [OF assms(1,2)])
  apply (rule depends_on_leads [OF assms(1)], assumption)
  apply (rule depends_on_leads [OF assms(1)], assumption)
  apply (rule depends_on_leads [OF assms(1)], assumption)
  apply (rule assms(3), assumption)
  apply (simp add: depends_def only_reads_control)
  done

lemma enforceProjectQuota_leads:
  assumes "named d = nm" "only_reads s0 s"
    and "\<And>s'. only_reads s0 s' \<Longrightarrow> within_quota project tenant (map snd (co_instances (st_control s0))) \<Longrightarrow> Q () s'"
  shows "leads (enforceProjectQuota env d project tenant s) P Q"
proof -
  obtain r s1 where l: "on_control (list_obj serviceInstances) s = (r, s1)" by (cases "on_control (list_obj serviceInstances) s")
  have reads: "only_reads s0 s1" using assms(2) list_obj_reads [OF l] only_reads_trans by blast
  show ?thesis
  proof (cases r)
    case (Inl e)
    then show ?thesis using reads assms(2,3)
      by (auto simp: enforceProjectQuota_def Let_def l leads_calls within_quota_def reads_P)
  next
    case (Inr items)
    have "items = map snd (co_instances (st_control s0))"
      using list_obj_found [of serviceInstances s items s1] l Inr only_reads_control(7) [OF reads] by simp
    then show ?thesis using Inr assms(2) assms(3) [OF reads] assms(3) [OF assms(2)] handled_only(3) [OF assms(1) reads]
      by (auto simp: enforceProjectQuota_def Let_def l leads_calls within_quota_def split: option.splits)
  qed
qed

lemma admitInstance_leads:
  assumes "named d = nm" "only_reads s0 s"
    and "\<And>s'. only_reads s0 s' \<Longrightarrow> admissible env (drafted d) deps (st_control s0) \<Longrightarrow>
      within_quota (dp_project deps) (dp_tenant deps) (map snd (co_instances (st_control s0))) \<Longrightarrow> Q () s'"
  shows "leads (admitInstance env d deps s) P Q"
proof (cases "instanceRefusal env (drafted d) deps (policyErrors env (drafted d) deps (st_control s))")
  case None
  then have ok: "admissible env (drafted d) deps (st_control s0)"
    using instanceRefusal_None policyErrors_reads [OF assms(2)] by metis
  show ?thesis using None
    by (simp add: admitInstance_def) (rule enforceProjectQuota_leads [OF assms(1,2)], rule assms(3) [OF _ ok])
next
  case (Some refusal)
  then show ?thesis using handled_only [OF assms(1,2)] by (cases refusal) (simp_all add: admitInstance_def)
qed

lemma packagesTarget_leads:
  assumes "named d = nm" "only_reads s0 s" "target_of (st_control s0) project False target"
    and "\<And>target s'. only_reads s0 s' \<Longrightarrow> target_of (st_control s0) project True target \<Longrightarrow> Q target s'"
  shows "leads (packagesTarget env d project target s) P Q"
proof (cases target)
  case None
  then have ref: "ts_clusterRef (prs_targetSelector (pj_spec project)) = None"
    using assms(3) by (auto simp: target_of_def Let_def split: option.splits)
  obtain r s1 where g: "on_control (resolveClusterTargetForProject project (resolvedClusterName project)) s = (r, s1)"
    by fastforce
  have r1: "only_reads s0 s1" using assms(2) resolve_reads [OF g] only_reads_trans by blast
  have "target_of (st_control s0) project True t" if "r = Inr t" for t
    using resolve_found [OF _ ref, of s t s1] g that target_of_targets [OF only_reads_control(6) [OF r1]] by simp
  then show ?thesis using None r1 assms(4) handled_only(1) [OF assms(1)] g
    by (cases r) (simp_all add: packagesTarget_def Let_def del: append.simps)
next
  case (Some t)
  then have "target_of (st_control s0) project True target"
    using assms(3) by (auto simp: target_of_def Let_def split: option.splits)
  then show ?thesis using assms(2,4) Some by (simp add: packagesTarget_def)
qed

lemma requirePackages_leads:
  assumes "named d = nm" "only_reads s0 s" "target_of (st_control s0) (dp_project deps) False target"
    and "\<And>target s'. only_reads s0 s' \<Longrightarrow> packages_ok (dp_class deps) (drafted d) target \<Longrightarrow>
      target_of (st_control s0) (dp_project deps) (needs_packages (dp_class deps) (drafted d)) target \<Longrightarrow> Q (d, target) s'"
  shows "leads (requirePackages env d deps target s) P Q"
proof (cases "requiredPackagesForServiceInstance (Some (dp_class deps)) (Some (drafted d)) = []")
  case False
  then show ?thesis
    using assms(1,4)
    by (simp add: requirePackages_def Let_def packages_ok_def needs_packages_def)
      (rule packagesTarget_leads [OF assms(1-3)], auto simp: persisted_P split: prod.split bool.split)
qed (use assms in \<open>simp add: requirePackages_def Let_def packages_ok_def needs_packages_def\<close>)

lemma placeInstance_leads:
  assumes "named d = nm" "only_reads s0 s"
    and "\<And>target s'. only_reads s0 s' \<Longrightarrow> resolvedClusterName (dp_project deps) \<noteq> '''' \<Longrightarrow>
      packages_ok (dp_class deps) (drafted (placed env (dp_project deps) d)) target \<Longrightarrow>
      target_of (st_control s0) (dp_project deps)
        (needs_packages (dp_class deps) (drafted (placed env (dp_project deps) d))) target \<Longrightarrow>
      Q (placed env (dp_project deps) d, target) s'"
  shows "leads (placeInstance env d deps s) P Q"
proof (cases "resolvedClusterName (dp_project deps) = ''''")
  case True
  then show ?thesis using assms(1,2) by (simp add: placeInstance_def Let_def persisted_P)
next
  case False
  let ?d = "placed env (dp_project deps) d"
  have name: "named ?d = nm" using assms(1) by simp
  have require: "leads (requirePackages env ?d deps target s1) P Q"
    if "only_reads s0 s1" "target_of (st_control s0) (dp_project deps) False target" for target s1
    using requirePackages_leads [OF name that] assms(3) False by blast
  have "leads (selectedTarget env ?d (dp_project deps) s) P (\<lambda>target s1. leads (requirePackages env ?d deps target s1) P Q)"
  proof (cases "ts_clusterRef (prs_targetSelector (pj_spec (dp_project deps)))")
    case None
    then show ?thesis using assms(2) require by (simp add: selectedTarget_def target_of_def)
  next
    case (Some ref)
    have "target_of (st_control s0) (dp_project deps) False (Some t)"
      if "only_reads s0 s1" "map_of (co_targets (st_control s1)) (lr_name ref) = Some t" for t s1
      using that Some only_reads_control(6) [OF that(1)] by (simp add: target_of_def Let_def)
    then show ?thesis using Some require
      by (simp add: selectedTarget_def) (rule depends_on_leads [OF name assms(2)], simp)
  qed
  then show ?thesis using False by (simp add: placeInstance_def Let_def)
qed

lemma connectKubeVirt_leads:
  assumes "named d = nm" "only_reads s0 s" "\<And>c s'. only_reads s0 s' \<Longrightarrow> Q c s'"
  shows "leads (connectKubeVirt env d cls target s) P Q"
proof (cases "scs_driver (sc_spec cls) = kubeVirtServiceClassDriver \<and> target \<noteq> None")
  case False
  then show ?thesis using assms by (auto simp: connectKubeVirt_def Let_def persisted_P)
next
  case True
  then obtain t where t: "target = Some t" by blast
  obtain r s1 where c: "getTargetClient env target s = (r, s1)" by (cases "getTargetClient env target s")
  have r1: "only_reads s0 s1" using assms(2) getTargetClient_reads [OF c] only_reads_trans by blast
  show ?thesis
  proof (cases r)
    case (Inr co)
    show ?thesis
    proof (cases co)
      case (Some cl)
      obtain q s2 where k: "kubeVirtDependenciesReady (Some cl) s1 = (q, s2)" by (cases "kubeVirtDependenciesReady (Some cl) s1")
      have "only_reads s0 s2" using r1 kubeVirtDependenciesReady_reads [OF k] only_reads_trans by blast
      then show ?thesis using True t c k Inr Some assms(1,3)
        by (cases q) (auto simp: connectKubeVirt_def Let_def leads_calls persisted_P reads_P)
    qed (use True t c Inr r1 assms(1) in \<open>simp add: connectKubeVirt_def Let_def leads_calls persisted_P\<close>)
  qed (use True t c r1 in \<open>simp add: connectKubeVirt_def Let_def leads_calls reads_P\<close>)
qed

lemma renderInstance_leads:
  assumes "named d = nm" "only_reads s0 s" "\<And>x s'. only_reads s0 s' \<Longrightarrow> validates env d deps target \<Longrightarrow> Q x s'"
  shows "leads (renderInstance env d deps target s) P Q"
proof -
  obtain configured s1 where p: "deliveryPublishingConfigured env s = (configured, s1)"
    by (cases "deliveryPublishingConfigured env s")
  have r1: "only_reads s0 s1" using assms(2) deliveryPublishingConfigured_reads [OF p] only_reads_trans by blast
  note only = persisted_P [OF _ assms(2)] persisted_P [OF _ r1]
  show ?thesis using p assms(1,3) assms(2) r1 only unfolding renderInstance_def validates_def Let_def
    by (auto split: option.split sum.split bool.split)
qed

end

interpretation status_only: stopping nm s0 "only_status nm s0" for nm and s0 :: "'g site"
proof
  fix s assume "only_reads s0 s" then show "only_status nm s0 s" by (rule only_reads_only_status)
next
  fix d :: draft and s :: "'g site" and result :: reconcile_result
  assume "named d = nm" "only_reads s0 s"
  then show "only_status nm s0 (snd (persisted result d s))" using persisted_only only_reads_then by blast
qed

section \<open>Nothing is provisioned past a closed gate\<close>

text \<open>
  \<open>w\<close> lets the instance through: its project, tenant, class and plan are there and admit it, the project is
  placed and within its quota, the packages its class needs are ready on the target of the project that is stored
  in \<open>w\<close>, and its adapter accepts it on that target.
\<close>

definition cleared :: "'g instance_env \<Rightarrow> service_instance \<Rightarrow> control \<Rightarrow> bool" where
  "cleared env inst w \<longleftrightarrow>
     (\<exists>deps target. let d = draft_of env inst; p = placed env (dp_project deps) d in
        depends w inst deps \<and> admissible env (drafted d) deps w \<and>
        within_quota (dp_project deps) (dp_tenant deps) (map snd (co_instances w)) \<and>
        resolvedClusterName (dp_project deps) \<noteq> '''' \<and>
        target_of w (dp_project deps) (needs_packages (dp_class deps) (drafted p)) target \<and>
        packages_ok (dp_class deps) (drafted p) target \<and> validates env p deps target)"

lemma draft_of_simps [simp]:
  "si_meta (df_instance (draft_of env inst)) = si_meta inst" "si_spec (df_instance (draft_of env inst)) = si_spec inst"
  by (simp_all add: draft_of_def)

lemma depends_draft [simp]: "depends w (df_instance (draft_of env inst)) deps = depends w inst deps"
  by (simp add: depends_def)

lemma provisionInstance_only:
  assumes "named (draft_of env inst) = nm" "only_reads s0 s" "\<not> cleared env inst (st_control s0)"
  shows "only_status nm s0 (snd (provisionInstance env (draft_of env inst) s))"
  unfolding provisionInstance_def
proof (rule leads_ended, unfold leads_continue case_prod_beta')
  let ?d = "draft_of env inst"
  show "leads (loadDependencies env ?d s) (only_status nm s0) (\<lambda>deps s. leads (admitInstance env ?d deps s)
      (only_status nm s0) (\<lambda>_ s. leads (placeInstance env ?d deps s) (only_status nm s0) (\<lambda>p s.
        leads (connectKubeVirt env (fst p) (dp_class deps) (snd p) s) (only_status nm s0) (\<lambda>c s.
          leads (renderInstance env (fst p) deps (snd p) s) (only_status nm s0) (\<lambda>q s.
            leads (provideCredentials env (fst p) (snd q) (snd p) c s) (only_status nm s0) (\<lambda>r s.
              leads (deliverInstance env (fst p) (dp_project deps) (fst (snd r)) s) (only_status nm s0) (\<lambda>m s.
                leads (calls (finishInstance env (fst p) deps (snd p) (fst r) (fst q) (fst (snd r)) (snd (snd r)) (fst m)
                  (fst (snd m)) (snd (snd m)) s)) (only_status nm s0) (\<lambda>_. only_status nm s0))))))))"
    apply (rule status_only.loadDependencies_leads [OF assms(1,2)])
    apply (rule status_only.admitInstance_leads [OF assms(1)], assumption)
    apply (rule status_only.placeInstance_leads [OF assms(1)], assumption)
    apply (rule status_only.connectKubeVirt_leads, use assms(1) in simp, assumption)
    apply (rule status_only.renderInstance_leads, use assms(1) in simp, assumption)
    using assms(3) by (auto simp: cleared_def Let_def)
qed



section \<open>Reasons that are not written\<close>

lemma mark_in_place:
  assumes "set_condition_contract (ce_setc (ie_Controllers env))" "in_place (ce_setc (ie_Controllers env))"
    and "\<forall>c \<in> set cs. find_condition (fst c) old \<noteq> None" "df_conditions d = copied room old"
  shows "sl_then (df_conditions (mark env cs d)) = sl_now (df_conditions (mark env cs d))"
  using set_all_copied [OF assms(1,2,3)] assms(4) by (simp add: mark_def)

definition failure_types :: "string list" where
  "failure_types = [''Accepted'', ''Ready'', ''Materialized'', ''Synced'', ''Failed'']"

text \<open>
  An instance that has failed before and now fails for another reason keeps the reason of the first
  failure: the conditions are changed in the array that the original status shares, so that the two compare
  equal, and nothing is written. Whatever the new reason and message are, the run leaves the cluster as it was.
\<close>

theorem stopped_reasons_are_not_written:
  assumes "set_condition_contract (ce_setc (ie_Controllers env))" "in_place (ce_setc (ie_Controllers env))"
    and "sit_phase (si_status inst) = ''Failed''" "sit_observedGeneration (si_status inst) = m_generation (si_meta inst)"
    and "\<forall>t \<in> set failure_types. find_condition t (sit_conditions (si_status inst)) \<noteq> None"
  shows "handleValidationFailure env (draft_of env inst) reason message s = (Inr requeue_30, s)"
proof -
  let ?d = "in_phase ''Failed'' (draft_of env inst)"
  let ?cs = "[(''Accepted'', ConditionFalse, reason, message), (''Ready'', ConditionFalse, reason, message),
     (''Materialized'', ConditionFalse, reason, ''Service instance validation failed before materialization.''),
     (''Synced'', ConditionFalse, reason, ''Service instance validation failed before sync readiness.''),
     (''Failed'', ConditionTrue, reason, message)]"
  have parts: "df_conditions ?d = copied (ce_room (ie_Controllers env)) (sit_conditions (si_status inst))"
    "df_original (mark env ?cs ?d) = si_status inst"
    "si_status (df_instance (mark env ?cs ?d)) = si_status inst"
    using assms(3,4) by (simp_all add: in_phase_def in_status_def draft_of_def mark_def)
  have "sl_then (df_conditions (mark env ?cs ?d)) = sl_now (df_conditions (mark env ?cs ?d))"
    by (rule mark_in_place [OF assms(1,2) _ parts(1)]) (use assms(5) in \<open>simp add: failure_types_def\<close>)
  then have "persistStatusIfChanged (mark env ?cs ?d) s = (Inr (), s)"
    using parts(2,3) by (simp add: persistStatusIfChanged_def drafted_def)
  then show ?thesis by (simp add: handleValidationFailure_def persisted_def)
qed

definition failedInstance :: service_instance where
  "failedInstance = openInstance\<lparr>si_status := (si_status openInstance)\<lparr>sit_phase := ''Failed'', sit_observedGeneration := 1,
     sit_conditions := map true_condition failure_types\<rparr>\<rparr>"

theorem stopped_reasons_are_not_written_witness:
  "handleValidationFailure open_env (draft_of open_env failedInstance) ''PolicyViolation'' ''one replica too many'' open_site =
     (Inr requeue_30, open_site)"
  by (rule stopped_reasons_are_not_written)
    (simp_all add: open_env_def sample_env_def upsert_condition_contract upsert_in_place failedInstance_def openInstance_def
      failure_types_def true_condition_def)

end
