(* ===== verification/Instance_Deletion.thy ===== *)
theory Instance_Deletion
  imports Instance_Facts
begin

text \<open>
  Deletion of service instances. \<open>deletion_completes\<close>: without faults one run purges the artifacts, deletes namespace and
  primary resource where the service runs, and lets the instance go. \<open>deletion_forgets_remote_objects\<close>: where
  the project is gone the run takes the management cluster for the one the service runs on, and lets the
  instance go with everything left on the remote cluster.
\<close>

section \<open>Calls without faults\<close>

text \<open>From \<open>s\<close> to \<open>s'\<close> the objects of \<open>c\<close> whose keys are in \<open>P\<close> are gone, and nothing else on any cluster has changed.\<close>

definition removes :: "client \<Rightarrow> (object_key \<Rightarrow> bool) \<Rightarrow> 'g site \<Rightarrow> 'g site \<Rightarrow> bool" where
  "removes c P s s' \<longleftrightarrow>
     (\<forall>c' k. find_object c' k s' = (if c' = c \<and> P k then None else find_object c' k s)) \<and>
     st_control s' = st_control s \<and> st_disk s' = st_disk s \<and> st_git s' = st_git s \<and>
     (\<forall>c'. ku_faults (st_kube s' c') = ku_faults (st_kube s c'))"

text \<open>The file \<open>f\<close> is, or lies below, the artifact that the status of the instance names.\<close>

definition purged :: "'g instance_env \<Rightarrow> service_instance \<Rightarrow> string \<Rightarrow> bool" where
  "purged env inst f \<longleftrightarrow>
     as_path (sit_artifact (si_status inst)) \<noteq> '''' \<and>
     (\<exists>p. cleanRelativePath (as_path (sit_artifact (si_status inst))) = Inr p \<and>
        under (path_join [materializer_root env, p]) f)"

definition namespace_key :: "service_instance \<Rightarrow> object_key \<Rightarrow> bool" where
  "namespace_key inst k \<longleftrightarrow> pl_namespace (sit_placement (si_status inst)) \<noteq> '''' \<and>
     k = namespaceKey (pl_namespace (sit_placement (si_status inst)))"

definition primary_key :: "service_instance \<Rightarrow> object_key \<Rightarrow> bool" where
  "primary_key inst k \<longleftrightarrow>
     (case rt_objectRef (sit_runtime (si_status inst)) of
        None \<Rightarrow> False | Some ref \<Rightarrow> parses_as_group_version (tr_apiVersion ref) \<and> k = ref_key ref)"

lemma removes_none: "(\<And>k. P k \<Longrightarrow> find_object c k s = None) \<Longrightarrow> removes c P s s"
  by (auto simp: removes_def)

lemma removes_one:
  "(\<And>k'. P k' \<longleftrightarrow> k' = k) \<Longrightarrow> removes c P s (set_objects c (AList.delete k (ku_objects (st_kube s c))) s)"
  by (auto simp: removes_def delete_conv' find_object_def [of c _ s])

lemma removes_trans:
  "removes c P s t \<Longrightarrow> removes c Q t u \<Longrightarrow> removes c (\<lambda>k. P k \<or> Q k) s u"
  by (auto simp: removes_def)

lemma kube_delete_none:
  assumes "ku_faults (st_kube s c) = []"
  shows "kube_delete c k s =
    (if find_object c k s = None then (Inl NotFound, s)
     else (Inr (), set_objects c (AList.delete k (ku_objects (st_kube s c))) s))"
  using assms by (simp add: kube_delete_def kube_write_def)

lemma deleteRuntimeNamespace_none:
  assumes "ku_faults (st_kube s c) = []"
  shows "\<exists>s'. deleteRuntimeNamespace c inst s = (Inr (), s') \<and> removes c (namespace_key inst) s s'"
proof -
  let ?k = "namespaceKey (pl_namespace (sit_placement (si_status inst)))"
  show ?thesis
  proof (cases "pl_namespace (sit_placement (si_status inst)) = '''' \<or> find_object c ?k s = None")
    case True
    then have "removes c (namespace_key inst) s s" by (intro removes_none) (auto simp: namespace_key_def)
    then show ?thesis using True assms
      by (auto simp: deleteRuntimeNamespace_def Let_def if_found_def kube_get_none)
  next
    case False
    then obtain x where x: "find_object c ?k s = Some x" by blast
    have "removes c (namespace_key inst) s (set_objects c (AList.delete ?k (ku_objects (st_kube s c))) s)"
      using False by (intro removes_one) (simp add: namespace_key_def)
    then show ?thesis using False x assms
      by (simp add: deleteRuntimeNamespace_def Let_def if_found_def kube_get_none kube_delete_none)
  qed
qed

lemma deletePrimaryResource_none:
  assumes "ku_faults (st_kube s c) = []"
  shows "\<exists>s'. deletePrimaryResource c inst s = (Inr (), s') \<and> removes c (primary_key inst) s s'"
proof (cases "rt_objectRef (sit_runtime (si_status inst))")
  case None
  then have "removes c (primary_key inst) s s" by (intro removes_none) (simp add: primary_key_def)
  then show ?thesis using None by (auto simp: deletePrimaryResource_def)
next
  case (Some ref)
  show ?thesis
  proof (cases "parses_as_group_version (tr_apiVersion ref) \<and> find_object c (ref_key ref) s \<noteq> None")
    case False
    then have "removes c (primary_key inst) s s" using Some by (intro removes_none) (auto simp: primary_key_def)
    then show ?thesis using False Some assms by (auto simp: deletePrimaryResource_def kube_delete_none)
  next
    case True
    then obtain x where x: "find_object c (ref_key ref) s = Some x" by blast
    have "removes c (primary_key inst) s (set_objects c (AList.delete (ref_key ref) (ku_objects (st_kube s c))) s)"
      using True Some by (intro removes_one) (simp add: primary_key_def)
    then show ?thesis using True x Some assms by (simp add: deletePrimaryResource_def kube_delete_none)
  qed
qed

lemma purgeArtifacts_none:
  assumes "as_path (sit_artifact (si_status inst)) = '''' \<or>
      (\<exists>p. cleanRelativePath (as_path (sit_artifact (si_status inst))) = Inr p)"
    and "d_faults (st_disk s) = []"
  obtains k where "purgeArtifacts env inst s = (Inr (), s\<lparr>st_disk := k\<rparr>)"
    "\<And>f. map_of (d_files k) f = (if purged env inst f then None else map_of (d_files (st_disk s)) f)"
proof (cases "as_path (sit_artifact (si_status inst)) = ''''")
  case True
  then show ?thesis using that [of "st_disk s"] by (simp add: purgeArtifacts_def purged_def)
next
  case False
  then obtain p where "cleanRelativePath (as_path (sit_artifact (si_status inst))) = Inr p" using assms(1) by blast
  then show ?thesis using False assms(2)
    by (intro that [of "(st_disk s)\<lparr>d_files := filter (\<lambda>(f, _). \<not> under (path_join [materializer_root env, p]) f) (d_files (st_disk s))\<rparr>"])
      (simp_all add: purgeArtifacts_def on_files_def Purge_def removeAll_def next_disk_none disk_then_def purged_def
        map_of_filter_fst)
qed

lemma updateFinalizers_last:
  assumes "map_of (co_instances w) name = Some inst" "m_deletionTimestamp (si_meta inst) \<noteq> None" "co_faults w = []"
  shows "updateFinalizers name [] w = (Inr (), w\<lparr>co_instances := AList.delete name (co_instances w)\<rparr>)"
  using assms by (simp add: updateFinalizers_def stored_finalizers_def control_fault_none)

section \<open>Deletion on a given cluster\<close>

definition deletable :: "string \<Rightarrow> service_instance \<Rightarrow> 'g site \<Rightarrow> bool" where
  "deletable name inst s \<longleftrightarrow>
     map_of (co_instances (st_control s)) name = Some inst \<and> m_name (si_meta inst) = name \<and>
     m_deletionTimestamp (si_meta inst) \<noteq> None \<and> set (m_finalizers (si_meta inst)) \<subseteq> {instanceFinalizer} \<and>
     (as_path (sit_artifact (si_status inst)) = '''' \<or>
      (\<exists>p. cleanRelativePath (as_path (sit_artifact (si_status inst))) = Inr p)) \<and>
     co_faults (st_control s) = [] \<and> d_faults (st_disk s) = [] \<and> (\<forall>c. ku_faults (st_kube s c) = [])"

lemma removeFromSlice_all: "set xs \<subseteq> {t} \<Longrightarrow> removeFromSlice xs t = []"
  by (induction xs) (auto simp: removeFromSlice_def)

text \<open>What a finished deletion on \<open>c\<close> has done, to the control plane, the clusters, the delivery tree and git.\<close>

definition deleted_on :: "'g instance_env \<Rightarrow> string \<Rightarrow> service_instance \<Rightarrow> client \<Rightarrow> 'g site \<Rightarrow> 'g site \<Rightarrow> bool" where
  "deleted_on env name inst c s s' \<longleftrightarrow>
     st_control s' = (st_control s)\<lparr>co_instances := AList.delete name (co_instances (st_control s))\<rparr> \<and>
     map_of (co_instances (st_control s')) name = None \<and>
     (\<forall>c' k. find_object c' k s' =
        (if c' = c \<and> (namespace_key inst k \<or> primary_key inst k) then None else find_object c' k s)) \<and>
     (\<forall>f. map_of (d_files (st_disk s')) f = (if purged env inst f then None else map_of (d_files (st_disk s)) f)) \<and>
     st_git s' = st_git s"

lemma deletion_on:
  assumes "deletable name inst s" "deletionClient env inst s = (Inr c, s)"
  shows "\<exists>s'. ServiceInstanceReconcile env name s = (Inr done_result, s') \<and> deleted_on env name inst c s s'"
proof -
  note ok = assms(1) [unfolded deletable_def]
  have g: "on_control (get_obj serviceInstances name) s = (Inr inst, s)"
    using ok by (simp add: on_control_def get_obj_none)
  obtain k where p: "purgeArtifacts env inst s = (Inr (), s\<lparr>st_disk := k\<rparr>)"
    "\<And>f. map_of (d_files k) f = (if purged env inst f then None else map_of (d_files (st_disk s)) f)"
    by (rule purgeArtifacts_none [of inst s env]) (use ok in blast)+
  let ?s1 = "s\<lparr>st_disk := k\<rparr>"
  have f1: "ku_faults (st_kube ?s1 c) = []" using ok by simp
  obtain s2 where n: "deleteRuntimeNamespace c inst ?s1 = (Inr (), s2)" "removes c (namespace_key inst) ?s1 s2"
    using deleteRuntimeNamespace_none [OF f1] by blast
  have f2: "ku_faults (st_kube s2 c) = []" using n(2) f1 by (simp add: removes_def)
  obtain s3 where r: "deletePrimaryResource c inst s2 = (Inr (), s3)" "removes c (primary_key inst) s2 s3"
    using deletePrimaryResource_none [OF f2] by blast
  note gone = removes_trans [OF n(2) r(2)]
  let ?w = "(st_control s)\<lparr>co_instances := AList.delete name (co_instances (st_control s))\<rparr>"
  have u: "on_control (updateFinalizers name []) s3 = (Inr (), s3\<lparr>st_control := ?w\<rparr>)"
    using updateFinalizers_last [of "st_control s" name inst] ok gone by (simp add: on_control_def removes_def)
  have "ServiceInstanceReconcile env name s = (Inr done_result, s3\<lparr>st_control := ?w\<rparr>)"
    using g ok p(1) n(1) r(1) u removeFromSlice_all [of "m_finalizers (si_meta inst)" instanceFinalizer] assms(2)
    by (simp add: ServiceInstanceReconcile_def handleDeletion_def)
  moreover have "find_object c' k' (s3\<lparr>st_control := ?w\<rparr>) =
      (if c' = c \<and> (namespace_key inst k' \<or> primary_key inst k') then None else find_object c' k' s)" for c' k'
  proof -
    have "find_object c' k' s3 = (if c' = c \<and> (namespace_key inst k' \<or> primary_key inst k') then None else find_object c' k' ?s1)"
      using gone unfolding removes_def by blast
    moreover have "find_object c' k' (s3\<lparr>st_control := ?w\<rparr>) = find_object c' k' s3" "find_object c' k' ?s1 = find_object c' k' s"
      by (simp_all add: find_object_def)
    ultimately show ?thesis by presburger
  qed
  moreover have "st_disk s3 = k" "st_git s3 = st_git s" using gone by (simp_all add: removes_def)
  ultimately show ?thesis using p(2) by (simp add: deleted_on_def delete_conv')
qed

section \<open>Which cluster it is\<close>

lemma deletionClient_projectless:
  assumes "co_faults (st_control s) = []" "map_of (co_projects (st_control s)) (lr_name (sis_projectRef (si_spec inst))) = None"
  shows "deletionClient env inst s = (Inr Management, s)"
  using assms by (simp add: deletionClient_def Let_def if_found_def on_control_def get_obj_none)

lemma deletionClient_placed:
  assumes "co_faults (st_control s) = []" "lr_name (sis_projectRef (si_spec inst)) \<noteq> ''''"
    and "map_of (co_projects (st_control s)) (lr_name (sis_projectRef (si_spec inst))) = Some project"
    and "pl_clusterName (prt_placement (pj_status project)) = place" "trimSpace place = place" "place \<noteq> ''''"
    and "map_of (co_targets (st_control s)) place = Some target" "getTargetClient env (Some target) s = (Inr (Some c), s)"
  shows "deletionClient env inst s = (Inr c, s)"
  using assms by (simp add: deletionClient_def if_found_def on_control_def get_obj_none resolvedClusterName_def
      resolveClusterTargetForProject_def Let_def)

text \<open>
  C8 An instance is being deleted, its only finalizer is the controller's, the path of its artifact is a clean relative
  one, its project is there and placed on a stored target for which a client can be built, and no call fails. Then,
  whatever its deletion policy says, one run ends with the instance gone and no other custom resource changed; on that
  cluster the namespace and the primary resource of its status are gone, and every other object of every cluster is as it
  was; in the delivery tree exactly the files at and below its artifact are gone, and git is as it was.
\<close>

theorem deletion_completes:
  assumes "deletable name inst s" "lr_name (sis_projectRef (si_spec inst)) \<noteq> ''''"
    and "map_of (co_projects (st_control s)) (lr_name (sis_projectRef (si_spec inst))) = Some project"
    and "pl_clusterName (prt_placement (pj_status project)) = place" "trimSpace place = place" "place \<noteq> ''''"
    and "map_of (co_targets (st_control s)) place = Some target" "getTargetClient env (Some target) s = (Inr (Some c), s)"
  shows "\<exists>s'. ServiceInstanceReconcile env name s = (Inr done_result, s') \<and>
    st_control s' = (st_control s)\<lparr>co_instances := AList.delete name (co_instances (st_control s))\<rparr> \<and>
    map_of (co_instances (st_control s')) name = None \<and>
    (\<forall>c' k. find_object c' k s' =
       (if c' = c \<and> (namespace_key inst k \<or> primary_key inst k) then None else find_object c' k s)) \<and>
    (\<forall>f. map_of (d_files (st_disk s')) f = (if purged env inst f then None else map_of (d_files (st_disk s)) f)) \<and>
    st_git s' = st_git s"
proof -
  have "co_faults (st_control s) = []" using assms(1) by (simp add: deletable_def)
  from deletion_on [OF assms(1) deletionClient_placed [OF this assms(2-8)]] show ?thesis
    unfolding deleted_on_def .
qed

text \<open>
  C38 If the project of an instance is gone when the instance is deleted, the run succeeds and the instance is
  gone, while every object on every remote cluster is still there: the code falls back to the management cluster.
\<close>

theorem deletion_forgets_remote_objects:
  assumes "deletable name inst s"
    and "map_of (co_projects (st_control s)) (lr_name (sis_projectRef (si_spec inst))) = None"
  shows "\<exists>s'. ServiceInstanceReconcile env name s = (Inr done_result, s') \<and>
    map_of (co_instances (st_control s')) name = None \<and>
    (\<forall>server k. find_object (Remote server) k s' = find_object (Remote server) k s)"
proof -
  have "co_faults (st_control s) = []" using assms(1) by (simp add: deletable_def)
  from deletion_on [OF assms(1) deletionClient_projectless [OF this assms(2)]]
  obtain s' where "ServiceInstanceReconcile env name s = (Inr done_result, s')" "deleted_on env name inst Management s s'"
    by blast
  moreover from this have "map_of (co_instances (st_control s')) name = None"
    "\<forall>server k. find_object (Remote server) k s' = find_object (Remote server) k s"
    unfolding deleted_on_def by (blast, simp del: split_paired_All)
  ultimately show ?thesis by blast
qed

section \<open>An example\<close>

text \<open>The database of the samples, running on the remote cluster \<open>c1\<close> and about to be deleted.\<close>

definition remote_ref :: typed_ref where
  "remote_ref = \<lparr>tr_apiVersion = ''postgresql.cnpg.io/v1'', tr_kind = ''Cluster'', tr_name = ''db'', tr_namespace = ''n''\<rparr>"

definition remote_target :: cluster_target where
  "remote_target = \<lparr>ctg_meta = sampleMeta ''c1'',
     ctg_spec = \<lparr>cts_displayName = '''', cts_connectionRef = \<lparr>nr_name = ''c1'', nr_namespace = ''servicer''\<rparr>, cts_region = '''',
       cts_capabilities = [], cts_defaultPolicyRefs = [], cts_ingressDomain = '''', cts_requiredPackages = []\<rparr>,
     ctg_status = \<lparr>ctt_observedGeneration = 1, ctt_phase = '''', ctt_conditions = [], ctt_reachable = True,
       ctt_operatorInventory = [], ctt_packages = [], ctt_kubernetesVersion = '''', ctt_lastValidatedAt = None\<rparr>\<rparr>"

definition leavingInstance :: service_instance where
  "leavingInstance = openInstance\<lparr>si_meta := (si_meta openInstance)\<lparr>m_deletionTimestamp := Some 9\<rparr>,
     si_spec := (si_spec openInstance)\<lparr>sis_deletionPolicy := ''Retain''\<rparr>,
     si_status := (si_status openInstance)\<lparr>sit_placement := \<lparr>pl_clusterName = ''c1'', pl_namespace = ''n''\<rparr>,
       sit_runtime := \<lparr>rt_driver = ''cnpg'', rt_objectRef = Some remote_ref\<rparr>\<rparr>\<rparr>"

definition leaving_site :: "(string, project) gomap \<Rightarrow> unit site" where
  "leaving_site ps = open_site\<lparr>
     st_control := openControl\<lparr>co_projects := ps, co_instances := [(''db'', leavingInstance)],
       co_targets := [(''c1'', remote_target)]\<rparr>,
     st_kube := \<lambda>c. \<lparr>ku_objects = (case c of
         Management \<Rightarrow> [(secretKey ''servicer'' ''c1'', KSecret \<lparr>sc_labels = [], sc_annotations = [], sc_type = '''',
           sc_data = [(''kubeconfig'', ''c1'')]\<rparr>)]
       | Remote server \<Rightarrow> [(namespaceKey ''n'', KNamespace), (ref_key remote_ref, KOther [] UNull)]),
       ku_faults = []\<rparr>\<rparr>"

lemma leaving_deletable: "deletable ''db'' leavingInstance (leaving_site ps)"
  by (simp add: deletable_def leaving_site_def leavingInstance_def openInstance_def open_site_def openControl_def
      empty_control_def sampleInstance_def sampleInstanceStatus_def)

lemma leaving_project: "lr_name (sis_projectRef (si_spec leavingInstance)) = ''shop''"
  by (simp add: leavingInstance_def openInstance_def)

lemma leaving_client:
  "getTargetClient open_env (Some remote_target) (leaving_site ps) = (Inr (Some (Remote ''c1'')), leaving_site ps)"
proof -
  have "get_secret_at Management ''servicer'' ''c1'' (leaving_site ps) =
      (Inr \<lparr>sc_labels = [], sc_annotations = [], sc_type = '''', sc_data = [(''kubeconfig'', ''c1'')]\<rparr>, leaving_site ps)"
    by (simp add: get_secret_at_def kube_get_none find_object_def leaving_site_def)
  moreover have "\<not> blank ''c1''" "\<not> blank ''servicer''" by code_simp+
  ultimately show ?thesis
    by (simp add: getTargetClient_def remote_target_def clusterConnectionData_def map_get_def open_env_def)
qed

theorem deletion_completes_witness:
  "sis_deletionPolicy (si_spec leavingInstance) = ''Retain'' \<and>
   (\<exists>s'. ServiceInstanceReconcile open_env ''db'' (leaving_site [(''shop'', openProject)]) = (Inr done_result, s') \<and>
     find_object (Remote ''c1'') (ref_key remote_ref) s' = None)"
proof -
  have "sis_deletionPolicy (si_spec leavingInstance) = ''Retain''" by (simp add: leavingInstance_def)
  moreover have "primary_key leavingInstance (ref_key remote_ref)"
    by (simp add: primary_key_def leavingInstance_def parses_as_group_version_def remote_ref_def)
  moreover have "pl_clusterName (prt_placement (pj_status openProject)) = ''c1''" "trimSpace ''c1'' = ''c1''"
    by code_simp+
  moreover have "map_of (co_projects (st_control (leaving_site [(''shop'', openProject)]))) ''shop'' = Some openProject"
    "map_of (co_targets (st_control (leaving_site [(''shop'', openProject)]))) ''c1'' = Some remote_target"
    by (simp_all add: leaving_site_def)
  ultimately show ?thesis
    using deletion_completes [OF leaving_deletable, of "[(''shop'', openProject)]" openProject "''c1''" remote_target open_env "Remote ''c1''"]
      leaving_client [of "[(''shop'', openProject)]"] leaving_project by (auto simp del: split_paired_All)
qed

theorem deletion_forgets_remote_objects_witness:
  "\<exists>s'. ServiceInstanceReconcile open_env ''db'' (leaving_site []) = (Inr done_result, s') \<and>
     map_of (co_instances (st_control s')) ''db'' = None \<and>
     find_object (Remote ''c1'') (ref_key remote_ref) s' = Some (KOther [] UNull)"
proof -
  have "map_of (co_projects (st_control (leaving_site []))) (lr_name (sis_projectRef (si_spec leavingInstance))) = None"
    by (simp add: leaving_site_def)
  from deletion_forgets_remote_objects [OF leaving_deletable this, of open_env]
  obtain s' where "ServiceInstanceReconcile open_env ''db'' (leaving_site []) = (Inr done_result, s')"
    "map_of (co_instances (st_control s')) ''db'' = None"
    "\<And>server k. find_object (Remote server) k s' = find_object (Remote server) k (leaving_site [])" by blast
  moreover have "find_object (Remote ''c1'') (ref_key remote_ref) (leaving_site []) = Some (KOther [] UNull)"
    by (simp add: find_object_def leaving_site_def ref_key_def remote_ref_def)
  ultimately show ?thesis by metis
qed

end
