(* ===== verification/Instance_Safety.thy ===== *)
theory Instance_Safety
  imports Instance_Facts
begin

text \<open>
  Which applications exist after \<open>ensureArgoApplication\<close>, whatever calls fail. \<open>never_two_applications\<close>: an instance
  is not delivered by an application and by an application set at once.
\<close>

section \<open>Which objects are there\<close>

definition there :: "'g site \<Rightarrow> object_key \<Rightarrow> bool" where
  "there s k \<longleftrightarrow> find_object Management k s \<noteq> None"

text \<open>The API server says \<open>NotFound\<close> of nothing that is there.\<close>

definition honest :: "'g site \<Rightarrow> bool" where
  "honest s \<longleftrightarrow> (\<forall>f \<in> set (ku_faults (st_kube s Management)). f \<noteq> Refused NotFound \<and> f \<noteq> Lost NotFound)"

lemma kube_fault_honest:
  "kube_fault Management s = (f, s') \<Longrightarrow> honest s \<Longrightarrow> honest s' \<and> f \<noteq> Refused NotFound \<and> f \<noteq> Lost NotFound"
  by (auto simp: kube_fault_def honest_def split: list.splits)

lemma honest_set [simp]: "honest (set_objects c m s) = honest s"
  by (simp add: honest_def)

lemma there_same: "same_objects s s' \<Longrightarrow> there s' = there s"
  by (auto simp: there_def same_objects_find)

lemma there_update [simp]:
  "there (set_objects Management (AList.update k x (ku_objects (st_kube s Management))) s) k' \<longleftrightarrow> k' = k \<or> there s k'"
  by (auto simp: there_def find_object_def [of Management _ s] update_conv')

lemma there_delete [simp]:
  "there (set_objects Management (AList.delete k (ku_objects (st_kube s Management))) s) k' \<longleftrightarrow> k' \<noteq> k \<and> there s k'"
  by (auto simp: there_def find_object_def [of Management _ s] delete_conv')

lemma argo_get:
  assumes "kube_get Management k s = (r, s')" "honest s"
  shows "honest s'" "there s' = there s" "r = Inl NotFound \<Longrightarrow> \<not> there s k"
proof -
  obtain f s1 where f: "kube_fault Management s = (f, s1)" by (cases "kube_fault Management s")
  note h = kube_fault_honest [OF f assms(2)] and t = there_same [OF kube_fault_same [OF f]]
  have "s' = s1 \<and> (r = Inl NotFound \<longrightarrow> find_object Management k s1 = None)"
    using assms(1) f h by (cases f) (auto simp: kube_get_def kube_read_def split: option.splits)
  then have "s' = s1" "r = Inl NotFound \<longrightarrow> \<not> there s1 k" by (auto simp: there_def)
  then show "honest s'" "there s' = there s" "r = Inl NotFound \<Longrightarrow> \<not> there s k" using h t by simp_all
qed

lemma argo_update:
  assumes "kube_update Management k x s = (r, s')" "honest s"
  shows "honest s'" "there s' = there s"
proof -
  obtain f s1 where f: "kube_fault Management s = (f, s1)" by (cases "kube_fault Management s")
  note h = kube_fault_honest [OF f assms(2)] and t = there_same [OF kube_fault_same [OF f]]
  show "honest s'" using assms(1) f h
    by (cases f) (auto simp: kube_update_def kube_write_def split: if_splits)
  have "there s' k' = there s1 k'" for k' using assms(1) f h
    by (cases f) (auto simp: kube_update_def kube_write_def there_def [of s1 k] split: if_splits)
  then show "there s' = there s" using t by auto
qed

lemma argo_create:
  assumes "kube_create Management k x s = (r, s')" "honest s"
  shows "honest s'" "k' \<noteq> k \<Longrightarrow> there s' k' = there s k'"
proof -
  obtain f s1 where f: "kube_fault Management s = (f, s1)" by (cases "kube_fault Management s")
  note h = kube_fault_honest [OF f assms(2)] and t = there_same [OF kube_fault_same [OF f]]
  show "honest s'" "k' \<noteq> k \<Longrightarrow> there s' k' = there s k'" using assms(1) f h t
    by (cases f; auto simp: kube_create_def kube_write_def split: if_splits)+
qed

lemma argo_delete:
  assumes "kube_delete Management k s = (r, s')" "honest s"
  shows "honest s'" "\<And>k'. k' \<noteq> k \<Longrightarrow> there s' k' = there s k'" "there s' k \<Longrightarrow> there s k"
    "r = Inr () \<or> r = Inl NotFound \<Longrightarrow> \<not> there s' k"
proof -
  obtain f s1 where f: "kube_fault Management s = (f, s1)" by (cases "kube_fault Management s")
  note h = kube_fault_honest [OF f assms(2)] and t = there_same [OF kube_fault_same [OF f]]
  let ?s = "set_objects Management (AList.delete k (ku_objects (st_kube s1 Management))) s1"
  have "s' = s1 \<and> r \<noteq> Inr () \<and> (r = Inl NotFound \<longrightarrow> \<not> there s1 k) \<or> s' = ?s"
    using assms(1) f h by (cases f) (auto simp: kube_delete_def kube_write_def there_def split: if_splits)
  then consider "s' = s1" "r \<noteq> Inr ()" "r = Inl NotFound \<longrightarrow> \<not> there s1 k" | "s' = ?s" by blast
  note results = this
  show "honest s'" using h by (cases rule: results) simp_all
  show "there s' k' = there s k'" if "k' \<noteq> k" for k' using t that by (cases rule: results) simp_all
  show "there s' k \<Longrightarrow> there s k" using t by (cases rule: results) simp_all
  show "r = Inr () \<or> r = Inl NotFound \<Longrightarrow> \<not> there s' k" by (cases rule: results) auto
qed

definition others_there :: "object_key \<Rightarrow> 'g site \<Rightarrow> 'g site \<Rightarrow> bool" where
  "others_there k s s' \<longleftrightarrow> (\<forall>k'. k' \<noteq> k \<longrightarrow> there s' k' = there s k')"

lemma others_thereD: "others_there k s s' \<Longrightarrow> k' \<noteq> k \<Longrightarrow> there s' k' = there s k'"
  unfolding others_there_def by blast

lemma deleteArgo_there:
  assumes "deleteArgoResourceIfExists ns kind n s = (r, s')" "honest s"
  shows "honest s' \<and> others_there (argoKey kind ns n) s s' \<and>
    (there s' (argoKey kind ns n) \<longrightarrow> there s (argoKey kind ns n)) \<and> (r = Inr () \<longrightarrow> \<not> there s' (argoKey kind ns n))"
proof -
  let ?k = "argoKey kind ns n"
  obtain g s1 where g: "kube_get Management ?k s = (g, s1)" by (cases "kube_get Management ?k s")
  note get = argo_get [OF g assms(2)]
  obtain q s2 where d: "kube_delete Management ?k s1 = (q, s2)" by (cases "kube_delete Management ?k s1")
  note del = argo_delete [OF d get(1)]
  show ?thesis
  proof (cases g)
    case (Inl e)
    then have "s' = s1" "r = Inr () \<Longrightarrow> e = NotFound" using assms(1) g
      by (auto simp: deleteArgoResourceIfExists_def if_found_def split: if_splits)
    then show ?thesis using Inl get by (auto simp: others_there_def)
  next
    case (Inr x)
    have "s' = s2" "r = Inr () \<Longrightarrow> q = Inr () \<or> q = Inl NotFound"
      using assms(1) g d Inr by (auto simp: deleteArgoResourceIfExists_def if_found_def split: sum.splits if_splits)
    then show ?thesis using del get(2) unfolding others_there_def by metis
  qed
qed

section \<open>One application\<close>

definition delivered_twice :: "'g instance_env \<Rightarrow> string \<Rightarrow> 'g site \<Rightarrow> bool" where
  "delivered_twice env n s \<longleftrightarrow>
     there s (argoKey ''Application'' (argoNamespace env) n) \<and> there s (argoKey ''ApplicationSet'' (argoNamespace env) n)"

lemma argo_keys [simp]: "argoKey ''Application'' ns n \<noteq> argoKey ''ApplicationSet'' ns n"
  "argoKey ''ApplicationSet'' ns n \<noteq> argoKey ''Application'' ns n"
  by simp_all

lemma passD: "pass r = (x, s') \<Longrightarrow> \<exists>q. r = (q, s')"
  by (cases r; cases "fst r") (auto simp: pass_def)

lemma once_same: "there s' = there s \<Longrightarrow> \<not> delivered_twice env n s \<Longrightarrow> \<not> delivered_twice env n s'"
  by (simp add: delivered_twice_def)

text \<open>Deleting the one kind, and creating the other if that succeeded.\<close>

lemma replaced_once:
  assumes "and_then (deleteArgoResourceIfExists (argoNamespace env) old n s)
      (\<lambda>_ s. pass (kube_create Management (argoKey new (argoNamespace env) n) x s)) = (r, s')" "honest s"
    and "\<not> delivered_twice env n s" "(old, new) \<in> {(''Application'', ''ApplicationSet''), (''ApplicationSet'', ''Application'')}"
  shows "\<not> delivered_twice env n s'"
proof -
  let ?ns = "argoNamespace env"
  have neq: "argoKey old ?ns n \<noteq> argoKey new ?ns n" using assms(4) by auto
  have twice: "delivered_twice env n t \<longleftrightarrow> there t (argoKey old ?ns n) \<and> there t (argoKey new ?ns n)" for t
    using assms(4) by (auto simp: delivered_twice_def)
  obtain d s2 where d: "deleteArgoResourceIfExists ?ns old n s = (d, s2)" by (cases "deleteArgoResourceIfExists ?ns old n s")
  note del = deleteArgo_there [OF d assms(2)]
  have others: "there s2 (argoKey new ?ns n) = there s (argoKey new ?ns n)"
    by (rule others_thereD [of "argoKey old ?ns n"]) (use del neq in blast)+
  show ?thesis
  proof (cases d)
    case (Inl e)
    then have "s' = s2" using assms(1) unfolding d by simp
    then show ?thesis using del assms(3) others unfolding twice by blast
  next
    case (Inr u)
    then have "pass (kube_create Management (argoKey new ?ns n) x s2) = (r, s')" using assms(1) unfolding d by simp
    from passD [OF this] obtain q where c: "kube_create Management (argoKey new ?ns n) x s2 = (q, s')" by blast
    have "there s' (argoKey old ?ns n) = there s2 (argoKey old ?ns n)"
      by (rule argo_create(2) [OF c]) (use del neq in blast)+
    then show ?thesis using del Inr unfolding twice by simp
  qed
qed

lemma ensureSingle_once:
  assumes "ensureSingleApplication env (argoNamespace env) n project inst path s = (r, s')" "honest s" "\<not> delivered_twice env n s"
  shows "\<not> delivered_twice env n s'"
proof -
  let ?a = "argoKey ''Application'' (argoNamespace env) n"
  obtain g s1 where g: "kube_get Management ?a s = (g, s1)" by (cases "kube_get Management ?a s")
  note get = argo_get [OF g assms(2)]
  note once = once_same [OF get(2) assms(3)]
  show ?thesis
  proof (cases g)
    case (Inr x)
    have "pass (kube_update Management ?a (replaced_spec x (argo_labels project inst)
        (applicationSpec env (deliverySourcePath (ie_DeliveryRepoPath env) path) (pl_clusterName (sit_placement (si_status inst)))
          (pl_namespace (sit_placement (si_status inst))))) s1) = (r, s')"
      using assms(1) unfolding ensureSingleApplication_def Let_def if_found_def g Inr by simp
    from passD [OF this] obtain y q where u: "kube_update Management ?a y s1 = (q, s')" by blast
    from once_same [OF argo_update(2) [OF u get(1)] once] show ?thesis .
  next
    case (Inl e)
    show ?thesis
    proof (cases "e = NotFound")
      case False
      then have "s' = s1" using assms(1) Inl unfolding ensureSingleApplication_def Let_def if_found_def g by simp
      then show ?thesis using once by simp
    next
      case True
      have "and_then (deleteArgoResourceIfExists (argoNamespace env) ''ApplicationSet'' n s1)
          (\<lambda>_ s. pass (kube_create Management ?a (desired_object (argo_labels project inst)
            (applicationSpec env (deliverySourcePath (ie_DeliveryRepoPath env) path) (pl_clusterName (sit_placement (si_status inst)))
              (pl_namespace (sit_placement (si_status inst))))) s)) = (r, s')"
        using assms(1) True unfolding ensureSingleApplication_def Let_def if_found_def g Inl by simp
      from replaced_once [OF this get(1) once] show ?thesis by simp
    qed
  qed
qed

lemma ensureSet_once:
  assumes "ensureArgoApplicationSet env (argoNamespace env) n project inst paths s = (r, s')" "honest s" "\<not> delivered_twice env n s"
  shows "\<not> delivered_twice env n s'"
proof (cases "applicationSetElements paths = []")
  case True
  then show ?thesis using assms by (simp add: ensureArgoApplicationSet_def)
next
  case False
  let ?k = "argoKey ''ApplicationSet'' (argoNamespace env) n"
  obtain g s1 where g: "kube_get Management ?k s = (g, s1)" by (cases "kube_get Management ?k s")
  note get = argo_get [OF g assms(2)]
  note once = once_same [OF get(2) assms(3)]
  show ?thesis
  proof (cases g)
    case (Inr x)
    let ?u = "kube_update Management ?k (replaced_spec x (argo_labels project inst)
      (applicationSetSpec env n project inst (applicationSetElements paths))) s1"
    obtain q s2 where u: "?u = (q, s2)" by (cases ?u)
    note upd = argo_update [OF u get(1)]
    have "and_then (pass (q, s2)) (\<lambda>_. deleteArgoResourceIfExists (argoNamespace env) ''Application'' n) = (r, s')"
      using assms(1) False unfolding ensureArgoApplicationSet_def Let_def if_found_def g Inr by (simp add: u)
    then have "s' = s2 \<or> deleteArgoResourceIfExists (argoNamespace env) ''Application'' n s2 = (r, s')"
      by (cases q) auto
    then show ?thesis
    proof
      assume "deleteArgoResourceIfExists (argoNamespace env) ''Application'' n s2 = (r, s')"
      note del = deleteArgo_there [OF this upd(1)]
      have "there s' ?k = there s2 ?k"
        by (rule others_thereD [of "argoKey ''Application'' (argoNamespace env) n"]) (use del argo_keys(2) in blast)+
      then show ?thesis using del once_same [OF upd(2) once] unfolding delivered_twice_def by blast
    qed (use once_same [OF upd(2) once] in simp)
  next
    case (Inl e)
    show ?thesis
    proof (cases "e = NotFound")
      case False
      then have "s' = s1" using assms(1) \<open>applicationSetElements paths \<noteq> []\<close>
        unfolding ensureArgoApplicationSet_def Let_def if_found_def g Inl by simp
      then show ?thesis using once by simp
    next
      case True
      have "and_then (deleteArgoResourceIfExists (argoNamespace env) ''Application'' n s1)
          (\<lambda>_ s. pass (kube_create Management ?k (desired_object (argo_labels project inst)
            (applicationSetSpec env n project inst (applicationSetElements paths))) s)) = (r, s')"
        using assms(1) True False unfolding ensureArgoApplicationSet_def Let_def if_found_def g Inl by simp
      from replaced_once [OF this get(1) once] show ?thesis by simp
    qed
  qed
qed

lemma ensureArgo_once:
  assumes "ensureArgoApplication env project d path paths s = (r, s')" "honest s"
    and "\<not> delivered_twice env (argoApplicationName project (drafted d)) s"
  shows "\<not> delivered_twice env (argoApplicationName project (drafted d)) s'"
proof -
  let ?n = "argoApplicationName project (drafted d)" and ?ns = "argoNamespace env"
  obtain g s1 where g: "kube_get Management (crdKey ''applications.argoproj.io'') s = (g, s1)"
    by (cases "kube_get Management (crdKey ''applications.argoproj.io'') s")
  obtain q s2 where q: "kube_get Management (crdKey ''applicationsets.argoproj.io'') s1 = (q, s2)"
    by (cases "kube_get Management (crdKey ''applicationsets.argoproj.io'') s1")
  note get1 = argo_get [OF g assms(2)]
  note get2 = argo_get [OF q get1(1)]
  note once1 = once_same [OF get1(2) assms(3)]
  note once2 = once_same [OF get2(2) once1]
  have single: "\<not> delivered_twice env ?n t'"
    if "and_then (ensureSingleApplication env ?ns ?n project (drafted d) path t) (\<lambda>_ s. (Inr d, s)) = (r, t')"
      "honest t" "\<not> delivered_twice env ?n t" for t t'
  proof (cases "ensureSingleApplication env ?ns ?n project (drafted d) path t")
    case (Pair x t1)
    then have "t' = t1" using that(1) by (cases x) auto
    then show ?thesis using ensureSingle_once [OF Pair that(2,3)] by simp
  qed
  have many: "\<not> delivered_twice env ?n t'"
    if "and_then (ensureArgoApplicationSet env ?ns ?n project (drafted d) paths t) (\<lambda>_ s. (Inr d, s)) = (r, t')"
      "honest t" "\<not> delivered_twice env ?n t" for t t'
  proof (cases "ensureArgoApplicationSet env ?ns ?n project (drafted d) paths t")
    case (Pair x t1)
    then have "t' = t1" using that(1) by (cases x) auto
    then show ?thesis using ensureSet_once [OF Pair that(2,3)] by simp
  qed
  note def = assms(1) [unfolded ensureArgoApplication_def Let_def if_found_def g]
  show ?thesis
  proof (cases "blank (ie_DeliveryRepoURL env) \<or> isl g \<or> \<not> length paths > 1")
    case True
    then show ?thesis using def assms(3) once1 single [OF _ get1(1) once1]
      by (cases g) (auto split: if_splits)
  next
    case False
    then show ?thesis using def once2 single [OF _ get2(1) once2] many [OF _ get2(1) once2]
      by (cases g; cases q) (auto simp: q split: if_splits)
  qed
qed

text \<open>
  C7 If an instance is not delivered both by an application and by an application set of its name, it is not after
  \<open>ensureArgoApplication\<close> either, however many packages it has and wherever the calls fail: the one is gone before
  the other is created.
\<close>

theorem never_two_applications:
  assumes "honest s" "\<not> delivered_twice env (argoApplicationName project (drafted d)) s"
  shows "\<not> delivered_twice env (argoApplicationName project (drafted d)) (snd (ensureArgoApplication env project d path paths s))"
  using ensureArgo_once [OF _ assms] by (cases "ensureArgoApplication env project d path paths s") simp

text \<open>An instance that moves from one cluster to two, in a management cluster that has Argo CD.\<close>

definition argo_env :: "unit instance_env" where
  "argo_env = open_env\<lparr>ie_DeliveryRepoURL := ''https://git.example/d''\<rparr>"

definition argo_site :: "unit site" where
  "argo_site = set_objects Management
     [(crdKey ''applications.argoproj.io'', KOther [] UNull), (crdKey ''applicationsets.argoproj.io'', KOther [] UNull),
      (argoKey ''Application'' ''argocd'' ''shop-db'', KOther [] UNull)] open_site"

lemma argo_moved:
  "there (snd (ensureArgoApplication argo_env openProject open_draft '''' [''clusters/c1/db'', ''clusters/c2/db''] argo_site))
     (argoKey ''ApplicationSet'' ''argocd'' ''shop-db'')"
  by code_simp

theorem never_two_applications_witness:
  "\<not> there (snd (ensureArgoApplication argo_env openProject open_draft '''' [''clusters/c1/db'', ''clusters/c2/db''] argo_site))
     (argoKey ''Application'' ''argocd'' ''shop-db'')"
proof -
  have n: "argoApplicationName openProject (drafted open_draft) = ''shop-db''" "argoNamespace argo_env = ''argocd''" by code_simp+
  have "honest argo_site" by (simp add: honest_def argo_site_def open_site_def)
  moreover have "\<not> delivered_twice argo_env (argoApplicationName openProject (drafted open_draft)) argo_site"
    by (simp add: delivered_twice_def n there_def argo_site_def)
  ultimately have "\<not> delivered_twice argo_env (argoApplicationName openProject (drafted open_draft))
      (snd (ensureArgoApplication argo_env openProject open_draft '''' [''clusters/c1/db'', ''clusters/c2/db''] argo_site))"
    by (rule never_two_applications)
  then show ?thesis using argo_moved unfolding delivered_twice_def n by blast
qed

end
