(* ===== verification/Instance_Passwords.thy ===== *)
theory Instance_Passwords
  imports Instance_Samples
begin

text \<open>
  The Secrets of databases and caches over any number of runs. \<open>passwords_are_kept\<close>: no run replaces a password
  that is stored, or touches credentials that are complete, whatever calls fail. \<open>credentials_provided\<close>: a run that
  succeeds leaves every reference with a password and a user name.
\<close>

section \<open>What is kept of a Secret\<close>

definition secret_password :: "secret \<Rightarrow> string" where
  "secret_password sec = map_get (sc_data sec) ''password''"

definition complete_secret :: "secret \<Rightarrow> bool" where
  "complete_secret sec \<longleftrightarrow> secret_password sec \<noteq> '''' \<and> map_get (sc_data sec) ''username'' \<noteq> ''''"

text \<open>With no Secret to look at, nothing is said.\<close>

definition secret_kept :: "client \<Rightarrow> object_key \<Rightarrow> secret option \<Rightarrow> 'g site \<Rightarrow> bool" where
  "secret_kept c k old s \<longleftrightarrow>
     (\<forall>sec. old = Some sec \<longrightarrow> (\<exists>sec'. find_object c k s = Some (KSecret sec') \<and>
        (secret_password sec \<noteq> '''' \<longrightarrow> secret_password sec' = secret_password sec) \<and> (complete_secret sec \<longrightarrow> sec' = sec)))"

lemma secret_kept_now: "find_object c k s = Some (KSecret sec) \<Longrightarrow> secret_kept c k (Some sec) s"
  by (simp add: secret_kept_def)

lemma secret_kept_none [simp]: "secret_kept c k None s"
  by (simp add: secret_kept_def)

lemma find_written [simp]:
  "find_object c k (set_objects c' (AList.update k' x (ku_objects (st_kube s c'))) s) =
     (if c = c' \<and> k = k' then Some x else find_object c k s)"
  by (auto simp: find_object_def [of c k s] update_conv')

lemma kept_same: "same_objects s s' \<Longrightarrow> secret_kept c k sec s \<Longrightarrow> secret_kept c k sec s'"
  by (simp add: secret_kept_def same_objects_find)

lemma kept_create:
  assumes "kube_create c' k' x s = (r, s')" "secret_kept c k sec s"
  shows "secret_kept c k sec s'"
  using assms(1) unfolding kube_create_def
proof (cases rule: kube_write_cases)
  case (1 s1)
  then show ?thesis using kept_same [OF _ assms(2)] by simp
next
  case (2 s1)
  from kept_same [OF 2(1) assms(2)] 2(2) show ?thesis
    unfolding 2(3) secret_kept_def by (auto simp del: find_set_objects split: if_splits)
qed

lemma kept_update:
  assumes "kube_update c' k' (KSecret new) s = (r, s')" "secret_kept c k sec s"
    and "find_object c' k' s = Some (KSecret old)" "\<not> complete_secret old"
    and "secret_password old \<noteq> '''' \<Longrightarrow> secret_password new = secret_password old"
  shows "secret_kept c k sec s'"
  using assms(1) unfolding kube_update_def
proof (cases rule: kube_write_cases)
  case (1 s1)
  then show ?thesis using kept_same [OF _ assms(2)] by simp
next
  case (2 s1)
  have "find_object c' k' s1 = Some (KSecret old)" using same_objects_find [OF 2(1)] assms(3) by simp
  with kept_same [OF 2(1) assms(2)] assms(4,5) show ?thesis
    unfolding 2(3) secret_kept_def by (auto simp del: find_set_objects split: if_splits)
qed

lemma secret_password_managed [simp]:
  "map_get (map_set_all (managedCredentialData un driver inst p) m) ''password'' = p"
  by (simp add: managedCredentialData_def map_set_all_def)

lemma randomPassword_find: "randomPassword random s = (r, s') \<Longrightarrow> find_object c k s' = find_object c k s"
  by (auto simp: randomPassword_def find_object_def)

lemma kept_random: "randomPassword random s = (r, s') \<Longrightarrow> secret_kept c k sec s \<Longrightarrow> secret_kept c k sec s'"
  by (simp add: secret_kept_def randomPassword_find)

lemma kept_namespace:
  assumes "ensureNamespaceExists c' ns s = (r, s')" "secret_kept c k sec s"
  shows "secret_kept c k sec s'"
proof -
  let ?k = "namespaceKey (trimSpace ns)"
  obtain g s1 where g: "kube_get c' ?k s = (g, s1)" by (cases "kube_get c' ?k s")
  obtain q s2 where q: "kube_create c' ?k KNamespace s1 = (q, s2)" by (cases "kube_create c' ?k KNamespace s1")
  note kept1 = kept_same [OF kube_get_same [OF g] assms(2)]
  note kept2 = kept_create [OF q kept1]
  have "s' \<in> {s, s1, s2}" using assms(1) unfolding ensureNamespaceExists_def Let_def if_found_def g
    by (cases g; cases q) (auto simp: q split: if_splits)
  then show ?thesis using assms(2) kept1 kept2 by blast
qed

section \<open>One reference\<close>

text \<open>Whatever the answer of a step, \<open>P\<close> holds after it; if it succeeds, so does \<open>Q\<close>.\<close>

definition after :: "('e + 'a) \<times> 's \<Rightarrow> ('s \<Rightarrow> bool) \<Rightarrow> ('a \<Rightarrow> 's \<Rightarrow> bool) \<Rightarrow> bool" where
  "after r P Q \<longleftrightarrow> P (snd r) \<and> (\<forall>x. fst r = Inr x \<longrightarrow> Q x (snd r))"

lemma after_simps [simp]: "after (Inl e, s) P Q \<longleftrightarrow> P s" "after (Inr x, s) P Q \<longleftrightarrow> P s \<and> Q x s"
  by (simp_all add: after_def)

lemma after_and_then: "after m P (\<lambda>x s. after (f x s) P Q) \<Longrightarrow> after (and_then m f) P Q"
  by (cases m; cases "fst m") auto

lemma after_if_found:
  "after m P (\<lambda>x s. after (f x s) P Q) \<Longrightarrow> (\<And>s. m = (Inl NotFound, s) \<Longrightarrow> after (g s) P Q) \<Longrightarrow> after (if_found m f g) P Q"
  by (cases m; cases "fst m") (auto simp: if_found_def)

lemma after_pass: "after (pass m) P Q \<longleftrightarrow> after m P Q"
  by (cases m; cases "fst m") (auto simp: pass_def)

lemma after_mono: "after m P Q \<Longrightarrow> (\<And>s. P s \<Longrightarrow> P' s) \<Longrightarrow> (\<And>x s. P s \<Longrightarrow> Q x s \<Longrightarrow> Q' x s) \<Longrightarrow> after m P' Q'"
  by (auto simp: after_def)

lemma afterD: "after m P Q \<Longrightarrow> m = (r, s) \<Longrightarrow> P s"
  by (simp add: after_def)

text \<open>What a call of this kind leaves, given that one Secret is kept and another may have been read.\<close>

lemma after_namespace:
  "secret_kept c k sec s \<Longrightarrow> after (ensureNamespaceExists c' ns s) (secret_kept c k sec) (\<lambda>_. secret_kept c k sec)"
  using kept_namespace [of c' ns s] by (cases "ensureNamespaceExists c' ns s") (auto simp: after_def)

lemma after_secret:
  assumes "secret_kept c k sec s"
  shows "after (get_secret_at c' ns n s) (secret_kept c k sec)
    (\<lambda>old s. secret_kept c k sec s \<and> find_object c' (secretKey ns n) s = Some (KSecret old))"
proof (cases "get_secret_at c' ns n s")
  case (Pair r s')
  note g = get_secret_at_cases [OF Pair]
  then show ?thesis using assms kept_same [of s s'] same_objects_find [of s s'] Pair by (auto simp: after_def)
qed

lemma after_random:
  assumes "secret_kept c k sec s"
  shows "after (randomPassword random s) (secret_kept c k sec)
    (\<lambda>p s'. secret_kept c k sec s' \<and> find_object c' k' s' = find_object c' k' s \<and> (\<exists>i. random i = Inr p))"
  using assms kept_random [of random s] randomPassword_find [of random s]
  by (cases "randomPassword random s") (auto simp: after_def randomPassword_def)

lemma kube_written:
  assumes "kube_write c' refuses (\<lambda>s. set_objects c' (AList.update k' x (ku_objects (st_kube s c'))) s) s = (Inr (), s')"
  shows "find_object c' k' s' = Some x"
  using assms by (cases rule: kube_write_cases) (auto simp del: find_set_objects)

lemma after_create:
  assumes "secret_kept c k sec s"
  shows "after (kube_create c' k' x s) (secret_kept c k sec) (\<lambda>_ s. secret_kept c k sec s \<and> find_object c' k' s = Some x)"
  using assms kept_create [of c' k' x s] kube_written [of c' _ k' x s]
  by (cases "kube_create c' k' x s") (auto simp: after_def kube_create_def)

lemma after_update:
  assumes "secret_kept c k sec s" "find_object c' k' s = Some (KSecret old)" "\<not> complete_secret old"
    and "secret_password old \<noteq> '''' \<Longrightarrow> secret_password new = secret_password old"
  shows "after (kube_update c' k' (KSecret new) s) (secret_kept c k sec)
    (\<lambda>_ s. secret_kept c k sec s \<and> find_object c' k' s = Some (KSecret new))"
  using kept_update [of c' k' new s] kube_written [of c' _ k' "KSecret new" s] assms
  by (cases "kube_update c' k' (KSecret new) s") (auto simp: after_def kube_update_def)

definition managed :: "string \<Rightarrow> bool" where
  "managed driver \<longleftrightarrow> driver \<in> {''servicer-valkey'', ''yb-operator'', ''servicer-mysql'', ''cnpg''}"

definition provided :: "client \<Rightarrow> namespaced_ref \<Rightarrow> 'g site \<Rightarrow> bool" where
  "provided c ref s \<longleftrightarrow>
     (\<exists>sec. find_object c (secretKey (nr_namespace ref) (nr_name ref)) s = Some (KSecret sec) \<and> complete_secret sec)"

lemma managed_complete:
  assumes "p \<noteq> ''''" "managed driver"
  shows "complete_secret (sec\<lparr>sc_data := map_set_all (managedCredentialData un driver inst p) m, sc_labels := l\<rparr>)"
proof -
  have "instanceDatabaseName un inst \<noteq> ''''" by (simp add: instanceDatabaseName_def ResolveDatabaseName_def Let_def)
  then show ?thesis using assms
    by (auto simp: managed_def complete_secret_def secret_password_def managedCredentialData_def map_set_all_def)
qed

lemma managed_complete_new:
  assumes "p \<noteq> ''''" "managed driver"
  shows "complete_secret \<lparr>sc_labels = l, sc_annotations = [], sc_type = t, sc_data = managedCredentialData un driver inst p\<rparr>"
proof -
  have "instanceDatabaseName un inst \<noteq> ''''" by (simp add: instanceDatabaseName_def ResolveDatabaseName_def Let_def)
  then show ?thesis using assms
    by (auto simp: managed_def complete_secret_def secret_password_def managedCredentialData_def map_get_def)
qed

lemma after_credential:
  assumes "secret_kept c k old s"
  shows "after (ensureCredential un random driver inst c' ref s) (secret_kept c k old)
    (\<lambda>_ s. secret_kept c k old s \<and>
       (managed driver \<and> (\<forall>i. random i \<noteq> Inr '''') \<longrightarrow> provided c' ref s))"
    (is "after _ ?P ?Q")
proof -
  let ?k = "secretKey (nr_namespace ref) (nr_name ref)"
  have create: "after (pass (kube_create c' ?k (KSecret \<lparr>sc_labels = l, sc_annotations = [], sc_type = t,
      sc_data = managedCredentialData un driver inst p\<rparr>) s)) ?P ?Q" if "?P s" "random i = Inr p" for s p l t i
  proof -
    have "p \<noteq> ''''" if "\<forall>i. random i \<noteq> Inr ''''" using that \<open>random i = Inr p\<close> by auto
    then show ?thesis unfolding after_pass using managed_complete_new [of p driver l t un inst]
      by (intro after_mono [OF after_create [OF that(1)]]) (auto simp: provided_def)
  qed
  have update: "after (pass (kube_update c' ?k (KSecret (sec\<lparr>sc_data := map_set_all (managedCredentialData un driver inst p) (sc_data sec),
      sc_labels := l\<rparr>)) s)) ?P ?Q"
    if "?P s" "find_object c' ?k s = Some (KSecret sec)" "\<not> complete_secret sec"
      "secret_password sec \<noteq> '''' \<Longrightarrow> p = secret_password sec" "(\<forall>i. random i \<noteq> Inr '''') \<longrightarrow> p \<noteq> ''''" for s p l sec
    unfolding after_pass
    by (rule after_mono [OF after_update [OF that(1-3)]])
      (use that(4,5) managed_complete [of p driver l un inst "sc_data sec" sec] in \<open>auto simp: provided_def secret_password_def\<close>)
  have found: "after (if map_get (sc_data sec) ''password'' = '''' \<or> map_get (sc_data sec) ''username'' = '''' then
              and_then (if map_get (sc_data sec) ''password'' = '''' then randomPassword random s
                        else (Inr (map_get (sc_data sec) ''password''), s)) (\<lambda>password s.
                pass (kube_update c' ?k
                  (KSecret (sec\<lparr>sc_data := map_set_all (managedCredentialData un driver inst password) (sc_data sec),
                     sc_labels := map_set_all (instance_labels inst) (sc_labels sec)\<rparr>)) s))
            else (Inr (), s)) ?P ?Q" if "?P s" "find_object c' ?k s = Some (KSecret sec)" for sec s
  proof (cases "complete_secret sec")
    case True
    then show ?thesis using that by (auto simp: provided_def complete_secret_def secret_password_def)
  next
    case False
    then have incomplete: "map_get (sc_data sec) ''password'' = '''' \<or> map_get (sc_data sec) ''username'' = ''''"
      by (simp add: complete_secret_def secret_password_def)
    show ?thesis
    proof (cases "map_get (sc_data sec) ''password'' = ''''")
      case True
      have "after (and_then (randomPassword random s) (\<lambda>password s.
                pass (kube_update c' ?k
                  (KSecret (sec\<lparr>sc_data := map_set_all (managedCredentialData un driver inst password) (sc_data sec),
                     sc_labels := map_set_all (instance_labels inst) (sc_labels sec)\<rparr>)) s))) ?P ?Q"
        by (rule after_and_then, rule after_mono [OF after_random [OF that(1), of _ c' ?k]])
          (use that True False in \<open>auto intro!: update simp: secret_password_def\<close>)
      then show ?thesis using True by simp
    next
      case False
      then show ?thesis using that incomplete \<open>\<not> complete_secret sec\<close>
        by (auto intro!: update simp: secret_password_def)
    qed
  qed
  show ?thesis unfolding ensureCredential_def
    apply (rule after_and_then, rule after_mono [OF after_namespace [OF assms]], assumption)
    apply (rule after_if_found)
     apply (rule after_mono [OF after_secret], assumption, assumption, rule found, blast, blast)
    subgoal premises prems for u s s'
    proof -
      have "?P s'" using afterD [OF after_secret [OF prems(2)] prems(3)] .
      then show ?thesis
        by (intro after_and_then, intro after_mono [OF after_random]) (auto intro: create)
    qed
    done
qed

section \<open>All references\<close>

lemma after_credentials_kept:
  "secret_kept c k old s \<Longrightarrow>
     after (ensureCredentials un random driver inst c' refs s) (secret_kept c k old) (\<lambda>_. secret_kept c k old)"
proof (induction refs arbitrary: s)
  case (Cons ref refs)
  show ?case unfolding ensureCredentials.simps
    by (rule after_and_then, rule after_mono [OF after_credential [OF Cons.prems]]) (auto intro: Cons.IH)
qed simp

lemma after_credentials_provided:
  fixes s :: "'g site"
  assumes "managed driver" "\<forall>i. random i \<noteq> Inr ''''"
  shows "after (ensureCredentials un random driver inst c' refs s) (\<lambda>_. True) (\<lambda>_ s. \<forall>ref \<in> set refs. provided c' ref s)"
proof (induction refs arbitrary: s)
  case (Cons ref refs)
  have tail: "after (ensureCredentials un random driver inst c' refs s) (\<lambda>_. True)
      (\<lambda>_ s. \<forall>ref \<in> set (ref # refs). provided c' ref s)" if "provided c' ref s" for s :: "'g site"
  proof -
    from that obtain sec where sec: "find_object c' (secretKey (nr_namespace ref) (nr_name ref)) s = Some (KSecret sec)"
      "complete_secret sec" by (auto simp: provided_def)
    note kept = after_credentials_kept [OF secret_kept_now [OF sec(1)], of un random driver inst c' refs]
    show ?thesis using Cons.IH [of s] kept sec(2)
      unfolding after_def secret_kept_def by (auto simp: provided_def [of c' ref])
  qed
  show ?case unfolding ensureCredentials.simps
    by (rule after_and_then, rule after_mono [OF after_credential [of _ _ None]]) (use assms tail in auto)
qed simp

lemma ensureCredentialSecrets_run:
  assumes "rd_RuntimeDriver rendered \<noteq> ''servicer-nats''"
  shows "ensureCredentialSecrets un random inst rendered tc s = (Inr (), s) \<or>
    ensureCredentialSecrets un random inst rendered tc s =
      ensureCredentials un random (rd_RuntimeDriver rendered) inst (case tc of None \<Rightarrow> Management | Some c \<Rightarrow> c)
        (rd_CredentialRefs rendered) s"
  using assms by (simp add: ensureCredentialSecrets_def Let_def)

text \<open>
  C6 Providing credentials to a database or cache never changes a password that is stored, and leaves a Secret that has a
  password and a user name as it is, in every cluster and however the calls fail.
\<close>

theorem passwords_are_kept:
  assumes "find_object c k s = Some (KSecret sec)" "rd_RuntimeDriver rendered \<noteq> ''servicer-nats''"
  shows "\<exists>sec'. find_object c k (snd (ensureCredentialSecrets un random inst rendered tc s)) = Some (KSecret sec') \<and>
    (secret_password sec \<noteq> '''' \<longrightarrow> secret_password sec' = secret_password sec) \<and> (complete_secret sec \<longrightarrow> sec' = sec)"
proof -
  have "secret_kept c k (Some sec) (snd (ensureCredentialSecrets un random inst rendered tc s))"
    using ensureCredentialSecrets_run [OF assms(2), of un random inst tc s] secret_kept_now [OF assms(1)]
      after_credentials_kept [OF secret_kept_now [OF assms(1)]] by (auto simp: after_def)
  then show ?thesis by (simp add: secret_kept_def)
qed

text \<open>A cache whose Secret has a password and lacks the user name.\<close>

definition cache_secret :: secret where
  "cache_secret = \<lparr>sc_labels = [], sc_annotations = [], sc_type = ''Opaque'', sc_data = [(''password'', ''old'')]\<rparr>"

definition cache_rendered :: render_result where
  "cache_rendered = rendered_db\<lparr>rd_RuntimeDriver := ''servicer-valkey'',
     rd_CredentialRefs := [\<lparr>nr_name = ''auth'', nr_namespace = ''shop''\<rparr>]\<rparr>"

definition cache_site :: "unit site" where
  "cache_site = set_objects Management [(secretKey ''shop'' ''auth'', KSecret cache_secret)] open_site"

abbreviation cache_run :: "(go_error + unit) \<times> unit site" where
  "cache_run \<equiv> ensureCredentialSecrets ascii_tables (\<lambda>_. Inr ''new'') openInstance cache_rendered None cache_site"

theorem passwords_are_kept_witness:
  "\<exists>sec'. find_object Management (secretKey ''shop'' ''auth'') (snd cache_run) = Some (KSecret sec') \<and> secret_password sec' = ''old''"
proof -
  have "find_object Management (secretKey ''shop'' ''auth'') cache_site = Some (KSecret cache_secret)"
    by (simp add: cache_site_def)
  moreover have "rd_RuntimeDriver cache_rendered \<noteq> ''servicer-nats''" by (simp add: cache_rendered_def)
  moreover have "secret_password cache_secret = ''old''" by (simp add: secret_password_def cache_secret_def map_get_def)
  ultimately show ?thesis
    using passwords_are_kept [of Management "secretKey ''shop'' ''auth''" cache_site cache_secret cache_rendered] by fastforce
qed

text \<open>
  C19 When \<open>ensureCredentialSecrets\<close> reports success for a driver whose credentials it generates, every Secret the
  adapter refers to exists in the target cluster and has a password and a user name, provided that the random source never
  yields the empty text.
\<close>

theorem credentials_provided:
  assumes "fst (ensureCredentialSecrets un random inst rendered tc s) = Inr ()"
    and "managed (rd_RuntimeDriver rendered)" "sp_deliveryMode (sis_secretPolicy (si_spec inst)) \<noteq> SecretDeliveryModeManual"
    and "\<forall>i. random i \<noteq> Inr ''''" "ref \<in> set (rd_CredentialRefs rendered)"
  shows "provided (case tc of None \<Rightarrow> Management | Some c \<Rightarrow> c) ref (snd (ensureCredentialSecrets un random inst rendered tc s))"
proof -
  have "ensureCredentialSecrets un random inst rendered tc s =
      ensureCredentials un random (rd_RuntimeDriver rendered) inst (case tc of None \<Rightarrow> Management | Some c \<Rightarrow> c)
        (rd_CredentialRefs rendered) s"
    using assms(2,3) by (auto simp: ensureCredentialSecrets_def managed_def Let_def)
  then show ?thesis
    using after_credentials_provided [OF assms(2,4), of un inst "case tc of None \<Rightarrow> Management | Some c \<Rightarrow> c" "rd_CredentialRefs rendered" s]
      assms(1,5) by (auto simp: after_def)
qed

theorem credentials_provided_witness:
  "provided Management \<lparr>nr_name = ''auth'', nr_namespace = ''shop''\<rparr> (snd cache_run)"
proof -
  have "fst cache_run = Inr ()" by code_simp
  moreover have "managed (rd_RuntimeDriver cache_rendered)" "\<lparr>nr_name = ''auth'', nr_namespace = ''shop''\<rparr> \<in> set (rd_CredentialRefs cache_rendered)"
    by (simp_all add: cache_rendered_def managed_def)
  moreover have "sp_deliveryMode (sis_secretPolicy (si_spec openInstance)) \<noteq> SecretDeliveryModeManual" by code_simp
  ultimately show ?thesis
    using credentials_provided [of ascii_tables "\<lambda>_. Inr ''new''" openInstance cache_rendered None cache_site] by simp
qed

end
