(* ===== verification/Binding_Controller.thy ===== *)
theory Binding_Controller
  imports External_Secrets Catalog_Controllers
begin

text \<open>
  The controller of service bindings, \<open>internal/controllers/servicebinding_controller.go\<close>: it hands the credentials of
  a service instance to a workload, as a copy of the Secret or through the External Secrets operator, and wires
  the Secret into the containers. Everything happens in the management cluster: the custom resources and the
  bindings, and the objects below. Of a workload the model has what the controller touches: the annotations
  of its pods and the environment of their containers.
\<close>

section \<open>Workloads\<close>

record secret_env_source =
  se_name :: string
  se_optional :: "bool option"

record env_from_source =
  ef_prefix :: string
  ef_configMapRef :: "string option"
  ef_secretRef :: "secret_env_source option"

record container =
  cn_name :: string
  cn_envFrom :: "env_from_source list"

record pod_template =
  pt_annotations :: "(string, string) gomap"
  pt_initContainers :: "container list"
  pt_containers :: "container list"

text \<open>A Secret, the pod (template) of a workload, or labels and content of a manifest.\<close>

datatype bound_object =
    BSecret secret
  | BWorkload pod_template
  | BManifest "(string, string) gomap" uval

record binding_world =
  bw_control :: control
  bw_bindings :: "(string, service_binding) gomap"
  bw_objects :: "(object_key, bound_object) gomap"

type_synonym 'a binding_step = "binding_world \<Rightarrow> (go_error + 'a) \<times> binding_world"

section \<open>Calls\<close>

text \<open>The calls of the controller meet the faults of the management cluster, whatever they are about.\<close>

definition bw_fault :: "binding_world \<Rightarrow> fault \<times> binding_world" where
  "bw_fault w = (case control_fault (bw_control w) of (f, c) \<Rightarrow> (f, w\<lparr>bw_control := c\<rparr>))"

definition on_resources :: "(control \<Rightarrow> 'r \<times> control) \<Rightarrow> binding_world \<Rightarrow> 'r \<times> binding_world" where
  "on_resources f w = (case f (bw_control w) of (r, c) \<Rightarrow> (r, w\<lparr>bw_control := c\<rparr>))"

definition bw_read :: "(binding_world \<Rightarrow> api_error + 'a) \<Rightarrow> binding_world \<Rightarrow> (api_error + 'a) \<times> binding_world" where
  "bw_read f w =
     (case bw_fault w of
        (Refused e, w) \<Rightarrow> (Inl e, w) | (Lost e, w) \<Rightarrow> (Inl e, w) | (Works, w) \<Rightarrow> (f w, w))"

definition bw_write ::
  "(binding_world \<Rightarrow> api_error option) \<Rightarrow> (binding_world \<Rightarrow> binding_world) \<Rightarrow> binding_world \<Rightarrow>
     (api_error + unit) \<times> binding_world" where
  "bw_write refuses effect w =
     (case bw_fault w of
        (Refused e, w) \<Rightarrow> (Inl e, w)
      | (Lost e, w) \<Rightarrow> (Inl e, if refuses w = None then effect w else w)
      | (Works, w) \<Rightarrow> (case refuses w of Some e \<Rightarrow> (Inl e, w) | None \<Rightarrow> (Inr (), effect w)))"

definition bound :: "object_key \<Rightarrow> binding_world \<Rightarrow> bound_object option" where
  "bound k w = map_of (bw_objects w) k"

definition bw_store :: "object_key \<Rightarrow> bound_object \<Rightarrow> binding_world \<Rightarrow> binding_world" where
  "bw_store k x w = w\<lparr>bw_objects := AList.update k x (bw_objects w)\<rparr>"

definition bw_get :: "(bound_object \<Rightarrow> 'a option) \<Rightarrow> object_key \<Rightarrow> binding_world \<Rightarrow> (api_error + 'a) \<times> binding_world" where
  "bw_get decode k =
     bw_read (\<lambda>w. case bound k w of
        None \<Rightarrow> Inl NotFound
      | Some x \<Rightarrow> (case decode x of None \<Rightarrow> Inl (OtherError ''decode'') | Some y \<Rightarrow> Inr y))"

definition bw_create :: "object_key \<Rightarrow> bound_object \<Rightarrow> binding_world \<Rightarrow> (api_error + unit) \<times> binding_world" where
  "bw_create k x = bw_write (\<lambda>w. if bound k w = None then None else Some AlreadyExists) (bw_store k x)"

definition bw_update :: "object_key \<Rightarrow> bound_object \<Rightarrow> binding_world \<Rightarrow> (api_error + unit) \<times> binding_world" where
  "bw_update k x = bw_write (\<lambda>w. if bound k w = None then Some NotFound else None) (bw_store k x)"

fun as_secret :: "bound_object \<Rightarrow> secret option" where
  "as_secret (BSecret x) = Some x" | "as_secret _ = None"

fun as_workload :: "bound_object \<Rightarrow> pod_template option" where
  "as_workload (BWorkload x) = Some x" | "as_workload _ = None"

definition get_binding :: "string \<Rightarrow> binding_world \<Rightarrow> (api_error + service_binding) \<times> binding_world" where
  "get_binding n = bw_read (\<lambda>w. case map_of (bw_bindings w) n of None \<Rightarrow> Inl NotFound | Some b \<Rightarrow> Inr b)"

definition put_binding_status :: "string \<Rightarrow> service_binding_status \<Rightarrow> binding_world \<Rightarrow> (api_error + unit) \<times> binding_world" where
  "put_binding_status n status =
     bw_write (\<lambda>w. if map_of (bw_bindings w) n = None then Some NotFound else None)
       (\<lambda>w. case map_of (bw_bindings w) n of
          None \<Rightarrow> w
        | Some b \<Rightarrow> w\<lparr>bw_bindings := AList.update n (b\<lparr>sb_status := status\<rparr>) (bw_bindings w)\<rparr>)"

text \<open>\<open>createOrUpdateObject\<close> and \<open>createOrUpdateUnstructured\<close>: what is there is replaced.\<close>

definition createOrUpdateObject :: "object_key \<Rightarrow> bound_object \<Rightarrow> unit binding_step" where
  "createOrUpdateObject k desired w =
     (case bw_get Some k w of
        (Inl e, w) \<Rightarrow> if e = NotFound then pass (bw_create k desired w) else (Inl (ApiError e), w)
      | (Inr current, w) \<Rightarrow> pass (bw_update k desired w))"

section \<open>Wiring a Secret into a workload\<close>

definition ensureContainerSecretRef :: "string \<Rightarrow> container \<Rightarrow> container" where
  "ensureContainerSecretRef secretName c =
     (if list_ex (\<lambda>e. case ef_secretRef e of None \<Rightarrow> False | Some r \<Rightarrow> se_name r = secretName) (cn_envFrom c) then c
      else c\<lparr>cn_envFrom := cn_envFrom c @
        [\<lparr>ef_prefix = '''', ef_configMapRef = None, ef_secretRef = Some \<lparr>se_name = secretName, se_optional = None\<rparr>\<rparr>]\<rparr>)"

definition integrateBindingIntoPodObject :: "string \<Rightarrow> string \<Rightarrow> pod_template \<Rightarrow> pod_template" where
  "integrateBindingIntoPodObject bindingName secretName t =
     t\<lparr>pt_annotations := map_set ''servicer.io/binding-secret'' secretName
         (map_set ''servicer.io/binding-name'' bindingName (pt_annotations t)),
       pt_initContainers := map (ensureContainerSecretRef secretName) (pt_initContainers t),
       pt_containers := map (ensureContainerSecretRef secretName) (pt_containers t)\<rparr>"

text \<open>The API version of the kinds that can be bound; any other kind is ignored.\<close>

definition workload_version :: "string \<Rightarrow> string option" where
  "workload_version kind =
     (if kind \<in> {''Deployment'', ''StatefulSet'', ''DaemonSet''} then Some ''apps/v1''
      else if kind \<in> {''Job'', ''CronJob''} then Some ''batch/v1''
      else if kind = ''Pod'' then Some ''v1'' else None)"

definition integrateBindingTarget :: "service_binding \<Rightarrow> string \<Rightarrow> string \<Rightarrow> bool binding_step" where
  "integrateBindingTarget binding targetSecretName targetNamespace w =
     (let target = sbs_targetRef (sb_spec binding) in
      if tr_kind target = '''' \<or> tr_kind target = ''Namespace'' then (Inr False, w)
      else if tr_name target = '''' then (Inl (Errorf (''target name is required for kind '' @ tr_kind target)), w)
      else (case workload_version (tr_kind target) of
          None \<Rightarrow> (Inr False, w)
        | Some version \<Rightarrow>
            (let k = (version, tr_kind target, targetNamespace, tr_name target) in
             and_then (pass (bw_get as_workload k w)) (\<lambda>t w.
               and_then (pass (bw_update k
                   (BWorkload (integrateBindingIntoPodObject (m_name (sb_meta binding)) targetSecretName t)) w))
                 (\<lambda>_ w. (Inr True, w))))))"

section \<open>Projection through External Secrets\<close>

definition binding_labels :: "string \<Rightarrow> (string, string) gomap" where
  "binding_labels name =
     [(''servicer.io/managed-by'', ''servicebinding-controller''), (''servicer.io/service-binding'', name)]"

definition delivery_labels :: "string \<Rightarrow> (string, string) gomap" where
  "delivery_labels name = binding_labels name @ [(''servicer.io/secret-delivery'', ''external-secret'')]"

definition eso_key :: "string \<Rightarrow> string \<Rightarrow> string \<Rightarrow> object_key" where
  "eso_key kind namespace name = (''external-secrets.io/v1'', kind, namespace, name)"

definition bindingExternalSecret :: "string \<Rightarrow> string \<Rightarrow> string \<Rightarrow> uval" where
  "bindingExternalSecret storeName targetSecretName key =
     UMap [(''spec'', UMap
       [(''refreshInterval'', UStr ''1h''),
        (''secretStoreRef'', UMap [(''kind'', UStr ''SecretStore''), (''name'', UStr storeName)]),
        (''target'', UMap [(''name'', UStr targetSecretName), (''creationPolicy'', UStr ''Owner''),
           (''deletionPolicy'', UStr ''Delete'')]),
        (''dataFrom'', UArr [UMap [(''extract'', UMap [(''key'', UStr key)])]])])]"

definition ensureVaultExternalSecretBindingProjection ::
  "service_binding \<Rightarrow> namespaced_ref \<Rightarrow> string \<Rightarrow> string \<Rightarrow> unit binding_step" where
  "ensureVaultExternalSecretBindingProjection binding sourceRef targetSecretName targetNamespace w =
     (case sp_vault (sbs_secretPolicy (sb_spec binding)) of
        None \<Rightarrow> (Inl (Errorf ''vault secret provider config is required''), w)
      | Some vault \<Rightarrow>
          (let name = m_name (sb_meta binding);
               storeName = name @ ''-vault'';
               authSecretNamespace = firstNonEmptyTrimmed [nr_namespace (va_authSecretRef vault), targetNamespace];
               labels = delivery_labels name @ [(''servicer.io/secret-provider'', ''vault'')] in
           and_then (createOrUpdateObject (eso_key ''SecretStore'' targetNamespace storeName)
               (BManifest labels (UMap [(''spec'', UMap [(''provider'', UMap [(''vault'', UMap
                  [(''server'', UStr (va_server vault)), (''path'', UStr (va_path vault)),
                   (''version'', UStr (firstNonEmptyTrimmed [va_version vault, ''v2''])),
                   (''auth'', UMap [(''tokenSecretRef'', UMap
                      [(''name'', UStr (nr_name (va_authSecretRef vault))), (''key'', UStr ''token''),
                       (''namespace'', UStr authSecretNamespace)])])])])])])) w)
             (\<lambda>_. createOrUpdateObject (eso_key ''ExternalSecret'' targetNamespace targetSecretName)
               (BManifest labels (bindingExternalSecret storeName targetSecretName
                  (vaultRemoteSecretKey (va_path vault) (nr_name sourceRef)))))))"

definition ensureExternalSecretBindingProjection ::
  "(string \<Rightarrow> string) \<Rightarrow> service_binding \<Rightarrow> namespaced_ref \<Rightarrow> string \<Rightarrow> string \<Rightarrow> unit binding_step" where
  "ensureExternalSecretBindingProjection sha binding sourceRef targetSecretName targetNamespace w =
     (let name = m_name (sb_meta binding);
          serviceAccountName = name @ ''-eso-reader'';
          storeName = secretStoreName sha name (nr_namespace sourceRef);
          labels = delivery_labels name in
      if externalSecretProvider (sbs_secretPolicy (sb_spec binding)) = ExternalSecretProviderVault
      then ensureVaultExternalSecretBindingProjection binding sourceRef targetSecretName targetNamespace w
      else
        and_then (createOrUpdateObject (''v1'', ''ServiceAccount'', targetNamespace, serviceAccountName)
            (BManifest labels UNull) w) (\<lambda>_ w.
        and_then (createOrUpdateObject (''rbac.authorization.k8s.io/v1'', ''Role'', nr_namespace sourceRef, storeName)
            (BManifest labels (UMap [(''rules'', UArr
               [UMap [(''apiGroups'', UArr [UStr '''']), (''resources'', UArr [UStr ''secrets'']),
                      (''verbs'', UArr [UStr ''get'', UStr ''list'', UStr ''watch''])],
                UMap [(''apiGroups'', UArr [UStr ''authorization.k8s.io'']),
                      (''resources'', UArr [UStr ''selfsubjectrulesreviews'']), (''verbs'', UArr [UStr ''create''])]])])) w) (\<lambda>_ w.
        and_then (createOrUpdateObject (''rbac.authorization.k8s.io/v1'', ''RoleBinding'', nr_namespace sourceRef, storeName)
            (BManifest labels (UMap
               [(''subjects'', UArr [UMap [(''kind'', UStr ''ServiceAccount''), (''name'', UStr serviceAccountName),
                   (''namespace'', UStr targetNamespace)]]),
                (''roleRef'', UMap [(''apiGroup'', UStr ''rbac.authorization.k8s.io''), (''kind'', UStr ''Role''),
                   (''name'', UStr storeName)])])) w) (\<lambda>_ w.
        and_then (createOrUpdateObject (eso_key ''SecretStore'' targetNamespace storeName)
            (BManifest labels (UMap [(''spec'', UMap [(''provider'', UMap [(''kubernetes'', UMap
               [(''remoteNamespace'', UStr (nr_namespace sourceRef)),
                (''server'', UMap [(''caProvider'', UMap
                   [(''type'', UStr ''ConfigMap''), (''name'', UStr ''kube-root-ca.crt''), (''key'', UStr ''ca.crt'')])]),
                (''auth'', UMap [(''serviceAccount'', UMap [(''name'', UStr serviceAccountName)])])])])])])) w)
          (\<lambda>_. createOrUpdateObject (eso_key ''ExternalSecret'' targetNamespace targetSecretName)
            (BManifest labels (bindingExternalSecret storeName targetSecretName (nr_name sourceRef))))))))"

section \<open>Reconcile\<close>

text \<open>\<open>updateStatusIfChanged\<close> at the end of every branch, with the conditions the branch sets.\<close>

definition binding_done ::
  "controller_env \<Rightarrow> service_binding \<Rightarrow> service_binding_status \<Rightarrow> (string \<times> string \<times> string \<times> string) list \<Rightarrow>
     reconcile_result binding_step" where
  "binding_done env binding status cs w =
     (let original = sb_status binding;
          v = conds env (m_generation (sb_meta binding)) cs (copied (ce_room env) (sbt_conditions original));
          status = status\<lparr>sbt_conditions := sl_now v\<rparr> in
      if original\<lparr>sbt_conditions := sl_then v\<rparr> = status then (Inr done_result, w)
      else and_then (pass (put_binding_status (m_name (sb_meta binding)) status w)) (\<lambda>_ w. (Inr done_result, w)))"

definition projectForBinding :: "string \<Rightarrow> project binding_step" where
  "projectForBinding name w = pass (on_resources (get_obj projects name) w)"

definition cloneSecretData :: "(string, string) gomap \<Rightarrow> (string, string) gomap" where
  "cloneSecretData source = map (\<lambda>(key, value). (key, value)) source"

text \<open>The copy of the credentials in the target namespace, created or overwritten.\<close>

definition copyBindingSecret :: "string \<Rightarrow> secret \<Rightarrow> string \<Rightarrow> string \<Rightarrow> unit binding_step" where
  "copyBindingSecret bindingName sourceSecret targetSecretName targetNamespace w =
     (let k = secretKey targetNamespace targetSecretName in
      case bw_get as_secret k w of
        (Inl e, w) \<Rightarrow>
          if e = NotFound then
            pass (bw_create k (BSecret \<lparr>sc_labels = binding_labels bindingName, sc_annotations = [], sc_type = ''Opaque'',
              sc_data = cloneSecretData (sc_data sourceSecret)\<rparr>) w)
          else (Inl (ApiError e), w)
      | (Inr targetSecret, w) \<Rightarrow>
          pass (bw_update k (BSecret (targetSecret\<lparr>sc_data := cloneSecretData (sc_data sourceSecret),
            sc_labels := map_set ''servicer.io/service-binding'' bindingName
              (map_set ''servicer.io/managed-by'' ''servicebinding-controller'' (sc_labels targetSecret))\<rparr>)) w))"

definition projectBindingSecret ::
  "(string \<Rightarrow> string) \<Rightarrow> service_binding \<Rightarrow> namespaced_ref \<Rightarrow> secret \<Rightarrow> string \<Rightarrow> string \<Rightarrow> string \<Rightarrow> string binding_step" where
  "projectBindingSecret sha binding sourceRef sourceSecret targetSecretName targetNamespace projectName w =
     (if sp_deliveryMode (sbs_secretPolicy (sb_spec binding)) = SecretDeliveryModeExternalSecret then
        and_then (ensureExternalSecretBindingProjection sha binding sourceRef targetSecretName targetNamespace w)
          (\<lambda>_ w. (Inr (''Credentials projected via External Secrets into namespace '' @ targetNamespace @
             '' for project '' @ projectName @ ''.''), w))
      else
        and_then (copyBindingSecret (m_name (sb_meta binding)) sourceSecret targetSecretName targetNamespace w)
          (\<lambda>_ w. (Inr (''Credentials projected into namespace '' @ targetNamespace @
             '' for project '' @ projectName @ ''.''), w)))"

text \<open>From the Secret that is to be handed over: projection, integration and the final status.\<close>

definition bindTarget ::
  "controller_env \<Rightarrow> (string \<Rightarrow> string) \<Rightarrow> service_binding \<Rightarrow> service_binding_status \<Rightarrow> namespaced_ref \<Rightarrow> secret \<Rightarrow> string \<Rightarrow>
     project \<Rightarrow> reconcile_result binding_step" where
  "bindTarget env sha binding status sourceRef sourceSecret targetNamespace project w =
     (let target = sbs_targetRef (sb_spec binding); projectName = m_name (pj_meta project);
          targetSecretName = m_name (sb_meta binding) @ ''-binding'' in
      and_then (projectBindingSecret sha binding sourceRef sourceSecret targetSecretName targetNamespace projectName w)
        (\<lambda>summary w.
          (case integrateBindingTarget binding targetSecretName targetNamespace w of
             (Inl e, w) \<Rightarrow>
               if is_not_found e then
                 binding_done env binding
                   (status\<lparr>sbt_phase := ''PendingTarget'', sbt_health := \<lparr>hs_summary = summary\<rparr>\<rparr>)
                   [(''Ready'', ConditionFalse, ''TargetPending'', ''Binding target workload is not available yet.'')] w
               else (Inl e, w)
           | (Inr integrated, w) \<Rightarrow>
               binding_done env binding
                 (status\<lparr>sbt_phase := ''Ready'',
                    sbt_credentialRefs := [\<lparr>nr_name = targetSecretName, nr_namespace = targetNamespace\<rparr>],
                    sbt_health := \<lparr>hs_summary =
                      (if integrated
                       then ''Credentials projected and wired into target '' @ tr_kind target @ '' '' @ tr_name target @
                            '' in namespace '' @ targetNamespace @ '' for project '' @ projectName @ ''.''
                       else summary)\<rparr>\<rparr>)
                 [(''Accepted'', ConditionTrue, ''SourceAccepted'', ''Binding source and target are accepted.''),
                  (''Ready'', ConditionTrue, ''CredentialsProjected'', ''Binding credentials have been projected.''),
                  (''Failed'', ConditionFalse, ''CredentialsProjected'', ''Binding has not failed.'')] w)))"

text \<open>The operator that External Secrets needs: \<open>None\<close> where the run may go on, or why it has to wait.\<close>

definition bindingDependency :: "service_binding \<Rightarrow> service_instance \<Rightarrow> project \<Rightarrow> string option binding_step" where
  "bindingDependency binding source project w =
     (if requiresExternalSecretsOperator (sbs_secretPolicy (sb_spec binding)) then
        (case on_resources (resolveClusterTargetForProject project (pl_clusterName (sit_placement (si_status source)))) w of
           (Inl e, w) \<Rightarrow>
             if e = NotFound then (Inr (if fst (externalSecretsPackageReady None) then None
                else Some (snd (externalSecretsPackageReady None))), w)
             else (Inl (ApiError e), w)
         | (Inr target, w) \<Rightarrow> (Inr (if fst (externalSecretsPackageReady target) then None
                else Some (snd (externalSecretsPackageReady target))), w))
      else (Inr None, w))"

definition bindSource ::
  "controller_env \<Rightarrow> (string \<Rightarrow> string) \<Rightarrow> service_binding \<Rightarrow> service_binding_status \<Rightarrow> service_instance \<Rightarrow> namespaced_ref \<Rightarrow>
     secret \<Rightarrow> reconcile_result binding_step" where
  "bindSource env sha binding status source sourceRef sourceSecret w =
     (let spec = sb_spec binding;
          targetNamespace = (if tr_namespace (sbs_targetRef spec) = '''' then pl_namespace (sit_placement (si_status source))
            else tr_namespace (sbs_targetRef spec));
          projectName = (if lr_name (sbs_projectRef spec) = '''' then lr_name (sis_projectRef (si_spec source))
            else lr_name (sbs_projectRef spec)) in
      if targetNamespace = '''' then
        binding_done env binding (status\<lparr>sbt_phase := ''Failed''\<rparr>)
          [(''Failed'', ConditionTrue, ''TargetNamespaceMissing'', ''Binding target namespace could not be resolved.'')] w
      else and_then (projectForBinding projectName w) (\<lambda>project w.
        and_then (bindingDependency binding source project w) (\<lambda>waits w.
          (case waits of
             Some message \<Rightarrow>
               binding_done env binding (status\<lparr>sbt_phase := ''PendingDependencies''\<rparr>)
                 [(''Ready'', ConditionFalse, ''ExternalSecretsOperatorPending'', message),
                  (''Failed'', ConditionFalse, ''ExternalSecretsOperatorPending'',
                   ''Binding is waiting on an operator dependency, not failed.'')] w
           | None \<Rightarrow> bindTarget env sha binding status sourceRef sourceSecret targetNamespace project w))))"

definition pending_source ::
  "controller_env \<Rightarrow> service_binding \<Rightarrow> service_binding_status \<Rightarrow> string \<Rightarrow> string \<Rightarrow> reconcile_result binding_step" where
  "pending_source env binding status reason message =
     binding_done env binding (status\<lparr>sbt_phase := ''PendingSource''\<rparr>) [(''Ready'', ConditionFalse, reason, message)]"

definition ServiceBindingReconcile ::
  "controller_env \<Rightarrow> (string \<Rightarrow> string) \<Rightarrow> string \<Rightarrow> reconcile_result binding_step" where
  "ServiceBindingReconcile env sha name w =
     (case get_binding name w of
        (Inl e, w) \<Rightarrow> (ignoreNotFound e, w)
      | (Inr binding, w) \<Rightarrow>
          (let sourceRef = sbs_sourceRef (sb_spec binding);
               status = (sb_status binding)\<lparr>sbt_observedGeneration := m_generation (sb_meta binding)\<rparr> in
           if tr_kind sourceRef \<noteq> ''ServiceInstance'' \<or> tr_name sourceRef = '''' then
             binding_done env binding (status\<lparr>sbt_phase := ''Failed''\<rparr>)
               [(''Accepted'', ConditionFalse, ''UnsupportedSource'',
                 ''Service bindings currently support ServiceInstance sources only.''),
                (''Failed'', ConditionTrue, ''UnsupportedSource'', ''Binding source is unsupported.'')] w
           else
             (case on_resources (get_obj serviceInstances (tr_name sourceRef)) w of
                (Inl e, w) \<Rightarrow>
                  if e = NotFound then
                    pending_source env binding status ''SourcePending'' ''Binding source service instance does not exist yet.'' w
                  else (Inl (ApiError e), w)
              | (Inr source, w) \<Rightarrow>
                  (case sit_credentialRefs (si_status source) of
                     [] \<Rightarrow>
                       pending_source env binding status ''CredentialRefsPending''
                         ''Binding source has not published credentials yet.'' w
                   | ref # _ \<Rightarrow>
                       (case bw_get as_secret (secretKey (nr_namespace ref) (nr_name ref)) w of
                          (Inl e, w) \<Rightarrow>
                            if e = NotFound then
                              pending_source env binding status ''SourceSecretPending''
                                ''Binding source Secret is not available yet.'' w
                            else (Inl (ApiError e), w)
                        | (Inr sourceSecret, w) \<Rightarrow> bindSource env sha binding status source ref sourceSecret w)))))"

end
