(* ===== verification/Binding_Facts.thy ===== *)
theory Binding_Facts
  imports Binding_Controller Catalog_Facts
begin

text \<open>
  What the controller of service bindings promises. \<open>ready_binding_projected\<close>: a binding that a run leaves ready has its
  credentials, in the workload too. \<open>binding_stays_in_its_objects\<close>: what a run may touch. \<open>bindings_cross_projects\<close>: the
  credentials of any project are handed to any other.
\<close>

section \<open>Calls\<close>

definition same_store :: "binding_world \<Rightarrow> binding_world \<Rightarrow> bool" where
  "same_store w w' \<longleftrightarrow> bw_objects w' = bw_objects w \<and> bw_bindings w' = bw_bindings w \<and>
     (\<exists>fs. bw_control w' = (bw_control w)\<lparr>co_faults := fs\<rparr>)"

lemma same_store_refl [simp]: "same_store w w"
  unfolding same_store_def by (intro conjI exI [of _ "co_faults (bw_control w)"]) simp_all

lemma same_store_trans: "same_store a b \<Longrightarrow> same_store b c \<Longrightarrow> same_store a c"
  by (auto simp: same_store_def)

lemma same_store_bound: "same_store w w' \<Longrightarrow> bound k w' = bound k w"
  by (simp add: same_store_def bound_def)

lemma same_store_parts:
  assumes "same_store w w'"
  shows "bw_bindings w' = bw_bindings w" "co_instances (bw_control w') = co_instances (bw_control w)"
  using assms by (auto simp: same_store_def)

lemma bw_fault_same: "bw_fault w = (f, w') \<Longrightarrow> same_store w w'"
  by (auto simp: bw_fault_def control_fault_def same_store_def split: list.splits
      intro: exI [of _ "co_faults (bw_control w)"])

lemma bw_read_cases:
  assumes "bw_read f w = (r, w')"
  shows "same_store w w' \<and> (\<forall>x. r = Inr x \<longrightarrow> f w' = Inr x)"
proof -
  obtain fl w1 where "bw_fault w = (fl, w1)" by (cases "bw_fault w")
  then show ?thesis using assms bw_fault_same [of w fl w1] by (cases fl) (auto simp: bw_read_def)
qed

lemma bw_get_cases:
  assumes "bw_get decode k w = (r, w')"
  shows "same_store w w'" "r = Inr y \<Longrightarrow> \<exists>x. bound k w = Some x \<and> decode x = Some y"
  using bw_read_cases [OF assms [unfolded bw_get_def]] same_store_bound [of w w' k]
  by (auto split: option.splits)

text \<open>A write has its effect or has none, and it has it if it succeeds.\<close>

lemma bw_write_cases:
  assumes "bw_write refuses effect w = (r, w')"
  obtains "same_store w w'" "r \<noteq> Inr ()" | w1 where "same_store w w1" "refuses w1 = None" "w' = effect w1"
proof -
  obtain f w1 where f: "bw_fault w = (f, w1)" by (cases "bw_fault w")
  have "same_store w w' \<and> r \<noteq> Inr () \<or> refuses w1 = None \<and> w' = effect w1"
    using assms f bw_fault_same [OF f] by (cases f; cases "refuses w1") (auto simp: bw_write_def)
  then show thesis using that bw_fault_same [OF f] by blast
qed

lemma bound_store [simp]: "bound k (bw_store k' x w) = (if k = k' then Some x else bound k w)"
  by (simp add: bound_def bw_store_def update_conv')

lemma bw_store_parts [simp]:
  "bw_bindings (bw_store k x w) = bw_bindings w" "bw_control (bw_store k x w) = bw_control w"
  by (simp_all add: bw_store_def)

text \<open>What a step may do to the objects: at most those of \<open>ks\<close> differ, and neither bindings nor resources do.\<close>

definition touches :: "(object_key \<Rightarrow> bool) \<Rightarrow> binding_world \<Rightarrow> binding_world \<Rightarrow> bool" where
  "touches P w w' \<longleftrightarrow> (\<forall>k. \<not> P k \<longrightarrow> bound k w' = bound k w) \<and> bw_bindings w' = bw_bindings w \<and>
     (\<exists>fs. bw_control w' = (bw_control w)\<lparr>co_faults := fs\<rparr>)"

lemma touches_same: "same_store w w' \<Longrightarrow> touches P w w'"
  by (auto simp: same_store_def touches_def bound_def simp del: split_paired_All)

lemma touches_trans: "touches P a b \<Longrightarrow> touches P b c \<Longrightarrow> touches P a c"
  by (auto simp: touches_def simp del: split_paired_All)

lemma touches_mono: "touches P a b \<Longrightarrow> (\<And>k. P k \<Longrightarrow> Q k) \<Longrightarrow> touches Q a b"
  unfolding touches_def by blast

lemma touches_bound: "touches P w w' \<Longrightarrow> \<not> P k \<Longrightarrow> bound k w' = bound k w"
  unfolding touches_def by blast

lemma touches_parts:
  assumes "touches P w w'"
  shows "bw_bindings w' = bw_bindings w" "co_instances (bw_control w') = co_instances (bw_control w)"
  using assms by (auto simp: touches_def simp del: split_paired_All)

lemma touches_store: "same_store w w1 \<Longrightarrow> touches (\<lambda>k'. k' = k) w (bw_store k x w1)"
  by (auto simp: same_store_def touches_def same_store_bound bound_def [of _ w] bound_def [of _ w1] simp del: split_paired_All)

lemma bw_put_cases:
  assumes "bw_create k x w = (r, w') \<or> bw_update k x w = (r, w')"
  shows "touches (\<lambda>k'. k' = k) w w'" "r = Inr () \<Longrightarrow> bound k w' = Some x"
proof -
  from assms obtain refuses where "bw_write refuses (bw_store k x) w = (r, w')"
    by (auto simp: bw_create_def bw_update_def)
  then have *: "touches (\<lambda>k'. k' = k) w w' \<and> (r = Inr () \<longrightarrow> bound k w' = Some x)"
    by (cases rule: bw_write_cases) (auto intro: touches_same touches_store)
  then show "touches (\<lambda>k'. k' = k) w w'" "r = Inr () \<Longrightarrow> bound k w' = Some x" by simp_all
qed

section \<open>Steps\<close>

lemma passed: "pass m = (r, w') \<Longrightarrow> \<exists>q. m = (q, w') \<and> (\<forall>x. r = Inr x \<longrightarrow> q = Inr x)"
  by (cases m; cases "fst m") (auto simp: pass_def)

lemma passed_put:
  assumes "pass (bw_create k x w) = (r, w') \<or> pass (bw_update k x w) = (r, w')"
  shows "touches (\<lambda>k'. k' = k) w w'" "r = Inr () \<Longrightarrow> bound k w' = Some x"
proof -
  obtain q where q: "bw_create k x w = (q, w') \<or> bw_update k x w = (q, w')" "r = Inr () \<Longrightarrow> q = Inr ()"
    using assms
  proof
    assume "pass (bw_create k x w) = (r, w')"
    from passed [OF this] show thesis using that by force
  next
    assume "pass (bw_update k x w) = (r, w')"
    from passed [OF this] show thesis using that by force
  qed
  show "touches (\<lambda>k'. k' = k) w w'" "r = Inr () \<Longrightarrow> bound k w' = Some x"
    using bw_put_cases [OF q(1)] q(2) by simp_all
qed

lemma createOrUpdateObject_touches:
  assumes "createOrUpdateObject k x w = (r, w')"
  shows "touches (\<lambda>k'. k' = k) w w'"
proof -
  obtain g w1 where g: "bw_get Some k w = (g, w1)" by (cases "bw_get Some k w")
  note same = touches_same [OF bw_get_cases(1) [OF g]]
  have "w' = w1 \<or> pass (bw_create k x w1) = (r, w') \<or> pass (bw_update k x w1) = (r, w')"
    using assms g by (cases g) (auto simp: createOrUpdateObject_def split: if_splits)
  then show ?thesis using same passed_put(1) [of k x w1 r w'] touches_trans [OF same] by blast
qed

lemma touches_step:
  assumes "and_then m f = (r, w')" "\<And>q w1. m = (q, w1) \<Longrightarrow> touches P w w1"
    and "\<And>x w1. touches P w w1 \<Longrightarrow> f x w1 = (r, w') \<Longrightarrow> touches P w w'"
  shows "touches P w w'"
proof (cases m)
  case (Pair q w1)
  then show ?thesis using assms by (cases q) auto
qed

definition eso_objects :: "(string \<Rightarrow> string) \<Rightarrow> string \<Rightarrow> string \<Rightarrow> string \<Rightarrow> object_key \<Rightarrow> bool" where
  "eso_objects sha name sourceNamespace targetNamespace k \<longleftrightarrow>
     k \<in> {(''v1'', ''ServiceAccount'', targetNamespace, name @ ''-eso-reader''),
       (''rbac.authorization.k8s.io/v1'', ''Role'', sourceNamespace, secretStoreName sha name sourceNamespace),
       (''rbac.authorization.k8s.io/v1'', ''RoleBinding'', sourceNamespace, secretStoreName sha name sourceNamespace),
       eso_key ''SecretStore'' targetNamespace (secretStoreName sha name sourceNamespace),
       eso_key ''SecretStore'' targetNamespace (name @ ''-vault''),
       eso_key ''ExternalSecret'' targetNamespace (name @ ''-binding'')}"

text \<open>One more object, then the rest of the projection.\<close>

lemma touches_object:
  assumes "and_then (createOrUpdateObject k x w1) f = (r, w')" "P k" "touches P w w1"
    and "\<And>y w2. touches P w w2 \<Longrightarrow> f y w2 = (r, w') \<Longrightarrow> touches P w w'"
  shows "touches P w w'"
proof (rule touches_step [OF assms(1)])
  fix q w2 assume "createOrUpdateObject k x w1 = (q, w2)"
  from touches_mono [OF createOrUpdateObject_touches [OF this], of P] assms(2)
  show "touches P w w2" using touches_trans [OF assms(3)] by blast
qed (use assms(4) in blast)

lemma touches_last_object:
  "createOrUpdateObject k x w1 = (r, w') \<Longrightarrow> P k \<Longrightarrow> touches P w w1 \<Longrightarrow> touches P w w'"
  using touches_mono [OF createOrUpdateObject_touches, of k x w1 r w' P] touches_trans [of P w w1 w'] by blast

lemma ensureExternalSecret_touches:
  assumes "ensureExternalSecretBindingProjection sha b ref (m_name (sb_meta b) @ ''-binding'') ns w = (r, w')"
  shows "touches (eso_objects sha (m_name (sb_meta b)) (nr_namespace ref) ns) w w'"
    (is "touches ?P w w'")
proof -
  have keys: "?P (''v1'', ''ServiceAccount'', ns, m_name (sb_meta b) @ ''-eso-reader'')"
    "?P (''rbac.authorization.k8s.io/v1'', ''Role'', nr_namespace ref, secretStoreName sha (m_name (sb_meta b)) (nr_namespace ref))"
    "?P (''rbac.authorization.k8s.io/v1'', ''RoleBinding'', nr_namespace ref, secretStoreName sha (m_name (sb_meta b)) (nr_namespace ref))"
    "?P (eso_key ''SecretStore'' ns (secretStoreName sha (m_name (sb_meta b)) (nr_namespace ref)))"
    "?P (eso_key ''SecretStore'' ns (m_name (sb_meta b) @ ''-vault''))"
    "?P (eso_key ''ExternalSecret'' ns (m_name (sb_meta b) @ ''-binding''))"
    by (simp_all add: eso_objects_def)
  have start: "touches ?P w w" by (rule touches_same) simp
  show ?thesis
  proof (cases "externalSecretProvider (sbs_secretPolicy (sb_spec b)) = ExternalSecretProviderVault")
    case True
    then have v: "ensureVaultExternalSecretBindingProjection b ref (m_name (sb_meta b) @ ''-binding'') ns w = (r, w')"
      using assms by (simp add: ensureExternalSecretBindingProjection_def Let_def)
    show ?thesis
    proof (cases "sp_vault (sbs_secretPolicy (sb_spec b))")
      case None
      then show ?thesis using v start by (simp add: ensureVaultExternalSecretBindingProjection_def)
    next
      case (Some vault)
      show ?thesis using v unfolding ensureVaultExternalSecretBindingProjection_def Let_def Some option.case
        by (elim touches_object touches_last_object) (use keys start in blast)+
    qed
  next
    case False
    then show ?thesis using assms unfolding ensureExternalSecretBindingProjection_def Let_def
      by (simp only: if_False) (elim touches_object touches_last_object; use keys start in blast)
  qed
qed

lemma copyBindingSecret_run:
  assumes "copyBindingSecret n sec tn ns w = (r, w')"
  shows "touches (\<lambda>k. k = secretKey ns tn) w w'"
    "r = Inr () \<Longrightarrow> \<exists>copy. bound (secretKey ns tn) w' = Some (BSecret copy) \<and> sc_data copy = sc_data sec"
proof -
  define k where "k = secretKey ns tn"
  obtain g w1 where g: "bw_get as_secret k w = (g, w1)" by (cases "bw_get as_secret k w")
  note same = touches_same [OF bw_get_cases(1) [OF g], of "\<lambda>k'. k' = k"]
  have data: "cloneSecretData (sc_data sec) = sc_data sec" by (simp add: cloneSecretData_def)
  note run = assms [unfolded copyBindingSecret_def Let_def data, folded k_def]
  have put: "touches (\<lambda>k'. k' = k) w w' \<and> (r = Inr () \<longrightarrow> bound k w' = Some x)"
    if "pass (bw_create k x w1) = (r, w') \<or> pass (bw_update k x w1) = (r, w')" for x
    using passed_put [OF that] touches_trans [OF same] by simp
  have "touches (\<lambda>k'. k' = k) w w' \<and> (r = Inr () \<longrightarrow> (\<exists>copy. bound k w' = Some (BSecret copy) \<and> sc_data copy = sc_data sec))"
  proof (cases g)
    case (Inl e)
    show ?thesis
    proof (cases "e = NotFound")
      case True
      define new where "new = \<lparr>sc_labels = binding_labels n, sc_annotations = [], sc_type = ''Opaque'', sc_data = sc_data sec\<rparr>"
      have "sc_data new = sc_data sec" by (simp add: new_def)
      moreover have "pass (bw_create k (BSecret new) w1) = (r, w')" using run g Inl True unfolding new_def by simp
      ultimately show ?thesis using put [of "BSecret new"] by blast
    next
      case False
      then show ?thesis using run g Inl same by auto
    qed
  next
    case (Inr t)
    define new where "new = t\<lparr>sc_data := sc_data sec,
      sc_labels := map_set ''servicer.io/service-binding'' n (map_set ''servicer.io/managed-by'' ''servicebinding-controller'' (sc_labels t))\<rparr>"
    have "sc_data new = sc_data sec" by (simp add: new_def)
    moreover have "pass (bw_update k (BSecret new) w1) = (r, w')" using run g Inr unfolding new_def by simp
    ultimately show ?thesis using put [of "BSecret new"] by blast
  qed
  then show "touches (\<lambda>k. k = secretKey ns tn) w w'"
    "r = Inr () \<Longrightarrow> \<exists>copy. bound (secretKey ns tn) w' = Some (BSecret copy) \<and> sc_data copy = sc_data sec"
    unfolding k_def by blast+
qed

definition bound_workload :: "service_binding \<Rightarrow> string \<Rightarrow> object_key option" where
  "bound_workload b ns =
     (if tr_kind (sbs_targetRef (sb_spec b)) = '''' then None
      else map_option (\<lambda>v. (v, tr_kind (sbs_targetRef (sb_spec b)), ns, tr_name (sbs_targetRef (sb_spec b))))
        (workload_version (tr_kind (sbs_targetRef (sb_spec b)))))"

definition reads_secret :: "string \<Rightarrow> container \<Rightarrow> bool" where
  "reads_secret n c \<longleftrightarrow> (\<exists>e \<in> set (cn_envFrom c). \<exists>r. ef_secretRef e = Some r \<and> se_name r = n)"

definition wired :: "string \<Rightarrow> pod_template \<Rightarrow> bool" where
  "wired n t \<longleftrightarrow> (\<forall>c \<in> set (pt_initContainers t) \<union> set (pt_containers t). reads_secret n c)"

lemma ensureContainerSecretRef_reads: "reads_secret n (ensureContainerSecretRef n c)"
  by (fastforce simp: reads_secret_def ensureContainerSecretRef_def list_ex_iff split: option.splits)

lemma integrated_wired: "wired n (integrateBindingIntoPodObject b n t)"
  by (auto simp: wired_def integrateBindingIntoPodObject_def ensureContainerSecretRef_reads)

lemma workload_version_empty [simp]: "workload_version '''' = None" "workload_version ''Namespace'' = None"
  by (simp_all add: workload_version_def)

lemma integrateBindingTarget_run:
  assumes "integrateBindingTarget b n ns w = (r, w')"
  shows "touches (\<lambda>k. bound_workload b ns = Some k) w w'"
    "r = Inr i \<Longrightarrow> bound_workload b ns = Some k \<Longrightarrow> \<exists>t. bound k w' = Some (BWorkload t) \<and> wired n t"
proof -
  have "touches (\<lambda>k. bound_workload b ns = Some k) w w' \<and>
    (\<forall>i k. r = Inr i \<longrightarrow> bound_workload b ns = Some k \<longrightarrow> (\<exists>t. bound k w' = Some (BWorkload t) \<and> wired n t))"
  proof (cases "bound_workload b ns")
    case None
    then have "w' = w" using assms
      by (auto simp: integrateBindingTarget_def bound_workload_def Let_def split: if_splits option.splits)
    then show ?thesis using None touches_same by simp
  next
    case (Some k)
    let ?target = "sbs_targetRef (sb_spec b)"
    from Some obtain v where v: "workload_version (tr_kind ?target) = Some v"
      "k = (v, tr_kind ?target, ns, tr_name ?target)" "tr_kind ?target \<noteq> ''''" "tr_kind ?target \<noteq> ''Namespace''"
      by (cases "tr_kind ?target = ''Namespace''") (auto simp: bound_workload_def split: if_splits)
    show ?thesis
    proof (cases "tr_name ?target = ''''")
      case True
      then have "w' = w \<and> (\<forall>i. r \<noteq> Inr i)" using assms v(3,4) by (auto simp: integrateBindingTarget_def Let_def)
      then show ?thesis using touches_same by simp
    next
      case False
      have run: "and_then (pass (bw_get as_workload k w)) (\<lambda>t w.
               and_then (pass (bw_update k (BWorkload (integrateBindingIntoPodObject (m_name (sb_meta b)) n t)) w))
                 (\<lambda>_ w. (Inr True, w))) = (r, w')"
        using assms v False unfolding integrateBindingTarget_def Let_def by simp
      obtain g w1 where g: "bw_get as_workload k w = (g, w1)" by (cases "bw_get as_workload k w")
      have same: "touches (\<lambda>k'. k' = k) w w1" using touches_same bw_get_cases(1) [OF g] by blast
      have "touches (\<lambda>k'. k' = k) w w' \<and> (\<forall>i. r = Inr i \<longrightarrow> (\<exists>t. bound k w' = Some (BWorkload t) \<and> wired n t))"
      proof (cases g)
        case (Inl e)
        then have "w' = w1 \<and> (\<forall>i. r \<noteq> Inr i)" using run g by (auto simp: pass_def)
        then show ?thesis using same by simp
      next
        case (Inr t)
        let ?t = "integrateBindingIntoPodObject (m_name (sb_meta b)) n t"
        obtain q w2 where q: "pass (bw_update k (BWorkload ?t) w1) = (q, w2)" by (cases "pass (bw_update k (BWorkload ?t) w1)")
        note put = passed_put [OF disjI2 [OF q]]
        have "w' = w2 \<and> (\<forall>i. r = Inr i \<longrightarrow> q = Inr ())" using run g Inr q by (cases q) (auto simp: pass_def)
        then show ?thesis using touches_trans [OF same put(1)] put(2) integrated_wired by simp
      qed
      moreover have "(\<lambda>k'. bound_workload b ns = Some k') = (\<lambda>k'. k' = k)" using Some by auto
      ultimately show ?thesis unfolding Some by (simp del: split_paired_All)
    qed
  qed
  then show "touches (\<lambda>k. bound_workload b ns = Some k) w w'"
    "r = Inr i \<Longrightarrow> bound_workload b ns = Some k \<Longrightarrow> \<exists>t. bound k w' = Some (BWorkload t) \<and> wired n t" by simp_all
qed

section \<open>Runs\<close>

text \<open>At most objects of \<open>P\<close> and the status of one binding differ.\<close>

definition ran :: "(object_key \<Rightarrow> bool) \<Rightarrow> string \<Rightarrow> binding_world \<Rightarrow> binding_world \<Rightarrow> bool" where
  "ran P name w w' \<longleftrightarrow> (\<forall>k. \<not> P k \<longrightarrow> bound k w' = bound k w) \<and>
     (\<exists>fs. bw_control w' = (bw_control w)\<lparr>co_faults := fs\<rparr>) \<and>
     (\<forall>n. map_of (bw_bindings w') n = map_of (bw_bindings w) n \<or>
        n = name \<and> (\<exists>b st. map_of (bw_bindings w) n = Some b \<and> map_of (bw_bindings w') n = Some (b\<lparr>sb_status := st\<rparr>)))"

lemma touches_ran: "touches P w w' \<Longrightarrow> ran P name w w'"
  by (simp add: touches_def ran_def del: split_paired_All)

lemma touches_then_ran:
  assumes "touches P w w1" "ran P name w1 w'"
  shows "ran P name w w'"
proof -
  from assms(2) obtain fs where "bw_control w' = (bw_control w1)\<lparr>co_faults := fs\<rparr>" unfolding ran_def by blast
  moreover from assms(1) obtain gs where "bw_control w1 = (bw_control w)\<lparr>co_faults := gs\<rparr>" unfolding touches_def by blast
  ultimately have "bw_control w' = (bw_control w)\<lparr>co_faults := fs\<rparr>" by simp
  then show ?thesis using assms unfolding ran_def touches_def by (simp del: split_paired_All) blast
qed

lemma ran_mono: "ran P name w w' \<Longrightarrow> (\<And>k. P k \<Longrightarrow> Q k) \<Longrightarrow> ran Q name w w'"
  unfolding ran_def by blast

text \<open>What the end of a branch leaves of its binding.\<close>

definition settled :: "service_binding \<Rightarrow> service_binding_status \<Rightarrow> binding_world \<Rightarrow> bool" where
  "settled b st w \<longleftrightarrow> (\<exists>b'. map_of (bw_bindings w) (m_name (sb_meta b)) = Some b' \<and> sb_spec b' = sb_spec b \<and>
     sb_meta b' = sb_meta b \<and> sbt_phase (sb_status b') = sbt_phase st \<and> sbt_credentialRefs (sb_status b') = sbt_credentialRefs st)"

lemma binding_done_run:
  assumes "binding_done env b st cs w = (r, w')" "map_of (bw_bindings w) (m_name (sb_meta b)) = Some b"
  shows "ran (\<lambda>_. False) (m_name (sb_meta b)) w w'" "r = Inr x \<Longrightarrow> settled b st w'"
proof -
  let ?n = "m_name (sb_meta b)"
  let ?v = "conds env (m_generation (sb_meta b)) cs (copied (ce_room env) (sbt_conditions (sb_status b)))"
  let ?st = "st\<lparr>sbt_conditions := sl_now ?v\<rparr>"
  have "ran (\<lambda>_. False) ?n w w' \<and> (\<forall>x. r = Inr x \<longrightarrow> settled b st w')"
  proof (cases "(sb_status b)\<lparr>sbt_conditions := sl_then ?v\<rparr> = ?st")
    case True
    then have "r = Inr done_result" "w' = w" using assms(1) by (simp_all add: binding_done_def Let_def)
    moreover from True have "sbt_phase (sb_status b) = sbt_phase st" "sbt_credentialRefs (sb_status b) = sbt_credentialRefs st"
      by (cases "sb_status b"; cases st; simp)+
    ultimately show ?thesis using assms(2) touches_ran [OF touches_same, of w w] by (auto simp: settled_def)
  next
    case False
    obtain q w1 where q: "pass (put_binding_status ?n ?st w) = (q, w1)" by (cases "pass (put_binding_status ?n ?st w)")
    then have w: "w' = w1" "\<And>x. r = Inr x \<Longrightarrow> q = Inr ()" using assms(1) False unfolding binding_done_def Let_def
      by (cases q; auto)+
    from passed [OF q] obtain p where "put_binding_status ?n ?st w = (p, w1)" "q = Inr () \<longrightarrow> p = Inr ()" by blast
    note p = this(1) [unfolded put_binding_status_def] this(2)
    from p(1) show ?thesis
    proof (cases rule: bw_write_cases)
      case 1
      then show ?thesis using w p(2) touches_ran [OF touches_same] by blast
    next
      case (2 w2)
      then have w': "w' = w2\<lparr>bw_bindings := AList.update ?n (b\<lparr>sb_status := ?st\<rparr>) (bw_bindings w2)\<rparr>"
        using assms(2) w(1) same_store_parts(1) [OF 2(1)] by simp
      from 2(1) obtain fs where "bw_control w2 = (bw_control w)\<lparr>co_faults := fs\<rparr>" unfolding same_store_def by blast
      then have "ran (\<lambda>_. False) ?n w w'" using w' assms(2) 2(1) unfolding ran_def same_store_def bound_def
        by (auto simp: update_conv' simp del: split_paired_All)
      moreover have "settled b st w'" using w' by (simp add: settled_def update_conv')
      ultimately show ?thesis by simp
    qed
  qed
  then show "ran (\<lambda>_. False) ?n w w'" "r = Inr x \<Longrightarrow> settled b st w'" by simp_all
qed

abbreviation binding_secret :: "service_binding \<Rightarrow> string" where
  "binding_secret b \<equiv> m_name (sb_meta b) @ ''-binding''"

definition binding_objects :: "(string \<Rightarrow> string) \<Rightarrow> service_binding \<Rightarrow> namespaced_ref \<Rightarrow> string \<Rightarrow> object_key \<Rightarrow> bool" where
  "binding_objects sha b ref ns k \<longleftrightarrow>
     eso_objects sha (m_name (sb_meta b)) (nr_namespace ref) ns k \<or> k = secretKey ns (binding_secret b) \<or> bound_workload b ns = Some k"

definition copies_secret :: "service_binding \<Rightarrow> bool" where
  "copies_secret b \<longleftrightarrow> sp_deliveryMode (sbs_secretPolicy (sb_spec b)) \<noteq> SecretDeliveryModeExternalSecret"

text \<open>The Secret of the binding has the data of its source, and the workload reads it in every container.\<close>

definition handed_over :: "service_binding \<Rightarrow> namespaced_ref \<Rightarrow> string \<Rightarrow> binding_world \<Rightarrow> bool" where
  "handed_over b ref ns w \<longleftrightarrow>
     (\<exists>sec copy. bound (secretKey (nr_namespace ref) (nr_name ref)) w = Some (BSecret sec) \<and>
        bound (secretKey ns (binding_secret b)) w = Some (BSecret copy) \<and> sc_data copy = sc_data sec) \<and>
     (\<forall>k. bound_workload b ns = Some k \<longrightarrow> (\<exists>t. bound k w = Some (BWorkload t) \<and> wired (binding_secret b) t))"

lemma bound_workload_not_secret: "bound_workload b ns \<noteq> Some (secretKey m n)"
  by (auto simp: bound_workload_def workload_version_def split: if_splits)

lemma projectBindingSecret_run:
  assumes "projectBindingSecret sha b ref sec (binding_secret b) ns p w = (r, w')"
  shows "touches (binding_objects sha b ref ns) w w'"
    "r = Inr x \<Longrightarrow> copies_secret b \<Longrightarrow>
       \<exists>copy. bound (secretKey ns (binding_secret b)) w' = Some (BSecret copy) \<and> sc_data copy = sc_data sec"
    "copies_secret b \<Longrightarrow> touches (\<lambda>k. k = secretKey ns (binding_secret b)) w w'"
proof -
  let ?P = "\<lambda>k. k = secretKey ns (binding_secret b)"
  show t: "touches (binding_objects sha b ref ns) w w'"
  proof (cases "copies_secret b")
    case True
    obtain q w1 where q: "copyBindingSecret (m_name (sb_meta b)) sec (binding_secret b) ns w = (q, w1)"
      by (cases "copyBindingSecret (m_name (sb_meta b)) sec (binding_secret b) ns w")
    have "w' = w1" using assms q True by (cases q) (auto simp: projectBindingSecret_def copies_secret_def)
    then show ?thesis using touches_mono [OF copyBindingSecret_run(1) [OF q], of "binding_objects sha b ref ns"]
      by (simp add: binding_objects_def)
  next
    case False
    obtain q w1 where q: "ensureExternalSecretBindingProjection sha b ref (binding_secret b) ns w = (q, w1)"
      by (cases "ensureExternalSecretBindingProjection sha b ref (binding_secret b) ns w")
    have "w' = w1" using assms q False by (cases q) (auto simp: projectBindingSecret_def copies_secret_def)
    then show ?thesis using touches_mono [OF ensureExternalSecret_touches [OF q], of "binding_objects sha b ref ns"]
      by (simp add: binding_objects_def)
  qed
  assume c: "copies_secret b"
  obtain q w1 where q: "copyBindingSecret (m_name (sb_meta b)) sec (binding_secret b) ns w = (q, w1)"
    by (cases "copyBindingSecret (m_name (sb_meta b)) sec (binding_secret b) ns w")
  have run: "w' = w1" "r = Inr x \<Longrightarrow> q = Inr ()"
    using assms q c by (cases q; auto simp: projectBindingSecret_def copies_secret_def)+
  show "touches ?P w w'" using copyBindingSecret_run(1) [OF q] run(1) by simp
  show "\<exists>copy. bound (secretKey ns (binding_secret b)) w' = Some (BSecret copy) \<and> sc_data copy = sc_data sec" if "r = Inr x"
    using copyBindingSecret_run(2) [OF q run(2) [OF that]] run(1) by simp
qed

lemma bindTarget_run:
  assumes "bindTarget env sha b st ref sec ns project w = (r, w')" "map_of (bw_bindings w) (m_name (sb_meta b)) = Some b"
    and "bound (secretKey (nr_namespace ref) (nr_name ref)) w = Some (BSecret sec)"
  shows "ran (binding_objects sha b ref ns) (m_name (sb_meta b)) w w'"
    "r = Inr x \<Longrightarrow> \<exists>st'. settled b st' w' \<and> (sbt_phase st' = ''Ready'' \<longrightarrow>
       sbt_credentialRefs st' = [\<lparr>nr_name = binding_secret b, nr_namespace = ns\<rparr>] \<and> (copies_secret b \<longrightarrow> handed_over b ref ns w'))"
proof -
  let ?tn = "binding_secret b" and ?P = "binding_objects sha b ref ns" and ?n = "m_name (sb_meta b)"
  let ?run = "ran ?P ?n w w' \<and> (\<forall>x. r = Inr x \<longrightarrow> (\<exists>st'. settled b st' w' \<and> (sbt_phase st' = ''Ready'' \<longrightarrow>
       sbt_credentialRefs st' = [\<lparr>nr_name = ?tn, nr_namespace = ns\<rparr>] \<and> (copies_secret b \<longrightarrow> handed_over b ref ns w'))))"
  obtain p w1 where p: "projectBindingSecret sha b ref sec ?tn ns (m_name (pj_meta project)) w = (p, w1)"
    by (cases "projectBindingSecret sha b ref sec ?tn ns (m_name (pj_meta project)) w")
  note projected = projectBindingSecret_run [OF p]
  obtain q w2 where q: "integrateBindingTarget b ?tn ns w1 = (q, w2)" by (cases "integrateBindingTarget b ?tn ns w1")
  note wires = integrateBindingTarget_run [OF q]
  have t1: "touches ?P w w1" by (rule projected(1))
  have t2: "touches ?P w w2"
    by (rule touches_trans [OF t1], rule touches_mono [OF wires(1)]) (simp add: binding_objects_def)
  have b2: "map_of (bw_bindings w2) ?n = Some b" using touches_parts(1) [OF t2] assms(2) by simp
  have through: "ran ?P ?n w w'" if "ran (\<lambda>_. False) ?n w2 w'"
    by (rule touches_then_ran [OF t2], rule ran_mono [OF that]) simp
  have ?run
  proof (cases p)
    case (Inl e)
    then have "w' = w1 \<and> (\<forall>x. r \<noteq> Inr x)" using assms(1) p by (auto simp: bindTarget_def Let_def)
    then show ?thesis using touches_ran [OF t1] by simp
  next
    case (Inr summary)
    show ?thesis
    proof (cases q)
      case (Inl e)
      show ?thesis
      proof (cases "is_not_found e")
        case False
        then have "w' = w2 \<and> (\<forall>x. r \<noteq> Inr x)" using assms(1) p q Inl \<open>p = Inr summary\<close>
          by (auto simp: bindTarget_def Let_def)
        then show ?thesis using touches_ran [OF t2] by simp
      next
        case True
        obtain st' cs where d: "binding_done env b st' cs w2 = (r, w')" "sbt_phase st' = ''PendingTarget''"
          using assms(1) p q Inl True \<open>p = Inr summary\<close> by (auto simp: bindTarget_def Let_def)
        note fin = binding_done_run [OF d(1) b2]
        then show ?thesis using through [OF fin(1)] d(2) by auto
      qed
    next
      case (Inr i)
      obtain st' cs where d: "binding_done env b st' cs w2 = (r, w')"
          "sbt_credentialRefs st' = [\<lparr>nr_name = ?tn, nr_namespace = ns\<rparr>]"
        using assms(1) p q Inr \<open>p = Inr summary\<close> by (auto simp: bindTarget_def Let_def)
      note fin = binding_done_run [OF d(1) b2]
      have objects: "bound k w' = bound k w2" for k using fin(1) unfolding ran_def by blast
      have "handed_over b ref ns w'" if c: "copies_secret b"
      proof -
        let ?k = "secretKey ns ?tn" and ?s = "secretKey (nr_namespace ref) (nr_name ref)"
        obtain copy where copy: "bound ?k w1 = Some (BSecret copy)" "sc_data copy = sc_data sec"
          using projected(2) [OF \<open>p = Inr summary\<close> c] by blast
        have "bound ?s w1 = bound ?s w \<or> ?s = ?k" using touches_bound [OF projected(3) [OF c], of ?s] by blast
        then obtain sec' where src: "bound ?s w1 = Some (BSecret sec')" "sc_data sec' = sc_data sec"
          using copy assms(3) by (metis option.inject)
        have keep: "bound (secretKey m n) w2 = bound (secretKey m n) w1" for m n
          by (rule touches_bound [OF wires(1) bound_workload_not_secret])
        show ?thesis unfolding handed_over_def objects keep
          using copy src wires(2) [OF Inr] by (intro conjI allI impI exI [of _ sec'] exI [of _ copy]) (auto simp del: split_paired_All)
      qed
      then show ?thesis using through [OF fin(1)] fin(2) d(2) by blast
    qed
  qed
  then show "ran ?P ?n w w'" "r = Inr x \<Longrightarrow> \<exists>st'. settled b st' w' \<and> (sbt_phase st' = ''Ready'' \<longrightarrow>
       sbt_credentialRefs st' = [\<lparr>nr_name = ?tn, nr_namespace = ns\<rparr>] \<and> (copies_secret b \<longrightarrow> handed_over b ref ns w'))"
    by simp_all
qed

section \<open>The whole run\<close>

lemma control_faults_only: "control_fault c = (f, c') \<Longrightarrow> \<exists>fs. c' = c\<lparr>co_faults := fs\<rparr>"
  by (cases "co_faults c") (auto simp: control_fault_def intro: exI [of _ "co_faults c"])

lemma get_obj_faults: "get_obj kd n c = (r, c') \<Longrightarrow> \<exists>fs. c' = c\<lparr>co_faults := fs\<rparr>"
  using control_faults_only [of c] by (cases "control_fault c") (fastforce simp: get_obj_def split: fault.splits option.splits)

lemma resolve_faults: "resolveClusterTargetForProject p n c = (r, c') \<Longrightarrow> \<exists>fs. c' = c\<lparr>co_faults := fs\<rparr>"
  unfolding resolveClusterTargetForProject_def Let_def
  by (auto split: if_splits prod.splits sum.splits dest: get_obj_faults intro: exI [of _ "co_faults c"])

lemma on_resources_same:
  "on_resources f w = (r, w') \<Longrightarrow> (\<And>r c'. f (bw_control w) = (r, c') \<Longrightarrow> \<exists>fs. c' = (bw_control w)\<lparr>co_faults := fs\<rparr>) \<Longrightarrow>
     same_store w w'"
  by (cases "f (bw_control w)") (fastforce simp: on_resources_def same_store_def)

lemma get_obj_same: "on_resources (get_obj kd n) w = (r, w') \<Longrightarrow> same_store w w'"
  by (rule on_resources_same, assumption, rule get_obj_faults)

lemma get_instance_found:
  assumes "on_resources (get_obj serviceInstances n) w = (Inr x, w')"
  shows "map_of (co_instances (bw_control w)) n = Some x"
proof -
  have "get_obj serviceInstances n (bw_control w) = (Inr x, bw_control w')"
    using assms by (auto simp: on_resources_def split: prod.splits)
  moreover have "co_instances (snd (control_fault (bw_control w))) = co_instances (bw_control w)"
    by (cases "co_faults (bw_control w)") (simp_all add: control_fault_def)
  ultimately show ?thesis
    by (cases "control_fault (bw_control w)") (auto simp: get_obj_def split: fault.splits option.splits)
qed

lemma bindingDependency_same: "bindingDependency b source project w = (r, w') \<Longrightarrow> same_store w w'"
proof -
  assume run: "bindingDependency b source project w = (r, w')"
  let ?m = "on_resources (resolveClusterTargetForProject project (pl_clusterName (sit_placement (si_status source)))) w"
  obtain q w1 where q: "?m = (q, w1)" by (cases ?m)
  have "same_store w w1" by (rule on_resources_same [OF q], rule resolve_faults)
  moreover have "w' = w \<or> w' = w1" using run q by (cases q) (auto simp: bindingDependency_def split: if_splits)
  ultimately show "same_store w w'" by auto
qed

definition target_namespace :: "service_binding \<Rightarrow> service_instance \<Rightarrow> string" where
  "target_namespace b source =
     (if tr_namespace (sbs_targetRef (sb_spec b)) = '''' then pl_namespace (sit_placement (si_status source))
      else tr_namespace (sbs_targetRef (sb_spec b)))"

text \<open>How a run ends for its binding: it may touch \<open>P\<close>, and if it says ready, \<open>R\<close> holds.\<close>

definition run_ends ::
  "service_binding \<Rightarrow> (object_key \<Rightarrow> bool) \<Rightarrow> (service_binding_status \<Rightarrow> binding_world \<Rightarrow> bool) \<Rightarrow> binding_world \<Rightarrow>
     (go_error + reconcile_result) \<times> binding_world \<Rightarrow> bool" where
  "run_ends b P R w out \<longleftrightarrow>
     ran P (m_name (sb_meta b)) w (snd out) \<and>
     (\<forall>x. fst out = Inr x \<longrightarrow> (\<exists>st'. settled b st' (snd out) \<and> (sbt_phase st' = ''Ready'' \<longrightarrow> R st' (snd out))))"

definition knows :: "service_binding \<Rightarrow> binding_world \<Rightarrow> bool" where
  "knows b w \<longleftrightarrow> map_of (bw_bindings w) (m_name (sb_meta b)) = Some b"

lemma knows_same: "same_store w w' \<Longrightarrow> knows b w' = knows b w"
  by (simp add: knows_def same_store_def)

lemma run_ends_after: "same_store w w1 \<Longrightarrow> run_ends b P R w1 out \<Longrightarrow> run_ends b P R w out"
  unfolding run_ends_def using touches_then_ran [OF touches_same] by blast

lemma run_ends_error: "same_store w w1 \<Longrightarrow> run_ends b P R w (Inl e, w1)"
  unfolding run_ends_def using touches_ran [OF touches_same] by simp

lemma run_ends_unready:
  assumes "knows b w" "sbt_phase st \<noteq> ''Ready''"
  shows "run_ends b P R w (binding_done env b st cs w)"
proof (cases "binding_done env b st cs w")
  case (Pair r w')
  note fin = binding_done_run [OF Pair assms(1) [unfolded knows_def]]
  then show ?thesis unfolding run_ends_def Pair using ran_mono [OF fin(1), of P] assms(2) by auto
qed

abbreviation bound_ready :: "service_binding \<Rightarrow> namespaced_ref \<Rightarrow> string \<Rightarrow> service_binding_status \<Rightarrow> binding_world \<Rightarrow> bool" where
  "bound_ready b ref ns st' w \<equiv> sbt_credentialRefs st' = [\<lparr>nr_name = binding_secret b, nr_namespace = ns\<rparr>] \<and>
     (copies_secret b \<longrightarrow> handed_over b ref ns w)"

lemma bindSource_ends:
  assumes "knows b w" "bound (secretKey (nr_namespace ref) (nr_name ref)) w = Some (BSecret sec)"
  shows "run_ends b (binding_objects sha b ref (target_namespace b source)) (bound_ready b ref (target_namespace b source)) w
    (bindSource env sha b st source ref sec w)" (is "run_ends b ?P ?R w ?out")
proof (cases "target_namespace b source = ''''")
  case True
  then have "?out = binding_done env b (st\<lparr>sbt_phase := ''Failed''\<rparr>)
      [(''Failed'', ConditionTrue, ''TargetNamespaceMissing'', ''Binding target namespace could not be resolved.'')] w"
    unfolding bindSource_def Let_def target_namespace_def by simp
  then show ?thesis using run_ends_unready [OF assms(1)] by simp
next
  case False
  define pn where "pn = (if lr_name (sbs_projectRef (sb_spec b)) = '''' then lr_name (sis_projectRef (si_spec source))
            else lr_name (sbs_projectRef (sb_spec b)))"
  have out: "?out = and_then (projectForBinding pn w) (\<lambda>project w. and_then (bindingDependency b source project w) (\<lambda>waits w.
      (case waits of
         Some message \<Rightarrow> binding_done env b (st\<lparr>sbt_phase := ''PendingDependencies''\<rparr>)
           [(''Ready'', ConditionFalse, ''ExternalSecretsOperatorPending'', message),
            (''Failed'', ConditionFalse, ''ExternalSecretsOperatorPending'', ''Binding is waiting on an operator dependency, not failed.'')] w
       | None \<Rightarrow> bindTarget env sha b st ref sec (target_namespace b source) project w)))"
    using False unfolding bindSource_def Let_def target_namespace_def [symmetric] pn_def by simp
  obtain p w1 where p: "projectForBinding pn w = (p, w1)" by (cases "projectForBinding pn w")
  then have s1: "same_store w w1" unfolding projectForBinding_def by (auto dest!: passed intro: get_obj_same)
  show ?thesis
  proof (cases p)
    case (Inl e)
    then show ?thesis using out p s1 run_ends_error by simp
  next
    case (Inr project)
    obtain d w2 where d: "bindingDependency b source project w1 = (d, w2)" by (cases "bindingDependency b source project w1")
    note s2 = same_store_trans [OF s1 bindingDependency_same [OF d]]
    have k2: "knows b w2" "bound (secretKey (nr_namespace ref) (nr_name ref)) w2 = Some (BSecret sec)"
      using assms knows_same [OF s2] same_store_bound [OF s2] by simp_all
    show ?thesis
    proof (cases d)
      case (Inl e)
      then show ?thesis using out p d Inr s2 run_ends_error by simp
    next
      case d: (Inr waits)
      show ?thesis
      proof (cases waits)
        case (Some message)
        then show ?thesis unfolding out p Inr and_then_simps \<open>bindingDependency b source project w1 = (d, w2)\<close> d
          by (simp add: run_ends_after [OF s2] run_ends_unready [OF k2(1)])
      next
        case None
        let ?t = "bindTarget env sha b st ref sec (target_namespace b source) project w2"
        have "run_ends b ?P ?R w2 ?t"
        proof (cases ?t)
          case (Pair r w')
          note t = bindTarget_run [OF Pair k2(1) [unfolded knows_def] k2(2)]
          then show ?thesis unfolding run_ends_def Pair by auto
        qed
        then show ?thesis unfolding out p Inr and_then_simps \<open>bindingDependency b source project w1 = (d, w2)\<close> d None option.case
          by (rule run_ends_after [OF s2])
      qed
    qed
  qed
qed

text \<open>The instance a binding is about, and the credentials it hands over: the first that the instance has.\<close>

definition source_of :: "service_binding \<Rightarrow> binding_world \<Rightarrow> (service_instance \<times> namespaced_ref) option" where
  "source_of b w =
     (case map_of (co_instances (bw_control w)) (tr_name (sbs_sourceRef (sb_spec b))) of
        None \<Rightarrow> None
      | Some source \<Rightarrow> (case sit_credentialRefs (si_status source) of [] \<Rightarrow> None | ref # _ \<Rightarrow> Some (source, ref)))"

definition may_touch :: "(string \<Rightarrow> string) \<Rightarrow> service_binding \<Rightarrow> binding_world \<Rightarrow> object_key \<Rightarrow> bool" where
  "may_touch sha b w k \<longleftrightarrow>
     (case source_of b w of None \<Rightarrow> False
      | Some (source, ref) \<Rightarrow> binding_objects sha b ref (target_namespace b source) k)"

definition credentials_bound :: "service_binding \<Rightarrow> binding_world \<Rightarrow> service_binding_status \<Rightarrow> binding_world \<Rightarrow> bool" where
  "credentials_bound b w st w' \<longleftrightarrow>
     (case source_of b w of None \<Rightarrow> False
      | Some (source, ref) \<Rightarrow> bound_ready b ref (target_namespace b source) st w')"

lemma source_of_same: "same_store w w' \<Longrightarrow> source_of b w' = source_of b w"
  by (simp add: source_of_def same_store_parts)

lemma get_binding_cases:
  assumes "get_binding n w = (r, w')"
  shows "same_store w w'" "r = Inr b \<Longrightarrow> map_of (bw_bindings w) n = Some b"
  using bw_read_cases [OF assms [unfolded get_binding_def]] same_store_parts(1) [of w w'] by (auto split: option.splits)

lemma reconcile_ends:
  assumes g: "get_binding name w = (Inr b, w1)" and name: "m_name (sb_meta b) = name"
  shows "run_ends b (may_touch sha b w) (credentials_bound b w) w (ServiceBindingReconcile env sha name w)"
proof -
  let ?P = "may_touch sha b w" and ?R = "credentials_bound b w"
  define st where "st = (sb_status b)\<lparr>sbt_observedGeneration := m_generation (sb_meta b)\<rparr>"
  let ?src = "sbs_sourceRef (sb_spec b)"
  note s1 = get_binding_cases(1) [OF g]
  have b: "knows b w" using get_binding_cases(2) [OF g] name by (simp add: knows_def)
  have unready: "run_ends b ?P ?R w (binding_done env b (st\<lparr>sbt_phase := p\<rparr>) cs w')"
    if "same_store w w'" "p \<noteq> ''Ready''" for p cs w'
    by (rule run_ends_after [OF that(1)], rule run_ends_unready) (use b knows_same [OF that(1)] that(2) in simp_all)
  note run = ServiceBindingReconcile_def [of env sha name w, unfolded g Let_def prod.case sum.case, folded st_def]
  show ?thesis
  proof (cases "tr_kind ?src \<noteq> ''ServiceInstance'' \<or> tr_name ?src = ''''")
    case True
    then show ?thesis unfolding run if_P [OF True] by (intro unready [OF s1]) simp
  next
    case False
    obtain i w2 where i: "on_resources (get_obj serviceInstances (tr_name ?src)) w1 = (i, w2)"
      by (cases "on_resources (get_obj serviceInstances (tr_name ?src)) w1")
    note s2 = same_store_trans [OF s1 get_obj_same [OF i]]
    note run = run [unfolded if_not_P [OF False] i prod.case]
    show ?thesis
    proof (cases i)
      case (Inl e)
      then show ?thesis unfolding run Inl sum.case pending_source_def
        using unready [OF s2] run_ends_error [OF s2] by simp
    next
      case (Inr source)
      have source: "map_of (co_instances (bw_control w)) (tr_name ?src) = Some source"
        using get_instance_found [OF i [unfolded Inr]] same_store_parts(2) [OF s1] by simp
      note run = run [unfolded Inr sum.case]
      show ?thesis
      proof (cases "sit_credentialRefs (si_status source)")
        case Nil
        then show ?thesis unfolding run Nil list.case pending_source_def by (intro unready [OF s2]) simp
      next
        case (Cons ref rest)
        have of: "source_of b w = Some (source, ref)" using source Cons by (simp add: source_of_def)
        define k where "k = secretKey (nr_namespace ref) (nr_name ref)"
        obtain q w3 where q: "bw_get as_secret k w2 = (q, w3)" by (cases "bw_get as_secret k w2")
        note s3 = same_store_trans [OF s2 bw_get_cases(1) [OF q]]
        note run = run [unfolded Cons list.case, folded k_def, unfolded q prod.case]
        show ?thesis
        proof (cases q)
          case (Inl e)
          then show ?thesis unfolding run Inl sum.case pending_source_def
            using unready [OF s3] run_ends_error [OF s3] by simp
        next
          case (Inr sec)
          from bw_get_cases(2) [OF q Inr] obtain x where "bound k w2 = Some x" "as_secret x = Some sec" by blast
          then have sec: "bound k w3 = Some (BSecret sec)"
            using same_store_bound [OF bw_get_cases(1) [OF q], of k] by (cases x) auto
          have "knows b w3" using b knows_same [OF s3] by simp
          from bindSource_ends [OF this sec [unfolded k_def], of sha source env st]
          have "run_ends b ?P ?R w3 (bindSource env sha b st source ref sec w3)"
            unfolding may_touch_def [abs_def] credentials_bound_def [abs_def] of option.case prod.case .
          then show ?thesis unfolding run Inr sum.case by (rule run_ends_after [OF s3])
        qed
      qed
    qed
  qed
qed

text \<open>
  C20 If a run that has read a binding ends without an error and leaves it in phase \<open>Ready\<close>, then, whichever of its calls
  failed on the way, the source has credentials, the status points to the Secret of the binding in the target namespace, and, unless External Secrets delivers it, that Secret
  is stored with the data of the source and every container of the target workload reads it.
\<close>

theorem ready_binding_projected:
  assumes "get_binding name w = (Inr b, w1)" "m_name (sb_meta b) = name"
    and "ServiceBindingReconcile env sha name w = (Inr result, w')"
    and "map_of (bw_bindings w') name = Some b'" "sbt_phase (sb_status b') = ''Ready''"
  shows "\<exists>source ref. source_of b w = Some (source, ref) \<and>
    sbt_credentialRefs (sb_status b') = [\<lparr>nr_name = name @ ''-binding'', nr_namespace = target_namespace b source\<rparr>] \<and>
    (copies_secret b \<longrightarrow> handed_over b ref (target_namespace b source) w')"
proof -
  from reconcile_ends [OF assms(1,2), of sha env] assms(2-5)
  obtain st' where "settled b st' w'" "sbt_phase st' = ''Ready'' \<longrightarrow> credentials_bound b w st' w'"
    unfolding run_ends_def by auto
  moreover from this have "sbt_phase st' = ''Ready''" "sbt_credentialRefs st' = sbt_credentialRefs (sb_status b')"
    using assms(2,4,5) by (auto simp: settled_def)
  ultimately show ?thesis using assms(2) unfolding credentials_bound_def by (cases "source_of b w") auto
qed

text \<open>
  C24 A run for a binding changes, whatever calls fail, no other custom resource, no binding but the status of its own, and no
  object but the Secret of the binding, its target workload and the objects of its projection through External Secrets.
\<close>

theorem binding_stays_in_its_objects:
  assumes "map_of (bw_bindings w) name = Some b" "m_name (sb_meta b) = name" "\<not> may_touch sha b w k"
  shows "bound k (snd (ServiceBindingReconcile env sha name w)) = bound k w \<and>
    (\<exists>fs. bw_control (snd (ServiceBindingReconcile env sha name w)) = (bw_control w)\<lparr>co_faults := fs\<rparr>) \<and>
    (n \<noteq> name \<longrightarrow> map_of (bw_bindings (snd (ServiceBindingReconcile env sha name w))) n = map_of (bw_bindings w) n)"
proof -
  have "ran (may_touch sha b w) name w (snd (ServiceBindingReconcile env sha name w))"
  proof (cases "get_binding name w")
    case (Pair g w1)
    show ?thesis
    proof (cases g)
      case (Inl e)
      then have "snd (ServiceBindingReconcile env sha name w) = w1" using Pair by (simp add: ServiceBindingReconcile_def)
      then show ?thesis using touches_ran [OF touches_same [OF get_binding_cases(1) [OF Pair]]] by simp
    next
      case (Inr b')
      then have "b' = b" using get_binding_cases(2) [OF Pair] assms(1) by simp
      with Pair Inr have "get_binding name w = (Inr b, w1)" by simp
      from reconcile_ends [OF this assms(2), of sha env] show ?thesis unfolding run_ends_def using assms(2) by simp
    qed
  qed
  then obtain fs where "bw_control (snd (ServiceBindingReconcile env sha name w)) = (bw_control w)\<lparr>co_faults := fs\<rparr>"
    and "bound k (snd (ServiceBindingReconcile env sha name w)) = bound k w"
    and "n \<noteq> name \<longrightarrow> map_of (bw_bindings (snd (ServiceBindingReconcile env sha name w))) n = map_of (bw_bindings w) n"
    using assms(3) unfolding ran_def by blast
  then show ?thesis by blast
qed

section \<open>Runs without faults\<close>

definition untroubled :: "binding_world \<Rightarrow> bool" where
  "untroubled w \<longleftrightarrow> co_faults (bw_control w) = []"

lemma bw_fault_none: "untroubled w \<Longrightarrow> bw_fault w = (Works, w)"
  by (simp add: untroubled_def bw_fault_def control_fault_def)

lemma untroubled_calls:
  assumes "untroubled w"
  shows "bw_read f w = (f w, w)"
    "bw_write refuses effect w = (case refuses w of Some e \<Rightarrow> (Inl e, w) | None \<Rightarrow> (Inr (), effect w))"
    "on_resources (get_obj kd n) w = (case map_of (kd_all kd (bw_control w)) n of None \<Rightarrow> Inl NotFound | Some x \<Rightarrow> Inr x, w)"
  using bw_fault_none [OF assms] assms
  by (simp_all add: bw_read_def bw_write_def on_resources_def get_obj_def control_fault_def untroubled_def split: option.split)

lemma untroubled_store [simp]: "untroubled (bw_store k x w) = untroubled w"
  by (simp add: untroubled_def)

lemma copy_succeeds:
  assumes "untroubled w" "\<And>x. bound (secretKey ns tn) w = Some x \<Longrightarrow> \<exists>sec. x = BSecret sec"
  shows "\<exists>w1. copyBindingSecret n sec tn ns w = (Inr (), w1) \<and> untroubled w1"
proof (cases "bound (secretKey ns tn) w")
  case None
  then show ?thesis using assms(1)
    by (simp add: copyBindingSecret_def bw_get_def bw_create_def untroubled_calls pass_def)
next
  case (Some x)
  then obtain t where "x = BSecret t" using assms(2) by blast
  then show ?thesis using assms(1) Some
    by (simp add: copyBindingSecret_def bw_get_def bw_update_def untroubled_calls pass_def)
qed

text \<open>The target of a binding is a namespace, a kind that is not wired, or a workload that is there.\<close>

definition target_there :: "service_binding \<Rightarrow> string \<Rightarrow> binding_world \<Rightarrow> bool" where
  "target_there b ns w \<longleftrightarrow> tr_kind (sbs_targetRef (sb_spec b)) \<in> {'''', ''Namespace''} \<or>
     tr_name (sbs_targetRef (sb_spec b)) \<noteq> '''' \<and>
     (\<forall>k. bound_workload b ns = Some k \<longrightarrow> (\<exists>t. bound k w = Some (BWorkload t)))"

lemma integrate_succeeds:
  assumes "untroubled w" "target_there b ns w"
  shows "\<exists>i w1. integrateBindingTarget b tn ns w = (Inr i, w1) \<and> untroubled w1"
proof (cases "tr_kind (sbs_targetRef (sb_spec b)) \<in> {'''', ''Namespace''}")
  case True
  then show ?thesis using assms(1) by (auto simp: integrateBindingTarget_def Let_def)
next
  case False
  then have name: "tr_name (sbs_targetRef (sb_spec b)) \<noteq> ''''" using assms(2) by (auto simp: target_there_def)
  show ?thesis
  proof (cases "workload_version (tr_kind (sbs_targetRef (sb_spec b)))")
    case None
    then show ?thesis using False name assms(1) by (auto simp: integrateBindingTarget_def Let_def)
  next
    case (Some v)
    define k where "k = (v, tr_kind (sbs_targetRef (sb_spec b)), ns, tr_name (sbs_targetRef (sb_spec b)))"
    have "bound_workload b ns = Some k" using Some False by (simp add: bound_workload_def k_def)
    then obtain t where t: "bound k w = Some (BWorkload t)" using assms(2) False unfolding target_there_def by blast
    have "integrateBindingTarget b tn ns w = and_then (pass (bw_get as_workload k w)) (\<lambda>t w.
               and_then (pass (bw_update k (BWorkload (integrateBindingIntoPodObject (m_name (sb_meta b)) tn t)) w))
                 (\<lambda>_ w. (Inr True, w)))"
      using False name Some unfolding integrateBindingTarget_def Let_def k_def by simp
    then show ?thesis using assms(1) t by (auto simp: bw_get_def bw_update_def untroubled_calls pass_def)
  qed
qed

lemma untroubled_done:
  "untroubled w \<Longrightarrow> map_of (bw_bindings w) (m_name (sb_meta b)) = Some b \<Longrightarrow> fst (binding_done env b st cs w) = Inr done_result"
  by (simp add: binding_done_def put_binding_status_def untroubled_calls pass_def Let_def)

text \<open>
  C23 Without faults one run hands the credentials over, whatever project the source instance belongs to: the project of the
  binding is never compared with the project of the source, so the Secret of another project's database is copied into the
  namespace that the binding names.
\<close>

theorem bindings_cross_projects:
  assumes "untroubled w" "map_of (bw_bindings w) name = Some b" "m_name (sb_meta b) = name"
    and "tr_kind (sbs_sourceRef (sb_spec b)) = ''ServiceInstance''" "tr_name (sbs_sourceRef (sb_spec b)) \<noteq> ''''"
    and "source_of b w = Some (source, ref)" "bound (secretKey (nr_namespace ref) (nr_name ref)) w = Some (BSecret sec)"
    and "map_of (co_projects (bw_control w)) (lr_name (sbs_projectRef (sb_spec b))) = Some project"
    and "lr_name (sbs_projectRef (sb_spec b)) \<notin> {'''', lr_name (sis_projectRef (si_spec source))}"
    and "target_namespace b source \<noteq> ''''" "copies_secret b" "target_there b (target_namespace b source) w"
    and "\<And>x. bound (secretKey (target_namespace b source) (name @ ''-binding'')) w = Some x \<Longrightarrow> \<exists>old. x = BSecret old"
  shows "fst (ServiceBindingReconcile env sha name w) = Inr done_result \<and>
    handed_over b ref (target_namespace b source) (snd (ServiceBindingReconcile env sha name w))"
proof -
  let ?ns = "target_namespace b source" and ?run = "ServiceBindingReconcile env sha name w"
  define st where "st = (sb_status b)\<lparr>sbt_observedGeneration := m_generation (sb_meta b)\<rparr>"
  have g: "get_binding name w = (Inr b, w)" using assms(1,2) by (simp add: get_binding_def untroubled_calls)
  from assms(6) obtain rest where source: "map_of (co_instances (bw_control w)) (tr_name (sbs_sourceRef (sb_spec b))) = Some source"
    "sit_credentialRefs (si_status source) = ref # rest" by (auto simp: source_of_def split: option.splits list.splits)
  have secret: "bw_get as_secret (secretKey (nr_namespace ref) (nr_name ref)) w = (Inr sec, w)"
    using assms(1,7) by (simp add: bw_get_def untroubled_calls)
  have inst: "on_resources (get_obj serviceInstances (tr_name (sbs_sourceRef (sb_spec b)))) w = (Inr source, w)"
    using assms(1) source(1) by (simp add: untroubled_calls)
  have "?run = bindSource env sha b st source ref sec w"
    using assms(4,5) source(2) secret inst g unfolding ServiceBindingReconcile_def Let_def st_def by simp
  moreover have "projectForBinding (lr_name (sbs_projectRef (sb_spec b))) w = (Inr project, w)"
    using assms(1,8) by (simp add: projectForBinding_def untroubled_calls pass_def)
  moreover have "bindingDependency b source project w = (Inr None, w)"
    using assms(11) by (simp add: bindingDependency_def requiresExternalSecretsOperator_def copies_secret_def)
  ultimately have run: "?run = bindTarget env sha b st ref sec ?ns project w"
    using assms(9,10) unfolding bindSource_def Let_def target_namespace_def [symmetric] by simp
  obtain w1 where w1: "copyBindingSecret (m_name (sb_meta b)) sec (binding_secret b) ?ns w = (Inr (), w1)" "untroubled w1"
    using copy_succeeds [OF assms(1), of ?ns "binding_secret b"] assms(3,13) by blast
  note t1 = copyBindingSecret_run(1) [OF w1(1)]
  have "target_there b ?ns w1"
  proof -
    have "bound k w1 = bound k w" if "bound_workload b ?ns = Some k" for k
      by (rule touches_bound [OF t1]) (use bound_workload_not_secret that in blast)
    then show ?thesis using assms(12) unfolding target_there_def by auto
  qed
  then obtain i w2 where w2: "integrateBindingTarget b (binding_secret b) ?ns w1 = (Inr i, w2)" "untroubled w2"
    using integrate_succeeds [OF w1(2)] by blast
  have b2: "map_of (bw_bindings w2) (m_name (sb_meta b)) = Some b"
    using touches_parts(1) [OF t1] touches_parts(1) [OF integrateBindingTarget_run(1) [OF w2(1)]] assms(2,3) by simp
  have "projectBindingSecret sha b ref sec (binding_secret b) ?ns (m_name (pj_meta project)) w =
      (Inr (''Credentials projected into namespace '' @ ?ns @ '' for project '' @ m_name (pj_meta project) @ ''.''), w1)"
    using w1(1) assms(11) by (simp add: projectBindingSecret_def copies_secret_def)
  then obtain st' cs where d: "?run = binding_done env b st' cs w2" "sbt_phase st' = ''Ready''"
    using run w2(1) unfolding bindTarget_def Let_def by auto
  obtain w' where w': "?run = (Inr done_result, w')"
    using untroubled_done [OF w2(2) b2, of env st' cs] unfolding d(1) by (metis prod.collapse)
  have "settled b st' w'" using binding_done_run(2) [OF _ b2] d(1) w' by metis
  moreover obtain st'' where "settled b st'' w'" "sbt_phase st'' = ''Ready'' \<longrightarrow> credentials_bound b w st'' w'"
    using reconcile_ends [OF g assms(3), of sha env] unfolding run_ends_def w' by auto
  ultimately have "credentials_bound b w st'' w'" using d(2) by (auto simp: settled_def)
  then show ?thesis using assms(6,11) w' by (simp add: credentials_bound_def)
qed

section \<open>An example\<close>

text \<open>The project \<open>shop\<close> binds its workload \<open>web\<close> to the database \<open>db\<close> of the project \<open>p\<close>.\<close>

definition foreign_instance :: service_instance where
  "foreign_instance = (sampleInstance None)\<lparr>si_status := sampleInstanceStatus\<lparr>sit_credentialRefs := [\<lparr>nr_name = ''auth'', nr_namespace = ''p-db''\<rparr>]\<rparr>\<rparr>"

definition web_binding :: service_binding where
  "web_binding = \<lparr>sb_meta = sampleMeta ''web'',
     sb_spec = \<lparr>sbs_projectRef = \<lparr>lr_name = ''shop''\<rparr>,
       sbs_sourceRef = \<lparr>tr_apiVersion = '''', tr_kind = ''ServiceInstance'', tr_name = ''db'', tr_namespace = ''''\<rparr>,
       sbs_targetRef = \<lparr>tr_apiVersion = ''apps/v1'', tr_kind = ''Deployment'', tr_name = ''web'', tr_namespace = ''shop''\<rparr>,
       sbs_secretPolicy = \<lparr>sp_deliveryMode = SecretDeliveryModeDirectSecretRef, sp_externalSecretProvider = '''', sp_vault = None\<rparr>\<rparr>,
     sb_status = \<lparr>sbt_observedGeneration = 0, sbt_phase = '''', sbt_conditions = [], sbt_credentialRefs = [],
       sbt_health = \<lparr>hs_summary = ''''\<rparr>\<rparr>\<rparr>"

definition web_pods :: pod_template where
  "web_pods = \<lparr>pt_annotations = [], pt_initContainers = [], pt_containers = [\<lparr>cn_name = ''web'', cn_envFrom = []\<rparr>]\<rparr>"

definition foreign_secret :: secret where
  "foreign_secret = \<lparr>sc_labels = [], sc_annotations = [], sc_type = ''Opaque'', sc_data = [(''password'', ''pw'')]\<rparr>"

definition web_world :: binding_world where
  "web_world = \<lparr>bw_control = empty_control\<lparr>co_projects := [(''shop'', sampleProject)], co_instances := [(''db'', foreign_instance)]\<rparr>,
     bw_bindings = [(''web'', web_binding)],
     bw_objects = [(secretKey ''p-db'' ''auth'', BSecret foreign_secret),
       ((''apps/v1'', ''Deployment'', ''shop'', ''web''), BWorkload web_pods)]\<rparr>"

abbreviation web_run :: "(go_error + reconcile_result) \<times> binding_world" where
  "web_run \<equiv> ServiceBindingReconcile sample_env (\<lambda>_. ''00'') ''web'' web_world"

lemma web_facts:
  "untroubled web_world" "map_of (bw_bindings web_world) ''web'' = Some web_binding" "m_name (sb_meta web_binding) = ''web''"
  "source_of web_binding web_world = Some (foreign_instance, \<lparr>nr_name = ''auth'', nr_namespace = ''p-db''\<rparr>)"
  "target_namespace web_binding foreign_instance = ''shop''" "copies_secret web_binding"
  "bound_workload web_binding ''shop'' = Some (''apps/v1'', ''Deployment'', ''shop'', ''web'')"
  "get_binding ''web'' web_world = (Inr web_binding, web_world)"
  by (simp_all add: untroubled_def web_world_def empty_control_def web_binding_def source_of_def foreign_instance_def
      sampleInstance_def sampleInstanceStatus_def target_namespace_def copies_secret_def bound_workload_def workload_version_def
      get_binding_def bw_read_def bw_fault_def control_fault_def)

lemma web_objects:
  "bound (secretKey ''p-db'' ''auth'') web_world = Some (BSecret foreign_secret)"
  "bound (''apps/v1'', ''Deployment'', ''shop'', ''web'') web_world = Some (BWorkload web_pods)"
  "bound (secretKey ''shop'' ''web-binding'') web_world = None"
  by (simp_all add: bound_def web_world_def)

theorem bindings_cross_projects_witness:
  "fst web_run = Inr done_result \<and> handed_over web_binding \<lparr>nr_name = ''auth'', nr_namespace = ''p-db''\<rparr> ''shop'' (snd web_run)"
proof -
  have "target_there web_binding ''shop'' web_world"
    by (simp add: target_there_def web_facts web_objects) (simp add: web_binding_def)
  then show ?thesis
    using bindings_cross_projects [OF web_facts(1-3) _ _ web_facts(4), of foreign_secret sampleProject sample_env "\<lambda>_. ''00''"]
    by (simp add: web_facts(5,6) web_objects)
      (simp add: web_binding_def web_world_def foreign_instance_def sampleInstance_def)
qed

lemma web_ready: "map_option (\<lambda>b. sbt_phase (sb_status b)) (map_of (bw_bindings (snd web_run)) ''web'') = Some ''Ready''"
  by code_simp

theorem ready_binding_projected_witness:
  "handed_over web_binding \<lparr>nr_name = ''auth'', nr_namespace = ''p-db''\<rparr> ''shop'' (snd web_run)"
proof -
  obtain b' where b': "map_of (bw_bindings (snd web_run)) ''web'' = Some b'" "sbt_phase (sb_status b') = ''Ready''"
    using web_ready by auto
  have "fst web_run = Inr done_result" by code_simp
  then have "web_run = (Inr done_result, snd web_run)" by (metis prod.collapse)
  from ready_binding_projected [OF web_facts(8,3) this b']
  show ?thesis by (simp add: web_facts(4-6))
qed

theorem binding_stays_in_its_objects_witness:
  "bound (secretKey ''p-db'' ''auth'') (snd web_run) = bound (secretKey ''p-db'' ''auth'') web_world"
proof -
  have "\<not> may_touch (\<lambda>_. ''00'') web_binding web_world (secretKey ''p-db'' ''auth'')"
    by (simp add: may_touch_def web_facts binding_objects_def eso_objects_def eso_key_def)
  from binding_stays_in_its_objects [OF web_facts(2,3) this] show ?thesis by blast
qed

end
