(* ===== verification/Target_Cluster.thy ===== *)
theory Target_Cluster
  imports Instance_Controller
begin

text \<open>
  What the controller of cluster targets (\<open>internal/controllers/clustertarget_controller.go\<close>) finds out about a remote
  cluster and writes to it by itself: the operators it has, whether a package is installed and running, and the topology
  labels of its nodes. \<open>client-go\<close>, HTTP, YAML, tar, Helm and the file system of the temporary directory are
  parameters.
\<close>

section \<open>Surroundings\<close>

record rest_config =
  rc_host :: string
  rc_bearerToken :: string
  rc_caData :: string
  rc_certData :: string
  rc_keyData :: string
  rc_insecure :: bool

text \<open>An object of a manifest: what identifies it, and the rest.\<close>

record manifest_object =
  mo_apiVersion :: string
  mo_kind :: string
  mo_namespace :: string
  mo_name :: string
  mo_rest :: uval

datatype tar_type = TarDir | TarReg | TarOther

record tar_entry =
  te_name :: string
  te_type :: tar_type
  te_mode :: int
  te_size :: int
  te_body :: string

text \<open>The temporary directory: its directories and its files with their modes.\<close>

record chart_tree =
  ct_dirs :: "string list"
  ct_files :: "(string, int \<times> string) gomap"

text \<open>
  \<open>tg_restConfig\<close> and \<open>tg_newClient\<close> are \<open>clientcmd\<close> and \<open>client.New\<close>, which names the cluster; \<open>tg_httpGet\<close> gives status and
  body; \<open>tg_documents\<close> what the YAML reader yields before it ends, and its error if it does not end with the input;
  \<open>tg_toJSON\<close> and \<open>tg_unmarshal\<close> decode a document; \<open>tg_apply\<close> is the server's merge of an applied object into what is there;
  \<open>tg_untar\<close> opens an archive; \<open>tg_fs\<close> says which file operations fail, and \<open>tg_made\<close> how much of it a failing one had done (path elements made, bytes copied); \<open>tg_stat\<close> whether a path is a directory; \<open>tg_helm\<close> runs
  Helm, which may change the tree.
\<close>

record target_env =
  tg_controllers :: controller_env
  tg_ArgoCDNamespace :: string
  tg_ArgoCDProject :: string
  tg_restConfig :: "string \<Rightarrow> go_error + rest_config"
  tg_newClient :: "rest_config \<Rightarrow> go_error + string"
  tg_httpGet :: "string \<Rightarrow> go_error + (int \<times> (go_error + string))"
  tg_documents :: "string \<Rightarrow> string list \<times> go_error option"
  tg_toJSON :: "string \<Rightarrow> go_error + string"
  tg_unmarshal :: "string \<Rightarrow> go_error + manifest_object"
  tg_apply :: "kube_object option \<Rightarrow> manifest_object \<Rightarrow> api_error + kube_object"
  tg_mkdirTemp :: "go_error + string"
  tg_untar :: "string \<Rightarrow> go_error + (tar_entry list \<times> go_error option)"
  tg_fs :: "string \<Rightarrow> string \<Rightarrow> chart_tree \<Rightarrow> go_error option"
  tg_made :: "string \<Rightarrow> string \<Rightarrow> chart_tree \<Rightarrow> nat"
  tg_stat :: "chart_tree \<Rightarrow> string \<Rightarrow> go_error + bool"
  tg_helm :: "string list \<Rightarrow> chart_tree \<Rightarrow> (string \<times> go_error option) \<times> chart_tree"

abbreviation target_error :: "target_env \<Rightarrow> go_error \<Rightarrow> string" where
  "target_error env \<equiv> ce_errText (tg_controllers env)"

definition buildTargetClient :: "target_env \<Rightarrow> string \<Rightarrow> go_error + (client \<times> string)" where
  "buildTargetClient env kubeconfig =
     (case tg_restConfig env kubeconfig of
        Inl e \<Rightarrow> Inl (Wrapf ''parsing kubeconfig'' e)
      | Inr config \<Rightarrow>
          (case tg_newClient env config of
             Inl e \<Rightarrow> Inl (Wrapf ''building client'' e)
           | Inr server \<Rightarrow> Inr (Remote server, rc_host config)))"

definition hasClusterConnectionData :: "secret \<Rightarrow> bool" where
  "hasClusterConnectionData sec \<longleftrightarrow> clusterConnectionData sec \<noteq> ''''"

section \<open>Operators\<close>

definition clusterCapabilityValue :: "(string, string) gomap \<Rightarrow> string list \<Rightarrow> string" where
  "clusterCapabilityValue capabilities keys =
     (case filter (\<lambda>k. map_get capabilities k \<noteq> '''') keys of [] \<Rightarrow> '''' | k # _ \<Rightarrow> map_get capabilities k)"

definition operatorInventoryFromCapabilities :: "(string, string) gomap \<Rightarrow> string list" where
  "operatorInventoryFromCapabilities capabilities =
     sort (map (\<lambda>(k, v). drop (length ''operator.'') k)
       (filter (\<lambda>(k, v). hasPrefix k ''operator.'' \<and> \<not> (v = '''' \<or> equalFold v ''false'' \<or> equalFold v ''disabled''))
         capabilities))"

definition mapKeysSorted :: "string list \<Rightarrow> string list" where
  "mapKeysSorted values = sort (remdups values)"

definition clusterHasCRD :: "client \<Rightarrow> string \<Rightarrow> ('g, bool) step" where
  "clusterHasCRD c crdName s =
     (case kube_get c (crdKey crdName) s of
        (Inl e, s) \<Rightarrow> (if e = NotFound \<or> e = NoMatch then Inr False else Inl (ApiError e), s)
      | (Inr _, s) \<Rightarrow> (Inr True, s))"

definition operator_probes :: "(string \<times> string) list" where
  "operator_probes =
     [(''cnpg'', ''clusters.postgresql.cnpg.io''), (''external-secrets'', ''externalsecrets.external-secrets.io''),
      (''yugabyte'', ''ybuniverses.operator.yugabyte.io'')]"

fun probe_operators :: "client \<Rightarrow> (string \<times> string) list \<Rightarrow> string list \<Rightarrow> ('g, string list) step" where
  "probe_operators c [] inventory s = (Inr inventory, s)"
| "probe_operators c ((operatorName, crdName) # probes) inventory s =
     and_then (clusterHasCRD c crdName s) (\<lambda>present s.
       probe_operators c probes (if present then operatorName # inventory else inventory) s)"

definition discoveredOperatorInventory :: "client \<Rightarrow> string list \<Rightarrow> ('g, string list) step" where
  "discoveredOperatorInventory c declared s =
     (let inventory = filter (\<lambda>item. item \<noteq> '''') (map trimSpace declared) in
      and_then (probe_operators c operator_probes inventory s) (\<lambda>inventory s.
        and_then (clusterHasCRD c kubeVirtVirtualMachineCRDName s) (\<lambda>vm s.
          and_then (clusterHasCRD c kubeVirtDataVolumeCRDName s) (\<lambda>dataVolume s.
            (Inr (mapKeysSorted (if vm \<and> dataVolume then kubeVirtServiceClassDriver # inventory else inventory)), s)))))"

section \<open>Workloads of an operator\<close>

fun job_finished :: "(string \<times> string) list \<Rightarrow> bool option" where
  "job_finished [] = None"
| "job_finished ((t, status) # cs) =
     (if t = ''Complete'' \<and> status = ''True'' then Some True
      else if t = ''Failed'' \<and> status = ''True'' then Some False
      else job_finished cs)"

definition jobFinishedSuccessfully :: "job_status \<Rightarrow> bool" where
  "jobFinishedSuccessfully j =
     (case job_finished (jb_conditions j) of
        Some b \<Rightarrow> b
      | None \<Rightarrow> (case jb_completions j of Some n \<Rightarrow> jb_succeeded j \<ge> n | None \<Rightarrow> jb_succeeded j > 0))"

definition replicasOrDefault :: "int option \<Rightarrow> int" where
  "replicasOrDefault replicas = (case replicas of None \<Rightarrow> 1 | Some n \<Rightarrow> n)"

text \<open>One item of the four lists: whether it is as it should be.\<close>

definition workload_ready :: "kube_object \<Rightarrow> bool" where
  "workload_ready x =
     (case x of
        KDeployment replicas available \<Rightarrow> available \<ge> replicasOrDefault replicas
      | KStatefulSet w \<Rightarrow> wl_readyReplicas w \<ge> replicasOrDefault (wl_specReplicas w)
      | KDaemonSet available desired \<Rightarrow> available \<ge> desired
      | KJob j \<Rightarrow> jobFinishedSuccessfully j
      | _ \<Rightarrow> True)"

definition list_workloads :: "client \<Rightarrow> string \<Rightarrow> string \<Rightarrow> string \<Rightarrow> string \<Rightarrow> ('g, kube_object list) step" where
  "list_workloads c apiVersion kind plural namespace s =
     (case kube_list c apiVersion kind namespace (\<lambda>_. True) s of
        (Inl e, s) \<Rightarrow> (Inl (Wrapf (''listing '' @ plural @ '' in namespace '' @ quote namespace) (ApiError e)), s)
      | (Inr items, s) \<Rightarrow> (Inr (map snd items), s))"

definition operatorWorkloadsReady :: "client \<Rightarrow> string \<Rightarrow> ('g, bool) step" where
  "operatorWorkloadsReady c namespace s =
     and_then (list_workloads c ''apps/v1'' ''Deployment'' ''deployments'' namespace s) (\<lambda>deployments s.
     and_then (list_workloads c ''apps/v1'' ''StatefulSet'' ''statefulsets'' namespace s) (\<lambda>statefulSets s.
     and_then (list_workloads c ''apps/v1'' ''DaemonSet'' ''daemonsets'' namespace s) (\<lambda>daemonSets s.
     and_then (list_workloads c ''batch/v1'' ''Job'' ''jobs'' namespace s) (\<lambda>jobs s.
       (Inr (length deployments + length statefulSets + length daemonSets \<noteq> 0 \<and>
          list_all workload_ready (deployments @ statefulSets @ daemonSets @ jobs)), s)))))"

section \<open>Probing a package\<close>

fun crds_present :: "client \<Rightarrow> operator_probe list \<Rightarrow> ('g, bool) step" where
  "crds_present c [] s = (Inr True, s)"
| "crds_present c (probe # probes) s =
     (case kube_get c (crdKey (opr_crd probe)) s of
        (Inl e, s) \<Rightarrow>
          (if e = NotFound then Inr False else Inl (Wrapf (''probing CRD '' @ quote (opr_crd probe)) (ApiError e)), s)
      | (Inr _, s) \<Rightarrow> crds_present c probes s)"

definition probe_namespace :: "client \<Rightarrow> string \<Rightarrow> ('g, bool) step" where
  "probe_namespace c namespace s =
     (if namespace = '''' then (Inr True, s)
      else (case kube_get c (namespaceKey namespace) s of
          (Inl e, s) \<Rightarrow>
            (if e = NotFound then Inr False else Inl (Wrapf (''probing namespace '' @ quote namespace) (ApiError e)), s)
        | (Inr _, s) \<Rightarrow> (Inr True, s)))"

definition probePackage :: "client \<Rightarrow> operator_package \<Rightarrow> ('g, bool) step" where
  "probePackage c pkg s =
     (let namespace = op_targetNamespace (opk_spec pkg) in
      and_then (probe_namespace c namespace s) (\<lambda>there s.
        if \<not> there then (Inr False, s)
        else and_then (crds_present c (op_probes (opk_spec pkg)) s) (\<lambda>present s.
          if \<not> present then (Inr False, s)
          else if namespace = '''' then (Inr True, s)
          else operatorWorkloadsReady c namespace s)))"

section \<open>Topology labels\<close>

text \<open>The labels of one node; a label that is there is kept.\<close>

definition topology_labels :: "string \<Rightarrow> string \<Rightarrow> (string, string) gomap \<Rightarrow> (string, string) gomap" where
  "topology_labels region zone labels0 =
     (let fill = (\<lambda>k v labels. if map_get labels k = '''' then map_set k v labels else labels);
          labels = fill ''topology.kubernetes.io/region'' region labels0;
          labels = fill ''failure-domain.beta.kubernetes.io/region'' (map_get labels ''topology.kubernetes.io/region'') labels;
          labels = fill ''topology.kubernetes.io/zone'' zone labels in
      fill ''failure-domain.beta.kubernetes.io/zone'' (map_get labels ''topology.kubernetes.io/zone'') labels)"

definition lacks_topology :: "(string, string) gomap \<Rightarrow> bool" where
  "lacks_topology labels \<longleftrightarrow>
     list_ex (\<lambda>k. map_get labels k = '''')
       [''topology.kubernetes.io/region'', ''failure-domain.beta.kubernetes.io/region'',
        ''topology.kubernetes.io/zone'', ''failure-domain.beta.kubernetes.io/zone'']"

fun label_nodes :: "client \<Rightarrow> string \<Rightarrow> string \<Rightarrow> (string \<times> kube_object) list \<Rightarrow> ('g, unit) step" where
  "label_nodes c region zone [] s = (Inr (), s)"
| "label_nodes c region zone ((name, x) # nodes) s =
     (case x of
        KNode labels \<Rightarrow>
          if \<not> lacks_topology labels then label_nodes c region zone nodes s
          else (case kube_update c (''v1'', ''Node'', '''', name) (KNode (topology_labels region zone labels)) s of
              (Inl e, s) \<Rightarrow> (Inl (Wrapf (''updating topology labels on node '' @ quote name) (ApiError e)), s)
            | (Inr _, s) \<Rightarrow> label_nodes c region zone nodes s)
      | _ \<Rightarrow> label_nodes c region zone nodes s)"

definition target_region :: "cluster_target \<Rightarrow> string" where
  "target_region target =
     (let capability = map_get (cts_capabilities (ctg_spec target)) in
      firstNonEmptyTrimmed [capability ''topology.kubernetes.io/region'', capability ''failure-domain.beta.kubernetes.io/region'',
        cts_region (ctg_spec target), m_name (ctg_meta target)])"

definition target_zone :: "cluster_target \<Rightarrow> string" where
  "target_zone target =
     (let capability = map_get (cts_capabilities (ctg_spec target));
          zone = firstNonEmptyTrimmed [capability ''topology.kubernetes.io/zone'',
            capability ''failure-domain.beta.kubernetes.io/zone'', capability ''zone''] in
      if zone = '''' then target_region target @ ''-a'' else zone)"

definition ensureClusterTopologyLabels :: "client \<Rightarrow> cluster_target \<Rightarrow> ('g, unit) step" where
  "ensureClusterTopologyLabels c target s =
     (case kube_list c ''v1'' ''Node'' '''' (\<lambda>_. True) s of
        (Inl e, s) \<Rightarrow> (Inl (Wrapf ''listing target cluster nodes for topology labels'' (ApiError e)), s)
      | (Inr nodes, s) \<Rightarrow> label_nodes c (target_region target) (target_zone target) nodes s)"

end
