(* ===== verification/Target_Install.thy ===== *)
theory Target_Install
  imports Target_Cluster
begin

text \<open>
  How the controller of cluster targets installs a package by itself (\<open>installPackageDirect\<close> and everything under it in
  \<open>internal/controllers/clustertarget_controller.go\<close>): it fetches a manifest and applies its documents, or fetches a chart,
  unpacks it below a temporary directory, renders it with Helm and applies what comes out.
\<close>

section \<open>Applying manifests\<close>

text \<open>\<open>Patch\<close> with \<open>client.Apply\<close>: the server merges the object into what is there.\<close>

definition kube_apply :: "target_env \<Rightarrow> client \<Rightarrow> manifest_object \<Rightarrow> ('g, unit) call" where
  "kube_apply env c m s =
     (let k = (mo_apiVersion m, mo_kind m, mo_namespace m, mo_name m);
          effect = (\<lambda>s. case tg_apply env (find_object c k s) m of
             Inl e \<Rightarrow> (Inl e, s)
           | Inr x \<Rightarrow> (Inr (), set_objects c (AList.update k x (ku_objects (st_kube s c))) s)) in
      case kube_fault c s of
        (Refused e, s) \<Rightarrow> (Inl e, s)
      | (Lost e, s) \<Rightarrow> (Inl e, snd (effect s))
      | (Works, s) \<Rightarrow> effect s)"

definition api_group :: "string \<Rightarrow> string" where
  "api_group apiVersion = (case split_on CHR ''/'' apiVersion of [g, v] \<Rightarrow> g | _ \<Rightarrow> '''')"

definition shouldDefaultObjectNamespace :: "manifest_object \<Rightarrow> bool" where
  "shouldDefaultObjectNamespace m \<longleftrightarrow>
     mo_kind m \<noteq> ''Namespace'' \<and>
     (api_group (mo_apiVersion m) \<in>
        {''apiextensions.k8s.io'', ''admissionregistration.k8s.io'', ''apiregistration.k8s.io'',
         ''rbac.authorization.k8s.io'', ''storage.k8s.io'', ''scheduling.k8s.io''} \<longrightarrow>
      mo_kind m \<in> {''Role'', ''RoleBinding''})"

definition normalizeManifestObject :: "manifest_object \<Rightarrow> manifest_object" where
  "normalizeManifestObject m =
     (if mo_kind m = ''PodDisruptionBudget'' \<and> mo_apiVersion m = ''policy/v1beta1''
      then m\<lparr>mo_apiVersion := ''policy/v1''\<rparr> else m)"

text \<open>The object a document stands for, if it stands for one.\<close>

definition document_object :: "target_env \<Rightarrow> string \<Rightarrow> string \<Rightarrow> manifest_object option" where
  "document_object env defaultNamespace doc =
     (if trimSpace doc = '''' then None
      else (case tg_toJSON env (trimSpace doc) of
          Inl _ \<Rightarrow> None
        | Inr text \<Rightarrow>
            if text = ''null'' then None
            else (case tg_unmarshal env text of
                Inl _ \<Rightarrow> None
              | Inr m \<Rightarrow>
                  if mo_kind m = '''' \<or> mo_apiVersion m = '''' then None
                  else (let m = normalizeManifestObject m in
                        Some (if shouldDefaultObjectNamespace m \<and> defaultNamespace \<noteq> ''''
                              then m\<lparr>mo_namespace := defaultNamespace\<rparr> else m)))))"

text \<open>Every document is applied; the error is that of the last one that failed.\<close>

fun apply_documents :: "target_env \<Rightarrow> client \<Rightarrow> string \<Rightarrow> string list \<Rightarrow> go_error option \<Rightarrow> 'g site \<Rightarrow> go_error option \<times> 'g site" where
  "apply_documents env c defaultNamespace [] applyErr s = (applyErr, s)"
| "apply_documents env c defaultNamespace (doc # docs) applyErr s =
     (case document_object env defaultNamespace doc of
        None \<Rightarrow> apply_documents env c defaultNamespace docs applyErr s
      | Some m \<Rightarrow>
          (case kube_apply env c m s of
             (Inl e, s) \<Rightarrow>
               apply_documents env c defaultNamespace docs
                 (Some (Wrapf (''applying '' @ mo_kind m @ '' '' @ mo_namespace m @ ''/'' @ mo_name m) (ApiError e))) s
           | (Inr _, s) \<Rightarrow> apply_documents env c defaultNamespace docs applyErr s))"

definition applyManifestBytes :: "target_env \<Rightarrow> client \<Rightarrow> string \<Rightarrow> string \<Rightarrow> ('g, unit) step" where
  "applyManifestBytes env c body defaultNamespace s =
     (case tg_documents env body of (docs, readErr) \<Rightarrow>
        (case apply_documents env c defaultNamespace docs None s of (applyErr, s) \<Rightarrow>
           (case readErr of
              Some e \<Rightarrow> (Inl (Wrapf ''parsing manifest'' e), s)
            | None \<Rightarrow> (case applyErr of Some e \<Rightarrow> (Inl e, s) | None \<Rightarrow> (Inr (), s)))))"

definition fetchURLBytes :: "target_env \<Rightarrow> string \<Rightarrow> go_error + string" where
  "fetchURLBytes env url =
     (case tg_httpGet env url of
        Inl e \<Rightarrow> Inl (Wrapf (''fetching '' @ url) e)
      | Inr (status, body) \<Rightarrow>
          if status \<noteq> 200 then Inl (Errorf (''fetching '' @ url @ '': HTTP '' @ show_int status))
          else (case body of Inl e \<Rightarrow> Inl (Wrapf (''reading '' @ url) e) | Inr text \<Rightarrow> Inr text))"

section \<open>Unpacking charts\<close>

abbreviation maxExtractedChartFileBytes :: int where "maxExtractedChartFileBytes \<equiv> 67108864"
abbreviation MaxUint32 :: int where "MaxUint32 \<equiv> 4294967295"

definition chartArchivePath :: "string \<Rightarrow> go_error + string" where
  "chartArchivePath name =
     (let cleanName = path_clean name in
      if hasPrefix cleanName ''/'' \<or> cleanName = ''.'' \<or> cleanName = ''..'' \<or> hasPrefix cleanName ''../''
      then Inl (Errorf (''chart archive contains invalid path '' @ quote name))
      else Inr cleanName)"

definition chartFileMode :: "int \<Rightarrow> go_error + int" where
  "chartFileMode mode =
     (if mode < 0 \<or> mode > MaxUint32 then Inl (Errorf (''chart archive contains invalid file mode '' @ show_int mode))
      else Inr mode)"

definition fs_op :: "target_env \<Rightarrow> string \<Rightarrow> string \<Rightarrow> string \<Rightarrow> chart_tree \<Rightarrow> go_error + unit" where
  "fs_op env op message path t = (case tg_fs env op path t of None \<Rightarrow> Inr () | Some e \<Rightarrow> Inl (Wrapf message e))"

text \<open>
  Unpacking changes the directory as it goes, and what it has made stays when it fails: its steps
  return the error, if there is one, and the tree that is on disk then.
\<close>

type_synonym unpacked = "go_error option \<times> chart_tree"

definition add_dir :: "string \<Rightarrow> chart_tree \<Rightarrow> chart_tree" where
  "add_dir path t = (if path \<in> {'''', ''.''} then t else t\<lparr>ct_dirs := path # ct_dirs t\<rparr>)"

text \<open>\<open>root.MkdirAll\<close>: a failing call may have made the first directories of the path.\<close>

definition make_dirs :: "target_env \<Rightarrow> string \<Rightarrow> string \<Rightarrow> chart_tree \<Rightarrow> unpacked" where
  "make_dirs env message path t =
     (case tg_fs env ''mkdir'' path t of
        None \<Rightarrow> (None, add_dir path t)
      | Some e \<Rightarrow> (Some (Wrapf message e),
          add_dir (join ''/'' (take (tg_made env ''mkdir'' path t) (split_on CHR ''/'' path))) t))"

text \<open>The file at \<open>path\<close> with these bytes; a file that is there keeps its mode.\<close>

definition put_file :: "string \<Rightarrow> int \<Rightarrow> string \<Rightarrow> chart_tree \<Rightarrow> chart_tree" where
  "put_file path mode body t =
     (let mode = (case map_of (ct_files t) path of None \<Rightarrow> mode | Some (m, _) \<Rightarrow> m)
      in t\<lparr>ct_files := AList.update path (mode, body) (ct_files t)\<rparr>)"

definition copy_failed :: "target_env \<Rightarrow> string \<Rightarrow> go_error \<Rightarrow> chart_tree \<Rightarrow> unpacked" where
  "copy_failed env path e t =
     (Some (case tg_fs env ''close'' path t of
        None \<Rightarrow> Wrapf ''writing chart file'' e
      | Some ce \<Rightarrow> Errorf (''writing chart file: '' @ target_error env e @ '' (close error: '' @ target_error env ce @ '')'')), t)"

text \<open>From \<open>OpenFile\<close> to \<open>Close\<close>; the checks of the size come after the file was made or truncated.\<close>

definition write_entry :: "target_env \<Rightarrow> tar_entry \<Rightarrow> string \<Rightarrow> int \<Rightarrow> chart_tree \<Rightarrow> unpacked" where
  "write_entry env e path mode t =
     (let body = take (nat (te_size e)) (te_body e);
          put = (\<lambda>bytes. put_file path mode bytes t) in
      case fs_op env ''open'' ''creating chart file'' path t of
        Inl err \<Rightarrow> (Some err, t)
      | Inr _ \<Rightarrow>
          if te_size e < 0
          then (Some (Errorf (''chart archive contains negative file size for '' @ quote (te_name e))), put '''')
          else if te_size e > maxExtractedChartFileBytes
          then (Some (Errorf (''chart archive file '' @ quote (te_name e) @ '' exceeds maximum allowed size'')), put '''')
          else (case tg_fs env ''copy'' path (put '''') of
              Some err \<Rightarrow> copy_failed env path err (put (take (tg_made env ''copy'' path (put '''')) body))
            | None \<Rightarrow>
                if int (length body) < te_size e then copy_failed env path (Errorf ''EOF'') (put body)
                else (case fs_op env ''close'' ''closing chart file'' path (put body) of
                    Inl err \<Rightarrow> (Some err, put body)
                  | Inr _ \<Rightarrow> (None, put body))))"

definition extract_entry :: "target_env \<Rightarrow> tar_entry \<Rightarrow> chart_tree \<Rightarrow> unpacked" where
  "extract_entry env e t =
     (case chartArchivePath (te_name e) of
        Inl err \<Rightarrow> (Some err, t)
      | Inr path \<Rightarrow>
          (case te_type e of
             TarDir \<Rightarrow> make_dirs env ''creating chart directory'' path t
           | TarReg \<Rightarrow>
               (case make_dirs env ''creating chart parent directory'' (path_dir path) t of
                  (Some err, t) \<Rightarrow> (Some err, t)
                | (None, t) \<Rightarrow>
                    (case chartFileMode (te_mode e) of
                       Inl err \<Rightarrow> (Some err, t)
                     | Inr mode \<Rightarrow> write_entry env e path mode t))
           | TarOther \<Rightarrow> (None, t)))"

fun extract_entries :: "target_env \<Rightarrow> tar_entry list \<Rightarrow> chart_tree \<Rightarrow> unpacked" where
  "extract_entries env [] t = (None, t)"
| "extract_entries env (e # es) t =
     (case extract_entry env e t of (Some err, t) \<Rightarrow> (Some err, t) | (None, t) \<Rightarrow> extract_entries env es t)"

definition extractTarGz :: "target_env \<Rightarrow> string \<Rightarrow> string \<Rightarrow> unpacked" where
  "extractTarGz env destDir data =
     (let empty = \<lparr>ct_dirs = [], ct_files = []\<rparr> in
      case fs_op env ''root'' ''opening chart destination'' destDir empty of
        Inl err \<Rightarrow> (Some err, empty)
      | Inr _ \<Rightarrow>
          (case tg_untar env data of
             Inl e \<Rightarrow> (Some (Wrapf ''opening chart archive'' e), empty)
           | Inr (entries, readErr) \<Rightarrow>
               (case extract_entries env entries empty of
                  (Some err, t) \<Rightarrow> (Some err, t)
                | (None, t) \<Rightarrow> (map_option (Wrapf ''reading chart archive'') readErr, t))))"

text \<open>\<open>os.ReadDir\<close> of the directory itself: the first elements of all paths, in order.\<close>

definition top_entries :: "chart_tree \<Rightarrow> string list" where
  "top_entries t = sort (remdups (map (\<lambda>p. hd (split_on CHR ''/'' p)) (ct_dirs t @ map fst (ct_files t))))"

definition resolveExtractedChartPath :: "target_env \<Rightarrow> string \<Rightarrow> string \<Rightarrow> chart_tree \<Rightarrow> go_error + string" where
  "resolveExtractedChartPath env workdir chartPath t =
     bind_sum (fs_op env ''readdir'' ''reading chart workdir'' workdir t) (\<lambda>_.
       (case top_entries t of
          [] \<Rightarrow> Inl (Errorf ''chart archive did not extract any files'')
        | entry # _ \<Rightarrow>
            (let fullPath = path_join [path_join [workdir, entry], chartPath] in
             case tg_stat env t fullPath of
               Inl e \<Rightarrow> Inl (Wrapf (''resolving chart path '' @ quote chartPath) e)
             | Inr isDir \<Rightarrow>
                 if isDir then Inr fullPath
                 else Inl (Errorf (''chart path '' @ quote chartPath @ '' is not a directory'')))))"

section \<open>Installing\<close>

definition helm_failed :: "target_env \<Rightarrow> string \<Rightarrow> string \<Rightarrow> go_error \<Rightarrow> go_error" where
  "helm_failed env what output e = Errorf (what @ '' failed: '' @ target_error env e @ '': '' @ trimSpace output)"

definition ensureHelmChartDependencies :: "target_env \<Rightarrow> string \<Rightarrow> chart_tree \<Rightarrow> go_error + chart_tree" where
  "ensureHelmChartDependencies env chartPath t =
     (case tg_helm env [''dependency'', ''build'', chartPath] t of
        ((output, Some e), t) \<Rightarrow> Inl (helm_failed env ''helm dependency build'' output e)
      | ((output, None), t) \<Rightarrow> Inr t)"

definition ensureTargetNamespace :: "target_env \<Rightarrow> client \<Rightarrow> string \<Rightarrow> ('g, unit) step" where
  "ensureTargetNamespace env c namespace s =
     (case kube_apply env c \<lparr>mo_apiVersion = ''v1'', mo_kind = ''Namespace'', mo_namespace = '''', mo_name = namespace, mo_rest = UNull\<rparr> s of
        (Inl e, s) \<Rightarrow> (Inl (Wrapf (''ensuring target namespace '' @ quote namespace) (ApiError e)), s)
      | (Inr _, s) \<Rightarrow> (Inr (), s))"

definition helm_arguments :: "operator_package \<Rightarrow> string \<Rightarrow> string \<Rightarrow> string list" where
  "helm_arguments pkg chartPath targetNamespace =
     (let values = ops_helmValues (op_source (opk_spec pkg)) in
      [''template'', m_name (opk_meta pkg), chartPath, ''--namespace'', targetNamespace, ''--include-crds''] @
      concat (map (\<lambda>key. [''--set'', key @ ''='' @ map_get values key]) (sort (map fst values))))"

definition package_namespace :: "operator_package \<Rightarrow> string" where
  "package_namespace pkg = firstNonEmptyTrimmed [op_targetNamespace (opk_spec pkg), ''operators'']"

text \<open>The chart on disk, ready to be rendered: its path and the tree.\<close>

definition prepare_chart :: "target_env \<Rightarrow> operator_package \<Rightarrow> go_error + (string \<times> chart_tree)" where
  "prepare_chart env pkg =
     bind_sum (fetchURLBytes env (ops_chartArchiveURL (op_source (opk_spec pkg)))) (\<lambda>archiveBytes.
       (case tg_mkdirTemp env of
          Inl e \<Rightarrow> Inl (Wrapf ''creating helm workdir'' e)
        | Inr workdir \<Rightarrow>
            (case extractTarGz env workdir archiveBytes of
               (Some e, _) \<Rightarrow> Inl e
             | (None, t) \<Rightarrow>
                 bind_sum (resolveExtractedChartPath env workdir (ops_chartPath (op_source (opk_spec pkg))) t) (\<lambda>chartPath.
                 bind_sum (ensureHelmChartDependencies env chartPath t) (\<lambda>t. Inr (chartPath, t))))))"

definition installPackageHelmChart :: "target_env \<Rightarrow> client \<Rightarrow> operator_package \<Rightarrow> ('g, unit) step" where
  "installPackageHelmChart env c pkg s =
     (case prepare_chart env pkg of
        Inl e \<Rightarrow> (Inl e, s)
      | Inr (chartPath, t) \<Rightarrow>
          (let namespace = package_namespace pkg in
           and_then (if namespace = '''' then (Inr (), s) else ensureTargetNamespace env c namespace s) (\<lambda>_ s.
             (case tg_helm env (helm_arguments pkg chartPath namespace) t of
                ((output, Some e), _) \<Rightarrow> (Inl (helm_failed env ''helm template'' output e), s)
              | ((output, None), _) \<Rightarrow>
                  (case applyManifestBytes env c output namespace s of
                     (Inl e, s) \<Rightarrow> (Inl (Wrapf ''applying rendered helm chart'' e), s)
                   | (Inr _, s) \<Rightarrow> (Inr (), s))))))"

definition installPackageDirect :: "target_env \<Rightarrow> client \<Rightarrow> operator_package \<Rightarrow> ('g, unit) step" where
  "installPackageDirect env c pkg s =
     (let source = op_source (opk_spec pkg); namespace = package_namespace pkg in
      and_then (if namespace = '''' then (Inr (), s) else ensureTargetNamespace env c namespace s) (\<lambda>_ s.
      and_then
        (if ops_manifestURL source = '''' then (Inr (), s)
         else (case fetchURLBytes env (ops_manifestURL source) of
             Inl e \<Rightarrow> (Inl e, s) | Inr body \<Rightarrow> applyManifestBytes env c body namespace s)) (\<lambda>_ s.
        if ops_chartArchiveURL source = '''' then (Inr (), s) else installPackageHelmChart env c pkg s)))"

end
