(* ===== verification/Target_Controller.thy ===== *)
theory Target_Controller
  imports Target_Install
begin

text \<open>
  \<open>ClusterTargetReconciler\<close> of \<open>internal/controllers/clustertarget_controller.go\<close>: packages of a target, its registration with
  Argo CD, and \<open>Reconcile\<close>. The clock is read once per run.
\<close>

section \<open>Argo CD\<close>

definition target_argo_namespace :: "target_env \<Rightarrow> string" where
  "target_argo_namespace env = (if tg_ArgoCDNamespace env \<noteq> '''' then tg_ArgoCDNamespace env else ''argocd'')"

definition target_argo_project :: "target_env \<Rightarrow> string" where
  "target_argo_project env = (if tg_ArgoCDProject env \<noteq> '''' then tg_ArgoCDProject env else ''default'')"

text \<open>\<open>encoding/json\<close> writes bytes in the standard encoding of base 64.\<close>

definition base64_digit :: "nat \<Rightarrow> char" where
  "base64_digit n =
     (if n < 26 then char_of (65 + n) else if n < 52 then char_of (71 + n)
      else if n < 62 then char_of (n - 4) else if n = 62 then CHR ''+'' else CHR ''/'')"

fun base64_bytes :: "nat list \<Rightarrow> string" where
  "base64_bytes [] = ''''"
| "base64_bytes [a] = [base64_digit (a div 4), base64_digit ((a mod 4) * 16), CHR ''='', CHR ''='']"
| "base64_bytes [a, b] =
     [base64_digit (a div 4), base64_digit ((a mod 4) * 16 + b div 16), base64_digit ((b mod 16) * 4), CHR ''='']"
| "base64_bytes (a # b # c # r) =
     [base64_digit (a div 4), base64_digit ((a mod 4) * 16 + b div 16), base64_digit ((b mod 16) * 4 + c div 64),
      base64_digit (c mod 64)] @ base64_bytes r"

definition base64 :: "string \<Rightarrow> string" where
  "base64 s = base64_bytes (map of_char s)"

definition argo_cluster_config :: "rest_config \<Rightarrow> string" where
  "argo_cluster_config c =
     (let bytes = (\<lambda>k v. if v = '''' then [] else [(k, JStr (base64 v))]) in
      json_encode (JObj
        ((if rc_bearerToken c = '''' then [] else [(''bearerToken'', JStr (rc_bearerToken c))]) @
         [(''tlsClientConfig'', JObj (bytes ''caData'' (rc_caData c) @ bytes ''certData'' (rc_certData c) @
            bytes ''keyData'' (rc_keyData c) @ (if rc_insecure c then [(''insecure'', JBool True)] else [])))])))"

definition argo_cluster_secret_name :: "string \<Rightarrow> string" where
  "argo_cluster_secret_name name = ''cluster-'' @ map (\<lambda>c. if c = CHR ''.'' \<or> c = CHR ''/'' then CHR ''-'' else c) name"

text \<open>The server moves \<open>stringData\<close> into the data of a Secret that is written, and a Secret without a type is opaque.\<close>

definition ensureArgoCDClusterSecret :: "target_env \<Rightarrow> cluster_target \<Rightarrow> string \<Rightarrow> string \<Rightarrow> ('g, unit) step" where
  "ensureArgoCDClusterSecret env target kubeconfig serverURL s =
     (let namespace = target_argo_namespace env; name = m_name (ctg_meta target) in
      case kube_get Management (namespaceKey namespace) s of
        (Inl e, s) \<Rightarrow> (Inl (Errorf (''ArgoCD namespace '' @ quote namespace @ '' not found'')), s)
      | (Inr _, s) \<Rightarrow>
          (case tg_restConfig env kubeconfig of
             Inl e \<Rightarrow> (Inl (Wrapf ''parsing kubeconfig'' e), s)
           | Inr config \<Rightarrow>
               (let secretName = argo_cluster_secret_name name;
                    labels = [(''argocd.argoproj.io/secret-type'', ''cluster''), (''servicer.io/managed-by'', ''servicer''),
                      (''servicer.io/cluster-target'', name)];
                    stringData = [(''name'', name), (''server'', serverURL), (''config'', argo_cluster_config config)] in
                if_found (get_secret_at Management namespace secretName s)
                  (\<lambda>existing s. pass (kube_update Management (secretKey namespace secretName)
                     (KSecret (existing\<lparr>sc_data := map_set_all stringData (sc_data existing),
                        sc_labels := mergeStringMaps (sc_labels existing) labels\<rparr>)) s))
                  (\<lambda>s. pass (kube_create Management (secretKey namespace secretName)
                     (KSecret \<lparr>sc_labels = labels, sc_annotations = [], sc_type = ''Opaque'', sc_data = stringData\<rparr>) s)))))"

definition package_application :: "target_env \<Rightarrow> cluster_target \<Rightarrow> operator_package \<Rightarrow> uval" where
  "package_application env target pkg =
     (let source = op_source (opk_spec pkg);
          revision = (if ops_targetRevision source = '''' then ''HEAD'' else ops_targetRevision source);
          targetNS = (if op_targetNamespace (opk_spec pkg) = '''' then ''operators'' else op_targetNamespace (opk_spec pkg)) in
      UMap [(''project'', UStr (target_argo_project env)),
        (''source'', UMap [(''repoURL'', UStr (ops_repoURL source)), (''targetRevision'', UStr revision),
           (''path'', UStr (ops_path source)), (''directory'', UMap [(''recurse'', UBool True)])]),
        (''destination'', UMap [(''name'', UStr (m_name (ctg_meta target))), (''namespace'', UStr targetNS)]),
        (''syncPolicy'', UMap [(''automated'', UMap [(''prune'', UBool True), (''selfHeal'', UBool True)]),
           (''syncOptions'', UArr [UStr ''CreateNamespace=true'', UStr ''ServerSideApply=true''])])])"

text \<open>The name of the application, empty where there is no Argo CD.\<close>

definition ensurePackageArgoApp :: "target_env \<Rightarrow> cluster_target \<Rightarrow> operator_package \<Rightarrow> ('g, string) step" where
  "ensurePackageArgoApp env target pkg s =
     (let namespace = target_argo_namespace env;
          appName = ''operator-'' @ m_name (ctg_meta target) @ ''-'' @ m_name (opk_meta pkg);
          labels = [(''servicer.io/managed-by'', ''servicer''), (''servicer.io/operator-pkg'', m_name (opk_meta pkg)),
            (''servicer.io/cluster-target'', m_name (ctg_meta target))];
          spec = package_application env target pkg;
          key = argoKey ''Application'' namespace appName in
      if_found (kube_get Management (crdKey ''applications.argoproj.io'') s)
        (\<lambda>_ s. if_found (kube_get Management key s)
           (\<lambda>existing s. and_then (pass (kube_update Management key (replaced_spec existing labels spec) s))
              (\<lambda>_ s. (Inr appName, s)))
           (\<lambda>s. and_then (pass (kube_create Management key (desired_object labels spec) s)) (\<lambda>_ s. (Inr appName, s))))
        (\<lambda>s. (Inr '''', s)))"

section \<open>Packages\<close>

abbreviation PackagePhaseMissing :: string where "PackagePhaseMissing \<equiv> ''Missing''"
abbreviation PackagePhaseDeploying :: string where "PackagePhaseDeploying \<equiv> ''Deploying''"
abbreviation PackagePhaseError :: string where "PackagePhaseError \<equiv> ''Error''"

definition installed_message :: string where
  "installed_message = ''All CRD probes passed.''"

text \<open>What becomes of a package that is in the catalogue: phase, message and application.\<close>

definition direct_source :: "operator_package \<Rightarrow> bool" where
  "direct_source pkg \<longleftrightarrow>
     ops_manifestURL (op_source (opk_spec pkg)) \<noteq> '''' \<or> ops_chartArchiveURL (op_source (opk_spec pkg)) \<noteq> ''''"

definition install_direct :: "target_env \<Rightarrow> client \<Rightarrow> operator_package \<Rightarrow> 'g site \<Rightarrow> (string \<times> string \<times> string) \<times> 'g site" where
  "install_direct env c pkg s =
     (case installPackageDirect env c pkg s of
        (Inl e, s) \<Rightarrow> ((PackagePhaseError, ''Direct install failed: '' @ target_error env e, ''''), s)
      | (Inr _, s) \<Rightarrow>
          (case probePackage c pkg s of (installed, s) \<Rightarrow>
             (if installed = Inr True then (PackagePhaseInstalled, installed_message, '''')
              else (PackagePhaseDeploying, ''Direct install applied; waiting for operator to become ready.'', ''''), s)))"

definition install_by_argo ::
  "target_env \<Rightarrow> cluster_target \<Rightarrow> operator_package \<Rightarrow> 'g site \<Rightarrow> (string \<times> string \<times> string) \<times> 'g site" where
  "install_by_argo env target pkg s =
     (case ensurePackageArgoApp env target pkg s of
        (Inl e, s) \<Rightarrow>
          ((PackagePhaseMissing, ''Not installed; ArgoCD Application could not be created: '' @ target_error env e, ''''), s)
      | (Inr appName, s) \<Rightarrow>
          (if appName = ''''
           then (PackagePhaseMissing, ''Not installed; no manifestURL configured and ArgoCD is not available.'', '''')
           else (PackagePhaseDeploying,
             ''ArgoCD Application '' @ quote appName @ '' created; waiting for CRD probes to pass.'', appName), s))"

definition package_outcome ::
  "target_env \<Rightarrow> cluster_target \<Rightarrow> client \<Rightarrow> operator_package \<Rightarrow> 'g site \<Rightarrow> (string \<times> string \<times> string) \<times> 'g site" where
  "package_outcome env target c pkg s =
     (case probePackage c pkg s of
        (Inl e, s) \<Rightarrow> ((PackagePhaseError, ''Probe error: '' @ target_error env e, ''''), s)
      | (Inr installed, s) \<Rightarrow>
          if installed then ((PackagePhaseInstalled, installed_message, ''''), s)
          else if direct_source pkg then install_direct env c pkg s
          else install_by_argo env target pkg s)"

fun reconcilePackages ::
  "target_env \<Rightarrow> cluster_target \<Rightarrow> client \<Rightarrow> string list \<Rightarrow> ('g, package_status list) step" where
  "reconcilePackages env target c [] s = (Inr [], s)"
| "reconcilePackages env target c (pkgName # names) s =
     (case on_control (get_obj operatorPackages pkgName) s of
        (Inl e, s) \<Rightarrow>
          if e = NotFound then
            and_then (reconcilePackages env target c names s) (\<lambda>statuses s.
              (Inr (\<lparr>ps_name = pkgName, ps_phase = PackagePhaseError,
                 ps_message = ''OperatorPackage '' @ quote pkgName @ '' not found in catalog.'', ps_argoAppName = '''',
                 ps_lastProbeTime = None\<rparr> # statuses), s))
          else (Inl (ApiError e), s)
      | (Inr pkg, s) \<Rightarrow>
          (case package_outcome env target c pkg s of ((phase, message, app), s) \<Rightarrow>
             and_then (reconcilePackages env target c names s) (\<lambda>statuses s.
               (Inr (\<lparr>ps_name = pkgName, ps_phase = phase, ps_message = message, ps_argoAppName = app,
                  ps_lastProbeTime = Some (ce_now (tg_controllers env))\<rparr> # statuses), s))))"

section \<open>Reconcile\<close>

text \<open>The status that a run makes, beside its conditions, and the conditions as two views of one array.\<close>

definition target_done ::
  "cluster_target \<Rightarrow> cluster_target_status \<Rightarrow> slices \<Rightarrow> ('g, reconcile_result) step" where
  "target_done target status v s =
     (let original = (ctg_status target)\<lparr>ctt_conditions := sl_then v\<rparr>; status = status\<lparr>ctt_conditions := sl_now v\<rparr> in
      if original = status then (Inr requeue_30, s)
      else and_then (pass (on_control (change_obj clusterTargets (m_name (ctg_meta target)) (ctg_status_update (\<lambda>_. status))) s))
             (\<lambda>_ s. (Inr requeue_30, s)))"

definition target_conds :: "target_env \<Rightarrow> cluster_target \<Rightarrow> (string \<times> string \<times> string \<times> string) list \<Rightarrow> slices" where
  "target_conds env target cs =
     conds (tg_controllers env) (m_generation (ctg_meta target))
       ((''Accepted'', ConditionTrue, ''ValidationSucceeded'', ''Cluster target accepted for reconciliation.'') # cs)
       (copied (ce_room (tg_controllers env)) (ctt_conditions (ctg_status target)))"

definition target_start :: "cluster_target \<Rightarrow> cluster_target_status" where
  "target_start target =
     (ctg_status target)\<lparr>ctt_observedGeneration := m_generation (ctg_meta target),
       ctt_operatorInventory := operatorInventoryFromCapabilities (cts_capabilities (ctg_spec target)),
       ctt_kubernetesVersion :=
         clusterCapabilityValue (cts_capabilities (ctg_spec target)) [''kubernetesVersion'', ''kubernetes-version'']\<rparr>"

definition pending_credentials :: "target_env \<Rightarrow> cluster_target \<Rightarrow> string \<Rightarrow> string \<Rightarrow> ('g, reconcile_result) step" where
  "pending_credentials env target message why =
     target_done target
       ((target_start target)\<lparr>ctt_phase := ''PendingCredentials'', ctt_reachable := False, ctt_lastValidatedAt := None\<rparr>)
       (target_conds env target
         [(''Ready'', ConditionFalse, ''CredentialsPending'', message), (''Failed'', ConditionFalse, ''CredentialsPending'', why)])"

text \<open>With a client: the operators, the labels, the packages.\<close>

definition reconcileReachable ::
  "target_env \<Rightarrow> cluster_target \<Rightarrow> string \<Rightarrow> client \<Rightarrow> string \<Rightarrow> ('g, reconcile_result) step" where
  "reconcileReachable env target kubeconfig c serverURL s =
     (let st = target_start target in
      case discoveredOperatorInventory c (ctt_operatorInventory st) s of (discovered, s) \<Rightarrow>
        (let st = st\<lparr>ctt_phase := ''Ready'', ctt_reachable := True,
               ctt_lastValidatedAt := Some (ce_now (tg_controllers env)),
               ctt_operatorInventory := (case discovered of Inr xs \<Rightarrow> xs | Inl _ \<Rightarrow> ctt_operatorInventory st)\<rparr>;
             v = target_conds env target
               [(''Ready'', ConditionTrue, ''ClusterValidated'', ''Cluster target credentials resolved for reconciliation.''),
                (''Failed'', ConditionFalse, ''ClusterValidated'', ''Cluster target has not failed.'')] in
         and_then (on_control (effectiveRequiredPackagesForClusterTarget target) s) (\<lambda>packages s.
         and_then (if list_ex (\<lambda>p. p = ''yugabyte'') packages then ensureClusterTopologyLabels c target s else (Inr (), s))
           (\<lambda>_ s.
            if packages = [] then target_done target (st\<lparr>ctt_packages := []\<rparr>) v s
            else (case ensureArgoCDClusterSecret env target kubeconfig serverURL s of (_, s) \<Rightarrow>
              and_then (reconcilePackages env target c packages s) (\<lambda>statuses s.
                target_done target (st\<lparr>ctt_packages := statuses\<rparr>) v s))))))"

definition ClusterTargetReconcile :: "target_env \<Rightarrow> string \<Rightarrow> ('g, reconcile_result) step" where
  "ClusterTargetReconcile env name s =
     (case on_control (get_obj clusterTargets name) s of
        (Inl e, s) \<Rightarrow> (ignoreNotFound e, s)
      | (Inr target, s) \<Rightarrow>
          (let ref = cts_connectionRef (ctg_spec target); secretName = nr_namespace ref @ ''/'' @ nr_name ref in
           case get_secret_at Management (nr_namespace ref) (nr_name ref) s of
             (Inl e, s) \<Rightarrow>
               if e = NotFound then
                 pending_credentials env target (''Waiting for connection Secret '' @ secretName @ ''.'')
                   ''Cluster target has not failed; credentials are still pending.'' s
               else (Inl (ApiError e), s)
           | (Inr sec, s) \<Rightarrow>
               if \<not> hasClusterConnectionData sec then
                 pending_credentials env target
                   (''Connection Secret '' @ secretName @ '' does not contain kubeconfig data yet.'')
                   ''Cluster target has not failed; credentials are incomplete.'' s
               else (case buildTargetClient env (clusterConnectionData sec) of
                   Inl e \<Rightarrow>
                     target_done target ((target_start target)\<lparr>ctt_phase := ''Failed'', ctt_reachable := False\<rparr>)
                       (target_conds env target
                         [(''Ready'', ConditionFalse, ''ClientError'',
                           ''Cannot build client for target cluster: '' @ target_error env e),
                          (''Failed'', ConditionTrue, ''ClientError'', target_error env e)]) s
                 | Inr (c, serverURL) \<Rightarrow>
                     reconcileReachable env target (clusterConnectionData sec) c serverURL s)))"

text \<open>The targets to reconcile when a Secret changes.\<close>

definition clusterTargetsForConnectionSecret :: "string \<Rightarrow> string \<Rightarrow> 'g site \<Rightarrow> string list \<times> 'g site" where
  "clusterTargetsForConnectionSecret namespace name s =
     (case on_control (list_obj clusterTargets) s of
        (Inl _, s) \<Rightarrow> ([], s)
      | (Inr targets, s) \<Rightarrow>
          (map (\<lambda>t. m_name (ctg_meta t))
             (filter (\<lambda>t. cts_connectionRef (ctg_spec t) = \<lparr>nr_name = name, nr_namespace = namespace\<rparr>) targets), s))"

end
