(* ===== verification/Target_Facts.thy ===== *)
theory Target_Facts
  imports Target_Controller Instance_Samples
begin

text \<open>
  What the controller of cluster targets reports and does. \<open>reachable_without_contact\<close>: a target counts as ready and
  reachable although no call on its cluster has succeeded. \<open>installed_means_running\<close>: a package counts as installed only
  if it runs. \<open>chart_files_confined\<close>: unpacking a chart stays in its directory.
\<close>

section \<open>A package that runs\<close>

definition workloads_in :: "client \<Rightarrow> string \<Rightarrow> string \<Rightarrow> string \<Rightarrow> 'g site \<Rightarrow> kube_object list" where
  "workloads_in c apiVersion kind namespace s =
     map snd (filter (\<lambda>((a, k, ns, _), x). a = apiVersion \<and> k = kind \<and> ns = namespace) (ku_objects (st_kube s c)))"

definition operator_workloads :: "client \<Rightarrow> string \<Rightarrow> 'g site \<Rightarrow> kube_object list" where
  "operator_workloads c namespace s =
     workloads_in c ''apps/v1'' ''Deployment'' namespace s @ workloads_in c ''apps/v1'' ''StatefulSet'' namespace s @
     workloads_in c ''apps/v1'' ''DaemonSet'' namespace s"

text \<open>
  Its namespace and its resource definitions are there, and in the namespace there are workloads, all of them and all jobs as
  they should be.
\<close>

definition package_running :: "client \<Rightarrow> operator_package \<Rightarrow> 'g site \<Rightarrow> bool" where
  "package_running c pkg s \<longleftrightarrow>
     (let namespace = op_targetNamespace (opk_spec pkg) in
      (namespace \<noteq> '''' \<longrightarrow> find_object c (namespaceKey namespace) s \<noteq> None) \<and>
      (\<forall>p \<in> set (op_probes (opk_spec pkg)). find_object c (crdKey (opr_crd p)) s \<noteq> None) \<and>
      (namespace \<noteq> '''' \<longrightarrow> operator_workloads c namespace s \<noteq> [] \<and>
         (\<forall>x \<in> set (operator_workloads c namespace s) \<union> set (workloads_in c ''batch/v1'' ''Job'' namespace s). workload_ready x)))"

lemma running_same: "same_objects s s' \<Longrightarrow> package_running c pkg s' = package_running c pkg s"
  by (simp add: package_running_def operator_workloads_def workloads_in_def same_objects_def find_object_def)

lemma workloads_same: "same_objects s s' \<Longrightarrow> workloads_in c a k ns s' = workloads_in c a k ns s"
  by (simp add: workloads_in_def same_objects_def)

text \<open>A step that only reads, and what holds where it answers with \<open>P\<close>.\<close>

definition confirms :: "('g, 'a) step \<Rightarrow> ('a \<Rightarrow> 'g site \<Rightarrow> bool) \<Rightarrow> bool" where
  "confirms m P \<longleftrightarrow> (\<forall>s. same_objects s (snd (m s)) \<and> (\<forall>x. fst (m s) = Inr x \<longrightarrow> P x s))"

lemma confirmsD: "confirms m P \<Longrightarrow> m s = (r, s') \<Longrightarrow> same_objects s s' \<and> (\<forall>x. r = Inr x \<longrightarrow> P x s)"
  by (metis confirms_def fst_conv snd_conv)

lemma confirmsI: "(\<And>s r s'. m s = (r, s') \<Longrightarrow> same_objects s s' \<and> (\<forall>x. r = Inr x \<longrightarrow> P x s)) \<Longrightarrow> confirms m P"
  unfolding confirms_def by (metis prod.collapse)

lemma confirms_then:
  assumes "confirms m P" "\<And>x. confirms (g x) (Q x)"
    and "\<And>x y s s'. P x s \<Longrightarrow> same_objects s s' \<Longrightarrow> Q x y s' \<Longrightarrow> R y s"
  shows "confirms (\<lambda>s. and_then (m s) g) R"
proof (rule confirmsI)
  fix s r s' assume run: "and_then (m s) g = (r, s')"
  obtain q s1 where m: "m s = (q, s1)" by (cases "m s")
  note one = confirmsD [OF assms(1) m]
  show "same_objects s s' \<and> (\<forall>x. r = Inr x \<longrightarrow> R x s)"
  proof (cases q)
    case (Inl e)
    then show ?thesis using run m one by auto
  next
    case (Inr x)
    then have "g x s1 = (r, s')" using run m by simp
    from confirmsD [OF assms(2) this] show ?thesis using one Inr assms(3) same_objects_trans by blast
  qed
qed

lemma crds_present_confirms:
  "confirms (crds_present c ps :: ('g, bool) step) (\<lambda>b s. b \<longrightarrow> (\<forall>p \<in> set ps. find_object c (crdKey (opr_crd p)) s \<noteq> None))"
proof (induction ps)
  case Nil
  then show ?case by (simp add: confirms_def)
next
  case (Cons p ps)
  show ?case
  proof (rule confirmsI)
    fix s s' :: "'g site" and r assume run: "crds_present c (p # ps) s = (r, s')"
    obtain q s1 where q: "kube_get c (crdKey (opr_crd p)) s = (q, s1)" by (cases "kube_get c (crdKey (opr_crd p)) s")
    note same = kube_get_same [OF q]
    show "same_objects s s' \<and> (\<forall>x. r = Inr x \<longrightarrow> x \<longrightarrow> (\<forall>p \<in> set (p # ps). find_object c (crdKey (opr_crd p)) s \<noteq> None))"
    proof (cases q)
      case (Inl e)
      then show ?thesis using run q same by (auto split: if_splits)
    next
      case (Inr x)
      then have "crds_present c ps s1 = (r, s')" using run q by simp
      note tail = confirmsD [OF Cons this]
      have "find_object c (crdKey (opr_crd p)) s = Some x" using kube_get_Inr q Inr by blast
      then show ?thesis using tail same same_objects_trans same_objects_find [OF same] by fastforce
    qed
  qed
qed

lemma probe_namespace_confirms:
  "confirms (probe_namespace c ns) (\<lambda>b s. b \<longrightarrow> ns \<noteq> '''' \<longrightarrow> find_object c (namespaceKey ns) s \<noteq> None)"
proof (rule confirmsI)
  fix s r s' assume run: "probe_namespace c ns s = (r, s')"
  obtain q s1 where q: "kube_get c (namespaceKey ns) s = (q, s1)" by (cases "kube_get c (namespaceKey ns) s")
  show "same_objects s s' \<and> (\<forall>x. r = Inr x \<longrightarrow> x \<longrightarrow> ns \<noteq> '''' \<longrightarrow> find_object c (namespaceKey ns) s \<noteq> None)"
    using run q kube_get_same [OF q] kube_get_Inr [of c "namespaceKey ns" s _ s1]
    by (cases "ns = ''''"; cases q) (auto simp: probe_namespace_def split: if_splits)
qed

lemma list_workloads_confirms:
  "confirms (list_workloads c a k plural ns) (\<lambda>xs s. xs = workloads_in c a k ns s)"
proof (rule confirmsI)
  fix s r s' assume run: "list_workloads c a k plural ns s = (r, s')"
  obtain q s1 where q: "kube_list c a k ns (\<lambda>_. True) s = (q, s1)" by (cases "kube_list c a k ns (\<lambda>_. True) s")
  have same: "same_objects s s1" using q unfolding kube_list_def by (rule kube_read_same)
  have "map snd xs = workloads_in c a k ns s" if "q = Inr xs" for xs
  proof -
    have "xs = map (\<lambda>((_, _, _, n), x). (n, x))
       (filter (\<lambda>((a', k', ns', _), x). a' = a \<and> k' = k \<and> ns' = ns \<and> True) (ku_objects (st_kube s1 c)))"
      using kube_read_Inr [OF q [unfolded kube_list_def that]] by simp
    then have "map snd xs = workloads_in c a k ns s1" by (simp add: workloads_in_def case_prod_beta comp_def)
    then show ?thesis using workloads_same [OF same] by simp
  qed
  then show "same_objects s s' \<and> (\<forall>x. r = Inr x \<longrightarrow> x = workloads_in c a k ns s)"
    using run q same by (cases q) (auto simp: list_workloads_def)
qed

lemma operatorWorkloadsReady_confirms:
  "confirms (operatorWorkloadsReady c ns) (\<lambda>b s. b \<longrightarrow> operator_workloads c ns s \<noteq> [] \<and>
     (\<forall>x \<in> set (operator_workloads c ns s) \<union> set (workloads_in c ''batch/v1'' ''Job'' ns s). workload_ready x))"
proof -
  let ?w = "workloads_in c ''apps/v1''"
  have last: "confirms (\<lambda>s. (Inr (length ds + length ss + length es \<noteq> 0 \<and> list_all workload_ready (ds @ ss @ es @ js)), s))
      (\<lambda>b s. b = (length ds + length ss + length es \<noteq> 0 \<and> list_all workload_ready (ds @ ss @ es @ js)))" for ds ss es js
    by (simp add: confirms_def)
  have jobs: "confirms (\<lambda>s. and_then (list_workloads c ''batch/v1'' ''Job'' ''jobs'' ns s) (\<lambda>js s.
        (Inr (length ds + length ss + length es \<noteq> 0 \<and> list_all workload_ready (ds @ ss @ es @ js)), s)))
      (\<lambda>b s. b = (length ds + length ss + length es \<noteq> 0 \<and>
         list_all workload_ready (ds @ ss @ es @ workloads_in c ''batch/v1'' ''Job'' ns s)))" for ds ss es
    by (rule confirms_then [OF list_workloads_confirms last]) simp
  have daemons: "confirms (\<lambda>s. and_then (list_workloads c ''apps/v1'' ''DaemonSet'' ''daemonsets'' ns s) (\<lambda>es s.
      and_then (list_workloads c ''batch/v1'' ''Job'' ''jobs'' ns s) (\<lambda>js s.
        (Inr (length ds + length ss + length es \<noteq> 0 \<and> list_all workload_ready (ds @ ss @ es @ js)), s))))
      (\<lambda>b s. b = (length ds + length ss + length (?w ''DaemonSet'' ns s) \<noteq> 0 \<and>
         list_all workload_ready (ds @ ss @ ?w ''DaemonSet'' ns s @ workloads_in c ''batch/v1'' ''Job'' ns s)))" for ds ss
    by (rule confirms_then [OF list_workloads_confirms jobs]) (simp add: workloads_same)
  have sets: "confirms (\<lambda>s. and_then (list_workloads c ''apps/v1'' ''StatefulSet'' ''statefulsets'' ns s) (\<lambda>ss s.
      and_then (list_workloads c ''apps/v1'' ''DaemonSet'' ''daemonsets'' ns s) (\<lambda>es s.
      and_then (list_workloads c ''batch/v1'' ''Job'' ''jobs'' ns s) (\<lambda>js s.
        (Inr (length ds + length ss + length es \<noteq> 0 \<and> list_all workload_ready (ds @ ss @ es @ js)), s)))))
      (\<lambda>b s. b = (length ds + length (?w ''StatefulSet'' ns s) + length (?w ''DaemonSet'' ns s) \<noteq> 0 \<and>
         list_all workload_ready (ds @ ?w ''StatefulSet'' ns s @ ?w ''DaemonSet'' ns s @ workloads_in c ''batch/v1'' ''Job'' ns s)))" for ds
    by (rule confirms_then [OF list_workloads_confirms daemons]) (simp add: workloads_same)
  show ?thesis unfolding operatorWorkloadsReady_def [abs_def]
    by (rule confirms_then [OF list_workloads_confirms sets])
      (auto simp: workloads_same operator_workloads_def list_all_iff)
qed

lemma probePackage_confirms: "confirms (probePackage c pkg) (\<lambda>b s. b \<longrightarrow> package_running c pkg s)"
proof -
  let ?ns = "op_targetNamespace (opk_spec pkg)" and ?ps = "op_probes (opk_spec pkg)"
  have rest: "confirms (\<lambda>s. if \<not> present then (Inr False, s) else if ?ns = '''' then (Inr True, s) else operatorWorkloadsReady c ?ns s)
      (\<lambda>b s. b \<longrightarrow> present \<and> (?ns \<noteq> '''' \<longrightarrow> operator_workloads c ?ns s \<noteq> [] \<and>
        (\<forall>x \<in> set (operator_workloads c ?ns s) \<union> set (workloads_in c ''batch/v1'' ''Job'' ?ns s). workload_ready x)))" for present
    using operatorWorkloadsReady_confirms [of c ?ns] unfolding confirms_def by (cases present; cases "?ns = ''''") simp_all
  have crds: "confirms (\<lambda>s. if \<not> there then (Inr False, s) else and_then (crds_present c ?ps s) (\<lambda>present s.
        if \<not> present then (Inr False, s) else if ?ns = '''' then (Inr True, s) else operatorWorkloadsReady c ?ns s))
      (\<lambda>b s. b \<longrightarrow> there \<and> (\<forall>p \<in> set ?ps. find_object c (crdKey (opr_crd p)) s \<noteq> None) \<and>
        (?ns \<noteq> '''' \<longrightarrow> operator_workloads c ?ns s \<noteq> [] \<and>
        (\<forall>x \<in> set (operator_workloads c ?ns s) \<union> set (workloads_in c ''batch/v1'' ''Job'' ?ns s). workload_ready x)))" for there
  proof (cases there)
    case True
    have "confirms (\<lambda>s. and_then (crds_present c ?ps s) (\<lambda>present s.
        if \<not> present then (Inr False, s) else if ?ns = '''' then (Inr True, s) else operatorWorkloadsReady c ?ns s))
      (\<lambda>b s. b \<longrightarrow> (\<forall>p \<in> set ?ps. find_object c (crdKey (opr_crd p)) s \<noteq> None) \<and>
        (?ns \<noteq> '''' \<longrightarrow> operator_workloads c ?ns s \<noteq> [] \<and>
        (\<forall>x \<in> set (operator_workloads c ?ns s) \<union> set (workloads_in c ''batch/v1'' ''Job'' ?ns s). workload_ready x)))"
      by (rule confirms_then [OF crds_present_confirms rest]) (auto simp: workloads_same operator_workloads_def)
    then show ?thesis using True by simp
  qed (simp add: confirms_def)
  show ?thesis unfolding probePackage_def [abs_def] Let_def
    by (rule confirms_then [OF probe_namespace_confirms crds])
      (auto simp: package_running_def workloads_same operator_workloads_def same_objects_find)
qed

text \<open>
  C21 A package is reported as installed on a cluster only if, when the report is made, its namespace and all its resource
  definitions are there and its namespace has workloads that are all available, whatever calls fail: also right after the
  package was installed by the controller itself.
\<close>

theorem installed_means_running:
  assumes "package_outcome env target c pkg s = ((PackagePhaseInstalled, message, app), s')"
  shows "package_running c pkg s'"
proof -
  obtain r s1 where r: "probePackage c pkg s = (r, s1)" by (cases "probePackage c pkg s")
  note probe = confirmsD [OF probePackage_confirms r]
  have "package_running c pkg s1" if "r = Inr True" using probe that running_same by blast
  moreover have "package_running c pkg s'" if d: "install_direct env c pkg s1 = ((PackagePhaseInstalled, message, app), s')"
  proof -
    obtain i s2 where i: "installPackageDirect env c pkg s1 = (i, s2)" by (cases "installPackageDirect env c pkg s1")
    obtain q s3 where q: "probePackage c pkg s2 = (q, s3)" by (cases "probePackage c pkg s2")
    have "q = Inr True \<and> s' = s3" using d i q by (cases i) (auto simp: install_direct_def split: if_splits)
    then show ?thesis using confirmsD [OF probePackage_confirms q] running_same by blast
  qed
  moreover have "phase \<noteq> PackagePhaseInstalled" if "install_by_argo env target pkg s1 = ((phase, message, app), s')" for phase
    using that by (auto simp: install_by_argo_def split: prod.splits sum.splits if_splits)
  ultimately show ?thesis using assms r
    by (cases r) (auto simp: package_outcome_def split: if_splits)
qed

section \<open>Reachable\<close>

lemma clusterHasCRD_same: "clusterHasCRD c n s = (r, s') \<Longrightarrow> same_objects s s'"
  by (cases "kube_get c (crdKey n) s") (auto simp: clusterHasCRD_def dest: kube_get_same split: sum.splits)

lemma probe_operators_same: "probe_operators c ps xs s = (r, s') \<Longrightarrow> same_objects s s'"
proof (induction c ps xs s rule: probe_operators.induct)
  case (2 c n crd ps xs s)
  obtain q s1 where q: "clusterHasCRD c crd s = (q, s1)" by (cases "clusterHasCRD c crd s")
  note same = clusterHasCRD_same [OF q]
  show ?case
  proof (cases q)
    case (Inl e)
    then show ?thesis using 2 q same by simp
  next
    case (Inr b)
    then have "probe_operators c ps (if b then n # xs else xs) s1 = (r, s')" using 2(2) q by simp
    from 2(1) [OF this] show ?thesis by (rule same_objects_trans [OF same])
  qed
qed simp

lemma discovered_same:
  assumes "discoveredOperatorInventory c xs s = (r, s')"
  shows "same_objects s s'"
proof -
  let ?i = "filter (\<lambda>item. item \<noteq> '''') (map trimSpace xs)"
  obtain p s1 where p: "probe_operators c operator_probes ?i s = (p, s1)" by (cases "probe_operators c operator_probes ?i s")
  obtain q s2 where q: "clusterHasCRD c kubeVirtVirtualMachineCRDName s1 = (q, s2)"
    by (cases "clusterHasCRD c kubeVirtVirtualMachineCRDName s1")
  obtain u s3 where u: "clusterHasCRD c kubeVirtDataVolumeCRDName s2 = (u, s3)"
    by (cases "clusterHasCRD c kubeVirtDataVolumeCRDName s2")
  note 1 = probe_operators_same [OF p]
  note 2 = same_objects_trans [OF 1 clusterHasCRD_same [OF q]]
  note 3 = same_objects_trans [OF 2 clusterHasCRD_same [OF u]]
  have "s' \<in> {s1, s2, s3}" using assms p q u unfolding discoveredOperatorInventory_def Let_def
    by (cases p; cases q; cases u) auto
  then show ?thesis using 1 2 3 by blast
qed

lemma target_done_written:
  assumes "co_faults (st_control s) = []" "map_of (co_targets (st_control s)) (m_name (ctg_meta target)) = Some target"
  shows "\<exists>s' t'. target_done target st v s = (Inr requeue_30, s') \<and>
    map_of (co_targets (st_control s')) (m_name (ctg_meta target)) = Some t' \<and>
    ctt_phase (ctg_status t') = ctt_phase st \<and> ctt_reachable (ctg_status t') = ctt_reachable st"
proof (cases "(ctg_status target)\<lparr>ctt_conditions := sl_then v\<rparr> = st\<lparr>ctt_conditions := sl_now v\<rparr>")
  case True
  then have "target_done target st v s = (Inr requeue_30, s)" by (simp add: target_done_def Let_def)
  moreover from True have "ctt_phase (ctg_status target) = ctt_phase st" "ctt_reachable (ctg_status target) = ctt_reachable st"
    by (cases "ctg_status target"; cases st; simp)+
  ultimately show ?thesis using assms(2) by auto
next
  case False
  let ?n = "m_name (ctg_meta target)" and ?t = "target\<lparr>ctg_status := st\<lparr>ctt_conditions := sl_now v\<rparr>\<rparr>"
  let ?w = "(st_control s)\<lparr>co_targets := AList.update ?n ?t (co_targets (st_control s))\<rparr>"
  have "target_done target st v s = (Inr requeue_30, s\<lparr>st_control := ?w\<rparr>)"
    using False assms by (simp add: target_done_def Let_def on_control_def change_obj_def control_fault_def pass_def)
  then show ?thesis by (simp add: update_conv')
qed

text \<open>
  Without faults in the management cluster, a target whose connection Secret holds a kubeconfig that parses, and that no
  package is required on, is stored as reachable and in phase \<open>Ready\<close> by every run, even if every call on its cluster
  fails: nothing that the cluster answers is asked for.
\<close>

theorem reachable_without_contact:
  assumes "co_faults (st_control s) = []" "map_of (co_targets (st_control s)) name = Some target" "m_name (ctg_meta target) = name"
    and "get_secret_at Management (nr_namespace (cts_connectionRef (ctg_spec target))) (nr_name (cts_connectionRef (ctg_spec target))) s = (Inr sec, s)"
    and "hasClusterConnectionData sec" "buildTargetClient env (clusterConnectionData sec) = Inr (c, url)"
    and "effectiveRequiredPackagesForClusterTarget target (st_control s) = (Inr [], st_control s)"
  shows "\<exists>s' t'. ClusterTargetReconcile env name s = (Inr requeue_30, s') \<and>
    map_of (co_targets (st_control s')) name = Some t' \<and> ctt_phase (ctg_status t') = ''Ready'' \<and> ctt_reachable (ctg_status t')"
proof -
  let ?inv = "ctt_operatorInventory (target_start target)"
  obtain d s1 where d: "discoveredOperatorInventory c ?inv s = (d, s1)" by (cases "discoveredOperatorInventory c ?inv s")
  have control: "st_control s1 = st_control s" using discovered_same [OF d] by (simp add: same_objects_def)
  have read: "on_control (get_obj clusterTargets name) s = (Inr target, s)"
    using assms(1,2) by (simp add: on_control_def get_obj_def control_fault_def)
  have packages: "on_control (effectiveRequiredPackagesForClusterTarget target) s1 = (Inr [], s1)"
    using assms(7) control by (simp add: on_control_def)
  have "ClusterTargetReconcile env name s = reconcileReachable env target (clusterConnectionData sec) c url s"
    using read assms(4-6) by (simp add: ClusterTargetReconcile_def Let_def)
  then obtain st v where run: "ClusterTargetReconcile env name s = target_done target st v s1" "ctt_phase st = ''Ready''" "ctt_reachable st"
    using d packages by (auto simp: reconcileReachable_def Let_def)
  have "map_of (co_targets (st_control s1)) (m_name (ctg_meta target)) = Some target" using assms(2,3) control by simp
  from target_done_written [OF _ this, of st v] show ?thesis using assms(1,3) control run by auto
qed

section \<open>Charts\<close>

lemma chartArchivePath_plain: "chartArchivePath n = Inr p \<Longrightarrow> plain_path p"
proof -
  assume "chartArchivePath n = Inr p"
  then have p: "p = path_clean n" "\<not> hasPrefix p ''/''" "p \<noteq> ''.''" "p \<noteq> ''..''" "\<not> hasPrefix p ''../''"
    by (auto simp: chartArchivePath_def Let_def split: if_splits)
  have "\<not> hasPrefix n ''/''"
  proof
    assume "hasPrefix n ''/''"
    then have "hasPrefix (path_clean n) ''/''" by (simp add: path_clean_def Let_def hasPrefix_def)
    then show False using p by simp
  qed
  then show "plain_path p" using path_clean_plain [of n] p by simp
qed

text \<open>The directory of a plain path is plain, or the dot.\<close>

lemma path_dir_plain:
  assumes "plain_path p" "path_dir p \<noteq> ''.''"
  shows "plain_path (path_dir p)"
proof -
  define q where "q = rev (dropWhile (\<lambda>c. c \<noteq> CHR ''/'') (rev p))"
  have dir: "path_dir p = path_clean q" by (simp add: path_dir_def q_def)
  have "q \<noteq> []"
  proof
    assume "q = []"
    then have "path_dir p = ''.''" using dir by (simp add: path_clean_def hasPrefix_def clean_elements_def clean_step_def)
    then show False using assms(2) by simp
  qed
  then have ne: "dropWhile (\<lambda>c. c \<noteq> CHR ''/'') (rev p) \<noteq> []" by (simp add: q_def)
  from hd_dropWhile [OF this] obtain r where r: "dropWhile (\<lambda>c. c \<noteq> CHR ''/'') (rev p) = CHR ''/'' # r"
    using ne by (cases "dropWhile (\<lambda>c. c \<noteq> CHR ''/'') (rev p)") auto
  define a where "a = rev r"
  have q: "q = a @ [CHR ''/'']" by (simp add: q_def r a_def)
  have "rev p = takeWhile (\<lambda>c. c \<noteq> CHR ''/'') (rev p) @ CHR ''/'' # r" using r by (metis takeWhile_dropWhile_id)
  then have "p = a @ CHR ''/'' # rev (takeWhile (\<lambda>c. c \<noteq> CHR ''/'') (rev p))"
    by (metis a_def append.assoc append_Cons append_Nil rev.simps(2) rev_append rev_rev_ident)
  then have a: "list_all plain_element (split_on CHR ''/'' a)"
    using assms(1) split_on_append_sep [of "CHR ''/''" a] unfolding plain_path_def by (metis list_all_append)
  obtain x xs where x: "split_on CHR ''/'' a = x # xs" by (cases "split_on CHR ''/'' a") auto
  have "\<not> hasPrefix q ''/''"
  proof
    assume "hasPrefix q ''/''"
    then have "a = [] \<or> hd a = CHR ''/''" by (cases a) (auto simp: hasPrefix_def q)
    then have "x = []" using x by (cases a) (auto split: list.splits if_splits)
    then show False using a x by (simp add: plain_element_def)
  qed
  moreover have "split_on CHR ''/'' q = split_on CHR ''/'' a @ ['''']" unfolding q by (simp add: split_on_append_sep)
  moreover have "clean_elements False (split_on CHR ''/'' a @ ['''']) = split_on CHR ''/'' a"
    using fold_clean_plain [OF a, of False "[]"] by (simp add: clean_elements_def clean_step_def)
  ultimately have "path_clean q = a" using x join_split_on [of "CHR ''/''" a] by (simp add: path_clean_def Let_def)
  then show ?thesis using a dir by (simp add: plain_path_def)
qed

text \<open>Paths that stay below the directory, and files within the bound.\<close>

definition confined_tree :: "chart_tree \<Rightarrow> bool" where
  "confined_tree t \<longleftrightarrow> list_all plain_path (ct_dirs t) \<and>
     list_all (\<lambda>(p, mode, body). plain_path p \<and> 0 \<le> mode \<and> mode \<le> MaxUint32 \<and> int (length body) \<le> maxExtractedChartFileBytes)
       (ct_files t)"

lemma list_all_update: "list_all P xs \<Longrightarrow> P (k, v) \<Longrightarrow> list_all P (AList.update k v xs)"
  by (induction xs) auto

lemma confined_add_dir: "confined_tree t \<Longrightarrow> path \<notin> {'''', ''.''} \<longrightarrow> plain_path path \<Longrightarrow> confined_tree (add_dir path t)"
  by (auto simp: confined_tree_def add_dir_def)

text \<open>The first directories of a plain path are plain.\<close>

lemma plain_path_take:
  assumes "plain_path p" and "join ''/'' (take n (split_on CHR ''/'' p)) \<noteq> ''''"
  shows "plain_path (join ''/'' (take n (split_on CHR ''/'' p)))"
proof -
  let ?es = "take n (split_on CHR ''/'' p)"
  have es: "\<forall>c \<in> set ?es. plain_element c"
    using assms(1) in_set_takeD by (fastforce simp: plain_path_def list_all_iff)
  moreover have "?es \<noteq> []" using assms(2) by (metis join.simps(1))
  ultimately have "split_on CHR ''/'' (join ''/'' ?es) = ?es" by (intro split_on_join) (auto simp: plain_element_def)
  then show ?thesis using es by (simp add: plain_path_def list_all_iff)
qed

lemma make_dirs_confined:
  assumes "confined_tree t" and "path = ''.'' \<or> plain_path path"
  shows "confined_tree (snd (make_dirs env message path t))"
proof -
  let ?q = "join ''/'' (take (tg_made env ''mkdir'' path t) (split_on CHR ''/'' path))"
  have "plain_path ?q" if "?q \<notin> {'''', ''.''}"
  proof (cases "path = ''.''")
    case True
    then have "?q \<in> {'''', ''.''}" by (cases "tg_made env ''mkdir'' path t") auto
    then show ?thesis using that by blast
  next
    case False
    then show ?thesis using assms(2) plain_path_take that by blast
  qed
  then show ?thesis
    using assms confined_add_dir by (auto simp: make_dirs_def split: option.split)
qed

lemma confined_put_file:
  assumes "confined_tree t" and "plain_path path" and "0 \<le> mode" "mode \<le> MaxUint32"
    and "int (length bytes) \<le> maxExtractedChartFileBytes"
  shows "confined_tree (put_file path mode bytes t)"
proof -
  have "0 \<le> m \<and> m \<le> MaxUint32" if "map_of (ct_files t) path = Some (m, b)" for m b
    using assms(1) map_of_SomeD [OF that] by (fastforce simp: confined_tree_def list_all_iff)
  then show ?thesis
    using assms unfolding confined_tree_def put_file_def Let_def
    by (auto intro!: list_all_update split: option.split)
qed

lemma copy_failed_snd [simp]: "snd (copy_failed env path e t) = t"
  by (simp add: copy_failed_def)

lemma write_entry_confined:
  assumes "confined_tree t" and "plain_path path" and "0 \<le> mode" "mode \<le> MaxUint32"
  shows "confined_tree (snd (write_entry env e path mode t))"
proof -
  define body where "body = take (nat (te_size e)) (te_body e)"
  have part: "confined_tree (put_file path mode (take n body) t)" if "te_size e \<le> maxExtractedChartFileBytes" for n
    using assms that by (intro confined_put_file) (auto simp: body_def)
  then have whole: "confined_tree (put_file path mode body t)" if "te_size e \<le> maxExtractedChartFileBytes"
    using that by (metis take_all order_refl)
  have none: "confined_tree (put_file path mode '''' t)" using assms by (intro confined_put_file) auto
  show ?thesis
    using assms(1) part whole none unfolding write_entry_def body_def [symmetric] Let_def
    by (simp split: option.split sum.split)
qed

lemma extract_entry_confined:
  assumes "confined_tree t"
  shows "confined_tree (snd (extract_entry env e t))"
proof (cases "chartArchivePath (te_name e)")
  case (Inl err)
  then show ?thesis using assms by (simp add: extract_entry_def)
next
  case (Inr p)
  note plain = chartArchivePath_plain [OF Inr]
  have dir: "path_dir p = ''.'' \<or> plain_path (path_dir p)" using path_dir_plain [OF plain] by blast
  obtain err u where d: "make_dirs env ''creating chart parent directory'' (path_dir p) t = (err, u)" by fastforce
  have u: "confined_tree u" using make_dirs_confined [OF assms dir] d by (metis snd_conv)
  have "0 \<le> mode \<and> mode \<le> MaxUint32" if "chartFileMode (te_mode e) = Inr mode" for mode
    using that by (auto simp: chartFileMode_def split: if_splits)
  then show ?thesis
    using assms u plain make_dirs_confined [OF assms] write_entry_confined [OF u plain]
    by (auto simp: extract_entry_def Inr d split: tar_type.split option.split sum.split)
qed

lemma extract_entries_confined: "confined_tree t \<Longrightarrow> confined_tree (snd (extract_entries env es t))"
proof (induction env es t rule: extract_entries.induct)
  case (2 env e es t)
  then show ?case using extract_entry_confined [of t env e] by (auto split: prod.split option.split)
qed simp

text \<open>
  C22 Whatever a chart archive contains and wherever unpacking it stops, with or without an error, the directories and
  files on disk then are strictly below the temporary directory, their paths have no empty, dot or dot-dot element, and no
  file has more than 64 MiB.
\<close>

theorem chart_files_confined: "confined_tree (snd (extractTarGz env destDir archive))"
proof -
  have empty: "confined_tree \<lparr>ct_dirs = [], ct_files = []\<rparr>" by (simp add: confined_tree_def)
  from extract_entries_confined [OF this] have "confined_tree t"
    if "extract_entries env es \<lparr>ct_dirs = [], ct_files = []\<rparr> = (err, t)" for es err t
    using that by (metis snd_conv)
  then show ?thesis using empty
    by (auto simp: extractTarGz_def Let_def split: sum.split prod.split option.split)
qed

section \<open>Examples\<close>

text \<open>A target whose connection Secret is there; \<open>r\<close> are the objects of its cluster and \<open>fs\<close> the faults its calls meet.\<close>

definition probedTarget :: cluster_target where
  "probedTarget = \<lparr>ctg_meta = sampleMeta ''c1'',
     ctg_spec = \<lparr>cts_displayName = '''', cts_connectionRef = \<lparr>nr_name = ''c1'', nr_namespace = ''servicer''\<rparr>, cts_region = '''',
       cts_capabilities = [], cts_defaultPolicyRefs = [], cts_ingressDomain = '''', cts_requiredPackages = []\<rparr>,
     ctg_status = \<lparr>ctt_observedGeneration = 0, ctt_phase = '''', ctt_conditions = [], ctt_reachable = False,
       ctt_operatorInventory = [], ctt_packages = [], ctt_kubernetesVersion = '''', ctt_lastValidatedAt = None\<rparr>\<rparr>"

definition kubeconfig_secret :: secret where
  "kubeconfig_secret = \<lparr>sc_labels = [], sc_annotations = [], sc_type = ''Opaque'', sc_data = [(''kubeconfig'', ''c1'')]\<rparr>"

definition probed_site :: "(object_key, kube_object) gomap \<Rightarrow> fault list \<Rightarrow> unit site" where
  "probed_site r fs = \<lparr>st_control = empty_control\<lparr>co_targets := [(''c1'', probedTarget)]\<rparr>,
     st_kube = (\<lambda>c. if c = Management then \<lparr>ku_objects = [(secretKey ''servicer'' ''c1'', KSecret kubeconfig_secret)], ku_faults = []\<rparr>
        else \<lparr>ku_objects = r, ku_faults = fs\<rparr>),
     st_disk = \<lparr>d_files = [], d_faults = []\<rparr>, st_git = (), st_drawn = 0\<rparr>"

definition probing_env :: target_env where
  "probing_env = \<lparr>tg_controllers = sample_env, tg_ArgoCDNamespace = '''', tg_ArgoCDProject = '''',
     tg_restConfig = (\<lambda>k. Inr \<lparr>rc_host = k, rc_bearerToken = '''', rc_caData = '''', rc_certData = '''', rc_keyData = '''', rc_insecure = False\<rparr>),
     tg_newClient = (\<lambda>r. Inr (rc_host r)), tg_httpGet = (\<lambda>_. Inr (404, Inr '''')), tg_documents = (\<lambda>_. ([], None)),
     tg_toJSON = Inr, tg_unmarshal = (\<lambda>_. Inl (Errorf ''json'')), tg_apply = (\<lambda>_ _. Inr KNamespace), tg_mkdirTemp = Inr ''/tmp/w'',
     tg_untar = (\<lambda>_. Inr ([\<lparr>te_name = ''chart/./templates/x.yaml'', te_type = TarReg, te_mode = 420, te_size = 2, te_body = ''a: 1''\<rparr>,
       \<lparr>te_name = ''a/../../etc/x'', te_type = TarReg, te_mode = 420, te_size = 1, te_body = ''b''\<rparr>], None)),
     tg_fs = (\<lambda>_ _ _. None), tg_made = (\<lambda>_ _ _. 0), tg_stat = (\<lambda>_ _. Inr True), tg_helm = (\<lambda>_ t. (('''', None), t))\<rparr>"

theorem reachable_without_contact_witness:
  "\<exists>s' t'. ClusterTargetReconcile probing_env ''c1'' (probed_site [] (replicate 9 (Refused (OtherError ''no route to host'')))) = (Inr requeue_30, s') \<and>
     map_of (co_targets (st_control s')) ''c1'' = Some t' \<and> ctt_phase (ctg_status t') = ''Ready'' \<and> ctt_reachable (ctg_status t')"
proof -
  let ?s = "probed_site [] (replicate 9 (Refused (OtherError ''no route to host'')))"
  have "get_secret_at Management ''servicer'' ''c1'' ?s = (Inr kubeconfig_secret, ?s)"
    by (simp add: get_secret_at_def kube_get_none find_object_def probed_site_def)
  moreover have "clusterConnectionData kubeconfig_secret = ''c1''"
    by (simp add: clusterConnectionData_def kubeconfig_secret_def map_get_def)
  moreover have "buildTargetClient probing_env ''c1'' = Inr (Remote ''c1'', ''c1'')"
    by (simp add: buildTargetClient_def probing_env_def)
  moreover have "effectiveRequiredPackagesForClusterTarget probedTarget (st_control ?s) = (Inr [], st_control ?s)"
    by (simp add: effectiveRequiredPackagesForClusterTarget_def list_obj_def control_fault_def pass_def probed_site_def
        empty_control_def uniquePackageNames_def probedTarget_def)
  moreover have "co_faults (st_control ?s) = []" "map_of (co_targets (st_control ?s)) ''c1'' = Some probedTarget"
    "m_name (ctg_meta probedTarget) = ''c1''" "cts_connectionRef (ctg_spec probedTarget) = \<lparr>nr_name = ''c1'', nr_namespace = ''servicer''\<rparr>"
    by (simp_all add: probed_site_def empty_control_def probedTarget_def)
  ultimately show ?thesis
    using reachable_without_contact [of ?s "''c1''" probedTarget kubeconfig_secret probing_env "Remote ''c1''" "''c1''"]
    by (simp add: hasClusterConnectionData_def)
qed

definition probed_package :: operator_package where
  "probed_package = \<lparr>opk_meta = sampleMeta ''cnpg'',
     opk_spec = \<lparr>op_displayName = '''', op_description = '''', op_version = '''', op_targetNamespace = ''cnpg'',
       op_probes = [\<lparr>opr_crd = ''clusters.postgresql.cnpg.io''\<rparr>],
       op_source = \<lparr>ops_manifestURL = '''', ops_chartArchiveURL = '''', ops_chartPath = '''', ops_helmValues = [], ops_repoURL = '''',
         ops_path = '''', ops_targetRevision = ''''\<rparr>\<rparr>,
     opk_status = \<lparr>opt_observedGeneration = 0, opt_conditions = []\<rparr>\<rparr>"

definition running_operator :: "(object_key, kube_object) gomap" where
  "running_operator = [(namespaceKey ''cnpg'', KNamespace), (crdKey ''clusters.postgresql.cnpg.io'', KOther [] UNull),
     ((''apps/v1'', ''Deployment'', ''cnpg'', ''operator''), KDeployment (Some 1) 1)]"

theorem installed_means_running_witness:
  "package_running (Remote ''c1'') probed_package
     (snd (package_outcome probing_env probedTarget (Remote ''c1'') probed_package (probed_site running_operator [])))"
proof -
  have "fst (package_outcome probing_env probedTarget (Remote ''c1'') probed_package (probed_site running_operator [])) =
      (PackagePhaseInstalled, installed_message, '''')" by code_simp
  then have "package_outcome probing_env probedTarget (Remote ''c1'') probed_package (probed_site running_operator []) =
      ((PackagePhaseInstalled, installed_message, ''''),
       snd (package_outcome probing_env probedTarget (Remote ''c1'') probed_package (probed_site running_operator [])))"
    by (metis prod.collapse)
  then show ?thesis by (rule installed_means_running)
qed

text \<open>An archive whose second entry leads out of the directory: unpacking stops there and keeps the first file.\<close>

theorem chart_files_confined_witness:
  "confined_tree \<lparr>ct_dirs = [''chart/templates''], ct_files = [(''chart/templates/x.yaml'', 420, ''a:'')]\<rparr>"
proof -
  have "snd (extractTarGz probing_env ''/tmp/w'' '''') =
      \<lparr>ct_dirs = [''chart/templates''], ct_files = [(''chart/templates/x.yaml'', 420, ''a:'')]\<rparr>" by code_simp
  then show ?thesis using chart_files_confined by metis
qed

end
