(* ===== verification/Bff_Actor.thy ===== *)
theory Bff_Actor
  imports Policy_Eval
begin

text \<open>
  Who a request of the backend for frontend acts for (\<open>internal/bff/auth.go\<close> and the identity half
  of \<open>authenticator.go\<close>): the actor with its roles, the questions asked of it, the expansion of a role
  into the roles it grants, and the resolution of an identity to an actor from the users, groups,
  role bindings and tenants.

  A Go \<open>map[string]struct{}\<close> is a set. The map of an actor's tenants to its roles there is an
  association list.
\<close>

section \<open>Actors\<close>

record actor =
  av_Name :: string
  av_Email :: string
  av_UserName :: string
  av_Provider :: string
  av_Subject :: string
  av_Authenticated :: bool
  av_Roles :: "string set"
  av_TenantRoles :: "(string, string set) gomap"
  av_Groups :: "string set"

definition tenantRoleSatisfies :: "string \<Rightarrow> string \<Rightarrow> bool" where
  "tenantRoleSatisfies granted required \<longleftrightarrow>
     (if granted = required then True
      else if granted = RoleTenantAdmin then required = RoleTenantOperator \<or> required = RoleServiceConsumer
      else if granted = RoleTenantOperator then required = RoleServiceConsumer
      else False)"

definition platformRoleSatisfies :: "string \<Rightarrow> string \<Rightarrow> bool" where
  "platformRoleSatisfies granted required \<longleftrightarrow>
     (if granted = required then True
      else if granted = RolePlatformAdmin then True
      else tenantRoleSatisfies granted required)"

definition hasAny :: "actor \<Rightarrow> string list \<Rightarrow> bool" where
  "hasAny a roles \<longleftrightarrow>
     list_ex (\<lambda>role.
       (\<exists>granted \<in> av_Roles a. platformRoleSatisfies granted role) \<or>
       list_ex (\<lambda>(tenant, tenantRoles). \<exists>granted \<in> tenantRoles. tenantRoleSatisfies granted role) (av_TenantRoles a))
       roles"

definition isPlatformAdmin :: "actor \<Rightarrow> bool" where
  "isPlatformAdmin a \<longleftrightarrow> hasAny a [RolePlatformAdmin]"

definition hasTenantRole :: "actor \<Rightarrow> string \<Rightarrow> string list \<Rightarrow> bool" where
  "hasTenantRole a tenantName roles \<longleftrightarrow>
     (if tenantName = '''' then False
      else (case map_of (av_TenantRoles a) tenantName of
              None \<Rightarrow> False
            | Some tenantRoles \<Rightarrow>
                list_ex (\<lambda>role. \<exists>granted \<in> tenantRoles. tenantRoleSatisfies granted role) roles))"

definition hasTenantAccess :: "actor \<Rightarrow> string \<Rightarrow> bool" where
  "hasTenantAccess a tenantName \<longleftrightarrow>
     (if isPlatformAdmin a then True
      else (case map_of (av_TenantRoles a) tenantName of None \<Rightarrow> False | Some rs \<Rightarrow> rs \<noteq> {}))"

text \<open>\<open>strings.Split(s, ",")\<close>, each part trimmed, the empty ones left out.\<close>

definition comma_set :: "string \<Rightarrow> string set" where
  "comma_set s = set (filter (\<lambda>x. x \<noteq> '''') (map trimSpace (split_on (CHR 0x2C) s)))"

definition actorFromHeaders :: "(string \<Rightarrow> string) \<Rightarrow> actor" where
  "actorFromHeaders header =
     (let trimmed = trimSpace (header ''X-Servicer-User'');
          name = (if trimmed = '''' then ''anonymous'' else trimmed)
      in \<lparr>av_Name = name, av_Email = '''', av_UserName = '''', av_Provider = '''', av_Subject = '''',
          av_Authenticated = (name \<noteq> '''' \<and> name \<noteq> ''anonymous''),
          av_Roles = comma_set (header ''X-Servicer-Roles''), av_TenantRoles = [],
          av_Groups = comma_set (header ''X-Servicer-Groups'')\<rparr>)"

section \<open>Roles\<close>

record role_summary =
  rl_Name :: string
  rl_DisplayName :: string
  rl_Description :: string
  rl_Scope :: string
  rl_BuiltIn :: bool
  rl_Permissions :: "string list"

type_synonym role_index = "(string, role_summary) gomap"

definition newRoleExpander :: "role_summary list \<Rightarrow> role_index" where
  "newRoleExpander roles = fold (\<lambda>role. AList.update (rl_Name role) role) roles []"

text \<open>
  A role defined in a ConfigMap may name any role among its permissions, itself included, so that
  \<open>visit\<close> may not return as far as its equations go: \<open>None\<close> is a call that never returns. The names
  in \<open>seen\<close> are those in \<open>out\<close>.
\<close>

fun fold_opt :: "('a \<Rightarrow> 'b \<Rightarrow> 'b option) \<Rightarrow> 'a list \<Rightarrow> 'b \<Rightarrow> 'b option" where
  "fold_opt f [] b = Some b"
| "fold_opt f (x # xs) b = Option.bind (f x b) (fold_opt f xs)"

lemma fold_opt_mono [partial_function_mono]:
  assumes "\<And>x b. mono_option (\<lambda>v. f v x b)"
  shows "mono_option (\<lambda>v. fold_opt (f v) xs b)"
proof (induction xs arbitrary: b)
  case Nil
  show ?case by (simp add: monotone_def flat_ord_def)
next
  case (Cons x xs)
  show ?case using bind_mono [OF assms Cons] by simp
qed

partial_function (option) visit :: "role_index \<Rightarrow> string \<Rightarrow> string \<Rightarrow> string list \<Rightarrow> string list option" where
  "visit roles scope name out =
     (if name = '''' then Some out
      else if name \<in> set out then Some out
      else (case map_of roles name of
              None \<Rightarrow> Some (out @ [name])
            | Some role \<Rightarrow>
                if rl_Scope role \<noteq> scope then Some (out @ [name])
                else fold_opt (\<lambda>permission seen. visit roles scope permission seen) (rl_Permissions role) (out @ [name])))"

definition expand :: "role_index \<Rightarrow> string \<Rightarrow> string \<Rightarrow> string list option" where
  "expand roles roleName scope = visit roles scope roleName []"

text \<open>The names that a role grants in a scope, as a relation.\<close>

inductive grants :: "role_index \<Rightarrow> string \<Rightarrow> string \<Rightarrow> string \<Rightarrow> bool"
  for roles :: role_index and scope :: string and name :: string
where
  itself: "name \<noteq> '''' \<Longrightarrow> grants roles scope name name"
| permission: "grants roles scope name via \<Longrightarrow> map_of roles via = Some role \<Longrightarrow> rl_Scope role = scope \<Longrightarrow>
    p \<in> set (rl_Permissions role) \<Longrightarrow> p \<noteq> '''' \<Longrightarrow> grants roles scope name p"

section \<open>The roles there are\<close>

definition builtInRoles :: "role_summary list" where
  "builtInRoles =
     [\<lparr>rl_Name = RolePlatformAdmin, rl_DisplayName = ''Platform Admin'',
        rl_Description = ''Full platform control, including auth administration, tenancy, catalog, clusters, repositories, products, and audit access.'',
        rl_Scope = ''platform'', rl_BuiltIn = True, rl_Permissions = [RolePlatformAdmin]\<rparr>,
      \<lparr>rl_Name = RoleCatalogAdmin, rl_DisplayName = ''Catalog Admin'',
        rl_Description = ''Manage service catalog definitions, product publication settings, and platform-wide catalog defaults.'',
        rl_Scope = ''platform'', rl_BuiltIn = True, rl_Permissions = [RoleCatalogAdmin]\<rparr>,
      \<lparr>rl_Name = RoleClusterAdmin, rl_DisplayName = ''Cluster Admin'',
        rl_Description = ''Manage cluster targets, cluster metadata, deployment destinations, and platform cluster availability.'',
        rl_Scope = ''platform'', rl_BuiltIn = True, rl_Permissions = [RoleClusterAdmin]\<rparr>,
      \<lparr>rl_Name = RoleAuditor, rl_DisplayName = ''Auditor'',
        rl_Description = ''Read audit events and compliance history across visible platform and tenant resources without write access.'',
        rl_Scope = ''platform'', rl_BuiltIn = True, rl_Permissions = [RoleAuditor]\<rparr>,
      \<lparr>rl_Name = RoleTenantAdmin, rl_DisplayName = ''Tenant Admin'',
        rl_Description = ''Manage assigned tenant access, tenant repositories, tenant products, and tenant operational settings.'',
        rl_Scope = ''tenant'', rl_BuiltIn = True, rl_Permissions = [RoleTenantAdmin]\<rparr>,
      \<lparr>rl_Name = RoleTenantOperator, rl_DisplayName = ''Tenant Operator'',
        rl_Description = ''Operate assigned tenant products and repositories, including product lifecycle actions within that tenant.'',
        rl_Scope = ''tenant'', rl_BuiltIn = True, rl_Permissions = [RoleTenantOperator]\<rparr>,
      \<lparr>rl_Name = RoleServiceConsumer, rl_DisplayName = ''Service Consumer'',
        rl_Description = ''View assigned tenant catalog entries and request or inspect products available to that tenant.'',
        rl_Scope = ''tenant'', rl_BuiltIn = True, rl_Permissions = [RoleServiceConsumer]\<rparr>]"

definition builtInRoleMap :: "role_index" where
  "builtInRoleMap = newRoleExpander builtInRoles"

definition no_role :: role_summary where
  "no_role = \<lparr>rl_Name = '''', rl_DisplayName = '''', rl_Description = '''', rl_Scope = '''', rl_BuiltIn = False,
     rl_Permissions = []\<rparr>"

definition role_field :: "string \<Rightarrow> json \<Rightarrow> role_summary \<Rightarrow> role_summary \<times> bool" where
  "role_field k v s =
     (if json_key k ''name'' then dec_into dec_string rl_Name rl_Name_update v s
      else if json_key k ''displayName'' then dec_into dec_string rl_DisplayName rl_DisplayName_update v s
      else if json_key k ''description'' then dec_into dec_string rl_Description rl_Description_update v s
      else if json_key k ''scope'' then dec_into dec_string rl_Scope rl_Scope_update v s
      else if json_key k ''builtIn'' then dec_into dec_bool rl_BuiltIn rl_BuiltIn_update v s
      else if json_key k ''permissions'' then dec_into dec_strings rl_Permissions rl_Permissions_update v s
      else (s, False))"

text \<open>The text is the entry \<open>role.json\<close> of a ConfigMap's data, empty where there is none.\<close>

definition roleFromConfigMap :: "string \<Rightarrow> role_summary option" where
  "roleFromConfigMap text =
     (case json_unmarshal role_field text no_role of
        (role, failed) \<Rightarrow> if failed then None else Some (role\<lparr>rl_BuiltIn := False\<rparr>))"

text \<open>
  \<open>sort.Slice\<close> by origin, scope and name is three stable sorts, the least important first. It leaves
  the order of two roles with the same origin, scope and name open.
\<close>

definition rolesFromTexts :: "string list \<Rightarrow> role_summary list" where
  "rolesFromTexts texts =
     (let custom = filter (\<lambda>role. map_of builtInRoleMap (rl_Name role) = None) (List.map_filter roleFromConfigMap texts)
      in sort_key (\<lambda>role. \<not> rl_BuiltIn role) (sort_key rl_Scope (sort_key rl_Name (builtInRoles @ custom))))"

section \<open>From an identity to an actor\<close>

record identity =
  id_ProviderName :: string
  id_ProviderType :: string
  id_Subject :: string
  id_AltSubjects :: "string list"
  id_Name :: string
  id_Email :: string
  id_Groups :: "string list"

fun firstNonBlank :: "string list \<Rightarrow> string" where
  "firstNonBlank [] = ''''"
| "firstNonBlank (v # vs) = (if \<not> blank v then v else firstNonBlank vs)"

definition trimmed_set :: "string list \<Rightarrow> string set" where
  "trimmed_set names = set (filter (\<lambda>n. n \<noteq> '''') (map trimSpace names))"

definition matchUser :: "user list \<Rightarrow> identity \<Rightarrow> user option" where
  "matchUser users ident =
     (let subjects = trimmed_set (id_Subject ident # id_AltSubjects ident) in
      find (\<lambda>user.
        id_ProviderType ident = AuthProviderTypeLocal \<and> m_name (u_meta user) = id_Subject ident \<or>
        list_ex (\<lambda>external. lr_name (ei_providerRef external) = id_ProviderName ident \<and> ei_subject external \<in> subjects)
          (usr_externalIdentities (u_spec user))) users)"

definition member_of :: "user option \<Rightarrow> identity \<Rightarrow> string set \<Rightarrow> group \<Rightarrow> bool" where
  "member_of matchedUser ident externalGroups gr \<longleftrightarrow>
     (case matchedUser of
        None \<Rightarrow> False
      | Some user \<Rightarrow> list_ex (\<lambda>member. lr_name (gm_userRef member) = m_name (u_meta user)) (gr_members (g_spec gr))) \<or>
     list_ex (\<lambda>external. lr_name (eg_providerRef external) = id_ProviderName ident \<and> eg_name external \<in> externalGroups)
       (gr_externalGroups (g_spec gr))"

definition localGroupNames :: "user option \<Rightarrow> identity \<Rightarrow> string set \<Rightarrow> group list \<Rightarrow> string set" where
  "localGroupNames matchedUser ident externalGroups groups =
     set (map (\<lambda>gr. m_name (g_meta gr)) (filter (member_of matchedUser ident externalGroups) groups))"

text \<open>The actor before any binding.\<close>

definition identity_actor :: "user option \<Rightarrow> identity \<Rightarrow> string set \<Rightarrow> actor" where
  "identity_actor matchedUser ident groups =
     (let current = \<lparr>av_Name = firstNonBlank [id_Name ident, id_Subject ident], av_Email = id_Email ident,
            av_UserName = firstNonBlank [id_Subject ident, id_Name ident], av_Provider = id_ProviderName ident,
            av_Subject = id_Subject ident, av_Authenticated = True, av_Roles = {}, av_TenantRoles = [],
            av_Groups = groups\<rparr>
      in case matchedUser of
           None \<Rightarrow> current
         | Some user \<Rightarrow> current\<lparr>
             av_UserName := m_name (u_meta user),
             av_Name := firstNonBlank [trimSpace (usr_displayName (u_spec user)), av_Name current, m_name (u_meta user)],
             av_Email := firstNonBlank [trimSpace (usr_email (u_spec user)), av_Email current]\<rparr>)"

definition bindingAppliesToActor :: "role_binding \<Rightarrow> actor \<Rightarrow> user option \<Rightarrow> string set \<Rightarrow> bool" where
  "bindingAppliesToActor binding current matchedUser localGroups \<longleftrightarrow>
     list_ex (\<lambda>subject.
       if sr_kind subject = ''User''
       then (case matchedUser of None \<Rightarrow> False | Some user \<Rightarrow> sr_name subject = m_name (u_meta user)) \<or>
         sr_name subject = av_Subject current \<or> sr_name subject = av_Email current
       else if sr_kind subject = ''Group'' then sr_name subject \<in> localGroups
       else False) (rbs_subjects (rbd_spec binding))"

definition tenantVisibleLegacy :: "actor \<Rightarrow> user option \<Rightarrow> tenant \<Rightarrow> bool" where
  "tenantVisibleLegacy current matchedUser t \<longleftrightarrow>
     list_ex (\<lambda>owner.
         (case matchedUser of None \<Rightarrow> False | Some user \<Rightarrow> owner = m_name (u_meta user)) \<or>
         owner = av_Email current \<or> owner = av_Subject current \<or> owner = av_UserName current)
       (ow_users (tns_owners (tn_spec t))) \<or>
     list_ex (\<lambda>gr. gr \<in> av_Groups current) (ow_groups (tns_owners (tn_spec t)))"

text \<open>What \<open>expand\<close> lists; that it always returns is shown in \<open>Bff_Facts\<close>.\<close>

definition expanded :: "role_index \<Rightarrow> string \<Rightarrow> string list \<Rightarrow> string set" where
  "expanded index scope roles =
     set (concat (map (\<lambda>role. case expand index role scope of None \<Rightarrow> [] | Some names \<Rightarrow> names) roles))"

text \<open>An entry of the tenant map, made where there is none, and names added to it.\<close>

definition add_tenant_roles :: "string \<Rightarrow> string set \<Rightarrow> actor \<Rightarrow> actor" where
  "add_tenant_roles t names a =
     (let old = (case map_of (av_TenantRoles a) t of None \<Rightarrow> {} | Some rs \<Rightarrow> rs) in
      a\<lparr>av_TenantRoles := AList.update t (old \<union> names) (av_TenantRoles a)\<rparr>)"

definition bind_roles :: "role_index \<Rightarrow> user option \<Rightarrow> string set \<Rightarrow> role_binding \<Rightarrow> actor \<Rightarrow> actor" where
  "bind_roles index matchedUser localGroups binding current =
     (let spec = rbd_spec binding in
      if \<not> bindingAppliesToActor binding current matchedUser localGroups then current
      else if rbs_scope spec = AccessScopePlatform
      then current\<lparr>av_Roles := av_Roles current \<union> expanded index AccessScopePlatform (rbs_roles spec)\<rparr>
      else if rbs_scope spec = AccessScopeTenant
      then (case rbs_tenantRef spec of
              None \<Rightarrow> current
            | Some ref \<Rightarrow> if lr_name ref = '''' then current
                else add_tenant_roles (lr_name ref) (expanded index AccessScopeTenant (rbs_roles spec)) current)
      else current)"

definition own_tenant :: "user option \<Rightarrow> tenant \<Rightarrow> actor \<Rightarrow> actor" where
  "own_tenant matchedUser t current =
     (if tenantVisibleLegacy current matchedUser t
      then add_tenant_roles (m_name (tn_meta t)) {RoleTenantAdmin} current else current)"

definition resolve_identity ::
  "user list \<Rightarrow> group list \<Rightarrow> role_binding list \<Rightarrow> tenant list \<Rightarrow> role_summary list \<Rightarrow> identity \<Rightarrow> actor option" where
  "resolve_identity users groups bindings tenants roles ident =
     (let matchedUser = matchUser users ident;
          externalGroups = trimmed_set (id_Groups ident);
          localGroups = localGroupNames matchedUser ident externalGroups groups;
          current = identity_actor matchedUser ident (localGroups \<union> externalGroups);
          bound = fold (bind_roles (newRoleExpander roles) matchedUser localGroups) bindings current
      in if id_ProviderType ident \<noteq> AuthProviderTypeLocal \<and> matchedUser = None then None
         else Some (fold (own_tenant matchedUser) tenants bound))"

end
