(* ===== verification/Bff_Facts.thy ===== *)
theory Bff_Facts
  imports Bff_Actor Samples
begin

section \<open>Expansion of roles\<close>

text \<open>
  A call of \<open>visit\<close> that returns \<open>out'\<close> on \<open>out\<close>: it keeps what is there, adds names once, only names
  that \<open>name\<close> grants, and leaves no permission of a name it adds unvisited.
\<close>

definition kids :: "role_index \<Rightarrow> string \<Rightarrow> string \<Rightarrow> string list" where
  "kids roles scope name =
     (case map_of roles name of
        None \<Rightarrow> [] | Some role \<Rightarrow> if rl_Scope role \<noteq> scope then [] else rl_Permissions role)"

lemma visit_eq:
  "visit roles scope name out =
     (if name = '''' \<or> name \<in> set out then Some out
      else fold_opt (visit roles scope) (kids roles scope name) (out @ [name]))"
  by (subst visit.simps) (auto simp: kids_def split: option.splits)

lemma grants_kid: "grants roles scope n via \<Longrightarrow> p \<in> set (kids roles scope via) \<Longrightarrow> p \<noteq> '''' \<Longrightarrow> grants roles scope n p"
proof (cases "map_of roles via")
  case (Some role)
  assume "grants roles scope n via" "p \<in> set (kids roles scope via)" "p \<noteq> ''''"
  then show ?thesis using Some grants.permission [of roles scope n via role p] by (simp add: kids_def split: if_splits)
qed (simp add: kids_def)

lemma grants_trans: "grants roles scope m n \<Longrightarrow> grants roles scope l m \<Longrightarrow> grants roles scope l n"
  by (induction rule: grants.induct) (auto intro: grants.permission)

lemma grants_nonempty: "grants roles scope m n \<Longrightarrow> m \<noteq> ''''"
  by (induction rule: grants.induct) auto

definition explores :: "role_index \<Rightarrow> string \<Rightarrow> string set \<Rightarrow> string list \<Rightarrow> string list \<Rightarrow> bool" where
  "explores roles scope starts out out' \<longleftrightarrow>
     set out \<subseteq> set out' \<and> (distinct out \<longrightarrow> distinct out') \<and> starts - {''''} \<subseteq> set out' \<and>
     ('''' \<notin> set out \<longrightarrow> '''' \<notin> set out') \<and>
     (\<forall>m \<in> set out' - set out. (\<exists>n \<in> starts. grants roles scope n m) \<and> set (kids roles scope m) - {''''} \<subseteq> set out')"

lemma explores_refl: "explores roles scope {} out out"
  by (simp add: explores_def)

lemma explores_seq:
  assumes a: "explores roles scope S out mid" and b: "explores roles scope T mid out'"
  shows "explores roles scope (S \<union> T) out out'"
proof -
  have "\<exists>n \<in> S \<union> T. grants roles scope n m" "set (kids roles scope m) - {''''} \<subseteq> set out'"
    if m: "m \<in> set out' - set out" for m
  proof -
    show "\<exists>n \<in> S \<union> T. grants roles scope n m"
    proof (cases "m \<in> set mid")
      case True
      then have "\<exists>n \<in> S. grants roles scope n m" using a m by (simp add: explores_def)
      then show ?thesis by blast
    next
      case False
      then have "\<exists>n \<in> T. grants roles scope n m" using b m by (simp add: explores_def)
      then show ?thesis by blast
    qed
    show "set (kids roles scope m) - {''''} \<subseteq> set out'"
    proof (cases "m \<in> set mid")
      case True
      then have "set (kids roles scope m) - {''''} \<subseteq> set mid" using a m by (simp add: explores_def)
      then show ?thesis using b by (auto simp: explores_def)
    next
      case False
      then show ?thesis using b m by (simp add: explores_def)
    qed
  qed
  moreover have "S \<union> T - {''''} \<subseteq> set out'" using a b unfolding explores_def by auto
  ultimately show ?thesis using a b unfolding explores_def by auto
qed

text \<open>The names that are roles of this index and not visited yet bound the depth.\<close>

definition todo :: "role_index \<Rightarrow> string list \<Rightarrow> nat" where
  "todo roles out = card (fst ` set roles - set out)"

lemma todo_antimono: "set out \<subseteq> set out' \<Longrightarrow> todo roles out' \<le> todo roles out"
  unfolding todo_def by (rule card_mono) auto

lemma todo_visit: "map_of roles n \<noteq> None \<Longrightarrow> n \<notin> set out \<Longrightarrow> todo roles (out @ [n]) < todo roles out"
  unfolding todo_def
  by (rule psubset_card_mono) (auto simp: map_of_eq_None_iff)

lemma fold_visit:
  assumes "\<And>name out. todo roles out \<le> k \<Longrightarrow> \<exists>out'. visit roles scope name out = Some out' \<and> explores roles scope {name} out out'"
    and "todo roles out \<le> k"
  shows "\<exists>out'. fold_opt (visit roles scope) names out = Some out' \<and> explores roles scope (set names) out out'"
  using assms(2)
proof (induction names arbitrary: out)
  case Nil
  then show ?case using explores_refl by simp
next
  case (Cons n names)
  from assms(1) [OF Cons.prems] obtain mid
    where v: "visit roles scope n out = Some mid" and e: "explores roles scope {n} out mid" by blast
  have "todo roles mid \<le> k" using e Cons.prems todo_antimono [of out mid roles] by (simp add: explores_def)
  from Cons.IH [OF this] obtain out'
    where "fold_opt (visit roles scope) names mid = Some out'" "explores roles scope (set names) mid out'" by blast
  then show ?case using v explores_seq [OF e] by fastforce
qed

lemma visit_explores: "\<exists>out'. visit roles scope name out = Some out' \<and> explores roles scope {name} out out'"
proof (induction "todo roles out" arbitrary: name out rule: less_induct)
  case less
  show ?case
  proof (cases "name = '''' \<or> name \<in> set out")
    case True
    then show ?thesis by (auto simp: visit_eq [of _ _ name] explores_def)
  next
    case False
    have self: "grants roles scope name name" using False by (simp add: grants.itself)
    have "\<exists>out'. fold_opt (visit roles scope) (kids roles scope name) (out @ [name]) = Some out' \<and>
        explores roles scope (set (kids roles scope name)) (out @ [name]) out'"
    proof (cases "map_of roles name = None")
      case True
      then show ?thesis by (simp add: kids_def explores_refl)
    next
      case nonempty: False
      have lt: "todo roles (out @ [name]) < todo roles out" using todo_visit [OF nonempty] False by simp
      have "\<exists>r'. visit roles scope n r = Some r' \<and> explores roles scope {n} r r'"
        if "todo roles r \<le> todo roles (out @ [name])" for n r using less [of r n] that lt by simp
      then show ?thesis using fold_visit [of roles "todo roles (out @ [name])" scope "out @ [name]"] by simp
    qed
    then obtain out' where out': "fold_opt (visit roles scope) (kids roles scope name) (out @ [name]) = Some out'"
      and e: "explores roles scope (set (kids roles scope name)) (out @ [name]) out'" by blast
    have "\<exists>n \<in> {name}. grants roles scope n m" if "m \<in> set out' - set out" for m
    proof (cases "m = name")
      case True
      then show ?thesis using self by simp
    next
      case neq: False
      then have "m \<in> set out' - set (out @ [name])" using that by simp
      then obtain p where p: "p \<in> set (kids roles scope name)" "grants roles scope p m" using e unfolding explores_def by blast
      have "p \<noteq> ''''" using p(2) by (rule grants_nonempty)
      then show ?thesis using grants_trans [OF p(2)] grants_kid [OF self p(1)] by simp
    qed
    moreover have "set (kids roles scope m) - {''''} \<subseteq> set out'" if "m \<in> set out' - set out" for m
      using e that unfolding explores_def by (cases "m = name") auto
    moreover have "name \<in> set out'" using e unfolding explores_def by auto
    ultimately have "explores roles scope {name} out out'" using e False unfolding explores_def by auto
    then show ?thesis using out' False by (simp add: visit_eq [of _ _ name])
  qed
qed

lemma visit_expands: "\<exists>names. expand index role scope = Some names \<and> distinct names \<and> set names = {n. grants index scope role n}"
proof -
  obtain names where names: "visit index scope role [] = Some names"
    and e: "explores index scope {role} [] names" using visit_explores by blast
  have "n \<in> set names" if "grants index scope role n" for n
    using that
  proof (induction rule: grants.induct)
    case itself
    then show ?case using e unfolding explores_def by auto
  next
    case (permission via r p)
    then have "p \<in> set (kids index scope via)" by (simp add: kids_def)
    then show ?case using permission e unfolding explores_def by auto
  qed
  then have "set names = {n. grants index scope role n}" using e unfolding explores_def by auto
  then show ?thesis using names e unfolding expand_def explores_def by auto
qed

text \<open>
  C17 Whatever roles are defined, including ones that name themselves or each other among their
  permissions, expanding a role in a scope returns, and lists each name that the role grants in that scope,
  directly or through permissions, exactly once.
\<close>

theorem expansion_returns:
  "\<exists>names. expand index role scope = Some names \<and> distinct names \<and> set names = {n. grants index scope role n}"
  by (rule visit_expands)

section \<open>The roles of an actor\<close>

lemma expanded_grants: "expanded index scope roles = {n. \<exists>r \<in> set roles. grants index scope r n}"
proof -
  have "set (case expand index role scope of None \<Rightarrow> [] | Some names \<Rightarrow> names) = {n. grants index scope role n}" for role
    using visit_expands [of index role scope] by auto
  then show ?thesis by (auto simp: expanded_def)
qed

text \<open>What a binding and what owning a tenant give to an actor.\<close>

definition platform_grant :: "role_index \<Rightarrow> user option \<Rightarrow> string set \<Rightarrow> actor \<Rightarrow> role_binding \<Rightarrow> string \<Rightarrow> bool" where
  "platform_grant index u locals a b r \<longleftrightarrow>
     bindingAppliesToActor b a u locals \<and> rbs_scope (rbd_spec b) = AccessScopePlatform \<and>
     (\<exists>r0 \<in> set (rbs_roles (rbd_spec b)). grants index AccessScopePlatform r0 r)"

definition tenant_grant ::
  "role_index \<Rightarrow> user option \<Rightarrow> string set \<Rightarrow> actor \<Rightarrow> role_binding \<Rightarrow> string \<Rightarrow> string \<Rightarrow> bool" where
  "tenant_grant index u locals a b t r \<longleftrightarrow>
     bindingAppliesToActor b a u locals \<and> rbs_scope (rbd_spec b) = AccessScopeTenant \<and> t \<noteq> '''' \<and>
     map_option lr_name (rbs_tenantRef (rbd_spec b)) = Some t \<and>
     (\<exists>r0 \<in> set (rbs_roles (rbd_spec b)). grants index AccessScopeTenant r0 r)"

definition tenant_roles :: "actor \<Rightarrow> string \<Rightarrow> string set" where
  "tenant_roles a t = (case map_of (av_TenantRoles a) t of None \<Rightarrow> {} | Some rs \<Rightarrow> rs)"

text \<open>The fields that bindings and owners are matched with stay as they are.\<close>

definition same_person :: "actor \<Rightarrow> actor \<Rightarrow> bool" where
  "same_person a b \<longleftrightarrow> av_Email a = av_Email b \<and> av_Subject a = av_Subject b \<and> av_UserName a = av_UserName b \<and>
     av_Groups a = av_Groups b"

lemma same_person_refl [simp]: "same_person a a"
  by (simp add: same_person_def)

lemma same_person_trans: "same_person a b \<Longrightarrow> same_person b c \<Longrightarrow> same_person a c"
  by (simp add: same_person_def)

lemma applies_person: "same_person a b \<Longrightarrow> bindingAppliesToActor x a u l = bindingAppliesToActor x b u l"
  by (simp add: same_person_def bindingAppliesToActor_def)

lemma owner_person: "same_person a b \<Longrightarrow> tenantVisibleLegacy a u t = tenantVisibleLegacy b u t"
  by (simp add: same_person_def tenantVisibleLegacy_def)

lemma grant_person:
  "same_person a b \<Longrightarrow> platform_grant index u l a x r = platform_grant index u l b x r"
  "same_person a b \<Longrightarrow> tenant_grant index u l a x t r = tenant_grant index u l b x t r"
  by (simp_all add: platform_grant_def tenant_grant_def applies_person)

lemma add_tenant_roles_simps [simp]:
  "av_Roles (add_tenant_roles t names a) = av_Roles a"
  "tenant_roles (add_tenant_roles t names a) t' = (if t' = t then tenant_roles a t \<union> names else tenant_roles a t')"
  "same_person a (add_tenant_roles t names a)"
  by (simp_all add: add_tenant_roles_def tenant_roles_def same_person_def Let_def update_conv')

lemma bind_roles_person: "same_person a (bind_roles index u l x a)"
  by (simp add: bind_roles_def Let_def same_person_def [of _ "_\<lparr>av_Roles := _\<rparr>"] split: option.splits)

lemma bind_roles_roles:
  "r \<in> av_Roles (bind_roles index u l x a) \<longleftrightarrow> r \<in> av_Roles a \<or> platform_grant index u l a x r"
  by (auto simp: bind_roles_def Let_def platform_grant_def expanded_grants split: option.splits)

lemma bind_roles_tenant:
  "r \<in> tenant_roles (bind_roles index u l x a) t \<longleftrightarrow> r \<in> tenant_roles a t \<or> tenant_grant index u l a x t r"
  by (auto simp: bind_roles_def Let_def tenant_grant_def expanded_grants tenant_roles_def [of "_\<lparr>av_Roles := _\<rparr>"]
      tenant_roles_def [of a] split: option.splits if_splits)

lemma fold_bind_roles:
  "same_person a (fold (bind_roles index u l) bs a)"
  "r \<in> av_Roles (fold (bind_roles index u l) bs a) \<longleftrightarrow> r \<in> av_Roles a \<or> (\<exists>b \<in> set bs. platform_grant index u l a b r)"
  "r \<in> tenant_roles (fold (bind_roles index u l) bs a) t \<longleftrightarrow>
     r \<in> tenant_roles a t \<or> (\<exists>b \<in> set bs. tenant_grant index u l a b t r)"
proof (induction bs arbitrary: a)
  case Nil
  { case 1 then show ?case by simp }
  { case 2 then show ?case by simp }
  { case 3 then show ?case by simp }
next
  case (Cons b bs)
  note person = bind_roles_person [of _ index u l b]
  { case 1 show ?case unfolding fold_simps by (rule same_person_trans [OF person Cons(1)]) }
  { case 2 then show ?case using Cons(2) grant_person(1) [OF person] by (auto simp: bind_roles_roles) }
  { case 3 then show ?case using Cons(3) grant_person(2) [OF person] by (auto simp: bind_roles_tenant) }
qed

lemma fold_own_tenant:
  "same_person a (fold (own_tenant u) ts a)"
  "av_Roles (fold (own_tenant u) ts a) = av_Roles a"
  "r \<in> tenant_roles (fold (own_tenant u) ts a) t \<longleftrightarrow> r \<in> tenant_roles a t \<or>
      r = RoleTenantAdmin \<and> (\<exists>x \<in> set ts. m_name (tn_meta x) = t \<and> tenantVisibleLegacy a u x)"
proof (induction ts arbitrary: a)
  case Nil
  { case 1 then show ?case by simp }
  { case 2 then show ?case by simp }
  { case 3 then show ?case by simp }
next
  case (Cons x ts)
  have person: "same_person a (own_tenant u x a)" for a by (simp add: own_tenant_def)
  { case 1 show ?case unfolding fold_simps by (rule same_person_trans [OF person Cons(1)]) }
  { case 2 then show ?case using Cons(2) by (simp add: own_tenant_def) }
  { case 3
    have "tenantVisibleLegacy (own_tenant u x a) u y = tenantVisibleLegacy a u y" for a y
      using owner_person [OF person] by simp
    then show ?case using Cons(3) by (auto simp: own_tenant_def) }
qed

lemma identity_actor_roles [simp]: "av_Roles (identity_actor u ident gs) = {}" "tenant_roles (identity_actor u ident gs) t = {}"
  by (simp_all add: identity_actor_def tenant_roles_def Let_def split: option.splits)

text \<open>The Servicer groups that an identity is in.\<close>

definition groups_of :: "user list \<Rightarrow> group list \<Rightarrow> identity \<Rightarrow> string set" where
  "groups_of users groups ident =
     localGroupNames (matchUser users ident) ident (trimmed_set (id_Groups ident)) groups"

text \<open>
  C12 The roles of an actor are exactly those that the role bindings and the ownership of tenants give it: a
  platform role comes from a platform binding that names the actor or one of its groups and a role that
  grants it; a role in a tenant comes from a binding to that tenant, or is tenant admin for an owner of it. An
  identity of another provider than the local one resolves only when a user is linked to it.
\<close>

theorem roles_are_bound:
  assumes "resolve_identity users groups bindings ts roles ident = Some a"
  shows "(r \<in> av_Roles a \<longleftrightarrow> (\<exists>b \<in> set bindings.
        platform_grant (newRoleExpander roles) (matchUser users ident) (groups_of users groups ident) a b r)) \<and>
    (r \<in> tenant_roles a t \<longleftrightarrow>
      (\<exists>b \<in> set bindings.
        tenant_grant (newRoleExpander roles) (matchUser users ident) (groups_of users groups ident) a b t r) \<or>
      r = RoleTenantAdmin \<and>
      (\<exists>x \<in> set ts. m_name (tn_meta x) = t \<and> tenantVisibleLegacy a (matchUser users ident) x)) \<and>
    (id_ProviderType ident = AuthProviderTypeLocal \<or> (\<exists>u \<in> set users. matchUser users ident = Some u))"
proof (intro conjI)
  define u where "u = matchUser users ident"
  define l where "l = groups_of users groups ident"
  define c where "c = identity_actor u ident (l \<union> trimmed_set (id_Groups ident))"
  define d where "d = fold (bind_roles (newRoleExpander roles) u l) bindings c"
  have a: "a = fold (own_tenant u) ts d" and linked: "id_ProviderType ident = AuthProviderTypeLocal \<or> u \<noteq> None"
    using assms by (auto simp: resolve_identity_def Let_def u_def l_def c_def d_def groups_of_def split: if_splits)
  have cd: "same_person c d" and da: "same_person d a"
    unfolding d_def a using fold_bind_roles(1) fold_own_tenant(1) by blast+
  note ca = same_person_trans [OF cd da]
  have "av_Roles a = av_Roles d" unfolding a by (rule fold_own_tenant(2))
  then show "r \<in> av_Roles a \<longleftrightarrow> (\<exists>b \<in> set bindings.
        platform_grant (newRoleExpander roles) (matchUser users ident) (groups_of users groups ident) a b r)"
    using grant_person(1) [OF ca] fold_bind_roles(2) [of r "newRoleExpander roles" u l bindings c]
    by (simp add: c_def d_def flip: u_def l_def)
  have "r \<in> tenant_roles d t \<longleftrightarrow> (\<exists>b \<in> set bindings. tenant_grant (newRoleExpander roles) u l a b t r)"
    unfolding d_def fold_bind_roles(3) using grant_person(2) [OF ca] by (simp add: c_def)
  moreover have "tenantVisibleLegacy d u x = tenantVisibleLegacy a u x" for x by (rule owner_person [OF da])
  ultimately show "r \<in> tenant_roles a t \<longleftrightarrow>
      (\<exists>b \<in> set bindings.
        tenant_grant (newRoleExpander roles) (matchUser users ident) (groups_of users groups ident) a b t r) \<or>
      r = RoleTenantAdmin \<and>
      (\<exists>x \<in> set ts. m_name (tn_meta x) = t \<and> tenantVisibleLegacy a (matchUser users ident) x)"
    using fold_own_tenant(3) [of r u ts d t] by (simp flip: u_def l_def a)
  show "id_ProviderType ident = AuthProviderTypeLocal \<or> (\<exists>u \<in> set users. matchUser users ident = Some u)"
    using linked by (auto simp: u_def matchUser_def Let_def find_Some_iff)
qed

definition sampleUser :: user where
  "sampleUser = \<lparr>u_meta = sampleMeta ''ann'',
     u_spec = \<lparr>usr_displayName = '''', usr_email = '''', usr_localAuth = None,
       usr_externalIdentities = [\<lparr>ei_providerRef = \<lparr>lr_name = ''idp''\<rparr>, ei_subject = ''s1''\<rparr>]\<rparr>,
     u_status = \<lparr>ust_observedGeneration = 0, ust_conditions = []\<rparr>\<rparr>"

definition sampleBinding :: "string \<Rightarrow> string \<Rightarrow> role_binding" where
  "sampleBinding who role = \<lparr>rbd_meta = sampleMeta ''b'',
     rbd_spec = \<lparr>rbs_displayName = '''', rbs_scope = AccessScopePlatform, rbs_tenantRef = None,
       rbs_subjects = [\<lparr>sr_kind = ''User'', sr_name = who\<rparr>], rbs_roles = [role]\<rparr>,
     rbd_status = \<lparr>rbt_observedGeneration = 0, rbt_conditions = []\<rparr>\<rparr>"

definition sampleIdentity :: "string \<Rightarrow> string \<Rightarrow> string \<Rightarrow> string \<Rightarrow> identity" where
  "sampleIdentity provider kind subject email = \<lparr>id_ProviderName = provider, id_ProviderType = kind,
     id_Subject = subject, id_AltSubjects = [], id_Name = '''', id_Email = email, id_Groups = []\<rparr>"

theorem roles_are_bound_witness:
  "\<exists>a. resolve_identity [sampleUser] [] [sampleBinding ''ann'' RoleAuditor] [sampleTenant] []
       (sampleIdentity ''idp'' ''oidc'' ''s1'' '''') = Some a \<and>
     RoleAuditor \<in> av_Roles a \<and> RoleTenantAdmin \<in> tenant_roles a ''acme''"
proof -
  define ident where "ident = sampleIdentity ''idp'' ''oidc'' ''s1'' ''''"
  have trimmed: "trimSpace ''s1'' = ''s1''" by code_simp
  have matched: "matchUser [sampleUser] ident = Some sampleUser"
    by (simp add: matchUser_def ident_def sampleIdentity_def sampleUser_def trimmed_set_def trimmed Let_def)
  have ann: "m_name (u_meta sampleUser) = ''ann''" by (simp add: sampleUser_def)
  from matched obtain a where a: "resolve_identity [sampleUser] [] [sampleBinding ''ann'' RoleAuditor] [sampleTenant] [] ident = Some a"
    by (auto simp: resolve_identity_def Let_def)
  have "RoleAuditor \<in> av_Roles a"
    by (subst roles_are_bound [OF a, THEN conjunct1])
       (auto simp: matched ann platform_grant_def bindingAppliesToActor_def sampleBinding_def intro: grants.itself)
  moreover have "RoleTenantAdmin \<in> tenant_roles a ''acme''"
    by (subst roles_are_bound [OF a, THEN conjunct2, THEN conjunct1])
       (simp add: matched ann tenantVisibleLegacy_def sampleTenant_def)
  ultimately show ?thesis using a unfolding ident_def by blast
qed

text \<open>
  A binding also applies to an actor whose email is the name of its subject, and where the linked user has
  no email of its own that is the email claim of the token, whoever the provider lets choose it.
\<close>

lemma email_claim_binds:
  assumes "resolve_identity users groups bindings ts roles ident = Some a"
    and "matchUser users ident = Some u" "blank (usr_email (u_spec u))" "\<not> blank (id_Email ident)"
    and "b \<in> set bindings" "rbs_scope (rbd_spec b) = AccessScopePlatform" "RolePlatformAdmin \<in> set (rbs_roles (rbd_spec b))"
    and "\<lparr>sr_kind = ''User'', sr_name = id_Email ident\<rparr> \<in> set (rbs_subjects (rbd_spec b))"
  shows "isPlatformAdmin a"
proof -
  define l where "l = groups_of users groups ident"
  define c where "c = identity_actor (Some u) ident (l \<union> trimmed_set (id_Groups ident))"
  define d where "d = fold (bind_roles (newRoleExpander roles) (Some u) l) bindings c"
  have a: "a = fold (own_tenant (Some u)) ts d"
    using assms(1,2) by (auto simp: resolve_identity_def Let_def l_def c_def d_def groups_of_def split: if_splits)
  have "av_Email c = id_Email ident" using assms(3,4) by (simp add: c_def identity_actor_def Let_def)
  then have "bindingAppliesToActor b c (Some u) l"
    using assms(8) by (force simp: bindingAppliesToActor_def list_ex_iff)
  then have "platform_grant (newRoleExpander roles) (Some u) l c b RolePlatformAdmin"
    using assms(6,7) by (auto simp: platform_grant_def intro!: bexI [of _ RolePlatformAdmin] grants.itself)
  then have "RolePlatformAdmin \<in> av_Roles d" using assms(5) by (auto simp: d_def fold_bind_roles(2))
  then have "RolePlatformAdmin \<in> av_Roles a" by (simp add: a fold_own_tenant(2))
  then show ?thesis by (auto simp: isPlatformAdmin_def hasAny_def platformRoleSatisfies_def)
qed

end
