(* ===== verification/Bff_World.thy ===== *)
theory Bff_World
  imports Bff_Actor Control_World
begin

text \<open>
  The management cluster as the backend for frontend sees it, the calls it makes there, the answers of
  its handlers and the authorization of an actor for tenants, projects, instances and actions
  (\<open>internal/bff/authorization.go\<close>, \<open>resolveActor\<close> of \<open>authenticator.go\<close>, \<open>authRolesFromClient\<close> of
  \<open>auth_admin.go\<close>, \<open>writeError\<close> of \<open>server.go\<close>).

  The kinds that the reconcilers work on are those of \<open>Control_World\<close>; all calls share its faults.
\<close>

section \<open>Objects and calls\<close>

record config_map =
  cm_labels :: "(string, string) gomap"
  cm_data :: "(string, string) gomap"

record portal =
  pw_control :: control
  pw_users :: "(string, user) gomap"
  pw_groups :: "(string, group) gomap"
  pw_bindings :: "(string, role_binding) gomap"
  pw_providers :: "(string, auth_provider) gomap"
  pw_actions :: "(string, action_request) gomap"
  pw_secrets :: "(key, secret) gomap"
  pw_configMaps :: "(key, config_map) gomap"

type_synonym 'a portal_call = "portal \<Rightarrow> (api_error + 'a) \<times> portal"

definition on_portal :: "(control \<Rightarrow> 'a \<times> control) \<Rightarrow> portal \<Rightarrow> 'a \<times> portal" where
  "on_portal f s = (case f (pw_control s) of (r, c) \<Rightarrow> (r, s\<lparr>pw_control := c\<rparr>))"

definition portal_get :: "'a kind \<Rightarrow> string \<Rightarrow> 'a portal_call" where
  "portal_get kd n = on_portal (get_obj kd n)"

definition portal_list :: "'a kind \<Rightarrow> 'a list portal_call" where
  "portal_list kd = on_portal (list_obj kd)"

definition portal_fault :: "portal \<Rightarrow> fault \<times> portal" where
  "portal_fault = on_portal control_fault"

text \<open>A read of the other kinds: a \<open>Get\<close>, which may find nothing, and a \<open>List\<close>.\<close>

definition fetch :: "(portal \<Rightarrow> 'a option) \<Rightarrow> 'a portal_call" where
  "fetch sel s =
     (case portal_fault s of
        (Refused e, s) \<Rightarrow> (Inl e, s)
      | (Lost e, s) \<Rightarrow> (Inl e, s)
      | (Works, s) \<Rightarrow> (case sel s of None \<Rightarrow> (Inl NotFound, s) | Some x \<Rightarrow> (Inr x, s)))"

definition fetch_all :: "(portal \<Rightarrow> 'a list) \<Rightarrow> 'a list portal_call" where
  "fetch_all sel s =
     (case portal_fault s of
        (Refused e, s) \<Rightarrow> (Inl e, s)
      | (Lost e, s) \<Rightarrow> (Inl e, s)
      | (Works, s) \<Rightarrow> (Inr (sel s), s))"

definition portal_write :: "(portal \<Rightarrow> api_error option) \<Rightarrow> (portal \<Rightarrow> portal) \<Rightarrow> unit portal_call" where
  "portal_write ok effect s =
     (case portal_fault s of
        (Refused e, s) \<Rightarrow> (Inl e, s)
      | (Lost e, s) \<Rightarrow> (Inl e, if ok s = None then effect s else s)
      | (Works, s) \<Rightarrow> (case ok s of Some e \<Rightarrow> (Inl e, s) | None \<Rightarrow> (Inr (), effect s)))"

section \<open>Answers\<close>

text \<open>
  What a handler writes: the HTTP status with the text of an error, or with what it was asked for.
  \<open>writeError\<close> hides the cause; a cancelled request and a passed deadline are not told apart from other
  failures of a call.
\<close>

datatype 'a answer = Fails int string | Answers int 'a

definition writeError :: "api_error \<Rightarrow> 'a answer" where
  "writeError e =
     (if e = NoMatch then Fails 503 ''service temporarily unavailable''
      else Fails 500 ''internal server error'')"

type_synonym 'a handler = "portal \<Rightarrow> 'a answer \<times> portal"

text \<open>A call whose error ends the request with \<open>failed\<close>.\<close>

definition on_error :: "(api_error + 'a) \<times> portal \<Rightarrow> (api_error \<Rightarrow> 'b answer) \<Rightarrow> ('a \<Rightarrow> 'b handler) \<Rightarrow> 'b answer \<times> portal" where
  "on_error r failed f = (case r of (Inl e, s) \<Rightarrow> (failed e, s) | (Inr x, s) \<Rightarrow> f x s)"

definition or_answer :: "(api_error + 'a) \<times> portal \<Rightarrow> ('a \<Rightarrow> 'b handler) \<Rightarrow> 'b answer \<times> portal" where
  "or_answer r f = on_error r writeError f"

lemma or_answer_simps [simp]: "or_answer (Inl e, s) f = (writeError e, s)" "or_answer (Inr x, s) f = f x s"
  by (simp_all add: or_answer_def on_error_def)

lemma or_answer_Answers:
  "or_answer m f = (Answers c y, s') \<longleftrightarrow> (\<exists>x s. m = (Inr x, s) \<and> f x s = (Answers c y, s'))"
  by (cases m; cases "fst m") (auto simp: or_answer_def on_error_def writeError_def)

section \<open>Identities\<close>

abbreviation authSecretNamespace :: string where "authSecretNamespace \<equiv> ''servicer-system''"

definition role_texts :: "portal \<Rightarrow> string list" where
  "role_texts s =
     map (\<lambda>(k, m). map_get (cm_data m) ''role.json'')
       (filter (\<lambda>((ns, n), m). ns = authSecretNamespace \<and> map_of (cm_labels m) ''servicer.io/type'' = Some ''auth-role'')
         (pw_configMaps s))"

definition authRolesFromClient :: "role_summary list portal_call" where
  "authRolesFromClient s =
     (case fetch_all role_texts s of
        (Inl e, s) \<Rightarrow> (Inl e, s)
      | (Inr texts, s) \<Rightarrow> (Inr (rolesFromTexts texts), s))"

definition resolveActor :: "identity \<Rightarrow> portal \<Rightarrow> (go_error + actor) \<times> portal" where
  "resolveActor ident s =
     and_then (pass (fetch_all (\<lambda>s. map snd (pw_users s)) s)) (\<lambda>users s.
     and_then (pass (fetch_all (\<lambda>s. map snd (pw_groups s)) s)) (\<lambda>groups s.
     and_then (pass (fetch_all (\<lambda>s. map snd (pw_bindings s)) s)) (\<lambda>bindings s.
     and_then (pass (portal_list tenants s)) (\<lambda>ts s.
     and_then (pass (authRolesFromClient s)) (\<lambda>roles s.
       (case resolve_identity users groups bindings ts roles ident of
          None \<Rightarrow> (Inl (Errorf ''external identity is not linked to a Servicer user''), s)
        | Some a \<Rightarrow> (Inr a, s)))))))"

section \<open>Authorization\<close>

definition tenantVisibleToActor :: "actor \<Rightarrow> tenant \<Rightarrow> bool" where
  "tenantVisibleToActor a t \<longleftrightarrow>
     (if isPlatformAdmin a then True
      else if hasTenantAccess a (m_name (tn_meta t)) then True
      else av_Name a \<noteq> '''' \<and>
           list_ex (\<lambda>user. user = av_Name a \<or> user = av_Email a \<or> user = av_UserName a \<or> user = av_Subject a)
             (ow_users (tns_owners (tn_spec t))) \<or>
           list_ex (\<lambda>gr. gr \<in> av_Groups a) (ow_groups (tns_owners (tn_spec t))))"

definition visibleTenants :: "actor \<Rightarrow> tenant list \<Rightarrow> tenant list" where
  "visibleTenants a ts = (if isPlatformAdmin a then ts else filter (tenantVisibleToActor a) ts)"

definition visibleProjects :: "actor \<Rightarrow> project list \<Rightarrow> tenant list \<Rightarrow> project list" where
  "visibleProjects a ps ts =
     (if isPlatformAdmin a then ps
      else (let allowedTenants = set (map (\<lambda>t. m_name (tn_meta t)) (visibleTenants a ts)) in
            filter (\<lambda>p. lr_name (prs_tenantRef (pj_spec p)) \<in> allowedTenants) ps))"

definition visibleInstances :: "actor \<Rightarrow> service_instance list \<Rightarrow> project list \<Rightarrow> tenant list \<Rightarrow> service_instance list" where
  "visibleInstances a instances ps ts =
     (if isPlatformAdmin a then instances
      else (let allowedProjects = set (map (\<lambda>p. m_name (pj_meta p)) (visibleProjects a ps ts)) in
            filter (\<lambda>i. lr_name (sis_projectRef (si_spec i)) \<in> allowedProjects) instances))"

definition visibleActions :: "actor \<Rightarrow> action_request list \<Rightarrow> service_instance list \<Rightarrow> action_request list" where
  "visibleActions a actions instances =
     (if isPlatformAdmin a then actions
      else (let allowedInstances = set (map (\<lambda>i. m_name (si_meta i)) instances) in
            filter (\<lambda>x. tr_name (ars_targetRef (ar_spec x)) \<in> allowedInstances) actions))"

definition requireTenantAccess :: "actor \<Rightarrow> string \<Rightarrow> portal \<Rightarrow> (go_error + unit) \<times> portal" where
  "requireTenantAccess a tenantName s =
     (if isPlatformAdmin a then (Inr (), s)
      else and_then (pass (portal_get tenants tenantName s)) (\<lambda>t s.
        (if tenantVisibleToActor a t then (Inr (), s) else (Inl (Errorf ''forbidden''), s))))"

definition projectForInstance :: "service_instance \<Rightarrow> project portal_call" where
  "projectForInstance i = portal_get projects (lr_name (sis_projectRef (si_spec i)))"

definition authorizeProject :: "actor \<Rightarrow> project \<Rightarrow> portal \<Rightarrow> bool \<times> portal" where
  "authorizeProject a p s =
     (if isPlatformAdmin a then (True, s)
      else (case portal_get tenants (lr_name (prs_tenantRef (pj_spec p))) s of
              (Inl e, s) \<Rightarrow> (False, s)
            | (Inr t, s) \<Rightarrow> (tenantVisibleToActor a t, s)))"

definition authorizeInstance :: "actor \<Rightarrow> service_instance \<Rightarrow> portal \<Rightarrow> bool \<times> portal" where
  "authorizeInstance a i s =
     (if isPlatformAdmin a then (True, s)
      else (case projectForInstance i s of
              (Inl e, s) \<Rightarrow> (False, s)
            | (Inr p, s) \<Rightarrow> authorizeProject a p s))"

text \<open>\<open>requireRole\<close> with the roles that most handlers ask for, and what follows it.\<close>

definition requireRole :: "actor \<Rightarrow> string list \<Rightarrow> 'a handler \<Rightarrow> 'a handler" where
  "requireRole a roles f s =
     (if hasAny a roles then f s else (Fails 403 ''insufficient Servicer role'', s))"

definition requirePlatformRole :: "actor \<Rightarrow> string list \<Rightarrow> 'a handler \<Rightarrow> 'a handler" where
  "requirePlatformRole a roles f s =
     (if list_ex (\<lambda>role. role \<in> av_Roles a) roles then f s else (Fails 403 ''insufficient Servicer role'', s))"

end
