(* ===== verification/Bff_Sessions.thy ===== *)
theory Bff_Sessions
  imports Bff_World
begin

text \<open>
  How a request gets its actor (\<open>internal/bff/authenticator.go\<close>, and \<open>withCSRF\<close>, \<open>withAuthentication\<close> of
  \<open>server.go\<close>): bearer tokens and session cookies, the identities they stand for, and the two middlewares
  in front of every handler.

  The go-oidc and oauth2 libraries with the cached discovery of a provider, and the sealed cookie, are
  fields of \<open>auth_env\<close>; nothing is assumed of them.
\<close>

section \<open>Requests\<close>

text \<open>\<open>hq_header\<close> is \<open>Header.Get\<close>: the first value, empty where the header is absent.\<close>

record http_request =
  hq_method :: string
  hq_path :: string
  hq_rawQuery :: string
  hq_header :: "string \<Rightarrow> string"
  hq_cookie :: "string \<Rightarrow> string option"

text \<open>\<open>strings.SplitN(s, sep, 2)\<close> for a separator of one byte.\<close>

definition cut2 :: "char \<Rightarrow> string \<Rightarrow> string list" where
  "cut2 d s =
     (let p = takeWhile (\<lambda>c. c \<noteq> d) s in
      if length p = length s then [s] else [p, drop (Suc (length p)) s])"

definition authorizationBearerToken :: "string \<Rightarrow> string" where
  "authorizationBearerToken header =
     (let trimmed = trimSpace header in
      if trimmed = '''' then ''''
      else (case cut2 (CHR '' '') trimmed of
              [scheme, rest] \<Rightarrow> if \<not> equalFold scheme ''Bearer'' then '''' else trimSpace rest
            | _ \<Rightarrow> ''''))"

section \<open>Tokens and sessions\<close>

record session =
  se_ProviderName :: string
  se_ProviderType :: string
  se_Subject :: string
  se_Name :: string
  se_Email :: string
  se_Groups :: "string list"
  se_IDToken :: string
  se_RefreshToken :: string
  se_ExpiryUnix :: int

record id_token =
  it_Issuer :: string
  it_Subject :: string
  it_Claims :: "(string \<times> goval) list option"
  it_ExpiryUnix :: int

record oidc_runtime =
  or_provider :: auth_provider
  or_usernameClaim :: string
  or_emailClaim :: string
  or_groupsClaim :: string

record oauth_token =
  ot_idToken :: string
  ot_refreshToken :: string

type_synonym 'a auth_step = "portal \<Rightarrow> (go_error + 'a) \<times> portal"

record auth_env =
  ax_allowTestHeaders :: bool
  ax_oidcProvider :: "auth_provider \<Rightarrow> oidc_runtime auth_step"
  ax_verify :: "oidc_runtime \<Rightarrow> string \<Rightarrow> go_error + id_token"
  ax_refresh :: "oidc_runtime \<Rightarrow> string \<Rightarrow> go_error + oauth_token"
  ax_openSession :: "string \<Rightarrow> go_error + session"

definition oidcSubject :: "string \<Rightarrow> string \<Rightarrow> string" where
  "oidcSubject issuer sub =
     (if trimSpace issuer = '''' then trimSpace sub else trimSpace issuer @ ''|'' @ trimSpace sub)"

definition stringClaim :: "(string \<times> goval) list \<Rightarrow> string \<Rightarrow> string" where
  "stringClaim claims k = (case map_of claims k of Some (GStr v) \<Rightarrow> trimSpace v | _ \<Rightarrow> '''')"

text \<open>
  A claim of names: text separated by commas, or a list whose entries that are no strings are left out.
  Claims are decoded into \<open>any\<close>, which gives no other Go types that hold names.
\<close>

fun claim_items :: "goval \<Rightarrow> string list" where
  "claim_items (GStr v) = split_on (CHR 0x2C) v"
| "claim_items (GArr vs) = List.map_filter (\<lambda>v. case v of GStr t \<Rightarrow> Some t | _ \<Rightarrow> None) vs"
| "claim_items _ = []"

definition setFromClaim :: "(string \<times> goval) list \<Rightarrow> string \<Rightarrow> string set" where
  "setFromClaim claims k = (case map_of claims k of None \<Rightarrow> {} | Some v \<Rightarrow> trimmed_set (claim_items v))"

definition listEnabledProviders :: "auth_provider list portal_call" where
  "listEnabledProviders s =
     (case fetch_all (\<lambda>s. map snd (pw_providers s)) s of
        (Inl e, s) \<Rightarrow> (Inl e, s)
      | (Inr all, s) \<Rightarrow>
          (Inr (sort_key (\<lambda>p. \<not> aps_default (apv_spec p)) (sort_key (\<lambda>p. m_name (apv_meta p))
             (filter (\<lambda>p. aps_enabled (apv_spec p)) all))), s))"

definition getProvider :: "string \<Rightarrow> auth_provider auth_step" where
  "getProvider name s =
     (let trimmed = trimSpace name in
      if trimmed = '''' then (Inl (Errorf ''auth provider is required''), s)
      else (case fetch (\<lambda>s. map_of (pw_providers s) trimmed) s of
              (Inl e, s) \<Rightarrow>
                (Inl (if e = NotFound then Errorf (''auth provider '' @ quote trimmed @ '' was not found'') else ApiError e), s)
            | (Inr p, s) \<Rightarrow>
                if \<not> aps_enabled (apv_spec p) then (Inl (Errorf (''auth provider '' @ quote trimmed @ '' is disabled'')), s)
                else (Inr p, s)))"

definition token_identity :: "oidc_runtime \<Rightarrow> id_token \<Rightarrow> (string \<times> goval) list \<Rightarrow> identity" where
  "token_identity rt token claims =
     (let rawSubject = trimSpace (it_Subject token) in
      \<lparr>id_ProviderName = m_name (apv_meta (or_provider rt)), id_ProviderType = aps_type (apv_spec (or_provider rt)),
       id_Subject = oidcSubject (it_Issuer token) rawSubject, id_AltSubjects = [rawSubject],
       id_Name = firstNonBlank [stringClaim claims (or_usernameClaim rt), stringClaim claims ''preferred_username'',
         stringClaim claims (or_emailClaim rt), rawSubject],
       id_Email = firstNonBlank [stringClaim claims (or_emailClaim rt), stringClaim claims ''email''],
       id_Groups = sorted_list_of_set (setFromClaim claims (or_groupsClaim rt))\<rparr>)"

definition sessionAndActorFromIDToken ::
  "auth_env \<Rightarrow> oidc_runtime \<Rightarrow> string \<Rightarrow> string \<Rightarrow> (session \<times> actor) auth_step" where
  "sessionAndActorFromIDToken env rt idTokenValue refreshToken s =
     (case ax_verify env rt idTokenValue of
        Inl e \<Rightarrow> (Inl e, s)
      | Inr token \<Rightarrow>
          (case it_Claims token of
             None \<Rightarrow> (Inl (Wrapf ''decode token claims: '' JsonError), s)
           | Some claims \<Rightarrow>
               if trimSpace (it_Subject token) = '''' then (Inl (Errorf ''token did not contain OIDC sub''), s)
               else (let ident = token_identity rt token claims in
                     and_then (resolveActor ident s) (\<lambda>a s.
                       (Inr (\<lparr>se_ProviderName = id_ProviderName ident, se_ProviderType = id_ProviderType ident,
                          se_Subject = id_Subject ident, se_Name = id_Name ident, se_Email = id_Email ident,
                          se_Groups = id_Groups ident, se_IDToken = idTokenValue, se_RefreshToken = refreshToken,
                          se_ExpiryUnix = it_ExpiryUnix token\<rparr>, a), s)))))"

definition refreshOIDCSession :: "auth_env \<Rightarrow> oidc_runtime \<Rightarrow> session \<Rightarrow> (session \<times> actor) auth_step" where
  "refreshOIDCSession env rt current s =
     (case ax_refresh env rt (se_RefreshToken current) of
        Inl e \<Rightarrow> (Inl (Wrapf ''refresh OIDC session: '' e), s)
      | Inr token \<Rightarrow>
          if trimSpace (ot_idToken token) = '''' then (Inl (Errorf ''OIDC token exchange did not return an id_token''), s)
          else sessionAndActorFromIDToken env rt (ot_idToken token) (trimSpace (ot_refreshToken token)) s)"

definition actorFromSession :: "auth_env \<Rightarrow> session \<Rightarrow> (session \<times> actor) auth_step" where
  "actorFromSession env current s =
     (if se_ProviderType current = AuthProviderTypeOIDC
      then and_then (getProvider (se_ProviderName current) s) (\<lambda>provider s.
           and_then (ax_oidcProvider env provider s) (\<lambda>rt s.
             (case sessionAndActorFromIDToken env rt (se_IDToken current) (se_RefreshToken current) s of
                (Inr x, s) \<Rightarrow> (Inr x, s)
              | (Inl e, s) \<Rightarrow>
                  if se_RefreshToken current \<noteq> ''''
                  then (case refreshOIDCSession env rt current s of
                          (Inr x, s) \<Rightarrow> (Inr x, s)
                        | (Inl _, s) \<Rightarrow> (Inl e, s))
                  else (Inl e, s))))
      else and_then (resolveActor \<lparr>id_ProviderName = se_ProviderName current, id_ProviderType = se_ProviderType current,
             id_Subject = se_Subject current, id_AltSubjects = [], id_Name = se_Name current,
             id_Email = se_Email current, id_Groups = se_Groups current\<rparr> s) (\<lambda>a s. (Inr (current, a), s)))"

text \<open>The first OIDC provider that accepts the token; otherwise the error of the last one.\<close>

fun try_providers :: "auth_env \<Rightarrow> string \<Rightarrow> auth_provider list \<Rightarrow> go_error option \<Rightarrow> (session \<times> actor) auth_step" where
  "try_providers env token [] lastErr s =
     (Inl (case lastErr of None \<Rightarrow> Errorf ''no enabled OIDC provider accepted the bearer token'' | Some e \<Rightarrow> e), s)"
| "try_providers env token (p # ps) lastErr s =
     (if aps_type (apv_spec p) \<noteq> AuthProviderTypeOIDC then try_providers env token ps lastErr s
      else (case ax_oidcProvider env p s of
              (Inl e, s) \<Rightarrow> try_providers env token ps (Some e) s
            | (Inr rt, s) \<Rightarrow>
                (case sessionAndActorFromIDToken env rt token '''' s of
                   (Inl e, s) \<Rightarrow> try_providers env token ps (Some e) s
                 | (Inr x, s) \<Rightarrow> (Inr x, s))))"

definition authenticateBearerToken :: "auth_env \<Rightarrow> string \<Rightarrow> (session \<times> actor) auth_step" where
  "authenticateBearerToken env token s =
     and_then (pass (listEnabledProviders s)) (\<lambda>providers. try_providers env token providers None)"

definition Authenticate :: "auth_env \<Rightarrow> http_request \<Rightarrow> actor auth_step" where
  "Authenticate env r s =
     (if ax_allowTestHeaders env then (Inr (actorFromHeaders (hq_header r)), s)
      else (let token = authorizationBearerToken (hq_header r ''Authorization'') in
        if token \<noteq> '''' then and_then (authenticateBearerToken env token s) (\<lambda>(_, a) s. (Inr a, s))
        else (case hq_cookie r ''servicer_session'' of
                None \<Rightarrow> (Inl (Errorf ''no authenticated session''), s)
              | Some value \<Rightarrow>
                  if trimSpace value = '''' then (Inl (Errorf ''no authenticated session''), s)
                  else (case ax_openSession env value of
                          Inl e \<Rightarrow> (Inl e, s)
                        | Inr current \<Rightarrow> and_then (actorFromSession env current s) (\<lambda>(_, a) s. (Inr a, s))))))"

section \<open>The middlewares\<close>

definition requiresCSRF :: "http_request \<Rightarrow> bool" where
  "requiresCSRF r \<longleftrightarrow>
     (if hq_method r \<in> {''GET'', ''HEAD'', ''OPTIONS''} then False
      else if hasPrefix (hq_path r) ''/api/auth/'' then False
      else if authorizationBearerToken (hq_header r ''Authorization'') \<noteq> '''' then False
      else hq_cookie r ''servicer_session'' \<noteq> None)"

text \<open>
  What is behind a middleware gets the actor that was put into the context of the request, if any, and
  answers with an \<open>'r\<close>; \<open>deny\<close> is the answer of an error.
\<close>

definition withCSRF :: "http_request \<Rightarrow> (int \<Rightarrow> string \<Rightarrow> 'r) \<Rightarrow> (portal \<Rightarrow> 'r \<times> portal) \<Rightarrow> portal \<Rightarrow> 'r \<times> portal" where
  "withCSRF r deny handle s =
     (if \<not> requiresCSRF r then handle s
      else (let token = trimSpace (hq_header r ''X-CSRF-Token'') in
            case hq_cookie r ''servicer_csrf'' of
              None \<Rightarrow> (deny 403 ''csrf token required'', s)
            | Some expected \<Rightarrow>
                if token = '''' \<or> expected = '''' \<or> token \<noteq> expected then (deny 403 ''csrf token required'', s)
                else handle s))"

definition public_paths :: "string list" where
  "public_paths =
     [''/api/healthz'', ''/metrics'', ''/api/auth/config'', ''/api/auth/session'', ''/api/auth/login'',
      ''/api/auth/logout'', ''/api/auth/callback'']"

definition withAuthentication ::
  "auth_env option \<Rightarrow> http_request \<Rightarrow> (int \<Rightarrow> string \<Rightarrow> 'r) \<Rightarrow> (actor option \<Rightarrow> portal \<Rightarrow> 'r \<times> portal) \<Rightarrow>
   portal \<Rightarrow> 'r \<times> portal" where
  "withAuthentication auth r deny handle s =
     (if hq_path r \<in> set public_paths then handle None s
      else (case auth of
              None \<Rightarrow> handle None s
            | Some env \<Rightarrow>
                (case Authenticate env r s of
                   (Inl _, s) \<Rightarrow> (deny 401 ''authentication failed'', s)
                 | (Inr a, s) \<Rightarrow> handle (Some a) s)))"

text \<open>\<open>NewServerWithConfig\<close> puts the one around the other.\<close>

definition served ::
  "auth_env option \<Rightarrow> http_request \<Rightarrow> (int \<Rightarrow> string \<Rightarrow> 'r) \<Rightarrow> (actor option \<Rightarrow> portal \<Rightarrow> 'r \<times> portal) \<Rightarrow>
   portal \<Rightarrow> 'r \<times> portal" where
  "served auth r deny handle = withCSRF r deny (withAuthentication auth r deny handle)"

definition actorFromRequest :: "http_request \<Rightarrow> actor option \<Rightarrow> actor" where
  "actorFromRequest r ctx = (case ctx of Some a \<Rightarrow> a | None \<Rightarrow> actorFromHeaders (hq_header r))"

end
