(* ===== verification/Bff_Login.thy ===== *)
theory Bff_Login
  imports Bff_Sessions
begin

text \<open>
  Password logins (\<open>handleAuthLogin\<close> of \<open>internal/bff/server.go\<close>, \<open>CompletePasswordLogin\<close> and what it calls in
  \<open>authenticator.go\<close>) and the limiter in front of them (\<open>security.go\<close>).

  A \<open>time.Time\<close> is the nanoseconds since its zero value, a \<open>time.Duration\<close> its nanoseconds. The password hash
  comparison and the exchange with an LDAP server are fields of \<open>login_env\<close>; nothing is assumed of them. The
  counters of the metrics are left out. Lower-casing is that of ASCII, which the names of users and providers are.
\<close>

section \<open>The limiter\<close>

type_synonym instant = int
type_synonym duration = int

record login_attempt =
  lg_count :: int
  lg_windowEnds :: instant
  lg_lockedUntil :: instant

record limiter =
  lm_limit :: int
  lm_window :: duration
  lm_lockout :: duration
  lm_retain :: duration
  lm_cleanup :: duration
  lm_lastSweep :: instant
  lm_attempts :: "(string, login_attempt) gomap"

abbreviation minutes :: "int \<Rightarrow> duration" where "minutes n \<equiv> n * 60000000000"

definition newMemoryLoginLimiter :: "int \<Rightarrow> duration \<Rightarrow> duration \<Rightarrow> duration \<Rightarrow> duration \<Rightarrow> limiter" where
  "newMemoryLoginLimiter limit window lockout retain cleanup =
     \<lparr>lm_limit = limit, lm_window = window, lm_lockout = lockout, lm_retain = retain, lm_cleanup = cleanup,
      lm_lastSweep = 0, lm_attempts = []\<rparr>"

definition productionMode :: "(string \<Rightarrow> string) \<Rightarrow> bool" where
  "productionMode getenv \<longleftrightarrow> equalFold (trimSpace (getenv ''SERVICER_PRODUCTION'')) ''true''"

definition newLoginLimiterFromEnv :: "(string \<Rightarrow> string) \<Rightarrow> go_error + limiter" where
  "newLoginLimiterFromEnv getenv =
     (let raw = map ascii_lower (trimSpace (getenv ''SERVICER_LOGIN_RATE_LIMIT_BACKEND''));
          backend = (if raw = '''' then ''memory'' else raw);
          accepted = equalFold (trimSpace (getenv ''SERVICER_LOGIN_RATE_LIMIT_ACCEPT_IN_MEMORY'')) ''true''
      in if backend = ''memory''
         then (if productionMode getenv \<and> \<not> accepted
               then Inl (Errorf ''SERVICER_LOGIN_RATE_LIMIT_BACKEND=memory is unsafe with multiple BFF replicas; set SERVICER_LOGIN_RATE_LIMIT_ACCEPT_IN_MEMORY=true only if you explicitly accept weak per-replica throttling'')
               else Inr (newMemoryLoginLimiter 5 (minutes 15) (minutes 15) (minutes 30) (minutes 1)))
         else Inl (Errorf (''unsupported login limiter backend '' @ quote backend)))"

definition no_attempt :: login_attempt where
  "no_attempt = \<lparr>lg_count = 0, lg_windowEnds = 0, lg_lockedUntil = 0\<rparr>"

definition attempt_of :: "limiter \<Rightarrow> string \<Rightarrow> login_attempt" where
  "attempt_of l k = (case map_of (lm_attempts l) k of None \<Rightarrow> no_attempt | Some a \<Rightarrow> a)"

definition attempt_expired :: "limiter \<Rightarrow> instant \<Rightarrow> login_attempt \<Rightarrow> bool" where
  "attempt_expired l now attempt \<longleftrightarrow>
     (let latest = (if lg_lockedUntil attempt > lg_windowEnds attempt then lg_lockedUntil attempt else lg_windowEnds attempt);
          expiry = (if lm_retain l > 0 then latest + lm_retain l else latest)
      in expiry \<noteq> 0 \<and> now > expiry)"

definition cleanupExpired :: "instant \<Rightarrow> limiter \<Rightarrow> limiter" where
  "cleanupExpired now l =
     (if lm_cleanup l > 0 \<and> lm_lastSweep l \<noteq> 0 \<and> now - lm_lastSweep l < lm_cleanup l then l
      else l\<lparr>lm_lastSweep := (if lm_cleanup l > 0 then now else lm_lastSweep l),
             lm_attempts := filter (\<lambda>(k, attempt). \<not> attempt_expired l now attempt) (lm_attempts l)\<rparr>)"

definition Allow :: "string \<Rightarrow> instant \<Rightarrow> limiter \<Rightarrow> bool \<times> limiter" where
  "Allow k now l =
     (let l = cleanupExpired now l; attempt = attempt_of l k in
      (lg_lockedUntil attempt = 0 \<or> now > lg_lockedUntil attempt, l))"

definition RecordFailure :: "string \<Rightarrow> instant \<Rightarrow> limiter \<Rightarrow> limiter" where
  "RecordFailure k now l =
     (let l = cleanupExpired now l;
          old = attempt_of l k;
          current = (if lg_windowEnds old = 0 \<or> now > lg_windowEnds old
                     then \<lparr>lg_count = 0, lg_windowEnds = now + lm_window l, lg_lockedUntil = 0\<rparr> else old);
          counted = current\<lparr>lg_count := lg_count current + 1\<rparr>;
          final = (if lg_count counted \<ge> lm_limit l then counted\<lparr>lg_lockedUntil := now + lm_lockout l\<rparr> else counted)
      in l\<lparr>lm_attempts := AList.update k final (lm_attempts l)\<rparr>)"

definition Reset :: "string \<Rightarrow> instant \<Rightarrow> limiter \<Rightarrow> limiter" where
  "Reset k now l = cleanupExpired now (l\<lparr>lm_attempts := AList.delete k (lm_attempts l)\<rparr>)"

text \<open>The address of the client is the one \<open>verifiedClientIP\<close> found.\<close>

definition loginRateLimitKey :: "string \<Rightarrow> string \<Rightarrow> string \<Rightarrow> string" where
  "loginRateLimitKey provider username clientIP =
     (let providerName = map ascii_lower (trimSpace provider); userName = map ascii_lower (trimSpace username) in
      (if providerName = '''' then ''unknown-provider'' else providerName) @ ''|'' @
      (if userName = '''' then ''unknown-user'' else userName) @ ''|'' @ clientIP)"

section \<open>Checking a password\<close>

record login_request =
  lr_Provider :: string
  lr_Username :: string
  lr_Password :: string

record login_env =
  le_compareHash :: "string \<Rightarrow> string \<Rightarrow> bool"
  le_authenticateLDAP :: "auth_provider \<Rightarrow> string \<Rightarrow> string \<Rightarrow> identity auth_step"
  le_errText :: "go_error \<Rightarrow> string"

definition readSecretValue :: "namespaced_ref \<Rightarrow> string \<Rightarrow> string auth_step" where
  "readSecretValue ref k s =
     and_then (pass (fetch (\<lambda>s. map_of (pw_secrets s) (nr_namespace ref, nr_name ref)) s)) (\<lambda>x s.
       (let value = trimSpace (map_get (sc_data x) k) in
        if value = ''''
        then (Inl (Errorf (''secret '' @ nr_namespace ref @ ''/'' @ nr_name ref @ '' did not contain key '' @ quote k)), s)
        else (Inr value, s)))"

definition localPasswordLogin :: "login_env \<Rightarrow> auth_provider \<Rightarrow> string \<Rightarrow> string \<Rightarrow> session auth_step" where
  "localPasswordLogin env provider user_name password s =
     (let username = trimSpace user_name; invalid = Errorf ''invalid username or password'' in
      if username = '''' \<or> password = '''' then (Inl (Errorf ''username and password are required''), s)
      else (case fetch (\<lambda>s. map_of (pw_users s) username) s of
              (Inl _, s) \<Rightarrow> (Inl invalid, s)
            | (Inr u, s) \<Rightarrow>
                (case usr_localAuth (u_spec u) of
                   None \<Rightarrow> (Inl (Errorf ''local login is not enabled for this user''), s)
                 | Some auth \<Rightarrow>
                     if \<not> la_enabled auth then (Inl (Errorf ''local login is not enabled for this user''), s)
                     else (case readSecretValue (la_passwordHashSecretRef auth) ''passwordHash'' s of
                             (Inl _, s) \<Rightarrow> (Inl invalid, s)
                           | (Inr hash, s) \<Rightarrow>
                               if \<not> le_compareHash env hash password then (Inl invalid, s)
                               else (Inr \<lparr>se_ProviderName = m_name (apv_meta provider), se_ProviderType = aps_type (apv_spec provider),
                                   se_Subject = m_name (u_meta u),
                                   se_Name = firstNonBlank [trimSpace (usr_displayName (u_spec u)), m_name (u_meta u)],
                                   se_Email = trimSpace (usr_email (u_spec u)), se_Groups = [], se_IDToken = '''',
                                   se_RefreshToken = '''', se_ExpiryUnix = 0\<rparr>, s)))))"

definition ldapPasswordLogin :: "login_env \<Rightarrow> auth_provider \<Rightarrow> string \<Rightarrow> string \<Rightarrow> session auth_step" where
  "ldapPasswordLogin env provider username password s =
     (if aps_ldap (apv_spec provider) = None then (Inl (Errorf ''LDAP provider is not configured''), s)
      else and_then (le_authenticateLDAP env provider username password s) (\<lambda>ident s.
           and_then (resolveActor ident s) (\<lambda>_ s.
             (Inr \<lparr>se_ProviderName = m_name (apv_meta provider), se_ProviderType = aps_type (apv_spec provider),
                se_Subject = id_Subject ident, se_Name = id_Name ident, se_Email = id_Email ident,
                se_Groups = id_Groups ident, se_IDToken = '''', se_RefreshToken = '''', se_ExpiryUnix = 0\<rparr>, s))))"

definition defaultProviderName :: "string list \<Rightarrow> portal \<Rightarrow> string \<times> portal" where
  "defaultProviderName allowed s =
     (case listEnabledProviders s of
        (Inl _, s) \<Rightarrow> ('''', s)
      | (Inr providers, s) \<Rightarrow>
          ((case find (\<lambda>p. aps_type (apv_spec p) \<in> set allowed) providers of
              None \<Rightarrow> '''' | Some p \<Rightarrow> m_name (apv_meta p)), s))"

text \<open>The session that the login ends with; sealing it into the cookie is left out.\<close>

definition CompletePasswordLogin :: "login_env \<Rightarrow> login_request \<Rightarrow> session auth_step" where
  "CompletePasswordLogin env req s =
     (let named = trimSpace (lr_Provider req) in
      case (if named = '''' then defaultProviderName [AuthProviderTypeLocal, AuthProviderTypeLDAP] s else (named, s)) of
        (providerName, s) \<Rightarrow>
          and_then (getProvider providerName s) (\<lambda>provider s.
            (let kind = aps_type (apv_spec provider) in
             if kind = AuthProviderTypeLocal then localPasswordLogin env provider (lr_Username req) (lr_Password req) s
             else if kind = AuthProviderTypeLDAP then ldapPasswordLogin env provider (lr_Username req) (lr_Password req) s
             else (Inl (Errorf (''provider '' @ quote providerName @ '' does not support password login'')), s))))"

section \<open>The handler\<close>

text \<open>
  \<open>POST /api/auth/login\<close>, with the readings of the clock when it asks the limiter and when it reports to it.
  Its audit events and the cookies it sets are left out.
\<close>

definition handleAuthLogin ::
  "login_env \<Rightarrow> string \<Rightarrow> instant \<Rightarrow> instant \<Rightarrow> login_request option \<Rightarrow> portal \<times> limiter \<Rightarrow>
   session answer \<times> portal \<times> limiter" where
  "handleAuthLogin env clientIP asked reported body = (\<lambda>(s, l).
     case body of
       None \<Rightarrow> (Fails 400 ''invalid request body'', s, l)
     | Some req \<Rightarrow>
         (let k = loginRateLimitKey (lr_Provider req) (lr_Username req) clientIP in
          case Allow k asked l of
            (False, l) \<Rightarrow> (Fails 429 ''too many failed login attempts'', s, l)
          | (True, l) \<Rightarrow>
              (case CompletePasswordLogin env req s of
                 (Inl e, s) \<Rightarrow> (Fails 401 (le_errText env e), s, RecordFailure k reported l)
               | (Inr session, s) \<Rightarrow> (Answers 200 session, s, Reset k reported l))))"

end
