(* ===== verification/Bff_Samples.thy ===== *)
theory Bff_Samples
  imports Bff_World Samples
begin

text \<open>
  A management cluster for the theorems about the backend for frontend to be applied in: the tenants \<open>acme\<close>,
  owned by \<open>ann\<close>, and \<open>rival\<close>, the project \<open>shop\<close> of \<open>acme\<close>, an instance \<open>db\<close> of it, and a grant of the namespace
  \<open>shop-ns\<close>. They model no code.
\<close>

definition sampleControl :: control where
  "sampleControl = \<lparr>co_tenants = [(''acme'', sampleTenant),
       (''rival'', sampleTenant\<lparr>tn_meta := sampleMeta ''rival'', tn_spec := (tn_spec sampleTenant)\<lparr>tns_owners := \<lparr>ow_users = [], ow_groups = []\<rparr>\<rparr>\<rparr>)],
     co_projects = [(''shop'', sampleProject)], co_policies = [], co_classes = [], co_plans = [], co_targets = [],
     co_instances = [(''db'', (sampleInstance None)\<lparr>si_spec := (si_spec (sampleInstance None))
        \<lparr>sis_projectRef := \<lparr>lr_name = ''shop''\<rparr>, sis_serviceClassRef := \<lparr>lr_name = ''postgresql''\<rparr>\<rparr>\<rparr>)],
     co_namespaceClaims = [], co_vmClaims = [], co_packages = [], co_faults = []\<rparr>"

definition sampleGrant :: secret where
  "sampleGrant = \<lparr>sc_labels = [(''servicer.io/managed-by'', ''servicer''), (''servicer.io/purpose'', ''namespace-access'')],
     sc_annotations = [], sc_type = ''Opaque'', sc_data = [(''namespace'', ''shop-ns''), (''token'', ''t0'')]\<rparr>"

definition samplePortal :: "(string, action_request) gomap \<Rightarrow> portal" where
  "samplePortal actions = \<lparr>pw_control = sampleControl, pw_users = [], pw_groups = [], pw_bindings = [], pw_providers = [],
     pw_actions = actions, pw_secrets = [((''shop-ns'', ''grant''), sampleGrant)], pw_configMaps = []\<rparr>"

definition sampleActor :: "string \<Rightarrow> string set \<Rightarrow> (string, string set) gomap \<Rightarrow> actor" where
  "sampleActor name roles tenantRoles = \<lparr>av_Name = name, av_Email = '''', av_UserName = name, av_Provider = ''local'',
     av_Subject = name, av_Authenticated = True, av_Roles = roles, av_TenantRoles = tenantRoles, av_Groups = {}\<rparr>"

lemmas sample_portal_simps = sampleControl_def sampleGrant_def samplePortal_def sampleActor_def sampleTenant_def
  sampleProject_def sampleInstance_def

end
