(* ===== verification/Bff_Login_Facts.thy ===== *)
theory Bff_Login_Facts
  imports Bff_Login Bff_Samples
begin

text \<open>
  What the limiter of password logins achieves: however requests for other accounts, sweeps and successful logins are
  mixed in, there are at most eight failures for one account, provider and address in any fifteen minutes. The
  failures are grouped into the windows in which the limiter counted them.
\<close>

section \<open>Windows\<close>

text \<open>
  A window is the times of the failures that one entry of the limiter counted, the last one first; \<open>windows\<close> says
  that windows of width \<open>W\<close>, the last one first, do not overlap, that none has more than \<open>n\<close> failures, and
  that nothing follows a full one within the lockout \<open>L\<close>.
\<close>

definition window :: "int \<Rightarrow> nat \<Rightarrow> instant list \<Rightarrow> bool" where
  "window W n g \<longleftrightarrow> g \<noteq> [] \<and> length g \<le> n \<and> (\<forall>x \<in> set g. last g \<le> x \<and> x \<le> last g + W \<and> x \<le> hd g)"

fun windows :: "int \<Rightarrow> int \<Rightarrow> nat \<Rightarrow> instant list list \<Rightarrow> bool" where
  "windows W L n [] \<longleftrightarrow> True"
| "windows W L n [g] \<longleftrightarrow> window W n g"
| "windows W L n (g # h # gs) \<longleftrightarrow>
     window W n g \<and> last h + W < last g \<and> (length h = n \<longrightarrow> hd h + L < last g) \<and> windows W L n (h # gs)"

lemma windowD:
  assumes "window W n g"
  shows "g \<noteq> []" "length g \<le> n" "last g \<in> set g" "hd g \<in> set g" "last g \<le> hd g"
    "x \<in> set g \<Longrightarrow> last g \<le> x" "x \<in> set g \<Longrightarrow> x \<le> last g + W" "x \<in> set g \<Longrightarrow> x \<le> hd g"
  using assms by (simp_all add: window_def)

lemma window_width: "window W n g \<Longrightarrow> 0 \<le> W"
  using windowD(3) windowD(7) by fastforce

lemma windows_first: "windows W L n (g # gs) \<Longrightarrow> window W n g"
  by (cases gs) auto

lemma windows_rest: "windows W L n (g # gs) \<Longrightarrow> windows W L n gs"
  by (cases gs) auto

lemma windows_order:
  assumes "windows W L n (g # gs)" "x \<in> set (concat gs)"
  shows "x < last g"
  using assms
proof (induction gs arbitrary: g)
  case (Cons h gs)
  have h: "last h + W < last g" "windows W L n (h # gs)" using Cons.prems(1) by simp_all
  have w: "window W n h" by (rule windows_first [OF h(2)])
  show ?case
  proof (cases "x \<in> set h")
    case True
    then have "x \<le> last h + W" using w by (simp add: window_def)
    then show ?thesis using h(1) by linarith
  next
    case False
    then have "x < last h" using Cons.IH [OF h(2)] Cons.prems(2) by simp
    moreover have "0 \<le> W" by (rule window_width [OF w])
    ultimately show ?thesis using h(1) by linarith
  qed
qed simp

lemma windows_apart:
  assumes "windows W L n (g # h # gs)" "x \<in> set (concat gs)" "y \<in> set g"
  shows "x + W < y"
proof -
  have "x < last h" "last h + W < last g" "last g \<le> y"
    using windows_order [of W L n h gs] assms by (auto simp: window_def)
  then show ?thesis by linarith
qed

definition within :: "int \<Rightarrow> instant \<Rightarrow> instant list \<Rightarrow> instant list" where
  "within W t xs = filter (\<lambda>x. t \<le> x \<and> x \<le> t + W) xs"

lemma within_simps [simp]: "within W t [] = []" "within W t (xs @ ys) = within W t xs @ within W t ys"
  "length (within W t xs) \<le> length xs"
  by (simp_all add: within_def)

lemma within_empty: "(\<And>x. x \<in> set xs \<Longrightarrow> \<not> (t \<le> x \<and> x \<le> t + W)) \<Longrightarrow> within W t xs = []"
  by (auto simp: within_def filter_empty_conv)

text \<open>An interval as wide as a window meets two windows at most, and two only if the earlier one is not full; then it
  does not reach the first failure of that one.\<close>

lemma windows_bound:
  assumes "windows W L n gs" "W \<le> L" "2 \<le> n"
  shows "length (within W t (concat gs)) \<le> 2 * n - 2"
  using assms(1)
proof (induction gs)
  case (Cons g gs)
  have g: "length (within W t g) \<le> n" using windows_first [OF Cons.prems] order_trans [OF within_simps(3)] by (force simp: window_def)
  show ?case
  proof (cases "within W t g = []")
    case True
    then show ?thesis using Cons.IH [OF windows_rest [OF Cons.prems]] by simp
  next
    case False
    then obtain y where y: "y \<in> set g" "t \<le> y" "y \<le> t + W" by (auto simp: within_def filter_empty_conv)
    show ?thesis
    proof (cases gs)
      case Nil
      then show ?thesis using g assms(3) by simp
    next
      case (Cons h hs)
      note w = Cons.prems [unfolded Cons]
      have "within W t (concat hs) = []"
        using windows_apart [OF w _ y(1)] y(3) by (intro within_empty) force
      moreover have "length (within W t h) \<le> n - 2"
      proof (cases "length h = n")
        case True
        have "within W t h = []"
        proof (rule within_empty)
          fix x assume "x \<in> set h"
          then have "x \<le> hd h" "hd h + L < last g" "last g \<le> y" using w True y(1) windows_first [OF windows_rest [OF w]]
            by (auto simp: window_def)
          then show "\<not> (t \<le> x \<and> x \<le> t + W)" using y assms(2) by linarith
        qed
        then show ?thesis by simp
      next
        case False
        have h: "window W n h" by (rule windows_first [OF windows_rest [OF w]])
        have "last h + W < last g" "last g \<le> y" using w windowD(6) [OF windows_first [OF w] y(1)] by simp_all
        then have "length (within W t h) < length h" unfolding within_def
          using y(3) by (intro length_filter_less [OF windowD(3) [OF h]]) linarith
        then show ?thesis using windowD(2) [OF h] False by linarith
      qed
      ultimately show ?thesis using g assms(3) by (simp add: Cons)
    qed
  qed
qed simp

lemma window_next:
  assumes "window W n g" "length g < n" "hd g \<le> x" "x \<le> last g + W"
  shows "window W n (x # g)"
proof -
  have "last g \<le> y \<and> y \<le> last g + W \<and> y \<le> x" if "y \<in> set g" for y
    using windowD [OF assms(1)] that order_trans [OF _ assms(3)] by blast
  moreover have "last g \<le> x" using windowD(5) [OF assms(1)] assms(3) by linarith
  ultimately show ?thesis using assms windowD(1) [OF assms(1)] by (auto simp: window_def)
qed

lemma windows_next:
  assumes "windows W L n (g # gs)" "length g < n" "hd g \<le> x" "x \<le> last g + W"
  shows "windows W L n ((x # g) # gs)"
  using assms window_next [OF windows_first [OF assms(1)]] by (cases gs) (auto simp: window_def)

lemma windows_new:
  assumes "windows W L n gs" "0 < n" "0 \<le> W"
    and "\<And>g hs. gs = g # hs \<Longrightarrow> last g + W < x \<and> (length g = n \<longrightarrow> hd g + L < x)"
  shows "windows W L n ([x] # gs)"
  using assms by (cases gs) (auto simp: window_def)

section \<open>The limiter\<close>

text \<open>
  What the entry of \<open>k\<close> knows: nothing before the first failure, the latest window after it, and nothing again once a
  sweep has removed it.
\<close>

definition entry_for :: "int \<Rightarrow> int \<Rightarrow> nat \<Rightarrow> instant list list \<Rightarrow> instant \<Rightarrow> login_attempt \<Rightarrow> bool" where
  "entry_for W L n gs now e \<longleftrightarrow>
     (case gs of
        [] \<Rightarrow> e = no_attempt
      | g # _ \<Rightarrow>
          e = \<lparr>lg_count = int (length g), lg_windowEnds = last g + W, lg_lockedUntil = (if length g = n then hd g + L else 0)\<rparr> \<or>
          e = no_attempt \<and> last g + W < now \<and> (length g = n \<longrightarrow> hd g + L < now))"

definition limiting :: "string \<Rightarrow> int \<Rightarrow> int \<Rightarrow> nat \<Rightarrow> instant list list \<Rightarrow> instant \<Rightarrow> limiter \<Rightarrow> bool" where
  "limiting k W L n gs now l \<longleftrightarrow>
     lm_limit l = int n \<and> lm_window l = W \<and> lm_lockout l = L \<and> distinct (map fst (lm_attempts l)) \<and>
     windows W L n gs \<and> (\<forall>x \<in> set (concat gs). 0 < x \<and> x \<le> now) \<and> entry_for W L n gs now (attempt_of l k)"

lemma attempt_of_filter:
  "distinct (map fst m) \<Longrightarrow> map_of (filter (\<lambda>(k, e). P e) m) k = (case map_of m k of None \<Rightarrow> None | Some e \<Rightarrow> if P e then Some e else None)"
  by (induction m) (auto split: option.splits simp: map_of_eq_None_iff)

lemma cleanup_fields [simp]: "lm_limit (cleanupExpired now l) = lm_limit l" "lm_window (cleanupExpired now l) = lm_window l"
  "lm_lockout (cleanupExpired now l) = lm_lockout l"
  by (simp_all add: cleanupExpired_def)

lemma cleanup_distinct: "distinct (map fst (lm_attempts l)) \<Longrightarrow> distinct (map fst (lm_attempts (cleanupExpired now l)))"
  by (auto simp: cleanupExpired_def intro: distinct_map_filter)

lemma cleanup_attempt:
  assumes "distinct (map fst (lm_attempts l))"
  shows "attempt_of (cleanupExpired now l) k = attempt_of l k \<or>
    attempt_of (cleanupExpired now l) k = no_attempt \<and> lg_windowEnds (attempt_of l k) < now \<and> lg_lockedUntil (attempt_of l k) < now"
  using assms attempt_of_filter [OF assms, of "\<lambda>e. \<not> attempt_expired l now e" k]
  by (auto simp: cleanupExpired_def attempt_of_def attempt_expired_def Let_def split: option.splits if_splits)

lemma limiting_cleanup:
  assumes "limiting k W L n gs now l" "now \<le> now'"
  shows "limiting k W L n gs now' (cleanupExpired now' l)"
proof -
  have "entry_for W L n gs now' (attempt_of (cleanupExpired now' l) k)"
    using cleanup_attempt [of l now' k] assms
    by (cases gs) (auto simp: limiting_def entry_for_def no_attempt_def split: if_splits)
  then show ?thesis using assms cleanup_distinct by (force simp: limiting_def)
qed

lemma limiting_other:
  assumes "limiting k W L n gs now l" "attempt_of l' k = attempt_of l k" "distinct (map fst (lm_attempts l'))"
    "lm_limit l' = lm_limit l" "lm_window l' = lm_window l" "lm_lockout l' = lm_lockout l"
  shows "limiting k W L n gs now l'"
  using assms by (simp add: limiting_def)

text \<open>What a failure makes of an entry: a new window, or one more failure in the old one.\<close>

lemma failure_fields: "lm_limit (RecordFailure k now l) = lm_limit l" "lm_window (RecordFailure k now l) = lm_window l"
  "lm_lockout (RecordFailure k now l) = lm_lockout l"
  by (simp_all add: RecordFailure_def Let_def)

lemma failure_distinct: "distinct (map fst (lm_attempts l)) \<Longrightarrow> distinct (map fst (lm_attempts (RecordFailure k now l)))"
  using cleanup_distinct [of l now] by (simp add: RecordFailure_def Let_def distinct_update)

lemma attempt_of_update [simp]: "attempt_of (l\<lparr>lm_attempts := AList.update k e m\<rparr>) k = e"
  by (simp add: attempt_of_def update_conv')

lemma failure_opens:
  assumes "e = attempt_of (cleanupExpired now l) k" "lg_windowEnds e = 0 \<or> lg_windowEnds e < now"
  shows "attempt_of (RecordFailure k now l) k =
    \<lparr>lg_count = 1, lg_windowEnds = now + lm_window l, lg_lockedUntil = (if lm_limit l \<le> 1 then now + lm_lockout l else 0)\<rparr>"
  using assms(2) by (simp add: RecordFailure_def Let_def assms(1) [symmetric])

lemma failure_counts:
  assumes "e = attempt_of (cleanupExpired now l) k" "\<not> (lg_windowEnds e = 0 \<or> lg_windowEnds e < now)"
  shows "attempt_of (RecordFailure k now l) k =
    \<lparr>lg_count = lg_count e + 1, lg_windowEnds = lg_windowEnds e,
     lg_lockedUntil = (if lm_limit l \<le> lg_count e + 1 then now + lm_lockout l else lg_lockedUntil e)\<rparr>"
  using assms(2) by (cases e) (simp add: RecordFailure_def Let_def assms(1) [symmetric])

lemma limiting_failure:
  assumes l: "limiting k W L n gs now l" and allowed: "Allow k asked l = (True, l1)"
    and "now \<le> asked" "asked \<le> reported" "0 < reported" "0 \<le> W" "W \<le> L" "0 < n"
  shows "\<exists>gs'. concat gs' = reported # concat gs \<and> limiting k W L n gs' reported (RecordFailure k reported l1)"
proof -
  have l1: "l1 = cleanupExpired asked l" and free: "lg_lockedUntil (attempt_of l1 k) = 0 \<or> lg_lockedUntil (attempt_of l1 k) < asked"
    using allowed by (auto simp: Allow_def Let_def)
  define l2 where "l2 = cleanupExpired reported l1"
  have m1: "limiting k W L n gs asked l1" unfolding l1 by (rule limiting_cleanup) (use assms in simp_all)
  have m2: "limiting k W L n gs reported l2" unfolding l2_def by (rule limiting_cleanup) (use m1 assms in simp_all)
  have first: "0 < last g" "hd g \<le> reported" "last g \<le> hd g" "window W n g" "0 < hd g" if "gs = g # hs" for g hs
  proof -
    show w: "window W n g" using m1 that windows_first [of W L n g hs] by (simp add: limiting_def)
    show "0 < last g" "hd g \<le> reported" "last g \<le> hd g" "0 < hd g"
      using m2 that windowD(3-5) [OF w] by (auto simp: limiting_def)
  qed
  have full: "hd g + L < asked" if "gs = g # hs" "length g = n" for g hs
    using m1 free that assms first(5) [OF that(1)] by (auto simp: limiting_def entry_for_def no_attempt_def)
  define old where "old = attempt_of l2 k"
  define fresh where "fresh \<longleftrightarrow> lg_windowEnds old = 0 \<or> lg_windowEnds old < reported"
  have e: "entry_for W L n gs reported old" using m2 by (simp add: limiting_def old_def)
  show ?thesis
  proof (cases fresh)
    case True
    have gs: "windows W L n ([reported] # gs)"
    proof (rule windows_new)
      fix g hs assume g: "gs = g # hs"
      then have "last g + W < reported" using e True first [OF g] assms by (auto simp: entry_for_def fresh_def)
      then show "last g + W < reported \<and> (length g = n \<longrightarrow> hd g + L < reported)" using full [OF g] assms by force
    qed (use m2 assms in \<open>simp_all add: limiting_def\<close>)
    have att: "attempt_of (RecordFailure k reported l1) k =
        \<lparr>lg_count = 1, lg_windowEnds = reported + W, lg_lockedUntil = (if n \<le> 1 then reported + L else 0)\<rparr>"
      using failure_opens [OF old_def [unfolded l2_def]] True m1 by (simp add: fresh_def limiting_def)
    have "entry_for W L n ([reported] # gs) reported (attempt_of (RecordFailure k reported l1) k)"
      using assms by (simp add: entry_for_def att)
    then have "limiting k W L n ([reported] # gs) reported (RecordFailure k reported l1)"
      using m1 m2 gs assms failure_distinct [of l1] by (simp add: limiting_def failure_fields)
    then show ?thesis by (intro exI [of _ "[reported] # gs"]) simp
  next
    case False
    then obtain g hs where g: "gs = g # hs" "old = \<lparr>lg_count = int (length g), lg_windowEnds = last g + W,
        lg_lockedUntil = (if length g = n then hd g + L else 0)\<rparr>" "reported \<le> last g + W"
      using e by (cases gs) (auto simp: entry_for_def fresh_def no_attempt_def)
    have "length g \<noteq> n" using full [OF g(1)] first [OF g(1)] g(3) assms by force
    then have short: "length g < n" using first(4) [OF g(1)] by (simp add: window_def)
    have gs: "windows W L n ((reported # g) # hs)"
      by (rule windows_next) (use m2 g short first [OF g(1)] in \<open>simp_all add: limiting_def\<close>)
    have "attempt_of (RecordFailure k reported l1) k = \<lparr>lg_count = int (length g) + 1, lg_windowEnds = last g + W,
        lg_lockedUntil = (if int n \<le> int (length g) + 1 then reported + L else 0)\<rparr>"
      using failure_counts [OF old_def [unfolded l2_def]] False m1 short by (simp add: fresh_def limiting_def g(2))
    then have "entry_for W L n ((reported # g) # hs) reported (attempt_of (RecordFailure k reported l1) k)"
      using short windowD(1) [OF first(4) [OF g(1)]] by (simp add: entry_for_def)
    then have "limiting k W L n ((reported # g) # hs) reported (RecordFailure k reported l1)"
      using m1 m2 gs assms failure_distinct [of l1] by (simp add: limiting_def failure_fields g(1))
    then show ?thesis by (intro exI [of _ "(reported # g) # hs"]) (simp add: g)
  qed
qed

section \<open>Histories of logins\<close>

text \<open>
  Requests one after the other, each finding the management cluster in a state of its own. The log holds the times of
  the failures of one key since its last successful login, the last one first.
\<close>

record login_call =
  lc_portal :: portal
  lc_clientIP :: string
  lc_asked :: instant
  lc_reported :: instant
  lc_body :: "login_request option"

definition call_key :: "login_call \<Rightarrow> string option" where
  "call_key c = (case lc_body c of None \<Rightarrow> None | Some req \<Rightarrow> Some (loginRateLimitKey (lr_Provider req) (lr_Username req) (lc_clientIP c)))"

definition logged :: "string \<Rightarrow> login_call \<Rightarrow> session answer \<Rightarrow> instant list \<Rightarrow> instant list" where
  "logged k c answer log =
     (if call_key c \<noteq> Some k then log
      else (case answer of Answers _ _ \<Rightarrow> [] | Fails code _ \<Rightarrow> if code = 401 then lc_reported c # log else log))"

fun failed_logins :: "login_env \<Rightarrow> string \<Rightarrow> login_call list \<Rightarrow> limiter \<Rightarrow> instant list \<Rightarrow> instant list" where
  "failed_logins env k [] l log = log"
| "failed_logins env k (c # cs) l log =
     (case handleAuthLogin env (lc_clientIP c) (lc_asked c) (lc_reported c) (lc_body c) (lc_portal c, l) of
        (answer, _, l') \<Rightarrow> failed_logins env k cs l' (logged k c answer log))"

fun in_order :: "instant \<Rightarrow> login_call list \<Rightarrow> bool" where
  "in_order now [] \<longleftrightarrow> True"
| "in_order now (c # cs) \<longleftrightarrow> now \<le> lc_asked c \<and> lc_asked c \<le> lc_reported c \<and> in_order (lc_reported c) cs"

lemma limiting_Allow:
  assumes "limiting k W L n gs now l" "now \<le> asked" "Allow k' asked l = (b, l')"
  shows "limiting k W L n gs asked l'"
  using limiting_cleanup [OF assms(1,2)] assms(3) by (auto simp: Allow_def Let_def)

lemma limiting_failure_elsewhere:
  assumes "limiting k W L n gs now l" "now \<le> reported" "k' \<noteq> k"
  shows "limiting k W L n gs reported (RecordFailure k' reported l)"
  by (rule limiting_other [OF limiting_cleanup [OF assms(1,2)]])
     (use assms(3) cleanup_distinct [of l reported] assms(1) in
       \<open>simp_all add: RecordFailure_def Let_def attempt_of_def update_conv' distinct_update limiting_def\<close>)

lemma limiting_Reset_elsewhere:
  assumes "limiting k W L n gs now l" "now \<le> reported" "k' \<noteq> k"
  shows "limiting k W L n gs reported (Reset k' reported l)"
  unfolding Reset_def
  by (rule limiting_cleanup [OF limiting_other [OF assms(1)] assms(2)])
     (use assms(1,3) in \<open>simp_all add: attempt_of_def delete_conv' distinct_delete limiting_def\<close>)

lemma limiting_Reset:
  assumes "limiting k W L n gs now l" "now \<le> reported"
  shows "limiting k W L n [] reported (Reset k reported l)"
  unfolding Reset_def
  by (rule limiting_cleanup [OF _ assms(2)])
     (use assms(1) in \<open>simp add: attempt_of_def delete_conv' distinct_delete limiting_def entry_for_def\<close>)

lemma limiting_login:
  assumes l: "limiting k W L n gs now l" and t: "now \<le> lc_asked c" "lc_asked c \<le> lc_reported c" "0 < now"
    and n: "0 \<le> W" "W \<le> L" "0 < n"
    and r: "handleAuthLogin env (lc_clientIP c) (lc_asked c) (lc_reported c) (lc_body c) (lc_portal c, l) = (answer, s, l')"
  shows "\<exists>gs'. concat gs' = logged k c answer (concat gs) \<and> limiting k W L n gs' (lc_reported c) l'"
proof (cases "lc_body c")
  case None
  have "limiting k W L n gs (lc_reported c) l" using l t by (force simp: limiting_def entry_for_def split: list.splits)
  then show ?thesis using r None by (auto simp: handleAuthLogin_def logged_def call_key_def)
next
  case (Some req)
  define k' where "k' = loginRateLimitKey (lr_Provider req) (lr_Username req) (lc_clientIP c)"
  obtain b l1 where a: "Allow k' (lc_asked c) l = (b, l1)" by fastforce
  have l1: "limiting k W L n gs (lc_asked c) l1" by (rule limiting_Allow [OF l t(1) a])
  have key: "call_key c = Some k'" by (simp add: call_key_def Some k'_def)
  consider (blocked) "answer = Fails 429 ''too many failed login attempts''" "l' = l1"
    | (failed) t where "b" "answer = Fails 401 t" "l' = RecordFailure k' (lc_reported c) l1"
    | (good) x where "b" "answer = Answers 200 x" "l' = Reset k' (lc_reported c) l1"
    using r a by (auto simp: handleAuthLogin_def Some k'_def [symmetric] Let_def split: bool.splits prod.splits sum.splits)
  then show ?thesis
  proof cases
    case blocked
    have "limiting k W L n gs (lc_reported c) l1" using l1 t by (force simp: limiting_def entry_for_def split: list.splits)
    then show ?thesis using blocked by (auto simp: logged_def)
  next
    case failed
    show ?thesis
    proof (cases "k' = k")
      case True
      then show ?thesis using limiting_failure [OF l, of "lc_asked c" l1 "lc_reported c"] a failed t n key by (auto simp: logged_def)
    next
      case False
      then show ?thesis using limiting_failure_elsewhere [OF l1 t(2)] failed key by (auto simp: logged_def)
    qed
  next
    case good
    show ?thesis
    proof (cases "k' = k")
      case True
      then show ?thesis using limiting_Reset [OF l1 t(2)] good key by (intro exI [of _ "[]"]) (simp add: logged_def)
    next
      case False
      then show ?thesis using limiting_Reset_elsewhere [OF l1 t(2)] good key by (auto simp: logged_def)
    qed
  qed
qed

lemma limiting_logins:
  assumes "limiting k W L n gs now l" "in_order now calls" "0 < now" "0 \<le> W" "W \<le> L" "0 < n"
  shows "\<exists>gs'. concat gs' = failed_logins env k calls l (concat gs) \<and> windows W L n gs'"
  using assms(1-3)
proof (induction calls arbitrary: gs now l)
  case Nil
  then show ?case by (auto simp: limiting_def)
next
  case (Cons c cs)
  obtain answer s l' where r: "handleAuthLogin env (lc_clientIP c) (lc_asked c) (lc_reported c) (lc_body c) (lc_portal c, l) = (answer, s, l')"
    using prod_cases3 by blast
  obtain gs' where "concat gs' = logged k c answer (concat gs)" "limiting k W L n gs' (lc_reported c) l'"
    using limiting_login [OF Cons.prems(1) _ _ Cons.prems(3) assms(4-6) r] Cons.prems(2) by auto
  then show ?case using Cons.IH [of gs' "lc_reported c" l'] Cons.prems r by simp
qed

text \<open>
  C13 With the limiter that the backend starts with, no more than eight logins of an account through one provider from
  one address fail in any fifteen minutes without a successful one among them, when the requests come one after the
  other: whatever other logins do and whatever becomes of users and providers meanwhile.
\<close>

theorem few_failed_logins:
  assumes "newLoginLimiterFromEnv getenv = Inr l" "in_order start calls" "0 < start"
  shows "length (within (minutes 15) t (failed_logins env k calls l [])) \<le> 8"
proof -
  have l: "l = newMemoryLoginLimiter 5 (minutes 15) (minutes 15) (minutes 30) (minutes 1)"
    using assms(1) by (auto simp: newLoginLimiterFromEnv_def Let_def split: if_splits)
  have "limiting k (minutes 15) (minutes 15) 5 [] start l"
    by (simp add: l limiting_def newMemoryLoginLimiter_def entry_for_def attempt_of_def)
  from limiting_logins [OF this assms(2,3), of env] obtain gs
    where "concat gs = failed_logins env k calls l []" "windows (minutes 15) (minutes 15) 5 gs" by auto
  then show ?thesis using windows_bound [of "minutes 15" "minutes 15" 5 gs t] by simp
qed


section \<open>Applied\<close>

text \<open>Eight failures do happen within fifteen minutes: three late in a window that an earlier one opened, and five in the next.\<close>

definition guessing_env :: login_env where
  "guessing_env = \<lparr>le_compareHash = (\<lambda>_ _. False), le_authenticateLDAP = (\<lambda>_ _ _ s. (Inl (Errorf ''refused''), s)), le_errText = (\<lambda>_. ''refused'')\<rparr>"

definition guess :: "instant \<Rightarrow> login_call" where
  "guess t = \<lparr>lc_portal = samplePortal [], lc_clientIP = ''10.0.0.1'', lc_asked = t, lc_reported = t,
     lc_body = Some \<lparr>lr_Provider = '''', lr_Username = ''ann'', lr_Password = ''secret''\<rparr>\<rparr>"

definition guesses :: "login_call list" where
  "guesses = map guess [minutes 1, minutes 15, minutes 15, minutes 15, minutes 17, minutes 17, minutes 17, minutes 17, minutes 17, minutes 18]"

lemma guesses_fail:
  "failed_logins guessing_env ''unknown-provider|ann|10.0.0.1'' guesses
     (newMemoryLoginLimiter 5 (minutes 15) (minutes 15) (minutes 30) (minutes 1)) [] =
   [minutes 17, minutes 17, minutes 17, minutes 17, minutes 17, minutes 15, minutes 15, minutes 15, minutes 1]"
  by code_simp

theorem few_failed_logins_witness:
  "length (within (minutes 15) (minutes 3) (failed_logins guessing_env ''unknown-provider|ann|10.0.0.1'' guesses
     (newMemoryLoginLimiter 5 (minutes 15) (minutes 15) (minutes 30) (minutes 1)) [])) = 8 \<and> (8 :: nat) \<le> 8"
proof -
  let ?l = "newMemoryLoginLimiter 5 (minutes 15) (minutes 15) (minutes 30) (minutes 1)"
  let ?n = "length (within (minutes 15) (minutes 3) (failed_logins guessing_env ''unknown-provider|ann|10.0.0.1'' guesses ?l []))"
  have "\<not> productionMode (\<lambda>_. '''')" by code_simp
  then have "newLoginLimiterFromEnv (\<lambda>_. '''') = Inr ?l" by (simp add: newLoginLimiterFromEnv_def)
  moreover have "in_order (minutes 1) guesses" by (simp add: guesses_def guess_def)
  ultimately have "?n \<le> 8" by (rule few_failed_logins) simp
  moreover have "?n = 8" unfolding guesses_fail within_def by simp
  ultimately show ?thesis by simp
qed

end
