(* ===== verification/Bff_Proxy.thy ===== *)
theory Bff_Proxy
  imports Bff_Sessions
begin

text \<open>
  The read-only proxy to the API server for the holders of a namespace grant
  (\<open>internal/bff/kubernetes_proxy.go\<close>).

  \<open>px_host\<close> is the API server's address, empty without a client for it; \<open>px_parses\<close> tells whether
  \<open>url.Parse\<close> accepts it. A request that is forwarded is sent with the server's own credentials: of the
  headers only \<open>Accept\<close>, \<open>User-Agent\<close> and \<open>Accept-Encoding\<close> are copied. The path of a request is the decoded
  one. The answer of the API server is copied as it is, and not modelled.
\<close>

record proxy_env =
  px_host :: string
  px_parses :: bool

record upstream_request =
  up_method :: string
  up_path :: string
  up_rawQuery :: string

datatype proxied = Refuses int string | Forwards upstream_request

section \<open>Paths\<close>

abbreviation namespaceProxyPrefix :: string where "namespaceProxyPrefix \<equiv> ''/api/kubernetes/namespaces/''"

definition namespaceProxyTarget :: "string \<Rightarrow> (string \<times> string) option" where
  "namespaceProxyTarget path =
     (if \<not> hasPrefix path namespaceProxyPrefix then None
      else (let parts = cut2 (CHR ''/'') (drop (length namespaceProxyPrefix) path);
                namespace = trimSpace (hd parts)
            in if namespace = '''' then None
               else (case parts of
                       [p, rest] \<Rightarrow> if rest = '''' then Some (namespace, ''/api'') else Some (namespace, ''/'' @ rest)
                     | _ \<Rightarrow> Some (namespace, ''/api''))))"

definition proxyPathSegments :: "string \<Rightarrow> string list option" where
  "proxyPathSegments upstreamPath =
     (let trimmed = trimSet ''/'' upstreamPath; segments = split_on (CHR ''/'') trimmed in
      if trimmed = '''' then None
      else if list_ex (\<lambda>segment. segment = '''' \<or> segment = ''.'' \<or> segment = ''..'' \<or>
          CHR ''?'' \<in> set segment \<or> CHR ''#'' \<in> set segment) segments then None
      else Some segments)"

definition namespaceScopedProxyPath :: "string list \<Rightarrow> string \<Rightarrow> bool" where
  "namespaceScopedProxyPath remaining namespace \<longleftrightarrow>
     (case remaining of
        n # scope # _ \<Rightarrow> n = ''namespaces'' \<and> scope = namespace
      | _ \<Rightarrow> False)"

definition namespaceProxyPathAllowed :: "string \<Rightarrow> string \<Rightarrow> bool" where
  "namespaceProxyPathAllowed namespace upstreamPath \<longleftrightarrow>
     (if namespace = '''' \<or> \<not> hasPrefix upstreamPath ''/'' then False
      else (case proxyPathSegments upstreamPath of
              None \<Rightarrow> False
            | Some segments \<Rightarrow>
                if hd segments = ''openapi'' then True
                else if hd segments = ''version'' then length segments = 1
                else if hd segments = ''api''
                then (if length segments = 1 then True
                      else if segments ! 1 \<noteq> ''v1'' then False
                      else if length segments = 2 then True
                      else namespaceScopedProxyPath (drop 2 segments) namespace)
                else if hd segments = ''apis''
                then (if length segments \<le> 3 then True
                      else namespaceScopedProxyPath (drop 3 segments) namespace)
                else False))"

section \<open>Tokens\<close>

text \<open>\<open>strings.Fields\<close>: the runs of bytes between white space.\<close>

function fields_from :: "string \<Rightarrow> string \<Rightarrow> string list" where
  "fields_from word [] = (if word = [] then [] else [rev word])"
| "fields_from word (c # s) =
     (case strip1 space_runes (c # s) of
        None \<Rightarrow> fields_from (c # word) s
      | Some rest \<Rightarrow> (if word = [] then [] else [rev word]) @ fields_from [] rest)"
  by pat_completeness auto
termination
proof (relation "measure (\<lambda>(word, s). length s)", goal_cases)
  case (3 word c s rest)
  obtain r where "r \<noteq> []" "c # s = r @ rest" using strip1_SomeD [OF 3] by blast
  moreover have "length (c # s) = length r + length rest" using calculation(2) by simp
  ultimately show ?case by (cases r) simp_all
qed simp_all

definition bearerToken :: "string \<Rightarrow> string" where
  "bearerToken header =
     (case fields_from [] header of
        [scheme, token] \<Rightarrow> if \<not> equalFold scheme ''Bearer'' then '''' else trimSpace token
      | _ \<Rightarrow> '''')"

definition looksLikeKubernetesClient :: "http_request \<Rightarrow> bool" where
  "looksLikeKubernetesClient r \<longleftrightarrow> bearerToken (hq_header r ''Authorization'') \<noteq> ''''"

text \<open>The Secrets of grants, in one namespace or in all of them.\<close>

definition access_secrets :: "string \<Rightarrow> portal \<Rightarrow> (key \<times> secret) list" where
  "access_secrets namespace s =
     filter (\<lambda>((ns, n), x). map_of (sc_labels x) ''servicer.io/managed-by'' = Some ''servicer'' \<and>
         map_of (sc_labels x) ''servicer.io/purpose'' = Some ''namespace-access'' \<and>
         (namespace = '''' \<or> ns = namespace)) (pw_secrets s)"

definition token_matches :: "string \<Rightarrow> secret \<Rightarrow> bool" where
  "token_matches token x \<longleftrightarrow>
     (let secretToken = trimSpace (map_get (sc_data x) ''token'') in secretToken \<noteq> '''' \<and> token = secretToken)"

definition namespaceAccessSecretForToken :: "http_request \<Rightarrow> string \<Rightarrow> portal \<Rightarrow> (key \<times> secret) option \<times> portal" where
  "namespaceAccessSecretForToken r namespace s =
     (let token = bearerToken (hq_header r ''Authorization'') in
      if token = '''' then (None, s)
      else (case fetch_all (access_secrets namespace) s of
              (Inl e, s) \<Rightarrow> (None, s)
            | (Inr found, s) \<Rightarrow> (find (\<lambda>(k, x). token_matches token x) found, s)))"

section \<open>The handlers\<close>

definition forwardKubernetesRequest :: "proxy_env \<Rightarrow> http_request \<Rightarrow> string \<Rightarrow> proxied" where
  "forwardKubernetesRequest px r upstreamPath =
     (if \<not> px_parses px then Refuses 503 ''Kubernetes proxy is misconfigured''
      else Forwards \<lparr>up_method = hq_method r, up_path = upstreamPath, up_rawQuery = hq_rawQuery r\<rparr>)"

definition handleKubernetesNamespaceProxy :: "proxy_env \<Rightarrow> http_request \<Rightarrow> portal \<Rightarrow> proxied \<times> portal" where
  "handleKubernetesNamespaceProxy px r s =
     (if px_host px = '''' then (Refuses 503 ''Kubernetes proxy is not configured'', s)
      else if hq_method r \<noteq> ''GET'' \<and> hq_method r \<noteq> ''HEAD'' then (Refuses 405 ''Namespace proxy is read-only'', s)
      else (case namespaceProxyTarget (hq_path r) of
              None \<Rightarrow> (Refuses 404 ''404 page not found'', s)
            | Some (namespace, upstreamPath) \<Rightarrow>
                (case namespaceAccessSecretForToken r namespace s of
                   (None, s) \<Rightarrow> (Refuses 401 ''Invalid namespace access token'', s)
                 | (Some (k, x), s) \<Rightarrow>
                     (let secretNamespace = trimSpace (map_get (sc_data x) ''namespace'') in
                      if secretNamespace \<noteq> '''' \<and> secretNamespace \<noteq> namespace
                      then (Refuses 403 ''Access token is not valid for this namespace'', s)
                      else if \<not> namespaceProxyPathAllowed namespace upstreamPath
                      then (Refuses 403 ''Namespace access is limited to discovery and granted namespace reads'', s)
                      else (forwardKubernetesRequest px r upstreamPath, s)))))"

definition handleKubernetesRootProxy :: "proxy_env \<Rightarrow> http_request \<Rightarrow> portal \<Rightarrow> proxied \<times> portal" where
  "handleKubernetesRootProxy px r s =
     (if px_host px = '''' \<or> \<not> looksLikeKubernetesClient r then (Refuses 404 ''404 page not found'', s)
      else if hq_method r \<noteq> ''GET'' \<and> hq_method r \<noteq> ''HEAD'' then (Refuses 405 ''Namespace proxy is read-only'', s)
      else (case namespaceAccessSecretForToken r '''' s of
              (None, s) \<Rightarrow> (Refuses 401 ''Invalid namespace access token'', s)
            | (Some ((ns, n), x), s) \<Rightarrow>
                (let declared = trimSpace (map_get (sc_data x) ''namespace'');
                     namespace = (if declared = '''' then ns else declared)
                 in if \<not> namespaceProxyPathAllowed namespace (hq_path r)
                    then (Refuses 403 ''Namespace access is limited to discovery and granted namespace reads'', s)
                    else (forwardKubernetesRequest px r (hq_path r), s))))"

text \<open>
  The part of the router that leads to the proxy: the namespace proxy under its prefix, the other
  paths under \<open>/api/\<close> and \<open>/apis\<close> to the root proxy.
\<close>

definition kubernetes_proxy :: "proxy_env \<Rightarrow> http_request \<Rightarrow> actor option \<Rightarrow> portal \<Rightarrow> proxied \<times> portal" where
  "kubernetes_proxy px r ctx =
     (if hasPrefix (hq_path r) namespaceProxyPrefix then handleKubernetesNamespaceProxy px r
      else handleKubernetesRootProxy px r)"

end
