(* ===== verification/Bff_Proxy_Facts.thy ===== *)
theory Bff_Proxy_Facts
  imports Bff_Proxy Bff_Samples Exec_Namespace Go_Paths
begin

text \<open>
  What the namespace proxy lets through: paths within the scope of a grant, for the holder of the grant's
  token, and what stands between that token and the proxy in the composed server.
\<close>

section \<open>Paths\<close>

lemma split_on_parts: "x \<in> set (split_on d s) \<Longrightarrow> d \<notin> set x"
proof (induction s arbitrary: x)
  case (Cons c s)
  then show ?case by (auto split: if_splits list.splits)
qed simp

text \<open>A path of segments that cannot lead elsewhere, and what a grant of a namespace opens.\<close>

definition plain_segments :: "string list \<Rightarrow> bool" where
  "plain_segments segs \<longleftrightarrow>
     segs \<noteq> [] \<and> (\<forall>x \<in> set segs. x \<noteq> '''' \<and> x \<noteq> ''.'' \<and> x \<noteq> ''..'' \<and> {CHR ''/'', CHR ''?'', CHR ''#''} \<inter> set x = {})"

definition discovery :: "string list \<Rightarrow> bool" where
  "discovery segs \<longleftrightarrow>
     segs = [''version''] \<or> segs = [''api''] \<or> segs = [''api'', ''v1''] \<or> segs = [''apis''] \<or>
     (\<exists>g. segs = [''apis'', g]) \<or> (\<exists>g v. segs = [''apis'', g, v]) \<or> (\<exists>rest. segs = ''openapi'' # rest)"

definition in_namespace :: "string \<Rightarrow> string list \<Rightarrow> bool" where
  "in_namespace namespace segs \<longleftrightarrow>
     (\<exists>rest. segs = [''api'', ''v1'', ''namespaces'', namespace] @ rest) \<or>
     (\<exists>g v rest. segs = [''apis'', g, v, ''namespaces'', namespace] @ rest)"

definition within_grant :: "string \<Rightarrow> string \<Rightarrow> bool" where
  "within_grant namespace path \<longleftrightarrow>
     (\<exists>segs. trimSet ''/'' path = join ''/'' segs \<and> plain_segments segs \<and> (discovery segs \<or> in_namespace namespace segs))"

lemma proxyPathSegments_Some:
  "proxyPathSegments path = Some segs \<longleftrightarrow> trimSet ''/'' path = join ''/'' segs \<and> plain_segments segs"
proof -
  let ?t = "trimSet ''/'' path"
  have sl: "CHR 0x2F = CHR ''/''" by simp
  show ?thesis
  proof
    assume a: "proxyPathSegments path = Some segs"
    then have s: "segs = split_on (CHR ''/'') ?t"
      and ok: "\<not> list_ex (\<lambda>segment. segment = '''' \<or> segment = ''.'' \<or> segment = ''..'' \<or>
          CHR ''?'' \<in> set segment \<or> CHR ''#'' \<in> set segment) segs"
      by (auto simp: proxyPathSegments_def Let_def split: if_splits)
    have "plain_segments segs"
      unfolding plain_segments_def using ok split_on_parts [of _ "CHR ''/''" ?t] unfolding s by (auto simp: list_ex_iff)
    then show "?t = join ''/'' segs \<and> plain_segments segs" by (simp add: s join_split_on)
  next
    assume a: "?t = join ''/'' segs \<and> plain_segments segs"
    then have s: "split_on (CHR ''/'') ?t = segs"
      using split_on_join [of segs "CHR ''/''"] by (auto simp: plain_segments_def)
    have ne: "?t \<noteq> ''''"
    proof
      assume "?t = ''''"
      then have "segs = ['''']" using s by simp
      then show False using a by (simp add: plain_segments_def)
    qed
    have "\<not> list_ex (\<lambda>segment. segment = '''' \<or> segment = ''.'' \<or> segment = ''..'' \<or>
          CHR ''?'' \<in> set segment \<or> CHR ''#'' \<in> set segment) segs"
      using a by (auto simp: plain_segments_def list_ex_iff)
    then show "proxyPathSegments path = Some segs" using ne by (simp add: proxyPathSegments_def s Let_def)
  qed
qed

lemma scoped_iff: "namespaceScopedProxyPath segs ns \<longleftrightarrow> (\<exists>rest. segs = ''namespaces'' # ns # rest)"
  by (cases segs; cases "tl segs") (auto simp: namespaceScopedProxyPath_def)

lemma allowed_segments:
  assumes "segs \<noteq> []"
  shows "(if hd segs = ''openapi'' then True
      else if hd segs = ''version'' then length segs = 1
      else if hd segs = ''api''
      then (if length segs = 1 then True else if segs ! 1 \<noteq> ''v1'' then False
            else if length segs = 2 then True else namespaceScopedProxyPath (drop 2 segs) ns)
      else if hd segs = ''apis''
      then (if length segs \<le> 3 then True else namespaceScopedProxyPath (drop 3 segs) ns)
      else False) \<longleftrightarrow> discovery segs \<or> in_namespace ns segs"
proof -
  consider a where "segs = [a]" | a b where "segs = [a, b]" | a b c where "segs = [a, b, c]"
    | a b c d rest where "segs = a # b # c # d # rest"
    using assms by (metis list.exhaust)
  then show ?thesis
    by cases (auto simp: discovery_def in_namespace_def scoped_iff)
qed

text \<open>
  The paths that the proxy accepts for a namespace are exactly the discovery documents, everything
  under \<open>/openapi\<close>, and what is under \<open>/api/v1/namespaces/<namespace>\<close> or
  \<open>/apis/<group>/<version>/namespaces/<namespace>\<close>, written without empty, relative or query-bearing segments.
\<close>

lemma allowed_paths:
  "namespaceProxyPathAllowed namespace path \<longleftrightarrow>
     namespace \<noteq> '''' \<and> hasPrefix path ''/'' \<and> within_grant namespace path"
proof (cases "proxyPathSegments path")
  case None
  then have "\<not> within_grant namespace path"
    unfolding within_grant_def using proxyPathSegments_Some [of path] by auto
  then show ?thesis using None by (simp add: namespaceProxyPathAllowed_def)
next
  case (Some segs)
  then have "segs \<noteq> []" by (simp add: proxyPathSegments_Some plain_segments_def)
  moreover have "within_grant namespace path \<longleftrightarrow> discovery segs \<or> in_namespace namespace segs"
    unfolding within_grant_def using Some proxyPathSegments_Some [of path] by (metis option.inject)
  ultimately show ?thesis using Some allowed_segments [of segs namespace]
    by (simp add: namespaceProxyPathAllowed_def)
qed

section \<open>Tokens\<close>

lemma portal_fault_objects:
  "portal_fault s = (f, s') \<Longrightarrow> pw_secrets s' = pw_secrets s"
  by (auto simp: portal_fault_def on_portal_def control_fault_def split: list.splits prod.splits)

lemma fetch_all_Inr: "fetch_all sel s = (Inr xs, s') \<Longrightarrow> xs = sel s' \<and> pw_secrets s' = pw_secrets s"
  by (auto simp: fetch_all_def portal_fault_objects split: prod.splits fault.splits)

definition is_grant :: "secret \<Rightarrow> bool" where
  "is_grant x \<longleftrightarrow> map_of (sc_labels x) ''servicer.io/managed-by'' = Some ''servicer'' \<and>
     map_of (sc_labels x) ''servicer.io/purpose'' = Some ''namespace-access''"

lemma secret_for_token:
  assumes "namespaceAccessSecretForToken r namespace s = (Some (k, x), s')"
  shows "(k, x) \<in> set (pw_secrets s)" "is_grant x" "token_matches (bearerToken (hq_header r ''Authorization'')) x"
    "namespace = '''' \<or> fst k = namespace"
proof -
  from assms obtain found where f: "fetch_all (access_secrets namespace) s = (Inr found, s')"
    and m: "find (\<lambda>(k, x). token_matches (bearerToken (hq_header r ''Authorization'')) x) found = Some (k, x)"
    by (auto simp: namespaceAccessSecretForToken_def Let_def split: if_splits prod.splits sum.splits)
  have "(k, x) \<in> set found" "token_matches (bearerToken (hq_header r ''Authorization'')) x"
    using m by (auto simp: find_Some_iff) (metis nth_mem)
  moreover have "found = access_secrets namespace s'" "pw_secrets s' = pw_secrets s" using fetch_all_Inr [OF f] by simp_all
  ultimately show "(k, x) \<in> set (pw_secrets s)" "is_grant x"
    "token_matches (bearerToken (hq_header r ''Authorization'')) x" "namespace = '''' \<or> fst k = namespace"
    by (auto simp: access_secrets_def is_grant_def split: prod.splits)
qed

text \<open>The namespace that a grant is for: the one its data names, or the one its Secret is in.\<close>

definition granted_namespace :: "key \<Rightarrow> secret \<Rightarrow> string" where
  "granted_namespace k x =
     (let declared = trimSpace (map_get (sc_data x) ''namespace'') in if declared = '''' then fst k else declared)"

lemma forward_Forwards:
  "forwardKubernetesRequest px r path = Forwards u \<Longrightarrow> u = \<lparr>up_method = hq_method r, up_path = path, up_rawQuery = hq_rawQuery r\<rparr>"
  by (auto simp: forwardKubernetesRequest_def split: if_splits)

lemma namespace_proxy_forwards:
  assumes "handleKubernetesNamespaceProxy px r s = (Forwards u, s')"
  shows "\<exists>k x. (k, x) \<in> set (pw_secrets s) \<and> is_grant x \<and>
    token_matches (bearerToken (hq_header r ''Authorization'')) x \<and>
    within_grant (granted_namespace k x) (up_path u) \<and> up_method u \<in> {''GET'', ''HEAD''}"
proof -
  obtain namespace path k x where readonly: "hq_method r \<in> {''GET'', ''HEAD''}"
    and target: "namespaceProxyTarget (hq_path r) = Some (namespace, path)"
    and sec: "namespaceAccessSecretForToken r namespace s = (Some (k, x), s')"
    and same: "trimSpace (map_get (sc_data x) ''namespace'') \<in> {'''', namespace}"
    and allowed: "namespaceProxyPathAllowed namespace path"
    and fwd: "forwardKubernetesRequest px r path = Forwards u"
    using assms by (auto simp: handleKubernetesNamespaceProxy_def Let_def split: if_splits option.splits prod.splits)
  have "namespace \<noteq> ''''" using allowed by (simp add: allowed_paths)
  then have "granted_namespace k x = namespace"
    using same secret_for_token(4) [OF sec] by (auto simp: granted_namespace_def Let_def)
  then show ?thesis
    using secret_for_token(1-3) [OF sec] allowed forward_Forwards [OF fwd] readonly
    by (intro exI [of _ k] exI [of _ x]) (auto simp: allowed_paths)
qed

lemma root_proxy_forwards:
  assumes "handleKubernetesRootProxy px r s = (Forwards u, s')"
  shows "\<exists>k x. (k, x) \<in> set (pw_secrets s) \<and> is_grant x \<and>
    token_matches (bearerToken (hq_header r ''Authorization'')) x \<and>
    within_grant (granted_namespace k x) (up_path u) \<and> up_method u \<in> {''GET'', ''HEAD''}"
proof -
  obtain ns n x where readonly: "hq_method r \<in> {''GET'', ''HEAD''}"
    and sec: "namespaceAccessSecretForToken r '''' s = (Some ((ns, n), x), s')"
    and allowed: "namespaceProxyPathAllowed (granted_namespace (ns, n) x) (hq_path r)"
    and fwd: "forwardKubernetesRequest px r (hq_path r) = Forwards u"
    using assms by (auto simp: handleKubernetesRootProxy_def Let_def granted_namespace_def split: if_splits option.splits prod.splits)
  show ?thesis
    using secret_for_token(1-3) [OF sec] allowed forward_Forwards [OF fwd] readonly
    by (intro exI [of _ "(ns, n)"] exI [of _ x]) (auto simp: allowed_paths)
qed

text \<open>
  C11 Whatever is forwarded to the API server is a \<open>GET\<close> or \<open>HEAD\<close>, is authorised by the token of a Secret
  labelled as a namespace grant, and reads only discovery documents, \<open>/openapi\<close> or the namespace of that
  grant, by a path that cannot walk out of it.
\<close>

theorem proxied_reads_stay_in_the_grant:
  assumes "kubernetes_proxy px r ctx s = (Forwards u, s')"
  shows "\<exists>k x. (k, x) \<in> set (pw_secrets s) \<and> is_grant x \<and>
    token_matches (bearerToken (hq_header r ''Authorization'')) x \<and>
    within_grant (granted_namespace k x) (up_path u) \<and> up_method u \<in> {''GET'', ''HEAD''}"
  using assms namespace_proxy_forwards root_proxy_forwards by (auto simp: kubernetes_proxy_def split: if_splits)

definition sampleRead :: "string \<Rightarrow> string \<Rightarrow> http_request" where
  "sampleRead path authorization = \<lparr>hq_method = ''GET'', hq_path = path, hq_rawQuery = '''',
     hq_header = (\<lambda>h. if h = ''Authorization'' then authorization else ''''), hq_cookie = (\<lambda>_. None)\<rparr>"

theorem proxied_reads_stay_in_the_grant_witness:
  "\<exists>u s'. kubernetes_proxy \<lparr>px_host = ''https://k'', px_parses = True\<rparr>
       (sampleRead ''/api/kubernetes/namespaces/shop-ns/api/v1/namespaces/shop-ns/pods'' ''Bearer t0'') None (samplePortal []) =
       (Forwards u, s') \<and> (\<exists>k x. token_matches ''t0'' x \<and> within_grant (granted_namespace k x) (up_path u))"
proof -
  define r where "r = sampleRead ''/api/kubernetes/namespaces/shop-ns/api/v1/namespaces/shop-ns/pods'' ''Bearer t0''"
  have token: "bearerToken ''Bearer t0'' = ''t0''" by code_simp
  have target: "namespaceProxyTarget (hq_path r) = Some (''shop-ns'', ''/api/v1/namespaces/shop-ns/pods'')"
    unfolding r_def sampleRead_def by code_simp
  have allowed: "namespaceProxyPathAllowed ''shop-ns'' ''/api/v1/namespaces/shop-ns/pods''" by code_simp
  have trims: "trimSpace ''t0'' = ''t0''" "trimSpace ''shop-ns'' = ''shop-ns''" by code_simp+
  have sec: "namespaceAccessSecretForToken r ''shop-ns'' (samplePortal []) =
      (Some ((''shop-ns'', ''grant''), sampleGrant), samplePortal [])"
    by (simp add: namespaceAccessSecretForToken_def r_def sampleRead_def token fetch_all_def portal_fault_def on_portal_def
        control_fault_def access_secrets_def token_matches_def sample_portal_simps map_get_def trims Let_def)
  have "\<exists>u. kubernetes_proxy \<lparr>px_host = ''https://k'', px_parses = True\<rparr> r None (samplePortal []) = (Forwards u, samplePortal [])"
    using target sec allowed
    by (simp add: kubernetes_proxy_def handleKubernetesNamespaceProxy_def forwardKubernetesRequest_def sampleGrant_def
        map_get_def trims hasPrefix_def) (simp add: r_def sampleRead_def)
  then obtain u where u: "kubernetes_proxy \<lparr>px_host = ''https://k'', px_parses = True\<rparr> r None (samplePortal []) =
      (Forwards u, samplePortal [])" ..
  moreover have "bearerToken (hq_header r ''Authorization'') = ''t0''" using token by (simp add: r_def sampleRead_def)
  ultimately show ?thesis using proxied_reads_stay_in_the_grant [OF u] unfolding r_def by auto
qed

section \<open>In the composed server\<close>

text \<open>A bearer token is taken for an OIDC token, so that one that no provider accepts ends the request.\<close>

lemma resolve_only_verified:
  "(\<And>rt. \<exists>e. ax_verify env rt token = Inl e) \<Longrightarrow> \<exists>e. sessionAndActorFromIDToken env rt token ref s = (Inl e, s)"
  by (metis (no_types, lifting) sessionAndActorFromIDToken_def sum.simps(5))

lemma no_provider_accepts:
  assumes "\<And>rt. \<exists>e. ax_verify env rt token = Inl e"
  shows "\<exists>e s'. try_providers env token ps err s = (Inl e, s')"
proof (induction ps arbitrary: err s)
  case (Cons p ps)
  show ?case
  proof (cases "aps_type (apv_spec p) = AuthProviderTypeOIDC")
    case oidc: True
    obtain r t where rt: "ax_oidcProvider env p s = (r, t)" by (cases "ax_oidcProvider env p s")
    show ?thesis
    proof (cases r)
      case (Inl e)
      then show ?thesis using oidc rt Cons by simp
    next
      case (Inr run)
      then show ?thesis using oidc rt Cons resolve_only_verified [OF assms, of run "''''" t] by auto
    qed
  qed (use Cons in simp)
qed simp

lemma bearer_refused:
  assumes "\<And>rt. \<exists>e. ax_verify env rt token = Inl e"
  shows "\<exists>e s'. authenticateBearerToken env token s = (Inl e, s')"
proof -
  obtain r t where l: "pass (listEnabledProviders s) = (r, t)" by (cases "pass (listEnabledProviders s)")
  show ?thesis using no_provider_accepts [OF assms] l by (cases r) (simp_all add: authenticateBearerToken_def)
qed

text \<open>
  C16 In the composed server the token of a namespace grant does not reach the proxy: the middleware in front of
  every handler takes a bearer token for an OIDC token, and answers 401 when no enabled provider accepts it,
  whatever Secret it is the token of.
\<close>

theorem grant_tokens_are_turned_away:
  assumes "\<not> ax_allowTestHeaders env" and "hq_method r = ''GET''" and "hq_path r \<notin> set public_paths"
    and "authorizationBearerToken (hq_header r ''Authorization'') = token" "token \<noteq> ''''"
    and "\<And>rt. \<exists>e. ax_verify env rt token = Inl e"
  shows "fst (served (Some env) r Refuses (kubernetes_proxy px r) s) = Refuses 401 ''authentication failed''"
proof -
  obtain e t where "authenticateBearerToken env token s = (Inl e, t)" using bearer_refused [OF assms(6)] by blast
  then have "Authenticate env r s = (Inl e, t)" using assms by (simp add: Authenticate_def)
  then show ?thesis
    using assms(2,3) by (simp add: served_def withCSRF_def requiresCSRF_def withAuthentication_def)
qed

theorem grant_tokens_are_turned_away_witness:
  "fst (served (Some \<lparr>ax_allowTestHeaders = False, ax_oidcProvider = (\<lambda>p s. (Inl (Errorf ''none''), s)),
       ax_verify = (\<lambda>_ _. Inl (Errorf ''no token of ours'')), ax_refresh = (\<lambda>_ _. Inl (Errorf ''none'')),
       ax_openSession = (\<lambda>_. Inl (Errorf ''none''))\<rparr>)
     (sampleRead ''/api/kubernetes/namespaces/shop-ns/api/v1/namespaces/shop-ns/pods'' ''Bearer t0'') Refuses
     (kubernetes_proxy \<lparr>px_host = ''https://k'', px_parses = True\<rparr>
        (sampleRead ''/api/kubernetes/namespaces/shop-ns/api/v1/namespaces/shop-ns/pods'' ''Bearer t0'')) (samplePortal [])) =
   Refuses 401 ''authentication failed''"
proof -
  have "authorizationBearerToken ''Bearer t0'' = ''t0''" by code_simp
  then show ?thesis
    by (intro grant_tokens_are_turned_away [where token = "''t0''"]) (simp_all add: sampleRead_def public_paths_def)
qed

text \<open>
  The server forwards with its own credentials, so that the Role that a grant creates does not bound what its
  token reads: Secrets of the namespace, which no rule of the Role names, are on an accepted path.
\<close>

lemma secrets_are_within_a_grant:
  assumes "plain_segments [namespace]"
  shows "namespaceProxyPathAllowed namespace (''/api/v1/namespaces/'' @ namespace @ ''/secrets'') \<and>
    (\<forall>rule \<in> set accessRules. ''secrets'' \<notin> set (pr_resources rule))"
proof
  let ?segs = "[''api'', ''v1'', ''namespaces'', namespace, ''secrets'']"
  have "plain_segments ?segs" using assms by (auto simp: plain_segments_def)
  moreover have "trimSet ''/'' (''/api/v1/namespaces/'' @ namespace @ ''/secrets'') = join ''/'' ?segs"
    by (simp add: trimSet_def trimRightSet_def)
  ultimately have "within_grant namespace (''/api/v1/namespaces/'' @ namespace @ ''/secrets'')"
    unfolding within_grant_def in_namespace_def by fastforce
  then show "namespaceProxyPathAllowed namespace (''/api/v1/namespaces/'' @ namespace @ ''/secrets'')"
    using assms by (simp add: allowed_paths plain_segments_def hasPrefix_def)
  show "\<forall>rule \<in> set accessRules. ''secrets'' \<notin> set (pr_resources rule)"
    by (simp add: accessRules_def Let_def)
qed

text \<open>
  The proxy at the root trusts the namespace that the data of any labelled Secret name, wherever the Secret is.
\<close>

lemma any_secret_grants_any_namespace:
  assumes "is_grant x" "trimSpace (map_get (sc_data x) ''namespace'') = other" "other \<noteq> ''''"
  shows "granted_namespace (ns, n) x = other"
  using assms by (simp add: granted_namespace_def)

end
