(* ===== verification/Bff_Requests.thy ===== *)
theory Bff_Requests
  imports Bff_World Claim_Controllers Adapter_Catalog
begin

text \<open>
  The requests that change products and actions (\<open>internal/bff/writes.go\<close>): ordering, changing and
  deleting a product, submitting an action and deciding on one that waits for approval.

  A request body is taken as decoded, \<open>None\<close> where \<open>json.Decoder\<close> failed; path values are taken as the
  router has them. The readings of the clock, the id of the request and the texts of errors that come
  from elsewhere are the fields of \<open>bff_env\<close>.
\<close>

record bff_env =
  be_rfc3339 :: string
  be_unix :: int
  be_unixNano :: int
  be_now :: time
  be_requestID :: string
  be_errText :: "go_error \<Rightarrow> string"

record write_response =
  wr_Name :: string
  wr_Message :: string

section \<open>Small pieces\<close>

text \<open>\<open>^[a-z][a-z0-9-]{0,61}[a-z0-9]$\<close>\<close>

definition lower_letter :: "char \<Rightarrow> bool" where
  "lower_letter c \<longleftrightarrow> (let n = of_char c :: nat in 97 \<le> n \<and> n \<le> 122)"

definition product_name_char :: "char \<Rightarrow> bool" where
  "product_name_char c \<longleftrightarrow> lower_letter c \<or> is_digit c \<or> c = CHR ''-''"

definition productRequestNamePattern :: "string \<Rightarrow> bool" where
  "productRequestNamePattern s \<longleftrightarrow>
     2 \<le> length s \<and> length s \<le> 63 \<and> lower_letter (hd s) \<and> (lower_letter (last s) \<or> is_digit (last s)) \<and>
     list_all product_name_char s"

definition actionCapabilityForClass :: "string \<Rightarrow> string \<Rightarrow> action_capability option" where
  "actionCapabilityForClass serviceClass action =
     (case KnownContract serviceClass of
        None \<Rightarrow> None
      | Some contract \<Rightarrow> find (\<lambda>able. ac_Name able = action) (pc_Actions contract))"

definition approvalModeFor :: "actor \<Rightarrow> action_capability \<Rightarrow> string" where
  "approvalModeFor a able =
     (if ac_RequiresApproval able
      then (if hasAny a [RolePlatformAdmin] then ApprovalModeApproved else ApprovalModeRequired)
      else ApprovalModeAuto)"

definition deletionPolicyForClass :: "string \<Rightarrow> string" where
  "deletionPolicyForClass serviceClass =
     (if serviceClass = ''postgresql'' then DeletionPolicySnapshot
      else if serviceClass = ''mysql'' then DeletionPolicySnapshot
      else if serviceClass = ''nats'' then DeletionPolicyDelete
      else if serviceClass = ''valkey'' then DeletionPolicyDelete
      else if serviceClass = ''yugabyte'' then DeletionPolicySnapshot
      else DeletionPolicyDelete)"

definition rawJSONFromMap :: "(string \<times> goval) list \<Rightarrow> raw_json option" where
  "rawJSONFromMap values = (if values = [] then None else Some (json_encode (any_json (GMap values))))"

definition actorRequestIdentity :: "actor \<Rightarrow> string" where
  "actorRequestIdentity a =
     (let provider = trimSpace (av_Provider a); subject = trimSpace (av_Subject a) in
      if provider \<noteq> '''' \<and> subject \<noteq> '''' then provider @ '':'' @ subject
      else if subject \<noteq> '''' then subject
      else trimSpace (av_Name a))"

definition isSelfApprovalRequest :: "string \<Rightarrow> actor \<Rightarrow> bool" where
  "isSelfApprovalRequest requestedBy a \<longleftrightarrow>
     (let requested = trimSpace requestedBy; ident = actorRequestIdentity a in
      if requested = '''' then False
      else if ident \<noteq> '''' \<and> requested = ident then True
      else list_ex (\<lambda>legacy. legacy \<noteq> '''' \<and> requested = legacy)
             [trimSpace (av_Name a), trimSpace (av_Subject a), trimSpace (av_Email a), trimSpace (av_UserName a)])"

definition implementedProducts :: "string list" where
  "implementedProducts =
     [''namespace'', ''postgresql'', ''mysql'', ''valkey'', ''nats'', ''cassandra'', ''yugabyte'',
      ''virtual-machine'', ''argo-application'']"

section \<open>Products\<close>

record product_request =
  pq_Name :: string
  pq_ProjectName :: string
  pq_ServiceClass :: string
  pq_ServicePlan :: string
  pq_Version :: string
  pq_Parameters :: "(string \<times> goval) list"

definition hasStandbyClusters :: "product_request \<Rightarrow> bool" where
  "hasStandbyClusters request =
     (case map_of (pq_Parameters request) ''standbyClusters'' of Some (GArr items) \<Rightarrow> items \<noteq> [] | _ \<Rightarrow> False)"

definition requested_annotations :: "bff_env \<Rightarrow> actor \<Rightarrow> (string, string) gomap" where
  "requested_annotations env a =
     [(''servicer.io/requested-by'', av_Name a), (''servicer.io/requested-at'', be_rfc3339 env),
      (''servicer.io/request-id'', be_requestID env)]"

abbreviation new_meta :: "string \<Rightarrow> (string, string) gomap \<Rightarrow> object_meta" where
  "new_meta n annotations \<equiv> \<lparr>m_name = n, m_namespace = '''', m_uid = '''', m_generation = 0, m_labels = [],
     m_annotations = annotations, m_deletionTimestamp = None, m_finalizers = []\<rparr>"

definition new_instance_status :: service_instance_status where
  "new_instance_status = \<lparr>sit_observedGeneration = 0, sit_phase = '''', sit_conditions = [],
     sit_placement = \<lparr>pl_clusterName = '''', pl_namespace = ''''\<rparr>,
     sit_runtime = \<lparr>rt_driver = '''', rt_objectRef = None\<rparr>, sit_endpoints = [], sit_credentialRefs = [],
     sit_artifact = \<lparr>as_revision = '''', as_path = '''', as_count = 0, as_artifacts = []\<rparr>,
     sit_sync = \<lparr>ds_phase = '''', ds_applicationName = '''', ds_message = ''''\<rparr>,
     sit_health = \<lparr>hs_summary = ''''\<rparr>,
     sit_cacheTopology = \<lparr>ctop_mode = '''', ctop_primaryCluster = '''', ctop_standbyClusters = [],
       ctop_trafficEndpoint = '''', ctop_trafficPolicyRef = None, ctop_failoverReadiness = '''', ctop_message = ''''\<rparr>\<rparr>"

definition requested_instance :: "bff_env \<Rightarrow> actor \<Rightarrow> product_request \<Rightarrow> service_instance" where
  "requested_instance env a request =
     \<lparr>si_meta = new_meta (pq_Name request) (requested_annotations env a),
      si_spec = \<lparr>sis_projectRef = \<lparr>lr_name = pq_ProjectName request\<rparr>,
        sis_serviceClassRef = \<lparr>lr_name = pq_ServiceClass request\<rparr>,
        sis_servicePlanRef = \<lparr>lr_name = pq_ServicePlan request\<rparr>, sis_version = pq_Version request,
        sis_parameters = rawJSONFromMap (pq_Parameters request),
        sis_exposure = \<lparr>ex_mode = ExposureModeClusterInternal\<rparr>, sis_maintenancePolicy = \<lparr>mp_windowRef = None\<rparr>,
        sis_secretPolicy = \<lparr>sp_deliveryMode = SecretDeliveryModeExternalSecret, sp_externalSecretProvider = '''',
          sp_vault = None\<rparr>,
        sis_deletionPolicy = deletionPolicyForClass (pq_ServiceClass request)\<rparr>,
      si_status = new_instance_status\<rparr>"

text \<open>The last checks of a request, on what was read for it.\<close>

definition product_refused :: "actor \<Rightarrow> product_request \<Rightarrow> tenant \<Rightarrow> service_class \<Rightarrow> service_plan \<Rightarrow> string option" where
  "product_refused a request t class plan =
     (let className = m_name (sc_meta class);
          multiCluster = (case KnownContract (pq_ServiceClass request) of None \<Rightarrow> False | Some k \<Rightarrow> pc_SupportsMultiCluster k)
      in if lr_name (sps_serviceClassRef (spl_spec plan)) \<noteq> className
         then Some (''plan '' @ quote (m_name (spl_meta plan)) @ '' does not belong to class '' @ quote className)
         else if \<not> scs_published (sc_spec class) \<and> \<not> sct_published (sc_status class)
         then Some (''service class '' @ quote className @ '' is not published'')
         else if \<not> isPlatformAdmin a \<and> className \<notin> set (tns_allowedServiceClasses (tn_spec t))
         then Some (''service class '' @ quote className @ '' is not allowed for tenant '' @ quote (m_name (tn_meta t)))
         else if sps_topology (spl_spec plan) = ''multi-region'' \<and> multiCluster \<and> \<not> hasStandbyClusters request
         then Some (''plan '' @ quote (m_name (spl_meta plan)) @ '' uses multi-region topology '' @
                [CHR 0xE2, CHR 0x80, CHR 0x94] @
                '' at least one standby cluster must be specified in parameters.standbyClusters'')
         else None)"

definition productRequestToInstance ::
  "bff_env \<Rightarrow> actor \<Rightarrow> product_request \<Rightarrow> portal \<Rightarrow> (go_error + service_instance) \<times> portal" where
  "productRequestToInstance env a req s =
     (let request = req\<lparr>pq_Name := trimSpace (pq_Name req)\<rparr>;
          projectName = pq_ProjectName request
      in if pq_Name request = '''' \<or> projectName = '''' \<or> pq_ServiceClass request = '''' \<or> pq_ServicePlan request = ''''
         then (Inl (Errorf ''name, projectName, serviceClass, and servicePlan are required''), s)
         else if \<not> productRequestNamePattern (pq_Name request)
         then (Inl (Errorf ''name must start with a lowercase letter, end with a lowercase letter or number, and contain only lowercase letters, numbers, and hyphens''), s)
         else if pq_ServiceClass request \<notin> set implementedProducts
         then (Inl (Errorf (''service class '' @ quote (pq_ServiceClass request) @ '' is not requestable'')), s)
         else (case portal_get projects projectName s of
           (Inl e, s) \<Rightarrow>
             (Inl (if e = NotFound then Errorf (''project '' @ quote projectName @ '' does not exist'') else ApiError e), s)
         | (Inr p, s) \<Rightarrow>
             (case authorizeProject a p s of
                (False, s) \<Rightarrow> (Inl (Errorf (''project '' @ quote projectName @ '' is outside your authorized tenancy'')), s)
              | (True, s) \<Rightarrow>
                  and_then (pass (portal_get tenants (lr_name (prs_tenantRef (pj_spec p))) s)) (\<lambda>t s.
                  and_then (pass (portal_get serviceClasses (pq_ServiceClass request) s)) (\<lambda>class s.
                  and_then (pass (portal_get servicePlans (pq_ServicePlan request) s)) (\<lambda>plan s.
                    (case product_refused a request t class plan of
                       Some text \<Rightarrow> (Inl (Errorf text), s)
                     | None \<Rightarrow> (Inr (requested_instance env a request), s))))))))"

definition on_request :: "bff_env \<Rightarrow> (go_error + 'a) \<times> portal \<Rightarrow> ('a \<Rightarrow> 'b handler) \<Rightarrow> 'b answer \<times> portal" where
  "on_request env r f =
     (case r of (Inl e, s) \<Rightarrow> (Fails 400 (be_errText env e), s) | (Inr x, s) \<Rightarrow> f x s)"

abbreviation operators_and_consumers :: "string list" where
  "operators_and_consumers \<equiv> [RolePlatformAdmin, RoleTenantOperator, RoleServiceConsumer]"

definition handleCreateProductRequest :: "bff_env \<Rightarrow> actor \<Rightarrow> product_request option \<Rightarrow> write_response handler" where
  "handleCreateProductRequest env a body =
     requireRole a operators_and_consumers (\<lambda>s.
       case body of
         None \<Rightarrow> (Fails 400 ''invalid request body'', s)
       | Some request \<Rightarrow>
           on_request env (productRequestToInstance env a request s) (\<lambda>i s.
           or_answer (on_portal (create_obj serviceInstances (m_name (si_meta i)) i) s) (\<lambda>_ s.
             (Answers 201 \<lparr>wr_Name = m_name (si_meta i), wr_Message = ''Product request submitted.''\<rparr>, s))))"

text \<open>\<open>Annotations[key] = value\<close> with the name of the actor and the time.\<close>

definition sign :: "bff_env \<Rightarrow> actor \<Rightarrow> string \<Rightarrow> object_meta \<Rightarrow> object_meta" where
  "sign env a verb m =
     m\<lparr>m_annotations := map_set (''servicer.io/'' @ verb @ ''-at'') (be_rfc3339 env)
         (map_set (''servicer.io/'' @ verb @ ''-by'') (av_Name a) (m_annotations m))\<rparr>"

text \<open>An \<open>Update\<close> leaves the stored status as it is.\<close>

definition update_product :: "service_instance \<Rightarrow> unit portal_call" where
  "update_product i =
     on_portal (change_obj serviceInstances (m_name (si_meta i)) (\<lambda>stored. i\<lparr>si_status := si_status stored\<rparr>))"

definition handleUpdateProductRequest ::
  "bff_env \<Rightarrow> actor \<Rightarrow> string \<Rightarrow> product_request option \<Rightarrow> write_response handler" where
  "handleUpdateProductRequest env a pathName body =
     requireRole a operators_and_consumers (\<lambda>s.
       let name = trimSpace pathName in
       case body of
         None \<Rightarrow> (Fails 400 ''invalid request body'', s)
       | Some req \<Rightarrow>
           (let request = (if pq_Name req = '''' then req\<lparr>pq_Name := name\<rparr> else req) in
            if pq_Name request \<noteq> name then (Fails 400 ''request name must match path'', s)
            else or_answer (portal_get serviceInstances name s) (\<lambda>existing s.
              (case authorizeInstance a existing s of
                 (False, s) \<Rightarrow> (Fails 403 ''instance is outside your authorized tenancy'', s)
               | (True, s) \<Rightarrow>
                   on_request env (productRequestToInstance env a request s) (\<lambda>updated s.
                   or_answer (update_product (existing\<lparr>si_spec := si_spec updated,
                       si_meta := sign env a ''updated'' (si_meta existing)\<rparr>) s) (\<lambda>_ s.
                     (Answers 200 \<lparr>wr_Name = m_name (si_meta existing), wr_Message = ''Product request updated.''\<rparr>, s)))))))"

text \<open>A \<open>Delete\<close>: an object with finalizers is marked, and stays until they are gone.\<close>

definition delete_product :: "bff_env \<Rightarrow> string \<Rightarrow> unit portal_call" where
  "delete_product env n =
     portal_write (\<lambda>s. if map_of (co_instances (pw_control s)) n = None then Some NotFound else None)
       (\<lambda>s. s\<lparr>pw_control := (pw_control s)\<lparr>co_instances :=
          (case map_of (co_instances (pw_control s)) n of
             None \<Rightarrow> co_instances (pw_control s)
           | Some i \<Rightarrow>
               if m_finalizers (si_meta i) = [] then AList.delete n (co_instances (pw_control s))
               else AList.update n (i\<lparr>si_meta := (si_meta i)\<lparr>m_deletionTimestamp :=
                   (case m_deletionTimestamp (si_meta i) of None \<Rightarrow> Some (be_now env) | Some t \<Rightarrow> Some t)\<rparr>\<rparr>)
                 (co_instances (pw_control s)))\<rparr>\<rparr>)"

definition handleDeleteProductRequest :: "bff_env \<Rightarrow> actor \<Rightarrow> string \<Rightarrow> write_response handler" where
  "handleDeleteProductRequest env a pathName =
     requireRole a [RolePlatformAdmin, RoleTenantOperator] (\<lambda>s.
       let name = trimSpace pathName in
       if name = '''' then (Fails 400 ''instance name is required'', s)
       else or_answer (portal_get serviceInstances name s) (\<lambda>i s.
         (case authorizeInstance a i s of
            (False, s) \<Rightarrow> (Fails 403 ''instance is outside your authorized tenancy'', s)
          | (True, s) \<Rightarrow>
              (let signed = i\<lparr>si_meta := sign env a ''deleted'' (si_meta i)\<rparr>;
                   s = snd (update_product signed s)
               in or_answer (delete_product env (m_name (si_meta i)) s) (\<lambda>_ s.
                    (Answers 200 \<lparr>wr_Name = name, wr_Message = ''Product deletion requested.''\<rparr>, s))))))"

section \<open>Actions\<close>

record action_submit_request =
  sq_Action :: string
  sq_Parameters :: "(string \<times> goval) list"
  sq_Reason :: string

definition create_action :: "action_request \<Rightarrow> unit portal_call" where
  "create_action x =
     portal_write
       (\<lambda>s. if map_of (pw_actions s) (m_name (ar_meta x)) = None then None else Some AlreadyExists)
       (\<lambda>s. s\<lparr>pw_actions := AList.update (m_name (ar_meta x)) x (pw_actions s)\<rparr>)"

definition update_action :: "action_request \<Rightarrow> unit portal_call" where
  "update_action x =
     portal_write
       (\<lambda>s. if map_of (pw_actions s) (m_name (ar_meta x)) = None then Some NotFound else None)
       (\<lambda>s. s\<lparr>pw_actions := AList.update (m_name (ar_meta x))
          (case map_of (pw_actions s) (m_name (ar_meta x)) of
             None \<Rightarrow> x | Some stored \<Rightarrow> x\<lparr>ar_status := ar_status stored\<rparr>) (pw_actions s)\<rparr>)"

definition new_action_status :: action_request_status where
  "new_action_status = \<lparr>art_observedGeneration = 0, art_phase = '''', art_conditions = [], art_startedAt = None,
     art_completedAt = None, art_operationRef = None, art_operationID = '''', art_operationState = '''',
     art_result = \<lparr>res_code = '''', res_message = '''', res_retryable = False\<rparr>\<rparr>"

definition submitted_action ::
  "bff_env \<Rightarrow> actor \<Rightarrow> string \<Rightarrow> string \<Rightarrow> action_submit_request \<Rightarrow> action_capability \<Rightarrow> action_request" where
  "submitted_action env a instanceName actionName request able =
     \<lparr>ar_meta = new_meta (instanceName @ ''-'' @ actionName @ ''-'' @ show_int (be_unix env))
        [(''servicer.io/requested-by'', av_Name a), (''servicer.io/request-reason'', sq_Reason request),
         (''servicer.io/request-id'', be_requestID env)],
      ar_spec = \<lparr>ars_targetRef = \<lparr>tr_apiVersion = ''platform.servicer.io/v1alpha1'', tr_kind = ''ServiceInstance'',
          tr_name = instanceName, tr_namespace = ''''\<rparr>,
        ars_action = actionName,
        ars_idempotencyKey = instanceName @ ''/'' @ actionName @ ''/'' @ show_int (be_unixNano env),
        ars_parameters = rawJSONFromMap (sq_Parameters request),
        ars_approval = \<lparr>ap_mode = approvalModeFor a able, ap_approvedBy = []\<rparr>,
        ars_requestedBy = \<lparr>rb_subject = actorRequestIdentity a, rb_source = RequestSourceUI\<rparr>\<rparr>,
      ar_status = new_action_status\<rparr>"

definition handleSubmitAction ::
  "bff_env \<Rightarrow> actor \<Rightarrow> string \<Rightarrow> action_submit_request option \<Rightarrow> write_response handler" where
  "handleSubmitAction env a pathName body =
     requireRole a operators_and_consumers (\<lambda>s.
       let instanceName = trimSpace pathName in
       case body of
         None \<Rightarrow> (Fails 400 ''invalid request body'', s)
       | Some request \<Rightarrow>
           (let actionName = trimSpace (sq_Action request) in
            if actionName = '''' then (Fails 400 ''action is required'', s)
            else or_answer (portal_get serviceInstances instanceName s) (\<lambda>i s.
              (let class = lr_name (sis_serviceClassRef (si_spec i)) in
               case authorizeInstance a i s of
                 (False, s) \<Rightarrow> (Fails 403 ''instance is outside your authorized tenancy'', s)
               | (True, s) \<Rightarrow>
                   (case actionCapabilityForClass class actionName of
                      None \<Rightarrow> (Fails 400 (''action '' @ quote actionName @ '' is not supported for '' @ quote class), s)
                    | Some able \<Rightarrow>
                        if ac_RequiresApproval able \<and> \<not> hasAny a [RolePlatformAdmin, RoleTenantOperator]
                        then (Fails 403 ''action requires an approver role'', s)
                        else (let x = submitted_action env a instanceName actionName request able in
                              or_answer (create_action x s) (\<lambda>_ s.
                                (Answers 201 \<lparr>wr_Name = m_name (ar_meta x), wr_Message = ''Action request submitted.''\<rparr>, s))))))))"

record action_approval_request =
  aq_Decision :: string
  aq_Reason :: string

text \<open>What a decision makes of the request it is about.\<close>

definition reviewed :: "bff_env \<Rightarrow> actor \<Rightarrow> action_approval_request \<Rightarrow> action_request \<Rightarrow> action_request" where
  "reviewed env a request x =
     (let m = ar_meta x;
          annotated = map_set ''servicer.io/approval-reviewed-at'' (be_rfc3339 env)
            (map_set ''servicer.io/approval-reviewed-by'' (av_Name a) (m_annotations m));
          reason = trimSpace (aq_Reason request)
      in x\<lparr>ar_meta := m\<lparr>m_annotations :=
             (if reason \<noteq> '''' then map_set ''servicer.io/approval-reason'' reason annotated else annotated)\<rparr>\<rparr>)"

definition approve :: "actor \<Rightarrow> approval_spec \<Rightarrow> approval_spec" where
  "approve a approval =
     approval\<lparr>ap_mode := ApprovalModeApproved,
       ap_approvedBy := (if av_Name a \<in> set (ap_approvedBy approval) then ap_approvedBy approval
                         else ap_approvedBy approval @ [av_Name a])\<rparr>"

definition reject :: "approval_spec \<Rightarrow> approval_spec" where
  "reject approval = approval\<lparr>ap_mode := ApprovalModeRejected, ap_approvedBy := []\<rparr>"

definition handleActionApproval ::
  "bff_env \<Rightarrow> actor \<Rightarrow> string \<Rightarrow> action_approval_request option \<Rightarrow> write_response handler" where
  "handleActionApproval env a pathName body =
     requireRole a [RolePlatformAdmin, RoleTenantOperator] (\<lambda>s.
       let name = trimSpace pathName in
       if name = '''' then (Fails 400 ''action request name is required'', s)
       else case body of
         None \<Rightarrow> (Fails 400 ''invalid request body'', s)
       | Some request \<Rightarrow>
           (let decision = map ascii_lower (trimSpace (aq_Decision request)) in
            if decision \<noteq> ''approve'' \<and> decision \<noteq> ''reject''
            then (Fails 400 ''decision must be approve or reject'', s)
            else or_answer (fetch (\<lambda>s. map_of (pw_actions s) name) s) (\<lambda>x s.
              or_answer (portal_get serviceInstances (tr_name (ars_targetRef (ar_spec x))) s) (\<lambda>i s.
                (case authorizeInstance a i s of
                   (False, s) \<Rightarrow> (Fails 403 ''action target is outside your authorized tenancy'', s)
                 | (True, s) \<Rightarrow>
                     if isSelfApprovalRequest (rb_subject (ars_requestedBy (ar_spec x))) a \<and> \<not> isPlatformAdmin a
                     then (Fails 403 ''requesters may not self-approve their own action requests'', s)
                     else if art_phase (ar_status x) \<noteq> ''PendingApproval'' \<or>
                         ap_mode (ars_approval (ar_spec x)) \<noteq> ApprovalModeRequired
                     then (Fails 409 ''action request is not waiting for approval'', s)
                     else (let y = reviewed env a request x;
                               sp = ar_spec y;
                               z = y\<lparr>ar_spec := sp\<lparr>ars_approval :=
                                 (if decision = ''approve'' then approve a (ars_approval sp) else reject (ars_approval sp))\<rparr>\<rparr>
                           in or_answer (update_action z s) (\<lambda>_ s.
                                (Answers 200 \<lparr>wr_Name = m_name (ar_meta z),
                                   wr_Message = (if decision = ''reject'' then ''Action request rejected.''
                                                 else ''Action request approved.'')\<rparr>, s)))))))) "

end
