(* ===== verification/Bff_Request_Facts.thy ===== *)
theory Bff_Request_Facts
  imports Bff_Requests Bff_Samples Action_Machine
begin

text \<open>
  Who may do what through the backend for frontend: the authorization of a single object against the filters
  of the lists, decisions on actions, and what becomes of a submitted action in the controller.
\<close>

section \<open>Calls that only read\<close>

definition quiet :: "portal \<Rightarrow> portal \<Rightarrow> bool" where
  "quiet s s' \<longleftrightarrow> (\<exists>fs. s' = s\<lparr>pw_control := (pw_control s)\<lparr>co_faults := fs\<rparr>\<rparr>)"

lemma quiet_refl [simp]: "quiet s s"
  unfolding quiet_def by (rule exI [of _ "co_faults (pw_control s)"]) simp

lemma quiet_trans: "quiet s t \<Longrightarrow> quiet t u \<Longrightarrow> quiet s u"
  by (auto simp: quiet_def)

lemma quietD:
  assumes "quiet s s'"
  shows "pw_actions s' = pw_actions s" "pw_secrets s' = pw_secrets s"
    "co_instances (pw_control s') = co_instances (pw_control s)" "co_projects (pw_control s') = co_projects (pw_control s)"
    "co_tenants (pw_control s') = co_tenants (pw_control s)"
  using assms by (auto simp: quiet_def)

lemma quiet_fault: "portal_fault s = (f, s') \<Longrightarrow> quiet s s'"
  by (cases "co_faults (pw_control s)")
     (auto simp: portal_fault_def on_portal_def control_fault_def quiet_def intro: exI [of _ "co_faults (pw_control s)"])

lemma quiet_fetch: "fetch sel s = (r, s') \<Longrightarrow> quiet s s'"
  by (auto simp: fetch_def dest: quiet_fault split: prod.splits fault.splits option.splits)

lemma fetch_Inr: "fetch sel s = (Inr x, s') \<Longrightarrow> sel s' = Some x"
  by (auto simp: fetch_def split: prod.splits fault.splits option.splits)

lemma portal_get_fetch:
  assumes "\<And>c fs. kd_all kd (c\<lparr>co_faults := fs\<rparr>) = kd_all kd c"
  shows "portal_get kd n = fetch (\<lambda>s. map_of (kd_all kd (pw_control s)) n)"
  by (rule ext)
     (simp add: portal_get_def on_portal_def get_obj_def fetch_def portal_fault_def split: prod.splits fault.splits option.splits)

lemma get_instance_fetch: "portal_get serviceInstances n = fetch (\<lambda>s. map_of (co_instances (pw_control s)) n)"
  by (subst portal_get_fetch) simp_all

lemma get_project_fetch: "portal_get projects n = fetch (\<lambda>s. map_of (co_projects (pw_control s)) n)"
  by (subst portal_get_fetch) simp_all

lemma get_tenant_fetch: "portal_get tenants n = fetch (\<lambda>s. map_of (co_tenants (pw_control s)) n)"
  by (subst portal_get_fetch) simp_all

text \<open>Whoever may see an instance: a platform admin, and an actor that the tenant of its project is visible to.\<close>

definition authorized :: "actor \<Rightarrow> service_instance \<Rightarrow> control \<Rightarrow> bool" where
  "authorized a i c \<longleftrightarrow>
     isPlatformAdmin a \<or>
     (\<exists>p t. map_of (co_projects c) (lr_name (sis_projectRef (si_spec i))) = Some p \<and>
        map_of (co_tenants c) (lr_name (prs_tenantRef (pj_spec p))) = Some t \<and> tenantVisibleToActor a t)"

lemma authorizeProject_quiet: "authorizeProject a p s = (b, s') \<Longrightarrow> quiet s s'"
  by (auto simp: authorizeProject_def get_tenant_fetch dest: quiet_fetch split: if_splits prod.splits sum.splits)

lemma authorizeInstance_quiet: "authorizeInstance a i s = (b, s') \<Longrightarrow> quiet s s'"
  by (auto simp: authorizeInstance_def projectForInstance_def get_project_fetch
      dest: quiet_fetch authorizeProject_quiet quiet_trans split: if_splits prod.splits sum.splits
      intro: quiet_trans [OF quiet_fetch authorizeProject_quiet])

lemma authorizeInstance_True:
  assumes "authorizeInstance a i s = (True, s')"
  shows "authorized a i (pw_control s)"
proof (cases "isPlatformAdmin a")
  case False
  then obtain p t1 t where p: "fetch (\<lambda>s. map_of (co_projects (pw_control s)) (lr_name (sis_projectRef (si_spec i)))) s = (Inr p, t1)"
    and t: "fetch (\<lambda>s. map_of (co_tenants (pw_control s)) (lr_name (prs_tenantRef (pj_spec p)))) t1 = (Inr t, s')"
    and v: "tenantVisibleToActor a t"
    using assms
    by (auto simp: authorizeInstance_def projectForInstance_def authorizeProject_def get_project_fetch get_tenant_fetch
        split: prod.splits sum.splits)
  have "quiet s t1" "quiet t1 s'" using p t by (auto dest: quiet_fetch)
  then show ?thesis using fetch_Inr [OF p] fetch_Inr [OF t] v by (auto simp: authorized_def quietD)
qed (simp add: authorized_def)

section \<open>Lists and details\<close>

lemma no_fault: "co_faults (pw_control s) = [] \<Longrightarrow> portal_fault s = (Works, s)"
  by (simp add: portal_fault_def on_portal_def control_fault_def)

lemma fetch_no_fault:
  "co_faults (pw_control s) = [] \<Longrightarrow> fetch sel s = (case sel s of None \<Rightarrow> (Inl NotFound, s) | Some x \<Rightarrow> (Inr x, s))"
  by (simp add: fetch_def no_fault)

lemma authorizeInstance_no_fault:
  assumes "co_faults (pw_control s) = []"
  shows "authorizeInstance a i s = (authorized a i (pw_control s), s)"
  using assms
  by (auto simp: authorizeInstance_def projectForInstance_def authorizeProject_def get_project_fetch get_tenant_fetch
      fetch_no_fault authorized_def split: option.splits)

definition named_by_key :: "('a \<Rightarrow> object_meta) \<Rightarrow> (string, 'a) gomap \<Rightarrow> bool" where
  "named_by_key meta m \<longleftrightarrow> distinct (map fst m) \<and> (\<forall>(k, x) \<in> set m. m_name (meta x) = k)"

lemma named_lookup: "named_by_key meta m \<Longrightarrow> map_of m k = Some x \<longleftrightarrow> x \<in> set (map snd m) \<and> m_name (meta x) = k"
proof -
  assume m: "named_by_key meta m"
  then have "map_of m k = Some x \<longleftrightarrow> (k, x) \<in> set m" by (simp add: named_by_key_def map_of_eq_Some_iff)
  also have "\<dots> \<longleftrightarrow> x \<in> set (map snd m) \<and> m_name (meta x) = k"
  proof
    assume "(k, x) \<in> set m"
    then show "x \<in> set (map snd m) \<and> m_name (meta x) = k"
      using m by (auto simp: named_by_key_def intro!: image_eqI [of _ _ "(k, x)"])
  next
    assume "x \<in> set (map snd m) \<and> m_name (meta x) = k"
    then obtain k' where "(k', x) \<in> set m" "m_name (meta x) = k" by auto
    then show "(k, x) \<in> set m" using m by (auto simp: named_by_key_def)
  qed
  finally show ?thesis .
qed

text \<open>
  C18 The lists and the pages of single objects agree: an instance is in the list that an actor gets exactly when
  the actor may open it, as long as the calls succeed and objects are stored under their names.
\<close>

theorem listed_iff_authorized:
  assumes "co_faults (pw_control s) = []" "i \<in> set instances"
    and "named_by_key pj_meta (co_projects (pw_control s))" "named_by_key tn_meta (co_tenants (pw_control s))"
  shows "i \<in> set (visibleInstances a instances (map snd (co_projects (pw_control s))) (map snd (co_tenants (pw_control s)))) \<longleftrightarrow>
    fst (authorizeInstance a i s)"
proof (cases "isPlatformAdmin a")
  case True
  then show ?thesis using assms(2) by (simp add: visibleInstances_def authorizeInstance_def)
next
  case False
  have "fst (authorizeInstance a i s) \<longleftrightarrow>
      (\<exists>p t. p \<in> set (map snd (co_projects (pw_control s))) \<and> m_name (pj_meta p) = lr_name (sis_projectRef (si_spec i)) \<and>
        t \<in> set (map snd (co_tenants (pw_control s))) \<and> m_name (tn_meta t) = lr_name (prs_tenantRef (pj_spec p)) \<and>
        tenantVisibleToActor a t)"
    unfolding authorizeInstance_no_fault [OF assms(1)] fst_conv authorized_def named_lookup [OF assms(3)] named_lookup [OF assms(4)]
    using False by blast
  moreover have "i \<in> set (visibleInstances a instances ps ts) \<longleftrightarrow>
      (\<exists>p t. p \<in> set ps \<and> m_name (pj_meta p) = lr_name (sis_projectRef (si_spec i)) \<and>
        t \<in> set ts \<and> m_name (tn_meta t) = lr_name (prs_tenantRef (pj_spec p)) \<and> tenantVisibleToActor a t)" for ps ts
    using False assms(2)
    by (simp add: visibleInstances_def visibleProjects_def visibleTenants_def Let_def image_iff Bex_def) metis
  ultimately show ?thesis by blast
qed

section \<open>Decisions on actions\<close>

text \<open>What an answer that is no error says about the checks in front of it.\<close>

lemma checked:
  "(if b then (Fails n t, s) else r) = (Answers c y, s') \<longleftrightarrow> \<not> b \<and> r = (Answers c y, s')"
  "(if b then r else (Fails n t, s)) = (Answers c y, s') \<longleftrightarrow> b \<and> r = (Answers c y, s')"
  by simp_all

lemma checked_instance:
  "(case m of (False, s) \<Rightarrow> (Fails n t, s) | (True, s) \<Rightarrow> f s) = (Answers c y, s') \<longleftrightarrow>
     (\<exists>s1. m = (True, s1) \<and> f s1 = (Answers c y, s'))"
  by (cases m; cases "fst m") auto

lemma checked_option:
  "(case m of None \<Rightarrow> (Fails n t, s) | Some x \<Rightarrow> f x) = (Answers c y, s') \<longleftrightarrow> (\<exists>x. m = Some x \<and> f x = (Answers c y, s'))"
  by (cases m) simp_all

lemmas checked_simps = checked checked_instance checked_option or_answer_Answers

lemma portal_write_Inr:
  assumes "portal_write ok effect s = (Inr u, s')"
  shows "\<exists>t. quiet s t \<and> ok t = None \<and> s' = effect t"
  using assms quiet_fault by (fastforce simp: portal_write_def split: prod.splits fault.splits option.splits)

lemma update_action_Inr:
  assumes "update_action x s = (Inr u, s')"
  shows "\<exists>t stored. quiet s t \<and> map_of (pw_actions t) (m_name (ar_meta x)) = Some stored \<and>
    s' = t\<lparr>pw_actions := AList.update (m_name (ar_meta x)) (x\<lparr>ar_status := ar_status stored\<rparr>) (pw_actions t)\<rparr>"
  using portal_write_Inr [OF assms [unfolded update_action_def]] by (force split: if_splits)

abbreviation review_decision :: "action_approval_request \<Rightarrow> string" where
  "review_decision request \<equiv> map ascii_lower (trimSpace (aq_Decision request))"

text \<open>What a decision makes of the request: its approval, and the annotations of the review; nothing else.\<close>

definition review_annotations :: "string set" where
  "review_annotations = {''servicer.io/approval-reviewed-by'', ''servicer.io/approval-reviewed-at'', ''servicer.io/approval-reason''}"

definition decided :: "actor \<Rightarrow> string \<Rightarrow> action_request \<Rightarrow> action_request \<Rightarrow> bool" where
  "decided a decision x y \<longleftrightarrow>
     (let old = ars_approval (ar_spec x); new = ars_approval (ar_spec y) in
      y = x\<lparr>ar_meta := (ar_meta x)\<lparr>m_annotations := m_annotations (ar_meta y)\<rparr>,
            ar_spec := (ar_spec x)\<lparr>ars_approval := new\<rparr>\<rparr> \<and>
      map_of (m_annotations (ar_meta y)) ''servicer.io/approval-reviewed-by'' = Some (av_Name a) \<and>
      (\<forall>k. k \<notin> review_annotations \<longrightarrow> map_of (m_annotations (ar_meta y)) k = map_of (m_annotations (ar_meta x)) k) \<and>
      (decision = ''approve'' \<and>
         new = old\<lparr>ap_mode := ApprovalModeApproved,
           ap_approvedBy := (if av_Name a \<in> set (ap_approvedBy old) then ap_approvedBy old
                             else ap_approvedBy old @ [av_Name a])\<rparr> \<or>
       decision = ''reject'' \<and> new = old\<lparr>ap_mode := ApprovalModeRejected, ap_approvedBy := []\<rparr>))"

lemma reviewed_simps [simp]: "ar_spec (reviewed env a q x) = ar_spec x" "ar_status (reviewed env a q x) = ar_status x"
  "m_name (ar_meta (reviewed env a q x)) = m_name (ar_meta x)"
  by (simp_all add: reviewed_def Let_def)

definition deciding :: "bff_env \<Rightarrow> actor \<Rightarrow> action_approval_request \<Rightarrow> action_request \<Rightarrow> action_request" where
  "deciding env a request x =
     (reviewed env a request x)\<lparr>ar_spec := (ar_spec (reviewed env a request x))\<lparr>ars_approval :=
       (if review_decision request = ''approve''
        then approve a (ars_approval (ar_spec (reviewed env a request x)))
        else reject (ars_approval (ar_spec (reviewed env a request x))))\<rparr>\<rparr>"

lemma reviewed_annotations:
  "map_of (m_annotations (ar_meta (reviewed env a q x))) ''servicer.io/approval-reviewed-by'' = Some (av_Name a)"
  "k \<notin> review_annotations \<Longrightarrow>
     map_of (m_annotations (ar_meta (reviewed env a q x))) k = map_of (m_annotations (ar_meta x)) k"
  by (auto simp: reviewed_def review_annotations_def Let_def update_conv')

lemma reviewed_meta: "ar_meta (reviewed env a q x) = (ar_meta x)\<lparr>m_annotations := m_annotations (ar_meta (reviewed env a q x))\<rparr>"
  by (simp add: reviewed_def Let_def)

lemma deciding_decided:
  assumes "(review_decision request = ''approve'' \<or> review_decision request = ''reject'')" and "st = ar_status x"
  shows "decided a (review_decision request) x ((deciding env a request x)\<lparr>ar_status := st\<rparr>)"
proof -
  have "deciding env a request x =
      x\<lparr>ar_meta := (ar_meta x)\<lparr>m_annotations := m_annotations (ar_meta (reviewed env a request x))\<rparr>,
        ar_spec := (ar_spec x)\<lparr>ars_approval :=
          (if review_decision request = ''approve''
           then approve a (ars_approval (ar_spec x)) else reject (ars_approval (ar_spec x)))\<rparr>\<rparr>"
    by (cases x) (simp add: deciding_def reviewed_def Let_def)
  then show ?thesis
    using assms reviewed_annotations [where env = env and a = a and q = request and x = x]
    by (cases x) (auto simp: decided_def Let_def approve_def reject_def)
qed

lemma approval_steps:
  assumes "handleActionApproval env a path body s = (Answers code w, s')"
  obtains request x i s1 s2 s3 u where "body = Some request"
    "review_decision request = ''approve'' \<or> review_decision request = ''reject''"
    "hasAny a [RolePlatformAdmin, RoleTenantOperator]"
    "fetch (\<lambda>s. map_of (pw_actions s) (trimSpace path)) s = (Inr x, s1)"
    "portal_get serviceInstances (tr_name (ars_targetRef (ar_spec x))) s1 = (Inr i, s2)"
    "authorizeInstance a i s2 = (True, s3)"
    "isPlatformAdmin a \<or> \<not> isSelfApprovalRequest (rb_subject (ars_requestedBy (ar_spec x))) a"
    "art_phase (ar_status x) = ''PendingApproval''" "ap_mode (ars_approval (ar_spec x)) = ApprovalModeRequired"
    "update_action (deciding env a request x) s3 = (Inr u, s')"
  using assms
  unfolding handleActionApproval_def requireRole_def
  apply (simp only: Let_def checked_simps prod.inject)
  apply (elim conjE exE)
  subgoal for request x s1 i s2 s3 u s4
    by (rule that [of request x s1 i s2 s3 u]) (assumption | blast | simp only: deciding_def)+
  done

text \<open>
  C9 A decision on a stored action request goes through only for an actor with an operator's role that may see the
  action's instance and, unless it is a platform admin, did not request the action, and only while the action waits for
  an approval. An approval then sets the mode to approved and adds the actor to the approvers, a rejection sets it to
  rejected and empties them; the reviewer is recorded in the annotations. Nothing else of the request is changed, and
  nothing else in the portal.
\<close>

theorem decisions_are_authorised:
  assumes "handleActionApproval env a path body s = (Answers code w, s')"
    and "\<And>x. map_of (pw_actions s) (trimSpace path) = Some x \<Longrightarrow> m_name (ar_meta x) = trimSpace path"
  shows "\<exists>request x i y. body = Some request \<and> map_of (pw_actions s) (trimSpace path) = Some x \<and>
      map_of (co_instances (pw_control s)) (tr_name (ars_targetRef (ar_spec x))) = Some i \<and>
      hasAny a [RolePlatformAdmin, RoleTenantOperator] \<and> authorized a i (pw_control s) \<and>
      (isPlatformAdmin a \<or> \<not> isSelfApprovalRequest (rb_subject (ars_requestedBy (ar_spec x))) a) \<and>
      art_phase (ar_status x) = ''PendingApproval'' \<and> ap_mode (ars_approval (ar_spec x)) = ApprovalModeRequired \<and>
      decided a (review_decision request) x y \<and>
      (\<exists>fs. s' = s\<lparr>pw_control := (pw_control s)\<lparr>co_faults := fs\<rparr>,
        pw_actions := AList.update (trimSpace path) y (pw_actions s)\<rparr>)"
proof -
  obtain request x i s1 s2 s3 u where body: "body = Some request"
      "review_decision request = ''approve'' \<or> review_decision request = ''reject''"
    and role: "hasAny a [RolePlatformAdmin, RoleTenantOperator]"
    and x: "fetch (\<lambda>s. map_of (pw_actions s) (trimSpace path)) s = (Inr x, s1)"
    and i: "portal_get serviceInstances (tr_name (ars_targetRef (ar_spec x))) s1 = (Inr i, s2)"
    and auth: "authorizeInstance a i s2 = (True, s3)"
    and self: "isPlatformAdmin a \<or> \<not> isSelfApprovalRequest (rb_subject (ars_requestedBy (ar_spec x))) a"
    and waits: "art_phase (ar_status x) = ''PendingApproval''" "ap_mode (ars_approval (ar_spec x)) = ApprovalModeRequired"
    and upd: "update_action (deciding env a request x) s3 = (Inr u, s')"
    by (rule approval_steps [OF assms(1)])
  define z where "z = deciding env a request x"
  have q: "quiet s s1" "quiet s1 s2" "quiet s2 s3"
    using x i auth by (auto simp: get_instance_fetch dest: quiet_fetch authorizeInstance_quiet)
  have stored_x: "map_of (pw_actions s) (trimSpace path) = Some x" using fetch_Inr [OF x] q(1) by (simp add: quietD)
  then have name: "m_name (ar_meta (deciding env a request x)) = trimSpace path" using assms(2) by (simp add: deciding_def)
  obtain t and stored :: action_request where t: "quiet s3 t" "map_of (pw_actions t) (trimSpace path) = Some stored"
    "s' = t\<lparr>pw_actions := AList.update (trimSpace path) (z\<lparr>ar_status := ar_status stored\<rparr>) (pw_actions t)\<rparr>"
    using update_action_Inr [OF upd, unfolded name] unfolding z_def by blast
  have st: "quiet s t" "quiet s s2" using q t(1) quiet_trans by blast+
  obtain fs where fs: "t = s\<lparr>pw_control := (pw_control s)\<lparr>co_faults := fs\<rparr>\<rparr>" using st(1) by (auto simp: quiet_def)
  then have same: "stored = x" using t(2) stored_x by simp
  have "map_of (co_instances (pw_control s)) (tr_name (ars_targetRef (ar_spec x))) = Some i"
    using fetch_Inr [OF i [unfolded get_instance_fetch]] st(2) by (simp add: quietD)
  moreover have "authorized a i (pw_control s)"
    using authorizeInstance_True [OF auth] st(2) by (simp add: authorized_def quietD)
  moreover have "decided a (review_decision request) x (z\<lparr>ar_status := ar_status stored\<rparr>)"
    unfolding z_def same by (rule deciding_decided [OF body(2) refl])
  moreover have "s' = s\<lparr>pw_control := (pw_control s)\<lparr>co_faults := fs\<rparr>,
      pw_actions := AList.update (trimSpace path) (z\<lparr>ar_status := ar_status stored\<rparr>) (pw_actions s)\<rparr>"
    using t(3) by (simp add: fs)
  ultimately show ?thesis using role self waits body(1) stored_x by blast
qed

section \<open>Submitted actions in the controller\<close>

lemma create_action_Inr:
  assumes "create_action x s = (Inr u, s')"
  shows "map_of (pw_actions s') (m_name (ar_meta x)) = Some x"
  using portal_write_Inr [OF assms [unfolded create_action_def]] by (auto simp: update_conv')

lemma submit_steps:
  assumes "handleSubmitAction env a path body s = (Answers code w, s')"
  shows "\<exists>request i able s1 s2 u. hasAny a operators_and_consumers \<and>
    portal_get serviceInstances (trimSpace path) s = (Inr i, s1) \<and> authorizeInstance a i s1 = (True, s2) \<and>
    actionCapabilityForClass (lr_name (sis_serviceClassRef (si_spec i))) (trimSpace (sq_Action request)) = Some able \<and>
    (ac_RequiresApproval able \<longrightarrow> hasAny a [RolePlatformAdmin, RoleTenantOperator]) \<and>
    create_action (submitted_action env a (trimSpace path) (trimSpace (sq_Action request)) request able) s2 = (Inr u, s') \<and>
    wr_Name w = m_name (ar_meta (submitted_action env a (trimSpace path) (trimSpace (sq_Action request)) request able))"
  using assms
  unfolding handleSubmitAction_def requireRole_def
  apply (simp only: Let_def checked_simps prod.inject answer.inject)
  apply (elim conjE exE)
  subgoal for request i s1 s2 able u s3
    by (intro exI [of _ request] exI [of _ i] exI [of _ able] exI [of _ s1] exI [of _ s2] exI [of _ u] conjI)
       (assumption | blast | simp only: | (hypsubst, simp only: write_response.simps))+
  done

lemma unapproved_waits:
  assumes "resolveAction (en_adapters env) (en_reader env) x = Inr resolved" "ac_RequiresApproval (ra_capability resolved)"
    and "ar_status x = new_action_status"
  shows "ap_mode (ars_approval (ar_spec x)) = ApprovalModeRequired \<Longrightarrow>
      Reconcile env x = (patchStatus env (patchPendingApproval (en_setc env)) x, [])"
    and "ap_mode (ars_approval (ar_spec x)) = ApprovalModeApproved \<Longrightarrow> ap_approvedBy (ars_approval (ar_spec x)) = [] \<Longrightarrow>
      Reconcile env x = (patchStatus env (patchApprovalInvalid (en_setc env)) x, [])"
proof -
  have new: "\<not> actionAlreadySubmitted (ar_status x) (generationOf x)"
    "art_operationState (ar_status x) \<noteq> actionOperationStateApplied"
    using assms(3) by (simp_all add: actionAlreadySubmitted_def terminalPhase_def new_action_status_def)
  { assume "ap_mode (ars_approval (ar_spec x)) = ApprovalModeRequired"
    then have "decide (en_setc env) (en_adapters env) (en_reader env) x = DPatch (patchPendingApproval (en_setc env)) False"
      using new assms by (simp add: decide_def approvalPending_def)
    then show "Reconcile env x = (patchStatus env (patchPendingApproval (en_setc env)) x, [])"
      by (simp add: Reconcile_def) }
  { assume "ap_mode (ars_approval (ar_spec x)) = ApprovalModeApproved" "ap_approvedBy (ars_approval (ar_spec x)) = []"
    then have "decide (en_setc env) (en_adapters env) (en_reader env) x = DPatch (patchApprovalInvalid (en_setc env)) False"
      using new assms by (simp add: decide_def approvalPending_def approvalApprovedWithoutApprover_def)
    then show "Reconcile env x = (patchStatus env (patchApprovalInvalid (en_setc env)) x, [])"
      by (simp add: Reconcile_def) }
qed

lemma patched_phases:
  "art_phase (ar_status (patchStatus env (patchPendingApproval setc) x)) = ''PendingApproval''"
  "art_phase (ar_status (patchStatus env (patchApprovalInvalid setc) x)) = ''Failed''"
  by (simp_all add: patchStatus_def patchPendingApproval_def patchApprovalInvalid_def patchApprovalFailed_def setCond_def)

text \<open>
  C10 An action that needs an approval and is submitted by somebody who may submit it is not run on its own
  account: the controller leaves the request of a tenant's operator waiting for an approval. The request of a
  platform admin is marked as approved without an approver, and the controller fails it for that reason.
\<close>

theorem sensitive_actions_do_not_run_when_submitted:
  assumes "handleSubmitAction env a path body s = (Answers code w, s')"
  shows "\<exists>x i able. map_of (pw_actions s') (wr_Name w) = Some x \<and>
    map_of (co_instances (pw_control s)) (trimSpace path) = Some i \<and> authorized a i (pw_control s) \<and>
    actionCapabilityForClass (lr_name (sis_serviceClassRef (si_spec i))) (ars_action (ar_spec x)) = Some able \<and>
    (ac_RequiresApproval able \<longrightarrow> hasAny a [RolePlatformAdmin, RoleTenantOperator] \<and>
      (\<forall>renv g resolved.
        resolveAction (en_adapters renv) (en_reader renv) (x\<lparr>ar_meta := (ar_meta x)\<lparr>m_generation := g\<rparr>\<rparr>) = Inr resolved \<and>
        ac_RequiresApproval (ra_capability resolved) \<longrightarrow>
        snd (Reconcile renv (x\<lparr>ar_meta := (ar_meta x)\<lparr>m_generation := g\<rparr>\<rparr>)) = [] \<and>
        art_phase (ar_status (fst (Reconcile renv (x\<lparr>ar_meta := (ar_meta x)\<lparr>m_generation := g\<rparr>\<rparr>)))) =
          (if isPlatformAdmin a then ''Failed'' else ''PendingApproval'')))"
proof -
  obtain request i able s1 s2 u
    where i: "portal_get serviceInstances (trimSpace path) s = (Inr i, s1)" and auth: "authorizeInstance a i s1 = (True, s2)"
    and able: "actionCapabilityForClass (lr_name (sis_serviceClassRef (si_spec i))) (trimSpace (sq_Action request)) = Some able"
    and role: "ac_RequiresApproval able \<longrightarrow> hasAny a [RolePlatformAdmin, RoleTenantOperator]"
    and c: "create_action (submitted_action env a (trimSpace path) (trimSpace (sq_Action request)) request able) s2 = (Inr u, s')"
    and w: "wr_Name w = m_name (ar_meta (submitted_action env a (trimSpace path) (trimSpace (sq_Action request)) request able))"
    using submit_steps [OF assms] by blast
  define x where "x = submitted_action env a (trimSpace path) (trimSpace (sq_Action request)) request able"
  have q: "quiet s s1" using i by (auto simp: get_instance_fetch dest: quiet_fetch)
  have x: "ars_action (ar_spec x) = trimSpace (sq_Action request)" "ar_status x = new_action_status"
    "ap_mode (ars_approval (ar_spec x)) = approvalModeFor a able" "ap_approvedBy (ars_approval (ar_spec x)) = []"
    by (simp_all add: x_def submitted_action_def)
  have "map_of (pw_actions s') (wr_Name w) = Some x" using create_action_Inr [OF c] w by (simp add: x_def)
  moreover have "map_of (co_instances (pw_control s)) (trimSpace path) = Some i"
    using fetch_Inr [OF i [unfolded get_instance_fetch]] q by (simp add: quietD)
  moreover have "authorized a i (pw_control s)"
    using authorizeInstance_True [OF auth] q by (simp add: authorized_def quietD)
  moreover have "snd (Reconcile renv y) = [] \<and>
      art_phase (ar_status (fst (Reconcile renv y))) = (if isPlatformAdmin a then ''Failed'' else ''PendingApproval'')"
    if y: "y = x\<lparr>ar_meta := m\<rparr>" and r: "resolveAction (en_adapters renv) (en_reader renv) y = Inr resolved"
      "ac_RequiresApproval (ra_capability resolved)" and "ac_RequiresApproval able" for renv y m resolved
    using unapproved_waits [OF r] that x by (simp add: approvalModeFor_def isPlatformAdmin_def patched_phases)
  ultimately show ?thesis using able role x(1) by (intro exI [of _ x] exI [of _ i] exI [of _ able]) simp
qed

section \<open>Applied\<close>

definition sampleBff :: bff_env where
  "sampleBff = \<lparr>be_rfc3339 = ''2024-01-01T00:00:00Z'', be_unix = 5, be_unixNano = 5000, be_now = 5, be_requestID = ''r1'',
     be_errText = (\<lambda>_. ''refused'')\<rparr>"

definition samplePending :: action_request where
  "samplePending = (sampleRequest ApprovalModeRequired 1)\<lparr>ar_status := new_action_status\<lparr>art_phase := ''PendingApproval''\<rparr>\<rparr>"

definition operator_of :: "string \<Rightarrow> string \<Rightarrow> (string, string set) gomap \<Rightarrow> actor" where
  "operator_of name t others = sampleActor name {} ((t, {RoleTenantOperator}) # others)"

theorem listed_iff_authorized_witness:
  "fst (authorizeInstance (sampleActor ''eve'' {} [(''acme'', {RoleServiceConsumer})])
     (snd (hd (co_instances (pw_control (samplePortal []))))) (samplePortal []))"
proof -
  let ?s = "samplePortal []"
  let ?a = "sampleActor ''eve'' {} [(''acme'', {RoleServiceConsumer})]"
  let ?i = "snd (hd (co_instances (pw_control ?s)))"
  have "co_faults (pw_control ?s) = []" "named_by_key pj_meta (co_projects (pw_control ?s))"
    "named_by_key tn_meta (co_tenants (pw_control ?s))"
    by (simp_all add: sample_portal_simps named_by_key_def)
  moreover have "?i \<in> set (visibleInstances ?a [?i] (map snd (co_projects (pw_control ?s))) (map snd (co_tenants (pw_control ?s))))"
    by (simp add: sample_portal_simps visibleInstances_def visibleProjects_def visibleTenants_def tenantVisibleToActor_def
        hasTenantAccess_def isPlatformAdmin_def hasAny_def tenantRoleSatisfies_def)
  ultimately show ?thesis using listed_iff_authorized [of ?s ?i "[?i]" ?a] by simp
qed

lemma sample_decision:
  "\<exists>w s'. handleActionApproval sampleBff (operator_of ''bob'' ''acme'' []) ''restart-db''
     (Some \<lparr>aq_Decision = ''Approve'', aq_Reason = ''''\<rparr>) (samplePortal [(''restart-db'', samplePending)]) = (Answers 200 w, s')"
proof -
  have "fst (handleActionApproval sampleBff (operator_of ''bob'' ''acme'' []) ''restart-db''
     (Some \<lparr>aq_Decision = ''Approve'', aq_Reason = ''''\<rparr>) (samplePortal [(''restart-db'', samplePending)])) =
     Answers 200 \<lparr>wr_Name = ''restart-db'', wr_Message = ''Action request approved.''\<rparr>"
    by code_simp
  then show ?thesis by (metis prod.collapse)
qed

theorem decisions_are_authorised_witness:
  "\<exists>w s' y. handleActionApproval sampleBff (operator_of ''bob'' ''acme'' []) ''restart-db''
     (Some \<lparr>aq_Decision = ''Approve'', aq_Reason = ''''\<rparr>) (samplePortal [(''restart-db'', samplePending)]) = (Answers 200 w, s') \<and>
     map_of (pw_actions s') ''restart-db'' = Some y \<and> ap_mode (ars_approval (ar_spec y)) = ApprovalModeApproved \<and>
     ar_status y = ar_status samplePending \<and> \<not> isSelfApprovalRequest ''ann'' (operator_of ''bob'' ''acme'' [])"
proof -
  obtain w s' where h: "handleActionApproval sampleBff (operator_of ''bob'' ''acme'' []) ''restart-db''
     (Some \<lparr>aq_Decision = ''Approve'', aq_Reason = ''''\<rparr>) (samplePortal [(''restart-db'', samplePending)]) = (Answers 200 w, s')"
    using sample_decision by blast
  have trim: "trimSpace ''restart-db'' = ''restart-db''" "map ascii_lower (trimSpace ''Approve'') = ''approve''" by code_simp+
  have x: "map_of (pw_actions (samplePortal [(''restart-db'', samplePending)])) (trimSpace ''restart-db'') = Some samplePending"
    by (simp add: trim samplePortal_def)
  then have named: "map_of (pw_actions (samplePortal [(''restart-db'', samplePending)])) (trimSpace ''restart-db'') = Some y \<Longrightarrow>
      m_name (ar_meta y) = trimSpace ''restart-db''" for y
    by (simp add: trim samplePending_def sampleRequest_def)
  have ann: "rb_subject (ars_requestedBy (ar_spec samplePending)) = ''ann''"
    by (simp add: samplePending_def sampleRequest_def)
  obtain y fs where self: "isPlatformAdmin (operator_of ''bob'' ''acme'' []) \<or>
      \<not> isSelfApprovalRequest (rb_subject (ars_requestedBy (ar_spec samplePending))) (operator_of ''bob'' ''acme'' [])"
    and y: "decided (operator_of ''bob'' ''acme'' []) ''approve'' samplePending y"
    and s': "s' = (samplePortal [(''restart-db'', samplePending)])
      \<lparr>pw_control := (pw_control (samplePortal [(''restart-db'', samplePending)]))\<lparr>co_faults := fs\<rparr>,
       pw_actions := AList.update ''restart-db'' y (pw_actions (samplePortal [(''restart-db'', samplePending)]))\<rparr>"
    using decisions_are_authorised [OF h named] x by (auto simp: trim)
  have "\<not> isPlatformAdmin (operator_of ''bob'' ''acme'' [])"
    by (simp add: operator_of_def sampleActor_def isPlatformAdmin_def hasAny_def tenantRoleSatisfies_def)
  then have "\<not> isSelfApprovalRequest ''ann'' (operator_of ''bob'' ''acme'' [])" using self by (simp add: ann)
  moreover have "map_of (pw_actions s') ''restart-db'' = Some y" by (simp add: s' update_conv')
  moreover have "ar_status y = ar_status samplePending"
  proof -
    from y obtain A B where "y = samplePending\<lparr>ar_meta := A, ar_spec := B\<rparr>" unfolding decided_def Let_def by metis
    then show ?thesis by simp
  qed
  moreover have "ap_mode (ars_approval (ar_spec y)) = ApprovalModeApproved"
    using y unfolding decided_def Let_def by auto
  ultimately show ?thesis using h by blast
qed

text \<open>A MySQL instance, whose failover needs an approval, and a controller that knows its adapter.\<close>

definition failover_portal :: portal where
  "failover_portal = (samplePortal [])\<lparr>pw_control := sampleControl\<lparr>co_instances := [(''db'', (sampleInstance None)
     \<lparr>si_spec := (si_spec (sampleInstance None))\<lparr>sis_projectRef := \<lparr>lr_name = ''shop''\<rparr>, sis_serviceClassRef := \<lparr>lr_name = ''mysql''\<rparr>\<rparr>\<rparr>)]\<rparr>\<rparr>"

definition failover_controller :: reconcile_env where
  "failover_controller = \<lparr>en_setc = upsert_condition,
     en_adapters = Some [(''mysql'', (sample_adapter ''mysql'' ''demo'')\<lparr>ad_SupportedActions := (\<lambda>_. pc_Actions MySQLContract)\<rparr>)],
     en_reader = \<lparr>rd_ServiceInstance = (\<lambda>n. case map_of (co_instances (pw_control failover_portal)) n of
         None \<Rightarrow> Inl NotFound | Some i \<Rightarrow> Inr i), rd_Project = (\<lambda>_. Inr sampleProject),
       rd_Tenant = (\<lambda>_. Inr sampleTenant), rd_ServiceClass = (\<lambda>_. Inr sampleClass),
       rd_ServicePlan = (\<lambda>_. Inr (samplePlan [] None)), rd_ClusterTarget = (\<lambda>_. Inl NotFound)\<rparr>,
     en_now = 0, en_backup = (\<lambda>_. Inl NotFound), en_execute = (\<lambda>_ _ _. Inl (Errorf ''unreachable'')), en_errorText = (\<lambda>_. '''')\<rparr>"

definition failover_request :: action_submit_request where
  "failover_request = \<lparr>sq_Action = ''failover'', sq_Parameters = [], sq_Reason = ''''\<rparr>"

definition submitted_failover :: action_request where
  "submitted_failover = submitted_action sampleBff (sampleActor ''root'' {RolePlatformAdmin} []) ''db'' ''failover'' failover_request
     (capability ActionFailover ''Failover'' True True)"

lemma failover_able: "actionCapabilityForClass ''mysql'' ''failover'' = Some (capability ActionFailover ''Failover'' True True)"
  by code_simp

lemma failover_trims [simp]: "trimSpace ''db'' = ''db''" "trimSpace ''failover'' = ''failover''"
  by code_simp+

lemma root_is_admin: "isPlatformAdmin (sampleActor ''root'' {RolePlatformAdmin} [])"
  by (simp add: isPlatformAdmin_def hasAny_def sampleActor_def platformRoleSatisfies_def)

lemma failover_instance:
  "\<exists>i. portal_get serviceInstances ''db'' failover_portal = (Inr i, failover_portal) \<and>
     lr_name (sis_serviceClassRef (si_spec i)) = ''mysql''"
  by (simp add: get_instance_fetch fetch_no_fault failover_portal_def samplePortal_def sampleControl_def)

lemma failover_created:
  "create_action submitted_failover failover_portal = (Inr (), failover_portal\<lparr>pw_actions := [(m_name (ar_meta submitted_failover), submitted_failover)]\<rparr>)"
  by (simp add: create_action_def portal_write_def no_fault failover_portal_def samplePortal_def sampleControl_def)

lemma failover_name: "m_name (ar_meta submitted_failover) = ''db-failover-5''"
proof -
  have five: "show_int 5 = ''5''" by code_simp
  show ?thesis by (simp add: submitted_failover_def submitted_action_def sampleBff_def five)
qed

lemma sample_submission:
  "\<exists>s'. handleSubmitAction sampleBff (sampleActor ''root'' {RolePlatformAdmin} []) ''db'' (Some failover_request) failover_portal =
     (Answers 201 \<lparr>wr_Name = ''db-failover-5'', wr_Message = ''Action request submitted.''\<rparr>, s') \<and>
     map_of (pw_actions s') ''db-failover-5'' = Some submitted_failover"
proof -
  obtain i where i: "portal_get serviceInstances ''db'' failover_portal = (Inr i, failover_portal)"
    "lr_name (sis_serviceClassRef (si_spec i)) = ''mysql''" using failover_instance by blast
  have auth: "authorizeInstance (sampleActor ''root'' {RolePlatformAdmin} []) i failover_portal = (True, failover_portal)"
    by (simp add: authorizeInstance_def root_is_admin)
  have roles: "hasAny (sampleActor ''root'' {RolePlatformAdmin} []) operators_and_consumers"
    "hasAny (sampleActor ''root'' {RolePlatformAdmin} []) [RolePlatformAdmin, RoleTenantOperator]"
    by (simp_all add: hasAny_def sampleActor_def platformRoleSatisfies_def)
  have req: "sq_Action failover_request = ''failover''" by (simp add: failover_request_def)
  have made: "submitted_action sampleBff (sampleActor ''root'' {RolePlatformAdmin} []) ''db'' ''failover'' failover_request
      (capability ActionFailover ''Failover'' True True) = submitted_failover" by (simp add: submitted_failover_def)
  show ?thesis
    by (simp add: handleSubmitAction_def requireRole_def roles i auth req failover_able made failover_created failover_name Let_def)
qed

lemma sample_resolution:
  "\<exists>resolved. resolveAction (en_adapters failover_controller) (en_reader failover_controller)
     (submitted_failover\<lparr>ar_meta := (ar_meta submitted_failover)\<lparr>m_generation := 1\<rparr>\<rparr>) = Inr resolved \<and>
     ac_RequiresApproval (ra_capability resolved)"
proof -
  have fold: "equalFold ''ServiceInstance'' ''ServiceInstance''" by code_simp
  have able: "actionCapability (pc_Actions MySQLContract) ''failover'' = Some (capability ActionFailover ''Failover'' True True)"
    by code_simp
  have ts: "ts_clusterRef (prs_targetSelector (pj_spec sampleProject)) = None" by (simp add: sampleProject_def)
  have get: "GetAdapter [(''mysql'', x)] ''mysql'' = Some x" for x :: service_adapter by (simp add: GetAdapter_def)
  show ?thesis
    by (simp add: resolveAction_def failover_controller_def submitted_failover_def submitted_action_def failover_portal_def
        samplePortal_def sampleControl_def dependency_def fold able ts get Let_def)
qed

theorem sensitive_actions_do_not_run_when_submitted_witness:
  "art_phase (ar_status (fst (Reconcile failover_controller
     (submitted_failover\<lparr>ar_meta := (ar_meta submitted_failover)\<lparr>m_generation := 1\<rparr>\<rparr>)))) = ''Failed''"
proof -
  obtain s' where h: "handleSubmitAction sampleBff (sampleActor ''root'' {RolePlatformAdmin} []) ''db'' (Some failover_request)
      failover_portal = (Answers 201 \<lparr>wr_Name = ''db-failover-5'', wr_Message = ''Action request submitted.''\<rparr>, s')"
    and x: "map_of (pw_actions s') ''db-failover-5'' = Some submitted_failover" using sample_submission by blast
  have able: "actionCapabilityForClass ''mysql'' (ars_action (ar_spec submitted_failover)) =
      Some (capability ActionFailover ''Failover'' True True)" by (simp add: submitted_failover_def submitted_action_def failover_able)
  obtain resolved where r: "resolveAction (en_adapters failover_controller) (en_reader failover_controller)
      (submitted_failover\<lparr>ar_meta := (ar_meta submitted_failover)\<lparr>m_generation := 1\<rparr>\<rparr>) = Inr resolved"
      "ac_RequiresApproval (ra_capability resolved)" using sample_resolution by blast
  have kind: "map_of (co_instances (pw_control failover_portal)) (trimSpace ''db'') = Some i \<Longrightarrow>
      lr_name (sis_serviceClassRef (si_spec i)) = ''mysql''" for i
    by (auto simp: failover_portal_def samplePortal_def sampleInstance_def)
  show ?thesis
    using sensitive_actions_do_not_run_when_submitted [OF h] x kind able r root_is_admin
    by auto
qed

end
