(* ===== verification/Bff_Credentials.thy ===== *)
theory Bff_Credentials
  imports Bff_World
begin

text \<open>
  Handing out credentials (\<open>internal/bff/access.go\<close>): the kubeconfig of a namespace grant, and the Secrets that an
  instance publishes, read from the management cluster or from the cluster the instance runs on.

  Path values are taken as the router has them. A call on another cluster, with the kubeconfig for it, is the
  parameter \<open>remote\<close>; nothing is assumed of it. The lower-casing in the names of files is that of ASCII.
\<close>

section \<open>Names\<close>

text \<open>
  The bytes of a rune that is no lower-case letter or digit are no lower-case letters or digits either, so that
  a run of them becomes one dash byte by byte as it does rune by rune.
\<close>

fun dash_runs :: "bool \<Rightarrow> string \<Rightarrow> string" where
  "dash_runs lastDash [] = []"
| "dash_runs lastDash (c # s) =
     (let n = of_char c :: nat in
      if (97 \<le> n \<and> n \<le> 122) \<or> (48 \<le> n \<and> n \<le> 57) then c # dash_runs False s
      else if \<not> lastDash then CHR ''-'' # dash_runs True s
      else dash_runs True s)"

definition safeDownloadName :: "string \<Rightarrow> string \<Rightarrow> string" where
  "safeDownloadName value fallback =
     (let name = trimSet ''-'' (dash_runs False (map ascii_lower (trimSpace value)));
          short = (if length name > 48 then trimSet ''-'' (take 48 name) else name)
      in if short = '''' then fallback else short)"

abbreviation projectedCredentialSuffix :: string where "projectedCredentialSuffix \<equiv> ''-projected''"

definition sourceCredentialNameFromProjected :: "string \<Rightarrow> string option" where
  "sourceCredentialNameFromProjected raw =
     (let name = trimSpace raw in
      if \<not> hasSuffix name projectedCredentialSuffix then None
      else (let base = take (length name - length projectedCredentialSuffix) name in
            if blank base then None else Some base))"

definition instanceReferencesCredential :: "service_instance \<Rightarrow> string \<Rightarrow> string \<Rightarrow> bool" where
  "instanceReferencesCredential i namespace name \<longleftrightarrow>
     list_ex (\<lambda>ref. nr_namespace ref = namespace \<and> nr_name ref = name) (sit_credentialRefs (si_status i))"

definition clusterConnectionBytes :: "secret \<Rightarrow> string" where
  "clusterConnectionBytes x =
     (if map_get (sc_data x) ''kubeconfig'' \<noteq> '''' then map_get (sc_data x) ''kubeconfig''
      else map_get (sc_data x) ''value'')"

section \<open>Reading Secrets\<close>

definition get_portal_secret :: "string \<Rightarrow> string \<Rightarrow> secret portal_call" where
  "get_portal_secret namespace name = fetch (\<lambda>s. map_of (pw_secrets s) (namespace, name))"

type_synonym remote = "string \<Rightarrow> string \<Rightarrow> string \<Rightarrow> api_error + secret"

definition getRemoteCredentialSecret :: "remote \<Rightarrow> string \<Rightarrow> string \<Rightarrow> string \<Rightarrow> secret portal_call" where
  "getRemoteCredentialSecret remote clusterName namespace credentialName s =
     and_then (portal_get clusterTargets clusterName s) (\<lambda>target s.
       (let ref = cts_connectionRef (ctg_spec target) in
        if blank (nr_name ref) \<or> blank (nr_namespace ref)
        then (Inl (OtherError (''cluster target '' @ quote clusterName @ '' does not define a connectionRef'')), s)
        else and_then (get_portal_secret (nr_namespace ref) (nr_name ref) s) (\<lambda>x s.
          (let kubeconfig = clusterConnectionBytes x in
           if kubeconfig = ''''
           then (Inl (OtherError (''cluster connection Secret '' @ nr_namespace ref @ ''/'' @ nr_name ref @
                  '' does not contain kubeconfig data'')), s)
           else (remote kubeconfig namespace credentialName, s)))))"

section \<open>Credentials of an instance\<close>

text \<open>
  The last resort: the source of a projected Secret, then the cluster the instance runs on, for the
  Secret and for its source. Only a Secret that is not there leads on; another error ends the request.
\<close>

definition remote_credential ::
  "remote \<Rightarrow> service_instance \<Rightarrow> string \<Rightarrow> string \<Rightarrow> (service_instance \<times> secret) handler" where
  "remote_credential remote i namespace credentialName s =
     (let missing = Fails 404 ''credential Secret was not found'';
          clusterName = trimSpace (pl_clusterName (sit_placement (si_status i)))
      in if clusterName = '''' then (missing, s)
         else (case getRemoteCredentialSecret remote clusterName namespace credentialName s of
                 (Inr x, s) \<Rightarrow> (Answers 200 (i, x), s)
               | (Inl e, s) \<Rightarrow>
                   if e \<noteq> NotFound then (writeError e, s)
                   else (case sourceCredentialNameFromProjected credentialName of
                           None \<Rightarrow> (missing, s)
                         | Some sourceName \<Rightarrow>
                             (case getRemoteCredentialSecret remote clusterName namespace sourceName s of
                                (Inr x, s) \<Rightarrow> (Answers 200 (i, x), s)
                              | (Inl e, s) \<Rightarrow> (if e \<noteq> NotFound then writeError e else missing, s)))))"

definition find_credential ::
  "remote \<Rightarrow> service_instance \<Rightarrow> string \<Rightarrow> string \<Rightarrow> (service_instance \<times> secret) handler" where
  "find_credential remote i namespace credentialName s =
     (case get_portal_secret namespace credentialName s of
        (Inr x, s) \<Rightarrow> (Answers 200 (i, x), s)
      | (Inl e, s) \<Rightarrow>
          if e \<noteq> NotFound then (writeError e, s)
          else (case sourceCredentialNameFromProjected credentialName of
                  None \<Rightarrow> remote_credential remote i namespace credentialName s
                | Some sourceName \<Rightarrow>
                    (case get_portal_secret namespace sourceName s of
                       (Inr x, s) \<Rightarrow> (Answers 200 (i, x), s)
                     | (Inl _, s) \<Rightarrow> remote_credential remote i namespace credentialName s)))"

definition resolveInstanceCredential ::
  "remote \<Rightarrow> actor \<Rightarrow> string \<Rightarrow> string \<Rightarrow> string \<Rightarrow> (service_instance \<times> secret) handler" where
  "resolveInstanceCredential remote a pathName pathNamespace pathCredential =
     requireRole a [RolePlatformAdmin, RoleTenantOperator, RoleServiceConsumer] (\<lambda>s.
       let instanceName = trimSpace pathName; namespace = trimSpace pathNamespace;
           credentialName = trimSpace pathCredential
       in if instanceName = '''' \<or> namespace = '''' \<or> credentialName = ''''
          then (Fails 400 ''instance, namespace, and credential names are required'', s)
          else or_answer (portal_get serviceInstances instanceName s) (\<lambda>i s.
            (case authorizeInstance a i s of
               (False, s) \<Rightarrow> (Fails 403 ''instance is outside your authorized tenancy'', s)
             | (True, s) \<Rightarrow>
                 if \<not> instanceReferencesCredential i namespace credentialName
                 then (Fails 404 ''credential is not published for this instance'', s)
                 else find_credential remote i namespace credentialName s)))"

section \<open>Kubeconfigs of grants\<close>

record download =
  dl_filename :: string
  dl_content :: string

definition handleDownloadNamespaceKubeconfig :: "actor \<Rightarrow> string \<Rightarrow> string \<Rightarrow> download handler" where
  "handleDownloadNamespaceKubeconfig a pathName pathAction =
     requireRole a [RolePlatformAdmin, RoleTenantOperator, RoleServiceConsumer] (\<lambda>s.
       let instanceName = trimSpace pathName; actionName = trimSpace pathAction in
       if instanceName = '''' \<or> actionName = '''' then (Fails 400 ''instance and action names are required'', s)
       else or_answer (portal_get serviceInstances instanceName s) (\<lambda>i s.
         if lr_name (sis_serviceClassRef (si_spec i)) \<noteq> ''namespace''
         then (Fails 400 ''kubeconfig downloads are only available for namespace products'', s)
         else or_answer (fetch (\<lambda>s. map_of (pw_actions s) actionName) s) (\<lambda>x s.
           if tr_name (ars_targetRef (ar_spec x)) \<noteq> instanceName \<or> ars_action (ar_spec x) \<noteq> ActionGrantAccess
           then (Fails 400 ''action is not a grant-access request for this instance'', s)
           else if art_phase (ar_status x) \<noteq> ''Succeeded''
           then (Fails 409 ''grant-access action has not completed yet'', s)
           else (case art_operationRef (ar_status x) of
                   None \<Rightarrow> (Fails 409 ''grant-access action did not publish a kubeconfig reference'', s)
                 | Some ref \<Rightarrow>
                     if tr_kind ref \<noteq> ''Secret'' \<or> tr_name ref = '''' \<or> tr_namespace ref = ''''
                     then (Fails 409 ''grant-access action did not publish a kubeconfig reference'', s)
                     else on_error (get_portal_secret (tr_namespace ref) (tr_name ref) s)
                       (\<lambda>e. if e = NotFound then Fails 404 ''kubeconfig Secret was not found'' else writeError e) (\<lambda>sec s.
                       (let declared = trimSpace (map_get (sc_data sec) ''subject'');
                            subject = (if declared = '''' then trimSpace (rb_subject (ars_requestedBy (ar_spec x))) else declared)
                        in if subject \<noteq> '''' \<and> \<not> hasAny a [RolePlatformAdmin, RoleTenantOperator] \<and> av_Name a \<noteq> subject
                           then (Fails 403 ''kubeconfig belongs to a different subject'', s)
                           else (case authorizeInstance a i s of
                             (ok, s) \<Rightarrow>
                               if \<not> ok \<and> av_Name a \<noteq> subject
                               then (Fails 403 ''instance is outside your authorized tenancy'', s)
                               else (let kubeconfig = map_get (sc_data sec) ''kubeconfig'' in
                                     if kubeconfig = ''''
                                     then (Fails 409 ''kubeconfig Secret does not contain kubeconfig data'', s)
                                     else (Answers 200 \<lparr>dl_filename = instanceName @ ''-'' @ safeDownloadName subject ''access'' @ ''.kubeconfig'',
                                       dl_content = kubeconfig\<rparr>, s)))))))))"

end
