(* ===== verification/Bff_Credential_Facts.thy ===== *)
theory Bff_Credential_Facts
  imports Bff_Credentials Bff_Request_Facts
begin

text \<open>
  Who gets the Secrets of an instance and the kubeconfig of a grant through the backend for frontend.
\<close>

section \<open>Where a Secret comes from\<close>

lemma get_target_fetch: "portal_get clusterTargets n = fetch (\<lambda>s. map_of (co_targets (pw_control s)) n)"
  by (subst portal_get_fetch) simp_all

lemma quiet_targets: "quiet s s' \<Longrightarrow> co_targets (pw_control s') = co_targets (pw_control s)"
  by (auto simp: quiet_def)

text \<open>What a cluster target's own connection gives under a name.\<close>

definition on_target :: "remote \<Rightarrow> portal \<Rightarrow> string \<Rightarrow> key \<Rightarrow> secret \<Rightarrow> bool" where
  "on_target remote s clusterName k x \<longleftrightarrow>
     (\<exists>target c. map_of (co_targets (pw_control s)) clusterName = Some target \<and>
        map_of (pw_secrets s) (nr_namespace (cts_connectionRef (ctg_spec target)), nr_name (cts_connectionRef (ctg_spec target))) = Some c \<and>
        remote (clusterConnectionBytes c) (fst k) (snd k) = Inr x)"

lemma on_target_quiet: "quiet s s' \<Longrightarrow> on_target remote s' = on_target remote s"
  by (rule ext)+ (simp add: on_target_def quietD quiet_targets)

lemma remote_secret_quiet:
  "getRemoteCredentialSecret remote clusterName namespace name s = (r, s') \<Longrightarrow> quiet s s'"
  by (auto simp: getRemoteCredentialSecret_def get_portal_secret_def get_target_fetch and_then_def Let_def
      dest!: quiet_fetch intro: quiet_trans split: prod.splits sum.splits if_splits)

lemma remote_secret:
  assumes "getRemoteCredentialSecret remote clusterName namespace name s = (Inr x, s')"
  shows "on_target remote s clusterName (namespace, name) x"
proof -
  obtain t target c where t: "fetch (\<lambda>s. map_of (co_targets (pw_control s)) clusterName) s = (Inr target, t)"
    and c: "fetch (\<lambda>s. map_of (pw_secrets s) (nr_namespace (cts_connectionRef (ctg_spec target)), nr_name (cts_connectionRef (ctg_spec target)))) t = (Inr c, s')"
    and x: "remote (clusterConnectionBytes c) namespace name = Inr x"
    using assms
    by (auto simp: getRemoteCredentialSecret_def get_portal_secret_def get_target_fetch and_then_def Let_def
        split: prod.splits sum.splits if_splits)
  have q: "quiet s t" "quiet t s'" using t c quiet_fetch by blast+
  have "map_of (co_targets (pw_control s)) clusterName = Some target"
    using fetch_Inr [OF t] q by (simp add: quiet_targets)
  moreover have "map_of (pw_secrets s) (nr_namespace (cts_connectionRef (ctg_spec target)), nr_name (cts_connectionRef (ctg_spec target))) = Some c"
    using fetch_Inr [OF c] quiet_trans [OF q] by (simp add: quietD)
  ultimately show ?thesis using x by (auto simp: on_target_def)
qed

lemma remote_secret_again:
  assumes "getRemoteCredentialSecret remote c ns n s = (r, t)" "getRemoteCredentialSecret remote c' ns' n' t = (Inr x, s')"
  shows "on_target remote s c' (ns', n') x"
  using remote_secret [OF assms(2)] on_target_quiet [OF remote_secret_quiet [OF assms(1)]] by simp

text \<open>
  The Secret of a published name: the one in the management cluster or the one on the cluster that the instance is
  placed on, under that name or, for a projected Secret, under the name of its source.
\<close>

definition published_secret :: "remote \<Rightarrow> portal \<Rightarrow> service_instance \<Rightarrow> string \<Rightarrow> string \<Rightarrow> secret \<Rightarrow> bool" where
  "published_secret remote s i namespace name x \<longleftrightarrow>
     instanceReferencesCredential i namespace name \<and>
     (\<exists>n. (n = name \<or> sourceCredentialNameFromProjected name = Some n) \<and>
        (map_of (pw_secrets s) (namespace, n) = Some x \<or>
         on_target remote s (trimSpace (pl_clusterName (sit_placement (si_status i)))) (namespace, n) x))"

lemma remote_credential_answer:
  assumes "remote_credential remote i namespace name s = (Answers code (j, x), s')"
  shows "j = i \<and> quiet s s' \<and> (\<exists>n. (n = name \<or> sourceCredentialNameFromProjected name = Some n) \<and>
    on_target remote s (trimSpace (pl_clusterName (sit_placement (si_status i)))) (namespace, n) x)"
  using assms
  by (auto simp: remote_credential_def Let_def writeError_def dest: remote_secret remote_secret_again remote_secret_quiet
      intro: quiet_trans [OF remote_secret_quiet remote_secret_quiet] split: if_splits prod.splits sum.splits option.splits)

lemma find_credential_answer:
  assumes "find_credential remote i namespace name s = (Answers code (j, x), s')" "instanceReferencesCredential i namespace name"
  shows "j = i \<and> quiet s s' \<and> published_secret remote s i namespace name x"
proof -
  obtain r t where r: "fetch (\<lambda>s. map_of (pw_secrets s) (namespace, name)) s = (r, t)" by fastforce
  have q: "quiet s t" by (rule quiet_fetch [OF r])
  show ?thesis
  proof (cases r)
    case (Inr y)
    then show ?thesis using assms r q fetch_Inr [OF r [unfolded Inr]]
      by (auto simp: find_credential_def get_portal_secret_def published_secret_def quietD)
  next
    case (Inl e)
    show ?thesis
    proof (cases "sourceCredentialNameFromProjected name")
      case None
      then have "remote_credential remote i namespace name t = (Answers code (j, x), s')"
        using assms(1) r Inl by (auto simp: find_credential_def get_portal_secret_def writeError_def split: if_splits)
      from remote_credential_answer [OF this] show ?thesis
        using q assms(2) by (auto simp: published_secret_def on_target_quiet intro: quiet_trans)
    next
      case (Some n)
      obtain r' t' where r': "fetch (\<lambda>s. map_of (pw_secrets s) (namespace, n)) t = (r', t')" by fastforce
      have q': "quiet t t'" "quiet s t'" using quiet_fetch [OF r'] q quiet_trans by blast+
      show ?thesis
      proof (cases r')
        case (Inr y)
        have "map_of (pw_secrets s) (namespace, n) = Some y"
          using fetch_Inr [OF r' [unfolded Inr]] quietD(2) [OF q'(2)] by simp
        then show ?thesis using assms r Inl Some r' q' \<open>r' = Inr y\<close>
          by (auto simp: find_credential_def get_portal_secret_def published_secret_def quietD writeError_def split: if_splits)
      next
        case (Inl e')
        then have "remote_credential remote i namespace name t' = (Answers code (j, x), s')"
          using assms(1) r \<open>r = Inl e\<close> Some r'
          by (auto simp: find_credential_def get_portal_secret_def writeError_def split: if_splits)
        from remote_credential_answer [OF this] show ?thesis
          using assms(2) quiet_trans [OF q'(2)] unfolding on_target_quiet [OF q'(2)] by (auto simp: published_secret_def)
      qed
    qed
  qed
qed

text \<open>
  C14 The Secret that a request for a credential is answered with is one that the requested instance publishes, from the
  management cluster or from the cluster the instance is placed on, and the actor may see that instance; nothing
  is changed.
\<close>

theorem credentials_need_authorization:
  assumes "resolveInstanceCredential remote a pathName pathNamespace pathCredential s = (Answers code (i, x), s')"
  shows "hasAny a operators_and_consumers \<and> map_of (co_instances (pw_control s)) (trimSpace pathName) = Some i \<and>
    authorized a i (pw_control s) \<and>
    published_secret remote s i (trimSpace pathNamespace) (trimSpace pathCredential) x \<and>
    (\<exists>fs. s' = s\<lparr>pw_control := (pw_control s)\<lparr>co_faults := fs\<rparr>\<rparr>)"
proof -
  obtain j s1 s2 where role: "hasAny a operators_and_consumers"
    and j: "portal_get serviceInstances (trimSpace pathName) s = (Inr j, s1)"
    and auth: "authorizeInstance a j s1 = (True, s2)"
    and pub: "instanceReferencesCredential j (trimSpace pathNamespace) (trimSpace pathCredential)"
    and found: "find_credential remote j (trimSpace pathNamespace) (trimSpace pathCredential) s2 = (Answers code (i, x), s')"
    using assms unfolding resolveInstanceCredential_def requireRole_def
    by (simp only: Let_def checked_simps) blast
  have q1: "quiet s s1" using j by (auto simp: get_instance_fetch dest: quiet_fetch)
  have q2: "quiet s s2" using q1 authorizeInstance_quiet [OF auth] quiet_trans by blast
  have answer: "i = j" "quiet s2 s'" "published_secret remote s2 j (trimSpace pathNamespace) (trimSpace pathCredential) x"
    using find_credential_answer [OF found pub] by auto
  have "map_of (co_instances (pw_control s)) (trimSpace pathName) = Some j"
    using fetch_Inr [OF j [unfolded get_instance_fetch]] q1 by (simp add: quietD)
  moreover have "authorized a j (pw_control s)"
    using authorizeInstance_True [OF auth] q1 by (simp add: authorized_def quietD)
  moreover have "published_secret remote s j (trimSpace pathNamespace) (trimSpace pathCredential) x"
    using answer(3) q2 by (simp add: published_secret_def on_target_quiet quietD)
  moreover have "\<exists>fs. s' = s\<lparr>pw_control := (pw_control s)\<lparr>co_faults := fs\<rparr>\<rparr>"
    using quiet_trans [OF q2 answer(2)] by (simp add: quiet_def)
  ultimately show ?thesis using role answer(1) by simp
qed


section \<open>Kubeconfigs\<close>

lemma checked_secret:
  "on_error m (\<lambda>e. if e = NotFound then Fails n t else writeError e) f = (Answers c y, s') \<longleftrightarrow>
     (\<exists>x s. m = (Inr x, s) \<and> f x s = (Answers c y, s'))"
  by (cases m; cases "fst m") (auto simp: on_error_def writeError_def)

lemma checked_call: "(case m of (ok, t) \<Rightarrow> f ok t) = (Answers c y, s') \<longleftrightarrow> (\<exists>ok t. m = (ok, t) \<and> f ok t = (Answers c y, s'))"
  by (cases m) simp

lemma kubeconfig_steps:
  assumes "handleDownloadNamespaceKubeconfig a pathName pathAction s = (Answers code d, s')"
  shows "\<exists>i x ref sec s1 s2 s3 ok subject. hasAny a operators_and_consumers \<and>
    portal_get serviceInstances (trimSpace pathName) s = (Inr i, s1) \<and>
    fetch (\<lambda>s. map_of (pw_actions s) (trimSpace pathAction)) s1 = (Inr x, s2) \<and>
    tr_name (ars_targetRef (ar_spec x)) = trimSpace pathName \<and> ars_action (ar_spec x) = ActionGrantAccess \<and>
    art_phase (ar_status x) = ''Succeeded'' \<and> art_operationRef (ar_status x) = Some ref \<and>
    get_portal_secret (tr_namespace ref) (tr_name ref) s2 = (Inr sec, s3) \<and>
    subject = (if trimSpace (map_get (sc_data sec) ''subject'') = '''' then trimSpace (rb_subject (ars_requestedBy (ar_spec x)))
               else trimSpace (map_get (sc_data sec) ''subject'')) \<and>
    (hasAny a [RolePlatformAdmin, RoleTenantOperator] \<or> subject = '''' \<or> av_Name a = subject) \<and>
    authorizeInstance a i s3 = (ok, s') \<and> (ok \<or> av_Name a = subject) \<and> dl_content d = map_get (sc_data sec) ''kubeconfig''"
  using assms
  unfolding handleDownloadNamespaceKubeconfig_def requireRole_def
  apply (simp only: Let_def checked_simps checked_secret checked_call prod.inject answer.inject)
  apply (elim conjE exE)
  subgoal for i s1 x s2 ref sec s3 ok s4
    apply (rule exI [of _ i], rule exI [of _ x], rule exI [of _ ref], rule exI [of _ sec], rule exI [of _ s1],
        rule exI [of _ s2], rule exI [of _ s3], rule exI [of _ ok], rule exI [of _ "if trimSpace (map_get (sc_data sec) ''subject'') = ''''
          then trimSpace (rb_subject (ars_requestedBy (ar_spec x))) else trimSpace (map_get (sc_data sec) ''subject'')"])
    apply (hypsubst | intro conjI | assumption | blast | simp only: download.simps)+
    done
  done

text \<open>
  C15 A kubeconfig that the backend hands out is that of a completed grant of access to the requested instance, and it
  goes to an actor that may see the instance or bears the name of the grant's subject; an actor that is no operator
  gets no kubeconfig of another subject. Nothing is changed.
\<close>

theorem kubeconfigs_need_authorization:
  assumes "handleDownloadNamespaceKubeconfig a pathName pathAction s = (Answers code d, s')"
  shows "\<exists>i x ref sec subject.
    hasAny a operators_and_consumers \<and>
    map_of (co_instances (pw_control s)) (trimSpace pathName) = Some i \<and> map_of (pw_actions s) (trimSpace pathAction) = Some x \<and>
    tr_name (ars_targetRef (ar_spec x)) = trimSpace pathName \<and> ars_action (ar_spec x) = ActionGrantAccess \<and>
    art_phase (ar_status x) = ''Succeeded'' \<and> art_operationRef (ar_status x) = Some ref \<and>
    map_of (pw_secrets s) (tr_namespace ref, tr_name ref) = Some sec \<and> dl_content d = map_get (sc_data sec) ''kubeconfig'' \<and>
    subject = (if blank (map_get (sc_data sec) ''subject'') then trimSpace (rb_subject (ars_requestedBy (ar_spec x)))
               else trimSpace (map_get (sc_data sec) ''subject'')) \<and>
    (authorized a i (pw_control s) \<or> av_Name a = subject) \<and>
    (hasAny a [RolePlatformAdmin, RoleTenantOperator] \<or> subject = '''' \<or> av_Name a = subject) \<and>
    (\<exists>fs. s' = s\<lparr>pw_control := (pw_control s)\<lparr>co_faults := fs\<rparr>\<rparr>)"
proof -
  obtain i x ref sec s1 s2 s3 ok subject where role: "hasAny a operators_and_consumers"
    and i: "portal_get serviceInstances (trimSpace pathName) s = (Inr i, s1)"
    and x: "fetch (\<lambda>s. map_of (pw_actions s) (trimSpace pathAction)) s1 = (Inr x, s2)"
    and grant: "tr_name (ars_targetRef (ar_spec x)) = trimSpace pathName" "ars_action (ar_spec x) = ActionGrantAccess"
      "art_phase (ar_status x) = ''Succeeded''" "art_operationRef (ar_status x) = Some ref"
    and sec: "get_portal_secret (tr_namespace ref) (tr_name ref) s2 = (Inr sec, s3)"
    and subject: "subject = (if trimSpace (map_get (sc_data sec) ''subject'') = '''' then trimSpace (rb_subject (ars_requestedBy (ar_spec x)))
        else trimSpace (map_get (sc_data sec) ''subject''))"
    and own: "hasAny a [RolePlatformAdmin, RoleTenantOperator] \<or> subject = '''' \<or> av_Name a = subject"
    and auth: "authorizeInstance a i s3 = (ok, s')" "ok \<or> av_Name a = subject"
    and d: "dl_content d = map_get (sc_data sec) ''kubeconfig''"
    using kubeconfig_steps [OF assms] by blast
  have q1: "quiet s s1" using i by (auto simp: get_instance_fetch dest: quiet_fetch)
  have q2: "quiet s s2" using q1 quiet_fetch [OF x] quiet_trans by blast
  have q3: "quiet s s3" using q2 quiet_fetch [OF sec [unfolded get_portal_secret_def]] quiet_trans by blast
  have q: "quiet s s'" using q3 authorizeInstance_quiet [OF auth(1)] quiet_trans by blast
  have "map_of (co_instances (pw_control s)) (trimSpace pathName) = Some i"
    using fetch_Inr [OF i [unfolded get_instance_fetch]] quietD(3) [OF q1] by simp
  moreover have "map_of (pw_actions s) (trimSpace pathAction) = Some x" using fetch_Inr [OF x] quietD(1) [OF q2] by simp
  moreover have "map_of (pw_secrets s) (tr_namespace ref, tr_name ref) = Some sec"
    using fetch_Inr [OF sec [unfolded get_portal_secret_def]] quietD(2) [OF q3] by simp
  moreover have "authorized a i (pw_control s) \<or> av_Name a = subject"
    using auth authorizeInstance_True [of a i s3 s'] quietD [OF q3] by (cases ok) (auto simp: authorized_def)
  ultimately show ?thesis using role grant d own subject q
    by (intro exI [of _ i] exI [of _ x] exI [of _ ref] exI [of _ sec] exI [of _ subject]) (simp add: blank_def quiet_def)
qed


section \<open>Applied\<close>

text \<open>The namespace \<open>db\<close> of the tenant \<open>acme\<close> with a published Secret and a completed grant for \<open>ann\<close>.\<close>

definition granted_instance :: service_instance where
  "granted_instance = (sampleInstance None)\<lparr>
     si_spec := (si_spec (sampleInstance None))\<lparr>sis_projectRef := \<lparr>lr_name = ''shop''\<rparr>, sis_serviceClassRef := \<lparr>lr_name = ''namespace''\<rparr>\<rparr>,
     si_status := (si_status (sampleInstance None))\<lparr>sit_credentialRefs := [\<lparr>nr_name = ''grant'', nr_namespace = ''shop-ns''\<rparr>]\<rparr>\<rparr>"

definition granted_action :: action_request where
  "granted_action = (sampleRequest ApprovalModeAuto 1)\<lparr>
     ar_spec := (ar_spec (sampleRequest ApprovalModeAuto 1))\<lparr>ars_action := ActionGrantAccess\<rparr>,
     ar_status := new_action_status\<lparr>art_phase := ''Succeeded'',
       art_operationRef := Some \<lparr>tr_apiVersion = ''v1'', tr_kind = ''Secret'', tr_name = ''grant'', tr_namespace = ''shop-ns''\<rparr>\<rparr>\<rparr>"

definition granted_secret :: secret where
  "granted_secret = sampleGrant\<lparr>sc_data := [(''subject'', ''ann''), (''kubeconfig'', ''kc'')]\<rparr>"

definition granted_portal :: portal where
  "granted_portal = (samplePortal [(''access'', granted_action)])\<lparr>
     pw_control := sampleControl\<lparr>co_instances := [(''db'', granted_instance)]\<rparr>,
     pw_secrets := [((''shop-ns'', ''grant''), granted_secret)]\<rparr>"

abbreviation consumer_of :: "string \<Rightarrow> string \<Rightarrow> actor" where
  "consumer_of name t \<equiv> sampleActor name {} [(t, {RoleServiceConsumer})]"

lemma granted_trims: "trimSpace ''db'' = ''db''" "trimSpace ''access'' = ''access''" "trimSpace ''grant'' = ''grant''"
  "trimSpace ''shop-ns'' = ''shop-ns''" "trimSpace ''ann'' = ''ann''"
  by code_simp+

lemma granted_reads:
  "portal_get serviceInstances ''db'' granted_portal = (Inr granted_instance, granted_portal)"
  "fetch (\<lambda>s. map_of (pw_actions s) ''access'') granted_portal = (Inr granted_action, granted_portal)"
  "get_portal_secret ''shop-ns'' ''grant'' granted_portal = (Inr granted_secret, granted_portal)"
  by (simp_all add: get_instance_fetch get_portal_secret_def fetch_no_fault granted_portal_def samplePortal_def sampleControl_def)

lemma granted_fields:
  "lr_name (sis_serviceClassRef (si_spec granted_instance)) = ''namespace''"
  "tr_name (ars_targetRef (ar_spec granted_action)) = ''db''" "ars_action (ar_spec granted_action) = ActionGrantAccess"
  "art_phase (ar_status granted_action) = ''Succeeded''"
  "art_operationRef (ar_status granted_action) = Some \<lparr>tr_apiVersion = ''v1'', tr_kind = ''Secret'', tr_name = ''grant'', tr_namespace = ''shop-ns''\<rparr>"
  "map_get (sc_data granted_secret) ''subject'' = ''ann''" "map_get (sc_data granted_secret) ''kubeconfig'' = ''kc''"
  "instanceReferencesCredential granted_instance ''shop-ns'' ''grant''"
  by (simp_all add: granted_instance_def granted_action_def granted_secret_def sampleRequest_def map_get_def
      instanceReferencesCredential_def)

lemma granted_authorization:
  "authorizeInstance a granted_instance granted_portal =
     (isPlatformAdmin a \<or> tenantVisibleToActor a sampleTenant, granted_portal)"
  by (simp add: authorizeInstance_no_fault authorized_def granted_portal_def granted_instance_def samplePortal_def sampleControl_def
      sampleProject_def)

lemma consumer_roles: "hasAny (consumer_of name t) operators_and_consumers" "\<not> isPlatformAdmin (consumer_of name t)"
  "\<not> hasAny (consumer_of name t) [RolePlatformAdmin, RoleTenantOperator]"
  by (simp_all add: hasAny_def isPlatformAdmin_def sampleActor_def tenantRoleSatisfies_def)

lemma acme_is_visible: "tenantVisibleToActor (consumer_of name ''acme'') sampleTenant"
  using consumer_roles(2) [of name "''acme''"]
  by (simp add: tenantVisibleToActor_def hasTenantAccess_def sampleActor_def sampleTenant_def)

theorem credentials_need_authorization_witness:
  "\<exists>s'. resolveInstanceCredential (\<lambda>_ _ _. Inl NotFound) (consumer_of ''eve'' ''acme'') ''db'' ''shop-ns'' ''grant'' granted_portal =
      (Answers 200 (granted_instance, granted_secret), s') \<and>
     authorized (consumer_of ''eve'' ''acme'') granted_instance (pw_control granted_portal)"
proof -
  have "resolveInstanceCredential (\<lambda>_ _ _. Inl NotFound) (consumer_of ''eve'' ''acme'') ''db'' ''shop-ns'' ''grant'' granted_portal =
      (Answers 200 (granted_instance, granted_secret), granted_portal)"
    by (simp add: resolveInstanceCredential_def requireRole_def consumer_roles granted_trims granted_reads granted_authorization
        acme_is_visible find_credential_def granted_fields Let_def)
  then show ?thesis using credentials_need_authorization by blast
qed

text \<open>A member of another tenant whose display name is \<open>ann\<close> gets the kubeconfig.\<close>

lemma namesake_gets_kubeconfig:
  "\<exists>d. handleDownloadNamespaceKubeconfig (consumer_of ''ann'' ''rival'') ''db'' ''access'' granted_portal = (Answers 200 d, granted_portal) \<and>
     dl_content d = ''kc''"
proof -
  have "av_Name (consumer_of ''ann'' ''rival'') = ''ann''" by (simp add: sampleActor_def)
  then show ?thesis
    by (simp add: handleDownloadNamespaceKubeconfig_def requireRole_def consumer_roles granted_trims granted_reads granted_fields
        granted_authorization on_error_def Let_def)
qed

theorem kubeconfigs_need_authorization_witness:
  "\<exists>d. handleDownloadNamespaceKubeconfig (consumer_of ''ann'' ''rival'') ''db'' ''access'' granted_portal = (Answers 200 d, granted_portal) \<and>
     dl_content d = ''kc'' \<and> (\<exists>(ref :: typed_ref) (sec :: secret). map_of (pw_secrets granted_portal) (tr_namespace ref, tr_name ref) = Some sec \<and>
       dl_content d = map_get (sc_data sec) ''kubeconfig'')"
proof -
  obtain d where d: "handleDownloadNamespaceKubeconfig (consumer_of ''ann'' ''rival'') ''db'' ''access'' granted_portal =
      (Answers 200 d, granted_portal)" "dl_content d = ''kc''"
    using namesake_gets_kubeconfig by blast
  obtain ref :: typed_ref and sec :: secret where "map_of (pw_secrets granted_portal) (tr_namespace ref, tr_name ref) = Some sec"
      "dl_content d = map_get (sc_data sec) ''kubeconfig''"
    using kubeconfigs_need_authorization [OF d(1)] by blast
  then show ?thesis using d by blast
qed

end
