(* ===== verification/Spec2Isabelle.thy ===== *)
theory Spec2Isabelle
  imports Action_Cache Policy_Facts Admission_Facts Json_Roundtrip
    Valkey_Facts MySQL_Facts NATS_Facts Exec_Dispatch
    Delivery_Facts Publisher_Facts Catalog_Facts Instance_Facts
    Instance_Deletion Instance_Safety Instance_Passwords Binding_Facts Target_Facts
    Bff_Facts Bff_Login_Facts Bff_Proxy_Facts Bff_Request_Facts Bff_Credential_Facts
begin

text \<open>
  A model of the Servicer control plane (\<open>sindef/servicer\<close>, Go) and its correctness.

  The program is a set of Kubernetes controllers. Users store objects of sixteen kinds
  (\<open>api/v1alpha1\<close>) through an API server; its admission webhooks default and validate every write
  (\<open>webhook_validation.go\<close>); controllers (\<open>internal/controllers\<close>) read the stored objects, decide and
  write back a status; the policy evaluator (\<open>policy_evaluator.go\<close>) judges service instances against
  the policies in force; adapters (\<open>internal/adapters\<close>), found through a registry, turn an instance
  into the resources of one runtime. The controller of service instances hands what an adapter renders to the
  materializer (\<open>internal/materializer\<close>) and the publisher (\<open>internal/deliveryrepo\<close>), provides the credentials,
  and points Argo CD at the result; the controller of action requests runs actions on what is there. People reach all
  this through an HTTP backend (\<open>internal/bff\<close>), which finds out who they are, decides what they may do, and
  writes the objects that the controllers act on.

  Theories and what they model, in the order in which the components call each other.

  Foundations. \<open>Prelude\<close>: Go maps as association lists in iteration order, reports of errors from
  several parts of an object, results with an error. \<open>Go_Strings\<close>: \<open>strings\<close>, \<open>strconv.Quote\<close>,
  decimal integers; a Go string is its UTF-8 bytes, a HOL string. \<open>Go_Json\<close>: the decoder of
  \<open>encoding/json\<close> that the evaluator and webhooks run on raw parameters, into values, structs and
  maps; \<open>Json_Roundtrip\<close> proves that it reads back what the encoder writes. \<open>Go_Float\<close>: float64
  exactly, as mantissa and exponent, with \<open>strconv.ParseFloat\<close> and the shortest printing of
  \<open>fmt.Sprint\<close>. \<open>Field_Errors\<close>: paths and errors of \<open>field.ErrorList\<close>.

  Data. \<open>Api_Types\<close>: a record for every struct of \<open>api/v1alpha1/*_types.go\<close>, field by field.
  \<open>Samples\<close>: concrete objects for the witnesses.

  Admission. \<open>Admission_Common\<close>: the helpers all kinds share, the \<open>history\<close> of a stored object
  (created and updated through its handlers, its status written in between) and the locales
  \<open>admission_kind\<close> and \<open>admission_handler\<close>, which state what the handlers of a kind promise and what
  then holds of every stored object. \<open>Admission_Workloads\<close>, \<open>Admission_Catalog\<close> and
  \<open>Admission_Access\<close>: \<open>Default\<close>, \<open>ValidateCreate\<close> and \<open>ValidateUpdate\<close> of the sixteen kinds, each
  with an interpretation of the locales. \<open>Admission_Facts\<close>: which objects are accepted and which
  fields can never change.

  Policies. \<open>Policy_Eval\<close>: \<open>evaluateInstancePolicies\<close> and everything under it. \<open>Policy_Facts\<close>: failing
  closed at every level of references, the verdict as a conjunction, monotonicity, the algebra of operators,
  exactness of numeric rules on integers.

  Actions. \<open>Status_Conditions\<close>: \<open>setStatusCondition\<close>; the function of apimachinery under it is a
  parameter, its documented contract the locale \<open>set_condition_contract\<close>. \<open>Adapters\<close>: contracts and
  the registry. \<open>Action_Request\<close>: resolution of a request (\<open>resolveAction\<close>), approval, and the status
  patch of each branch of \<open>ActionRequestReconciler.Reconcile\<close>. \<open>Action_Machine\<close>: that function on its
  own (\<open>Reconcile\<close>) and cut at its API calls, interleaved with updates of the request, deletion and
  restarts of the controller (\<open>mstep\<close>, \<open>reachable\<close>). \<open>Action_Safety\<close>: the invariant of the steps.
  \<open>Action_Properties\<close>: approval and identity of operations, the refinement of the function by the steps, and
  two races found on the way. \<open>Action_Cache\<close>: the machine behind the cache of the manager, from which the controller
  reads (\<open>cstep\<close>, \<open>creachable\<close>): approval holds there too, and a completed
  operation is started again only on a stale read, which a run exhibits.

  Executors of actions (\<open>actionrequest_controller.go\<close>). \<open>Exec_World\<close>: the objects they work on, with calls that
  are refused or whose answer is lost. \<open>Exec_Parameters\<close>, \<open>Exec_StatefulSet\<close>, \<open>Exec_Valkey\<close>, \<open>Exec_MySQL\<close>,
  \<open>Exec_NATS\<close>, \<open>Exec_Namespace\<close>: restart, scaling, rotation, backup, failover, rollback and access grants
  per driver; \<open>Exec_Dispatch\<close>: \<open>executeAction\<close>, and what backups leave. Their facts: what
  happens when an action is attempted again (\<open>Exec_StatefulSet_Facts\<close>, \<open>Namespace_Facts\<close>), and the outcome of
  failovers (\<open>Valkey_Facts\<close>, \<open>MySQL_Facts\<close>) and rotations (\<open>NATS_Facts\<close>).

  Products. \<open>Valkey_Adapter\<close>: parameters, validation and observation of the cache (\<open>valkey.go\<close>).
  \<open>Adapter_Catalog\<close>: the contracts of the nine products (\<open>catalog.go\<close>). \<open>Database_Names\<close>: the names of
  databases (\<open>database_naming.go\<close>).

  Delivery. \<open>Go_Paths\<close>: \<open>filepath.Clean\<close> and \<open>Join\<close>. \<open>Materializer\<close>: \<open>Materialize\<close> and \<open>Purge\<close> on a disk.
  \<open>Publisher\<close>: \<open>Publish\<close>, with git as a function on the files and a state of its own. \<open>Delivery_Facts\<close> and
  \<open>Publisher_Facts\<close>: no file outside the packages is touched, what is written is what was rendered, a
  failed run is repaired by the next, and nothing counts as pushed that git did not push.

  Controllers of the catalogue. \<open>Control_World\<close>: the custom resources, the calls on them, and the status that a
  reconciler compares with a shallow copy of itself. \<open>Catalog_Controllers\<close> and \<open>Claim_Controllers\<close>: the
  reconcilers of tenants, projects, classes, plans, policies and claims. \<open>Catalog_Facts\<close>: their properties.

  The controller of service instances (\<open>serviceinstance_controller.go\<close>). \<open>Runtime_World\<close>: a \<open>site\<close>, that is the custom
  resources, the objects of the management cluster and of remote clusters, the delivery tree and git.
  \<open>External_Secrets\<close> (\<open>external_secret_projection.go\<close>) and \<open>Instance_Credentials\<close> (with \<open>nats_runtime.go\<close>): Secrets.
  \<open>Instance_Status\<close>: the instance in memory and how it is written. \<open>Instance_Runtime\<close>: clients and observation.
  \<open>Instance_Argo\<close>: applications. \<open>Instance_Controller\<close>: the stages of \<open>Reconcile\<close>; \<open>Instance_Reconcile\<close>: the whole,
  with deletion. \<open>Instance_Facts\<close>: rules for stages that may end the run (the locale \<open>stopping\<close>), and that
  nothing is provisioned unless every gate is open. \<open>Instance_Deletion\<close>: what a deletion leaves. \<open>Instance_Safety\<close>:
  never two applications for one instance. \<open>Instance_Passwords\<close>: passwords are generated once, through any number of
  runs. \<open>Instance_Samples\<close>: a run of it.

  Service bindings (\<open>servicebinding_controller.go\<close>): \<open>Binding_Controller\<close>, with its own view of the management cluster;
  \<open>Binding_Facts\<close>: what a ready binding has, what a run may touch, and that projects are not kept apart. Cluster targets
  (\<open>clustertarget_controller.go\<close>), on a site: \<open>Target_Cluster\<close> (discovery, probes, topology labels), \<open>Target_Install\<close>
  (manifests and charts), \<open>Target_Controller\<close> (Argo CD, packages, \<open>Reconcile\<close>). \<open>Target_Facts\<close>: what installed and
  reachable mean, and that charts unpack where they should.

  The backend for frontend (\<open>internal/bff\<close>). \<open>Bff_Actor\<close>: actors, roles and their expansion, and how an identity
  becomes an actor (\<open>auth.go\<close>, the second half of \<open>authenticator.go\<close>). \<open>Bff_World\<close>: a \<open>portal\<close>, that is the
  management cluster of \<open>Control_World\<close> with the kinds that only the backend reads, the answers of handlers, and
  authorization (\<open>authorization.go\<close>). \<open>Bff_Sessions\<close>: bearer tokens, sessions and the two middlewares in front
  of every handler. \<open>Bff_Login\<close>: password logins and their limiter (\<open>security.go\<close>). \<open>Bff_Requests\<close>: ordering,
  changing and deleting products, submitting actions and deciding on them (\<open>writes.go\<close>). \<open>Bff_Credentials\<close>:
  Secrets and kubeconfigs (\<open>access.go\<close>). \<open>Bff_Proxy\<close>: the proxy for the holders of grants
  (\<open>kubernetes_proxy.go\<close>). Their facts: roles come from bindings and ownership alone and their expansion ends
  (\<open>Bff_Facts\<close>); wrong passwords are few (\<open>Bff_Login_Facts\<close>); lists and details agree, decisions are authorised, and
  what the controller makes of a submitted action (\<open>Bff_Request_Facts\<close>); who gets a credential
  (\<open>Bff_Credential_Facts\<close>); what a grant opens, and that its token does not pass the middleware in front of it
  (\<open>Bff_Proxy_Facts\<close>). \<open>Bff_Samples\<close>: a portal for the witnesses.

  What the model assumes. Reads see the latest write, except in \<open>Action_Cache\<close>: elsewhere a cache that lags behind
  is not modelled, so that theorems on runs that read an object again after they wrote it (the rotation of NATS
  credentials is one) speak of reads that see the write; one clock reading per patch or run; a deleted request is not created again under its name and
  UID; a merge patch of the status writes the fields that differ. Any call on a cluster may fail, before
  or after it took effect, and any call on the disk may fail and leave what it was about in any state.
  Parameters stand for what is not in the repository: label values, qualified names, quantities,
  \<open>meta.SetStatusCondition\<close> and \<open>meta.IsStatusConditionTrue\<close>, the text of errors, \<open>url.Parse\<close>, SHA-256, YAML, \<open>clientcmd\<close>,
  the random source, the clock, git, the working directory, the Unicode tables, HTTP, tar, Helm, the merge of
  server-side apply, the file system of a temporary directory, and for the backend go-oidc, OAuth, the sealed cookie,
  password hashes and LDAP. No loop of the model needs fuel: recursion is
  structural, or bounded by the length of an input, except the expansion of roles, a partial function that is shown to
  return; retries after conflicts take the turns that client-go
  gives them, five for \<open>DefaultRetry\<close> and four for \<open>DefaultBackoff\<close>.

  What is not modelled. The rendering of manifests by the adapters other than their contracts, and their
  validation except that of Valkey: an adapter is a parameter of the controllers, a record of its functions.
  Of the backend: HTTP itself, its lists and pages (\<open>admin.go\<close>, \<open>mapper.go\<close>, \<open>pagination.go\<close>), the administration of
  identities (\<open>auth_admin.go\<close>, but for roles), claims and repositories, OIDC logins in the browser, audit and logging. Metrics, events, the caches of the other controllers and the wiring of the programs, which do not
  change what is stored. Wrapping of the int64 generation is not reached.
\<close>

end
